(* ===== verification/Prelude.thy ===== *)
theory Prelude
  imports Complex_Main "HOL-Library.Char_ord" "HOL-Library.List_Lexorder"
begin

text \<open>
  What every theory of the development shares: Python exceptions as values, results that are
  either an exception or a value, sequences of checks that append findings, and the generic
  lemmas on them.

  A function of the source that may raise returns \<open>pyexc + 'a\<close>, \<open>Inl\<close> for the exception. A
  checking function of the source that appends to a list of findings returns the list of the
  findings it appends (nothing reads the list before the report is built, so appending the
  returned lists in call order is the same list).

  The collection \<open>clean\<close> holds the rules that turn "this check reported nothing and raised
  nothing" into the facts the check established; \<open>simp add: clean\<close> is how the soundness lemmas
  of the checkers are proved.
\<close>

named_theorems clean "equations for checks that report nothing"
named_theorems pyval_simps "equations for the operations on Python values"

section \<open>Exceptions and results\<close>

text \<open>
  The exception classes the modelled code raises or catches, each with its message where the
  code builds or prints one. \<open>ProcessFailed\<close> is \<open>subprocess.CalledProcessError\<close>; \<open>FileNotFoundError\<close> is a
  subclass of \<open>OSError\<close>; the three decoding errors and the release verifier's own \<open>VerificationError\<close> are
  subclasses of \<open>ValueError\<close>; \<open>OracleError\<close> of the FS/SEC oracle is a \<open>RuntimeError\<close>.
\<close>

datatype pyexc =
    TypeError
  | AttributeError
  | KeyError string
  | ZeroDivisionError
  | IndexError
  | AssertionError string
  | ValueError string
  | VerificationError string
  | UnicodeDecodeError string
  | JSONDecodeError string
  | TOMLDecodeError string
  | FileNotFoundError string
  | OSError string
  | RuntimeError string
  | StopIteration
  | ProcessFailed string

type_synonym 'a res = "pyexc + 'a"

text \<open>\<open>except ValueError\<close>, \<open>except OSError\<close>: the class and its subclasses.\<close>

fun is_value_error :: "pyexc \<Rightarrow> bool" where
  "is_value_error (ValueError _) = True"
| "is_value_error (VerificationError _) = True"
| "is_value_error (UnicodeDecodeError _) = True"
| "is_value_error (JSONDecodeError _) = True"
| "is_value_error (TOMLDecodeError _) = True"
| "is_value_error _ = False"

fun is_os_error :: "pyexc \<Rightarrow> bool" where
  "is_os_error (FileNotFoundError _) = True"
| "is_os_error (OSError _) = True"
| "is_os_error _ = False"

fun is_decode_error :: "pyexc \<Rightarrow> bool" where
  "is_decode_error (UnicodeDecodeError _) = True"
| "is_decode_error _ = False"

fun is_toml_error :: "pyexc \<Rightarrow> bool" where
  "is_toml_error (TOMLDecodeError _) = True"
| "is_toml_error _ = False"

fun is_json_error :: "pyexc \<Rightarrow> bool" where
  "is_json_error (JSONDecodeError _) = True"
| "is_json_error _ = False"

fun is_runtime_error :: "pyexc \<Rightarrow> bool" where
  "is_runtime_error (RuntimeError _) = True"
| "is_runtime_error _ = False"

text \<open>\<open>str(error)\<close>: the message an exception carries.\<close>

fun exc_text :: "pyexc \<Rightarrow> string" where
  "exc_text (KeyError s) = s"
| "exc_text (AssertionError s) = s"
| "exc_text (ValueError s) = s"
| "exc_text (VerificationError s) = s"
| "exc_text (UnicodeDecodeError s) = s"
| "exc_text (JSONDecodeError s) = s"
| "exc_text (TOMLDecodeError s) = s"
| "exc_text (FileNotFoundError s) = s"
| "exc_text (OSError s) = s"
| "exc_text (RuntimeError s) = s"
| "exc_text _ = ''''"

definition bind_res :: "'a res \<Rightarrow> ('a \<Rightarrow> 'b res) \<Rightarrow> 'b res" where
  "bind_res m f = (case m of Inl e \<Rightarrow> Inl e | Inr x \<Rightarrow> f x)"

lemma bind_res_simps [simp]:
  "bind_res (Inl e) f = Inl e"
  "bind_res (Inr x) f = f x"
  by (simp_all add: bind_res_def)

lemma bind_res_eq_Inr: "bind_res m f = Inr y \<longleftrightarrow> (\<exists>x. m = Inr x \<and> f x = Inr y)"
  by (cases m) simp_all

lemma bind_res_eq_Inl: "bind_res m f = Inl e \<longleftrightarrow> m = Inl e \<or> (\<exists>x. m = Inr x \<and> f x = Inl e)"
  by (cases m) auto

lemma bind_res_assoc: "bind_res (bind_res m f) g = bind_res m (\<lambda>x. bind_res (f x) g)"
  by (cases m) simp_all

lemma bind_res_cong [fundef_cong]:
  "m = m' \<Longrightarrow> (\<And>x. m' = Inr x \<Longrightarrow> f x = f' x) \<Longrightarrow> bind_res m f = bind_res m' f'"
  by (cases m') simp_all

text \<open>A loop that collects the results of its body and stops at the first exception.\<close>

fun map_res :: "('a \<Rightarrow> 'b res) \<Rightarrow> 'a list \<Rightarrow> 'b list res" where
  "map_res f [] = Inr []"
| "map_res f (x # xs) = bind_res (f x) (\<lambda>y. bind_res (map_res f xs) (\<lambda>ys. Inr (y # ys)))"

lemma map_res_Inr:
  "map_res f xs = Inr ys \<longleftrightarrow> list_all2 (\<lambda>x y. f x = Inr y) xs ys"
proof (induction xs arbitrary: ys)
  case Nil
  show ?case by auto
next
  case (Cons x xs)
  then show ?case by (cases ys) (auto simp: bind_res_eq_Inr list_all2_Cons1)
qed

lemma map_res_cong [fundef_cong]:
  "xs = ys \<Longrightarrow> (\<And>x. x \<in> set ys \<Longrightarrow> f x = g x) \<Longrightarrow> map_res f xs = map_res g ys"
  by (induction xs arbitrary: ys) auto

lemma map_res_mem: "map_res f xs = Inr ys \<Longrightarrow> y \<in> set ys \<Longrightarrow> \<exists>x \<in> set xs. f x = Inr y"
  by (induction xs arbitrary: ys) (auto simp: bind_res_eq_Inr)

lemma list_all2_source: "list_all2 P xs ys \<Longrightarrow> y \<in> set ys \<Longrightarrow> \<exists>x \<in> set xs. P x y"
  by (induction rule: list_all2_induct) auto

lemma list_all2_image: "list_all2 P xs ys \<Longrightarrow> x \<in> set xs \<Longrightarrow> \<exists>y \<in> set ys. P x y"
  by (induction rule: list_all2_induct) auto

lemma list_all2_all_same: "list_all2 P xs ys \<Longrightarrow> (\<forall>y \<in> set ys. y = v) \<Longrightarrow> x \<in> set xs \<Longrightarrow> P x v"
  by (induction xs ys rule: list_all2_induct) auto

text \<open>A comprehension whose test may raise.\<close>

fun filter_res :: "('a \<Rightarrow> bool res) \<Rightarrow> 'a list \<Rightarrow> 'a list res" where
  "filter_res f [] = Inr []"
| "filter_res f (x # xs) = bind_res (f x) (\<lambda>b. bind_res (filter_res f xs) (\<lambda>ys. Inr (if b then x # ys else ys)))"

text \<open>A loop that carries a value.\<close>

fun fold_res :: "('a \<Rightarrow> 'b \<Rightarrow> 'b res) \<Rightarrow> 'a list \<Rightarrow> 'b \<Rightarrow> 'b res" where
  "fold_res f [] acc = Inr acc"
| "fold_res f (x # xs) acc = bind_res (f x acc) (fold_res f xs)"

lemma fold_res_keeps:
  "fold_res f xs acc = Inr out \<Longrightarrow> P acc \<Longrightarrow> (\<And>x a b. f x a = Inr b \<Longrightarrow> P a \<Longrightarrow> P b) \<Longrightarrow> P out"
  by (induction xs arbitrary: acc) (auto simp: bind_res_eq_Inr)

text \<open>\<open>if cond: fail(message)\<close> as a step of a validator.\<close>

definition require :: "bool \<Rightarrow> pyexc \<Rightarrow> unit res" where
  "require b e = (if b then Inr () else Inl e)"

lemma require_eq_Inr [simp]: "require b e = Inr u \<longleftrightarrow> b"
  by (simp add: require_def)

lemma require_True [simp]: "require True e = Inr ()"
  by (simp add: require_def)

lemma require_False [simp]: "require False e = Inl e"
  by (simp add: require_def)

text \<open>\<open>for x in xs: body(x)\<close> where the body only raises or passes.\<close>

fun for_each :: "('a \<Rightarrow> unit res) \<Rightarrow> 'a list \<Rightarrow> unit res" where
  "for_each f [] = Inr ()"
| "for_each f (x # xs) = bind_res (f x) (\<lambda>_. for_each f xs)"

lemma for_each_Inr [simp]: "for_each f xs = Inr u \<longleftrightarrow> (\<forall>x \<in> set xs. f x = Inr ())"
  by (induction xs) (auto simp: bind_res_eq_Inr)

section \<open>Messages\<close>

text \<open>
  An f-string of the source is \<open>msg\<close> of its parts. The constant is folded in proofs, so that
  the simplifier never rewrites the message texts, and unfolds where a witness evaluates it.
\<close>

definition msg :: "string list \<Rightarrow> string" where
  "msg parts = concat parts"

section \<open>Findings and sequences of checks\<close>

record finding =
  repository :: string
  code :: string
  message :: string

definition Finding :: "string \<Rightarrow> string \<Rightarrow> string \<Rightarrow> finding" where
  "Finding r c m = \<lparr>repository = r, code = c, message = m\<rparr>"

lemma Finding_sel [simp]:
  "repository (Finding r c m) = r" "code (Finding r c m) = c" "message (Finding r c m) = m"
  by (simp_all add: Finding_def)

type_synonym check = "finding list res"

definition add_finding :: "string \<Rightarrow> string \<Rightarrow> string \<Rightarrow> check" where
  "add_finding r c m = Inr [Finding r c m]"

definition ok :: check where
  "ok = Inr []"

definition onlyif :: "bool \<Rightarrow> check \<Rightarrow> check" where
  "onlyif b c = (if b then c else Inr [])"

text \<open>Checks run one after the other; an exception ends the run.\<close>

fun checks :: "check list \<Rightarrow> check" where
  "checks [] = Inr []"
| "checks (c # cs) = bind_res c (\<lambda>xs. bind_res (checks cs) (\<lambda>ys. Inr (xs @ ys)))"

lemma checks_clean [clean]: "checks cs = Inr [] \<longleftrightarrow> (\<forall>c \<in> set cs. c = Inr [])"
  by (induction cs) (auto simp: bind_res_eq_Inr)

lemma onlyif_clean [clean]: "onlyif b c = Inr [] \<longleftrightarrow> (b \<longrightarrow> c = Inr [])"
  by (simp add: onlyif_def)

lemma add_not_clean [clean]: "add_finding r c m = Inr [] \<longleftrightarrow> False"
  by (simp add: add_finding_def)

lemma ok_clean [clean]: "ok = Inr [] \<longleftrightarrow> True"
  by (simp add: ok_def)

lemma checks_append: "checks (xs @ ys) = bind_res (checks xs) (\<lambda>a. bind_res (checks ys) (\<lambda>b. Inr (a @ b)))"
  by (induction xs) (simp_all add: bind_res_def split: sum.splits)

lemma checks_no_exception: "(\<exists>fs. checks cs = Inr fs) \<longleftrightarrow> (\<forall>c \<in> set cs. \<exists>fs. c = Inr fs)"
  by (induction cs) (auto simp: bind_res_def split: sum.splits)

text \<open>The first exception of the sequence is the one the sequence raises.\<close>

lemma checks_Inl: "checks cs = Inl e \<Longrightarrow> \<exists>c \<in> set cs. c = Inl e"
  by (induction cs) (auto simp: bind_res_eq_Inl)

text \<open>Every finding of a sequence comes from one of its checks.\<close>

lemma checks_mem: "checks cs = Inr fs \<Longrightarrow> f \<in> set fs \<Longrightarrow> \<exists>c \<in> set cs. \<exists>gs. c = Inr gs \<and> f \<in> set gs"
proof (induction cs arbitrary: fs)
  case Nil
  then show ?case by simp
next
  case (Cons c cs)
  then show ?case by (fastforce simp: bind_res_eq_Inr)
qed

text \<open>From here on sequences are reasoned about by these lemmas, not unfolded.\<close>

declare checks.simps [simp del]

lemma checks_Nil [simp]: "checks [] = Inr []"
  by (simp add: checks.simps)

subsection \<open>The checker interface\<close>

text \<open>
  Every checking function of the consumer verifier keeps one contract: a run that raises
  nothing and reports nothing establishes a property of its input. The client, a loop over
  many inputs, gets the property of all of them.
\<close>

locale checker =
  fixes check :: "'a \<Rightarrow> check"
    and good :: "'a \<Rightarrow> bool"
  assumes sound: "check x = Inr [] \<Longrightarrow> good x"
begin

definition run :: "'a list \<Rightarrow> check" where
  "run xs = checks (map check xs)"

lemma run_sound: "run xs = Inr [] \<Longrightarrow> x \<in> set xs \<Longrightarrow> good x"
  by (simp add: run_def checks_clean sound)

lemma run_reports: "run xs = Inr fs \<Longrightarrow> x \<in> set xs \<Longrightarrow> \<not> good x \<Longrightarrow> fs \<noteq> []"
  using run_sound by blast

end

section \<open>Lists\<close>

lemma list_all2_map_self: "list_all2 (\<lambda>x y. y = f x) xs ys \<longleftrightarrow> ys = map f xs"
  by (induction xs arbitrary: ys) (auto simp: list_all2_Cons1)

text \<open>\<open>next((x for x in xs if p(x)), None)\<close>: the first element that satisfies a test.\<close>

lemma find_SomeD: "List.find p xs = Some x \<Longrightarrow> x \<in> set xs \<and> p x"
  by (induction xs) (auto split: if_splits)

lemma find_NoneD: "List.find p xs = None \<Longrightarrow> x \<in> set xs \<Longrightarrow> \<not> p x"
  by (induction xs) (auto split: if_splits)

lemma length_one_iff: "length xs = Suc 0 \<longleftrightarrow> (\<exists>x. xs = [x])"
  by (cases xs) auto

lemma distinct_length_card: "distinct xs \<longleftrightarrow> card (set xs) = length xs"
  using card_distinct distinct_card by blast

lemma mem_map_filter: "y \<in> set (List.map_filter f xs) \<longleftrightarrow> (\<exists>x \<in> set xs. f x = Some y)"
  by (induction xs) (auto simp: List.map_filter_simps split: option.splits)

end
