(* ===== verification/PyStr.thy ===== *)
theory PyStr
  imports Prelude "HOL-Library.Sublist"
begin

text \<open>
  The string operations of Python the source uses, on strings whose code points are below 256
  (a \<open>char\<close> is one such code point). For these the tables below are exact: whitespace, line
  boundaries and letters are those of \<open>str.isspace\<close>, \<open>str.splitlines\<close>, \<open>str.isalpha\<close> and
  \<open>str.isalnum\<close> on Latin-1. The lemmas give what the parsers rely on: splitting and joining are
  inverse, the pieces contain no separator, stripping is idempotent.
\<close>

section \<open>Character classes\<close>

definition is_space :: "char \<Rightarrow> bool" where
  "is_space c = (let n = (of_char c :: nat) in
     (9 \<le> n \<and> n \<le> 13) \<or> (28 \<le> n \<and> n \<le> 32) \<or> n = 133 \<or> n = 160)"

definition is_linebreak :: "char \<Rightarrow> bool" where
  "is_linebreak c = (let n = (of_char c :: nat) in
     (10 \<le> n \<and> n \<le> 13) \<or> (28 \<le> n \<and> n \<le> 30) \<or> n = 133)"

definition between :: "nat \<Rightarrow> nat \<Rightarrow> char \<Rightarrow> bool" where
  "between lo hi c = (lo \<le> of_char c \<and> of_char c \<le> hi)"

definition isalpha :: "char \<Rightarrow> bool" where
  "isalpha c = (between 65 90 c \<or> between 97 122 c \<or> between 170 170 c \<or> between 181 181 c \<or>
     between 186 186 c \<or> between 192 214 c \<or> between 216 246 c \<or> between 248 255 c)"

definition isalnum :: "char \<Rightarrow> bool" where
  "isalnum c = (isalpha c \<or> between 48 57 c \<or> between 178 179 c \<or> between 185 185 c \<or> between 188 190 c)"

definition is_digit :: "char \<Rightarrow> bool" where
  "is_digit c = between 48 57 c"

definition is_lower_hex :: "char \<Rightarrow> bool" where
  "is_lower_hex c = (between 48 57 c \<or> between 97 102 c)"

section \<open>Prefixes, suffixes, stripping\<close>

definition startswith :: "string \<Rightarrow> string \<Rightarrow> bool" where
  "startswith s p = (take (length p) s = p)"

definition endswith :: "string \<Rightarrow> string \<Rightarrow> bool" where
  "endswith s p = (length p \<le> length s \<and> drop (length s - length p) s = p)"

definition removeprefix :: "string \<Rightarrow> string \<Rightarrow> string" where
  "removeprefix s p = (if startswith s p then drop (length p) s else s)"

definition lstrip :: "string \<Rightarrow> string" where
  "lstrip s = dropWhile is_space s"

definition rstrip :: "string \<Rightarrow> string" where
  "rstrip s = rev (dropWhile is_space (rev s))"

definition strip :: "string \<Rightarrow> string" where
  "strip s = rstrip (lstrip s)"

lemma startswith_iff_prefix: "startswith s p \<longleftrightarrow> prefix p s"
  unfolding startswith_def prefix_def by (metis append_eq_conv_conj append_take_drop_id)

lemma startswith_iff: "startswith s p \<longleftrightarrow> (\<exists>t. s = p @ t)"
  by (simp add: startswith_iff_prefix prefix_def)

lemma startswith_append [simp]: "startswith (p @ t) p"
  by (simp add: startswith_def)

lemma startswith_Nil [simp]: "startswith s []"
  by (simp add: startswith_def)

lemma endswith_iff: "endswith s p \<longleftrightarrow> (\<exists>t. s = t @ p)"
  unfolding endswith_def by (metis append_take_drop_id diff_diff_cancel length_drop append_eq_conv_conj le_add2 length_append diff_add_inverse2)

lemma removeprefix_append [simp]: "removeprefix (p @ t) p = t"
  by (simp add: removeprefix_def)

lemma rstrip_decomp: "\<exists>w. s = rstrip s @ w \<and> (\<forall>c \<in> set w. is_space c)"
proof -
  have "rev s = takeWhile is_space (rev s) @ dropWhile is_space (rev s)" by simp
  then have "s = rstrip s @ rev (takeWhile is_space (rev s))"
    unfolding rstrip_def by (metis rev_append rev_rev_ident)
  then show ?thesis by (metis set_rev set_takeWhileD)
qed

lemma lstrip_decomp: "\<exists>w. s = w @ lstrip s \<and> (\<forall>c \<in> set w. is_space c)"
  unfolding lstrip_def by (metis set_takeWhileD takeWhile_dropWhile_id)

text \<open>\<open>s.strip()\<close> removes whitespace from both ends and nothing else.\<close>

lemma strip_decomp:
  "\<exists>v w. s = v @ strip s @ w \<and> (\<forall>c \<in> set v. is_space c) \<and> (\<forall>c \<in> set w. is_space c)"
proof -
  obtain v where "s = v @ lstrip s" "\<forall>c \<in> set v. is_space c" using lstrip_decomp by blast
  moreover obtain w where "lstrip s = rstrip (lstrip s) @ w" "\<forall>c \<in> set w. is_space c"
    using rstrip_decomp by blast
  ultimately show ?thesis unfolding strip_def by metis
qed

lemma rstrip_last: "rstrip s \<noteq> [] \<Longrightarrow> \<not> is_space (last (rstrip s))"
  unfolding rstrip_def by (simp add: last_rev hd_dropWhile)

lemma rstrip_Nil_iff: "rstrip s = [] \<longleftrightarrow> (\<forall>c \<in> set s. is_space c)"
  unfolding rstrip_def by (simp add: dropWhile_eq_Nil_conv)

lemma strip_Nil_iff: "strip s = [] \<longleftrightarrow> (\<forall>c \<in> set s. is_space c)"
proof -
  have "strip s = [] \<longleftrightarrow> (\<forall>c \<in> set (lstrip s). is_space c)" by (simp add: strip_def rstrip_Nil_iff)
  also have "\<dots> \<longleftrightarrow> (\<forall>c \<in> set s. is_space c)"
    using lstrip_decomp [of s] by (metis UnE UnI2 set_append)
  finally show ?thesis .
qed

lemma strip_nonspace_id: "(\<forall>c \<in> set s. \<not> is_space c) \<Longrightarrow> strip s = s"
  unfolding strip_def rstrip_def lstrip_def
  by (metis dropWhile_eq_self_iff list.set_sel(1) rev_rev_ident set_rev)

section \<open>Splitting and joining\<close>

text \<open>\<open>s.split(c)\<close> for a separator of one character: always at least one piece.\<close>

fun split_on :: "char \<Rightarrow> string \<Rightarrow> string list" where
  "split_on c [] = [[]]"
| "split_on c (x # xs) =
     (if x = c then [] # split_on c xs
      else (case split_on c xs of [] \<Rightarrow> [[x]] | p # ps \<Rightarrow> (x # p) # ps))"

text \<open>\<open>c.join(pieces)\<close>\<close>

fun join :: "string \<Rightarrow> string list \<Rightarrow> string" where
  "join sep [] = []"
| "join sep [p] = p"
| "join sep (p # q # ps) = p @ sep @ join sep (q # ps)"

lemma split_on_not_Nil [simp]: "split_on c s \<noteq> []"
  by (cases s) (auto split: list.splits)

lemma join_split_on: "join [c] (split_on c s) = s"
proof (induction s)
  case Nil
  show ?case by simp
next
  case (Cons x xs)
  obtain p ps where eq: "split_on c xs = p # ps"
    by (meson list.exhaust split_on_not_Nil)
  with Cons show ?case by (cases ps) auto
qed

lemma split_on_pieces: "p \<in> set (split_on c s) \<Longrightarrow> c \<notin> set p"
proof (induction s arbitrary: p)
  case Nil
  then show ?case by simp
next
  case (Cons x xs)
  then show ?case by (auto split: if_splits list.splits)
qed

lemma split_on_id: "c \<notin> set s \<Longrightarrow> split_on c s = [s]"
  by (induction s) auto

lemma split_on_append: "c \<notin> set p \<Longrightarrow> split_on c (p @ c # s) = p # split_on c s"
  by (induction p) auto

lemma split_on_join:
  "ps \<noteq> [] \<Longrightarrow> (\<And>p. p \<in> set ps \<Longrightarrow> c \<notin> set p) \<Longrightarrow> split_on c (join [c] ps) = ps"
proof (induction "[c]" ps rule: join.induct)
  case 1
  then show ?case by simp
next
  case (2 p)
  then show ?case by (simp add: split_on_id)
next
  case (3 p q ps)
  then show ?case by (simp add: split_on_append)
qed

text \<open>\<open>s.split()\<close>: the maximal runs of non-whitespace characters.\<close>

function split_ws :: "string \<Rightarrow> string list" where
  "split_ws s = (let t = dropWhile is_space s in
     if t = [] then [] else takeWhile (\<lambda>c. \<not> is_space c) t # split_ws (dropWhile (\<lambda>c. \<not> is_space c) t))"
  by pat_completeness auto
termination
proof (relation "measure length")
  fix s t :: string
  assume t: "t = dropWhile is_space s" "t \<noteq> []"
  then have "\<not> is_space (hd t)" by (metis hd_dropWhile)
  then have "length (dropWhile (\<lambda>c. \<not> is_space c) t) < length t"
    using t(2) by (cases t) (auto simp: length_dropWhile_le le_imp_less_Suc)
  also have "length t \<le> length s" using t(1) by (simp add: length_dropWhile_le)
  finally show "(dropWhile (\<lambda>c. \<not> is_space c) t, s) \<in> measure length" by simp
qed simp

declare split_ws.simps [simp del]

lemma split_ws_pieces: "p \<in> set (split_ws s) \<Longrightarrow> p \<noteq> [] \<and> (\<forall>c \<in> set p. \<not> is_space c)"
proof (induction s rule: split_ws.induct)
  case (1 s)
  define t where "t = dropWhile is_space s"
  show ?case
  proof (cases "t = []")
    case True
    with 1 show ?thesis by (simp add: split_ws.simps [of s] t_def Let_def)
  next
    case False
    then have "\<not> is_space (hd t)" unfolding t_def by (metis hd_dropWhile)
    then have "takeWhile (\<lambda>c. \<not> is_space c) t \<noteq> []" using False by (cases t) auto
    moreover have "split_ws s = takeWhile (\<lambda>c. \<not> is_space c) t # split_ws (dropWhile (\<lambda>c. \<not> is_space c) t)"
      using False by (simp add: split_ws.simps [of s] t_def Let_def del: dropWhile_eq_Nil_conv)
    then have "p = takeWhile (\<lambda>c. \<not> is_space c) t \<or> p \<in> set (split_ws (dropWhile (\<lambda>c. \<not> is_space c) t))"
      using "1.prems" by simp
    ultimately show ?thesis using "1.IH" [OF t_def False] by (metis set_takeWhileD)
  qed
qed

text \<open>\<open>s.splitlines()\<close>: a carriage return followed by a line feed is one boundary; the end of the
  text is no line of its own.\<close>

fun splitlines_acc :: "string \<Rightarrow> string \<Rightarrow> string list" where
  "splitlines_acc acc [] = (if acc = [] then [] else [rev acc])"
| "splitlines_acc acc [c] = (if is_linebreak c then [rev acc] else [rev (c # acc)])"
| "splitlines_acc acc (c # d # cs) =
     (if c = CHR 0x0D \<and> d = CHR 0x0A then rev acc # splitlines_acc [] cs
      else if is_linebreak c then rev acc # splitlines_acc [] (d # cs)
      else splitlines_acc (c # acc) (d # cs))"

definition splitlines :: "string \<Rightarrow> string list" where
  "splitlines s = splitlines_acc [] s"

section \<open>Substrings\<close>

text \<open>\<open>sub in s\<close>\<close>

fun contains :: "string \<Rightarrow> string \<Rightarrow> bool" where
  "contains sub [] = (sub = [])"
| "contains sub (c # cs) = (startswith (c # cs) sub \<or> contains sub cs)"

lemma contains_iff: "contains sub s \<longleftrightarrow> (\<exists>u v. s = u @ sub @ v)"
proof (induction s)
  case Nil
  show ?case by auto
next
  case (Cons c cs)
  show ?case
  proof
    assume "contains sub (c # cs)"
    then show "\<exists>u v. c # cs = u @ sub @ v"
      using Cons by (metis append.left_neutral append_Cons contains.simps(2) startswith_iff)
  next
    assume "\<exists>u v. c # cs = u @ sub @ v"
    then obtain u v where uv: "c # cs = u @ sub @ v" by blast
    show "contains sub (c # cs)"
    proof (cases u)
      case Nil
      with uv have "startswith (c # cs) sub" by (simp add: startswith_iff)
      then show ?thesis by simp
    next
      case (Cons a list)
      with uv have "cs = list @ sub @ v" by simp
      with Cons.IH show ?thesis by auto
    qed
  qed
qed

text \<open>\<open>s.split(sub, 1)[0]\<close>: the text before the first occurrence of \<open>sub\<close>.\<close>

fun before :: "string \<Rightarrow> string \<Rightarrow> string" where
  "before sub [] = []"
| "before sub (c # cs) = (if startswith (c # cs) sub then [] else c # before sub cs)"

lemma before_prefix: "\<exists>t. s = before sub s @ t"
  by (induction s) auto

text \<open>\<open>s.find(sub, i)\<close> as an index, \<open>None\<close> for -1.\<close>

fun find_from :: "string \<Rightarrow> nat \<Rightarrow> string \<Rightarrow> nat option" where
  "find_from sub i [] = (if sub = [] then Some i else None)"
| "find_from sub i (c # cs) = (if startswith (c # cs) sub then Some i else find_from sub (Suc i) cs)"

definition str_find :: "string \<Rightarrow> string \<Rightarrow> nat \<Rightarrow> nat option" where
  "str_find s sub i = (if i \<le> length s then find_from sub i (drop i s) else None)"

lemma find_from_bounds:
  "find_from sub i s = Some j \<Longrightarrow> i \<le> j \<and> j + length sub \<le> i + length s"
proof (induction sub i s rule: find_from.induct)
  case (1 sub i)
  then show ?case by (simp split: if_splits)
next
  case (2 sub i c cs)
  show ?case
  proof (cases "startswith (c # cs) sub")
    case True
    then have "length sub \<le> length (c # cs)" unfolding startswith_iff by (metis le_add1 length_append)
    with True 2 show ?thesis by simp
  next
    case False
    with 2 show ?thesis by fastforce
  qed
qed

lemma str_find_bounds: "str_find s sub i = Some j \<Longrightarrow> i \<le> j \<and> j + length sub \<le> length s"
  unfolding str_find_def by (auto split: if_splits dest: find_from_bounds)

text \<open>\<open>s.replace(old, new)\<close> for a non-empty \<open>old\<close>: left to right, without overlaps.\<close>

function str_replace :: "string \<Rightarrow> string \<Rightarrow> string \<Rightarrow> string" where
  "str_replace old new [] = []"
| "str_replace old new (c # cs) =
     (if old \<noteq> [] \<and> startswith (c # cs) old then new @ str_replace old new (drop (length old) (c # cs))
      else c # str_replace old new cs)"
  by pat_completeness auto
termination
  by (relation "measure (\<lambda>(old, new, s). length s)") auto

lemma str_replace_absent: "\<not> contains old s \<Longrightarrow> str_replace old new s = s"
  by (induction s) auto

text \<open>\<open>s.lower()\<close> and \<open>s.upper()\<close>\<close>

definition lower :: "string \<Rightarrow> string" where
  "lower s = map (\<lambda>c. if between 65 90 c \<or> between 192 214 c \<or> between 216 222 c then char_of (of_char c + 32 :: nat) else c) s"

text \<open>Letters whose upper case has another length or lies outside the character set stay as they are.\<close>

definition upper :: "string \<Rightarrow> string" where
  "upper s = map (\<lambda>c. if between 97 122 c \<or> between 224 246 c \<or> between 248 254 c then char_of (of_char c - 32 :: nat) else c) s"

text \<open>\<open>str(n)\<close> for a natural number, and \<open>f"{n:03d}"\<close>.\<close>

definition digit_char :: "nat \<Rightarrow> char" where
  "digit_char d = char_of (48 + d)"

fun str_nat :: "nat \<Rightarrow> string" where
  "str_nat n = (if n < 10 then [digit_char n] else str_nat (n div 10) @ [digit_char (n mod 10)])"

declare str_nat.simps [simp del]

definition str_int :: "int \<Rightarrow> string" where
  "str_int n = (if n < 0 then CHR ''-'' # str_nat (nat (- n)) else str_nat (nat n))"

text \<open>\<open>repr(s)\<close> of a string: the quote is double where the text holds single quotes only.\<close>

definition hex_digit :: "nat \<Rightarrow> char" where
  "hex_digit d = (if d < 10 then char_of (48 + d) else char_of (87 + d))"

definition printable :: "char \<Rightarrow> bool" where
  "printable c = (between 32 126 c \<or> between 161 172 c \<or> between 174 255 c)"

definition repr_char :: "char \<Rightarrow> char \<Rightarrow> string" where
  "repr_char q c =
     (if c = q \<or> c = CHR 0x5C then [CHR 0x5C, c]
      else if c = CHR 0x0A then [CHR 0x5C, CHR ''n'']
      else if c = CHR 0x0D then [CHR 0x5C, CHR ''r'']
      else if c = CHR 0x09 then [CHR 0x5C, CHR ''t'']
      else if printable c then [c]
      else [CHR 0x5C, CHR ''x'', hex_digit (of_char c div 16), hex_digit (of_char c mod 16)])"

definition repr_str :: "string \<Rightarrow> string" where
  "repr_str s =
     (let q = (if CHR 0x27 \<in> set s \<and> CHR 0x22 \<notin> set s then CHR 0x22 else CHR 0x27)
      in q # concat (map (repr_char q) s) @ [q])"

section \<open>Lines and words of rendered texts\<close>

lemma linebreak_space: "is_linebreak c \<Longrightarrow> is_space c"
  by (auto simp: is_linebreak_def is_space_def Let_def)

lemma splitlines_acc_line:
  "(\<forall>c \<in> set l. \<not> is_linebreak c) \<Longrightarrow>
     splitlines_acc acc (l @ CHR 0x0A # rest) = (rev acc @ l) # splitlines_acc [] rest"
proof (induction l arbitrary: acc)
  case Nil
  have "is_linebreak (CHR 0x0A)" by (simp add: is_linebreak_def)
  then show ?case by (cases rest) auto
next
  case (Cons c l)
  then have "\<not> is_linebreak c" "c \<noteq> CHR 0x0D" by (auto simp: is_linebreak_def)
  with Cons show ?case by (cases "l @ CHR 0x0A # rest") auto
qed

lemma splitlines_line:
  "(\<forall>c \<in> set l. \<not> is_linebreak c) \<Longrightarrow> splitlines (l @ CHR 0x0A # rest) = l # splitlines rest"
  by (simp add: splitlines_def splitlines_acc_line)

lemma splitlines_Nil [simp]: "splitlines [] = []"
  by (simp add: splitlines_def)

definition word :: "string \<Rightarrow> bool" where
  "word w = (w \<noteq> [] \<and> (\<forall>c \<in> set w. \<not> is_space c))"

lemma split_ws_skip: "is_space c \<Longrightarrow> split_ws (c # s) = split_ws s"
  by (subst (1 2) split_ws.simps) simp

lemma split_ws_Nil [simp]: "split_ws [] = []"
  by (subst split_ws.simps) simp

lemma split_ws_word: "word w \<Longrightarrow> (case s of [] \<Rightarrow> True | c # _ \<Rightarrow> is_space c) \<Longrightarrow> split_ws (w @ s) = w # split_ws s"
proof -
  assume w: "word w" and s: "case s of [] \<Rightarrow> True | c # _ \<Rightarrow> is_space c"
  then obtain a v where wv: "w = a # v" by (cases w) (auto simp: word_def)
  with w have d: "dropWhile is_space (w @ s) = w @ s" by (simp add: word_def)
  have tw: "takeWhile (\<lambda>c. \<not> is_space c) (w @ s) = w" using w s
    by (auto simp: word_def takeWhile_append2 split: list.splits)
  have dw: "dropWhile (\<lambda>c. \<not> is_space c) (w @ s) = s" using w s
    by (auto simp: word_def dropWhile_append2 split: list.splits)
  have "w @ s \<noteq> []" using wv by simp
  with d tw dw show ?thesis by (subst split_ws.simps) (simp add: Let_def)
qed

lemma strip_word_ends:
  assumes v: "\<forall>c \<in> set v. is_space c" and u: "\<forall>c \<in> set u. is_space c"
    and s: "s \<noteq> []" "\<not> is_space (hd s)" "\<not> is_space (last s)"
  shows "strip (v @ s @ u) = s"
proof -
  have "lstrip (v @ s @ u) = s @ u"
    using v s(1,2) unfolding lstrip_def by (cases s) (auto simp: dropWhile_append2)
  moreover have "dropWhile is_space (rev u @ t) = dropWhile is_space t" for t
    using u by (induction u rule: rev_induct) auto
  then have "rstrip (s @ u) = s"
    using s(1,3) unfolding rstrip_def by (cases s rule: rev_cases) auto
  ultimately show ?thesis by (simp add: strip_def)
qed

lemma split_ws_sub: "p \<in> set (split_ws s) \<Longrightarrow> contains p s"
proof (induction s rule: split_ws.induct)
  case (1 s)
  define t where "t = dropWhile is_space s"
  define w where "w = takeWhile (\<lambda>c. \<not> is_space c) t"
  define r where "r = dropWhile (\<lambda>c. \<not> is_space c) t"
  have s: "s = takeWhile is_space s @ w @ r" unfolding t_def w_def r_def by simp
  have eq: "split_ws s = (if t = [] then [] else w # split_ws r)"
    unfolding t_def w_def r_def by (subst split_ws.simps) (simp add: Let_def)
  show ?case
  proof (cases "p = w")
    case True
    with s show ?thesis by (metis contains_iff)
  next
    case False
    with 1(2) eq have "t \<noteq> []" "p \<in> set (split_ws r)" by (auto split: if_splits)
    then have "contains p r" using "1.IH" [OF t_def] unfolding r_def by blast
    then obtain u v where "r = u @ p @ v" by (auto simp: contains_iff)
    then have "s = (takeWhile is_space s @ w @ u) @ p @ v" using s by simp
    then show ?thesis by (metis contains_iff)
  qed
qed

end
