(* ===== verification/PyVal.thy ===== *)
theory PyVal
  imports PyStr
begin

text \<open>
  Python values as the JSON and TOML readers build them, with the operations the source applies
  to them: \<open>==\<close>, \<open>.get\<close>, \<open>isinstance\<close>, truth value. A dictionary is the list of its items in
  insertion order; \<open>wf_val\<close> says that keys are distinct, as in any Python dictionary. Finite
  floats are rationals (NaN and the infinities have no value here). The lemmas show that
  equality is an equivalence on well-formed values that ignores the order of dictionary items
  and identifies \<open>True\<close> with \<open>1\<close> and \<open>1.0\<close>.
\<close>

section \<open>Values\<close>

datatype pyval =
    VNone
  | VBool bool
  | VInt int
  | VFloat rat
  | VStr string
  | VList "pyval list"
  | VDict "(string \<times> pyval) list"

type_synonym pydict = "(string \<times> pyval) list"

text \<open>\<open>d.get(k)\<close>, \<open>d.get(k, default)\<close> and \<open>k in d\<close>.\<close>

definition dget :: "pydict \<Rightarrow> string \<Rightarrow> pyval" where
  "dget d k = (case map_of d k of None \<Rightarrow> VNone | Some v \<Rightarrow> v)"

definition dget_or :: "pydict \<Rightarrow> string \<Rightarrow> pyval \<Rightarrow> pyval" where
  "dget_or d k v0 = (case map_of d k of None \<Rightarrow> v0 | Some v \<Rightarrow> v)"

definition has_key :: "pydict \<Rightarrow> string \<Rightarrow> bool" where
  "has_key d k = (map_of d k \<noteq> None)"

text \<open>\<open>d[k]\<close>\<close>

definition dindex :: "pydict \<Rightarrow> string \<Rightarrow> pyval res" where
  "dindex d k = (case map_of d k of None \<Rightarrow> Inl (KeyError k) | Some v \<Rightarrow> Inr v)"

definition keys :: "pydict \<Rightarrow> string list" where
  "keys d = map fst d"

text \<open>\<open>d[k] = v\<close> keeps the place of an existing key.\<close>

fun dset :: "pydict \<Rightarrow> string \<Rightarrow> pyval \<Rightarrow> pydict" where
  "dset [] k v = [(k, v)]"
| "dset ((k', v') # d) k v = (if k' = k then (k, v) # d else (k', v') # dset d k v)"

text \<open>\<open>{**d, **e}\<close>: a later key replaces an earlier one in its place.\<close>

definition dict_update :: "pydict \<Rightarrow> pydict \<Rightarrow> pydict" where
  "dict_update d e = foldl (\<lambda>acc p. dset acc (fst p) (snd p)) d e"

lemma map_of_dset: "map_of (dset d k v) = (map_of d)(k \<mapsto> v)"
  by (induction d k v rule: dset.induct) auto

lemma dget_dset: "dget (dset d k v) x = (if x = k then v else dget d x)"
  by (simp add: dget_def map_of_dset)

lemma keys_dset: "fst ` set (dset d k v) = insert k (fst ` set d)"
  by (induction d k v rule: dset.induct) auto

lemma has_key_dset: "has_key (dset d k v) x = (x = k \<or> has_key d x)"
  by (simp add: has_key_def map_of_dset)

lemma distinct_dset: "distinct (map fst d) \<Longrightarrow> distinct (map fst (dset d k v))"
  by (induction d k v rule: dset.induct) (auto simp: keys_dset)

lemma set_dset: "set (dset d k v) \<subseteq> insert (k, v) (set d)"
  by (induction d k v rule: dset.induct) auto

lemma keys_dict_update: "fst ` set (dict_update d e) = fst ` set d \<union> fst ` set e"
  unfolding dict_update_def by (induction e arbitrary: d) (auto simp: keys_dset)

lemma map_of_dict_update: "distinct (map fst e) \<Longrightarrow> map_of (dict_update d e) = map_of d ++ map_of e"
  unfolding dict_update_def
proof (induction e arbitrary: d)
  case (Cons p e)
  then have "map_of e (fst p) = None" by (metis distinct.simps(2) list.simps(9) map_of_eq_None_iff set_map)
  with Cons show ?case by (cases p) (auto simp: map_of_dset map_add_def fun_eq_iff split: option.splits)
qed simp

text \<open>\<open>set(d) == {...}\<close>\<close>

definition keys_are :: "pydict \<Rightarrow> string list \<Rightarrow> bool" where
  "keys_are d ks = (set (keys d) = set ks)"

text \<open>\<open>isinstance\<close> (a \<open>bool\<close> is an \<open>int\<close>) and \<open>type(v) is int\<close>.\<close>

fun is_str :: "pyval \<Rightarrow> bool" where
  "is_str (VStr _) = True" | "is_str _ = False"

fun is_dict :: "pyval \<Rightarrow> bool" where
  "is_dict (VDict _) = True" | "is_dict _ = False"

fun is_list :: "pyval \<Rightarrow> bool" where
  "is_list (VList _) = True" | "is_list _ = False"

fun is_bool :: "pyval \<Rightarrow> bool" where
  "is_bool (VBool _) = True" | "is_bool _ = False"

fun is_int :: "pyval \<Rightarrow> bool" where
  "is_int (VInt _) = True" | "is_int (VBool _) = True" | "is_int _ = False"

fun type_is_int :: "pyval \<Rightarrow> bool" where
  "type_is_int (VInt _) = True" | "type_is_int _ = False"

text \<open>The dictionary, list or string inside a value, where \<open>isinstance\<close> holds.\<close>

fun as_dict :: "pyval \<Rightarrow> pydict option" where
  "as_dict (VDict d) = Some d" | "as_dict _ = None"

fun as_list :: "pyval \<Rightarrow> pyval list option" where
  "as_list (VList xs) = Some xs" | "as_list _ = None"

fun as_str :: "pyval \<Rightarrow> string option" where
  "as_str (VStr s) = Some s" | "as_str _ = None"

lemma as_dict_Some [simp]: "as_dict v = Some d \<longleftrightarrow> v = VDict d"
  by (cases v) auto

lemma as_list_Some [simp]: "as_list v = Some xs \<longleftrightarrow> v = VList xs"
  by (cases v) auto

lemma as_str_Some [simp]: "as_str v = Some s \<longleftrightarrow> v = VStr s"
  by (cases v) auto

lemma as_dict_None [simp]: "as_dict v = None \<longleftrightarrow> \<not> is_dict v"
  by (cases v) auto

lemma as_list_None [simp]: "as_list v = None \<longleftrightarrow> \<not> is_list v"
  by (cases v) auto

lemma as_str_None [simp]: "as_str v = None \<longleftrightarrow> \<not> is_str v"
  by (cases v) auto

lemma is_str_iff: "is_str v \<longleftrightarrow> (\<exists>s. v = VStr s)"
  by (cases v) auto

lemma is_dict_iff: "is_dict v \<longleftrightarrow> (\<exists>d. v = VDict d)"
  by (cases v) auto

lemma is_list_iff: "is_list v \<longleftrightarrow> (\<exists>xs. v = VList xs)"
  by (cases v) auto

text \<open>A string that satisfies a test: \<open>isinstance(v, str) and test(v)\<close>.\<close>

definition str_such :: "(string \<Rightarrow> bool) \<Rightarrow> pyval \<Rightarrow> bool" where
  "str_such P v = (case v of VStr s \<Rightarrow> P s | _ \<Rightarrow> False)"

lemma str_such_iff: "str_such P v \<longleftrightarrow> (\<exists>s. v = VStr s \<and> P s)"
  by (cases v) (auto simp: str_such_def)

lemma str_such_simps [simp]: "str_such P (VStr s) = P s" "str_such P VNone = False"
  by (simp_all add: str_such_def)

text \<open>\<open>isinstance(d, dict)\<close> and then \<open>d.get(k)\<close>, \<open>None\<close> where it is no dictionary: the source
  writes \<open>d.get(k) if isinstance(d, dict) else None\<close>.\<close>

definition get_if_dict :: "pyval \<Rightarrow> string \<Rightarrow> pyval" where
  "get_if_dict v k = (case v of VDict d \<Rightarrow> dget d k | _ \<Rightarrow> VNone)"

lemma get_if_dict_simps [simp]: "get_if_dict (VDict d) k = dget d k"
  by (simp add: get_if_dict_def)

lemma get_if_dict_not_None: "get_if_dict v k \<noteq> VNone \<Longrightarrow> \<exists>d. v = VDict d \<and> map_of d k = Some (get_if_dict v k)"
  by (cases v) (auto simp: get_if_dict_def dget_def split: option.splits)

text \<open>Truth value.\<close>

fun truthy :: "pyval \<Rightarrow> bool" where
  "truthy VNone = False"
| "truthy (VBool b) = b"
| "truthy (VInt n) = (n \<noteq> 0)"
| "truthy (VFloat r) = (r \<noteq> 0)"
| "truthy (VStr s) = (s \<noteq> [])"
| "truthy (VList xs) = (xs \<noteq> [])"
| "truthy (VDict d) = (d \<noteq> [])"

text \<open>Values a set or the \<open>in\<close> operator of a set can hash.\<close>

fun hashable :: "pyval \<Rightarrow> bool" where
  "hashable (VList _) = False"
| "hashable (VDict _) = False"
| "hashable _ = True"

text \<open>\<open>v in {s1, ..., sn}\<close> for a set of strings: an unhashable \<open>v\<close> raises \<open>TypeError\<close>.\<close>

definition in_strs :: "pyval \<Rightarrow> string list \<Rightarrow> bool res" where
  "in_strs v ss = (if hashable v then Inr (case v of VStr s \<Rightarrow> s \<in> set ss | _ \<Rightarrow> False) else Inl TypeError)"

lemma in_strs_True: "in_strs v ss = Inr True \<longleftrightarrow> (\<exists>s \<in> set ss. v = VStr s)"
  by (cases v) (auto simp: in_strs_def)

lemma in_strs_VStr [simp]: "in_strs (VStr s) ss = Inr (s \<in> set ss)"
  by (simp add: in_strs_def)

text \<open>\<open>x in v\<close> for a string \<open>x\<close>.\<close>

fun value_contains :: "string \<Rightarrow> pyval \<Rightarrow> bool res" where
  "value_contains x (VList xs) = Inr (VStr x \<in> set xs)"
| "value_contains x (VStr s) = Inr (contains x s)"
| "value_contains x (VDict d) = Inr (has_key d x)"
| "value_contains x v = Inl TypeError"

section \<open>Equality\<close>

fun num_of :: "pyval \<Rightarrow> rat option" where
  "num_of (VBool b) = Some (if b then 1 else 0)"
| "num_of (VInt n) = Some (of_int n)"
| "num_of (VFloat r) = Some r"
| "num_of _ = None"

text \<open>
  \<open>a == b\<close>: numbers by value whatever their type, lists by position, dictionaries by key.
\<close>

fun py_eq :: "pyval \<Rightarrow> pyval \<Rightarrow> bool"
  and eq_list :: "pyval list \<Rightarrow> pyval list \<Rightarrow> bool"
  and eq_items :: "pydict \<Rightarrow> pydict \<Rightarrow> bool" where
  "py_eq VNone b = (b = VNone)"
| "py_eq (VBool x) b = (num_of b = num_of (VBool x))"
| "py_eq (VInt x) b = (num_of b = num_of (VInt x))"
| "py_eq (VFloat x) b = (num_of b = num_of (VFloat x))"
| "py_eq (VStr s) b = (b = VStr s)"
| "py_eq (VList xs) b = (case b of VList ys \<Rightarrow> eq_list xs ys | _ \<Rightarrow> False)"
| "py_eq (VDict d) b = (case b of VDict e \<Rightarrow> length d = length e \<and> eq_items d e | _ \<Rightarrow> False)"
| "eq_list [] ys = (ys = [])"
| "eq_list (x # xs) ys = (case ys of [] \<Rightarrow> False | z # zs \<Rightarrow> py_eq x z \<and> eq_list xs zs)"
| "eq_items [] e = True"
| "eq_items ((k, v) # d) e = (case map_of e k of None \<Rightarrow> False | Some w \<Rightarrow> py_eq v w \<and> eq_items d e)"

fun wf_val :: "pyval \<Rightarrow> bool" where
  "wf_val (VList xs) = (\<forall>x \<in> set xs. wf_val x)"
| "wf_val (VDict d) = (distinct (map fst d) \<and> (\<forall>p \<in> set d. wf_val (snd p)))"
| "wf_val _ = True"

lemma num_of_Some_py_eq: "num_of a = Some r \<Longrightarrow> py_eq a b \<longleftrightarrow> num_of b = Some r"
  by (cases a) auto

lemma py_eq_VStr [simp]: "py_eq a (VStr s) \<longleftrightarrow> a = VStr s"
  by (cases a) auto

lemma py_eq_VNone [simp]: "py_eq a VNone \<longleftrightarrow> a = VNone"
  by (cases a) auto

lemma eq_list_iff: "eq_list xs ys \<longleftrightarrow> list_all2 py_eq xs ys"
  by (induction xs arbitrary: ys) (auto split: list.splits simp: list_all2_Cons1)

lemma eq_items_iff: "eq_items d e \<longleftrightarrow> (\<forall>k v. (k, v) \<in> set d \<longrightarrow> (\<exists>w. map_of e k = Some w \<and> py_eq v w))"
proof (induction d)
  case Nil
  show ?case by simp
next
  case (Cons p d)
  obtain k v where p: "p = (k, v)" by (cases p)
  have "eq_items (p # d) e \<longleftrightarrow> (\<exists>w. map_of e k = Some w \<and> py_eq v w) \<and> eq_items d e"
    by (simp add: p split: option.splits)
  with Cons p show ?case by auto
qed

lemma py_eq_VList: "py_eq (VList xs) b \<longleftrightarrow> (\<exists>ys. b = VList ys \<and> list_all2 py_eq xs ys)"
  by (cases b) (auto simp: eq_list_iff)

lemma py_eq_VDict:
  "py_eq (VDict d) b \<longleftrightarrow> (\<exists>e. b = VDict e \<and> length d = length e \<and>
     (\<forall>k v. (k, v) \<in> set d \<longrightarrow> (\<exists>w. map_of e k = Some w \<and> py_eq v w)))"
  by (cases b) (auto simp: eq_items_iff)

declare py_eq.simps(6,7) [simp del]

lemma py_eq_refl: "wf_val a \<Longrightarrow> py_eq a a"
proof (induction a)
  case (VList xs)
  then show ?case by (auto simp: py_eq_VList intro!: list.rel_refl_strong)
next
  case (VDict d)
  then show ?case by (fastforce simp: py_eq_VDict)
qed auto

text \<open>
  Where the keys of both sides are distinct, equal length and one inclusion give the other, so
  the comparison of dictionaries is symmetric.
\<close>

lemma dict_eq_swap:
  assumes d: "distinct (map fst d)" and e: "distinct (map fst e)" and len: "length d = length e"
    and all: "\<And>k v. (k, v) \<in> set d \<Longrightarrow> \<exists>w. map_of e k = Some w \<and> R v w"
    and kw: "(k, w) \<in> set e"
  shows "\<exists>v. map_of d k = Some v \<and> R v w"
proof -
  have sub: "set (map fst d) \<subseteq> set (map fst e)"
  proof
    fix x
    assume "x \<in> set (map fst d)"
    then obtain v where "(x, v) \<in> set d" by auto
    then obtain w where "map_of e x = Some w" using all by blast
    then show "x \<in> set (map fst e)" by (metis domI dom_map_of_conv_image_fst set_map)
  qed
  have "card (set (map fst d)) = card (set (map fst e))"
    using d e len by (metis distinct_card length_map)
  then have "set (map fst d) = set (map fst e)" using sub by (metis card_subset_eq List.finite_set)
  moreover have "k \<in> set (map fst e)" using kw by force
  ultimately have "k \<in> set (map fst d)" by blast
  then obtain v where v: "(k, v) \<in> set d" by auto
  then obtain w' where w': "map_of e k = Some w'" and R: "R v w'" using all by blast
  have "map_of e k = Some w" using e kw by (simp add: map_of_is_SomeI)
  with w' R have "R v w" by simp
  moreover have "map_of d k = Some v" using d v by (simp add: map_of_is_SomeI)
  ultimately show ?thesis by blast
qed

lemma py_eq_sym: "wf_val a \<Longrightarrow> wf_val b \<Longrightarrow> py_eq a b \<Longrightarrow> py_eq b a"
proof (induction a arbitrary: b)
  case (VList xs)
  then obtain ys where b: "b = VList ys" and all: "list_all2 py_eq xs ys" by (auto simp: py_eq_VList)
  have "list_all2 py_eq ys xs"
    using all VList.IH VList.prems b
    by (auto simp: list_all2_conv_all_nth intro: VList.IH)
  with b show ?case by (simp add: py_eq_VList)
next
  case (VDict d)
  from VDict.prems(3) obtain e where b: "b = VDict e" and len: "length d = length e"
    and all: "\<And>k v. (k, v) \<in> set d \<Longrightarrow> \<exists>w. map_of e k = Some w \<and> py_eq v w"
    unfolding py_eq_VDict by blast
  have "\<exists>v. map_of d k = Some v \<and> py_eq w v" if kw: "(k, w) \<in> set e" for k w
  proof -
    obtain v where v: "map_of d k = Some v" and "py_eq v w"
      using dict_eq_swap [OF _ _ len, of "\<lambda>v w. py_eq v w" k w] all kw VDict.prems(1,2) b
      by (metis wf_val.simps(2))
    moreover have "(k, v) \<in> set d" using v by (rule map_of_SomeD)
    ultimately have "py_eq w v"
      using VDict.IH [of "(k, v)" v w] VDict.prems(1,2) b kw by fastforce
    with v show ?thesis by blast
  qed
  with b len show ?case by (auto simp: py_eq_VDict)
qed (auto simp: num_of_Some_py_eq)

lemma py_eq_trans: "py_eq a b \<Longrightarrow> py_eq b c \<Longrightarrow> py_eq a c"
proof (induction a arbitrary: b c)
  case (VList xs)
  then obtain ys zs where "b = VList ys" "c = VList zs" "list_all2 py_eq xs ys" "list_all2 py_eq ys zs"
    by (auto simp: py_eq_VList)
  moreover have "list_all2 py_eq xs zs"
    using calculation(3,4) VList.IH by (auto simp: list_all2_conv_all_nth dest: nth_mem)
  ultimately show ?case by (simp add: py_eq_VList)
next
  case (VDict d)
  from VDict.prems(1) obtain e where b: "b = VDict e" and len: "length d = length e"
    and all: "\<And>k v. (k, v) \<in> set d \<Longrightarrow> \<exists>w. map_of e k = Some w \<and> py_eq v w"
    unfolding py_eq_VDict by blast
  from VDict.prems(2) obtain g where c: "c = VDict g" and len': "length e = length g"
    and all': "\<And>k v. (k, v) \<in> set e \<Longrightarrow> \<exists>w. map_of g k = Some w \<and> py_eq v w"
    unfolding b py_eq_VDict by blast
  have "\<exists>w. map_of g k = Some w \<and> py_eq v w" if kv: "(k, v) \<in> set d" for k v
  proof -
    obtain w where w: "map_of e k = Some w" "py_eq v w" using all [OF kv] by blast
    obtain u where "map_of g k = Some u" "py_eq w u" using all' [OF map_of_SomeD [OF w(1)]] by blast
    with VDict.IH [OF kv, of v w u] w(2) show ?thesis by simp
  qed
  with b c len len' show ?case by (auto simp: py_eq_VDict)
qed (auto simp: num_of_Some_py_eq)

text \<open>The equality that \<open>json.dumps(..., sort_keys=True)\<close> decides: it also tells the types of
  numbers apart.\<close>

fun json_eq :: "pyval \<Rightarrow> pyval \<Rightarrow> bool"
  and json_eq_list :: "pyval list \<Rightarrow> pyval list \<Rightarrow> bool"
  and json_eq_items :: "pydict \<Rightarrow> pydict \<Rightarrow> bool" where
  "json_eq (VList xs) b = (case b of VList ys \<Rightarrow> json_eq_list xs ys | _ \<Rightarrow> False)"
| "json_eq (VDict d) b = (case b of VDict e \<Rightarrow> length d = length e \<and> json_eq_items d e | _ \<Rightarrow> False)"
| "json_eq a b = (a = b)"
| "json_eq_list [] ys = (ys = [])"
| "json_eq_list (x # xs) ys = (case ys of [] \<Rightarrow> False | z # zs \<Rightarrow> json_eq x z \<and> json_eq_list xs zs)"
| "json_eq_items [] e = True"
| "json_eq_items ((k, v) # d) e = (case map_of e k of None \<Rightarrow> False | Some w \<Rightarrow> json_eq v w \<and> json_eq_items d e)"

lemma json_eq_py_eq:
  "json_eq a b \<Longrightarrow> py_eq a b"
  "json_eq_list xs ys \<Longrightarrow> eq_list xs ys"
  "json_eq_items d e \<Longrightarrow> eq_items d e"
  by (induction a b and xs ys and d e rule: json_eq_json_eq_list_json_eq_items.induct)
    (auto split: pyval.splits list.splits option.splits simp: py_eq.simps)

section \<open>Lists of strings\<close>

text \<open>\<open>all(isinstance(x, str) for x in xs)\<close> and the strings themselves.\<close>

definition all_str :: "pyval list \<Rightarrow> bool" where
  "all_str xs = list_all is_str xs"

fun strs_of :: "pyval list \<Rightarrow> string list" where
  "strs_of [] = []"
| "strs_of (VStr s # xs) = s # strs_of xs"
| "strs_of (_ # xs) = strs_of xs"

lemma all_str_map: "all_str xs \<Longrightarrow> xs = map VStr (strs_of xs)"
  by (induction xs rule: strs_of.induct) (auto simp: all_str_def)

lemma strs_of_map [simp]: "strs_of (map VStr ss) = ss"
  by (induction ss) auto

lemma all_str_iff: "list_all is_str xs \<longleftrightarrow> (\<exists>ss. xs = map VStr ss)"
  by (induction xs) (auto simp: is_str_iff map_eq_Cons_conv Cons_eq_map_conv)

lemma py_eq_strs: "py_eq v (VList (map VStr xs)) \<longleftrightarrow> v = VList (map VStr xs)"
proof
  assume "py_eq v (VList (map VStr xs))"
  then obtain ys where y: "v = VList ys" "list_all2 py_eq ys (map VStr xs)" by (cases v) (auto simp: py_eq_VList py_eq_VDict)
  from y(2) have "ys = map VStr xs" by (induction ys arbitrary: xs) (auto simp: list_all2_Cons1 map_eq_Cons_conv)
  with y(1) show "v = VList (map VStr xs)" by simp
qed (auto intro: py_eq_refl)

lemma set_strs_of: "s \<in> set (strs_of xs) \<longleftrightarrow> VStr s \<in> set xs"
  by (induction xs rule: strs_of.induct) auto

text \<open>\<open>len(set(xs))\<close> of hashable strings, \<open>sorted(set(xs))\<close>.\<close>

definition sorted_set :: "string list \<Rightarrow> string list" where
  "sorted_set xs = sort (remdups xs)"

lemma sorted_set_facts: "sorted (sorted_set xs)" "distinct (sorted_set xs)" "set (sorted_set xs) = set xs"
  by (simp_all add: sorted_set_def)

section \<open>Printing\<close>

text \<open>\<open>repr(v)\<close> and \<open>str(v)\<close>; how a float is printed is the argument \<open>fl\<close>.\<close>

fun py_repr :: "(rat \<Rightarrow> string) \<Rightarrow> pyval \<Rightarrow> string" where
  "py_repr fl VNone = ''None''"
| "py_repr fl (VBool b) = (if b then ''True'' else ''False'')"
| "py_repr fl (VInt n) = str_int n"
| "py_repr fl (VFloat r) = fl r"
| "py_repr fl (VStr s) = repr_str s"
| "py_repr fl (VList xs) = msg [''['', join '', '' (map (py_repr fl) xs), '']'']"
| "py_repr fl (VDict d) = msg [''{'', join '', '' (map (\<lambda>(k, v). msg [repr_str k, '': '', py_repr fl v]) d), ''}'']"

definition py_str :: "(rat \<Rightarrow> string) \<Rightarrow> pyval \<Rightarrow> string" where
  "py_str fl v = (case v of VStr s \<Rightarrow> s | _ \<Rightarrow> py_repr fl v)"

definition repr_strs :: "string list \<Rightarrow> string" where
  "repr_strs xs = msg [''['', join '', '' (map repr_str xs), '']'']"

end
