(* ===== verification/LockClosure.thy ===== *)
theory LockClosure
  imports PyVal "HOL-Library.Product_Lexorder"
begin

text \<open>
  \<open>scripts/rust-port/lock_closure.py\<close>: the packages of a \<open>Cargo.lock\<close> that a set of workspace
  crates can resolve to. A package table is the record of the fields the code reads, of the
  types Cargo writes (a missing \<open>version\<close> is a \<open>KeyError\<close> where it is read); the edges are the
  strings of its \<open>dependencies\<close>. The work list is a stack, as the code pops from its end.

  \<open>reach\<close> is the specification: the least set that holds the root packages and is closed under
  the edges that resolve to exactly one package. The main lemma is that the loop computes it.
\<close>

record lock_pkg =
  pname :: string
  pversion :: "string option"
  psource :: "string option"
  pdeps :: "string list"

type_synonym pkg_key = "string \<times> string \<times> string option"

section \<open>The code\<close>

text \<open>\<open>edge.split(" ", 2)\<close>: at most three parts, the last one unsplit.\<close>

fun split_max :: "nat \<Rightarrow> char \<Rightarrow> string \<Rightarrow> string list" where
  "split_max n c [] = [[]]"
| "split_max 0 c s = [s]"
| "split_max (Suc n) c (x # xs) =
     (if x = c then [] # split_max n c xs
      else (case split_max (Suc n) c xs of [] \<Rightarrow> [[x]] | p # ps \<Rightarrow> (x # p) # ps))"

definition parse_edge :: "string \<Rightarrow> string \<times> string option \<times> string option" where
  "parse_edge edge = (let parts = split_max 2 (CHR '' '') edge in
     (parts ! 0,
      if length parts > 1 then Some (parts ! 1) else None,
      if length parts > 2 then Some (butlast (tl (parts ! 2))) else None))"

text \<open>\<open>by_name.setdefault(package["name"], []).append(package)\<close>\<close>

fun build_by_name :: "lock_pkg list \<Rightarrow> (string \<Rightarrow> lock_pkg list) \<Rightarrow> (string \<Rightarrow> lock_pkg list)" where
  "build_by_name [] m = m"
| "build_by_name (p # ps) m = build_by_name ps (m(pname p := m (pname p) @ [p]))"

definition by_name :: "lock_pkg list \<Rightarrow> string \<Rightarrow> lock_pkg list" where
  "by_name ps = build_by_name ps (\<lambda>_. [])"

definition edge_matches :: "string option \<Rightarrow> string option \<Rightarrow> lock_pkg \<Rightarrow> bool res" where
  "edge_matches version source p =
     (case version of
        None \<Rightarrow> Inr (source = None \<or> psource p = source)
      | Some v \<Rightarrow> (case pversion p of
          None \<Rightarrow> Inl (KeyError ''version'')
        | Some w \<Rightarrow> Inr (w = v \<and> (source = None \<or> psource p = source))))"

definition resolve :: "lock_pkg list \<Rightarrow> string \<Rightarrow> lock_pkg res" where
  "resolve ps edge =
     (case parse_edge edge of (name, version, source) \<Rightarrow>
      bind_res (filter_res (edge_matches version source) (by_name ps name)) (\<lambda>matches.
        case matches of
          [p] \<Rightarrow> Inr p
        | _ \<Rightarrow> Inl (ValueError (msg [''Cargo.lock dependency edge '', edge,
                 '' does not resolve to exactly one package'']))))"

definition root_package :: "lock_pkg list \<Rightarrow> string \<Rightarrow> lock_pkg res" where
  "root_package ps crate =
     (case filter (\<lambda>p. psource p = None) (by_name ps crate) of
        [p] \<Rightarrow> Inr p
      | _ \<Rightarrow> Inl (ValueError (msg [''workspace crate '', crate,
               '' is not exactly one local Cargo.lock package''])))"

definition key_of :: "lock_pkg \<Rightarrow> pkg_key res" where
  "key_of p = (case pversion p of
     None \<Rightarrow> Inl (KeyError ''version'') | Some v \<Rightarrow> Inr (pname p, v, psource p))"

text \<open>The \<open>while pending\<close> loop; \<open>seen\<close> in insertion order.\<close>

definition ident :: "lock_pkg \<Rightarrow> string \<times> string option \<times> string option" where
  "ident p = (pname p, pversion p, psource p)"

text \<open>The packages among \<open>qs\<close> that no key of \<open>seen\<close> covers, by identity: what is left to do.\<close>

definition key_ident :: "pkg_key \<Rightarrow> string \<times> string option \<times> string option" where
  "key_ident k = (fst k, Some (fst (snd k)), snd (snd k))"

definition todo :: "lock_pkg list \<Rightarrow> (pkg_key \<times> lock_pkg) list \<Rightarrow> nat" where
  "todo qs seen = card (ident ` set qs - (\<lambda>e. key_ident (fst e)) ` set seen)"

lemma key_of_ident: "key_of p = Inr k \<Longrightarrow> ident p = key_ident k"
  by (auto simp: key_of_def ident_def key_ident_def split: option.splits)

lemma key_ident_inj: "key_ident k = key_ident l \<longleftrightarrow> k = l"
  by (auto simp: key_ident_def prod_eq_iff)

lemma case_single: "(case xs of [p] \<Rightarrow> Inr p | _ \<Rightarrow> Inl e) = Inr q \<longleftrightarrow> xs = [q]"
  by (auto split: list.splits)

lemma filter_res_subset: "filter_res f xs = Inr ys \<Longrightarrow> set ys \<subseteq> set xs"
  by (induction xs arbitrary: ys) (auto simp: bind_res_eq_Inr split: if_splits)

lemma build_by_name_eq: "build_by_name ps m n = m n @ filter (\<lambda>p. pname p = n) ps"
  by (induction ps arbitrary: m) auto

lemma by_name_eq: "by_name ps n = filter (\<lambda>p. pname p = n) ps"
  by (simp add: by_name_def build_by_name_eq)

lemma resolve_Inr:
  "resolve ps e = Inr p \<longleftrightarrow> (\<exists>n v s. parse_edge e = (n, v, s) \<and>
     filter_res (edge_matches v s) (filter (\<lambda>p. pname p = n) ps) = Inr [p])"
  by (auto simp: resolve_def bind_res_eq_Inr by_name_eq case_single split: prod.splits)

lemma resolve_in: "resolve ps e = Inr p \<Longrightarrow> p \<in> set ps"
  by (auto simp: resolve_Inr dest!: filter_res_subset)

lemma map_resolve_in: "map_res (resolve ps) es = Inr qs \<Longrightarrow> set qs \<subseteq> set ps"
  by (induction es arbitrary: qs) (auto simp: bind_res_eq_Inr dest: resolve_in)

lemma todo_mono: "set qs \<subseteq> set rs \<Longrightarrow> todo qs seen \<le> todo rs seen"
  unfolding todo_def by (rule card_mono) auto

lemma todo_less:
  assumes k: "key_of p = Inr k" and new: "k \<notin> fst ` set seen" and p: "p \<in> set rs"
    and sub: "set qs \<subseteq> set rs"
  shows "todo qs (seen @ [(k, p)]) < todo rs seen"
  unfolding todo_def
proof (rule psubset_card_mono)
  let ?old = "(\<lambda>e. key_ident (fst e)) ` set seen"
  show "finite (ident ` set rs - ?old)" by simp
  have "ident p \<notin> ?old" using new by (force simp: key_of_ident [OF k] key_ident_inj)
  moreover have "(\<lambda>e. key_ident (fst e)) ` set (seen @ [(k, p)]) = insert (ident p) ?old"
    by (simp add: key_of_ident [OF k])
  ultimately show "ident ` set qs - (\<lambda>e. key_ident (fst e)) ` set (seen @ [(k, p)])
      \<subset> ident ` set rs - ?old"
    using sub p by auto
qed

function closure_loop ::
  "lock_pkg list \<Rightarrow> lock_pkg list \<Rightarrow> (pkg_key \<times> lock_pkg) list \<Rightarrow> (pkg_key \<times> lock_pkg) list res" where
  "closure_loop ps pending seen =
     (if pending = [] then Inr seen
      else let package = last pending; rest = butlast pending in
        bind_res (key_of package) (\<lambda>key.
          if key \<in> fst ` set seen then closure_loop ps rest seen
          else bind_res (map_res (resolve ps) (pdeps package)) (\<lambda>new.
            closure_loop ps (rest @ new) (seen @ [(key, package)]))))"
  by pat_completeness auto
termination
proof (relation "measures [\<lambda>(ps, pending, seen). todo (ps @ pending) seen, \<lambda>(ps, pending, seen). length pending]",
    goal_cases)
  case 1
  show ?case by simp
next
  case (2 ps pending seen package rest key)
  have "set (ps @ rest) \<subseteq> set (ps @ pending)" using 2(3) by (auto dest: in_set_butlastD)
  from todo_mono [OF this, of seen] 2(1,3) show ?case by (auto simp: le_less)
next
  case (3 ps pending seen package rest key new)
  have "set (ps @ rest @ new) \<subseteq> set (ps @ pending)"
    using 3(3) map_resolve_in [OF 3(6)] by (auto dest: in_set_butlastD)
  moreover have "package \<in> set (ps @ pending)" using 3(1,2) by simp
  ultimately have "todo (ps @ rest @ new) (seen @ [(key, package)]) < todo (ps @ pending) seen"
    using todo_less [OF 3(4,5)] by blast
  then show ?case by simp
qed

declare closure_loop.simps [simp del]

definition sort_rank :: "pkg_key \<Rightarrow> string \<times> string \<times> string" where
  "sort_rank k = (fst k, fst (snd k), case snd (snd k) of None \<Rightarrow> [] | Some s \<Rightarrow> s)"

text \<open>\<open>closure_packages\<close> on the package list of the parsed lock file (\<open>None\<close>: \<open>package\<close> is no
  list).\<close>

definition closure_packages :: "lock_pkg list option \<Rightarrow> string list \<Rightarrow> lock_pkg list res" where
  "closure_packages packages roots =
     (case packages of
        None \<Rightarrow> Inl (ValueError ''Cargo.lock has no package list'')
      | Some ps \<Rightarrow>
          if ps = [] then Inl (ValueError ''Cargo.lock has no package list'')
          else bind_res (map_res (root_package ps) roots) (\<lambda>pending.
            bind_res (closure_loop ps pending []) (\<lambda>seen.
              Inr (map snd (sort_key (\<lambda>e. sort_rank (fst e)) seen)))))"

section \<open>The specification: reachable packages\<close>

inductive reach :: "lock_pkg list \<Rightarrow> lock_pkg set \<Rightarrow> lock_pkg \<Rightarrow> bool"
  for ps :: "lock_pkg list" and start :: "lock_pkg set" where
  start: "p \<in> start \<Longrightarrow> reach ps start p"
| edge: "reach ps start p \<Longrightarrow> e \<in> set (pdeps p) \<Longrightarrow> resolve ps e = Inr q \<Longrightarrow> reach ps start q"

lemma reach_mono: "reach ps A p \<Longrightarrow> A \<subseteq> B \<Longrightarrow> reach ps B p"
  by (induction rule: reach.induct) (auto intro: reach.intros)

text \<open>
  A package an edge resolves to is the only entry of the lock file with its name, version and
  source; so is a root. Hence a key of \<open>seen\<close> stands for one package.
\<close>

definition sole :: "lock_pkg list \<Rightarrow> lock_pkg \<Rightarrow> bool" where
  "sole ps p = (p \<in> set ps \<and> (\<forall>q \<in> set ps. ident q = ident p \<longrightarrow> q = p))"

lemma filter_res_Inr: "filter_res f xs = Inr ys \<Longrightarrow> x \<in> set xs \<Longrightarrow> \<exists>b. f x = Inr b \<and> (b \<longrightarrow> x \<in> set ys)"
  by (induction xs arbitrary: ys) (auto simp: bind_res_eq_Inr split: if_splits)

lemma filter_res_mem: "filter_res f xs = Inr ys \<Longrightarrow> x \<in> set ys \<Longrightarrow> f x = Inr True"
  by (induction xs arbitrary: ys) (auto simp: bind_res_eq_Inr split: if_splits)

lemma edge_matches_ident: "ident p = ident q \<Longrightarrow> edge_matches v s p = edge_matches v s q"
  by (auto simp: ident_def edge_matches_def split: option.splits)

lemma resolve_sole: "resolve ps e = Inr p \<Longrightarrow> sole ps p"
proof -
  assume r: "resolve ps e = Inr p"
  then obtain n v s where f: "filter_res (edge_matches v s) (filter (\<lambda>p. pname p = n) ps) = Inr [p]"
    by (auto simp: resolve_Inr)
  have n: "pname p = n" using filter_res_subset [OF f] by simp
  have m: "edge_matches v s p = Inr True" using filter_res_mem [OF f] by simp
  have "q = p" if "q \<in> set ps" "ident q = ident p" for q
    using filter_res_Inr [OF f, of q] that n m edge_matches_ident [of q p v s] by (auto simp: ident_def)
  with resolve_in [OF r] show "sole ps p" by (simp add: sole_def)
qed

lemma root_sole: "root_package ps r = Inr p \<Longrightarrow> sole ps p"
proof -
  assume r: "root_package ps r = Inr p"
  then have f: "filter (\<lambda>p. psource p = None) (filter (\<lambda>p. pname p = r) ps) = [p]"
    by (auto simp: root_package_def by_name_eq case_single)
  have pin: "p \<in> set (filter (\<lambda>p. psource p = None) (filter (\<lambda>p. pname p = r) ps))"
    unfolding f by simp
  have "q \<in> set [p]" if "q \<in> set ps" "ident q = ident p" for q
  proof -
    from pin that have "q \<in> set (filter (\<lambda>p. psource p = None) (filter (\<lambda>p. pname p = r) ps))"
      by (simp add: ident_def)
    then show ?thesis unfolding f .
  qed
  moreover have "p \<in> set ps" using pin by simp
  ultimately show "sole ps p" by (simp add: sole_def)
qed

lemma reach_sole: "reach ps A p \<Longrightarrow> (\<And>p. p \<in> A \<Longrightarrow> sole ps p) \<Longrightarrow> sole ps p"
  by (induction rule: reach.induct) (auto dest: resolve_sole)

section \<open>The loop computes the reachable packages\<close>

text \<open>
  The invariant of the loop, for the start set \<open>A\<close>: what is pending or seen is reachable; the
  start set is pending or seen; every edge of a seen package resolves to a package that is
  pending or seen; keys in \<open>seen\<close> are those of their packages, and distinct.
\<close>

definition loop_inv ::
  "lock_pkg list \<Rightarrow> lock_pkg set \<Rightarrow> lock_pkg list \<Rightarrow> (pkg_key \<times> lock_pkg) list \<Rightarrow> bool" where
  "loop_inv ps A pending seen \<longleftrightarrow>
     (\<forall>p \<in> set pending \<union> snd ` set seen. reach ps A p) \<and>
     A \<subseteq> set pending \<union> snd ` set seen \<and>
     (\<forall>p \<in> snd ` set seen. \<forall>e \<in> set (pdeps p).
        \<exists>q. resolve ps e = Inr q \<and> q \<in> set pending \<union> snd ` set seen) \<and>
     (\<forall>k p. (k, p) \<in> set seen \<longrightarrow> key_of p = Inr k) \<and> distinct (map fst seen)"

lemma loop_inv_parts:
  assumes "loop_inv ps A pending seen"
  shows "\<forall>p \<in> set pending \<union> snd ` set seen. reach ps A p"
    "A \<subseteq> set pending \<union> snd ` set seen"
    "\<forall>p \<in> snd ` set seen. \<forall>e \<in> set (pdeps p).
        \<exists>q. resolve ps e = Inr q \<and> q \<in> set pending \<union> snd ` set seen"
    "\<forall>k p. (k, p) \<in> set seen \<longrightarrow> key_of p = Inr k"
    "distinct (map fst seen)"
  using assms unfolding loop_inv_def by - ((elim conjE, assumption)+)

lemma loop_inv_reach:
  assumes "loop_inv ps A pending seen"
  shows "p \<in> set pending \<Longrightarrow> reach ps A p" "(k, p) \<in> set seen \<Longrightarrow> reach ps A p"
  using loop_inv_parts(1) [OF assms] by (blast, metis UnI2 imageI snd_conv)

lemma loop_inv_key: "loop_inv ps A pending seen \<Longrightarrow> (k, p) \<in> set seen \<Longrightarrow> key_of p = Inr k"
  using loop_inv_parts(4) by blast

lemma same_key_sole: "sole ps p \<Longrightarrow> sole ps q \<Longrightarrow> key_of p = Inr k \<Longrightarrow> key_of q = Inr k \<Longrightarrow> p = q"
  using key_of_ident [of p k] key_of_ident [of q k] by (auto simp: sole_def)

lemma map_res_resolve:
  "map_res (resolve ps) es = Inr qs \<Longrightarrow> e \<in> set es \<Longrightarrow> \<exists>q \<in> set qs. resolve ps e = Inr q"
  by (induction es arbitrary: qs) (auto simp: bind_res_eq_Inr)

lemma map_res_resolve_rev:
  "map_res (resolve ps) es = Inr qs \<Longrightarrow> q \<in> set qs \<Longrightarrow> \<exists>e \<in> set es. resolve ps e = Inr q"
  by (induction es arbitrary: qs) (auto simp: bind_res_eq_Inr)

lemma loop_inv_skip:
  assumes inv: "loop_inv ps A pending seen" and ne: "pending \<noteq> []"
    and k: "key_of (last pending) = Inr k" and mem: "k \<in> fst ` set seen"
    and A: "\<And>p. p \<in> A \<Longrightarrow> sole ps p"
  shows "loop_inv ps A (butlast pending) seen"
proof -
  obtain q where q: "(k, q) \<in> set seen" using mem by auto
  have reach: "reach ps A (last pending)" "reach ps A q"
    using loop_inv_reach [OF inv] q ne by auto
  have "key_of q = Inr k" using loop_inv_key [OF inv q] .
  then have "last pending = q" using same_key_sole [OF reach_sole reach_sole] reach A k by metis
  moreover have "set pending = insert (last pending) (set (butlast pending))"
    using ne by (metis append_butlast_last_id insert_is_Un list.simps(15) set_append sup_commute empty_set)
  ultimately have "set pending \<union> snd ` set seen = set (butlast pending) \<union> snd ` set seen"
    using q by force
  with inv show ?thesis by (simp add: loop_inv_def)
qed

lemma loop_inv_visit:
  assumes inv: "loop_inv ps A pending seen" and ne: "pending \<noteq> []"
    and k: "key_of (last pending) = Inr k" and new: "k \<notin> fst ` set seen"
    and deps: "map_res (resolve ps) (pdeps (last pending)) = Inr qs"
  shows "loop_inv ps A (butlast pending @ qs) (seen @ [(k, last pending)])"
proof -
  let ?p = "last pending"
  have set_eq: "set pending = insert ?p (set (butlast pending))"
    using ne by (metis append_butlast_last_id insert_is_Un list.simps(15) set_append sup_commute empty_set)
  have p: "reach ps A ?p" using inv ne by (simp add: loop_inv_def)
  have qs: "reach ps A q" if "q \<in> set qs" for q
    using map_res_resolve_rev [OF deps that] p by (auto intro: reach.edge)
  have es: "\<exists>q. resolve ps e = Inr q \<and> q \<in> set qs" if "e \<in> set (pdeps ?p)" for e
    using map_res_resolve [OF deps that] by blast
  have cover: "set (butlast pending @ qs) \<union> snd ` set (seen @ [(k, ?p)]) = set pending \<union> snd ` set seen \<union> set qs"
    unfolding set_eq by auto
  show ?thesis
    unfolding loop_inv_def cover
  proof (intro conjI)
    show "\<forall>p \<in> set pending \<union> snd ` set seen \<union> set qs. reach ps A p"
      using inv qs by (auto simp: loop_inv_def)
    show "A \<subseteq> set pending \<union> snd ` set seen \<union> set qs" using inv by (auto simp: loop_inv_def)
    show "\<forall>p \<in> snd ` set (seen @ [(k, ?p)]). \<forall>e \<in> set (pdeps p).
        \<exists>q. resolve ps e = Inr q \<and> q \<in> set pending \<union> snd ` set seen \<union> set qs"
    proof (intro ballI)
      fix r e
      assume r: "r \<in> snd ` set (seen @ [(k, ?p)])" and e: "e \<in> set (pdeps r)"
      show "\<exists>q. resolve ps e = Inr q \<and> q \<in> set pending \<union> snd ` set seen \<union> set qs"
      proof (cases "r = ?p")
        case True
        with es e show ?thesis by blast
      next
        case False
        with r have "r \<in> snd ` set seen" by auto
        with loop_inv_parts(3) [OF inv] e show ?thesis by blast
      qed
    qed
    show "\<forall>l q. (l, q) \<in> set (seen @ [(k, ?p)]) \<longrightarrow> key_of q = Inr l"
      using loop_inv_key [OF inv] k by auto
    show "distinct (map fst (seen @ [(k, ?p)]))" using inv new by (simp add: loop_inv_def)
  qed
qed

lemma closure_loop_inv:
  "closure_loop ps pending seen = Inr out \<Longrightarrow> loop_inv ps A pending seen \<Longrightarrow>
     (\<And>p. p \<in> A \<Longrightarrow> sole ps p) \<Longrightarrow> loop_inv ps A [] out"
proof (induction ps pending seen rule: closure_loop.induct)
  case (1 ps pending seen)
  show ?case
  proof (cases "pending = []")
    case True
    with 1 show ?thesis by (simp add: closure_loop.simps)
  next
    case False
    with 1(3) obtain k where k: "key_of (last pending) = Inr k"
      by (subst (asm) closure_loop.simps) (auto simp: Let_def bind_res_eq_Inr)
    show ?thesis
    proof (cases "k \<in> fst ` set seen")
      case True
      have "closure_loop ps (butlast pending) seen = Inr out"
        using 1(3) False True k by (subst (asm) closure_loop.simps) (simp add: Let_def)
      from 1(1) [OF False refl refl k True this loop_inv_skip [OF 1(4) False k True 1(5)] 1(5)]
      show ?thesis by blast
    next
      case new: False
      from 1(3) False new k obtain qs where qs: "map_res (resolve ps) (pdeps (last pending)) = Inr qs"
        and run: "closure_loop ps (butlast pending @ qs) (seen @ [(k, last pending)]) = Inr out"
        by (subst (asm) closure_loop.simps) (auto simp: Let_def bind_res_eq_Inr)
      from 1(2) [OF False refl refl k new qs run loop_inv_visit [OF 1(4) False k new qs] 1(5)]
      show ?thesis by blast
    qed
  qed
qed

lemma closed_reach:
  assumes "loop_inv ps A [] out" and "reach ps A p"
  shows "p \<in> snd ` set out"
  using assms(2)
proof (induction rule: reach.induct)
  case (start p)
  with assms(1) show ?case by (auto simp: loop_inv_def)
next
  case (edge p e q)
  from assms(1) edge.IH edge.hyps(2) obtain q' where "resolve ps e = Inr q'" "q' \<in> snd ` set out"
    unfolding loop_inv_def by fastforce
  with edge.hyps(3) show ?case by simp
qed

lemma closure_packages_Inr:
  assumes "closure_packages packages roots = Inr out"
  obtains ps pending seen where "packages = Some ps" "map_res (root_package ps) roots = Inr pending"
    "closure_loop ps pending [] = Inr seen" "out = map snd (sort_key (\<lambda>e. sort_rank (fst e)) seen)"
  using assms by (auto simp: closure_packages_def bind_res_eq_Inr split: option.splits if_splits)

lemma roots_sole: "map_res (root_package ps) roots = Inr pending \<Longrightarrow> p \<in> set pending \<Longrightarrow> sole ps p"
  by (induction roots arbitrary: pending) (auto simp: bind_res_eq_Inr dest: root_sole)

lemma loop_result:
  assumes "map_res (root_package ps) roots = Inr pending" and "closure_loop ps pending [] = Inr seen"
  shows "loop_inv ps (set pending) [] seen"
proof (rule closure_loop_inv [OF assms(2)])
  show "loop_inv ps (set pending) pending []" by (auto simp: loop_inv_def intro: reach.start)
qed (use roots_sole [OF assms(1)] in blast)

lemma loop_result_set:
  assumes "map_res (root_package ps) roots = Inr pending" and "closure_loop ps pending [] = Inr seen"
  shows "snd ` set seen = {p. reach ps (set pending) p}"
proof
  show "{p. reach ps (set pending) p} \<subseteq> snd ` set seen"
    using closed_reach [OF loop_result [OF assms]] by blast
  show "snd ` set seen \<subseteq> {p. reach ps (set pending) p}"
    using loop_inv_reach(2) [OF loop_result [OF assms]] by auto
qed

section \<open>When the loop returns\<close>

text \<open>A package whose version is there and whose edges all resolve.\<close>

definition resolvable :: "lock_pkg list \<Rightarrow> lock_pkg \<Rightarrow> bool" where
  "resolvable ps p = (pversion p \<noteq> None \<and> (\<forall>e \<in> set (pdeps p). \<exists>q. resolve ps e = Inr q))"

lemma key_of_Inr: "(\<exists>k. key_of p = Inr k) \<longleftrightarrow> pversion p \<noteq> None"
  by (auto simp: key_of_def split: option.splits)

lemma map_res_total: "\<forall>x \<in> set xs. \<exists>y. f x = Inr y \<Longrightarrow> \<exists>ys. map_res f xs = Inr ys"
proof (induction xs)
  case (Cons x xs)
  then obtain y ys where "f x = Inr y" "map_res f xs = Inr ys" by auto
  then show ?case by simp
qed simp

lemma closure_loop_total:
  "(\<And>p. reach ps A p \<Longrightarrow> resolvable ps p) \<Longrightarrow> (\<And>p. p \<in> set pending \<Longrightarrow> reach ps A p) \<Longrightarrow>
     \<exists>out. closure_loop ps pending seen = Inr out"
proof (induction ps pending seen rule: closure_loop.induct)
  case (1 ps pending seen)
  show ?case
  proof (cases "pending = []")
    case True
    then show ?thesis by (simp add: closure_loop.simps)
  next
    case False
    then have last: "reach ps A (last pending)" using 1(4) by simp
    then have good: "resolvable ps (last pending)" using 1(3) by simp
    then obtain k where k: "key_of (last pending) = Inr k" using key_of_Inr [of "last pending"] unfolding resolvable_def by blast
    obtain qs where qs: "map_res (resolve ps) (pdeps (last pending)) = Inr qs"
      using good map_res_total [of "pdeps (last pending)" "resolve ps"] by (auto simp: resolvable_def)
    show ?thesis
    proof (cases "k \<in> fst ` set seen")
      case True
      have "\<exists>out. closure_loop ps (butlast pending) seen = Inr out"
        using 1(1) [OF False refl refl k True] 1(3,4) by (meson in_set_butlastD)
      with False True k show ?thesis by (subst closure_loop.simps) (simp add: Let_def)
    next
      case new: False
      have "reach ps A q" if "q \<in> set (butlast pending @ qs)" for q
        using that 1(4) map_res_resolve_rev [OF qs] last
        by (auto dest: in_set_butlastD intro: reach.edge)
      then have "\<exists>out. closure_loop ps (butlast pending @ qs) (seen @ [(k, last pending)]) = Inr out"
        using 1(2) [OF False refl refl k new qs] 1(3) by blast
      with False new k qs show ?thesis by (subst closure_loop.simps) (simp add: Let_def)
    qed
  qed
qed

text \<open>The output lists every package once, in the order of \<open>sort_rank\<close>.\<close>

definition rank_of :: "lock_pkg \<Rightarrow> string \<times> string \<times> string" where
  "rank_of p = (pname p, case pversion p of None \<Rightarrow> [] | Some v \<Rightarrow> v, case psource p of None \<Rightarrow> [] | Some s \<Rightarrow> s)"

lemma rank_of_key: "key_of p = Inr k \<Longrightarrow> sort_rank k = rank_of p"
  by (auto simp: key_of_def sort_rank_def rank_of_def split: option.splits)

lemma seen_inj: "loop_inv ps A [] seen \<Longrightarrow> inj_on snd (set seen)"
proof (rule inj_onI)
  fix x y
  assume "loop_inv ps A [] seen" "x \<in> set seen" "y \<in> set seen" "snd x = snd y"
  then show "x = y" using loop_inv_key by (metis prod.collapse sum.inject(2))
qed

lemma output_shape:
  assumes inv: "loop_inv ps A [] seen" and out: "out = map snd (sort_key (\<lambda>e. sort_rank (fst e)) seen)"
  shows "set out = snd ` set seen" "distinct out" "sorted (map rank_of out)"
proof -
  show "set out = snd ` set seen" by (simp add: out)
  have "distinct seen" using loop_inv_parts(5) [OF inv] by (simp add: distinct_map)
  then show "distinct out" unfolding out using seen_inj [OF inv] by (simp add: distinct_map)
  have "map rank_of out = map (\<lambda>e. sort_rank (fst e)) (sort_key (\<lambda>e. sort_rank (fst e)) seen)"
    unfolding out map_map using loop_inv_key [OF inv, of "fst e" "snd e" for e]
    by (intro map_cong refl) (simp, metis rank_of_key)
  then show "sorted (map rank_of out)" by (simp only: sorted_sort_key)
qed

lemma closure_packages_set:
  assumes "closure_packages (Some ps) roots = Inr out"
  shows "\<exists>start. map_res (root_package ps) roots = Inr start \<and>
     set out = {p. reach ps (set start) p} \<and> distinct out \<and> sorted (map rank_of out)"
proof -
  from assms obtain start seen where s: "map_res (root_package ps) roots = Inr start"
    and l: "closure_loop ps start [] = Inr seen" and o: "out = map snd (sort_key (\<lambda>e. sort_rank (fst e)) seen)"
    by (auto elim: closure_packages_Inr)
  from output_shape [OF loop_result [OF s l] o] loop_result_set [OF s l] s show ?thesis by simp
qed

lemma map_res_set: "map_res f xs = Inr ys \<Longrightarrow> set ys = {y. \<exists>x \<in> set xs. f x = Inr y}"
  by (induction xs arbitrary: ys) (auto simp: bind_res_eq_Inr)

lemma closure_output_ranks:
  assumes "closure_packages (Some ps) roots = Inr out" and "\<forall>p \<in> set ps. psource p \<noteq> Some []"
  shows "inj_on rank_of (set out)"
proof (rule inj_onI)
  from assms(1) obtain start seen where s: "map_res (root_package ps) roots = Inr start"
    and l: "closure_loop ps start [] = Inr seen" and o: "out = map snd (sort_key (\<lambda>e. sort_rank (fst e)) seen)"
    by (auto elim: closure_packages_Inr)
  note inv = loop_result [OF s l]
  have good: "sole ps p \<and> pversion p \<noteq> None" if "p \<in> set out" for p
  proof -
    from that output_shape(1) [OF inv o] obtain k where "(k, p) \<in> set seen" by auto
    with loop_inv_reach(2) [OF inv] loop_inv_key [OF inv] roots_sole [OF s] key_of_Inr [of p]
    show ?thesis by (metis reach_sole)
  qed
  fix p q
  assume "p \<in> set out" "q \<in> set out" and eq: "rank_of p = rank_of q"
  then have g: "sole ps p" "sole ps q" "pversion p \<noteq> None" "pversion q \<noteq> None" using good by auto
  then have "psource p \<noteq> Some []" "psource q \<noteq> Some []" using assms(2) by (auto simp: sole_def)
  then have "ident p = ident q" using eq g(3,4) by (auto simp: rank_of_def ident_def split: option.splits)
  with g(1,2) show "p = q" by (auto simp: sole_def)
qed

section \<open>Properties\<close>

text \<open>C18: What \<open>closure_packages\<close> returns is exactly the set of packages reachable from the local
  packages of the named crates along dependency edges, each once, in the order of name, version
  and source.\<close>

theorem closure_packages_exact:
  assumes "closure_packages (Some ps) roots = Inr out"
  shows "\<exists>start. map_res (root_package ps) roots = Inr start \<and>
     set out = {p. reach ps (set start) p} \<and> distinct out \<and> sorted (map rank_of out)"
  by (rule closure_packages_set [OF assms])

definition demo_lock :: "lock_pkg list" where
  "demo_lock =
     [\<lparr>pname = ''app'', pversion = Some ''0'', psource = None, pdeps = [''lib 2'']\<rparr>,
      \<lparr>pname = ''lib'', pversion = Some ''1'', psource = Some ''r'', pdeps = []\<rparr>,
      \<lparr>pname = ''lib'', pversion = Some ''2'', psource = Some ''r'', pdeps = [''app'']\<rparr>]"

lemma demo_closure: "closure_packages (Some demo_lock) [''app''] = Inr [demo_lock ! 0, demo_lock ! 2]"
  by code_simp

theorem closure_packages_exact_witness:
  "set [demo_lock ! 0, demo_lock ! 2] = {p. reach demo_lock {demo_lock ! 0} p}"
proof -
  have "map_res (root_package demo_lock) [''app''] = Inr [demo_lock ! 0]" by code_simp
  with closure_packages_exact [OF demo_closure] show ?thesis by simp
qed

text \<open>C37: The closure fails closed, and never otherwise: it returns exactly when the package list
  is not empty, every named crate is one local package, and every reachable package has a version
  and edges that resolve to exactly one package each.\<close>

theorem closure_packages_returns_iff:
  "(\<exists>out. closure_packages (Some ps) roots = Inr out) \<longleftrightarrow>
     ps \<noteq> [] \<and> (\<exists>start. map_res (root_package ps) roots = Inr start \<and>
       {p. reach ps (set start) p} \<subseteq> {p. resolvable ps p})"
proof
  assume "\<exists>out. closure_packages (Some ps) roots = Inr out"
  then obtain out start seen where c: "closure_packages (Some ps) roots = Inr out"
    and s: "map_res (root_package ps) roots = Inr start" and l: "closure_loop ps start [] = Inr seen"
    by (metis closure_packages_Inr option.inject)
  note inv = loop_result [OF s l]
  have "resolvable ps p" if p: "p \<in> snd ` set seen" for p
  proof -
    obtain k where "(k, p) \<in> set seen" using p by auto
    then have "pversion p \<noteq> None" using loop_inv_key [OF inv] key_of_Inr [of p] by blast
    then show ?thesis using loop_inv_parts(3) [OF inv] p unfolding resolvable_def by blast
  qed
  with c s loop_result_set [OF s l] show "ps \<noteq> [] \<and> (\<exists>start. map_res (root_package ps) roots = Inr start \<and>
       {p. reach ps (set start) p} \<subseteq> {p. resolvable ps p})"
    by (auto simp: closure_packages_def split: if_splits)
next
  assume "ps \<noteq> [] \<and> (\<exists>start. map_res (root_package ps) roots = Inr start \<and>
       {p. reach ps (set start) p} \<subseteq> {p. resolvable ps p})"
  then obtain start where ps: "ps \<noteq> []" and s: "map_res (root_package ps) roots = Inr start"
    and r: "\<And>p. reach ps (set start) p \<Longrightarrow> resolvable ps p" by auto
  obtain seen where "closure_loop ps start [] = Inr seen"
    using closure_loop_total [where A = "set start" and pending = start and seen = "[]", OF r]
    by (auto intro: reach.start)
  with ps s show "\<exists>out. closure_packages (Some ps) roots = Inr out" by (simp add: closure_packages_def)
qed

text \<open>The closure, and so the digest computed from it, does not depend on the order in which
  the crates are named or on repetitions, provided no package records an empty source (the code
  sorts a missing source like an empty one).\<close>

theorem closure_packages_order_independent:
  assumes a: "closure_packages (Some ps) roots = Inr out"
    and b: "closure_packages (Some ps) roots' = Inr out'"
    and same: "set roots = set roots'"
    and src: "\<forall>p \<in> set ps. psource p \<noteq> Some []"
  shows "out = out'"
proof -
  obtain st where s: "map_res (root_package ps) roots = Inr st" "set out = {p. reach ps (set st) p}"
    "distinct out" "sorted (map rank_of out)" using closure_packages_set [OF a] by blast
  obtain st' where s': "map_res (root_package ps) roots' = Inr st'" "set out' = {p. reach ps (set st') p}"
    "distinct out'" "sorted (map rank_of out')" using closure_packages_set [OF b] by blast
  have "set st = set st'" using map_res_set [OF s(1)] map_res_set [OF s'(1)] same by simp
  then have eq: "set out = set out'" using s(2) s'(2) by simp
  have "inj_on rank_of (set out)"
    using closure_output_ranks [OF a src] .
  then have "inj_on rank_of (set out \<union> set out')" using eq by simp
  then show ?thesis using map_sorted_distinct_set_unique [of rank_of out out'] s(3,4) s'(3,4) eq
    by (simp add: distinct_map)
qed

theorem closure_packages_order_independent_witness:
  "closure_packages (Some demo_lock) [''app'', ''app''] = closure_packages (Some demo_lock) [''app'']"
proof -
  have e: "closure_packages (Some demo_lock) [''app'', ''app''] = Inr [demo_lock ! 0, demo_lock ! 2]"
    by code_simp
  have "\<forall>p \<in> set demo_lock. psource p \<noteq> Some []" by (simp add: demo_lock_def)
  from closure_packages_order_independent [OF e demo_closure _ this] e demo_closure show ?thesis by simp
qed

end
