(* ===== verification/MergeGate.thy ===== *)
theory MergeGate
  imports PyVal
begin

text \<open>
  \<open>scripts/rust-port/ci_merge_gate.py\<close>: the gate over the results of the CI jobs. \<open>evaluate\<close> gives
  the list of violations and \<open>gate_main\<close> the exit status, with the environment variables and the
  JSON reader as arguments.
\<close>

definition ALWAYS :: "string list" where
  "ALWAYS = [''changes'', ''test'', ''lint'', ''audit'']"

definition expected_result :: "string \<Rightarrow> string \<Rightarrow> string" where
  "expected_result full job = (if job \<in> set ALWAYS \<or> full = ''true'' then ''success'' else ''skipped'')"

definition job_problems :: "(rat \<Rightarrow> string) \<Rightarrow> string \<Rightarrow> string \<times> pyval \<Rightarrow> string list" where
  "job_problems fl full entry =
     (case entry of (job, info) \<Rightarrow>
        let result = get_if_dict info ''result''; expected = expected_result full job
        in if result \<noteq> VStr expected
           then [msg [job, '': result '', py_repr fl result, '', expected '', repr_str expected]]
           else [])"

definition evaluate :: "(rat \<Rightarrow> string) \<Rightarrow> pydict \<Rightarrow> string \<Rightarrow> string list" where
  "evaluate fl needs full =
     (if full \<notin> {''true'', ''false''}
      then [msg [''scope selector returned '', repr_str full, '', expected '', repr_str ''true'', '' or '', repr_str ''false'']]
      else let missing = sort (filter (\<lambda>j. j \<notin> set (keys needs)) ALWAYS)
        in (if missing \<noteq> []
            then [msg [''gate does not depend on required jobs: '', join '', '' missing]] else []) @
           concat (map (job_problems fl full) (sort_key fst needs)))"

text \<open>\<open>main\<close>: the exit status.\<close>

definition gate_main ::
  "(rat \<Rightarrow> string) \<Rightarrow> (string \<Rightarrow> pyval res) \<Rightarrow> (string \<Rightarrow> string option) \<Rightarrow> int res" where
  "gate_main fl json_loads env =
     (case env ''NEEDS_JSON'' of
        None \<Rightarrow> Inr 1
      | Some text \<Rightarrow>
          (case json_loads text of
             Inl e \<Rightarrow> if is_json_error e then Inr 1 else Inl e
           | Inr needs \<Rightarrow>
               (case needs of
                  VDict d \<Rightarrow>
                    if d = [] then Inr 1
                    else let full = (case env ''CI_FULL_SCOPE'' of None \<Rightarrow> [] | Some s \<Rightarrow> s)
                         in if evaluate fl d full \<noteq> [] then Inr 1 else Inr 0
                | _ \<Rightarrow> Inr 1)))"

section \<open>Properties\<close>

text \<open>The contract of the gate: the jobs every pull request runs are all there and succeeded, and
  every other job succeeded in full scope and was skipped otherwise.\<close>

definition gate_contract :: "pydict \<Rightarrow> string \<Rightarrow> bool" where
  "gate_contract needs full \<longleftrightarrow>
     (full = ''true'' \<or> full = ''false'') \<and> set ALWAYS \<subseteq> set (keys needs) \<and>
     (\<forall>job info. (job, info) \<in> set needs \<longrightarrow>
        (\<exists>d. info = VDict d \<and> dget d ''result'' =
           VStr (if job \<in> set ALWAYS \<or> full = ''true'' then ''success'' else ''skipped'')))"

lemma job_problems_Nil:
  "job_problems fl full (job, info) = [] \<longleftrightarrow>
     (\<exists>d. info = VDict d \<and> dget d ''result'' = VStr (expected_result full job))"
  by (cases info) (auto simp: job_problems_def get_if_dict_def Let_def)

lemma evaluate_Nil: "evaluate fl needs full = [] \<longleftrightarrow> gate_contract needs full"
proof -
  have "sort (filter (\<lambda>j. j \<notin> set (keys needs)) ALWAYS) = [] \<longleftrightarrow> set ALWAYS \<subseteq> set (keys needs)"
    by (metis (no_types, lifting) filter_False filter_empty_conv set_empty set_sort subset_code(1))
  moreover have "concat (map (job_problems fl full) (sort_key fst needs)) = [] \<longleftrightarrow>
      (\<forall>job info. (job, info) \<in> set needs \<longrightarrow>
        (\<exists>d. info = VDict d \<and> dget d ''result'' = VStr (expected_result full job)))"
    by (auto simp: job_problems_Nil)
  ultimately show ?thesis
    by (auto simp: evaluate_def gate_contract_def expected_result_def Let_def)
qed

text \<open>C38: The merge gate exits with status 0 exactly when the job results are a non-empty object that
  meets the contract: the always-run jobs are present and succeeded, every other job succeeded in
  full scope and was skipped in docs-only scope, and the scope itself is "true" or "false".\<close>

theorem gate_main_passes_iff:
  "gate_main fl json_loads env = Inr 0 \<longleftrightarrow>
     (\<exists>text d. env ''NEEDS_JSON'' = Some text \<and> json_loads text = Inr (VDict d) \<and> d \<noteq> [] \<and>
        gate_contract d (case env ''CI_FULL_SCOPE'' of None \<Rightarrow> [] | Some s \<Rightarrow> s))"
  by (auto simp: gate_main_def evaluate_Nil Let_def split: option.splits sum.splits pyval.splits if_splits)

end
