(* ===== verification/Regex.thy ===== *)
theory Regex
  imports PyStr
begin

text \<open>
  The regular expressions of the source as data, with the language they denote (the predicate
  \<open>accepts\<close>, one rule per construct) and an executable matcher by derivatives, \<open>fullmatch\<close>, which
  is \<open>re.fullmatch\<close>: proved to hold of exactly the strings of the language.
\<close>

section \<open>Syntax and language\<close>

text \<open>A character class is a list of inclusive ranges.\<close>

datatype regex =
    Zero
  | One
  | Cls "(char \<times> char) list"
  | Alt regex regex
  | Seq regex regex
  | Star regex

definition in_cls :: "(char \<times> char) list \<Rightarrow> char \<Rightarrow> bool" where
  "in_cls rs c = list_ex (\<lambda>(lo, hi). (of_char lo :: nat) \<le> of_char c \<and> (of_char c :: nat) \<le> of_char hi) rs"

inductive accepts :: "regex \<Rightarrow> string \<Rightarrow> bool" where
  one: "accepts One []"
| cls: "in_cls rs c \<Longrightarrow> accepts (Cls rs) [c]"
| alt_left: "accepts r s \<Longrightarrow> accepts (Alt r q) s"
| alt_right: "accepts q s \<Longrightarrow> accepts (Alt r q) s"
| seq: "accepts r s \<Longrightarrow> accepts q t \<Longrightarrow> accepts (Seq r q) (s @ t)"
| star_nil: "accepts (Star r) []"
| star_app: "accepts r (c # s) \<Longrightarrow> accepts (Star r) t \<Longrightarrow> accepts (Star r) (c # s @ t)"

inductive_cases accepts_ZeroE [elim!]: "accepts Zero s"
inductive_cases accepts_StarE: "accepts (Star r) s"

inductive_simps accepts_One [simp]: "accepts One s"
inductive_simps accepts_Cls [simp]: "accepts (Cls rs) s"
inductive_simps accepts_Alt [simp]: "accepts (Alt r q) s"
inductive_simps accepts_Seq: "accepts (Seq r q) s"
inductive_simps accepts_Star_iff: "accepts (Star r) s"

lemma accepts_Zero [simp]: "accepts Zero s \<longleftrightarrow> False"
  by auto

section \<open>The matcher\<close>

fun nullable :: "regex \<Rightarrow> bool" where
  "nullable Zero = False"
| "nullable One = True"
| "nullable (Cls rs) = False"
| "nullable (Alt r q) = (nullable r \<or> nullable q)"
| "nullable (Seq r q) = (nullable r \<and> nullable q)"
| "nullable (Star r) = True"

text \<open>Constructors that drop what cannot match, so that derivatives stay small.\<close>

definition mk_seq :: "regex \<Rightarrow> regex \<Rightarrow> regex" where
  "mk_seq r q = (case r of Zero \<Rightarrow> Zero | One \<Rightarrow> q | _ \<Rightarrow> (case q of Zero \<Rightarrow> Zero | _ \<Rightarrow> Seq r q))"

definition mk_alt :: "regex \<Rightarrow> regex \<Rightarrow> regex" where
  "mk_alt r q = (if r = Zero \<or> r = q then q else if q = Zero then r else Alt r q)"

fun after :: "char \<Rightarrow> regex \<Rightarrow> regex" where
  "after c Zero = Zero"
| "after c One = Zero"
| "after c (Cls rs) = (if in_cls rs c then One else Zero)"
| "after c (Alt r q) = mk_alt (after c r) (after c q)"
| "after c (Seq r q) =
     (if nullable r then mk_alt (mk_seq (after c r) q) (after c q) else mk_seq (after c r) q)"
| "after c (Star r) = mk_seq (after c r) (Star r)"

definition fullmatch :: "regex \<Rightarrow> string \<Rightarrow> bool" where
  "fullmatch r s = nullable (fold after s r)"

lemma accepts_mk_seq [simp]: "accepts (mk_seq r q) s \<longleftrightarrow> accepts (Seq r q) s"
  by (auto simp: mk_seq_def accepts_Seq split: regex.splits)

lemma accepts_mk_alt [simp]: "accepts (mk_alt r q) s \<longleftrightarrow> accepts (Alt r q) s"
  by (auto simp: mk_alt_def)

lemma nullable_iff: "nullable r \<longleftrightarrow> accepts r []"
  by (induction r) (auto simp: accepts_Seq intro: accepts.intros)

lemma seq_Cons:
  "accepts (Seq r q) (c # s) \<longleftrightarrow>
     (accepts r [] \<and> accepts q (c # s)) \<or> (\<exists>u v. s = u @ v \<and> accepts r (c # u) \<and> accepts q v)"
  by (auto simp: accepts_Seq Cons_eq_append_conv)

lemma seq_Cls [simp]: "accepts (Seq (Cls rs) q) s \<longleftrightarrow> (\<exists>c t. s = c # t \<and> in_cls rs c \<and> accepts q t)"
proof
  assume "accepts (Seq (Cls rs) q) s"
  then show "\<exists>c t. s = c # t \<and> in_cls rs c \<and> accepts q t" by (auto simp: accepts_Seq)
next
  assume "\<exists>c t. s = c # t \<and> in_cls rs c \<and> accepts q t"
  then obtain c t where s: "s = c # t" and c: "in_cls rs c" and t: "accepts q t" by blast
  from accepts.seq [OF accepts.cls [OF c] t] s show "accepts (Seq (Cls rs) q) s" by simp
qed

lemma star_Cons:
  "accepts (Star r) (c # s) \<longleftrightarrow> (\<exists>u v. s = u @ v \<and> accepts r (c # u) \<and> accepts (Star r) v)"
proof
  assume "accepts (Star r) (c # s)"
  then show "\<exists>u v. s = u @ v \<and> accepts r (c # u) \<and> accepts (Star r) v"
    by (subst (asm) accepts_Star_iff) auto
next
  assume "\<exists>u v. s = u @ v \<and> accepts r (c # u) \<and> accepts (Star r) v"
  then show "accepts (Star r) (c # s)" by (auto intro: accepts.star_app)
qed

lemma accepts_after: "accepts (after c r) s \<longleftrightarrow> accepts r (c # s)"
proof (induction r arbitrary: s)
  case (Seq r q)
  have "accepts (Seq (after c r) q) s \<longleftrightarrow> (\<exists>u v. s = u @ v \<and> accepts r (c # u) \<and> accepts q v)"
    by (auto simp: accepts_Seq Seq)
  then show ?case by (auto simp: seq_Cons nullable_iff Seq)
next
  case (Star r)
  have "accepts (Seq (after c r) (Star r)) s \<longleftrightarrow> (\<exists>u v. s = u @ v \<and> accepts r (c # u) \<and> accepts (Star r) v)"
    by (auto simp: accepts_Seq Star)
  then show ?case by (simp add: star_Cons)
qed auto

lemma accepts_fold_after: "accepts (fold after s r) t \<longleftrightarrow> accepts r (s @ t)"
  by (induction s arbitrary: r) (auto simp: accepts_after)

text \<open>The matcher is exact.\<close>

lemma fullmatch_iff: "fullmatch r s \<longleftrightarrow> accepts r s"
  by (simp add: fullmatch_def nullable_iff accepts_fold_after)

section \<open>Derived forms\<close>

definition Chr :: "char \<Rightarrow> regex" where
  "Chr c = Cls [(c, c)]"

definition Opt :: "regex \<Rightarrow> regex" where
  "Opt r = Alt r One"

definition Plus :: "regex \<Rightarrow> regex" where
  "Plus r = Seq r (Star r)"

fun Lit :: "string \<Rightarrow> regex" where
  "Lit [] = One"
| "Lit (c # cs) = Seq (Chr c) (Lit cs)"

fun Rep :: "nat \<Rightarrow> regex \<Rightarrow> regex" where
  "Rep 0 r = One"
| "Rep (Suc n) r = Seq r (Rep n r)"

fun Seqs :: "regex list \<Rightarrow> regex" where
  "Seqs [] = One"
| "Seqs (r # rs) = Seq r (Seqs rs)"

lemma in_cls_single [simp]: "in_cls [(c, c)] d \<longleftrightarrow> d = c"
proof -
  have "(of_char c :: nat) \<le> of_char d \<and> of_char d \<le> (of_char c :: nat) \<longleftrightarrow> (of_char d :: nat) = of_char c"
    by auto
  then show ?thesis by (auto simp: in_cls_def)
qed

lemma accepts_Chr [simp]: "accepts (Chr c) s \<longleftrightarrow> s = [c]"
  by (auto simp: Chr_def)

lemma seq_Chr [simp]: "accepts (Seq (Chr c) q) s \<longleftrightarrow> (\<exists>t. s = c # t \<and> accepts q t)"
  by (auto simp: Chr_def)

lemma accepts_Opt [simp]: "accepts (Opt r) s \<longleftrightarrow> accepts r s \<or> s = []"
  by (auto simp: Opt_def)

lemma accepts_Lit [simp]: "accepts (Lit t) s \<longleftrightarrow> s = t"
  by (induction t arbitrary: s) (auto simp: accepts_Seq)

lemma accepts_Rep_Cls: "accepts (Rep n (Cls rs)) s \<longleftrightarrow> length s = n \<and> list_all (in_cls rs) s"
proof (induction n arbitrary: s)
  case 0
  show ?case by auto
next
  case (Suc n)
  then show ?case by (cases s) auto
qed

lemma accepts_Star_Cls: "accepts (Star (Cls rs)) s \<longleftrightarrow> list_all (in_cls rs) s"
proof (induction s)
  case Nil
  show ?case by (auto intro: accepts.star_nil)
next
  case (Cons c s)
  have "accepts (Star (Cls rs)) (c # s) \<longleftrightarrow> in_cls rs c \<and> accepts (Star (Cls rs)) s"
    by (subst star_Cons) auto
  with Cons show ?case by simp
qed

lemma accepts_Plus_Cls: "accepts (Plus (Cls rs)) s \<longleftrightarrow> s \<noteq> [] \<and> list_all (in_cls rs) s"
  by (cases s) (auto simp: Plus_def accepts_Star_Cls)

section \<open>The expressions of the source\<close>

definition hex_cls :: "(char \<times> char) list" where
  "hex_cls = [(CHR ''0'', CHR ''9''), (CHR ''a'', CHR ''f'')]"

definition digit_cls :: "(char \<times> char) list" where
  "digit_cls = [(CHR ''0'', CHR ''9'')]"

text \<open>\<open>[0-9a-f]{40}\<close> and \<open>[0-9a-f]{64}\<close>\<close>

definition HEX40 :: regex where
  "HEX40 = Rep 40 (Cls hex_cls)"

definition HEX64 :: regex where
  "HEX64 = Rep 64 (Cls hex_cls)"

text \<open>\<open>0|[1-9][0-9]*\<close>\<close>

definition NUM :: regex where
  "NUM = Alt (Chr (CHR ''0'')) (Seq (Cls [(CHR ''1'', CHR ''9'')]) (Star (Cls digit_cls)))"

text \<open>\<open>(?:NUM)\.(?:NUM)\.(?:NUM)\<close>\<close>

definition CORE :: regex where
  "CORE = Seq NUM (Seq (Chr (CHR ''.'')) (Seq NUM (Seq (Chr (CHR ''.'')) NUM)))"

definition is_hex :: "string \<Rightarrow> bool" where
  "is_hex s = list_all is_lower_hex s"

lemma in_hex_cls: "in_cls hex_cls c \<longleftrightarrow> is_lower_hex c"
  by (simp add: in_cls_def hex_cls_def is_lower_hex_def between_def)

lemma in_digit_cls: "in_cls digit_cls c \<longleftrightarrow> is_digit c"
  by (simp add: in_cls_def digit_cls_def is_digit_def between_def)

lemma in_hex_cls_fun: "in_cls hex_cls = is_lower_hex"
  by (rule ext) (rule in_hex_cls)

lemma in_digit_cls_fun: "in_cls digit_cls = is_digit"
  by (rule ext) (rule in_digit_cls)

lemma fullmatch_HEX40: "fullmatch HEX40 s \<longleftrightarrow> length s = 40 \<and> is_hex s"
  by (simp add: fullmatch_iff HEX40_def accepts_Rep_Cls is_hex_def in_hex_cls_fun del: Rep.simps)

lemma fullmatch_HEX64: "fullmatch HEX64 s \<longleftrightarrow> length s = 64 \<and> is_hex s"
  by (simp add: fullmatch_iff HEX64_def accepts_Rep_Cls is_hex_def in_hex_cls_fun del: Rep.simps)

text \<open>A decimal numeral without leading zeros.\<close>

definition is_numeral :: "string \<Rightarrow> bool" where
  "is_numeral s = (s \<noteq> [] \<and> list_all is_digit s \<and> (hd s = CHR ''0'' \<longrightarrow> s = ''0''))"

lemma in_cls_1_9: "in_cls [(CHR ''1'', CHR ''9'')] c \<longleftrightarrow> is_digit c \<and> c \<noteq> CHR ''0''"
proof -
  have "c = CHR ''0'' \<longleftrightarrow> (of_char c :: nat) = of_char (CHR ''0'')"
    by (rule of_char_eq_iff [symmetric])
  then have "c = CHR ''0'' \<longleftrightarrow> (of_char c :: nat) = 48" by simp
  then show ?thesis by (auto simp: in_cls_def is_digit_def between_def)
qed

lemma accepts_NUM: "accepts NUM s \<longleftrightarrow> is_numeral s"
proof (cases s)
  case Nil
  then show ?thesis by (auto simp: NUM_def is_numeral_def accepts_Seq)
next
  case (Cons c t)
  then show ?thesis
    by (auto simp: NUM_def is_numeral_def accepts_Star_Cls in_cls_1_9 in_digit_cls_fun
        is_digit_def between_def)
qed

section \<open>The characters of a match\<close>

fun alphabet :: "regex \<Rightarrow> (char \<times> char) list" where
  "alphabet Zero = []"
| "alphabet One = []"
| "alphabet (Cls rs) = rs"
| "alphabet (Alt r q) = alphabet r @ alphabet q"
| "alphabet (Seq r q) = alphabet r @ alphabet q"
| "alphabet (Star r) = alphabet r"

lemma in_cls_append [simp]: "in_cls (rs @ qs) c \<longleftrightarrow> in_cls rs c \<or> in_cls qs c"
  by (auto simp: in_cls_def)

lemma accepts_alphabet: "accepts r s \<Longrightarrow> \<forall>c \<in> set s. in_cls (alphabet r) c"
  by (induction rule: accepts.induct) auto

end
