(* ===== verification/GoSource.thy ===== *)
theory GoSource
  imports Regex PyVal
begin

text \<open>
  The Go side of \<open>port/consumer/verify.py\<close>: the readers of \<open>go.mod\<close> (\<open>parse_go_requirements\<close>,
  \<open>go_corekit_replacements\<close>, \<open>parse_go_pins\<close>, \<open>parse_go_pin\<close>) and the scanner of Go sources
  (\<open>go_imports\<close> with its helpers). The readers work line by line with one flag of state; the
  scanner keeps the index into the text, as the code does, and its loops end because the index
  grows in every round.
\<close>

definition COREKIT_MODULE :: string where
  "COREKIT_MODULE = ''github.com/danieljustus/symaira-corekit''"

text \<open>\<open>GO_VERSION_RE\<close> and \<open>RELEASE_TAG_RE\<close>\<close>

definition version_tail_cls :: "(char \<times> char) list" where
  "version_tail_cls =
     [(CHR ''0'', CHR ''9''), (CHR ''A'', CHR ''Z''), (CHR ''a'', CHR ''z''), (CHR ''.'', CHR ''.''), (CHR ''-'', CHR ''-'')]"

definition GO_VERSION_RE :: regex where
  "GO_VERSION_RE = Seq (Chr (CHR ''v'')) (Seq CORE
     (Seq (Opt (Seq (Chr (CHR ''-'')) (Plus (Cls version_tail_cls))))
          (Opt (Seq (Chr (CHR ''+'')) (Plus (Cls version_tail_cls))))))"

definition RELEASE_TAG_RE :: regex where
  "RELEASE_TAG_RE = Seq (Chr (CHR ''v'')) CORE"

section \<open>go.mod: require directives\<close>

text \<open>One line of the loop of \<open>parse_go_requirements\<close>: the flag \<open>in_require\<close> and what is appended.\<close>

definition go_require_line :: "bool \<Rightarrow> string \<Rightarrow> bool \<times> string option list" where
  "go_require_line in_require raw_line =
     (let line = strip raw_line in
      if line = [] \<or> startswith line ''//'' then (in_require, [])
      else let line = (if contains ''//'' line then rstrip (before ''//'' line) else line) in
      if startswith line ''require ('' then (True, [])
      else if in_require \<and> line = '')'' then (False, [])
      else if \<not> (in_require \<or> startswith line ''require '') then (in_require, [])
      else let toks = split_ws (strip (removeprefix line ''require '')) in
      (case toks of
         [] \<Rightarrow> (in_require, [])
       | f # fs \<Rightarrow>
           if f \<noteq> COREKIT_MODULE then (in_require, [])
           else (in_require,
             [case fs of [] \<Rightarrow> None
              | version # _ \<Rightarrow> if version \<noteq> [] \<and> fullmatch GO_VERSION_RE version then Some version else None])))"

fun go_require_lines :: "bool \<Rightarrow> string list \<Rightarrow> string option list" where
  "go_require_lines in_require [] = []"
| "go_require_lines in_require (raw_line # raw_lines) =
     (case go_require_line in_require raw_line of (flag, found) \<Rightarrow> found @ go_require_lines flag raw_lines)"

definition parse_go_requirements :: "string \<Rightarrow> string option list" where
  "parse_go_requirements src = go_require_lines False (splitlines src)"

definition parse_go_pins :: "string \<Rightarrow> string list" where
  "parse_go_pins src = List.map_filter (\<lambda>version. version) (parse_go_requirements src)"

definition parse_go_pin :: "string \<Rightarrow> string option" where
  "parse_go_pin src = (let pins = parse_go_requirements src in
     if length pins = 1 \<and> pins ! 0 \<noteq> None then pins ! 0 else None)"

section \<open>go.mod: replace directives\<close>

definition corekit_path :: "string \<Rightarrow> bool" where
  "corekit_path field = (field = COREKIT_MODULE \<or> startswith field (COREKIT_MODULE @ ''/''))"

text \<open>\<open>fields.index("=>")\<close> where the arrow is there.\<close>

definition split_arrow :: "string list \<Rightarrow> (string list \<times> string list) option" where
  "split_arrow toks =
     (if ''=>'' \<notin> set toks then None
      else Some (takeWhile (\<lambda>f. f \<noteq> ''=>'') toks, tl (dropWhile (\<lambda>f. f \<noteq> ''=>'') toks)))"

definition go_replace_declaration :: "string \<Rightarrow> string list" where
  "go_replace_declaration declaration =
     (let mention = (if contains COREKIT_MODULE declaration then [COREKIT_MODULE] else []) in
      case split_arrow (split_ws declaration) of
        None \<Rightarrow> mention
      | Some (old, new) \<Rightarrow>
          if old = [] \<or> new = [] \<or> length old > 2 \<or> length new > 2 then mention
          else filter corekit_path [old ! 0, new ! 0])"

definition go_replace_line :: "bool \<Rightarrow> string \<Rightarrow> bool \<times> string list" where
  "go_replace_line in_block raw_line =
     (let line = strip (before ''//'' raw_line) in
      if line = [] then (in_block, [])
      else if \<not> in_block \<and> line = ''replace ('' then (True, [])
      else if in_block \<and> line = '')'' then (False, [])
      else if \<not> in_block \<and> \<not> startswith line ''replace '' then (in_block, [])
      else (in_block, go_replace_declaration
             (if startswith line ''replace '' then strip (drop (length ''replace '') line) else line)))"

fun go_replace_lines :: "bool \<Rightarrow> string list \<Rightarrow> bool \<times> string list" where
  "go_replace_lines in_block [] = (in_block, [])"
| "go_replace_lines in_block (raw_line # raw_lines) =
     (case go_replace_line in_block raw_line of (flag, found) \<Rightarrow>
      case go_replace_lines flag raw_lines of (final, others) \<Rightarrow> (final, found @ others))"

definition go_corekit_replacements :: "string \<Rightarrow> string list" where
  "go_corekit_replacements src =
     (case go_replace_lines False (splitlines src) of (in_block, replacements) \<Rightarrow>
        replacements @ (if in_block \<and> contains COREKIT_MODULE src then [COREKIT_MODULE] else []))"

section \<open>Go sources: the scanner\<close>

definition lit_at :: "string \<Rightarrow> nat \<Rightarrow> string \<Rightarrow> bool" where
  "lit_at src i sub = startswith (drop i src) sub"

definition end_of :: "string \<Rightarrow> string \<Rightarrow> nat \<Rightarrow> nat" where
  "end_of src sub i = (case str_find src sub i of None \<Rightarrow> length src | Some j \<Rightarrow> j + length sub)"

lemma end_of_bounds: "i \<le> length src \<Longrightarrow> i \<le> end_of src sub i \<and> end_of src sub i \<le> length src"
  by (auto simp: end_of_def split: option.splits dest: str_find_bounds)

lemma lit_at_length: "lit_at src i sub \<Longrightarrow> i \<le> length src \<Longrightarrow> i + length sub \<le> length src"
  unfolding lit_at_def startswith_iff by (metis diff_add_inverse le_add_diff_inverse length_append length_drop nat_add_left_cancel_le le_add1)

text \<open>Past a comment: at least its two opening characters.\<close>

lemma comment_end:
  assumes "lit_at src i opening" and "length opening = 2" and "i < length src"
  shows "i + 2 \<le> end_of src closing (i + 2)" "end_of src closing (i + 2) \<le> length src"
proof -
  have "i + 2 \<le> length src" using lit_at_length [OF assms(1)] assms(2,3) by simp
  from end_of_bounds [OF this, of closing] show "i + 2 \<le> end_of src closing (i + 2)"
    "end_of src closing (i + 2) \<le> length src" by simp_all
qed

function skip_go_ignored :: "string \<Rightarrow> nat \<Rightarrow> nat" where
  "skip_go_ignored src i =
     (if i < length src then
        if is_space (src ! i) then skip_go_ignored src (i + 1)
        else if lit_at src i ''//'' then skip_go_ignored src (end_of src [CHR 0x0A] (i + 2))
        else if lit_at src i ''/*'' then skip_go_ignored src (end_of src ''*/'' (i + 2))
        else i
      else i)"
  by pat_completeness auto
termination
proof (relation "measure (\<lambda>(src, i). length src - i)", goal_cases)
  case (3 src i)
  have "i + 2 \<le> end_of src [CHR 0x0A] (i + 2)" using comment_end(1) [OF 3(3)] 3(1) by simp
  with 3(1) show ?case by (simp only: in_measure prod.case)
next
  case (4 src i)
  have "i + 2 \<le> end_of src ''*/'' (i + 2)" using comment_end(1) [OF 4(4)] 4(1) by simp
  with 4(1) show ?case by (simp only: in_measure prod.case)
qed auto

declare skip_go_ignored.simps [simp del]

function skip_go_string_loop :: "char \<Rightarrow> string \<Rightarrow> nat \<Rightarrow> nat" where
  "skip_go_string_loop quote src i =
     (if i < length src then
        if quote \<noteq> CHR 0x60 \<and> src ! i = CHR 0x5C then skip_go_string_loop quote src (i + 2)
        else if src ! i = quote then i + 1
        else skip_go_string_loop quote src (i + 1)
      else length src)"
  by pat_completeness auto
termination
  by (relation "measure (\<lambda>(quote, src, i). length src - i)") auto

declare skip_go_string_loop.simps [simp del]

definition skip_go_string :: "string \<Rightarrow> nat \<Rightarrow> nat" where
  "skip_go_string src i = skip_go_string_loop (src ! i) src (i + 1)"

function go_import_string_loop :: "string \<Rightarrow> nat \<Rightarrow> nat \<Rightarrow> string option \<times> nat" where
  "go_import_string_loop src i fin =
     (if fin < length src then
        if src ! fin = CHR 0x5C then (None, skip_go_string src i)
        else if src ! fin = CHR 0x22 then (Some (take (fin - (i + 1)) (drop (i + 1) src)), fin + 1)
        else go_import_string_loop src i (fin + 1)
      else (None, length src))"
  by pat_completeness auto
termination
  by (relation "measure (\<lambda>(src, i, fin). length src - fin)") auto

declare go_import_string_loop.simps [simp del]

definition go_import_string :: "string \<Rightarrow> nat \<Rightarrow> string option \<times> nat" where
  "go_import_string src i =
     (if i \<ge> length src \<or> src ! i \<noteq> CHR 0x22 then (None, i) else go_import_string_loop src i (i + 1))"

text \<open>\<open>while index < len(text) and test(text[index]): index += 1\<close>\<close>

function scan_while :: "(char \<Rightarrow> bool) \<Rightarrow> string \<Rightarrow> nat \<Rightarrow> nat" where
  "scan_while p src i = (if i < length src \<and> p (src ! i) then scan_while p src (i + 1) else i)"
  by pat_completeness auto
termination
  by (relation "measure (\<lambda>(p, src, i). length src - i)") auto

declare scan_while.simps [simp del]

definition is_ident :: "char \<Rightarrow> bool" where
  "is_ident c = (isalnum c \<or> c = CHR ''_'')"

lemma skip_go_ignored_ge: "i \<le> skip_go_ignored src i"
proof (induction src i rule: skip_go_ignored.induct)
  case (1 src i)
  consider "\<not> i < length src" | "i < length src" "is_space (src ! i)"
    | "i < length src" "\<not> is_space (src ! i)" "lit_at src i ''//''"
    | "i < length src" "\<not> is_space (src ! i)" "\<not> lit_at src i ''//''" "lit_at src i ''/*''"
    | "i < length src" "\<not> is_space (src ! i)" "\<not> lit_at src i ''//''" "\<not> lit_at src i ''/*''"
    by blast
  then show ?case
  proof cases
    case 3
    then have "i + 2 \<le> end_of src [CHR 0x0A] (i + 2)" using comment_end(1) by simp
    with 1(2) [OF 3] 3 show ?thesis by (subst skip_go_ignored.simps) simp
  next
    case 4
    then have "i + 2 \<le> end_of src ''*/'' (i + 2)" using comment_end(1) by simp
    with 1(3) [OF 4] 4 show ?thesis by (subst skip_go_ignored.simps) simp
  next
    case 2
    with 1(1) [OF 2] show ?thesis by (subst skip_go_ignored.simps) simp
  qed (simp_all add: skip_go_ignored.simps [of src i])
qed

lemma skip_go_string_loop_ge: "i \<le> length src \<Longrightarrow> i \<le> skip_go_string_loop q src i"
proof (induction q src i rule: skip_go_string_loop.induct)
  case (1 q src i)
  show ?case
  proof (cases "i + 2 \<le> length src")
    case True
    with 1 show ?thesis by (subst skip_go_string_loop.simps) auto
  next
    case False
    have "skip_go_string_loop q src (i + 2) = length src"
      using False by (subst skip_go_string_loop.simps) simp
    with 1 show ?thesis by (subst skip_go_string_loop.simps) auto
  qed
qed

lemma skip_go_string_gt: "i < length src \<Longrightarrow> i < skip_go_string src i"
  using skip_go_string_loop_ge [of "i + 1" src "src ! i"] by (simp add: skip_go_string_def)

lemma go_import_string_loop_ge:
  "i < length src \<Longrightarrow> i < fin \<Longrightarrow> i < snd (go_import_string_loop src i fin)"
proof (induction src i fin rule: go_import_string_loop.induct)
  case (1 src i fin)
  then show ?case using skip_go_string_gt by (subst go_import_string_loop.simps) auto
qed

lemma go_import_string_ge: "i \<le> snd (go_import_string src i)"
  using go_import_string_loop_ge [of i src "i + 1"] by (auto simp: go_import_string_def)

lemma scan_while_ge: "i \<le> scan_while p src i"
proof (induction p src i rule: scan_while.induct)
  case (1 p src i)
  then show ?case by (subst scan_while.simps) auto
qed

text \<open>\<open>index_after if index_after > index else index + 1\<close>\<close>

definition advance :: "nat \<Rightarrow> nat \<Rightarrow> nat" where
  "advance i after_i = (if after_i > i then after_i else i + 1)"

lemma advance_gt: "i < advance i j"
  by (simp add: advance_def)

definition opt_list :: "'a option \<Rightarrow> 'a list" where
  "opt_list x = (case x of None \<Rightarrow> [] | Some y \<Rightarrow> [y])"

text \<open>The position after an optional alias inside a parenthesized import.\<close>

definition skip_alias :: "string \<Rightarrow> nat \<Rightarrow> nat" where
  "skip_alias src i =
     (if src ! i = CHR ''.'' \<or> src ! i = CHR ''_'' \<or> isalpha (src ! i)
      then skip_go_ignored src (scan_while is_ident src (i + 1)) else i)"

lemma skip_alias_ge: "i \<le> skip_alias src i"
  using scan_while_ge [of "i + 1" is_ident src] skip_go_ignored_ge [of "scan_while is_ident src (i + 1)" src]
  by (simp add: skip_alias_def)

function go_import_block :: "string \<Rightarrow> nat \<Rightarrow> nat \<times> string list" where
  "go_import_block src i =
     (if i < length src then
        let i1 = skip_go_ignored src i in
        if i1 \<ge> length src \<or> src ! i1 = CHR '')'' then (i1 + 1, [])
        else let i2 = skip_alias src i1; imported = go_import_string src i2 in
          (case go_import_block src (advance i2 (snd imported)) of (j, others) \<Rightarrow>
             (j, opt_list (fst imported) @ others))
      else (i, []))"
  by pat_completeness auto
termination
proof (relation "measure (\<lambda>(src, i). length src - i)", goal_cases)
  case (2 src i i1 i2 imported)
  have "i \<le> i1" unfolding 2(2) by (rule skip_go_ignored_ge)
  moreover have "i1 \<le> i2" unfolding 2(4) by (rule skip_alias_ge)
  moreover have "i2 < advance i2 (snd imported)" by (rule advance_gt)
  ultimately show ?case using 2(1) by simp
qed simp

declare go_import_block.simps [simp del]

lemma go_import_block_ge: "i \<le> fst (go_import_block src i)"
proof (induction src i rule: go_import_block.induct)
  case (1 src i)
  define i1 where "i1 = skip_go_ignored src i"
  define i2 where "i2 = skip_alias src i1"
  have le: "i \<le> i1" "i1 \<le> i2" "i2 < advance i2 (snd (go_import_string src i2))"
    unfolding i1_def i2_def by (rule skip_go_ignored_ge skip_alias_ge advance_gt)+
  show ?case
  proof (cases "i < length src \<and> \<not> (i1 \<ge> length src \<or> src ! i1 = CHR '')'')")
    case True
    with 1 have "advance i2 (snd (go_import_string src i2)) \<le> fst (go_import_block src (advance i2 (snd (go_import_string src i2))))"
      unfolding i1_def i2_def by blast
    with le have "i \<le> fst (go_import_block src (advance i2 (snd (go_import_string src i2))))" by linarith
    with True show ?thesis
      by (subst go_import_block.simps)
        (simp add: Let_def i1_def [symmetric] i2_def [symmetric] case_prod_beta)
  next
    case False
    with le(1) show ?thesis
      by (subst go_import_block.simps) (auto simp: Let_def i1_def [symmetric])
  qed
qed

text \<open>A single import with its optional alias: from just after \<open>import\<close>.\<close>

definition skip_single_alias :: "string \<Rightarrow> nat \<Rightarrow> nat" where
  "skip_single_alias src i =
     (if i < length src \<and> src ! i \<noteq> CHR 0x22
      then skip_go_ignored src (scan_while (\<lambda>c. isalnum c \<or> c = CHR ''.'' \<or> c = CHR ''_'') src i) else i)"

lemma skip_single_alias_ge: "i \<le> skip_single_alias src i"
proof -
  let ?p = "\<lambda>c. isalnum c \<or> c = CHR ''.'' \<or> c = CHR ''_''"
  have "i \<le> scan_while ?p src i" by (rule scan_while_ge)
  also have "\<dots> \<le> skip_go_ignored src (scan_while ?p src i)" by (rule skip_go_ignored_ge)
  finally show ?thesis by (simp add: skip_single_alias_def)
qed

text \<open>What follows the word \<open>import\<close>: the next position and the imports found.\<close>

definition go_import_declaration :: "string \<Rightarrow> nat \<Rightarrow> nat \<times> string list" where
  "go_import_declaration src i =
     (let i1 = skip_go_ignored src i in
      if i1 < length src \<and> src ! i1 = CHR ''('' then go_import_block src (i1 + 1)
      else let i2 = skip_single_alias src i1; imported = go_import_string src i2
        in (advance i2 (snd imported), opt_list (fst imported)))"

lemma go_import_declaration_ge: "i < fst (go_import_declaration src i)"
proof -
  define i1 where "i1 = skip_go_ignored src i"
  have "i \<le> i1" unfolding i1_def by (rule skip_go_ignored_ge)
  moreover have "i1 + 1 \<le> fst (go_import_block src (i1 + 1))" by (rule go_import_block_ge)
  moreover have "i1 < advance (skip_single_alias src i1) j" for j
    using skip_single_alias_ge [of i1 src] advance_gt [of "skip_single_alias src i1" j] by linarith
  ultimately show ?thesis
    by (auto simp: go_import_declaration_def Let_def i1_def [symmetric] intro: le_less_trans)
qed

lemma skip_comment_gt:
  assumes "i < length src" and "lit_at src i ''//'' \<or> lit_at src i ''/*''"
  shows "i < skip_go_ignored src i"
proof -
  have "src ! i = CHR ''/''"
    using assms by (auto simp: lit_at_def startswith_iff Cons_nth_drop_Suc [symmetric])
  then have ns: "\<not> is_space (src ! i)" by (simp add: is_space_def)
  have "i + 2 \<le> skip_go_ignored src i"
  proof (cases "lit_at src i ''//''")
    case True
    then have "i + 2 \<le> end_of src [CHR 0x0A] (i + 2)" using comment_end(1) assms(1) by simp
    also have "\<dots> \<le> skip_go_ignored src (end_of src [CHR 0x0A] (i + 2))" by (rule skip_go_ignored_ge)
    finally show ?thesis using True ns assms(1) by (subst skip_go_ignored.simps) simp
  next
    case False
    then have "i + 2 \<le> end_of src ''*/'' (i + 2)" using comment_end(1) assms by simp
    also have "\<dots> \<le> skip_go_ignored src (end_of src ''*/'' (i + 2))" by (rule skip_go_ignored_ge)
    finally show ?thesis using False ns assms by (subst skip_go_ignored.simps) simp
  qed
  then show ?thesis by simp
qed

function go_imports_loop :: "string \<Rightarrow> nat \<Rightarrow> string list" where
  "go_imports_loop src i =
     (if i < length src then
        if lit_at src i ''//'' \<or> lit_at src i ''/*'' then go_imports_loop src (skip_go_ignored src i)
        else if src ! i = CHR 0x22 \<or> src ! i = CHR 0x27 \<or> src ! i = CHR 0x60
        then go_imports_loop src (skip_go_string src i)
        else if isalpha (src ! i) \<or> src ! i = CHR ''_'' then
          let word_end = scan_while is_ident src (i + 1) in
          if take (word_end - i) (drop i src) \<noteq> ''import'' then go_imports_loop src word_end
          else (case go_import_declaration src word_end of (j, found) \<Rightarrow> found @ go_imports_loop src j)
        else go_imports_loop src (i + 1)
      else [])"
  by pat_completeness auto
termination
proof (relation "measure (\<lambda>(src, i). length src - i)", goal_cases)
  case (2 src i)
  then show ?case using skip_comment_gt [of i src] by simp
next
  case (3 src i)
  with skip_go_string_gt [of i src] show ?case by simp
next
  case (4 src i w)
  with scan_while_ge [of "i + 1" is_ident src] show ?case by simp
next
  case (5 src i w j found)
  have "i + 1 \<le> w" using scan_while_ge [of "i + 1" is_ident src] 5 by simp
  moreover have "w < j" using go_import_declaration_ge [of w src] 5 by (metis fst_conv)
  ultimately show ?case using 5 by simp
qed auto

declare go_imports_loop.simps [simp del]

definition go_imports :: "string \<Rightarrow> string list" where
  "go_imports src = go_imports_loop src 0"

section \<open>Properties of the go.mod readers\<close>

text \<open>A dependency line a \<open>go.mod\<close> can hold: two words that form no comment and no directive.\<close>

definition go_dep :: "string \<times> string \<Rightarrow> bool" where
  "go_dep d = (case d of (m, v) \<Rightarrow> word m \<and> word v \<and> m \<noteq> ''require'' \<and> \<not> contains ''//'' (m @ '' '' @ v))"

definition render_dep :: "string \<times> string \<Rightarrow> string" where
  "render_dep d = (case d of (m, v) \<Rightarrow> [CHR 0x09] @ m @ '' '' @ v)"

definition render_require :: "(string \<times> string) list \<Rightarrow> string" where
  "render_require deps = ''require ('' @ [CHR 0x0A] @ concat (map (\<lambda>d. render_dep d @ [CHR 0x0A]) deps) @ '')'' @ [CHR 0x0A]"

definition corekit_versions :: "(string \<times> string) list \<Rightarrow> string option list" where
  "corekit_versions deps = map (\<lambda>(m, v). if fullmatch GO_VERSION_RE v then Some v else None)
     (filter (\<lambda>(m, v). m = COREKIT_MODULE) deps)"

lemma space_chars [simp]: "is_space (CHR 0x20)" "is_space (CHR 0x09)" "\<not> is_space (CHR ''('')" "\<not> is_space (CHR '')'')"
  "\<not> is_space (CHR ''r'')"
  by (simp_all add: is_space_def)

lemma render_dep_strip: "go_dep (m, v) \<Longrightarrow> strip (render_dep (m, v)) = m @ '' '' @ v"
  using strip_word_ends [of "[CHR 0x09]" "[]" "m @ '' '' @ v"]
  by (auto simp: go_dep_def render_dep_def word_def)

lemma contains_append_left: "contains sub s \<Longrightarrow> contains sub (s @ t)"
  by (metis append.assoc contains_iff)

lemma require_prefix_word:
  assumes "word m" and "startswith (m @ '' '' @ v) ''require ''"
  shows "m = ''require''"
proof -
  obtain t where t: "m @ '' '' @ v = ''require '' @ t" using assms(2) by (auto simp: startswith_iff)
  have "CHR '' '' \<notin> set m" using assms(1) by (auto simp: word_def)
  then have "takeWhile (\<lambda>c. c \<noteq> CHR '' '') (m @ '' '' @ v) = m" by (subst takeWhile_append2) auto
  moreover have "takeWhile (\<lambda>c. c \<noteq> CHR '' '') (''require '' @ t) = ''require''" by simp
  ultimately show ?thesis using t by simp
qed

lemma go_require_dep:
  assumes "go_dep (m, v)"
  shows "go_require_line True (render_dep (m, v)) = (True, corekit_versions [(m, v)])"
proof -
  let ?l = "m @ '' '' @ v"
  have w: "word m" "word v" "m \<noteq> ''require''" "\<not> contains ''//'' ?l" using assms by (auto simp: go_dep_def)
  have ne: "?l \<noteq> []" "?l \<noteq> '')''" using w(1,2) by (auto simp: word_def append_eq_Cons_conv)
  have nc: "\<not> startswith ?l ''//''" using w(4) by (metis append_Nil contains_iff startswith_iff)
  have nr: "\<not> startswith ?l ''require ''" using require_prefix_word w(1,3) by blast
  then have nb: "\<not> startswith ?l ''require (''" by (auto simp: startswith_iff)
  have rm: "removeprefix ?l ''require '' = ?l" using nr by (simp add: removeprefix_def)
  have st: "strip ?l = ?l" using strip_word_ends [of "[]" "[]" ?l] w(1,2) by (auto simp: word_def)
  have ws: "split_ws ?l = [m, v]"
    using split_ws_word [OF w(1), of "'' '' @ v"] split_ws_word [OF w(2), of "[]"] by (simp add: split_ws_skip)
  show ?thesis
    unfolding go_require_line_def render_dep_strip [OF assms] Let_def
    using ne nc nr nb rm st ws w(2,4) by (simp add: corekit_versions_def word_def)
qed

lemma go_require_deps:
  "list_all go_dep deps \<Longrightarrow> go_require_lines True (map render_dep deps @ rest) =
     corekit_versions deps @ go_require_lines True rest"
proof (induction deps)
  case Nil
  show ?case by (simp add: corekit_versions_def)
next
  case (Cons d deps)
  obtain m v where d: "d = (m, v)" by (cases d)
  with Cons have "go_require_line True (render_dep (m, v)) = (True, corekit_versions [(m, v)])"
    by (simp add: go_require_dep)
  with Cons d show ?case by (simp add: corekit_versions_def)
qed

lemma go_dep_nobreak: "go_dep d \<Longrightarrow> \<forall>c \<in> set (render_dep d). \<not> is_linebreak c"
proof -
  assume "go_dep d"
  then obtain m v where d: "d = (m, v)" "word m" "word v" by (cases d) (auto simp: go_dep_def)
  have "\<not> is_linebreak (CHR 0x09)" "\<not> is_linebreak (CHR '' '')" by (simp_all add: is_linebreak_def)
  with d show ?thesis by (auto simp: render_dep_def word_def dest: linebreak_space)
qed

lemma splitlines_deps:
  "list_all go_dep deps \<Longrightarrow>
     splitlines (concat (map (\<lambda>d. render_dep d @ [CHR 0x0A]) deps) @ s) = map render_dep deps @ splitlines s"
  by (induction deps) (auto simp: splitlines_line go_dep_nobreak)

lemma splitlines_single:
  "\<forall>c \<in> set l. \<not> is_linebreak c \<Longrightarrow> splitlines (l @ [CHR 0x0A]) = [l]"
  using splitlines_line [of l "[]"] by simp

text \<open>Reading back a rendered require block gives, in order, the version of every CoreKit line,
  with \<open>None\<close> for a version that is not well formed: no declaration is dropped and none is invented,
  whatever other modules the block lists.\<close>

theorem parse_render_require:
  assumes "list_all go_dep deps"
  shows "parse_go_requirements (render_require deps) = corekit_versions deps"
proof -
  have nb: "\<forall>c \<in> set ''require (''. \<not> is_linebreak c" "\<forall>c \<in> set '')''. \<not> is_linebreak c"
    by (simp_all add: is_linebreak_def)
  have "splitlines (render_require deps) = ''require ('' # map render_dep deps @ ['')'']"
    unfolding render_require_def
    using splitlines_line [OF nb(1)] splitlines_deps [OF assms, of "'')'' @ [CHR 0x0A]"] splitlines_single [OF nb(2)]
    by simp
  moreover have "go_require_line False ''require ('' = (True, [])" by code_simp
  moreover have "go_require_line True '')'' = (False, [])" by code_simp
  ultimately show ?thesis
    by (simp add: parse_go_requirements_def go_require_deps [OF assms])
qed

theorem parse_render_require_witness:
  "parse_go_requirements (render_require [(COREKIT_MODULE, ''v1.2.3''), (''a/b'', ''v2.0.0''), (COREKIT_MODULE, ''main'')])
     = [Some ''v1.2.3'', None]"
proof -
  have "list_all go_dep [(COREKIT_MODULE, ''v1.2.3''), (''a/b'', ''v2.0.0''), (COREKIT_MODULE, ''main'')]"
    by code_simp
  moreover have "corekit_versions [(COREKIT_MODULE, ''v1.2.3''), (''a/b'', ''v2.0.0''), (COREKIT_MODULE, ''main'')]
      = [Some ''v1.2.3'', None]" by code_simp
  ultimately show ?thesis using parse_render_require by metis
qed

text \<open>A version the readers accept as a pin.\<close>

definition go_version :: "string \<Rightarrow> bool" where
  "go_version v = (\<exists>a b c t. v = ''v'' @ a @ ''.'' @ b @ ''.'' @ c @ t \<and>
     is_numeral a \<and> is_numeral b \<and> is_numeral c \<and> (t = [] \<or> hd t = CHR ''-'' \<or> hd t = CHR ''+''))"

lemma accepts_CORE:
  "accepts CORE s \<longleftrightarrow> (\<exists>a b c. s = a @ ''.'' @ b @ ''.'' @ c \<and> is_numeral a \<and> is_numeral b \<and> is_numeral c)"
proof
  assume "accepts CORE s"
  then show "\<exists>a b c. s = a @ ''.'' @ b @ ''.'' @ c \<and> is_numeral a \<and> is_numeral b \<and> is_numeral c"
    unfolding CORE_def by (subst (asm) accepts_Seq) (auto simp: accepts_Seq [of NUM] accepts_NUM)
next
  assume "\<exists>a b c. s = a @ ''.'' @ b @ ''.'' @ c \<and> is_numeral a \<and> is_numeral b \<and> is_numeral c"
  then obtain a b c where s: "s = a @ (''.'' @ b @ (''.'' @ c))" and "accepts NUM a" "accepts NUM b" "accepts NUM c"
    by (auto simp: accepts_NUM)
  then show "accepts CORE s"
    unfolding CORE_def s by (intro accepts.seq) (simp_all add: accepts.seq)
qed

lemma go_version_sound: "fullmatch GO_VERSION_RE v \<Longrightarrow> go_version v"
proof -
  assume "fullmatch GO_VERSION_RE v"
  then obtain x r where v: "v = ''v'' @ x @ r" "accepts CORE x"
    and r: "accepts (Seq (Opt (Seq (Chr (CHR ''-'')) (Plus (Cls version_tail_cls))))
          (Opt (Seq (Chr (CHR ''+'')) (Plus (Cls version_tail_cls))))) r"
    unfolding fullmatch_iff GO_VERSION_RE_def by (auto simp: accepts_Seq [of CORE])
  have "r = [] \<or> hd r = CHR ''-'' \<or> hd r = CHR ''+''"
    using r by (auto simp: accepts_Seq [of "Opt q" for q])
  moreover obtain a b c where "x = a @ ''.'' @ b @ ''.'' @ c" "is_numeral a" "is_numeral b" "is_numeral c"
    using v(2) by (auto simp: accepts_CORE)
  ultimately have "v = ''v'' @ a @ ''.'' @ b @ ''.'' @ c @ r \<and> is_numeral a \<and> is_numeral b \<and> is_numeral c \<and>
      (r = [] \<or> hd r = CHR ''-'' \<or> hd r = CHR ''+'')" using v(1) by simp
  then show ?thesis unfolding go_version_def by blast
qed

lemma go_require_line_version:
  "Some v \<in> set (snd (go_require_line b l)) \<Longrightarrow> fullmatch GO_VERSION_RE v"
  by (auto simp: go_require_line_def Let_def split: if_splits list.splits)

lemma go_require_lines_version: "Some v \<in> set (go_require_lines b ls) \<Longrightarrow> fullmatch GO_VERSION_RE v"
proof (induction ls arbitrary: b)
  case Nil
  then show ?case by simp
next
  case (Cons l ls)
  obtain f xs where "go_require_line b l = (f, xs)" by fastforce
  with Cons go_require_line_version [of v b l] show ?case by auto
qed

text \<open>\<open>parse_go_pin\<close> gives a version exactly when the file declares CoreKit once, and then the
  version is \<open>vMAJOR.MINOR.PATCH\<close> without leading zeros, with at most a pre-release or build suffix.\<close>

theorem parse_go_pin_sole:
  "parse_go_pin src = Some v \<longleftrightarrow> parse_go_requirements src = [Some v] \<and> go_version v"
proof
  assume "parse_go_pin src = Some v"
  then have p: "parse_go_requirements src = [Some v]"
    by (auto simp: parse_go_pin_def Let_def length_one_iff split: if_splits)
  then have "Some v \<in> set (go_require_lines False (splitlines src))" by (simp add: parse_go_requirements_def)
  then have "go_version v" by (rule go_version_sound [OF go_require_lines_version])
  with p show "parse_go_requirements src = [Some v] \<and> go_version v" by simp
qed (simp add: parse_go_pin_def)

text \<open>A replace directive for CoreKit on one line: the keyword, then a declaration whose first token
  on either side of the arrow is the module or a package below it.\<close>

definition replaces_corekit :: "string \<Rightarrow> bool" where
  "replaces_corekit raw_line = (\<exists>d old new. strip (before ''//'' raw_line) = ''replace '' @ d \<and>
     split_arrow (split_ws (strip d)) = Some (old, new) \<and> old \<noteq> [] \<and> new \<noteq> [] \<and>
     (corekit_path (old ! 0) \<or> corekit_path (new ! 0)))"

lemma split_arrow_mem:
  "split_arrow toks = Some (old, new) \<Longrightarrow> set old \<subseteq> set toks \<and> set new \<subseteq> set toks"
proof -
  assume "split_arrow toks = Some (old, new)"
  then have old: "old = takeWhile (\<lambda>f. f \<noteq> ''=>'') toks" and new: "new = tl (dropWhile (\<lambda>f. f \<noteq> ''=>'') toks)"
    by (auto simp: split_arrow_def split: if_splits)
  have "set (tl xs) \<subseteq> set xs" for xs :: "string list" by (cases xs) auto
  then have "set new \<subseteq> set (dropWhile (\<lambda>f. f \<noteq> ''=>'') toks)" unfolding new by blast
  with old show ?thesis by (auto dest: set_takeWhileD set_dropWhileD)
qed

lemma corekit_path_contains: "corekit_path p \<Longrightarrow> contains COREKIT_MODULE p"
  unfolding corekit_path_def startswith_iff contains_iff by (metis append.left_neutral append.assoc append_Nil2)

lemma go_replace_line_reports:
  assumes "replaces_corekit l"
  shows "snd (go_replace_line b l) \<noteq> []"
proof -
  obtain d old new where l: "strip (before ''//'' l) = ''replace '' @ d"
    and sp: "split_arrow (split_ws (strip d)) = Some (old, new)" and ne: "old \<noteq> []" "new \<noteq> []"
    and ck: "corekit_path (old ! 0) \<or> corekit_path (new ! 0)"
    using assms unfolding replaces_corekit_def by blast
  have "old ! 0 \<in> set (split_ws (strip d))" "new ! 0 \<in> set (split_ws (strip d))"
    using split_arrow_mem [OF sp] ne by (auto dest: subsetD [OF _ nth_mem])
  then have "contains (old ! 0) (strip d)" "contains (new ! 0) (strip d)" by (auto intro: split_ws_sub)
  then have m: "contains COREKIT_MODULE (strip d)"
    using ck corekit_path_contains by (metis (no_types, opaque_lifting) append.assoc contains_iff)
  have "strip d \<noteq> []" using m by (auto simp: COREKIT_MODULE_def startswith_def)
  have "go_replace_declaration (strip d) \<noteq> []"
    using sp ne ck m by (auto simp: go_replace_declaration_def)
  moreover have "''replace '' @ d \<noteq> ''replace (''"
  proof
    assume "''replace '' @ d = ''replace (''"
    then have "d = ''(''" by simp
    moreover have "strip ''('' = ''(''" by code_simp
    ultimately have "strip d = ''(''" by simp
    with m show False by (simp add: COREKIT_MODULE_def startswith_def)
  qed
  ultimately show ?thesis using l by (simp add: go_replace_line_def Let_def startswith_def)
qed

lemma go_replace_lines_reports:
  "l \<in> set ls \<Longrightarrow> replaces_corekit l \<Longrightarrow> snd (go_replace_lines b ls) \<noteq> []"
proof (induction ls arbitrary: b)
  case Nil
  then show ?case by simp
next
  case (Cons l' ls)
  obtain f xs where h: "go_replace_line b l' = (f, xs)" by fastforce
  obtain g ys where t: "go_replace_lines f ls = (g, ys)" by fastforce
  show ?case
  proof (cases "l = l'")
    case True
    with Cons(3) go_replace_line_reports [of l b] h t show ?thesis by simp
  next
    case False
    with Cons Cons.IH [of f] h t show ?thesis by simp
  qed
qed

text \<open>A single-line replace directive that names CoreKit on either side is always reported,
  whatever the rest of the file is and in whatever state of the reader the line is met.\<close>

theorem replacements_never_hidden:
  assumes "l \<in> set (splitlines src)" and "replaces_corekit l"
  shows "go_corekit_replacements src \<noteq> []"
  using go_replace_lines_reports [OF assms, of False] by (auto simp: go_corekit_replacements_def split: prod.splits)

theorem replacements_never_hidden_witness:
  "go_corekit_replacements (''module x'' @ [CHR 0x0A] @ ''replace '' @ COREKIT_MODULE @ '' => ../fork // local'') \<noteq> []"
proof -
  let ?line = "''replace '' @ COREKIT_MODULE @ '' => ../fork // local''"
  have "?line \<in> set (splitlines (''module x'' @ [CHR 0x0A] @ ?line))" by code_simp
  moreover have "strip (before ''//'' ?line) = ''replace '' @ COREKIT_MODULE @ '' => ../fork''"
    "split_arrow (split_ws (strip (COREKIT_MODULE @ '' => ../fork''))) = Some ([COREKIT_MODULE], [''../fork''])"
    by code_simp+
  then have "replaces_corekit ?line"
    unfolding replaces_corekit_def by (intro exI [of _ "COREKIT_MODULE @ '' => ../fork''"] exI) (auto simp: corekit_path_def)
  ultimately show ?thesis by (rule replacements_never_hidden)
qed

text \<open>The keyword is recognised with one blank only: the directive written with a tab, which Go's own
  reader takes as the same directive, is not seen.\<close>

lemma replacement_after_tab_missed:
  "go_corekit_replacements (''replace'' @ [CHR 0x09] @ COREKIT_MODULE @ '' => ../fork'') = []"
  by code_simp

section \<open>Properties of the import scanner\<close>

lemma go_import_string_loop_quoted:
  assumes "go_import_string_loop src i fin = (Some p, j)" and "i < fin" and "src ! i = CHR 0x22" and "i < length src"
  shows "\<exists>u v. src = u @ CHR 0x22 # p @ CHR 0x22 # v \<and> length u = i"
  using assms
proof (induction src i fin rule: go_import_string_loop.induct)
  case (1 src i fin)
  show ?case
  proof (cases "fin < length src \<and> src ! fin \<noteq> CHR 0x5C \<and> src ! fin = CHR 0x22")
    case True
    then have p: "p = take (fin - (i + 1)) (drop (i + 1) src)"
      using 1(2) by (subst (asm) go_import_string_loop.simps) simp
    have "src = take i src @ CHR 0x22 # drop (i + 1) src"
      using 1(4,5) by (metis Suc_eq_plus1 id_take_nth_drop)
    moreover have "drop (i + 1) src = p @ drop fin src"
      using p 1(3) by (metis Suc_eq_plus1 Suc_leI add_diff_inverse_nat append_take_drop_id drop_drop leD add.commute)
    moreover have "drop fin src = CHR 0x22 # drop (fin + 1) src"
      using True by (metis Cons_nth_drop_Suc Suc_eq_plus1)
    ultimately have "src = take i src @ CHR 0x22 # p @ CHR 0x22 # drop (fin + 1) src" by simp
    moreover have "length (take i src) = i" using 1(5) by simp
    ultimately show ?thesis by blast
  next
    case False
    with 1(2) have "fin < length src" "src ! fin \<noteq> CHR 0x5C" "src ! fin \<noteq> CHR 0x22"
      "go_import_string_loop src i (fin + 1) = (Some p, j)"
      by (subst (asm) go_import_string_loop.simps; auto split: if_splits)+
    with 1(1,3,4,5) show ?thesis by simp
  qed
qed

text \<open>Every import the scanner reports is a quoted string of the text.\<close>

definition quoted_in :: "string \<Rightarrow> string \<Rightarrow> bool" where
  "quoted_in src p = contains (CHR 0x22 # p @ [CHR 0x22]) src"

lemma go_import_string_quoted: "p \<in> set (opt_list (fst (go_import_string src i))) \<Longrightarrow> quoted_in src p"
proof -
  assume p: "p \<in> set (opt_list (fst (go_import_string src i)))"
  then obtain j where "i < length src" "src ! i = CHR 0x22" "go_import_string_loop src i (i + 1) = (Some p, j)"
    by (cases "go_import_string_loop src i (i + 1)") (auto simp: go_import_string_def opt_list_def split: if_splits option.splits)
  with go_import_string_loop_quoted [of src i "i + 1" p j] show ?thesis
    unfolding quoted_in_def contains_iff by auto
qed

lemma go_import_block_quoted: "p \<in> set (snd (go_import_block src i)) \<Longrightarrow> quoted_in src p"
proof (induction src i rule: go_import_block.induct)
  case (1 src i)
  define i1 where "i1 = skip_go_ignored src i"
  define i2 where "i2 = skip_alias src i1"
  define nxt where "nxt = go_import_block src (advance i2 (snd (go_import_string src i2)))"
  have step: "go_import_block src i = (if i < length src then if i1 \<ge> length src \<or> src ! i1 = CHR '')'' then (i1 + 1, [])
      else (fst nxt, opt_list (fst (go_import_string src i2)) @ snd nxt) else (i, []))"
    by (subst go_import_block.simps) (simp add: Let_def i1_def i2_def nxt_def case_prod_beta)
  with 1(2) have c: "i < length src" "\<not> (i1 \<ge> length src \<or> src ! i1 = CHR '')'')"
    "p \<in> set (opt_list (fst (go_import_string src i2))) \<or> p \<in> set (snd nxt)"
    by (auto split: if_splits)
  then show ?case
    using go_import_string_quoted 1(1) [OF c(1) i1_def c(2) i2_def refl] unfolding nxt_def by blast
qed

lemma go_import_declaration_quoted: "p \<in> set (snd (go_import_declaration src i)) \<Longrightarrow> quoted_in src p"
  by (auto simp: go_import_declaration_def Let_def split: if_splits
      dest: go_import_block_quoted go_import_string_quoted)

lemma go_imports_loop_quoted: "p \<in> set (go_imports_loop src i) \<Longrightarrow> quoted_in src p"
proof (induction src i rule: go_imports_loop.induct)
  case (1 src i)
  define w where "w = scan_while is_ident src (i + 1)"
  obtain j found where d: "go_import_declaration src w = (j, found)" by fastforce
  have step: "go_imports_loop src i = (if i < length src then
      if lit_at src i ''//'' \<or> lit_at src i ''/*'' then go_imports_loop src (skip_go_ignored src i)
      else if src ! i = CHR 0x22 \<or> src ! i = CHR 0x27 \<or> src ! i = CHR 0x60 then go_imports_loop src (skip_go_string src i)
      else if isalpha (src ! i) \<or> src ! i = CHR ''_'' then
        if take (w - i) (drop i src) \<noteq> ''import'' then go_imports_loop src w else found @ go_imports_loop src j
      else go_imports_loop src (i + 1) else [])"
    using d by (subst go_imports_loop.simps) (simp add: Let_def w_def)
  have "p \<in> set found \<Longrightarrow> quoted_in src p" using go_import_declaration_quoted [of p src w] d by simp
  with 1 step d show ?case
    by (simp only: step w_def [symmetric] split: if_splits) (auto simp: w_def)
qed

text \<open>The import scanner invents nothing: every path it reports stands in the file between double
  quotes.\<close>

theorem go_imports_quoted: "\<forall>p \<in> set (go_imports src). quoted_in src p"
  by (auto simp: go_imports_def intro: go_imports_loop_quoted)

lemma go_imports_quoted_witness:
  "go_imports (''import _ '' @ [CHR 0x22] @ ''net/http'' @ [CHR 0x22]) = [''net/http''] \<and>
   quoted_in (''import _ '' @ [CHR 0x22] @ ''net/http'' @ [CHR 0x22]) ''net/http''"
proof -
  have "go_imports (''import _ '' @ [CHR 0x22] @ ''net/http'' @ [CHR 0x22]) = [''net/http'']" by code_simp
  with go_imports_quoted [of "''import _ '' @ [CHR 0x22] @ ''net/http'' @ [CHR 0x22]"] show ?thesis by simp
qed

end
