(* ===== verification/World.thy ===== *)
theory World
  imports Regex PyVal
begin

text \<open>
  What the verifiers see of the machine, as the fields of one record: Git, the file system, the
  readers of the standard library's formats and SHA-256. None of it is code of this repository,
  so the model takes it as an argument, and every property holds for any world. Paths are the
  components of an absolute path; \<open>path_parts\<close> is what \<open>pathlib\<close> makes of a relative one.

  The interface \<open>path_guard\<close> is the contract of the functions that turn a recorded path into
  components: no component is empty, a dot or two dots, or holds a slash. Its client lemma is that
  joining such components to a root and normalising stays below the root.
\<close>

type_synonym path = "string list"

datatype file_kind = Regular | Directory | Symlink | Special

text \<open>What \<open>os.walk\<close> meets: a symbolic link to a directory is listed among the directories and
  not entered.\<close>

datatype fstree = TFile | TLink | TDir "(string \<times> fstree) list"

record world =
  run_git :: "string list \<Rightarrow> path \<Rightarrow> int \<times> string \<times> string"
  lstat_of :: "path \<Rightarrow> file_kind res"
  is_file :: "path \<Rightarrow> bool"
  is_dir :: "path \<Rightarrow> bool"
  resolve_path :: "path \<Rightarrow> path res"
  tree_at :: "path \<Rightarrow> (string \<times> fstree) list"
  read_bytes :: "path \<Rightarrow> string res"
  utf8 :: "string \<Rightarrow> string res"
  encode_utf8 :: "string \<Rightarrow> string"
  toml_loads :: "string \<Rightarrow> pydict res"
  json_loads :: "string \<Rightarrow> pyval res"
  sha256 :: "string \<Rightarrow> string"
  float_text :: "rat \<Rightarrow> string"

text \<open>\<open>_git\<close>: return code and the stripped output streams.\<close>

definition git_cmd :: "world \<Rightarrow> string list \<Rightarrow> path \<Rightarrow> int \<times> string \<times> string" where
  "git_cmd w args cwd = (case run_git w args cwd of (returncode, out, err) \<Rightarrow> (returncode, strip out, strip err))"

definition git_code :: "world \<Rightarrow> string list \<Rightarrow> path \<Rightarrow> int" where
  "git_code w args cwd = fst (git_cmd w args cwd)"

definition git_out :: "world \<Rightarrow> string list \<Rightarrow> path \<Rightarrow> string" where
  "git_out w args cwd = fst (snd (git_cmd w args cwd))"

text \<open>\<open>path.read_text(encoding="utf-8")\<close>\<close>

definition read_text :: "world \<Rightarrow> path \<Rightarrow> string res" where
  "read_text w p = bind_res (read_bytes w p) (utf8 w)"

definition path_parts :: "string \<Rightarrow> string list" where
  "path_parts s = filter (\<lambda>p. p \<noteq> [] \<and> p \<noteq> ''.'') (split_on (CHR ''/'') s)"

definition is_absolute :: "string \<Rightarrow> bool" where
  "is_absolute s = startswith s ''/''"

definition as_posix :: "string list \<Rightarrow> string" where
  "as_posix parts = join ''/'' parts"

lemma path_parts_mem: "p \<in> set (path_parts s) \<Longrightarrow> p \<noteq> [] \<and> p \<noteq> ''.'' \<and> CHR ''/'' \<notin> set p"
  by (auto simp: path_parts_def dest: split_on_pieces)

text \<open>\<open>path.is_relative_to(base)\<close>\<close>

definition is_relative_to :: "path \<Rightarrow> path \<Rightarrow> bool" where
  "is_relative_to p base = (take (length base) p = base)"

text \<open>\<open>checkout / relative\<close>: an absolute path stands for itself.\<close>

definition join_path :: "path \<Rightarrow> string \<Rightarrow> path" where
  "join_path base relative = (if is_absolute relative then path_parts relative else base @ path_parts relative)"

text \<open>\<open>Path(relative).name\<close>\<close>

definition path_name :: "string \<Rightarrow> string" where
  "path_name s = (if path_parts s = [] then [] else last (path_parts s))"

text \<open>The components of a normal path, and lexical normalisation of a path with dots.\<close>

definition clean_part :: "string \<Rightarrow> bool" where
  "clean_part p = (p \<noteq> [] \<and> p \<noteq> ''.'' \<and> p \<noteq> ''..'' \<and> CHR ''/'' \<notin> set p)"

fun normalise_acc :: "string list \<Rightarrow> string list \<Rightarrow> string list" where
  "normalise_acc acc [] = rev acc"
| "normalise_acc acc (p # ps) =
     (if p = [] \<or> p = ''.'' then normalise_acc acc ps
      else if p = ''..'' then normalise_acc (tl acc) ps
      else normalise_acc (p # acc) ps)"

definition normalise :: "string list \<Rightarrow> string list" where
  "normalise ps = normalise_acc [] ps"

lemma normalise_acc_clean: "list_all clean_part ps \<Longrightarrow> normalise_acc acc ps = rev acc @ ps"
  by (induction ps arbitrary: acc) (auto simp: clean_part_def)

lemma normalise_acc_append: "normalise_acc acc (ps @ qs) = normalise_acc (rev (normalise_acc acc ps)) qs"
  by (induction ps arbitrary: acc) auto

locale path_guard =
  fixes guard :: "'a \<Rightarrow> string list res"
  assumes clean_parts: "guard v = Inr parts \<Longrightarrow> list_all clean_part parts"
begin

text \<open>Joining guarded components to a root stays below the root: nothing in them climbs out.\<close>

lemma stays_below:
  assumes "guard v = Inr parts"
  shows "normalise (base @ parts) = normalise base @ parts"
  using clean_parts [OF assms] by (simp add: normalise_def normalise_acc_append normalise_acc_clean)

lemma no_climb: "guard v = Inr parts \<Longrightarrow> ''..'' \<notin> set parts"
  using clean_parts by (auto simp: list_all_iff clean_part_def)

end

text \<open>The file kinds in a fixed order, so that sets of them are finite and comparable.\<close>

instantiation file_kind :: linorder
begin

fun kind_rank :: "file_kind \<Rightarrow> nat" where
  "kind_rank Regular = 0" | "kind_rank Directory = 1" | "kind_rank Symlink = 2" | "kind_rank Special = 3"

definition less_eq_file_kind :: "file_kind \<Rightarrow> file_kind \<Rightarrow> bool" where
  "less_eq_file_kind a b = (kind_rank a \<le> kind_rank b)"

definition less_file_kind :: "file_kind \<Rightarrow> file_kind \<Rightarrow> bool" where
  "less_file_kind a b = (kind_rank a < kind_rank b)"

instance
proof
  fix a b :: file_kind
  show "a \<le> b \<Longrightarrow> b \<le> a \<Longrightarrow> a = b"
    by (cases a; cases b) (auto simp: less_eq_file_kind_def)
qed (auto simp: less_eq_file_kind_def less_file_kind_def)

end

end
