(* ===== verification/Checkout.thy ===== *)
theory Checkout
  imports World
begin

text \<open>
  The checkout guards of \<open>port/consumer/verify.py\<close>: the validation of recorded paths
  (\<open>_validate_relative_path\<close>, \<open>_safe_child\<close>, \<open>_safe_non_symlink_child\<close>, \<open>_regular_non_symlink\<close>), the
  snapshot of the checkout (\<open>_check_checkout_snapshot\<close>) and the consumer's release tag
  (\<open>_check_consumer_release\<close>).
\<close>

definition FORBIDDEN_PATH_PARTS :: "string list" where
  "FORBIDDEN_PATH_PARTS =
     [''.agents'', ''.agentsroom'', ''.app-test-build'', ''.build'', ''.claude'', ''.coverage-html'',
      ''.cursor'', ''.mypy_cache'', ''.omo'', ''.opencode'', ''.phase0-evidence'', ''.playwright-cli'',
      ''.playwright-mcp'', ''.pytest_cache'', ''.ruff_cache'', ''.sisyphus'', ''.swiftpm'', ''.venv'',
      ''.windsurf'', ''.worktrees'', ''build'', ''coverage'', ''dist'', ''node_modules'', ''target'',
      ''target-run'', ''vendor'']"

definition REVISION_RE :: regex where
  "REVISION_RE = HEX40"

text \<open>\<open>RELEASE_TAG_RE\<close>\<close>

definition RELEASE_TAG :: regex where
  "RELEASE_TAG = Seq (Chr (CHR ''v'')) CORE"

definition is_revision :: "pyval \<Rightarrow> bool" where
  "is_revision v = str_such (fullmatch REVISION_RE) v"

definition is_release_tag :: "pyval \<Rightarrow> bool" where
  "is_release_tag v = str_such (fullmatch RELEASE_TAG) v"

lemma is_revision_iff: "is_revision v \<longleftrightarrow> (\<exists>s. v = VStr s \<and> length s = 40 \<and> is_hex s)"
  by (simp add: is_revision_def str_such_iff REVISION_RE_def fullmatch_HEX40)

text \<open>\<open>str(record.get("repo", "unknown"))\<close>\<close>

definition repo_of :: "world \<Rightarrow> pydict \<Rightarrow> string" where
  "repo_of w record = py_str (float_text w) (dget_or record ''repo'' (VStr ''unknown''))"

section \<open>Paths\<close>

definition validate_relative_path :: "pyval \<Rightarrow> string list res" where
  "validate_relative_path relative =
     (case relative of
        VStr s \<Rightarrow>
          if strip s = [] \<or> is_absolute s then Inl (ValueError ''path must be a non-empty relative path'')
          else let parts = path_parts s in
          if ''..'' \<in> set parts then Inl (ValueError ''path must remain below checkout root'')
          else let forbidden = sorted_set (filter (\<lambda>p. p \<in> set FORBIDDEN_PATH_PARTS) parts) in
          (case forbidden of
             f # _ \<Rightarrow> Inl (ValueError (msg [''path contains forbidden component: '', f]))
           | [] \<Rightarrow> Inr parts)
      | _ \<Rightarrow> Inl (ValueError ''path must be a non-empty relative path''))"

text \<open>\<open>candidate.relative_to(root)\<close> of two resolved paths.\<close>

definition relative_to :: "path \<Rightarrow> path \<Rightarrow> string list res" where
  "relative_to p base =
     (if take (length base) p = base then Inr (drop (length base) p)
      else Inl (ValueError (msg [''/'', as_posix p, '' is not in the subpath of /'', as_posix base])))"

definition safe_child :: "world \<Rightarrow> path \<Rightarrow> string \<Rightarrow> path res" where
  "safe_child w base relative =
     bind_res (validate_relative_path (VStr relative)) (\<lambda>_.
     bind_res (resolve_path w base) (\<lambda>root_resolved.
     bind_res (resolve_path w (root_resolved @ path_parts relative)) (\<lambda>candidate.
     bind_res (relative_to candidate root_resolved) (\<lambda>_. Inr candidate))))"

text \<open>The loop over the components: a missing component ends it, a symbolic link is an error.\<close>

fun no_symlink_segment :: "world \<Rightarrow> path \<Rightarrow> string list \<Rightarrow> unit res" where
  "no_symlink_segment w current [] = Inr ()"
| "no_symlink_segment w current (component # components) =
     (case lstat_of w (current @ [component]) of
        Inr Symlink \<Rightarrow> Inl (ValueError ''path must not contain a symlink segment'')
      | Inr _ \<Rightarrow> no_symlink_segment w (current @ [component]) components
      | Inl (FileNotFoundError _) \<Rightarrow> Inr ()
      | Inl e \<Rightarrow> Inl e)"

definition safe_non_symlink_child :: "world \<Rightarrow> path \<Rightarrow> pyval \<Rightarrow> path res" where
  "safe_non_symlink_child w base relative =
     bind_res (validate_relative_path relative) (\<lambda>parts.
     bind_res (resolve_path w base) (\<lambda>root_resolved.
     bind_res (no_symlink_segment w root_resolved parts) (\<lambda>_. Inr (root_resolved @ parts))))"

definition regular_non_symlink :: "world \<Rightarrow> path \<Rightarrow> bool res" where
  "regular_non_symlink w p =
     (case lstat_of w p of Inr k \<Rightarrow> Inr (k = Regular) | Inl e \<Rightarrow> if is_os_error e then Inr False else Inl e)"

section \<open>The checkout snapshot\<close>

definition source_names :: "string list" where
  "source_names = [''go.mod'', ''go.work'', ''Cargo.toml'', ''Cargo.lock'']"

text \<open>\<open>path.suffix in {".go", ".rs"}\<close>: the text from the last dot, which is neither first nor last.\<close>

definition path_suffix :: "string \<Rightarrow> string" where
  "path_suffix name =
     (let tail = rev (takeWhile (\<lambda>c. c \<noteq> CHR ''.'') (rev name)) in
      if tail = name \<or> tail = [] \<or> Suc (length tail) = length name then []
      else CHR ''.'' # tail)"

definition source_shaped :: "string \<Rightarrow> bool" where
  "source_shaped filename = (filename \<in> set source_names \<or> path_suffix filename \<in> {''.go'', ''.rs''})"

definition is_link :: "world \<Rightarrow> path \<Rightarrow> bool res" where
  "is_link w p =
     (case lstat_of w p of Inr k \<Rightarrow> Inr (k = Symlink) | Inl e \<Rightarrow> if is_os_error e then Inr False else Inl e)"

fun is_tdir :: "fstree \<Rightarrow> bool" where
  "is_tdir TFile = False" | "is_tdir _ = True"

text \<open>One directory name of the walk: whether it is kept, and the finding for a symbolic link.\<close>

definition keep_directory :: "string \<Rightarrow> bool" where
  "keep_directory name = (name \<noteq> ''.git'' \<and> name \<notin> set FORBIDDEN_PATH_PARTS)"

definition walk_directory :: "world \<Rightarrow> string \<Rightarrow> path \<Rightarrow> string list \<Rightarrow> string \<Rightarrow> check" where
  "walk_directory w repo checkout rel name =
     (if \<not> keep_directory name then ok
      else bind_res (is_link w (checkout @ rel @ [name])) (\<lambda>link.
        onlyif link (add_finding repo ''checkout.path''
          (msg [''checkout contains a symlink directory: '', as_posix (rel @ [name])]))))"

definition walk_file :: "world \<Rightarrow> string \<Rightarrow> path \<Rightarrow> string list \<Rightarrow> string \<Rightarrow> check" where
  "walk_file w repo checkout rel filename =
     (if \<not> source_shaped filename then ok
      else let relative = as_posix (rel @ [filename]) in
        onlyif (git_code w [''ls-files'', ''--error-unmatch'', ''--'', relative] checkout \<noteq> 0)
          (add_finding repo ''checkout.untracked_source'' (msg [''untracked source file is not allowed: '', relative])))"

text \<open>\<open>for directory, directories, files in os.walk(checkout)\<close>, top down; \<open>directories[:] = kept\<close>
  prunes what is not entered.\<close>

fun walk_tree :: "world \<Rightarrow> string \<Rightarrow> path \<Rightarrow> string list \<Rightarrow> (string \<times> fstree) list \<Rightarrow> check" where
  "walk_tree w repo checkout rel entries =
     checks
       (map (\<lambda>(name, _). walk_directory w repo checkout rel name) (filter (\<lambda>(_, t). is_tdir t) entries) @
        map (\<lambda>(name, _). walk_file w repo checkout rel name) (filter (\<lambda>(_, t). \<not> is_tdir t) entries) @
        map (\<lambda>(name, t). (case t of
               TDir children \<Rightarrow>
                 if \<not> keep_directory name then ok
                 else bind_res (is_link w (checkout @ rel @ [name])) (\<lambda>link.
                   if link then ok else walk_tree w repo checkout (rel @ [name]) children)
             | _ \<Rightarrow> ok)) entries)"

declare walk_tree.simps [simp del]

definition tracked_path_check :: "world \<Rightarrow> string \<Rightarrow> path \<Rightarrow> string \<Rightarrow> check" where
  "tracked_path_check w repo checkout relative =
     (case safe_non_symlink_child w checkout (VStr relative) of
        Inl e \<Rightarrow>
          if is_os_error e \<or> is_value_error e
          then add_finding repo ''checkout.path'' (msg [''tracked path is unsafe or forbidden: '', relative])
          else Inl e
      | Inr p \<Rightarrow>
          bind_res (regular_non_symlink w p) (\<lambda>regular.
            onlyif (\<not> regular)
              (add_finding repo ''checkout.path'' (msg [''tracked path is not a regular non-symlink file: '', relative]))))"

text \<open>\<open>(item for item in output.split("\\0") if item)\<close>\<close>

definition split_nul :: "string \<Rightarrow> string list" where
  "split_nul out = filter (\<lambda>item. item \<noteq> []) (split_on (CHR 0x00) out)"

definition or_git_failed :: "string \<Rightarrow> string" where
  "or_git_failed err = (if err = [] then ''git failed'' else err)"

definition head_check :: "world \<Rightarrow> string \<Rightarrow> path \<Rightarrow> pyval \<Rightarrow> check" where
  "head_check w repo checkout expected =
     (if \<not> is_revision expected
      then add_finding repo ''checkout.commit'' ''consumer record needs a 40-hex immutable checkout_commit''
      else (case git_cmd w [''rev-parse'', ''--verify'', ''HEAD^{commit}''] checkout of (returncode, actual, err) \<Rightarrow>
        if returncode \<noteq> 0
        then add_finding repo ''checkout.commit'' (msg [''cannot read checkout HEAD: '', or_git_failed err])
        else onlyif (VStr actual \<noteq> expected)
          (add_finding repo ''checkout.commit'' (msg [''checkout HEAD '', actual, '' != recorded checkout_commit '',
             py_str (float_text w) expected]))))"

definition tracked_check :: "world \<Rightarrow> string \<Rightarrow> path \<Rightarrow> check" where
  "tracked_check w repo checkout =
     (case git_cmd w [''ls-files'', ''-z''] checkout of (returncode, out, err) \<Rightarrow>
        if returncode \<noteq> 0
        then add_finding repo ''checkout.paths'' (msg [''cannot inspect tracked checkout paths: '', or_git_failed err])
        else checks (map (tracked_path_check w repo checkout) (split_nul out)))"

definition check_checkout_snapshot :: "world \<Rightarrow> pydict \<Rightarrow> path \<Rightarrow> check" where
  "check_checkout_snapshot w record checkout =
     (let repo = repo_of w record; scan = checks [walk_tree w repo checkout [] (tree_at w checkout), tracked_check w repo checkout]
      in checks
       [head_check w repo checkout (dget record ''checkout_commit''),
        (case git_cmd w [''status'', ''--porcelain=v1'', ''--untracked-files=all''] checkout of (returncode, status, err) \<Rightarrow>
           if returncode \<noteq> 0
           then checks [add_finding repo ''checkout.status''
                  (msg [''cannot inspect checkout status: '', or_git_failed err]), scan]
           else if status \<noteq> []
           then add_finding repo ''checkout.dirty'' ''consumer checkout has tracked or untracked changes''
           else scan)])"

section \<open>The consumer's release\<close>

definition check_consumer_release :: "world \<Rightarrow> pydict \<Rightarrow> path \<Rightarrow> check" where
  "check_consumer_release w record checkout =
     (let repo = repo_of w record in
      case dget record ''consumer_release'' of
        VDict release \<Rightarrow>
          (let tag = dget release ''tag''; commit = dget release ''commit'' in
           case (tag, commit) of
             (VStr t, VStr c) \<Rightarrow>
               if \<not> is_release_tag tag \<or> \<not> is_revision commit
               then add_finding repo ''consumer.release.shape''
                      ''consumer_release needs a stable vMAJOR.MINOR.PATCH tag and 40-hex commit''
               else checks
                 [(case git_cmd w [''rev-parse'', ''--verify'', msg [''refs/tags/'', t, ''^{commit}'']] checkout of
                     (returncode, resolved, _) \<Rightarrow>
                     onlyif (returncode \<noteq> 0 \<or> resolved \<noteq> c)
                       (add_finding repo ''consumer.release.tag'' (msg [''consumer tag '', t,
                          '' does not resolve to its recorded commit in the consumer checkout'']))),
                  onlyif (\<not> py_eq commit (dget record ''checkout_commit''))
                    (add_finding repo ''consumer.release.snapshot''
                       ''consumer release commit must equal checkout_commit; an ancestor or later snapshot is not the released source'')]
           | _ \<Rightarrow> add_finding repo ''consumer.release.shape''
                      ''consumer_release needs a stable vMAJOR.MINOR.PATCH tag and 40-hex commit'')
      | _ \<Rightarrow> add_finding repo ''consumer.release.missing''
               ''consumer snapshot has no consumer_release tag/commit evidence'')"

section \<open>What the guards establish\<close>

lemma sorted_set_filter_Nil: "sorted_set (filter (\<lambda>p. p \<in> set ys) xs) = [] \<longleftrightarrow> set xs \<inter> set ys = {}"
  using sorted_set_facts(3) [of "filter (\<lambda>p. p \<in> set ys) xs"] set_empty [of "sorted_set (filter (\<lambda>p. p \<in> set ys) xs)"]
  by auto

lemma validate_relative_path_Inr:
  "validate_relative_path v = Inr parts \<longleftrightarrow>
     (\<exists>s. v = VStr s \<and> strip s \<noteq> [] \<and> \<not> is_absolute s \<and> parts = path_parts s \<and> ''..'' \<notin> set parts \<and>
        set parts \<inter> set FORBIDDEN_PATH_PARTS = {})"
proof (cases v)
  case (VStr s)
  show ?thesis
  proof (cases "sorted_set (filter (\<lambda>p. p \<in> set FORBIDDEN_PATH_PARTS) (path_parts s))")
    case Nil
    with sorted_set_filter_Nil [of FORBIDDEN_PATH_PARTS "path_parts s"]
    have "set (path_parts s) \<inter> set FORBIDDEN_PATH_PARTS = {}" by simp
    with VStr Nil show ?thesis by (simp add: validate_relative_path_def Let_def) blast
  next
    case (Cons f fs)
    with sorted_set_filter_Nil [of FORBIDDEN_PATH_PARTS "path_parts s"]
    have "set (path_parts s) \<inter> set FORBIDDEN_PATH_PARTS \<noteq> {}" by simp
    with VStr Cons show ?thesis by (simp add: validate_relative_path_def Let_def)
  qed
qed (simp_all add: validate_relative_path_def)

interpretation consumer_paths: path_guard validate_relative_path
  by unfold_locales
    (auto simp: validate_relative_path_Inr list_all_iff clean_part_def dest: path_parts_mem)

text \<open>No symbolic link on the way: every component that is reached is looked at, and is no link;
  the walk ends early only where a component is missing.\<close>

lemma no_symlink_segment_Cons:
  "no_symlink_segment w current (c # cs) = Inr () \<longleftrightarrow>
     (\<exists>k. lstat_of w (current @ [c]) = Inr k \<and> k \<noteq> Symlink \<and> no_symlink_segment w (current @ [c]) cs = Inr ()) \<or>
     (\<exists>m. lstat_of w (current @ [c]) = Inl (FileNotFoundError m))"
proof (cases "lstat_of w (current @ [c])")
  case (Inl e)
  then show ?thesis by (cases e) simp_all
next
  case (Inr k)
  then show ?thesis by (cases k) simp_all
qed

declare no_symlink_segment.simps(2) [simp del]

lemma no_symlink_segment_Inr:
  "no_symlink_segment w current parts = Inr () \<Longrightarrow> 0 < k \<Longrightarrow> k \<le> length parts \<Longrightarrow>
     (\<forall>j. 0 < j \<and> j < k \<longrightarrow> (\<exists>f. lstat_of w (current @ take j parts) = Inr f)) \<Longrightarrow>
     lstat_of w (current @ take k parts) \<noteq> Inr Symlink"
proof (induction parts arbitrary: current k)
  case Nil
  then show ?case by simp
next
  case (Cons c cs)
  obtain m where k: "k = Suc m" using Cons.prems(2) by (cases k) auto
  show ?case
  proof (cases "m = 0")
    case True
    with k Cons.prems(1) show ?thesis by (auto simp: no_symlink_segment_Cons)
  next
    case False
    have "\<exists>f. lstat_of w (current @ [c]) = Inr f" using Cons.prems(4) [rule_format, of 1] False k by simp
    with Cons.prems(1) have rest: "no_symlink_segment w (current @ [c]) cs = Inr ()"
      by (auto simp: no_symlink_segment_Cons)
    have "\<exists>f. lstat_of w ((current @ [c]) @ take j cs) = Inr f" if "0 < j \<and> j < m" for j
      using Cons.prems(4) [rule_format, of "Suc j"] that k by simp
    with Cons.IH [OF rest, of m] False Cons.prems(3) k show ?thesis by simp
  qed
qed

section \<open>What a clean snapshot establishes\<close>

text \<open>A file the walk comes to: below directories that are kept, none of them an entry that is
  pruned.\<close>

inductive walked :: "string list \<Rightarrow> (string \<times> fstree) list \<Rightarrow> string list \<Rightarrow> bool" where
  walked_file: "(name, t) \<in> set entries \<Longrightarrow> \<not> is_tdir t \<Longrightarrow> walked rel entries (rel @ [name])"
| walked_dir: "(name, TDir children) \<in> set entries \<Longrightarrow> keep_directory name \<Longrightarrow>
     walked (rel @ [name]) children p \<Longrightarrow> walked rel entries p"

text \<open>What is claimed of every file: a source file the walk comes to is known to Git.\<close>

definition git_knows :: "world \<Rightarrow> path \<Rightarrow> string list \<Rightarrow> bool" where
  "git_knows w checkout p = (git_code w [''ls-files'', ''--error-unmatch'', ''--'', as_posix p] checkout = 0)"

lemma walk_file_clean [clean]:
  "walk_file w repo checkout rel name = Inr [] \<longleftrightarrow> (source_shaped name \<longrightarrow> git_knows w checkout (rel @ [name]))"
  by (simp add: walk_file_def Let_def git_knows_def clean)

lemma is_link_Inr: "is_link w p = Inr b \<Longrightarrow> lstat_of w p = Inr Symlink \<longleftrightarrow> b"
  by (auto simp: is_link_def split: sum.splits if_splits)

lemma walk_directory_clean:
  "walk_directory w repo checkout rel name = Inr [] \<longleftrightarrow>
     (keep_directory name \<longrightarrow> is_link w (checkout @ rel @ [name]) = Inr False)"
  by (cases "is_link w (checkout @ rel @ [name])") (auto simp: walk_directory_def clean)

lemma walk_tree_clean_parts:
  assumes "walk_tree w repo checkout rel entries = Inr []"
  shows "(name, t) \<in> set entries \<Longrightarrow> is_tdir t \<Longrightarrow> keep_directory name \<Longrightarrow>
           is_link w (checkout @ rel @ [name]) = Inr False"
    and "(name, t) \<in> set entries \<Longrightarrow> \<not> is_tdir t \<Longrightarrow> walk_file w repo checkout rel name = Inr []"
    and "(name, TDir children) \<in> set entries \<Longrightarrow> keep_directory name \<Longrightarrow>
           walk_tree w repo checkout (rel @ [name]) children = Inr []"
proof -
  from assms have all:
    "\<forall>(name, t) \<in> set entries. is_tdir t \<longrightarrow> walk_directory w repo checkout rel name = Inr []"
    "\<forall>(name, t) \<in> set entries. \<not> is_tdir t \<longrightarrow> walk_file w repo checkout rel name = Inr []"
    "\<forall>(name, t) \<in> set entries. (case t of TDir children \<Rightarrow>
       if \<not> keep_directory name then ok
       else bind_res (is_link w (checkout @ rel @ [name])) (\<lambda>link.
         if link then ok else walk_tree w repo checkout (rel @ [name]) children) | _ \<Rightarrow> ok) = Inr []"
    unfolding walk_tree.simps [of w repo checkout rel] by (auto simp: checks_clean)
  show link: "is_link w (checkout @ rel @ [name]) = Inr False"
    if "(name, t) \<in> set entries" "is_tdir t" "keep_directory name" for name t
    using all(1) that by (auto simp: walk_directory_clean)
  show "walk_file w repo checkout rel name = Inr []" if "(name, t) \<in> set entries" "\<not> is_tdir t"
    using all(2) that by auto
  show "walk_tree w repo checkout (rel @ [name]) children = Inr []"
    if "(name, TDir children) \<in> set entries" "keep_directory name"
    using all(3) that link [OF that(1)] by auto
qed

lemma walk_tree_sound:
  "walked rel entries p \<Longrightarrow> walk_tree w repo checkout rel entries = Inr [] \<Longrightarrow>
     source_shaped (last p) \<Longrightarrow> git_knows w checkout p"
proof (induction rule: walked.induct)
  case (walked_file name t entries rel)
  with walk_tree_clean_parts(2) [OF walked_file.prems(1) walked_file.hyps] show ?case by (simp add: clean)
next
  case (walked_dir name children entries rel p)
  from walk_tree_clean_parts(3) [OF walked_dir.prems(1) walked_dir.hyps(1) walked_dir.hyps(2)]
  show ?case by (rule walked_dir.IH) (rule walked_dir.prems(2))
qed

text \<open>A tracked path that raises no finding: it stays below the checkout, no link on the way, a
  regular file at the end.\<close>

definition tracked_ok :: "world \<Rightarrow> path \<Rightarrow> string \<Rightarrow> bool" where
  "tracked_ok w checkout relative =
     (case resolve_path w checkout of
        Inl _ \<Rightarrow> False
      | Inr base \<Rightarrow>
          validate_relative_path (VStr relative) = Inr (path_parts relative) \<and>
          no_symlink_segment w base (path_parts relative) = Inr () \<and>
          lstat_of w (base @ path_parts relative) = Inr Regular)"

lemma regular_non_symlink_True: "regular_non_symlink w p = Inr True \<longleftrightarrow> lstat_of w p = Inr Regular"
  by (auto simp: regular_non_symlink_def split: sum.splits)

lemma safe_non_symlink_child_Inr:
  "safe_non_symlink_child w checkout v = Inr p \<longleftrightarrow>
     (\<exists>base parts. resolve_path w checkout = Inr base \<and> validate_relative_path v = Inr parts \<and>
        no_symlink_segment w base parts = Inr () \<and> p = base @ parts)"
  by (auto simp: safe_non_symlink_child_def bind_res_eq_Inr)

lemma tracked_path_check_clean [clean]:
  "tracked_path_check w repo checkout relative = Inr [] \<longleftrightarrow> tracked_ok w checkout relative"
proof (cases "safe_non_symlink_child w checkout (VStr relative)")
  case (Inl e)
  then have "\<not> tracked_ok w checkout relative"
    by (auto simp: tracked_ok_def safe_non_symlink_child_def split: sum.splits)
  with Inl show ?thesis by (simp add: tracked_path_check_def clean)
next
  case (Inr p)
  then obtain base where "resolve_path w checkout = Inr base" "p = base @ path_parts relative"
    "validate_relative_path (VStr relative) = Inr (path_parts relative)"
    "no_symlink_segment w base (path_parts relative) = Inr ()"
    by (auto simp: safe_non_symlink_child_Inr validate_relative_path_Inr)
  with Inr show ?thesis
    by (auto simp: tracked_path_check_def tracked_ok_def clean bind_res_eq_Inr regular_non_symlink_True
        simp flip: regular_non_symlink_True)
qed

lemma head_check_clean [clean]:
  "head_check w repo checkout v = Inr [] \<longleftrightarrow>
     is_revision v \<and> git_code w [''rev-parse'', ''--verify'', ''HEAD^{commit}''] checkout = 0 \<and>
     v = VStr (git_out w [''rev-parse'', ''--verify'', ''HEAD^{commit}''] checkout)"
  by (auto simp: head_check_def git_code_def git_out_def clean split: prod.splits)

lemma tracked_check_clean [clean]:
  "tracked_check w repo checkout = Inr [] \<longleftrightarrow>
     git_code w [''ls-files'', ''-z''] checkout = 0 \<and>
     (\<forall>p \<in> set (split_nul (git_out w [''ls-files'', ''-z''] checkout)). tracked_ok w checkout p)"
  by (auto simp: tracked_check_def git_code_def git_out_def clean split: prod.splits)

definition status_args :: "string list" where
  "status_args = [''status'', ''--porcelain=v1'', ''--untracked-files=all'']"

lemma check_checkout_snapshot_clean:
  "check_checkout_snapshot w record checkout = Inr [] \<longleftrightarrow>
     head_check w (repo_of w record) checkout (dget record ''checkout_commit'') = Inr [] \<and>
     git_code w status_args checkout = 0 \<and> git_out w status_args checkout = [] \<and>
     walk_tree w (repo_of w record) checkout [] (tree_at w checkout) = Inr [] \<and>
     tracked_check w (repo_of w record) checkout = Inr []"
  by (auto simp: check_checkout_snapshot_def Let_def status_args_def git_code_def git_out_def checks_clean
      onlyif_clean add_not_clean ok_clean split: prod.splits)

lemma is_release_tag_iff: "is_release_tag v \<longleftrightarrow> (\<exists>s. v = VStr s \<and> fullmatch RELEASE_TAG s)"
  by (simp add: is_release_tag_def str_such_iff)

definition tag_args :: "string \<Rightarrow> string list" where
  "tag_args t = [''rev-parse'', ''--verify'', msg [''refs/tags/'', t, ''^{commit}'']]"

lemma check_consumer_release_clean:
  "check_consumer_release w record checkout = Inr [] \<longleftrightarrow>
     (\<exists>release t c. dget record ''consumer_release'' = VDict release \<and> dget release ''tag'' = VStr t \<and>
        dget release ''commit'' = VStr c \<and> fullmatch RELEASE_TAG t \<and> is_revision (VStr c) \<and>
        git_code w (tag_args t) checkout = 0 \<and> git_out w (tag_args t) checkout = c \<and>
        dget record ''checkout_commit'' = VStr c)"
proof (cases "dget record ''consumer_release''")
  case (VDict release)
  show ?thesis
  proof (cases "\<exists>t c. dget release ''tag'' = VStr t \<and> dget release ''commit'' = VStr c")
    case True
    then obtain t c where "dget release ''tag'' = VStr t" "dget release ''commit'' = VStr c" by blast
    with VDict show ?thesis
      by (auto simp: check_consumer_release_def Let_def clean is_release_tag_iff git_code_def git_out_def
          tag_args_def py_eq_VStr split: prod.splits)
  next
    case False
    with VDict show ?thesis
      by (auto simp: check_consumer_release_def Let_def clean split: pyval.splits)
  qed
qed (auto simp: check_consumer_release_def Let_def clean)

section \<open>Properties\<close>

text \<open>a recorded path that \<open>_safe_non_symlink_child\<close> accepts names a place below the checkout. The
  path it returns is the resolved checkout followed by the path's own components; none of them is a
  forbidden directory or climbs out, so normalising the whole path leaves them where they are; and
  as far as the path exists no component on the way is a symbolic link, the last one included.\<close>

theorem safe_path_stays_in_checkout:
  assumes "safe_non_symlink_child w checkout v = Inr p"
  shows "\<exists>base parts. resolve_path w checkout = Inr base \<and> p = base @ parts \<and>
           set parts \<inter> set FORBIDDEN_PATH_PARTS = {} \<and> normalise p = normalise base @ parts \<and>
           (\<forall>k. 0 < k \<and> k \<le> length parts \<and> (\<forall>j. 0 < j \<and> j < k \<longrightarrow> (\<exists>f. lstat_of w (base @ take j parts) = Inr f)) \<longrightarrow>
              lstat_of w (base @ take k parts) \<noteq> Inr Symlink)"
proof -
  from assms obtain base parts where facts: "resolve_path w checkout = Inr base" "p = base @ parts"
    and guard: "validate_relative_path v = Inr parts" and walk: "no_symlink_segment w base parts = Inr ()"
    by (auto simp: safe_non_symlink_child_Inr)
  have "normalise p = normalise base @ parts"
    using consumer_paths.stays_below [OF guard] facts(2) by simp
  moreover have "set parts \<inter> set FORBIDDEN_PATH_PARTS = {}"
    using guard unfolding validate_relative_path_Inr by blast
  ultimately show ?thesis
    using facts no_symlink_segment_Inr [OF walk] by blast
qed

text \<open>A checkout whose snapshot check reports nothing is exactly the recorded commit. The record
  names a 40-digit lower-case hexadecimal commit and HEAD is that commit; Git reports no change to
  a tracked file and no untracked file; every tracked path is a regular file below the checkout,
  reached without a symbolic link and outside the forbidden directories; and every Go or Rust source,
  manifest or lock file the directory walk comes to, ignored by Git or not, is a tracked file.\<close>

theorem clean_snapshot_is_recorded_commit:
  assumes "check_checkout_snapshot w record checkout = Inr []"
  shows "(\<exists>c. dget record ''checkout_commit'' = VStr c \<and> length c = 40 \<and> is_hex c \<and>
            git_out w [''rev-parse'', ''--verify'', ''HEAD^{commit}''] checkout = c) \<and>
         git_out w status_args checkout = [] \<and>
         (\<forall>p \<in> set (split_nul (git_out w [''ls-files'', ''-z''] checkout)). tracked_ok w checkout p) \<and>
         (\<forall>p. walked [] (tree_at w checkout) p \<longrightarrow> source_shaped (last p) \<longrightarrow> git_knows w checkout p)"
proof -
  note facts = assms [unfolded check_checkout_snapshot_clean]
  from facts have "walk_tree w (repo_of w record) checkout [] (tree_at w checkout) = Inr []" by blast
  with walk_tree_sound have "\<forall>p. walked [] (tree_at w checkout) p \<longrightarrow> source_shaped (last p) \<longrightarrow> git_knows w checkout p"
    by blast
  with facts show ?thesis by (auto simp: head_check_clean tracked_check_clean is_revision_iff)
qed

text \<open>The release evidence of a consumer is accepted exactly when the record names a stable tag
  \<open>vMAJOR.MINOR.PATCH\<close> and a 40-digit commit, the tag resolves to that commit in the consumer's own
  checkout, and the commit is the one the snapshot is recorded at; every other record is refused.\<close>

theorem consumer_release_accepted_iff:
  "check_consumer_release w record checkout = Inr [] \<longleftrightarrow>
     (\<exists>release t c. dget record ''consumer_release'' = VDict release \<and> dget release ''tag'' = VStr t \<and>
        dget release ''commit'' = VStr c \<and> fullmatch RELEASE_TAG t \<and> length c = 40 \<and> is_hex c \<and>
        git_code w (tag_args t) checkout = 0 \<and> git_out w (tag_args t) checkout = c \<and>
        dget record ''checkout_commit'' = VStr c)"
  by (simp add: check_consumer_release_clean is_revision_iff)

section \<open>A concrete checkout\<close>

text \<open>A checkout with one tracked Go file and a \<open>.git\<close> directory.\<close>

definition demo_commit :: string where
  "demo_commit = ''0123456789abcdef0123456789abcdef01234567''"

definition demo_git :: "string list \<Rightarrow> path \<Rightarrow> int \<times> string \<times> string" where
  "demo_git args cwd =
     (if args = [''rev-parse'', ''--verify'', ''HEAD^{commit}''] then (0, demo_commit, [])
      else if args = [''ls-files'', ''-z''] then (0, ''cmd/main.go'' @ [CHR 0x00], [])
      else if args = [''ls-files'', ''--error-unmatch'', ''--'', ''cmd/main.go''] then (0, ''cmd/main.go'', [])
      else if args = status_args then (0, [], [])
      else (1, [], ''fatal''))"

definition demo_lstat :: "path \<Rightarrow> file_kind res" where
  "demo_lstat p =
     (if p \<in> {[''home''], [''home'', ''c''], [''home'', ''c'', ''cmd''], [''home'', ''c'', ''.git'']} then Inr Directory
      else if p = [''home'', ''c'', ''cmd'', ''main.go''] then Inr Regular
      else Inl (FileNotFoundError ''missing''))"

definition demo_world :: world where
  "demo_world =
     \<lparr>run_git = demo_git, lstat_of = demo_lstat, is_file = (\<lambda>p. demo_lstat p = Inr Regular),
      is_dir = (\<lambda>p. demo_lstat p = Inr Directory), resolve_path = Inr,
      tree_at = (\<lambda>_. [(''.git'', TDir [(''x.go'', TFile)]), (''cmd'', TDir [(''main.go'', TFile)])]),
      read_bytes = (\<lambda>_. Inr []), utf8 = Inr, encode_utf8 = (\<lambda>s. s), toml_loads = (\<lambda>_. Inr []),
      json_loads = (\<lambda>_. Inr VNone), sha256 = (\<lambda>s. s), float_text = (\<lambda>_. ''0.0'')\<rparr>"

definition demo_record :: pydict where
  "demo_record = [(''repo'', VStr ''demo''), (''checkout_commit'', VStr demo_commit)]"

lemma demo_snapshot_clean: "check_checkout_snapshot demo_world demo_record [''home'', ''c''] = Inr []"
  by code_simp

lemma clean_snapshot_is_recorded_commit_witness:
  "git_out demo_world [''rev-parse'', ''--verify'', ''HEAD^{commit}''] [''home'', ''c''] = demo_commit"
proof -
  have "dget demo_record ''checkout_commit'' = VStr demo_commit" by code_simp
  with clean_snapshot_is_recorded_commit [OF demo_snapshot_clean] show ?thesis by auto
qed

lemma demo_safe_child:
  "safe_non_symlink_child demo_world [''home'', ''c''] (VStr ''cmd/main.go'') = Inr [''home'', ''c'', ''cmd'', ''main.go'']"
  by code_simp

lemma safe_path_stays_in_checkout_witness:
  "\<exists>base parts. resolve_path demo_world [''home'', ''c''] = Inr base \<and>
     [''home'', ''c'', ''cmd'', ''main.go''] = base @ parts \<and> set parts \<inter> set FORBIDDEN_PATH_PARTS = {}"
  using safe_path_stays_in_checkout [OF demo_safe_child] by blast

end
