(* ===== verification/CargoPins.thy ===== *)
theory CargoPins
  imports Checkout
begin

text \<open>
  The Cargo side of \<open>port/consumer/verify.py\<close> that reads manifests and pins: the dependency tables
  of a manifest (\<open>_dependency_tables\<close>, \<open>cargo_specs\<close>), the packages of manifests and lock files, the
  scan that a consumer without Rust adoption must pass (\<open>_check_not_adopted_rust\<close>), exact version
  pins (\<open>_cargo_version\<close>, \<open>_exact_cargo_version\<close>) and the adoption states (\<open>_expected_rust\<close>,
  \<open>_validate_rust_status\<close>).
\<close>

definition COREKIT_PACKAGE :: string where
  "COREKIT_PACKAGE = ''symaira-core-version''"

definition RUST_STATUSES :: "string list" where
  "RUST_STATUSES = [''not_adopted'', ''git'', ''registry'']"

section \<open>Versions\<close>

definition semver_cls :: "(char \<times> char) list" where
  "semver_cls = [(CHR ''0'', CHR ''9''), (CHR ''A'', CHR ''Z''), (CHR ''a'', CHR ''z''), (CHR ''-'', CHR ''-'')]"

definition semver_alpha_cls :: "(char \<times> char) list" where
  "semver_alpha_cls = [(CHR ''A'', CHR ''Z''), (CHR ''a'', CHR ''z''), (CHR ''-'', CHR ''-'')]"

definition SEMVER_IDENT :: regex where
  "SEMVER_IDENT = Alt NUM (Seq (Star (Cls semver_cls)) (Seq (Cls semver_alpha_cls) (Star (Cls semver_cls))))"

definition SEMVER_RE :: regex where
  "SEMVER_RE = Seq CORE
     (Seq (Opt (Seq (Chr (CHR ''-'')) (Seq SEMVER_IDENT (Star (Seq (Chr (CHR ''.'')) SEMVER_IDENT)))))
          (Opt (Seq (Chr (CHR ''+'')) (Seq (Plus (Cls semver_cls)) (Star (Seq (Chr (CHR ''.'')) (Plus (Cls semver_cls))))))))"

definition cargo_version :: "pyval \<Rightarrow> string option" where
  "cargo_version value =
     (case value of VStr s \<Rightarrow> Some s | VDict d \<Rightarrow> as_str (dget d ''version'') | _ \<Rightarrow> None)"

text \<open>\<open>EXACT_CARGO_RE.fullmatch(value)\<close>: the group after the equals sign, which holds no line feed.\<close>

definition exact_group :: "string \<Rightarrow> string option" where
  "exact_group value =
     (case value of c # v \<Rightarrow> if c = CHR ''='' \<and> v \<noteq> [] \<and> CHR 0x0A \<notin> set v then Some v else None | [] \<Rightarrow> None)"

definition exact_cargo_version :: "string option \<Rightarrow> string option" where
  "exact_cargo_version value =
     (case value of
        None \<Rightarrow> None
      | Some s \<Rightarrow> (case exact_group s of None \<Rightarrow> None | Some v \<Rightarrow> if fullmatch SEMVER_RE v then Some v else None))"

section \<open>Dependency tables\<close>

definition dependency_keys :: "string list" where
  "dependency_keys = [''dependencies'', ''dev-dependencies'', ''build-dependencies'']"

definition direct_tables :: "pydict \<Rightarrow> pydict list" where
  "direct_tables document = List.map_filter (\<lambda>key. as_dict (dget document key)) dependency_keys"

definition dependency_tables :: "pydict \<Rightarrow> pydict list" where
  "dependency_tables document =
     direct_tables document @
     (case dget document ''target'' of
        VDict target \<Rightarrow>
          concat (map (\<lambda>(_, target_document). case target_document of VDict d \<Rightarrow> direct_tables d | _ \<Rightarrow> []) target)
      | _ \<Rightarrow> []) @
     (case dget document ''workspace'' of
        VDict workspace \<Rightarrow> (case dget workspace ''dependencies'' of VDict d \<Rightarrow> [d] | _ \<Rightarrow> [])
      | _ \<Rightarrow> [])"

definition cargo_specs :: "world \<Rightarrow> path \<Rightarrow> pydict res" where
  "cargo_specs w manifest =
     bind_res (read_text w manifest) (\<lambda>content.
     bind_res (toml_loads w content) (\<lambda>document. Inr (concat (dependency_tables document))))"

text \<open>The paths of tracked files with one of the names; \<open>None\<close> where Git fails.\<close>

definition tracked_named :: "world \<Rightarrow> string list \<Rightarrow> path \<Rightarrow> path list option" where
  "tracked_named w names checkout =
     (if git_code w [''ls-files'', ''-z''] checkout \<noteq> 0 then None
      else Some (map (join_path checkout)
        (filter (\<lambda>relative. path_name relative \<in> set names) (split_nul (git_out w [''ls-files'', ''-z''] checkout)))))"

definition tracked_cargo_files :: "world \<Rightarrow> path \<Rightarrow> path list option" where
  "tracked_cargo_files w checkout = tracked_named w [''Cargo.toml'', ''Cargo.lock''] checkout"

definition spec_names_package :: "string \<Rightarrow> string \<times> pyval \<Rightarrow> bool" where
  "spec_names_package package item =
     (fst item = package \<or> (case snd item of VDict spec \<Rightarrow> dget spec ''package'' = VStr package | _ \<Rightarrow> False))"

definition cargo_manifest_contains_package :: "pydict \<Rightarrow> string \<Rightarrow> bool" where
  "cargo_manifest_contains_package document package =
     list_ex (list_ex (spec_names_package package)) (dependency_tables document)"

definition cargo_lock_contains_package :: "pydict \<Rightarrow> string \<Rightarrow> bool" where
  "cargo_lock_contains_package document package =
     (case dget document ''package'' of
        VList packages \<Rightarrow> list_ex (\<lambda>item. get_if_dict item ''name'' = VStr package) packages
      | _ \<Rightarrow> False)"

section \<open>Consumers without Rust adoption\<close>

text \<open>The name a path ends in: \<open>path.name\<close>.\<close>

definition last_part :: "path \<Rightarrow> string" where
  "last_part p = (if p = [] then [] else last p)"

definition contains_package :: "path \<Rightarrow> pydict \<Rightarrow> bool" where
  "contains_package p document =
     (if last_part p = ''Cargo.lock'' then cargo_lock_contains_package document COREKIT_PACKAGE
      else cargo_manifest_contains_package document COREKIT_PACKAGE)"

definition load_tracked :: "world \<Rightarrow> path \<Rightarrow> string \<Rightarrow> path \<Rightarrow> pydict res" where
  "load_tracked w checkout relative p =
     bind_res (safe_non_symlink_child w checkout (VStr relative)) (\<lambda>_.
     bind_res (read_text w p) (toml_loads w))"

definition not_adopted_file :: "world \<Rightarrow> string \<Rightarrow> path \<Rightarrow> path \<Rightarrow> check" where
  "not_adopted_file w repo checkout p =
     bind_res (relative_to p checkout) (\<lambda>rel.
       let relative = as_posix rel in
       (case load_tracked w checkout relative p of
          Inl e \<Rightarrow>
            if is_os_error e \<or> is_value_error e
            then add_finding repo ''rust.manifest.read'' (msg [''cannot inspect tracked '', relative, '': '', exc_text e])
            else Inl e
        | Inr document \<Rightarrow>
            onlyif (contains_package p document)
              (add_finding repo ''rust.not_adopted.present''
                 (msg [''not_adopted Rust status cannot coexist with '', COREKIT_PACKAGE, '' in tracked '', relative]))))"

definition check_not_adopted_rust :: "world \<Rightarrow> pydict \<Rightarrow> path \<Rightarrow> check" where
  "check_not_adopted_rust w record checkout =
     (let repo = repo_of w record in
      case tracked_cargo_files w checkout of
        None \<Rightarrow> add_finding repo ''rust.manifests.unavailable'' ''cannot inspect tracked Cargo manifests and locks''
      | Some paths \<Rightarrow> checks (map (not_adopted_file w repo checkout) paths))"

section \<open>Adoption states\<close>

definition expected_rust :: "pydict \<Rightarrow> pydict option res" where
  "expected_rust record =
     (case dget record ''rust'' of
        VDict rust \<Rightarrow> bind_res (in_strs (dget rust ''status'') [''git'', ''registry'']) (\<lambda>adopted.
          Inr (if adopted then Some rust else None))
      | _ \<Rightarrow> Inr None)"

definition validate_rust_status :: "world \<Rightarrow> pydict \<Rightarrow> check" where
  "validate_rust_status w record =
     (let repo = repo_of w record in
      if \<not> has_key record ''rust''
      then add_finding repo ''rust.status''
             ''Rust adoption status is required and must be one of: not_adopted, git, registry''
      else (case dget record ''rust'' of
              VDict rust \<Rightarrow> bind_res (in_strs (dget rust ''status'') RUST_STATUSES) (\<lambda>known.
                onlyif (\<not> known) (add_finding repo ''rust.status''
                  ''Rust adoption status must be one of: not_adopted, git, registry''))
            | _ \<Rightarrow> add_finding repo ''rust.status''
                     ''Rust adoption status must be one of: not_adopted, git, registry''))"

section \<open>What a version pin is\<close>

lemma semver_no_newline:
  assumes "fullmatch SEMVER_RE s"
  shows "s \<noteq> []" "CHR 0x0A \<notin> set s"
proof -
  have acc: "accepts SEMVER_RE s" using assms by (simp add: fullmatch_iff)
  have "\<not> in_cls (alphabet SEMVER_RE) (CHR 0x0A)"
    by (simp add: SEMVER_RE_def SEMVER_IDENT_def CORE_def NUM_def digit_cls_def semver_cls_def semver_alpha_cls_def
        Opt_def Plus_def Chr_def in_cls_def)
  with accepts_alphabet [OF acc] show "CHR 0x0A \<notin> set s" by blast
  have "\<not> nullable SEMVER_RE" by code_simp
  with acc show "s \<noteq> []" by (auto simp: nullable_iff)
qed

lemma exact_group_Some: "exact_group t = Some v \<longleftrightarrow> t = CHR ''='' # v \<and> v \<noteq> [] \<and> CHR 0x0A \<notin> set v"
  by (auto simp: exact_group_def split: list.splits)

lemma exact_cargo_version_Some:
  "exact_cargo_version value = Some v \<longleftrightarrow> value = Some (CHR ''='' # v) \<and> fullmatch SEMVER_RE v"
proof
  assume "exact_cargo_version value = Some v"
  then show "value = Some (CHR ''='' # v) \<and> fullmatch SEMVER_RE v"
    by (auto simp: exact_cargo_version_def exact_group_Some split: option.splits if_splits)
next
  assume r: "value = Some (CHR ''='' # v) \<and> fullmatch SEMVER_RE v"
  then have "exact_group (CHR ''='' # v) = Some v" by (simp add: exact_group_Some semver_no_newline)
  with r show "exact_cargo_version value = Some v" by (simp add: exact_cargo_version_def)
qed

section \<open>What the dependency tables are\<close>

text \<open>The tables of a manifest that declare dependencies, as rules.\<close>

inductive dependency_table :: "pydict \<Rightarrow> pydict \<Rightarrow> bool" where
  direct: "key \<in> set dependency_keys \<Longrightarrow> dget document key = VDict t \<Longrightarrow> dependency_table document t"
| target: "dget document ''target'' = VDict targets \<Longrightarrow> (name, VDict d) \<in> set targets \<Longrightarrow>
     key \<in> set dependency_keys \<Longrightarrow> dget d key = VDict t \<Longrightarrow> dependency_table document t"
| workspace: "dget document ''workspace'' = VDict ws \<Longrightarrow> dget ws ''dependencies'' = VDict t \<Longrightarrow>
     dependency_table document t"

lemma direct_tables_iff: "t \<in> set (direct_tables document) \<longleftrightarrow> (\<exists>key \<in> set dependency_keys. dget document key = VDict t)"
  by (simp add: direct_tables_def mem_map_filter)

lemma target_tables_iff:
  "t \<in> set (case v of VDict target \<Rightarrow>
               concat (map (\<lambda>(_, target_document). case target_document of VDict d \<Rightarrow> direct_tables d | _ \<Rightarrow> []) target)
             | _ \<Rightarrow> []) \<longleftrightarrow>
     (\<exists>targets name d. v = VDict targets \<and> (name, VDict d) \<in> set targets \<and> t \<in> set (direct_tables d))"
proof (cases v)
  case (VDict targets)
  have "(\<exists>p \<in> set targets. t \<in> set (case p of (_, target_document) \<Rightarrow> case target_document of VDict d \<Rightarrow> direct_tables d | _ \<Rightarrow> [])) \<longleftrightarrow>
          (\<exists>name d. (name, VDict d) \<in> set targets \<and> t \<in> set (direct_tables d))"
    by (force split: pyval.splits prod.splits)
  with VDict show ?thesis by auto
qed auto

lemma workspace_tables_iff:
  "t \<in> set (case v of VDict ws \<Rightarrow> (case dget ws ''dependencies'' of VDict d \<Rightarrow> [d] | _ \<Rightarrow> []) | _ \<Rightarrow> []) \<longleftrightarrow>
     (\<exists>ws. v = VDict ws \<and> dget ws ''dependencies'' = VDict t)"
  by (auto split: pyval.splits)

lemma dependency_tables_iff: "t \<in> set (dependency_tables document) \<longleftrightarrow> dependency_table document t"
  unfolding dependency_tables_def set_append Un_iff target_tables_iff workspace_tables_iff direct_tables_iff
  by (auto intro: dependency_table.intros elim!: dependency_table.cases)

text \<open>An entry of a table that pulls in the package: under its own name or renamed.\<close>

definition pulls_in :: "string \<Rightarrow> string \<Rightarrow> pyval \<Rightarrow> bool" where
  "pulls_in package dependency spec =
     (dependency = package \<or> (\<exists>d. spec = VDict d \<and> dget d ''package'' = VStr package))"

lemma spec_names_package_iff: "spec_names_package package (dependency, spec) \<longleftrightarrow> pulls_in package dependency spec"
  by (auto simp: spec_names_package_def pulls_in_def split: pyval.splits)

lemma cargo_manifest_contains_iff:
  "cargo_manifest_contains_package document package \<longleftrightarrow>
     (\<exists>t dependency spec. dependency_table document t \<and> (dependency, spec) \<in> set t \<and> pulls_in package dependency spec)"
proof -
  have "cargo_manifest_contains_package document package \<longleftrightarrow>
          (\<exists>t. dependency_table document t \<and> (\<exists>p \<in> set t. spec_names_package package p))"
    by (auto simp: cargo_manifest_contains_package_def list_ex_iff dependency_tables_iff)
  then show ?thesis by (simp add: spec_names_package_iff Bex_def)
qed

lemma get_if_dict_VStr: "get_if_dict v k = VStr s \<longleftrightarrow> (\<exists>d. v = VDict d \<and> dget d k = VStr s)"
  by (cases v) (auto simp: get_if_dict_def)

lemma cargo_lock_contains_iff:
  "cargo_lock_contains_package document package \<longleftrightarrow>
     (\<exists>packages d. dget document ''package'' = VList packages \<and> VDict d \<in> set packages \<and> dget d ''name'' = VStr package)"
  by (cases "dget document ''package''") (auto simp: cargo_lock_contains_package_def list_ex_iff get_if_dict_VStr)

text \<open>A tracked Cargo file that a consumer without Rust may have.\<close>

definition free_of_corekit :: "world \<Rightarrow> path \<Rightarrow> path \<Rightarrow> bool" where
  "free_of_corekit w checkout p =
     (\<exists>rel document. p = checkout @ rel \<and> load_tracked w checkout (as_posix rel) p = Inr document \<and>
        (if last_part p = ''Cargo.lock'' then \<not> cargo_lock_contains_package document COREKIT_PACKAGE
         else \<not> cargo_manifest_contains_package document COREKIT_PACKAGE))"

lemma relative_to_Inr: "relative_to p base = Inr rel \<longleftrightarrow> p = base @ rel"
  by (auto simp: relative_to_def) (metis append_take_drop_id)

lemma relative_to_append [simp]: "relative_to (base @ rel) base = Inr rel"
  by (simp add: relative_to_def)

lemma not_adopted_file_clean [clean]:
  "not_adopted_file w repo checkout p = Inr [] \<longleftrightarrow> free_of_corekit w checkout p"
proof (cases "relative_to p checkout")
  case (Inl e)
  then have "\<not> free_of_corekit w checkout p"
    by (auto simp: free_of_corekit_def relative_to_def split: if_splits)
  with Inl show ?thesis by (simp add: not_adopted_file_def)
next
  case (Inr rel)
  then have p: "p = checkout @ rel" by (simp add: relative_to_Inr)
  show ?thesis
    by (cases "load_tracked w checkout (as_posix rel) p")
      (auto simp: not_adopted_file_def Inr Let_def clean free_of_corekit_def contains_package_def p)
qed

lemma check_not_adopted_rust_clean:
  "check_not_adopted_rust w record checkout = Inr [] \<longleftrightarrow>
     (\<exists>paths. tracked_cargo_files w checkout = Some paths \<and> (\<forall>p \<in> set paths. free_of_corekit w checkout p))"
  by (auto simp: check_not_adopted_rust_def Let_def clean split: option.splits)

lemma validate_rust_status_clean:
  "validate_rust_status w record = Inr [] \<longleftrightarrow>
     (\<exists>rust status. dget record ''rust'' = VDict rust \<and> dget rust ''status'' = VStr status \<and> status \<in> set RUST_STATUSES)"
proof (cases "has_key record ''rust''")
  case False
  then have "dget record ''rust'' = VNone" by (simp add: has_key_def dget_def)
  with False show ?thesis by (simp add: validate_rust_status_def Let_def clean)
next
  case True
  show ?thesis
  proof (cases "dget record ''rust''")
    case (VDict rust)
    show ?thesis
      by (cases "dget rust ''status''")
        (simp_all add: validate_rust_status_def Let_def clean True VDict in_strs_def)
  qed (simp_all add: validate_rust_status_def Let_def clean True)
qed

lemma expected_rust_Some:
  "expected_rust record = Inr (Some rust) \<longleftrightarrow>
     dget record ''rust'' = VDict rust \<and> dget rust ''status'' \<in> {VStr ''git'', VStr ''registry''}"
  by (auto simp: expected_rust_def bind_res_eq_Inr in_strs_def split: pyval.splits if_splits)

section \<open>Properties\<close>

text \<open>A consumer that declares no Rust adoption hides none. When the scan reports nothing, every
  tracked file called \<open>Cargo.toml\<close> or \<open>Cargo.lock\<close> was found below the checkout, read and parsed; a
  lock file has no package record of the CoreKit package; and no dependency table of a manifest,
  direct, for a target or of the workspace, names the package, renamed or not.\<close>

theorem not_adopted_hides_nothing:
  assumes "check_not_adopted_rust w record checkout = Inr []"
    and "relative \<in> set (split_nul (git_out w [''ls-files'', ''-z''] checkout))"
    and "path_name relative \<in> {''Cargo.toml'', ''Cargo.lock''}"
  shows "\<exists>rel document. join_path checkout relative = checkout @ rel \<and>
           load_tracked w checkout (as_posix rel) (checkout @ rel) = Inr document \<and>
           (path_name relative = ''Cargo.lock'' \<longrightarrow>
              (\<forall>packages d. dget document ''package'' = VList packages \<longrightarrow> VDict d \<in> set packages \<longrightarrow>
                 dget d ''name'' \<noteq> VStr COREKIT_PACKAGE)) \<and>
           (path_name relative = ''Cargo.toml'' \<longrightarrow>
              (\<forall>t dependency spec. dependency_table document t \<longrightarrow> (dependency, spec) \<in> set t \<longrightarrow>
                 \<not> pulls_in COREKIT_PACKAGE dependency spec))"
proof -
  from assms(1) obtain paths where paths: "tracked_cargo_files w checkout = Some paths"
    and free: "\<forall>p \<in> set paths. free_of_corekit w checkout p"
    by (auto simp: check_not_adopted_rust_clean)
  have "join_path checkout relative \<in> set paths"
    using paths assms(2,3) by (auto simp: tracked_cargo_files_def tracked_named_def split: if_splits)
  with free obtain rel document where f: "join_path checkout relative = checkout @ rel"
    "load_tracked w checkout (as_posix rel) (checkout @ rel) = Inr document"
    "if last_part (join_path checkout relative) = ''Cargo.lock'' then \<not> cargo_lock_contains_package document COREKIT_PACKAGE
     else \<not> cargo_manifest_contains_package document COREKIT_PACKAGE"
    unfolding free_of_corekit_def by metis
  have name: "last_part (join_path checkout relative) = path_name relative"
    using assms(3) by (auto simp: last_part_def join_path_def path_name_def)
  show ?thesis
  proof (cases "path_name relative = ''Cargo.lock''")
    case True
    with f name have "\<not> cargo_lock_contains_package document COREKIT_PACKAGE" by simp
    with f True show ?thesis unfolding cargo_lock_contains_iff by auto
  next
    case False
    with f name have "\<not> cargo_manifest_contains_package document COREKIT_PACKAGE" by simp
    with f False show ?thesis unfolding cargo_manifest_contains_iff by auto
  qed
qed

text \<open>A dependency requirement is taken as an exact pin of a version precisely when it is that
  version with an equals sign in front, and the version is a semantic version; every other
  requirement (a caret, a range, a wildcard, a trailing line feed) is refused.\<close>

theorem exact_pin_iff:
  "exact_cargo_version (cargo_version spec) = Some v \<longleftrightarrow>
     fullmatch SEMVER_RE v \<and>
     (spec = VStr (CHR ''='' # v) \<or> (\<exists>d. spec = VDict d \<and> dget d ''version'' = VStr (CHR ''='' # v)))"
  by (cases spec) (auto simp: exact_cargo_version_Some cargo_version_def)

section \<open>A concrete manifest\<close>

definition demo_cargo_world :: world where
  "demo_cargo_world = demo_world \<lparr>
     run_git := (\<lambda>args cwd. if args = [''ls-files'', ''-z''] then (0, ''Cargo.toml'' @ [CHR 0x00], []) else (1, [], [])),
     lstat_of := (\<lambda>p. if p = [''home'', ''c'', ''Cargo.toml''] then Inr Regular else Inl (FileNotFoundError ''missing'')),
     toml_loads := (\<lambda>_. Inr [(''package'', VDict [(''name'', VStr ''demo'')]),
                             (''dependencies'', VDict [(''serde'', VStr ''1'')])])\<rparr>"

lemma not_adopted_hides_nothing_witness:
  "\<exists>document. load_tracked demo_cargo_world [''home'', ''c''] ''Cargo.toml'' [''home'', ''c'', ''Cargo.toml''] = Inr document \<and>
     (\<forall>t dependency spec. dependency_table document t \<longrightarrow> (dependency, spec) \<in> set t \<longrightarrow>
        \<not> pulls_in COREKIT_PACKAGE dependency spec)"
proof -
  have "check_not_adopted_rust demo_cargo_world [(''repo'', VStr ''demo'')] [''home'', ''c''] = Inr []" by code_simp
  moreover have "''Cargo.toml'' \<in> set (split_nul (git_out demo_cargo_world [''ls-files'', ''-z''] [''home'', ''c'']))" by code_simp
  moreover have name: "path_name ''Cargo.toml'' = ''Cargo.toml''" by code_simp
  moreover have "join_path [''home'', ''c''] ''Cargo.toml'' = [''home'', ''c''] @ [''Cargo.toml'']" by code_simp
  moreover have "as_posix [''Cargo.toml''] = ''Cargo.toml''" by code_simp
  ultimately show ?thesis
    using not_adopted_hides_nothing [of demo_cargo_world "[(''repo'', VStr ''demo'')]" "[''home'', ''c'']" "''Cargo.toml''"]
    by fastforce
qed

end
