(* ===== verification/Evidence.thy ===== *)
theory Evidence
  imports CargoPins
begin

text \<open>
  The evidence a consumer with Rust adoption must bring (\<open>port/consumer/verify.py\<close>): committed
  reports of a standalone run and of a rollback (\<open>_check_evidence\<close>), the provenance of the release
  build (\<open>_check_rust_build_provenance\<close>), the Go-Rust-Go transition (\<open>_check_rollback_transition\<close>) and
  digests of artifacts (\<open>_artifact_digest\<close>). A check that also hands a value on returns its findings
  with the value (\<open>out\<close>).
\<close>

section \<open>Checks that hand a value on\<close>

type_synonym 'a out = "(finding list \<times> 'a) res"

definition emit :: "check \<Rightarrow> 'a out \<Rightarrow> 'a out" where
  "emit c k = bind_res c (\<lambda>fs. bind_res k (\<lambda>r. Inr (fs @ fst r, snd r)))"

definition done_with :: "check \<Rightarrow> 'a \<Rightarrow> 'a out" where
  "done_with c a = bind_res c (\<lambda>fs. Inr (fs, a))"

definition andthen :: "'a out \<Rightarrow> ('a \<Rightarrow> 'b out) \<Rightarrow> 'b out" where
  "andthen m f = bind_res m (\<lambda>r. bind_res (f (snd r)) (\<lambda>q. Inr (fst r @ fst q, snd q)))"

lemma emit_clean [clean]: "emit c k = Inr ([], a) \<longleftrightarrow> c = Inr [] \<and> k = Inr ([], a)"
  by (auto simp: emit_def bind_res_eq_Inr)

lemma done_with_clean [clean]: "done_with c b = Inr ([], a) \<longleftrightarrow> c = Inr [] \<and> a = b"
  by (auto simp: done_with_def bind_res_eq_Inr)

lemma andthen_clean [clean]: "andthen m f = Inr ([], a) \<longleftrightarrow> (\<exists>b. m = Inr ([], b) \<and> f b = Inr ([], a))"
  by (auto simp: andthen_def bind_res_eq_Inr)

section \<open>Shared tests\<close>

text \<open>\<open>isinstance(v, str) and v.strip()\<close>, a 64-digit digest, a list of strings.\<close>

definition nonblank :: "pyval \<Rightarrow> bool" where
  "nonblank v = str_such (\<lambda>s. strip s \<noteq> []) v"

definition is_digest :: "pyval \<Rightarrow> bool" where
  "is_digest v = str_such (fullmatch HEX64) v"

definition is_zero :: "pyval \<Rightarrow> bool" where
  "is_zero v = py_eq v (VInt 0)"

lemma is_digest_iff: "is_digest v \<longleftrightarrow> (\<exists>s. v = VStr s \<and> length s = 64 \<and> is_hex s)"
  by (simp add: is_digest_def str_such_iff fullmatch_HEX64)

text \<open>Evaluation of the digest tests without the matcher.\<close>

lemma is_digest_code [code]: "is_digest v = str_such (\<lambda>s. length s = 64 \<and> is_hex s) v"
  by (simp add: is_digest_iff str_such_iff)

lemma is_revision_code [code]: "is_revision v = str_such (\<lambda>s. length s = 40 \<and> is_hex s) v"
  by (simp add: is_revision_iff str_such_iff)

declare fullmatch_HEX64 [code_unfold]

lemma nonblank_iff: "nonblank v \<longleftrightarrow> (\<exists>s. v = VStr s \<and> strip s \<noteq> [])"
  by (simp add: nonblank_def str_such_iff)

definition evidence_error :: "string \<Rightarrow> string \<Rightarrow> string \<Rightarrow> string \<Rightarrow> check" where
  "evidence_error repo name kind m = add_finding repo (msg [''evidence.'', name, ''.'', kind]) m"

lemma evidence_error_clean [clean]: "evidence_error repo name kind m = Inr [] \<longleftrightarrow> False"
  by (simp add: evidence_error_def clean)

text \<open>\<open>except (OSError, TypeError, ValueError)\<close>\<close>

definition path_error :: "pyexc \<Rightarrow> bool" where
  "path_error e = (is_os_error e \<or> is_value_error e \<or> e = TypeError)"

definition go_retired :: "pydict \<Rightarrow> bool" where
  "go_retired record = (dget record ''go_status'' = VStr ''retired'')"

section \<open>Digests of artifacts\<close>

definition artifact_digest :: "world \<Rightarrow> path \<Rightarrow> pyval \<Rightarrow> string option res" where
  "artifact_digest w checkout relative =
     (if \<not> nonblank relative then Inr None
      else case bind_res (safe_non_symlink_child w checkout relative) (\<lambda>p.
                bind_res (regular_non_symlink w p) (\<lambda>regular.
                if \<not> regular then Inr None
                else bind_res (read_bytes w p) (\<lambda>bytes. Inr (Some (sha256 w bytes))))) of
        Inl e \<Rightarrow> if path_error e then Inr None else Inl e
      | Inr d \<Rightarrow> Inr d)"

section \<open>Build provenance\<close>

text \<open>The report and artifact paths that may change between the build and the release.\<close>

definition allowed_changes :: "pydict option \<Rightarrow> string list" where
  "allowed_changes rust =
     (case rust of
        None \<Rightarrow> []
      | Some r \<Rightarrow>
          (case dget r ''evidence'' of
             VDict evidence \<Rightarrow>
               concat (map (\<lambda>(_, item). case item of
                  VDict d \<Rightarrow> List.map_filter as_str [dget d ''report'', dget d ''artifact''] | _ \<Rightarrow> []) evidence)
           | _ \<Rightarrow> []))"

definition locked_build_command :: "pyval \<Rightarrow> bool" where
  "locked_build_command command =
     (case command of
        VList args \<Rightarrow> list_all is_str args \<and> take 2 args = [VStr ''cargo'', VStr ''build''] \<and>
          VStr ''--locked'' \<in> set args \<and> VStr ''--release'' \<in> set args
      | _ \<Rightarrow> False)"

definition build_fields_ok :: "pydict \<Rightarrow> bool" where
  "build_fields_ok provenance =
     (str_such (\<lambda>s. startswith s ''cargo '') (dget provenance ''cargo_version'') \<and>
      str_such (\<lambda>s. startswith s ''rustc '') (dget provenance ''rustc_version'') \<and>
      nonblank (dget provenance ''target'') \<and>
      (let observed = dget provenance ''observed'' in
       locked_build_command (get_if_dict observed ''command'') \<and>
       is_zero (get_if_dict observed ''exit_code'') \<and>
       is_str (get_if_dict observed ''stdout'') \<and> is_str (get_if_dict observed ''stderr'')))"

text \<open>\<open>str(Path(cargo_root) / "Cargo.lock")\<close>\<close>

definition lock_relative_of :: "pyval \<Rightarrow> string res" where
  "lock_relative_of cargo_root =
     (case cargo_root of
        VStr s \<Rightarrow> Inr ((if is_absolute s then ''/'' else []) @ as_posix (path_parts s @ [''Cargo.lock'']))
      | _ \<Rightarrow> Inl TypeError)"

definition lock_state :: "world \<Rightarrow> path \<Rightarrow> pyval \<Rightarrow> (string \<times> string option) res" where
  "lock_state w checkout cargo_root =
     (case bind_res (lock_relative_of cargo_root) (\<lambda>relative.
           bind_res (safe_non_symlink_child w checkout (VStr relative)) (\<lambda>p.
           bind_res (regular_non_symlink w p) (\<lambda>regular.
           if regular then bind_res (read_bytes w p) (\<lambda>bytes. Inr (relative, Some (sha256 w bytes)))
           else Inr (relative, None)))) of
        Inl e \<Rightarrow> if path_error e then Inr (''Cargo.lock'', None) else Inl e
      | Inr r \<Rightarrow> Inr r)"

definition build_lock_check :: "world \<Rightarrow> string \<Rightarrow> path \<Rightarrow> string \<Rightarrow> pydict option \<Rightarrow> pydict \<Rightarrow> string \<Rightarrow> string \<Rightarrow> check" where
  "build_lock_check w repo checkout name rust provenance source_commit release_commit =
     (let cargo_root = (case rust of None \<Rightarrow> VStr ''.'' | Some r \<Rightarrow> dget_or r ''cargo_root'' (VStr ''.''));
          lock_digest = dget provenance ''cargo_lock_sha256'' in
      bind_res (lock_state w checkout cargo_root) (\<lambda>(lock_relative, actual).
        onlyif (git_code w [''diff'', ''--quiet'', source_commit, release_commit, ''--'', lock_relative] checkout \<noteq> 0 \<or>
                \<not> is_digest lock_digest \<or> map_option VStr actual \<noteq> Some lock_digest)
          (evidence_error repo name ''build.lock''
             (msg [name, '' report Cargo.lock digest does not match the consumer checkout'']))))"

definition build_history_checks :: "world \<Rightarrow> string \<Rightarrow> path \<Rightarrow> string \<Rightarrow> pydict option \<Rightarrow> string \<Rightarrow> string \<Rightarrow> check" where
  "build_history_checks w repo checkout name rust source_commit release_commit =
     checks
       [onlyif (git_code w [''cat-file'', ''-e'', msg [source_commit, ''^{commit}'']] checkout \<noteq> 0 \<or>
                git_code w [''merge-base'', ''--is-ancestor'', source_commit, release_commit] checkout \<noteq> 0)
          (evidence_error repo name ''build.source''
             (msg [name, '' Rust source commit must exist in and precede the tagged consumer release''])),
        (let args = [''diff'', ''--name-only'', source_commit, release_commit, ''--''] in
         onlyif (git_code w args checkout \<noteq> 0 \<or>
                 \<not> set (splitlines (git_out w args checkout)) \<subseteq> set (allowed_changes rust))
           (evidence_error repo name ''build.source''
              (msg [name, '' consumer source changed after the recorded Rust build commit''])))]"

definition check_rust_build_provenance :: "world \<Rightarrow> pydict \<Rightarrow> pydict \<Rightarrow> path \<Rightarrow> string \<Rightarrow> check" where
  "check_rust_build_provenance w report record checkout name =
     (let repo = repo_of w record;
          source_commit = get_if_dict (dget report ''rust_build'') ''source_commit'';
          release_commit = get_if_dict (dget record ''consumer_release'') ''commit'' in
      case (dget report ''rust_build'', source_commit, release_commit) of
        (VDict provenance, VStr source, VStr release) \<Rightarrow>
          if \<not> is_revision source_commit \<or> \<not> is_revision release_commit
          then evidence_error repo name ''build'' (msg [name,
                 '' report needs Rust build provenance bound to an immutable consumer source commit''])
          else bind_res (expected_rust record) (\<lambda>rust. checks
            [build_history_checks w repo checkout name rust source release,
             onlyif (\<not> build_fields_ok provenance)
               (evidence_error repo name ''build'' (msg [name,
                  '' report needs a successful observed locked release build with recorded cargo/rustc versions and target''])),
             build_lock_check w repo checkout name rust provenance source release])
      | _ \<Rightarrow> evidence_error repo name ''build'' (msg [name,
               '' report needs Rust build provenance bound to an immutable consumer source commit'']))"

section \<open>Rollback\<close>

type_synonym identity = "(string \<times> string) option"

text \<open>\<open>(artifact, digest) if both are strings else None\<close>\<close>

definition identity_of :: "pyval \<Rightarrow> pyval \<Rightarrow> identity" where
  "identity_of artifact digest =
     (case (artifact, digest) of (VStr a, VStr d) \<Rightarrow> Some (a, d) | _ \<Rightarrow> None)"

definition opt_str :: "string option \<Rightarrow> pyval" where
  "opt_str s = (case s of None \<Rightarrow> VNone | Some t \<Rightarrow> VStr t)"

definition step_command_ok :: "pyval \<Rightarrow> bool" where
  "step_command_ok observed =
     ((case get_if_dict observed ''command'' of VList args \<Rightarrow> args \<noteq> [] \<and> list_all is_str args | _ \<Rightarrow> False) \<and>
      is_zero (get_if_dict observed ''exit_code'') \<and>
      is_str (get_if_dict observed ''stdout'') \<and> is_str (get_if_dict observed ''stderr''))"

definition executable_of :: "pyval \<Rightarrow> string" where
  "executable_of observed =
     (case get_if_dict observed ''command'' of
        VList (VStr arg0 # _) \<Rightarrow> removeprefix (str_replace [CHR 0x5C] ''/'' arg0) ''./''
      | _ \<Rightarrow> [])"

definition stdout_of :: "pyval \<Rightarrow> string" where
  "stdout_of observed = (case get_if_dict observed ''stdout'' of VStr s \<Rightarrow> s | _ \<Rightarrow> [])"

text \<open>The checks of one step that do not look at the other steps.\<close>

definition step_checks :: "world \<Rightarrow> string \<Rightarrow> path \<Rightarrow> pyval \<Rightarrow> pydict \<Rightarrow> check" where
  "step_checks w repo checkout state_digest step =
     (let artifact = dget step ''artifact''; digest = dget step ''artifact_sha256'';
          readback = dget step ''state_readback_sha256''; observed = dget step ''observed'' in
      checks
        [if \<not> step_command_ok observed
         then evidence_error repo ''rollback'' ''transition.result''
                ''each rollback step needs an observed successful command with argv, stdout, and stderr''
         else checks
           [onlyif (artifact \<noteq> VStr (executable_of observed))
              (evidence_error repo ''rollback'' ''transition.command''
                 ''each rollback command must invoke its declared artifact''),
            onlyif (\<not> py_eq readback state_digest \<or> readback \<noteq> VStr (sha256 w (encode_utf8 w (stdout_of observed))))
              (evidence_error repo ''rollback'' ''state''
                 ''each synthetic-state digest must match captured stdout and agree across all steps'')],
         bind_res (artifact_digest w checkout artifact) (\<lambda>actual.
           onlyif (\<not> is_digest digest \<or> map_option VStr actual \<noteq> Some digest)
             (evidence_error repo ''rollback'' ''transition.artifact''
                ''rollback transition artifact is missing or its digest does not match''))])"

text \<open>The checks of one step against the reported artifacts, and the Go identity seen so far.\<close>

definition step_identity :: "string \<Rightarrow> string \<Rightarrow> string \<Rightarrow> string option \<Rightarrow> string option \<Rightarrow> identity \<Rightarrow> pydict \<Rightarrow> identity out" where
  "step_identity repo go_artifact go_digest rust_artifact rust_digest go_identity step =
     (let artifact = dget step ''artifact''; digest = dget step ''artifact_sha256''; runtime = dget step ''runtime'' in
      emit (onlyif (runtime = VStr ''rust'' \<and> (artifact \<noteq> opt_str rust_artifact \<or> digest \<noteq> opt_str rust_digest))
              (evidence_error repo ''rollback'' ''transition.rust''
                 ''rollback Rust step must identify the reported Rust artifact and digest''))
      (if runtime \<noteq> VStr ''go'' then done_with ok go_identity
       else let identity = identity_of artifact digest in
       emit (onlyif (identity \<noteq> Some (go_artifact, go_digest))
               (evidence_error repo ''rollback'' ''transition.go''
                  (msg [''Go transition steps must identify the rollback report'', [CHR 0x27], ''s old Go artifact''])))
       (if go_identity = None then done_with ok identity
        else done_with (onlyif (identity \<noteq> go_identity)
               (evidence_error repo ''rollback'' ''transition.go''
                  ''rollback must restore the same identified preexisting Go artifact'')) go_identity)))"

fun transition_loop :: "world \<Rightarrow> string \<Rightarrow> path \<Rightarrow> pyval \<Rightarrow> string \<Rightarrow> string \<Rightarrow> string option \<Rightarrow> string option \<Rightarrow>
    identity \<Rightarrow> pydict list \<Rightarrow> check" where
  "transition_loop w repo checkout state_digest ga gd ra rd go_identity [] = ok"
| "transition_loop w repo checkout state_digest ga gd ra rd go_identity (step # steps) =
     bind_res (step_checks w repo checkout state_digest step) (\<lambda>fs.
     bind_res (step_identity repo ga gd ra rd go_identity step) (\<lambda>r.
     bind_res (transition_loop w repo checkout state_digest ga gd ra rd (snd r) steps) (\<lambda>hs.
     Inr (fs @ fst r @ hs))))"

definition check_rollback_transition ::
    "world \<Rightarrow> pydict \<Rightarrow> pydict \<Rightarrow> path \<Rightarrow> string \<Rightarrow> string \<Rightarrow> string option \<Rightarrow> string option \<Rightarrow> check" where
  "check_rollback_transition w report record checkout go_artifact go_digest rust_artifact rust_digest =
     (let repo = repo_of w record; state_digest = dget report ''synthetic_state_sha256'' in
      case dget report ''transition'' of
        VList sequence \<Rightarrow>
          if length sequence \<noteq> 3 \<or> \<not> is_digest state_digest
          then evidence_error repo ''rollback'' ''transition''
                 ''rollback report needs Go->Rust->Go steps and a synthetic-state readback SHA-256''
          else if map (\<lambda>step. get_if_dict step ''runtime'') sequence \<noteq> [VStr ''go'', VStr ''rust'', VStr ''go'']
          then evidence_error repo ''rollback'' ''transition''
                 ''rollback transition must record Go baseline, Rust run, then Go rollback''
          else checks
            [transition_loop w repo checkout state_digest go_artifact go_digest rust_artifact rust_digest None
               (List.map_filter as_dict sequence),
             onlyif (rust_artifact = Some go_artifact \<and> rust_digest = Some go_digest)
               (evidence_error repo ''rollback'' ''transition.go''
                  ''rollback must identify the preexisting Go artifact separately from the Rust artifact'')]
      | _ \<Rightarrow> evidence_error repo ''rollback'' ''transition''
               ''rollback report needs Go->Rust->Go steps and a synthetic-state readback SHA-256'')"

section \<open>The evidence record\<close>

text \<open>The committed report: a safe path to a regular tracked file without staged, working-tree or
  HEAD differences, whose bytes are a JSON object. \<open>None\<close> where a finding ended it.\<close>

definition report_document :: "world \<Rightarrow> string \<Rightarrow> path \<Rightarrow> string \<Rightarrow> string \<Rightarrow> (string \<times> pydict) option out" where
  "report_document w repo checkout name relative =
     (let err = evidence_error repo name ''report''; tracked = [''ls-files'', ''--error-unmatch'', ''--'', relative] in
      case safe_non_symlink_child w checkout (VStr relative) of
        Inl e \<Rightarrow>
          if path_error e then done_with (err (msg [name, '' report path escapes the consumer checkout''])) None
          else Inl e
      | Inr p \<Rightarrow> bind_res (regular_non_symlink w p) (\<lambda>regular.
          if \<not> regular
          then done_with (err (msg [name, '' report is not an existing regular non-symlink file: '', relative])) None
          else if git_code w tracked checkout \<noteq> 0 \<or> git_out w tracked checkout \<noteq> relative
          then done_with (err (msg [name, '' report is not a tracked committed artifact: '', relative])) None
          else if git_code w [''diff'', ''--cached'', ''--quiet''] checkout \<noteq> 0
          then done_with (err (msg [name,
                 '' report cannot be accepted while the checkout has staged but uncommitted changes''])) None
          else if git_code w [''diff'', ''--quiet'', ''--'', relative] checkout \<noteq> 0
          then done_with (err (msg [name, '' report has uncommitted changes: '', relative])) None
          else if git_code w [''diff'', ''--quiet'', ''HEAD'', ''--'', relative] checkout \<noteq> 0
          then done_with (err (msg [name, '' report does not match the committed HEAD: '', relative])) None
          else (case bind_res (read_bytes w p) (\<lambda>bytes. bind_res (bind_res (utf8 w bytes) (json_loads w)) (\<lambda>v. Inr (bytes, v))) of
                  Inl e \<Rightarrow>
                    if is_os_error e \<or> is_decode_error e \<or> is_json_error e
                    then done_with (err (msg [name, '' report is not valid JSON: '', exc_text e])) None
                    else Inl e
                | Inr (bytes, v) \<Rightarrow>
                    (case v of
                       VDict report \<Rightarrow> done_with ok (Some (bytes, report))
                     | _ \<Rightarrow> done_with (err (msg [name, '' report must contain an object''])) None))))"

text \<open>\<open>{"command": command, **result}\<close>\<close>

definition expected_observed :: "pyval \<Rightarrow> pyval \<Rightarrow> pyval" where
  "expected_observed command result =
     (case (command, result) of
        (VStr c, VDict d) \<Rightarrow>
          VDict ((''command'', dget_or d ''command'' (VStr c)) # filter (\<lambda>(k, _). k \<noteq> ''command'') d)
      | _ \<Rightarrow> VNone)"

definition report_checks :: "world \<Rightarrow> string \<Rightarrow> string \<Rightarrow> pydict \<Rightarrow> pyval \<Rightarrow> string \<Rightarrow> pydict \<Rightarrow> check" where
  "report_checks w repo name item release bytes report =
     (let report_digest = dget item ''report_sha256'' in
      checks
       [if \<not> is_digest report_digest
        then evidence_error repo name ''report.sha256''
               (msg [name, '' evidence must pin a 64-hex report_sha256 in the consumer manifest''])
        else onlyif (VStr (sha256 w bytes) \<noteq> report_digest)
               (evidence_error repo name ''report.sha256''
                  (msg [name, '' report bytes do not match the reviewed manifest digest''])),
        onlyif (\<not> py_eq (dget report ''tag'') (get_if_dict release ''tag'') \<or>
                \<not> py_eq (dget report ''commit'') (get_if_dict release ''commit''))
          (evidence_error repo name ''release'' (msg [name, '' report does not contain the exact release tag and commit''])),
        onlyif (\<not> py_eq (dget report ''artifact'') (dget item ''artifact''))
          (evidence_error repo name ''artifact'' (msg [name, '' report artifact does not match the evidence record''])),
        onlyif (\<not> py_eq (dget report ''observed'') (expected_observed (dget item ''command'') (dget item ''result'')))
          (evidence_error repo name ''result'' (msg [name, '' report does not contain the exact observed command result'']))])"

text \<open>The artifact the report names: its path and the digest it is reported with, and whether the file
  has that digest. \<open>None\<close> where there is no artifact to go on with.\<close>

definition artifact_check :: "world \<Rightarrow> string \<Rightarrow> path \<Rightarrow> string \<Rightarrow> pyval \<Rightarrow> pydict \<Rightarrow> (string \<times> string \<times> bool) option out" where
  "artifact_check w repo checkout name artifact_relative report =
     (case artifact_relative of
        VStr relative \<Rightarrow>
          if strip relative = [] then done_with ok None
          else (case safe_non_symlink_child w checkout artifact_relative of
            Inl e \<Rightarrow>
              if path_error e
              then done_with (evidence_error repo name ''artifact'' (msg [name, '' artifact path escapes the consumer checkout''])) None
              else Inl e
          | Inr p \<Rightarrow> bind_res (regular_non_symlink w p) (\<lambda>regular.
              if \<not> regular
              then done_with (evidence_error repo name ''artifact''
                     (msg [name, '' artifact is not an existing regular non-symlink file: '', relative])) None
              else case dget report ''artifact_sha256'' of
                VStr recorded \<Rightarrow>
                  if \<not> fullmatch HEX64 recorded
                  then done_with (evidence_error repo name ''artifact.sha256''
                         (msg [name, '' report must contain a 64-hex artifact_sha256''])) None
                  else (case read_bytes w p of
                    Inl e \<Rightarrow>
                      if is_os_error e
                      then done_with (evidence_error repo name ''artifact.sha256''
                             (msg [name, '' artifact cannot be read: '', exc_text e])) None
                      else Inl e
                  | Inr bytes \<Rightarrow>
                      done_with (onlyif (sha256 w bytes \<noteq> recorded)
                          (evidence_error repo name ''artifact.sha256'' (msg [name, '' artifact digest does not match report''])))
                        (Some (relative, recorded, sha256 w bytes = recorded)))
              | _ \<Rightarrow> done_with (evidence_error repo name ''artifact.sha256''
                         (msg [name, '' report must contain a 64-hex artifact_sha256''])) None))
      | _ \<Rightarrow> done_with ok None)"

definition record_shape_checks :: "string \<Rightarrow> string \<Rightarrow> pydict \<Rightarrow> check" where
  "record_shape_checks repo name item =
     (let command = dget item ''command''; result = dget item ''result'' in
      checks
       [onlyif (\<not> nonblank (dget item ''artifact''))
          (evidence_error repo name ''artifact'' (msg [name, '' evidence needs an artifact path''])),
        onlyif (\<not> str_such (\<lambda>s. strip s \<noteq> [] \<and> strip s \<notin> {''true'', ''/bin/true''}) command)
          (evidence_error repo name ''command'' (msg [name, '' evidence needs a non-fabricated observed command''])),
        onlyif (\<not> (case result of
                     VDict d \<Rightarrow> keys_are d [''exit_code'', ''stdout'', ''stderr''] \<and> is_zero (dget d ''exit_code'') \<and>
                       is_str (dget d ''stdout'') \<and> is_str (dget d ''stderr'')
                   | _ \<Rightarrow> False))
          (evidence_error repo name ''result'' (msg [name, '' evidence needs an observed successful command result'']))])"

type_synonym standalone = "(string \<times> string) option"

text \<open>One name of the loop, with the standalone artifact found so far.\<close>

definition evidence_item :: "world \<Rightarrow> pydict \<Rightarrow> path \<Rightarrow> pyval \<Rightarrow> pydict \<Rightarrow> standalone \<Rightarrow> string \<Rightarrow> standalone out" where
  "evidence_item w record checkout release evidence sa name =
     (let repo = repo_of w record in
      case dget evidence name of
        VDict item \<Rightarrow>
          if dget item ''status'' \<noteq> VStr ''verified''
          then done_with (add_finding repo (msg [''evidence.'', name]) (msg [name, '' evidence is not verified''])) sa
          else (case dget item ''report'' of
            VStr report_relative \<Rightarrow>
              if strip report_relative = []
              then done_with (evidence_error repo name ''report''
                     (msg [name, '' evidence needs a committed structured report path''])) sa
              else emit (record_shape_checks repo name item)
                (andthen (report_document w repo checkout name report_relative) (\<lambda>doc.
                   case doc of
                     None \<Rightarrow> done_with ok sa
                   | Some (bytes, report) \<Rightarrow>
                       emit (report_checks w repo name item release bytes report)
                       (emit (onlyif (name = ''standalone'') (check_rust_build_provenance w report record checkout name))
                       (andthen (artifact_check w repo checkout name (dget item ''artifact'') report) (\<lambda>artifact.
                          case artifact of
                            None \<Rightarrow> done_with ok sa
                          | Some (relative, recorded, matches) \<Rightarrow>
                              (let sa' = (if name = ''standalone'' \<and> matches then Some (relative, recorded) else sa) in
                               done_with (onlyif (name = ''rollback'')
                                 (check_rollback_transition w report record checkout relative recorded
                                    (map_option fst sa') (map_option snd sa'))) sa'))))))
          | _ \<Rightarrow> done_with (evidence_error repo name ''report''
                   (msg [name, '' evidence needs a committed structured report path''])) sa)
      | _ \<Rightarrow> done_with (add_finding repo (msg [''evidence.'', name]) (msg [name, '' evidence is not verified''])) sa)"

fun evidence_loop :: "world \<Rightarrow> pydict \<Rightarrow> path \<Rightarrow> pyval \<Rightarrow> pydict \<Rightarrow> standalone \<Rightarrow> string list \<Rightarrow> standalone out" where
  "evidence_loop w record checkout release evidence sa [] = done_with ok sa"
| "evidence_loop w record checkout release evidence sa (name # names) =
     andthen (evidence_item w record checkout release evidence sa name) (\<lambda>sa'.
       evidence_loop w record checkout release evidence sa' names)"

definition evidence_names :: "pydict \<Rightarrow> string list" where
  "evidence_names record = (if go_retired record then [''standalone''] else [''standalone'', ''rollback''])"

definition check_evidence :: "world \<Rightarrow> pydict \<Rightarrow> path \<Rightarrow> check" where
  "check_evidence w record checkout =
     bind_res (expected_rust record) (\<lambda>adopted.
       case adopted of
         None \<Rightarrow> ok
       | Some rust \<Rightarrow>
           (case dget rust ''evidence'' of
              VDict evidence \<Rightarrow>
                bind_res (evidence_loop w record checkout (dget rust ''release'') evidence None (evidence_names record))
                  (\<lambda>r. Inr (fst r))
            | _ \<Rightarrow> add_finding (repo_of w record) ''evidence.missing''
                     ''Rust adoption has no standalone/rollback evidence record''))"

section \<open>What the checks establish\<close>

text \<open>The file at a recorded path has the digest \<open>d\<close>.\<close>

definition file_digest :: "world \<Rightarrow> path \<Rightarrow> string \<Rightarrow> string \<Rightarrow> bool" where
  "file_digest w checkout relative d \<longleftrightarrow>
     (\<exists>p bytes. safe_non_symlink_child w checkout (VStr relative) = Inr p \<and> lstat_of w p = Inr Regular \<and>
        read_bytes w p = Inr bytes \<and> sha256 w bytes = d)"

lemma regular_non_symlink_Inr: "regular_non_symlink w p = Inr b \<Longrightarrow> b \<longleftrightarrow> lstat_of w p = Inr Regular"
  by (auto simp: regular_non_symlink_def split: sum.splits if_splits)

lemma artifact_digest_Some:
  "artifact_digest w checkout v = Inr (Some d) \<longleftrightarrow> (\<exists>s. v = VStr s \<and> strip s \<noteq> [] \<and> file_digest w checkout s d)"
proof -
  have "artifact_digest w checkout (VStr s) = Inr (Some d) \<longleftrightarrow> file_digest w checkout s d" if "strip s \<noteq> []" for s
  proof (cases "safe_non_symlink_child w checkout (VStr s)")
    case (Inl e)
    then show ?thesis using that by (simp add: artifact_digest_def nonblank_def file_digest_def)
  next
    case (Inr p)
    have st: "bind_res (safe_non_symlink_child w checkout (VStr s)) f = f p" for f :: "path \<Rightarrow> string option res"
      by (simp add: Inr)
    show ?thesis
    proof (cases "regular_non_symlink w p")
      case (Inl e)
      then have "lstat_of w p \<noteq> Inr Regular" by (metis regular_non_symlink_True sum.distinct(1))
      with Inl Inr that show ?thesis by (simp add: artifact_digest_def nonblank_def file_digest_def)
    next
      case reg: (Inr b)
      with regular_non_symlink_Inr [OF reg] Inr that show ?thesis
        by (cases "read_bytes w p") (auto simp: artifact_digest_def nonblank_def file_digest_def)
    qed
  qed
  moreover have "artifact_digest w checkout v = Inr (Some d) \<Longrightarrow> nonblank v"
    by (auto simp: artifact_digest_def split: if_splits)
  ultimately show ?thesis by (auto simp: nonblank_iff)
qed

text \<open>A rollback step that raises no finding.\<close>

definition step_ok :: "world \<Rightarrow> path \<Rightarrow> string \<Rightarrow> pydict \<Rightarrow> string \<Rightarrow> string \<Rightarrow> bool" where
  "step_ok w checkout state step artifact digest \<longleftrightarrow>
     dget step ''artifact'' = VStr artifact \<and> dget step ''artifact_sha256'' = VStr digest \<and>
     length digest = 64 \<and> is_hex digest \<and> file_digest w checkout artifact digest \<and>
     step_command_ok (dget step ''observed'') \<and> executable_of (dget step ''observed'') = artifact \<and>
     dget step ''state_readback_sha256'' = VStr state \<and>
     sha256 w (encode_utf8 w (stdout_of (dget step ''observed''))) = state"

lemma step_checks_clean:
  assumes "step_checks w repo checkout (VStr state) step = Inr []"
  shows "\<exists>artifact digest. step_ok w checkout state step artifact digest"
proof -
  let ?o = "dget step ''observed''"
  from assms have parts: "step_command_ok ?o" "dget step ''artifact'' = VStr (executable_of ?o)"
    "dget step ''state_readback_sha256'' = VStr state"
    "dget step ''state_readback_sha256'' = VStr (sha256 w (encode_utf8 w (stdout_of ?o)))"
    by (auto simp: step_checks_def Let_def clean split: if_splits)
  from assms have "bind_res (artifact_digest w checkout (dget step ''artifact'')) (\<lambda>actual.
      onlyif (\<not> is_digest (dget step ''artifact_sha256'') \<or> map_option VStr actual \<noteq> Some (dget step ''artifact_sha256''))
        (evidence_error repo ''rollback'' ''transition.artifact''
           ''rollback transition artifact is missing or its digest does not match'')) = Inr []"
    by (simp add: step_checks_def Let_def checks_clean)
  then obtain actual where a: "artifact_digest w checkout (dget step ''artifact'') = Inr actual"
    and d: "is_digest (dget step ''artifact_sha256'')" "map_option VStr actual = Some (dget step ''artifact_sha256'')"
    by (auto simp: bind_res_eq_Inr clean)
  from d obtain digest where digest: "actual = Some digest" "dget step ''artifact_sha256'' = VStr digest"
    "length digest = 64" "is_hex digest"
    by (auto simp: is_digest_iff)
  have "file_digest w checkout (executable_of ?o) digest"
    using a digest(1) parts(2) by (simp add: artifact_digest_Some)
  with parts digest show ?thesis unfolding step_ok_def by auto
qed

lemma step_identity_clean:
  "step_identity repo ga gd ra rd go_identity step = Inr ([], r) \<Longrightarrow>
     (dget step ''runtime'' = VStr ''rust'' \<longrightarrow> dget step ''artifact'' = opt_str ra \<and> dget step ''artifact_sha256'' = opt_str rd) \<and>
     (dget step ''runtime'' = VStr ''go'' \<longrightarrow> dget step ''artifact'' = VStr ga \<and> dget step ''artifact_sha256'' = VStr gd)"
  by (auto simp: step_identity_def Let_def clean identity_of_def split: if_splits pyval.splits)

lemma transition_loop_clean:
  "transition_loop w repo checkout state_digest ga gd ra rd go_identity steps = Inr [] \<Longrightarrow> step \<in> set steps \<Longrightarrow>
     step_checks w repo checkout state_digest step = Inr [] \<and>
     (\<exists>g r. step_identity repo ga gd ra rd g step = Inr ([], r))"
proof (induction steps arbitrary: go_identity)
  case Nil
  then show ?case by simp
next
  case (Cons s steps)
  from Cons.prems(1) obtain r where "step_checks w repo checkout state_digest s = Inr []"
    "step_identity repo ga gd ra rd go_identity s = Inr ([], r)"
    "transition_loop w repo checkout state_digest ga gd ra rd r steps = Inr []"
    by (auto simp: bind_res_eq_Inr)
  with Cons.IH [of r] Cons.prems(2) show ?case by auto
qed

lemma transition_parts:
  assumes "check_rollback_transition w report record checkout ga gd ra rd = Inr []"
  shows "\<exists>go1 rust go2 state. dget report ''transition'' = VList [VDict go1, VDict rust, VDict go2] \<and>
      dget report ''synthetic_state_sha256'' = VStr state \<and> length state = 64 \<and> is_hex state \<and>
      dget go1 ''runtime'' = VStr ''go'' \<and> dget rust ''runtime'' = VStr ''rust'' \<and> dget go2 ''runtime'' = VStr ''go'' \<and>
      transition_loop w (repo_of w record) checkout (VStr state) ga gd ra rd None [go1, rust, go2] = Inr [] \<and>
      \<not> (ra = Some ga \<and> rd = Some gd)"
proof -
  from assms obtain steps where l: "dget report ''transition'' = VList steps"
    by (cases "dget report ''transition''") (simp_all add: check_rollback_transition_def Let_def clean)
  note c = assms [unfolded check_rollback_transition_def Let_def l, simplified]
  from c have len: "length steps = 3" and d: "is_digest (dget report ''synthetic_state_sha256'')"
    and rt: "map (\<lambda>step. get_if_dict step ''runtime'') steps = [VStr ''go'', VStr ''rust'', VStr ''go'']"
    by (auto simp: clean split: if_splits)
  from rt obtain a b e where steps: "steps = [a, b, e]" and
    r: "get_if_dict a ''runtime'' = VStr ''go''" "get_if_dict b ''runtime'' = VStr ''rust''" "get_if_dict e ''runtime'' = VStr ''go''"
    by (auto simp: map_eq_Cons_conv)
  from r obtain go1 rust go2 where dicts: "a = VDict go1" "b = VDict rust" "e = VDict go2"
    "dget go1 ''runtime'' = VStr ''go''" "dget rust ''runtime'' = VStr ''rust''" "dget go2 ''runtime'' = VStr ''go''"
    unfolding get_if_dict_VStr by blast
  from d obtain state where state: "dget report ''synthetic_state_sha256'' = VStr state" "length state = 64" "is_hex state"
    by (auto simp: is_digest_iff)
  from c len d rt have "transition_loop w (repo_of w record) checkout (VStr state) ga gd ra rd None [go1, rust, go2] = Inr []"
    "\<not> (ra = Some ga \<and> rd = Some gd)"
    by (simp_all add: clean steps dicts state List.map_filter_simps del: transition_loop.simps)
  with l steps dicts state show ?thesis by blast
qed

text \<open>C16: a rollback report that raises no finding proves a return to the old Go program. It records
  three steps, Go, Rust, Go; the first and the last run the one Go artifact of the report, the middle
  one the Rust artifact of the standalone report, and the two are not the same file and digest. The
  artifact of every step lies in the checkout with the digest the step records; its command ran the
  artifact, exited with zero, and printed a state whose digest is the recorded state digest, the same
  in all three steps.\<close>

theorem rollback_restores_old_go:
  assumes "check_rollback_transition w report record checkout ga gd ra rd = Inr []"
  shows "\<exists>go1 rust go2 state ra' rd'.
      dget report ''transition'' = VList [VDict go1, VDict rust, VDict go2] \<and>
      dget go1 ''runtime'' = VStr ''go'' \<and> dget rust ''runtime'' = VStr ''rust'' \<and> dget go2 ''runtime'' = VStr ''go'' \<and>
      dget report ''synthetic_state_sha256'' = VStr state \<and>
      step_ok w checkout state go1 ga gd \<and> step_ok w checkout state rust ra' rd' \<and> step_ok w checkout state go2 ga gd \<and>
      ra = Some ra' \<and> rd = Some rd' \<and> (ga, gd) \<noteq> (ra', rd')"
proof -
  obtain go1 rust go2 state where t: "dget report ''transition'' = VList [VDict go1, VDict rust, VDict go2]"
    "dget report ''synthetic_state_sha256'' = VStr state"
    "dget go1 ''runtime'' = VStr ''go''" "dget rust ''runtime'' = VStr ''rust''" "dget go2 ''runtime'' = VStr ''go''"
    and loop: "transition_loop w (repo_of w record) checkout (VStr state) ga gd ra rd None [go1, rust, go2] = Inr []"
    and ne: "\<not> (ra = Some ga \<and> rd = Some gd)"
    using transition_parts [OF assms] by blast
  have each: "\<exists>a d. step_ok w checkout state step a d" if "step \<in> {go1, rust, go2}" for step
    using transition_loop_clean [OF loop] that step_checks_clean by (metis empty_iff insert_iff list.set)
  have ident: "(dget step ''runtime'' = VStr ''rust'' \<longrightarrow> dget step ''artifact'' = opt_str ra \<and> dget step ''artifact_sha256'' = opt_str rd) \<and>
     (dget step ''runtime'' = VStr ''go'' \<longrightarrow> dget step ''artifact'' = VStr ga \<and> dget step ''artifact_sha256'' = VStr gd)"
    if "step \<in> {go1, rust, go2}" for step
    using transition_loop_clean [OF loop, of step] that step_identity_clean by fastforce
  have go: "step_ok w checkout state step ga gd" if "step \<in> {go1, go2}" for step
    using each [of step] ident [of step] that t by (auto simp: step_ok_def)
  obtain ra' rd' where r: "step_ok w checkout state rust ra' rd'" using each [of rust] by blast
  with ident [of rust] t have "opt_str ra = VStr ra'" "opt_str rd = VStr rd'" by (auto simp: step_ok_def)
  then have "ra = Some ra'" "rd = Some rd'" by (auto simp: opt_str_def split: option.splits)
  with t go r ne show ?thesis by blast
qed

section \<open>Provenance of the release build\<close>

lemma lock_state_Some:
  "lock_state w checkout cargo_root = Inr (relative, Some d) \<Longrightarrow>
     lock_relative_of cargo_root = Inr relative \<and> file_digest w checkout relative d"
  by (auto simp: lock_state_def bind_res_eq_Inr file_digest_def regular_non_symlink_True
      split: sum.splits if_splits simp flip: regular_non_symlink_True)

text \<open>The lock file the build resolved: the one below \<open>cargo_root\<close>.\<close>

definition cargo_root_of :: "pydict option \<Rightarrow> pyval" where
  "cargo_root_of rust = (case rust of None \<Rightarrow> VStr ''.'' | Some r \<Rightarrow> dget_or r ''cargo_root'' (VStr ''.''))"

lemma build_lock_clean:
  assumes "build_lock_check w repo checkout name rust provenance source release = Inr []"
  shows "\<exists>relative d. lock_relative_of (cargo_root_of rust) = Inr relative \<and>
           dget provenance ''cargo_lock_sha256'' = VStr d \<and> file_digest w checkout relative d \<and>
           git_code w [''diff'', ''--quiet'', source, release, ''--'', relative] checkout = 0"
proof -
  from assms obtain relative actual where st: "lock_state w checkout (cargo_root_of rust) = Inr (relative, actual)"
    and ok: "git_code w [''diff'', ''--quiet'', source, release, ''--'', relative] checkout = 0"
      "is_digest (dget provenance ''cargo_lock_sha256'')" "map_option VStr actual = Some (dget provenance ''cargo_lock_sha256'')"
    unfolding build_lock_check_def Let_def cargo_root_of_def [symmetric] bind_res_eq_Inr by (auto simp: clean)
  from ok(3) obtain d where d: "actual = Some d" by (cases actual) simp_all
  with ok(3) have "dget provenance ''cargo_lock_sha256'' = VStr d" by simp
  with st ok d lock_state_Some show ?thesis by blast
qed

text \<open>C32: build provenance that raises no finding binds the Rust artifact to the released source. The
  report names the source commit of the build, which exists and is an ancestor of the tagged consumer
  release; every path changed between the two is a report or an artifact of the evidence record; the
  recorded build was a successful \<open>cargo build --locked --release\<close>; and the lock file below
  \<open>cargo_root\<close>, unchanged since the build commit, has the digest that the report records.\<close>

theorem build_provenance_binds_source:
  assumes "check_rust_build_provenance w report record checkout name = Inr []"
  shows "\<exists>provenance release source commit rust relative d.
      dget report ''rust_build'' = VDict provenance \<and> dget provenance ''source_commit'' = VStr source \<and>
      dget record ''consumer_release'' = VDict release \<and> dget release ''commit'' = VStr commit \<and>
      is_revision (VStr source) \<and> is_revision (VStr commit) \<and> expected_rust record = Inr rust \<and>
      git_code w [''cat-file'', ''-e'', msg [source, ''^{commit}'']] checkout = 0 \<and>
      git_code w [''merge-base'', ''--is-ancestor'', source, commit] checkout = 0 \<and>
      git_code w [''diff'', ''--name-only'', source, commit, ''--''] checkout = 0 \<and>
      set (splitlines (git_out w [''diff'', ''--name-only'', source, commit, ''--''] checkout)) \<subseteq> set (allowed_changes rust) \<and>
      build_fields_ok provenance \<and>
      lock_relative_of (cargo_root_of rust) = Inr relative \<and> dget provenance ''cargo_lock_sha256'' = VStr d \<and>
      file_digest w checkout relative d \<and>
      git_code w [''diff'', ''--quiet'', source, commit, ''--'', relative] checkout = 0"
proof -
  let ?s = "get_if_dict (dget report ''rust_build'') ''source_commit''"
  let ?c = "get_if_dict (dget record ''consumer_release'') ''commit''"
  have "\<exists>provenance. dget report ''rust_build'' = VDict provenance"
    using assms by (cases "dget report ''rust_build''") (simp_all add: check_rust_build_provenance_def Let_def clean)
  then obtain provenance where prov: "dget report ''rust_build'' = VDict provenance" by blast
  have "\<exists>source. ?s = VStr source"
    using assms prov by (cases ?s) (simp_all add: check_rust_build_provenance_def Let_def clean)
  then obtain source where source: "?s = VStr source" by blast
  have "\<exists>commit. ?c = VStr commit"
    using assms prov source by (cases ?c) (simp_all add: check_rust_build_provenance_def Let_def clean)
  then obtain commit where commit: "?c = VStr commit" by blast
  from commit obtain release where rel: "dget record ''consumer_release'' = VDict release" "dget release ''commit'' = VStr commit"
    unfolding get_if_dict_VStr by blast
  note c = assms [unfolded check_rust_build_provenance_def Let_def source commit prov, simplified]
  have revs: "is_revision (VStr source)" "is_revision (VStr commit)" using c source prov by (auto simp: clean split: if_splits)
  with c source prov obtain rust where rust: "expected_rust record = Inr rust"
    and h: "build_history_checks w (repo_of w record) checkout name rust source commit = Inr []"
    and f: "build_fields_ok provenance"
    and l: "build_lock_check w (repo_of w record) checkout name rust provenance source commit = Inr []"
    by (auto simp: bind_res_eq_Inr clean split: if_splits)
  from h have hist: "git_code w [''cat-file'', ''-e'', msg [source, ''^{commit}'']] checkout = 0"
    "git_code w [''merge-base'', ''--is-ancestor'', source, commit] checkout = 0"
    "git_code w [''diff'', ''--name-only'', source, commit, ''--''] checkout = 0"
    "set (splitlines (git_out w [''diff'', ''--name-only'', source, commit, ''--''] checkout)) \<subseteq> set (allowed_changes rust)"
    by (simp_all add: build_history_checks_def Let_def clean)
  from source prov have "dget provenance ''source_commit'' = VStr source" by simp
  with prov rel revs rust hist f build_lock_clean [OF l] show ?thesis by blast
qed

section \<open>Reports\<close>

definition committed_report :: "world \<Rightarrow> path \<Rightarrow> string \<Rightarrow> string \<Rightarrow> pydict \<Rightarrow> bool" where
  "committed_report w checkout relative bytes report \<longleftrightarrow>
     (\<exists>p. safe_non_symlink_child w checkout (VStr relative) = Inr p \<and> lstat_of w p = Inr Regular \<and>
        git_code w [''ls-files'', ''--error-unmatch'', ''--'', relative] checkout = 0 \<and>
        git_out w [''ls-files'', ''--error-unmatch'', ''--'', relative] checkout = relative \<and>
        git_code w [''diff'', ''--cached'', ''--quiet''] checkout = 0 \<and>
        git_code w [''diff'', ''--quiet'', ''--'', relative] checkout = 0 \<and>
        git_code w [''diff'', ''--quiet'', ''HEAD'', ''--'', relative] checkout = 0 \<and>
        read_bytes w p = Inr bytes \<and> bind_res (utf8 w bytes) (json_loads w) = Inr (VDict report))"

lemma report_document_clean:
  assumes "report_document w repo checkout name relative = Inr ([], r)"
  shows "\<exists>bytes report. r = Some (bytes, report) \<and> committed_report w checkout relative bytes report"
proof -
  from assms obtain p where p: "safe_non_symlink_child w checkout (VStr relative) = Inr p"
    by (cases "safe_non_symlink_child w checkout (VStr relative)")
      (auto simp: report_document_def Let_def clean split: if_splits)
  note c = assms [unfolded report_document_def Let_def p, simplified]
  from c obtain regular where reg: "regular_non_symlink w p = Inr regular"
    by (auto simp: bind_res_eq_Inr)
  with c have g: "regular" "git_code w [''ls-files'', ''--error-unmatch'', ''--'', relative] checkout = 0"
    "git_out w [''ls-files'', ''--error-unmatch'', ''--'', relative] checkout = relative"
    "git_code w [''diff'', ''--cached'', ''--quiet''] checkout = 0"
    "git_code w [''diff'', ''--quiet'', ''--'', relative] checkout = 0"
    "git_code w [''diff'', ''--quiet'', ''HEAD'', ''--'', relative] checkout = 0"
    by (auto simp: clean split: if_splits)
  let ?read = "bind_res (read_bytes w p) (\<lambda>bytes. bind_res (bind_res (utf8 w bytes) (json_loads w)) (\<lambda>v. Inr (bytes, v)))"
  from c reg g have k: "(case ?read of
      Inl e \<Rightarrow> if is_os_error e \<or> is_decode_error e \<or> is_json_error e
        then done_with (evidence_error repo name ''report'' (msg [name, '' report is not valid JSON: '', exc_text e])) None else Inl e
    | Inr (bytes, v) \<Rightarrow> (case v of VDict report \<Rightarrow> done_with ok (Some (bytes, report))
        | _ \<Rightarrow> done_with (evidence_error repo name ''report'' (msg [name, '' report must contain an object''])) None)) = Inr ([], r)"
    by simp
  then obtain bytes v where read: "?read = Inr (bytes, v)"
    by (cases ?read) (auto simp: clean split: if_splits)
  then have rb: "read_bytes w p = Inr bytes" "bind_res (utf8 w bytes) (json_loads w) = Inr v"
    by (auto simp: bind_res_eq_Inr)
  from k read obtain report where "v = VDict report" "r = Some (bytes, report)"
    by (cases v) (auto simp: clean)
  with g rb p regular_non_symlink_Inr [OF reg] show ?thesis unfolding committed_report_def by blast
qed

lemma artifact_check_clean:
  assumes "artifact_check w repo checkout name (VStr a) report = Inr ([], r)" "strip a \<noteq> []"
  shows "\<exists>d. r = Some (a, d, True) \<and> dget report ''artifact_sha256'' = VStr d \<and> length d = 64 \<and> is_hex d \<and>
           file_digest w checkout a d"
proof -
  from assms obtain p where p: "safe_non_symlink_child w checkout (VStr a) = Inr p"
    by (cases "safe_non_symlink_child w checkout (VStr a)") (auto simp: artifact_check_def clean split: if_splits)
  note c = assms(1) [unfolded artifact_check_def p, simplified assms(2), simplified]
  from c obtain regular where reg: "regular_non_symlink w p = Inr regular"
    using assms(2) by (auto simp: bind_res_eq_Inr)
  with c assms(2) have isreg: "regular" by (auto simp: clean split: if_splits)
  with c reg assms(2) obtain d where d: "dget report ''artifact_sha256'' = VStr d"
    by (cases "dget report ''artifact_sha256''") (simp_all add: clean)
  with c reg isreg assms(2) have hex: "fullmatch HEX64 d" by (simp add: clean split: if_splits)
  with c reg isreg assms(2) d obtain bytes where bytes: "read_bytes w p = Inr bytes"
    by (cases "read_bytes w p") (auto simp: clean split: if_splits)
  with c reg isreg assms(2) d hex have "sha256 w bytes = d" "r = Some (a, d, sha256 w bytes = d)"
    by (simp_all add: clean)
  with d hex bytes p regular_non_symlink_Inr [OF reg] isreg show ?thesis
    by (auto simp: fullmatch_HEX64 file_digest_def)
qed

text \<open>What one accepted entry of the evidence record stands for.\<close>

definition item_ok :: "world \<Rightarrow> pydict \<Rightarrow> path \<Rightarrow> pyval \<Rightarrow> pydict \<Rightarrow> string \<Rightarrow> pydict \<Rightarrow> string \<Rightarrow> string \<Rightarrow> bool" where
  "item_ok w record checkout release evidence name report artifact digest \<longleftrightarrow>
     (\<exists>item relative bytes.
        dget evidence name = VDict item \<and> dget item ''status'' = VStr ''verified'' \<and>
        dget item ''report'' = VStr relative \<and> committed_report w checkout relative bytes report \<and>
        dget item ''report_sha256'' = VStr (sha256 w bytes) \<and>
        py_eq (dget report ''tag'') (get_if_dict release ''tag'') \<and>
        py_eq (dget report ''commit'') (get_if_dict release ''commit'') \<and>
        dget item ''artifact'' = VStr artifact \<and> dget report ''artifact'' = VStr artifact \<and>
        dget report ''artifact_sha256'' = VStr digest \<and> file_digest w checkout artifact digest \<and>
        (\<exists>command result. dget item ''command'' = VStr command \<and> strip command \<notin> {[], ''true'', ''/bin/true''} \<and>
           dget item ''result'' = VDict result \<and> is_zero (dget result ''exit_code'') \<and>
           py_eq (dget report ''observed'') (expected_observed (VStr command) (VDict result))))"

lemma evidence_item_clean:
  assumes "evidence_item w record checkout release evidence sa name = Inr ([], sa')"
  shows "\<exists>report artifact digest. item_ok w record checkout release evidence name report artifact digest \<and>
           sa' = (if name = ''standalone'' then Some (artifact, digest) else sa) \<and>
           (name = ''standalone'' \<longrightarrow> check_rust_build_provenance w report record checkout name = Inr []) \<and>
           (name = ''rollback'' \<longrightarrow> check_rollback_transition w report record checkout artifact digest
              (map_option fst sa') (map_option snd sa') = Inr [])"
proof -
  let ?repo = "repo_of w record"
  from assms obtain item where item: "dget evidence name = VDict item"
    by (cases "dget evidence name") (simp_all add: evidence_item_def Let_def clean)
  note c1 = assms [unfolded evidence_item_def Let_def item, simplified]
  from c1 have status: "dget item ''status'' = VStr ''verified''" by (auto simp: clean split: if_splits)
  with c1 obtain relative where relative: "dget item ''report'' = VStr relative"
    by (cases "dget item ''report''") (simp_all add: clean)
  with c1 status have ne: "strip relative \<noteq> []" by (auto simp: clean)
  with c1 status relative obtain doc where shape: "record_shape_checks ?repo name item = Inr []"
    and doc: "report_document w ?repo checkout name relative = Inr ([], doc)"
    by (auto simp: clean)
  obtain bytes report where report: "doc = Some (bytes, report)" "committed_report w checkout relative bytes report"
    using report_document_clean [OF doc] by blast
  from shape obtain artifact where artifact: "dget item ''artifact'' = VStr artifact" "strip artifact \<noteq> []"
    by (auto simp: record_shape_checks_def Let_def clean nonblank_iff)
  from c1 status relative ne shape doc report artifact obtain ad where
    rc: "report_checks w ?repo name item release bytes report = Inr []"
    and prov: "name = ''standalone'' \<longrightarrow> check_rust_build_provenance w report record checkout name = Inr []"
    and art: "artifact_check w ?repo checkout name (VStr artifact) report = Inr ([], ad)"
    and rest: "(case ad of None \<Rightarrow> done_with ok sa
       | Some (relative, recorded, matches) \<Rightarrow>
          done_with (onlyif (name = ''rollback'')
            (check_rollback_transition w report record checkout relative recorded
               (map_option fst (if name = ''standalone'' \<and> matches then Some (relative, recorded) else sa))
               (map_option snd (if name = ''standalone'' \<and> matches then Some (relative, recorded) else sa))))
            (if name = ''standalone'' \<and> matches then Some (relative, recorded) else sa)) = Inr ([], sa')"
    by (auto simp: clean)
  obtain digest where digest: "ad = Some (artifact, digest, True)" "dget report ''artifact_sha256'' = VStr digest"
    "file_digest w checkout artifact digest"
    using artifact_check_clean [OF art artifact(2)] by blast
  from rest digest have sa': "sa' = (if name = ''standalone'' then Some (artifact, digest) else sa)"
    and roll: "name = ''rollback'' \<longrightarrow> check_rollback_transition w report record checkout artifact digest
              (map_option fst sa') (map_option snd sa') = Inr []"
    by (auto simp: clean split: if_splits)
  from shape obtain command where command: "dget item ''command'' = VStr command" "strip command \<notin> {[], ''true'', ''/bin/true''}"
    by (auto simp: record_shape_checks_def Let_def clean str_such_iff)
  have "is_dict (dget item ''result'')"
    using shape by (cases "dget item ''result''") (simp_all add: record_shape_checks_def Let_def clean)
  with shape obtain result where res: "dget item ''result'' = VDict result" "is_zero (dget result ''exit_code'')"
    by (auto simp: record_shape_checks_def Let_def clean is_dict_iff)
  from rc have rf: "dget item ''report_sha256'' = VStr (sha256 w bytes)"
    "py_eq (dget report ''tag'') (get_if_dict release ''tag'')" "py_eq (dget report ''commit'') (get_if_dict release ''commit'')"
    "dget report ''artifact'' = VStr artifact"
    "py_eq (dget report ''observed'') (expected_observed (VStr command) (VDict result))"
    by (auto simp: report_checks_def Let_def clean artifact command res split: if_splits)
  have "item_ok w record checkout release evidence name report artifact digest"
    unfolding item_ok_def using item status relative report(2) rf artifact(1) digest(2,3) command res by blast
  with sa' prov roll show ?thesis by blast
qed

lemma check_evidence_loop:
  assumes "check_evidence w record checkout = Inr []" "expected_rust record = Inr (Some rust)"
  shows "\<exists>evidence r. dget rust ''evidence'' = VDict evidence \<and>
           evidence_loop w record checkout (dget rust ''release'') evidence None (evidence_names record) = Inr ([], r)"
proof -
  from assms obtain evidence where e: "dget rust ''evidence'' = VDict evidence"
    by (cases "dget rust ''evidence''") (simp_all add: check_evidence_def clean)
  with assms show ?thesis by (auto simp: check_evidence_def bind_res_eq_Inr)
qed

text \<open>C13: an adopted consumer whose evidence raises no finding has shown both directions. Its
  standalone report is a committed file whose bytes have the digest pinned in the record, names the
  CoreKit release tag and commit of the adoption, repeats the recorded command and its successful
  result, and names an artifact that is in the checkout with the reported digest and was built from
  the released source; and unless its Go side is retired, its rollback report is the same kind of file
  and its transition returns from that very artifact to the old Go program.\<close>

theorem evidence_shows_standalone_and_rollback:
  assumes "check_evidence w record checkout = Inr []" "expected_rust record = Inr (Some rust)"
  shows "\<exists>evidence report artifact digest.
      dget rust ''evidence'' = VDict evidence \<and>
      item_ok w record checkout (dget rust ''release'') evidence ''standalone'' report artifact digest \<and>
      check_rust_build_provenance w report record checkout ''standalone'' = Inr [] \<and>
      (\<not> go_retired record \<longrightarrow>
         (\<exists>rollback go_artifact go_digest.
            item_ok w record checkout (dget rust ''release'') evidence ''rollback'' rollback go_artifact go_digest \<and>
            check_rollback_transition w rollback record checkout go_artifact go_digest (Some artifact) (Some digest) = Inr []))"
proof -
  obtain evidence r where e: "dget rust ''evidence'' = VDict evidence"
    and loop: "evidence_loop w record checkout (dget rust ''release'') evidence None (evidence_names record) = Inr ([], r)"
    using check_evidence_loop [OF assms] by blast
  from loop obtain sa where first: "evidence_item w record checkout (dget rust ''release'') evidence None ''standalone'' = Inr ([], sa)"
    by (auto simp: evidence_names_def clean split: if_splits)
  from evidence_item_clean [OF first] obtain report artifact digest where
    s: "item_ok w record checkout (dget rust ''release'') evidence ''standalone'' report artifact digest"
      "sa = Some (artifact, digest)" "check_rust_build_provenance w report record checkout ''standalone'' = Inr []"
    by auto
  have "\<exists>rollback go_artifact go_digest.
      item_ok w record checkout (dget rust ''release'') evidence ''rollback'' rollback go_artifact go_digest \<and>
      check_rollback_transition w rollback record checkout go_artifact go_digest (Some artifact) (Some digest) = Inr []"
    if "\<not> go_retired record"
  proof -
    from loop that first s(2) obtain sb where
      "evidence_item w record checkout (dget rust ''release'') evidence (Some (artifact, digest)) ''rollback'' = Inr ([], sb)"
      by (auto simp: evidence_names_def clean)
    from evidence_item_clean [OF this] obtain rollback go_artifact go_digest where
      "item_ok w record checkout (dget rust ''release'') evidence ''rollback'' rollback go_artifact go_digest"
      "check_rollback_transition w rollback record checkout go_artifact go_digest (Some artifact) (Some digest) = Inr []"
      by auto
    then show ?thesis by blast
  qed
  with e s show ?thesis by blast
qed

section \<open>A concrete consumer with evidence\<close>

definition demo_sha :: string where
  "demo_sha = replicate 64 (CHR ''a'')"

definition demo_result :: pydict where
  "demo_result = [(''exit_code'', VInt 0), (''stdout'', VStr ''state''), (''stderr'', VStr [])]"

definition demo_step :: "string \<Rightarrow> string \<Rightarrow> pydict" where
  "demo_step runtime artifact =
     [(''runtime'', VStr runtime), (''artifact'', VStr artifact), (''artifact_sha256'', VStr demo_sha),
      (''state_readback_sha256'', VStr demo_sha),
      (''observed'', VDict ((''command'', VList [VStr (''./'' @ artifact)]) # demo_result))]"

definition demo_report :: "string \<Rightarrow> pydict" where
  "demo_report artifact =
     [(''tag'', VStr ''v1.0.0''), (''commit'', VStr demo_commit), (''artifact'', VStr artifact), (''artifact_sha256'', VStr demo_sha),
      (''observed'', VDict ((''command'', VStr ''run'') # demo_result))]"

definition demo_provenance :: pydict where
  "demo_provenance =
     [(''source_commit'', VStr demo_commit), (''cargo_version'', VStr ''cargo 1.80.0''), (''rustc_version'', VStr ''rustc 1.80.0''),
      (''target'', VStr ''x86_64''), (''cargo_lock_sha256'', VStr demo_sha),
      (''observed'', VDict ((''command'', VList [VStr ''cargo'', VStr ''build'', VStr ''--locked'', VStr ''--release'']) # demo_result))]"

definition demo_standalone :: pydict where
  "demo_standalone = demo_report ''rust-bin'' @ [(''rust_build'', VDict demo_provenance)]"

definition demo_rollback :: pydict where
  "demo_rollback = demo_report ''go-bin'' @
     [(''synthetic_state_sha256'', VStr demo_sha),
      (''transition'', VList [VDict (demo_step ''go'' ''go-bin''), VDict (demo_step ''rust'' ''rust-bin''), VDict (demo_step ''go'' ''go-bin'')])]"

definition demo_item :: "string \<Rightarrow> string \<Rightarrow> pyval" where
  "demo_item report artifact = VDict
     [(''status'', VStr ''verified''), (''report'', VStr report), (''artifact'', VStr artifact), (''command'', VStr ''run''),
      (''result'', VDict demo_result), (''report_sha256'', VStr demo_sha)]"

definition demo_evidence :: pydict where
  "demo_evidence = [(''standalone'', demo_item ''s.json'' ''rust-bin''), (''rollback'', demo_item ''r.json'' ''go-bin'')]"

definition demo_rust :: pydict where
  "demo_rust = [(''status'', VStr ''git''), (''release'', VDict [(''tag'', VStr ''v1.0.0''), (''commit'', VStr demo_commit)]),
     (''evidence'', VDict demo_evidence)]"

definition demo_adopter :: pydict where
  "demo_adopter = [(''repo'', VStr ''demo''), (''rust'', VDict demo_rust),
     (''consumer_release'', VDict [(''tag'', VStr ''v2.0.0''), (''commit'', VStr demo_commit)])]"

definition demo_evidence_world :: world where
  "demo_evidence_world = demo_world \<lparr>
     run_git := (\<lambda>args cwd. case args of
        a # b # _ \<Rightarrow> if a = ''ls-files'' then (0, last args, []) else if b = ''--name-only'' then (0, ''s.json'', []) else (0, [], [])
      | _ \<Rightarrow> (1, [], [])),
     lstat_of := (\<lambda>p. Inr Regular),
     read_bytes := (\<lambda>p. Inr (last p)),
     json_loads := (\<lambda>t. Inr (VDict (if t = ''s.json'' then demo_standalone else demo_rollback))),
     sha256 := (\<lambda>_. demo_sha)\<rparr>"

lemma demo_evidence_clean: "check_evidence demo_evidence_world demo_adopter [''home'', ''c''] = Inr []"
  by code_simp

lemma demo_adopted: "expected_rust demo_adopter = Inr (Some demo_rust)"
  by code_simp

lemma evidence_shows_standalone_and_rollback_witness:
  "\<exists>evidence report artifact digest.
     item_ok demo_evidence_world demo_adopter [''home'', ''c''] (dget demo_rust ''release'') evidence ''standalone'' report artifact digest"
  using evidence_shows_standalone_and_rollback [OF demo_evidence_clean demo_adopted] by blast

lemma rollback_restores_old_go_witness:
  "\<exists>go1 rust go2. dget demo_rollback ''transition'' = VList [VDict go1, VDict rust, VDict go2] \<and>
     dget go1 ''runtime'' = VStr ''go'' \<and> dget rust ''runtime'' = VStr ''rust'' \<and> dget go2 ''runtime'' = VStr ''go''"
proof -
  have "check_rollback_transition demo_evidence_world demo_rollback demo_adopter [''home'', ''c''] ''go-bin'' demo_sha
     (Some ''rust-bin'') (Some demo_sha) = Inr []" by code_simp
  from rollback_restores_old_go [OF this] show ?thesis by blast
qed

lemma build_provenance_binds_source_witness:
  "\<exists>provenance source. dget demo_standalone ''rust_build'' = VDict provenance \<and> dget provenance ''source_commit'' = VStr source \<and>
     is_revision (VStr source)"
proof -
  have "check_rust_build_provenance demo_evidence_world demo_standalone demo_adopter [''home'', ''c''] ''standalone'' = Inr []"
    by code_simp
  from build_provenance_binds_source [OF this] show ?thesis by blast
qed

end
