(* ===== verification/ConsumerGo.thy ===== *)
theory ConsumerGo
  imports GoSource Evidence
begin

text \<open>
  The Go checks of \<open>port/consumer/verify.py\<close>: the tracked Go files and module files
  (\<open>_tracked_go_files\<close>, \<open>_tracked_go_module_files\<close>), replace directives (\<open>_check_go_replacements\<close>),
  imports (\<open>tracked_go_imports\<close>), retired consumers (\<open>_check_go_retired\<close>) and declared pins
  (\<open>_check_go\<close>).
\<close>

definition tracked_go_files :: "world \<Rightarrow> path \<Rightarrow> path list option" where
  "tracked_go_files w checkout =
     (let args = [''ls-files'', ''-z'', ''--'', ''*.go''] in
      if git_code w args checkout \<noteq> 0 then None
      else Some (map (join_path checkout)
        (filter (\<lambda>relative. relative \<noteq> [] \<and>
                   \<not> list_ex (\<lambda>part. part \<in> {''.git'', ''.worktrees'', ''vendor''}) (path_parts relative))
           (split_on (CHR 0x00) (git_out w args checkout)))))"

definition tracked_go_module_files :: "world \<Rightarrow> path \<Rightarrow> path list option" where
  "tracked_go_module_files w checkout = tracked_named w [''go.mod'', ''go.work''] checkout"

section \<open>Replace directives\<close>

definition replacement_file :: "world \<Rightarrow> string \<Rightarrow> path \<Rightarrow> path \<Rightarrow> check" where
  "replacement_file w repo checkout p =
     bind_res (relative_to p checkout) (\<lambda>rel.
       let relative = as_posix rel in
       (case bind_res (safe_non_symlink_child w checkout (VStr relative)) (\<lambda>_. read_text w p) of
          Inl e \<Rightarrow>
            if is_os_error e \<or> is_value_error e
            then add_finding repo ''go.manifest.read'' (msg [''cannot inspect '', relative, '': '', exc_text e])
            else Inl e
        | Inr content \<Rightarrow>
            (case go_corekit_replacements content of
               [] \<Rightarrow> ok
             | r # _ \<Rightarrow> add_finding repo ''go.replace.forbidden''
                          (msg [relative, '' contains a CoreKit replace directive ('', r, '')'']))))"

definition check_go_replacements :: "world \<Rightarrow> pydict \<Rightarrow> path \<Rightarrow> check" where
  "check_go_replacements w record checkout =
     (let repo = repo_of w record in
      case tracked_go_module_files w checkout of
        None \<Rightarrow> add_finding repo ''go.manifests.unavailable'' ''cannot inspect tracked go.mod/go.work files''
      | Some paths \<Rightarrow> checks (map (replacement_file w repo checkout) paths))"

section \<open>Imports\<close>

definition is_corekit_import :: "string \<Rightarrow> bool" where
  "is_corekit_import imported = (imported = COREKIT_MODULE \<or> startswith imported (COREKIT_MODULE @ ''/''))"

definition go_file_imports :: "world \<Rightarrow> path \<Rightarrow> path \<Rightarrow> string list res" where
  "go_file_imports w checkout p =
     (case read_text w p of
        Inl e \<Rightarrow> if is_os_error e then Inr [] else Inl e
      | Inr content \<Rightarrow>
          if list_ex is_corekit_import (go_imports content)
          then bind_res (relative_to p checkout) (\<lambda>rel. Inr [as_posix rel])
          else Inr [])"

definition tracked_go_imports :: "world \<Rightarrow> path \<Rightarrow> string list res" where
  "tracked_go_imports w checkout =
     (case tracked_go_files w checkout of
        None \<Rightarrow> Inr []
      | Some paths \<Rightarrow> bind_res (map_res (go_file_imports w checkout) paths) (\<lambda>found. Inr (concat found)))"

section \<open>Retired consumers\<close>

definition check_go_retired :: "world \<Rightarrow> pydict \<Rightarrow> path \<Rightarrow> check" where
  "check_go_retired w record checkout =
     (let repo = repo_of w record; args = [''ls-files'', ''--'', ''go.mod''] in
      checks
       [onlyif (dget record ''pins'' \<noteq> VList [])
          (add_finding repo ''go.retired.pins'' ''Go-retired consumer must declare an empty pins array''),
        (case tracked_go_files w checkout of
           None \<Rightarrow> add_finding repo ''go.imports.unavailable'' (msg [''cannot inspect the selected repository'', [CHR 0x27], ''s tracked Go files''])
         | Some paths \<Rightarrow>
             if git_code w args checkout \<noteq> 0
             then add_finding repo ''go.imports.unavailable'' (msg [''cannot inspect the selected repository'', [CHR 0x27], ''s tracked Go files''])
             else onlyif (paths \<noteq> [] \<or> git_out w args checkout \<noteq> [])
               (add_finding repo ''go.retired.present'' ''Go-retired consumer still tracks go.mod or Go source files''))])"

section \<open>Pins\<close>

text \<open>One entry of the pins array: the findings and the versions it declares.\<close>

definition go_requirements_checks :: "string \<Rightarrow> string \<Rightarrow> string option list \<Rightarrow> string list out" where
  "go_requirements_checks repo relative requirements =
     (if requirements = []
      then done_with (add_finding repo ''go.pin.missing'' (msg [''no CoreKit require found in '', relative])) []
      else done_with
        (checks
          [onlyif (length requirements > 1)
             (add_finding repo ''go.pin.duplicate'' (msg [relative, '' declares CoreKit more than once''])),
           onlyif (length (filter (\<lambda>version. version = None) requirements) \<noteq> 0)
             (add_finding repo ''go.pin.invalid'' (msg [relative, '' contains an invalid CoreKit version declaration'']))])
        (List.map_filter (\<lambda>version. version) requirements))"

definition go_pin_file :: "world \<Rightarrow> string \<Rightarrow> path \<Rightarrow> string \<Rightarrow> string list out" where
  "go_pin_file w repo checkout relative =
     (let args = [''ls-files'', ''--error-unmatch'', ''--'', relative] in
      case safe_non_symlink_child w checkout (VStr relative) of
        Inl e \<Rightarrow>
          if is_value_error e
          then done_with (add_finding repo ''go.manifest.path'' (msg [''Go manifest path is unsafe or forbidden: '', relative])) []
          else Inl e
      | Inr p \<Rightarrow> bind_res (regular_non_symlink w p) (\<lambda>regular.
          if \<not> regular
          then done_with (add_finding repo ''go.manifest.missing'' (msg [''missing declared Go manifest: '', relative])) []
          else if git_code w args checkout \<noteq> 0 \<or> git_out w args checkout \<noteq> relative
          then done_with (add_finding repo ''go.manifest.untracked''
                 (msg [''declared Go manifest is not tracked at checkout_commit: '', relative])) []
          else (case read_text w p of
            Inl e \<Rightarrow>
              if is_os_error e \<or> is_decode_error e
              then done_with (add_finding repo ''go.manifest.read'' (msg [''cannot read '', relative, '': '', exc_text e])) []
              else Inl e
          | Inr content \<Rightarrow> go_requirements_checks repo relative (parse_go_requirements content))))"

definition go_pin_entry :: "world \<Rightarrow> string \<Rightarrow> path \<Rightarrow> pyval \<Rightarrow> string list out" where
  "go_pin_entry w repo checkout relative =
     (case relative of
        VStr r \<Rightarrow> go_pin_file w repo checkout r
      | _ \<Rightarrow> done_with (add_finding repo ''go.manifest.path'' ''Go pin path must be a string'') [])"

fun go_pins_loop :: "world \<Rightarrow> string \<Rightarrow> path \<Rightarrow> pyval list \<Rightarrow> string list out" where
  "go_pins_loop w repo checkout [] = done_with ok []"
| "go_pins_loop w repo checkout (relative # pins) =
     andthen (go_pin_entry w repo checkout relative) (\<lambda>found.
       andthen (go_pins_loop w repo checkout pins) (\<lambda>more_found. done_with ok (found @ more_found)))"

definition check_go_imports :: "world \<Rightarrow> string \<Rightarrow> path \<Rightarrow> check" where
  "check_go_imports w repo checkout =
     bind_res (tracked_go_imports w checkout) (\<lambda>used.
       if tracked_go_files w checkout = None
       then add_finding repo ''go.imports.unavailable'' (msg [''cannot inspect the selected repository'', [CHR 0x27], ''s tracked Go files''])
       else onlyif (used = [])
              (add_finding repo ''go.imports.missing'' ''no tracked Go import of the CoreKit module was found''))"

definition check_go_pins :: "world \<Rightarrow> string \<Rightarrow> path \<Rightarrow> pyval list \<Rightarrow> check" where
  "check_go_pins w repo checkout pins =
     bind_res (go_pins_loop w repo checkout pins) (\<lambda>r.
       checks
        [Inr (fst r),
         onlyif (snd r \<noteq> [] \<and> length (remdups (snd r)) \<noteq> 1)
           (add_finding repo ''go.pin.inconsistent''
              (msg [''declared Go manifests disagree: '', repr_strs (sorted_set (snd r))])),
         check_go_imports w repo checkout])"

definition check_go :: "world \<Rightarrow> pydict \<Rightarrow> path \<Rightarrow> check" where
  "check_go w record checkout =
     (let repo = repo_of w record in
      if go_retired record then check_go_retired w record checkout
      else checks
        [check_go_replacements w record checkout,
         (case dget record ''pins'' of
            VList pins \<Rightarrow>
              if pins = []
              then add_finding repo ''go.manifests'' ''consumer record needs a non-empty pins array''
              else check_go_pins w repo checkout pins
          | _ \<Rightarrow> add_finding repo ''go.manifests'' ''consumer record needs a non-empty pins array'')])"

section \<open>What the checks establish\<close>

definition no_replacement :: "world \<Rightarrow> path \<Rightarrow> path \<Rightarrow> bool" where
  "no_replacement w checkout p \<longleftrightarrow>
     (\<exists>rel content. p = checkout @ rel \<and> read_text w p = Inr content \<and> go_corekit_replacements content = [])"

lemma replacement_file_clean:
  assumes "replacement_file w repo checkout p = Inr []"
  shows "no_replacement w checkout p"
proof -
  from assms obtain rel where rel: "relative_to p checkout = Inr rel"
    by (cases "relative_to p checkout") (simp_all add: replacement_file_def)
  then have p: "p = checkout @ rel" by (simp add: relative_to_Inr)
  let ?read = "bind_res (safe_non_symlink_child w checkout (VStr (as_posix rel))) (\<lambda>_. read_text w p)"
  from assms rel obtain content where content: "?read = Inr content" "go_corekit_replacements content = []"
    by (auto simp: replacement_file_def Let_def clean split: sum.splits if_splits list.splits)
  then have "read_text w p = Inr content" by (auto simp: bind_res_eq_Inr)
  with p content(2) show ?thesis unfolding no_replacement_def by blast
qed

interpretation module_files: checker "replacement_file w repo checkout" "no_replacement w checkout" for w repo checkout
  by unfold_locales (rule replacement_file_clean)

lemma check_go_replacements_run:
  "check_go_replacements w record checkout =
     (case tracked_go_module_files w checkout of
        None \<Rightarrow> add_finding (repo_of w record) ''go.manifests.unavailable'' ''cannot inspect tracked go.mod/go.work files''
      | Some paths \<Rightarrow> module_files.run w (repo_of w record) checkout paths)"
  by (simp add: check_go_replacements_def module_files.run_def Let_def split: option.split)

lemma check_go_replacements_clean:
  assumes "check_go_replacements w record checkout = Inr []"
  shows "\<exists>paths. tracked_go_module_files w checkout = Some paths \<and> (\<forall>p \<in> set paths. no_replacement w checkout p)"
  using assms module_files.run_sound
  by (fastforce simp: check_go_replacements_run clean split: option.splits)

text \<open>A declared manifest that pins CoreKit to the version \<open>v\<close>.\<close>

definition pins_version :: "world \<Rightarrow> path \<Rightarrow> string \<Rightarrow> pyval \<Rightarrow> bool" where
  "pins_version w checkout v pin \<longleftrightarrow>
     (\<exists>r p content. pin = VStr r \<and> safe_non_symlink_child w checkout pin = Inr p \<and> lstat_of w p = Inr Regular \<and>
        git_code w [''ls-files'', ''--error-unmatch'', ''--'', r] checkout = 0 \<and>
        git_out w [''ls-files'', ''--error-unmatch'', ''--'', r] checkout = r \<and>
        read_text w p = Inr content \<and> parse_go_requirements content = [Some v])"

lemma go_requirements_clean:
  assumes "go_requirements_checks repo relative reqs = Inr ([], found)"
  shows "\<exists>v. reqs = [Some v] \<and> found = [v]"
proof -
  from assms have "reqs \<noteq> []" by (auto simp: go_requirements_checks_def clean)
  with assms have len: "\<not> length reqs > 1" and inv: "filter (\<lambda>version. version = None) reqs = []"
    and found: "found = List.map_filter (\<lambda>version. version) reqs"
    by (auto simp: go_requirements_checks_def clean)
  with \<open>reqs \<noteq> []\<close> obtain o' where "reqs = [o']" by (cases reqs) auto
  with inv found show ?thesis by (cases o') (auto simp: List.map_filter_simps)
qed

lemma go_pin_file_clean:
  assumes "go_pin_file w repo checkout r = Inr ([], found)"
  shows "\<exists>v. found = [v] \<and> pins_version w checkout v (VStr r)"
proof -
  from assms obtain p where p: "safe_non_symlink_child w checkout (VStr r) = Inr p"
    by (cases "safe_non_symlink_child w checkout (VStr r)") (auto simp: go_pin_file_def Let_def clean split: if_splits)
  note c = assms [unfolded go_pin_file_def Let_def p, simplified]
  from c obtain regular where reg: "regular_non_symlink w p = Inr regular" by (auto simp: bind_res_eq_Inr)
  with c have g: "regular" "git_code w [''ls-files'', ''--error-unmatch'', ''--'', r] checkout = 0"
    "git_out w [''ls-files'', ''--error-unmatch'', ''--'', r] checkout = r"
    by (auto simp: clean split: if_splits)
  with c reg obtain content where content: "read_text w p = Inr content"
    "go_requirements_checks repo r (parse_go_requirements content) = Inr ([], found)"
    by (cases "read_text w p") (auto simp: clean split: if_splits)
  from go_requirements_clean [OF content(2)] obtain v where "parse_go_requirements content = [Some v]" "found = [v]" by blast
  with p g content regular_non_symlink_Inr [OF reg] show ?thesis unfolding pins_version_def by blast
qed

lemma go_pins_loop_clean:
  "go_pins_loop w repo checkout pins = Inr ([], found) \<Longrightarrow> list_all2 (\<lambda>pin v. pins_version w checkout v pin) pins found"
proof (induction pins arbitrary: found)
  case Nil
  then show ?case by (simp add: clean)
next
  case (Cons pin pins)
  from Cons.prems obtain f fs where f: "go_pin_entry w repo checkout pin = Inr ([], f)"
    and fs: "go_pins_loop w repo checkout pins = Inr ([], fs)" and found: "found = f @ fs"
    by (auto simp: clean)
  from f obtain r where "pin = VStr r" "go_pin_file w repo checkout r = Inr ([], f)"
    by (cases pin) (simp_all add: go_pin_entry_def clean)
  with go_pin_file_clean obtain v where "f = [v]" "pins_version w checkout v pin" by blast
  with Cons.IH [OF fs] found show ?case by simp
qed

lemma go_file_imports_mem:
  "go_file_imports w checkout p = Inr xs \<Longrightarrow> xs \<noteq> [] \<Longrightarrow>
     \<exists>content imported. read_text w p = Inr content \<and> imported \<in> set (go_imports content) \<and> is_corekit_import imported"
  by (auto simp: go_file_imports_def list_ex_iff split: sum.splits if_splits)

lemma check_go_imports_clean:
  assumes "check_go_imports w repo checkout = Inr []"
  shows "\<exists>paths p content imported. tracked_go_files w checkout = Some paths \<and> p \<in> set paths \<and>
           read_text w p = Inr content \<and> imported \<in> set (go_imports content) \<and> is_corekit_import imported"
proof -
  from assms obtain used paths where i: "tracked_go_imports w checkout = Inr used" "used \<noteq> []"
    and paths: "tracked_go_files w checkout = Some paths"
    unfolding check_go_imports_def bind_res_eq_Inr by (cases "tracked_go_files w checkout") (auto simp: clean)
  from i(1) paths obtain found where found: "map_res (go_file_imports w checkout) paths = Inr found" "used = concat found"
    by (auto simp: tracked_go_imports_def bind_res_eq_Inr)
  from i(2) found(2) obtain xs where xs: "xs \<in> set found" "xs \<noteq> []" by auto
  obtain p where p: "p \<in> set paths" "go_file_imports w checkout p = Inr xs"
    using map_res_mem [OF found(1) xs(1)] by blast
  from paths p(1) go_file_imports_mem [OF p(2) xs(2)] show ?thesis by blast
qed

lemma remdups_one: "length (remdups xs) = 1 \<Longrightarrow> \<exists>v. \<forall>x \<in> set xs. x = v"
  by (metis One_nat_def length_one_iff list.set_cases set_ConsD set_remdups empty_iff list.set(1))

text \<open>C36: a consumer with a Go side that raises no Go finding uses exactly one released CoreKit. It
  declares manifests; each is a regular tracked file below the checkout that requires CoreKit once,
  with a valid version, and the version is the same in all of them; no tracked \<open>go.mod\<close> or \<open>go.work\<close>
  has a replace directive the scanner takes for a CoreKit one; and some tracked Go file imports the
  CoreKit module.\<close>

theorem go_side_uses_one_release:
  assumes "check_go w record checkout = Inr []" "\<not> go_retired record"
  shows "\<exists>pins v. dget record ''pins'' = VList pins \<and> pins \<noteq> [] \<and> (\<forall>pin \<in> set pins. pins_version w checkout v pin) \<and>
      (\<exists>paths. tracked_go_module_files w checkout = Some paths \<and> (\<forall>p \<in> set paths. no_replacement w checkout p)) \<and>
      (\<exists>paths p content imported. tracked_go_files w checkout = Some paths \<and> p \<in> set paths \<and>
         read_text w p = Inr content \<and> imported \<in> set (go_imports content) \<and> is_corekit_import imported)"
proof -
  from assms obtain pins where pins: "dget record ''pins'' = VList pins"
    by (cases "dget record ''pins''") (simp_all add: check_go_def Let_def clean)
  with assms have ne: "pins \<noteq> []" and repl: "check_go_replacements w record checkout = Inr []"
    and p: "check_go_pins w (repo_of w record) checkout pins = Inr []"
    by (auto simp: check_go_def Let_def clean split: if_splits)
  from p obtain found where loop: "go_pins_loop w (repo_of w record) checkout pins = Inr ([], found)"
    and one: "found \<noteq> [] \<longrightarrow> length (remdups found) = 1" and imp: "check_go_imports w (repo_of w record) checkout = Inr []"
    by (auto simp: check_go_pins_def bind_res_eq_Inr clean)
  from go_pins_loop_clean [OF loop] have all: "list_all2 (\<lambda>pin v. pins_version w checkout v pin) pins found" .
  with ne have "found \<noteq> []" by (auto dest: list_all2_lengthD)
  with one remdups_one obtain v where "\<forall>x \<in> set found. x = v" by blast
  with all have "\<forall>pin \<in> set pins. pins_version w checkout v pin"
    using list_all2_all_same by fast
  with pins ne check_go_replacements_clean [OF repl] check_go_imports_clean [OF imp] show ?thesis by blast
qed

text \<open>A consumer that declares its Go side retired raises no Go finding exactly when it declares no
  pins, Git lists no Go file outside vendored trees and worktrees, and lists no \<open>go.mod\<close> at the root.\<close>

theorem go_retired_clean_iff:
  assumes "go_retired record"
  shows "check_go w record checkout = Inr [] \<longleftrightarrow>
     dget record ''pins'' = VList [] \<and> tracked_go_files w checkout = Some [] \<and>
     git_code w [''ls-files'', ''--'', ''go.mod''] checkout = 0 \<and> git_out w [''ls-files'', ''--'', ''go.mod''] checkout = []"
  using assms by (auto simp: check_go_def check_go_retired_def Let_def clean split: option.splits)

section \<open>A concrete Go consumer\<close>

definition demo_go_mod :: string where
  "demo_go_mod = ''require github.com/danieljustus/symaira-corekit v1.2.3''"

definition demo_go_src :: string where
  "demo_go_src = ''import '' @ [CHR 0x22] @ ''github.com/danieljustus/symaira-corekit/version'' @ [CHR 0x22]"

definition demo_go_world :: world where
  "demo_go_world = demo_world \<lparr>
     run_git := (\<lambda>args cwd.
        if args = [''ls-files'', ''-z'', ''--'', ''*.go''] then (0, ''main.go'' @ [CHR 0x00], [])
        else if args = [''ls-files'', ''-z''] then (0, ''go.mod'' @ [CHR 0x00] @ ''main.go'', [])
        else if args = [''ls-files'', ''--error-unmatch'', ''--'', ''go.mod''] then (0, ''go.mod'', [])
        else (0, [], [])),
     lstat_of := (\<lambda>p. Inr Regular),
     read_bytes := (\<lambda>p. Inr (if last p = ''go.mod'' then demo_go_mod else demo_go_src))\<rparr>"

lemma go_side_uses_one_release_witness:
  "\<exists>pins v. dget [(''pins'', VList [VStr ''go.mod''])] ''pins'' = VList pins \<and> pins \<noteq> [] \<and>
     (\<forall>pin \<in> set pins. pins_version demo_go_world [''home'', ''c''] v pin)"
proof -
  have "check_go demo_go_world [(''pins'', VList [VStr ''go.mod''])] [''home'', ''c''] = Inr []" by code_simp
  moreover have "\<not> go_retired [(''pins'', VList [VStr ''go.mod''])]" by code_simp
  ultimately show ?thesis using go_side_uses_one_release by blast
qed

lemma go_retired_clean_iff_witness:
  "check_go demo_go_world [(''go_status'', VStr ''retired''), (''pins'', VList [])] [''home'', ''c''] \<noteq> Inr []"
proof -
  have "go_retired [(''go_status'', VStr ''retired''), (''pins'', VList [])]" by code_simp
  moreover have "tracked_go_files demo_go_world [''home'', ''c''] \<noteq> Some []" by code_simp
  ultimately show ?thesis using go_retired_clean_iff by blast
qed

end
