(* ===== verification/ConsumerRust.thy ===== *)
theory ConsumerRust
  imports Evidence
begin

text \<open>
  The Rust checks of \<open>port/consumer/verify.py\<close>: the CoreKit release a pin names and its ancestry
  (\<open>_check_release_ancestry\<close>), the read-back of the crates.io registry (\<open>_registry_readback\<close>,
  \<open>_check_registry_readback\<close>) and the pins and the lock file of a consumer (\<open>_check_rust\<close>).
\<close>

definition COREKIT_URL :: string where
  "COREKIT_URL = ''https://github.com/danieljustus/symaira-corekit''"

definition CRATES_IO_SOURCE :: string where
  "CRATES_IO_SOURCE = ''registry+https://github.com/rust-lang/crates.io-index''"

section \<open>Release ancestry\<close>

definition release_tag_check :: "world \<Rightarrow> string \<Rightarrow> path \<Rightarrow> string \<Rightarrow> string \<Rightarrow> check" where
  "release_tag_check w repo corekit tag commit =
     (let args = [''rev-parse'', msg [''refs/tags/'', tag, ''^{commit}'']] in
      if git_code w [''show-ref'', ''--verify'', msg [''refs/tags/'', tag]] corekit \<noteq> 0
      then add_finding repo ''release.tag'' (msg [''release reference '', tag, '' is not an existing CoreKit tag''])
      else onlyif (git_code w args corekit \<noteq> 0 \<or> git_out w args corekit \<noteq> commit)
             (add_finding repo ''release.tag'' (msg [''release tag '', tag, '' does not resolve to recorded commit''])))"

definition candidate_of :: "pydict \<Rightarrow> pyval" where
  "candidate_of rust =
     (if dget rust ''status'' = VStr ''git'' then dget rust ''revision''
      else if dget rust ''release_candidate'' = VNone then dget rust ''revision''
      else dget rust ''release_candidate'')"

definition candidate_check :: "world \<Rightarrow> string \<Rightarrow> path \<Rightarrow> pydict \<Rightarrow> string \<Rightarrow> string \<Rightarrow> check" where
  "candidate_check w repo corekit rust tag commit =
     (case candidate_of rust of
        VNone \<Rightarrow> onlyif (dget rust ''status'' = VStr ''git'')
                   (add_finding repo ''rust.revision'' ''Git adoption needs a 40-hex revision'')
      | VStr candidate \<Rightarrow>
          if \<not> is_revision (VStr candidate)
          then add_finding repo ''rust.revision'' ''adoption/release-candidate revision must be a 40-hex commit''
          else if git_code w [''cat-file'', ''-e'', msg [candidate, ''^{commit}'']] corekit \<noteq> 0
          then add_finding repo ''rust.revision'' (msg [''adoption revision '', candidate, '' is not present in CoreKit''])
          else onlyif (git_code w [''merge-base'', ''--is-ancestor'', commit, candidate] corekit \<noteq> 0)
                 (add_finding repo ''release.ancestry'' (msg [''release '', tag, '' ('', commit,
                    '') is not an ancestor of adoption/release candidate '', candidate]))
      | _ \<Rightarrow> add_finding repo ''rust.revision'' ''adoption/release-candidate revision must be a 40-hex commit'')"

definition check_release_ancestry :: "world \<Rightarrow> string \<Rightarrow> pydict \<Rightarrow> path \<Rightarrow> check" where
  "check_release_ancestry w repo rust corekit =
     (case dget rust ''release'' of
        VDict release \<Rightarrow> checks
          [onlyif (dget rust ''release_source'' \<noteq> VStr ''corekit'')
             (add_finding repo ''release.namespace''
                ''consumer release evidence must explicitly map to the CoreKit release namespace''),
           (case (dget release ''tag'', dget release ''commit'') of
              (VStr tag, VStr commit) \<Rightarrow>
                if \<not> is_release_tag (VStr tag) \<or> \<not> is_revision (VStr commit)
                then add_finding repo ''release.shape''
                       ''release evidence needs a stable vMAJOR.MINOR.PATCH tag and 40-hex commit''
                else checks [release_tag_check w repo corekit tag commit, candidate_check w repo corekit rust tag commit]
            | _ \<Rightarrow> add_finding repo ''release.shape''
                     ''release evidence needs a stable vMAJOR.MINOR.PATCH tag and 40-hex commit'')]
      | _ \<Rightarrow> add_finding repo ''release.missing'' ''Rust pin has no release tag/commit evidence'')"

section \<open>The registry read-back\<close>

definition registry_readback :: "pydict \<Rightarrow> pydict option" where
  "registry_readback registry =
     (case dget_or registry ''readback'' (dget registry ''evidence'') of
        VDict nested \<Rightarrow> Some nested
      | _ \<Rightarrow> if has_key registry ''version'' \<or> has_key registry ''owners'' \<or> has_key registry ''checksum''
             then Some registry else None)"

definition INDEX_RE :: regex where
  "INDEX_RE = Seq (Lit ''https://index.crates.io/'')
     (Plus (Cls [(CHR ''A'', CHR ''Z''), (CHR ''a'', CHR ''z''), (CHR ''0'', CHR ''9''), (CHR ''.'', CHR ''.''),
                 (CHR ''_'', CHR ''_''), (CHR ''/'', CHR ''/''), (CHR ''-'', CHR ''-'')]))"

definition owners_ok :: "pyval \<Rightarrow> bool" where
  "owners_ok owners =
     (case owners of VList xs \<Rightarrow> xs \<noteq> [] \<and> list_all nonblank xs \<and> distinct xs | _ \<Rightarrow> False)"

text \<open>\<open>len(set(value)) == 1\<close>: one character, repeated.\<close>

definition degenerate :: "pyval \<Rightarrow> bool" where
  "degenerate v = str_such (\<lambda>s. length (remdups s) = 1) v"

definition checksum_checks :: "string \<Rightarrow> pyval \<Rightarrow> pyval \<Rightarrow> pyval \<Rightarrow> check" where
  "checksum_checks repo checksum public_bytes lock_checksum =
     (let digest_values = [checksum, public_bytes, lock_checksum] in
      if \<not> list_all is_digest digest_values
      then add_finding repo ''registry.checksum'' ''registry readback and Cargo.lock need 64-hex checksums''
      else if list_ex degenerate digest_values
      then add_finding repo ''registry.checksum'' ''registry readback contains a degenerate fabricated checksum''
      else onlyif (\<not> py_eq checksum lock_checksum \<or> \<not> py_eq public_bytes checksum)
             (add_finding repo ''registry.checksum''
                ''registry checksum, public-byte digest, and Cargo.lock checksum differ''))"

definition check_registry_readback :: "world \<Rightarrow> string \<Rightarrow> pydict \<Rightarrow> pyval \<Rightarrow> pyval \<Rightarrow> check" where
  "check_registry_readback w repo registry expected_version lock_checksum =
     (if dget registry ''status'' \<noteq> VStr ''released''
      then add_finding repo ''registry.status''
             ''registry adoption is blocked until top-level CoreKit registry status is released''
      else case registry_readback registry of
        None \<Rightarrow> add_finding repo ''registry.evidence'' ''released registry adoption needs an independent readback record''
      | Some readback \<Rightarrow> checks
          [onlyif (dget readback ''package'' \<noteq> VStr COREKIT_PACKAGE \<or> \<not> py_eq (dget readback ''version'') expected_version)
             (add_finding repo ''registry.identity'' ''registry readback package/version does not match the exact CoreKit pin''),
           onlyif (\<not> owners_ok (dget readback ''owners''))
             (add_finding repo ''registry.owners'' ''registry readback needs a non-empty independent owners list''),
           onlyif (\<not> str_such (fullmatch INDEX_RE) (dget readback ''index''))
             (add_finding repo ''registry.index'' ''registry readback needs a stable crates.io index URL''),
           onlyif (dget_or readback ''source'' (dget readback ''evidence_source'') \<noteq>
                   VStr (msg [''https://crates.io/api/v1/crates/'', COREKIT_PACKAGE, ''/'', py_str (float_text w) expected_version]))
             (add_finding repo ''registry.source'' ''registry readback source must be the exact stable crates.io package endpoint''),
           checksum_checks repo (dget readback ''checksum'')
             (dget_or readback ''public_bytes'' (dget readback ''public_bytes_sha256'')) lock_checksum])"

section \<open>Manifests and pins\<close>

text \<open>The workspace the pin is declared in; \<open>None\<close> where a finding ends the check.\<close>

definition rust_cargo_root :: "world \<Rightarrow> string \<Rightarrow> path \<Rightarrow> pyval \<Rightarrow> path option out" where
  "rust_cargo_root w repo checkout value =
     (if value = VNone then done_with ok (Some checkout)
      else case safe_non_symlink_child w checkout value of
        Inl e \<Rightarrow>
          if is_os_error e \<or> is_value_error e
          then done_with (add_finding repo ''rust.cargo_root'' (msg [''invalid cargo_root: '', exc_text e])) None
          else Inl e
      | Inr p \<Rightarrow>
          if \<not> is_file w (p @ [''Cargo.toml''])
          then done_with (add_finding repo ''rust.cargo_root''
                 (msg [''cargo_root has no Cargo.toml: '', py_repr (float_text w) value])) None
          else done_with ok (Some p))"

text \<open>\<open>spec\<close> of a dependency that inherits from the workspace: \<open>spec.get("workspace") is True\<close>.\<close>

definition inherits :: "pyval \<Rightarrow> bool" where
  "inherits spec = (get_if_dict spec ''workspace'' = VBool True)"

definition workspace_spec :: "world \<Rightarrow> path \<Rightarrow> string \<Rightarrow> pyval \<Rightarrow> pyval res" where
  "workspace_spec w cargo_root dependency spec =
     (let manifest = cargo_root @ [''Cargo.toml''] in
      if \<not> inherits spec \<or> \<not> is_file w manifest then Inr spec
      else case bind_res (read_text w manifest) (toml_loads w) of
        Inl e \<Rightarrow> if is_os_error e \<or> is_toml_error e then Inr spec else Inl e
      | Inr document \<Rightarrow>
          (case dget_or document ''workspace'' (VDict []) of
             VDict workspace \<Rightarrow>
               (case dget_or workspace ''dependencies'' (VDict []) of
                  VDict dependencies \<Rightarrow> Inr (dget_or dependencies dependency spec)
                | _ \<Rightarrow> Inr spec)
           | _ \<Rightarrow> Inr spec))"

type_synonym pin = "path \<times> pyval"

definition manifest_pins :: "world \<Rightarrow> path \<Rightarrow> path \<Rightarrow> pin list res" where
  "manifest_pins w cargo_root p =
     bind_res (cargo_specs w p) (\<lambda>specs.
     bind_res (map_res (\<lambda>(dependency, spec). bind_res (workspace_spec w cargo_root dependency spec) (\<lambda>s. Inr (dependency, s))) specs)
       (\<lambda>resolved. Inr (map (\<lambda>(_, spec). (p, spec)) (filter (\<lambda>(dependency, _). dependency = COREKIT_PACKAGE) resolved))))"

definition manifest_version_check :: "world \<Rightarrow> string \<Rightarrow> string \<Rightarrow> pyval \<Rightarrow> pydict \<Rightarrow> check" where
  "manifest_version_check w repo relative expected_version document =
     (case dget document ''package'' of
        VDict package \<Rightarrow>
          onlyif (dget package ''name'' = VStr COREKIT_PACKAGE \<and> expected_version \<noteq> VNone \<and>
                  \<not> py_eq (dget package ''version'') expected_version)
            (add_finding repo ''rust.version'' (msg [relative, '': package version is '',
               py_repr (float_text w) (dget package ''version''), '', expected '', py_repr (float_text w) expected_version]))
      | _ \<Rightarrow> ok)"

definition rust_manifest :: "world \<Rightarrow> string \<Rightarrow> path \<Rightarrow> path \<Rightarrow> pyval \<Rightarrow> pyval \<Rightarrow> pin list out" where
  "rust_manifest w repo checkout cargo_root expected_version relative =
     (let invalid = done_with (add_finding repo ''rust.manifest.path''
            (msg [''invalid Cargo.toml path: '', py_repr (float_text w) relative])) [] in
      case relative of
        VStr r \<Rightarrow>
          if path_name r \<noteq> ''Cargo.toml'' then invalid
          else (case safe_non_symlink_child w checkout relative of
            Inl e \<Rightarrow>
              if is_value_error e
              then done_with (add_finding repo ''rust.manifest.path''
                     (msg [''unsafe or forbidden Cargo.toml path '', r, '': '', exc_text e])) []
              else Inl e
          | Inr p \<Rightarrow> (case bind_res (read_text w p) (toml_loads w) of
              Inl e \<Rightarrow>
                if is_os_error e \<or> is_decode_error e \<or> is_toml_error e
                then done_with (add_finding repo ''rust.manifest.read'' (msg [''cannot read '', r, '': '', exc_text e])) []
                else Inl e
            | Inr document \<Rightarrow>
                emit (manifest_version_check w repo r expected_version document)
                  (bind_res (manifest_pins w cargo_root p) (\<lambda>pins. done_with ok pins))))
      | _ \<Rightarrow> invalid)"

fun rust_manifests :: "world \<Rightarrow> string \<Rightarrow> path \<Rightarrow> path \<Rightarrow> pyval \<Rightarrow> pyval list \<Rightarrow> pin list out" where
  "rust_manifests w repo checkout cargo_root expected_version [] = done_with ok []"
| "rust_manifests w repo checkout cargo_root expected_version (relative # paths) =
     andthen (rust_manifest w repo checkout cargo_root expected_version relative) (\<lambda>pins.
       andthen (rust_manifests w repo checkout cargo_root expected_version paths) (\<lambda>others. done_with ok (pins @ others)))"

definition pin_version :: "pyval \<Rightarrow> string option" where
  "pin_version spec = exact_cargo_version (cargo_version spec)"

definition git_pin_checks :: "string \<Rightarrow> string \<Rightarrow> pyval \<Rightarrow> pyval \<Rightarrow> check" where
  "git_pin_checks repo relative revision spec =
     checks
       [onlyif (get_if_dict spec ''git'' \<noteq> VStr COREKIT_URL \<or> \<not> is_dict spec \<or> \<not> py_eq (get_if_dict spec ''rev'') revision)
          (add_finding repo ''rust.pin.git'' (msg [relative, '': Git URL/revision does not match recorded adoption''])),
        onlyif (case spec of VDict d \<Rightarrow> has_key d ''path'' | _ \<Rightarrow> False)
          (add_finding repo ''rust.pin.path'' (msg [relative, '': sibling CoreKit path dependency is forbidden'']))]"

definition registry_pin_checks :: "world \<Rightarrow> string \<Rightarrow> string \<Rightarrow> pyval \<Rightarrow> pyval \<Rightarrow> check" where
  "registry_pin_checks w repo relative registry_version spec =
     checks
       [onlyif (case spec of
                  VDict d \<Rightarrow> has_key d ''git'' \<or> has_key d ''path'' \<or> dget d ''registry'' \<notin> {VNone, VStr ''crates-io''}
                | _ \<Rightarrow> False)
          (add_finding repo ''rust.pin.registry'' (msg [relative, '': registry adoption must use crates.io without git/path fields''])),
        (case pin_version spec of
           None \<Rightarrow> ok
         | Some v \<Rightarrow> onlyif (VStr v \<noteq> registry_version)
             (add_finding repo ''rust.pin.registry_version'' (msg [relative, '': registry version '', repr_str v, '' != ='',
                py_str (float_text w) registry_version])))]"

definition rust_pin_check :: "world \<Rightarrow> string \<Rightarrow> path \<Rightarrow> pydict \<Rightarrow> pyval \<Rightarrow> pin \<Rightarrow> check" where
  "rust_pin_check w repo checkout rust recorded pin =
     bind_res (relative_to (fst pin) checkout) (\<lambda>rel.
       let relative = as_posix rel; spec = snd pin; status = dget rust ''status'' in
       if \<not> is_dict spec \<and> \<not> is_str spec
       then add_finding repo ''rust.pin.shape'' (msg [relative, '': dependency must be a string or table with an exact version''])
       else checks
         [(case pin_version spec of
             None \<Rightarrow> add_finding repo ''rust.pin.exact''
                       (msg [relative, '': Rust dependency must use an exact =MAJOR.MINOR.PATCH version''])
           | Some v \<Rightarrow> onlyif (VStr v \<noteq> recorded)
               (add_finding repo ''rust.pin.version'' (msg [relative, '': dependency version '', repr_str v, '' != recorded '',
                  py_repr (float_text w) recorded]))),
          if status = VStr ''git'' then git_pin_checks repo relative (dget rust ''revision'') spec
          else if status = VStr ''registry'' then registry_pin_checks w repo relative (dget rust ''registry_version'') spec
          else ok])"

section \<open>The lock file\<close>

text \<open>\<open>[package for package in lock.get("package", []) if ...]\<close>: iterating a value that is no
  container raises \<open>TypeError\<close>; the characters of a string and the keys of a table are no tables.\<close>

definition lock_packages :: "pydict \<Rightarrow> pydict list res" where
  "lock_packages lock =
     (case dget_or lock ''package'' (VList []) of
        VList packages \<Rightarrow> Inr (filter (\<lambda>package. dget package ''name'' = VStr COREKIT_PACKAGE) (List.map_filter as_dict packages))
      | VDict _ \<Rightarrow> Inr []
      | VStr _ \<Rightarrow> Inr []
      | _ \<Rightarrow> Inl TypeError)"

definition expected_source :: "world \<Rightarrow> pydict \<Rightarrow> string" where
  "expected_source w rust =
     (let revision = py_str (float_text w) (dget rust ''revision'') in
      if dget rust ''status'' = VStr ''git'' then msg [''git+'', COREKIT_URL, ''?rev='', revision, ''#'', revision]
      else CRATES_IO_SOURCE)"

definition matching_packages :: "string \<Rightarrow> pydict list \<Rightarrow> pydict list" where
  "matching_packages source packages = filter (\<lambda>item. dget item ''source'' = VStr source) packages"

definition lock_source_checks :: "world \<Rightarrow> string \<Rightarrow> pydict \<Rightarrow> pydict list \<Rightarrow> check" where
  "lock_source_checks w repo rust packages =
     (let source = expected_source w rust; matching = matching_packages source packages;
          package = (case matching of m # _ \<Rightarrow> m | [] \<Rightarrow> hd packages) in
      if dget rust ''status'' = VStr ''git''
      then checks
        [onlyif (dget package ''source'' \<noteq> VStr source)
           (add_finding repo ''rust.lock.source'' (msg [''Cargo.lock source '', py_repr (float_text w) (dget package ''source''),
              '' != '', repr_str source])),
         onlyif (has_key package ''checksum'')
           (add_finding repo ''rust.lock.checksum'' ''Git-sourced Cargo.lock package must not claim a registry checksum'')]
      else checks
        [onlyif (dget package ''source'' \<noteq> VStr source)
           (add_finding repo ''rust.lock.registry_source'' ''registry adoption must resolve from the crates.io registry source''),
         onlyif (\<not> is_digest (dget package ''checksum''))
           (add_finding repo ''rust.lock.checksum'' ''registry adoption requires a 64-hex Cargo.lock checksum'')])"

definition declared_check :: "world \<Rightarrow> string \<Rightarrow> pyval \<Rightarrow> pin \<Rightarrow> check" where
  "declared_check w repo resolved pin =
     (case pin_version (snd pin) of
        None \<Rightarrow> ok
      | Some v \<Rightarrow> onlyif (VStr v \<noteq> resolved)
          (add_finding repo ''rust.lock.version'' (msg [''Cargo.lock version '', py_repr (float_text w) resolved,
             '' does not match manifest pin '', repr_str v])))"

definition lock_match_checks :: "world \<Rightarrow> string \<Rightarrow> pydict \<Rightarrow> pydict \<Rightarrow> pyval \<Rightarrow> pin list \<Rightarrow> pydict list \<Rightarrow> check" where
  "lock_match_checks w repo rust registry recorded pins packages =
     (case matching_packages (expected_source w rust) packages of
        [item] \<Rightarrow>
          (let resolved = dget item ''version'' in checks
            [onlyif (\<not> py_eq resolved recorded)
               (add_finding repo ''rust.lock.version'' (msg [''Cargo.lock resolves '', COREKIT_PACKAGE, '' to '',
                  py_repr (float_text w) resolved, '', recorded pin is '', py_repr (float_text w) recorded])),
             checks (map (declared_check w repo resolved) pins),
             onlyif (dget rust ''status'' = VStr ''registry'')
               (check_registry_readback w repo registry resolved (dget item ''checksum''))])
      | matching \<Rightarrow> add_finding repo ''rust.lock.unique'' (msg [''Cargo.lock must contain exactly one matching '', COREKIT_PACKAGE,
          '' package, found '', str_nat (length matching)]))"

text \<open>The lock file, or the finding that ends the check early; \<open>relative_to\<close> raises inside the
  same \<open>try\<close> as the path guard.\<close>

definition load_lock :: "world \<Rightarrow> string \<Rightarrow> path \<Rightarrow> path \<Rightarrow> pydict option out" where
  "load_lock w repo checkout cargo_root =
     (case bind_res (relative_to (cargo_root @ [''Cargo.lock'']) checkout) (\<lambda>rel.
           safe_non_symlink_child w checkout (VStr (as_posix rel))) of
        Inl e \<Rightarrow>
          if is_value_error e
          then done_with (add_finding repo ''rust.lock.path'' ''Cargo.lock path is unsafe or forbidden'') None
          else Inl e
      | Inr p \<Rightarrow> bind_res (regular_non_symlink w p) (\<lambda>regular.
          if \<not> regular
          then done_with (add_finding repo ''rust.lock.missing'' ''Cargo.lock is required to prove the resolved Rust pin'') None
          else (case bind_res (read_text w p) (toml_loads w) of
            Inl e \<Rightarrow>
              if is_os_error e \<or> is_toml_error e
              then done_with (add_finding repo ''rust.lock.invalid'' (msg [''Cargo.lock is invalid: '', exc_text e])) None
              else Inl e
          | Inr lock \<Rightarrow> done_with ok (Some lock))))"

definition registry_claim_checks :: "string \<Rightarrow> pydict \<Rightarrow> check" where
  "registry_claim_checks repo rust =
     (let published = (get_if_dict (dget rust ''registry'') ''status'' = VStr ''published''); status = dget rust ''status'' in
      checks
       [onlyif (status = VStr ''registry'' \<and> \<not> published)
          (add_finding repo ''registry.status'' ''registry pin is claimed without published/read-back registry evidence''),
        onlyif (status = VStr ''git'' \<and> published)
          (add_finding repo ''registry.mismatch'' ''Git pin cannot be reported as a registry release'')])"

definition rust_lock_checks :: "world \<Rightarrow> string \<Rightarrow> path \<Rightarrow> path \<Rightarrow> pydict \<Rightarrow> pydict \<Rightarrow> pyval \<Rightarrow> pin list \<Rightarrow> path \<Rightarrow> check" where
  "rust_lock_checks w repo checkout corekit rust registry recorded pins cargo_root =
     bind_res (load_lock w repo checkout cargo_root) (\<lambda>r.
       case snd r of
         None \<Rightarrow> checks [Inr (fst r), check_release_ancestry w repo rust corekit]
       | Some lock \<Rightarrow> bind_res (lock_packages lock) (\<lambda>packages.
           if packages = []
           then checks [add_finding repo ''rust.lock.unique'' (msg [''Cargo.lock must contain '', COREKIT_PACKAGE]),
                        check_release_ancestry w repo rust corekit]
           else checks
             [Inr (fst r), lock_source_checks w repo rust packages,
              lock_match_checks w repo rust registry recorded pins packages,
              check_release_ancestry w repo rust corekit, registry_claim_checks repo rust]))"

section \<open>The whole check\<close>

definition recorded_version :: "pydict \<Rightarrow> pyval" where
  "recorded_version rust =
     (if dget rust ''status'' = VStr ''git'' then dget rust ''version'' else dget rust ''registry_version'')"

definition check_adopted_rust :: "world \<Rightarrow> string \<Rightarrow> path \<Rightarrow> path \<Rightarrow> pydict \<Rightarrow> pydict \<Rightarrow> check" where
  "check_adopted_rust w repo checkout corekit registry rust =
     (if dget rust ''package'' \<noteq> VStr COREKIT_PACKAGE
      then add_finding repo ''rust.package'' (msg [''Rust adoption package must be exactly '', repr_str COREKIT_PACKAGE])
      else case dget rust ''manifest_paths'' of
        VList manifest_paths \<Rightarrow>
          if manifest_paths = []
          then add_finding repo ''rust.manifests'' ''Rust adoption needs at least one Cargo.toml path''
          else bind_res (rust_cargo_root w repo checkout (dget rust ''cargo_root'')) (\<lambda>root_out.
            case snd root_out of
              None \<Rightarrow> Inr (fst root_out)
            | Some cargo_root \<Rightarrow>
                bind_res (rust_manifests w repo checkout cargo_root (dget rust ''version'') manifest_paths) (\<lambda>r.
                  let pins = snd r; recorded = recorded_version rust in
                  checks
                    [Inr (fst r),
                     onlyif (pins = [])
                       (add_finding repo ''rust.pin.missing'' (msg [''no '', COREKIT_PACKAGE, '' dependency found in declared manifests''])),
                     onlyif (\<not> str_such (fullmatch SEMVER_RE) recorded)
                       (add_finding repo ''rust.version.shape'' ''recorded Rust dependency version is not valid SemVer''),
                     checks (map (rust_pin_check w repo checkout rust recorded) pins),
                     rust_lock_checks w repo checkout corekit rust registry recorded pins cargo_root]))
      | _ \<Rightarrow> add_finding repo ''rust.manifests'' ''Rust adoption needs at least one Cargo.toml path'')"

definition check_rust :: "world \<Rightarrow> pydict \<Rightarrow> path \<Rightarrow> path \<Rightarrow> pydict \<Rightarrow> check" where
  "check_rust w record checkout corekit registry =
     checks
       [onlyif (get_if_dict (dget record ''rust'') ''status'' = VStr ''not_adopted'')
          (check_not_adopted_rust w record checkout),
        bind_res (expected_rust record) (\<lambda>adopted.
          case adopted of
            None \<Rightarrow> ok
          | Some rust \<Rightarrow> check_adopted_rust w (repo_of w record) checkout corekit registry rust)]"

section \<open>What the checks establish\<close>

text \<open>The CoreKit release of an adoption: an existing stable tag of CoreKit that resolves to the
  recorded commit and, where a revision is recorded, is an ancestor of it.\<close>

definition released_corekit :: "world \<Rightarrow> path \<Rightarrow> pydict \<Rightarrow> string \<Rightarrow> string \<Rightarrow> bool" where
  "released_corekit w corekit rust tag commit \<longleftrightarrow>
     dget rust ''release_source'' = VStr ''corekit'' \<and> fullmatch RELEASE_TAG tag \<and> is_revision (VStr commit) \<and>
     git_code w [''show-ref'', ''--verify'', msg [''refs/tags/'', tag]] corekit = 0 \<and>
     git_code w [''rev-parse'', msg [''refs/tags/'', tag, ''^{commit}'']] corekit = 0 \<and>
     git_out w [''rev-parse'', msg [''refs/tags/'', tag, ''^{commit}'']] corekit = commit \<and>
     (candidate_of rust = VNone \<and> dget rust ''status'' \<noteq> VStr ''git'' \<or>
      (\<exists>candidate. candidate_of rust = VStr candidate \<and> is_revision (VStr candidate) \<and>
         git_code w [''cat-file'', ''-e'', msg [candidate, ''^{commit}'']] corekit = 0 \<and>
         git_code w [''merge-base'', ''--is-ancestor'', commit, candidate] corekit = 0))"

lemma candidate_check_clean:
  "candidate_check w repo corekit rust tag commit = Inr [] \<longleftrightarrow>
     candidate_of rust = VNone \<and> dget rust ''status'' \<noteq> VStr ''git'' \<or>
     (\<exists>candidate. candidate_of rust = VStr candidate \<and> is_revision (VStr candidate) \<and>
        git_code w [''cat-file'', ''-e'', msg [candidate, ''^{commit}'']] corekit = 0 \<and>
        git_code w [''merge-base'', ''--is-ancestor'', commit, candidate] corekit = 0)"
  by (cases "candidate_of rust") (simp_all add: candidate_check_def clean)

lemma release_tag_check_clean:
  "release_tag_check w repo corekit tag commit = Inr [] \<longleftrightarrow>
     git_code w [''show-ref'', ''--verify'', msg [''refs/tags/'', tag]] corekit = 0 \<and>
     git_code w [''rev-parse'', msg [''refs/tags/'', tag, ''^{commit}'']] corekit = 0 \<and>
     git_out w [''rev-parse'', msg [''refs/tags/'', tag, ''^{commit}'']] corekit = commit"
  by (simp add: release_tag_check_def Let_def clean)

lemma check_release_ancestry_clean:
  "check_release_ancestry w repo rust corekit = Inr [] \<longleftrightarrow>
     (\<exists>release tag commit. dget rust ''release'' = VDict release \<and> dget release ''tag'' = VStr tag \<and>
        dget release ''commit'' = VStr commit \<and> released_corekit w corekit rust tag commit)"
proof (cases "dget rust ''release''")
  case (VDict release)
  show ?thesis
  proof (cases "\<exists>tag commit. dget release ''tag'' = VStr tag \<and> dget release ''commit'' = VStr commit")
    case True
    then obtain tag commit where "dget release ''tag'' = VStr tag" "dget release ''commit'' = VStr commit" by blast
    with VDict show ?thesis
      by (auto simp: check_release_ancestry_def clean released_corekit_def is_release_tag_def
          release_tag_check_clean candidate_check_clean)
  next
    case False
    with VDict show ?thesis
      by (cases "dget release ''tag''"; cases "dget release ''commit''")
        (simp_all add: check_release_ancestry_def clean)
  qed
qed (simp_all add: check_release_ancestry_def clean)

text \<open>Facts of a registry read-back: three equal, plausible digests of the one published package.\<close>

definition readback_ok :: "world \<Rightarrow> pydict \<Rightarrow> pyval \<Rightarrow> string \<Rightarrow> bool" where
  "readback_ok w readback version digest \<longleftrightarrow>
     dget readback ''package'' = VStr COREKIT_PACKAGE \<and> py_eq (dget readback ''version'') version \<and>
     owners_ok (dget readback ''owners'') \<and>
     (\<exists>index. dget readback ''index'' = VStr index \<and> startswith index ''https://index.crates.io/'') \<and>
     dget_or readback ''source'' (dget readback ''evidence_source'') =
       VStr (msg [''https://crates.io/api/v1/crates/'', COREKIT_PACKAGE, ''/'', py_str (float_text w) version]) \<and>
     dget readback ''checksum'' = VStr digest \<and>
     dget_or readback ''public_bytes'' (dget readback ''public_bytes_sha256'') = VStr digest \<and>
     length digest = 64 \<and> is_hex digest \<and> (\<exists>c \<in> set digest. \<exists>d \<in> set digest. c \<noteq> d)"

lemma not_degenerate: "\<not> degenerate (VStr s) \<Longrightarrow> s \<noteq> [] \<Longrightarrow> \<exists>c \<in> set s. \<exists>d \<in> set s. c \<noteq> d"
proof (rule ccontr)
  assume n: "\<not> degenerate (VStr s)" "s \<noteq> []" and all: "\<not> (\<exists>c \<in> set s. \<exists>d \<in> set s. c \<noteq> d)"
  then have "set s = {hd s}" by (metis hd_in_set is_singletonI' is_singleton_the_elem singleton_iff empty_iff)
  then have "card (set s) = 1" by simp
  then have "length (remdups s) = 1" by (simp add: length_remdups_card_conv)
  with n show False by (simp add: degenerate_def)
qed

lemma checksum_checks_clean:
  assumes "checksum_checks repo checksum public_bytes lock_checksum = Inr []"
  shows "\<exists>d. checksum = VStr d \<and> public_bytes = VStr d \<and> lock_checksum = VStr d \<and> length d = 64 \<and> is_hex d \<and>
           (\<exists>a \<in> set d. \<exists>b \<in> set d. a \<noteq> b)"
proof -
  from assms obtain d where d: "checksum = VStr d" "length d = 64" "is_hex d"
    and eq: "py_eq checksum lock_checksum" "py_eq public_bytes checksum" and deg: "\<not> degenerate checksum"
    by (auto simp: checksum_checks_def Let_def clean is_digest_iff split: if_splits)
  have "is_digest lock_checksum" using assms by (auto simp: checksum_checks_def Let_def clean split: if_splits)
  then obtain l where l: "lock_checksum = VStr l" by (auto simp: is_digest_iff)
  with eq d have "l = d" "public_bytes = VStr d" by simp_all
  moreover from d have "d \<noteq> []" by auto
  ultimately show ?thesis using d l deg not_degenerate by blast
qed

lemma accepts_Lit_append: "accepts (Seq (Lit t) q) s \<Longrightarrow> startswith s t"
  by (auto simp: accepts_Seq)

lemma index_prefix: "fullmatch INDEX_RE s \<Longrightarrow> startswith s ''https://index.crates.io/''"
  unfolding fullmatch_iff INDEX_RE_def by (rule accepts_Lit_append)

text \<open>A registry read-back is accepted only when the registry is released and its record is
  independent evidence of the pinned package: the record names the CoreKit package and the resolved
  version, lists distinct owners, an index below \<open>https://index.crates.io/\<close> and the exact crates.io
  endpoint of that version, and the recorded checksum, the digest of the public bytes and the
  checksum of the consumer's lock file are one 64-digit digest of more than one distinct digit.\<close>

theorem registry_readback_is_evidence:
  assumes "check_registry_readback w repo registry version lock_checksum = Inr []"
  shows "dget registry ''status'' = VStr ''released'' \<and>
         (\<exists>readback digest. registry_readback registry = Some readback \<and> readback_ok w readback version digest \<and>
            lock_checksum = VStr digest)"
proof -
  from assms have st: "dget registry ''status'' = VStr ''released''"
    by (auto simp: check_registry_readback_def clean split: if_splits)
  with assms obtain readback where r: "registry_readback registry = Some readback"
    by (cases "registry_readback registry") (simp_all add: check_registry_readback_def clean)
  from assms st r have c: "dget readback ''package'' = VStr COREKIT_PACKAGE" "py_eq (dget readback ''version'') version"
    "owners_ok (dget readback ''owners'')" "str_such (fullmatch INDEX_RE) (dget readback ''index'')"
    "dget_or readback ''source'' (dget readback ''evidence_source'') =
       VStr (msg [''https://crates.io/api/v1/crates/'', COREKIT_PACKAGE, ''/'', py_str (float_text w) version])"
    "checksum_checks repo (dget readback ''checksum'')
       (dget_or readback ''public_bytes'' (dget readback ''public_bytes_sha256'')) lock_checksum = Inr []"
    by (simp_all add: check_registry_readback_def clean)
  from checksum_checks_clean [OF c(6)] obtain d where d: "dget readback ''checksum'' = VStr d"
    "dget_or readback ''public_bytes'' (dget readback ''public_bytes_sha256'') = VStr d" "lock_checksum = VStr d"
    "length d = 64" "is_hex d" "\<exists>a \<in> set d. \<exists>b \<in> set d. a \<noteq> b" by blast
  from c(4) index_prefix have "\<exists>index. dget readback ''index'' = VStr index \<and> startswith index ''https://index.crates.io/''"
    by (auto simp: str_such_iff)
  with st r c d have "readback_ok w readback version d" unfolding readback_ok_def by blast
  with st r d show ?thesis by blast
qed

text \<open>A pin of the version \<open>v\<close>, of the kind the adoption declares.\<close>

definition pin_ok :: "path \<Rightarrow> pydict \<Rightarrow> string \<Rightarrow> pin \<Rightarrow> bool" where
  "pin_ok checkout rust v pin \<longleftrightarrow>
     (\<exists>rel. fst pin = checkout @ rel) \<and> pin_version (snd pin) = Some v \<and>
     (dget rust ''status'' = VStr ''git'' \<longrightarrow>
        (\<exists>d. snd pin = VDict d \<and> dget d ''git'' = VStr COREKIT_URL \<and> py_eq (dget d ''rev'') (dget rust ''revision'') \<and>
           \<not> has_key d ''path'')) \<and>
     (dget rust ''status'' = VStr ''registry'' \<longrightarrow>
        dget rust ''registry_version'' = VStr v \<and>
        (\<forall>d. snd pin = VDict d \<longrightarrow> \<not> has_key d ''git'' \<and> \<not> has_key d ''path'' \<and> dget d ''registry'' \<in> {VNone, VStr ''crates-io''}))"

lemma rust_pin_check_clean:
  assumes "rust_pin_check w repo checkout rust recorded pin = Inr []"
  shows "\<exists>v. recorded = VStr v \<and> pin_ok checkout rust v pin"
proof -
  from assms obtain rel where rel: "relative_to (fst pin) checkout = Inr rel"
    by (cases "relative_to (fst pin) checkout") (simp_all add: rust_pin_check_def)
  then have p: "fst pin = checkout @ rel" by (simp add: relative_to_Inr)
  have "(\<not> is_dict (snd pin) \<and> \<not> is_str (snd pin)) = False"
    using assms rel by (auto simp: rust_pin_check_def Let_def clean split: if_splits)
  note c = assms [unfolded rust_pin_check_def rel Let_def this, simplified]
  from c obtain v where v: "pin_version (snd pin) = Some v"
    by (cases "pin_version (snd pin)") (simp_all add: clean)
  with c have rec: "recorded = VStr v" by (simp add: clean)
  have git: "\<exists>d. snd pin = VDict d \<and> dget d ''git'' = VStr COREKIT_URL \<and> py_eq (dget d ''rev'') (dget rust ''revision'') \<and> \<not> has_key d ''path''"
    if "dget rust ''status'' = VStr ''git''"
    using c that by (cases "snd pin") (auto simp: clean git_pin_checks_def get_if_dict_def)
  have reg: "dget rust ''registry_version'' = VStr v \<and>
      (\<forall>d. snd pin = VDict d \<longrightarrow> \<not> has_key d ''git'' \<and> \<not> has_key d ''path'' \<and> dget d ''registry'' \<in> {VNone, VStr ''crates-io''})"
    if "dget rust ''status'' = VStr ''registry''"
    using c that v by (auto simp: clean registry_pin_checks_def)
  from p v git reg have "pin_ok checkout rust v pin" unfolding pin_ok_def by blast
  with rec show ?thesis by blast
qed

interpretation rust_pins: checker "rust_pin_check w repo checkout rust recorded"
    "\<lambda>pin. \<exists>v. recorded = VStr v \<and> pin_ok checkout rust v pin" for w repo checkout rust recorded
  by unfold_locales (rule rust_pin_check_clean)

section \<open>The adoption as a whole\<close>

text \<open>The package of the lock file that the pin resolves to: the only one with the expected source.\<close>

definition resolved_package :: "world \<Rightarrow> path \<Rightarrow> path \<Rightarrow> pydict \<Rightarrow> string \<Rightarrow> pydict \<Rightarrow> bool" where
  "resolved_package w checkout cargo_root rust v item \<longleftrightarrow>
     (\<exists>rel p lock packages. cargo_root @ [''Cargo.lock''] = checkout @ rel \<and>
        safe_non_symlink_child w checkout (VStr (as_posix rel)) = Inr p \<and> lstat_of w p = Inr Regular \<and>
        bind_res (read_text w p) (toml_loads w) = Inr lock \<and> lock_packages lock = Inr packages \<and>
        matching_packages (expected_source w rust) packages = [item] \<and> dget item ''version'' = VStr v \<and>
        (dget rust ''status'' = VStr ''git'' \<longrightarrow> \<not> has_key item ''checksum'') \<and>
        (dget rust ''status'' = VStr ''registry'' \<longrightarrow> is_digest (dget item ''checksum'')))"

lemma load_lock_clean:
  assumes "load_lock w repo checkout cargo_root = Inr ([], r)"
  shows "\<exists>rel p lock. cargo_root @ [''Cargo.lock''] = checkout @ rel \<and>
           safe_non_symlink_child w checkout (VStr (as_posix rel)) = Inr p \<and> lstat_of w p = Inr Regular \<and>
           bind_res (read_text w p) (toml_loads w) = Inr lock \<and> r = Some lock"
proof -
  let ?p = "bind_res (relative_to (cargo_root @ [''Cargo.lock'']) checkout) (\<lambda>rel. safe_non_symlink_child w checkout (VStr (as_posix rel)))"
  from assms obtain p where p: "?p = Inr p"
    by (cases ?p) (auto simp: load_lock_def clean split: if_splits)
  then obtain rel where rel: "cargo_root @ [''Cargo.lock''] = checkout @ rel" "safe_non_symlink_child w checkout (VStr (as_posix rel)) = Inr p"
    by (auto simp: bind_res_eq_Inr relative_to_Inr)
  note c = assms [unfolded load_lock_def p, simplified]
  from c obtain regular where reg: "regular_non_symlink w p = Inr regular" by (auto simp: bind_res_eq_Inr)
  with c have isreg: "regular" by (auto simp: clean split: if_splits)
  with c reg obtain lock where "bind_res (read_text w p) (toml_loads w) = Inr lock" "r = Some lock"
    by (cases "bind_res (read_text w p) (toml_loads w)") (auto simp: clean split: if_splits)
  with rel isreg regular_non_symlink_Inr [OF reg] show ?thesis by blast
qed

lemma lock_match_clean:
  assumes "lock_match_checks w repo rust registry recorded pins packages = Inr []"
  shows "\<exists>item. matching_packages (expected_source w rust) packages = [item] \<and> py_eq (dget item ''version'') recorded \<and>
           (dget rust ''status'' = VStr ''registry'' \<longrightarrow>
              check_registry_readback w repo registry (dget item ''version'') (dget item ''checksum'') = Inr [])"
proof (cases "matching_packages (expected_source w rust) packages")
  case Nil
  with assms show ?thesis by (simp add: lock_match_checks_def clean)
next
  case (Cons item others)
  show ?thesis
  proof (cases others)
    case Nil
    with Cons assms show ?thesis by (simp add: lock_match_checks_def Let_def clean)
  next
    case (Cons b c)
    with \<open>matching_packages _ _ = item # others\<close> assms show ?thesis by (simp add: lock_match_checks_def clean)
  qed
qed

lemma lock_source_clean:
  assumes "lock_source_checks w repo rust packages = Inr []"
    and "matching_packages (expected_source w rust) packages = [item]"
  shows "(dget rust ''status'' = VStr ''git'' \<longrightarrow> \<not> has_key item ''checksum'') \<and>
         (dget rust ''status'' = VStr ''registry'' \<longrightarrow> is_digest (dget item ''checksum''))"
  using assms by (auto simp: lock_source_checks_def Let_def clean split: if_splits)

lemma rust_lock_clean:
  assumes "rust_lock_checks w repo checkout corekit rust registry (VStr v) pins cargo_root = Inr []"
  shows "\<exists>item. resolved_package w checkout cargo_root rust v item \<and>
           check_release_ancestry w repo rust corekit = Inr [] \<and>
           (dget rust ''status'' = VStr ''registry'' \<longrightarrow>
              check_registry_readback w repo registry (dget item ''version'') (dget item ''checksum'') = Inr [])"
proof -
  from assms obtain fs r where l: "load_lock w repo checkout cargo_root = Inr (fs, r)"
    by (auto simp: rust_lock_checks_def bind_res_eq_Inr)
  note c = assms [unfolded rust_lock_checks_def l, simplified]
  have fs: "fs = []"
  proof (cases r)
    case None
    with c show ?thesis by (simp add: clean)
  next
    case (Some lock)
    with c l show ?thesis
      by (auto simp: load_lock_def done_with_def ok_def bind_res_eq_Inr add_finding_def split: sum.splits if_splits)
  qed
  from load_lock_clean [OF l [unfolded fs]] obtain rel p lock where f: "cargo_root @ [''Cargo.lock''] = checkout @ rel"
    "safe_non_symlink_child w checkout (VStr (as_posix rel)) = Inr p" "lstat_of w p = Inr Regular"
    "bind_res (read_text w p) (toml_loads w) = Inr lock" "r = Some lock" by blast
  from c f(5) obtain packages where packages: "lock_packages lock = Inr packages"
    by (auto simp: bind_res_eq_Inr)
  have ne: "(packages = []) = False" using c f(5) packages by (auto simp: clean split: if_splits)
  from c f(5) packages have parts: "lock_source_checks w repo rust packages = Inr []"
    "lock_match_checks w repo rust registry (VStr v) pins packages = Inr []"
    "check_release_ancestry w repo rust corekit = Inr []"
    by (simp_all add: ne clean)
  obtain item where item: "matching_packages (expected_source w rust) packages = [item]" "py_eq (dget item ''version'') (VStr v)"
    "dget rust ''status'' = VStr ''registry'' \<longrightarrow>
       check_registry_readback w repo registry (dget item ''version'') (dget item ''checksum'') = Inr []"
    using lock_match_clean [OF parts(2)] by blast
  have "resolved_package w checkout cargo_root rust v item"
    unfolding resolved_package_def using f packages item lock_source_clean [OF parts(1) item(1)] by (auto simp del: bind_res_simps)
  with item parts(3) show ?thesis by blast
qed

text \<open>C14: a consumer that adopts the Rust package and raises no Rust finding depends on exactly the
  released CoreKit it records. Its declared manifests pin the package, every pin requires the recorded
  semantic version exactly and is of the declared kind (the CoreKit repository at the recorded
  revision and no path, or crates.io and no Git or path source); its lock file is a regular file of the
  checkout with one package from the expected source, at that version; the recorded release is an
  existing CoreKit tag at its recorded commit and an ancestor of the recorded revision; and a registry
  adoption is backed by the registry read-back.\<close>

theorem rust_adoption_is_pinned_and_resolved:
  assumes "check_rust w record checkout corekit registry = Inr []" "expected_rust record = Inr (Some rust)"
  shows "\<exists>v pins cargo_root item release tag commit.
      recorded_version rust = VStr v \<and> fullmatch SEMVER_RE v \<and> pins \<noteq> [] \<and> (\<forall>pin \<in> set pins. pin_ok checkout rust v pin) \<and>
      (\<exists>manifests. dget rust ''manifest_paths'' = VList manifests \<and>
         rust_manifests w (repo_of w record) checkout cargo_root (dget rust ''version'') manifests = Inr ([], pins)) \<and>
      resolved_package w checkout cargo_root rust v item \<and>
      dget rust ''release'' = VDict release \<and> dget release ''tag'' = VStr tag \<and> dget release ''commit'' = VStr commit \<and>
      released_corekit w corekit rust tag commit \<and>
      (dget rust ''status'' = VStr ''registry'' \<longrightarrow>
         (\<exists>readback digest. registry_readback registry = Some readback \<and> readback_ok w readback (VStr v) digest \<and>
            dget item ''checksum'' = VStr digest))"
proof -
  let ?repo = "repo_of w record"
  from assms have a: "check_adopted_rust w ?repo checkout corekit registry rust = Inr []"
    by (simp add: check_rust_def clean)
  then have pk: "(dget rust ''package'' \<noteq> VStr COREKIT_PACKAGE) = False"
    by (auto simp: check_adopted_rust_def clean split: if_splits)
  with a obtain manifests where mp: "dget rust ''manifest_paths'' = VList manifests"
    by (cases "dget rust ''manifest_paths''") (simp_all add: check_adopted_rust_def clean)
  note c0 = a [unfolded check_adopted_rust_def pk mp, simplified]
  have mne: "(manifests = []) = False" using c0 by (auto simp: clean split: if_splits)
  note c1 = c0 [unfolded mne, simplified]
  from c1 obtain fs ro where ro: "rust_cargo_root w ?repo checkout (dget rust ''cargo_root'') = Inr (fs, ro)"
    by (auto simp: bind_res_eq_Inr)
  obtain cargo_root where root: "ro = Some cargo_root"
  proof (cases ro)
    case None
    with c1 ro have "fs = []" by simp
    with ro None show ?thesis
      by (auto simp: rust_cargo_root_def clean split: if_splits sum.splits)
  qed blast
  from c1 ro root obtain gs pins where pins: "rust_manifests w ?repo checkout cargo_root (dget rust ''version'') manifests = Inr (gs, pins)"
    and k: "checks [Inr gs, onlyif (pins = []) (add_finding ?repo ''rust.pin.missing'' (msg [''no '', COREKIT_PACKAGE, '' dependency found in declared manifests''])),
       onlyif (\<not> str_such (fullmatch SEMVER_RE) (recorded_version rust)) (add_finding ?repo ''rust.version.shape'' ''recorded Rust dependency version is not valid SemVer''),
       checks (map (rust_pin_check w ?repo checkout rust (recorded_version rust)) pins),
       rust_lock_checks w ?repo checkout corekit rust registry (recorded_version rust) pins cargo_root] = Inr []"
    by (auto simp: bind_res_eq_Inr Let_def)
  from k obtain v where v: "recorded_version rust = VStr v" "fullmatch SEMVER_RE v"
    by (auto simp: clean str_such_iff)
  from k v have gs: "gs = []" and ne: "pins \<noteq> []"
    and run: "rust_pins.run w ?repo checkout rust (VStr v) pins = Inr []"
    and lock: "rust_lock_checks w ?repo checkout corekit rust registry (VStr v) pins cargo_root = Inr []"
    by (simp_all add: clean rust_pins.run_def)
  have each: "\<forall>pin \<in> set pins. pin_ok checkout rust v pin"
    using rust_pins.run_sound [OF run] by blast
  obtain item where item: "resolved_package w checkout cargo_root rust v item" "check_release_ancestry w ?repo rust corekit = Inr []"
    "dget rust ''status'' = VStr ''registry'' \<longrightarrow>
       check_registry_readback w ?repo registry (dget item ''version'') (dget item ''checksum'') = Inr []"
    using rust_lock_clean [OF lock] by blast
  have iv: "dget item ''version'' = VStr v" using item(1) by (auto simp: resolved_package_def)
  have reg: "\<exists>readback digest. registry_readback registry = Some readback \<and> readback_ok w readback (VStr v) digest \<and>
      dget item ''checksum'' = VStr digest" if "dget rust ''status'' = VStr ''registry''"
    using registry_readback_is_evidence item(3) that iv by metis
  obtain release tag commit where "dget rust ''release'' = VDict release" "dget release ''tag'' = VStr tag"
    "dget release ''commit'' = VStr commit" "released_corekit w corekit rust tag commit"
    using item(2) unfolding check_release_ancestry_clean by blast
  with v ne each mp pins gs item(1) reg show ?thesis by blast
qed

section \<open>A concrete adoption\<close>

definition demo_cargo_toml :: pydict where
  "demo_cargo_toml = [(''dependencies'', VDict [(''symaira-core-version'', VDict
     [(''git'', VStr COREKIT_URL), (''rev'', VStr demo_commit), (''version'', VStr ''=1.0.0'')])])]"

definition demo_cargo_lock :: pydict where
  "demo_cargo_lock = [(''package'', VList [VDict [(''name'', VStr ''symaira-core-version''), (''version'', VStr ''1.0.0''),
     (''source'', VStr (''git+https://github.com/danieljustus/symaira-corekit?rev='' @ demo_commit @ ''#'' @ demo_commit))]])]"

definition demo_adoption :: pydict where
  "demo_adoption = [(''status'', VStr ''git''), (''package'', VStr ''symaira-core-version''), (''version'', VStr ''1.0.0''),
     (''revision'', VStr demo_commit), (''manifest_paths'', VList [VStr ''Cargo.toml'']), (''release_source'', VStr ''corekit''),
     (''release'', VDict [(''tag'', VStr ''v1.0.0''), (''commit'', VStr demo_commit)])]"

definition demo_rust_world :: world where
  "demo_rust_world = demo_world \<lparr>
     run_git := (\<lambda>args cwd. if hd args = ''rev-parse'' then (0, demo_commit, []) else (0, [], [])),
     lstat_of := (\<lambda>p. Inr Regular),
     read_bytes := (\<lambda>p. Inr (last p)),
     toml_loads := (\<lambda>t. Inr (if t = ''Cargo.toml'' then demo_cargo_toml else demo_cargo_lock))\<rparr>"

lemma rust_adoption_is_pinned_and_resolved_witness:
  "\<exists>v pins. recorded_version demo_adoption = VStr v \<and> pins \<noteq> [] \<and>
     (\<forall>pin \<in> set pins. pin_ok [''home'', ''c''] demo_adoption v pin)"
proof -
  have "check_rust demo_rust_world [(''repo'', VStr ''demo''), (''rust'', VDict demo_adoption)] [''home'', ''c''] [''home'', ''k''] [] = Inr []"
    by code_simp
  moreover have "expected_rust [(''repo'', VStr ''demo''), (''rust'', VDict demo_adoption)] = Inr (Some demo_adoption)"
    by code_simp
  ultimately show ?thesis using rust_adoption_is_pinned_and_resolved by blast
qed

definition demo_checksum :: string where
  "demo_checksum = CHR ''b'' # replicate 63 (CHR ''a'')"

definition demo_registry :: pydict where
  "demo_registry = [(''status'', VStr ''released''), (''readback'', VDict
     [(''package'', VStr ''symaira-core-version''), (''version'', VStr ''1.0.0''), (''owners'', VList [VStr ''owner'']),
      (''index'', VStr ''https://index.crates.io/sy''), (''source'', VStr ''https://crates.io/api/v1/crates/symaira-core-version/1.0.0''),
      (''checksum'', VStr demo_checksum), (''public_bytes'', VStr demo_checksum)])]"

lemma registry_readback_is_evidence_witness:
  "\<exists>readback digest. registry_readback demo_registry = Some readback \<and> readback_ok demo_world readback (VStr ''1.0.0'') digest"
proof -
  have "check_registry_readback demo_world ''demo'' demo_registry (VStr ''1.0.0'') (VStr demo_checksum) = Inr []" by code_simp
  from registry_readback_is_evidence [OF this] show ?thesis by blast
qed

end
