(* ===== verification/ConsumerVerify.thy ===== *)
theory ConsumerVerify
  imports ConsumerGo ConsumerRust
begin

text \<open>
  The driver of \<open>port/consumer/verify.py\<close>: the canonical checkout (\<open>canonical_checkout\<close>), the checks
  of the manifest's own CoreKit record, the loop over the consumer records and the report
  (\<open>verify_manifest\<close>), and the exit code (\<open>main\<close>). The command line is the record \<open>options\<close>; the
  report file that \<open>--report\<close> writes is left out.
\<close>

definition REGISTRY_STATUSES :: "string list" where
  "REGISTRY_STATUSES = [''not_released'', ''released'']"

section \<open>The canonical checkout\<close>

definition canonical_checkout :: "world \<Rightarrow> path \<Rightarrow> path res" where
  "canonical_checkout w repo_root =
     (case git_cmd w [''rev-parse'', ''--path-format=absolute'', ''--git-common-dir''] repo_root of (returncode, common, err) \<Rightarrow>
        if returncode \<noteq> 0
        then Inl (RuntimeError (if err = [] then ''cannot resolve Git common directory'' else err))
        else let common_path = path_parts common in
          Inr (if last_part common_path = ''.git'' then butlast common_path else common_path))"

section \<open>Consumer records\<close>

record stage =
  git_release_stage :: bool
  registry_release_stage :: bool

text \<open>\<open>repository.rsplit("/", 1)[1]\<close>\<close>

definition after_last_slash :: "string \<Rightarrow> string" where
  "after_last_slash s = rev (takeWhile (\<lambda>c. c \<noteq> CHR ''/'') (rev s))"

definition stage_checks :: "stage \<Rightarrow> string \<Rightarrow> pydict \<Rightarrow> check" where
  "stage_checks stg repo record =
     (let status = get_if_dict (dget record ''rust'') ''status'' in
      checks
       [onlyif (git_release_stage stg \<and> status \<noteq> VStr ''git'')
          (add_finding repo ''stage.pin'' ''Git-pinned release stage requires an exact CoreKit Git revision in every consumer''),
        onlyif (registry_release_stage stg \<and> status \<noteq> VStr ''registry'')
          (add_finding repo ''stage.pin'' ''Final release stage requires an exact crates.io version in every consumer'')])"

text \<open>The checkout a repository name selects: no symbolic link, below the workspace, a directory.\<close>

definition select_checkout :: "world \<Rightarrow> path \<Rightarrow> string \<Rightarrow> path option out" where
  "select_checkout w workspace repo =
     (let checkout_name = after_last_slash repo in
      bind_res (is_link w (join_path workspace checkout_name)) (\<lambda>link.
        if link
        then done_with (add_finding repo ''checkout.path'' ''selected consumer checkout must not be a symlink'') None
        else case safe_child w workspace checkout_name of
          Inl e \<Rightarrow>
            if is_os_error e \<or> is_value_error e
            then done_with (add_finding repo ''checkout.path'' (msg [''consumer checkout escapes workspace: '', checkout_name])) None
            else Inl e
        | Inr checkout \<Rightarrow>
            if \<not> is_dir w checkout
            then done_with (add_finding repo ''checkout.missing'' (msg [''canonical checkout is missing: /'', as_posix checkout])) None
            else done_with ok (Some checkout)))"

definition checkout_checks :: "world \<Rightarrow> pydict \<Rightarrow> path \<Rightarrow> path \<Rightarrow> pydict \<Rightarrow> check" where
  "checkout_checks w record checkout corekit registry =
     checks
       [check_checkout_snapshot w record checkout, check_consumer_release w record checkout,
        check_go w record checkout, check_rust w record checkout corekit registry, check_evidence w record checkout]"

definition consumer_checks :: "world \<Rightarrow> stage \<Rightarrow> path \<Rightarrow> path \<Rightarrow> pydict \<Rightarrow> string \<Rightarrow> pydict \<Rightarrow> check" where
  "consumer_checks w stg workspace corekit registry repo record =
     checks
       [validate_rust_status w record,
        stage_checks stg repo record,
        bind_res (select_checkout w workspace repo) (\<lambda>r.
          case snd r of
            None \<Rightarrow> Inr (fst r)
          | Some checkout \<Rightarrow> checkout_checks w record checkout corekit registry)]"

text \<open>The loop over the records with the set of the repositories seen.\<close>

fun consumer_loop :: "world \<Rightarrow> stage \<Rightarrow> path \<Rightarrow> path \<Rightarrow> pydict \<Rightarrow> string list \<Rightarrow> pyval list \<Rightarrow> string list out" where
  "consumer_loop w stg workspace corekit registry repositories [] = done_with ok repositories"
| "consumer_loop w stg workspace corekit registry repositories (record # records) =
     (case (record, get_if_dict record ''repo'') of
        (VDict r, VStr repo) \<Rightarrow>
          if CHR ''/'' \<notin> set repo
          then emit (add_finding ''unknown'' ''record.shape'' ''consumer record must contain an owner/name repo'')
                 (consumer_loop w stg workspace corekit registry repositories records)
          else if repo \<in> set repositories
          then emit (add_finding repo ''record.duplicate'' ''consumer record is duplicated'')
                 (consumer_loop w stg workspace corekit registry repositories records)
          else emit (consumer_checks w stg workspace corekit registry repo r)
                 (consumer_loop w stg workspace corekit registry (repositories @ [repo]) records)
      | _ \<Rightarrow> emit (add_finding ''unknown'' ''record.shape'' ''consumer record must contain an owner/name repo'')
               (consumer_loop w stg workspace corekit registry repositories records))"

section \<open>The manifest\<close>

record report =
  passed :: bool
  consumer_count :: nat
  checked_repositories :: "string list"
  findings :: "finding list"

definition corekit_release_check :: "world \<Rightarrow> pydict \<Rightarrow> path \<Rightarrow> check" where
  "corekit_release_check w corekit_record corekit_root =
     (let release_tag = dget corekit_record ''release_tag''; release_commit = dget corekit_record ''release_commit'' in
      case (release_tag, release_commit) of
        (VStr tag, commit) \<Rightarrow>
          if \<not> is_release_tag release_tag
          then add_finding ''corekit'' ''release.shape'' ''CoreKit release tag must be a stable vMAJOR.MINOR.PATCH tag''
          else if \<not> is_revision release_commit
          then add_finding ''corekit'' ''release.shape'' ''CoreKit release commit must be a 40-hex commit''
          else let args = [''rev-parse'', msg [''refs/tags/'', tag, ''^{commit}'']] in
            if git_code w [''show-ref'', ''--verify'', msg [''refs/tags/'', tag]] corekit_root \<noteq> 0
            then add_finding ''corekit'' ''release.tag'' (msg [''release reference '', tag, '' is not an existing CoreKit tag''])
            else onlyif (git_code w args corekit_root \<noteq> 0 \<or> VStr (git_out w args corekit_root) \<noteq> commit)
                   (add_finding ''corekit'' ''release.tag'' (msg [''release tag '', tag, '' does not resolve to recorded commit'']))
      | _ \<Rightarrow> add_finding ''corekit'' ''release.shape'' ''CoreKit release tag must be a stable vMAJOR.MINOR.PATCH tag'')"

definition corekit_registry_check :: "world \<Rightarrow> pydict \<Rightarrow> check" where
  "corekit_registry_check w registry =
     onlyif (dget registry ''status'' = VStr ''released'')
       (let readback = registry_readback registry;
            expected_version = (case readback of Some r \<Rightarrow> dget r ''version'' | None \<Rightarrow> VNone);
            lock_checksum = (case readback of Some r \<Rightarrow> dget r ''checksum'' | None \<Rightarrow> VNone) in
        check_registry_readback w ''corekit'' registry expected_version lock_checksum)"

definition manifest_stage_checks :: "stage \<Rightarrow> pydict \<Rightarrow> check" where
  "manifest_stage_checks stg registry =
     checks
       [onlyif (git_release_stage stg \<and> dget registry ''status'' \<noteq> VStr ''not_released'')
          (add_finding ''corekit'' ''stage.registry'' ''Git-pinned consumer releases must precede CoreKit registry publication''),
        onlyif (registry_release_stage stg \<and> dget registry ''status'' \<noteq> VStr ''released'')
          (add_finding ''corekit'' ''stage.registry'' ''Registry-pinned consumer releases require verified CoreKit registry publication'')]"

text \<open>The CoreKit record and its registry, or the exception.\<close>

definition corekit_record :: "pyval \<Rightarrow> pydict res" where
  "corekit_record document =
     (case get_if_dict document ''corekit'' of
        VDict corekit \<Rightarrow>
          if dget corekit ''repository'' \<noteq> VStr ''danieljustus/symaira-corekit'' \<or> dget corekit ''go_module'' \<noteq> VStr COREKIT_MODULE
          then Inl (ValueError ''docs/consumers.json corekit repository/module is invalid'')
          else Inr corekit
      | _ \<Rightarrow> Inl (ValueError ''docs/consumers.json corekit repository/module is invalid''))"

definition registry_record :: "pydict \<Rightarrow> pydict res" where
  "registry_record corekit =
     (let bad = Inl (ValueError ''docs/consumers.json Rust registry status must be not_released or released'') in
      case dget corekit ''rust_registry'' of
        VDict registry \<Rightarrow>
          if dget registry ''package'' \<noteq> VStr COREKIT_PACKAGE then bad
          else bind_res (in_strs (dget registry ''status'') REGISTRY_STATUSES) (\<lambda>known. if known then Inr registry else bad)
      | _ \<Rightarrow> bad)"

definition consumer_records :: "pyval \<Rightarrow> pyval list res" where
  "consumer_records document =
     (case get_if_dict document ''consumers'' of
        VList records \<Rightarrow>
          if records = [] then Inl (ValueError ''docs/consumers.json must contain a non-empty consumers array'') else Inr records
      | _ \<Rightarrow> Inl (ValueError ''docs/consumers.json must contain a non-empty consumers array''))"

definition verify_document :: "world \<Rightarrow> stage \<Rightarrow> path \<Rightarrow> path \<Rightarrow> pydict \<Rightarrow> pydict \<Rightarrow> pyval list \<Rightarrow> report res" where
  "verify_document w stg workspace corekit_root corekit registry records =
     bind_res (emit (checks [manifest_stage_checks stg registry, corekit_registry_check w registry,
                             corekit_release_check w corekit corekit_root])
                 (consumer_loop w stg workspace corekit_root registry [''corekit''] records)) (\<lambda>r.
       Inr \<lparr>passed = (fst r = []), consumer_count = length records, checked_repositories = sorted_set (snd r), findings = fst r\<rparr>)"

text \<open>\<open>verify_manifest\<close>; \<open>here\<close> is \<open>ROOT\<close>, the repository the script lies in.\<close>

definition verify_manifest :: "world \<Rightarrow> path \<Rightarrow> path \<Rightarrow> path option \<Rightarrow> path option \<Rightarrow> stage \<Rightarrow> report res" where
  "verify_manifest w here manifest_path workspace_root corekit_root stg =
     bind_res (read_text w manifest_path) (\<lambda>content.
     bind_res (json_loads w content) (\<lambda>document.
     bind_res (corekit_record document) (\<lambda>corekit.
     bind_res (registry_record corekit) (\<lambda>registry.
     bind_res (consumer_records document) (\<lambda>records.
     bind_res (case workspace_root of Some p \<Rightarrow> Inr p | None \<Rightarrow> bind_res (canonical_checkout w here) (\<lambda>c. Inr (butlast c))) (\<lambda>workspace.
     bind_res (case corekit_root of Some p \<Rightarrow> Inr p | None \<Rightarrow> canonical_checkout w here) (\<lambda>corekit_path.
       verify_document w stg workspace corekit_path corekit registry records)))))))"

section \<open>The command\<close>

record options =
  released_consumers :: bool
  git_pinned_consumers :: bool
  opt_manifest :: path
  opt_workspace :: "path option"
  opt_corekit :: "path option"

definition resolve_option :: "world \<Rightarrow> path option \<Rightarrow> path option res" where
  "resolve_option w p = (case p of None \<Rightarrow> Inr None | Some q \<Rightarrow> bind_res (resolve_path w q) (\<lambda>r. Inr (Some r)))"

definition main_report :: "world \<Rightarrow> path \<Rightarrow> options \<Rightarrow> report res" where
  "main_report w here args =
     bind_res (resolve_option w (opt_workspace args)) (\<lambda>workspace.
     bind_res (case opt_corekit args of Some q \<Rightarrow> resolve_path w q | None \<Rightarrow> canonical_checkout w here) (\<lambda>corekit.
     bind_res (resolve_path w (opt_manifest args)) (\<lambda>manifest.
       verify_manifest w here manifest workspace (Some corekit)
         \<lparr>git_release_stage = git_pinned_consumers args, registry_release_stage = released_consumers args\<rparr>)))"

text \<open>The exit code; an exception that the handler does not name leaves \<open>main\<close>.\<close>

definition main :: "world \<Rightarrow> path \<Rightarrow> options \<Rightarrow> int res" where
  "main w here args =
     (case main_report w here args of
        Inl e \<Rightarrow> if is_os_error e \<or> is_runtime_error e \<or> is_value_error e then Inr 2 else Inl e
      | Inr r \<Rightarrow> Inr (if passed r then 0 else 1))"

section \<open>What a clean run establishes\<close>

lemma relative_to_ok: "relative_to p base = Inr rest \<Longrightarrow> p = base @ rest"
  by (simp add: relative_to_Inr)

lemma safe_child_below: "safe_child w base relative = Inr p \<Longrightarrow> \<exists>root_path rest. resolve_path w base = Inr root_path \<and> p = root_path @ rest"
  by (auto simp: safe_child_def bind_res_eq_Inr relative_to_Inr)

lemma select_checkout_clean:
  assumes "select_checkout w workspace repo = Inr ([], r)"
  shows "\<exists>root_path rest. r = Some (root_path @ rest) \<and> resolve_path w workspace = Inr root_path \<and> is_dir w (root_path @ rest) \<and>
           lstat_of w (join_path workspace (after_last_slash repo)) \<noteq> Inr Symlink"
proof -
  from assms obtain link where l: "is_link w (join_path workspace (after_last_slash repo)) = Inr link"
    by (auto simp: select_checkout_def Let_def bind_res_eq_Inr)
  note c = assms [unfolded select_checkout_def Let_def l, simplified]
  from c have nl: "link = False" by (cases link) (simp_all add: clean)
  note c1 = c [unfolded nl, simplified]
  from c1 obtain p where p: "safe_child w workspace (after_last_slash repo) = Inr p"
    by (cases "safe_child w workspace (after_last_slash repo)") (auto simp: clean split: if_splits)
  with c1 have "is_dir w p" "r = Some p" by (auto simp: clean split: if_splits)
  with safe_child_below [OF p] is_link_Inr [OF l] nl show ?thesis by auto
qed

text \<open>One consumer of a passed report.\<close>

definition consumer_ok :: "world \<Rightarrow> stage \<Rightarrow> path \<Rightarrow> path \<Rightarrow> pydict \<Rightarrow> pyval \<Rightarrow> string \<Rightarrow> bool" where
  "consumer_ok w stg workspace corekit registry v repo \<longleftrightarrow>
     (\<exists>record rust status root_path rest tag c. let checkout = root_path @ rest in
        v = VDict record \<and> dget record ''repo'' = VStr repo \<and> CHR ''/'' \<in> set repo \<and>
        dget record ''rust'' = VDict rust \<and> dget rust ''status'' = VStr status \<and> status \<in> set RUST_STATUSES \<and>
        (git_release_stage stg \<longrightarrow> status = ''git'') \<and> (registry_release_stage stg \<longrightarrow> status = ''registry'') \<and>
        resolve_path w workspace = Inr root_path \<and> is_dir w checkout \<and>
        lstat_of w (join_path workspace (after_last_slash repo)) \<noteq> Inr Symlink \<and>
        is_revision (VStr c) \<and> fullmatch RELEASE_TAG tag \<and>
        git_out w [''rev-parse'', ''--verify'', ''HEAD^{commit}''] checkout = c \<and>
        git_out w (tag_args tag) checkout = c \<and> dget record ''checkout_commit'' = VStr c \<and>
        check_checkout_snapshot w record checkout = Inr [] \<and> check_go w record checkout = Inr [] \<and>
        check_rust w record checkout corekit registry = Inr [] \<and> check_evidence w record checkout = Inr [])"

lemma stage_checks_clean:
  "stage_checks stg repo record = Inr [] \<longleftrightarrow>
     (git_release_stage stg \<longrightarrow> get_if_dict (dget record ''rust'') ''status'' = VStr ''git'') \<and>
     (registry_release_stage stg \<longrightarrow> get_if_dict (dget record ''rust'') ''status'' = VStr ''registry'')"
  by (auto simp: stage_checks_def Let_def clean)

lemma consumer_checks_clean:
  assumes "consumer_checks w stg workspace corekit registry repo record = Inr []"
    and "dget record ''repo'' = VStr repo" "CHR ''/'' \<in> set repo"
  shows "consumer_ok w stg workspace corekit registry (VDict record) repo"
proof -
  from assms(1) have v: "validate_rust_status w record = Inr []" and st: "stage_checks stg repo record = Inr []"
    and sel: "bind_res (select_checkout w workspace repo) (\<lambda>r. case snd r of None \<Rightarrow> Inr (fst r)
               | Some checkout \<Rightarrow> checkout_checks w record checkout corekit registry) = Inr []"
    by (simp_all add: consumer_checks_def checks_clean)
  from v obtain rust status where rust: "dget record ''rust'' = VDict rust" "dget rust ''status'' = VStr status" "status \<in> set RUST_STATUSES"
    by (auto simp: validate_rust_status_clean)
  from sel obtain fs r where so: "select_checkout w workspace repo = Inr (fs, r)" by (auto simp: bind_res_eq_Inr)
  obtain checkout where r: "r = Some checkout"
  proof (cases r)
    case None
    with sel so have "fs = []" by simp
    with so None select_checkout_clean show ?thesis by blast
  qed blast
  from so r have fs: "fs = []"
    by (auto simp: select_checkout_def Let_def done_with_def ok_def bind_res_eq_Inr add_finding_def split: sum.splits if_splits)
  from select_checkout_clean [OF so [unfolded fs]] r obtain root_path rest where p: "checkout = root_path @ rest"
    "resolve_path w workspace = Inr root_path" "is_dir w checkout"
    "lstat_of w (join_path workspace (after_last_slash repo)) \<noteq> Inr Symlink" by auto
  from sel so r have "checkout_checks w record checkout corekit registry = Inr []" by simp
  then have cs: "check_checkout_snapshot w record checkout = Inr []" "check_consumer_release w record checkout = Inr []"
    "check_go w record checkout = Inr []" "check_rust w record checkout corekit registry = Inr []"
    "check_evidence w record checkout = Inr []"
    by (simp_all add: checkout_checks_def checks_clean)
  from cs(2) obtain tag c where c: "fullmatch RELEASE_TAG tag" "is_revision (VStr c)" "git_out w (tag_args tag) checkout = c"
    "dget record ''checkout_commit'' = VStr c"
    by (auto simp: check_consumer_release_clean)
  from cs(1) c(4) have head: "git_out w [''rev-parse'', ''--verify'', ''HEAD^{commit}''] checkout = c"
    by (auto simp: check_checkout_snapshot_clean head_check_clean)
  have stg: "git_release_stage stg \<longrightarrow> status = ''git''" "registry_release_stage stg \<longrightarrow> status = ''registry''"
    using st rust by (auto simp: stage_checks_clean)
  show ?thesis
    unfolding consumer_ok_def Let_def using assms(2,3) rust stg p c head cs by blast
qed

lemma consumer_loop_clean:
  "consumer_loop w stg workspace corekit registry seen records = Inr ([], seen') \<Longrightarrow> distinct seen \<Longrightarrow>
     \<exists>repos. seen' = seen @ repos \<and> distinct (seen @ repos) \<and>
       list_all2 (consumer_ok w stg workspace corekit registry) records repos"
proof (induction records arbitrary: seen)
  case Nil
  then show ?case by (simp add: clean)
next
  case (Cons v records)
  from Cons.prems obtain entry where v: "v = VDict entry"
    by (cases v) (simp_all add: clean)
  with Cons.prems obtain repo where repo: "dget entry ''repo'' = VStr repo"
    by (cases "dget entry ''repo''") (simp_all add: clean)
  with v Cons.prems have slash: "CHR ''/'' \<in> set repo" and new: "repo \<notin> set seen"
    by (auto simp: clean split: if_splits)
  with v repo Cons.prems have c: "consumer_checks w stg workspace corekit registry repo entry = Inr []"
    and rest: "consumer_loop w stg workspace corekit registry (seen @ [repo]) records = Inr ([], seen')"
    by (auto simp: clean)
  from Cons.IH [OF rest] new Cons.prems(2) obtain repos where "seen' = (seen @ [repo]) @ repos"
    "distinct ((seen @ [repo]) @ repos)" "list_all2 (consumer_ok w stg workspace corekit registry) records repos" by auto
  with consumer_checks_clean [OF c repo slash] v show ?case by (intro exI [of _ "repo # repos"]) simp
qed

lemma verify_document_passed:
  assumes "verify_document w stg workspace corekit_root corekit registry records = Inr r" "passed r"
  shows "manifest_stage_checks stg registry = Inr [] \<and> corekit_registry_check w registry = Inr [] \<and>
         corekit_release_check w corekit corekit_root = Inr [] \<and>
         (\<exists>repos. distinct repos \<and> ''corekit'' \<notin> set repos \<and>
            checked_repositories r = sorted_set (''corekit'' # repos) \<and>
            list_all2 (consumer_ok w stg workspace corekit_root registry) records repos)"
proof -
  from assms obtain seen where
    e: "emit (checks [manifest_stage_checks stg registry, corekit_registry_check w registry, corekit_release_check w corekit corekit_root])
       (consumer_loop w stg workspace corekit_root registry [''corekit''] records) = Inr ([], seen)"
    and r: "checked_repositories r = sorted_set seen"
    by (auto simp: verify_document_def bind_res_eq_Inr)
  then have loop: "consumer_loop w stg workspace corekit_root registry [''corekit''] records = Inr ([], seen)"
    by (simp add: clean)
  from consumer_loop_clean [OF loop] obtain repos where "seen = [''corekit''] @ repos" "distinct ([''corekit''] @ repos)"
    "list_all2 (consumer_ok w stg workspace corekit_root registry) records repos" by auto
  with e r show ?thesis by (auto simp: clean)
qed

lemma corekit_release_check_clean:
  "corekit_release_check w corekit root_path = Inr [] \<Longrightarrow>
     \<exists>tag commit. dget corekit ''release_tag'' = VStr tag \<and> dget corekit ''release_commit'' = VStr commit \<and>
       fullmatch RELEASE_TAG tag \<and> is_revision (VStr commit) \<and>
       git_out w [''rev-parse'', msg [''refs/tags/'', tag, ''^{commit}'']] root_path = commit"
  by (cases "dget corekit ''release_tag''")
    (auto simp: corekit_release_check_def Let_def clean is_release_tag_def split: if_splits)

section \<open>Properties\<close>

text \<open>C1: exit code 0 vouches for every consumer. The manifest parsed, its CoreKit record names this
  repository and an existing release, and the consumer records have pairwise different repositories,
  none of them CoreKit itself; for every record the selected checkout is a directory below the
  workspace and no symbolic link, its HEAD is the recorded commit, which is also what the consumer's
  own release tag resolves to, its Rust state is a known one and the one the chosen stage asks for,
  and the snapshot, Go, Rust and evidence checks all ran on that checkout without a finding.\<close>

theorem exit_zero_vouches_for_every_consumer:
  assumes "main w here args = Inr 0"
  shows "\<exists>document corekit registry records repos workspace corekit_root tag commit.
      corekit_record document = Inr corekit \<and> registry_record corekit = Inr registry \<and> consumer_records document = Inr records \<and>
      (\<exists>manifest. resolve_path w (opt_manifest args) = Inr manifest \<and> bind_res (read_text w manifest) (json_loads w) = Inr document) \<and>
      dget corekit ''release_tag'' = VStr tag \<and> dget corekit ''release_commit'' = VStr commit \<and>
      git_out w [''rev-parse'', msg [''refs/tags/'', tag, ''^{commit}'']] corekit_root = commit \<and>
      distinct repos \<and> ''corekit'' \<notin> set repos \<and> records \<noteq> [] \<and>
      list_all2 (consumer_ok w \<lparr>git_release_stage = git_pinned_consumers args, registry_release_stage = released_consumers args\<rparr>
         workspace corekit_root registry) records repos"
proof -
  let ?stg = "\<lparr>git_release_stage = git_pinned_consumers args, registry_release_stage = released_consumers args\<rparr>"
  from assms obtain r where r: "main_report w here args = Inr r" "passed r"
    by (auto simp: main_def split: sum.splits if_splits)
  from r(1) obtain ws corekit_root manifest where
    m: "resolve_path w (opt_manifest args) = Inr manifest"
    and vm: "verify_manifest w here manifest ws (Some corekit_root) ?stg = Inr r"
    by (auto simp: main_report_def bind_res_eq_Inr)
  from vm obtain content document corekit registry records workspace where
    d: "read_text w manifest = Inr content" "json_loads w content = Inr document" "corekit_record document = Inr corekit"
    "registry_record corekit = Inr registry" "consumer_records document = Inr records"
    "verify_document w ?stg workspace corekit_root corekit registry records = Inr r"
    unfolding verify_manifest_def bind_res_eq_Inr by auto
  from verify_document_passed [OF d(6) r(2)] obtain repos where v: "corekit_release_check w corekit corekit_root = Inr []"
    "distinct repos" "''corekit'' \<notin> set repos"
    "list_all2 (consumer_ok w ?stg workspace corekit_root registry) records repos" by blast
  from corekit_release_check_clean [OF v(1)] obtain tag commit where "dget corekit ''release_tag'' = VStr tag"
    "dget corekit ''release_commit'' = VStr commit"
    "git_out w [''rev-parse'', msg [''refs/tags/'', tag, ''^{commit}'']] corekit_root = commit" by blast
  moreover have "records \<noteq> []" using d(5) by (auto simp: consumer_records_def split: pyval.splits if_splits)
  moreover have "bind_res (read_text w manifest) (json_loads w) = Inr document" using d(1,2) by simp
  ultimately show ?thesis using m d(3-5) v(2-4) by blast
qed

text \<open>A status that is a list or a table raises \<open>TypeError\<close>, which the handler of \<open>main\<close> does not name.\<close>

lemma unhashable_status_raises:
  "dget record ''rust'' = VDict rust \<Longrightarrow> dget rust ''status'' = VList xs \<Longrightarrow> validate_rust_status w record = Inl TypeError"
  by (auto simp: validate_rust_status_def Let_def in_strs_def has_key_def dget_def split: option.splits)

section \<open>A concrete run\<close>

text \<open>One consumer in the Git-pinned stage, with its Go side retired and a standalone report.\<close>

definition demo_consumer :: pydict where
  "demo_consumer =
     [(''repo'', VStr ''owner/c''), (''go_status'', VStr ''retired''), (''pins'', VList []), (''checkout_commit'', VStr demo_commit),
      (''consumer_release'', VDict [(''tag'', VStr ''v2.0.0''), (''commit'', VStr demo_commit)]),
      (''rust'', VDict (demo_adoption @ [(''evidence'', VDict [(''standalone'', demo_item ''s.json'' ''rust-bin'')])]))]"

definition demo_manifest :: pydict where
  "demo_manifest =
     [(''corekit'', VDict [(''repository'', VStr ''danieljustus/symaira-corekit''),
         (''go_module'', VStr ''github.com/danieljustus/symaira-corekit''),
         (''release_tag'', VStr ''v1.0.0''), (''release_commit'', VStr demo_commit),
         (''rust_registry'', VDict [(''package'', VStr ''symaira-core-version''), (''status'', VStr ''not_released'')])]),
      (''consumers'', VList [VDict demo_consumer])]"

definition demo_run_world :: world where
  "demo_run_world = demo_rust_world \<lparr>
     run_git := (\<lambda>args cwd.
        if hd args = ''rev-parse'' then (0, demo_commit, [])
        else if take 2 args = [''ls-files'', ''--error-unmatch''] then (0, last args, [])
        else if take 2 args = [''diff'', ''--name-only''] then (0, ''s.json'', [])
        else (0, [], [])),
     is_dir := (\<lambda>_. True), is_file := (\<lambda>_. True), tree_at := (\<lambda>_. []),
     json_loads := (\<lambda>t. Inr (VDict (if t = ''consumers.json'' then demo_manifest else demo_standalone))),
     sha256 := (\<lambda>_. demo_sha)\<rparr>"

definition demo_options :: options where
  "demo_options = \<lparr>released_consumers = False, git_pinned_consumers = True, opt_manifest = [''m'', ''consumers.json''],
     opt_workspace = Some [''home''], opt_corekit = Some [''home'', ''k'']\<rparr>"

lemma demo_run_passes: "main demo_run_world [''home'', ''k''] demo_options = Inr 0"
  by code_simp

lemma exit_zero_vouches_for_every_consumer_witness:
  "\<exists>records repos workspace corekit_root registry. records \<noteq> [] \<and>
     list_all2 (consumer_ok demo_run_world \<lparr>git_release_stage = True, registry_release_stage = False\<rparr>
       workspace corekit_root registry) records repos"
proof -
  have "git_pinned_consumers demo_options" "\<not> released_consumers demo_options" by (simp_all add: demo_options_def)
  with exit_zero_vouches_for_every_consumer [OF demo_run_passes] show ?thesis by (metis (full_types))
qed

end
