(* ===== verification/Capture.thy ===== *)
theory Capture
  imports PyStr
begin

text \<open>
  The capture of a child's output in \<open>scripts/rust-port/bounded_oracle_process.py\<close>: the class
  \<open>_Capture\<close> with one reader thread per stream. A thread is a program counter; one turn of the
  thread is one step of the model, so the steps of the readers interleave in any order. The reading
  and the closing of a stream are parameters; the interface \<open>byte_pipe\<close> says what a pipe promises.
\<close>

definition DEFAULT_LIMIT :: nat where
  "DEFAULT_LIMIT = 2 * 1024 * 1024"

definition READ_CHUNK :: nat where
  "READ_CHUNK = 64 * 1024"

text \<open>Where a reader thread stands: before a read, before it sets \<open>exceeded\<close>, before it closes its
  stream, before it sets \<open>ended\<close>, at its end.\<close>

datatype pc = Reading | Overflowed | Closing | Ending | Done

record 's capture =
  cap_limit :: nat
  cap_streams :: "'s list"
  cap_buffers :: "string list"
  cap_pcs :: "pc list"
  cap_ended :: "bool list"
  cap_exceeded :: bool
  cap_errors :: "pyexc list"

definition new_capture :: "nat \<Rightarrow> 's list \<Rightarrow> 's capture" where
  "new_capture n ss = \<lparr>cap_limit = n, cap_streams = ss, cap_buffers = replicate (length ss) [], cap_pcs = replicate (length ss) Reading,
     cap_ended = replicate (length ss) False, cap_exceeded = False, cap_errors = []\<rparr>"

text \<open>One turn of the loop of \<open>_read\<close>.\<close>

definition read_turn :: "(nat \<Rightarrow> 's \<Rightarrow> string res \<times> 's) \<Rightarrow> nat \<Rightarrow> 's capture \<Rightarrow> 's capture" where
  "read_turn read i c =
     (let output = cap_buffers c ! i; room = cap_limit c - length output in
      case read (min READ_CHUNK (room + 1)) (cap_streams c ! i) of
        (Inl e, s) \<Rightarrow> c\<lparr>cap_streams := (cap_streams c)[i := s], cap_errors := cap_errors c @ [e], cap_pcs := (cap_pcs c)[i := Closing]\<rparr>
      | (Inr chunk, s) \<Rightarrow>
          if chunk = [] then c\<lparr>cap_streams := (cap_streams c)[i := s], cap_pcs := (cap_pcs c)[i := Closing]\<rparr>
          else if length chunk > room
          then c\<lparr>cap_streams := (cap_streams c)[i := s], cap_buffers := (cap_buffers c)[i := output @ take room chunk],
                 cap_pcs := (cap_pcs c)[i := Overflowed]\<rparr>
          else c\<lparr>cap_streams := (cap_streams c)[i := s], cap_buffers := (cap_buffers c)[i := output @ chunk]\<rparr>)"

definition reader_step ::
    "(nat \<Rightarrow> 's \<Rightarrow> string res \<times> 's) \<Rightarrow> ('s \<Rightarrow> pyexc option) \<Rightarrow> nat \<Rightarrow> 's capture \<Rightarrow> 's capture" where
  "reader_step read close i c =
     (case cap_pcs c ! i of
        Reading \<Rightarrow> read_turn read i c
      | Overflowed \<Rightarrow> c\<lparr>cap_exceeded := True, cap_pcs := (cap_pcs c)[i := Closing]\<rparr>
      | Closing \<Rightarrow> c\<lparr>cap_errors := cap_errors c @ (case close (cap_streams c ! i) of None \<Rightarrow> [] | Some e \<Rightarrow> [e]),
                     cap_pcs := (cap_pcs c)[i := Ending]\<rparr>
      | Ending \<Rightarrow> c\<lparr>cap_ended := (cap_ended c)[i := True], cap_pcs := (cap_pcs c)[i := Done]\<rparr>
      | Done \<Rightarrow> c)"

inductive capture_step ::
    "(nat \<Rightarrow> 's \<Rightarrow> string res \<times> 's) \<Rightarrow> ('s \<Rightarrow> pyexc option) \<Rightarrow> 's capture \<Rightarrow> 's capture \<Rightarrow> bool"
  for read close where
  turn: "i < length (cap_streams c) \<Longrightarrow> cap_pcs c ! i \<noteq> Done \<Longrightarrow> capture_step read close c (reader_step read close i c)"

inductive_cases capture_stepE: "capture_step read close c d"

inductive reachable ::
    "(nat \<Rightarrow> 's \<Rightarrow> string res \<times> 's) \<Rightarrow> ('s \<Rightarrow> pyexc option) \<Rightarrow> 's capture \<Rightarrow> 's capture \<Rightarrow> bool"
  for read close c where
  start: "reachable read close c c"
| step: "reachable read close c d \<Longrightarrow> capture_step read close d e \<Longrightarrow> reachable read close c e"

text \<open>A schedule of thread indices, run; a thread that has ended does nothing.\<close>

fun run_schedule :: "(nat \<Rightarrow> 's \<Rightarrow> string res \<times> 's) \<Rightarrow> ('s \<Rightarrow> pyexc option) \<Rightarrow> nat list \<Rightarrow> 's capture \<Rightarrow> 's capture" where
  "run_schedule read close [] c = c"
| "run_schedule read close (i # is) c =
     run_schedule read close is (if i < length (cap_streams c) \<and> cap_pcs c ! i \<noteq> Done then reader_step read close i c else c)"

text \<open>\<open>all(self.ended)\<close> and \<open>raw\<close>.\<close>

definition readers_ended :: "'s capture \<Rightarrow> bool" where
  "readers_ended c = list_all (\<lambda>b. b) (cap_ended c)"

definition raw :: "'s capture \<Rightarrow> bool \<Rightarrow> string \<times> string" where
  "raw c merge_stderr =
     ((if cap_buffers c = [] then [] else cap_buffers c ! 0),
      (if merge_stderr \<or> length (cap_buffers c) = 1 then [] else cap_buffers c ! 1))"

section \<open>The shape of a state\<close>

definition well_shaped :: "'s capture \<Rightarrow> bool" where
  "well_shaped c \<longleftrightarrow> length (cap_buffers c) = length (cap_streams c) \<and> length (cap_pcs c) = length (cap_streams c) \<and>
     length (cap_ended c) = length (cap_streams c)"

lemma new_capture_shaped: "well_shaped (new_capture n ss)"
  by (simp add: well_shaped_def new_capture_def)

lemma read_turn_shape:
  "cap_limit (read_turn read i c) = cap_limit c" "length (cap_streams (read_turn read i c)) = length (cap_streams c)"
  "well_shaped c \<Longrightarrow> well_shaped (read_turn read i c)"
  by (simp_all add: read_turn_def Let_def well_shaped_def split: prod.splits sum.splits)

lemma reader_step_shape:
  "cap_limit (reader_step read close i c) = cap_limit c" "length (cap_streams (reader_step read close i c)) = length (cap_streams c)"
  "well_shaped c \<Longrightarrow> well_shaped (reader_step read close i c)"
  by (simp_all add: reader_step_def read_turn_shape well_shaped_def read_turn_shape(3) [unfolded well_shaped_def] split: pc.splits)

section \<open>What a pipe promises\<close>

text \<open>A read of a positive number of bytes gives the next bytes of the content, at most that many, and
  nothing only at the end of the content.\<close>

locale byte_pipe =
  fixes read :: "nat \<Rightarrow> 's \<Rightarrow> string res \<times> 's"
    and content :: "'s \<Rightarrow> string"
  assumes read_ok: "0 < n \<Longrightarrow> \<exists>chunk s'. read n s = (Inr chunk, s') \<and> content s = chunk @ content s' \<and> length chunk \<le> n \<and>
    (chunk = [] \<longrightarrow> content s = [])"
begin

definition reader_inv :: "'s list \<Rightarrow> 's capture \<Rightarrow> nat \<Rightarrow> bool" where
  "reader_inv ss c i \<longleftrightarrow>
     (let b = cap_buffers c ! i; n = cap_limit c; t = content (ss ! i) in
      case cap_pcs c ! i of
        Reading \<Rightarrow> length b \<le> n \<and> t = b @ content (cap_streams c ! i)
      | Overflowed \<Rightarrow> b = take n t \<and> n < length t
      | _ \<Rightarrow> b = take n t \<and> (n < length t \<longrightarrow> cap_exceeded c))"

definition capture_inv :: "'s list \<Rightarrow> 's capture \<Rightarrow> bool" where
  "capture_inv ss c \<longleftrightarrow>
     well_shaped c \<and> length (cap_streams c) = length ss \<and> (\<forall>i < length ss. reader_inv ss c i) \<and>
     (cap_exceeded c \<longrightarrow> (\<exists>i < length ss. cap_limit c < length (content (ss ! i)))) \<and>
     (\<forall>i < length ss. cap_ended c ! i \<longrightarrow> cap_pcs c ! i = Done)"

lemma start_inv: "capture_inv ss (new_capture n ss)"
  by (auto simp: capture_inv_def new_capture_shaped reader_inv_def Let_def) (auto simp: new_capture_def)

text \<open>A step of reader \<open>i\<close> leaves the other readers alone and never resets the flag.\<close>

lemma reader_step_other:
  "j \<noteq> i \<Longrightarrow> cap_buffers (reader_step read close i c) ! j = cap_buffers c ! j"
  "j \<noteq> i \<Longrightarrow> cap_streams (reader_step read close i c) ! j = cap_streams c ! j"
  "j \<noteq> i \<Longrightarrow> cap_pcs (reader_step read close i c) ! j = cap_pcs c ! j"
  "j \<noteq> i \<Longrightarrow> cap_ended (reader_step read close i c) ! j = cap_ended c ! j"
  "cap_exceeded c \<Longrightarrow> cap_exceeded (reader_step read close i c)"
  by (simp_all add: reader_step_def read_turn_def Let_def split: pc.splits prod.splits sum.splits)

lemma reader_inv_other: "j \<noteq> i \<Longrightarrow> reader_inv ss c j \<Longrightarrow> reader_inv ss (reader_step read close i c) j"
  using reader_step_other(5) [of c close i]
  by (simp add: reader_inv_def Let_def reader_step_other reader_step_shape split: pc.splits)

lemma read_turn_inv:
  assumes inv: "reader_inv ss c i" and shape: "well_shaped c" and i: "i < length (cap_streams c)" and pc: "cap_pcs c ! i = Reading"
  shows "reader_inv ss (read_turn read i c) i"
proof -
  let ?b = "cap_buffers c ! i" and ?n = "cap_limit c" and ?s = "cap_streams c ! i"
  from shape i have len: "i < length (cap_buffers c)" "i < length (cap_pcs c)" by (simp_all add: well_shaped_def)
  from inv pc have b: "length ?b \<le> ?n" "content (ss ! i) = ?b @ content ?s" by (simp_all add: reader_inv_def Let_def)
  let ?k = "min READ_CHUNK (?n - length ?b + 1)"
  have "0 < ?k" by (simp add: READ_CHUNK_def)
  from read_ok [OF this, of ?s] obtain chunk s' where r: "read ?k ?s = (Inr chunk, s')"
    and c: "content ?s = chunk @ content s'" "length chunk \<le> ?k" "chunk = [] \<longrightarrow> content ?s = []" by blast
  consider "chunk = []" | "chunk \<noteq> []" "length chunk > ?n - length ?b" | "chunk \<noteq> []" "length chunk \<le> ?n - length ?b"
    by linarith
  then show ?thesis
  proof cases
    case 1
    with r b c len i show ?thesis by (simp add: read_turn_def Let_def reader_inv_def)
  next
    case 2
    with c(2) b have "length chunk = ?n - length ?b + 1" by simp
    with 2 r b c len i show ?thesis by (simp add: read_turn_def Let_def reader_inv_def)
  next
    case 3
    with r b c len i pc show ?thesis by (simp add: read_turn_def Let_def reader_inv_def)
  qed
qed

lemma reader_step_inv:
  assumes "reader_inv ss c i" "well_shaped c" "i < length (cap_streams c)"
  shows "reader_inv ss (reader_step read close i c) i"
proof (cases "cap_pcs c ! i")
  case Reading
  with read_turn_inv [OF assms Reading] show ?thesis by (simp add: reader_step_def)
qed (use assms in \<open>auto simp: reader_step_def reader_inv_def Let_def well_shaped_def\<close>)

lemma reader_step_flag:
  assumes "reader_inv ss c i" "well_shaped c" "i < length (cap_streams c)" "cap_exceeded (reader_step read close i c)"
  shows "cap_exceeded c \<or> cap_limit c < length (content (ss ! i))"
  using assms by (auto simp: reader_step_def reader_inv_def Let_def read_turn_def split: pc.splits prod.splits sum.splits if_splits)

lemma reader_step_ended:
  assumes "well_shaped c" "i < length (cap_streams c)" "cap_ended (reader_step read close i c) ! i" "cap_ended c ! i \<longrightarrow> cap_pcs c ! i = Done"
    "cap_pcs c ! i \<noteq> Done"
  shows "cap_pcs (reader_step read close i c) ! i = Done"
  using assms by (auto simp: reader_step_def read_turn_def Let_def well_shaped_def split: pc.splits prod.splits sum.splits if_splits)

lemma capture_step_inv: "capture_step read close c d \<Longrightarrow> capture_inv ss c \<Longrightarrow> capture_inv ss d"
proof (induction rule: capture_step.induct)
  case (turn i c)
  let ?d = "reader_step read close i c"
  from turn have shape: "well_shaped c" and len: "length (cap_streams c) = length ss"
    and all: "\<forall>j < length ss. reader_inv ss c j" and i: "i < length ss"
    by (simp_all add: capture_inv_def)
  have "reader_inv ss ?d j" if "j < length ss" for j
    using reader_inv_other [of j i ss c close] reader_step_inv [of ss c i close] all that shape i len by metis
  moreover have "cap_ended ?d ! j \<longrightarrow> cap_pcs ?d ! j = Done" if "j < length ss" for j
    using turn that reader_step_ended [of c i close] reader_step_other(3,4) [of j i close c] by (metis capture_inv_def)
  moreover have "cap_exceeded ?d \<longrightarrow> (\<exists>j < length ss. cap_limit ?d < length (content (ss ! j)))"
    using reader_step_flag [of ss c i close] turn all i shape len reader_step_shape(1) by (metis capture_inv_def)
  ultimately show ?case using shape len by (simp add: capture_inv_def reader_step_shape)
qed

lemma reachable_inv: "reachable read close c d \<Longrightarrow> capture_inv ss c \<Longrightarrow> capture_inv ss d"
  by (induction rule: reachable.induct) (auto intro: capture_step_inv)

end

section \<open>Every reader ends\<close>

text \<open>The turns a reader has left at most: one per byte it has room for, and the steps of its end.\<close>

definition turns_left :: "'s capture \<Rightarrow> nat \<Rightarrow> nat" where
  "turns_left c i =
     (case cap_pcs c ! i of Reading \<Rightarrow> cap_limit c - length (cap_buffers c ! i) + 4
      | Overflowed \<Rightarrow> 3 | Closing \<Rightarrow> 2 | Ending \<Rightarrow> 1 | Done \<Rightarrow> 0)"

definition work :: "'s capture \<Rightarrow> nat" where
  "work c = (\<Sum>i < length (cap_streams c). turns_left c i)"

lemma turns_left_step:
  assumes "well_shaped c" "i < length (cap_streams c)" "cap_pcs c ! i \<noteq> Done"
  shows "turns_left (reader_step read close i c) i < turns_left c i"
  using assms
  by (cases "cap_pcs c ! i")
    (auto simp: reader_step_def read_turn_def Let_def turns_left_def well_shaped_def neq_Nil_conv split: prod.splits sum.splits)

lemma turns_left_other: "j \<noteq> i \<Longrightarrow> turns_left (reader_step read close i c) j = turns_left c j"
  by (simp add: turns_left_def reader_step_shape(1)) 
    (simp add: reader_step_def read_turn_def Let_def split: pc.splits prod.splits sum.splits)

lemma work_step: "capture_step read close c d \<Longrightarrow> well_shaped c \<Longrightarrow> work d < work c"
proof (induction rule: capture_step.induct)
  case (turn i c)
  let ?d = "reader_step read close i c"
  have less: "turns_left ?d i < turns_left c i" using turns_left_step turn by blast
  have "turns_left ?d j \<le> turns_left c j" for j
    using less turns_left_other [of j i read close c] by (cases "j = i") auto
  then have "(\<Sum>j < length (cap_streams c). turns_left ?d j) < (\<Sum>j < length (cap_streams c). turns_left c j)"
    using less turn.hyps(1) by (intro sum_strict_mono_ex1) auto
  then show ?case by (simp add: work_def reader_step_shape)
qed

lemma capture_step_shape: "capture_step read close c d \<Longrightarrow> well_shaped c \<Longrightarrow> well_shaped d"
  by (auto elim!: capture_stepE simp: reader_step_shape)

lemma steps_bounded: "(capture_step read close ^^ k) c d \<Longrightarrow> well_shaped c \<Longrightarrow> k + work d \<le> work c \<and> well_shaped d"
proof (induction k arbitrary: d)
  case 0
  then show ?case by simp
next
  case (Suc k)
  then obtain e where e: "(capture_step read close ^^ k) c e" "capture_step read close e d" by auto
  with Suc.IH [OF e(1)] Suc.prems(2) work_step [OF e(2)] capture_step_shape [OF e(2)] show ?case by force
qed

lemma work_new: "work (new_capture n ss) = length ss * (n + 4)"
  by (simp add: work_def turns_left_def new_capture_def)

section \<open>Properties\<close>

lemma capture_facts:
  assumes pipe: "byte_pipe read content" and reach: "reachable read close (new_capture n ss) d"
  shows "i < length ss \<Longrightarrow> length (cap_buffers d ! i) \<le> n \<and> prefix (cap_buffers d ! i) (content (ss ! i))"
    and "cap_exceeded d \<Longrightarrow> \<exists>i < length ss. n < length (content (ss ! i))"
    and "readers_ended d \<Longrightarrow> i < length ss \<Longrightarrow>
           cap_buffers d ! i = take n (content (ss ! i)) \<and> (n < length (content (ss ! i)) \<longrightarrow> cap_exceeded d)"
proof -
  have inv: "byte_pipe.capture_inv content ss d"
    using byte_pipe.reachable_inv [OF pipe reach] byte_pipe.start_inv [OF pipe] by blast
  have lim: "cap_limit d = n"
    using reach by (induction rule: reachable.induct) (auto simp: new_capture_def reader_step_shape elim!: capture_stepE)
  note inv' = inv [unfolded byte_pipe.capture_inv_def [OF pipe] byte_pipe.reader_inv_def [OF pipe] Let_def lim]
  show "length (cap_buffers d ! i) \<le> n \<and> prefix (cap_buffers d ! i) (content (ss ! i))" if "i < length ss"
  proof -
    from inv' that have "case cap_pcs d ! i of
        Reading \<Rightarrow> length (cap_buffers d ! i) \<le> n \<and> content (ss ! i) = cap_buffers d ! i @ content (cap_streams d ! i)
      | Overflowed \<Rightarrow> cap_buffers d ! i = take n (content (ss ! i)) \<and> n < length (content (ss ! i))
      | _ \<Rightarrow> cap_buffers d ! i = take n (content (ss ! i)) \<and> (n < length (content (ss ! i)) \<longrightarrow> cap_exceeded d)" by blast
    then show ?thesis by (cases "cap_pcs d ! i") (simp_all add: take_is_prefix)
  qed
  show "\<exists>i < length ss. n < length (content (ss ! i))" if "cap_exceeded d" using inv' that by blast
  show "cap_buffers d ! i = take n (content (ss ! i)) \<and> (n < length (content (ss ! i)) \<longrightarrow> cap_exceeded d)"
    if "readers_ended d" "i < length ss"
  proof -
    have "cap_pcs d ! i = Done" using inv' that by (auto simp: readers_ended_def list_all_length well_shaped_def)
    with inv' that show ?thesis by auto
  qed
qed

lemma captured_exactly:
  assumes "byte_pipe read content" "reachable read close (new_capture n ss) d" "readers_ended d"
  shows "(\<forall>i < length ss. cap_buffers d ! i = take n (content (ss ! i))) \<and>
         (cap_exceeded d \<longleftrightarrow> (\<exists>i < length ss. n < length (content (ss ! i))))"
  using capture_facts [OF assms(1,2)] assms(3) by blast

text \<open>C15: whatever the interleaving of the reader threads, the capture of a pipe is exact. At every
  moment each buffer is a prefix of what the child wrote, of at most the limit, and the flag
  \<open>exceeded\<close> is only set when some stream holds more than the limit; and once all readers have ended,
  each buffer is the output cut at the limit and the flag tells whether anything was cut.\<close>

theorem capture_is_exact:
  assumes pipe: "byte_pipe read content" and reach: "reachable read close (new_capture n ss) d"
  shows "(\<forall>i < length ss. length (cap_buffers d ! i) \<le> n \<and> prefix (cap_buffers d ! i) (content (ss ! i))) \<and>
         (cap_exceeded d \<longrightarrow> (\<exists>i < length ss. n < length (content (ss ! i)))) \<and>
         (readers_ended d \<longrightarrow>
            (\<forall>i < length ss. cap_buffers d ! i = take n (content (ss ! i))) \<and>
            (cap_exceeded d \<longleftrightarrow> (\<exists>i < length ss. n < length (content (ss ! i)))))"
  using capture_facts [OF assms] captured_exactly [OF assms] by blast

text \<open>C34: the readers always come to an end, after a number of turns fixed in advance: no run of
  them, whatever the streams deliver, takes more than the limit plus four turns per stream.\<close>

theorem capture_turns_bounded:
  assumes "(capture_step read close ^^ k) (new_capture n ss) d"
  shows "k \<le> length ss * (n + 4)"
  using steps_bounded [OF assms new_capture_shaped] by (simp add: work_new)

section \<open>A concrete pipe\<close>

text \<open>A pipe that holds what its writer wrote, segment by segment; a read does not cross segments.\<close>

fun segment_read :: "nat \<Rightarrow> string list \<Rightarrow> string res \<times> string list" where
  "segment_read n [] = (Inr [], [])"
| "segment_read n (s # ss) =
     (if s = [] then segment_read n ss
      else (Inr (take n s), if length s \<le> n then ss else drop n s # ss))"

lemma segment_read_ok:
  "0 < n \<Longrightarrow> \<exists>chunk s'. segment_read n ss = (Inr chunk, s') \<and> concat ss = chunk @ concat s' \<and> length chunk \<le> n \<and>
     (chunk = [] \<longrightarrow> concat ss = [])"
  by (induction n ss rule: segment_read.induct) auto

interpretation segments: byte_pipe segment_read concat
  by unfold_locales (rule segment_read_ok)

lemma run_schedule_reachable: "reachable read close c d \<Longrightarrow> reachable read close c (run_schedule read close is d)"
proof (induction "is" arbitrary: d)
  case Nil
  then show ?case by simp
next
  case (Cons i "is")
  then show ?case by (auto intro: reachable.step capture_step.intros)
qed

definition demo_capture :: "string list capture" where
  "demo_capture = run_schedule segment_read (\<lambda>_. None) [0, 1, 0, 1, 0, 1, 0, 1, 0, 0, 1] (new_capture 4 [[''ab'', ''cde''], [''x'']])"

lemma capture_is_exact_witness:
  "cap_buffers demo_capture ! 0 = take 4 ''abcde'' \<and> cap_exceeded demo_capture"
proof -
  have r: "reachable segment_read (\<lambda>_. None) (new_capture 4 [[''ab'', ''cde''], [''x'']]) demo_capture"
    unfolding demo_capture_def by (rule run_schedule_reachable) (rule reachable.start)
  have ended: "readers_ended demo_capture"
    by (simp add: demo_capture_def readers_ended_def reader_step_def read_turn_def READ_CHUNK_def new_capture_def)
  let ?ss = "[[''ab'', ''cde''], [''x'']]"
  have full: "cap_buffers demo_capture ! i = take 4 (concat (?ss ! i))" if "i < length ?ss" for i
    using capture_is_exact [OF segments.byte_pipe_axioms r] ended that by blast
  have flag: "cap_exceeded demo_capture \<longleftrightarrow> (\<exists>i < length ?ss. 4 < length (concat (?ss ! i)))"
    using capture_is_exact [OF segments.byte_pipe_axioms r] ended by blast
  have "\<exists>i < length ?ss. 4 < length (concat (?ss ! i))" by (rule exI [of _ 0]) simp
  with full [of 0] flag show ?thesis by simp
qed

lemma capture_turns_bounded_witness: "(2::nat) \<le> length [[''ab'']] * (4 + 4)"
proof -
  let ?c = "new_capture 4 [[''ab'']]"
  let ?d = "reader_step segment_read (\<lambda>_. None) 0 ?c"
  let ?e = "reader_step segment_read (\<lambda>_. None) 0 ?d"
  have "capture_step segment_read (\<lambda>_. None) ?c ?d" by (rule capture_step.intros) (simp_all add: new_capture_def)
  moreover have "capture_step segment_read (\<lambda>_. None) ?d ?e"
    by (rule capture_step.intros) (simp_all add: new_capture_def reader_step_def read_turn_def READ_CHUNK_def)
  ultimately have "(capture_step segment_read (\<lambda>_. None) ^^ 2) ?c ?e"
    by (auto simp: numeral_2_eq_2 relcompp.simps)
  from capture_turns_bounded [OF this] show ?thesis by simp
qed

end
