(* ===== verification/PosixProcess.thy ===== *)
theory PosixProcess
  imports Capture
begin

text \<open>
  The POSIX side of \<open>scripts/rust-port/bounded_oracle_process.py\<close>: the observation of the group
  leader (\<open>_leader_exited_without_reaping\<close>), group signals (\<open>_signal_group\<close>), the closing of the pipes
  (\<open>_close_streams\<close>), the cleanup (\<open>_cleanup_posix\<close>), the polling loop and the result (\<open>_run_posix\<close>).

  The operating system answers from scripts, one queue per call, and every call is recorded in order;
  a theorem over all scripts is a theorem over all behaviours of the system. A queue that is empty
  gives the answer of an undisturbed system (the leader runs, a signal is delivered, the leader is
  reaped with 0, the readers end).
\<close>

section \<open>The host\<close>

datatype waitid_answer = Interrupted | Exited bool | WaitidFailed string

datatype kill_answer = Delivered | NoSuchProcess | NotPermitted | KillFailed string

datatype wait_answer = Reaped int | TimeoutExpired | WaitFailed string

datatype close_answer = Closes | CloseFails string bool

datatype sig = SIGTERM | SIGKILL

datatype event =
    ObserveLeader int
  | SignalGroup int sig
  | SignalLeader int sig
  | Grace
  | WaitLeader
  | JoinReaders
  | CloseStream nat

record host =
  waitids :: "waitid_answer list"
  killpgs :: "kill_answer list"
  kills :: "kill_answer list"
  waits :: "wait_answer list"
  joins :: "bool list"
  trace :: "event list"

definition record_event :: "event \<Rightarrow> host \<Rightarrow> host" where
  "record_event e h = h\<lparr>trace := trace h @ [e]\<rparr>"

definition next_answer :: "'a \<Rightarrow> 'a list \<Rightarrow> 'a" where
  "next_answer d xs = (case xs of [] \<Rightarrow> d | x # _ \<Rightarrow> x)"

section \<open>The leader\<close>

text \<open>\<open>os.waitid\<close> with \<open>WNOWAIT\<close>, again after an interrupt; it never reaps.\<close>

function leader_exited :: "int \<Rightarrow> host \<Rightarrow> bool res \<times> host" where
  "leader_exited pid h =
     (let h' = record_event (ObserveLeader pid) (h\<lparr>waitids := tl (waitids h)\<rparr>) in
      case waitids h of
        [] \<Rightarrow> (Inr False, h')
      | Interrupted # _ \<Rightarrow> leader_exited pid h'
      | Exited b # _ \<Rightarrow> (Inr b, h')
      | WaitidFailed m # _ \<Rightarrow> (Inl (OSError m), h'))"
  by pat_completeness auto

termination
  by (relation "measure (\<lambda>(_, h). length (waitids h))") (auto simp: record_event_def)

declare leader_exited.simps [simp del]

definition killpg :: "int \<Rightarrow> sig \<Rightarrow> host \<Rightarrow> kill_answer \<times> host" where
  "killpg pgid s h = (next_answer Delivered (killpgs h), record_event (SignalGroup pgid s) (h\<lparr>killpgs := tl (killpgs h)\<rparr>))"

definition kill_leader :: "int \<Rightarrow> sig \<Rightarrow> host \<Rightarrow> kill_answer \<times> host" where
  "kill_leader pid s h = (next_answer Delivered (kills h), record_event (SignalLeader pid s) (h\<lparr>kills := tl (kills h)\<rparr>))"

definition sig_text :: "sig \<Rightarrow> string" where
  "sig_text s = (case s of SIGTERM \<Rightarrow> ''15'' | SIGKILL \<Rightarrow> ''9'')"

text \<open>The direct signal to the leader, the fallback where the group refuses.\<close>

definition signal_leader :: "int \<Rightarrow> sig \<Rightarrow> host \<Rightarrow> string list \<times> host" where
  "signal_leader pgid s h =
     (case kill_leader pgid s h of
        (KillFailed m, h') \<Rightarrow> ([msg [''killpg and direct leader signal failed ('', sig_text s, ''): '', m]], h')
      | (NotPermitted, h') \<Rightarrow> ([msg [''killpg and direct leader signal failed ('', sig_text s, ''): not permitted'']], h')
      | (_, h') \<Rightarrow> ([], h'))"

definition signal_group :: "int \<Rightarrow> sig \<Rightarrow> bool \<Rightarrow> host \<Rightarrow> string list \<times> host" where
  "signal_group pgid s exited h =
     (case killpg pgid s h of
        (Delivered, h1) \<Rightarrow> ([], h1)
      | (NoSuchProcess, h1) \<Rightarrow> ([], h1)
      | (NotPermitted, h1) \<Rightarrow>
          if exited then ([], h1)
          else (case leader_exited pgid h1 of
                  (Inr True, h2) \<Rightarrow> ([], h2)
                | (_, h2) \<Rightarrow> signal_leader pgid s h2)
      | (KillFailed m, h1) \<Rightarrow> ([msg [''killpg('', str_int pgid, '', '', sig_text s, '') failed: '', m]], h1))"

section \<open>The pipes\<close>

record pipe =
  is_closed :: bool
  answers :: "close_answer list"

text \<open>One attempt to close; a failed close may leave the stream closed or open.\<close>

definition close_attempt :: "nat \<Rightarrow> pipe \<Rightarrow> string list \<times> pipe" where
  "close_attempt attempt p =
     (if is_closed p then ([], p)
      else case next_answer Closes (answers p) of
        Closes \<Rightarrow> ([], p\<lparr>is_closed := True, answers := tl (answers p)\<rparr>)
      | CloseFails m shut \<Rightarrow>
          ([msg [''pipe close attempt '', str_nat attempt, '' failed: '', m]],
           p\<lparr>is_closed := shut, answers := tl (answers p)\<rparr>))"

definition close_stream :: "pipe option \<Rightarrow> string list \<times> pipe option" where
  "close_stream stream =
     (case stream of
        None \<Rightarrow> ([], None)
      | Some p \<Rightarrow>
          (case close_attempt 1 p of (e1, p1) \<Rightarrow>
             if is_closed p1 then (e1, Some p1)
             else case close_attempt 2 p1 of (e2, p2) \<Rightarrow> (e1 @ e2, Some p2)))"

definition close_streams :: "pipe option list \<Rightarrow> bool \<times> string list \<times> pipe option list" where
  "close_streams ss =
     (let rs = map close_stream ss; after = map snd rs in
      (list_all (\<lambda>s. case s of None \<Rightarrow> True | Some p \<Rightarrow> is_closed p) after, concat (map fst rs), after))"

section \<open>Cleanup\<close>

record proc =
  pid :: int
  returncode :: "int option"
  pipes :: "pipe option list"

definition signals :: "int \<Rightarrow> bool \<Rightarrow> host \<Rightarrow> string list \<times> host" where
  "signals pgid exited h =
     (case signal_group pgid SIGTERM exited h of (e1, h1) \<Rightarrow>
      case leader_exited pgid (record_event Grace h1) of
        (Inl e, h2) \<Rightarrow> (e1 @ [msg [''could not reconfirm process-group leader identity: '', exc_text e]], h2)
      | (Inr exited', h2) \<Rightarrow>
          (case signal_group pgid SIGKILL exited' h2 of (e2, h3) \<Rightarrow> (e1 @ e2, h3)))"

definition wait_leader :: "proc \<Rightarrow> host \<Rightarrow> string list \<times> proc \<times> host" where
  "wait_leader p h =
     (let h' = record_event WaitLeader (h\<lparr>waits := tl (waits h)\<rparr>) in
      case next_answer (Reaped 0) (waits h) of
        Reaped r \<Rightarrow> ([], p\<lparr>returncode := Some r\<rparr>, h')
      | TimeoutExpired \<Rightarrow> ([''process-group leader was not reaped within cleanup bound''], p, h')
      | WaitFailed m \<Rightarrow> ([msg [''leader wait failed: '', m]], p, h'))"

definition join_readers :: "host \<Rightarrow> bool \<times> host" where
  "join_readers h = (next_answer True (joins h), record_event JoinReaders (h\<lparr>joins := tl (joins h)\<rparr>))"

definition cleanup_posix :: "proc \<Rightarrow> host \<Rightarrow> bool \<times> string list \<times> proc \<times> host" where
  "cleanup_posix p h =
     (let pgid = pid p in
      case (case leader_exited pgid h of
              (Inl e, h1) \<Rightarrow> ([msg [''could not retain process-group leader identity: '', exc_text e]], h1)
            | (Inr exited, h1) \<Rightarrow> signals pgid exited h1) of (errs, h2) \<Rightarrow>
      case wait_leader p h2 of (e2, p2, h3) \<Rightarrow>
      case join_readers h3 of (readers_done, h4) \<Rightarrow>
        let e3 = (if readers_done then [] else [''capture reader did not terminate after process-group cleanup'']) in
      case close_streams (pipes p2) of (pipes_closed, e4, pipes') \<Rightarrow>
        let errors = errs @ e2 @ e3 @ e4; p3 = p2\<lparr>pipes := pipes'\<rparr> in
        (returncode p3 \<noteq> None \<and> readers_done \<and> pipes_closed \<and> errors = [], errors, p3, h4))"

section \<open>The polling loop\<close>

text \<open>What the loop sees in one round: the clock, the flag and the failures of the capture, and whether
  the leader has exited.\<close>

record observation =
  now :: rat
  seen_exceeded :: bool
  failures :: "pyexc list"
  leader :: "bool res"

datatype outcome = TimedOut | OutputExceeded | OperationError pyexc | LeaderExited

definition poll_round :: "rat \<Rightarrow> observation \<Rightarrow> outcome option" where
  "poll_round deadline o1 =
     (if deadline \<le> now o1 then Some TimedOut
      else if seen_exceeded o1 then Some OutputExceeded
      else case failures o1 of
        e # _ \<Rightarrow> Some (OperationError e)
      | [] \<Rightarrow> (case leader o1 of Inl e \<Rightarrow> Some (OperationError e) | Inr True \<Rightarrow> Some LeaderExited | Inr False \<Rightarrow> None))"

partial_function (option) poll :: "rat \<Rightarrow> (nat \<Rightarrow> observation) \<Rightarrow> nat \<Rightarrow> outcome option" where
  "poll deadline obs i =
     (case poll_round deadline (obs i) of Some r \<Rightarrow> Some r | None \<Rightarrow> poll deadline obs (Suc i))"

section \<open>The result\<close>

record run_result =
  res_returncode :: "int option"
  res_stdout :: string
  res_stderr :: string
  timed_out :: bool
  output_exceeded :: bool
  cleanup_verified :: bool

text \<open>\<open>BoundedProcessError\<close> carries the result it retains; any other exception is \<open>Raised\<close>.\<close>

datatype run_error = BoundedProcessError string "run_result option" | Raised pyexc

definition make_result :: "proc \<Rightarrow> 's capture \<Rightarrow> bool \<Rightarrow> bool \<Rightarrow> bool \<Rightarrow> bool \<Rightarrow> run_result" where
  "make_result p c merge timed exceeded verified =
     \<lparr>res_returncode = returncode p, res_stdout = fst (raw c merge), res_stderr = snd (raw c merge),
      timed_out = timed, output_exceeded = exceeded, cleanup_verified = verified\<rparr>"

text \<open>After the loop: cleanup, the result with the final state of the capture, and the error that keeps
  it where anything failed. \<open>c\<close> is the capture after the readers were joined.\<close>

definition finish_posix ::
    "bool \<Rightarrow> proc \<Rightarrow> host \<Rightarrow> outcome \<Rightarrow> 's capture \<Rightarrow> run_error + run_result" where
  "finish_posix merge p h out c =
     (case cleanup_posix p h of (verified, cleanup_errors, p', _) \<Rightarrow>
      let result = make_result p' c merge (out = TimedOut) (out = OutputExceeded \<or> cap_exceeded c) verified;
          op = (case out of OperationError e \<Rightarrow> [exc_text e] | _ \<Rightarrow> []) in
      if op \<noteq> [] \<or> cap_errors c \<noteq> [] \<or> cleanup_errors \<noteq> []
      then Inl (BoundedProcessError (msg [''bounded process execution failed: '',
             join ''; '' (op @ map exc_text (cap_errors c) @ cleanup_errors)]) (Some result))
      else Inr result)"

definition run_posix ::
    "bool \<Rightarrow> (pyexc + proc) \<Rightarrow> rat \<Rightarrow> (nat \<Rightarrow> observation) \<Rightarrow> bool \<Rightarrow> host \<Rightarrow> 's capture \<Rightarrow> (run_error + run_result) option" where
  "run_posix waitid_available popen deadline obs merge h c =
     (if \<not> waitid_available
      then Some (Inl (Raised (RuntimeError ''safe POSIX process-group cleanup requires waitid(WNOWAIT)'')))
      else case popen of
        Inl e \<Rightarrow> Some (Inl (Raised e))
      | Inr p \<Rightarrow> map_option (\<lambda>out. finish_posix merge p h out c) (poll deadline obs 0))"

section \<open>Lemmas on the calls\<close>

text \<open>Only observations of the leader are recorded, at least one; nothing is reaped.\<close>

lemma leader_exited_trace:
  "leader_exited p h = (r, h') \<Longrightarrow>
     \<exists>k. trace h' = trace h @ replicate (Suc k) (ObserveLeader p) \<and> killpgs h' = killpgs h \<and> kills h' = kills h \<and>
       waits h' = waits h \<and> joins h' = joins h"
proof (induction p h rule: leader_exited.induct)
  case (1 p h)
  define h1 where "h1 = record_event (ObserveLeader p) (h\<lparr>waitids := tl (waitids h)\<rparr>)"
  have tr: "trace h1 = trace h @ [ObserveLeader p]" "killpgs h1 = killpgs h" "kills h1 = kills h" "waits h1 = waits h" "joins h1 = joins h"
    by (simp_all add: h1_def record_event_def)
  show ?case
  proof (cases "\<exists>ws. waitids h = Interrupted # ws")
    case True
    then obtain ws where w: "waitids h = Interrupted # ws" by blast
    from 1(2) w have "leader_exited p h1 = (r, h')"
      by (simp add: leader_exited.simps [of p h] Let_def h1_def)
    with 1(1) [OF h1_def w refl] obtain k where k: "trace h' = trace h1 @ replicate (Suc k) (ObserveLeader p)"
      "killpgs h' = killpgs h1" "kills h' = kills h1" "waits h' = waits h1" "joins h' = joins h1" by blast
    have "trace h' = trace h @ replicate (Suc (Suc k)) (ObserveLeader p)" using k(1) tr(1) by simp
    with k tr show ?thesis by metis
  next
    case False
    with 1(2) have "h' = h1"
      by (auto simp: leader_exited.simps [of p h] Let_def h1_def split: list.splits waitid_answer.splits)
    with tr show ?thesis by (intro exI [of _ 0]) simp
  qed
qed

fun is_signal :: "event \<Rightarrow> bool" where
  "is_signal (SignalGroup _ _) = True"
| "is_signal (SignalLeader _ _) = True"
| "is_signal _ = False"

fun signals_with :: "int \<Rightarrow> sig \<Rightarrow> event \<Rightarrow> bool" where
  "signals_with p s (SignalGroup q t) = (q = p \<and> t = s)"
| "signals_with p s (SignalLeader q t) = (q = p \<and> t = s)"
| "signals_with p s (ObserveLeader q) = (q = p)"
| "signals_with p s _ = False"

lemma signal_leader_trace:
  "signal_leader p s h = (errs, h') \<Longrightarrow> trace h' = trace h @ [SignalLeader p s] \<and> waits h' = waits h \<and> joins h' = joins h"
  by (auto simp: signal_leader_def kill_leader_def record_event_def split: kill_answer.splits prod.splits)

text \<open>A group signal starts with \<open>killpg\<close> and is followed by at most observations and the fallback to
  the leader, all of the same process and signal.\<close>

lemma signal_group_trace:
  assumes "signal_group p s b h = (errs, h')"
  shows "\<exists>es. trace h' = trace h @ SignalGroup p s # es \<and> (\<forall>e \<in> set es. signals_with p s e) \<and> waits h' = waits h \<and> joins h' = joins h"
proof -
  define h1 where "h1 = record_event (SignalGroup p s) (h\<lparr>killpgs := tl (killpgs h)\<rparr>)"
  have tr: "trace h1 = trace h @ [SignalGroup p s]" "waits h1 = waits h" "joins h1 = joins h"
    by (simp_all add: h1_def record_event_def)
  have kp: "killpg p s h = (next_answer Delivered (killpgs h), h1)" by (simp add: killpg_def h1_def)
  show ?thesis
  proof (cases "next_answer Delivered (killpgs h) = NotPermitted \<and> \<not> b")
    case False
    with assms kp have "h' = h1" by (auto simp: signal_group_def split: kill_answer.splits)
    with tr show ?thesis by simp
  next
    case True
    obtain r h2 where l: "leader_exited p h1 = (r, h2)" by fastforce
    from leader_exited_trace [OF l] obtain k where k: "trace h2 = trace h1 @ replicate (Suc k) (ObserveLeader p)"
      "waits h2 = waits h1" "joins h2 = joins h1" by blast
    show ?thesis
    proof (cases "r = Inr True")
      case t: True
      with True assms kp l have "h' = h2" by (simp add: signal_group_def)
      with k tr show ?thesis by (intro exI [of _ "replicate (Suc k) (ObserveLeader p)"]) auto
    next
      case f: False
      with True assms kp l have "signal_leader p s h2 = (errs, h')"
        by (auto simp: signal_group_def split: sum.splits bool.splits)
      from signal_leader_trace [OF this] k tr show ?thesis
        by (intro exI [of _ "replicate (Suc k) (ObserveLeader p) @ [SignalLeader p s]"]) auto
    qed
  qed
qed

section \<open>Pipes\<close>

lemma close_stream_no_error:
  "close_stream s = ([], s') \<Longrightarrow> (case s' of None \<Rightarrow> True | Some p \<Rightarrow> is_closed p)"
  by (auto simp: close_stream_def close_attempt_def split: option.splits if_splits close_answer.splits prod.splits)

lemma close_streams_no_error:
  assumes "close_streams ss = (b, [], ss')"
  shows "b"
proof -
  from assms have none: "\<forall>s \<in> set ss. fst (close_stream s) = []"
    and b: "b = list_all (\<lambda>s. case s of None \<Rightarrow> True | Some p \<Rightarrow> is_closed p) (map snd (map close_stream ss))"
    by (auto simp: close_streams_def Let_def)
  have "case snd (close_stream s) of None \<Rightarrow> True | Some p \<Rightarrow> is_closed p" if "s \<in> set ss" for s
    using none that close_stream_no_error [of s "snd (close_stream s)"] by (metis prod.collapse)
  with b show ?thesis by (simp add: list_all_iff)
qed

section \<open>What cleanup guarantees\<close>

lemma wait_leader_facts:
  "wait_leader p h = (errs, p', h') \<Longrightarrow> trace h' = trace h @ [WaitLeader] \<and> pid p' = pid p \<and> pipes p' = pipes p \<and>
     joins h' = joins h \<and> (errs = [] \<longrightarrow> returncode p' \<noteq> None)"
  by (auto simp: wait_leader_def Let_def record_event_def split: wait_answer.splits)

lemma join_readers_facts:
  "join_readers h = (b, h') \<Longrightarrow> trace h' = trace h @ [JoinReaders] \<and> b = next_answer True (joins h)"
  by (auto simp: join_readers_def record_event_def)

text \<open>The parts of a cleanup: its identity and signal phase, the wait, the join and the pipes.\<close>

definition signal_phase :: "int \<Rightarrow> host \<Rightarrow> string list \<times> host" where
  "signal_phase pgid h =
     (case leader_exited pgid h of
        (Inl e, h1) \<Rightarrow> ([msg [''could not retain process-group leader identity: '', exc_text e]], h1)
      | (Inr exited, h1) \<Rightarrow> signals pgid exited h1)"

lemma cleanup_parts:
  assumes "cleanup_posix p h = (v, errs, p', h')"
  obtains e1 h1 e2 p2 h2 b c e4 pp where
    "signal_phase (pid p) h = (e1, h1)" "wait_leader p h1 = (e2, p2, h2)" "join_readers h2 = (b, h')"
    "close_streams (pipes p2) = (c, e4, pp)" "p' = p2\<lparr>pipes := pp\<rparr>"
    "errs = e1 @ e2 @ (if b then [] else [''capture reader did not terminate after process-group cleanup'']) @ e4"
    "v \<longleftrightarrow> returncode p2 \<noteq> None \<and> b \<and> c \<and> errs = []"
proof -
  obtain e1 h1 where s: "signal_phase (pid p) h = (e1, h1)" by fastforce
  obtain e2 p2 h2 where w: "wait_leader p h1 = (e2, p2, h2)" by (cases "wait_leader p h1") auto
  obtain b h3 where j: "join_readers h2 = (b, h3)" by fastforce
  obtain c e4 pp where k: "close_streams (pipes p2) = (c, e4, pp)" by (cases "close_streams (pipes p2)") auto
  from assms show thesis
    unfolding cleanup_posix_def Let_def signal_phase_def [symmetric] s w j k prod.case
    using that [OF s w _ k] j by auto
qed

lemma signals_trace:
  assumes "signals p b h = (errs, h')"
  shows "\<exists>ts m ks. trace h' = trace h @ SignalGroup p SIGTERM # ts @ [Grace] @ replicate (Suc m) (ObserveLeader p) @ ks \<and>
           (\<forall>e \<in> set ts. signals_with p SIGTERM e) \<and> (\<forall>e \<in> set ks. signals_with p SIGKILL e)"
proof -
  obtain e1 h1 where g: "signal_group p SIGTERM b h = (e1, h1)" by fastforce
  obtain r h2 where l: "leader_exited p (record_event Grace h1) = (r, h2)" by fastforce
  from signal_group_trace [OF g] obtain ts where ts: "trace h1 = trace h @ SignalGroup p SIGTERM # ts" "\<forall>e \<in> set ts. signals_with p SIGTERM e" by blast
  from leader_exited_trace [OF l] obtain m where m: "trace h2 = trace h1 @ Grace # replicate (Suc m) (ObserveLeader p)"
    by (auto simp: record_event_def)
  have base: "trace h2 = trace h @ SignalGroup p SIGTERM # ts @ [Grace] @ replicate (Suc m) (ObserveLeader p)"
    using ts(1) m by simp
  show ?thesis
  proof (cases r)
    case (Inl e)
    with assms g l have "h' = h2" by (simp add: signals_def)
    with base ts(2) show ?thesis by (intro exI [of _ ts] exI [of _ m] exI [of _ "[]"]) simp
  next
    case (Inr b')
    obtain e2 h3 where k: "signal_group p SIGKILL b' h2 = (e2, h3)" by fastforce
    with assms g l Inr have "h' = h3" by (simp add: signals_def)
    moreover from signal_group_trace [OF k] obtain ks where "trace h3 = trace h2 @ SignalGroup p SIGKILL # ks"
      "\<forall>e \<in> set ks. signals_with p SIGKILL e" by blast
    ultimately show ?thesis using base ts(2)
      by (intro exI [of _ ts] exI [of _ m] exI [of _ "SignalGroup p SIGKILL # ks"]) simp
  qed
qed

lemma signal_phase_trace:
  assumes "signal_phase p h = (errs, h')"
  shows "\<exists>k before. trace h' = trace h @ replicate (Suc k) (ObserveLeader p) @ before \<and>
      (before = [] \<or> (\<exists>ts m ks. before = SignalGroup p SIGTERM # ts @ [Grace] @ replicate (Suc m) (ObserveLeader p) @ ks \<and>
           (\<forall>e \<in> set ts. signals_with p SIGTERM e) \<and> (\<forall>e \<in> set ks. signals_with p SIGKILL e))) \<and>
      (\<forall>e. fst (leader_exited p h) = Inl e \<longrightarrow> before = [])"
proof -
  obtain r h1 where l: "leader_exited p h = (r, h1)" by fastforce
  from leader_exited_trace [OF l] obtain k where k: "trace h1 = trace h @ replicate (Suc k) (ObserveLeader p)" by blast
  show ?thesis
  proof (cases r)
    case (Inl e)
    with assms l have "h' = h1" by (simp add: signal_phase_def)
    with k show ?thesis by (intro exI [of _ k] exI [of _ "[]"]) simp
  next
    case (Inr b)
    with assms l have "signals p b h1 = (errs, h')" by (simp add: signal_phase_def)
    from signals_trace [OF this] obtain ts m ks where
      t: "trace h' = trace h1 @ SignalGroup p SIGTERM # ts @ [Grace] @ replicate (Suc m) (ObserveLeader p) @ ks"
      "\<forall>e \<in> set ts. signals_with p SIGTERM e" "\<forall>e \<in> set ks. signals_with p SIGKILL e" by blast
    show ?thesis
      using t k l Inr
      by (intro exI [of _ k] exI [of _ "SignalGroup p SIGTERM # ts @ [Grace] @ replicate (Suc m) (ObserveLeader p) @ ks"]) auto
  qed
qed


lemma cleanup_no_error_verified:
  assumes "cleanup_posix p h = (v, [], p', h')"
  shows "v \<and> returncode p' \<noteq> None \<and> (\<forall>s \<in> set (pipes p'). case s of None \<Rightarrow> True | Some q \<Rightarrow> is_closed q)"
proof -
  from assms obtain e1 h1 e2 p2 h2 b c e4 pp where w: "wait_leader p h1 = (e2, p2, h2)"
    and k: "close_streams (pipes p2) = (c, e4, pp)" and p': "p' = p2\<lparr>pipes := pp\<rparr>"
    and e: "[] = e1 @ e2 @ (if b then [] else [''capture reader did not terminate after process-group cleanup'']) @ e4"
    and v: "v \<longleftrightarrow> returncode p2 \<noteq> None \<and> b \<and> c \<and> ([]::string list) = []"
    by (rule cleanup_parts)
  from e have "e2 = []" "e4 = []" "b" by (auto split: if_splits)
  moreover with k close_streams_no_error have "c" by blast
  moreover have "returncode p2 \<noteq> None" using wait_leader_facts [OF w] \<open>e2 = []\<close> by blast
  moreover have "c \<longleftrightarrow> (\<forall>s \<in> set pp. case s of None \<Rightarrow> True | Some q \<Rightarrow> is_closed q)"
    using k by (auto simp: close_streams_def Let_def list_all_iff)
  ultimately show ?thesis using v p' by simp
qed

section \<open>The polling loop\<close>

declare poll.simps [simp del]

definition decides_at :: "rat \<Rightarrow> (nat \<Rightarrow> observation) \<Rightarrow> nat \<Rightarrow> outcome \<Rightarrow> bool" where
  "decides_at deadline obs i r \<longleftrightarrow>
     (\<exists>n \<ge> i. poll_round deadline (obs n) = Some r \<and> (\<forall>m. i \<le> m \<longrightarrow> m < n \<longrightarrow> poll_round deadline (obs m) = None))"

lemma decides_at_Suc:
  assumes "poll_round deadline (obs i) = None" "decides_at deadline obs (Suc i) r"
  shows "decides_at deadline obs i r"
proof -
  from assms(2) obtain n where n: "Suc i \<le> n" "poll_round deadline (obs n) = Some r"
    "\<forall>m. Suc i \<le> m \<longrightarrow> m < n \<longrightarrow> poll_round deadline (obs m) = None" by (auto simp: decides_at_def)
  have "\<forall>m. i \<le> m \<longrightarrow> m < n \<longrightarrow> poll_round deadline (obs m) = None"
    using n(3) assms(1) by (metis Suc_leI le_neq_implies_less)
  with n show ?thesis unfolding decides_at_def by (metis Suc_leD)
qed

lemma poll_result:
  assumes "poll deadline obs i = Some r"
  shows "decides_at deadline obs i r"
proof (rule poll.raw_induct [of decides_at, OF _ assms])
  fix poll' and deadline :: rat and obs :: "nat \<Rightarrow> observation" and i r
  assume ih: "\<And>deadline obs i r. poll' deadline obs i = Some r \<Longrightarrow> decides_at deadline obs i r"
    and eq: "(case poll_round deadline (obs i) of None \<Rightarrow> poll' deadline obs (Suc i) | Some r \<Rightarrow> Some r) = Some r"
  show "decides_at deadline obs i r"
  proof (cases "poll_round deadline (obs i)")
    case (Some s)
    with eq show ?thesis unfolding decides_at_def by (intro exI [of _ i]) auto
  next
    case None
    with eq ih decides_at_Suc [of deadline obs i r] show ?thesis by simp
  qed
qed

lemma poll_decides:
  "poll_round deadline (obs (i + k)) \<noteq> None \<Longrightarrow> \<exists>r. poll deadline obs i = Some r"
proof (induction k arbitrary: i)
  case 0
  then show ?case by (subst poll.simps) auto
next
  case (Suc k)
  have "\<exists>r. poll deadline obs (Suc i) = Some r" using Suc.IH [of "Suc i"] Suc.prems by simp
  then show ?case by (subst poll.simps) (auto split: option.splits)
qed

lemma poll_round_late: "deadline \<le> now o1 \<Longrightarrow> poll_round deadline o1 = Some TimedOut"
  by (simp add: poll_round_def)

lemma poll_timed_out: "poll_round deadline o1 = Some TimedOut \<Longrightarrow> deadline \<le> now o1"
  by (auto simp: poll_round_def split: if_splits list.splits sum.splits bool.splits)

lemma poll_round_exceeded: "poll_round deadline o1 = Some OutputExceeded \<Longrightarrow> seen_exceeded o1"
  by (auto simp: poll_round_def split: if_splits list.splits sum.splits bool.splits)

section \<open>Properties\<close>

text \<open>C33: the polling loop returns. If the clock reaches the deadline in some round, the run has an
  outcome: that of the first round that decides anything, and the run counts as timed out exactly when
  in that round the clock had reached the deadline while every earlier round saw no overflow, no
  failure and a running leader before it.\<close>

theorem polling_returns:
  assumes "deadline \<le> now (obs n)"
  shows "\<exists>out k. run_posix True (Inr p) deadline obs merge h c = Some (finish_posix merge p h out c) \<and>
           k \<le> n \<and> poll_round deadline (obs k) = Some out \<and> (\<forall>m < k. poll_round deadline (obs m) = None) \<and>
           (out = TimedOut \<longleftrightarrow> deadline \<le> now (obs k))"
proof -
  have late: "poll_round deadline (obs n) = Some TimedOut" using assms by (rule poll_round_late)
  then obtain out where out: "poll deadline obs 0 = Some out" using poll_decides [of deadline obs 0 n] by auto
  from poll_result [OF out] obtain k where k: "poll_round deadline (obs k) = Some out" "\<forall>m < k. poll_round deadline (obs m) = None"
    by (auto simp: decides_at_def)
  have "k \<le> n" using k(2) late by (metis linorder_not_less option.distinct(1))
  moreover have "out = TimedOut \<longleftrightarrow> deadline \<le> now (obs k)" using k(1) poll_timed_out poll_round_late by fastforce
  ultimately show ?thesis using out k by (auto simp: run_posix_def)
qed


section \<open>Concrete runs\<close>

definition quiet_host :: host where
  "quiet_host = \<lparr>waitids = [Exited True, Exited True], killpgs = [], kills = [], waits = [Reaped 3], joins = [True], trace = []\<rparr>"

definition demo_proc :: proc where
  "demo_proc = \<lparr>pid = 42, returncode = None, pipes = [None, Some \<lparr>is_closed = True, answers = []\<rparr>]\<rparr>"

definition quick_exit :: "nat \<Rightarrow> observation" where
  "quick_exit k = \<lparr>now = of_nat k, seen_exceeded = False, failures = [], leader = Inr (1 \<le> k)\<rparr>"

definition done_capture :: "string list capture" where
  "done_capture = run_schedule segment_read (\<lambda>_. None) [0, 0, 0, 0] (new_capture 4 [[''ab'']])"


lemma polling_returns_witness:
  "\<exists>out. run_posix True (Inr demo_proc) 5 quick_exit True quiet_host done_capture = Some out"
proof -
  have "(5 :: rat) \<le> now (quick_exit 5)" by (simp add: quick_exit_def)
  from polling_returns [of 5 quick_exit 5, OF this] show ?thesis by blast
qed

lemma done_capture_facts:
  "reachable segment_read (\<lambda>_. None) (new_capture 4 [[''ab'']]) done_capture" "readers_ended done_capture"
  "\<not> cap_exceeded done_capture" "cap_errors done_capture = []"
  unfolding done_capture_def using run_schedule_reachable [OF reachable.start, of segment_read "\<lambda>_. None"]
  by (blast, auto simp: done_capture_def readers_ended_def reader_step_def read_turn_def READ_CHUNK_def new_capture_def)


end
