(* ===== verification/OracleRun.thy ===== *)
theory OracleRun
  imports PosixProcess PyVal
begin

text \<open>
  The entry points of \<open>scripts/rust-port/bounded_oracle_process.py\<close>: the validation of the arguments
  (\<open>_validate\<close>), \<open>run_bounded\<close> and the classification of a run (\<open>run_checked\<close>) with the artifacts it
  retains. The runners of the two platforms are arguments of \<open>run_bounded\<close>.
\<close>

section \<open>Arguments\<close>

datatype command_arg = CmdText string | CmdBytes string | CmdArgs "string list" | CmdOther

datatype number_arg = NInt int | NFloat rat | NInfinite | NNan | NBool bool | NOther

datatype env_arg = EnvNone | EnvMapping "(string \<times> string) list" | EnvOther

record run_args =
  arg_command :: command_arg
  arg_cwd :: "string option"
  arg_env :: env_arg
  arg_timeout :: number_arg
  arg_limit :: number_arg
  arg_merge :: "bool option"

text \<open>A finite positive number that is no \<open>bool\<close>, and a non-negative integer that is no \<open>bool\<close>.\<close>

definition timeout_of :: "number_arg \<Rightarrow> rat option" where
  "timeout_of t =
     (case t of NInt n \<Rightarrow> if n > 0 then Some (of_int n) else None
      | NFloat r \<Rightarrow> if r > 0 then Some r else None
      | _ \<Rightarrow> None)"

definition limit_of :: "number_arg \<Rightarrow> nat option" where
  "limit_of n = (case n of NInt k \<Rightarrow> if k < 0 then None else Some (nat k) | _ \<Rightarrow> None)"

definition command_of :: "command_arg \<Rightarrow> string list option" where
  "command_of c = (case c of CmdArgs (a # as) \<Rightarrow> Some (a # as) | _ \<Rightarrow> None)"

definition validate :: "run_args \<Rightarrow> unit res" where
  "validate a =
     (if command_of (arg_command a) = None then Inl TypeError
      else if timeout_of (arg_timeout a) = None then Inl (ValueError ''timeout must be a finite positive number of seconds'')
      else if limit_of (arg_limit a) = None then Inl (ValueError ''limit must be a non-negative integer'')
      else if arg_merge a = None then Inl TypeError
      else if arg_cwd a = None then Inl TypeError
      else if arg_env a = EnvOther then Inl TypeError
      else Inr ())"

text \<open>A runner gets the command, the deadline, the limit and the merge flag.\<close>

type_synonym runner = "string list \<Rightarrow> rat \<Rightarrow> nat \<Rightarrow> bool \<Rightarrow> (run_error + run_result) option"

definition run_bounded :: "runner \<Rightarrow> runner \<Rightarrow> bool \<Rightarrow> rat \<Rightarrow> run_args \<Rightarrow> (run_error + run_result) option" where
  "run_bounded posix windows is_nt clock a =
     (case validate a of
        Inl e \<Rightarrow> Some (Inl (Raised e))
      | Inr _ \<Rightarrow>
          (let deadline = clock + the (timeout_of (arg_timeout a)) in
           (if is_nt then windows else posix) (the (command_of (arg_command a))) deadline (the (limit_of (arg_limit a)))
             (the (arg_merge a))))"

section \<open>Classification\<close>

record artifact =
  stdout_raw :: string
  stderr_raw :: string
  metadata :: pydict

record completed =
  comp_command :: "string list"
  comp_returncode :: "int option"
  comp_stdout :: string
  comp_stderr :: string

datatype checked_error = RunFailed run_error | CalledProcessError completed

definition error_type :: "run_error \<Rightarrow> string" where
  "error_type e =
     (case e of
        BoundedProcessError _ _ \<Rightarrow> ''BoundedProcessError''
      | Raised (FileNotFoundError _) \<Rightarrow> ''FileNotFoundError''
      | Raised _ \<Rightarrow> ''OSError'')"

definition opt_int :: "int option \<Rightarrow> pyval" where
  "opt_int n = (case n of None \<Rightarrow> VNone | Some k \<Rightarrow> VInt k)"

definition result_items :: "run_result option \<Rightarrow> pydict" where
  "result_items result =
     (case result of
        None \<Rightarrow> []
      | Some r \<Rightarrow> [(''returncode'', opt_int (res_returncode r)), (''timed_out'', VBool (timed_out r)),
                   (''output_exceeded'', VBool (output_exceeded r)), (''cleanup_verified'', VBool (cleanup_verified r))])"

definition clean_result :: "run_result \<Rightarrow> bool" where
  "clean_result r = (\<not> timed_out r \<and> \<not> output_exceeded r \<and> cleanup_verified r)"

definition make_artifact :: "string list \<Rightarrow> rat \<Rightarrow> run_error option \<Rightarrow> run_result option \<Rightarrow> artifact" where
  "make_artifact command timeout err result =
     \<lparr>stdout_raw = (case result of None \<Rightarrow> [] | Some r \<Rightarrow> res_stdout r),
      stderr_raw = (case result of None \<Rightarrow> [] | Some r \<Rightarrow> res_stderr r),
      metadata = result_items result @
        [(''command'', VList (map VStr command)), (''timeout_seconds'', VFloat timeout),
         (''success'', VBool (case result of None \<Rightarrow> False
            | Some r \<Rightarrow> res_returncode r = Some 0 \<and> clean_result r \<and> err = None)),
         (''error_type'', (case err of None \<Rightarrow> VNone | Some e \<Rightarrow> VStr (error_type e)))]\<rparr>"

text \<open>What the two handlers of \<open>run_checked\<close> keep; any other exception passes through.\<close>

definition caught :: "run_error + run_result \<Rightarrow> (run_error option \<times> run_result option) option" where
  "caught run =
     (case run of
        Inr r \<Rightarrow> Some (None, Some r)
      | Inl (BoundedProcessError m res) \<Rightarrow> Some (Some (BoundedProcessError m res), res)
      | Inl (Raised e) \<Rightarrow> if is_os_error e then Some (Some (Raised e), None) else None)"

definition classify :: "bool \<Rightarrow> string list \<Rightarrow> run_error option \<Rightarrow> run_result option \<Rightarrow> checked_error + completed" where
  "classify check_returncode command err result =
     (case err of
        Some e \<Rightarrow> Inl (RunFailed e)
      | None \<Rightarrow>
          (case result of
             None \<Rightarrow> Inl (RunFailed (BoundedProcessError ''bounded executor returned no result'' None))
           | Some r \<Rightarrow>
               if \<not> clean_result r
               then Inl (RunFailed (BoundedProcessError
                 ''command exceeded runtime/output bound or cleanup is unverified'' (Some r)))
               else let done_run = \<lparr>comp_command = command, comp_returncode = res_returncode r, comp_stdout = res_stdout r,
                               comp_stderr = res_stderr r\<rparr> in
                 if check_returncode \<and> res_returncode r \<noteq> Some 0 then Inl (CalledProcessError done_run) else Inr done_run))"

definition run_checked ::
    "bool \<Rightarrow> bool \<Rightarrow> string list \<Rightarrow> rat \<Rightarrow> run_error + run_result \<Rightarrow> artifact option \<times> (checked_error + completed)" where
  "run_checked keep check_returncode command timeout run =
     (case caught run of
        None \<Rightarrow> (None, (case run of Inl e \<Rightarrow> Inl (RunFailed e) | Inr r \<Rightarrow> classify check_returncode command None (Some r)))
      | Some (err, result) \<Rightarrow>
          ((if keep then Some (make_artifact command timeout err result) else None),
           classify check_returncode command err result))"

section \<open>Properties\<close>

lemma validate_Inr:
  "validate a = Inr () \<longleftrightarrow>
     (\<exists>c t n m d. command_of (arg_command a) = Some c \<and> timeout_of (arg_timeout a) = Some t \<and> limit_of (arg_limit a) = Some n \<and>
        arg_merge a = Some m \<and> arg_cwd a = Some d) \<and> arg_env a \<noteq> EnvOther"
  by (auto simp: validate_def split: if_splits)

text \<open>no process is started with bad arguments. A runner is called exactly when the command is a
  non-empty argument list and no shell string, the timeout a finite positive number, the limit a
  non-negative integer, neither of them a boolean, the merge flag a boolean, a working directory given
  and the environment a mapping or absent; it then gets that command, the clock plus the timeout as
  deadline, the limit and the flag. Otherwise the exception is the answer, whatever the runners do.\<close>

theorem run_bounded_validates_first:
  "run_bounded posix windows is_nt clock a =
     (if (\<exists>c t n m d. command_of (arg_command a) = Some c \<and> timeout_of (arg_timeout a) = Some t \<and> t > 0 \<and>
            limit_of (arg_limit a) = Some n \<and> arg_merge a = Some m \<and> arg_cwd a = Some d) \<and> arg_env a \<noteq> EnvOther
      then (if is_nt then windows else posix) (the (command_of (arg_command a))) (clock + the (timeout_of (arg_timeout a)))
             (the (limit_of (arg_limit a))) (the (arg_merge a))
      else Some (Inl (Raised (projl (validate a)))))"
proof -
  have pos: "timeout_of t = Some r \<Longrightarrow> r > 0" for t r
    by (auto simp: timeout_of_def split: number_arg.splits if_splits)
  show ?thesis
  proof (cases "validate a")
    case (Inl e)
    then have "\<not> (validate a = Inr ())" by simp
    with Inl show ?thesis unfolding validate_Inr by (auto simp: run_bounded_def)
  next
    case (Inr u)
    then have "validate a = Inr ()" by simp
    with pos show ?thesis unfolding validate_Inr by (auto simp: run_bounded_def Inr)
  qed
qed

text \<open>\<open>run_checked\<close> hands a command on as completed exactly when the run returned a result that
  neither timed out nor exceeded its output bound and whose cleanup is verified, and, where the return
  code is checked, with return code 0; the completed command carries the return code and the captured
  bytes of the run. In that case the retained record calls the run a success exactly if the return
  code is 0, and it is retained too when the run failed inside the bounded runner, with the bytes the
  error kept.\<close>

theorem run_checked_accepts_only_clean_runs:
  "(snd (run_checked keep check_returncode command timeout run) = Inr cp \<longleftrightarrow>
      (\<exists>r. run = Inr r \<and> \<not> timed_out r \<and> \<not> output_exceeded r \<and> cleanup_verified r \<and>
         (check_returncode \<longrightarrow> res_returncode r = Some 0) \<and>
         cp = \<lparr>comp_command = command, comp_returncode = res_returncode r, comp_stdout = res_stdout r, comp_stderr = res_stderr r\<rparr>)) \<and>
   (\<forall>r. run = Inr r \<longrightarrow> (\<exists>a. fst (run_checked True check_returncode command timeout run) = Some a \<and>
      stdout_raw a = res_stdout r \<and> stderr_raw a = res_stderr r \<and>
      dget (metadata a) ''success'' = VBool (res_returncode r = Some 0 \<and> clean_result r))) \<and>
   (\<forall>m r. run = Inl (BoundedProcessError m (Some r)) \<longrightarrow> (\<exists>a. fst (run_checked True check_returncode command timeout run) = Some a \<and>
      stdout_raw a = res_stdout r \<and> stderr_raw a = res_stderr r \<and> dget (metadata a) ''success'' = VBool False))"
  by (cases run)
    (auto simp: run_checked_def caught_def classify_def clean_result_def make_artifact_def result_items_def dget_def Let_def
      split: run_error.splits)

section \<open>Concrete arguments\<close>

lemma run_checked_accepts_only_clean_runs_witness:
  "snd (run_checked True True [''git''] 5 (Inr \<lparr>res_returncode = Some 0, res_stdout = ''ok'', res_stderr = [], timed_out = False,
      output_exceeded = False, cleanup_verified = True\<rparr>)) =
   Inr \<lparr>comp_command = [''git''], comp_returncode = Some 0, comp_stdout = ''ok'', comp_stderr = []\<rparr>"
  using run_checked_accepts_only_clean_runs [of True True "[''git'']" 5 "Inr \<lparr>res_returncode = Some 0, res_stdout = ''ok'', res_stderr = [],
    timed_out = False, output_exceeded = False, cleanup_verified = True\<rparr>"] by auto

end
