(* ===== verification/CanonicalJson.thy ===== *)
theory CanonicalJson
  imports PyVal "HOL-Library.Multiset"
begin

text \<open>
  \<open>json.dumps(value, ensure_ascii=False, sort_keys=True, separators=(",", ":")).encode("utf-8")\<close>,
  the canonical text the oracles of \<open>scripts/rust-port\<close> hash and compare (\<open>_canonical_json\<close>): the
  printer, the escapes of its strings, the UTF-8 encoding, and the proof that the text determines the
  value. How a float is printed is the argument \<open>fl\<close>; the uniqueness results are for values without
  floats, as all the digested inventories are.
\<close>

section \<open>The printer\<close>

definition json_char :: "char \<Rightarrow> string" where
  "json_char c =
     (if c = CHR 0x22 then [CHR 0x5C, CHR 0x22]
      else if c = CHR 0x5C then [CHR 0x5C, CHR 0x5C]
      else if c = CHR 0x0A then [CHR 0x5C, CHR ''n'']
      else if c = CHR 0x0D then [CHR 0x5C, CHR ''r'']
      else if c = CHR 0x09 then [CHR 0x5C, CHR ''t'']
      else if c = CHR 0x08 then [CHR 0x5C, CHR ''b'']
      else if c = CHR 0x0C then [CHR 0x5C, CHR ''f'']
      else if (of_char c :: nat) < 32
      then [CHR 0x5C, CHR ''u'', CHR ''0'', CHR ''0'', hex_digit (of_char c div 16), hex_digit (of_char c mod 16)]
      else [c])"

definition json_string :: "string \<Rightarrow> string" where
  "json_string s = CHR 0x22 # concat (map json_char s) @ [CHR 0x22]"

fun json_text :: "(rat \<Rightarrow> string) \<Rightarrow> pyval \<Rightarrow> string" where
  "json_text fl VNone = ''null''"
| "json_text fl (VBool b) = (if b then ''true'' else ''false'')"
| "json_text fl (VInt n) = str_int n"
| "json_text fl (VFloat r) = fl r"
| "json_text fl (VStr s) = json_string s"
| "json_text fl (VList xs) = CHR ''['' # join '','' (map (json_text fl) xs) @ '']''"
| "json_text fl (VDict d) =
     CHR ''{'' # join '','' (map (\<lambda>(k, t). json_string k @ '':'' @ t)
       (sort_key fst (map (\<lambda>(k, v). (k, json_text fl v)) d))) @ ''}''"

definition utf8_char :: "char \<Rightarrow> string" where
  "utf8_char c =
     (let n = (of_char c :: nat) in if n < 128 then [c] else [char_of (192 + n div 64), char_of (128 + n mod 64)])"

definition utf8_encode :: "string \<Rightarrow> string" where
  "utf8_encode s = concat (map utf8_char s)"

definition canonical_json :: "(rat \<Rightarrow> string) \<Rightarrow> pyval \<Rightarrow> string" where
  "canonical_json fl v = utf8_encode (json_text fl v)"

section \<open>Codes that can be read back\<close>

text \<open>A code with a reader for its first symbol is uniquely decodable.\<close>

locale symbol_code =
  fixes encode :: "char \<Rightarrow> string"
    and read :: "string \<Rightarrow> char \<times> string"
  assumes read_encode: "read (encode c @ s) = (c, s)"
begin

lemma encode_not_Nil: "encode c \<noteq> []"
proof
  assume "encode c = []"
  then have "read s = (c, s)" for s using read_encode [of c s] by simp
  moreover obtain d where "d \<noteq> c" by (metis of_char_of char.exhaust char.sel(1))
  moreover have "read (encode d @ []) = (d, [])" by (rule read_encode)
  ultimately show False by (metis prod.inject)
qed

lemma encode_inject: "encode c @ s = encode d @ t \<Longrightarrow> c = d \<and> s = t"
  by (metis prod.inject read_encode)

lemma concat_inject: "concat (map encode x) = concat (map encode y) \<Longrightarrow> x = y"
proof (induction x arbitrary: y)
  case Nil
  then show ?case using encode_not_Nil by (cases y) auto
next
  case (Cons c x)
  then show ?case using encode_not_Nil by (cases y) (auto dest: encode_inject)
qed

text \<open>With an end marker no symbol starts with, the end of the encoded text is found too.\<close>

lemma concat_until_inject:
  assumes mark: "\<And>c. hd (encode c) \<noteq> q"
  shows "concat (map encode x) @ q # s = concat (map encode y) @ q # t \<Longrightarrow> x = y \<and> s = t"
proof (induction x arbitrary: y)
  case Nil
  show ?case
  proof (cases y)
    case (Cons d ys)
    then have "hd (q # s) = hd (encode d)" using Nil encode_not_Nil [of d] by (cases "encode d") auto
    with mark [of d] show ?thesis by simp
  qed (use Nil in simp)
next
  case (Cons c x)
  show ?case
  proof (cases y)
    case Nil
    then have "hd (encode c) = q" using Cons.prems encode_not_Nil [of c] by (cases "encode c") auto
    with mark [of c] show ?thesis by simp
  next
    case y: (Cons d ys)
    with Cons.prems have "encode c @ concat (map encode x) @ q # s = encode d @ concat (map encode ys) @ q # t" by simp
    from encode_inject [OF this] Cons.IH [of ys] y show ?thesis by blast
  qed
qed

end


definition hex_value :: "char \<Rightarrow> nat" where
  "hex_value c = (if is_digit c then of_char c - 48 else of_char c - 87)"

lemma hex_value_digit: "n < 16 \<Longrightarrow> hex_value (hex_digit n) = n"
  by (auto simp: hex_value_def hex_digit_def is_digit_def between_def)

definition escape_of :: "char \<Rightarrow> char" where
  "escape_of d =
     (if d = CHR ''n'' then CHR 0x0A else if d = CHR ''r'' then CHR 0x0D else if d = CHR ''t'' then CHR 0x09
      else if d = CHR ''b'' then CHR 0x08 else if d = CHR ''f'' then CHR 0x0C else d)"

definition read_json_char :: "string \<Rightarrow> char \<times> string" where
  "read_json_char s =
     (if hd s \<noteq> CHR 0x5C then (hd s, tl s)
      else if s ! 1 = CHR ''u'' then (char_of (16 * hex_value (s ! 4) + hex_value (s ! 5)), drop 6 s)
      else (escape_of (s ! 1), drop 2 s))"

lemma of_char_less_256: "(of_char c :: nat) < 256"
  by (metis of_char_mod_256 mod_less_divisor zero_less_numeral)

lemma read_json_char: "read_json_char (json_char c @ s) = (c, s)"
proof (cases "(of_char c :: nat) < 32")
  case True
  have "16 * hex_value (hex_digit (of_char c div 16)) + hex_value (hex_digit (of_char c mod 16)) = of_char c"
    using True by (simp add: hex_value_digit)
  with True show ?thesis by (auto simp: json_char_def read_json_char_def escape_of_def)
next
  case False
  then show ?thesis by (auto simp: json_char_def read_json_char_def escape_of_def)
qed

interpretation escapes: symbol_code json_char read_json_char
  by unfold_locales (rule read_json_char)

definition read_utf8_char :: "string \<Rightarrow> char \<times> string" where
  "read_utf8_char s =
     (if (of_char (hd s) :: nat) < 128 then (hd s, tl s)
      else (char_of (64 * (of_char (hd s) - 192) + (of_char (s ! 1) - 128) :: nat), drop 2 s))"

lemma read_utf8_char: "read_utf8_char (utf8_char c @ s) = (c, s)"
proof (cases "(of_char c :: nat) < 128")
  case True
  then show ?thesis by (simp add: utf8_char_def read_utf8_char_def Let_def)
next
  case False
  have n: "(of_char c :: nat) < 256" by (rule of_char_less_256)
  then have "(of_char c :: nat) div 64 < 4" by (simp add: less_mult_imp_div_less)
  then have "192 + (of_char c :: nat) div 64 < 256" "128 + (of_char c :: nat) mod 64 < 256" by auto
  then have "(of_char (char_of (192 + (of_char c :: nat) div 64) :: char) :: nat) = 192 + of_char c div 64"
    "(of_char (char_of (128 + (of_char c :: nat) mod 64) :: char) :: nat) = 128 + of_char c mod 64" by simp_all
  with False show ?thesis by (simp add: utf8_char_def read_utf8_char_def Let_def)
qed

interpretation utf8_code: symbol_code utf8_char read_utf8_char
  by unfold_locales (rule read_utf8_char)

lemma utf8_encode_inject: "utf8_encode x = utf8_encode y \<Longrightarrow> x = y"
  unfolding utf8_encode_def by (rule utf8_code.concat_inject)

lemma json_char_no_quote: "hd (json_char c) \<noteq> CHR 0x22"
  by (auto simp: json_char_def)

lemma json_string_inject: "json_string x @ s = json_string y @ t \<Longrightarrow> x = y \<and> s = t"
  unfolding json_string_def using escapes.concat_until_inject [OF json_char_no_quote, of x s y t] by simp

section \<open>Numerals\<close>

definition numeral_value :: "string \<Rightarrow> nat" where
  "numeral_value s = foldl (\<lambda>a c. 10 * a + (of_char c - 48)) 0 s"

lemma str_nat_facts: "numeral_value (str_nat n) = n \<and> str_nat n \<noteq> [] \<and> (\<forall>c \<in> set (str_nat n). is_digit c)"
proof (induction n rule: str_nat.induct)
  case (1 n)
  have d: "m < 10 \<Longrightarrow> (of_char (digit_char m) :: nat) = 48 + m \<and> is_digit (digit_char m)" for m
    by (simp add: digit_char_def is_digit_def between_def)
  show ?case
  proof (cases "n < 10")
    case True
    with d [of n] show ?thesis by (simp add: str_nat.simps [of n] numeral_value_def)
  next
    case False
    with 1 d [of "n mod 10"] show ?thesis by (simp add: str_nat.simps [of n] numeral_value_def)
  qed
qed

text \<open>Texts a number must be followed by: the end, or something that is no digit.\<close>

definition no_digit_follows :: "string \<Rightarrow> bool" where
  "no_digit_follows s = (case s of [] \<Rightarrow> True | c # _ \<Rightarrow> \<not> is_digit c)"

lemma str_nat_inject:
  assumes "str_nat n @ s = str_nat m @ t" "no_digit_follows s" "no_digit_follows t"
  shows "n = m \<and> s = t"
proof -
  have tw: "no_digit_follows u \<Longrightarrow> takeWhile is_digit (str_nat k @ u) = str_nat k" for k u
    using str_nat_facts [of k] by (cases u) (simp_all add: no_digit_follows_def takeWhile_append2)
  from tw [OF assms(2), of n] tw [OF assms(3), of m] assms(1) have "str_nat n = str_nat m" by simp
  then have "n = m" using str_nat_facts by metis
  with assms(1) show ?thesis by simp
qed

lemma str_int_inject:
  assumes "str_int n @ s = str_int m @ t" "no_digit_follows s" "no_digit_follows t"
  shows "n = m \<and> s = t"
proof -
  have hd: "str_nat k @ u \<noteq> CHR ''-'' # v" for k u v
    using str_nat_facts [of k] by (cases "str_nat k") (auto simp: is_digit_def between_def)
  consider "n < 0" "m < 0" | "0 \<le> n" "0 \<le> m" | "n < 0" "0 \<le> m" | "0 \<le> n" "m < 0" by linarith
  then show ?thesis
  proof cases
    case 1
    with assms have "str_nat (nat (- n)) @ s = str_nat (nat (- m)) @ t" by (simp add: str_int_def)
    from str_nat_inject [OF this assms(2,3)] 1 show ?thesis by (simp add: nat_eq_iff)
  next
    case 2
    with assms have "str_nat (nat n) @ s = str_nat (nat m) @ t" by (simp add: str_int_def)
    from str_nat_inject [OF this assms(2,3)] 2 show ?thesis by (simp add: nat_eq_iff)
  next
    case 3
    with assms(1) have "str_nat (nat m) @ t = CHR ''-'' # str_nat (nat (- n)) @ s" by (simp add: str_int_def)
    with hd show ?thesis by blast
  next
    case 4
    with assms(1) have "str_nat (nat n) @ s = CHR ''-'' # str_nat (nat (- m)) @ t" by (simp add: str_int_def)
    with hd show ?thesis by blast
  qed
qed


section \<open>The text determines the value\<close>

fun no_float :: "pyval \<Rightarrow> bool" where
  "no_float (VFloat _) = False"
| "no_float (VList xs) = list_all no_float xs"
| "no_float (VDict d) = list_all (\<lambda>(k, v). no_float v) d"
| "no_float _ = True"

definition item_text :: "(rat \<Rightarrow> string) \<Rightarrow> string \<times> pyval \<Rightarrow> string" where
  "item_text fl p = json_string (fst p) @ '':'' @ json_text fl (snd p)"

lemma sort_key_map_same: "(\<And>x. g (f x) = h x) \<Longrightarrow> sort_key g (map f xs) = map f (sort_key h xs)"
proof (induction xs)
  case (Cons x xs)
  have "insort_key g (f x) (map f ys) = map f (insort_key h x ys)" for ys
    by (induction ys) (simp_all add: Cons.prems)
  with Cons show ?case by simp
qed simp


lemma json_text_VDict:
  "json_text fl (VDict d) = CHR ''{'' # join '','' (map (item_text fl) (sort_key fst d)) @ ''}''"
proof -
  have "sort_key fst (map (\<lambda>(k, v). (k, json_text fl v)) d) = map (\<lambda>(k, v). (k, json_text fl v)) (sort_key fst d)"
    by (rule sort_key_map_same) auto
  moreover have "(\<lambda>x. json_string (fst x) @ CHR '':'' # json_text fl (snd x)) = item_text fl"
    by (simp add: fun_eq_iff item_text_def)
  ultimately show ?thesis by (simp add: case_prod_beta comp_def)
qed

lemma json_eq_list_iff: "json_eq_list xs ys \<longleftrightarrow> list_all2 json_eq xs ys"
  by (induction xs arbitrary: ys) (auto split: list.splits simp: list_all2_Cons1)

lemma json_eq_items_iff: "json_eq_items d e \<longleftrightarrow> (\<forall>p \<in> set d. \<exists>w. map_of e (fst p) = Some w \<and> json_eq (snd p) w)"
proof (induction d)
  case (Cons p d)
  obtain k v where p: "p = (k, v)" by (cases p)
  have "json_eq_items (p # d) e \<longleftrightarrow> (\<exists>w. map_of e k = Some w \<and> json_eq v w) \<and> json_eq_items d e"
    by (simp add: p split: option.splits)
  with Cons p show ?case by auto
qed simp

lemma join_Cons_until:
  "join [c] (x # xs) @ q # s = x @ (if xs = [] then q # s else c # join [c] xs @ q # s)"
  by (cases xs) simp_all

lemma join_inject:
  assumes "\<And>x y s t. x \<in> set xs \<Longrightarrow> y \<in> set ys \<Longrightarrow> no_digit_follows s \<Longrightarrow> no_digit_follows t \<Longrightarrow>
      f x @ s = f y @ t \<Longrightarrow> R x y \<and> s = t"
    and "\<And>x. x \<in> set xs \<union> set ys \<Longrightarrow> f x \<noteq> [] \<and> hd (f x) \<noteq> q"
    and q: "\<not> is_digit q" "q \<noteq> CHR '',''"
    and "join '','' (map f xs) @ q # s = join '','' (map f ys) @ q # t"
  shows "list_all2 R xs ys \<and> s = t"
  using assms(1,2,5)
proof (induction xs arbitrary: ys)
  case Nil
  show ?case
  proof (cases ys)
    case (Cons y zs)
    with Nil(3) have "q # s = f y @ (if zs = [] then q # t else CHR '','' # join '','' (map f zs) @ q # t)"
      using join_Cons_until [of "CHR '',''" "f y" "map f zs" q t] by simp
    then have "hd (f y) = q" using Nil(2) [of y] Cons by (cases "f y") auto
    with Nil(2) [of y] Cons show ?thesis by simp
  qed (use Nil in simp)
next
  case (Cons x xs)
  show ?case
  proof (cases ys)
    case Nil
    with Cons.prems(3) have "q # t = f x @ (if xs = [] then q # s else CHR '','' # join '','' (map f xs) @ q # s)"
      using join_Cons_until [of "CHR '',''" "f x" "map f xs" q s] by simp
    then have "hd (f x) = q" using Cons.prems(2) [of x] by (cases "f x") auto
    with Cons.prems(2) [of x] show ?thesis by simp
  next
    case y: (Cons y zs)
    define u where "u = (if xs = [] then q # s else CHR '','' # join '','' (map f xs) @ q # s)"
    define v where "v = (if zs = [] then q # t else CHR '','' # join '','' (map f zs) @ q # t)"
    have "f x @ u = f y @ v"
      using Cons.prems(3) join_Cons_until [of "CHR '',''" "f x" "map f xs" q s] join_Cons_until [of "CHR '',''" "f y" "map f zs" q t]
      by (simp add: y u_def v_def)
    moreover have "no_digit_follows u" "no_digit_follows v"
      using q by (auto simp: u_def v_def no_digit_follows_def is_digit_def between_def)
    ultimately have xy: "R x y" "u = v" using Cons.prems(1) [of x y u v] y by auto
    then have empty: "xs = [] \<longleftrightarrow> zs = []" using q by (auto simp: u_def v_def split: if_splits)
    have "join '','' (map f xs) @ q # s = join '','' (map f zs) @ q # t"
      using xy(2) empty by (auto simp: u_def v_def split: if_splits)
    moreover have "\<And>a b s t. a \<in> set xs \<Longrightarrow> b \<in> set zs \<Longrightarrow> no_digit_follows s \<Longrightarrow> no_digit_follows t \<Longrightarrow>
        f a @ s = f b @ t \<Longrightarrow> R a b \<and> s = t"
      using Cons.prems(1) y by auto
    moreover have "\<And>a. a \<in> set xs \<union> set zs \<Longrightarrow> f a \<noteq> [] \<and> hd (f a) \<noteq> q" using Cons.prems(2) y by auto
    ultimately have "list_all2 R xs zs \<and> s = t" by (rule Cons.IH [rotated 2]) auto
    with xy(1) y show ?thesis by simp
  qed
qed

lemma str_int_head: "str_int n \<noteq> [] \<and> (hd (str_int n) = CHR ''-'' \<or> is_digit (hd (str_int n)))"
proof -
  have "str_nat k \<noteq> [] \<and> is_digit (hd (str_nat k))" for k using str_nat_facts [of k] by simp
  then show ?thesis by (simp add: str_int_def)
qed

definition head_of :: "pyval \<Rightarrow> char \<Rightarrow> bool" where
  "head_of v c =
     (case v of VNone \<Rightarrow> c = CHR ''n'' | VBool b \<Rightarrow> c = (if b then CHR ''t'' else CHR ''f'')
      | VInt n \<Rightarrow> c = CHR ''-'' \<or> is_digit c | VStr s \<Rightarrow> c = CHR 0x22
      | VList xs \<Rightarrow> c = CHR ''['' | VDict d \<Rightarrow> c = CHR ''{'' | VFloat r \<Rightarrow> True)"

lemma json_text_head: "no_float v \<Longrightarrow> json_text fl v \<noteq> [] \<and> head_of v (hd (json_text fl v))"
  using str_int_head by (cases v) (auto simp: head_of_def json_string_def)


lemma head_apart:
  "head_of a c \<Longrightarrow> head_of b c \<Longrightarrow> no_float a \<Longrightarrow> no_float b \<Longrightarrow>
     (a = VNone \<and> b = VNone) \<or> (\<exists>x. a = VBool x \<and> b = VBool x) \<or> (\<exists>x y. a = VInt x \<and> b = VInt y) \<or>
     (\<exists>x y. a = VStr x \<and> b = VStr y) \<or> (\<exists>x y. a = VList x \<and> b = VList y) \<or> (\<exists>x y. a = VDict x \<and> b = VDict y)"
  by (cases a; cases b) (auto simp: head_of_def is_digit_def between_def split: if_splits)

lemma same_kind:
  assumes "no_float a" "no_float b" "json_text fl a @ s = json_text fl b @ t"
  shows "(a = VNone \<and> b = VNone) \<or> (\<exists>x. a = VBool x \<and> b = VBool x) \<or> (\<exists>x y. a = VInt x \<and> b = VInt y) \<or>
     (\<exists>x y. a = VStr x \<and> b = VStr y) \<or> (\<exists>x y. a = VList x \<and> b = VList y) \<or> (\<exists>x y. a = VDict x \<and> b = VDict y)"
proof -
  have "hd (json_text fl a) = hd (json_text fl b)"
    using assms json_text_head by (metis hd_append2)
  with json_text_head [OF assms(1), of fl] json_text_head [OF assms(2), of fl] show ?thesis
    by (intro head_apart [OF _ _ assms(1,2)]) auto
qed

lemma json_text_hd_not: "no_float v \<Longrightarrow> json_text fl v \<noteq> [] \<and> hd (json_text fl v) \<noteq> CHR '']''"
  using json_text_head [of v fl] by (cases v) (auto simp: head_of_def is_digit_def between_def split: if_splits)

lemma item_text_hd_not: "item_text fl p \<noteq> [] \<and> hd (item_text fl p) \<noteq> CHR ''}''"
  by (simp add: item_text_def json_string_def)

lemma item_text_inject:
  assumes "item_text fl p @ s = item_text fl r @ t"
  shows "fst p = fst r \<and> json_text fl (snd p) @ s = json_text fl (snd r) @ t"
proof -
  from assms have "json_string (fst p) @ '':'' @ json_text fl (snd p) @ s = json_string (fst r) @ '':'' @ json_text fl (snd r) @ t"
    by (simp add: item_text_def)
  from json_string_inject [OF this] show ?thesis by simp
qed

lemma list_all2_mem_left: "list_all2 P xs ys \<Longrightarrow> x \<in> set xs \<Longrightarrow> \<exists>y \<in> set ys. P x y"
  by (induction xs ys rule: list_all2_induct) auto

lemma dict_eq_from_sorted:
  assumes "list_all2 (\<lambda>p q. fst p = fst q \<and> json_eq (snd p) (snd q)) (sort_key fst d) (sort_key fst e)"
    and e: "distinct (map fst e)"
  shows "json_eq (VDict d) (VDict e)"
proof -
  have "length d = length e" using list_all2_lengthD [OF assms(1)] by simp
  moreover have "\<exists>w. map_of e (fst p) = Some w \<and> json_eq (snd p) w" if "p \<in> set d" for p
  proof -
    from that have "p \<in> set (sort_key fst d)" by simp
    from list_all2_mem_left [OF assms(1) this] obtain q where "q \<in> set e" "fst p = fst q" "json_eq (snd p) (snd q)" by auto
    with e show ?thesis by (intro exI [of _ "snd q"]) (simp add: map_of_is_SomeI)
  qed
  ultimately show ?thesis by (simp add: json_eq_items_iff)
qed

lemma json_text_unique:
  assumes "no_float a" "no_float b" "wf_val a" "wf_val b" "no_digit_follows s" "no_digit_follows t"
    "json_text fl a @ s = json_text fl b @ t"
  shows "json_eq a b \<and> s = t"
  using assms
proof (induction a arbitrary: b s t)
  case (VList xs)
  obtain ys where b: "b = VList ys" using same_kind [OF VList.prems(1,2,7)] by blast
  have "list_all2 json_eq xs ys \<and> s = t"
  proof (rule join_inject [where f = "json_text fl" and q = "CHR '']''"])
    show "join '','' (map (json_text fl) xs) @ CHR '']'' # s = join '','' (map (json_text fl) ys) @ CHR '']'' # t"
      using VList.prems(7) by (simp add: b)
    show "\<And>x y u v. x \<in> set xs \<Longrightarrow> y \<in> set ys \<Longrightarrow> no_digit_follows u \<Longrightarrow> no_digit_follows v \<Longrightarrow>
        json_text fl x @ u = json_text fl y @ v \<Longrightarrow> json_eq x y \<and> u = v"
      using VList b by (auto simp: list_all_iff)
    show "\<And>x. x \<in> set xs \<union> set ys \<Longrightarrow> json_text fl x \<noteq> [] \<and> hd (json_text fl x) \<noteq> CHR '']''"
      using VList.prems(1,2) b json_text_hd_not by (auto simp: list_all_iff)
  qed (simp_all add: is_digit_def between_def)
  with b show ?case by (simp add: json_eq_list_iff)
next
  case (VDict d)
  obtain e where b: "b = VDict e" using same_kind [OF VDict.prems(1,2,7)] by blast
  have "list_all2 (\<lambda>p q. fst p = fst q \<and> json_eq (snd p) (snd q)) (sort_key fst d) (sort_key fst e) \<and> s = t"
  proof (rule join_inject [where f = "item_text fl" and q = "CHR ''}''"])
    show "join '','' (map (item_text fl) (sort_key fst d)) @ CHR ''}'' # s = join '','' (map (item_text fl) (sort_key fst e)) @ CHR ''}'' # t"
      using VDict.prems(7) by (simp add: b json_text_VDict del: json_text.simps)
    show "\<And>x. x \<in> set (sort_key fst d) \<union> set (sort_key fst e) \<Longrightarrow> item_text fl x \<noteq> [] \<and> hd (item_text fl x) \<noteq> CHR ''}''"
      by (rule item_text_hd_not)
    fix p q u v
    assume pq: "p \<in> set (sort_key fst d)" "q \<in> set (sort_key fst e)" "no_digit_follows u" "no_digit_follows v"
      "item_text fl p @ u = item_text fl q @ v"
    from item_text_inject [OF pq(5)] have k: "fst p = fst q" "json_text fl (snd p) @ u = json_text fl (snd q) @ v" by auto
    have "no_float (snd p)" "no_float (snd q)" "wf_val (snd p)" "wf_val (snd q)"
      using pq(1,2) VDict.prems(1-4) b by (auto simp: list_all_iff)
    moreover have "p \<in> set d" "snd p \<in> Basic_BNFs.snds p" using pq(1) by (auto simp: snds.simps prod_set_defs)
    ultimately show "(fst p = fst q \<and> json_eq (snd p) (snd q)) \<and> u = v"
      using VDict.IH [of p "snd p" "snd q" u v] k pq(3,4) by blast
  qed (simp_all add: is_digit_def between_def)
  with b VDict.prems(4) show ?case by (simp add: dict_eq_from_sorted del: json_eq.simps)
next
  case (VInt n)
  then obtain m where b: "b = VInt m" using same_kind [OF VInt.prems(1,2,7)] by blast
  with VInt str_int_inject [of n s m t] show ?case by simp
next
  case (VStr x)
  then obtain z where b: "b = VStr z" using same_kind [OF VStr.prems(1,2,7)] by blast
  with VStr json_string_inject [of x s z t] show ?case by simp
next
  case VNone
  with same_kind [OF VNone.prems(1,2,7)] show ?case by auto
next
  case (VBool x)
  with same_kind [OF VBool.prems(1,2,7)] show ?case by (auto split: if_splits)
qed simp


section \<open>Equal values have equal texts\<close>

lemma sort_by_key_set_eq:
  assumes "distinct (map fst xs)" "distinct (map fst ys)" "set xs = set ys"
  shows "sort_key fst xs = sort_key fst ys"
proof (rule sort_key_inj_key_eq)
  have "distinct xs" "distinct ys" using assms(1,2) by (simp_all add: distinct_map)
  then show "mset xs = mset (sort_key fst ys)" using assms(3) by (simp add: set_eq_iff_mset_eq_distinct)
  show "inj_on fst (set xs)" using assms(1) by (simp add: distinct_map)
qed simp

lemma json_text_cong: "json_eq a b \<Longrightarrow> wf_val a \<Longrightarrow> wf_val b \<Longrightarrow> json_text fl a = json_text fl b"
proof (induction a arbitrary: b)
  case (VList xs)
  then obtain ys where b: "b = VList ys" and all: "list_all2 json_eq xs ys"
    by (cases b) (auto simp: json_eq_list_iff)
  have "map (json_text fl) xs = map (json_text fl) ys"
    using all VList.IH VList.prems(2,3) b by (auto simp: list_all2_conv_all_nth intro!: nth_equalityI)
  with b show ?case by simp
next
  case (VDict d)
  then obtain e where b: "b = VDict e" and len: "length d = length e"
    and all: "\<And>p. p \<in> set d \<Longrightarrow> \<exists>w. map_of e (fst p) = Some w \<and> json_eq (snd p) w"
    by (cases b) (auto simp: json_eq_items_iff)
  define tx where "tx = map (\<lambda>(k, v). (k :: string, json_text fl v))"
  have keys: "map fst (tx c) = map fst c" for c by (simp add: tx_def case_prod_beta comp_def)
  have dd: "distinct (map fst (tx d))" "distinct (map fst (tx e))" using VDict.prems(2,3) b by (simp_all add: keys)
  have sub: "set (tx d) \<subseteq> set (tx e)"
  proof
    fix q
    assume "q \<in> set (tx d)"
    then obtain p where p: "p \<in> set d" "q = (fst p, json_text fl (snd p))" by (auto simp: tx_def)
    from all [OF p(1)] obtain w where w: "map_of e (fst p) = Some w" "json_eq (snd p) w" by blast
    then have we: "(fst p, w) \<in> set e" by (simp add: map_of_SomeD)
    have "wf_val (snd p)" "wf_val w" using p(1) we VDict.prems(2,3) b by auto
    then have "json_text fl (snd p) = json_text fl w"
      using VDict.IH [of p "snd p" w] p(1) w(2) by (simp add: prod_set_defs)
    with p(2) we show "q \<in> set (tx e)" by (force simp: tx_def)
  qed
  have "distinct (tx d)" "distinct (tx e)" using dd by (simp_all add: distinct_map)
  moreover have "length (tx d) = length (tx e)" using len by (simp add: tx_def)
  ultimately have "card (set (tx d)) = card (set (tx e))" by (simp add: distinct_card)
  with sub have "set (tx d) = set (tx e)" by (simp add: card_subset_eq)
  with dd have "sort_key fst (tx d) = sort_key fst (tx e)" by (intro sort_by_key_set_eq)
  then show ?case by (simp add: b tx_def)
qed auto

text \<open>The canonical text of a value decides its equality: two float-free values with distinct keys have
  the same text exactly if they are equal as JSON, whatever the order of their dictionary items.\<close>

lemma canonical_json_iff:
  assumes "no_float a" "no_float b" "wf_val a" "wf_val b"
  shows "canonical_json fl a = canonical_json fl b \<longleftrightarrow> json_eq a b"
proof
  assume "canonical_json fl a = canonical_json fl b"
  then have "json_text fl a @ [] = json_text fl b @ []" by (simp add: canonical_json_def utf8_encode_inject)
  from json_text_unique [OF assms _ _ this] show "json_eq a b" by (simp add: no_digit_follows_def)
next
  assume "json_eq a b"
  with assms(3,4) show "canonical_json fl a = canonical_json fl b" by (simp add: canonical_json_def json_text_cong)
qed

section \<open>The document as it is written to a file\<close>

text \<open>\<open>json.dumps(value, indent=2, ensure_ascii=False)\<close>, with a line end: two spaces of indentation, keys in the order of the dictionary.\<close>

definition indent :: "nat \<Rightarrow> string" where
  "indent n = CHR 0x0A # replicate (2 * n) (CHR '' '')"

fun pretty_text :: "(rat \<Rightarrow> string) \<Rightarrow> nat \<Rightarrow> pyval \<Rightarrow> string" where
  "pretty_text fl n (VList xs) =
     (if xs = [] then ''[]''
      else CHR ''['' # indent (Suc n) @ join ('','' @ indent (Suc n)) (map (pretty_text fl (Suc n)) xs) @ indent n @ '']'')"
| "pretty_text fl n (VDict d) =
     (if d = [] then ''{}''
      else CHR ''{'' # indent (Suc n) @ join ('','' @ indent (Suc n)) (map (\<lambda>(k, v). json_string k @ '': '' @ pretty_text fl (Suc n) v) d)
        @ indent n @ ''}'')"
| "pretty_text fl n v = json_text fl v"

definition json_bytes :: "(rat \<Rightarrow> string) \<Rightarrow> pyval \<Rightarrow> string" where
  "json_bytes fl v = utf8_encode (pretty_text fl 0 v @ [CHR 0x0A])"

end
