(* ===== verification/FsRecords.thy ===== *)
theory FsRecords
  imports World CanonicalJson
begin

text \<open>
  The inventories of the FS/SEC oracle, \<open>scripts/rust-port/fs_secret_oracle.py\<close>: digests, commits and
  labels, the validation of file records and of command records, and the digests of an inventory and
  of its groups. A validated file record is a pair of a path and a digest.
\<close>

text \<open>\<open>OracleError\<close> is a \<open>RuntimeError\<close>.\<close>

definition need :: "bool \<Rightarrow> string list \<Rightarrow> unit res" where
  "need b parts = require b (RuntimeError (msg parts))"

lemma need_Inr [simp]: "need b parts = Inr u \<longleftrightarrow> b"
  by (simp add: need_def)

definition ORACLE :: string where
  "ORACLE = ''f3d3eb79b9b1f31b4f973d2ed518a8292cedf588''"

definition CASE_IDS :: "string list" where
  "CASE_IDS = map (\<lambda>n. msg [''FS-00'', str_nat n]) [1..<8] @ map (\<lambda>n. msg [''SEC-00'', str_nat n]) [1..<7]"

definition PATH_CONTROL_IDS :: "string list" where
  "PATH_CONTROL_IDS = [''0000'', ''001f'', ''0020'', ''007e'', ''007f'', ''0080'', ''0085'', ''009f'', ''00a0'']"

definition STRICT_V1_GO_ACCEPTED :: "string list" where
  "STRICT_V1_GO_ACCEPTED = [''007f'', ''0080'', ''0085'', ''009f'']"

definition ORACLE_SOURCE_FILES :: "string list" where
  "ORACLE_SOURCE_FILES = [''fsutil/pathutil.go'', ''fsutil/atomicwrite.go'', ''fsutil/safewrite.go'',
     ''secretref/secretref.go'', ''secretref/symvault.go'']"

definition REQUIRED_COMMANDS :: "string list" where
  "REQUIRED_COMMANDS = [''git-head-before'', ''git-status-before'', ''git-verify-oracle'', ''git-archive'',
     ''go-list-before'', ''go-build'', ''go-cases'', ''go-path-controls'', ''go-list-after'', ''git-status-after'', ''git-head-after'']"

definition GROUP_NAMES :: "string list" where
  "GROUP_NAMES = [''candidate'', ''oracle'', ''modules'', ''sdk'']"

definition is_digest :: "pyval \<Rightarrow> bool" where
  "is_digest v = str_such (fullmatch HEX64) v"

definition is_commit :: "pyval \<Rightarrow> bool" where
  "is_commit v = str_such (fullmatch HEX40) v"

definition safe_text :: "string \<Rightarrow> bool" where
  "safe_text s = (s \<noteq> [] \<and> \<not> startswith s ''/'' \<and> CHR 0x5C \<notin> set s \<and> CHR '':'' \<notin> set s \<and>
     list_all (\<lambda>part. part \<notin> {[], ''.'', ''..''}) (split_on (CHR ''/'') s))"

definition safe_label :: "pyval \<Rightarrow> bool" where
  "safe_label v = str_such safe_text v"

lemma record_digest_iff: "is_digest v \<longleftrightarrow> (\<exists>s. v = VStr s \<and> length s = 64 \<and> is_hex s)"
  by (auto simp: is_digest_def str_such_iff fullmatch_HEX64)

lemma is_commit_iff: "is_commit v \<longleftrightarrow> (\<exists>s. v = VStr s \<and> length s = 40 \<and> is_hex s)"
  by (auto simp: is_commit_def str_such_iff fullmatch_HEX40)

text \<open>\<open>isinstance(v, dict)\<close> with exactly the given keys.\<close>

definition dict_with :: "pyval \<Rightarrow> string list \<Rightarrow> string list \<Rightarrow> pydict res" where
  "dict_with v ks parts =
     (case v of VDict d \<Rightarrow> if keys_are d ks then Inr d else Inl (RuntimeError (msg parts)) | _ \<Rightarrow> Inl (RuntimeError (msg parts)))"

lemma dict_with_Inr: "dict_with v ks parts = Inr d \<longleftrightarrow> v = VDict d \<and> keys_are d ks"
  by (cases v) (auto simp: dict_with_def)

section \<open>File records\<close>

type_synonym file_record = "string \<times> string"

definition file_record_of :: "string \<Rightarrow> string list \<Rightarrow> pyval \<Rightarrow> file_record res" where
  "file_record_of label seen item =
     bind_res (dict_with item [''path'', ''sha256''] [label, '' input record schema mismatch'']) (\<lambda>d.
     bind_res (need (safe_label (dget d ''path'') \<and> dget d ''path'' \<notin> VStr ` set seen \<and> is_digest (dget d ''sha256''))
       [label, '' input record identity invalid'']) (\<lambda>_.
     Inr (the (as_str (dget d ''path'')), the (as_str (dget d ''sha256'')))))"

fun file_records_loop :: "string \<Rightarrow> string list \<Rightarrow> pyval list \<Rightarrow> file_record list res" where
  "file_records_loop label seen [] = Inr []"
| "file_records_loop label seen (item # items) =
     bind_res (file_record_of label seen item) (\<lambda>r.
     bind_res (file_records_loop label (fst r # seen) items) (\<lambda>rest. Inr (r # rest)))"

definition validate_file_records :: "pyval \<Rightarrow> string \<Rightarrow> file_record list res" where
  "validate_file_records value label =
     bind_res (need (is_list value \<and> value \<noteq> VList []) [label, '' input inventory missing or malformed'']) (\<lambda>_.
     bind_res (file_records_loop label [] (the (as_list value))) (\<lambda>rs.
     bind_res (need (rs = sort_key fst rs) [label, '' input records are not deterministically ordered'']) (\<lambda>_. Inr rs)))"

text \<open>The records as the list of dictionaries the code builds.\<close>

definition record_value :: "file_record \<Rightarrow> pyval" where
  "record_value r = VDict [(''path'', VStr (fst r)), (''sha256'', VStr (snd r))]"

definition records_value :: "file_record list \<Rightarrow> pyval" where
  "records_value rs = VList (map record_value rs)"

definition inventory_digest :: "world \<Rightarrow> file_record list \<Rightarrow> string" where
  "inventory_digest w files = sha256 w (canonical_json (float_text w) (records_value files))"

definition in_group :: "string \<Rightarrow> file_record list \<Rightarrow> file_record list" where
  "in_group g files = filter (\<lambda>r. startswith (fst r) (g @ ''/'')) files"

fun group_digests_loop :: "world \<Rightarrow> file_record list \<Rightarrow> string list \<Rightarrow> pydict res" where
  "group_digests_loop w files [] = Inr []"
| "group_digests_loop w files (g # gs) =
     (if in_group g files = [] then Inl (RuntimeError (msg [''required '', g, '' input inventory is empty'']))
      else bind_res (group_digests_loop w files gs) (\<lambda>rest. Inr ((g, VStr (inventory_digest w (in_group g files))) # rest)))"

definition group_digests :: "world \<Rightarrow> file_record list \<Rightarrow> pydict res" where
  "group_digests w files = group_digests_loop w files GROUP_NAMES"

text \<open>A validated inventory: in order, without repetition, every label safe, every digest a digest.\<close>

definition valid_inventory :: "file_record list \<Rightarrow> bool" where
  "valid_inventory rs \<longleftrightarrow> rs \<noteq> [] \<and> sorted (map fst rs) \<and> distinct (map fst rs) \<and>
     (\<forall>r \<in> set rs. safe_text (fst r) \<and> fullmatch HEX64 (snd r))"

definition is_record :: "pyval \<Rightarrow> file_record \<Rightarrow> bool" where
  "is_record v r \<longleftrightarrow> (\<exists>d. v = VDict d \<and> keys_are d [''path'', ''sha256''] \<and> dget d ''path'' = VStr (fst r) \<and>
     dget d ''sha256'' = VStr (snd r))"

lemma file_record_of_Inr:
  "file_record_of label seen item = Inr r \<longleftrightarrow>
     is_record item r \<and> safe_text (fst r) \<and> fst r \<notin> set seen \<and> fullmatch HEX64 (snd r)"
  by (cases r) (auto simp: file_record_of_def is_record_def bind_res_eq_Inr dict_with_Inr safe_label_def is_digest_def str_such_iff)

lemma file_records_loop_Inr:
  "file_records_loop label seen items = Inr rs \<Longrightarrow>
     distinct (map fst rs) \<and> set (map fst rs) \<inter> set seen = {} \<and>
     (\<forall>r \<in> set rs. safe_text (fst r) \<and> fullmatch HEX64 (snd r)) \<and> list_all2 is_record items rs"
proof (induction items arbitrary: seen rs)
  case Nil
  then show ?case by simp
next
  case (Cons item items)
  from Cons.prems obtain r rest where r: "file_record_of label seen item = Inr r"
    and l: "file_records_loop label (fst r # seen) items = Inr rest" and rs: "rs = r # rest"
    by (auto simp: bind_res_eq_Inr)
  from Cons.IH [OF l] r rs show ?case by (auto simp: file_record_of_Inr)
qed

lemma validate_file_records_Inr:
  assumes "validate_file_records value label = Inr rs"
  shows "valid_inventory rs \<and>
    (\<exists>items. value = VList items \<and> list_all2 is_record items rs)"
proof -
  from assms obtain items where v: "value = VList items" "items \<noteq> []"
    and l: "file_records_loop label [] items = Inr rs" and so: "rs = sort_key fst rs"
    unfolding validate_file_records_def bind_res_eq_Inr need_Inr is_list_iff by fastforce
  have "sorted (map fst rs)" using so by (metis sorted_sort_key)
  with file_records_loop_Inr [OF l] v show ?thesis by (auto simp: valid_inventory_def)
qed

text \<open>The loop reads its own output back.\<close>

lemma record_value_is: "is_record (record_value r) r"
  by (simp add: is_record_def record_value_def keys_are_def keys_def dget_def)

lemma file_records_loop_self:
  "distinct (map fst rs) \<Longrightarrow> set (map fst rs) \<inter> set seen = {} \<Longrightarrow>
     (\<forall>r \<in> set rs. safe_text (fst r) \<and> fullmatch HEX64 (snd r)) \<Longrightarrow> file_records_loop label seen (map record_value rs) = Inr rs"
proof (induction rs arbitrary: seen)
  case (Cons r rs)
  then have "file_record_of label seen (record_value r) = Inr r" by (simp add: file_record_of_Inr record_value_is)
  moreover have "file_records_loop label (fst r # seen) (map record_value rs) = Inr rs"
    using Cons by (intro Cons.IH) auto
  ultimately show ?case by simp
qed simp

lemma sort_key_id: "sorted (map f xs) \<Longrightarrow> sort_key f xs = xs"
  by (induction xs) (auto simp: insort_is_Cons)

lemma validate_file_records_self:
  assumes "valid_inventory rs"
  shows "validate_file_records (records_value rs) label = Inr rs"
proof -
  have "file_records_loop label [] (map record_value rs) = Inr rs"
    using assms by (intro file_records_loop_self) (auto simp: valid_inventory_def)
  moreover have "rs = sort_key fst rs" using assms by (simp add: valid_inventory_def sort_key_id)
  ultimately show ?thesis
    using assms by (simp add: valid_inventory_def validate_file_records_def records_value_def need_def)
qed

lemma group_digests_loop_Inr:
  "group_digests_loop w files gs = Inr d \<Longrightarrow>
     d = map (\<lambda>g. (g, VStr (inventory_digest w (in_group g files)))) gs \<and> (\<forall>g \<in> set gs. in_group g files \<noteq> [])"
  by (induction gs arbitrary: d) (auto simp: bind_res_eq_Inr split: if_splits)

lemma group_digests_Inr:
  "group_digests w files = Inr d \<Longrightarrow>
     d = map (\<lambda>g. (g, VStr (inventory_digest w (in_group g files)))) GROUP_NAMES \<and> (\<forall>g \<in> set GROUP_NAMES. in_group g files \<noteq> [])"
  unfolding group_digests_def by (rule group_digests_loop_Inr)

text \<open>Equal digests are equal inventories, as far as SHA-256 tells the two texts apart.\<close>

lemma records_value_plain: "no_float (records_value rs)" "wf_val (records_value rs)"
  by (auto simp: records_value_def record_value_def list_all_iff)

lemma json_eq_record: "json_eq (record_value r) v \<Longrightarrow> v = record_value q \<Longrightarrow> r = q"
  by (cases r; cases q) (auto simp: record_value_def)

lemma json_eq_records: "json_eq (records_value rs) (records_value qs) \<Longrightarrow> rs = qs"
proof (induction rs arbitrary: qs)
  case Nil
  then show ?case by (cases qs) (auto simp: records_value_def)
next
  case (Cons r rs)
  then show ?case by (cases qs) (auto simp: records_value_def dest: json_eq_record)
qed

text \<open>Two inventories with one digest are the same, or their canonical texts are a collision.\<close>

lemma inventory_digest_inject:
  assumes "inventory_digest w rs = inventory_digest w qs"
  shows "rs = qs \<or>
    (let x = canonical_json (float_text w) (records_value rs); y = canonical_json (float_text w) (records_value qs) in
      x \<noteq> y \<and> sha256 w x = sha256 w y)"
proof (cases "canonical_json (float_text w) (records_value rs) = canonical_json (float_text w) (records_value qs)")
  case True
  then have "json_eq (records_value rs) (records_value qs)"
    using canonical_json_iff records_value_plain by blast
  then show ?thesis by (simp add: json_eq_records)
next
  case False
  with assms show ?thesis by (simp add: inventory_digest_def Let_def)
qed

end
