(* ===== verification/FsCapture.thy ===== *)
theory FsCapture
  imports FsRecords
begin

text \<open>
  The validator of a frozen FS/SEC capture, \<open>validate_capture_payload\<close> of
  \<open>scripts/rust-port/fs_secret_oracle.py\<close>, section by section in the order of the code, with the
  command records, the anchor lookup and \<open>validate_capture_bytes\<close>. Each section returns what later
  sections use; its lemma says what an accepted section establishes.
\<close>

section \<open>Command records\<close>

definition COMMAND_ID_RE :: regex where
  "COMMAND_ID_RE = Plus (Cls [(CHR ''a'', CHR ''z''), (CHR ''0'', CHR ''9''), (CHR ''-'', CHR ''-'')])"

definition is_count :: "pyval \<Rightarrow> bool" where
  "is_count v = (case v of VInt n \<Rightarrow> 0 \<le> n | _ \<Rightarrow> False)"

lemma is_count_iff: "is_count v \<longleftrightarrow> (\<exists>n \<ge> 0. v = VInt n)"
  by (cases v) (auto simp: is_count_def)

definition COMMAND_FIELDS :: "string list" where
  "COMMAND_FIELDS = [''id'', ''exit_code'', ''timed_out'', ''output_exceeded'', ''cleanup_verified'',
     ''stdout_bytes'', ''stderr_bytes'', ''stdout_sha256'', ''stderr_sha256'']"

definition command_record :: "string list \<Rightarrow> pyval \<Rightarrow> (string \<times> pydict) res" where
  "command_record seen item =
     bind_res (dict_with item COMMAND_FIELDS [''capture command record schema mismatch'']) (\<lambda>d.
     bind_res (need (str_such (\<lambda>s. fullmatch COMMAND_ID_RE s \<and> s \<notin> set seen) (dget d ''id''))
       [''capture command identity invalid or duplicated'']) (\<lambda>_.
     let name = the (as_str (dget d ''id'')) in
     bind_res (need (dget d ''exit_code'' = VInt 0) [''capture command '', name, '' did not exit successfully'']) (\<lambda>_.
     bind_res (for_each (\<lambda>f. need (is_bool (dget d f)) [''capture command '', name, '' has malformed '', f])
       [''timed_out'', ''output_exceeded'', ''cleanup_verified'']) (\<lambda>_.
     bind_res (need (\<not> truthy (dget d ''timed_out'') \<and> \<not> truthy (dget d ''output_exceeded'') \<and> truthy (dget d ''cleanup_verified''))
       [''capture command '', name, '' exceeded a process guard'']) (\<lambda>_.
     bind_res (for_each (\<lambda>f. need (is_count (dget d f)) [''capture command '', name, '' has malformed byte count''])
       [''stdout_bytes'', ''stderr_bytes'']) (\<lambda>_.
     bind_res (for_each (\<lambda>f. need (is_digest (dget d f)) [''capture command '', name, '' has malformed raw digest''])
       [''stdout_sha256'', ''stderr_sha256'']) (\<lambda>_.
     bind_res (need (name \<in> set REQUIRED_COMMANDS \<or> startswith name ''go-env-'') [''unexpected capture command '', name]) (\<lambda>_.
     Inr (name, d)))))))))"

fun command_records_loop :: "string list \<Rightarrow> pyval list \<Rightarrow> (string \<times> pydict) list res" where
  "command_records_loop seen [] = Inr []"
| "command_records_loop seen (item # items) =
     bind_res (command_record seen item) (\<lambda>r.
     bind_res (command_records_loop (fst r # seen) items) (\<lambda>rest. Inr (r # rest)))"

definition validate_command_records :: "pyval \<Rightarrow> (string \<times> pydict) list res" where
  "validate_command_records value =
     bind_res (need (is_list value \<and> value \<noteq> VList []) [''capture command inventory missing'']) (\<lambda>_.
     bind_res (command_records_loop [] (the (as_list value))) (\<lambda>rs.
     bind_res (need (set REQUIRED_COMMANDS \<subseteq> set (map fst rs)) [''capture command inventory is incomplete'']) (\<lambda>_. Inr rs)))"

definition clean_command :: "string \<Rightarrow> pydict \<Rightarrow> bool" where
  "clean_command name d \<longleftrightarrow>
     keys_are d COMMAND_FIELDS \<and> dget d ''id'' = VStr name \<and> fullmatch COMMAND_ID_RE name \<and>
     dget d ''exit_code'' = VInt 0 \<and> dget d ''timed_out'' = VBool False \<and> dget d ''output_exceeded'' = VBool False \<and>
     dget d ''cleanup_verified'' = VBool True \<and> is_count (dget d ''stdout_bytes'') \<and> is_count (dget d ''stderr_bytes'') \<and>
     is_digest (dget d ''stdout_sha256'') \<and> is_digest (dget d ''stderr_sha256'') \<and>
     (name \<in> set REQUIRED_COMMANDS \<or> startswith name ''go-env-'')"

lemma bool_cases: "is_bool v \<Longrightarrow> truthy v = (v = VBool True)" "is_bool v \<Longrightarrow> (v \<noteq> VBool True) = (v = VBool False)"
  by (cases v; simp)+

lemma command_record_Inr:
  "command_record seen item = Inr r \<longleftrightarrow> item = VDict (snd r) \<and> clean_command (fst r) (snd r) \<and> fst r \<notin> set seen"
  by (cases r) (auto simp: command_record_def bind_res_eq_Inr dict_with_Inr str_such_iff clean_command_def Let_def bool_cases)

lemma command_records_loop_Inr:
  "command_records_loop seen items = Inr rs \<longleftrightarrow>
     items = map (\<lambda>r. VDict (snd r)) rs \<and> (\<forall>r \<in> set rs. clean_command (fst r) (snd r)) \<and> distinct (map fst rs) \<and>
     set (map fst rs) \<inter> set seen = {}"
proof (induction items arbitrary: seen rs)
  case Nil
  then show ?case by auto
next
  case (Cons item items)
  show ?case
  proof (cases rs)
    case Nil
    then show ?thesis by (simp add: bind_res_eq_Inr)
  next
    case r: (Cons r rest)
    have "command_records_loop seen (item # items) = Inr (r # rest) \<longleftrightarrow>
        command_record seen item = Inr r \<and> command_records_loop (fst r # seen) items = Inr rest"
      by (cases "command_record seen item") (auto simp: bind_res_eq_Inr)
    with Cons.IH [of "fst r # seen" rest] r show ?thesis by (auto simp: command_record_Inr)
  qed
qed

lemma validate_command_records_Inr:
  "validate_command_records value = Inr rs \<longleftrightarrow>
     value = VList (map (\<lambda>r. VDict (snd r)) rs) \<and> (\<forall>r \<in> set rs. clean_command (fst r) (snd r)) \<and> distinct (map fst rs) \<and>
     set REQUIRED_COMMANDS \<subseteq> set (map fst rs)"
proof (cases "rs = []")
  case True
  have "\<not> set REQUIRED_COMMANDS \<subseteq> {}" by (simp add: REQUIRED_COMMANDS_def)
  with True show ?thesis by (simp add: validate_command_records_def bind_res_eq_Inr)
next
  case False
  have "validate_command_records value = Inr rs \<longleftrightarrow>
      (\<exists>items. value = VList items \<and> items \<noteq> [] \<and> command_records_loop [] items = Inr rs) \<and> set REQUIRED_COMMANDS \<subseteq> set (map fst rs)"
    by (cases "value") (auto simp: validate_command_records_def bind_res_eq_Inr)
  with False show ?thesis by (auto simp: command_records_loop_Inr)
qed


section \<open>The sections of a capture\<close>

definition GO_VERSION :: string where
  "GO_VERSION = ''go1.26.6''"

text \<open>\<open>capture["oracle"]\<close>: the pinned commit and its five production sources.\<close>

definition validate_oracle :: "pyval \<Rightarrow> file_record list res" where
  "validate_oracle v =
     bind_res (dict_with v [''commit'', ''source_sha256'', ''source_files''] [''frozen oracle identity schema mismatch'']) (\<lambda>d.
     bind_res (need (dget d ''commit'' = VStr ORACLE \<and> is_digest (dget d ''source_sha256''))
       [''frozen production-oracle identity mismatch'']) (\<lambda>_.
     bind_res (validate_file_records (dget d ''source_files'') ''historical Go source'') (\<lambda>files.
     bind_res (need (map fst files = sort ORACLE_SOURCE_FILES) [''pinned historical Go source inventory mismatch'']) (\<lambda>_.
     Inr files))))"

definition HELPER_PATH :: string where
  "HELPER_PATH = ''candidate/scripts/rust-port/go-oracle/cmd/fssecret/main.go''"

definition CANDIDATE_FIELDS :: "string list" where
  "CANDIDATE_FIELDS = [''head_before'', ''head_after'', ''clean_before'', ''clean_after'', ''go_helper_sha256'', ''files'']"

definition validate_candidate :: "pyval \<Rightarrow> file_record list res" where
  "validate_candidate v =
     bind_res (dict_with v CANDIDATE_FIELDS [''candidate source identity schema mismatch'']) (\<lambda>d.
     bind_res (for_each (\<lambda>f. need (is_commit (dget d f)) [''candidate '', f, '' is not a full commit'']) [''head_before'', ''head_after'']) (\<lambda>_.
     bind_res (need (dget d ''head_before'' = dget d ''head_after'') [''candidate HEAD changed during Go capture'']) (\<lambda>_.
     bind_res (for_each (\<lambda>f. need (dget d f = VBool True)
       [''Go capture requires a clean candidate before and after execution'']) [''clean_before'', ''clean_after'']) (\<lambda>_.
     bind_res (need (is_digest (dget d ''go_helper_sha256'')) [''current candidate Go helper digest invalid'']) (\<lambda>_.
     bind_res (validate_file_records (dget d ''files'') ''candidate'') (\<lambda>files.
     bind_res (need (case List.find (\<lambda>r. fst r = HELPER_PATH) files of None \<Rightarrow> False | Some r \<Rightarrow> VStr (snd r) = dget d ''go_helper_sha256'')
       [''current helper identity is not independently inventoried'']) (\<lambda>_.
     Inr files)))))))"

definition GOOS_NAMES :: "string list" where
  "GOOS_NAMES = [''darwin'', ''linux'', ''windows'']"

definition GOARCH_NAMES :: "string list" where
  "GOARCH_NAMES = [''amd64'', ''arm64'']"

definition validate_native :: "pyval \<Rightarrow> string \<times> string \<Rightarrow> unit res" where
  "validate_native v native =
     bind_res (dict_with v [''goos'', ''goarch''] [''native target schema mismatch'']) (\<lambda>d.
     bind_res (need (dget d ''goos'' \<in> VStr ` set GOOS_NAMES \<and> dget d ''goarch'' \<in> VStr ` set GOARCH_NAMES)
       [''unsupported recorded native target'']) (\<lambda>_.
     need (dget d ''goos'' = VStr (fst native) \<and> dget d ''goarch'' = VStr (snd native))
       [''capture native OS/architecture does not match this replay host'']))"

definition GO_FIELDS :: "string list" where
  "GO_FIELDS = [''version'', ''goversion'', ''goos'', ''goarch'', ''binary_sha256'', ''probe_binary_sha256'', ''goroot_label'',
     ''gomodcache_policy'', ''sdk_sha256'', ''modules_sha256'']"

definition validate_go :: "pyval \<Rightarrow> string \<times> string \<Rightarrow> pydict res" where
  "validate_go v native =
     bind_res (dict_with v GO_FIELDS [''Go toolchain identity schema mismatch'']) (\<lambda>go.
     bind_res (need (dget go ''goversion'' = VStr GO_VERSION \<and>
         dget go ''version'' = VStr (msg [''go version '', GO_VERSION, '' '', fst native, ''/'', snd native]))
       [''capture does not record executed native Go 1.26.6'']) (\<lambda>_.
     bind_res (need (dget go ''goos'' = VStr (fst native) \<and> dget go ''goarch'' = VStr (snd native))
       [''executed Go environment disagrees with capture target'']) (\<lambda>_.
     bind_res (need (is_digest (dget go ''binary_sha256'') \<and> is_digest (dget go ''probe_binary_sha256'') \<and>
         dget go ''goroot_label'' = VStr ''installed-go-sdk'') [''Go compiler identity is incomplete'']) (\<lambda>_.
     bind_res (need (dget go ''gomodcache_policy'' = VStr ''existing-cache-offline-read-only'')
       [''Go module cache was not restricted to existing offline inputs'']) (\<lambda>_.
     bind_res (need (is_digest (dget go ''sdk_sha256'') \<and> is_digest (dget go ''modules_sha256''))
       [''Go SDK/module inventory digest missing'']) (\<lambda>_.
     Inr go))))))"

text \<open>\<open>capture["inputs"]\<close> with the records it is compared to.\<close>

definition validate_input_links ::
    "string \<Rightarrow> pydict \<Rightarrow> file_record list \<Rightarrow> file_record list \<Rightarrow> file_record list \<Rightarrow> unit res" where
  "validate_input_links goos go candidate_files oracle_files input_files =
     bind_res (need (candidate_files = in_group ''candidate'' input_files)
       [''candidate inventory differs from the pre/post Go build inventory'']) (\<lambda>_.
     bind_res (need (\<exists>r \<in> set input_files. fst r = ''sdk/bin/'' @ (if goos = ''windows'' then ''go.exe'' else ''go'') \<and>
         VStr (snd r) = dget go ''binary_sha256'')
       [''executed Go compiler differs from the frozen SDK inventory'']) (\<lambda>_.
     for_each (\<lambda>r. need ((''oracle/'' @ fst r, snd r) \<in> set (in_group ''oracle'' input_files))
       [''pinned production source is absent from the transitive Go inventory'']) oracle_files))"

definition validate_inputs ::
    "world \<Rightarrow> pyval \<Rightarrow> string \<Rightarrow> pydict \<Rightarrow> file_record list \<Rightarrow> file_record list \<Rightarrow> file_record list res" where
  "validate_inputs w v goos go candidate_files oracle_files =
     bind_res (dict_with v [''before_sha256'', ''after_sha256'', ''files'', ''groups''] [''Go build-input inventory schema mismatch'']) (\<lambda>d.
     bind_res (validate_file_records (dget d ''files'') ''transitive Go build'') (\<lambda>input_files.
     bind_res (need (is_digest (dget d ''before_sha256'') \<and> is_digest (dget d ''after_sha256'') \<and>
         dget d ''before_sha256'' = dget d ''after_sha256'' \<and> dget d ''before_sha256'' = VStr (inventory_digest w input_files))
       [''Go build inputs changed between pre-build and post-execution inventories'']) (\<lambda>_.
     bind_res (dict_with (dget d ''groups'') GROUP_NAMES [''Go source/module/SDK input group inventory mismatch'']) (\<lambda>groups.
     bind_res (group_digests w input_files) (\<lambda>computed.
     bind_res (need (py_eq (VDict groups) (VDict computed)) [''Go source/module/SDK group digest mismatch'']) (\<lambda>_.
     bind_res (need (dget go ''sdk_sha256'' = dget groups ''sdk'' \<and> dget go ''modules_sha256'' = dget groups ''modules'')
       [''recorded SDK/module digest disagrees with transitive inventory'']) (\<lambda>_.
     bind_res (validate_input_links goos go candidate_files oracle_files input_files) (\<lambda>_.
     Inr input_files))))))))"

text \<open>\<open>capture["raw"]\<close>: the two observation runs, linked to their command records.\<close>

definition RAW_FIELDS :: "string list" where
  "RAW_FIELDS = [''exit_code'', ''stdout_bytes'', ''stderr_bytes'', ''stdout_sha256'', ''stderr_sha256'']"

definition command_by_id :: "(string \<times> pydict) list \<Rightarrow> string \<Rightarrow> pydict res" where
  "command_by_id commands name = (case map_of commands name of None \<Rightarrow> Inl (KeyError name) | Some d \<Rightarrow> Inr d)"

definition raw_record :: "(string \<times> pydict) list \<Rightarrow> string \<Rightarrow> pyval \<Rightarrow> unit res" where
  "raw_record commands name v =
     bind_res (dict_with v RAW_FIELDS [''raw '', name, '' output metadata schema mismatch'']) (\<lambda>d.
     bind_res (need (dget d ''exit_code'' = VInt 0) [''raw '', name, '' Go execution did not succeed'']) (\<lambda>_.
     bind_res (for_each (\<lambda>f. need (is_count (dget d f)) [''raw '', name, '' output byte count invalid'']) [''stdout_bytes'', ''stderr_bytes'']) (\<lambda>_.
     bind_res (for_each (\<lambda>f. need (is_digest (dget d f)) [''raw '', name, '' output digest invalid'']) [''stdout_sha256'', ''stderr_sha256'']) (\<lambda>_.
     bind_res (command_by_id commands (if name = ''cases'' then ''go-cases'' else ''go-path-controls'')) (\<lambda>linked.
     need (list_all (\<lambda>f. py_eq (dget d f) (dget linked f)) RAW_FIELDS)
       [''raw '', name, '' metadata does not match its retained subprocess record''])))))"

definition validate_raw :: "pyval \<Rightarrow> (string \<times> pydict) list \<Rightarrow> unit res" where
  "validate_raw v commands =
     bind_res (dict_with v [''artifact_id'', ''observations''] [''private raw capture metadata schema mismatch'']) (\<lambda>d.
     bind_res (need (dget d ''artifact_id'' = VStr ''private-run'') [''raw capture reference must use a non-personal identifier'']) (\<lambda>_.
     bind_res (dict_with (dget d ''observations'') [''cases'', ''path_controls''] [''raw Go observation metadata missing'']) (\<lambda>obs.
     for_each (\<lambda>name. raw_record commands name (dget obs name)) [''cases'', ''path_controls''])))"

definition validate_case_inventory :: "pyval \<Rightarrow> unit res" where
  "validate_case_inventory v =
     bind_res (dict_with v [''case_ids'', ''path_control_ids''] [''FS/SEC case inventory schema mismatch'']) (\<lambda>d.
     need (dget d ''case_ids'' = VList (map VStr CASE_IDS) \<and> dget d ''path_control_ids'' = VList (map VStr PATH_CONTROL_IDS))
       [''FS/SEC capture does not declare all required case IDs''])"

definition validate_observations :: "pyval \<Rightarrow> string \<times> string \<Rightarrow> unit res" where
  "validate_observations v native =
     bind_res (dict_with v [''oracle_commit'', ''native_target'', ''cases'', ''path_controls''] [''Go observation schema mismatch'']) (\<lambda>d.
     bind_res (need (dget d ''oracle_commit'' = VStr ORACLE \<and> dget d ''native_target'' = VStr (msg [fst native, ''-'', snd native]))
       [''Go observation oracle/native identity mismatch'']) (\<lambda>_.
     bind_res (dict_with (dget d ''cases'') CASE_IDS [''Go observation must contain all 13 FS/SEC cases'']) (\<lambda>cases.
     bind_res (need (length cases = 13) [''Go observation must contain all 13 FS/SEC cases'']) (\<lambda>_.
     bind_res (need (list_all (\<lambda>c. is_dict (dget cases c)) CASE_IDS) [''Go FS/SEC case observations must be objects'']) (\<lambda>_.
     bind_res (dict_with (dget d ''path_controls'') PATH_CONTROL_IDS
       [''Go observation must contain all nine ASCII path-control keys'']) (\<lambda>controls.
     bind_res (need (length controls = 9) [''Go observation must contain all nine ASCII path-control keys'']) (\<lambda>_.
     bind_res (need (list_all (\<lambda>c. is_bool (dget controls c)) PATH_CONTROL_IDS)
       [''Go path-control observations must be JSON booleans'']) (\<lambda>_.
     need (list_all (\<lambda>c. dget controls c = VBool True) STRICT_V1_GO_ACCEPTED)
       [''versioned FS-001 strict-v1 controls require Go DEL/C1 acceptance'']))))))))"

definition CAPTURE_FIELDS :: "string list" where
  "CAPTURE_FIELDS = [''oracle'', ''candidate'', ''native'', ''go'', ''inputs'', ''commands'', ''raw'', ''case_inventory'']"

definition validate_capture_payload :: "world \<Rightarrow> pyval \<Rightarrow> string \<times> string \<Rightarrow> pydict res" where
  "validate_capture_payload w payload native =
     bind_res (dict_with payload [''schema_version'', ''capture'', ''observations''] [''frozen-v1 top-level schema mismatch'']) (\<lambda>doc.
     bind_res (need (dget doc ''schema_version'' = VInt 1) [''unsupported frozen-v1 schema_version'']) (\<lambda>_.
     bind_res (dict_with (dget doc ''capture'') CAPTURE_FIELDS [''frozen-v1 capture schema mismatch'']) (\<lambda>capture.
     bind_res (validate_oracle (dget capture ''oracle'')) (\<lambda>oracle_files.
     bind_res (validate_candidate (dget capture ''candidate'')) (\<lambda>candidate_files.
     bind_res (validate_native (dget capture ''native'') native) (\<lambda>_.
     bind_res (validate_go (dget capture ''go'') native) (\<lambda>go.
     bind_res (validate_inputs w (dget capture ''inputs'') (fst native) go candidate_files oracle_files) (\<lambda>_.
     bind_res (validate_command_records (dget capture ''commands'')) (\<lambda>commands.
     bind_res (validate_raw (dget capture ''raw'') commands) (\<lambda>_.
     bind_res (validate_case_inventory (dget capture ''case_inventory'')) (\<lambda>_.
     bind_res (validate_observations (dget doc ''observations'') native) (\<lambda>_. Inr doc))))))))))))"

section \<open>Anchors\<close>

definition target_key :: "string \<times> string \<Rightarrow> string" where
  "target_key native = msg [fst native, ''-'', snd native]"

definition anchor_for :: "string \<times> string \<Rightarrow> (string \<times> string) list \<Rightarrow> string res" where
  "anchor_for native anchors =
     (case map_of anchors (target_key native) of
        None \<Rightarrow> Inl (RuntimeError (msg [''no independently reviewed FS/SEC frozen-v1 anchor for '', target_key native]))
      | Some anchor \<Rightarrow>
          bind_res (need (is_digest (VStr anchor)) [''trusted FS/SEC anchor for '', target_key native, '' is not lowercase SHA-256'']) (\<lambda>_.
          Inr anchor))"

text \<open>The object hook: a duplicate key anywhere in the document is an error.\<close>

fun unique_pairs :: "pyval \<Rightarrow> bool" where
  "unique_pairs (VList xs) = list_all unique_pairs xs"
| "unique_pairs (VDict d) = (distinct (map fst d) \<and> list_all (\<lambda>(k, v). unique_pairs v) d)"
| "unique_pairs _ = True"

text \<open>\<open>_decode_json\<close>. The argument \<open>pairs\<close> is the JSON reader with every pair of every object kept.\<close>

definition decode_json :: "world \<Rightarrow> (string \<Rightarrow> pyval res) \<Rightarrow> string \<Rightarrow> string \<Rightarrow> pyval res" where
  "decode_json w pairs raw_bytes label =
     (case bind_res (utf8 w raw_bytes) pairs of
        Inr v \<Rightarrow> if unique_pairs v then Inr v else Inl (RuntimeError ''duplicate JSON object key'')
      | Inl e \<Rightarrow> if is_value_error e then Inl (RuntimeError (msg [label, '' is not strict UTF-8 JSON''])) else Inl e)"

definition validate_capture_bytes ::
    "world \<Rightarrow> (string \<Rightarrow> pyval res) \<Rightarrow> string \<Rightarrow> string \<times> string \<Rightarrow> (string \<times> string) list \<Rightarrow> pydict res" where
  "validate_capture_bytes w pairs raw_bytes native anchors =
     bind_res (anchor_for native anchors) (\<lambda>expected.
     bind_res (need (sha256 w raw_bytes = expected) [''frozen-v1 bytes do not match the independent trusted anchor'']) (\<lambda>_.
     bind_res (decode_json w pairs raw_bytes ''frozen-v1 capture'') (\<lambda>payload.
     validate_capture_payload w payload native)))"

text \<open>\<open>read_capture_once\<close>: no link, a regular file, read once.\<close>

definition read_capture_once ::
    "world \<Rightarrow> (string \<Rightarrow> pyval res) \<Rightarrow> path \<Rightarrow> string \<times> string \<Rightarrow> (string \<times> string) list \<Rightarrow> (string \<times> pydict) res" where
  "read_capture_once w pairs p native anchors =
     bind_res (anchor_for native anchors) (\<lambda>_.
     bind_res (case lstat_of w p of
         Inl e \<Rightarrow> if is_os_error e then Inl (RuntimeError ''native frozen-v1 fixture is unavailable'') else Inl e
       | Inr k \<Rightarrow> need (k = Regular) [''frozen-v1 fixture must be a regular non-symlink file'']) (\<lambda>_.
     bind_res (case read_bytes w p of
         Inl e \<Rightarrow> if is_os_error e then Inl (RuntimeError ''cannot read native frozen-v1 fixture'') else Inl e
       | Inr raw_bytes \<Rightarrow> Inr raw_bytes) (\<lambda>raw_bytes.
     bind_res (validate_capture_bytes w pairs raw_bytes native anchors) (\<lambda>doc. Inr (raw_bytes, doc)))))"


section \<open>What an accepted section establishes\<close>

lemma validate_oracle_Inr:
  assumes "validate_oracle v = Inr files"
  shows "valid_inventory files \<and> map fst files = sort ORACLE_SOURCE_FILES \<and> get_if_dict v ''commit'' = VStr ORACLE"
  using assms by (auto simp: validate_oracle_def bind_res_eq_Inr dict_with_Inr dest: validate_file_records_Inr)

lemma validate_candidate_Inr:
  assumes "validate_candidate v = Inr files"
  shows "valid_inventory files \<and> is_commit (get_if_dict v ''head_before'') \<and>
    get_if_dict v ''head_after'' = get_if_dict v ''head_before'' \<and>
    get_if_dict v ''clean_before'' = VBool True \<and> get_if_dict v ''clean_after'' = VBool True \<and>
    (\<exists>digest. (HELPER_PATH, digest) \<in> set files \<and> get_if_dict v ''go_helper_sha256'' = VStr digest)"
proof -
  from assms obtain d where d: "v = VDict d" "is_commit (dget d ''head_before'')" "dget d ''head_before'' = dget d ''head_after''"
    "dget d ''clean_before'' = VBool True" "dget d ''clean_after'' = VBool True"
    "validate_file_records (dget d ''files'') ''candidate'' = Inr files"
    "case List.find (\<lambda>r. fst r = HELPER_PATH) files of None \<Rightarrow> False | Some r \<Rightarrow> VStr (snd r) = dget d ''go_helper_sha256''"
    by (auto simp: validate_candidate_def bind_res_eq_Inr dict_with_Inr)
  then obtain r where r: "List.find (\<lambda>r. fst r = HELPER_PATH) files = Some r" "VStr (snd r) = dget d ''go_helper_sha256''"
    by (auto split: option.splits)
  from find_SomeD [OF r(1)] have "(HELPER_PATH, snd r) \<in> set files" by (metis prod.collapse)
  with d r(2) validate_file_records_Inr [OF d(6)] show ?thesis by auto
qed

lemma validate_native_Inr:
  "validate_native v native = Inr () \<Longrightarrow> fst native \<in> set GOOS_NAMES \<and> snd native \<in> set GOARCH_NAMES"
  by (auto simp: validate_native_def bind_res_eq_Inr dict_with_Inr)

lemma validate_input_links_Inr:
  assumes "validate_input_links goos go candidate_files oracle_files inputs = Inr ()"
  shows "candidate_files = in_group ''candidate'' inputs \<and>
    (\<exists>digest. (''sdk/bin/'' @ (if goos = ''windows'' then ''go.exe'' else ''go''), digest) \<in> set inputs \<and> dget go ''binary_sha256'' = VStr digest) \<and>
    (\<forall>r \<in> set oracle_files. (''oracle/'' @ fst r, snd r) \<in> set inputs)"
proof -
  from assms obtain r where "r \<in> set inputs" "fst r = ''sdk/bin/'' @ (if goos = ''windows'' then ''go.exe'' else ''go'')"
    "VStr (snd r) = dget go ''binary_sha256''"
    unfolding validate_input_links_def bind_res_eq_Inr need_Inr by blast
  then have "\<exists>digest. (''sdk/bin/'' @ (if goos = ''windows'' then ''go.exe'' else ''go''), digest) \<in> set inputs \<and> dget go ''binary_sha256'' = VStr digest"
    by (metis prod.collapse)
  moreover have "candidate_files = in_group ''candidate'' inputs \<and> (\<forall>r \<in> set oracle_files. (''oracle/'' @ fst r, snd r) \<in> set inputs)"
    using assms unfolding validate_input_links_def bind_res_eq_Inr need_Inr for_each_Inr by (auto simp: in_group_def)
  ultimately show ?thesis by blast
qed

lemma validate_inputs_Inr:
  assumes "validate_inputs w v goos go candidate_files oracle_files = Inr inputs"
  shows "valid_inventory inputs \<and>
    get_if_dict v ''before_sha256'' = VStr (inventory_digest w inputs) \<and> get_if_dict v ''after_sha256'' = VStr (inventory_digest w inputs) \<and>
    (\<forall>g \<in> set GROUP_NAMES. in_group g inputs \<noteq> []) \<and> validate_input_links goos go candidate_files oracle_files inputs = Inr ()"
proof -
  from assms obtain d groups computed where d: "v = VDict d" "validate_file_records (dget d ''files'') ''transitive Go build'' = Inr inputs"
    "dget d ''before_sha256'' = dget d ''after_sha256''" "dget d ''before_sha256'' = VStr (inventory_digest w inputs)"
    "group_digests w inputs = Inr computed" "validate_input_links goos go candidate_files oracle_files inputs = Inr ()"
    unfolding validate_inputs_def bind_res_eq_Inr need_Inr dict_with_Inr by auto
  with validate_file_records_Inr [OF d(2)] group_digests_Inr [OF d(5)] show ?thesis by auto
qed

text \<open>The observation a raw record repeats, and what the observations of a capture hold.\<close>

lemma raw_record_Inr:
  "raw_record commands name v = Inr () \<Longrightarrow>
     \<exists>linked. map_of commands (if name = ''cases'' then ''go-cases'' else ''go-path-controls'') = Some linked \<and>
       (\<forall>f \<in> set RAW_FIELDS. py_eq (get_if_dict v f) (dget linked f))"
  by (auto simp: raw_record_def bind_res_eq_Inr dict_with_Inr command_by_id_def list_all_iff split: option.splits)

lemma validate_raw_Inr:
  assumes "validate_raw v commands = Inr ()" and name: "name \<in> {''cases'', ''path_controls''}"
  shows "\<exists>obs linked. get_if_dict v ''observations'' = VDict obs \<and>
    map_of commands (if name = ''cases'' then ''go-cases'' else ''go-path-controls'') = Some linked \<and>
    (\<forall>f \<in> set RAW_FIELDS. py_eq (get_if_dict (dget obs name) f) (dget linked f))"
proof -
  from assms(1) obtain d obs where d: "v = VDict d" "dget d ''observations'' = VDict obs"
    "\<forall>n \<in> {''cases'', ''path_controls''}. raw_record commands n (dget obs n) = Inr ()"
    by (auto simp: validate_raw_def bind_res_eq_Inr dict_with_Inr)
  with raw_record_Inr [of commands name "dget obs name"] name show ?thesis by auto
qed

definition complete_observations :: "pyval \<Rightarrow> string \<times> string \<Rightarrow> bool" where
  "complete_observations v native \<longleftrightarrow>
     get_if_dict v ''oracle_commit'' = VStr ORACLE \<and> get_if_dict v ''native_target'' = VStr (target_key native) \<and>
     (\<exists>cases. get_if_dict v ''cases'' = VDict cases \<and> length cases = 13 \<and> set (keys cases) = set CASE_IDS \<and>
        (\<forall>c \<in> set CASE_IDS. is_dict (dget cases c))) \<and>
     (\<exists>controls. get_if_dict v ''path_controls'' = VDict controls \<and> length controls = 9 \<and> set (keys controls) = set PATH_CONTROL_IDS \<and>
        (\<forall>c \<in> set PATH_CONTROL_IDS. is_bool (dget controls c)) \<and>
        (\<forall>c \<in> set STRICT_V1_GO_ACCEPTED. dget controls c = VBool True))"

lemma validate_observations_Inr:
  assumes "validate_observations v native = Inr ()"
  shows "complete_observations v native"
proof -
  from assms obtain d cases controls where d: "v = VDict d" "dget d ''oracle_commit'' = VStr ORACLE"
    "dget d ''native_target'' = VStr (msg [fst native, ''-'', snd native])"
    and c: "dget d ''cases'' = VDict cases" "keys_are cases CASE_IDS" "length cases = 13" "list_all (\<lambda>c. is_dict (dget cases c)) CASE_IDS"
    and p: "dget d ''path_controls'' = VDict controls" "keys_are controls PATH_CONTROL_IDS" "length controls = 9"
    "list_all (\<lambda>c. is_bool (dget controls c)) PATH_CONTROL_IDS"
    "list_all (\<lambda>c. dget controls c = VBool True) STRICT_V1_GO_ACCEPTED"
    unfolding validate_observations_def bind_res_eq_Inr need_Inr dict_with_Inr by blast
  have "\<exists>cases. dget d ''cases'' = VDict cases \<and> length cases = 13 \<and> set (keys cases) = set CASE_IDS \<and>
      (\<forall>c \<in> set CASE_IDS. is_dict (dget cases c))"
    using c by (intro exI [of _ cases]) (simp add: keys_are_def list_all_iff)
  moreover have "\<exists>controls. dget d ''path_controls'' = VDict controls \<and> length controls = 9 \<and> set (keys controls) = set PATH_CONTROL_IDS \<and>
      (\<forall>c \<in> set PATH_CONTROL_IDS. is_bool (dget controls c)) \<and> (\<forall>c \<in> set STRICT_V1_GO_ACCEPTED. dget controls c = VBool True)"
    using p by (intro exI [of _ controls]) (simp add: keys_are_def list_all_iff)
  ultimately show ?thesis
    using d unfolding complete_observations_def target_key_def by simp
qed


section \<open>The whole capture\<close>

lemma ex_unit_iff: "(\<exists>u :: unit. P u) = P ()"
  by auto

lemma validate_capture_payload_Inr:
  assumes "validate_capture_payload w payload native = Inr doc"
  obtains cap oracle_files candidate_files go inputs commands where
    "payload = VDict doc" "dget doc ''schema_version'' = VInt 1" "dget doc ''capture'' = VDict cap"
    "validate_oracle (dget cap ''oracle'') = Inr oracle_files"
    "validate_candidate (dget cap ''candidate'') = Inr candidate_files"
    "validate_native (dget cap ''native'') native = Inr ()"
    "validate_go (dget cap ''go'') native = Inr go"
    "validate_inputs w (dget cap ''inputs'') (fst native) go candidate_files oracle_files = Inr inputs"
    "validate_command_records (dget cap ''commands'') = Inr commands"
    "validate_raw (dget cap ''raw'') commands = Inr ()"
    "validate_observations (dget doc ''observations'') native = Inr ()"
  using assms unfolding validate_capture_payload_def bind_res_eq_Inr need_Inr dict_with_Inr ex_unit_iff by blast


end
