(* ===== verification/FsCompare.thy ===== *)
theory FsCompare
  imports FsRecords
begin

text \<open>
  The comparison of the FS/SEC oracle, \<open>scripts/rust-port/fs_secret_oracle.py\<close>: the normalisation of a
  probe, \<open>compare_observations\<close>, the mutation that serves as its negative control and the reading of
  the named Rust test. The main result is that the negative control cannot pass: where the comparison
  accepts, it rejects the mutated observation.
\<close>

section \<open>Normalisation\<close>

text \<open>\<open>d.pop(k, None)\<close>\<close>

definition dpop :: "pydict \<Rightarrow> string \<Rightarrow> pydict" where
  "dpop d k = filter (\<lambda>p. fst p \<noteq> k) d"

text \<open>\<open>entry.pop("mode", None)\<close> and the loop over \<open>case.get("files", [])\<close>; a string or a dictionary is
  iterated by its characters or keys, which are strings and have no \<open>pop\<close>.\<close>

fun pop_mode :: "pyval \<Rightarrow> pyval res" where
  "pop_mode (VDict e) = Inr (VDict (dpop e ''mode''))"
| "pop_mode (VList _) = Inl TypeError"
| "pop_mode _ = Inl AttributeError"

fun pop_modes :: "pyval \<Rightarrow> pyval res" where
  "pop_modes (VList es) = bind_res (map_res pop_mode es) (\<lambda>fs. Inr (VList fs))"
| "pop_modes (VDict d) = (if d = [] then Inr (VDict d) else Inl AttributeError)"
| "pop_modes (VStr s) = (if s = [] then Inr (VStr s) else Inl AttributeError)"
| "pop_modes _ = Inl TypeError"

definition set_platform :: "pydict \<Rightarrow> pydict" where
  "set_platform d = (if has_key d ''platform'' then dset d ''platform'' (VStr ''${TARGET_OS}'') else d)"

definition drop_modes :: "pydict \<Rightarrow> pyval res" where
  "drop_modes d =
     (let e = dpop d ''mode'' in
      if has_key e ''files'' then bind_res (pop_modes (dget e ''files'')) (\<lambda>fs. Inr (VDict (dset e ''files'' fs))) else Inr (VDict e))"

fun normalize_case :: "bool \<Rightarrow> pyval \<Rightarrow> pyval res" where
  "normalize_case windows (VDict d) = (if windows then drop_modes (set_platform d) else Inr (VDict (set_platform d)))"
| "normalize_case windows (VList xs) = (if VStr ''platform'' \<in> set xs \<or> windows then Inl TypeError else Inr (VList xs))"
| "normalize_case windows (VStr s) =
     (if contains ''platform'' s then Inl TypeError else if windows then Inl AttributeError else Inr (VStr s))"
| "normalize_case windows v = Inl TypeError"

fun normalize_cases :: "bool \<Rightarrow> pydict \<Rightarrow> pydict res" where
  "normalize_cases windows [] = Inr []"
| "normalize_cases windows ((k, c) # cs) =
     bind_res (normalize_case windows c) (\<lambda>c'. bind_res (normalize_cases windows cs) (\<lambda>cs'. Inr ((k, c') # cs')))"

text \<open>\<open>str(value.get("native_target", ""))\<close> decides whether the probe ran on Windows.\<close>

definition normalized_probe :: "world \<Rightarrow> pydict \<Rightarrow> pydict res" where
  "normalized_probe w v =
     (let windows = startswith (py_str (float_text w) (dget_or v ''native_target'' (VStr []))) ''windows'';
          v' = dpop v ''native_target'' in
      case dget_or v' ''cases'' (VDict []) of
        VDict cases \<Rightarrow> bind_res (normalize_cases windows cases) (\<lambda>cs. Inr (if has_key v' ''cases'' then dset v' ''cases'' (VDict cs) else v'))
      | _ \<Rightarrow> Inl AttributeError)"

section \<open>Comparison\<close>

definition RUST_OS :: "string \<Rightarrow> string res" where
  "RUST_OS goos = (case map_of [(''darwin'', ''macos''), (''linux'', ''linux''), (''windows'', ''windows'')] goos of
     None \<Rightarrow> Inl (KeyError goos) | Some s \<Rightarrow> Inr s)"

definition RUST_ARCH :: "string \<Rightarrow> string res" where
  "RUST_ARCH goarch = (case map_of [(''arm64'', ''aarch64''), (''amd64'', ''x86_64'')] goarch of
     None \<Rightarrow> Inl (KeyError goarch) | Some s \<Rightarrow> Inr s)"

definition compared :: "pydict \<Rightarrow> pyval" where
  "compared probe = VDict [(''oracle_commit'', dget probe ''oracle_commit''), (''cases'', dget probe ''cases'')]"

definition compare_observations :: "world \<Rightarrow> string \<times> string \<Rightarrow> pydict \<Rightarrow> pydict \<Rightarrow> unit res" where
  "compare_observations w native go_probe rust_probe =
     bind_res (RUST_OS (fst native)) (\<lambda>rust_os.
     bind_res (RUST_ARCH (snd native)) (\<lambda>rust_arch.
     bind_res (need (dget go_probe ''native_target'' = VStr (msg [fst native, ''-'', snd native]) \<and>
         dget rust_probe ''native_target'' = VStr (msg [rust_os, ''-'', rust_arch]))
       [''executed Rust and recorded Go native identities differ'']) (\<lambda>_.
     bind_res (normalized_probe w go_probe) (\<lambda>expected.
     bind_res (normalized_probe w rust_probe) (\<lambda>actual.
     bind_res (need (canonical_json (float_text w) (compared actual) = canonical_json (float_text w) (compared expected))
       [''actual Rust binary differs from complete normalized Go FS/SEC observations'']) (\<lambda>_.
     (case dget actual ''cases'' of
        VDict cases \<Rightarrow> need (sort (keys cases) = CASE_IDS) [''Rust differential did not execute all 13 FS/SEC cases'']
      | _ \<Rightarrow> Inl TypeError)))))))"

text \<open>A nested index; \<open>KeyError\<close> and \<open>TypeError\<close> are the same error to the caller.\<close>

fun index_path :: "pyval \<Rightarrow> string list \<Rightarrow> pyval option" where
  "index_path v [] = Some v"
| "index_path (VDict d) (k # ks) = (case map_of d k of None \<Rightarrow> None | Some v \<Rightarrow> index_path v ks)"
| "index_path _ (k # ks) = None"

fun assign_path :: "pyval \<Rightarrow> string list \<Rightarrow> pyval \<Rightarrow> pyval" where
  "assign_path v [] x = x"
| "assign_path (VDict d) (k # ks) x = VDict (dset d k (assign_path (dget d k) ks x))"
| "assign_path v (k # ks) x = v"

definition OBSERVATION :: "string list" where
  "OBSERVATION = [''FS-001'', ''outcomes'', ''valid/file'', ''ok'']"

definition mutate_known_observation :: "pyval \<Rightarrow> pyval res" where
  "mutate_known_observation probe =
     (case index_path probe (''cases'' # OBSERVATION) of
        None \<Rightarrow> Inl (RuntimeError ''Go FS-001 observation lacks the mutation control field'')
      | Some (VBool b) \<Rightarrow> Inr (assign_path probe (''cases'' # OBSERVATION) (VBool (\<not> b)))
      | Some _ \<Rightarrow> Inl (RuntimeError ''FS-001 mutation control must target a boolean observation''))"

text \<open>The control of \<open>replay_native\<close>: the cases are mutated, the rest of the observations is kept.\<close>

definition mutated_observations :: "pydict \<Rightarrow> pydict res" where
  "mutated_observations obs =
     bind_res (dindex obs ''cases'') (\<lambda>cases.
     bind_res (mutate_known_observation (VDict [(''cases'', cases)])) (\<lambda>m.
     Inr (dset obs ''cases'' (get_if_dict m ''cases''))))"

section \<open>The named Rust test\<close>

definition lower_char :: "char \<Rightarrow> char" where
  "lower_char c = (if between 65 90 c \<or> between 192 214 c \<or> between 216 222 c then char_of (of_char c + 32 :: nat) else c)"

definition TEST_NAME :: string where
  "TEST_NAME = ''fs001_strict_v1_replays_go_controls''"

text \<open>\<open>re.search\<close> of a whole line with \<open>(?m)^...$\<close>.\<close>

definition has_line :: "string \<Rightarrow> string \<Rightarrow> bool" where
  "has_line line text = (line \<in> set (split_on (CHR 0x0A) text))"

definition assert_named_test_result :: "int option \<Rightarrow> string \<Rightarrow> bool \<Rightarrow> string option \<Rightarrow> unit res" where
  "assert_named_test_result returncode text passed exact_reason =
     (if passed then
        bind_res (need (returncode = Some 0 \<and> has_line (msg [''test '', TEST_NAME, '' ... ok'']) text)
          [''Rust named FS-001 strict-v1 replay did not explicitly pass'']) (\<lambda>_.
        need (contains ''test result: ok. 1 passed; 0 failed; 0 ignored;'' text)
          [''Rust named FS-001 replay did not report exactly one passing test''])
      else
        bind_res (need (returncode \<noteq> Some 0 \<and> has_line (msg [''test '', TEST_NAME, '' ... FAILED'']) text)
          [''Rust path-control mutation did not fail the named test'']) (\<lambda>_.
        bind_res (need (contains ''test result: FAILED. 0 passed; 1 failed; 0 ignored;'' text)
          [''Rust path-control mutation was not one executed test failure'']) (\<lambda>_.
        bind_res (need (case exact_reason of None \<Rightarrow> False | Some r \<Rightarrow> contains r text)
          [''Rust path-control mutation failed for the wrong reason'']) (\<lambda>_.
        need (\<not> contains ''could not compile'' (map lower_char text))
          [''Rust mutation control failed during compilation, not at the assertion'']))))"


section \<open>Updates of dictionaries\<close>

lemma map_of_dpop: "map_of (dpop d k) x = (if x = k then None else map_of d x)"
  by (induction d) (auto simp: dpop_def)

lemma dget_dpop: "dget (dpop d k) x = (if x = k then VNone else dget d x)"
  by (simp add: dget_def map_of_dpop)

lemma has_key_dpop: "has_key (dpop d k) x = (x \<noteq> k \<and> has_key d x)"
  by (simp add: has_key_def map_of_dpop)

lemma dpop_dset: "k \<noteq> m \<Longrightarrow> dpop (dset d k v) m = dset (dpop d m) k v"
  by (induction d k v rule: dset.induct) (auto simp: dpop_def)

text \<open>Values with distinct keys and without floats, as a printed observation has.\<close>

definition plain :: "pyval \<Rightarrow> bool" where
  "plain v \<longleftrightarrow> wf_val v \<and> no_float v"

lemma plain_simps [simp]:
  "plain VNone" "plain (VBool b)" "plain (VInt n)" "plain (VStr s)" "\<not> plain (VFloat r)"
  "plain (VList xs) \<longleftrightarrow> (\<forall>x \<in> set xs. plain x)"
  "plain (VDict d) \<longleftrightarrow> distinct (map fst d) \<and> (\<forall>p \<in> set d. plain (snd p))"
  by (auto simp: plain_def list_all_iff)

lemma plain_dget: "plain (VDict d) \<Longrightarrow> plain (dget d k)"
  by (cases "map_of d k") (auto simp: dget_def dest: map_of_SomeD)

lemma plain_dset: "plain (VDict d) \<Longrightarrow> plain v \<Longrightarrow> plain (VDict (dset d k v))"
  using set_dset [of d k v] by (auto simp: distinct_dset)

lemma plain_dpop: "plain (VDict d) \<Longrightarrow> plain (VDict (dpop d k))"
  by (auto simp: dpop_def distinct_map_filter)

lemma plain_set_platform: "plain (VDict d) \<Longrightarrow> plain (VDict (set_platform d))"
  by (simp add: set_platform_def plain_dset del: plain_simps(7))

lemma plain_pop_mode: "pop_mode v = Inr u \<Longrightarrow> plain v \<Longrightarrow> plain u"
  using plain_dpop by (cases v) (auto simp del: plain_simps(7))

lemma plain_pop_modes: "pop_modes v = Inr u \<Longrightarrow> plain v \<Longrightarrow> plain u"
proof (induction v rule: pop_modes.induct)
  case (1 es)
  then obtain fs where u: "u = VList fs" "map_res pop_mode es = Inr fs" by (auto simp: bind_res_eq_Inr)
  have "plain y" if "y \<in> set fs" for y
    using map_res_mem [OF u(2) that] 1(2) plain_pop_mode by auto
  with u(1) show ?case by simp
qed (auto split: if_splits)

lemma plain_drop_modes: "drop_modes d = Inr u \<Longrightarrow> plain (VDict d) \<Longrightarrow> plain u"
proof -
  assume a: "drop_modes d = Inr u" "plain (VDict d)"
  have e: "plain (VDict (dpop d ''mode''))" using a(2) by (rule plain_dpop)
  show "plain u"
  proof (cases "has_key (dpop d ''mode'') ''files''")
    case True
    with a(1) obtain fs where "pop_modes (dget (dpop d ''mode'') ''files'') = Inr fs" "u = VDict (dset (dpop d ''mode'') ''files'' fs)"
      by (auto simp: drop_modes_def Let_def bind_res_eq_Inr)
    with e show ?thesis using plain_pop_modes plain_dget plain_dset by blast
  next
    case False
    with a(1) e show ?thesis by (auto simp: drop_modes_def Let_def)
  qed
qed

lemma plain_normalize_case: "normalize_case windows c = Inr u \<Longrightarrow> plain c \<Longrightarrow> plain u"
  by (cases c) (auto split: if_splits simp del: plain_simps(7) intro: plain_drop_modes plain_set_platform)

section \<open>The normalisation keeps the observation\<close>

lemma normalize_cases_map_of:
  "normalize_cases windows cs = Inr ds \<Longrightarrow>
     map fst ds = map fst cs \<and> (\<forall>k c. map_of cs k = Some c \<longrightarrow> (\<exists>d. normalize_case windows c = Inr d \<and> map_of ds k = Some d))"
  by (induction cs arbitrary: ds) (auto simp: bind_res_eq_Inr)

lemma plain_normalize_cases: "normalize_cases windows cs = Inr ds \<Longrightarrow> plain (VDict cs) \<Longrightarrow> plain (VDict ds)"
proof -
  assume a: "normalize_cases windows cs = Inr ds" "plain (VDict cs)"
  have "\<forall>p \<in> set ds. plain (snd p)"
    using a
  proof (induction cs arbitrary: ds)
    case (Cons p cs)
    obtain k c where p: "p = (k, c)" by (cases p)
    with Cons.prems(1) obtain d ds' where d: "normalize_case windows c = Inr d" "normalize_cases windows cs = Inr ds'" "ds = (k, d) # ds'"
      by (auto simp: bind_res_eq_Inr)
    moreover have "plain c" "plain (VDict cs)" using Cons.prems(2) p by auto
    ultimately show ?case using Cons.IH [of ds'] plain_normalize_case [of windows c d] by simp
  qed simp
  moreover have "map fst ds = map fst cs" using normalize_cases_map_of [OF a(1)] by blast
  ultimately show ?thesis using a(2) by simp
qed

lemma normalize_cases_dset:
  "normalize_cases windows cs = Inr ds \<Longrightarrow> has_key cs k \<Longrightarrow> normalize_case windows c = Inr d \<Longrightarrow>
     normalize_cases windows (dset cs k c) = Inr (dset ds k d)"
proof (induction cs arbitrary: ds)
  case Nil
  then show ?case by (simp add: has_key_def)
next
  case (Cons p cs)
  obtain k' c' where p: "p = (k', c')" by (cases p)
  with Cons.prems(1) obtain d' ds' where d: "normalize_case windows c' = Inr d'" "normalize_cases windows cs = Inr ds'" "ds = (k', d') # ds'"
    by (auto simp: bind_res_eq_Inr)
  show ?case
  proof (cases "k' = k")
    case True
    with p d Cons.prems(3) show ?thesis by simp
  next
    case False
    with Cons.prems(2) p have "has_key cs k" by (simp add: has_key_def)
    with Cons.IH [OF d(2) this Cons.prems(3)] p d False show ?thesis by simp
  qed
qed

lemma set_platform_get: "k \<noteq> ''platform'' \<Longrightarrow> map_of (set_platform d) k = map_of d k"
  by (simp add: set_platform_def map_of_dset)

lemma drop_modes_get: "drop_modes d = Inr u \<Longrightarrow> k \<noteq> ''mode'' \<Longrightarrow> k \<noteq> ''files'' \<Longrightarrow> \<exists>e. u = VDict e \<and> map_of e k = map_of d k"
  by (auto simp: drop_modes_def Let_def bind_res_eq_Inr map_of_dset map_of_dpop split: if_splits)

text \<open>Outside \<open>platform\<close>, \<open>mode\<close> and \<open>files\<close> a normalised case is the case.\<close>

lemma normalize_case_get:
  assumes "normalize_case windows (VDict d) = Inr u" "k \<notin> {''platform'', ''mode'', ''files''}"
  shows "\<exists>e. u = VDict e \<and> map_of e k = map_of d k"
proof (cases windows)
  case True
  with assms have "drop_modes (set_platform d) = Inr u" "k \<noteq> ''mode''" "k \<noteq> ''files''" by auto
  from drop_modes_get [OF this] assms(2) show ?thesis by (simp add: set_platform_get)
next
  case False
  with assms have "u = VDict (set_platform d)" "k \<noteq> ''platform''" by auto
  then show ?thesis by (simp add: set_platform_get)
qed

lemma normalize_case_dset:
  assumes "normalize_case windows (VDict d) = Inr u" "k \<notin> {''platform'', ''mode'', ''files''}"
  shows "\<exists>u'. normalize_case windows (VDict (dset d k v)) = Inr u'"
proof (cases windows)
  case True
  have hk: "has_key (dpop (set_platform (dset d k v)) ''mode'') ''files'' = has_key (dpop (set_platform d) ''mode'') ''files''"
    using assms(2) by (auto simp: has_key_dpop set_platform_def has_key_dset)
  have "dget (dpop (set_platform (dset d k v)) ''mode'') ''files'' = dget (dpop (set_platform d) ''mode'') ''files''"
    using assms(2) by (auto simp: dget_dpop set_platform_def dget_dset has_key_dset)
  with hk True assms(1) show ?thesis by (auto simp: drop_modes_def Let_def bind_res_eq_Inr split: if_splits)
next
  case False
  then show ?thesis by simp
qed

lemma json_eq_index:
  "json_eq a b \<Longrightarrow> index_path a p = Some x \<Longrightarrow> \<exists>y. index_path b p = Some y \<and> json_eq x y"
proof (induction p arbitrary: a b)
  case Nil
  then show ?case by simp
next
  case (Cons k ks)
  from Cons.prems(2) obtain d v where d: "a = VDict d" "map_of d k = Some v" "index_path v ks = Some x"
    by (cases a) (auto split: option.splits)
  with Cons.prems(1) obtain e where e: "b = VDict e" "json_eq_items d e" by (cases b) auto
  from d(2) have "(k, v) \<in> set d" by (rule map_of_SomeD)
  with e(2) obtain u where "map_of e k = Some u" "json_eq v u"
    unfolding json_eq_items_iff by (metis fst_conv snd_conv)
  with Cons.IH [OF this(2) d(3)] e(1) show ?case by auto
qed


text \<open>A mutated case still normalises, and keeps the mutated value where the original kept its own.\<close>

definition CASE_PATH :: "string list" where
  "CASE_PATH = [''outcomes'', ''valid/file'', ''ok'']"

lemma normalize_case_index:
  assumes "normalize_case windows c = Inr u" "index_path c CASE_PATH = Some x"
  shows "index_path u CASE_PATH = Some x"
proof -
  from assms(2) obtain d where d: "c = VDict d" by (cases c) (auto simp: CASE_PATH_def)
  with assms(1) obtain e where e: "u = VDict e" "map_of e ''outcomes'' = map_of d ''outcomes''"
    using normalize_case_get [of windows d u "''outcomes''"] by auto
  with assms(2) d show ?thesis by (simp add: CASE_PATH_def)
qed

lemma assign_path_index: "index_path v p = Some y \<Longrightarrow> index_path (assign_path v p x) p = Some x"
proof (induction p arbitrary: v)
  case (Cons k ks)
  then obtain d u where "v = VDict d" "map_of d k = Some u" "index_path u ks = Some y"
    by (cases v) (auto split: option.splits)
  with Cons.IH [of u] show ?case by (simp add: map_of_dset dget_def)
qed simp

lemma plain_assign_path: "plain v \<Longrightarrow> plain x \<Longrightarrow> index_path v p = Some y \<Longrightarrow> plain (assign_path v p x)"
proof (induction p arbitrary: v)
  case (Cons k ks)
  then obtain d u where d: "v = VDict d" "map_of d k = Some u" "index_path u ks = Some y"
    by (cases v) (auto split: option.splits)
  then have "dget d k = u" by (simp add: dget_def)
  with Cons.prems d have "plain u" using plain_dget [of d k] by simp
  with Cons.IH [of u] Cons.prems d have "plain (assign_path u ks x)" by blast
  with Cons.prems(1) d show ?case by (simp add: dget_def plain_dset del: plain_simps(7))
qed simp

lemma normalize_mutated_case:
  assumes "normalize_case windows c = Inr u" "index_path c CASE_PATH = Some y"
  shows "\<exists>u'. normalize_case windows (assign_path c CASE_PATH x) = Inr u' \<and> index_path u' CASE_PATH = Some x"
proof -
  from assms(2) obtain d where d: "c = VDict d" by (cases c) (auto simp: CASE_PATH_def)
  then have "assign_path c CASE_PATH x = VDict (dset d ''outcomes'' (assign_path (dget d ''outcomes'') (tl CASE_PATH) x))"
    by (simp add: CASE_PATH_def)
  then obtain u' where u': "normalize_case windows (assign_path c CASE_PATH x) = Inr u'"
    using normalize_case_dset [of windows d u "''outcomes''"] assms(1) d by auto
  have "index_path (assign_path c CASE_PATH x) CASE_PATH = Some x" by (rule assign_path_index [OF assms(2)])
  from normalize_case_index [OF u' this] u' show ?thesis by blast
qed

lemma mutated_observations_Inr:
  assumes "mutated_observations obs = Inr obs'"
  obtains cases c b where "map_of obs ''cases'' = Some (VDict cases)" "map_of cases ''FS-001'' = Some c"
    "index_path c CASE_PATH = Some (VBool b)"
    "obs' = dset obs ''cases'' (VDict (dset cases ''FS-001'' (assign_path c CASE_PATH (VBool (\<not> b)))))"
proof -
  from assms obtain v m where v: "map_of obs ''cases'' = Some v" "mutate_known_observation (VDict [(''cases'', v)]) = Inr m"
    "obs' = dset obs ''cases'' (get_if_dict m ''cases'')"
    by (auto simp: mutated_observations_def bind_res_eq_Inr dindex_def split: option.splits)
  then obtain b where b: "index_path v OBSERVATION = Some (VBool b)" "m = assign_path (VDict [(''cases'', v)]) (''cases'' # OBSERVATION) (VBool (\<not> b))"
    by (auto simp: mutate_known_observation_def split: option.splits pyval.splits)
  then obtain cases where cases: "v = VDict cases" by (cases v) (auto simp: OBSERVATION_def)
  with b(1) obtain c where c: "map_of cases ''FS-001'' = Some c" "index_path c CASE_PATH = Some (VBool b)"
    by (auto simp: OBSERVATION_def CASE_PATH_def split: option.splits)
  have "get_if_dict m ''cases'' = VDict (dset cases ''FS-001'' (assign_path c CASE_PATH (VBool (\<not> b))))"
    using b(2) cases c by (simp add: OBSERVATION_def CASE_PATH_def dget_def)
  with v cases c show thesis by (intro that) simp_all
qed

lemma normalized_mutation:
  assumes n: "normalized_probe w obs = Inr expected" and m: "mutated_observations obs = Inr obs'"
  obtains expected' b where "normalized_probe w obs' = Inr expected'"
    "index_path (dget expected ''cases'') (''FS-001'' # CASE_PATH) = Some (VBool b)"
    "index_path (dget expected' ''cases'') (''FS-001'' # CASE_PATH) = Some (VBool (\<not> b))"
proof -
  from m obtain cases c b where c: "map_of obs ''cases'' = Some (VDict cases)" "map_of cases ''FS-001'' = Some c"
    "index_path c CASE_PATH = Some (VBool b)"
    and obs': "obs' = dset obs ''cases'' (VDict (dset cases ''FS-001'' (assign_path c CASE_PATH (VBool (\<not> b)))))"
    by (rule mutated_observations_Inr)
  define win where "win = startswith (py_str (float_text w) (dget_or obs ''native_target'' (VStr []))) ''windows''"
  have win': "startswith (py_str (float_text w) (dget_or obs' ''native_target'' (VStr []))) ''windows'' = win"
    by (simp add: win_def obs' dget_or_def map_of_dset)
  have hk: "has_key (dpop obs ''native_target'') ''cases''" and get: "dget_or (dpop obs ''native_target'') ''cases'' (VDict []) = VDict cases"
    using c(1) by (simp_all add: has_key_dpop has_key_def dget_or_def map_of_dpop)
  from n obtain cs where cs: "normalize_cases win cases = Inr cs" "expected = dset (dpop obs ''native_target'') ''cases'' (VDict cs)"
    by (auto simp: normalized_probe_def win_def [symmetric] get hk bind_res_eq_Inr Let_def)
  from normalize_cases_map_of [OF cs(1)] c(2) obtain u where u: "normalize_case win c = Inr u" "map_of cs ''FS-001'' = Some u" by blast
  from normalize_mutated_case [OF u(1) c(3)] obtain u' where u': "normalize_case win (assign_path c CASE_PATH (VBool (\<not> b))) = Inr u'"
    "index_path u' CASE_PATH = Some (VBool (\<not> b))" by blast
  have "has_key cases ''FS-001''" using c(2) by (simp add: has_key_def)
  from normalize_cases_dset [OF cs(1) this u'(1)]
  have nc: "normalize_cases win (dset cases ''FS-001'' (assign_path c CASE_PATH (VBool (\<not> b)))) = Inr (dset cs ''FS-001'' u')" .
  have pop: "dpop obs' ''native_target'' = dset (dpop obs ''native_target'') ''cases'' (VDict (dset cases ''FS-001'' (assign_path c CASE_PATH (VBool (\<not> b)))))"
    unfolding obs' by (rule dpop_dset) simp
  define expected' where "expected' = dset (dpop obs' ''native_target'') ''cases'' (VDict (dset cs ''FS-001'' u'))"
  have "normalized_probe w obs' = Inr expected'"
    unfolding normalized_probe_def win' pop expected'_def Let_def
    by (simp add: dget_or_def has_key_dset map_of_dset nc)
  moreover have "index_path (dget expected ''cases'') (''FS-001'' # CASE_PATH) = Some (VBool b)"
    using u normalize_case_index [OF u(1) c(3)] by (simp add: cs(2) dget_dset)
  moreover have "index_path (dget expected' ''cases'') (''FS-001'' # CASE_PATH) = Some (VBool (\<not> b))"
    using u'(2) by (simp add: expected'_def dget_dset map_of_dset)
  ultimately show thesis by (rule that)
qed

lemma plain_normalized:
  assumes "normalized_probe w v = Inr u" "plain (VDict v)"
  shows "plain (VDict u)"
proof -
  have p: "plain (VDict (dpop v ''native_target''))" using assms(2) by (rule plain_dpop)
  from assms(1) obtain cases cs where c: "dget_or (dpop v ''native_target'') ''cases'' (VDict []) = VDict cases"
    "normalize_cases (startswith (py_str (float_text w) (dget_or v ''native_target'' (VStr []))) ''windows'') cases = Inr cs"
    "u = (if has_key (dpop v ''native_target'') ''cases'' then dset (dpop v ''native_target'') ''cases'' (VDict cs) else dpop v ''native_target'')"
    by (auto simp: normalized_probe_def Let_def bind_res_eq_Inr split: pyval.splits)
  have "plain (VDict cases)"
    using c(1) plain_dget [OF p, of "''cases''"] by (cases "map_of (dpop v ''native_target'') ''cases''") (auto simp: dget_or_def dget_def)
  with c(2) have "plain (VDict cs)" by (rule plain_normalize_cases)
  with c(3) p show ?thesis by (simp add: plain_dset del: plain_simps(7))
qed


text \<open>The mutation shows in the compared text.\<close>

lemma mutation_changes_text:
  assumes norm: "normalized_probe w obs = Inr expected" and mut: "mutated_observations obs = Inr obs'" and p: "plain (VDict obs)"
  obtains expected' where "normalized_probe w obs' = Inr expected'"
    "canonical_json (float_text w) (compared expected) \<noteq> canonical_json (float_text w) (compared expected')"
    "dget obs' ''native_target'' = dget obs ''native_target''"
proof -
  from norm mut obtain expected' b where norm': "normalized_probe w obs' = Inr expected'"
    and ix: "index_path (dget expected ''cases'') (''FS-001'' # CASE_PATH) = Some (VBool b)"
    and ix': "index_path (dget expected' ''cases'') (''FS-001'' # CASE_PATH) = Some (VBool (\<not> b))"
    by (rule normalized_mutation)
  from mut obtain cases c b' where obs': "map_of obs ''cases'' = Some (VDict cases)" "map_of cases ''FS-001'' = Some c"
    "index_path c CASE_PATH = Some (VBool b')"
    "obs' = dset obs ''cases'' (VDict (dset cases ''FS-001'' (assign_path c CASE_PATH (VBool (\<not> b')))))"
    by (rule mutated_observations_Inr)
  have pc: "plain (VDict cases)" "plain c"
    using p obs'(1,2) plain_dget [of obs "''cases''"] plain_dget [of cases "''FS-001''"] by (auto simp: dget_def)
  have "plain (assign_path c CASE_PATH (VBool (\<not> b')))" by (rule plain_assign_path [OF pc(2) _ obs'(3)]) simp
  then have "plain (VDict obs')" unfolding obs'(4) using p pc(1) by (intro plain_dset)
  then have pl: "plain (VDict expected)" "plain (VDict expected')" using norm norm' p plain_normalized by blast+
  have comp: "plain (compared e)" if "plain (VDict e)" for e
    using plain_dget [OF that] by (simp add: compared_def)
  have "canonical_json (float_text w) (compared expected) \<noteq> canonical_json (float_text w) (compared expected')"
  proof
    assume "canonical_json (float_text w) (compared expected) = canonical_json (float_text w) (compared expected')"
    then have "json_eq (compared expected) (compared expected')"
      using canonical_json_iff comp [OF pl(1)] comp [OF pl(2)] unfolding plain_def by blast
    moreover have "index_path (compared expected) (''cases'' # ''FS-001'' # CASE_PATH) = Some (VBool b)"
      using ix by (simp add: compared_def)
    ultimately obtain y where "index_path (compared expected') (''cases'' # ''FS-001'' # CASE_PATH) = Some y" "json_eq (VBool b) y"
      using json_eq_index by blast
    with ix' show False by (auto simp: compared_def)
  qed
  moreover have "dget obs' ''native_target'' = dget obs ''native_target''" by (simp add: obs'(4) dget_dset)
  ultimately show thesis using norm' by (rule that [rotated])
qed

lemma compared_texts_differ:
  assumes "RUST_OS (fst native) = Inr os" "RUST_ARCH (snd native) = Inr arch"
    "dget obs ''native_target'' = VStr (msg [fst native, ''-'', snd native])" "dget rust ''native_target'' = VStr (msg [os, ''-'', arch])"
    "normalized_probe w obs = Inr expected" "normalized_probe w rust = Inr actual"
    "canonical_json (float_text w) (compared actual) \<noteq> canonical_json (float_text w) (compared expected)"
  shows "compare_observations w native obs rust = Inl (RuntimeError ''actual Rust binary differs from complete normalized Go FS/SEC observations'')"
  using assms by (simp add: compare_observations_def need_def) (simp add: msg_def)

lemma compare_observations_Inr:
  assumes "compare_observations w native obs rust = Inr ()"
  obtains os arch expected actual where "RUST_OS (fst native) = Inr os" "RUST_ARCH (snd native) = Inr arch"
    "dget obs ''native_target'' = VStr (msg [fst native, ''-'', snd native])" "dget rust ''native_target'' = VStr (msg [os, ''-'', arch])"
    "normalized_probe w obs = Inr expected" "normalized_probe w rust = Inr actual"
    "canonical_json (float_text w) (compared actual) = canonical_json (float_text w) (compared expected)"
  using assms unfolding compare_observations_def bind_res_eq_Inr need_Inr by blast

text \<open>C17: the negative control of the replay cannot pass by accident. Wherever the comparison accepts a
  Go observation (of distinct keys, without floats, as JSON gives it), the observation with the one
  mutated boolean of FS-001 is rejected by the comparison itself: not by another check, not by an
  exception of the normalisation, and whatever the platform.\<close>

theorem mutation_is_rejected:
  assumes "compare_observations w native obs rust = Inr ()" and "mutated_observations obs = Inr obs'"
    and "plain (VDict obs)"
  shows "compare_observations w native obs' rust =
    Inl (RuntimeError ''actual Rust binary differs from complete normalized Go FS/SEC observations'')"
proof -
  from assms(1) obtain os arch expected actual where c: "RUST_OS (fst native) = Inr os" "RUST_ARCH (snd native) = Inr arch"
    "dget obs ''native_target'' = VStr (msg [fst native, ''-'', snd native])" "dget rust ''native_target'' = VStr (msg [os, ''-'', arch])"
    "normalized_probe w obs = Inr expected" "normalized_probe w rust = Inr actual"
    "canonical_json (float_text w) (compared actual) = canonical_json (float_text w) (compared expected)"
    by (rule compare_observations_Inr)
  from c(5) assms(2,3) obtain expected' where e: "normalized_probe w obs' = Inr expected'"
    "canonical_json (float_text w) (compared expected) \<noteq> canonical_json (float_text w) (compared expected')"
    "dget obs' ''native_target'' = dget obs ''native_target''"
    by (rule mutation_changes_text)
  show ?thesis by (rule compared_texts_differ [OF c(1,2) _ c(4) e(1) c(6)]) (use c(3,7) e in simp_all)
qed

section \<open>A concrete comparison\<close>

definition demo_case :: pyval where
  "demo_case = VDict [(''platform'', VStr ''linux''), (''outcomes'', VDict [(''valid/file'', VDict [(''ok'', VBool True)])])]"

definition demo_probe :: "string \<Rightarrow> pydict" where
  "demo_probe native = [(''oracle_commit'', VStr ORACLE), (''native_target'', VStr native),
     (''cases'', VDict (map (\<lambda>c. (c, demo_case)) CASE_IDS))]"

lemma case_ids: "distinct CASE_IDS" "sort CASE_IDS = CASE_IDS" "''FS-001'' \<in> set CASE_IDS"
  by code_simp+


definition demo_normal :: pyval where
  "demo_normal = VDict [(''platform'', VStr ''${TARGET_OS}''), (''outcomes'', VDict [(''valid/file'', VDict [(''ok'', VBool True)])])]"

lemma demo_normalized:
  assumes "\<not> startswith native ''windows''" "distinct (map fst (demo_probe native @ extra))"
  shows "normalized_probe w (demo_probe native @ extra) =
    Inr ([(''oracle_commit'', VStr ORACLE), (''cases'', VDict (map (\<lambda>c. (c, demo_normal)) CASE_IDS))] @ extra)"
proof -
  have one: "normalize_case False demo_case = Inr demo_normal"
    by (simp add: demo_case_def demo_normal_def set_platform_def has_key_def)
  have "normalize_cases False (map (\<lambda>c. (c, demo_case)) cs) = Inr (map (\<lambda>c. (c, demo_normal)) cs)" for cs
    by (induction cs) (simp_all add: one)
  moreover have "''native_target'' \<notin> fst ` set extra" using assms(2) by (simp add: demo_probe_def)
  then have "filter (\<lambda>p. fst p \<noteq> ''native_target'') extra = extra" by (force simp: filter_id_conv)
  ultimately show ?thesis
    using assms(1) by (simp add: normalized_probe_def demo_probe_def dget_or_def py_str_def dpop_def has_key_def Let_def)
qed

lemma demo_targets: "\<not> startswith ''linux-amd64'' ''windows''" "\<not> startswith ''linux-x86_64'' ''windows''"
  "dget (demo_probe t @ extra) ''native_target'' = VStr t"
  by (simp_all add: startswith_def demo_probe_def dget_def)

lemma demo_distinct: "distinct (map fst (demo_probe t))"
  by (simp add: demo_probe_def)

lemma demo_compared:
  assumes "distinct (map fst (demo_probe ''linux-amd64'' @ extra))"
  shows "compare_observations w (''linux'', ''amd64'') (demo_probe ''linux-amd64'' @ extra) (demo_probe ''linux-x86_64'') = Inr ()"
proof -
  have r: "normalized_probe w (demo_probe ''linux-x86_64'') =
      Inr [(''oracle_commit'', VStr ORACLE), (''cases'', VDict (map (\<lambda>c. (c, demo_normal)) CASE_IDS))]"
    using demo_normalized [OF demo_targets(2), of "[]" w] demo_distinct by simp
  note n = demo_normalized [OF demo_targets(1) assms, of w]
  from r n case_ids(2) demo_targets(3) [of "''linux-x86_64''" "[]"] demo_targets(3) [of "''linux-amd64''" extra] show ?thesis
    by (simp add: compare_observations_def RUST_OS_def RUST_ARCH_def need_def) (simp add: dget_def compared_def keys_def comp_def msg_def)
qed

lemma demo_mutated: "\<exists>obs'. mutated_observations (demo_probe ''linux-amd64'' @ extra) = Inr obs'"
proof -
  have "map_of (map (\<lambda>c. (c, demo_case)) CASE_IDS) ''FS-001'' = Some demo_case"
    using case_ids(3) by (simp add: map_of_map_restrict restrict_map_def)
  then show ?thesis
    by (simp add: mutated_observations_def mutate_known_observation_def demo_probe_def dindex_def OBSERVATION_def)
      (simp add: demo_case_def)
qed

lemma demo_plain: "plain (VDict (demo_probe ''linux-amd64''))"
  using case_ids(1) by (auto simp: demo_probe_def demo_case_def comp_def)

lemma mutation_is_rejected_witness:
  "\<forall>w. \<exists>obs'. mutated_observations (demo_probe ''linux-amd64'') = Inr obs' \<and>
     compare_observations w (''linux'', ''amd64'') obs' (demo_probe ''linux-x86_64'') =
       Inl (RuntimeError ''actual Rust binary differs from complete normalized Go FS/SEC observations'')"
proof
  fix w :: world
  obtain obs' where m: "mutated_observations (demo_probe ''linux-amd64'') = Inr obs'" using demo_mutated [of "[]"] by auto
  have c: "compare_observations w (''linux'', ''amd64'') (demo_probe ''linux-amd64'') (demo_probe ''linux-x86_64'') = Inr ()"
    using demo_compared [of "[]" w] demo_distinct by simp
  from mutation_is_rejected [OF c m demo_plain] m
  show "\<exists>obs'. mutated_observations (demo_probe ''linux-amd64'') = Inr obs' \<and>
     compare_observations w (''linux'', ''amd64'') obs' (demo_probe ''linux-x86_64'') =
       Inl (RuntimeError ''actual Rust binary differs from complete normalized Go FS/SEC observations'')" by blast
qed

end
