(* ===== verification/FsRecorder.thy ===== *)
theory FsRecorder
  imports FsCapture FsCompare OracleRun
begin

text \<open>
  The recorder of the FS/SEC oracle (\<open>_Recorder\<close> of \<open>scripts/rust-port/fs_secret_oracle.py\<close>) as a state:
  the command records, the raw files on disk and the content of \<open>run.json\<close>. An operation maps a state
  to a result or an exception and the new state. The interface \<open>keeps_log\<close> is what every operation
  promises, whether it returns or raises; its client lemma carries the promise through a loop.
  \<open>rec_trace\<close> is the list of the commands started, a history the code does not keep.
\<close>

section \<open>Operations that may raise\<close>

type_synonym ('s, 'a) eff = "'s \<Rightarrow> 'a res \<times> 's"

definition return_eff :: "'a \<Rightarrow> ('s, 'a) eff" where
  "return_eff x s = (Inr x, s)"

definition lift_res :: "'a res \<Rightarrow> ('s, 'a) eff" where
  "lift_res r s = (r, s)"

definition bind_eff :: "('s, 'a) eff \<Rightarrow> ('a \<Rightarrow> ('s, 'b) eff) \<Rightarrow> ('s, 'b) eff" where
  "bind_eff m f s = (case m s of (Inl e, s') \<Rightarrow> (Inl e, s') | (Inr x, s') \<Rightarrow> f x s')"

lemma bind_eff_Inr: "bind_eff m f s = (Inr y, s') \<longleftrightarrow> (\<exists>x t. m s = (Inr x, t) \<and> f x t = (Inr y, s'))"
  by (auto simp: bind_eff_def split: prod.splits sum.splits)

lemma lift_res_Inr [simp]: "lift_res r s = (Inr x, s') \<longleftrightarrow> r = Inr x \<and> s' = s"
  by (auto simp: lift_res_def)

lemma return_eff_Inr [simp]: "return_eff x s = (Inr y, s') \<longleftrightarrow> y = x \<and> s' = s"
  by (auto simp: return_eff_def)

section \<open>The recorder\<close>

record recorder =
  rec_commands :: "pydict list"
  rec_files :: "string list"
  rec_run :: pydict
  rec_trace :: "(string \<times> string list) list"

text \<open>\<open>re.sub(r"[^a-z0-9-]", "-", name.lower())\<close>\<close>

definition safe_name :: "string \<Rightarrow> string" where
  "safe_name name = map (\<lambda>c. let l = lower_char c in
     if between 97 122 l \<or> is_digit l \<or> l = CHR ''-'' then l else CHR ''-'') name"

definition flush :: "string \<Rightarrow> string option \<Rightarrow> string option \<Rightarrow> recorder \<Rightarrow> recorder" where
  "flush status etype fixture_sha256 r =
     r\<lparr>rec_run := [(''status'', VStr status), (''commands'', VList (map VDict (rec_commands r)))] @
        (case etype of None \<Rightarrow> [] | Some t \<Rightarrow> if t = [] then [] else [(''error_type'', VStr t)]) @
        (case fixture_sha256 of None \<Rightarrow> [] | Some d \<Rightarrow> if d = [] then [] else [(''fixture_sha256'', VStr d)])\<rparr>"

definition new_recorder :: recorder where
  "new_recorder = flush ''running'' None None \<lparr>rec_commands = [], rec_files = [], rec_run = [], rec_trace = []\<rparr>"

text \<open>\<open>path.open("xb")\<close> refuses an existing file.\<close>

definition write_new :: "string \<Rightarrow> (recorder, unit) eff" where
  "write_new name r =
     (if name \<in> set (rec_files r) then (Inl (OSError name), r) else (Inr (), r\<lparr>rec_files := rec_files r @ [name]\<rparr>))"

definition command_entry :: "world \<Rightarrow> string \<Rightarrow> pyval \<Rightarrow> string \<Rightarrow> string \<Rightarrow> bool \<Rightarrow> bool \<Rightarrow> bool \<Rightarrow> pydict" where
  "command_entry w name rc out err timed exceeded verified =
     [(''id'', VStr name), (''exit_code'', rc), (''timed_out'', VBool timed), (''output_exceeded'', VBool exceeded),
      (''cleanup_verified'', VBool verified), (''stdout_bytes'', VInt (int (length out))), (''stderr_bytes'', VInt (int (length err))),
      (''stdout_sha256'', VStr (sha256 w out)), (''stderr_sha256'', VStr (sha256 w err))]"

definition summary ::
    "world \<Rightarrow> string \<Rightarrow> pyval \<Rightarrow> string \<Rightarrow> string \<Rightarrow> bool \<Rightarrow> bool \<Rightarrow> bool \<Rightarrow> (recorder, pydict) eff" where
  "summary w name rc out err timed exceeded verified =
     (let n = safe_name name; entry = command_entry w n rc out err timed exceeded verified in
      bind_eff (write_new (n @ ''.stdout.raw'')) (\<lambda>_.
      bind_eff (write_new (n @ ''.stderr.raw'')) (\<lambda>_ r.
      (Inr entry, flush ''running'' None None (r\<lparr>rec_commands := rec_commands r @ [entry]\<rparr>)))))"

text \<open>\<open>run\<close>: the raw bytes are kept before the failure is raised again.\<close>

definition exc_of_run :: "checked_error \<Rightarrow> pyexc" where
  "exc_of_run e =
     (case e of RunFailed (BoundedProcessError m _) \<Rightarrow> RuntimeError m | RunFailed (Raised x) \<Rightarrow> x
      | CalledProcessError c \<Rightarrow> ProcessFailed ''command failed'')"

definition recorder_run :: "world \<Rightarrow> checked_error + completed \<Rightarrow> string \<Rightarrow> string list \<Rightarrow> (recorder, completed) eff" where
  "recorder_run w outcome name command r0 =
     (let r = r0\<lparr>rec_trace := rec_trace r0 @ [(name, command)]\<rparr> in
      case outcome of
        Inl e \<Rightarrow>
          bind_eff (case e of
              RunFailed (BoundedProcessError m (Some res)) \<Rightarrow>
                summary w name (opt_int (res_returncode res)) (res_stdout res) (res_stderr res) (timed_out res) (output_exceeded res) (cleanup_verified res)
            | _ \<Rightarrow> summary w name VNone [] [] False False False) (\<lambda>_. lift_res (Inl (exc_of_run e))) r
      | Inr c \<Rightarrow> bind_eff (summary w name (opt_int (comp_returncode c)) (comp_stdout c) (comp_stderr c) False False True) (\<lambda>_. return_eff c) r)"

text \<open>\<open>collect_runner_records\<close>: the records another runner left in a folder, in the order of their
  paths; each is the metadata and the two raw files as they are read.\<close>

definition pad3 :: "nat \<Rightarrow> string" where
  "pad3 n = replicate (3 - length (str_nat n)) (CHR ''0'') @ str_nat n"

definition is_true :: "pyval \<Rightarrow> bool" where
  "is_true v = (v = VBool True)"

definition collect_entry ::
    "world \<Rightarrow> (string \<Rightarrow> pyval res) \<Rightarrow> string \<Rightarrow> nat \<times> string res \<times> string res \<times> string res \<Rightarrow> (recorder, pydict) eff" where
  "collect_entry w pairs start e =
     (case e of (index, metadata_bytes, out, err) \<Rightarrow>
      bind_eff (lift_res (bind_res metadata_bytes (\<lambda>b. decode_json w pairs b ''bounded runner metadata''))) (\<lambda>metadata.
      bind_eff (lift_res out) (\<lambda>o1.
      bind_eff (lift_res err) (\<lambda>e1.
      (case metadata of
         VDict m \<Rightarrow> summary w (msg [start, ''-'', pad3 index]) (dget m ''returncode'') o1 e1
           (is_true (dget m ''timed_out'')) (is_true (dget m ''output_exceeded'')) (is_true (dget m ''cleanup_verified''))
       | _ \<Rightarrow> lift_res (Inl AttributeError))))))"

fun for_each_eff :: "('a \<Rightarrow> ('s, 'b) eff) \<Rightarrow> 'a list \<Rightarrow> ('s, unit) eff" where
  "for_each_eff f [] = return_eff ()"
| "for_each_eff f (x # xs) = bind_eff (f x) (\<lambda>_. for_each_eff f xs)"

definition collect_runner_records ::
    "world \<Rightarrow> (string \<Rightarrow> pyval res) \<Rightarrow> (string res \<times> string res \<times> string res) list \<Rightarrow> string \<Rightarrow> (recorder, unit) eff" where
  "collect_runner_records w pairs entries start = for_each_eff (collect_entry w pairs start) (enumerate 0 entries)"

section \<open>The log\<close>

definition log_ok :: "recorder \<Rightarrow> bool" where
  "log_ok r \<longleftrightarrow>
     distinct (map (\<lambda>d. dget d ''id'') (rec_commands r)) \<and>
     (\<forall>d \<in> set (rec_commands r). keys d = COMMAND_FIELDS \<and>
        (\<exists>n. dget d ''id'' = VStr n \<and> list_all (in_cls [(CHR ''a'', CHR ''z''), (CHR ''0'', CHR ''9''), (CHR ''-'', CHR ''-'')]) n \<and>
           n @ ''.stdout.raw'' \<in> set (rec_files r) \<and> n @ ''.stderr.raw'' \<in> set (rec_files r)))"

locale keeps_log =
  fixes op :: "'a \<Rightarrow> (recorder, 'b) eff"
  assumes keeps: "log_ok r \<Longrightarrow> log_ok (snd (op x r))"
    and grows: "log_ok r \<Longrightarrow> \<exists>more. rec_commands (snd (op x r)) = rec_commands r @ more"
begin

lemma loop_keeps: "log_ok r \<Longrightarrow> log_ok (snd (for_each_eff op xs r))"
proof (induction xs arbitrary: r)
  case (Cons x xs)
  obtain y s where ys: "op x r = (y, s)" by fastforce
  with keeps [OF Cons.prems, of x] have "log_ok s" by simp
  with Cons.IH ys show ?case by (cases y) (simp_all add: bind_eff_def)
qed (simp add: return_eff_def)

text \<open>Nothing recorded is lost or changed.\<close>

lemma loop_grows: "log_ok r \<Longrightarrow> \<exists>more. rec_commands (snd (for_each_eff op xs r)) = rec_commands r @ more"
proof (induction xs arbitrary: r)
  case (Cons x xs)
  obtain y s where ys: "op x r = (y, s)" by fastforce
  with grows [OF Cons.prems, of x] obtain m1 where m1: "rec_commands s = rec_commands r @ m1" by auto
  from keeps [OF Cons.prems, of x] ys have "log_ok s" by simp
  from Cons.IH [OF this] m1 ys show ?case by (cases y) (auto simp: bind_eff_def)
qed (simp add: return_eff_def)

end

lemma safe_name_chars: "list_all (in_cls [(CHR ''a'', CHR ''z''), (CHR ''0'', CHR ''9''), (CHR ''-'', CHR ''-'')]) (safe_name name)"
  by (auto simp: safe_name_def list_all_iff Let_def in_cls_def between_def is_digit_def)

lemma entry_fields: "keys (command_entry w n rc out err t e v) = COMMAND_FIELDS" "dget (command_entry w n rc out err t e v) ''id'' = VStr n"
  by (simp_all add: command_entry_def keys_def COMMAND_FIELDS_def dget_def)

lemma flush_sel [simp]:
  "rec_commands (flush s e f r) = rec_commands r" "rec_files (flush s e f r) = rec_files r" "rec_trace (flush s e f r) = rec_trace r"
  by (simp_all add: flush_def)

lemma log_ok_flush [simp]: "log_ok (flush s e f r) = log_ok r"
  by (simp add: log_ok_def)

lemma log_ok_trace [simp]: "log_ok (r\<lparr>rec_trace := t\<rparr>) = log_ok r"
  by (simp add: log_ok_def)

lemma log_ok_files: "log_ok r \<Longrightarrow> log_ok (r\<lparr>rec_files := rec_files r @ fs\<rparr>)"
  by (fastforce simp: log_ok_def)

lemma summary_log:
  assumes "log_ok r"
  shows "log_ok (snd (summary w name rc out err t e v r)) \<and>
    (\<exists>more. rec_commands (snd (summary w name rc out err t e v r)) = rec_commands r @ more)"
proof -
  define n where "n = safe_name name"
  define s where "s = r\<lparr>rec_files := rec_files r @ [n @ ''.stdout.raw'']\<rparr>"
  define u where "u = r\<lparr>rec_files := rec_files r @ [n @ ''.stdout.raw'', n @ ''.stderr.raw'']\<rparr>"
  define entry where "entry = command_entry w n rc out err t e v"
  consider "n @ ''.stdout.raw'' \<in> set (rec_files r)" | "n @ ''.stdout.raw'' \<notin> set (rec_files r)" "n @ ''.stderr.raw'' \<in> set (rec_files s)"
    | "n @ ''.stdout.raw'' \<notin> set (rec_files r)" "n @ ''.stderr.raw'' \<notin> set (rec_files s)" by blast
  then show ?thesis
  proof cases
    case 1
    then show ?thesis using assms by (simp add: summary_def Let_def n_def bind_eff_def write_new_def)
  next
    case 2
    then have "snd (summary w name rc out err t e v r) = s"
      by (simp add: summary_def Let_def n_def [symmetric] bind_eff_def write_new_def s_def)
    moreover have "log_ok s" unfolding s_def by (rule log_ok_files [OF assms])
    moreover have "rec_commands s = rec_commands r" by (simp add: s_def)
    ultimately show ?thesis by simp
  next
    case 3
    then have r': "snd (summary w name rc out err t e v r) = flush ''running'' None None (u\<lparr>rec_commands := rec_commands u @ [entry]\<rparr>)"
      by (simp add: summary_def Let_def n_def [symmetric] bind_eff_def write_new_def s_def u_def entry_def)
    have u: "log_ok u" unfolding u_def by (rule log_ok_files [OF assms])
    have "VStr n \<noteq> dget d ''id''" if "d \<in> set (rec_commands u)" for d
    proof
      assume "VStr n = dget d ''id''"
      then have "n @ ''.stdout.raw'' \<in> set (rec_files r)" using assms that by (auto simp: log_ok_def u_def)
      with 3(1) show False by blast
    qed
    then have "log_ok (u\<lparr>rec_commands := rec_commands u @ [entry]\<rparr>)"
      using u safe_name_chars [of name] by (auto simp: log_ok_def entry_def entry_fields u_def n_def)
    moreover have "rec_commands u = rec_commands r" by (simp add: u_def)
    ultimately show ?thesis by (simp add: r')
  qed
qed


lemma recorder_run_log:
  assumes "log_ok r"
  shows "log_ok (snd (recorder_run w outcome name command r)) \<and>
    (\<exists>more. rec_commands (snd (recorder_run w outcome name command r)) = rec_commands r @ more)"
proof -
  define r1 where "r1 = r\<lparr>rec_trace := rec_trace r @ [(name, command)]\<rparr>"
  have r1: "log_ok r1" "rec_commands r1 = rec_commands r" using assms by (simp_all add: r1_def)
  have after: "snd (bind_eff m (\<lambda>_. lift_res x) s) = snd (m s)" "snd (bind_eff m (\<lambda>_. return_eff y) s) = snd (m s)"
    for m :: "(recorder, pydict) eff" and x :: "completed res" and y :: completed and s
    by (auto simp: bind_eff_def lift_res_def return_eff_def split: prod.splits sum.splits)
  note kept = summary_log [OF r1(1), unfolded r1(2)]
  show ?thesis
    unfolding recorder_run_def Let_def r1_def [symmetric]
    by (auto simp: after kept split: sum.splits checked_error.splits run_error.splits option.splits)
qed

lemma collect_entry_log:
  assumes "log_ok r"
  shows "log_ok (snd (collect_entry w pairs start e r)) \<and>
    (\<exists>more. rec_commands (snd (collect_entry w pairs start e r)) = rec_commands r @ more)"
proof -
  obtain index mb out err where e: "e = (index, mb, out, err)" by (cases e)
  show ?thesis
    using assms summary_log [OF assms]
    by (auto simp: e collect_entry_def bind_eff_def lift_res_def split: prod.splits sum.splits pyval.splits)
qed

interpretation collected: keeps_log "collect_entry w pairs start" for w pairs start
  by unfold_locales (use collect_entry_log in blast)+

interpretation runs: keeps_log "\<lambda>(outcome, name, command). recorder_run w outcome name command" for w
  by unfold_locales (use recorder_run_log in \<open>simp_all add: case_prod_beta\<close>)


lemma new_recorder_ok: "log_ok new_recorder"
  by (simp add: new_recorder_def log_ok_def)


end
