(* ===== verification/FsPayload.thy ===== *)
theory FsPayload
  imports FsCapture
begin

text \<open>
  \<open>_capture_payload\<close> of \<open>scripts/rust-port/fs_secret_oracle.py\<close>: the document a native capture writes,
  and the round trip: a document built from a clean run is accepted by the validator of the replay.
\<close>

record capture_parts =
  run_head_before :: string
  run_head_after :: string
  run_clean_before :: bool
  run_clean_after :: bool
  run_target :: "string \<times> string"
  run_go_version :: string
  run_go_tool :: path
  run_probe_binary_sha256 :: string
  run_source_sha :: string
  run_source_files :: "file_record list"
  run_candidate_files :: "file_record list"
  run_inventory :: "file_record list"
  run_commands :: "pydict list"
  run_observations :: pyval

definition next_or_stop :: "'a option \<Rightarrow> 'a res" where
  "next_or_stop x = (case x of None \<Rightarrow> Inl StopIteration | Some y \<Rightarrow> Inr y)"

lemma next_or_stop_simps [simp]: "next_or_stop (Some y) = Inr y" "next_or_stop None = Inl StopIteration"
  by (simp_all add: next_or_stop_def)

definition raw_fields_of :: "pydict \<Rightarrow> pyval" where
  "raw_fields_of d = VDict (map (\<lambda>f. (f, dget d f)) RAW_FIELDS)"

definition oracle_section :: "capture_parts \<Rightarrow> pyval" where
  "oracle_section p = VDict [(''commit'', VStr ORACLE), (''source_sha256'', VStr (run_source_sha p)),
     (''source_files'', records_value (run_source_files p))]"

definition candidate_section :: "capture_parts \<Rightarrow> string \<Rightarrow> pyval" where
  "candidate_section p helper = VDict [(''head_before'', VStr (run_head_before p)), (''head_after'', VStr (run_head_after p)),
     (''clean_before'', VBool (run_clean_before p)), (''clean_after'', VBool (run_clean_after p)),
     (''go_helper_sha256'', VStr helper), (''files'', records_value (run_candidate_files p))]"

definition go_section :: "capture_parts \<Rightarrow> string \<Rightarrow> pydict \<Rightarrow> pydict" where
  "go_section p binary groups =
     [(''version'', VStr (run_go_version p)), (''goversion'', VStr GO_VERSION), (''goos'', VStr (fst (run_target p))),
      (''goarch'', VStr (snd (run_target p))), (''binary_sha256'', VStr binary), (''goroot_label'', VStr ''installed-go-sdk''),
      (''probe_binary_sha256'', VStr (run_probe_binary_sha256 p)), (''gomodcache_policy'', VStr ''existing-cache-offline-read-only''),
      (''sdk_sha256'', dget groups ''sdk''), (''modules_sha256'', dget groups ''modules'')]"

definition inputs_section :: "world \<Rightarrow> capture_parts \<Rightarrow> pydict \<Rightarrow> pyval" where
  "inputs_section w p groups = VDict [(''before_sha256'', VStr (inventory_digest w (run_inventory p))),
     (''after_sha256'', VStr (inventory_digest w (run_inventory p))), (''files'', records_value (run_inventory p)), (''groups'', VDict groups)]"

definition raw_section :: "pydict \<Rightarrow> pydict \<Rightarrow> pyval" where
  "raw_section cases_record controls_record = VDict [(''artifact_id'', VStr ''private-run''),
     (''observations'', VDict [(''cases'', raw_fields_of cases_record), (''path_controls'', raw_fields_of controls_record)])]"

definition case_inventory_section :: pyval where
  "case_inventory_section = VDict [(''case_ids'', VList (map VStr CASE_IDS)), (''path_control_ids'', VList (map VStr PATH_CONTROL_IDS))]"

definition capture_payload :: "world \<Rightarrow> capture_parts \<Rightarrow> pydict res" where
  "capture_payload w p =
     bind_res (group_digests w (run_inventory p)) (\<lambda>groups.
     bind_res (resolve_path w (run_go_tool p)) (\<lambda>go_binary.
     bind_res (next_or_stop (List.find (\<lambda>r. fst r = HELPER_PATH) (run_candidate_files p))) (\<lambda>helper.
     bind_res (next_or_stop (List.find (\<lambda>d. dget d ''id'' = VStr ''go-cases'') (run_commands p))) (\<lambda>cases_record.
     bind_res (next_or_stop (List.find (\<lambda>d. dget d ''id'' = VStr ''go-path-controls'') (run_commands p))) (\<lambda>controls_record.
     bind_res (read_bytes w go_binary) (\<lambda>binary.
     Inr [(''schema_version'', VInt 1),
          (''capture'', VDict
             [(''oracle'', oracle_section p), (''candidate'', candidate_section p (snd helper)),
              (''native'', VDict [(''goos'', VStr (fst (run_target p))), (''goarch'', VStr (snd (run_target p)))]),
              (''go'', VDict (go_section p (sha256 w binary) groups)), (''inputs'', inputs_section w p groups),
              (''commands'', VList (map VDict (run_commands p))), (''raw'', raw_section cases_record controls_record),
              (''case_inventory'', case_inventory_section)]),
          (''observations'', run_observations p)]))))))"

section \<open>Clean runs\<close>

text \<open>What the capture has established when it builds the document.\<close>

definition clean_run :: "world \<Rightarrow> capture_parts \<Rightarrow> bool" where
  "clean_run w p \<longleftrightarrow>
     fullmatch HEX40 (run_head_before p) \<and> run_head_after p = run_head_before p \<and> run_clean_before p \<and> run_clean_after p \<and>
     fst (run_target p) \<in> set GOOS_NAMES \<and> snd (run_target p) \<in> set GOARCH_NAMES \<and>
     run_go_version p = msg [''go version '', GO_VERSION, '' '', fst (run_target p), ''/'', snd (run_target p)] \<and>
     fullmatch HEX64 (run_probe_binary_sha256 p) \<and> fullmatch HEX64 (run_source_sha p) \<and>
     valid_inventory (run_source_files p) \<and> map fst (run_source_files p) = sort ORACLE_SOURCE_FILES \<and>
     valid_inventory (run_inventory p) \<and> run_candidate_files p = in_group ''candidate'' (run_inventory p) \<and>
     (\<exists>r \<in> set (run_candidate_files p). fst r = HELPER_PATH) \<and> (\<forall>g \<in> set GROUP_NAMES. in_group g (run_inventory p) \<noteq> []) \<and>
     (\<forall>r \<in> set (run_source_files p). (''oracle/'' @ fst r, snd r) \<in> set (run_inventory p)) \<and>
     (\<exists>go_binary binary. resolve_path w (run_go_tool p) = Inr go_binary \<and> read_bytes w go_binary = Inr binary \<and>
        (''sdk/bin/'' @ (if fst (run_target p) = ''windows'' then ''go.exe'' else ''go''), sha256 w binary) \<in> set (run_inventory p)) \<and>
     (\<exists>rs. run_commands p = map snd rs \<and> (\<forall>r \<in> set rs. clean_command (fst r) (snd r)) \<and> distinct (map fst rs) \<and>
        set REQUIRED_COMMANDS \<subseteq> set (map fst rs)) \<and>
     complete_observations (run_observations p) (run_target p) \<and>
     (\<exists>d. run_observations p = VDict d \<and> keys_are d [''oracle_commit'', ''native_target'', ''cases'', ''path_controls''])"

lemma find_exists: "(\<exists>x \<in> set xs. P x) \<Longrightarrow> \<exists>x. List.find P xs = Some x \<and> x \<in> set xs \<and> P x"
  by (induction xs) auto

lemma dict_with_lit: "set (map fst d) = set ks \<Longrightarrow> dict_with (VDict d) ks parts = Inr d"
  by (simp add: dict_with_def keys_are_def keys_def)

lemma dget_Cons: "dget ((k, v) # d) x = (if x = k then v else dget d x)"
  by (simp add: dget_def)

lemma dget_map: "dget (map (\<lambda>f. (f, g f)) ks) k = (if k \<in> set ks then g k else VNone)"
  by (induction ks) (auto simp: dget_def)

lemma group_digests_exists:
  assumes "\<forall>g \<in> set GROUP_NAMES. in_group g files \<noteq> []"
  shows "group_digests w files = Inr (map (\<lambda>g. (g, VStr (inventory_digest w (in_group g files)))) GROUP_NAMES)"
proof -
  have "(\<forall>g \<in> set gs. in_group g files \<noteq> []) \<Longrightarrow>
      group_digests_loop w files gs = Inr (map (\<lambda>g. (g, VStr (inventory_digest w (in_group g files)))) gs)" for gs
    by (induction gs) simp_all
  with assms show ?thesis by (simp add: group_digests_def)
qed

lemma validate_oracle_section:
  "clean_run w p \<Longrightarrow> validate_oracle (oracle_section p) = Inr (run_source_files p)"
  by (auto simp: validate_oracle_def oracle_section_def dict_with_lit dget_Cons clean_run_def validate_file_records_self
      is_digest_def need_def)

lemma validate_candidate_section:
  assumes "clean_run w p" "List.find (\<lambda>r. fst r = HELPER_PATH) (run_candidate_files p) = Some helper"
  shows "validate_candidate (candidate_section p (snd helper)) = Inr (run_candidate_files p)"
proof -
  have inv: "valid_inventory (run_inventory p)" "run_candidate_files p = in_group ''candidate'' (run_inventory p)"
    "fullmatch HEX40 (run_head_before p)" "run_head_after p = run_head_before p" "run_clean_before p" "run_clean_after p"
    using assms(1) by (simp_all add: clean_run_def)
  have "helper \<in> set (run_candidate_files p)" using assms(2) by (rule find_SomeD [THEN conjunct1])
  moreover from this have "run_candidate_files p \<noteq> []" by auto
  ultimately have "valid_inventory (run_candidate_files p)" "fullmatch HEX64 (snd helper)"
    using inv(1,2) by (simp_all add: valid_inventory_def in_group_def sorted_map sorted_wrt_filter distinct_map_filter)
  with assms(2) inv show ?thesis
    by (simp add: validate_candidate_def candidate_section_def dict_with_lit CANDIDATE_FIELDS_def dget_Cons is_commit_def is_digest_def
        validate_file_records_self need_def insert_commute)
qed

lemma validate_go_section:
  assumes "clean_run w p" "\<And>x. fullmatch HEX64 (sha256 w x)"
  shows "validate_go (VDict (go_section p (sha256 w binary) (map (\<lambda>g. (g, VStr (inventory_digest w (in_group g files)))) GROUP_NAMES)))
      (run_target p) = Inr (go_section p (sha256 w binary) (map (\<lambda>g. (g, VStr (inventory_digest w (in_group g files)))) GROUP_NAMES))"
proof -
  have "map fst (go_section p (sha256 w binary) d) = [''version'', ''goversion'', ''goos'', ''goarch'', ''binary_sha256'',
      ''goroot_label'', ''probe_binary_sha256'', ''gomodcache_policy'', ''sdk_sha256'', ''modules_sha256'']" for d
    by (simp add: go_section_def)
  then have "set (map fst (go_section p (sha256 w binary) d)) = set GO_FIELDS" for d
    by (simp only: GO_FIELDS_def) auto
  moreover have "fullmatch HEX64 (inventory_digest w f)" for f using assms(2) by (simp add: inventory_digest_def)
  ultimately show ?thesis
    using assms by (simp add: validate_go_def dict_with_lit need_def clean_run_def)
      (simp add: go_section_def dget_Cons dget_map is_digest_def GROUP_NAMES_def)
qed


lemma validate_inputs_section:
  assumes run: "clean_run w p" and dig: "\<And>x. fullmatch HEX64 (sha256 w x)"
    and bin: "(''sdk/bin/'' @ (if fst (run_target p) = ''windows'' then ''go.exe'' else ''go''), sha256 w binary) \<in> set (run_inventory p)"
    and groups: "groups = map (\<lambda>g. (g, VStr (inventory_digest w (in_group g (run_inventory p))))) GROUP_NAMES"
  shows "validate_inputs w (inputs_section w p groups) (fst (run_target p)) (go_section p (sha256 w binary) groups)
      (run_candidate_files p) (run_source_files p) = Inr (run_inventory p)"
proof -
  have inv: "valid_inventory (run_inventory p)" "run_candidate_files p = in_group ''candidate'' (run_inventory p)"
    "\<forall>g \<in> set GROUP_NAMES. in_group g (run_inventory p) \<noteq> []" "\<forall>r \<in> set (run_source_files p). (''oracle/'' @ fst r, snd r) \<in> set (run_inventory p)"
    using run by (simp_all add: clean_run_def)
  have go: "dget (go_section p (sha256 w binary) groups) ''binary_sha256'' = VStr (sha256 w binary)"
    "dget (go_section p (sha256 w binary) groups) ''sdk_sha256'' = dget groups ''sdk''"
    "dget (go_section p (sha256 w binary) groups) ''modules_sha256'' = dget groups ''modules''"
    by (simp_all add: go_section_def dget_Cons)
  have "startswith (''oracle/'' @ x) ''oracle/''" for x by (rule startswith_append)
  then have "\<forall>r \<in> set (run_source_files p). (''oracle/'' @ fst r, snd r) \<in> set (in_group ''oracle'' (run_inventory p))"
    using inv(4) by (simp add: in_group_def)
  moreover have "\<exists>r \<in> set (run_inventory p). fst r = ''sdk/bin/'' @ (if fst (run_target p) = ''windows'' then ''go.exe'' else ''go'') \<and>
      VStr (snd r) = dget (go_section p (sha256 w binary) groups) ''binary_sha256''"
    by (rule bexI [OF _ bin]) (simp add: go)
  ultimately have links: "validate_input_links (fst (run_target p)) (go_section p (sha256 w binary) groups) (run_candidate_files p) (run_source_files p) (run_inventory p) = Inr ()"
    using inv(2) unfolding validate_input_links_def bind_res_eq_Inr need_Inr for_each_Inr by blast
  have "distinct (map fst groups)" by (simp add: groups GROUP_NAMES_def)
  then have eq: "py_eq (VDict groups) (VDict groups)" by (intro py_eq_refl) (auto simp: groups)
  have keys: "set (map fst groups) = set GROUP_NAMES" by (simp add: groups)
  have "fullmatch HEX64 (inventory_digest w f)" for f using dig by (simp add: inventory_digest_def)
  with inv(1) go links eq keys show ?thesis
    by (simp add: validate_inputs_def inputs_section_def dict_with_lit dget_Cons validate_file_records_self is_digest_def need_def
        group_digests_exists [OF inv(3), of w] groups [symmetric])
qed

lemma find_by_id:
  "(\<forall>r \<in> set rs. dget (snd r) ''id'' = VStr (fst r)) \<Longrightarrow> List.find (\<lambda>d. dget d ''id'' = VStr n) (map snd rs) = map_of rs n"
  by (induction rs) auto

lemma raw_fields_plain:
  assumes "clean_command name d" "f \<in> set RAW_FIELDS"
  shows "py_eq (dget d f) (dget d f)"
  using assms by (auto simp: clean_command_def RAW_FIELDS_def is_count_iff record_digest_iff)

lemma raw_record_self:
  assumes "map_of rs (if name = ''cases'' then ''go-cases'' else ''go-path-controls'') = Some d" "clean_command n d"
  shows "raw_record rs name (raw_fields_of d) = Inr ()"
proof -
  have sub: "{''exit_code'', ''stdout_bytes'', ''stderr_bytes'', ''stdout_sha256'', ''stderr_sha256''} = set RAW_FIELDS"
    by (simp add: RAW_FIELDS_def)
  then have get: "f \<in> set RAW_FIELDS \<Longrightarrow> dget (map (\<lambda>f. (f, dget d f)) RAW_FIELDS) f = dget d f" for f
    by (simp add: dget_map)
  have "dict_with (raw_fields_of d) RAW_FIELDS parts = Inr (map (\<lambda>f. (f, dget d f)) RAW_FIELDS)" for parts
    unfolding raw_fields_of_def by (rule dict_with_lit) (simp add: comp_def)
  moreover have "list_all (\<lambda>f. py_eq (dget (map (\<lambda>f. (f, dget d f)) RAW_FIELDS) f) (dget d f)) RAW_FIELDS"
    using raw_fields_plain [OF assms(2)] get by (auto simp: list_all_iff)
  moreover have "\<forall>f \<in> {''exit_code'', ''stdout_bytes'', ''stderr_bytes'', ''stdout_sha256'', ''stderr_sha256''}.
      dget (map (\<lambda>f. (f, dget d f)) RAW_FIELDS) f = dget d f"
    using get sub by blast
  ultimately show ?thesis
    using assms unfolding raw_record_def by (simp add: command_by_id_def clean_command_def need_def split: if_splits)
qed


lemma validate_raw_section:
  assumes "map_of rs ''go-cases'' = Some c" "clean_command ''go-cases'' c"
    "map_of rs ''go-path-controls'' = Some k" "clean_command ''go-path-controls'' k"
  shows "validate_raw (raw_section c k) rs = Inr ()"
  using raw_record_self [of rs "''cases''" c "''go-cases''"] raw_record_self [of rs "''path_controls''" k "''go-path-controls''"] assms
  by (simp add: validate_raw_def raw_section_def dict_with_lit dget_Cons need_def)

lemma validate_observations_complete:
  assumes "complete_observations v native" "v = VDict d" "keys_are d [''oracle_commit'', ''native_target'', ''cases'', ''path_controls'']"
  shows "validate_observations v native = Inr ()"
proof -
  from assms obtain cases controls where c: "dget d ''cases'' = VDict cases" "keys_are cases CASE_IDS" "length cases = 13"
    "list_all (\<lambda>c. is_dict (dget cases c)) CASE_IDS"
    and k: "dget d ''path_controls'' = VDict controls" "keys_are controls PATH_CONTROL_IDS" "length controls = 9"
    "list_all (\<lambda>c. is_bool (dget controls c)) PATH_CONTROL_IDS" "list_all (\<lambda>c. dget controls c = VBool True) STRICT_V1_GO_ACCEPTED"
    and o1: "dget d ''oracle_commit'' = VStr ORACLE" "dget d ''native_target'' = VStr (target_key native)"
    unfolding complete_observations_def keys_are_def list_all_iff get_if_dict_simps assms(2) by blast
  show ?thesis
    using c k o1 assms(3) unfolding validate_observations_def bind_res_eq_Inr need_Inr dict_with_Inr ex_unit_iff assms(2) target_key_def
    by blast
qed

lemma clean_run_commands:
  assumes "clean_run w p"
  obtains rs c k where "run_commands p = map snd rs" "validate_command_records (VList (map VDict (run_commands p))) = Inr rs"
    "List.find (\<lambda>d. dget d ''id'' = VStr ''go-cases'') (run_commands p) = Some c" "map_of rs ''go-cases'' = Some c" "clean_command ''go-cases'' c"
    "List.find (\<lambda>d. dget d ''id'' = VStr ''go-path-controls'') (run_commands p) = Some k" "map_of rs ''go-path-controls'' = Some k"
    "clean_command ''go-path-controls'' k"
proof -
  from assms obtain rs where rs: "run_commands p = map snd rs" "\<forall>r \<in> set rs. clean_command (fst r) (snd r)" "distinct (map fst rs)"
    "set REQUIRED_COMMANDS \<subseteq> set (map fst rs)"
    unfolding clean_run_def by blast
  have ids: "\<forall>r \<in> set rs. dget (snd r) ''id'' = VStr (fst r)" using rs(2) by (simp add: clean_command_def)
  have look: "\<exists>d. map_of rs n = Some d \<and> clean_command n d" if "n \<in> set REQUIRED_COMMANDS" for n
  proof -
    from that rs(4) have "n \<in> set (map fst rs)" by blast
    then obtain d where "(n, d) \<in> set rs" by auto
    with rs(2,3) show ?thesis by (metis fst_conv map_of_is_SomeI snd_conv)
  qed
  obtain c where c: "map_of rs ''go-cases'' = Some c" "clean_command ''go-cases'' c"
    using look [of "''go-cases''"] by (auto simp: REQUIRED_COMMANDS_def)
  obtain k where k: "map_of rs ''go-path-controls'' = Some k" "clean_command ''go-path-controls'' k"
    using look [of "''go-path-controls''"] by (auto simp: REQUIRED_COMMANDS_def)
  have "validate_command_records (VList (map VDict (run_commands p))) = Inr rs"
    using rs by (simp add: validate_command_records_Inr comp_def)
  with rs(1) c k show thesis by (intro that) (simp_all add: find_by_id [OF ids])
qed

lemma capture_payload_accepted:
  assumes run: "clean_run w p" and dig: "\<And>x. fullmatch HEX64 (sha256 w x)"
  shows "\<exists>doc. capture_payload w p = Inr doc \<and> validate_capture_payload w (VDict doc) (run_target p) = Inr doc"
proof -
  define groups where "groups = map (\<lambda>g. (g, VStr (inventory_digest w (in_group g (run_inventory p))))) GROUP_NAMES"
  have ne: "\<forall>g \<in> set GROUP_NAMES. in_group g (run_inventory p) \<noteq> []" and helper: "\<exists>r \<in> set (run_candidate_files p). fst r = HELPER_PATH"
    and nat: "fst (run_target p) \<in> set GOOS_NAMES" "snd (run_target p) \<in> set GOARCH_NAMES"
    and obs: "complete_observations (run_observations p) (run_target p)"
    using run unfolding clean_run_def by blast+
  from run obtain od where od: "run_observations p = VDict od" "keys_are od [''oracle_commit'', ''native_target'', ''cases'', ''path_controls'']"
    unfolding clean_run_def by blast
  from run obtain go_binary binary where bin: "resolve_path w (run_go_tool p) = Inr go_binary" "read_bytes w go_binary = Inr binary"
    "(''sdk/bin/'' @ (if fst (run_target p) = ''windows'' then ''go.exe'' else ''go''), sha256 w binary) \<in> set (run_inventory p)"
    unfolding clean_run_def by blast
  from find_exists [OF helper] obtain h where h: "List.find (\<lambda>r. fst r = HELPER_PATH) (run_candidate_files p) = Some h" by blast
  from run show ?thesis
  proof (rule clean_run_commands)
    fix rs c k
    assume cm: "validate_command_records (VList (map VDict (run_commands p))) = Inr rs"
      and c: "List.find (\<lambda>d. dget d ''id'' = VStr ''go-cases'') (run_commands p) = Some c" "map_of rs ''go-cases'' = Some c" "clean_command ''go-cases'' c"
      and k: "List.find (\<lambda>d. dget d ''id'' = VStr ''go-path-controls'') (run_commands p) = Some k" "map_of rs ''go-path-controls'' = Some k"
        "clean_command ''go-path-controls'' k"
    define cap where "cap = [(''oracle'', oracle_section p), (''candidate'', candidate_section p (snd h)),
              (''native'', VDict [(''goos'', VStr (fst (run_target p))), (''goarch'', VStr (snd (run_target p)))]),
              (''go'', VDict (go_section p (sha256 w binary) groups)), (''inputs'', inputs_section w p groups),
              (''commands'', VList (map VDict (run_commands p))), (''raw'', raw_section c k),
              (''case_inventory'', case_inventory_section)]"
    have payload: "capture_payload w p = Inr [(''schema_version'', VInt 1), (''capture'', VDict cap), (''observations'', run_observations p)]"
      by (simp add: capture_payload_def group_digests_exists [OF ne] groups_def bin(1,2) h c(1) k(1) cap_def)
    have keys: "dict_with (VDict cap) CAPTURE_FIELDS parts = Inr cap" for parts
      by (rule dict_with_lit) (simp add: cap_def CAPTURE_FIELDS_def)
    have get: "dget cap ''oracle'' = oracle_section p" "dget cap ''candidate'' = candidate_section p (snd h)"
      "dget cap ''native'' = VDict [(''goos'', VStr (fst (run_target p))), (''goarch'', VStr (snd (run_target p)))]"
      "dget cap ''go'' = VDict (go_section p (sha256 w binary) groups)" "dget cap ''inputs'' = inputs_section w p groups"
      "dget cap ''commands'' = VList (map VDict (run_commands p))" "dget cap ''raw'' = raw_section c k"
      "dget cap ''case_inventory'' = case_inventory_section"
      by (simp_all add: cap_def dget_Cons)
    have native: "validate_native (VDict [(''goos'', VStr (fst (run_target p))), (''goarch'', VStr (snd (run_target p)))]) (run_target p) = Inr ()"
      using nat by (simp add: validate_native_def dict_with_lit dget_Cons need_def)
    have cases: "validate_case_inventory case_inventory_section = Inr ()"
      by (simp add: validate_case_inventory_def case_inventory_section_def dict_with_lit dget_Cons)
    have top: "dict_with (VDict [(''schema_version'', VInt 1), (''capture'', VDict cap), (''observations'', run_observations p)])
        [''schema_version'', ''capture'', ''observations''] parts =
        Inr [(''schema_version'', VInt 1), (''capture'', VDict cap), (''observations'', run_observations p)]" for parts
      by (rule dict_with_lit) simp
    have "validate_capture_payload w (VDict [(''schema_version'', VInt 1), (''capture'', VDict cap), (''observations'', run_observations p)]) (run_target p) =
        Inr [(''schema_version'', VInt 1), (''capture'', VDict cap), (''observations'', run_observations p)]"
      unfolding validate_capture_payload_def top bind_res_simps
      by (simp add: dget_Cons keys get validate_oracle_section [OF run] validate_candidate_section [OF run h] native
          validate_go_section [OF run dig, where files = "run_inventory p", folded groups_def] validate_inputs_section [OF run dig bin(3) groups_def] cm
          validate_raw_section [OF c(2,3) k(2,3)] cases validate_observations_complete [OF obs od] need_def)
    with payload show ?thesis by blast
  qed
qed


text \<open>C27: what a clean capture writes is what the replay accepts. If the candidate was one clean commit,
  the inventory is in order and covers its four groups, the pinned sources, the helper and the compiler,
  every required command ran cleanly and the observations are complete, then the document is built, and
  any text that decodes to it is accepted once its digest is the anchor of the target, with that very
  document as the result.\<close>

theorem clean_capture_is_accepted:
  assumes "clean_run w p" and "\<And>x. fullmatch HEX64 (sha256 w x)"
  shows "\<exists>doc. capture_payload w p = Inr doc \<and>
    (\<forall>raw_bytes pairs anchors.
       decode_json w pairs raw_bytes ''frozen-v1 capture'' = Inr (VDict doc) \<and>
       map_of anchors (target_key (run_target p)) = Some (sha256 w raw_bytes) \<longrightarrow>
       validate_capture_bytes w pairs raw_bytes (run_target p) anchors = Inr doc)"
  using capture_payload_accepted [OF assms] assms(2)
  by (auto simp: validate_capture_bytes_def anchor_for_def is_digest_def need_def)

section \<open>A concrete capture\<close>

definition demo_digest :: string where
  "demo_digest = replicate 64 (CHR ''a'')"

definition demo_world :: world where
  "demo_world = \<lparr>run_git = \<lambda>_ _. (0, [], []), lstat_of = \<lambda>_. Inr Regular, is_file = \<lambda>_. True, is_dir = \<lambda>_. False,
     resolve_path = Inr, tree_at = \<lambda>_. [], read_bytes = \<lambda>_. Inr [], utf8 = Inr, encode_utf8 = \<lambda>s. s,
     toml_loads = \<lambda>_. Inr [], json_loads = \<lambda>_. Inr VNone, sha256 = \<lambda>_. demo_digest, float_text = \<lambda>_. []\<rparr>"

definition demo_command :: "string \<Rightarrow> pydict" where
  "demo_command name = [(''id'', VStr name), (''exit_code'', VInt 0), (''timed_out'', VBool False), (''output_exceeded'', VBool False),
     (''cleanup_verified'', VBool True), (''stdout_bytes'', VInt 2), (''stderr_bytes'', VInt 0),
     (''stdout_sha256'', VStr demo_digest), (''stderr_sha256'', VStr demo_digest)]"

definition demo_parts :: capture_parts where
  "demo_parts = \<lparr>run_head_before = replicate 40 (CHR ''b''), run_head_after = replicate 40 (CHR ''b''), run_clean_before = True, run_clean_after = True,
     run_target = (''linux'', ''amd64''), run_go_version = ''go version go1.26.6 linux/amd64'', run_go_tool = [''sdk'', ''bin'', ''go''],
     run_probe_binary_sha256 = demo_digest, run_source_sha = demo_digest,
     run_source_files = map (\<lambda>f. (f, demo_digest)) (sort ORACLE_SOURCE_FILES),
     run_candidate_files = [(HELPER_PATH, demo_digest)],
     run_inventory = (HELPER_PATH, demo_digest) # (''modules/cache/go.mod'', demo_digest) #
       map (\<lambda>f. (''oracle/'' @ f, demo_digest)) (sort ORACLE_SOURCE_FILES) @ [(''sdk/bin/go'', demo_digest)],
     run_commands = map demo_command REQUIRED_COMMANDS,
     run_observations = VDict [(''oracle_commit'', VStr ORACLE), (''native_target'', VStr ''linux-amd64''),
       (''cases'', VDict (map (\<lambda>c. (c, VDict [])) CASE_IDS)), (''path_controls'', VDict (map (\<lambda>c. (c, VBool True)) PATH_CONTROL_IDS))]\<rparr>"

lemma demo_digest_ok: "fullmatch HEX64 demo_digest"
  by (simp add: fullmatch_HEX64 demo_digest_def is_hex_def list_all_iff) code_simp

lemma sorted_sources: "sort ORACLE_SOURCE_FILES = [''fsutil/atomicwrite.go'', ''fsutil/pathutil.go'', ''fsutil/safewrite.go'',
     ''secretref/secretref.go'', ''secretref/symvault.go'']"
  by code_simp

lemma valid_inventory_of:
  assumes ks: "map fst rs = ks" "sorted ks" "distinct ks" "list_all safe_text ks" "ks \<noteq> []"
    and "\<forall>r \<in> set rs. snd r = demo_digest"
  shows "valid_inventory rs"
proof -
  have "safe_text (fst r) \<and> fullmatch HEX64 (snd r)" if "r \<in> set rs" for r
  proof -
    from that have "fst r \<in> set ks" using ks(1) by auto
    with that ks(4) assms(6) demo_digest_ok show ?thesis by (auto simp: list_all_iff)
  qed
  with ks show ?thesis by (auto simp: valid_inventory_def)
qed

definition demo_labels :: "string list" where
  "demo_labels = HELPER_PATH # ''modules/cache/go.mod'' # map (\<lambda>f. ''oracle/'' @ f) (sort ORACLE_SOURCE_FILES) @ [''sdk/bin/go'']"

lemma demo_labels_ok: "sorted demo_labels" "distinct demo_labels" "list_all safe_text demo_labels"
  "sorted (sort ORACLE_SOURCE_FILES)" "distinct (sort ORACLE_SOURCE_FILES)" "list_all safe_text (sort ORACLE_SOURCE_FILES)"
  by code_simp+

lemma demo_inventory: "valid_inventory (run_inventory demo_parts)" "valid_inventory (run_source_files demo_parts)"
proof -
  have "map fst (run_inventory demo_parts) = demo_labels" by (simp add: demo_parts_def demo_labels_def comp_def)
  then show "valid_inventory (run_inventory demo_parts)"
    by (rule valid_inventory_of [OF _ demo_labels_ok(1-3)]) (auto simp: demo_labels_def demo_parts_def)
  have "map fst (run_source_files demo_parts) = sort ORACLE_SOURCE_FILES" by (simp add: demo_parts_def comp_def)
  then show "valid_inventory (run_source_files demo_parts)"
    by (rule valid_inventory_of [OF _ demo_labels_ok(4-6)]) (auto simp: sorted_sources demo_parts_def)
qed

lemma demo_commands:
  "\<forall>name \<in> set REQUIRED_COMMANDS. clean_command name (demo_command name)" "distinct REQUIRED_COMMANDS"
proof -
  have ids: "list_all (fullmatch COMMAND_ID_RE) REQUIRED_COMMANDS" by code_simp
  have "clean_command name (demo_command name)" if "name \<in> set REQUIRED_COMMANDS" for name
    using that ids demo_digest_ok
    by (simp add: clean_command_def demo_command_def dget_Cons keys_are_def keys_def COMMAND_FIELDS_def is_count_def is_digest_def list_all_iff)
  then show "\<forall>name \<in> set REQUIRED_COMMANDS. clean_command name (demo_command name)" by blast
  show "distinct REQUIRED_COMMANDS" by code_simp
qed

lemma demo_observations:
  "complete_observations (run_observations demo_parts) (''linux'', ''amd64'')"
proof -
  have len: "length CASE_IDS = 13" "length PATH_CONTROL_IDS = 9" "set STRICT_V1_GO_ACCEPTED \<subseteq> set PATH_CONTROL_IDS" by code_simp+
  have "target_key (''linux'', ''amd64'') = ''linux-amd64''" by code_simp
  with len show ?thesis
    by (auto simp: complete_observations_def demo_parts_def dget_Cons keys_def comp_def dget_map image_image)
qed

lemma demo_clean: "clean_run demo_world demo_parts"
proof -
  have helper: "in_group ''candidate'' (run_inventory demo_parts) = [(HELPER_PATH, demo_digest)]"
    by (simp add: in_group_def demo_parts_def sorted_sources HELPER_PATH_def startswith_def)
  have groups: "\<forall>g \<in> set GROUP_NAMES. in_group g (run_inventory demo_parts) \<noteq> []"
    by (simp add: GROUP_NAMES_def in_group_def demo_parts_def sorted_sources HELPER_PATH_def startswith_def)
  have version: "''go version go1.26.6 linux/amd64'' = msg [''go version '', GO_VERSION, '' '', ''linux'', ''/'', ''amd64'']" by code_simp
  have sources: "map fst (run_source_files demo_parts) = sort ORACLE_SOURCE_FILES" by (simp add: demo_parts_def comp_def)
  have head: "fullmatch HEX40 (replicate 40 (CHR ''b''))" by (simp add: fullmatch_HEX40 is_hex_def) code_simp
  have cmds: "\<exists>rs. run_commands demo_parts = map snd rs \<and> (\<forall>r \<in> set rs. clean_command (fst r) (snd r)) \<and> distinct (map fst rs) \<and>
      set REQUIRED_COMMANDS \<subseteq> set (map fst rs)"
    using demo_commands by (intro exI [of _ "map (\<lambda>n. (n, demo_command n)) REQUIRED_COMMANDS"]) (auto simp: demo_parts_def comp_def)
  have bin: "(''sdk/bin/go'', demo_digest) \<in> set (run_inventory demo_parts)" by (simp add: demo_parts_def)
  have orc: "\<forall>r \<in> set (run_source_files demo_parts). (''oracle/'' @ fst r, snd r) \<in> set (run_inventory demo_parts)"
    by (auto simp: demo_parts_def)
  have obs: "\<exists>d. run_observations demo_parts = VDict d \<and> keys_are d [''oracle_commit'', ''native_target'', ''cases'', ''path_controls'']"
    by (auto simp: demo_parts_def keys_are_def keys_def)
  show ?thesis
    unfolding clean_run_def
    using helper groups version sources head cmds bin orc obs demo_inventory demo_observations demo_digest_ok
    by (simp add: GOOS_NAMES_def GOARCH_NAMES_def demo_world_def) (simp add: demo_parts_def)
qed

lemma unique_records: "unique_pairs (records_value rs)"
  by (simp add: records_value_def record_value_def list_all_iff)

lemma unique_dget: "unique_pairs (VDict d) \<Longrightarrow> unique_pairs (dget d k)"
  by (cases "map_of d k") (auto simp: dget_def list_all_iff dest: map_of_SomeD)

lemma unique_raw_fields:
  assumes "unique_pairs (VDict d)"
  shows "unique_pairs (raw_fields_of d)"
proof -
  have "unique_pairs (dget d f)" for f using assms by (rule unique_dget)
  then show ?thesis by (simp add: raw_fields_of_def RAW_FIELDS_def)
qed

lemma capture_payload_unique:
  assumes "capture_payload w p = Inr doc" "unique_pairs (run_observations p)" "\<forall>d \<in> set (run_commands p). unique_pairs (VDict d)"
  shows "unique_pairs (VDict doc)"
proof -
  from assms(1) obtain groups h c k binary where g: "group_digests w (run_inventory p) = Inr groups"
    and c: "List.find (\<lambda>d. dget d ''id'' = VStr ''go-cases'') (run_commands p) = Some c"
    and k: "List.find (\<lambda>d. dget d ''id'' = VStr ''go-path-controls'') (run_commands p) = Some k"
    and doc: "doc = [(''schema_version'', VInt 1),
          (''capture'', VDict
             [(''oracle'', oracle_section p), (''candidate'', candidate_section p (snd (h :: file_record))),
              (''native'', VDict [(''goos'', VStr (fst (run_target p))), (''goarch'', VStr (snd (run_target p)))]),
              (''go'', VDict (go_section p (sha256 w binary) groups)), (''inputs'', inputs_section w p groups),
              (''commands'', VList (map VDict (run_commands p))), (''raw'', raw_section c k),
              (''case_inventory'', case_inventory_section)]),
          (''observations'', run_observations p)]"
    unfolding capture_payload_def bind_res_eq_Inr next_or_stop_def by (auto split: option.splits)
  have "unique_pairs (VDict groups)"
    using group_digests_Inr [OF g] by (auto simp: list_all_iff comp_def GROUP_NAMES_def)
  moreover have "unique_pairs (VDict c)" "unique_pairs (VDict k)"
    using c k assms(3) find_SomeD by metis+
  ultimately show ?thesis
    using assms(2,3) unique_dget [of groups]
    by (simp add: doc oracle_section_def candidate_section_def go_section_def inputs_section_def raw_section_def case_inventory_section_def
        unique_records unique_raw_fields list_all_iff del: unique_pairs.simps(2) add: unique_pairs.simps(2) [of "x # xs" for x xs])
qed

lemma demo_unique: "capture_payload demo_world demo_parts = Inr doc \<Longrightarrow> unique_pairs (VDict doc)"
proof (rule capture_payload_unique)
  have "distinct CASE_IDS" "distinct PATH_CONTROL_IDS" by code_simp+
  then show "unique_pairs (run_observations demo_parts)" by (auto simp: demo_parts_def list_all_iff comp_def)
  show "\<forall>d \<in> set (run_commands demo_parts). unique_pairs (VDict d)" by (auto simp: demo_parts_def demo_command_def)
qed

lemma demo_decodes: "capture_payload demo_world demo_parts = Inr doc \<Longrightarrow> decode_json demo_world (\<lambda>_. Inr (VDict doc)) x label = Inr (VDict doc)"
  using demo_unique by (simp add: decode_json_def demo_world_def)

lemma demo_digests: "fullmatch HEX64 (sha256 demo_world x)"
  by (simp add: demo_world_def demo_digest_ok)

lemma demo_target: "target_key (run_target demo_parts) = ''linux-amd64''"
  by (simp add: demo_parts_def target_key_def msg_def)

lemma clean_capture_is_accepted_witness:
  "\<exists>doc. capture_payload demo_world demo_parts = Inr doc \<and>
     validate_capture_bytes demo_world (\<lambda>_. Inr (VDict doc)) [] (run_target demo_parts) [(''linux-amd64'', demo_digest)] = Inr doc"
proof -
  from clean_capture_is_accepted [OF demo_clean demo_digests] obtain doc where doc: "capture_payload demo_world demo_parts = Inr doc"
    "\<And>raw_bytes pairs anchors.
       decode_json demo_world pairs raw_bytes ''frozen-v1 capture'' = Inr (VDict doc) \<Longrightarrow>
       map_of anchors (target_key (run_target demo_parts)) = Some (sha256 demo_world raw_bytes) \<Longrightarrow>
       validate_capture_bytes demo_world pairs raw_bytes (run_target demo_parts) anchors = Inr doc"
    by blast
  show ?thesis
    using doc(1) by (intro exI [of _ doc] conjI doc(2) demo_decodes) (simp_all add: demo_target demo_world_def)
qed


end
