(* ===== verification/FsReplay.thy ===== *)
theory FsReplay
  imports FsRecorder FsPayload LockClosure
begin

text \<open>
  The replay of a frozen FS/SEC capture, \<open>replay_native\<close> of \<open>scripts/rust-port/fs_secret_oracle.py\<close>, with
  the candidate inventory, the Cargo metadata check and the location guards. The host record holds what
  the code asks of the machine: the directory listings, the outcome of every command it starts (by
  name, command line and the recorded controls handed over in the environment), the time-independent
  settings of the process.
\<close>

record oracle_host =
  machine :: world
  native_goos_arch :: "(string \<times> string) res"
  root_dir :: path
  cwd_dir :: path
  fixture_dir :: path
  anchors :: "(string \<times> string) list"
  pairs_of :: "string \<Rightarrow> pyval res"
  decode_text :: "string \<Rightarrow> string"
  rglob_of :: "path \<Rightarrow> string list list"
  lock_digest :: "string res"
  scratch_preferred :: path
  is_windows :: bool
  outcome_of :: "string \<Rightarrow> string list \<Rightarrow> string option \<Rightarrow> checked_error + completed"
  private_dir :: "path res"
  setup_runtime :: "unit res"

section \<open>Locations\<close>

definition native_target :: "oracle_host \<Rightarrow> (string \<times> string) res" where
  "native_target h =
     bind_res (native_goos_arch h) (\<lambda>target.
     bind_res (need (fst target \<in> set GOOS_NAMES \<and> snd target \<in> set GOARCH_NAMES)
       [''FS/SEC frozen-v1 supports native darwin/linux/windows amd64/arm64 only'']) (\<lambda>_. Inr target))"

definition fixture_path :: "oracle_host \<Rightarrow> string \<times> string \<Rightarrow> path res" where
  "fixture_path h target =
     bind_res (need (fst target \<in> set GOOS_NAMES \<and> snd target \<in> set GOARCH_NAMES) [''invalid native fixture target'']) (\<lambda>_.
     Inr (fixture_dir h @ [target_key target @ ''.json'']))"

definition validate_fixture_location :: "oracle_host \<Rightarrow> path \<Rightarrow> path res" where
  "validate_fixture_location h p =
     bind_res (need (lstat_of (machine h) p \<noteq> Inr Symlink) [''replay fixture must not be a symlink'']) (\<lambda>_.
     bind_res (resolve_path (machine h) p) (\<lambda>resolved.
     bind_res (resolve_path (machine h) (fixture_dir h)) (\<lambda>fixture_root.
     bind_res (need (is_relative_to resolved fixture_root) [''replay fixture must be under the FS/SEC frozen-v1 fixture directory'']) (\<lambda>_.
     Inr resolved))))"

definition scratch_parent :: "oracle_host \<Rightarrow> path res" where
  "scratch_parent h =
     bind_res (resolve_path (machine h) (scratch_preferred h)) (\<lambda>parent.
     bind_res (resolve_path (machine h) (root_dir h)) (\<lambda>base.
     bind_res (need (\<not> is_relative_to parent base) [''private scratch must stay outside the source checkout'']) (\<lambda>_. Inr parent)))"

section \<open>The candidate's files\<close>

definition CANDIDATE_SCRIPT_FILES :: "string list" where
  "CANDIDATE_SCRIPT_FILES = [''contracts/secret_refs.json'', ''testdata/rust-port/fixtures/fs-secret/corpus.json'',
     ''scripts/rust-port/generate_fs_secret.py'', ''scripts/rust-port/validate_fs_secret.py'', ''scripts/rust-port/diff_fs_secret.py'',
     ''scripts/rust-port/fs-path-control-differential.py'', ''scripts/rust-port/bounded_oracle_process.py'',
     ''scripts/rust-port/static_update_oracle.py'', ''scripts/rust-port/static_update_anchors.py'',
     ''scripts/rust-port/fs_secret_oracle.py'', ''scripts/rust-port/test_fs_secret_oracle.py'', ''scripts/rust-port/lock_closure.py'',
     ''scripts/rust-port/go-oracle/go.mod'', ''scripts/rust-port/go-oracle/go.sum'', ''scripts/rust-port/go-oracle/cmd/fssecret/main.go'']"

definition RUST_INPUT_DIRS :: "string list" where
  "RUST_INPUT_DIRS = [''rust/symaira-core-fs'', ''rust/symaira-core-secretref'', ''rust/symaira-core-config'', ''rust/symaira-core-env'',
     ''rust/symaira-core-exit'', ''rust/symaira-core-log'', ''rust/symaira-core-version'',
     ''rust/test-support/symaira-contract-fixtures'', ''rust/test-support/symaira-core-foundation'']"

definition LOCK_CLOSURE_LABEL :: string where
  "LOCK_CLOSURE_LABEL = ''candidate/Cargo.lock#dependency-closure''"

text \<open>Paths are relative to the root; the excluded names are looked for in the whole path.\<close>

definition crate_files :: "oracle_host \<Rightarrow> string \<Rightarrow> string list list res" where
  "crate_files h relative =
     bind_res (need (is_dir (machine h) (root_dir h @ path_parts relative))
       [''required Rust candidate source directory is absent: '', relative]) (\<lambda>_.
     Inr (filter (\<lambda>p. is_file (machine h) (root_dir h @ p) \<and>
         \<not> list_ex (\<lambda>part. part \<in> {''target'', ''.git'', ''__pycache__''}) (root_dir h @ p))
       (rglob_of h (path_parts relative))))"

definition check_candidate_path :: "oracle_host \<Rightarrow> string list \<Rightarrow> unit res" where
  "check_candidate_path h p =
     bind_res (need (is_file (machine h) (root_dir h @ p)) [''required candidate input is absent: '', as_posix p]) (\<lambda>_.
     bind_res (resolve_path (machine h) (root_dir h @ p)) (\<lambda>resolved.
     bind_res (resolve_path (machine h) (root_dir h)) (\<lambda>base.
     need (is_relative_to resolved base) [''candidate source input escapes the assigned source root''])))"

definition candidate_file_paths :: "oracle_host \<Rightarrow> string list list res" where
  "candidate_file_paths h =
     bind_res (map_res (crate_files h) RUST_INPUT_DIRS) (\<lambda>crates.
     let optional = filter (\<lambda>p. is_file (machine h) (root_dir h @ p))
           (map path_parts [''rust-toolchain.toml'', ''rust-toolchain'', ''.cargo/config.toml'']);
         paths = sort_key as_posix (remdups ([''Cargo.toml''] # map path_parts CANDIDATE_SCRIPT_FILES @ optional @ concat crates)) in
     bind_res (for_each (check_candidate_path h) paths) (\<lambda>_. Inr paths))"

definition candidate_record :: "oracle_host \<Rightarrow> string list \<Rightarrow> file_record res" where
  "candidate_record h p =
     bind_res (read_bytes (machine h) (root_dir h @ p)) (\<lambda>b. Inr (''candidate/'' @ as_posix p, sha256 (machine h) b))"

definition candidate_file_records :: "oracle_host \<Rightarrow> file_record list res" where
  "candidate_file_records h =
     bind_res (candidate_file_paths h) (\<lambda>paths.
     bind_res (map_res (candidate_record h) paths) (\<lambda>records.
     bind_res (case lock_digest h of
         Inr d \<Rightarrow> Inr d
       | Inl e \<Rightarrow> if is_os_error e \<or> is_value_error e \<or> (\<exists>k. e = KeyError k)
                  then Inl (RuntimeError (msg [''Cargo.lock dependency closure cannot be derived: '', exc_text e])) else Inl e) (\<lambda>digest.
     Inr (sort_key fst (records @ [(LOCK_CLOSURE_LABEL, digest)])))))"

definition verify_candidate_files :: "oracle_host \<Rightarrow> pydict \<Rightarrow> unit res" where
  "verify_candidate_files h cap =
     bind_res (candidate_file_records h) (\<lambda>current.
     need (py_eq (records_value current) (get_if_dict (dget cap ''candidate'') ''files''))
       [''candidate harness/Rust source differs from the captured clean snapshot''])"

section \<open>Cargo metadata\<close>

definition path_of :: "oracle_host \<Rightarrow> string \<Rightarrow> path" where
  "path_of h s = (if is_absolute s then path_parts s else cwd_dir h @ path_parts s)"

definition resolve_value :: "oracle_host \<Rightarrow> pyval \<Rightarrow> path res" where
  "resolve_value h v = (case v of VStr s \<Rightarrow> resolve_path (machine h) (path_of h s) | _ \<Rightarrow> Inl TypeError)"

definition incomplete_metadata :: "'a res \<Rightarrow> 'a res" where
  "incomplete_metadata r =
     (case r of Inl (KeyError k) \<Rightarrow> Inl (RuntimeError ''Cargo metadata is incomplete'')
      | Inl TypeError \<Rightarrow> Inl (RuntimeError ''Cargo metadata is incomplete'') | _ \<Rightarrow> r)"

definition FOUNDATION :: "string list" where
  "FOUNDATION = [''rust'', ''test-support'', ''symaira-core-foundation'']"

definition probe_target :: "pyval \<Rightarrow> bool res" where
  "probe_target item =
     (case item of VDict d \<Rightarrow> if dget d ''name'' = VStr ''rust-fs-secret'' then value_contains ''bin'' (dget_or d ''kind'' (VList [])) else Inr False
      | _ \<Rightarrow> Inr False)"

text \<open>The one element of a list and its resolved path are what is expected.\<close>

definition sole_path :: "oracle_host \<Rightarrow> pyval list \<Rightarrow> string \<Rightarrow> path \<Rightarrow> string list \<Rightarrow> unit res" where
  "sole_path h matches key expected parts =
     (case matches of
        [VDict d] \<Rightarrow> bind_res (resolve_value h (dget_or d key (VStr []))) (\<lambda>p. need (p = expected) parts)
      | _ \<Rightarrow> Inl (RuntimeError (msg parts)))"

definition validate_cargo_metadata :: "oracle_host \<Rightarrow> string \<Rightarrow> path \<Rightarrow> unit res" where
  "validate_cargo_metadata h raw_bytes target_dir =
     bind_res (decode_json (machine h) (pairs_of h) raw_bytes ''Cargo metadata'') (\<lambda>v.
     bind_res (need (is_dict v) [''Cargo metadata root is not an object'']) (\<lambda>_.
     let d = the (as_dict v) in
     bind_res (incomplete_metadata (bind_res (dindex d ''workspace_root'') (resolve_value h))) (\<lambda>workspace.
     bind_res (incomplete_metadata (bind_res (dindex d ''target_directory'') (resolve_value h))) (\<lambda>directory.
     bind_res (incomplete_metadata (dindex d ''packages'')) (\<lambda>packages.
     bind_res (resolve_path (machine h) (root_dir h)) (\<lambda>base.
     bind_res (resolve_path (machine h) target_dir) (\<lambda>target.
     bind_res (need (workspace = base \<and> directory = target \<and> is_list packages)
       [''Cargo selected a workspace or target directory outside the candidate'']) (\<lambda>_.
     bind_res (resolve_path (machine h) (root_dir h @ FOUNDATION @ [''Cargo.toml''])) (\<lambda>manifest.
     bind_res (resolve_path (machine h) (root_dir h @ FOUNDATION @ [''src'', ''bin'', ''rust_fs_secret.rs''])) (\<lambda>source.
     let matches = filter (\<lambda>item. get_if_dict item ''name'' = VStr ''symaira-core-foundation'') (the (as_list packages)) in
     bind_res (sole_path h matches ''manifest_path'' manifest [''Cargo metadata did not select the candidate foundation package'']) (\<lambda>_.
     let targets = get_if_dict (hd matches) ''targets'' in
     bind_res (need (is_list targets) [''Cargo foundation target inventory is missing'']) (\<lambda>_.
     bind_res (filter_res probe_target (the (as_list targets))) (\<lambda>binaries.
     sole_path h binaries ''src_path'' source [''Cargo metadata did not select the actual rust-fs-secret candidate binary''])))))))))))))"

section \<open>The recorded controls\<close>

definition recorded_path_controls :: "pydict \<Rightarrow> pydict res" where
  "recorded_path_controls obs =
     bind_res (dindex obs ''path_controls'') (\<lambda>v.
     bind_res (dict_with v PATH_CONTROL_IDS [''captured Go path-control inventory is incomplete'']) (\<lambda>controls.
     bind_res (need (list_all (\<lambda>k. is_bool (dget controls k)) PATH_CONTROL_IDS)
       [''captured Go path-control inventory has non-boolean values'']) (\<lambda>_.
     bind_res (need (list_all (\<lambda>k. dget controls k = VBool True) STRICT_V1_GO_ACCEPTED)
       [''Go strict-v1 DEL/C1 acceptance invariant is absent'']) (\<lambda>_. Inr controls))))"

text \<open>\<open>RUST_FS_GO_PATH_CONTROLS\<close>\<close>

definition control_lines :: "pydict \<Rightarrow> string" where
  "control_lines controls =
     join [CHR 0x0A] (map (\<lambda>k. k @ CHR 0x09 # (if dget controls k = VBool True then ''true'' else ''false'')) PATH_CONTROL_IDS)"


section \<open>The replay\<close>

definition require_zero :: "completed \<Rightarrow> string \<Rightarrow> string res" where
  "require_zero result stage =
     bind_res (need (comp_returncode result = Some 0) [''subprocess stage failed: '', stage]) (\<lambda>_. Inr (comp_stdout result))"

definition run_step :: "oracle_host \<Rightarrow> string \<Rightarrow> string list \<Rightarrow> string option \<Rightarrow> (recorder, completed) eff" where
  "run_step h name command controls = recorder_run (machine h) (outcome_of h name command controls) name command"

definition path_text :: "path \<Rightarrow> string" where
  "path_text p = ''/'' @ as_posix p"

definition metadata_command :: "path \<Rightarrow> string list" where
  "metadata_command base = [''cargo'', ''metadata'', ''--offline'', ''--locked'', ''--no-deps'', ''--format-version'', ''1'',
     ''--manifest-path'', path_text (base @ [''Cargo.toml''])]"

definition build_command :: "path \<Rightarrow> path \<Rightarrow> string list" where
  "build_command base target_dir = [''cargo'', ''build'', ''--manifest-path'', path_text (base @ [''Cargo.toml'']), ''-p'',
     ''symaira-core-foundation'', ''--bin'', ''rust-fs-secret'', ''--locked'', ''--offline'', ''--target-dir'', path_text target_dir]"

definition test_command :: "path \<Rightarrow> path \<Rightarrow> string list" where
  "test_command base target_dir = [''cargo'', ''test'', ''--locked'', ''--offline'', ''--target-dir'', path_text target_dir,
     ''--manifest-path'', path_text (base @ [''Cargo.toml'']), ''-p'', ''symaira-core-fs'', ''--test'', ''parity'',
     TEST_NAME, ''--'', ''--exact'', ''--ignored'', ''--nocapture'']"

definition rust_binary :: "oracle_host \<Rightarrow> path \<Rightarrow> path" where
  "rust_binary h target_dir = target_dir @ [''debug'', if is_windows h then ''rust-fs-secret.exe'' else ''rust-fs-secret'']"

text \<open>Metadata, build and the two checks before anything of the candidate runs.\<close>

definition build_candidate :: "oracle_host \<Rightarrow> path \<Rightarrow> (recorder, path) eff" where
  "build_candidate h target_dir =
     bind_eff (run_step h ''cargo-metadata'' (metadata_command (root_dir h)) None) (\<lambda>metadata.
     bind_eff (lift_res (require_zero metadata ''candidate Cargo metadata'')) (\<lambda>metadata_raw.
     bind_eff (lift_res (validate_cargo_metadata h metadata_raw target_dir)) (\<lambda>_.
     bind_eff (run_step h ''cargo-build-rust-fs-secret'' (build_command (root_dir h) target_dir) None) (\<lambda>build.
     bind_eff (lift_res (require_zero build ''build candidate Rust probe'')) (\<lambda>_.
     bind_eff (lift_res (need (is_file (machine h) (rust_binary h target_dir))
       [''Cargo did not produce the candidate rust-fs-secret binary''])) (\<lambda>_.
     return_eff (rust_binary h target_dir)))))))"

text \<open>Mutation A: \<open>except OracleError: pass\<close>, any other exception passes through.\<close>

definition mutation_control :: "oracle_host \<Rightarrow> string \<times> string \<Rightarrow> pydict \<Rightarrow> pydict \<Rightarrow> unit res" where
  "mutation_control h target obs rust_probe =
     bind_res (mutated_observations obs) (\<lambda>mutated.
     case compare_observations (machine h) target mutated rust_probe of
       Inr _ \<Rightarrow> Inl (RuntimeError ''13-row FS-001 observable mutation was not rejected by Rust comparison'')
     | Inl e \<Rightarrow> if is_runtime_error e then Inr () else Inl e)"

definition compare_probe :: "oracle_host \<Rightarrow> string \<times> string \<Rightarrow> pydict \<Rightarrow> path \<Rightarrow> (recorder, pydict) eff" where
  "compare_probe h target obs binary =
     bind_eff (run_step h ''rust-probe'' [path_text binary] None) (\<lambda>probe.
     bind_eff (lift_res (require_zero probe ''execute actual Rust FS/SEC probe'')) (\<lambda>rust_raw.
     bind_eff (lift_res (decode_json (machine h) (pairs_of h) rust_raw ''Rust FS/SEC probe'')) (\<lambda>v.
     bind_eff (lift_res (need (is_dict v \<and> is_dict (get_if_dict v ''cases'')) [''Rust probe output schema is incomplete''])) (\<lambda>_.
     let rust_probe = the (as_dict v) in
     bind_eff (lift_res (compare_observations (machine h) target obs rust_probe)) (\<lambda>_.
     bind_eff (lift_res (mutation_control h target obs rust_probe)) (\<lambda>_.
     return_eff rust_probe))))))"

definition changed_controls :: "pydict \<Rightarrow> pydict" where
  "changed_controls controls = dset controls ''007f'' (VBool (\<not> truthy (dget controls ''007f'')))"

definition named_result :: "oracle_host \<Rightarrow> completed \<Rightarrow> bool \<Rightarrow> string option \<Rightarrow> unit res" where
  "named_result h c passed reason =
     assert_named_test_result (comp_returncode c) (decode_text h (comp_stdout c @ comp_stderr c)) passed reason"

definition run_controls :: "oracle_host \<Rightarrow> path \<Rightarrow> pydict \<Rightarrow> (recorder, unit) eff" where
  "run_controls h target_dir controls =
     bind_eff (run_step h ''rust-path-controls-pass'' (test_command (root_dir h) target_dir) (Some (control_lines controls))) (\<lambda>passing.
     bind_eff (lift_res (named_result h passing True None)) (\<lambda>_.
     bind_eff (run_step h ''rust-path-controls-mutation'' (test_command (root_dir h) target_dir)
       (Some (control_lines (changed_controls controls)))) (\<lambda>negative.
     lift_res (named_result h negative False (Some ''Go must actually accept the versioned control case'')))))"

definition replay_body :: "oracle_host \<Rightarrow> string \<times> string \<Rightarrow> pydict \<Rightarrow> pydict \<Rightarrow> path \<Rightarrow> (recorder, path) eff" where
  "replay_body h target obs controls target_dir =
     bind_eff (build_candidate h target_dir) (\<lambda>binary.
     bind_eff (lift_res (setup_runtime h)) (\<lambda>_.
     bind_eff (compare_probe h target obs binary) (\<lambda>_.
     bind_eff (run_controls h target_dir controls) (\<lambda>_ r.
     return_eff binary (flush ''replay-passed'' None None r)))))"

fun exc_name :: "pyexc \<Rightarrow> string" where
  "exc_name TypeError = ''TypeError''"
| "exc_name AttributeError = ''AttributeError''"
| "exc_name (KeyError _) = ''KeyError''"
| "exc_name IndexError = ''IndexError''"
| "exc_name (AssertionError _) = ''AssertionError''"
| "exc_name (ValueError _) = ''ValueError''"
| "exc_name (UnicodeDecodeError _) = ''UnicodeDecodeError''"
| "exc_name (JSONDecodeError _) = ''JSONDecodeError''"
| "exc_name (TOMLDecodeError _) = ''TOMLDecodeError''"
| "exc_name (FileNotFoundError _) = ''FileNotFoundError''"
| "exc_name (OSError _) = ''OSError''"
| "exc_name (RuntimeError _) = ''OracleError''"
| "exc_name StopIteration = ''StopIteration''"
| "exc_name (ProcessFailed _) = ''CalledProcessError''"

text \<open>\<open>except BaseException\<close>: the failure is recorded and raised again.\<close>

definition failing :: "string \<Rightarrow> (recorder, 'a) eff \<Rightarrow> (recorder, 'a) eff" where
  "failing status m r = (case m r of (Inl e, r') \<Rightarrow> (Inl e, flush status (Some (exc_name e)) None r') | (Inr x, r') \<Rightarrow> (Inr x, r'))"

definition replay_report :: "oracle_host \<Rightarrow> string \<times> string \<Rightarrow> string \<Rightarrow> pydict \<Rightarrow> path \<Rightarrow> path \<Rightarrow> pydict res" where
  "replay_report h target raw_fixture cap binary logs =
     bind_res (read_bytes (machine h) binary) (\<lambda>b.
     Inr [(''oracle_commit'', VStr ORACLE), (''native_target'', VStr (target_key target)),
       (''fs_sec_case_count'', VInt (int (length CASE_IDS))), (''path_control_count'', VInt (int (length PATH_CONTROL_IDS))),
       (''rust_named_test'', VStr TEST_NAME), (''rust_named_test_passes'', VInt 1),
       (''mutations'', VList [VStr ''FS-001 observable mismatch'', VStr ''007f Go acceptance assertion'']),
       (''fixture_sha256'', VStr (sha256 (machine h) raw_fixture)),
       (''captured_source_commit'', get_if_dict (dget cap ''candidate'') ''head_before''),
       (''candidate_inputs_sha256'', VStr (sha256 (machine h)
          (canonical_json (float_text (machine h)) (get_if_dict (dget cap ''candidate'') ''files'')))),
       (''rust_binary_sha256'', VStr (sha256 (machine h) b)), (''artifacts_dir'', VStr (path_text logs))])"

text \<open>What the replay checks before it starts a command.\<close>

definition replay_inputs :: "oracle_host \<Rightarrow> path option \<Rightarrow> ((string \<times> string) \<times> string \<times> pydict \<times> pydict \<times> pydict) res" where
  "replay_inputs h fixture =
     bind_res (native_target h) (\<lambda>target.
     bind_res (case fixture of None \<Rightarrow> fixture_path h target | Some p \<Rightarrow> validate_fixture_location h p) (\<lambda>p.
     bind_res (read_capture_once (machine h) (pairs_of h) p target (anchors h)) (\<lambda>(raw_fixture, doc).
     let cap = the (as_dict (dget doc ''capture'')); obs = the (as_dict (dget doc ''observations'')) in
     bind_res (verify_candidate_files h cap) (\<lambda>_.
     bind_res (recorded_path_controls obs) (\<lambda>controls.
     Inr (target, raw_fixture, cap, obs, controls))))))"

definition replay_native :: "oracle_host \<Rightarrow> path option \<Rightarrow> pydict res \<times> recorder option" where
  "replay_native h fixture =
     (case replay_inputs h fixture of
        Inl e \<Rightarrow> (Inl e, None)
      | Inr (target, raw_fixture, cap, obs, controls) \<Rightarrow>
          (case bind_res (scratch_parent h) (\<lambda>_. private_dir h) of
             Inl e \<Rightarrow> (Inl e, None)
           | Inr replay_root \<Rightarrow>
               (case failing ''replay-failed''
                   (bind_eff (replay_body h target obs controls (replay_root @ [''cargo-target''])) (\<lambda>binary.
                    lift_res (replay_report h target raw_fixture cap binary (replay_root @ [''logs''])))) new_recorder of
                  (r, s) \<Rightarrow> (r, Some s))))"


section \<open>What a replay that returns has done\<close>

lemma summary_trace: "rec_trace (snd (summary w name rc out err t e v r)) = rec_trace r"
  by (auto simp: summary_def Let_def bind_eff_def write_new_def split: prod.splits sum.splits if_splits)

lemma bind_eff_raises: "bind_eff m (\<lambda>_. lift_res (Inl e)) r \<noteq> (Inr x, r')"
  by (auto simp: bind_eff_def lift_res_def split: prod.splits sum.splits)

lemma run_step_Inr:
  assumes "run_step h name command controls r = (Inr c, r')"
  shows "outcome_of h name command controls = Inr c \<and> rec_trace r' = rec_trace r @ [(name, command)]"
proof (cases "outcome_of h name command controls")
  case (Inl e)
  with assms show ?thesis by (simp add: run_step_def recorder_run_def Let_def bind_eff_raises)
next
  case (Inr d)
  define r1 where "r1 = r\<lparr>rec_trace := rec_trace r @ [(name, command)]\<rparr>"
  from assms Inr have "bind_eff (summary (machine h) name (opt_int (comp_returncode d)) (comp_stdout d) (comp_stderr d) False False True)
      (\<lambda>_. return_eff d) r1 = (Inr c, r')"
    by (simp add: run_step_def recorder_run_def Let_def r1_def)
  then obtain entry where "summary (machine h) name (opt_int (comp_returncode d)) (comp_stdout d) (comp_stderr d) False False True r1 = (Inr entry, r')"
    "c = d"
    by (auto simp: bind_eff_Inr)
  with summary_trace [of "machine h" name "opt_int (comp_returncode d)" "comp_stdout d" "comp_stderr d" False False True r1] Inr
  show ?thesis by (simp add: r1_def)
qed

lemma require_zero_Inr: "require_zero c stage = Inr out \<longleftrightarrow> comp_returncode c = Some 0 \<and> out = comp_stdout c"
  by (auto simp: require_zero_def bind_res_eq_Inr)

lemma build_candidate_Inr:
  assumes "build_candidate h target_dir r = (Inr binary, r')"
  shows "binary = rust_binary h target_dir \<and>
    (\<exists>c. outcome_of h ''cargo-metadata'' (metadata_command (root_dir h)) None = Inr c \<and>
       validate_cargo_metadata h (comp_stdout c) target_dir = Inr ()) \<and>
    (\<exists>c. outcome_of h ''cargo-build-rust-fs-secret'' (build_command (root_dir h) target_dir) None = Inr c \<and> comp_returncode c = Some 0) \<and>
    rec_trace r' = rec_trace r @ [(''cargo-metadata'', metadata_command (root_dir h)),
      (''cargo-build-rust-fs-secret'', build_command (root_dir h) target_dir)]"
  using assms unfolding build_candidate_def bind_eff_Inr lift_res_Inr require_zero_Inr return_eff_Inr
  by (auto dest!: run_step_Inr)

lemma compare_probe_Inr:
  assumes "compare_probe h target obs binary r = (Inr rust_probe, r')"
  shows "(\<exists>c. outcome_of h ''rust-probe'' [path_text binary] None = Inr c \<and> comp_returncode c = Some 0 \<and>
      decode_json (machine h) (pairs_of h) (comp_stdout c) ''Rust FS/SEC probe'' = Inr (VDict rust_probe)) \<and>
    compare_observations (machine h) target obs rust_probe = Inr () \<and> mutation_control h target obs rust_probe = Inr () \<and>
    rec_trace r' = rec_trace r @ [(''rust-probe'', [path_text binary])]"
  using assms unfolding compare_probe_def bind_eff_Inr lift_res_Inr require_zero_Inr return_eff_Inr Let_def
  by (auto dest!: run_step_Inr simp: is_dict_iff)

lemma run_controls_Inr:
  assumes "run_controls h target_dir controls r = (Inr (), r')"
  shows "(\<exists>c. outcome_of h ''rust-path-controls-pass'' (test_command (root_dir h) target_dir) (Some (control_lines controls)) = Inr c \<and>
      named_result h c True None = Inr ()) \<and>
    (\<exists>c. outcome_of h ''rust-path-controls-mutation'' (test_command (root_dir h) target_dir)
        (Some (control_lines (changed_controls controls))) = Inr c \<and>
      named_result h c False (Some ''Go must actually accept the versioned control case'') = Inr ()) \<and>
    rec_trace r' = rec_trace r @ [(''rust-path-controls-pass'', test_command (root_dir h) target_dir),
      (''rust-path-controls-mutation'', test_command (root_dir h) target_dir)]"
  using assms unfolding run_controls_def bind_eff_Inr lift_res_Inr
  by (auto dest!: run_step_Inr)

lemma replay_body_Inr:
  assumes "replay_body h target obs controls target_dir r = (Inr binary, r')"
  shows "binary = rust_binary h target_dir \<and>
    rec_trace r' = rec_trace r @ [(''cargo-metadata'', metadata_command (root_dir h)),
      (''cargo-build-rust-fs-secret'', build_command (root_dir h) target_dir), (''rust-probe'', [path_text binary]),
      (''rust-path-controls-pass'', test_command (root_dir h) target_dir),
      (''rust-path-controls-mutation'', test_command (root_dir h) target_dir)] \<and>
    dget (rec_run r') ''status'' = VStr ''replay-passed'' \<and>
    (\<exists>c. outcome_of h ''cargo-metadata'' (metadata_command (root_dir h)) None = Inr c \<and>
       validate_cargo_metadata h (comp_stdout c) target_dir = Inr ()) \<and>
    (\<exists>c rust_probe. outcome_of h ''rust-probe'' [path_text binary] None = Inr c \<and> comp_returncode c = Some 0 \<and>
       decode_json (machine h) (pairs_of h) (comp_stdout c) ''Rust FS/SEC probe'' = Inr (VDict rust_probe) \<and>
       compare_observations (machine h) target obs rust_probe = Inr () \<and> mutation_control h target obs rust_probe = Inr ()) \<and>
    (\<exists>c. outcome_of h ''rust-path-controls-pass'' (test_command (root_dir h) target_dir) (Some (control_lines controls)) = Inr c \<and>
       named_result h c True None = Inr ()) \<and>
    (\<exists>c. outcome_of h ''rust-path-controls-mutation'' (test_command (root_dir h) target_dir)
         (Some (control_lines (changed_controls controls))) = Inr c \<and>
       named_result h c False (Some ''Go must actually accept the versioned control case'') = Inr ())"
proof -
  from assms obtain r1 r2 rust_probe r3 where b: "build_candidate h target_dir r = (Inr binary, r1)"
    "compare_probe h target obs binary r1 = (Inr rust_probe, r2)" "run_controls h target_dir controls r2 = (Inr (), r3)"
    "r' = flush ''replay-passed'' None None r3"
    unfolding replay_body_def bind_eff_Inr lift_res_Inr return_eff_Inr by (auto simp: return_eff_def)
  have "dget (rec_run r') ''status'' = VStr ''replay-passed''" by (simp add: b(4) flush_def dget_def)
  with build_candidate_Inr [OF b(1)] compare_probe_Inr [OF b(2)] run_controls_Inr [OF b(3)] b(4) show ?thesis by auto
qed

lemma failing_Inr: "failing status m r = (Inr x, r') \<longleftrightarrow> m r = (Inr x, r')"
  by (auto simp: failing_def split: prod.splits sum.splits)

lemma read_capture_once_Inr:
  "read_capture_once w pairs p native trusted = Inr (raw_bytes, doc) \<Longrightarrow>
     lstat_of w p = Inr Regular \<and> read_bytes w p = Inr raw_bytes \<and> validate_capture_bytes w pairs raw_bytes native trusted = Inr doc"
  by (auto simp: read_capture_once_def bind_res_eq_Inr split: sum.splits if_splits)

text \<open>C4: a replay that returns a report vouches for the candidate. The fixture was a regular file whose
  digest is the anchor of the native target; the candidate's files, read now, are those of the capture.
  Exactly five commands were started, in this order, each of them Cargo, offline and locked, or the
  binary Cargo built from the candidate's own manifest: never Go, never Git. The executed binary's
  observations equal the recorded Go observations after normalisation, the mutated observation was
  rejected, the named test passed with the recorded controls, and failed at its assertion with the one
  control flipped.\<close>

theorem replay_vouches_for_the_candidate:
  assumes "replay_native h fixture = (Inr report, kept)"
  shows "\<exists>target p raw_fixture doc files obs controls replay_root binary s.
    native_target h = Inr target \<and> lstat_of (machine h) p = Inr Regular \<and> read_bytes (machine h) p = Inr raw_fixture \<and>
    validate_capture_bytes (machine h) (pairs_of h) raw_fixture target (anchors h) = Inr doc \<and>
    candidate_file_records h = Inr files \<and>
    py_eq (records_value files) (get_if_dict (get_if_dict (dget doc ''capture'') ''candidate'') ''files'') \<and>
    obs = the (as_dict (dget doc ''observations'')) \<and> recorded_path_controls obs = Inr controls \<and>
    binary = rust_binary h (replay_root @ [''cargo-target'']) \<and> kept = Some s \<and>
    rec_trace s = [(''cargo-metadata'', metadata_command (root_dir h)),
      (''cargo-build-rust-fs-secret'', build_command (root_dir h) (replay_root @ [''cargo-target''])), (''rust-probe'', [path_text binary]),
      (''rust-path-controls-pass'', test_command (root_dir h) (replay_root @ [''cargo-target''])),
      (''rust-path-controls-mutation'', test_command (root_dir h) (replay_root @ [''cargo-target'']))] \<and>
    dget (rec_run s) ''status'' = VStr ''replay-passed'' \<and>
    (\<exists>c rust_probe. outcome_of h ''rust-probe'' [path_text binary] None = Inr c \<and> comp_returncode c = Some 0 \<and>
       decode_json (machine h) (pairs_of h) (comp_stdout c) ''Rust FS/SEC probe'' = Inr (VDict rust_probe) \<and>
       compare_observations (machine h) target obs rust_probe = Inr () \<and> mutation_control h target obs rust_probe = Inr ()) \<and>
    (\<exists>c. outcome_of h ''rust-path-controls-pass'' (test_command (root_dir h) (replay_root @ [''cargo-target''])) (Some (control_lines controls)) = Inr c \<and>
       named_result h c True None = Inr ()) \<and>
    (\<exists>c. outcome_of h ''rust-path-controls-mutation'' (test_command (root_dir h) (replay_root @ [''cargo-target'']))
         (Some (control_lines (changed_controls controls))) = Inr c \<and>
       named_result h c False (Some ''Go must actually accept the versioned control case'') = Inr ()) \<and>
    dget report ''fixture_sha256'' = VStr (sha256 (machine h) raw_fixture)"
proof -
  from assms obtain target raw_fixture cap obs controls where inp: "replay_inputs h fixture = Inr (target, raw_fixture, cap, obs, controls)"
    by (auto simp: replay_native_def split: sum.splits prod.splits)
  from inp obtain p doc where i: "native_target h = Inr target" "read_capture_once (machine h) (pairs_of h) p target (anchors h) = Inr (raw_fixture, doc)"
    "cap = the (as_dict (dget doc ''capture''))" "obs = the (as_dict (dget doc ''observations''))" "verify_candidate_files h cap = Inr ()"
    "recorded_path_controls obs = Inr controls"
    by (auto simp: replay_inputs_def bind_res_eq_Inr Let_def split: prod.splits)
  from read_capture_once_Inr [OF i(2)] have rd: "lstat_of (machine h) p = Inr Regular" "read_bytes (machine h) p = Inr raw_fixture"
    "validate_capture_bytes (machine h) (pairs_of h) raw_fixture target (anchors h) = Inr doc" by auto
  from rd(3) obtain payload where "validate_capture_payload (machine h) payload target = Inr doc"
    unfolding validate_capture_bytes_def bind_res_eq_Inr by blast
  then obtain d where "dget doc ''capture'' = VDict d" by (rule validate_capture_payload_Inr)
  with i(3) have cap: "dget doc ''capture'' = VDict cap" by simp
  from i(5) obtain files where f: "candidate_file_records h = Inr files"
    "py_eq (records_value files) (get_if_dict (dget cap ''candidate'') ''files'')"
    by (auto simp: verify_candidate_files_def bind_res_eq_Inr)
  from assms inp obtain replay_root s binary s1 where s: "kept = Some s"
    "replay_body h target obs controls (replay_root @ [''cargo-target'']) new_recorder = (Inr binary, s1)"
    "replay_report h target raw_fixture cap binary (replay_root @ [''logs'']) = Inr report" "s = s1"
    by (auto simp: replay_native_def failing_Inr bind_eff_Inr split: sum.splits prod.splits)
  have fx: "dget report ''fixture_sha256'' = VStr (sha256 (machine h) raw_fixture)"
    using s(3) by (auto simp: replay_report_def bind_res_eq_Inr dget_def)
  have t0: "rec_trace new_recorder = []" by (simp add: new_recorder_def)
  note body = replay_body_Inr [OF s(2), unfolded t0 append_Nil, folded s(4)]
  have cand: "py_eq (records_value files) (get_if_dict (get_if_dict (dget doc ''capture'') ''candidate'') ''files'')"
    using f(2) cap by simp
  show ?thesis
    by (rule exI [of _ target], rule exI [of _ p], rule exI [of _ raw_fixture], rule exI [of _ doc], rule exI [of _ files], rule exI [of _ obs],
        rule exI [of _ controls], rule exI [of _ replay_root], rule exI [of _ binary], rule exI [of _ s], intro conjI)
      (use i(1,4,6) rd f(1) cand s(1) fx body in \<open>blast+\<close>)
qed

end
