(* ===== verification/FsReplayExample.thy ===== *)
theory FsReplayExample
  imports FsReplay
begin

text \<open>
  A host on which a replay returns: every premise of the theorem on replays can hold.
\<close>

definition example_files :: "file_record list" where
  "example_files = sort_key fst (map (\<lambda>p. (''candidate/'' @ p, demo_digest))
     (''Cargo.toml'' # CANDIDATE_SCRIPT_FILES @ [''rust-toolchain.toml'', ''rust-toolchain'', ''.cargo/config.toml'']) @
     [(LOCK_CLOSURE_LABEL, demo_digest)])"

definition example_machine :: world where
  "example_machine = demo_world\<lparr>is_dir := \<lambda>_. True\<rparr>"

definition example_host :: "(string \<Rightarrow> pyval res) \<Rightarrow> (string \<Rightarrow> string list \<Rightarrow> string option \<Rightarrow> checked_error + completed) \<Rightarrow> oracle_host" where
  "example_host pairs outcomes = \<lparr>machine = example_machine, native_goos_arch = Inr (''linux'', ''amd64''), root_dir = [''src''], cwd_dir = [],
     fixture_dir = [''src'', ''fixtures''], anchors = [(''linux-amd64'', demo_digest)], pairs_of = pairs, decode_text = \<lambda>s. s,
     rglob_of = \<lambda>_. [], lock_digest = Inr demo_digest, scratch_preferred = [''tmp''], is_windows = False, outcome_of = outcomes,
     private_dir = Inr [''tmp'', ''replay''], setup_runtime = Inr ()\<rparr>"

definition example_labels :: "string list" where
  "example_labels = ''Cargo.toml'' # CANDIDATE_SCRIPT_FILES @ [''rust-toolchain.toml'', ''rust-toolchain'', ''.cargo/config.toml'']"

lemma example_paths:
  "sort_key as_posix (remdups ([''Cargo.toml''] # map path_parts CANDIDATE_SCRIPT_FILES @
     map path_parts [''rust-toolchain.toml'', ''rust-toolchain'', ''.cargo/config.toml''])) =
   map (split_on (CHR ''/'')) (sort example_labels)"
  by code_simp

lemma example_files_eq: "example_files = sort_key fst (map (\<lambda>p. (''candidate/'' @ p, demo_digest)) example_labels @ [(LOCK_CLOSURE_LABEL, demo_digest)])"
  by (simp add: example_files_def example_labels_def)

lemma example_distinct: "distinct (map (\<lambda>p. ''candidate/'' @ p) example_labels @ [LOCK_CLOSURE_LABEL])"
  by code_simp

lemma example_candidate: "candidate_file_records (example_host pairs outcomes) = Inr example_files"
proof -
  let ?h = "example_host pairs outcomes"
  have m: "is_dir (machine ?h) p" "is_file (machine ?h) p" "resolve_path (machine ?h) p = Inr p" "read_bytes (machine ?h) p = Inr []"
    "sha256 (machine ?h) b = demo_digest" for p b
    by (simp_all add: example_host_def example_machine_def demo_world_def)
  have "crate_files ?h = (\<lambda>_. Inr [])"
    by (rule ext) (simp add: crate_files_def m need_def, simp add: example_host_def)
  moreover have "map_res (\<lambda>_. Inr []) xs = Inr (map (\<lambda>_. []) xs)" for xs :: "string list" by (induction xs) simp_all
  ultimately have crates: "map_res (crate_files ?h) RUST_INPUT_DIRS = Inr (map (\<lambda>_. []) RUST_INPUT_DIRS)" by simp
  have none: "concat (map (\<lambda>_. []) RUST_INPUT_DIRS) = []" by simp
  have "check_candidate_path ?h p = Inr ()" for p
    by (simp add: check_candidate_path_def m need_def is_relative_to_def)
  then have ok: "for_each (check_candidate_path ?h) ps = Inr ()" for ps by simp
  have paths: "candidate_file_paths ?h = Inr (map (split_on (CHR ''/'')) (sort example_labels))"
    unfolding candidate_file_paths_def crates bind_res_simps Let_def none append_Nil2 m filter_True ok
    using example_paths by (simp add: m ok)
  have rec: "candidate_record ?h p = Inr (''candidate/'' @ as_posix p, demo_digest)" for p
    by (simp add: candidate_record_def m)
  have recs: "map_res (candidate_record ?h) ps = Inr (map (\<lambda>p. (''candidate/'' @ as_posix p, demo_digest)) ps)" for ps
    by (induction ps) (simp_all add: rec)
  have "as_posix (split_on (CHR ''/'') s) = s" for s by (simp add: as_posix_def join_split_on)
  then have recs': "map_res (candidate_record ?h) (map (split_on (CHR ''/'')) (sort example_labels)) =
      Inr (map (\<lambda>p. (''candidate/'' @ p, demo_digest)) (sort example_labels))"
    by (simp add: recs comp_def)
  have "sort_key fst (map (\<lambda>p. (''candidate/'' @ p, demo_digest)) (sort example_labels) @ [(LOCK_CLOSURE_LABEL, demo_digest)]) = example_files"
    unfolding example_files_eq
  proof (rule sort_by_key_set_eq)
    have "mset (map (\<lambda>p. ''candidate/'' @ p) (sort example_labels) @ [LOCK_CLOSURE_LABEL]) = mset (map (\<lambda>p. ''candidate/'' @ p) example_labels @ [LOCK_CLOSURE_LABEL])"
      by simp
    then have "distinct (map (\<lambda>p. ''candidate/'' @ p) (sort example_labels) @ [LOCK_CLOSURE_LABEL])"
      using example_distinct by (metis mset_eq_imp_distinct_iff)
    then show "distinct (map fst (map (\<lambda>p. (''candidate/'' @ p, demo_digest)) (sort example_labels) @ [(LOCK_CLOSURE_LABEL, demo_digest)]))"
      by (simp add: comp_def)
    show "distinct (map fst (map (\<lambda>p. (''candidate/'' @ p, demo_digest)) example_labels @ [(LOCK_CLOSURE_LABEL, demo_digest)]))"
      using example_distinct by (simp add: comp_def)
  qed simp
  then show ?thesis
    by (simp add: candidate_file_records_def paths recs') (simp add: example_host_def)
qed


section \<open>The capture\<close>

definition example_inventory :: "file_record list" where
  "example_inventory = example_files @ (''modules/cache/go.mod'', demo_digest) #
     map (\<lambda>f. (''oracle/'' @ f, demo_digest)) (sort ORACLE_SOURCE_FILES) @ [(''sdk/bin/go'', demo_digest)]"

definition example_parts :: capture_parts where
  "example_parts = demo_parts\<lparr>run_candidate_files := example_files, run_inventory := example_inventory,
     run_observations := VDict (demo_probe ''linux-amd64'' @ [(''path_controls'', VDict (map (\<lambda>c. (c, VBool True)) PATH_CONTROL_IDS))])\<rparr>"

lemma example_inventory_labels:
  "sorted (map fst example_inventory)" "distinct (map fst example_inventory)" "list_all safe_text (map fst example_inventory)"
  "list_all (\<lambda>s. startswith s ''candidate/'') (map fst example_files)"
  "HELPER_PATH \<in> set (map fst example_files)"
  by code_simp+

lemma example_inventory_digests: "\<forall>r \<in> set example_inventory. snd r = demo_digest"
  by (auto simp: example_inventory_def example_files_eq)

lemma example_candidate_group: "in_group ''candidate'' example_inventory = example_files"
proof -
  have "filter (\<lambda>r. startswith (fst r) ''candidate/'') example_files = example_files"
    using example_inventory_labels(4) by (auto simp: list_all_iff intro: filter_True)
  then show ?thesis by (simp add: in_group_def example_inventory_def sorted_sources startswith_def)
qed

lemma example_clean: "clean_run example_machine example_parts"
proof -
  have inv: "valid_inventory example_inventory"
    by (rule valid_inventory_of [OF refl example_inventory_labels(1-3) _ example_inventory_digests]) (simp add: example_inventory_def)
  have ne: "example_files \<noteq> []" using example_inventory_labels(5) by auto
  have groups: "\<forall>g \<in> set GROUP_NAMES. in_group g example_inventory \<noteq> []"
    using ne by (simp add: GROUP_NAMES_def example_candidate_group)
      (simp add: in_group_def example_inventory_def sorted_sources startswith_def)
  have helper: "\<exists>r \<in> set example_files. fst r = HELPER_PATH" using example_inventory_labels(5) by force
  have bin: "(''sdk/bin/go'', demo_digest) \<in> set example_inventory" by (simp add: example_inventory_def)
  have orc: "\<forall>r \<in> set (run_source_files demo_parts). (''oracle/'' @ fst r, snd r) \<in> set example_inventory"
    by (auto simp: demo_parts_def example_inventory_def)
  have obs: "complete_observations (run_observations example_parts) (''linux'', ''amd64'')"
  proof -
    have len: "length CASE_IDS = 13" "length PATH_CONTROL_IDS = 9" "set STRICT_V1_GO_ACCEPTED \<subseteq> set PATH_CONTROL_IDS" by code_simp+
    have "target_key (''linux'', ''amd64'') = ''linux-amd64''" by code_simp
    with len show ?thesis
      by (auto simp: complete_observations_def example_parts_def demo_probe_def demo_case_def dget_Cons keys_def comp_def dget_map image_image)
  qed
  have keys: "\<exists>d. run_observations example_parts = VDict d \<and> keys_are d [''oracle_commit'', ''native_target'', ''cases'', ''path_controls'']"
    by (auto simp: example_parts_def demo_probe_def keys_are_def keys_def)
  have "clean_run demo_world demo_parts" by (rule demo_clean)
  with inv groups helper bin orc obs keys example_candidate_group show ?thesis
    unfolding clean_run_def
    by (simp add: example_parts_def example_machine_def) (simp add: demo_world_def demo_parts_def)
qed


section \<open>The run\<close>

definition example_binary :: pydict where
  "example_binary = [(''name'', VStr ''rust-fs-secret''), (''kind'', VList [VStr ''bin'']),
     (''src_path'', VStr ''/src/rust/test-support/symaira-core-foundation/src/bin/rust_fs_secret.rs'')]"

definition example_package :: pydict where
  "example_package = [(''name'', VStr ''symaira-core-foundation''),
     (''manifest_path'', VStr ''/src/rust/test-support/symaira-core-foundation/Cargo.toml''), (''targets'', VList [VDict example_binary])]"

definition example_metadata :: pyval where
  "example_metadata = VDict [(''workspace_root'', VStr ''/src''), (''target_directory'', VStr ''/tmp/replay/cargo-target''),
     (''packages'', VList [VDict example_package])]"

definition example_pairs :: "pydict \<Rightarrow> string \<Rightarrow> pyval res" where
  "example_pairs doc b = (if b = [] then Inr (VDict doc) else if b = ''m'' then Inr example_metadata
     else Inr (VDict (demo_probe ''linux-x86_64'')))"

definition pass_text :: string where
  "pass_text = msg [''test '', TEST_NAME, '' ... ok'', [CHR 0x0A], ''test result: ok. 1 passed; 0 failed; 0 ignored;'']"

definition fail_text :: string where
  "fail_text = msg [''test '', TEST_NAME, '' ... FAILED'', [CHR 0x0A], ''Go must actually accept the versioned control case'',
     [CHR 0x0A], ''test result: FAILED. 0 passed; 1 failed; 0 ignored;'']"

definition example_result :: "string \<Rightarrow> string list \<Rightarrow> completed" where
  "example_result name command =
     \<lparr>comp_command = command, comp_returncode = Some (if name = ''rust-path-controls-mutation'' then 101 else 0),
      comp_stdout = (if name = ''cargo-metadata'' then ''m'' else if name = ''rust-probe'' then ''r''
        else if name = ''rust-path-controls-pass'' then pass_text else if name = ''rust-path-controls-mutation'' then fail_text else []),
      comp_stderr = []\<rparr>"

definition example_outcome :: "string \<Rightarrow> string list \<Rightarrow> string option \<Rightarrow> checked_error + completed" where
  "example_outcome name command controls = Inr (example_result name command)"

lemma run_step_fresh:
  assumes "outcome_of h name command controls = Inr c" "safe_name name = name"
    "name @ ''.stdout.raw'' \<notin> set (rec_files r)" "name @ ''.stderr.raw'' \<notin> set (rec_files r)"
  shows "\<exists>r'. run_step h name command controls r = (Inr c, r') \<and>
    rec_files r' = rec_files r @ [name @ ''.stdout.raw'', name @ ''.stderr.raw'']"
  using assms by (simp add: run_step_def recorder_run_def summary_def Let_def bind_eff_def write_new_def return_eff_def)

lemma named_texts:
  "assert_named_test_result (Some 0) pass_text True None = Inr ()"
  "assert_named_test_result (Some 101) fail_text False (Some ''Go must actually accept the versioned control case'') = Inr ()"
  by code_simp+

lemma example_path_texts:
  "path_parts ''/src'' = [''src'']" "path_parts ''/tmp/replay/cargo-target'' = [''tmp'', ''replay'', ''cargo-target'']"
  "path_parts ''/src/rust/test-support/symaira-core-foundation/Cargo.toml'' = [''src'', ''rust'', ''test-support'', ''symaira-core-foundation'', ''Cargo.toml'']"
  "path_parts ''/src/rust/test-support/symaira-core-foundation/src/bin/rust_fs_secret.rs'' =
     [''src'', ''rust'', ''test-support'', ''symaira-core-foundation'', ''src'', ''bin'', ''rust_fs_secret.rs'']"
  by code_simp+

lemma example_host_sel:
  "machine (example_host pairs outcomes) = example_machine" "pairs_of (example_host pairs outcomes) = pairs"
  "outcome_of (example_host pairs outcomes) = outcomes" "root_dir (example_host pairs outcomes) = [''src'']"
  "native_goos_arch (example_host pairs outcomes) = Inr (''linux'', ''amd64'')" "anchors (example_host pairs outcomes) = [(''linux-amd64'', demo_digest)]"
  "fixture_dir (example_host pairs outcomes) = [''src'', ''fixtures'']" "decode_text (example_host pairs outcomes) = (\<lambda>s. s)"
  "scratch_preferred (example_host pairs outcomes) = [''tmp'']" "private_dir (example_host pairs outcomes) = Inr [''tmp'', ''replay'']"
  "setup_runtime (example_host pairs outcomes) = Inr ()"
  by (simp_all add: example_host_def)

lemma example_machine_sel:
  "utf8 example_machine = Inr" "resolve_path example_machine = Inr" "is_file example_machine p" "read_bytes example_machine p = Inr []"
  "lstat_of example_machine p = Inr Regular" "sha256 example_machine b = demo_digest"
  by (simp_all add: example_machine_def demo_world_def)

lemma example_decode:
  "unique_pairs (VDict doc) \<Longrightarrow> decode_json example_machine (example_pairs doc) [] label = Inr (VDict doc)"
  "decode_json example_machine (example_pairs doc) ''m'' label = Inr example_metadata"
  "decode_json example_machine (example_pairs doc) ''r'' label = Inr (VDict (demo_probe ''linux-x86_64''))"
proof -
  show "unique_pairs (VDict doc) \<Longrightarrow> decode_json example_machine (example_pairs doc) [] label = Inr (VDict doc)"
    by (simp add: decode_json_def example_machine_sel example_pairs_def)
  show "decode_json example_machine (example_pairs doc) ''m'' label = Inr example_metadata"
    by (simp add: decode_json_def example_machine_sel example_pairs_def example_metadata_def example_package_def example_binary_def)
  have "unique_pairs (VDict (demo_probe ''linux-x86_64''))"
    using case_ids(1) by (simp add: demo_probe_def demo_case_def comp_def list_all_iff)
  then show "decode_json example_machine (example_pairs doc) ''r'' label = Inr (VDict (demo_probe ''linux-x86_64''))"
    by (simp add: decode_json_def example_machine_sel example_pairs_def)
qed

lemma example_metadata_ok:
  "validate_cargo_metadata (example_host (example_pairs doc) outcomes) ''m'' [''tmp'', ''replay'', ''cargo-target''] = Inr ()"
proof -
  let ?h = "example_host (example_pairs doc) outcomes"
  have abs: "is_absolute ''/src''" "is_absolute ''/tmp/replay/cargo-target''"
    "is_absolute ''/src/rust/test-support/symaira-core-foundation/Cargo.toml''"
    "is_absolute ''/src/rust/test-support/symaira-core-foundation/src/bin/rust_fs_secret.rs''"
    by (simp_all add: is_absolute_def startswith_def)
  have res: "is_absolute s \<Longrightarrow> resolve_value ?h (VStr s) = Inr (path_parts s)" for s
    by (simp add: resolve_value_def path_of_def example_host_sel example_machine_sel)
  obtain d where d: "example_metadata = VDict d" "dindex d ''workspace_root'' = Inr (VStr ''/src'')"
    "dindex d ''target_directory'' = Inr (VStr ''/tmp/replay/cargo-target'')" "dindex d ''packages'' = Inr (VList [VDict example_package])"
    by (simp add: example_metadata_def dindex_def)
  have p: "dget example_package ''name'' = VStr ''symaira-core-foundation''"
    "dget_or example_package ''manifest_path'' (VStr []) = VStr ''/src/rust/test-support/symaira-core-foundation/Cargo.toml''"
    "dget example_package ''targets'' = VList [VDict example_binary]"
    by (simp_all add: example_package_def dget_or_def dget_def)
  have t: "probe_target (VDict example_binary) = Inr True"
    "dget_or example_binary ''src_path'' (VStr []) = VStr ''/src/rust/test-support/symaira-core-foundation/src/bin/rust_fs_secret.rs''"
    by (simp_all add: example_binary_def probe_target_def dget_or_def dget_def)
  show ?thesis
    unfolding validate_cargo_metadata_def example_host_sel example_decode(2) bind_res_simps
    by (simp add: d p t res abs example_path_texts incomplete_metadata_def need_def sole_path_def FOUNDATION_def example_machine_sel)
qed

text \<open>A step of the example run: its two raw files are added.\<close>

lemma example_step:
  assumes "safe_name name = name" "rec_files r = fs" "name @ ''.stdout.raw'' \<notin> set fs" "name @ ''.stderr.raw'' \<notin> set fs"
  obtains r' where "run_step (example_host pairs example_outcome) name command controls r = (Inr (example_result name command), r')"
    "rec_files r' = fs @ [name @ ''.stdout.raw'', name @ ''.stderr.raw'']"
proof -
  have o1: "outcome_of (example_host pairs example_outcome) name command controls = Inr (example_result name command)"
    by (simp add: example_host_sel example_outcome_def)
  have "name @ ''.stdout.raw'' \<notin> set (rec_files r)" "name @ ''.stderr.raw'' \<notin> set (rec_files r)" using assms by simp_all
  from run_step_fresh [OF o1 assms(1) this] that show thesis unfolding assms(2) by blast
qed

lemma safe_letter: "c \<in> set ''abcdefghijklmnopqrstuvwxyz-'' \<Longrightarrow> safe_name [c] = [c]"
proof -
  have "list_all (\<lambda>c. safe_name [c] = [c]) ''abcdefghijklmnopqrstuvwxyz-''"
    by (simp add: safe_name_def lower_char_def between_def is_digit_def Let_def)
  then show "c \<in> set ''abcdefghijklmnopqrstuvwxyz-'' \<Longrightarrow> safe_name [c] = [c]" unfolding list_all_iff by blast
qed

lemma safe_name_letters: "list_all (\<lambda>c. c \<in> set ''abcdefghijklmnopqrstuvwxyz-'') name \<Longrightarrow> safe_name name = name"
proof (induction name)
  case (Cons c name)
  have "safe_name (c # name) = safe_name [c] @ safe_name name" by (simp add: safe_name_def)
  with Cons safe_letter [of c] show ?case by simp
qed (simp add: safe_name_def)

lemma example_names:
  "safe_name ''cargo-metadata'' = ''cargo-metadata''" "safe_name ''cargo-build-rust-fs-secret'' = ''cargo-build-rust-fs-secret''"
  "safe_name ''rust-probe'' = ''rust-probe''" "safe_name ''rust-path-controls-pass'' = ''rust-path-controls-pass''"
  "safe_name ''rust-path-controls-mutation'' = ''rust-path-controls-mutation''"
  by (rule safe_name_letters, simp)+

lemma example_results:
  "comp_returncode (example_result ''cargo-metadata'' c) = Some 0" "comp_stdout (example_result ''cargo-metadata'' c) = ''m''"
  "comp_returncode (example_result ''cargo-build-rust-fs-secret'' c) = Some 0"
  "comp_returncode (example_result ''rust-probe'' c) = Some 0" "comp_stdout (example_result ''rust-probe'' c) = ''r''"
  "comp_returncode (example_result ''rust-path-controls-pass'' c) = Some 0" "comp_stdout (example_result ''rust-path-controls-pass'' c) = pass_text"
  "comp_returncode (example_result ''rust-path-controls-mutation'' c) = Some 101"
  "comp_stdout (example_result ''rust-path-controls-mutation'' c) = fail_text" "comp_stderr (example_result n c) = []"
  by (simp_all add: example_result_def)

lemma example_build:
  "\<exists>r'. build_candidate (example_host (example_pairs doc) example_outcome) [''tmp'', ''replay'', ''cargo-target''] new_recorder =
      (Inr (rust_binary (example_host (example_pairs doc) example_outcome) [''tmp'', ''replay'', ''cargo-target'']), r') \<and>
    rec_files r' = [''cargo-metadata.stdout.raw'', ''cargo-metadata.stderr.raw'',
      ''cargo-build-rust-fs-secret.stdout.raw'', ''cargo-build-rust-fs-secret.stderr.raw'']"
proof -
  have f0: "rec_files new_recorder = []" by (simp add: new_recorder_def)
  obtain r1 where r1: "run_step (example_host (example_pairs doc) example_outcome) ''cargo-metadata'' (metadata_command [''src'']) None new_recorder =
      (Inr (example_result ''cargo-metadata'' (metadata_command [''src''])), r1)"
    "rec_files r1 = [] @ [''cargo-metadata'' @ ''.stdout.raw'', ''cargo-metadata'' @ ''.stderr.raw'']"
    by (rule example_step [OF example_names(1) f0]) simp_all
  obtain r2 where r2: "run_step (example_host (example_pairs doc) example_outcome) ''cargo-build-rust-fs-secret''
      (build_command [''src''] [''tmp'', ''replay'', ''cargo-target'']) None r1 =
      (Inr (example_result ''cargo-build-rust-fs-secret'' (build_command [''src''] [''tmp'', ''replay'', ''cargo-target''])), r2)"
    "rec_files r2 = ([] @ [''cargo-metadata'' @ ''.stdout.raw'', ''cargo-metadata'' @ ''.stderr.raw'']) @
      [''cargo-build-rust-fs-secret'' @ ''.stdout.raw'', ''cargo-build-rust-fs-secret'' @ ''.stderr.raw'']"
    by (rule example_step [OF example_names(2) r1(2)]) simp_all
  show ?thesis
    using r1 r2
    by (simp add: build_candidate_def bind_eff_def example_host_sel lift_res_def require_zero_def example_metadata_ok example_machine_sel
        need_def return_eff_def example_results)
qed

definition example_extra :: pydict where
  "example_extra = [(''path_controls'', VDict (map (\<lambda>c. (c, VBool True)) PATH_CONTROL_IDS))]"

definition example_observations :: pydict where
  "example_observations = demo_probe ''linux-amd64'' @ example_extra"

lemma path_control_ids: "distinct PATH_CONTROL_IDS" "set STRICT_V1_GO_ACCEPTED \<subseteq> set PATH_CONTROL_IDS"
  by code_simp+

lemma example_observations_plain: "distinct (map fst example_observations)" "plain (VDict example_observations)"
proof -
  show "distinct (map fst example_observations)" by (simp add: example_observations_def demo_probe_def example_extra_def)
  moreover have "\<forall>p \<in> set (demo_probe ''linux-amd64''). plain (snd p)" using demo_plain by simp
  moreover have "\<forall>p \<in> set example_extra. plain (snd p)" using path_control_ids(1) by (auto simp: example_extra_def comp_def)
  ultimately show "plain (VDict example_observations)" by (auto simp: example_observations_def)
qed

lemma example_controls:
  "recorded_path_controls example_observations = Inr (map (\<lambda>c. (c, VBool True)) PATH_CONTROL_IDS)"
proof -
  let ?c = "map (\<lambda>c. (c, VBool True)) PATH_CONTROL_IDS"
  have "dindex example_observations ''path_controls'' = Inr (VDict ?c)"
    by (simp add: example_observations_def demo_probe_def example_extra_def dindex_def)
  moreover have "dict_with (VDict ?c) PATH_CONTROL_IDS parts = Inr ?c" for parts by (rule dict_with_lit) (simp add: image_image)
  moreover have "\<forall>k \<in> set STRICT_V1_GO_ACCEPTED. k \<in> set PATH_CONTROL_IDS" using path_control_ids(2) by blast
  ultimately show ?thesis by (simp add: recorded_path_controls_def dget_map list_all_iff need_def)
qed

lemma example_mutation:
  "mutation_control (example_host pairs outcomes) (''linux'', ''amd64'') example_observations (demo_probe ''linux-x86_64'') = Inr ()"
proof -
  let ?w = "example_machine"
  obtain obs' where m: "mutated_observations example_observations = Inr obs'"
    using demo_mutated by (auto simp: example_observations_def)
  have "compare_observations ?w (''linux'', ''amd64'') example_observations (demo_probe ''linux-x86_64'') = Inr ()"
    using demo_compared example_observations_plain(1) by (simp add: example_observations_def)
  then obtain os arch expected actual where c: "RUST_OS (fst (''linux'', ''amd64'')) = Inr os" "RUST_ARCH (snd (''linux'', ''amd64'')) = Inr arch"
    "dget example_observations ''native_target'' = VStr (msg [fst (''linux'', ''amd64''), ''-'', snd (''linux'', ''amd64'')])"
    "dget (demo_probe ''linux-x86_64'') ''native_target'' = VStr (msg [os, ''-'', arch])"
    "normalized_probe ?w example_observations = Inr expected" "normalized_probe ?w (demo_probe ''linux-x86_64'') = Inr actual"
    "canonical_json (float_text ?w) (compared actual) = canonical_json (float_text ?w) (compared expected)"
    by (rule compare_observations_Inr)
  obtain expected' where e: "normalized_probe ?w obs' = Inr expected'"
    "canonical_json (float_text ?w) (compared expected) \<noteq> canonical_json (float_text ?w) (compared expected')"
    "dget obs' ''native_target'' = dget example_observations ''native_target''"
    by (rule mutation_changes_text [OF c(5) m example_observations_plain(2)])
  have "compare_observations ?w (''linux'', ''amd64'') obs' (demo_probe ''linux-x86_64'') =
      Inl (RuntimeError ''actual Rust binary differs from complete normalized Go FS/SEC observations'')"
    by (rule compared_texts_differ [OF c(1,2) _ c(4) e(1) c(6)]) (use c(3,7) e in simp_all)
  then show ?thesis by (simp add: mutation_control_def m example_host_sel)
qed

lemma example_compare:
  assumes f: "rec_files r = fs" "''rust-probe.stdout.raw'' \<notin> set fs" "''rust-probe.stderr.raw'' \<notin> set fs"
  shows "\<exists>r'. compare_probe (example_host (example_pairs doc) example_outcome) (''linux'', ''amd64'') example_observations binary r =
      (Inr (demo_probe ''linux-x86_64''), r') \<and> rec_files r' = fs @ [''rust-probe.stdout.raw'', ''rust-probe.stderr.raw'']"
proof -
  let ?h = "example_host (example_pairs doc) example_outcome"
  obtain r1 where r1: "run_step ?h ''rust-probe'' [path_text binary] None r = (Inr (example_result ''rust-probe'' [path_text binary]), r1)"
    "rec_files r1 = fs @ [''rust-probe'' @ ''.stdout.raw'', ''rust-probe'' @ ''.stderr.raw'']"
    by (rule example_step [OF example_names(3) f(1)]) (use f in simp_all)
  have cases: "is_dict (dget (demo_probe t) ''cases'')" for t by (simp add: demo_probe_def dget_def)
  have cmp: "compare_observations example_machine (''linux'', ''amd64'') example_observations (demo_probe ''linux-x86_64'') = Inr ()"
    using demo_compared example_observations_plain(1) by (simp add: example_observations_def)
  have "compare_probe ?h (''linux'', ''amd64'') example_observations binary r = (Inr (demo_probe ''linux-x86_64''), r1)"
    by (simp add: compare_probe_def bind_eff_def r1(1) lift_res_def require_zero_def example_results example_host_sel example_decode cases
        cmp example_mutation need_def return_eff_def)
  with r1(2) show ?thesis by simp
qed

lemma example_named:
  "named_result (example_host pairs outcomes) (example_result ''rust-path-controls-pass'' c) True None = Inr ()"
  "named_result (example_host pairs outcomes) (example_result ''rust-path-controls-mutation'' c) False
     (Some ''Go must actually accept the versioned control case'') = Inr ()"
  by (simp_all only: named_result_def example_results example_host_sel append_Nil2 named_texts)

lemma example_run_controls:
  assumes f: "rec_files r = fs" "set fs \<inter> {''rust-path-controls-pass.stdout.raw'', ''rust-path-controls-pass.stderr.raw'',
    ''rust-path-controls-mutation.stdout.raw'', ''rust-path-controls-mutation.stderr.raw''} = {}"
  shows "\<exists>r'. run_controls (example_host pairs example_outcome) directory controls r = (Inr (), r')"
proof -
  let ?h = "example_host pairs example_outcome"
  obtain r1 where r1: "run_step ?h ''rust-path-controls-pass'' (test_command [''src''] directory) (Some (control_lines controls)) r =
      (Inr (example_result ''rust-path-controls-pass'' (test_command [''src''] directory)), r1)"
    "rec_files r1 = fs @ [''rust-path-controls-pass'' @ ''.stdout.raw'', ''rust-path-controls-pass'' @ ''.stderr.raw'']"
    by (rule example_step [OF example_names(4) f(1)]) (use f in auto)
  obtain r2 where r2: "run_step ?h ''rust-path-controls-mutation'' (test_command [''src''] directory) (Some (control_lines (changed_controls controls))) r1 =
      (Inr (example_result ''rust-path-controls-mutation'' (test_command [''src''] directory)), r2)"
    by (rule example_step [OF example_names(5) r1(2)]) (use f in auto)
  show ?thesis
    by (simp add: run_controls_def bind_eff_def example_host_sel r1(1) r2 lift_res_def example_named)
qed

lemma example_body:
  "\<exists>binary s. replay_body (example_host (example_pairs doc) example_outcome) (''linux'', ''amd64'') example_observations controls
      [''tmp'', ''replay'', ''cargo-target''] new_recorder = (Inr binary, s)"
proof -
  let ?h = "example_host (example_pairs doc) example_outcome" and ?t = "[''tmp'', ''replay'', ''cargo-target'']"
  obtain r1 where r1: "build_candidate ?h ?t new_recorder = (Inr (rust_binary ?h ?t), r1)"
    "rec_files r1 = [''cargo-metadata.stdout.raw'', ''cargo-metadata.stderr.raw'',
      ''cargo-build-rust-fs-secret.stdout.raw'', ''cargo-build-rust-fs-secret.stderr.raw'']" using example_build by blast
  obtain r2 where r2: "compare_probe ?h (''linux'', ''amd64'') example_observations (rust_binary ?h ?t) r1 = (Inr (demo_probe ''linux-x86_64''), r2)"
    "rec_files r2 = [''cargo-metadata.stdout.raw'', ''cargo-metadata.stderr.raw'',
      ''cargo-build-rust-fs-secret.stdout.raw'', ''cargo-build-rust-fs-secret.stderr.raw''] @ [''rust-probe.stdout.raw'', ''rust-probe.stderr.raw'']"
    using example_compare [OF r1(2)] by auto
  obtain r3 where r3: "run_controls ?h ?t controls r2 = (Inr (), r3)"
    using example_run_controls [OF r2(2), of "example_pairs doc" ?t controls] by auto
  show ?thesis
    by (simp add: replay_body_def bind_eff_def r1(1) r2(1) r3 example_host_sel(11) lift_res_def return_eff_def)
qed


section \<open>The fixture\<close>

lemma example_target: "native_target (example_host pairs outcomes) = Inr (''linux'', ''amd64'')" "target_key (''linux'', ''amd64'') = ''linux-amd64''"
  "scratch_parent (example_host pairs outcomes) = Inr [''tmp'']"
  "fixture_path (example_host pairs outcomes) (''linux'', ''amd64'') = Inr ([''src'', ''fixtures''] @ [''linux-amd64.json''])"
proof -
  show t: "target_key (''linux'', ''amd64'') = ''linux-amd64''" by code_simp
  show "native_target (example_host pairs outcomes) = Inr (''linux'', ''amd64'')"
    by (simp add: native_target_def example_host_sel GOOS_NAMES_def GOARCH_NAMES_def need_def)
  show "scratch_parent (example_host pairs outcomes) = Inr [''tmp'']"
    by (simp add: scratch_parent_def example_host_sel example_machine_sel is_relative_to_def need_def)
  show "fixture_path (example_host pairs outcomes) (''linux'', ''amd64'') = Inr ([''src'', ''fixtures''] @ [''linux-amd64.json''])"
    using t by (simp add: fixture_path_def example_host_sel GOOS_NAMES_def GOARCH_NAMES_def need_def)
qed


lemma example_record_values: "list_all (\<lambda>r. unique_pairs (record_value r)) rs"
  by (simp add: record_value_def list_all_iff)

lemma example_doc:
  obtains doc where "capture_payload example_machine example_parts = Inr doc"
    "validate_capture_payload example_machine (VDict doc) (''linux'', ''amd64'') = Inr doc"
    "dget doc ''observations'' = VDict example_observations"
    "get_if_dict (dget doc ''capture'') ''candidate'' = candidate_section example_parts demo_digest"
    "is_dict (dget doc ''capture'')" "unique_pairs (VDict doc)"
proof -
  have "fullmatch HEX64 (sha256 example_machine x)" for x by (simp add: example_machine_sel demo_digest_ok)
  from capture_payload_accepted [OF example_clean this]
  obtain doc where doc: "capture_payload example_machine example_parts = Inr doc"
    "validate_capture_payload example_machine (VDict doc) (run_target example_parts) = Inr doc" by blast
  have sel: "run_target example_parts = (''linux'', ''amd64'')" "run_observations example_parts = VDict example_observations"
    "run_commands example_parts = map demo_command REQUIRED_COMMANDS"
    by (simp_all add: example_parts_def demo_parts_def example_observations_def example_extra_def)
  from doc(1) obtain groups helper cases controls binary where parts:
    "group_digests example_machine (run_inventory example_parts) = Inr groups"
    "List.find (\<lambda>r. fst r = HELPER_PATH) (run_candidate_files example_parts) = Some helper"
    "List.find (\<lambda>d. dget d ''id'' = VStr ''go-cases'') (run_commands example_parts) = Some cases"
    "List.find (\<lambda>d. dget d ''id'' = VStr ''go-path-controls'') (run_commands example_parts) = Some controls"
    and eq: "doc = [(''schema_version'', VInt 1),
          (''capture'', VDict
             [(''oracle'', oracle_section example_parts), (''candidate'', candidate_section example_parts (snd helper)),
              (''native'', VDict [(''goos'', VStr (fst (run_target example_parts))), (''goarch'', VStr (snd (run_target example_parts)))]),
              (''go'', VDict (go_section example_parts (sha256 example_machine binary) groups)), (''inputs'', inputs_section example_machine example_parts groups),
              (''commands'', VList (map VDict (run_commands example_parts))), (''raw'', raw_section cases controls),
              (''case_inventory'', case_inventory_section)]),
          (''observations'', run_observations example_parts)]"
    unfolding capture_payload_def bind_res_eq_Inr next_or_stop_def by (auto split: option.splits)
  have "helper \<in> set example_files" using parts(2) by (auto simp: example_parts_def find_Some_iff)
  then have helper: "snd helper = demo_digest" using example_inventory_digests by (auto simp: example_inventory_def)
  have plain_list: "list_all (\<lambda>v. unique_pairs v) (map VStr ss)" for ss by (simp add: list_all_iff)
  have keys: "keys groups = GROUP_NAMES" "\<forall>p \<in> set groups. unique_pairs (snd p)"
  proof -
    have ne: "\<forall>g \<in> set GROUP_NAMES. in_group g (run_inventory example_parts) \<noteq> []" using example_clean unfolding clean_run_def by blast
    show "keys groups = GROUP_NAMES" "\<forall>p \<in> set groups. unique_pairs (snd p)"
      using parts(1) unfolding group_digests_exists [OF ne] by (auto simp: keys_def comp_def)
  qed
  have recs: "unique_pairs (records_value rs)" for rs
    using example_record_values by (simp add: records_value_def list_all_iff)
  have uo: "unique_pairs (oracle_section example_parts)" "unique_pairs (candidate_section example_parts x)" for x
    using recs by (simp_all add: oracle_section_def candidate_section_def)
  have "distinct GROUP_NAMES" by (simp add: GROUP_NAMES_def)
  with keys have ug: "unique_pairs (VDict groups)" by (auto simp: keys_def list_all_iff)
  have gs: "unique_pairs (dget groups k)" for k
    using keys(2) by (cases "map_of groups k") (force simp: dget_def dest: map_of_SomeD)+
  have ugo: "unique_pairs (VDict (go_section example_parts x groups))" for x
    using gs by (simp add: go_section_def)
  have ui: "unique_pairs (inputs_section example_machine example_parts groups)"
    using recs ug by (simp add: inputs_section_def)
  have cmds: "list_all unique_pairs (map VDict (run_commands example_parts))"
    by (simp add: sel(3) demo_command_def list_all_iff)
  have "cases \<in> set (run_commands example_parts)" "controls \<in> set (run_commands example_parts)" using parts(3,4) by (auto simp: find_Some_iff)
  then have fields: "unique_pairs (dget cases f)" "unique_pairs (dget controls f)" for f
    unfolding sel(3) by (auto simp: demo_command_def dget_Cons dget_def)
  have raw: "unique_pairs (raw_section cases controls)"
    using fields by (simp add: raw_section_def raw_fields_of_def RAW_FIELDS_def)
  have inv: "unique_pairs case_inventory_section" using plain_list by (simp add: case_inventory_section_def)
  have obs: "unique_pairs (VDict example_observations)"
    using case_ids(1) path_control_ids(1) by (simp add: example_observations_def demo_probe_def example_extra_def demo_case_def comp_def list_all_iff)
  have "unique_pairs (VDict doc)"
    unfolding eq unique_pairs.simps list.pred_inject split_conv using uo ugo ui cmds raw inv obs by (simp add: sel(2))
  then show thesis
    using doc sel helper by (intro that [of doc]) (simp_all add: eq dget_Cons)
qed

text \<open>The replay of that fixture on that machine returns; so it vouches for the candidate.\<close>

lemma example_inputs:
  assumes doc: "validate_capture_payload example_machine (VDict doc) (''linux'', ''amd64'') = Inr doc"
    "dget doc ''observations'' = VDict example_observations"
    "get_if_dict (dget doc ''capture'') ''candidate'' = candidate_section example_parts demo_digest"
    "dget doc ''capture'' = VDict cap" "unique_pairs (VDict doc)"
  shows "replay_inputs (example_host (example_pairs doc) outcomes) None =
    Inr ((''linux'', ''amd64''), [], cap, example_observations, map (\<lambda>c. (c, VBool True)) PATH_CONTROL_IDS)"
proof -
  let ?h = "example_host (example_pairs doc) outcomes"
  have anchor: "anchor_for (''linux'', ''amd64'') (anchors ?h) = Inr demo_digest"
    using demo_digest_ok by (simp add: anchor_for_def example_target(2) example_host_sel is_digest_def need_def)
  have once: "read_capture_once example_machine (example_pairs doc) p (''linux'', ''amd64'') (anchors ?h) = Inr ([], doc)" for p
    by (simp add: read_capture_once_def validate_capture_bytes_def anchor example_machine_sel example_decode(1) [OF doc(5)] doc(1) need_def)
  have files: "get_if_dict (dget cap ''candidate'') ''files'' = records_value example_files"
    using doc(3,4) by (simp add: candidate_section_def dget_Cons) (simp add: example_parts_def)
  have "wf_val (records_value example_files)" by (simp add: records_value_def record_value_def list_all_iff)
  then have verified: "verify_candidate_files ?h cap = Inr ()"
    by (simp add: verify_candidate_files_def example_candidate files need_def py_eq_refl)
  show ?thesis
    using verified once by (simp add: replay_inputs_def example_target example_host_sel doc(2,4) example_controls)
qed

lemma example_replay:
  "\<exists>doc report kept. replay_native (example_host (example_pairs doc) example_outcome) None = (Inr report, kept)"
proof -
  obtain doc cap where doc: "validate_capture_payload example_machine (VDict doc) (''linux'', ''amd64'') = Inr doc"
    "dget doc ''observations'' = VDict example_observations"
    "get_if_dict (dget doc ''capture'') ''candidate'' = candidate_section example_parts demo_digest"
    "dget doc ''capture'' = VDict cap" "unique_pairs (VDict doc)"
    using example_doc by (metis is_dict_iff)
  let ?h = "example_host (example_pairs doc) example_outcome"
  note inputs = example_inputs [OF doc, of example_outcome]
  obtain binary s where body: "replay_body ?h (''linux'', ''amd64'') example_observations (map (\<lambda>c. (c, VBool True)) PATH_CONTROL_IDS)
      [''tmp'', ''replay'', ''cargo-target''] new_recorder = (Inr binary, s)" using example_body by blast
  obtain report where "replay_report ?h (''linux'', ''amd64'') [] cap binary [''tmp'', ''replay'', ''logs''] = Inr report"
    by (simp add: replay_report_def example_host_sel example_machine_sel)
  with inputs body have "replay_native ?h None = (Inr report, Some s)"
    by (simp add: replay_native_def example_target example_host_sel failing_def bind_eff_def lift_res_def)
  then show ?thesis by blast
qed

lemma replay_vouches_for_the_candidate_witness:
  "\<exists>h report kept. replay_native h None = (Inr report, kept) \<and>
     (\<exists>files. candidate_file_records h = Inr files) \<and>
     (\<exists>s binary. kept = Some s \<and> length (rec_trace s) = 5 \<and> rec_trace s ! 2 = (''rust-probe'', [path_text binary]) \<and>
        dget (rec_run s) ''status'' = VStr ''replay-passed'')"
proof -
  obtain doc report kept where r: "replay_native (example_host (example_pairs doc) example_outcome) None = (Inr report, kept)"
    using example_replay by blast
  from replay_vouches_for_the_candidate [OF r] obtain files binary s where "candidate_file_records (example_host (example_pairs doc) example_outcome) = Inr files"
    "kept = Some s" "dget (rec_run s) ''status'' = VStr ''replay-passed''"
    "\<exists>a b c d. rec_trace s = [a, b, (''rust-probe'', [path_text binary]), c, d]" by blast
  with r show ?thesis by (intro exI [of _ "example_host (example_pairs doc) example_outcome"] exI [of _ report] exI [of _ kept] conjI) auto
qed

end
