(* ===== verification/FsInventory.thy ===== *)
theory FsInventory
  imports FsReplay "HOL-Library.AList"
begin

text \<open>
  The inventory a native capture takes of everything the Go build reads: \<open>_add_record\<close>, \<open>_parse_go_list\<close> and
  \<open>_discover_input_inventory\<close> of \<open>scripts/rust-port/fs_secret_oracle.py\<close>. An inventory is a list of labels with
  digests. What \<open>go list\<close> prints is read by a decoder of the standard library, an argument of the model.
\<close>

section \<open>Suffixes\<close>

text \<open>\<open>path.suffix\<close> and \<open>path.with_suffix\<close> on the last component.\<close>

definition name_suffix :: "string \<Rightarrow> string" where
  "name_suffix n =
     (let t = takeWhile (\<lambda>c. c \<noteq> CHR ''.'') (rev n) in
      if t \<noteq> [] \<and> Suc (length t) < length n then CHR ''.'' # rev t else [])"

definition with_suffix :: "path \<Rightarrow> string \<Rightarrow> path" where
  "with_suffix p suf = butlast p @ [take (length (last p) - length (name_suffix (last p))) (last p) @ suf]"

section \<open>Records\<close>

definition add_record :: "world \<Rightarrow> string \<Rightarrow> path \<Rightarrow> path option \<Rightarrow> file_record list \<Rightarrow> file_record list res" where
  "add_record w label p base records =
     bind_res (resolve_path w p) (\<lambda>resolved.
     bind_res (case base of
         None \<Rightarrow> Inr ()
       | Some b \<Rightarrow> bind_res (resolve_path w b) (\<lambda>limit. need (is_relative_to resolved limit) [''transitive Go input escaped its declared source root'']))
       (\<lambda>_.
     bind_res (need (is_file w resolved) [''transitive Go build input is not a regular file'']) (\<lambda>_.
     bind_res (need (safe_text label) [''transitive Go input produced an unsafe public label'']) (\<lambda>_.
     bind_res (read_bytes w resolved) (\<lambda>b.
     let digest = sha256 w b in
     bind_res (need (map_of records label = None \<or> map_of records label = Some digest)
       [''one logical Go input resolved to inconsistent bytes'']) (\<lambda>_.
     Inr (AList.update label digest records)))))))"

section \<open>The output of go list\<close>

text \<open>\<open>raw_item\<close> is \<open>raw_decode\<close> of the standard decoder, with the pairs of every object kept: the value and
  the number of characters it takes after the first. A duplicate key raises \<open>OracleError\<close>, a \<open>RuntimeError\<close>, which the
  handler does not translate.\<close>

function go_list_values :: "(string \<Rightarrow> (pyval \<times> nat) res) \<Rightarrow> string \<Rightarrow> pydict list res" where
  "go_list_values raw_item text1 =
     (if strip text1 = [] then Inr []
      else let rest = lstrip text1 in
        bind_res (raw_item rest) (\<lambda>(item, more1).
        bind_res (require (unique_pairs item) (RuntimeError ''duplicate JSON object key'')) (\<lambda>_.
        case item of
          VDict d \<Rightarrow> bind_res (go_list_values raw_item (drop (Suc more1) rest)) (\<lambda>ds. Inr (d # ds))
        | _ \<Rightarrow> Inl (ValueError ''go list item is not an object''))))"
  by pat_completeness auto

termination
proof (relation "measure (\<lambda>(_, t). length t)", goal_cases)
  case (2 raw_item text1 rest p item more1 u d)
  have "length rest \<le> length text1" using 2(2) by (simp add: lstrip_def length_dropWhile_le)
  moreover have "rest \<noteq> []" using 2(1,2) by (metis dropWhile_eq_Nil_conv lstrip_def rstrip_Nil_iff strip_def strip_Nil_iff)
  ultimately show ?case by (cases rest) auto
qed simp

declare go_list_values.simps [simp del]

definition parse_go_list :: "world \<Rightarrow> (string \<Rightarrow> (pyval \<times> nat) res) \<Rightarrow> string \<Rightarrow> pydict list res" where
  "parse_go_list w raw_item b =
     (case bind_res (utf8 w b) (\<lambda>t. bind_res (go_list_values raw_item t) (\<lambda>ds.
        if ds = [] then Inl (ValueError ''go list returned no package records'') else Inr ds)) of
        Inr ds \<Rightarrow> Inr ds
      | Inl e \<Rightarrow> if is_value_error e then Inl (RuntimeError ''go list did not return a complete JSON dependency inventory'') else Inl e)"

section \<open>Sources and module files\<close>

record go_roots =
  helper_dir :: path
  archive_dir :: path
  sdk_dir :: path
  cache_dir :: path
  mod_file :: path

definition beneath :: "path \<Rightarrow> path \<Rightarrow> string" where
  "beneath base p = as_posix (drop (length base) p)"

definition GO_ORACLE_DIR :: "string list" where
  "GO_ORACLE_DIR = [''scripts'', ''rust-port'', ''go-oracle'']"

text \<open>The roots are resolved already. \<open>candidates\<close> is the inventory of the candidate by relative path.\<close>

definition add_source :: "world \<Rightarrow> go_roots \<Rightarrow> file_record list \<Rightarrow> path \<Rightarrow> file_record list \<Rightarrow> file_record list res" where
  "add_source w g candidates p records =
     bind_res (resolve_path w p) (\<lambda>resolved.
     if is_relative_to resolved (helper_dir g) then
       (let relative = as_posix (GO_ORACLE_DIR @ drop (length (helper_dir g)) resolved) in
        bind_res (case map_of candidates relative of
            None \<Rightarrow> Inl (RuntimeError ''copied Go helper differs from current candidate source'')
          | Some expected \<Rightarrow> bind_res (read_bytes w resolved) (\<lambda>b.
              need (sha256 w b = expected) [''copied Go helper differs from current candidate source''])) (\<lambda>_.
        add_record w (''candidate/'' @ relative) resolved (Some (helper_dir g)) records))
     else if is_relative_to resolved (archive_dir g) then
       add_record w (''oracle/'' @ beneath (archive_dir g) resolved) resolved (Some (archive_dir g)) records
     else if is_relative_to resolved (sdk_dir g) then
       add_record w (''sdk/'' @ beneath (sdk_dir g) resolved) resolved (Some (sdk_dir g)) records
     else if is_relative_to resolved (cache_dir g) then
       add_record w (''modules/cache/'' @ beneath (cache_dir g) resolved) resolved (Some (cache_dir g)) records
     else Inl (RuntimeError ''go list source escaped helper, pinned source, SDK and module-cache roots''))"

definition helper_label :: "path \<Rightarrow> string" where
  "helper_label resolved =
     (if last resolved \<in> {''oracle.mod'', ''oracle.sum''}
      then ''modules/current-helper/effective.'' @ (if name_suffix (last resolved) = ''.mod'' then ''mod'' else ''sum'')
      else ''modules/current-helper/'' @ last resolved)"

definition add_module_file :: "world \<Rightarrow> go_roots \<Rightarrow> path \<Rightarrow> file_record list \<Rightarrow> file_record list res" where
  "add_module_file w g p records =
     bind_res (resolve_path w p) (\<lambda>resolved.
     bind_res (resolve_path w (mod_file g)) (\<lambda>effective_mod.
     if resolved = effective_mod then
       add_record w ''modules/current-helper/effective.mod'' resolved (Some (butlast (mod_file g))) records
     else
     bind_res (resolve_path w (with_suffix (mod_file g) ''.sum'')) (\<lambda>effective_sum.
     if resolved = effective_sum then
       add_record w ''modules/current-helper/effective.sum'' resolved (Some (butlast (mod_file g))) records
     else if is_relative_to resolved (helper_dir g) then
       add_record w (helper_label resolved) resolved (Some (helper_dir g)) records
     else if is_relative_to resolved (archive_dir g) then
       add_record w (''modules/replacement/'' @ beneath (archive_dir g) resolved) resolved (Some (archive_dir g)) records
     else if is_relative_to resolved (cache_dir g) then
       add_record w (''modules/cache/'' @ beneath (cache_dir g) resolved) resolved (Some (cache_dir g)) records
     else if is_relative_to resolved (sdk_dir g) then
       add_record w (''sdk/'' @ beneath (sdk_dir g) resolved) resolved (Some (sdk_dir g)) records
     else Inl (RuntimeError ''Go module manifest escaped pinned source and installed caches''))))"

section \<open>Packages\<close>

definition FILE_FIELDS :: "string list" where
  "FILE_FIELDS = [''GoFiles'', ''CompiledGoFiles'', ''CgoFiles'', ''CFiles'', ''CXXFiles'', ''MFiles'', ''FFiles'', ''SFiles'', ''HFiles'',
     ''SysoFiles'', ''EmbedFiles'', ''TestGoFiles'', ''XTestGoFiles'', ''TestEmbedFiles'', ''XTestEmbedFiles'']"

definition package_field ::
    "world \<Rightarrow> go_roots \<Rightarrow> file_record list \<Rightarrow> pydict \<Rightarrow> string \<Rightarrow> string \<Rightarrow> file_record list \<Rightarrow> file_record list res" where
  "package_field w g candidates package directory field records =
     (let names = dget_or package field (VList []) in
      bind_res (need (is_list names \<and> list_all is_str (the (as_list names))) [''go list returned a malformed source file list'']) (\<lambda>_.
      fold_res (\<lambda>name. add_source w g candidates (join_path (path_parts directory) name)) (strs_of (the (as_list names))) records))"

definition module_file :: "oracle_host \<Rightarrow> go_roots \<Rightarrow> pyval \<Rightarrow> file_record list \<Rightarrow> file_record list res" where
  "module_file h g info records =
     (case info of
        VDict d \<Rightarrow>
          (case dget d ''GoMod'' of
             VStr gomod \<Rightarrow>
               if gomod = [] then Inr records
               else bind_res (add_module_file (machine h) g (path_of h gomod) records) (\<lambda>rs.
                 let sibling_sum = butlast (path_of h gomod) @ [''go.sum''] in
                 if is_file (machine h) sibling_sum then add_module_file (machine h) g sibling_sum rs else Inr rs)
           | _ \<Rightarrow> Inr records)
      | _ \<Rightarrow> Inr records)"

definition package_files :: "oracle_host \<Rightarrow> go_roots \<Rightarrow> file_record list \<Rightarrow> pydict \<Rightarrow> file_record list \<Rightarrow> file_record list res" where
  "package_files h g candidates package records =
     (case dget_or package ''Dir'' (VStr []) of
        VStr directory \<Rightarrow>
          bind_res (need (is_absolute directory) [''go list returned a nonabsolute package directory'']) (\<lambda>_.
          bind_res (fold_res (package_field (machine h) g candidates package directory) FILE_FIELDS records) (\<lambda>rs.
          (case dget package ''Module'' of
             VNone \<Rightarrow> Inr rs
           | VDict m \<Rightarrow> fold_res (module_file h g) [VDict m, dget m ''Replace''] rs
           | _ \<Rightarrow> Inl (RuntimeError ''go list returned malformed module metadata''))))
      | _ \<Rightarrow> Inl TypeError)"

section \<open>The inventory\<close>

text \<open>The records that do not depend on what \<open>go list\<close> says: the candidate, the module files of the helper and of the
  pinned source, and the production sources. The prefix dropped is \<open>candidate/\<close>.\<close>

definition candidate_entry :: "oracle_host \<Rightarrow> file_record \<Rightarrow> file_record list \<Rightarrow> file_record list res" where
  "candidate_entry h r rs =
     (if fst r = LOCK_CLOSURE_LABEL then Inr (AList.update (fst r) (snd r) rs)
      else add_record (machine h) (fst r) (root_dir h @ path_parts (drop 10 (fst r))) (Some (root_dir h)) rs)"

definition by_relative :: "file_record list \<Rightarrow> file_record list" where
  "by_relative = map (\<lambda>(p, d). (drop 10 p, d))"

definition layout_records :: "world \<Rightarrow> go_roots \<Rightarrow> file_record list \<Rightarrow> file_record list \<Rightarrow> file_record list res" where
  "layout_records w g candidates r1 =
     (let up = butlast (helper_dir g) in
     bind_res (fold_res (\<lambda>r. add_record w (snd r) (helper_dir g @ [fst r]) (Some (helper_dir g)))
         [(''go.mod'', ''modules/current-helper/source-go.mod''), (''go.sum'', ''modules/current-helper/source-go.sum'')] r1) (\<lambda>r2.
     bind_res (add_record w ''modules/current-helper/effective.mod'' (mod_file g) (Some up) r2) (\<lambda>r3.
     bind_res (add_record w ''modules/current-helper/effective.sum'' (with_suffix (mod_file g) ''.sum'') (Some up) r3) (\<lambda>r4.
     bind_res (fold_res (\<lambda>name rs. if is_file w (archive_dir g @ [name])
         then add_record w (''modules/replacement/'' @ name) (archive_dir g @ [name]) (Some (archive_dir g)) rs else Inr rs)
         [''go.mod'', ''go.sum''] r4) (\<lambda>r5.
     fold_res (\<lambda>name. add_source w g candidates (archive_dir g @ path_parts name)) ORACLE_SOURCE_FILES r5)))))"

definition fixed_records :: "oracle_host \<Rightarrow> go_roots \<Rightarrow> file_record list \<Rightarrow> file_record list res" where
  "fixed_records h g candidate_records =
     bind_res (fold_res (candidate_entry h) candidate_records []) (layout_records (machine h) g (by_relative candidate_records))"

text \<open>The compiler: its binary, two files of the SDK and the files of the tool directory in the order of their names.
  \<open>entries\<close> lists a directory.\<close>

definition relative_to_res :: "path \<Rightarrow> path \<Rightarrow> string res" where
  "relative_to_res p base = (if is_relative_to p base then Inr (beneath base p) else Inl (ValueError ''not in the subpath''))"

definition tool_file :: "world \<Rightarrow> go_roots \<Rightarrow> path \<Rightarrow> file_record list \<Rightarrow> file_record list res" where
  "tool_file w g p records =
     (if is_file w p
      then bind_res (resolve_path w p) (\<lambda>resolved. bind_res (relative_to_res resolved (sdk_dir g)) (\<lambda>r.
        add_record w (''sdk/'' @ r) p (Some (sdk_dir g)) records))
      else Inr records)"

definition sdk_records :: "world \<Rightarrow> go_roots \<Rightarrow> path \<Rightarrow> file_record list \<Rightarrow> file_record list res" where
  "sdk_records w g go_tool records =
     bind_res (resolve_path w go_tool) (\<lambda>go_bin.
     bind_res (add_record w (''sdk/bin/'' @ last go_bin) go_bin (Some (sdk_dir g)) records) (\<lambda>r1.
     fold_res (\<lambda>name rs. if is_file w (sdk_dir g @ [name]) then add_record w (''sdk/'' @ name) (sdk_dir g @ [name]) (Some (sdk_dir g)) rs
       else Inr rs) [''VERSION'', ''go.env''] r1))"

definition tool_records :: "oracle_host \<Rightarrow> (path \<Rightarrow> string list) \<Rightarrow> go_roots \<Rightarrow> string \<Rightarrow> file_record list \<Rightarrow> file_record list res" where
  "tool_records h entries g tool_dir_raw records =
     (let w = machine h in
      bind_res (utf8 w tool_dir_raw) (\<lambda>t.
      bind_res (resolve_path w (path_of h (strip t))) (\<lambda>tool_dir.
      bind_res (need (is_relative_to tool_dir (sdk_dir g) \<and> is_dir w tool_dir)
        [''Go compiler tool directory is not inside the installed SDK'']) (\<lambda>_.
      fold_res (\<lambda>name. tool_file w g (tool_dir @ [name])) (sort (entries tool_dir)) records))))"

definition GO_LIST_FIELDS :: string where
  "GO_LIST_FIELDS = ''Dir,GoFiles,CompiledGoFiles,CgoFiles,CFiles,CXXFiles,MFiles,FFiles,SFiles,HFiles,SysoFiles,EmbedFiles,TestGoFiles,XTestGoFiles,TestEmbedFiles,XTestEmbedFiles,Module''"

text \<open>\<open>go\<close> gives the roots as the code passes them; the helper, the SDK, the cache and the pinned source are resolved first.\<close>

definition resolved_roots :: "world \<Rightarrow> go_roots \<Rightarrow> go_roots res" where
  "resolved_roots w g =
     bind_res (resolve_path w (sdk_dir g)) (\<lambda>sdk.
     bind_res (resolve_path w (cache_dir g)) (\<lambda>cache.
     bind_res (resolve_path w (archive_dir g)) (\<lambda>archive.
     bind_res (resolve_path w (helper_dir g)) (\<lambda>helper.
     Inr (g\<lparr>helper_dir := helper, archive_dir := archive, sdk_dir := sdk, cache_dir := cache\<rparr>)))))"

definition discover_input_inventory ::
    "oracle_host \<Rightarrow> (string \<Rightarrow> (pyval \<times> nat) res) \<Rightarrow> (path \<Rightarrow> string list) \<Rightarrow> path \<Rightarrow> go_roots \<Rightarrow> string \<Rightarrow> string \<Rightarrow> string
      \<Rightarrow> (recorder, file_record list) eff" where
  "discover_input_inventory h raw_item entries go_tool go goos goarch stage =
     bind_eff (run_step h stage [path_text go_tool, ''list'', ''-deps'', ''-json='' @ GO_LIST_FIELDS, ''-modfile='' @ path_text (mod_file go),
         ''./cmd/fssecret''] None) (\<lambda>listing.
     bind_eff (lift_res (bind_res (require_zero listing stage) (parse_go_list (machine h) raw_item))) (\<lambda>packages.
     bind_eff (lift_res (candidate_file_records h)) (\<lambda>candidate_records.
     bind_eff (lift_res (resolved_roots (machine h) go)) (\<lambda>g.
     bind_eff (lift_res (bind_res (fixed_records h g candidate_records) (\<lambda>r1.
         bind_res (fold_res (package_files h g (by_relative candidate_records)) packages r1)
           (sdk_records (machine h) g go_tool)))) (\<lambda>r2.
     bind_eff (run_step h (''go-env-tool-dir-'' @ removeprefix stage ''go-list-'') [path_text go_tool, ''env'', ''GOTOOLDIR''] None) (\<lambda>tool.
     bind_eff (lift_res (bind_res (require_zero tool ''go env GOTOOLDIR'') (\<lambda>raw1. tool_records h entries g raw1 r2))) (\<lambda>r3.
     bind_eff (lift_res (need (goos \<noteq> [] \<and> goarch \<noteq> []) [''native Go target missing during input inventory''])) (\<lambda>_.
     return_eff (sort_key fst r3)))))))))"

section \<open>What an inventory is\<close>

text \<open>Labels are safe and pairwise different, digests are digests. Every addition keeps this.\<close>

definition sound_records :: "file_record list \<Rightarrow> bool" where
  "sound_records rs \<longleftrightarrow> distinct (map fst rs) \<and> (\<forall>r \<in> set rs. safe_text (fst r) \<and> fullmatch HEX64 (snd r))"

lemma set_update_cases: "r \<in> set (AList.update k v al) \<Longrightarrow> r = (k, v) \<or> r \<in> set al"
  by (induction al) (auto split: if_splits)

lemma update_sound:
  "sound_records rs \<Longrightarrow> safe_text k \<Longrightarrow> fullmatch HEX64 v \<Longrightarrow> sound_records (AList.update k v rs)"
  unfolding sound_records_def by (auto simp: distinct_update dest!: set_update_cases)

text \<open>SHA-256 prints 64 hexadecimal digits.\<close>

definition hashes :: "world \<Rightarrow> bool" where
  "hashes w \<longleftrightarrow> (\<forall>b. fullmatch HEX64 (sha256 w b))"

definition keeps_sound :: "(file_record list \<Rightarrow> file_record list res) \<Rightarrow> bool" where
  "keeps_sound f \<longleftrightarrow> (\<forall>rs rs'. f rs = Inr rs' \<longrightarrow> sound_records rs \<longrightarrow> sound_records rs')"

lemma keeps_soundI: "(\<And>rs rs'. f rs = Inr rs' \<Longrightarrow> sound_records rs \<Longrightarrow> sound_records rs') \<Longrightarrow> keeps_sound f"
  by (simp add: keeps_sound_def)

lemma keeps_soundD: "keeps_sound f \<Longrightarrow> f rs = Inr rs' \<Longrightarrow> sound_records rs \<Longrightarrow> sound_records rs'"
  by (simp add: keeps_sound_def)

named_theorems sound "steps that keep an inventory sound"

lemma keeps_Inr [sound]: "keeps_sound Inr"
  by (rule keeps_soundI) simp

lemma keeps_Inl [sound]: "keeps_sound (\<lambda>_. Inl e)"
  by (rule keeps_soundI) simp

lemma keeps_after [sound]: "(\<And>x. keeps_sound (f x)) \<Longrightarrow> keeps_sound (\<lambda>rs. bind_res m (\<lambda>x. f x rs))"
  by (cases m) (auto simp: keeps_sound_def)

lemma keeps_then: "keeps_sound f \<Longrightarrow> keeps_sound g \<Longrightarrow> keeps_sound (\<lambda>rs. bind_res (f rs) g)"
  by (auto simp: keeps_sound_def bind_res_eq_Inr)

lemma keeps_if [sound]: "keeps_sound f \<Longrightarrow> keeps_sound g \<Longrightarrow> keeps_sound (\<lambda>rs. if b then f rs else g rs)"
  by (cases b) simp_all

lemma keeps_fold [sound]: "(\<And>x. keeps_sound (f x)) \<Longrightarrow> keeps_sound (fold_res f xs)"
  by (rule keeps_soundI, erule fold_res_keeps [where P = sound_records]) (auto dest: keeps_soundD)

lemma keeps_add [sound]: "hashes w \<Longrightarrow> keeps_sound (add_record w label p base)"
  by (rule keeps_soundI) (auto simp: add_record_def bind_res_eq_Inr Let_def hashes_def intro: update_sound)

lemma keeps_source [sound]: "hashes w \<Longrightarrow> keeps_sound (add_source w g cs p)"
  unfolding add_source_def [abs_def] Let_def by (intro sound)

lemma keeps_module [sound]: "hashes w \<Longrightarrow> keeps_sound (add_module_file w g p)"
  unfolding add_module_file_def [abs_def] by (intro sound)

lemma keeps_package_field [sound]: "hashes w \<Longrightarrow> keeps_sound (package_field w g cs pk d f)"
  unfolding package_field_def [abs_def] Let_def by (intro sound)

lemma keeps_tool_file [sound]: "hashes w \<Longrightarrow> keeps_sound (tool_file w g p)"
  unfolding tool_file_def [abs_def] by (intro sound)

lemma keeps_module_file [sound]:
  assumes "hashes (machine h)"
  shows "keeps_sound (module_file h g info)"
proof (cases info)
  case (VDict d)
  then show ?thesis
    using assms unfolding module_file_def [abs_def] Let_def
    by (cases "dget d ''GoMod''") (simp_all, auto intro!: sound keeps_then)
qed (simp_all add: sound module_file_def [abs_def])

lemma keeps_sdk [sound]: "hashes w \<Longrightarrow> keeps_sound (sdk_records w g t)"
  unfolding sdk_records_def [abs_def] by (intro sound keeps_then)

lemma keeps_tools [sound]: "hashes (machine h) \<Longrightarrow> keeps_sound (tool_records h es g raw1)"
  unfolding tool_records_def [abs_def] Let_def by (intro sound)

lemma keeps_package [sound]: "hashes (machine h) \<Longrightarrow> keeps_sound (package_files h g cs pk)"
  unfolding package_files_def [abs_def]
  by (cases "dget_or pk ''Dir'' (VStr [])"; cases "dget pk ''Module''"; simp) (auto intro!: sound keeps_then)

lemma keeps_lock: "fullmatch HEX64 d \<Longrightarrow> keeps_sound (\<lambda>rs. Inr (AList.update LOCK_CLOSURE_LABEL d rs))"
proof (rule keeps_soundI)
  fix rs rs' assume "fullmatch HEX64 d" "Inr (AList.update LOCK_CLOSURE_LABEL d rs) = (Inr rs' :: file_record list res)" "sound_records rs"
  moreover have "safe_text LOCK_CLOSURE_LABEL" by code_simp
  ultimately show "sound_records rs'" by (auto intro: update_sound)
qed

text \<open>The digests of the candidate are digests where the lock closure is one.\<close>

lemma candidate_digests:
  assumes "candidate_file_records h = Inr cs" "hashes (machine h)" "\<forall>d. lock_digest h = Inr d \<longrightarrow> fullmatch HEX64 d"
  shows "\<forall>r \<in> set cs. fullmatch HEX64 (snd r)"
proof -
  obtain ps rs d where "candidate_file_paths h = Inr ps" "map_res (candidate_record h) ps = Inr rs" "lock_digest h = Inr d"
      "cs = sort_key fst (rs @ [(LOCK_CLOSURE_LABEL, d)])"
    using assms(1) by (auto simp: candidate_file_records_def bind_res_eq_Inr split: sum.splits if_splits)
  moreover from this have "\<forall>r \<in> set rs. fullmatch HEX64 (snd r)"
    using assms(2) by (auto dest!: map_res_mem simp: candidate_record_def bind_res_eq_Inr hashes_def)
  ultimately show ?thesis using assms(3) by auto
qed

lemma keeps_fold_mem:
  "(\<And>x. x \<in> set xs \<Longrightarrow> keeps_sound (f x)) \<Longrightarrow> keeps_sound (fold_res f xs)"
proof (induction xs)
  case (Cons x xs)
  then have "keeps_sound (f x)" "keeps_sound (fold_res f xs)" by auto
  then show ?case by (auto simp: keeps_sound_def bind_res_eq_Inr)
qed (simp add: keeps_sound_def)

lemma keeps_candidate_entry:
  "hashes (machine h) \<Longrightarrow> fullmatch HEX64 (snd r) \<Longrightarrow> keeps_sound (candidate_entry h r)"
  unfolding candidate_entry_def [abs_def] by (cases "fst r = LOCK_CLOSURE_LABEL") (simp_all add: keeps_lock keeps_add)

lemma keeps_layout [sound]: "hashes w \<Longrightarrow> keeps_sound (layout_records w g cs)"
  unfolding layout_records_def [abs_def] Let_def by (intro sound keeps_then)

lemma fixed_records_sound:
  assumes "fixed_records h g cs = Inr rs" "hashes (machine h)" "\<forall>r \<in> set cs. fullmatch HEX64 (snd r)"
  shows "sound_records rs"
proof -
  have "keeps_sound (fold_res (candidate_entry h) cs)" using assms(2,3) by (intro keeps_fold_mem keeps_candidate_entry) auto
  moreover obtain r1 where "fold_res (candidate_entry h) cs [] = Inr r1" "layout_records (machine h) g (by_relative cs) r1 = Inr rs"
    using assms(1) by (auto simp: fixed_records_def bind_res_eq_Inr)
  moreover have "sound_records []" by (simp add: sound_records_def)
  ultimately show ?thesis using keeps_layout [OF assms(2)] by (blast dest: keeps_soundD)
qed

lemma add_record_nonempty: "add_record w label p base rs = Inr rs' \<Longrightarrow> rs' \<noteq> []"
  by (auto simp: add_record_def bind_res_eq_Inr Let_def update_nonempty)

lemma fold_nonempty:
  assumes "fold_res f xs rs = Inr rs'" "rs \<noteq> []" "\<And>x a b. f x a = Inr b \<Longrightarrow> a \<noteq> [] \<Longrightarrow> b \<noteq> []"
  shows "rs' \<noteq> []"
  using fold_res_keeps [of f xs rs rs' "\<lambda>rs. rs \<noteq> []"] assms by blast

lemma sdk_records_nonempty:
  assumes "sdk_records w g t rs = Inr rs'"
  shows "rs' \<noteq> []"
proof -
  let ?f = "\<lambda>name rs. if is_file w (sdk_dir g @ [name]) then add_record w (''sdk/'' @ name) (sdk_dir g @ [name]) (Some (sdk_dir g)) rs else Inr rs"
  obtain b r1 where "add_record w (''sdk/bin/'' @ last b) b (Some (sdk_dir g)) rs = Inr r1" "fold_res ?f [''VERSION'', ''go.env''] r1 = Inr rs'"
    using assms unfolding sdk_records_def bind_res_eq_Inr by blast
  moreover have "?f x a = Inr b \<Longrightarrow> a \<noteq> [] \<Longrightarrow> b \<noteq> []" for x a b
    using add_record_nonempty [of w "''sdk/'' @ x" "sdk_dir g @ [x]" "Some (sdk_dir g)" a b] by (simp split: if_splits)
  ultimately show ?thesis using fold_nonempty [of ?f] add_record_nonempty by blast
qed

lemma tool_file_nonempty: "tool_file w g p rs = Inr rs' \<Longrightarrow> rs \<noteq> [] \<Longrightarrow> rs' \<noteq> []"
  unfolding tool_file_def by (cases "is_file w p") (auto simp: bind_res_eq_Inr dest!: add_record_nonempty)

lemma tool_records_nonempty:
  assumes "tool_records h es g raw1 rs = Inr rs'" "rs \<noteq> []"
  shows "rs' \<noteq> []"
proof -
  obtain d xs where "fold_res (\<lambda>name. tool_file (machine h) g (d @ [name])) xs rs = Inr rs'"
    using assms(1) unfolding tool_records_def bind_res_eq_Inr Let_def by blast
  then show ?thesis using assms(2) by (rule fold_nonempty) (rule tool_file_nonempty)
qed

text \<open>An inventory that is returned is a valid one: the validator of the replay accepts its records.\<close>

lemma discovered_inventory_is_valid:
  assumes run: "discover_input_inventory h raw_item entries go_tool go goos goarch stage r = (Inr files, r')"
    and hash: "hashes (machine h)" and lock: "\<forall>d. lock_digest h = Inr d \<longrightarrow> fullmatch HEX64 d"
  shows "valid_inventory files"
proof -
  from run obtain ps cs g r1 r2 r3 r4 tool_raw where
    steps: "candidate_file_records h = Inr cs" "fixed_records h g cs = Inr r1"
      "fold_res (package_files h g (by_relative cs)) ps r1 = Inr r2" "sdk_records (machine h) g go_tool r2 = Inr r3"
      "tool_records h entries g tool_raw r3 = Inr r4" "files = sort_key fst r4"
    unfolding discover_input_inventory_def bind_eff_Inr lift_res_Inr return_eff_Inr bind_res_eq_Inr by auto
  have "sound_records r1" using fixed_records_sound [OF steps(2) hash] candidate_digests [OF steps(1) hash lock] by blast
  moreover have "keeps_sound (fold_res (package_files h g (by_relative cs)) ps)" by (intro sound hash)
  ultimately have "sound_records r2" using steps(3) by (blast dest: keeps_soundD)
  then have r3: "sound_records r3" using steps(4) keeps_sdk [OF hash] by (blast dest: keeps_soundD)
  have r4: "sound_records r4" using r3 steps(5) keeps_tools [OF hash] by (blast dest: keeps_soundD)
  have "r3 \<noteq> []" by (rule sdk_records_nonempty [OF steps(4)])
  then have "r4 \<noteq> []" by (rule tool_records_nonempty [OF steps(5)])
  then have "sort_key fst r4 \<noteq> []" by (metis mset_sort mset_zero_iff)
  moreover have "distinct (map fst (sort_key fst r4)) = distinct (map fst r4)" by (metis mset_sort mset_map mset_eq_imp_distinct_iff)
  ultimately show ?thesis using r4 by (simp add: steps(6) valid_inventory_def sound_records_def)
qed

end
