(* ===== verification/FsLive.thy ===== *)
theory FsLive
  imports FsInventory
begin

text \<open>
  The live capture of \<open>scripts/rust-port/fs_secret_oracle.py\<close>, \<open>capture_native\<close>: the guards on the source root and the
  output, the identity of the checkout before and after, the pinned archive, the Go environment, the run of the
  probe, the second inventory and the document that is written. The machine is seen twice: \<open>machine\<close> before the
  probe is built, \<open>later\<close> when inputs and checkout are read again.
\<close>

section \<open>The machine of a live capture\<close>

record prepared =
  prep_version :: string
  prep_goroot :: path
  prep_goos :: string
  prep_goarch :: string
  prep_modcache :: path
  prep_env_modcache :: path
  prep_tool :: path

text \<open>\<open>resolve_tool\<close> and \<open>prepare_env\<close> are \<open>_resolve_go_tool\<close> and \<open>_prepare_go_env\<close> of the static update oracle, with what
  they leave for the recorder in \<open>env_records\<close>; \<open>file_step\<close> says how making a directory or copying a file ends;
  \<open>readable\<close> is false where the archive is not a tar archive.\<close>

record live_host =
  oracle_of :: oracle_host
  later :: world
  go_oracle_env :: bool
  file_step :: "string \<Rightarrow> unit res"
  readable :: "bool res"
  resolve_tool :: "path res"
  prepare_env :: "path \<Rightarrow> string \<Rightarrow> prepared res"
  env_records :: "(string res \<times> string res \<times> string res) list"
  raw_decoder :: "string \<Rightarrow> (pyval \<times> nat) res"
  dir_entries :: "path \<Rightarrow> string list"

definition aged :: "live_host \<Rightarrow> oracle_host" where
  "aged l = (oracle_of l)\<lparr>machine := later l\<rparr>"

section \<open>Guards\<close>

definition require_explicit_git_root :: "world \<Rightarrow> path \<Rightarrow> unit res" where
  "require_explicit_git_root w base =
     (case lstat_of w (base @ [''.git'']) of
        Inl e \<Rightarrow> if is_os_error e
                  then Inl (RuntimeError ''capture requires Git metadata at the source root; refusing parent discovery'') else Inl e
      | Inr kind \<Rightarrow> need (kind = Directory \<or> kind = Regular) [''source-root Git metadata is not a regular worktree marker''])"

definition path_exists :: "world \<Rightarrow> path \<Rightarrow> bool" where
  "path_exists w p = (case lstat_of w p of Inl _ \<Rightarrow> False | Inr _ \<Rightarrow> True)"

text \<open>Both paths after \<open>expanduser\<close>.\<close>

definition verify_output_locations :: "oracle_host \<Rightarrow> path \<Rightarrow> path \<Rightarrow> string \<times> string \<Rightarrow> (path \<times> path) res" where
  "verify_output_locations h output artifacts target =
     (let w = machine h in
      bind_res (bind_res (fixture_path h target) (resolve_path w)) (\<lambda>expected.
      bind_res (resolve_path w output) (\<lambda>out.
      bind_res (need (out = expected) [''capture output must be the new native frozen-v1 fixture path'']) (\<lambda>_.
      bind_res (need (\<not> path_exists w out) [''refusing to overwrite an existing frozen-v1 fixture'']) (\<lambda>_.
      bind_res (resolve_path w artifacts) (\<lambda>arts.
      bind_res (need (\<not> path_exists w arts) [''refusing to reuse an existing private capture artifact directory'']) (\<lambda>_.
      bind_res (resolve_path w (fixture_dir h)) (\<lambda>fixture_root.
      bind_res (need (\<not> is_relative_to arts fixture_root) [''raw Go capture artifacts must stay outside the tracked fixture directory'']) (\<lambda>_.
      bind_res (resolve_path w (root_dir h)) (\<lambda>base.
      bind_res (need (\<not> is_relative_to arts base) [''private raw capture artifacts must stay outside the source checkout'']) (\<lambda>_.
      Inr (out, arts))))))))))))"

section \<open>The checkout and the pinned source\<close>

definition decode_ascii :: "string \<Rightarrow> string res" where
  "decode_ascii b = (if list_all (\<lambda>c. (of_char c :: nat) < 128) b then Inr b else Inl (UnicodeDecodeError ''ascii''))"

definition git_identity :: "oracle_host \<Rightarrow> string \<Rightarrow> (recorder, string \<times> bool) eff" where
  "git_identity h moment =
     bind_eff (run_step h (''git-head-'' @ moment) [''git'', ''rev-parse'', ''HEAD''] None) (\<lambda>c1.
     bind_eff (lift_res (require_zero c1 ''git rev-parse HEAD'')) (\<lambda>head_bytes.
     bind_eff (run_step h (''git-status-'' @ moment) [''git'', ''status'', ''--porcelain=v1'', ''--untracked-files=all''] None) (\<lambda>c2.
     bind_eff (lift_res (require_zero c2 ''git status'')) (\<lambda>status.
     bind_eff (lift_res (case decode_ascii head_bytes of
         Inl e \<Rightarrow> Inl (RuntimeError ''Git HEAD is not ASCII'') | Inr t \<Rightarrow> Inr (strip t))) (\<lambda>head.
     bind_eff (lift_res (need (is_commit (VStr head)) [''Git HEAD is not a full commit''])) (\<lambda>_.
     return_eff (head, strip status = [])))))))"

definition source_record :: "world \<Rightarrow> path \<Rightarrow> string \<Rightarrow> (string \<times> string) res" where
  "source_record w archive name =
     (let p = archive @ path_parts name in
      bind_res (need (is_file w p) [''pinned Go archive omitted required production source'']) (\<lambda>_.
      bind_res (read_bytes w p) (\<lambda>b. Inr (name, b))))"

text \<open>The digest is that of the names and contents, each name followed by a zero byte.\<close>

definition hash_source_files :: "world \<Rightarrow> path \<Rightarrow> (string \<times> file_record list) res" where
  "hash_source_files w archive =
     bind_res (map_res (source_record w archive) ORACLE_SOURCE_FILES) (\<lambda>files.
     Inr (sha256 w (concat (map (\<lambda>(name, b). name @ CHR 0x00 # b) files)), sort_key fst (map (\<lambda>(name, b). (name, sha256 w b)) files)))"

definition pinned_source :: "live_host \<Rightarrow> path \<Rightarrow> (recorder, string \<times> string \<times> file_record list) eff" where
  "pinned_source l private =
     (let h = oracle_of l; tarball = private @ [''pinned-go-oracle.tar''] in
      bind_eff (git_identity h ''before'') (\<lambda>(head_before, clean_before).
      bind_eff (lift_res (need clean_before [''native Go capture requires a clean candidate checkout''])) (\<lambda>_.
      bind_eff (run_step h ''git-verify-oracle'' [''git'', ''rev-parse'', ''--verify'', ORACLE @ ''^{commit}''] None) (\<lambda>c.
      bind_eff (lift_res (bind_res (require_zero c ''git verify pinned oracle'') decode_ascii)) (\<lambda>pinned.
      bind_eff (lift_res (need (strip pinned = ORACLE) [''pinned Go oracle resolved to a different commit''])) (\<lambda>_.
      bind_eff (run_step h ''git-archive'' [''git'', ''archive'', ''--format=tar'', ''--output='' @ path_text tarball, ORACLE] None) (\<lambda>a.
      bind_eff (lift_res (require_zero a ''git archive pinned oracle'')) (\<lambda>_.
      bind_eff (lift_res (file_step l ''oracle-source'')) (\<lambda>_.
      bind_eff (lift_res (case readable l of
          Inl e \<Rightarrow> if is_os_error e then Inl (RuntimeError ''pinned Go source archive could not be safely extracted'') else Inl e
        | Inr t \<Rightarrow> need t [''pinned Go source archive could not be safely extracted''])) (\<lambda>_.
      bind_eff (lift_res (hash_source_files (machine h) (private @ [''oracle-source'']))) (\<lambda>(source_sha, source_files).
      return_eff (head_before, source_sha, source_files))))))))))))"

section \<open>The Go environment\<close>

text \<open>\<open>try\<close> with \<open>finally\<close>: the clean-up runs either way, and its own exception replaces the result.\<close>

definition finally_eff :: "('s, 'a) eff \<Rightarrow> ('s, 'b) eff \<Rightarrow> ('s, 'a) eff" where
  "finally_eff m f s = (case m s of (r, s1) \<Rightarrow> (case f s1 of (Inl e, s2) \<Rightarrow> (Inl e, s2) | (Inr _, s2) \<Rightarrow> (r, s2)))"

definition go_tools :: "live_host \<Rightarrow> (recorder, prepared) eff" where
  "go_tools l =
     (let h = oracle_of l in
      finally_eff
        (bind_eff (lift_res (resolve_tool l)) (\<lambda>tool.
         bind_eff (run_step h ''go-env-module-cache'' [path_text tool, ''env'', ''GOMODCACHE''] None) (\<lambda>c.
         bind_eff (lift_res (bind_res (require_zero c ''discover installed module cache'') (utf8 (machine h)))) (\<lambda>cache.
         lift_res (prepare_env l tool (strip cache))))))
        (collect_runner_records (machine h) (pairs_of h) (env_records l) ''go-env''))"

definition go_environment :: "live_host \<Rightarrow> string \<times> string \<Rightarrow> (recorder, prepared) eff" where
  "go_environment l target =
     (let w = machine (oracle_of l) in
      bind_eff (lift_res (file_step l ''go-work'')) (\<lambda>_.
      bind_eff (go_tools l) (\<lambda>p.
      bind_eff (lift_res (need ((prep_goos p, prep_goarch p) = target \<and>
          prep_version p = msg [''go version '', GO_VERSION, '' '', prep_goos p, ''/'', prep_goarch p])
        [''executed Go compiler is not pinned 1.26.6 for this native target''])) (\<lambda>_.
      bind_eff (lift_res (
          if \<not> is_dir w (prep_modcache p) then Inl (RuntimeError ''existing Go module cache is unavailable or changed'')
          else bind_res (resolve_path w (prep_env_modcache p)) (\<lambda>a. bind_res (resolve_path w (prep_modcache p)) (\<lambda>b.
            need (a = b) [''existing Go module cache is unavailable or changed''])))) (\<lambda>_.
      return_eff p)))))"

section \<open>The helper module\<close>

text \<open>\<open>text.count(pattern)\<close>: occurrences that do not overlap; \<open>k\<close> characters of the last one are still to be passed.\<close>

fun count_text :: "string \<Rightarrow> nat \<Rightarrow> string \<Rightarrow> nat" where
  "count_text pattern k [] = 0"
| "count_text pattern (Suc k) (c # cs) = count_text pattern k cs"
| "count_text pattern 0 (c # cs) =
     (if startswith (c # cs) pattern then Suc (count_text pattern (length pattern - 1) cs) else count_text pattern 0 cs)"

definition REPLACE_LINE :: string where
  "REPLACE_LINE = ''replace github.com/danieljustus/symaira-corekit => ../../..''"

text \<open>The helper is copied, its module file must have the reviewed replacement, and the effective module file is written.\<close>

definition helper_module :: "live_host \<Rightarrow> path \<Rightarrow> unit res" where
  "helper_module l private =
     bind_res (for_each (file_step l) [''go-helper'', ''go-helper/cmd/fssecret'', ''go-helper/go.mod'', ''go-helper/go.sum'',
         ''go-helper/cmd/fssecret/main.go'']) (\<lambda>_.
     bind_res (read_text (machine (oracle_of l)) (private @ [''go-helper'', ''go.mod''])) (\<lambda>original_mod.
     bind_res (need (count_text REPLACE_LINE 0 original_mod = 1)
       [''current Go helper module replacement no longer matches the reviewed layout'']) (\<lambda>_.
     for_each (file_step l) [''oracle.mod'', ''oracle.sum''])))"

definition go_roots_of :: "path \<Rightarrow> prepared \<Rightarrow> go_roots" where
  "go_roots_of private p =
     \<lparr>helper_dir = private @ [''go-helper''], archive_dir = private @ [''oracle-source''], sdk_dir = prep_goroot p,
      cache_dir = prep_env_modcache p, mod_file = private @ [''oracle.mod'']\<rparr>"

definition probe_binary :: "oracle_host \<Rightarrow> path \<Rightarrow> path" where
  "probe_binary h private = private @ [if is_windows h then ''fssecret.exe'' else ''fssecret'']"

section \<open>The probe\<close>

definition build_probe :: "live_host \<Rightarrow> path \<Rightarrow> prepared \<Rightarrow> (recorder, string) eff" where
  "build_probe l private p =
     (let h = oracle_of l; binary = probe_binary h private in
      bind_eff (run_step h ''go-build'' [path_text (prep_tool p), ''build'', ''-trimpath'', ''-modfile'', path_text (private @ [''oracle.mod'']),
          ''-o'', path_text binary, ''./cmd/fssecret''] None) (\<lambda>build.
      bind_eff (lift_res (require_zero build ''build pinned Go oracle probe'')) (\<lambda>_.
      bind_eff (lift_res (need (is_file (machine h) binary) [''Go compiler did not produce the oracle probe binary''])) (\<lambda>_.
      bind_eff (lift_res (read_bytes (machine h) binary)) (\<lambda>b.
      bind_eff (lift_res (file_step l ''go-probe.binary'')) (\<lambda>_.
      return_eff (sha256 (machine h) b)))))))"

text \<open>The two checks of what the probe printed.\<close>

definition check_probe :: "string \<Rightarrow> pyval \<Rightarrow> pydict res" where
  "check_probe target_name v =
     bind_res (dict_with v [''oracle_commit'', ''native_target'', ''cases''] [''Go oracle probe returned an unexpected root schema'']) (\<lambda>d.
     bind_res (need (dget d ''oracle_commit'' = VStr ORACLE \<and> dget d ''native_target'' = VStr target_name)
       [''Go probe emitted the wrong production revision or native target'']) (\<lambda>_.
     dict_with (dget d ''cases'') CASE_IDS [''Go oracle did not execute exactly all 13 FS/SEC cases'']))"

definition check_controls :: "pyval \<Rightarrow> pydict res" where
  "check_controls v =
     bind_res (dict_with v PATH_CONTROL_IDS [''Go path-control probe did not return all nine named ASCII keys'']) (\<lambda>d.
     bind_res (need (list_all (\<lambda>k. is_bool (dget d k)) PATH_CONTROL_IDS) [''Go path-control values must be actual JSON booleans'']) (\<lambda>_.
     bind_res (need (list_all (\<lambda>k. dget d k = VBool True) STRICT_V1_GO_ACCEPTED)
       [''Go must accept the versioned FS-001 strict-v1 DEL/C1 controls'']) (\<lambda>_. Inr d)))"

definition run_probe :: "live_host \<Rightarrow> path \<Rightarrow> string \<Rightarrow> (recorder, pydict \<times> pydict) eff" where
  "run_probe l private target_name =
     (let h = oracle_of l; binary = path_text (probe_binary h private) in
      bind_eff (run_step h ''go-cases'' [binary] None) (\<lambda>c1.
      bind_eff (lift_res (bind_res (require_zero c1 ''run pinned Go FS/SEC oracle'') (\<lambda>raw1.
        decode_json (machine h) (pairs_of h) raw1 ''Go FS/SEC probe''))) (\<lambda>go_probe.
      bind_eff (run_step h ''go-path-controls'' [binary, ''--path-controls''] None) (\<lambda>c2.
      bind_eff (lift_res (bind_res (require_zero c2 ''run pinned Go path-control oracle'') (\<lambda>raw2.
        decode_json (machine h) (pairs_of h) raw2 ''Go path-control probe''))) (\<lambda>path_controls.
      bind_eff (lift_res (check_probe target_name go_probe)) (\<lambda>cases.
      bind_eff (lift_res (check_controls path_controls)) (\<lambda>controls.
      return_eff (cases, controls))))))))"

section \<open>The capture\<close>

text \<open>What is read again after the probe ran.\<close>

definition unchanged :: "live_host \<Rightarrow> path \<Rightarrow> prepared \<Rightarrow> file_record list \<Rightarrow> string \<Rightarrow> string \<Rightarrow> (recorder, string \<times> bool) eff" where
  "unchanged l private p inventory_before probe_sha head_before =
     (let h = aged l in
      bind_eff (discover_input_inventory h (raw_decoder l) (dir_entries l) (prep_tool p) (go_roots_of private p) (prep_goos p) (prep_goarch p)
          ''go-list-after'') (\<lambda>inventory_after.
      bind_eff (lift_res (need (inventory_before = inventory_after) [''Go transitive source/module/SDK inputs changed during capture''])) (\<lambda>_.
      bind_eff (lift_res (bind_res (read_bytes (machine h) (probe_binary h private)) (\<lambda>b.
        need (sha256 (machine h) b = probe_sha) [''Go probe executable changed during capture'']))) (\<lambda>_.
      bind_eff (git_identity h ''after'') (\<lambda>(head_after, clean_after).
      bind_eff (lift_res (need (head_after = head_before \<and> clean_after)
        [''candidate HEAD or clean source state changed during Go capture''])) (\<lambda>_.
      return_eff (head_after, clean_after)))))))"

definition capture_body :: "live_host \<Rightarrow> string \<times> string \<Rightarrow> path \<Rightarrow> (recorder, pydict) eff" where
  "capture_body l target private =
     (let h = oracle_of l in
      bind_eff (pinned_source l private) (\<lambda>(head_before, source_sha, source_files).
      bind_eff (go_environment l target) (\<lambda>p.
      bind_eff (lift_res (helper_module l private)) (\<lambda>_.
      bind_eff (discover_input_inventory h (raw_decoder l) (dir_entries l) (prep_tool p) (go_roots_of private p) (prep_goos p) (prep_goarch p)
          ''go-list-before'') (\<lambda>inventory_before.
      bind_eff (build_probe l private p) (\<lambda>probe_sha.
      bind_eff (run_probe l private (target_key (prep_goos p, prep_goarch p))) (\<lambda>(cases, controls).
      bind_eff (unchanged l private p inventory_before probe_sha head_before) (\<lambda>(head_after, clean_after).
      bind_eff (lift_res (candidate_file_records (aged l))) (\<lambda>candidate_files r.
      lift_res (bind_res (capture_payload (later l)
          \<lparr>run_head_before = head_before, run_head_after = head_after, run_clean_before = True, run_clean_after = clean_after,
           run_target = target, run_go_version = prep_version p, run_go_tool = prep_tool p, run_probe_binary_sha256 = probe_sha,
           run_source_sha = source_sha, run_source_files = source_files, run_candidate_files = candidate_files,
           run_inventory = inventory_before, run_commands = rec_commands r,
           run_observations = VDict [(''oracle_commit'', VStr ORACLE), (''native_target'', VStr (target_key (prep_goos p, prep_goarch p))),
             (''cases'', VDict cases), (''path_controls'', VDict controls)]\<rparr>) (\<lambda>payload.
        bind_res (validate_capture_payload (later l) (VDict payload) target) (\<lambda>_. Inr payload))) r)))))))))"

text \<open>The result is the path returned, the recorder where one was made, and the file written. The document is written
  once everything else has succeeded; a write that fails may leave a part of it, which is not modelled.\<close>

definition capture_native :: "live_host \<Rightarrow> path \<Rightarrow> path \<Rightarrow> path res \<times> recorder option \<times> (path \<times> string) option" where
  "capture_native l output artifacts_dir =
     (let h = oracle_of l; w = machine h in
      case bind_res (need (go_oracle_env l) [''live Go capture requires explicit GO_ORACLE=1'']) (\<lambda>_.
           bind_res (native_target h) (\<lambda>target.
           bind_res (verify_output_locations h output artifacts_dir target) (\<lambda>(out, arts).
           bind_res (require_explicit_git_root w (root_dir h)) (\<lambda>_.
           bind_res (file_step l ''artifacts'') (\<lambda>_. Inr (target, out)))))) of
        Inl e \<Rightarrow> (Inl e, None, None)
      | Inr (target, out) \<Rightarrow>
          (case failing ''failed-unreviewed''
              (bind_eff (lift_res (bind_res (scratch_parent h) (\<lambda>_. private_dir h))) (\<lambda>private.
               bind_eff (capture_body l target private) (\<lambda>payload.
               let serialized = json_bytes (float_text w) (VDict payload) in
               bind_eff (lift_res (file_step l ''fixture'')) (\<lambda>_ r.
               return_eff serialized (flush ''captured-unreviewed'' None (Some (sha256 w serialized)) r))))) new_recorder of
             (Inr serialized, r) \<Rightarrow> (Inr out, Some r, Some (out, serialized))
           | (Inl e, r) \<Rightarrow> (Inl e, Some r, None)))"

section \<open>What a capture that is written has established\<close>

text \<open>The probe ran and printed the observations.\<close>

definition probe_printed :: "live_host \<Rightarrow> path \<Rightarrow> string \<Rightarrow> pydict \<Rightarrow> pydict \<Rightarrow> bool" where
  "probe_printed l private target_name cases controls \<longleftrightarrow>
     (let h = oracle_of l; binary = path_text (probe_binary h private) in
      \<exists>c1 c2 d. outcome_of h ''go-cases'' [binary] None = Inr c1 \<and> comp_returncode c1 = Some 0 \<and>
        decode_json (machine h) (pairs_of h) (comp_stdout c1) ''Go FS/SEC probe'' = Inr (VDict d) \<and> dget d ''oracle_commit'' = VStr ORACLE \<and>
        dget d ''native_target'' = VStr target_name \<and> dget d ''cases'' = VDict cases \<and>
        outcome_of h ''go-path-controls'' [binary, ''--path-controls''] None = Inr c2 \<and> comp_returncode c2 = Some 0 \<and>
        decode_json (machine h) (pairs_of h) (comp_stdout c2) ''Go path-control probe'' = Inr (VDict controls))"

lemma run_probe_Inr:
  assumes "run_probe l private name r = (Inr (cases, controls), r')"
  shows "probe_printed l private name cases controls \<and> keys_are cases CASE_IDS \<and> keys_are controls PATH_CONTROL_IDS"
proof -
  let ?h = "oracle_of l" and ?b = "path_text (probe_binary (oracle_of l) private)"
  obtain c1 r1 v1 c2 r2 v2 where steps: "run_step ?h ''go-cases'' [?b] None r = (Inr c1, r1)"
      "comp_returncode c1 = Some 0" "decode_json (machine ?h) (pairs_of ?h) (comp_stdout c1) ''Go FS/SEC probe'' = Inr v1"
      "run_step ?h ''go-path-controls'' [?b, ''--path-controls''] None r1 = (Inr c2, r2)"
      "comp_returncode c2 = Some 0" "decode_json (machine ?h) (pairs_of ?h) (comp_stdout c2) ''Go path-control probe'' = Inr v2"
      "check_probe name v1 = Inr cases" "check_controls v2 = Inr controls"
    using assms unfolding run_probe_def Let_def bind_eff_Inr lift_res_Inr return_eff_Inr bind_res_eq_Inr require_zero_Inr by blast
  obtain d where d: "v1 = VDict d" "dget d ''oracle_commit'' = VStr ORACLE" "dget d ''native_target'' = VStr name"
      "dget d ''cases'' = VDict cases" "keys_are cases CASE_IDS"
    using steps(7) by (auto simp: check_probe_def bind_res_eq_Inr dict_with_Inr)
  have c: "v2 = VDict controls" "keys_are controls PATH_CONTROL_IDS"
    using steps(8) by (auto simp: check_controls_def bind_res_eq_Inr dict_with_Inr)
  show ?thesis
    unfolding probe_printed_def Let_def
    using run_step_Inr [OF steps(1)] run_step_Inr [OF steps(4)] steps(2,3,5,6) d c by blast
qed

lemma unchanged_Inr:
  assumes "unchanged l private p files probe_sha head r = (Inr (head_after, clean), r')"
  shows "head_after = head \<and> clean \<and> (\<exists>r1. discover_input_inventory (aged l) (raw_decoder l) (dir_entries l) (prep_tool p) (go_roots_of private p)
      (prep_goos p) (prep_goarch p) ''go-list-after'' r = (Inr files, r1)) \<and>
    (\<exists>b. read_bytes (later l) (probe_binary (aged l) private) = Inr b \<and> sha256 (later l) b = probe_sha)"
  using assms unfolding unchanged_def Let_def bind_eff_Inr lift_res_Inr return_eff_Inr bind_res_eq_Inr need_Inr
  by (auto simp: aged_def bind_eff_Inr)

definition capture_facts :: "live_host \<Rightarrow> string \<times> string \<Rightarrow> path \<Rightarrow> capture_parts \<Rightarrow> pydict \<Rightarrow> bool" where
  "capture_facts l target private parts payload \<longleftrightarrow>
     capture_payload (later l) parts = Inr payload \<and> (\<exists>d. validate_capture_payload (later l) (VDict payload) target = Inr d) \<and>
     run_target parts = target \<and> run_head_after parts = run_head_before parts \<and> run_clean_before parts \<and> run_clean_after parts \<and>
     (\<exists>p r r1. discover_input_inventory (oracle_of l) (raw_decoder l) (dir_entries l) (prep_tool p) (go_roots_of private p)
        (prep_goos p) (prep_goarch p) ''go-list-before'' r = (Inr (run_inventory parts), r1)) \<and>
     (\<exists>p r r1. discover_input_inventory (aged l) (raw_decoder l) (dir_entries l) (prep_tool p) (go_roots_of private p)
        (prep_goos p) (prep_goarch p) ''go-list-after'' r = (Inr (run_inventory parts), r1)) \<and>
     (\<exists>b. read_bytes (later l) (probe_binary (aged l) private) = Inr b \<and> sha256 (later l) b = run_probe_binary_sha256 parts) \<and>
     (\<exists>cases controls. probe_printed l private (target_key target) cases controls \<and>
        run_observations parts = VDict [(''oracle_commit'', VStr ORACLE), (''native_target'', VStr (target_key target)),
          (''cases'', VDict cases), (''path_controls'', VDict controls)])"

lemma go_environment_target: "go_environment l target r = (Inr p, r') \<Longrightarrow> (prep_goos p, prep_goarch p) = target"
  unfolding go_environment_def Let_def bind_eff_Inr lift_res_Inr return_eff_Inr need_Inr by blast

lemma capture_body_Inr:
  assumes "capture_body l target private r = (Inr payload, r')"
  shows "\<exists>parts. capture_facts l target private parts payload"
proof -
  obtain head source_sha sources r1 p r2 files r3 probe_sha r4 cases controls r5 head_after clean r6 cfiles u where
    steps: "go_environment l target r1 = (Inr p, r2)"
      "discover_input_inventory (oracle_of l) (raw_decoder l) (dir_entries l) (prep_tool p) (go_roots_of private p) (prep_goos p) (prep_goarch p)
         ''go-list-before'' r2 = (Inr files, r3)"
      "run_probe l private (target_key (prep_goos p, prep_goarch p)) r4 = (Inr (cases, controls), r5)"
      "unchanged l private p files probe_sha head r5 = (Inr (head_after, clean), r6)"
    and built: "capture_payload (later l)
          \<lparr>run_head_before = head, run_head_after = head_after, run_clean_before = True, run_clean_after = clean,
           run_target = target, run_go_version = prep_version p, run_go_tool = prep_tool p, run_probe_binary_sha256 = probe_sha,
           run_source_sha = source_sha, run_source_files = sources, run_candidate_files = cfiles,
           run_inventory = files, run_commands = rec_commands r6,
           run_observations = VDict [(''oracle_commit'', VStr ORACLE), (''native_target'', VStr (target_key (prep_goos p, prep_goarch p))),
             (''cases'', VDict cases), (''path_controls'', VDict controls)]\<rparr> = Inr payload"
      "validate_capture_payload (later l) (VDict payload) target = Inr u"
    using assms unfolding capture_body_def Let_def bind_eff_Inr lift_res_Inr bind_res_eq_Inr split_paired_all split_paired_Ex prod.case by blast
  have t: "(prep_goos p, prep_goarch p) = target" by (rule go_environment_target [OF steps(1)])
  define parts where "parts = \<lparr>run_head_before = head, run_head_after = head_after, run_clean_before = True, run_clean_after = clean,
           run_target = target, run_go_version = prep_version p, run_go_tool = prep_tool p, run_probe_binary_sha256 = probe_sha,
           run_source_sha = source_sha, run_source_files = sources, run_candidate_files = cfiles,
           run_inventory = files, run_commands = rec_commands r6,
           run_observations = VDict [(''oracle_commit'', VStr ORACLE), (''native_target'', VStr (target_key target)),
             (''cases'', VDict cases), (''path_controls'', VDict controls)]\<rparr>"
  have sel: "capture_payload (later l) parts = Inr payload" "run_target parts = target" "run_head_before parts = head"
      "run_head_after parts = head_after" "run_clean_before parts" "run_clean_after parts = clean" "run_inventory parts = files"
      "run_probe_binary_sha256 parts = probe_sha"
      "run_observations parts = VDict [(''oracle_commit'', VStr ORACLE), (''native_target'', VStr (target_key target)),
             (''cases'', VDict cases), (''path_controls'', VDict controls)]"
    using built(1) unfolding t by (simp_all add: parts_def)
  have same: "head_after = head" clean and probe: "probe_printed l private (target_key target) cases controls"
    using unchanged_Inr [OF steps(4)] run_probe_Inr [OF steps(3)] unfolding t by simp_all
  have "capture_facts l target private parts payload"
    unfolding capture_facts_def sel(2-9)
    using sel(1,5) built(2) same probe steps(2) unchanged_Inr [OF steps(4)] by blast
  then show ?thesis by blast
qed

lemma failing_Inl: "failing status m r = (Inl e, s) \<Longrightarrow> dget (rec_run s) ''status'' = VStr status"
  by (auto simp: failing_def flush_def dget_def split: prod.splits sum.splits)


section \<open>The command line\<close>

record cli_args =
  arg_capture :: bool
  arg_output :: "path option"
  arg_artifacts :: "path option"
  arg_fixture :: "path option"

text \<open>\<open>_capture_cli\<close>: the report that is printed.\<close>

definition capture_cli :: "live_host \<Rightarrow> path option \<Rightarrow> path option \<Rightarrow> pydict res" where
  "capture_cli l output artifacts =
     bind_res (need (go_oracle_env l) [''live Go capture requires explicit GO_ORACLE=1'']) (\<lambda>_.
     case (output, artifacts) of
       (Some out, Some arts) \<Rightarrow>
         bind_res (fst (capture_native l out arts)) (\<lambda>result.
         bind_res (native_target (oracle_of l)) (\<lambda>target.
         bind_res (relative_to_res result (root_dir (oracle_of l))) (\<lambda>relative.
         Inr [(''status'', VStr ''captured-unreviewed''), (''native_target'', VStr (target_key target)), (''fixture'', VStr relative),
              (''case_count'', VInt (int (length CASE_IDS))), (''path_control_count'', VInt (int (length PATH_CONTROL_IDS))),
              (''anchor_registered'', VBool False)])))
     | _ \<Rightarrow> Inl (RuntimeError ''capture requires --output NEWPATH and --artifacts-dir''))"

text \<open>\<open>main\<close>: the exit code and the report on standard output; the line on standard error is not modelled.\<close>

definition oracle_main :: "live_host \<Rightarrow> cli_args \<Rightarrow> nat \<times> pydict option" where
  "oracle_main l args =
     (case (if arg_capture args
            then bind_res (need (arg_fixture args = None) [''--fixture is replay-only'']) (\<lambda>_. capture_cli l (arg_output args) (arg_artifacts args))
            else bind_res (need (arg_output args = None \<and> arg_artifacts args = None) [''--output and --artifacts-dir are capture-only'']) (\<lambda>_.
              bind_res (fst (replay_native (oracle_of l) (arg_fixture args))) (\<lambda>result. Inr ((''status'', VStr ''PASS'') # result)))) of
        Inr report \<Rightarrow> (0, Some report)
      | Inl _ \<Rightarrow> (1, None))"

text \<open>Exit code 0 is a capture that returned or a replay that returned, never both options at once.\<close>

lemma oracle_main_zero:
  assumes "oracle_main l args = (0, report)"
  shows "(if arg_capture args then \<exists>out arts p. arg_output args = Some out \<and> arg_artifacts args = Some arts \<and> arg_fixture args = None
        \<and> fst (capture_native l out arts) = Inr p
      else \<exists>result. fst (replay_native (oracle_of l) (arg_fixture args)) = Inr result)"
  using assms by (auto simp: oracle_main_def capture_cli_def bind_res_eq_Inr split: sum.splits if_splits option.splits)

end
