(* ===== verification/HandoffFiles.thy ===== *)
theory HandoffFiles
  imports World
begin

text \<open>
  The files of the Rust handoff, \<open>docs/rust-port/validate.py\<close>: the integrity manifest of the value gate,
  its binding to the benchmark evidence, the local links of the documents, and the frozen Go oracle as Git
  holds it (\<open>oracle_digest\<close>, \<open>oracle_package_paths\<close>, \<open>validate_go_oracles\<close>). The machine is the record
  \<open>handoff\<close>: the files and formats of \<open>world\<close>, the two Git commands by their argument, the lexer of shell
  words and the compiler of regular expressions, which are library functions.
\<close>

record handoff =
  disk :: world
  repo :: path
  ls_tree :: "string \<Rightarrow> string res"
  git_show :: "string \<Rightarrow> string \<Rightarrow> string res"
  markdown_names :: "string list"
  exists_at :: "path \<Rightarrow> bool"
  shell_split :: "string \<Rightarrow> string list res"
  compile_re :: "string \<Rightarrow> string + (string \<Rightarrow> bool)"

definition ROOT_DIR :: "handoff \<Rightarrow> path" where
  "ROOT_DIR h = repo h @ [''docs'', ''rust-port'']"

text \<open>\<open>if not b: fail(message)\<close>; \<open>v.get(k)\<close>, \<open>v.get(k, default)\<close> and \<open>v[k]\<close> of any value.\<close>

definition insist :: "bool \<Rightarrow> string list \<Rightarrow> unit res" where
  "insist b parts = require b (ValueError (msg parts))"

lemma insist_Inr [simp]: "insist b parts = Inr u \<longleftrightarrow> b"
  by (simp add: insist_def)

lemma insist_simps [simp]: "insist True parts = Inr ()" "insist False parts = Inl (ValueError (msg parts))"
  by (simp_all add: insist_def)

definition pget_or :: "pyval \<Rightarrow> string \<Rightarrow> pyval \<Rightarrow> pyval res" where
  "pget_or v k v0 = (case v of VDict d \<Rightarrow> Inr (dget_or d k v0) | _ \<Rightarrow> Inl AttributeError)"

definition pget :: "pyval \<Rightarrow> string \<Rightarrow> pyval res" where
  "pget v k = (case v of VDict d \<Rightarrow> Inr (dget d k) | _ \<Rightarrow> Inl AttributeError)"

definition pindex :: "pyval \<Rightarrow> string \<Rightarrow> pyval res" where
  "pindex v k = (case v of VDict d \<Rightarrow> dindex d k | _ \<Rightarrow> Inl TypeError)"

lemma pget_Inr [simp]: "pget v k = Inr x \<longleftrightarrow> (\<exists>d. v = VDict d \<and> x = dget d k)"
  by (cases v) (auto simp: pget_def)

lemma pget_or_Inr [simp]: "pget_or v k v0 = Inr x \<longleftrightarrow> (\<exists>d. v = VDict d \<and> x = dget_or d k v0)"
  by (cases v) (auto simp: pget_or_def)

lemma pindex_Inr: "pindex v k = Inr x \<longleftrightarrow> (\<exists>d. v = VDict d \<and> map_of d k = Some x)"
  by (cases v) (auto simp: pindex_def dindex_def split: option.splits)

lemma pget_VDict [simp]: "pget (VDict d) k = Inr (dget d k)" "pget_or (VDict d) k v0 = Inr (dget_or d k v0)"
  by (simp_all add: pget_def pget_or_def)

text \<open>What a \<open>for\<close> loop goes through.\<close>

fun iter_items :: "pyval \<Rightarrow> pyval list res" where
  "iter_items (VList xs) = Inr xs"
| "iter_items (VStr s) = Inr (map (\<lambda>c. VStr [c]) s)"
| "iter_items (VDict d) = Inr (map VStr (keys d))"
| "iter_items _ = Inl TypeError"

text \<open>\<open>len(v)\<close>\<close>

fun py_len :: "pyval \<Rightarrow> int res" where
  "py_len (VList xs) = Inr (int (length xs))"
| "py_len (VStr s) = Inr (int (length s))"
| "py_len (VDict d) = Inr (int (length d))"
| "py_len _ = Inl TypeError"

text \<open>\<open>any(...)\<close> over a generator that may raise: it stops at the first true element.\<close>

fun any_res :: "('a \<Rightarrow> bool res) \<Rightarrow> 'a list \<Rightarrow> bool res" where
  "any_res f [] = Inr False"
| "any_res f (x # xs) = bind_res (f x) (\<lambda>b. if b then Inr True else any_res f xs)"

lemma any_res_False: "any_res f xs = Inr False \<longleftrightarrow> (\<forall>x \<in> set xs. f x = Inr False)"
  by (induction xs) (auto simp: bind_res_eq_Inr split: if_splits)

section \<open>Texts\<close>

definition CRLF :: string where
  "CRLF = [CHR 0x0D, CHR 0x0A]"

definition lf :: "string \<Rightarrow> string" where
  "lf s = str_replace CRLF [CHR 0x0A] s"

definition integrity_digest :: "handoff \<Rightarrow> path \<Rightarrow> string res" where
  "integrity_digest h p = bind_res (read_bytes (disk h) p) (\<lambda>b. Inr (sha256 (disk h) (lf b)))"

definition read_json :: "handoff \<Rightarrow> path \<Rightarrow> pyval res" where
  "read_json h p = bind_res (read_text (disk h) p) (json_loads (disk h))"

section \<open>The binding to the benchmark\<close>

definition METRIC_FIELDS :: "string list" where
  "METRIC_FIELDS = [''repository'', ''workload'', ''baseline_commit'', ''candidate_commit'', ''runs'', ''maximum_regression_ratio'']"

definition pick :: "string list \<Rightarrow> pydict \<Rightarrow> pyval" where
  "pick ks d = VDict (map (\<lambda>k. (k, dget d k)) ks)"

definition picked :: "string list \<Rightarrow> pyval list \<Rightarrow> pyval" where
  "picked ks items = VList (map (\<lambda>v. pick ks (the (as_dict v))) (filter is_dict items))"

definition validate_gate_benchmark_binding :: "pyval \<Rightarrow> pyval \<Rightarrow> pyval \<Rightarrow> unit res" where
  "validate_gate_benchmark_binding metrics smokes benchmark =
     bind_res (pget_or benchmark ''measurements'' (VList [])) (\<lambda>v.
     bind_res (iter_items v) (\<lambda>measurements.
     bind_res (insist (py_eq metrics (picked METRIC_FIELDS measurements))
       [''value-gate: consumer metrics differ from integrity-bound benchmark evidence'']) (\<lambda>_.
     bind_res (pget_or benchmark ''standalone_smokes'' (VList [])) (\<lambda>u.
     bind_res (iter_items u) (\<lambda>runs.
     insist (py_eq smokes (picked [''repository'', ''passed''] runs))
       [''value-gate: standalone smokes differ from integrity-bound benchmark evidence''])))))"

section \<open>The integrity manifest\<close>

definition FOUNDATION_JSON :: string where
  "FOUNDATION_JSON = ''testdata/rust-port/benchmarks/foundation.json''"

definition INTEGRITY_REQUIRED :: "string list" where
  "INTEGRITY_REQUIRED = [FOUNDATION_JSON, ''testdata/rust-port/adoption/evidence.json'',
     ''testdata/rust-port/cases/consumer-canaries.json'', ''scripts/rust-port/adoption.py'', ''scripts/rust-port/bench.py'']"

text \<open>Where a recorded path is on the disk.\<close>

definition integrity_path :: "handoff \<Rightarrow> string list \<Rightarrow> string \<Rightarrow> path res" where
  "integrity_path h seen name =
     bind_res (insist (\<not> is_absolute name \<and> ''..'' \<notin> set (path_parts name) \<and> name \<notin> set seen)
       [''value-gate: integrity path must be unique, relative and non-traversing'']) (\<lambda>_.
     bind_res (resolve_path (disk h) (repo h @ path_parts name)) (\<lambda>p.
     bind_res (resolve_path (disk h) (repo h)) (\<lambda>base.
     bind_res (insist (is_relative_to p base) [''value-gate: integrity path escapes repository'']) (\<lambda>_. Inr p))))"

definition integrity_file :: "handoff \<Rightarrow> string \<Rightarrow> path \<Rightarrow> string \<Rightarrow> unit res" where
  "integrity_file h name p digest =
     bind_res (insist (is_file (disk h) p \<and> fullmatch HEX64 digest) [''value-gate: invalid or missing integrity file '', name]) (\<lambda>_.
     bind_res (integrity_digest h p) (\<lambda>actual.
     insist (actual = digest) [''value-gate: digest mismatch for '', name]))"

text \<open>One entry; the result is its name.\<close>

definition integrity_entry :: "handoff \<Rightarrow> pydict \<Rightarrow> string list \<Rightarrow> pyval \<Rightarrow> string res" where
  "integrity_entry h value_gate seen item =
     (let digest = get_if_dict item ''sha256'' in
      case as_str (get_if_dict item ''path'') of
        None \<Rightarrow> Inl (ValueError ''value-gate: malformed integrity entry'')
      | Some name \<Rightarrow>
          bind_res (insist (is_str digest \<or> digest = VNone) [''value-gate: malformed integrity entry'']) (\<lambda>_.
          bind_res (integrity_path h seen name) (\<lambda>p.
          bind_res (case as_str digest of
              None \<Rightarrow> insist (dget value_gate ''status'' = VStr ''pending'' \<and> name = FOUNDATION_JSON)
                [''value-gate: missing integrity digest for '', name]
            | Some d \<Rightarrow> integrity_file h name p d) (\<lambda>_. Inr name))))"

fun integrity_loop :: "handoff \<Rightarrow> pydict \<Rightarrow> string list \<Rightarrow> pyval list \<Rightarrow> string list res" where
  "integrity_loop h value_gate seen [] = Inr seen"
| "integrity_loop h value_gate seen (item # items) =
     bind_res (integrity_entry h value_gate seen item) (\<lambda>name. integrity_loop h value_gate (name # seen) items)"

definition validate_integrity :: "handoff \<Rightarrow> pydict \<Rightarrow> unit res" where
  "validate_integrity h value_gate =
     (case as_list (get_if_dict (dget value_gate ''integrity'') ''files'') of
        None \<Rightarrow> Inl (ValueError ''value-gate: independently validated integrity manifest is required'')
      | Some items \<Rightarrow>
          bind_res (insist (items \<noteq> []) [''value-gate: independently validated integrity manifest is required'']) (\<lambda>_.
          bind_res (integrity_loop h value_gate [] items) (\<lambda>seen.
          insist (set INTEGRITY_REQUIRED \<subseteq> set seen) [''value-gate: integrity manifest is missing '',
            repr_strs (sort (filter (\<lambda>r. r \<notin> set seen) INTEGRITY_REQUIRED))])))"

section \<open>Local links\<close>

text \<open>A match of \<open>\[[^]]+\]\(([^)]+)\)\<close> at the start of the text: its group and the text behind it.\<close>

definition link_at :: "string \<Rightarrow> (string \<times> string) option" where
  "link_at s =
     (case s of [] \<Rightarrow> None
      | c # cs \<Rightarrow>
        let name = takeWhile (\<lambda>c. c \<noteq> CHR '']'') cs; rest = dropWhile (\<lambda>c. c \<noteq> CHR '']'') cs in
        if c = CHR ''['' \<and> name \<noteq> [] \<and> startswith rest ''](''
        then let t = takeWhile (\<lambda>c. c \<noteq> CHR '')'') (drop 2 rest); more_text = dropWhile (\<lambda>c. c \<noteq> CHR '')'') (drop 2 rest) in
             if t \<noteq> [] \<and> more_text \<noteq> [] then Some (t, tl more_text) else None
        else None)"

lemma link_at_shorter: "link_at s = Some (t, s') \<Longrightarrow> length s' < length s"
proof -
  assume a: "link_at s = Some (t, s')"
  then obtain c cs where s: "s = c # cs" by (cases s) (auto simp: link_at_def)
  let ?r = "dropWhile (\<lambda>c. c \<noteq> CHR '']'') cs"
  let ?m = "dropWhile (\<lambda>c. c \<noteq> CHR '')'') (drop 2 ?r)"
  have "s' = tl ?m" using a s by (auto simp: link_at_def Let_def split: if_splits)
  moreover have "length ?m \<le> length (drop 2 ?r)" by (rule length_dropWhile_le)
  moreover have "length ?r \<le> length cs" by (rule length_dropWhile_le)
  ultimately show ?thesis using s by simp
qed

function find_links :: "string \<Rightarrow> string list" where
  "find_links [] = []"
| "find_links (c # cs) = (case link_at (c # cs) of None \<Rightarrow> find_links cs | Some (t, s) \<Rightarrow> t # find_links s)"
  by pat_completeness auto
termination
  by (relation "measure length") (auto dest: link_at_shorter)

definition check_link :: "handoff \<Rightarrow> string \<Rightarrow> string \<Rightarrow> unit res" where
  "check_link h name target =
     (if contains ''://'' target \<or> startswith target ''#'' then Inr ()
      else let local_part = before ''#'' target in
           insist (local_part = [] \<or> exists_at h (join_path (ROOT_DIR h) local_part)) [name, '': missing local link '', target])"

definition validate_links :: "handoff \<Rightarrow> unit res" where
  "validate_links h =
     for_each (\<lambda>name. bind_res (read_text (disk h) (ROOT_DIR h @ [name])) (\<lambda>s. for_each (check_link h name) (find_links s)))
       (markdown_names h)"

section \<open>The frozen oracle\<close>

definition owned :: "string \<Rightarrow> bool" where
  "owned p = (if endswith p ''.go'' \<and> \<not> endswith p ''_test.go'' then True
     else if startswith p ''contracts/'' \<and> endswith p ''.json'' then True
     else contains ''/testdata/'' p \<and> (endswith p ''.json'' \<or> endswith p ''.sql''))"

text \<open>The texts fed to the digest, in order; a digest fed in pieces is the digest of their concatenation.\<close>

definition oracle_chunk :: "handoff \<Rightarrow> string \<Rightarrow> string \<Rightarrow> string res" where
  "oracle_chunk h commit p =
     bind_res (git_show h commit p) (\<lambda>content. Inr (encode_utf8 (disk h) p @ [CHR 0x00] @ content @ [CHR 0x00]))"

definition oracle_digest :: "handoff \<Rightarrow> string \<Rightarrow> (string \<times> int) res" where
  "oracle_digest h commit =
     bind_res (ls_tree h commit) (\<lambda>out.
     let paths = sort (filter owned (splitlines out)) in
     bind_res (map_res (oracle_chunk h commit) paths) (\<lambda>chunks.
     Inr (sha256 (disk h) (concat chunks), int (length paths))))"

text \<open>\<open>str(PurePosixPath(path).parent)\<close>\<close>

definition parent_text :: "string \<Rightarrow> string" where
  "parent_text p =
     (let ps = butlast (path_parts p) in
      if is_absolute p then CHR ''/'' # as_posix ps else if ps = [] then ''.'' else as_posix ps)"

definition oracle_package_paths :: "handoff \<Rightarrow> string \<Rightarrow> string list res" where
  "oracle_package_paths h commit =
     bind_res (ls_tree h commit) (\<lambda>out.
     Inr (map parent_text (filter (\<lambda>p. endswith p ''.go'' \<and> \<not> endswith p ''_test.go'') (splitlines out))))"

subsection \<open>The Go tests\<close>

definition is_word :: "char \<Rightarrow> bool" where
  "is_word c = (between 65 90 c \<or> between 97 122 c \<or> is_digit c \<or> c = CHR ''_'')"

definition is_byte_space :: "char \<Rightarrow> bool" where
  "is_byte_space c = (between 9 13 c \<or> c = CHR '' '')"

text \<open>A match of \<open>func\s+((?:Test|Example|Fuzz|Benchmark)[A-Za-z0-9_]*)\s*\(\<close> at the start of a line.\<close>

definition func_at :: "string \<Rightarrow> (string \<times> string) option" where
  "func_at s =
     (let gap = drop 4 s; rest = dropWhile is_byte_space gap; name = takeWhile is_word rest;
          behind = dropWhile is_byte_space (dropWhile is_word rest) in
      if startswith s ''func'' \<and> gap \<noteq> rest \<and> list_ex (startswith name) [''Test'', ''Example'', ''Fuzz'', ''Benchmark''] \<and> startswith behind ''(''
      then Some (name, tl behind) else None)"

lemma func_at_shorter: "func_at s = Some (n, s') \<Longrightarrow> length s' < length s"
proof -
  assume a: "func_at s = Some (n, s')"
  let ?gap = "drop 4 s" and ?rest = "dropWhile is_byte_space (drop 4 s)"
  let ?b = "dropWhile is_byte_space (dropWhile is_word ?rest)"
  have "s' = tl ?b" "startswith s ''func''" using a by (auto simp: func_at_def Let_def split: if_splits)
  moreover have "length ?b \<le> length (dropWhile is_word ?rest)" "length (dropWhile is_word ?rest) \<le> length ?rest" "length ?rest \<le> length ?gap"
    by (rule length_dropWhile_le)+
  moreover have "s \<noteq> []" using \<open>startswith s ''func''\<close> by (auto simp: startswith_def)
  ultimately show ?thesis by (cases s) auto
qed

text \<open>\<open>findall\<close> with \<open>re.MULTILINE\<close>; the flag says whether the position starts a line.\<close>

function find_funcs :: "bool \<Rightarrow> string \<Rightarrow> string list" where
  "find_funcs line_start [] = []"
| "find_funcs line_start (c # cs) =
     (case (if line_start then func_at (c # cs) else None) of
        Some (name, s) \<Rightarrow> name # find_funcs False s
      | None \<Rightarrow> find_funcs (c = CHR 0x0A) cs)"
  by pat_completeness auto
termination
  by (relation "measure (\<lambda>(b, s). length s)") (auto dest: func_at_shorter split: if_splits)

text \<open>The tests of a package, as pairs of the package and a name.\<close>

definition test_names_of :: "handoff \<Rightarrow> string \<Rightarrow> string \<Rightarrow> (string \<times> string) list res" where
  "test_names_of h commit p =
     bind_res (git_show h commit p) (\<lambda>content.
     let parent = parent_text p; package = (if parent = ''.'' then ''.'' else ''./'' @ parent) in
     Inr (map (\<lambda>n. (package, n)) (find_funcs True content)))"

definition collect_tests :: "handoff \<Rightarrow> string \<Rightarrow> (string \<times> string) list res" where
  "collect_tests h commit =
     bind_res (ls_tree h commit) (\<lambda>out.
     bind_res (map_res (test_names_of h commit) (filter (\<lambda>p. endswith p ''_test.go'') (splitlines out))) (\<lambda>names. Inr (concat names)))"

text \<open>\<open>tokens.index(x, start)\<close>\<close>

fun first_index :: "'a \<Rightarrow> 'a list \<Rightarrow> nat option" where
  "first_index x [] = None"
| "first_index x (y # ys) = (if y = x then Some 0 else map_option Suc (first_index x ys))"

definition index_from :: "'a \<Rightarrow> nat \<Rightarrow> 'a list \<Rightarrow> nat option" where
  "index_from x start xs = map_option ((+) start) (first_index x (drop start xs))"

definition run_positions :: "string list \<Rightarrow> (nat \<times> nat) option" where
  "run_positions tokens =
     (case index_from ''go'' 0 tokens of None \<Rightarrow> None
      | Some g \<Rightarrow> (case index_from ''test'' (g + 1) tokens of None \<Rightarrow> None
        | Some t \<Rightarrow> (case index_from ''-run'' (t + 1) tokens of None \<Rightarrow> None | Some r \<Rightarrow> Some (t, r))))"

text \<open>The packages before \<open>-run\<close>, or else those behind its pattern.\<close>

definition run_packages :: "string list \<Rightarrow> nat \<Rightarrow> nat \<Rightarrow> string list" where
  "run_packages tokens t r =
     (let early = filter (\<lambda>x. startswith x ''./'') (take (r - (t + 1)) (drop (t + 1) tokens)) in
      if early = [] then filter (\<lambda>x. startswith x ''./'') (drop (r + 2) tokens) else early)"

definition oracle_packages :: "handoff \<Rightarrow> (string \<times> string) list \<Rightarrow> string \<Rightarrow> string list \<Rightarrow> string list res" where
  "oracle_packages h tests ident tokens =
     (case run_positions tokens of
        None \<Rightarrow> Inl (ValueError (msg [ident, '': cannot parse go test -run oracle'']))
      | Some (t, r) \<Rightarrow>
          if r + 1 < length tokens
          then let pattern = tokens ! (r + 1); packages = run_packages tokens t r in
               (case compile_re h pattern of
                  Inl e \<Rightarrow> Inl (ValueError (msg [ident, '': invalid -run regex '', repr_str pattern, '': '', e]))
                | Inr matches \<Rightarrow>
                    bind_res (for_each (\<lambda>p. insist (list_ex (\<lambda>(q, n). q = p \<and> matches n) tests)
                      [ident, '': -run '', repr_str pattern, '' matches no test in '', p]) packages) (\<lambda>_. Inr packages))
          else Inl IndexError)"

definition contract_oracle :: "handoff \<Rightarrow> (string \<times> string) list \<Rightarrow> string \<times> string \<Rightarrow> string list res" where
  "contract_oracle h tests row =
     (if contains '' go test '' (snd row) \<and> contains '' -run '' (snd row)
      then bind_res (shell_split h (snd row)) (oracle_packages h tests (fst row)) else Inr [])"

text \<open>The rows are given as pairs of \<open>id\<close> and \<open>go_oracle\<close>, which the caller has checked to be strings.\<close>

definition validate_go_oracles :: "handoff \<Rightarrow> string \<Rightarrow> (string \<times> string) list \<Rightarrow> int res" where
  "validate_go_oracles h commit rows =
     bind_res (collect_tests h commit) (\<lambda>tests.
     bind_res (map_res (contract_oracle h tests) rows) (\<lambda>checked. Inr (int (length (concat checked)))))"

section \<open>What an accepted manifest establishes\<close>

text \<open>The file of an entry is inside the repository and has the recorded digest, up to line ends.\<close>

definition entry_verified :: "handoff \<Rightarrow> pyval \<Rightarrow> string \<Rightarrow> bool" where
  "entry_verified h item name \<longleftrightarrow>
     (\<exists>p base b. \<not> is_absolute name \<and> ''..'' \<notin> set (path_parts name) \<and>
        resolve_path (disk h) (repo h @ path_parts name) = Inr p \<and> resolve_path (disk h) (repo h) = Inr base \<and> is_relative_to p base \<and>
        is_file (disk h) p \<and> read_bytes (disk h) p = Inr b \<and> get_if_dict item ''sha256'' = VStr (sha256 (disk h) (lf b)))"

definition entry_excused :: "pydict \<Rightarrow> pyval \<Rightarrow> string \<Rightarrow> bool" where
  "entry_excused value_gate item name \<longleftrightarrow>
     dget value_gate ''status'' = VStr ''pending'' \<and> name = FOUNDATION_JSON \<and> get_if_dict item ''sha256'' = VNone"

lemma integrity_entry_Inr:
  assumes "integrity_entry h value_gate seen item = Inr name"
  shows "get_if_dict item ''path'' = VStr name \<and> name \<notin> set seen \<and> (entry_verified h item name \<or> entry_excused value_gate item name)"
proof -
  let ?d = "get_if_dict item ''sha256''"
  from assms have name: "get_if_dict item ''path'' = VStr name" and d: "is_str ?d \<or> ?d = VNone"
    by (auto simp: integrity_entry_def Let_def bind_res_eq_Inr is_str_iff split: option.splits)
  from assms name obtain p where p: "integrity_path h seen name = Inr p"
    and c: "(case as_str ?d of None \<Rightarrow> insist (dget value_gate ''status'' = VStr ''pending'' \<and> name = FOUNDATION_JSON)
                [''value-gate: missing integrity digest for '', name] | Some d \<Rightarrow> integrity_file h name p d) = Inr ()"
    by (auto simp: integrity_entry_def Let_def bind_res_eq_Inr)
  from p obtain base where path: "\<not> is_absolute name" "''..'' \<notin> set (path_parts name)" "name \<notin> set seen"
    "resolve_path (disk h) (repo h @ path_parts name) = Inr p" "resolve_path (disk h) (repo h) = Inr base" "is_relative_to p base"
    by (auto simp: integrity_path_def bind_res_eq_Inr)
  show ?thesis
  proof (cases "as_str ?d")
    case None
    with c d have "entry_excused value_gate item name" by (auto simp: entry_excused_def)
    with name path show ?thesis by simp
  next
    case (Some x)
    with c obtain b where "is_file (disk h) p" "read_bytes (disk h) p = Inr b" "x = sha256 (disk h) (lf b)"
      by (auto simp: integrity_file_def integrity_digest_def bind_res_eq_Inr)
    with Some path have "entry_verified h item name" unfolding entry_verified_def by (intro exI conjI) auto
    with name path show ?thesis by simp
  qed
qed

lemma integrity_loop_Inr:
  "integrity_loop h value_gate seen items = Inr seen' \<Longrightarrow> distinct seen \<Longrightarrow>
     \<exists>names. map (\<lambda>item. get_if_dict item ''path'') items = map VStr names \<and> seen' = rev names @ seen \<and> distinct seen' \<and>
       (\<forall>item \<in> set items. \<forall>name. get_if_dict item ''path'' = VStr name \<longrightarrow> entry_verified h item name \<or> entry_excused value_gate item name)"
proof (induction items arbitrary: seen)
  case Nil
  then show ?case by simp
next
  case (Cons item items)
  from Cons.prems(1) obtain name where n: "integrity_entry h value_gate seen item = Inr name"
    "integrity_loop h value_gate (name # seen) items = Inr seen'" by (auto simp: bind_res_eq_Inr)
  note e = integrity_entry_Inr [OF n(1)]
  from Cons.IH [OF n(2)] e Cons.prems(2) obtain names where "map (\<lambda>item. get_if_dict item ''path'') items = map VStr names"
    "seen' = rev names @ name # seen" "distinct seen'"
    "\<forall>item \<in> set items. \<forall>name. get_if_dict item ''path'' = VStr name \<longrightarrow> entry_verified h item name \<or> entry_excused value_gate item name"
    by auto
  with e show ?case by (intro exI [of _ "name # names"]) auto
qed

text \<open>C22: an accepted integrity manifest pins the evidence of the value gate. Its names are pairwise
  different and hold the five required files; behind every name there is a regular file, inside the
  repository even after links are resolved, whose bytes (with line ends normalised) have the recorded
  SHA-256. The one exception is the benchmark file of a gate that is still pending: once the gate has
  another status, no digest is missing.\<close>

theorem integrity_manifest_is_verified:
  assumes "validate_integrity h value_gate = Inr ()"
  shows "\<exists>items names. get_if_dict (dget value_gate ''integrity'') ''files'' = VList items \<and>
    map (\<lambda>item. get_if_dict item ''path'') items = map VStr names \<and> distinct names \<and> set INTEGRITY_REQUIRED \<subseteq> set names \<and>
    (\<forall>i < length items. entry_verified h (items ! i) (names ! i) \<or>
       names ! i = FOUNDATION_JSON \<and> dget value_gate ''status'' = VStr ''pending'')"
proof -
  from assms obtain items seen where items: "get_if_dict (dget value_gate ''integrity'') ''files'' = VList items"
    and loop: "integrity_loop h value_gate [] items = Inr seen" and req: "set INTEGRITY_REQUIRED \<subseteq> set seen"
    by (auto simp: validate_integrity_def bind_res_eq_Inr split: option.splits)
  from integrity_loop_Inr [OF loop] obtain names where n: "map (\<lambda>item. get_if_dict item ''path'') items = map VStr names" "seen = rev names" "distinct seen"
    "\<forall>item \<in> set items. \<forall>name. get_if_dict item ''path'' = VStr name \<longrightarrow> entry_verified h item name \<or> entry_excused value_gate item name"
    by auto
  have "entry_verified h (items ! i) (names ! i) \<or> names ! i = FOUNDATION_JSON \<and> dget value_gate ''status'' = VStr ''pending''"
    if i: "i < length items" for i
  proof -
    have "length names = length items" using arg_cong [OF n(1), of length] by simp
    then have "get_if_dict (items ! i) ''path'' = VStr (names ! i)" using arg_cong [OF n(1), of "\<lambda>xs. xs ! i"] i by simp
    with n(4) i show ?thesis using nth_mem [OF i] unfolding entry_excused_def by blast
  qed
  with items n(1-3) req show ?thesis by (intro exI [of _ items] exI [of _ names]) auto
qed

section \<open>What the Go oracles establish\<close>

lemma oracle_packages_Inr:
  assumes "oracle_packages h tests ident tokens = Inr packages"
  shows "\<exists>t r matches. run_positions tokens = Some (t, r) \<and> r + 1 < length tokens \<and> packages = run_packages tokens t r \<and>
    compile_re h (tokens ! (r + 1)) = Inr matches \<and> (\<forall>p \<in> set packages. \<exists>n. (p, n) \<in> set tests \<and> matches n)"
  using assms by (auto simp: oracle_packages_def Let_def list_ex_iff bind_res_eq_Inr split: option.splits prod.splits if_splits sum.splits)

text \<open>The count of Go test patterns is a count of tests that exist. Where the check returns, every
  contract whose oracle is a \<open>go test -run\<close> command was split and its pattern compiled, and in every
  package the command names the pattern matches a test of that package at the oracle commit; the result
  is the number of these (contract, package) pairs.\<close>

theorem go_oracles_select_tests:
  assumes "validate_go_oracles h commit rows = Inr count"
  shows "\<exists>tests checked. collect_tests h commit = Inr tests \<and> count = int (length (concat checked)) \<and>
    list_all2 (\<lambda>row packages.
      if contains '' go test '' (snd row) \<and> contains '' -run '' (snd row)
      then (\<exists>tokens t r matches. shell_split h (snd row) = Inr tokens \<and> run_positions tokens = Some (t, r) \<and>
        packages = run_packages tokens t r \<and> compile_re h (tokens ! (r + 1)) = Inr matches \<and>
        (\<forall>p \<in> set packages. \<exists>n. (p, n) \<in> set tests \<and> matches n))
      else packages = []) rows checked"
proof -
  from assms obtain tests checked where t: "collect_tests h commit = Inr tests" "map_res (contract_oracle h tests) rows = Inr checked"
    "count = int (length (concat checked))" by (auto simp: validate_go_oracles_def bind_res_eq_Inr)
  from t(2) have "list_all2 (\<lambda>row packages. contract_oracle h tests row = Inr packages) rows checked" by (simp add: map_res_Inr)
  then have "list_all2 (\<lambda>row packages.
      if contains '' go test '' (snd row) \<and> contains '' -run '' (snd row)
      then (\<exists>tokens t r matches. shell_split h (snd row) = Inr tokens \<and> run_positions tokens = Some (t, r) \<and>
        packages = run_packages tokens t r \<and> compile_re h (tokens ! (r + 1)) = Inr matches \<and>
        (\<forall>p \<in> set packages. \<exists>n. (p, n) \<in> set tests \<and> matches n))
      else packages = []) rows checked"
    by (rule list_all2_mono) (fastforce simp: contract_oracle_def bind_res_eq_Inr split: if_splits dest: oracle_packages_Inr)
  with t show ?thesis by blast
qed

section \<open>A concrete handoff\<close>

definition SAMPLE_DIGEST :: string where
  "SAMPLE_DIGEST = replicate 64 (CHR ''a'')"

definition sample_world :: world where
  "sample_world = \<lparr>run_git = \<lambda>_ _. (0, [], []), lstat_of = \<lambda>_. Inr Regular, is_file = \<lambda>_. True, is_dir = \<lambda>_. True,
     resolve_path = Inr, tree_at = \<lambda>_. [], read_bytes = \<lambda>_. Inr [], utf8 = Inr, encode_utf8 = \<lambda>s. s,
     toml_loads = \<lambda>_. Inr [], json_loads = \<lambda>_. Inr VNone, sha256 = \<lambda>_. SAMPLE_DIGEST, float_text = \<lambda>_. []\<rparr>"

definition sample_handoff :: handoff where
  "sample_handoff = \<lparr>disk = sample_world, repo = [''repo''], ls_tree = \<lambda>_. Inr (''log/log_test.go''),
     git_show = \<lambda>_ _. Inr (''func TestLog(t *testing.T) {}''), markdown_names = [], exists_at = \<lambda>_. True,
     shell_split = \<lambda>s. Inr (split_ws s), compile_re = \<lambda>p. Inr (contains p)\<rparr>"

definition sample_gate :: pydict where
  "sample_gate = [(''status'', VStr ''passed''), (''integrity'', VDict [(''files'',
     VList (map (\<lambda>p. VDict [(''path'', VStr p), (''sha256'', VStr SAMPLE_DIGEST)]) INTEGRITY_REQUIRED))])]"

lemma sample_digest: "fullmatch HEX64 SAMPLE_DIGEST"
  by (simp add: fullmatch_HEX64 is_hex_def list_all_iff SAMPLE_DIGEST_def) code_simp

lemma sample_paths:
  "list_all (\<lambda>p. \<not> is_absolute p \<and> ''..'' \<notin> set (path_parts p)) INTEGRITY_REQUIRED" "distinct INTEGRITY_REQUIRED"
  by code_simp+

lemma sample_loop:
  "list_all (\<lambda>p. \<not> is_absolute p \<and> ''..'' \<notin> set (path_parts p)) ps \<Longrightarrow> distinct ps \<Longrightarrow> set ps \<inter> set seen = {} \<Longrightarrow>
     \<exists>seen'. integrity_loop sample_handoff vg seen (map (\<lambda>p. VDict [(''path'', VStr p), (''sha256'', VStr SAMPLE_DIGEST)]) ps) = Inr seen' \<and>
       set seen' = set ps \<union> set seen"
proof (induction ps arbitrary: seen)
  case (Cons p ps)
  let ?item = "VDict [(''path'', VStr p), (''sha256'', VStr SAMPLE_DIGEST)]"
  have get: "get_if_dict ?item ''path'' = VStr p" "get_if_dict ?item ''sha256'' = VStr SAMPLE_DIGEST"
    by (simp_all add: dget_def)
  have "integrity_path sample_handoff seen p = Inr ([''repo''] @ path_parts p)"
    using Cons.prems by (simp add: integrity_path_def sample_handoff_def sample_world_def is_relative_to_def)
  moreover have "integrity_file sample_handoff p q SAMPLE_DIGEST = Inr ()" for q
    by (simp only: integrity_file_def integrity_digest_def sample_digest) (simp add: sample_handoff_def sample_world_def)
  ultimately have "integrity_entry sample_handoff vg seen ?item = Inr p"
    by (simp only: integrity_entry_def Let_def get as_str.simps option.case is_str.simps insist_simps bind_res_simps simp_thms)
  moreover obtain seen' where "integrity_loop sample_handoff vg (p # seen) (map (\<lambda>p. VDict [(''path'', VStr p), (''sha256'', VStr SAMPLE_DIGEST)]) ps) = Inr seen'"
    "set seen' = set ps \<union> set (p # seen)" using Cons.IH [of "p # seen"] Cons.prems by auto
  ultimately show ?case by auto
qed simp

lemma sample_gate_accepted: "validate_integrity sample_handoff sample_gate = Inr ()"
proof -
  obtain seen where s: "integrity_loop sample_handoff sample_gate []
      (map (\<lambda>p. VDict [(''path'', VStr p), (''sha256'', VStr SAMPLE_DIGEST)]) INTEGRITY_REQUIRED) = Inr seen" "set seen = set INTEGRITY_REQUIRED"
    using sample_loop [OF sample_paths, of "[]"] by auto
  have "get_if_dict (dget sample_gate ''integrity'') ''files'' =
      VList (map (\<lambda>p. VDict [(''path'', VStr p), (''sha256'', VStr SAMPLE_DIGEST)]) INTEGRITY_REQUIRED)"
    by (simp add: sample_gate_def dget_def)
  with s show ?thesis
    by (simp add: validate_integrity_def) (simp add: INTEGRITY_REQUIRED_def)
qed

lemma integrity_manifest_is_verified_witness:
  "\<exists>items names. get_if_dict (dget sample_gate ''integrity'') ''files'' = VList items \<and>
    map (\<lambda>item. get_if_dict item ''path'') items = map VStr names \<and> set INTEGRITY_REQUIRED \<subseteq> set names \<and>
    (\<forall>i < length items. entry_verified sample_handoff (items ! i) (names ! i))"
proof -
  have "dget sample_gate ''status'' \<noteq> VStr ''pending''" by (simp add: sample_gate_def dget_def)
  with integrity_manifest_is_verified [OF sample_gate_accepted] show ?thesis by blast
qed

lemma sample_tests: "collect_tests sample_handoff c = Inr [(''./log'', ''TestLog'')]"
  unfolding collect_tests_def sample_handoff_def by code_simp

lemma go_oracles_select_tests_witness:
  "\<exists>tests. collect_tests sample_handoff ''c'' = Inr tests \<and> (\<exists>n. (''./log'', n) \<in> set tests \<and> contains ''Log'' n)"
proof -
  have sp: "shell_split sample_handoff ''cd x; go test ./log -run Log'' = Inr [''cd'', ''x;'', ''go'', ''test'', ''./log'', ''-run'', ''Log'']"
    unfolding sample_handoff_def by code_simp
  have pos: "run_positions [''cd'', ''x;'', ''go'', ''test'', ''./log'', ''-run'', ''Log''] = Some (3, 5)"
    "run_packages [''cd'', ''x;'', ''go'', ''test'', ''./log'', ''-run'', ''Log''] 3 5 = [''./log'']"
    by (simp_all add: run_positions_def index_from_def run_packages_def startswith_def Let_def)
  have c: "contains '' go test '' ''cd x; go test ./log -run Log''" "contains '' -run '' ''cd x; go test ./log -run Log''" "contains ''Log'' ''TestLog''"
    by (simp_all add: startswith_def)
  have "compile_re sample_handoff p = Inr (contains p)" for p by (simp add: sample_handoff_def)
  then have "oracle_packages sample_handoff [(''./log'', ''TestLog'')] ''X'' [''cd'', ''x;'', ''go'', ''test'', ''./log'', ''-run'', ''Log''] = Inr [''./log'']"
    using pos c(3) by (simp add: oracle_packages_def Let_def)
  then have "validate_go_oracles sample_handoff ''c'' [(''X'', ''cd x; go test ./log -run Log'')] = Inr 1"
    using sp c by (simp add: validate_go_oracles_def sample_tests contract_oracle_def)
  from go_oracles_select_tests [OF this] obtain tests packages where t: "collect_tests sample_handoff ''c'' = Inr tests"
    "\<exists>tokens t r matches. shell_split sample_handoff ''cd x; go test ./log -run Log'' = Inr tokens \<and> run_positions tokens = Some (t, r) \<and>
        packages = run_packages tokens t r \<and> compile_re sample_handoff (tokens ! (r + 1)) = Inr matches \<and>
        (\<forall>p \<in> set packages. \<exists>n. (p, n) \<in> set tests \<and> matches n)"
    unfolding list_all2_Cons1 list_all2_Nil fst_conv snd_conv if_P [OF conjI [OF c(1,2)]] by blast
  from t(2) pos have "\<exists>n. (''./log'', n) \<in> set tests \<and> contains ''Log'' n"
    unfolding sp by (simp add: sample_handoff_def)
  with t(1) show ?thesis by blast
qed

end
