(* ===== verification/HandoffDemand.thy ===== *)
theory HandoffDemand
  imports HandoffFiles
begin

text \<open>
  \<open>validate_consumer_demand\<close> of \<open>docs/rust-port/validate.py\<close>: the recorded demand for every package family
  is recomputed from the pinned snapshots of the consumers.
\<close>

text \<open>The value of an \<open>int\<close>, \<open>bool\<close> included.\<close>

fun int_of :: "pyval \<Rightarrow> int option" where
  "int_of (VInt n) = Some n"
| "int_of (VBool b) = Some (if b then 1 else 0)"
| "int_of _ = None"

lemma int_of_None [simp]: "int_of v = None \<longleftrightarrow> \<not> is_int v"
  by (cases v) auto

definition count_value :: "pyval \<Rightarrow> bool" where
  "count_value v = (case int_of v of None \<Rightarrow> False | Some n \<Rightarrow> 0 \<le> n)"

text \<open>\<open>sorted(v)\<close>: strings by their text, numbers by value; one element needs no order. Lists of lists,
  which Python would order by their elements, are taken for values without an order.\<close>

definition py_sorted :: "pyval \<Rightarrow> pyval res" where
  "py_sorted v =
     bind_res (iter_items v) (\<lambda>xs.
     if all_str xs then Inr (VList (map VStr (sort (strs_of xs))))
     else if length xs \<le> 1 then Inr (VList xs)
     else if list_all (\<lambda>x. num_of x \<noteq> None) xs then Inr (VList (sort_key (\<lambda>x. the (num_of x)) xs))
     else Inl TypeError)"

section \<open>Snapshots\<close>

definition snapshot_imports :: "pydict \<Rightarrow> pydict" where
  "snapshot_imports s = the (as_dict (dget s ''tracked_head_go_import_files''))"

text \<open>A checked snapshot; the names of those before it are \<open>seen\<close>. Keys of JSON objects are strings.\<close>

definition snapshot_of :: "string list \<Rightarrow> pyval \<Rightarrow> (string \<times> pydict) res" where
  "snapshot_of seen v =
     bind_res (pget v ''repo'') (\<lambda>r.
     let s = the (as_dict v); revision = dget s ''commit''; counts = dget s ''tracked_head_go_import_files'' in
     case as_str r of
       None \<Rightarrow> Inl (ValueError ''baseline: consumer snapshot repos must be unique non-empty strings'')
     | Some repo_name \<Rightarrow>
         bind_res (insist (repo_name \<noteq> [] \<and> repo_name \<notin> set seen)
           [''baseline: consumer snapshot repos must be unique non-empty strings'']) (\<lambda>_.
         bind_res (insist (str_such (fullmatch HEX40) revision) [''baseline: '', repo_name, '' snapshot needs a 40-hex commit'']) (\<lambda>_.
         bind_res (insist (is_str (dget s ''branch'') \<and> is_bool (dget s ''dirty_worktree_at_capture''))
           [''baseline: '', repo_name, '' snapshot needs branch and dirty state'']) (\<lambda>_.
         bind_res (insist (is_dict counts \<and> list_all (\<lambda>(k, n). count_value n) (the (as_dict counts)))
           [''baseline: '', repo_name, '' has invalid tracked import counts'']) (\<lambda>_. Inr (repo_name, s))))))"

fun snapshots_loop :: "string list \<Rightarrow> pyval list \<Rightarrow> (string \<times> pydict) list res" where
  "snapshots_loop seen [] = Inr []"
| "snapshots_loop seen (v # vs) =
     bind_res (snapshot_of seen v) (\<lambda>s. bind_res (snapshots_loop (fst s # seen) vs) (\<lambda>rest. Inr (s # rest)))"

definition tracked_count :: "string \<Rightarrow> pydict \<Rightarrow> int" where
  "tracked_count family s = the (int_of (dget_or (snapshot_imports s) family (VInt 0)))"

section \<open>Demand\<close>

text \<open>\<open>path.split("/", 1)[0]\<close>\<close>

definition family_of :: "string \<Rightarrow> string" where
  "family_of p = before ''/'' p"

definition demand_row :: "string list \<Rightarrow> (string \<times> pydict) list \<Rightarrow> pyval \<Rightarrow> unit res" where
  "demand_row available snapshots v =
     (let row = the (as_dict v); family = the (as_str (dget row ''package_family'')); paths = dget row ''package_paths'';
          names = the (as_list paths) in
      bind_res (insist (is_list paths \<and> names \<noteq> [] \<and> list_all (str_such (\<lambda>p. p \<in> set available)) names)
        [''baseline: '', family, '' contains an invalid package path'']) (\<lambda>_.
      bind_res (insist (list_all (str_such (\<lambda>p. family_of p = family)) names) [''baseline: '', family, '' package path escapes its family'']) (\<lambda>_.
      bind_res (py_sorted (dget_or row ''consumers'' (VList []))) (\<lambda>consumers.
      bind_res (insist (py_eq consumers (VList (map VStr (sort (map fst (filter (\<lambda>(r, s). tracked_count family s > 0) snapshots))))))
        [''baseline: '', family, '' consumer list differs from pinned snapshots'']) (\<lambda>_.
      insist (py_eq (dget row ''go_files'') (VInt (sum_list (map (\<lambda>(r, s). tracked_count family s) snapshots))))
        [''baseline: '', family, '' file count differs from pinned snapshots''])))))"

definition demand_families :: "pyval list \<Rightarrow> string list res" where
  "demand_families demand =
     bind_res (map_res (\<lambda>row. pget row ''package_family'') demand) (\<lambda>families.
     bind_res (insist (list_all (str_such (\<lambda>s. s \<noteq> [])) families) [''baseline: every demand row needs a package_family'']) (\<lambda>_.
     bind_res (insist (distinct families) [''baseline: duplicate consumer-demand package_family'']) (\<lambda>_. Inr (strs_of families))))"

definition validate_consumer_demand :: "handoff \<Rightarrow> pydict \<Rightarrow> string \<Rightarrow> unit res" where
  "validate_consumer_demand h baseline commit =
     (let demand = dget baseline ''consumer_demand''; snapshots = dget baseline ''consumer_snapshots'' in
      bind_res (insist (is_list demand \<and> demand \<noteq> VList []) [''baseline: consumer_demand must be a non-empty array'']) (\<lambda>_.
      bind_res (insist (is_list snapshots \<and> snapshots \<noteq> VList []) [''baseline: consumer_snapshots must be a non-empty array'']) (\<lambda>_.
      bind_res (snapshots_loop [] (the (as_list snapshots))) (\<lambda>checked.
      bind_res (oracle_package_paths h commit) (\<lambda>available.
      bind_res (demand_families (the (as_list demand))) (\<lambda>_.
      for_each (demand_row available checked) (the (as_list demand))))))))"

section \<open>What accepted demand establishes\<close>

lemma snapshot_of_Inr:
  "snapshot_of seen v = Inr (r, s) \<Longrightarrow>
     v = VDict s \<and> dget s ''repo'' = VStr r \<and> r \<noteq> [] \<and> r \<notin> set seen \<and> (\<exists>c. dget s ''commit'' = VStr c \<and> fullmatch HEX40 c) \<and>
     (\<exists>d. dget s ''tracked_head_go_import_files'' = VDict d \<and> (\<forall>p \<in> set d. count_value (snd p)))"
  by (fastforce simp: snapshot_of_def Let_def bind_res_eq_Inr str_such_iff is_dict_iff is_str_iff list_all_iff split: option.splits)

lemma snapshots_loop_Inr:
  "snapshots_loop seen vs = Inr ss \<Longrightarrow> distinct seen \<Longrightarrow>
     vs = map (VDict \<circ> snd) ss \<and> distinct (map fst ss) \<and> set (map fst ss) \<inter> set seen = {} \<and>
     (\<forall>(r, s) \<in> set ss. dget s ''repo'' = VStr r \<and> (\<exists>c. dget s ''commit'' = VStr c \<and> fullmatch HEX40 c) \<and>
        (\<exists>d. dget s ''tracked_head_go_import_files'' = VDict d \<and> (\<forall>p \<in> set d. count_value (snd p))))"
proof (induction vs arbitrary: seen ss)
  case (Cons v vs)
  from Cons.prems(1) obtain r s rest where x: "snapshot_of seen v = Inr (r, s)" "snapshots_loop (r # seen) vs = Inr rest" "ss = (r, s) # rest"
    by (auto simp: bind_res_eq_Inr)
  note e = snapshot_of_Inr [OF x(1)]
  from Cons.IH [OF x(2)] Cons.prems(2) e have "vs = map (VDict \<circ> snd) rest" "distinct (map fst rest)" "set (map fst rest) \<inter> set (r # seen) = {}"
    "\<forall>(r, s) \<in> set rest. dget s ''repo'' = VStr r \<and> (\<exists>c. dget s ''commit'' = VStr c \<and> fullmatch HEX40 c) \<and>
        (\<exists>d. dget s ''tracked_head_go_import_files'' = VDict d \<and> (\<forall>p \<in> set d. count_value (snd p)))" by auto
  with x(3) e show ?case by auto
qed simp

text \<open>The tracked counts are natural numbers, so a sum of them is at least each of them.\<close>

lemma tracked_count_nonneg:
  assumes "dget s ''tracked_head_go_import_files'' = VDict d" "\<forall>p \<in> set d. count_value (snd p)"
  shows "0 \<le> tracked_count family s"
proof (cases "map_of d family")
  case None
  with assms(1) show ?thesis by (simp add: tracked_count_def snapshot_imports_def dget_or_def)
next
  case (Some v)
  with assms(2) have "count_value v" by (force dest: map_of_SomeD)
  with assms(1) Some show ?thesis by (auto simp: tracked_count_def snapshot_imports_def dget_or_def count_value_def split: option.splits)
qed

lemma py_eq_VInt: "py_eq v (VInt n) \<longleftrightarrow> num_of v = Some (of_int n)"
  by (cases v) (auto simp: py_eq_VList py_eq_VDict)

lemma all_str_such: "list_all (str_such P) xs \<Longrightarrow> \<exists>ss. xs = map VStr ss \<and> (\<forall>s \<in> set ss. P s)"
proof (induction xs)
  case (Cons x xs)
  then obtain s ss where "x = VStr s" "P s" "xs = map VStr ss" "\<forall>s \<in> set ss. P s" by (auto simp: str_such_iff)
  then show ?case by (intro exI [of _ "s # ss"]) auto
qed simp

lemma demand_row_Inr:
  assumes "demand_row available ss (VDict row) = Inr ()" "dget row ''package_family'' = VStr family"
  shows "(\<exists>names. dget row ''package_paths'' = VList (map VStr names) \<and> names \<noteq> [] \<and> (\<forall>p \<in> set names. p \<in> set available \<and> family_of p = family)) \<and>
     py_sorted (dget_or row ''consumers'' (VList [])) = Inr (VList (map VStr (sort (map fst (filter (\<lambda>(r, s). tracked_count family s > 0) ss))))) \<and>
     num_of (dget row ''go_files'') = Some (of_int (sum_list (map (\<lambda>(r, s). tracked_count family s) ss)))"
proof -
  from assms obtain xs where x: "dget row ''package_paths'' = VList xs" "xs \<noteq> []" "list_all (str_such (\<lambda>p. p \<in> set available)) xs"
    "list_all (str_such (\<lambda>p. family_of p = family)) xs"
    "py_sorted (dget_or row ''consumers'' (VList [])) = Inr (VList (map VStr (sort (map fst (filter (\<lambda>(r, s). tracked_count family s > 0) ss)))))"
    "num_of (dget row ''go_files'') = Some (of_int (sum_list (map (\<lambda>(r, s). tracked_count family s) ss)))"
    by (auto simp: demand_row_def Let_def bind_res_eq_Inr is_list_iff py_eq_strs py_eq_VInt)
  from x(3,4) have "list_all (str_such (\<lambda>p. p \<in> set available \<and> family_of p = family)) xs"
    by (fastforce simp: list_all_iff str_such_iff)
  from all_str_such [OF this] x(1,2,5,6) show ?thesis by auto
qed

text \<open>C35: accepted demand is the demand the pinned snapshots show. The snapshots name pairwise different
  repositories, each at a full commit; the families of the demand are pairwise different; and for every
  row of the demand, every path is a package of the oracle commit inside the row's family, the sorted
  consumers are exactly the repositories whose snapshot counts an import of the family, and the number of
  files is the sum of those counts, so no smaller than the number of consumers.\<close>

theorem demand_is_recomputed:
  assumes "validate_consumer_demand h baseline commit = Inr ()"
  shows "\<exists>rows ss available families. dget baseline ''consumer_demand'' = VList (map VDict rows) \<and>
    dget baseline ''consumer_snapshots'' = VList (map (VDict \<circ> snd) ss) \<and> distinct (map fst ss) \<and>
    (\<forall>(r, s) \<in> set ss. dget s ''repo'' = VStr r \<and> (\<exists>c. dget s ''commit'' = VStr c \<and> fullmatch HEX40 c)) \<and>
    oracle_package_paths h commit = Inr available \<and> map (\<lambda>row. dget row ''package_family'') rows = map VStr families \<and> distinct families \<and>
    (\<forall>i < length rows.
       (\<exists>names. dget (rows ! i) ''package_paths'' = VList (map VStr names) \<and> names \<noteq> [] \<and>
          (\<forall>p \<in> set names. p \<in> set available \<and> family_of p = families ! i)) \<and>
       (\<exists>consumers files. py_sorted (dget_or (rows ! i) ''consumers'' (VList [])) = Inr (VList (map VStr consumers)) \<and>
          consumers = sort (map fst (filter (\<lambda>(r, s). tracked_count (families ! i) s > 0) ss)) \<and>
          num_of (dget (rows ! i) ''go_files'') = Some (of_int files) \<and>
          files = sum_list (map (\<lambda>(r, s). tracked_count (families ! i) s) ss) \<and> int (length consumers) \<le> files))"
proof -
  from assms obtain demand snaps ss available fs where x: "dget baseline ''consumer_demand'' = VList demand"
    "dget baseline ''consumer_snapshots'' = VList snaps" "snapshots_loop [] snaps = Inr ss" "oracle_package_paths h commit = Inr available"
    "demand_families demand = Inr fs" "\<forall>row \<in> set demand. demand_row available ss row = Inr ()"
    unfolding validate_consumer_demand_def Let_def bind_res_eq_Inr insist_Inr is_list_iff by auto
  from snapshots_loop_Inr [OF x(3)] have ss: "snaps = map (VDict \<circ> snd) ss" "distinct (map fst ss)"
    "\<forall>(r, s) \<in> set ss. dget s ''repo'' = VStr r \<and> (\<exists>c. dget s ''commit'' = VStr c \<and> fullmatch HEX40 c) \<and>
        (\<exists>d. dget s ''tracked_head_go_import_files'' = VDict d \<and> (\<forall>p \<in> set d. count_value (snd p)))" by auto
  from x(5) obtain vals where v: "map_res (\<lambda>row. pget row ''package_family'') demand = Inr vals" "list_all (str_such (\<lambda>s. s \<noteq> [])) vals" "distinct vals"
    by (auto simp: demand_families_def bind_res_eq_Inr)
  from all_str_such [OF v(2)] obtain families where f: "vals = map VStr families" by blast
  have "\<exists>rows. demand = map VDict rows \<and> vals = map (\<lambda>row. dget row ''package_family'') rows"
    using v(1) unfolding map_res_Inr
  proof (induction rule: list_all2_induct)
    case (Cons x xs y ys)
    then obtain rows row where "xs = map VDict rows" "ys = map (\<lambda>row. dget row ''package_family'') rows" "x = VDict row" "y = dget row ''package_family''"
      by auto
    then show ?case by (intro exI [of _ "row # rows"]) simp
  qed simp
  then obtain rows where r: "demand = map VDict rows" "vals = map (\<lambda>row. dget row ''package_family'') rows" by blast
  have nonneg: "\<forall>(r, s) \<in> set ss. 0 \<le> tracked_count family s" for family using ss(3) tracked_count_nonneg by fastforce
  have bound: "\<forall>(r, s) \<in> set us. 0 \<le> tracked_count family s \<Longrightarrow>
      int (length (filter (\<lambda>(r, s). tracked_count family s > 0) us)) \<le> sum_list (map (\<lambda>(r, s). tracked_count family s) us)" for us :: "(string \<times> pydict) list" and family
    by (induction us) auto
  have df: "distinct families" using v(3) f by (simp add: distinct_map)
  have keep: "\<forall>(r, s) \<in> set ss. dget s ''repo'' = VStr r \<and> (\<exists>c. dget s ''commit'' = VStr c \<and> fullmatch HEX40 c)" using ss(3) by blast
  have len: "length families = length rows" using arg_cong [OF r(2), of length] f by simp
  have fam: "dget (rows ! i) ''package_family'' = VStr (families ! i)" if "i < length rows" for i
    using arg_cong [OF r(2), of "\<lambda>xs. xs ! i"] f that len by simp
  have each: "(\<exists>names. dget (rows ! i) ''package_paths'' = VList (map VStr names) \<and> names \<noteq> [] \<and>
          (\<forall>p \<in> set names. p \<in> set available \<and> family_of p = families ! i)) \<and>
       (\<exists>consumers files. py_sorted (dget_or (rows ! i) ''consumers'' (VList [])) = Inr (VList (map VStr consumers)) \<and>
          consumers = sort (map fst (filter (\<lambda>(r, s). tracked_count (families ! i) s > 0) ss)) \<and>
          num_of (dget (rows ! i) ''go_files'') = Some (of_int files) \<and>
          files = sum_list (map (\<lambda>(r, s). tracked_count (families ! i) s) ss) \<and> int (length consumers) \<le> files)" if i: "i < length rows" for i
  proof -
    have "demand_row available ss (VDict (rows ! i)) = Inr ()" using x(6) r(1) i by auto
    from demand_row_Inr [OF this fam [OF i]] bound [OF nonneg] show ?thesis by simp
  qed
  show ?thesis
    by (rule exI [of _ rows], rule exI [of _ ss], rule exI [of _ available], rule exI [of _ families], intro conjI)
      (use x(1,2,4) r ss(1,2) f df keep each in \<open>simp_all\<close>)
qed

section \<open>A concrete demand\<close>

definition sample_snapshot :: "string \<Rightarrow> int \<Rightarrow> pydict" where
  "sample_snapshot name n = [(''repo'', VStr name), (''commit'', VStr (replicate 40 (CHR ''b''))), (''branch'', VStr ''main''),
     (''dirty_worktree_at_capture'', VBool False), (''tracked_head_go_import_files'', VDict [(''log'', VInt n)])]"

definition sample_baseline :: pydict where
  "sample_baseline = [(''consumer_snapshots'', VList [VDict (sample_snapshot ''vault'' 2), VDict (sample_snapshot ''brain'' 1), VDict (sample_snapshot ''seek'' 0)]),
     (''consumer_demand'', VList [VDict [(''package_family'', VStr ''log''), (''package_paths'', VList [VStr ''log'']),
       (''consumers'', VList [VStr ''vault'', VStr ''brain'']), (''go_files'', VInt 3)]])]"

definition sample_tree :: handoff where
  "sample_tree = sample_handoff\<lparr>ls_tree := \<lambda>_. Inr ''log/log.go''\<rparr>"

lemma sample_demand_accepted: "validate_consumer_demand sample_tree sample_baseline commit = Inr ()"
proof -
  have hex: "fullmatch HEX40 (replicate 40 (CHR ''b''))" by (simp add: fullmatch_HEX40 is_hex_def list_all_iff) code_simp
  have snap: "snapshot_of seen (VDict (sample_snapshot name n)) = Inr (name, sample_snapshot name n)" if "name \<noteq> []" "name \<notin> set seen" "0 \<le> n" for seen name n
    using that hex by (simp add: snapshot_of_def sample_snapshot_def dget_def count_value_def)
  have count: "tracked_count ''log'' (sample_snapshot name n) = n" for name n
    by (simp add: tracked_count_def snapshot_imports_def sample_snapshot_def dget_def dget_or_def)
  have av: "oracle_package_paths sample_tree commit = Inr [''log'']"
    unfolding oracle_package_paths_def sample_tree_def sample_handoff_def by code_simp
  have srt: "sort [''vault'', ''brain''] = [''brain'', ''vault'']" "family_of ''log'' = ''log''" by code_simp+
  have row: "demand_row [''log''] [(''vault'', sample_snapshot ''vault'' 2), (''brain'', sample_snapshot ''brain'' 1), (''seek'', sample_snapshot ''seek'' 0)]
      (VDict [(''package_family'', VStr ''log''), (''package_paths'', VList [VStr ''log'']), (''consumers'', VList [VStr ''vault'', VStr ''brain'']), (''go_files'', VInt 3)]) = Inr ()"
    using srt by (simp add: demand_row_def dget_def dget_or_def count py_sorted_def all_str_def eq_list_iff py_eq.simps)
  have "snapshots_loop [] [VDict (sample_snapshot ''vault'' 2), VDict (sample_snapshot ''brain'' 1), VDict (sample_snapshot ''seek'' 0)] =
      Inr [(''vault'', sample_snapshot ''vault'' 2), (''brain'', sample_snapshot ''brain'' 1), (''seek'', sample_snapshot ''seek'' 0)]"
    by (simp add: snap)
  with av row show ?thesis
    by (simp add: validate_consumer_demand_def sample_baseline_def dget_def demand_families_def)
qed

lemma demand_is_recomputed_witness:
  "\<exists>rows. dget sample_baseline ''consumer_demand'' = VList (map VDict rows) \<and> length rows = 1 \<and>
     (\<exists>files consumers. num_of (dget (rows ! 0) ''go_files'') = Some (of_int files) \<and> int (length (consumers :: string list)) \<le> files)"
proof -
  have len: "length xs = 1" if "dget sample_baseline ''consumer_demand'' = VList (map VDict xs)" for xs
    using arg_cong [OF that, of "\<lambda>v. length (the (as_list v))"] by (simp add: sample_baseline_def dget_def)
  from demand_is_recomputed [OF sample_demand_accepted, of "''c''"] obtain rows where r: "dget sample_baseline ''consumer_demand'' = VList (map VDict rows)"
    "\<forall>i < length rows. \<exists>consumers files. num_of (dget (rows ! i) ''go_files'') = Some (of_int files) \<and> int (length (consumers :: string list)) \<le> files"
    by blast
  from r(2) len [OF r(1)] have "\<exists>consumers files. num_of (dget (rows ! 0) ''go_files'') = Some (of_int files) \<and> int (length (consumers :: string list)) \<le> files"
    by simp
  with r(1) len [OF r(1)] show ?thesis by blast
qed

end
