(* ===== verification/HandoffArtifacts.thy ===== *)
theory HandoffArtifacts
  imports HandoffDemand CanonicalJson
begin

text \<open>
  \<open>validate_rust001_artifacts\<close> of \<open>docs/rust-port/validate.py\<close>: the harness inputs and their digest, the
  reconstruction of the public API of every target from the canonical snapshot and the target's overrides,
  the frozen contracts, the oracle self-test and the consumer canaries.
\<close>

section \<open>Values as keys\<close>

text \<open>A dictionary whose keys are values: two keys are the same where they are equal.\<close>

type_synonym vdict = "(pyval \<times> pyval) list"

definition vset :: "vdict \<Rightarrow> pyval \<Rightarrow> pyval \<Rightarrow> vdict res" where
  "vset d k v =
     (if \<not> hashable k then Inl TypeError
      else if list_ex (\<lambda>(k', _). py_eq k' k) d then Inr (map (\<lambda>(k', v'). if py_eq k' k then (k', v) else (k', v')) d)
      else Inr (d @ [(k, v)]))"

definition vpop :: "vdict \<Rightarrow> pyval \<Rightarrow> vdict res" where
  "vpop d k = (if \<not> hashable k then Inl TypeError else Inr (filter (\<lambda>(k', _). \<not> py_eq k' k) d))"

definition vget :: "vdict \<Rightarrow> pyval \<Rightarrow> pyval" where
  "vget d k = (case List.find (\<lambda>(k', _). py_eq k' k) d of None \<Rightarrow> VNone | Some (_, v) \<Rightarrow> v)"

text \<open>\<open>len(set(xs))\<close>, and \<open>len(xs) == len(set(xs))\<close>.\<close>

fun distinct_values :: "pyval list \<Rightarrow> pyval list" where
  "distinct_values [] = []"
| "distinct_values (x # xs) = (if list_ex (\<lambda>y. py_eq y x) xs then distinct_values xs else x # distinct_values xs)"

definition set_size :: "pyval list \<Rightarrow> int res" where
  "set_size xs = (if list_all hashable xs then Inr (int (length (distinct_values xs))) else Inl TypeError)"

fun sum_res :: "int res list \<Rightarrow> int res" where
  "sum_res [] = Inr 0"
| "sum_res (x # xs) = bind_res x (\<lambda>n. bind_res (sum_res xs) (\<lambda>m. Inr (n + m)))"

text \<open>\<open>json.dumps(value, separators=(",", ":"), ensure_ascii=False)\<close>: the items as they come.\<close>

fun json_plain :: "(rat \<Rightarrow> string) \<Rightarrow> pyval \<Rightarrow> string" where
  "json_plain fl VNone = ''null''"
| "json_plain fl (VBool b) = (if b then ''true'' else ''false'')"
| "json_plain fl (VInt n) = str_int n"
| "json_plain fl (VFloat r) = fl r"
| "json_plain fl (VStr s) = json_string s"
| "json_plain fl (VList xs) = CHR ''['' # join '','' (map (json_plain fl) xs) @ '']''"
| "json_plain fl (VDict d) = CHR ''{'' # join '','' (map (\<lambda>(k, v). json_string k @ '':'' @ json_plain fl v) d) @ ''}''"

section \<open>Places\<close>

definition FIXTURES :: "string list" where
  "FIXTURES = [''testdata'', ''rust-port'', ''fixtures'']"

definition CASES :: "string list" where
  "CASES = [''testdata'', ''rust-port'', ''cases'']"

definition REQUIRED_ARTIFACTS :: "string list list" where
  "REQUIRED_ARTIFACTS =
     [[''scripts'', ''rust-port'', ''generate.py''], [''scripts'', ''rust-port'', ''diff.py''],
      [''scripts'', ''rust-port'', ''go-oracle'', ''go.mod''], [''scripts'', ''rust-port'', ''go-oracle'', ''go.sum''],
      [''scripts'', ''rust-port'', ''go-oracle'', ''cmd'', ''publicapi'', ''main.go''],
      [''scripts'', ''rust-port'', ''go-oracle'', ''cmd'', ''probe'', ''main.go''],
      FIXTURES @ [''index.json''], FIXTURES @ [''public-api.json''], FIXTURES @ [''public-api-target-overrides.json''],
      FIXTURES @ [''oracle-probe.json''], CASES @ [''oracle-selftest.json''], CASES @ [''consumer-canaries.json''],
      [''testdata'', ''rust-port'', ''README.md'']]"

definition TARGETS :: "string list" where
  "TARGETS = [''darwin-amd64'', ''darwin-arm64'', ''linux-amd64'', ''linux-arm64'', ''windows-amd64'', ''windows-arm64'']"

definition missing_artifacts :: "handoff \<Rightarrow> string list" where
  "missing_artifacts h = map as_posix (filter (\<lambda>p. \<not> is_file (disk h) (repo h @ p)) REQUIRED_ARTIFACTS)"

section \<open>The harness\<close>

definition harness_chunk :: "handoff \<Rightarrow> pyval \<Rightarrow> string res" where
  "harness_chunk h v =
     (case as_str v of
        None \<Rightarrow> Inl (ValueError ''RUST-001: invalid harness input path'')
      | Some relative \<Rightarrow>
          bind_res (insist (is_file (disk h) (join_path (repo h) relative)) [''RUST-001: missing harness input '', relative]) (\<lambda>_.
          bind_res (read_bytes (disk h) (join_path (repo h) relative)) (\<lambda>b.
          Inr (encode_utf8 (disk h) relative @ [CHR 0x00] @ lf b @ [CHR 0x00]))))"

definition check_harness :: "handoff \<Rightarrow> pyval \<Rightarrow> unit res" where
  "check_harness h index =
     bind_res (pget_or index ''harness'' (VDict [])) (\<lambda>harness.
     bind_res (pget harness ''input_files'') (\<lambda>inputs.
     bind_res (insist (is_list inputs \<and> inputs \<noteq> VList []) [''RUST-001: harness input paths must be a non-empty sorted array'']) (\<lambda>_.
     bind_res (py_sorted inputs) (\<lambda>sorted_inputs.
     bind_res (insist (py_eq inputs sorted_inputs) [''RUST-001: harness input paths must be a non-empty sorted array'']) (\<lambda>_.
     bind_res (map_res (harness_chunk h) (the (as_list inputs))) (\<lambda>chunks.
     bind_res (pget harness ''input_digest_sha256'') (\<lambda>recorded.
     insist (recorded = VStr (sha256 (disk h) (concat chunks))) [''RUST-001: harness input digest drift; regenerate fixtures''])))))))"

section \<open>The public API\<close>

definition remove_packages :: "pyval \<Rightarrow> vdict \<Rightarrow> vdict res" where
  "remove_packages override d =
     bind_res (pget_or override ''removed_packages'' (VList [])) (\<lambda>v.
     bind_res (iter_items v) (\<lambda>paths. fold_res (\<lambda>p d. vpop d p) paths d))"

definition change_packages :: "pyval \<Rightarrow> vdict \<Rightarrow> vdict res" where
  "change_packages override d =
     bind_res (pget_or override ''changed_packages'' (VList [])) (\<lambda>v.
     bind_res (iter_items v) (\<lambda>packages. fold_res (\<lambda>p d. bind_res (pindex p ''path'') (\<lambda>k. vset d k p)) packages d))"

definition reconstruct :: "vdict \<Rightarrow> pyval \<Rightarrow> pyval list res" where
  "reconstruct canonical override =
     bind_res (remove_packages override canonical) (\<lambda>d.
     bind_res (change_packages override d) (\<lambda>d'.
     bind_res (py_sorted (VList (map fst d'))) (\<lambda>v.
     Inr (map (vget d') (the (as_list v))))))"

definition count_declarations :: "pyval list \<Rightarrow> int res" where
  "count_declarations packages =
     sum_res (map (\<lambda>p. bind_res (pget_or p ''declarations'' (VList [])) py_len) packages)"

definition declaration_members :: "pyval \<Rightarrow> int res" where
  "declaration_members d =
     bind_res (pget_or d ''methods'' (VList [])) (\<lambda>m. bind_res (py_len m) (\<lambda>n.
     bind_res (pget_or d ''fields'' (VList [])) (\<lambda>f. bind_res (py_len f) (\<lambda>k. Inr (n + k)))))"

definition count_members :: "pyval list \<Rightarrow> int res" where
  "count_members packages =
     sum_res (map (\<lambda>p. bind_res (pget_or p ''declarations'' (VList [])) (\<lambda>v. bind_res (iter_items v) (\<lambda>ds.
       sum_res (map declaration_members ds)))) packages)"

definition observed :: "handoff \<Rightarrow> pyval list \<Rightarrow> int \<Rightarrow> int \<Rightarrow> pyval" where
  "observed h packages declarations members =
     VDict [(''packages'', VInt (int (length packages))), (''exported_top_level_declarations'', VInt declarations),
       (''exported_members'', VInt members), (''exported_surface_entries'', VInt (declarations + members)),
       (''api_digest_sha256'', VStr (sha256 (disk h) (utf8_encode (json_plain (float_text (disk h)) (VList packages)))))]"

definition check_target :: "handoff \<Rightarrow> pydict \<Rightarrow> vdict \<Rightarrow> pydict \<Rightarrow> pydict \<Rightarrow> string \<Rightarrow> unit res" where
  "check_target h inventory canonical overrides index_targets target =
     bind_res (dindex overrides target) (\<lambda>override.
     bind_res (reconstruct canonical override) (\<lambda>packages.
     bind_res (count_declarations packages) (\<lambda>declarations.
     bind_res (count_members packages) (\<lambda>members.
     bind_res (dindex index_targets target) (\<lambda>recorded.
     bind_res (insist (py_eq recorded (observed h packages declarations members))
       [''RUST-001: '', target, '' public API reconstruction differs from fixture index'']) (\<lambda>_.
     bind_res (insist (py_eq (dget inventory ''public_api_snapshot_packages'') (VInt (int (length packages))))
       [''RUST-001: '', target, '' public API package count differs from baseline'']) (\<lambda>_.
     bind_res (insist (py_eq (dget inventory ''public_api_snapshot_exported_top_level_declarations'') (VInt declarations))
       [''RUST-001: '', target, '' public API declaration count differs from baseline'']) (\<lambda>_.
     bind_res (insist (py_eq (dget inventory ''public_api_snapshot_exported_members'') (VInt members))
       [''RUST-001: '', target, '' public API member count differs from baseline'']) (\<lambda>_.
     insist (py_eq (dget inventory ''public_api_snapshot_exported_surface_entries'') (VInt (declarations + members)))
       [''RUST-001: '', target, '' public API total surface count differs from baseline''])))))))))"

text \<open>The canonical packages, checked to be unique and sorted, by their path.\<close>

definition canonical_packages :: "pyval \<Rightarrow> vdict res" where
  "canonical_packages public_api =
     bind_res (pget public_api ''packages'') (\<lambda>v.
     bind_res (insist (is_list v \<and> v \<noteq> VList []) [''RUST-001: canonical public API snapshot has no packages'']) (\<lambda>_.
     let packages = the (as_list v) in
     bind_res (map_res (\<lambda>p. pget p ''path'') packages) (\<lambda>paths.
     bind_res (set_size paths) (\<lambda>n.
     bind_res (if n \<noteq> int (length paths) then Inr False
               else bind_res (py_sorted (VList paths)) (\<lambda>s. Inr (py_eq (VList paths) s))) (\<lambda>b.
     bind_res (insist b [''RUST-001: canonical public API packages must be unique and sorted'']) (\<lambda>_.
     fold_res (\<lambda>p d. bind_res (pindex p ''path'') (\<lambda>k. vset d k p)) packages []))))))"

definition target_overrides :: "pydict \<Rightarrow> pyval \<Rightarrow> pydict res" where
  "target_overrides oracle doc =
     bind_res (pget doc ''targets'') (\<lambda>overrides.
     bind_res (pget doc ''oracle_commit'') (\<lambda>c.
     bind_res (dindex oracle ''commit'') (\<lambda>commit.
     bind_res (insist (py_eq c commit \<and> get_if_dict doc ''canonical_target'' = VStr ''darwin-arm64'' \<and> is_dict overrides \<and>
         sort (keys (the (as_dict overrides))) = TARGETS) [''RUST-001: public API target overrides drift'']) (\<lambda>_.
     Inr (the (as_dict overrides))))))"

definition check_public_api :: "handoff \<Rightarrow> pydict \<Rightarrow> pydict \<Rightarrow> pyval \<Rightarrow> unit res" where
  "check_public_api h baseline oracle index =
     bind_res (dindex baseline ''owned_go_inventory'') (\<lambda>inventory.
     bind_res (pget inventory ''public_api_snapshot_targets'') (\<lambda>ts.
     bind_res (insist (ts = VList (map VStr TARGETS)) [''RUST-001: baseline public API targets are incomplete'']) (\<lambda>_.
     bind_res (bind_res (pget_or index ''public_api'' (VDict [])) (\<lambda>p. pget p ''targets'')) (\<lambda>index_targets.
     bind_res (insist (is_dict index_targets \<and> sort (keys (the (as_dict index_targets))) = TARGETS)
       [''RUST-001: fixture index public API targets are incomplete'']) (\<lambda>_.
     bind_res (read_json h (repo h @ FIXTURES @ [''public-api.json''])) (\<lambda>public_api.
     bind_res (pget public_api ''oracle_commit'') (\<lambda>c.
     bind_res (dindex oracle ''commit'') (\<lambda>commit.
     bind_res (insist (py_eq c commit \<and> get_if_dict public_api ''targets'' = VList (map VStr TARGETS))
       [''RUST-001: canonical public API provenance or targets drift'']) (\<lambda>_.
     bind_res (canonical_packages public_api) (\<lambda>canonical.
     bind_res (read_json h (repo h @ FIXTURES @ [''public-api-target-overrides.json''])) (\<lambda>doc.
     bind_res (target_overrides oracle doc) (\<lambda>overrides.
     for_each (check_target h (the (as_dict inventory)) canonical overrides (the (as_dict index_targets))) TARGETS))))))))))))"

section \<open>The frozen contracts\<close>

definition check_contract_record :: "handoff \<Rightarrow> pyval \<Rightarrow> unit res" where
  "check_contract_record h v =
     bind_res (pget v ''path'') (\<lambda>r.
     case as_str r of
       None \<Rightarrow> Inl (ValueError ''RUST-001: invalid contract fixture path'')
     | Some relative \<Rightarrow>
         bind_res (insist (startswith relative ''contracts/'') [''RUST-001: invalid contract fixture path'']) (\<lambda>_.
         let source = join_path (repo h) relative; fixture = join_path (repo h @ FIXTURES) relative in
         bind_res (insist (is_file (disk h) source \<and> is_file (disk h) fixture) [''RUST-001: missing contract source or fixture '', relative]) (\<lambda>_.
         bind_res (read_bytes (disk h) source) (\<lambda>source_bytes.
         bind_res (read_bytes (disk h) fixture) (\<lambda>fixture_bytes.
         bind_res (insist (lf fixture_bytes = lf source_bytes) [''RUST-001: contract fixture drift '', relative]) (\<lambda>_.
         insist (get_if_dict v ''sha256'' = VStr (sha256 (disk h) (lf source_bytes))) [''RUST-001: contract digest drift '', relative]))))))"

definition check_contract_records :: "handoff \<Rightarrow> pyval \<Rightarrow> unit res" where
  "check_contract_records h index =
     bind_res (pget index ''contracts'') (\<lambda>v.
     bind_res (insist (is_list v \<and> v \<noteq> VList []) [''RUST-001: fixture index has no contract records'']) (\<lambda>_.
     for_each (check_contract_record h) (the (as_list v))))"

section \<open>The self-test and the canaries\<close>

definition OBSERVATIONS :: "string list" where
  "OBSERVATIONS = [''exit_or_signal'', ''stdout'', ''stderr'', ''returned_json_or_error'',
     ''recursive_file_manifest'', ''sqlite_snapshots'', ''http_transcript'', ''process_argv'']"

definition fields_in :: "string list \<Rightarrow> pyval \<Rightarrow> int res" where
  "fields_in ks v = bind_res (filter_res (\<lambda>k. value_contains k v) ks) (\<lambda>fs. Inr (int (length fs)))"

text \<open>Exactly one of the explicit representations, and not the old one.\<close>

definition one_representation :: "string list \<Rightarrow> string \<Rightarrow> pyval \<Rightarrow> bool res" where
  "one_representation ks old v =
     bind_res (fields_in ks v) (\<lambda>n. if n \<noteq> 1 then Inr False else bind_res (value_contains old v) (\<lambda>b. Inr (\<not> b)))"

definition check_setup :: "pyval \<Rightarrow> unit res" where
  "check_setup v =
     bind_res (one_representation [''content_utf8'', ''content_base64'', ''content_json''] ''content'' v) (\<lambda>b.
     insist b [''RUST-001: setup files must use exactly one explicit byte representation''])"

definition check_case :: "pyval \<Rightarrow> unit res" where
  "check_case c =
     bind_res (pget_or c ''observations'' (VList [])) (\<lambda>v.
     bind_res (iter_items v) (\<lambda>observations.
     bind_res (require (list_all hashable observations) TypeError) (\<lambda>_.
     bind_res (insist (set observations = set (map VStr OBSERVATIONS)) [''RUST-001: oracle case observation surface is incomplete'']) (\<lambda>_.
     bind_res (insist (truthy (get_if_dict c ''isolation_limits'') \<and> truthy (get_if_dict c ''env_allowlist''))
       [''RUST-001: oracle case lacks isolation limits or env allowlist'']) (\<lambda>_.
     bind_res (one_representation [''stdin_utf8'', ''stdin_base64'', ''stdin_json''] ''stdin'' c) (\<lambda>b.
     bind_res (insist b [''RUST-001: oracle case must use exactly one explicit stdin byte representation'']) (\<lambda>_.
     bind_res (pget_or c ''setup'' (VList [])) (\<lambda>s.
     bind_res (iter_items s) (\<lambda>setups.
     bind_res (for_each check_setup setups) (\<lambda>_.
     bind_res (pget c ''normalizers'') (\<lambda>normalizers.
     insist (is_list normalizers \<and> list_all (\<lambda>n. truthy (get_if_dict n ''name'') \<and> truthy (get_if_dict n ''reason'')) (the (as_list normalizers)))
       [''RUST-001: every nondeterministic-field normalizer needs a name and reason''])))))))))))"

definition check_suite :: "pyval \<Rightarrow> unit res" where
  "check_suite suite =
     bind_res (pget suite ''cases'') (\<lambda>v.
     bind_res (insist (is_list v \<and> length (the (as_list v)) = 1) [''RUST-001: oracle self-test suite must contain one foundation case'']) (\<lambda>_.
     check_case (hd (the (as_list v)))))"

definition CANARY_FIELDS :: "string list" where
  "CANARY_FIELDS = [''snapshot_commit'', ''go_build'', ''go_run'', ''rust_build'', ''rust_run'', ''metrics'']"

definition check_canary :: "pyval \<Rightarrow> unit res" where
  "check_canary item =
     insist (list_all (\<lambda>f. truthy (get_if_dict item f)) CANARY_FIELDS) [''RUST-001: incomplete paired-consumer canary'']"

text \<open>The repositories of the canaries are read first, so every canary is a dictionary below.\<close>

definition check_canaries :: "pyval \<Rightarrow> unit res" where
  "check_canaries doc =
     bind_res (pget doc ''consumers'') (\<lambda>v.
     bind_res (insist (is_list v) [''RUST-001: at least two paired-consumer canaries are required'']) (\<lambda>_.
     bind_res (map_res (\<lambda>item. pget item ''repository'') (the (as_list v))) (\<lambda>repositories.
     bind_res (set_size repositories) (\<lambda>n.
     bind_res (insist (2 \<le> n) [''RUST-001: at least two paired-consumer canaries are required'']) (\<lambda>_.
     for_each check_canary (the (as_list v)))))))"

section \<open>The whole check\<close>

definition check_index :: "pydict \<Rightarrow> pyval \<Rightarrow> unit res" where
  "check_index oracle index =
     bind_res (pget_or index ''oracle'' (VDict [])) (\<lambda>o1.
     bind_res (pget o1 ''commit'') (\<lambda>c.
     bind_res (dindex oracle ''commit'') (\<lambda>commit.
     bind_res (insist (py_eq c commit) [''RUST-001: fixture index oracle commit drift'']) (\<lambda>_.
     bind_res (pget o1 ''source_digest_sha256'') (\<lambda>d.
     bind_res (dindex oracle ''tracked_input_digest_sha256'') (\<lambda>digest.
     insist (py_eq d digest) [''RUST-001: fixture index source digest drift'']))))))"

definition validate_rust001_artifacts :: "handoff \<Rightarrow> pydict \<Rightarrow> unit res" where
  "validate_rust001_artifacts h baseline =
     bind_res (insist (missing_artifacts h = []) [''RUST-001: missing artifacts '', repr_strs (missing_artifacts h)]) (\<lambda>_.
     bind_res (read_json h (repo h @ FIXTURES @ [''index.json''])) (\<lambda>index.
     bind_res (dindex baseline ''oracle'') (\<lambda>v.
     bind_res (require (is_dict v) TypeError) (\<lambda>_.
     let oracle = the (as_dict v) in
     bind_res (check_index oracle index) (\<lambda>_.
     bind_res (check_harness h index) (\<lambda>_.
     bind_res (check_public_api h baseline oracle index) (\<lambda>_.
     bind_res (check_contract_records h index) (\<lambda>_.
     bind_res (read_json h (repo h @ CASES @ [''oracle-selftest.json''])) (\<lambda>suite.
     bind_res (check_suite suite) (\<lambda>_.
     bind_res (read_json h (repo h @ CASES @ [''consumer-canaries.json''])) check_canaries))))))))))"

end
