(* ===== verification/HandoffGraph.thy ===== *)
theory HandoffGraph
  imports PyVal
begin

text \<open>
  The dependency graph of the work items, \<open>visit\<close> and \<open>ancestors\<close> of \<open>docs/rust-port/validate.py\<close>.
  The graph is the dictionary from an item to the items it depends on; a set the code mutates is a list
  with its newest element first. Both walks end on every graph (\<open>termination\<close>), \<open>visit\<close> leaves the items
  in an order in which every dependency comes before what depends on it, or names an item on a cycle,
  and \<open>ancestors\<close> is the transitive closure.
\<close>

type_synonym deps = "(string \<times> string list) list"

section \<open>The walks\<close>

text \<open>Every call of \<open>visit\<close> below an item has one more active item, and only items of the graph become active.\<close>

definition inactive :: "deps \<Rightarrow> string list \<Rightarrow> nat" where
  "inactive deps active = card (fst ` set deps - set active)"

lemma inactive_Cons: "map_of deps node = Some ds \<Longrightarrow> node \<notin> set active \<Longrightarrow> inactive deps (node # active) < inactive deps active"
proof -
  assume a: "map_of deps node = Some ds" "node \<notin> set active"
  then have "node \<in> fst ` set deps - set active" by (force dest: map_of_SomeD)
  then have "fst ` set deps - set (node # active) \<subset> fst ` set deps - set active" by auto
  then show "inactive deps (node # active) < inactive deps active" unfolding inactive_def by (intro psubset_card_mono) simp_all
qed

text \<open>\<open>visit\<close> with the loop over the dependencies of an item. The result is the set \<open>done\<close> afterwards; the
  entry of \<open>active\<close> is removed on the way back, so callers see theirs unchanged.\<close>

function visit :: "deps \<Rightarrow> string list \<Rightarrow> string list \<Rightarrow> string \<Rightarrow> string list res"
  and visit_all :: "deps \<Rightarrow> string list \<Rightarrow> string list \<Rightarrow> string list \<Rightarrow> string list res" where
  "visit deps active finished node =
     (if node \<in> set active then Inl (ValueError (msg [''work-items: dependency cycle at '', node]))
      else if node \<in> set finished then Inr finished
      else (case map_of deps node of
          None \<Rightarrow> Inl (KeyError node)
        | Some ds \<Rightarrow> bind_res (visit_all deps (node # active) finished ds) (\<lambda>finished'. Inr (node # finished'))))"
| "visit_all deps active finished [] = Inr finished"
| "visit_all deps active finished (d # ds) =
     bind_res (visit deps active finished d) (\<lambda>finished'. visit_all deps active finished' ds)"
  by pat_completeness auto

termination
  by (relation "measures [\<lambda>x. case x of Inl (deps, active, finished, node) \<Rightarrow> inactive deps active
        | Inr (deps, active, finished, ds) \<Rightarrow> inactive deps active,
      \<lambda>x. case x of Inl _ \<Rightarrow> 0 | Inr (deps, active, finished, ds) \<Rightarrow> Suc (length ds)]")
    (auto intro: inactive_Cons)

text \<open>\<open>ancestors\<close>: the stack has its top first, so \<open>stack.extend(ds)\<close> puts \<open>rev ds\<close> in front.\<close>

function ancestors_loop :: "deps \<Rightarrow> string list \<Rightarrow> string list \<Rightarrow> string list res" where
  "ancestors_loop deps seen [] = Inr seen"
| "ancestors_loop deps seen (current # stack) =
     (if current \<in> set seen then ancestors_loop deps seen stack
      else (case map_of deps current of
          None \<Rightarrow> Inl (KeyError current)
        | Some ds \<Rightarrow> ancestors_loop deps (current # seen) (rev ds @ stack)))"
  by pat_completeness auto

termination
  by (relation "measures [\<lambda>(deps, seen, stack). inactive deps seen, \<lambda>(deps, seen, stack). length stack]") (auto intro: inactive_Cons)

definition ancestors :: "deps \<Rightarrow> string \<Rightarrow> string list res" where
  "ancestors deps node = (case map_of deps node of None \<Rightarrow> Inl (KeyError node) | Some ds \<Rightarrow> ancestors_loop deps [] (rev ds))"

section \<open>The graph\<close>

definition edges :: "deps \<Rightarrow> (string \<times> string) set" where
  "edges deps = {(n, d). \<exists>ds. map_of deps n = Some ds \<and> d \<in> set ds}"

text \<open>Every dependency is an item: \<open>dangling_deps\<close> is empty.\<close>

definition closed_deps :: "deps \<Rightarrow> bool" where
  "closed_deps deps = list_all (\<lambda>(n, ds). list_all (\<lambda>d. map_of deps d \<noteq> None) ds) deps"

lemma closed_depsD: "closed_deps deps \<Longrightarrow> map_of deps n = Some ds \<Longrightarrow> d \<in> set ds \<Longrightarrow> \<exists>es. map_of deps d = Some es"
  by (fastforce simp: closed_deps_def list_all_iff dest: map_of_SomeD)

text \<open>Every item of the list depends only on items further down.\<close>

fun topological :: "deps \<Rightarrow> string list \<Rightarrow> bool" where
  "topological deps [] = True"
| "topological deps (n # ns) =
     (n \<notin> set ns \<and> (case map_of deps n of None \<Rightarrow> False | Some ds \<Rightarrow> list_all (\<lambda>d. d \<in> set ns) ds) \<and> topological deps ns)"

lemma topological_keys: "topological deps ns \<Longrightarrow> set ns \<subseteq> fst ` set deps"
  by (induction ns) (force dest: map_of_SomeD split: option.splits)+

lemma topological_closed: "topological deps ns \<Longrightarrow> n \<in> set ns \<Longrightarrow> (n, m) \<in> (edges deps)\<^sup>* \<Longrightarrow> m \<in> set ns"
proof (induction ns arbitrary: n)
  case (Cons k ns)
  show ?case
  proof (cases "n = k")
    case True
    from Cons.prems(3) show ?thesis
    proof (cases rule: converse_rtranclE)
      case (step d)
      with Cons.prems(1) True have "d \<in> set ns" by (auto simp: edges_def list_all_iff split: option.splits)
      with Cons.IH [of d] Cons.prems(1) step show ?thesis by simp
    qed (use True in simp)
  next
    case False
    with Cons show ?thesis by auto
  qed
qed simp

lemma topological_no_cycle: "topological deps ns \<Longrightarrow> n \<in> set ns \<Longrightarrow> (n, n) \<notin> (edges deps)\<^sup>+"
proof (induction ns)
  case (Cons k ns)
  show ?case
  proof (cases "n \<in> set ns")
    case True
    with Cons show ?thesis by simp
  next
    case False
    with Cons.prems(2) have n: "n = k" by simp
    show ?thesis
    proof
      assume "(n, n) \<in> (edges deps)\<^sup>+"
      then obtain d where d: "(n, d) \<in> edges deps" "(d, n) \<in> (edges deps)\<^sup>*" by (metis tranclD)
      then have "d \<in> set ns" using Cons.prems(1) n by (auto simp: edges_def list_all_iff split: option.splits)
      then have "n \<in> set ns" using topological_closed [of deps ns d n] Cons.prems(1) d(2) by simp
      with False show False ..
    qed
  qed
qed simp

section \<open>\<open>visit\<close>\<close>

text \<open>A walk that returns has extended the order by what it was asked for, by no active item, and kept it
  topological.\<close>

lemma visit_topological:
  "visit deps active finished node = Inr finished' \<Longrightarrow> topological deps finished \<Longrightarrow>
     topological deps finished' \<and> set finished \<subseteq> set finished' \<and> node \<in> set finished' \<and> set finished' \<inter> set active \<subseteq> set finished"
  "visit_all deps active finished ds = Inr finished' \<Longrightarrow> topological deps finished \<Longrightarrow>
     topological deps finished' \<and> set finished \<subseteq> set finished' \<and> set ds \<subseteq> set finished' \<and> set finished' \<inter> set active \<subseteq> set finished"
proof (induction deps active finished node and deps active finished ds arbitrary: finished' and finished' rule: visit_visit_all.induct)
  case (1 deps active finished node)
  show ?case
  proof (cases "node \<in> set finished")
    case True
    with "1.prems" show ?thesis by (auto split: if_splits)
  next
    case False
    with "1.prems"(1) obtain ds f where f: "map_of deps node = Some ds" "node \<notin> set active"
      "visit_all deps (node # active) finished ds = Inr f" "finished' = node # f"
      by (auto simp: bind_res_eq_Inr split: if_splits option.splits)
    from "1.IH" [OF f(2) False f(1) f(3) "1.prems"(2)] have i: "topological deps f" "set finished \<subseteq> set f" "set ds \<subseteq> set f"
      "set f \<inter> set (node # active) \<subseteq> set finished" by auto
    with False have "node \<notin> set f" by auto
    with i f show ?thesis by (auto simp: list_all_iff)
  qed
next
  case (3 deps active finished d ds)
  from "3.prems"(1) obtain f where f: "visit deps active finished d = Inr f" "visit_all deps active f ds = Inr finished'"
    by (auto simp: bind_res_eq_Inr)
  from "3.IH"(1) [OF f(1) "3.prems"(2)] "3.IH"(2) [OF f(1) f(2)] show ?case by auto
qed auto

text \<open>A walk that fails, below items that all lead to where it is, has met a cycle.\<close>

definition cycle_error :: "deps \<Rightarrow> pyexc \<Rightarrow> bool" where
  "cycle_error deps e \<longleftrightarrow> (\<exists>n. e = ValueError (msg [''work-items: dependency cycle at '', n]) \<and> (n, n) \<in> (edges deps)\<^sup>+)"

lemma visit_cycle:
  "visit deps active finished node = Inl e \<Longrightarrow> closed_deps deps \<Longrightarrow> \<exists>es. map_of deps node = Some es \<Longrightarrow>
     \<forall>a \<in> set active. (a, node) \<in> (edges deps)\<^sup>+ \<Longrightarrow> cycle_error deps e"
  "visit_all deps active finished ds = Inl e \<Longrightarrow> closed_deps deps \<Longrightarrow> \<forall>d \<in> set ds. \<exists>es. map_of deps d = Some es \<Longrightarrow>
     \<forall>d \<in> set ds. \<forall>a \<in> set active. (a, d) \<in> (edges deps)\<^sup>+ \<Longrightarrow> cycle_error deps e"
proof (induction deps active finished node and deps active finished ds arbitrary: e and e rule: visit_visit_all.induct)
  case (1 deps active finished node)
  show ?case
  proof (cases "node \<in> set active")
    case True
    with "1.prems" show ?thesis by (auto simp: cycle_error_def)
  next
    case False
    with "1.prems"(1,3) obtain ds where ds: "map_of deps node = Some ds" "node \<notin> set finished"
      "visit_all deps (node # active) finished ds = Inl e"
      by (auto simp: bind_res_eq_Inl split: if_splits)
    have "\<forall>d \<in> set ds. \<exists>es. map_of deps d = Some es" using "1.prems"(2) ds(1) closed_depsD by blast
    moreover have "\<forall>d \<in> set ds. \<forall>a \<in> set (node # active). (a, d) \<in> (edges deps)\<^sup>+"
      using "1.prems"(4) ds(1) by (auto simp: edges_def intro: trancl_into_trancl)
    ultimately show ?thesis using "1.IH" [OF False ds(2,1,3) "1.prems"(2)] by blast
  qed
next
  case (3 deps active finished d ds)
  show ?case
  proof (cases "visit deps active finished d")
    case (Inl e')
    with "3.prems" "3.IH"(1) [of e'] show ?thesis by simp
  next
    case (Inr f)
    with "3.prems" "3.IH"(2) [of f e] show ?thesis by simp
  qed
qed simp

lemma visit_all_decides:
  assumes "closed_deps deps" "set order = fst ` set deps"
  shows "case visit_all deps [] [] order of
      Inr finished \<Rightarrow> topological deps finished \<and> set finished = fst ` set deps \<and> acyclic (edges deps)
    | Inl e \<Rightarrow> cycle_error deps e"
proof (cases "visit_all deps [] [] order")
  case (Inl e)
  have "\<forall>d \<in> set order. \<exists>es. map_of deps d = Some es" using assms(2) by (metis weak_map_of_SomeI imageE prod.collapse)
  with visit_cycle(2) [OF Inl assms(1)] Inl show ?thesis by simp
next
  case (Inr finished)
  from visit_topological(2) [OF Inr] have t: "topological deps finished" "set order \<subseteq> set finished" by auto
  have s: "set finished = fst ` set deps" using t topological_keys [OF t(1)] assms(2) by auto
  have "(n, n) \<notin> (edges deps)\<^sup>+" for n
  proof
    assume c: "(n, n) \<in> (edges deps)\<^sup>+"
    then obtain d where "(n, d) \<in> edges deps" by (metis tranclD)
    then have "n \<in> set finished" unfolding s by (force simp: edges_def dest: map_of_SomeD)
    with topological_no_cycle [OF t(1)] c show False by blast
  qed
  with t(1) s Inr show ?thesis by (simp add: acyclic_def)
qed

text \<open>C20: the walk over the work items decides whether their dependencies can be ordered. Where every
  dependency is an item and every item is walked from, in whatever order the set of items is enumerated,
  the walk returns exactly when the graph has no cycle; what it then holds is every item, each after all
  its dependencies. Where it fails it names an item that depends on itself.\<close>

theorem visit_decides_acyclicity:
  assumes "closed_deps deps" and "set order = fst ` set deps"
  shows "(case visit_all deps [] [] order of Inr finished \<Rightarrow> topological deps finished \<and> set finished = fst ` set deps | Inl e \<Rightarrow> cycle_error deps e) \<and>
    (\<exists>finished. visit_all deps [] [] order = Inr finished) = acyclic (edges deps)"
  using visit_all_decides [OF assms] by (auto simp: cycle_error_def acyclic_def split: sum.splits)

lemma visit_decides_acyclicity_witness:
  "closed_deps [(''A'', [''B'']), (''B'', [])] \<and> acyclic (edges [(''A'', [''B'']), (''B'', [])]) \<and>
     \<not> acyclic (edges [(''A'', [''B'']), (''B'', [''A''])])"
proof -
  have c: "closed_deps [(''A'', [''B'']), (''B'', [])]" "closed_deps [(''A'', [''B'']), (''B'', [''A''])]"
    by (simp_all add: closed_deps_def)
  have "visit_all [(''A'', [''B'']), (''B'', [])] [] [] [''A'', ''B''] = Inr [''A'', ''B'']" by simp
  with visit_decides_acyclicity [OF c(1), of "[''A'', ''B'']"] have a: "acyclic (edges [(''A'', [''B'']), (''B'', [])])" by simp
  have "visit_all [(''A'', [''B'']), (''B'', [''A''])] [] [] [''A'', ''B''] = Inl (ValueError (msg [''work-items: dependency cycle at '', ''A'']))"
    by simp
  with visit_decides_acyclicity [OF c(2), of "[''A'', ''B'']"] have "\<not> acyclic (edges [(''A'', [''B'']), (''B'', [''A''])])" by simp
  with c a show ?thesis by simp
qed

section \<open>\<open>ancestors\<close>\<close>

lemma trancl_first: "(n, m) \<in> R\<^sup>+ \<longleftrightarrow> (\<exists>d. (n, d) \<in> R \<and> (d, m) \<in> R\<^sup>*)"
  by (metis rtrancl_into_trancl2 tranclD)

lemma rtrancl_first: "(n, m) \<in> R\<^sup>* \<longleftrightarrow> n = m \<or> (\<exists>d. (n, d) \<in> R \<and> (d, m) \<in> R\<^sup>*)"
  by (metis converse_rtranclE converse_rtrancl_into_rtrancl rtrancl.rtrancl_refl)

text \<open>Between what is collected and what is still on the stack no dependency is lost.\<close>

lemma ancestors_loop_closure:
  assumes "closed_deps deps" "\<forall>s \<in> set stack. \<exists>es. map_of deps s = Some es" "distinct seen"
    "\<forall>s \<in> set seen. \<forall>d. (s, d) \<in> edges deps \<longrightarrow> d \<in> set seen \<union> set stack"
  shows "\<exists>r. ancestors_loop deps seen stack = Inr r \<and> distinct r \<and>
    set r = set seen \<union> {m. \<exists>s \<in> set stack. (s, m) \<in> (edges deps)\<^sup>*}"
  using assms
proof (induction deps seen stack rule: ancestors_loop.induct)
  case (1 deps seen)
  then show ?case by simp
next
  case (2 deps seen current stack)
  show ?case
  proof (cases "current \<in> set seen")
    case True
    have step: "m \<in> set seen \<union> {m. \<exists>s \<in> set stack. (s, m) \<in> (edges deps)\<^sup>*}" if "(current, m) \<in> (edges deps)\<^sup>*" for m
      using that
    proof (induction rule: rtrancl_induct)
      case (step y z)
      then show ?case using "2.prems"(4) True by (auto intro: rtrancl_into_rtrancl)
    qed (use True in simp)
    from "2.IH"(1) [OF True "2.prems"(1)] "2.prems"(2-4) True obtain r where "ancestors_loop deps seen stack = Inr r" "distinct r"
      "set r = set seen \<union> {m. \<exists>s \<in> set stack. (s, m) \<in> (edges deps)\<^sup>*}" by auto
    with True step show ?thesis by auto
  next
    case False
    from "2.prems"(2) obtain ds where ds: "map_of deps current = Some ds" by auto
    have e: "(current, d) \<in> edges deps \<longleftrightarrow> d \<in> set ds" for d using ds by (simp add: edges_def)
    have s: "\<forall>s \<in> set (rev ds @ stack). \<exists>es. map_of deps s = Some es"
      using "2.prems"(1,2) ds closed_depsD by auto
    have i: "\<forall>s \<in> set (current # seen). \<forall>d. (s, d) \<in> edges deps \<longrightarrow> d \<in> set (current # seen) \<union> set (rev ds @ stack)"
      using "2.prems"(4) e by auto
    have "distinct (current # seen)" using "2.prems"(3) False by simp
    from "2.IH"(2) [OF False ds "2.prems"(1) s this i] obtain r where r: "ancestors_loop deps (current # seen) (rev ds @ stack) = Inr r" "distinct r"
      "set r = set (current # seen) \<union> {m. \<exists>s \<in> set (rev ds @ stack). (s, m) \<in> (edges deps)\<^sup>*}" by blast
    have "{m. (current, m) \<in> (edges deps)\<^sup>*} = insert current {m. \<exists>d \<in> set ds. (d, m) \<in> (edges deps)\<^sup>*}"
      using rtrancl_first [of current _ "edges deps"] e by (auto intro: converse_rtrancl_into_rtrancl)
    with r False ds show ?thesis by auto
  qed
qed

lemma ancestors_closure:
  assumes "closed_deps deps" "node \<in> fst ` set deps"
  shows "\<exists>r. ancestors deps node = Inr r \<and> distinct r \<and> set r = (edges deps)\<^sup>+ `` {node}"
proof -
  from assms(2) obtain ds where ds: "map_of deps node = Some ds" by (metis weak_map_of_SomeI imageE prod.collapse)
  have "\<forall>s \<in> set (rev ds). \<exists>es. map_of deps s = Some es" using assms(1) ds closed_depsD by auto
  with ancestors_loop_closure [OF assms(1), of "rev ds" "[]"] obtain r where r: "ancestors_loop deps [] (rev ds) = Inr r" "distinct r"
    "set r = {m. \<exists>s \<in> set ds. (s, m) \<in> (edges deps)\<^sup>*}" by auto
  have "{m. \<exists>s \<in> set ds. (s, m) \<in> (edges deps)\<^sup>*} = (edges deps)\<^sup>+ `` {node}"
    using trancl_first [of node _ "edges deps"] ds by (auto simp: edges_def)
  with r ds show ?thesis by (simp add: ancestors_def)
qed

text \<open>C31: \<open>ancestors\<close> implements the transitive closure of the dependencies, cycles included: on a graph
  without dangling names it returns, for every item, exactly the items reachable by one or more steps,
  each once.\<close>

theorem ancestors_are_the_closure:
  assumes "closed_deps deps" and "node \<in> fst ` set deps"
  shows "\<exists>r. ancestors deps node = Inr r \<and> distinct r \<and> set r = (edges deps)\<^sup>+ `` {node}"
  using assms by (rule ancestors_closure)

lemma ancestors_are_the_closure_witness:
  "(edges [(''A'', [''B'']), (''B'', [''A''])])\<^sup>+ `` {''A''} = {''A'', ''B''}"
proof -
  have c: "closed_deps [(''A'', [''B'']), (''B'', [''A''])]" by (simp add: closed_deps_def)
  have "ancestors [(''A'', [''B'']), (''B'', [''A''])] ''A'' = Inr [''A'', ''B'']" by (simp add: ancestors_def)
  with ancestors_are_the_closure [OF c, of "''A''"] show ?thesis by auto
qed

end
