(* ===== verification/HandoffWork.thy ===== *)
theory HandoffWork
  imports HandoffArtifacts HandoffGraph
begin

text \<open>
  The contracts and work items of the Rust handoff: the part of \<open>main\<close> of \<open>docs/rust-port/validate.py\<close> that
  checks every contract and every work item, routes consumer-local contracts, walks the dependency graph
  and enforces the readiness rules, the coverage of the contracts and the barrier of the value gate.

  A work item that has passed its own checks is a record \<open>work_row\<close>; the order in which Python enumerates
  a set of names is the argument \<open>order\<close>.
\<close>

section \<open>Identifiers\<close>

definition ID_PATTERN :: string where
  "ID_PATTERN = ''^[A-Z]+-[0-9]{3}$''"

definition ID_RE :: regex where
  "ID_RE = Seqs [Plus (Cls [(CHR ''A'', CHR ''Z'')]), Chr (CHR ''-''), Rep 3 (Cls digit_cls)]"

definition unique_ids :: "pyval list \<Rightarrow> string \<Rightarrow> string list res" where
  "unique_ids items label =
     bind_res (map_res (\<lambda>v. pget v ''id'') items) (\<lambda>ids.
     bind_res (insist (list_all (str_such (fullmatch ID_RE)) ids) [label, '': every id must match '', ID_PATTERN]) (\<lambda>_.
     bind_res (insist (distinct ids) [label, '': duplicate ids'']) (\<lambda>_. Inr (strs_of ids))))"

text \<open>The identifier of an item of a list that passed \<open>unique_ids\<close>.\<close>

definition id_of :: "pyval \<Rightarrow> string" where
  "id_of v = the (as_str (get_if_dict v ''id''))"

text \<open>\<open>if v not in {...}: fail(message)\<close> for a set of strings.\<close>

definition insist_in :: "pyval \<Rightarrow> string list \<Rightarrow> string list \<Rightarrow> unit res" where
  "insist_in v ss parts = bind_res (in_strs v ss) (\<lambda>b. insist b parts)"

lemma insist_in_Inr [simp]: "insist_in v ss parts = Inr u \<longleftrightarrow> (\<exists>s \<in> set ss. v = VStr s)"
  by (auto simp: insist_in_def bind_res_eq_Inr in_strs_True)

section \<open>Contracts\<close>

definition COMPARISONS :: "string list" where
  "COMPARISONS = [''api-shape'', ''benchmark'', ''bytes'', ''filesystem'', ''json-semantic'',
     ''manual-gate'', ''network'', ''process'', ''source-digest'', ''sqlite'']"

definition CONTRACT_STATUS :: "string list" where
  "CONTRACT_STATUS = [''todo'', ''fixture-ready'', ''parity'', ''accepted-difference'', ''consumer-local'']"

definition CONTRACT_FIELDS :: "string list" where
  "CONTRACT_FIELDS = [''id'', ''seam'', ''fixture'', ''go_oracle'', ''expected'', ''comparison'', ''platforms'', ''rust_test'', ''status'']"

definition check_contract :: "world \<Rightarrow> pyval \<Rightarrow> unit res" where
  "check_contract w v =
     (let row = the (as_dict v); iid = id_of v; platforms = dget row ''platforms'' in
      bind_res (insist (list_all (has_key row) CONTRACT_FIELDS)
        [iid, '': missing '', repr_strs (sort (filter (\<lambda>k. \<not> has_key row k) CONTRACT_FIELDS))]) (\<lambda>_.
      bind_res (insist_in (dget row ''comparison'') COMPARISONS
        [iid, '': invalid comparison '', py_repr (float_text w) (dget row ''comparison'')]) (\<lambda>_.
      bind_res (insist_in (dget row ''status'') CONTRACT_STATUS [iid, '': invalid status '', py_repr (float_text w) (dget row ''status'')]) (\<lambda>_.
      bind_res (insist (is_list platforms \<and> platforms \<noteq> VList []) [iid, '': platforms must be a non-empty array'']) (\<lambda>_.
      bind_res (for_each (\<lambda>p. insist_in p [''darwin'', ''linux'', ''windows''] [iid, '': unsupported platform value'']) (the (as_list platforms))) (\<lambda>_.
      for_each (\<lambda>k. insist (str_such (\<lambda>s. strip s \<noteq> []) (dget row k)) [iid, '': '', k, '' must be non-empty''])
        [''seam'', ''fixture'', ''go_oracle'', ''expected'', ''rust_test'']))))))"

definition oracle_rows :: "pyval list \<Rightarrow> (string \<times> string) list" where
  "oracle_rows contracts = map (\<lambda>v. (id_of v, the (as_str (get_if_dict v ''go_oracle'')))) contracts"

section \<open>Work items\<close>

record work_row =
  row_id :: string
  row_deps :: "string list"
  row_refs :: "string list"
  row_status :: string
  row_class :: string
  row_issues :: bool

definition WORK_STATUS :: "string list" where
  "WORK_STATUS = [''blocked'', ''deferred'', ''ready'', ''in_progress'', ''complete'', ''not_shared_consumer_local'']"

definition NUMBER_RE :: regex where
  "NUMBER_RE = Seqs [Cls [(CHR ''1'', CHR ''9'')], Star (Cls digit_cls)]"

definition NAME_RE :: regex where
  "NAME_RE = Plus (Cls [(CHR ''A'', CHR ''Z''), (CHR ''a'', CHR ''z''), (CHR ''0'', CHR ''9''),
     (CHR ''_'', CHR ''_''), (CHR ''.'', CHR ''.''), (CHR ''-'', CHR ''-'')])"

definition ISSUE_RE :: regex where
  "ISSUE_RE = Seqs [Lit ''https://github.com/'', NAME_RE, Chr (CHR ''/''), NAME_RE, Lit ''/issues/'', NUMBER_RE]"

text \<open>\<open>sorted(set(values) - known)\<close>: empty, or the failure that names them.\<close>

definition no_dangling :: "world \<Rightarrow> string list \<Rightarrow> pyval list \<Rightarrow> string list \<Rightarrow> unit res" where
  "no_dangling w known vs parts =
     bind_res (require (list_all hashable vs) TypeError) (\<lambda>_.
     let dangling = filter (\<lambda>v. \<not> str_such (\<lambda>s. s \<in> set known) v) vs in
     if dangling = [] then Inr ()
     else bind_res (py_sorted (VList (distinct_values dangling))) (\<lambda>s. insist False (parts @ [py_repr (float_text w) s])))"

definition check_blockers :: "string \<Rightarrow> pydict \<Rightarrow> unit res" where
  "check_blockers iid item =
     (let blockers = dget item ''blocking_issues'' in
      insist (has_key item ''blocking_issues'' \<longrightarrow>
          dget item ''status'' = VStr ''blocked'' \<and> is_list blockers \<and> blockers \<noteq> VList [] \<and>
          list_all (str_such (fullmatch ISSUE_RE)) (the (as_list blockers)))
        [iid, '': blocking_issues require blocked status and explicit GitHub issue URLs''])"

definition work_item :: "world \<Rightarrow> string list \<Rightarrow> string list \<Rightarrow> pyval \<Rightarrow> work_row res" where
  "work_item w contract_ids work_ids v =
     (let item = the (as_dict v); iid = id_of v; ds = dget item ''depends_on''; refs = dget item ''contracts'';
          status = dget item ''status''; demand = dget item ''demand_class'' in
      bind_res (insist (is_list ds \<and> is_list refs \<and> refs \<noteq> VList [])
        [iid, '': depends_on/contracts must be arrays and contracts non-empty'']) (\<lambda>_.
      bind_res (require (list_all hashable (the (as_list ds)) \<and> list_all hashable (the (as_list refs))) TypeError) (\<lambda>_.
      bind_res (no_dangling w work_ids (the (as_list ds)) [iid, '': dangling dependencies '']) (\<lambda>_.
      bind_res (no_dangling w contract_ids (the (as_list refs)) [iid, '': dangling contracts '']) (\<lambda>_.
      bind_res (insist_in status WORK_STATUS [iid, '': invalid status '', py_repr (float_text w) status]) (\<lambda>_.
      bind_res (insist_in demand [''required'', ''demand_driven''] [iid, '': invalid demand_class'']) (\<lambda>_.
      bind_res (insist (truthy (dget item ''acceptance_commands'') \<and> truthy (dget item ''stop_rule''))
        [iid, '': acceptance_commands and stop_rule are required'']) (\<lambda>_.
      bind_res (check_blockers iid item) (\<lambda>_.
      Inr \<lparr>row_id = iid, row_deps = strs_of (the (as_list ds)), row_refs = strs_of (the (as_list refs)),
        row_status = the (as_str status), row_class = the (as_str demand),
        row_issues = truthy (dget item ''blocking_issues'')\<rparr>)))))))))"

definition deps_of :: "work_row list \<Rightarrow> deps" where
  "deps_of rows = map (\<lambda>r. (row_id r, row_deps r)) rows"

definition status_of :: "work_row list \<Rightarrow> string \<Rightarrow> string option" where
  "status_of rows iid = map_of (map (\<lambda>r. (row_id r, row_status r)) rows) iid"

section \<open>Consumer-local routing\<close>

definition CONSUMER_ISSUE_RE :: regex where
  "CONSUMER_ISSUE_RE = Seqs [Lit ''https://github.com/danieljustus/symaira-'',
     Alt (Lit ''brain'') (Alt (Lit ''desktop'') (Alt (Lit ''vault'') (Lit ''eraseme''))), Lit ''/issues/'', NUMBER_RE]"

definition check_evidence_path :: "handoff \<Rightarrow> string \<Rightarrow> pyval \<Rightarrow> unit res" where
  "check_evidence_path h iid v =
     (let parts = [iid, '': consumer-local decision needs demand evidence''] in
      case as_str v of
        None \<Rightarrow> insist False parts
      | Some evidence \<Rightarrow>
          bind_res (insist (\<not> is_absolute evidence \<and> ''..'' \<notin> set (path_parts evidence)) parts) (\<lambda>_.
          bind_res (resolve_path (disk h) (ROOT_DIR h @ path_parts evidence)) (\<lambda>p.
          bind_res (resolve_path (disk h) (ROOT_DIR h)) (\<lambda>base.
          insist (is_relative_to p base \<and> is_file (disk h) (ROOT_DIR h @ path_parts evidence)) parts))))"

definition check_routed_contract :: "pyval list \<Rightarrow> string \<Rightarrow> unit res" where
  "check_routed_contract contracts contract_id =
     (case List.find (\<lambda>row. id_of row = contract_id) contracts of
        None \<Rightarrow> Inl (KeyError contract_id)
      | Some row \<Rightarrow>
          bind_res (insist (get_if_dict row ''status'' = VStr ''consumer-local'')
            [contract_id, '': consumer-local work cannot claim shared parity'']) (\<lambda>_.
          insist (str_such (fullmatch CONSUMER_ISSUE_RE) (get_if_dict row ''consumer_issue''))
            [contract_id, '': consumer-local row needs a concrete consumer issue'']))"

text \<open>The contracts a work item routes to its consumer.\<close>

definition route_item :: "handoff \<Rightarrow> pyval list \<Rightarrow> pyval \<times> work_row \<Rightarrow> string list res" where
  "route_item h contracts x =
     (case x of (v, r) \<Rightarrow>
      if row_status r \<noteq> ''not_shared_consumer_local'' then Inr []
      else bind_res (insist (row_class r = ''demand_driven'') [row_id r, '': required work cannot be routed consumer-local'']) (\<lambda>_.
           bind_res (check_evidence_path h (row_id r) (get_if_dict v ''demand_evidence'')) (\<lambda>_.
           bind_res (for_each (check_routed_contract contracts) (row_refs r)) (\<lambda>_. Inr (row_refs r)))))"

definition consumer_local :: "pyval list \<Rightarrow> string list" where
  "consumer_local contracts = map id_of (filter (\<lambda>row. get_if_dict row ''status'' = VStr ''consumer-local'') contracts)"

definition validate_consumer_local_routing :: "handoff \<Rightarrow> pyval list \<Rightarrow> work_row list \<Rightarrow> pyval list \<Rightarrow> unit res" where
  "validate_consumer_local_routing h work rows contracts =
     bind_res (map_res (route_item h contracts) (zip work rows)) (\<lambda>routed.
     insist (set (concat routed) = set (consumer_local contracts))
       [''contract-matrix: consumer-local row lacks a terminal ownership decision''])"

section \<open>Readiness\<close>

definition all_complete :: "work_row list \<Rightarrow> string list \<Rightarrow> bool" where
  "all_complete rows ds = list_all (\<lambda>d. status_of rows d = Some ''complete'') ds"

definition check_ready :: "work_row list \<Rightarrow> work_row \<Rightarrow> unit res" where
  "check_ready rows r =
     (let done = all_complete rows (row_deps r) in
      bind_res (insist (\<not> (row_status r = ''ready'' \<and> \<not> done)) [row_id r, '': ready while a dependency is incomplete'']) (\<lambda>_.
      bind_res (insist (\<not> (row_status r = ''blocked'' \<and> done \<and> \<not> row_issues r))
        [row_id r, '': blocked despite all dependencies being complete'']) (\<lambda>_.
      insist (\<not> (row_status r = ''deferred'' \<and> row_class r \<noteq> ''demand_driven''))
        [row_id r, '': only demand-driven work may be deferred''])))"

definition ready_ids :: "work_row list \<Rightarrow> string list" where
  "ready_ids rows = map row_id (filter (\<lambda>r. row_status r = ''ready'') rows)"

definition check_handoff_start :: "work_row list \<Rightarrow> unit res" where
  "check_handoff_start rows =
     insist (\<not> (\<not> list_ex (\<lambda>r. row_status r = ''complete'') rows \<and> ready_ids rows \<noteq> [''RUST-001'']))
       [''exactly RUST-001 must be ready at initial handoff, got '', repr_strs (ready_ids rows)]"

definition later_active :: "work_row list \<Rightarrow> bool" where
  "later_active rows = list_ex (\<lambda>r. row_id r \<noteq> ''RUST-001'' \<and> row_status r \<in> set [''ready'', ''in_progress'', ''complete'']) rows"

definition check_defect :: "pyval list \<Rightarrow> work_row list \<Rightarrow> unit res" where
  "check_defect contracts rows =
     (case List.find (\<lambda>row. id_of row = ''DEFECT-001'') contracts of
        None \<Rightarrow> insist False [''contract-matrix: missing DEFECT-001 update-cache contract gate'']
      | Some row \<Rightarrow>
          if get_if_dict row ''status'' = VStr ''fixture-ready'' then Inr ()
          else (case status_of rows ''RUST-001'' of
              None \<Rightarrow> Inl (KeyError ''RUST-001'')
            | Some s \<Rightarrow> insist (\<not> (s = ''complete'' \<or> later_active rows))
                [''DEFECT-001 must be corrected and fixture-ready before Rust work can start'']))"

definition check_coverage :: "string list \<Rightarrow> work_row list \<Rightarrow> unit res" where
  "check_coverage contract_ids rows =
     (let missing = filter (\<lambda>c. \<not> list_ex (\<lambda>r. c \<in> set (row_refs r)) rows) contract_ids in
      insist (missing = []) [''contracts without work item: '', repr_strs (sort missing)])"

section \<open>The barrier\<close>

definition check_barrier_item :: "world \<Rightarrow> string list \<Rightarrow> work_row list \<Rightarrow> string \<Rightarrow> pyval \<Rightarrow> unit res" where
  "check_barrier_item w work_ids rows gate v =
     bind_res (insist_in v work_ids [''work-items: barrier references unknown '', py_str (float_text w) v]) (\<lambda>_.
     let iid = the (as_str v) in
     bind_res (ancestors (deps_of rows) iid) (\<lambda>above.
     insist (gate \<in> set above) [iid, '': does not depend transitively on value gate '', gate]))"

text \<open>The gate and the items behind it.\<close>

definition check_barrier :: "world \<Rightarrow> string list \<Rightarrow> work_row list \<Rightarrow> pydict \<Rightarrow> (string \<times> string list) res" where
  "check_barrier w work_ids rows work_doc =
     (let gate = dget work_doc ''value_gate_id''; barrier = dget work_doc ''barrier_applies_to'' in
      bind_res (insist_in gate work_ids [''work-items: invalid value_gate_id'']) (\<lambda>_.
      bind_res (insist (is_list barrier \<and> barrier \<noteq> VList []) [''work-items: barrier_applies_to must be non-empty'']) (\<lambda>_.
      bind_res (for_each (check_barrier_item w work_ids rows (the (as_str gate))) (the (as_list barrier))) (\<lambda>_.
      Inr (the (as_str gate), strs_of (the (as_list barrier)))))))"

definition check_downstream :: "work_row list \<Rightarrow> pydict \<Rightarrow> string \<Rightarrow> string list \<Rightarrow> unit res" where
  "check_downstream rows value_gate gate barrier =
     bind_res (insist (dget value_gate ''gate_id'' = VStr gate) [''value-gate: gate_id differs from work-items value_gate_id'']) (\<lambda>_.
     bind_res (insist_in (dget value_gate ''status'') [''pending'', ''passed'', ''failed''] [''value-gate: invalid status'']) (\<lambda>_.
     insist (\<not> (list_ex (\<lambda>i. status_of rows i \<in> {Some ''ready'', Some ''complete''}) barrier \<and> status_of rows gate \<noteq> Some ''complete''))
       [''value-gate: downstream work is active before RUST-005 is complete'']))"

section \<open>The work items together\<close>

definition check_rows :: "world \<Rightarrow> (string list \<Rightarrow> string list) \<Rightarrow> pyval list \<Rightarrow> string list \<Rightarrow> work_row list \<Rightarrow> pydict \<Rightarrow> pydict \<Rightarrow> (string \<times> string list) res" where
  "check_rows w order contracts contract_ids rows work_doc value_gate =
     bind_res (visit_all (deps_of rows) [] [] (order (map row_id rows))) (\<lambda>_.
     bind_res (for_each (check_ready rows) rows) (\<lambda>_.
     bind_res (check_handoff_start rows) (\<lambda>_.
     bind_res (check_defect contracts rows) (\<lambda>_.
     bind_res (check_coverage contract_ids rows) (\<lambda>_.
     bind_res (check_barrier w (map row_id rows) rows work_doc) (\<lambda>(gate, barrier).
     bind_res (check_downstream rows value_gate gate barrier) (\<lambda>_. Inr (gate, barrier))))))))"

section \<open>What the checks of one item establish\<close>

lemma unique_ids_Inr:
  assumes "unique_ids items label = Inr ids"
  shows "distinct ids \<and> (\<forall>i \<in> set ids. fullmatch ID_RE i) \<and> map id_of items = ids \<and> list_all is_dict items"
proof -
  from assms obtain vals where v: "map_res (\<lambda>v. pget v ''id'') items = Inr vals" "list_all (str_such (fullmatch ID_RE)) vals" "distinct vals"
    "ids = strs_of vals" by (auto simp: unique_ids_def bind_res_eq_Inr)
  from all_str_such [OF v(2)] v(4) have s: "vals = map VStr ids" "\<forall>i \<in> set ids. fullmatch ID_RE i" by auto
  from v(1) have "list_all2 (\<lambda>v x. \<exists>d. v = VDict d \<and> x = dget d ''id'') items vals" by (simp add: map_res_Inr)
  then have "list_all2 (\<lambda>v i. is_dict v \<and> id_of v = i) items ids"
    unfolding s(1) list_all2_map2 by (rule list_all2_mono) (auto simp: id_of_def dest: sym)
  then have "map id_of items = ids" "list_all is_dict items" by (induction rule: list_all2_induct) auto
  with s v(3) show ?thesis by (simp add: distinct_map)
qed

lemma no_dangling_Inr:
  assumes "no_dangling w known vs parts = Inr u"
  shows "\<exists>ss. vs = map VStr ss \<and> set ss \<subseteq> set known"
proof -
  from assms have "list_all (str_such (\<lambda>s. s \<in> set known)) vs"
    by (auto simp: no_dangling_def Let_def bind_res_eq_Inr filter_empty_conv list_all_iff split: if_splits)
  from all_str_such [OF this] show ?thesis by auto
qed

definition row_ok :: "string list \<Rightarrow> string list \<Rightarrow> work_row \<Rightarrow> bool" where
  "row_ok contract_ids work_ids r \<longleftrightarrow>
     set (row_deps r) \<subseteq> set work_ids \<and> row_refs r \<noteq> [] \<and> set (row_refs r) \<subseteq> set contract_ids \<and>
     row_status r \<in> set WORK_STATUS \<and> row_class r \<in> {''required'', ''demand_driven''} \<and> (row_issues r \<longrightarrow> row_status r = ''blocked'')"

lemma work_item_Inr:
  assumes "work_item w contract_ids work_ids v = Inr r" "is_dict v"
  shows "row_id r = id_of v \<and> row_ok contract_ids work_ids r \<and> get_if_dict v ''status'' = VStr (row_status r)"
proof -
  from assms(2) obtain item where v: "v = VDict item" by (auto simp: is_dict_iff)
  from assms(1) obtain ds refs status demand where x: "dget item ''depends_on'' = VList ds" "dget item ''contracts'' = VList refs" "refs \<noteq> []"
    "no_dangling w work_ids ds [id_of v, '': dangling dependencies ''] = Inr ()"
    "no_dangling w contract_ids refs [id_of v, '': dangling contracts ''] = Inr ()"
    "dget item ''status'' = VStr status" "status \<in> set WORK_STATUS" "dget item ''demand_class'' = VStr demand" "demand \<in> {''required'', ''demand_driven''}"
    "check_blockers (id_of v) item = Inr ()"
    "r = \<lparr>row_id = id_of v, row_deps = strs_of ds, row_refs = strs_of refs, row_status = status, row_class = demand,
        row_issues = truthy (dget item ''blocking_issues'')\<rparr>"
    unfolding v work_item_def Let_def bind_res_eq_Inr insist_Inr insist_in_Inr is_list_iff by auto
  have "row_issues r \<Longrightarrow> status = ''blocked''"
    using x(6,10,11) by (auto simp: check_blockers_def Let_def has_key_def dget_def split: option.splits)
  with x(3,7,9,11) no_dangling_Inr [OF x(4)] no_dangling_Inr [OF x(5)] v x(6) show ?thesis by (auto simp: row_ok_def)
qed

lemma work_items_Inr:
  assumes "unique_ids work label = Inr work_ids" "map_res (work_item w contract_ids work_ids) work = Inr rows"
  shows "map row_id rows = work_ids \<and> distinct work_ids \<and> (\<forall>r \<in> set rows. row_ok contract_ids work_ids r)"
proof -
  note u = unique_ids_Inr [OF assms(1)]
  from assms(2) have "list_all2 (\<lambda>v r. work_item w contract_ids work_ids v = Inr r) work rows" by (simp add: map_res_Inr)
  then have "list_all2 (\<lambda>v r. is_dict v \<longrightarrow> row_id r = id_of v \<and> row_ok contract_ids work_ids r) work rows"
    by (rule list_all2_mono) (auto dest: work_item_Inr)
  then have "list_all is_dict work \<Longrightarrow> map row_id rows = map id_of work \<and> (\<forall>r \<in> set rows. row_ok contract_ids work_ids r)"
    by (induction rule: list_all2_induct) auto
  with u show ?thesis by simp
qed

lemma rows_closed:
  assumes "\<forall>r \<in> set rows. set (row_deps r) \<subseteq> set (map row_id rows)"
  shows "closed_deps (deps_of rows)"
proof -
  have "map_of (deps_of rows) d \<noteq> None" if "d \<in> set (map row_id rows)" for d
    using that by (auto simp: deps_of_def map_of_eq_None_iff image_image)
  with assms have "\<forall>r \<in> set rows. \<forall>d \<in> set (row_deps r). map_of (deps_of rows) d \<noteq> None" by blast
  then show ?thesis unfolding closed_deps_def list_all_iff by (simp add: deps_of_def)
qed

lemma deps_of_row:
  assumes "distinct (map row_id rows)" "r \<in> set rows"
  shows "map_of (deps_of rows) (row_id r) = Some (row_deps r)" "status_of rows (row_id r) = Some (row_status r)"
proof -
  have "distinct (map fst (deps_of rows))" "distinct (map fst (map (\<lambda>r. (row_id r, row_status r)) rows))"
    using assms(1) by (simp_all add: deps_of_def comp_def)
  with assms(2) show "map_of (deps_of rows) (row_id r) = Some (row_deps r)" "status_of rows (row_id r) = Some (row_status r)"
    unfolding status_of_def by (auto simp: deps_of_def intro!: map_of_is_SomeI)
qed

text \<open>C39: a list of work items that is accepted is well typed. Identifiers match the pattern of an
  identifier and are pairwise different; every item's dependencies are identifiers of the list and its
  contracts, at least one, identifiers of contracts; its status and demand class are among those declared,
  and only a blocked item has blocking issues. So the dependencies are a graph without dangling names.\<close>

theorem work_items_are_well_typed:
  assumes "unique_ids work label = Inr work_ids" and "map_res (work_item w contract_ids work_ids) work = Inr rows"
  shows "map row_id rows = work_ids \<and> distinct work_ids \<and> (\<forall>i \<in> set work_ids. fullmatch ID_RE i) \<and>
    (\<forall>r \<in> set rows. set (row_deps r) \<subseteq> set work_ids \<and> row_refs r \<noteq> [] \<and> set (row_refs r) \<subseteq> set contract_ids \<and>
       row_status r \<in> set WORK_STATUS \<and> row_class r \<in> {''required'', ''demand_driven''} \<and> (row_issues r \<longrightarrow> row_status r = ''blocked'')) \<and>
    closed_deps (deps_of rows)"
proof -
  from work_items_Inr [OF assms] have r: "map row_id rows = work_ids" "distinct work_ids" "\<forall>r \<in> set rows. row_ok contract_ids work_ids r" by auto
  then have "closed_deps (deps_of rows)" by (intro rows_closed) (auto simp: row_ok_def)
  with r unique_ids_Inr [OF assms(1)] show ?thesis by (simp add: row_ok_def)
qed

section \<open>What the checks of the plan establish\<close>

lemma check_barrier_Inr:
  assumes "check_barrier w work_ids rows work_doc = Inr (gate, barrier)" "closed_deps (deps_of rows)" "work_ids = map row_id rows"
  shows "dget work_doc ''value_gate_id'' = VStr gate \<and> gate \<in> set work_ids \<and> dget work_doc ''barrier_applies_to'' = VList (map VStr barrier) \<and>
    barrier \<noteq> [] \<and> set barrier \<subseteq> set work_ids \<and> (\<forall>i \<in> set barrier. (i, gate) \<in> (edges (deps_of rows))\<^sup>+)"
proof -
  from assms(1) obtain vs where x: "dget work_doc ''value_gate_id'' = VStr gate" "gate \<in> set work_ids" "dget work_doc ''barrier_applies_to'' = VList vs" "vs \<noteq> []"
    "\<forall>v \<in> set vs. check_barrier_item w work_ids rows gate v = Inr ()" "barrier = strs_of vs"
    unfolding check_barrier_def Let_def bind_res_eq_Inr insist_Inr insist_in_Inr is_list_iff by auto
  have each: "\<exists>i \<in> set work_ids. v = VStr i \<and> (i, gate) \<in> (edges (deps_of rows))\<^sup>+" if v: "v \<in> set vs" for v
  proof -
    from x(5) v obtain i above where i: "v = VStr i" "i \<in> set work_ids" "ancestors (deps_of rows) i = Inr above" "gate \<in> set above"
      unfolding check_barrier_item_def Let_def bind_res_eq_Inr insist_Inr insist_in_Inr by auto
    have "i \<in> fst ` set (deps_of rows)" using i(2) assms(3) by (force simp: deps_of_def)
    from ancestors_closure [OF assms(2) this] i show ?thesis by auto
  qed
  then have "list_all (str_such (\<lambda>i. i \<in> set work_ids \<and> (i, gate) \<in> (edges (deps_of rows))\<^sup>+)) vs"
    by (fastforce simp: list_all_iff)
  from all_str_such [OF this] obtain ss where "vs = map VStr ss" "\<forall>s \<in> set ss. s \<in> set work_ids \<and> (s, gate) \<in> (edges (deps_of rows))\<^sup>+" by blast
  with x show ?thesis by auto
qed

lemma check_ready_Inr:
  "check_ready rows r = Inr () \<Longrightarrow> (row_status r = ''ready'' \<longrightarrow> all_complete rows (row_deps r)) \<and>
    (row_status r = ''blocked'' \<and> \<not> row_issues r \<longrightarrow> \<not> all_complete rows (row_deps r))"
  by (auto simp: check_ready_def Let_def bind_res_eq_Inr)

text \<open>While nothing is complete, the start of the handoff is RUST-001 and nothing else.\<close>

lemma only_first_ready:
  assumes start: "check_handoff_start rows = Inr ()" and ids: "distinct (map row_id rows)" and n: "\<forall>r \<in> set rows. row_status r \<noteq> ''complete''"
  shows "\<forall>r \<in> set rows. row_status r = ''ready'' \<longleftrightarrow> row_id r = ''RUST-001''"
proof -
  have e: "ready_ids rows = [''RUST-001'']" using n start by (auto simp: check_handoff_start_def list_ex_iff)
  then have "''RUST-001'' \<in> set (ready_ids rows)" by simp
  then obtain q where q: "q \<in> set rows" "row_status q = ''ready''" "row_id q = ''RUST-001''" unfolding ready_ids_def by auto
  show ?thesis
  proof (intro ballI iffI)
    fix r assume a: "r \<in> set rows" "row_status r = ''ready''"
    then have "row_id r \<in> set (ready_ids rows)" by (auto simp: ready_ids_def)
    with e show "row_id r = ''RUST-001''" by simp
  next
    fix p assume a: "p \<in> set rows" "row_id p = ''RUST-001''"
    have "p = q" using a q ids by (metis distinct_map inj_on_def)
    with q show "row_status p = ''ready''" by simp
  qed
qed

text \<open>C10: accepted work items form a plan that can be carried out. Whatever order Python enumerates the
  identifiers in: the dependencies have no cycle; an item that is ready has only completed dependencies,
  and a blocked one without named issues has an incomplete one; every contract is covered by an item; the
  gate is an item, every item behind the barrier depends on it through one or more steps, and none of them
  is ready or complete unless the gate is complete. While nothing is complete, RUST-001 alone is ready.\<close>

theorem accepted_plan_can_be_carried_out:
  assumes "unique_ids work label = Inr work_ids" and "map_res (work_item w contract_ids work_ids) work = Inr rows"
    and "check_rows w order contracts contract_ids rows work_doc value_gate = Inr (gate, barrier)"
    and "set (order work_ids) = set work_ids"
  shows "acyclic (edges (deps_of rows)) \<and>
    (\<forall>r \<in> set rows. row_status r = ''ready'' \<longrightarrow> (\<forall>d \<in> set (row_deps r). status_of rows d = Some ''complete'')) \<and>
    (\<forall>r \<in> set rows. row_status r = ''blocked'' \<and> \<not> row_issues r \<longrightarrow> (\<exists>d \<in> set (row_deps r). status_of rows d \<noteq> Some ''complete'')) \<and>
    (\<forall>c \<in> set contract_ids. \<exists>r \<in> set rows. c \<in> set (row_refs r)) \<and>
    gate \<in> set work_ids \<and> (\<forall>i \<in> set barrier. (i, gate) \<in> (edges (deps_of rows))\<^sup>+) \<and>
    (\<forall>i \<in> set barrier. status_of rows i \<in> {Some ''ready'', Some ''complete''} \<longrightarrow> status_of rows gate = Some ''complete'') \<and>
    ((\<forall>r \<in> set rows. row_status r \<noteq> ''complete'') \<longrightarrow> (\<forall>r \<in> set rows. row_status r = ''ready'' \<longleftrightarrow> row_id r = ''RUST-001''))"
proof -
  from work_items_Inr [OF assms(1,2)] have r: "map row_id rows = work_ids" "distinct work_ids" "\<forall>r \<in> set rows. row_ok contract_ids work_ids r" by auto
  then have cl: "closed_deps (deps_of rows)" by (intro rows_closed) (auto simp: row_ok_def)
  from assms(3) obtain finished where c: "visit_all (deps_of rows) [] [] (order (map row_id rows)) = Inr finished"
    "\<forall>r \<in> set rows. check_ready rows r = Inr ()" "check_handoff_start rows = Inr ()" "check_coverage contract_ids rows = Inr ()"
    "check_barrier w (map row_id rows) rows work_doc = Inr (gate, barrier)" "check_downstream rows value_gate gate barrier = Inr ()"
    by (auto simp: check_rows_def bind_res_eq_Inr)
  have keys: "set (order (map row_id rows)) = fst ` set (deps_of rows)" using assms(4) r(1) by (force simp: deps_of_def)
  have ac: "acyclic (edges (deps_of rows))" using visit_all_decides [OF cl keys] c(1) by simp
  have ready: "\<forall>r \<in> set rows. (row_status r = ''ready'' \<longrightarrow> all_complete rows (row_deps r)) \<and>
      (row_status r = ''blocked'' \<and> \<not> row_issues r \<longrightarrow> \<not> all_complete rows (row_deps r))"
    using c(2) check_ready_Inr by simp
  have cov: "\<forall>c \<in> set contract_ids. \<exists>r \<in> set rows. c \<in> set (row_refs r)"
    using c(4) by (auto simp: check_coverage_def Let_def filter_empty_conv list_ex_iff)
  note b = check_barrier_Inr [OF c(5) cl refl]
  have down: "\<forall>i \<in> set barrier. status_of rows i \<in> {Some ''ready'', Some ''complete''} \<longrightarrow> status_of rows gate = Some ''complete''"
    using c(6) unfolding check_downstream_def bind_res_eq_Inr insist_Inr list_ex_iff by blast
  have start: "(\<forall>r \<in> set rows. row_status r \<noteq> ''complete'') \<longrightarrow> (\<forall>r \<in> set rows. row_status r = ''ready'' \<longleftrightarrow> row_id r = ''RUST-001'')"
    using only_first_ready [OF c(3)] r(1,2) by simp
  show ?thesis
    using ac ready cov b r(1) down start unfolding all_complete_def list_all_iff by blast
qed

section \<open>A concrete plan\<close>

definition sample_item :: "string \<Rightarrow> string list \<Rightarrow> string \<Rightarrow> pyval" where
  "sample_item i ds status = VDict [(''id'', VStr i), (''depends_on'', VList (map VStr ds)), (''contracts'', VList [VStr ''DEFECT-001'']),
     (''status'', VStr status), (''demand_class'', VStr ''required''), (''acceptance_commands'', VList [VStr ''make'']), (''stop_rule'', VStr ''stop'')]"

definition sample_work :: "pyval list" where
  "sample_work = [sample_item ''RUST-001'' [] ''ready'', sample_item ''RUST-005'' [''RUST-001''] ''blocked'', sample_item ''RUST-006'' [''RUST-005''] ''blocked'']"

definition sample_row :: "string \<Rightarrow> string list \<Rightarrow> string \<Rightarrow> work_row" where
  "sample_row i ds status = \<lparr>row_id = i, row_deps = ds, row_refs = [''DEFECT-001''], row_status = status, row_class = ''required'', row_issues = False\<rparr>"

definition sample_rows :: "work_row list" where
  "sample_rows = [sample_row ''RUST-001'' [] ''ready'', sample_row ''RUST-005'' [''RUST-001''] ''blocked'', sample_row ''RUST-006'' [''RUST-005''] ''blocked'']"

lemma sample_ids: "unique_ids sample_work ''work-items'' = Inr [''RUST-001'', ''RUST-005'', ''RUST-006'']"
proof -
  have "list_all (fullmatch ID_RE) [''RUST-001'', ''RUST-005'', ''RUST-006'']" by code_simp
  then show ?thesis by (simp add: unique_ids_def sample_work_def sample_item_def dget_def)
qed

lemma sample_items:
  "map_res (work_item sample_world [''DEFECT-001''] [''RUST-001'', ''RUST-005'', ''RUST-006'']) sample_work = Inr sample_rows"
proof -
  have "work_item sample_world [''DEFECT-001''] known (sample_item i ds status) = Inr (sample_row i ds status)"
    if "set ds \<subseteq> set known" "status \<in> set WORK_STATUS" for known i ds status
  proof -
    have f: "filter (\<lambda>v. \<not> str_such (\<lambda>s. s \<in> set known) v) (map VStr ds) = []" using that(1) by (auto simp: filter_empty_conv)
    have hs: "list_all hashable (map VStr ds)" by (auto simp: list_all_iff)
    show ?thesis
      using that(2) by (simp add: work_item_def sample_item_def sample_row_def dget_def id_of_def no_dangling_def f hs insist_in_def check_blockers_def has_key_def)
  qed
  then show ?thesis by (simp add: sample_work_def sample_rows_def WORK_STATUS_def)
qed

lemma work_items_are_well_typed_witness:
  "closed_deps (deps_of sample_rows) \<and> fullmatch ID_RE ''RUST-001'' \<and> fullmatch ID_RE ''RUST-005'' \<and> fullmatch ID_RE ''RUST-006''"
  using work_items_are_well_typed [OF sample_ids sample_items] by simp

definition sample_doc :: pydict where
  "sample_doc = [(''value_gate_id'', VStr ''RUST-005''), (''barrier_applies_to'', VList [VStr ''RUST-006''])]"

definition sample_value_gate :: pydict where
  "sample_value_gate = [(''gate_id'', VStr ''RUST-005''), (''status'', VStr ''pending'')]"

lemma sample_checks:
  "check_rows sample_world (\<lambda>xs. xs) [VDict [(''id'', VStr ''DEFECT-001''), (''status'', VStr ''fixture-ready'')]] [''DEFECT-001''] sample_rows
     sample_doc sample_value_gate = Inr (''RUST-005'', [''RUST-006''])"
proof -
  have d: "deps_of sample_rows = [(''RUST-001'', []), (''RUST-005'', [''RUST-001'']), (''RUST-006'', [''RUST-005''])]"
    by (simp add: deps_of_def sample_rows_def sample_row_def)
  have v: "visit_all (deps_of sample_rows) [] [] [''RUST-001'', ''RUST-005'', ''RUST-006''] = Inr [''RUST-006'', ''RUST-005'', ''RUST-001'']" by (simp add: d)
  have a: "ancestors (deps_of sample_rows) ''RUST-006'' = Inr [''RUST-001'', ''RUST-005'']" by (simp add: d ancestors_def)
  have i: "map row_id sample_rows = [''RUST-001'', ''RUST-005'', ''RUST-006'']" by (simp add: sample_rows_def sample_row_def)
  have st: "status_of sample_rows ''RUST-001'' = Some ''ready''" "status_of sample_rows ''RUST-005'' = Some ''blocked''" "status_of sample_rows ''RUST-006'' = Some ''blocked''"
    by (simp_all add: status_of_def sample_rows_def sample_row_def)
  have rd: "\<forall>r \<in> set sample_rows. check_ready sample_rows r = Inr ()"
    unfolding check_ready_def all_complete_def by (simp add: sample_rows_def sample_row_def status_of_def)
  have hs: "check_handoff_start sample_rows = Inr ()" by (simp add: check_handoff_start_def ready_ids_def sample_rows_def sample_row_def)
  have cv: "check_coverage [''DEFECT-001''] sample_rows = Inr ()" by (simp add: check_coverage_def sample_rows_def sample_row_def)
  have df: "check_defect [VDict [(''id'', VStr ''DEFECT-001''), (''status'', VStr ''fixture-ready'')]] sample_rows = Inr ()"
    by (simp add: check_defect_def id_of_def dget_def)
  have br: "check_barrier sample_world [''RUST-001'', ''RUST-005'', ''RUST-006''] sample_rows sample_doc = Inr (''RUST-005'', [''RUST-006''])"
    by (simp add: check_barrier_def sample_doc_def dget_def insist_in_def check_barrier_item_def a)
  have dn: "check_downstream sample_rows sample_value_gate ''RUST-005'' [''RUST-006''] = Inr ()"
    by (simp add: check_downstream_def sample_value_gate_def dget_def insist_in_def st)
  have fe: "for_each (check_ready sample_rows) sample_rows = Inr ()" using rd by simp
  show ?thesis unfolding check_rows_def i v fe hs cv df br bind_res_simps prod.case dn ..
qed

lemma accepted_plan_can_be_carried_out_witness:
  "acyclic (edges (deps_of sample_rows)) \<and> (''RUST-006'', ''RUST-005'') \<in> (edges (deps_of sample_rows))\<^sup>+"
  using accepted_plan_can_be_carried_out [OF sample_ids sample_items sample_checks] by simp

end
