(* ===== verification/HandoffMain.thy ===== *)
theory HandoffMain
  imports HandoffWork
begin

text \<open>
  The completed value gate and \<open>main\<close> of \<open>docs/rust-port/validate.py\<close>: the four documents, the schema
  versions, the checks in the order of the code, the plan document, and the exit code.
\<close>

section \<open>The evidence of a completed gate\<close>

text \<open>\<open>isinstance(v, int) and v >= n\<close>; \<open>isinstance(v, (int, float))\<close>.\<close>

definition int_at_least :: "int \<Rightarrow> pyval \<Rightarrow> bool" where
  "int_at_least n v = (case int_of v of None \<Rightarrow> False | Some k \<Rightarrow> n \<le> k)"

definition is_number :: "pyval \<Rightarrow> bool" where
  "is_number v = (num_of v \<noteq> None)"

text \<open>The floating-point number written \<open>1.1\<close>.\<close>

definition CEILING :: rat where
  "CEILING = 2476979795053773 / 2251799813685248"

definition all_truthy :: "string list \<Rightarrow> pydict \<Rightarrow> bool" where
  "all_truthy ks d = list_all (\<lambda>k. truthy (dget d k)) ks"

text \<open>\<open>not all(entry.get(key) for key in (...))\<close>\<close>

definition adopter_incomplete :: "pyval \<Rightarrow> bool res" where
  "adopter_incomplete v =
     (case v of VDict d \<Rightarrow> Inr (\<not> all_truthy [''repository'', ''commit'', ''crate'', ''exact_pin''] d) | _ \<Rightarrow> Inl AttributeError)"

definition check_basis :: "pydict \<Rightarrow> int \<Rightarrow> unit res" where
  "check_basis evidence minimum =
     (if dget evidence ''basis'' = VStr ''rust_adoption'' then
        bind_res (iter_items (dget_or evidence ''adopters'' (VList []))) (\<lambda>adopters.
        bind_res (set_size (map (\<lambda>v. get_if_dict v ''repository'') (filter is_dict adopters))) (\<lambda>n.
        bind_res (if n < minimum then Inr True else any_res adopter_incomplete adopters) (\<lambda>bad.
        insist (\<not> bad) [''value-gate: insufficient reproducible Rust adopter evidence''])))
      else if dget evidence ''basis'' = VStr ''cross_language_ssot'' then
        bind_res (iter_items (dget_or evidence ''cross_language_ssot_languages'' (VList []))) (\<lambda>languages.
        bind_res (set_size languages) (\<lambda>n.
        insist (minimum \<le> n) [''value-gate: insufficient cross-language SSOT evidence'']))
      else insist False [''value-gate: passed evidence needs a valid basis''])"

definition check_duplication :: "pydict \<Rightarrow> unit res" where
  "check_duplication evidence =
     bind_res (pget (dget_or evidence ''duplication'' (VDict [])) ''corekit_loc_added'') (\<lambda>added.
     let d = the (as_dict (dget_or evidence ''duplication'' (VDict [])));
         adapters = dget d ''adapter_loc_added''; removed = dget d ''duplicate_loc_removed'' in
     bind_res (insist (list_all (int_at_least 0) [added, adapters, removed])
       [''value-gate: duplication measurements must be non-negative integers'']) (\<lambda>_.
     insist (the (int_of added) + the (int_of adapters) \<le> the (int_of removed) \<and> truthy (dget d ''measured_from_commits''))
       [''value-gate: duplicate-removal rule or commit provenance failed'']))"

definition metric_ok :: "pyval \<Rightarrow> bool" where
  "metric_ok v =
     (case v of VDict d \<Rightarrow> all_truthy [''repository'', ''workload'', ''baseline_commit'', ''candidate_commit''] d \<and>
        int_at_least 10 (dget d ''runs'') \<and> is_number (dget d ''maximum_regression_ratio'') | _ \<Rightarrow> False)"

definition ratio_of :: "pyval \<Rightarrow> rat" where
  "ratio_of v = the (num_of (get_if_dict v ''maximum_regression_ratio''))"

definition check_metrics :: "pydict \<Rightarrow> pydict \<Rightarrow> int \<Rightarrow> pyval \<Rightarrow> unit res" where
  "check_metrics requirements evidence minimum metrics =
     (let ceiling = dget requirements ''maximum_regression_ratio''; exception = dget evidence ''security_exception'' in
      bind_res (insist (is_number ceiling \<and> the (num_of ceiling) \<le> CEILING) [''value-gate: invalid regression ceiling'']) (\<lambda>_.
      bind_res (py_len metrics) (\<lambda>n.
      bind_res (if n < minimum then Inr [] else iter_items metrics) (\<lambda>entries.
      bind_res (insist (minimum \<le> n \<and> list_all metric_ok entries) [''value-gate: insufficient reproducible consumer metrics'']) (\<lambda>_.
      insist (list_ex (\<lambda>e. the (num_of ceiling) < ratio_of e) entries \<longrightarrow> truthy (get_if_dict exception ''issue_url''))
        [''value-gate: regression ceiling exceeded without tracked security exception''])))))"

definition smoke_ok :: "pyval \<Rightarrow> bool" where
  "smoke_ok v = (truthy (get_if_dict v ''repository'') \<and> get_if_dict v ''passed'' = VBool True)"

definition check_smokes :: "int \<Rightarrow> pyval \<Rightarrow> unit res" where
  "check_smokes minimum smokes =
     bind_res (py_len smokes) (\<lambda>n.
     bind_res (if n < minimum then Inr [] else iter_items smokes) (\<lambda>entries.
     insist (minimum \<le> n \<and> list_all smoke_ok entries) [''value-gate: standalone smoke evidence is incomplete'']))"

definition check_completed_gate :: "handoff \<Rightarrow> pydict \<Rightarrow> unit res" where
  "check_completed_gate h value_gate =
     bind_res (insist (dget value_gate ''status'' = VStr ''passed'' \<and> dget value_gate ''decision'' = VStr ''continue'')
       [''value-gate: completed RUST-005 requires a passed continue decision'']) (\<lambda>_.
     bind_res (pget (dget_or value_gate ''evidence'' (VDict [])) ''basis'') (\<lambda>_.
     bind_res (pget (dget_or value_gate ''requirements'' (VDict [])) ''minimum_independent_adopters_or_languages'') (\<lambda>least.
     let evidence = the (as_dict (dget_or value_gate ''evidence'' (VDict [])));
         requirements = the (as_dict (dget_or value_gate ''requirements'' (VDict [])));
         metrics = dget_or evidence ''consumer_metrics'' (VList []); smokes = dget_or evidence ''standalone_smokes'' (VList []);
         minimum = the (int_of least) in
     bind_res (insist (int_at_least 2 least) [''value-gate: invalid minimum adoption requirement'']) (\<lambda>_.
     bind_res (check_basis evidence minimum) (\<lambda>_.
     bind_res (check_duplication evidence) (\<lambda>_.
     bind_res (read_json h (join_path (repo h) FOUNDATION_JSON)) (\<lambda>benchmark.
     bind_res (check_metrics requirements evidence minimum metrics) (\<lambda>_.
     bind_res (check_smokes minimum smokes) (\<lambda>_.
     validate_gate_benchmark_binding metrics smokes benchmark)))))))))"

section \<open>\<open>main\<close>\<close>

definition load :: "handoff \<Rightarrow> string \<Rightarrow> pyval res" where
  "load h name = read_json h (ROOT_DIR h @ [name])"

definition check_schema :: "string \<times> pyval \<Rightarrow> unit res" where
  "check_schema x =
     (case x of (label, doc) \<Rightarrow> bind_res (pget doc ''schema_version'') (\<lambda>v. insist (py_eq v (VInt 1)) [label, '': unsupported schema_version'']))"

text \<open>The oracle commit, the same in the three documents, with the digest and the count of its inputs.\<close>

definition check_oracle :: "handoff \<Rightarrow> pydict \<Rightarrow> pydict \<Rightarrow> pydict \<Rightarrow> string res" where
  "check_oracle h baseline matrix work_doc =
     bind_res (pget (dget_or baseline ''oracle'' (VDict [])) ''commit'') (\<lambda>c.
     bind_res (insist (str_such (fullmatch HEX40) c) [''baseline: oracle commit must be 40 lowercase hex characters'']) (\<lambda>_.
     bind_res (insist (dget matrix ''oracle_commit'' = c \<and> dget work_doc ''oracle_commit'' = c)
       [''oracle commit differs across baseline, contract matrix and work items'']) (\<lambda>_.
     bind_res (oracle_digest h (the (as_str c))) (\<lambda>(digest, input_count).
     let oracle = the (as_dict (dget baseline ''oracle'')) in
     bind_res (insist (dget oracle ''tracked_input_digest_sha256'' = VStr digest)
       [''baseline: tracked production/fixture digest does not match oracle commit'']) (\<lambda>_.
     bind_res (insist (py_eq (dget oracle ''tracked_input_files'') (VInt input_count))
       [''baseline: tracked production/fixture file count does not match oracle commit'']) (\<lambda>_.
     Inr (the (as_str c))))))))"

definition check_plan_sections :: "handoff \<Rightarrow> string list \<Rightarrow> unit res" where
  "check_plan_sections h work_ids =
     bind_res (read_text (disk h) (ROOT_DIR h @ [''implementation-plan.md''])) (\<lambda>plan.
     for_each (\<lambda>i. insist (contains (msg [''## '', i, '':'']) plan) [''implementation-plan.md: missing section for '', i]) (sort work_ids))"

text \<open>Contracts and work items; the result is the number of contracts, of items, of Go test patterns and of ready items.\<close>

definition check_work :: "handoff \<Rightarrow> (string list \<Rightarrow> string list) \<Rightarrow> string \<Rightarrow> pydict \<Rightarrow> pydict \<Rightarrow> pydict \<Rightarrow> (int list \<times> string list) res" where
  "check_work h order commit matrix work_doc value_gate =
     (let contracts = dget matrix ''contracts''; work = dget work_doc ''items'' in
      bind_res (insist (is_list contracts \<and> is_list work) [''contracts/items must be arrays'']) (\<lambda>_.
      let cs = the (as_list contracts); ws = the (as_list work) in
      bind_res (unique_ids cs ''contract-matrix'') (\<lambda>contract_ids.
      bind_res (unique_ids ws ''work-items'') (\<lambda>work_ids.
      bind_res (for_each (check_contract (disk h)) cs) (\<lambda>_.
      bind_res (validate_go_oracles h commit (oracle_rows cs)) (\<lambda>checked.
      bind_res (map_res (work_item (disk h) contract_ids work_ids) ws) (\<lambda>rows.
      bind_res (validate_consumer_local_routing h ws rows cs) (\<lambda>_.
      bind_res (check_rows (disk h) order cs contract_ids rows work_doc value_gate) (\<lambda>(gate, barrier).
      bind_res (if status_of rows gate = Some ''complete'' then check_completed_gate h value_gate else Inr ()) (\<lambda>_.
      Inr ([int (length contract_ids), int (length work_ids), checked, int (length (ready_ids rows))], work_ids)))))))))))"

definition report_line :: "int list \<Rightarrow> string" where
  "report_line ns = msg [''ok: '', str_int (ns ! 0), '' contracts, '', str_int (ns ! 1), '' work items, '',
     str_int (ns ! 2), '' Go test patterns, '', str_int (ns ! 3), '' ready item(s), acyclic DAG, value barrier and links valid'']"

definition validate_main :: "handoff \<Rightarrow> (string list \<Rightarrow> string list) \<Rightarrow> string res" where
  "validate_main h order =
     bind_res (load h ''baseline.json'') (\<lambda>baseline.
     bind_res (load h ''contract-matrix.json'') (\<lambda>matrix.
     bind_res (load h ''value-gate.json'') (\<lambda>value_gate.
     bind_res (load h ''work-items.json'') (\<lambda>work_doc.
     bind_res (for_each check_schema [(''baseline'', baseline), (''contract-matrix'', matrix), (''value-gate'', value_gate), (''work-items'', work_doc)]) (\<lambda>_.
     let b = the (as_dict baseline); m = the (as_dict matrix); v = the (as_dict value_gate); w = the (as_dict work_doc) in
     bind_res (validate_integrity h v) (\<lambda>_.
     bind_res (check_oracle h b m w) (\<lambda>commit.
     bind_res (validate_consumer_demand h b commit) (\<lambda>_.
     bind_res (validate_rust001_artifacts h b) (\<lambda>_.
     bind_res (check_work h order commit m w v) (\<lambda>(ns, work_ids).
     bind_res (check_plan_sections h work_ids) (\<lambda>_.
     bind_res (validate_links h) (\<lambda>_. Inr (report_line ns)))))))))))))"

text \<open>The module run as a program: what is caught is an exit code of one and a message, what is not is
  the exception itself.\<close>

definition is_process_error :: "pyexc \<Rightarrow> bool" where
  "is_process_error e = (case e of ProcessFailed _ \<Rightarrow> True | _ \<Rightarrow> False)"

definition program :: "handoff \<Rightarrow> (string list \<Rightarrow> string list) \<Rightarrow> (int \<times> string) res" where
  "program h order =
     (case validate_main h order of
        Inr line \<Rightarrow> Inr (0, line)
      | Inl e \<Rightarrow> if is_os_error e \<or> is_value_error e \<or> is_process_error e then Inr (1, msg [''error: '', exc_text e]) else Inl e)"

section \<open>What a completed gate establishes\<close>

lemma int_at_least_iff: "int_at_least n v \<longleftrightarrow> (\<exists>k. int_of v = Some k \<and> n \<le> k)"
  by (cases "int_of v") (auto simp: int_at_least_def simp del: int_of_None)

lemma metric_ok_iff:
  "metric_ok v \<longleftrightarrow> (\<exists>d runs r. v = VDict d \<and> all_truthy [''repository'', ''workload'', ''baseline_commit'', ''candidate_commit''] d \<and>
     int_of (dget d ''runs'') = Some runs \<and> 10 \<le> runs \<and> num_of (dget d ''maximum_regression_ratio'') = Some r)"
  by (cases v) (auto simp: metric_ok_def int_at_least_iff is_number_def)

lemma metrics_list:
  "py_len m = Inr n \<Longrightarrow> iter_items m = Inr es \<Longrightarrow> list_all is_dict es \<Longrightarrow> 0 < n \<Longrightarrow> m = VList es \<and> n = int (length es)"
  by (cases m; cases es) (auto simp: keys_def)

lemma entries_of:
  assumes "py_len m = Inr n" "(if n < k then Inr [] else iter_items m) = Inr es" "k \<le> n" "list_all is_dict es" "2 \<le> k"
  shows "m = VList es \<and> k \<le> int (length es)"
  using assms metrics_list [of m n es] by auto


section \<open>A completed gate\<close>

definition sample_metric :: "string \<Rightarrow> pyval" where
  "sample_metric name = VDict [(''repository'', VStr name), (''workload'', VStr ''startup''), (''baseline_commit'', VStr ''a''),
     (''candidate_commit'', VStr ''b''), (''runs'', VInt 10), (''maximum_regression_ratio'', VFloat 1)]"

definition sample_smoke :: "string \<Rightarrow> pyval" where
  "sample_smoke name = VDict [(''repository'', VStr name), (''passed'', VBool True)]"

definition passed_gate :: pydict where
  "passed_gate = [(''status'', VStr ''passed''), (''decision'', VStr ''continue''),
     (''requirements'', VDict [(''minimum_independent_adopters_or_languages'', VInt 2), (''maximum_regression_ratio'', VFloat CEILING)]),
     (''evidence'', VDict [(''basis'', VStr ''cross_language_ssot''), (''cross_language_ssot_languages'', VList [VStr ''go'', VStr ''rust'']),
        (''duplication'', VDict [(''corekit_loc_added'', VInt 10), (''adapter_loc_added'', VInt 5), (''duplicate_loc_removed'', VInt 20), (''measured_from_commits'', VBool True)]),
        (''consumer_metrics'', VList [sample_metric ''vault'', sample_metric ''brain'']), (''standalone_smokes'', VList [sample_smoke ''vault'', sample_smoke ''brain''])])]"

definition passed_handoff :: handoff where
  "passed_handoff = sample_handoff\<lparr>disk := sample_world\<lparr>json_loads := \<lambda>_. Inr (VDict [(''measurements'', VList [sample_metric ''vault'', sample_metric ''brain'']),
     (''standalone_smokes'', VList [sample_smoke ''vault'', sample_smoke ''brain''])])\<rparr>\<rparr>"

lemma passed_gate_accepted: "check_completed_gate passed_handoff passed_gate = Inr ()"
proof -
  obtain evidence requirements where e: "dget_or passed_gate ''evidence'' (VDict []) = VDict evidence"
    "dget_or passed_gate ''requirements'' (VDict []) = VDict requirements"
    "dget requirements ''minimum_independent_adopters_or_languages'' = VInt 2" "dget requirements ''maximum_regression_ratio'' = VFloat CEILING"
    "dget evidence ''basis'' = VStr ''cross_language_ssot''" "dget_or evidence ''cross_language_ssot_languages'' (VList []) = VList [VStr ''go'', VStr ''rust'']"
    "dget_or evidence ''duplication'' (VDict []) = VDict [(''corekit_loc_added'', VInt 10), (''adapter_loc_added'', VInt 5), (''duplicate_loc_removed'', VInt 20), (''measured_from_commits'', VBool True)]"
    "dget_or evidence ''consumer_metrics'' (VList []) = VList [sample_metric ''vault'', sample_metric ''brain'']"
    "dget_or evidence ''standalone_smokes'' (VList []) = VList [sample_smoke ''vault'', sample_smoke ''brain'']"
    by (simp add: passed_gate_def dget_def dget_or_def)
  have s: "dget passed_gate ''status'' = VStr ''passed''" "dget passed_gate ''decision'' = VStr ''continue''"
    by (simp_all add: passed_gate_def dget_def)
  have basis: "check_basis evidence 2 = Inr ()" by (simp add: check_basis_def e set_size_def)
  have dup: "check_duplication evidence = Inr ()" by (simp add: check_duplication_def e int_at_least_iff dget_def)
  have m: "metric_ok (sample_metric n)" "ratio_of (sample_metric n) = 1" if "n \<noteq> []" for n
    using that by (simp_all add: metric_ok_iff sample_metric_def all_truthy_def dget_def ratio_of_def)
  have "check_metrics requirements evidence 2 (VList [sample_metric ''vault'', sample_metric ''brain'']) = Inr ()"
    by (simp add: check_metrics_def e m is_number_def) (simp add: CEILING_def)
  moreover have "check_smokes 2 (VList [sample_smoke ''vault'', sample_smoke ''brain'']) = Inr ()"
    by (simp add: check_smokes_def smoke_ok_def sample_smoke_def dget_def)
  moreover have "read_json passed_handoff p = Inr (VDict [(''measurements'', VList [sample_metric ''vault'', sample_metric ''brain'']),
     (''standalone_smokes'', VList [sample_smoke ''vault'', sample_smoke ''brain''])])" for p
    by (simp add: read_json_def read_text_def passed_handoff_def sample_handoff_def sample_world_def)
  moreover have "validate_gate_benchmark_binding (VList [sample_metric ''vault'', sample_metric ''brain'']) (VList [sample_smoke ''vault'', sample_smoke ''brain''])
     (VDict [(''measurements'', VList [sample_metric ''vault'', sample_metric ''brain'']), (''standalone_smokes'', VList [sample_smoke ''vault'', sample_smoke ''brain''])]) = Inr ()"
  proof -
    have p: "pick METRIC_FIELDS (the (as_dict (sample_metric n))) = sample_metric n" "pick [''repository'', ''passed''] (the (as_dict (sample_smoke n))) = sample_smoke n"
      "is_dict (sample_metric n)" "is_dict (sample_smoke n)" "wf_val (sample_metric n)" "wf_val (sample_smoke n)" for n
      by (simp_all add: pick_def METRIC_FIELDS_def sample_metric_def sample_smoke_def dget_def)
    show ?thesis by (simp add: validate_gate_benchmark_binding_def dget_or_def picked_def p py_eq_refl)
  qed
  ultimately show ?thesis
    by (simp add: check_completed_gate_def s e(1-3) basis dup e(8,9) int_at_least_iff)
qed


end
