(* ===== verification/WinProcess.thy ===== *)
theory WinProcess
  imports PosixProcess
begin

text \<open>
  The Windows side of \<open>scripts/rust-port/bounded_oracle_process.py\<close>: owned handles
  (\<open>_close_owned_handle\<close>, \<open>_close_popen_process_handle\<close>), the inventory of the Job (\<open>retain_job_members\<close>,
  \<open>wait_job_empty\<close>), the primary thread (\<open>primary_thread_id\<close>, \<open>resume_primary\<close>), the cleanup and the run
  (\<open>_windows_cleanup\<close>, \<open>_run_windows\<close>).

  As on the POSIX side the system answers from scripts, one queue per call, and every call is an event of
  the trace. A handle is owned from the event that opens it to the event that closes it; the trace then
  says whether a handle is used after it was closed, closed twice or left open.
\<close>

section \<open>The system\<close>

datatype wevent =
    Opened nat
  | CloseTried nat bool
  | Asked "nat list"
  | LeaderAsked

datatype ids_answer = MoreData | IdsFailed string | Listed nat nat "nat list"

datatype open_answer = HandleOf nat | Gone | OpenFailed string

datatype scan_answer = FirstFailed string | Threads "(nat \<times> nat) list" nat string

record win_host =
  job_creates :: "(string + nat) list"
  job_configs :: "string option list"
  job_assigns :: "string option list"
  snapshots :: "(string + nat) list"
  scans :: "scan_answer list"
  thread_opens :: "(string + nat) list"
  resumes :: "nat list"
  handle_closes :: "string option list"
  totals :: "(string + nat) list"
  id_queries :: "ids_answer list"
  member_opens :: "open_answer list"
  in_jobs :: "(string + bool) list"
  member_waits :: "(string + bool) list"
  actives :: "(string + nat) list"
  time_left :: "bool list"
  leader_polls :: "(string + int option) list"
  terminates :: "string option list"
  direct_kills :: "string option list"
  leader_waits :: "wait_answer list"
  reader_joins :: "bool list"
  wtrace :: "wevent list"

definition note_event :: "wevent \<Rightarrow> win_host \<Rightarrow> win_host" where
  "note_event e h = h\<lparr>wtrace := wtrace h @ [e]\<rparr>"

text \<open>The process as \<open>Popen\<close> keeps it; \<open>_handle\<close> is \<open>None\<close> once it is closed.\<close>

record win_proc =
  win_pid :: nat
  win_handle :: "nat option"
  win_code :: "int option"
  win_pipes :: "pipe option list"

section \<open>Owned handles\<close>

definition close_handle :: "nat \<Rightarrow> win_host \<Rightarrow> string option \<times> win_host" where
  "close_handle x h =
     (let a = next_answer None (handle_closes h) in (a, note_event (CloseTried x (a = None)) (h\<lparr>handle_closes := tl (handle_closes h)\<rparr>)))"

text \<open>A second attempt after the first failure; the first failure is what is reported.\<close>

definition close_owned_handle :: "string \<Rightarrow> nat \<Rightarrow> win_host \<Rightarrow> bool \<times> string list \<times> win_host" where
  "close_owned_handle label x h =
     (case close_handle x h of
        (None, h1) \<Rightarrow> (True, [], h1)
      | (Some first_error, h1) \<Rightarrow>
          (case close_handle x h1 of
             (None, h2) \<Rightarrow> (True, [msg [label, '' CloseHandle first attempt failed: '', first_error]], h2)
           | (Some _, h2) \<Rightarrow> (False, [msg [label, '' CloseHandle failed after retry: '', first_error]], h2)))"

definition close_popen_process_handle :: "win_proc \<Rightarrow> win_host \<Rightarrow> bool \<times> string list \<times> win_proc \<times> win_host" where
  "close_popen_process_handle p h =
     (case win_handle p of
        None \<Rightarrow> (True, [], p, h)
      | Some x \<Rightarrow> (case close_owned_handle ''process'' x h of
          (b, errs, h1) \<Rightarrow> (b, errs, if b then p\<lparr>win_handle := None\<rparr> else p, h1)))"

section \<open>The Job\<close>

definition create_job :: "win_host \<Rightarrow> nat res \<times> win_host" where
  "create_job h =
     (let h' = h\<lparr>job_creates := tl (job_creates h)\<rparr> in
      case next_answer (Inr 1) (job_creates h) of Inl m \<Rightarrow> (Inl (OSError m), h') | Inr j \<Rightarrow> (Inr j, note_event (Opened j) h'))"

definition configure_job :: "nat \<Rightarrow> win_host \<Rightarrow> unit res \<times> win_host" where
  "configure_job j h =
     (case next_answer None (job_configs h) of None \<Rightarrow> Inr () | Some m \<Rightarrow> Inl (OSError m), note_event (Asked [j]) (h\<lparr>job_configs := tl (job_configs h)\<rparr>))"

definition assign_job :: "nat \<Rightarrow> nat \<Rightarrow> win_host \<Rightarrow> unit res \<times> win_host" where
  "assign_job j x h =
     (case next_answer None (job_assigns h) of None \<Rightarrow> Inr () | Some m \<Rightarrow> Inl (OSError m), note_event (Asked [j, x]) (h\<lparr>job_assigns := tl (job_assigns h)\<rparr>))"

definition total_processes :: "nat \<Rightarrow> win_host \<Rightarrow> (string + nat) \<times> win_host" where
  "total_processes j h = (next_answer (Inr 1) (totals h), note_event (Asked [j]) (h\<lparr>totals := tl (totals h)\<rparr>))"

definition active_processes :: "nat \<Rightarrow> win_host \<Rightarrow> (string + nat) \<times> win_host" where
  "active_processes j h = (next_answer (Inr 0) (actives h), note_event (Asked [j]) (h\<lparr>actives := tl (actives h)\<rparr>))"

definition terminate_job :: "nat \<Rightarrow> win_host \<Rightarrow> string option \<times> win_host" where
  "terminate_job j h = (next_answer None (terminates h), note_event (Asked [j]) (h\<lparr>terminates := tl (terminates h)\<rparr>))"

text \<open>\<open>wait_job_empty\<close>: the script says, round by round, whether the deadline is still ahead.\<close>

function wait_job_empty :: "nat \<Rightarrow> win_host \<Rightarrow> (string + bool) \<times> win_host" where
  "wait_job_empty j h =
     (case active_processes j h of
        (Inl m, h1) \<Rightarrow> (Inl m, h1)
      | (Inr n, h1) \<Rightarrow>
          if n = 0 then (Inr True, h1)
          else (case time_left h of
              True # ts \<Rightarrow> wait_job_empty j (h1\<lparr>time_left := ts\<rparr>)
            | ts \<Rightarrow> (Inr False, h1\<lparr>time_left := tl ts\<rparr>)))"
  by pat_completeness auto

termination
  by (relation "measure (\<lambda>(_, h). length (time_left h))") (auto simp: active_processes_def note_event_def)

declare wait_job_empty.simps [simp del]

text \<open>One process of the inventory: its handle joins the list the caller owns before it is examined, and
  leaves it where the process is not a member and its handle is closed.\<close>

definition retain_member :: "nat \<Rightarrow> nat \<Rightarrow> nat list \<Rightarrow> win_host \<Rightarrow> unit res \<times> nat list \<times> win_host" where
  "retain_member j process members h =
     (let h1 = h\<lparr>member_opens := tl (member_opens h)\<rparr> in
      case next_answer Gone (member_opens h) of
        Gone \<Rightarrow> (Inr (), members, h1)
      | OpenFailed m \<Rightarrow> (Inl (OSError m), members, h1)
      | HandleOf x \<Rightarrow>
          let h2 = note_event (Asked [x, j]) (note_event (Opened x) (h1\<lparr>in_jobs := tl (in_jobs h1)\<rparr>)); owned = members @ [x] in
          (case next_answer (Inr True) (in_jobs h1) of
             Inl m \<Rightarrow> (Inl (OSError m), owned, h2)
           | Inr True \<Rightarrow> (Inr (), owned, h2)
           | Inr False \<Rightarrow>
               (case close_owned_handle ''non-member identity'' x h2 of
                  (b, errs, h3) \<Rightarrow> (if errs = [] then Inr () else Inl (OSError (join ''; '' errs)), if b then members else owned, h3))))"

fun retain_members :: "nat \<Rightarrow> nat list \<Rightarrow> nat list \<Rightarrow> win_host \<Rightarrow> unit res \<times> nat list \<times> win_host" where
  "retain_members j [] members h = (Inr (), members, h)"
| "retain_members j (process # processes) members h =
     (case retain_member j process members h of
        (Inl e, members', h') \<Rightarrow> (Inl e, members', h')
      | (Inr _, members', h') \<Rightarrow> retain_members j processes members' h')"

text \<open>The capacity starts at 64 and doubles; it is never zero.\<close>

function retain_job_members :: "nat \<Rightarrow> nat \<Rightarrow> win_host \<Rightarrow> unit res \<times> nat list \<times> win_host" where
  "retain_job_members j capacity h =
     (if capacity = 0 \<or> 4096 < capacity then (Inl (OSError ''private Job identity inventory exceeds 4096-process bound''), [], h)
      else let h1 = note_event (Asked [j]) (h\<lparr>id_queries := tl (id_queries h)\<rparr>) in
        (case next_answer (Listed 0 0 []) (id_queries h) of
           MoreData \<Rightarrow> retain_job_members j (2 * capacity) h1
         | IdsFailed m \<Rightarrow> (Inl (OSError m), [], h1)
         | Listed assigned listed ids \<Rightarrow>
             if capacity < listed \<or> capacity < assigned then retain_job_members j (2 * capacity) h1
             else retain_members j (take listed ids) [] h1))"
  by pat_completeness auto

termination
  by (relation "measure (\<lambda>(_, capacity, _). 4097 - capacity)") auto

declare retain_job_members.simps [simp del]

section \<open>The primary thread\<close>

datatype setup_error = OwnedHandleError string | SetupError pyexc

text \<open>The scan of a snapshot: the threads of the process, or the failure of a call.\<close>

definition scan_threads :: "nat \<Rightarrow> scan_answer \<Rightarrow> nat list res" where
  "scan_threads process a =
     (case a of
        FirstFailed m \<Rightarrow> Inl (OSError m)
      | Threads entries last_error m \<Rightarrow>
          if last_error \<in> {0, 18} then Inr (map snd (filter (\<lambda>(owner, _). owner = process) entries)) else Inl (OSError m))"

text \<open>The handle is closed in a \<open>finally\<close>: an exception of the scan passes through it, and the checks of
  whether it was closed, which stand behind, are not reached.\<close>

definition primary_thread_id :: "nat \<Rightarrow> win_host \<Rightarrow> (setup_error + nat) \<times> win_host" where
  "primary_thread_id process h =
     (case next_answer (Inr 0) (snapshots h) of
        Inl m \<Rightarrow> (Inl (SetupError (OSError m)), h\<lparr>snapshots := tl (snapshots h)\<rparr>)
      | Inr s \<Rightarrow>
          let h1 = note_event (Asked [s]) (note_event (Opened s) (h\<lparr>snapshots := tl (snapshots h), scans := tl (scans h)\<rparr>)) in
          (case close_owned_handle ''thread snapshot'' s h1 of (snapshot_closed, errs, h2) \<Rightarrow>
           case scan_threads process (next_answer (Threads [(process, 1)] 0 []) (scans h)) of
             Inl e \<Rightarrow> (Inl (SetupError e), h2)
           | Inr thread_ids \<Rightarrow>
               if \<not> snapshot_closed then (Inl (OwnedHandleError ''thread snapshot handle remained open after retry''), h2)
               else if errs \<noteq> [] then (Inl (SetupError (OSError (join ''; '' errs))), h2)
               else (case thread_ids of
                   [t] \<Rightarrow> (Inr t, h2)
                 | _ \<Rightarrow> (Inl (SetupError (OSError (msg [''expected one suspended primary thread for pid '', str_nat process, '', found '', str_nat (length thread_ids)]))), h2))))"

definition resume_result :: "nat \<Rightarrow> unit res" where
  "resume_result previous =
     (if previous = 4294967295 then Inl (OSError ''ResumeThread failed'')
      else if previous \<noteq> 1 then Inl (OSError (msg [''unexpected primary-thread suspend count: '', str_nat previous])) else Inr ())"

definition resume_primary :: "nat \<Rightarrow> win_host \<Rightarrow> (setup_error + unit) \<times> win_host" where
  "resume_primary thread_id h =
     (case next_answer (Inr 0) (thread_opens h) of
        Inl m \<Rightarrow> (Inl (SetupError (OSError m)), h\<lparr>thread_opens := tl (thread_opens h)\<rparr>)
      | Inr t \<Rightarrow>
          let h1 = note_event (Asked [t]) (note_event (Opened t) (h\<lparr>thread_opens := tl (thread_opens h), resumes := tl (resumes h)\<rparr>)) in
          (case close_owned_handle ''primary thread'' t h1 of (thread_closed, errs, h2) \<Rightarrow>
           case resume_result (next_answer 1 (resumes h)) of
             Inl e \<Rightarrow> (Inl (SetupError e), h2)
           | Inr _ \<Rightarrow>
               if \<not> thread_closed then (Inl (OwnedHandleError ''primary thread handle remained open after retry''), h2)
               else if errs \<noteq> [] then (Inl (SetupError (OSError (join ''; '' errs))), h2) else (Inr (), h2)))"

section \<open>Cleanup\<close>

definition kill_process :: "win_host \<Rightarrow> string option \<times> win_host" where
  "kill_process h = (next_answer None (direct_kills h), note_event LeaderAsked (h\<lparr>direct_kills := tl (direct_kills h)\<rparr>))"

text \<open>\<open>poll()\<close> and \<open>wait()\<close> answer at once where the return code is known, and remember it.\<close>

definition poll_leader :: "win_proc \<Rightarrow> win_host \<Rightarrow> (string + bool) \<times> win_proc \<times> win_host" where
  "poll_leader p h =
     (if win_code p \<noteq> None then (Inr False, p, h)
      else let h1 = note_event LeaderAsked (h\<lparr>leader_polls := tl (leader_polls h)\<rparr>) in
        (case next_answer (Inr None) (leader_polls h) of
           Inl m \<Rightarrow> (Inl m, p, h1)
         | Inr None \<Rightarrow> (Inr True, p, h1)
         | Inr (Some r) \<Rightarrow> (Inr False, p\<lparr>win_code := Some r\<rparr>, h1)))"

definition wait_process :: "win_proc \<Rightarrow> win_host \<Rightarrow> wait_answer \<times> win_proc \<times> win_host" where
  "wait_process p h =
     (case win_code p of
        Some r \<Rightarrow> (Reaped r, p, h)
      | None \<Rightarrow>
          let h1 = note_event LeaderAsked (h\<lparr>leader_waits := tl (leader_waits h)\<rparr>); a = next_answer (Reaped 1) (leader_waits h) in
          (a, (case a of Reaped r \<Rightarrow> p\<lparr>win_code := Some r\<rparr> | _ \<Rightarrow> p), h1))"

text \<open>The inventory: errors, whether the members are verified, the total, and the handles.\<close>

definition inventory :: "nat option \<Rightarrow> bool \<Rightarrow> win_host \<Rightarrow> string list \<times> bool \<times> nat option \<times> nat list \<times> win_host" where
  "inventory job assigned h =
     (case job of
        Some j \<Rightarrow>
          if assigned then
            (case total_processes j h of
               (Inl m, h1) \<Rightarrow> ([msg [''Job member identities could not be retained: '', m]], False, None, [], h1)
             | (Inr n, h1) \<Rightarrow>
                 (case retain_job_members j 64 h1 of
                    (Inl e, members, h2) \<Rightarrow> ([msg [''Job member identities could not be retained: '', exc_text e]], False, Some n, members, h2)
                  | (Inr _, members, h2) \<Rightarrow> ([], True, Some n, members, h2)))
          else ([], True, None, [], h)
      | None \<Rightarrow> ([], True, None, [], h))"

text \<open>Termination of a running leader: errors and termination errors.\<close>

definition stop_leader :: "nat option \<Rightarrow> bool \<Rightarrow> win_host \<Rightarrow> string list \<times> string list \<times> win_host" where
  "stop_leader job assigned h =
     (case (assigned, job) of
        (True, Some j) \<Rightarrow>
          (case terminate_job j h of
             (None, h1) \<Rightarrow> ([], [], h1)
           | (Some m, h1) \<Rightarrow>
               (case kill_process h1 of
                  (None, h2) \<Rightarrow> ([], [msg [''TerminateJobObject failed: '', m]], h2)
                | (Some k, h2) \<Rightarrow> ([msg [''direct process termination fallback failed: '', k]], [msg [''TerminateJobObject failed: '', m]], h2)))
      | _ \<Rightarrow> (case kill_process h of (None, h1) \<Rightarrow> ([], [], h1) | (Some k, h1) \<Rightarrow> ([msg [''suspended process termination failed: '', k]], [], h1)))"

definition retry_leader :: "nat option \<Rightarrow> bool \<Rightarrow> win_proc \<Rightarrow> win_host \<Rightarrow> string list \<times> string list \<times> win_proc \<times> win_host" where
  "retry_leader job assigned p h =
     (case (case (assigned, job) of
              (True, Some j) \<Rightarrow> (case terminate_job j h of (None, h1) \<Rightarrow> ([], h1) | (Some m, h1) \<Rightarrow> ([msg [''TerminateJobObject retry failed: '', m]], h1))
            | _ \<Rightarrow> ([], h)) of (term_errs, h1) \<Rightarrow>
      case kill_process h1 of
        (Some k, h2) \<Rightarrow> ([msg [''Windows leader reaping retry failed: '', k]], term_errs, p, h2)
      | (None, h2) \<Rightarrow>
          (case wait_process p h2 of
             (Reaped r, p1, h3) \<Rightarrow> ([], term_errs, p1, h3)
           | (TimeoutExpired, p1, h3) \<Rightarrow> ([''Windows leader reaping retry failed: timed out''], term_errs, p1, h3)
           | (WaitFailed m, p1, h3) \<Rightarrow> ([msg [''Windows leader reaping retry failed: '', m]], term_errs, p1, h3)))"

definition reap_leader :: "nat option \<Rightarrow> bool \<Rightarrow> win_proc \<Rightarrow> win_host \<Rightarrow> string list \<times> string list \<times> win_proc \<times> win_host" where
  "reap_leader job assigned p h =
     (case wait_process p h of
        (Reaped r, p1, h1) \<Rightarrow> ([], [], p1, h1)
      | (TimeoutExpired, p1, h1) \<Rightarrow>
          (case retry_leader job assigned p1 h1 of
             (errs, term_errs, p2, h2) \<Rightarrow> (''Windows leader did not reap within cleanup bound: timed out'' # errs, term_errs, p2, h2))
      | (WaitFailed m, p1, h1) \<Rightarrow> ([msg [''Windows leader wait failed: '', m]], [], p1, h1))"

text \<open>The leader: poll, stop, reap, close its handle. The flag says whether that handle is closed.\<close>

definition clean_leader :: "nat option \<Rightarrow> bool \<Rightarrow> win_proc option \<Rightarrow> win_host \<Rightarrow> string list \<times> string list \<times> bool \<times> win_proc option \<times> win_host" where
  "clean_leader job assigned popen h =
     (case popen of
        None \<Rightarrow> ([], [], True, None, h)
      | Some p \<Rightarrow>
          (case poll_leader p h of (answer, p1, h1) \<Rightarrow>
           let e1 = (case answer of Inl m \<Rightarrow> [msg [''Windows leader poll failed: '', m]] | Inr _ \<Rightarrow> []);
               running = (case answer of Inl _ \<Rightarrow> True | Inr b \<Rightarrow> b) in
           case (if running then stop_leader job assigned h1 else ([], [], h1)) of (e2, t2, h2) \<Rightarrow>
           case reap_leader job assigned p1 h2 of (e3, t3, p3, h3) \<Rightarrow>
           if win_code p3 = None then (e1 @ e2 @ e3, t2 @ t3, False, Some p3, h3)
           else (case close_popen_process_handle p3 h3 of (b, e4, p4, h4) \<Rightarrow> (e1 @ e2 @ e3 @ e4, t2 @ t3, b, Some p4, h4))))"

text \<open>The two attempts to empty the Job.\<close>

fun empty_attempts :: "nat \<Rightarrow> nat list \<Rightarrow> win_host \<Rightarrow> bool \<times> string list \<times> string list \<times> win_host" where
  "empty_attempts j [] h = (False, [], [], h)"
| "empty_attempts j (attempt # attempts) h =
     (case terminate_job j h of (t, h1) \<Rightarrow>
      let te = (case t of None \<Rightarrow> [] | Some m \<Rightarrow> [msg [''TerminateJobObject attempt '', str_nat attempt, '' failed: '', m]]) in
      case wait_job_empty j h1 of
        (Inl m, h2) \<Rightarrow> (False, [msg [''Job ActiveProcesses query failed: '', m]], te, h2)
      | (Inr True, h2) \<Rightarrow> (True, [], te, h2)
      | (Inr False, h2) \<Rightarrow> (case empty_attempts j attempts h2 of (b, errs, te', h3) \<Rightarrow> (b, errs, te @ te', h3)))"

text \<open>Emptying the Job: a first query, then the attempts.\<close>

definition empty_rounds :: "nat \<Rightarrow> win_host \<Rightarrow> bool \<times> string list \<times> string list \<times> win_host" where
  "empty_rounds j h =
     (case wait_job_empty j h of
        (Inr True, h1) \<Rightarrow> (True, [], [], h1)
      | (Inr False, h1) \<Rightarrow> empty_attempts j [1, 2] h1
      | (Inl m, h1) \<Rightarrow> (case empty_attempts j [1, 2] h1 of (b, errs, te, h2) \<Rightarrow>
          (b, msg [''initial Job accounting query failed: '', m] # errs, te, h2)))"

text \<open>Where the Job stays occupied it is closed here, which is the fallback that kills. The
  results are the emptiness, the Job still to be closed, and the errors.\<close>

definition empty_job :: "nat option \<Rightarrow> bool \<Rightarrow> bool \<Rightarrow> string list \<Rightarrow> win_host \<Rightarrow> bool \<times> nat option \<times> string list \<times> win_host" where
  "empty_job job assigned process_handle_closed termination_errors h =
     (case job of
        Some j \<Rightarrow>
          if assigned \<and> process_handle_closed then
            (case empty_rounds j h of (job_empty, errs, te, h2) \<Rightarrow>
             if job_empty then (True, Some j, errs @ termination_errors @ te, h2)
             else (case close_owned_handle ''Job fallback'' j h2 of (b, e2, h3) \<Rightarrow>
                 (False, if b then None else Some j, errs @ termination_errors @ te @ [''Windows Job still has active processes after termination''] @ e2, h3)))
          else (\<not> assigned, Some j, [], h)
      | None \<Rightarrow> (True, None, [], h))"

text \<open>The members: each is waited for and its handle is closed.\<close>

fun clean_members :: "nat list \<Rightarrow> win_host \<Rightarrow> bool \<times> string list \<times> win_host" where
  "clean_members [] h = (True, [], h)"
| "clean_members (x # xs) h =
     (let h1 = note_event (Asked [x]) (h\<lparr>member_waits := tl (member_waits h)\<rparr>);
          e1 = (case next_answer (Inr True) (member_waits h) of
             Inr True \<Rightarrow> []
           | Inr False \<Rightarrow> [''retained Job member did not terminate within cleanup bound'']
           | Inl m \<Rightarrow> [msg [''retained Job member wait failed: '', m]]) in
      case close_owned_handle ''Job member identity'' x h1 of (b, e2, h2) \<Rightarrow>
      case clean_members xs h2 of (fine, e3, h3) \<Rightarrow> (e1 = [] \<and> b \<and> fine, e1 @ e2 @ e3, h3))"

text \<open>The last accounting of the Job, and its close.\<close>

definition close_job :: "nat option \<Rightarrow> bool \<Rightarrow> nat option \<Rightarrow> win_host \<Rightarrow> bool \<times> bool \<times> string list \<times> win_host" where
  "close_job job assigned inventory_total h =
     (case job of
        None \<Rightarrow> (True, True, [], h)
      | Some j \<Rightarrow>
          (case (if \<not> assigned then (True, [], h)
                 else case inventory_total of
                   None \<Rightarrow> (False, [''private Job membership changed after identity inventory; cleanup unverified''], h)
                 | Some n \<Rightarrow> (case total_processes j h of
                     (Inl m, h1) \<Rightarrow> (False, [msg [''final Job membership accounting failed: '', m]], h1)
                   | (Inr k, h1) \<Rightarrow> if k = n then (True, [], h1)
                       else (False, [''private Job membership changed after identity inventory; cleanup unverified''], h1))) of (same, errs, h2) \<Rightarrow>
           case close_owned_handle ''Job'' j h2 of (b, e2, h3) \<Rightarrow> (same, b, errs @ e2, h3)))"

definition join_capture :: "bool \<Rightarrow> win_host \<Rightarrow> bool \<times> win_host" where
  "join_capture started h =
     (if started then (next_answer True (reader_joins h), note_event LeaderAsked (h\<lparr>reader_joins := tl (reader_joins h)\<rparr>)) else (True, h))"

definition windows_cleanup :: "win_proc option \<Rightarrow> nat option \<Rightarrow> bool \<Rightarrow> bool \<Rightarrow> win_host \<Rightarrow> bool \<times> string list \<times> win_proc option \<times> win_host" where
  "windows_cleanup popen job assigned started h =
     (case inventory job assigned h of (e1, members_verified, inventory_total, members, h1) \<Rightarrow>
      case clean_leader job assigned popen h1 of (e2, termination_errors, process_handle_closed, popen2, h2) \<Rightarrow>
      case empty_job job assigned process_handle_closed termination_errors h2 of (job_empty, job3, e3, h3) \<Rightarrow>
      case clean_members members h3 of (members_clean, e4, h4) \<Rightarrow>
      case join_capture started h4 of (readers_done, h5) \<Rightarrow>
      let e5 = (if readers_done then [] else [''capture reader did not terminate after Job cleanup'']) in
      case (case popen2 of None \<Rightarrow> (True, [], None) | Some p \<Rightarrow> (case close_streams (win_pipes p) of (b, e, ps) \<Rightarrow> (b, e, Some (p\<lparr>win_pipes := ps\<rparr>)))) of
        (pipes_closed, e6, popen6) \<Rightarrow>
      case close_job job3 assigned inventory_total h5 of (same_members, job_closed, e7, h7) \<Rightarrow>
        (job_empty \<and> job_closed \<and> process_handle_closed \<and> pipes_closed \<and> readers_done \<and> members_verified \<and> members_clean \<and> same_members \<and>
           (case popen6 of None \<Rightarrow> True | Some p \<Rightarrow> win_code p \<noteq> None),
         e1 @ e2 @ e3 @ e4 @ e5 @ e6 @ e7, popen6, h7))"

section \<open>The run\<close>

text \<open>What setup has acquired when it ends, and its error.\<close>

record acquired =
  acq_job :: "nat option"
  acq_proc :: "win_proc option"
  acq_assigned :: bool
  acq_error :: "setup_error option"

text \<open>\<open>Popen\<close> answers with a suspended process and its open handle.\<close>

definition acquire :: "(pyexc + nat \<times> nat \<times> pipe option list) \<Rightarrow> win_host \<Rightarrow> acquired \<times> win_host" where
  "acquire popen h =
     (case create_job h of
        (Inl e, h1) \<Rightarrow> (\<lparr>acq_job = None, acq_proc = None, acq_assigned = False, acq_error = Some (SetupError e)\<rparr>, h1)
      | (Inr j, h1) \<Rightarrow>
     (case configure_job j h1 of
        (Inl e, h2) \<Rightarrow> (\<lparr>acq_job = Some j, acq_proc = None, acq_assigned = False, acq_error = Some (SetupError e)\<rparr>, h2)
      | (Inr _, h2) \<Rightarrow>
     (case popen of
        Inl e \<Rightarrow> (\<lparr>acq_job = Some j, acq_proc = None, acq_assigned = False, acq_error = Some (SetupError e)\<rparr>, h2)
      | Inr (process, x, ps) \<Rightarrow>
          let p = \<lparr>win_pid = process, win_handle = Some x, win_code = None, win_pipes = ps\<rparr>; h3 = note_event (Opened x) h2 in
     (case assign_job j x h3 of
        (Inl e, h4) \<Rightarrow> (\<lparr>acq_job = Some j, acq_proc = Some p, acq_assigned = False, acq_error = Some (SetupError e)\<rparr>, h4)
      | (Inr _, h4) \<Rightarrow>
     (case primary_thread_id process h4 of
        (Inl e, h5) \<Rightarrow> (\<lparr>acq_job = Some j, acq_proc = Some p, acq_assigned = True, acq_error = Some e\<rparr>, h5)
      | (Inr t, h5) \<Rightarrow>
     (case resume_primary t h5 of
        (Inl e, h6) \<Rightarrow> (\<lparr>acq_job = Some j, acq_proc = Some p, acq_assigned = True, acq_error = Some e\<rparr>, h6)
      | (Inr _, h6) \<Rightarrow> (\<lparr>acq_job = Some j, acq_proc = Some p, acq_assigned = True, acq_error = None\<rparr>, h6)))))))"

definition setup_text :: "setup_error \<Rightarrow> string" where
  "setup_text e = (case e of OwnedHandleError m \<Rightarrow> m | SetupError x \<Rightarrow> exc_text x)"

definition win_result :: "win_proc option \<Rightarrow> 's capture option \<Rightarrow> bool \<Rightarrow> bool \<Rightarrow> bool \<Rightarrow> bool \<Rightarrow> run_result" where
  "win_result p c merge timed exceeded verified =
     \<lparr>res_returncode = (case p of None \<Rightarrow> None | Some q \<Rightarrow> win_code q),
      res_stdout = (case c of None \<Rightarrow> [] | Some k \<Rightarrow> fst (raw k merge)), res_stderr = (case c of None \<Rightarrow> [] | Some k \<Rightarrow> snd (raw k merge)),
      timed_out = timed, output_exceeded = exceeded, cleanup_verified = verified\<rparr>"

text \<open>\<open>c\<close> is the capture after the readers were joined; it exists where \<open>Popen\<close> returned. The polling loop is
  that of the POSIX side; what it sees of the leader is not an event of the trace.\<close>

definition failed_setup :: "bool \<Rightarrow> acquired \<Rightarrow> setup_error \<Rightarrow> win_host \<Rightarrow> 's capture \<Rightarrow> run_error \<times> win_host" where
  "failed_setup merge a e h c =
     (let started = (acq_proc a \<noteq> None) in
      case windows_cleanup (acq_proc a) (acq_job a) (acq_assigned a) started h of (verified, errs, p, h') \<Rightarrow>
      let kept = (if started then Some c else None) in
      (BoundedProcessError (msg ([''Windows process setup failed: '', setup_text e] @ (if errs = [] then [] else [''; cleanup: '', join ''; '' errs])))
         (Some (win_result p kept merge False (started \<and> cap_exceeded c) (verified \<and> (\<forall>m. e \<noteq> OwnedHandleError m)))), h'))"

definition finish_windows :: "bool \<Rightarrow> acquired \<Rightarrow> win_host \<Rightarrow> outcome \<Rightarrow> 's capture \<Rightarrow> (run_error + run_result) \<times> win_host" where
  "finish_windows merge a h out c =
     (case windows_cleanup (acq_proc a) (acq_job a) (acq_assigned a) True h of (verified, cleanup_errors, p, h') \<Rightarrow>
      let result = win_result p (Some c) merge (out = TimedOut) (out = OutputExceeded \<or> cap_exceeded c) verified;
          op = (case out of OperationError e \<Rightarrow> [exc_text e] | _ \<Rightarrow> []) in
      (if op \<noteq> [] \<or> cap_errors c \<noteq> [] \<or> cleanup_errors \<noteq> []
       then Inl (BoundedProcessError (msg [''bounded process execution failed: '',
              join ''; '' (op @ map exc_text (cap_errors c) @ cleanup_errors)]) (Some result))
       else Inr result, h'))"

text \<open>\<open>exit_code\<close> is what \<open>poll()\<close> answers where the polling loop ends because the leader ended; \<open>Popen\<close> keeps it.\<close>

definition seen_exit :: "outcome \<Rightarrow> int \<Rightarrow> acquired \<Rightarrow> acquired" where
  "seen_exit out exit_code a =
     (if out = LeaderExited then a\<lparr>acq_proc := map_option (\<lambda>p. p\<lparr>win_code := Some exit_code\<rparr>) (acq_proc a)\<rparr> else a)"

definition run_windows ::
    "(pyexc + nat \<times> nat \<times> pipe option list) \<Rightarrow> int \<Rightarrow> rat \<Rightarrow> (nat \<Rightarrow> observation) \<Rightarrow> bool \<Rightarrow> win_host \<Rightarrow> 's capture \<Rightarrow> ((run_error + run_result) \<times> win_host) option" where
  "run_windows popen exit_code deadline obs merge h c =
     (case acquire popen h of (a, h1) \<Rightarrow>
      case acq_error a of
        Some e \<Rightarrow> (case failed_setup merge a e h1 c of (err, h2) \<Rightarrow> Some (Inl err, h2))
      | None \<Rightarrow> map_option (\<lambda>out. finish_windows merge (seen_exit out exit_code a) h1 out c) (poll deadline obs 0))"

section \<open>Handles on the trace\<close>

fun live_step :: "nat set \<Rightarrow> wevent \<Rightarrow> nat set" where
  "live_step L (Opened x) = insert x L"
| "live_step L (CloseTried x True) = L - {x}"
| "live_step L _ = L"

fun opens_fresh :: "nat set \<Rightarrow> wevent \<Rightarrow> bool" where
  "opens_fresh L (Opened x) \<longleftrightarrow> x \<notin> L"
| "opens_fresh L _ \<longleftrightarrow> True"

fun uses_owned :: "nat set \<Rightarrow> wevent \<Rightarrow> bool" where
  "uses_owned L (CloseTried x _) \<longleftrightarrow> x \<in> L"
| "uses_owned L (Asked xs) \<longleftrightarrow> set xs \<subseteq> L"
| "uses_owned L _ \<longleftrightarrow> True"

text \<open>\<open>live\<close>: the handles open after the events. \<open>every\<close>: a condition on each event and the handles open
  when it happens.\<close>

definition live :: "wevent list \<Rightarrow> nat set" where
  "live es = foldl live_step {} es"

primrec every :: "(nat set \<Rightarrow> wevent \<Rightarrow> bool) \<Rightarrow> nat set \<Rightarrow> wevent list \<Rightarrow> bool" where
  "every P L [] \<longleftrightarrow> True"
| "every P L (e # es) \<longleftrightarrow> P L e \<and> every P (live_step L e) es"

lemma every_append: "every P L (es @ fs) \<longleftrightarrow> every P L es \<and> every P (foldl live_step L es) fs"
  by (induction es arbitrary: L) simp_all

text \<open>The system never hands out a handle that is still open (documented of \<open>OpenProcess\<close> and the like).\<close>

definition fresh :: "win_host \<Rightarrow> bool" where
  "fresh h \<longleftrightarrow> every opens_fresh {} (wtrace h)"

definition owned_uses :: "win_host \<Rightarrow> bool" where
  "owned_uses h \<longleftrightarrow> every uses_owned {} (wtrace h)"

definition holds :: "nat set \<Rightarrow> win_host \<Rightarrow> bool" where
  "holds L h \<longleftrightarrow> owned_uses h \<and> live (wtrace h) = L"

lemma wtrace_note_event [simp]: "wtrace (note_event e h) = wtrace h @ [e]"
  by (simp add: note_event_def)

lemma fresh_note: "fresh (note_event e h) \<longleftrightarrow> fresh h \<and> opens_fresh (live (wtrace h)) e"
  by (simp add: fresh_def every_append live_def)

lemma holds_note: "holds L h \<Longrightarrow> uses_owned L e \<Longrightarrow> holds (live_step L e) (note_event e h)"
  by (auto simp: holds_def owned_uses_def every_append live_def)

lemma fresh_same [simp]:
  "fresh (h\<lparr>job_creates := a1\<rparr>) = fresh h" "fresh (h\<lparr>job_configs := a2\<rparr>) = fresh h" "fresh (h\<lparr>job_assigns := a3\<rparr>) = fresh h"
  "fresh (h\<lparr>snapshots := a4\<rparr>) = fresh h" "fresh (h\<lparr>scans := a5\<rparr>) = fresh h" "fresh (h\<lparr>thread_opens := a6\<rparr>) = fresh h"
  "fresh (h\<lparr>resumes := a7\<rparr>) = fresh h" "fresh (h\<lparr>handle_closes := a8\<rparr>) = fresh h" "fresh (h\<lparr>totals := a9\<rparr>) = fresh h"
  "fresh (h\<lparr>id_queries := b1\<rparr>) = fresh h" "fresh (h\<lparr>member_opens := b2\<rparr>) = fresh h" "fresh (h\<lparr>in_jobs := b3\<rparr>) = fresh h"
  "fresh (h\<lparr>member_waits := b4\<rparr>) = fresh h" "fresh (h\<lparr>actives := b5\<rparr>) = fresh h" "fresh (h\<lparr>time_left := b6\<rparr>) = fresh h"
  "fresh (h\<lparr>leader_polls := b7\<rparr>) = fresh h" "fresh (h\<lparr>terminates := b8\<rparr>) = fresh h" "fresh (h\<lparr>direct_kills := b9\<rparr>) = fresh h"
  "fresh (h\<lparr>leader_waits := c1\<rparr>) = fresh h" "fresh (h\<lparr>reader_joins := c2\<rparr>) = fresh h"
  by (simp_all add: fresh_def)

lemma holds_same [simp]:
  "holds L (h\<lparr>job_creates := a1\<rparr>) = holds L h" "holds L (h\<lparr>job_configs := a2\<rparr>) = holds L h" "holds L (h\<lparr>job_assigns := a3\<rparr>) = holds L h"
  "holds L (h\<lparr>snapshots := a4\<rparr>) = holds L h" "holds L (h\<lparr>scans := a5\<rparr>) = holds L h" "holds L (h\<lparr>thread_opens := a6\<rparr>) = holds L h"
  "holds L (h\<lparr>resumes := a7\<rparr>) = holds L h" "holds L (h\<lparr>handle_closes := a8\<rparr>) = holds L h" "holds L (h\<lparr>totals := a9\<rparr>) = holds L h"
  "holds L (h\<lparr>id_queries := b1\<rparr>) = holds L h" "holds L (h\<lparr>member_opens := b2\<rparr>) = holds L h" "holds L (h\<lparr>in_jobs := b3\<rparr>) = holds L h"
  "holds L (h\<lparr>member_waits := b4\<rparr>) = holds L h" "holds L (h\<lparr>actives := b5\<rparr>) = holds L h" "holds L (h\<lparr>time_left := b6\<rparr>) = holds L h"
  "holds L (h\<lparr>leader_polls := b7\<rparr>) = holds L h" "holds L (h\<lparr>terminates := b8\<rparr>) = holds L h" "holds L (h\<lparr>direct_kills := b9\<rparr>) = holds L h"
  "holds L (h\<lparr>leader_waits := c1\<rparr>) = holds L h" "holds L (h\<lparr>reader_joins := c2\<rparr>) = holds L h"
  by (simp_all add: holds_def owned_uses_def)

lemma holds_asked: "holds L (note_event (Asked xs) h)" if "holds L h" "set xs \<subseteq> L"
  using holds_note [OF that(1), of "Asked xs"] that(2) by simp

lemma holds_leader_asked: "holds L (note_event LeaderAsked h)" if "holds L h"
  using holds_note [OF that, of LeaderAsked] by simp

lemma holds_opened: "holds (insert x L) (note_event (Opened x) h)" if "holds L h"
  using holds_note [OF that, of "Opened x"] by simp

lemma holds_closed: "holds (L - {x}) (note_event (CloseTried x True) h)" "holds L (note_event (CloseTried x False) h)"
  if "holds L h" "x \<in> L"
  using holds_note [OF that(1), of "CloseTried x True"] holds_note [OF that(1), of "CloseTried x False"] that(2) by simp_all

lemmas holds_intros = holds_asked holds_leader_asked holds_opened

section \<open>No call forgets the history\<close>

text \<open>Freshness of the later history gives that of the earlier one.\<close>

lemma fresh_close_owned: "close_owned_handle l x h = (b, errs, h') \<Longrightarrow> fresh h' \<longleftrightarrow> fresh h"
  by (auto simp: close_owned_handle_def close_handle_def Let_def fresh_note split: prod.splits option.splits)

lemma fresh_close_popen: "close_popen_process_handle p h = (b, errs, p', h') \<Longrightarrow> fresh h' \<longleftrightarrow> fresh h"
  by (auto simp: close_popen_process_handle_def dest: fresh_close_owned split: prod.splits option.splits)

lemma fresh_active: "active_processes j h = (r, h') \<Longrightarrow> fresh h' \<longleftrightarrow> fresh h"
  by (auto simp: active_processes_def fresh_note)

lemma fresh_total: "total_processes j h = (r, h') \<Longrightarrow> fresh h' \<longleftrightarrow> fresh h"
  by (auto simp: total_processes_def fresh_note)

lemma fresh_terminate: "terminate_job j h = (r, h') \<Longrightarrow> fresh h' \<longleftrightarrow> fresh h"
  by (auto simp: terminate_job_def fresh_note)

lemma fresh_kill: "kill_process h = (r, h') \<Longrightarrow> fresh h' \<longleftrightarrow> fresh h"
  by (auto simp: kill_process_def fresh_note)

lemma fresh_poll: "poll_leader p h = (r, p', h') \<Longrightarrow> fresh h' \<longleftrightarrow> fresh h"
  by (auto simp: poll_leader_def Let_def fresh_note split: if_splits sum.splits option.splits)

lemma fresh_wait: "wait_process p h = (r, p', h') \<Longrightarrow> fresh h' \<longleftrightarrow> fresh h"
  by (auto simp: wait_process_def Let_def fresh_note split: option.splits)

lemma fresh_join: "join_capture b h = (r, h') \<Longrightarrow> fresh h' \<longleftrightarrow> fresh h"
  by (auto simp: join_capture_def fresh_note split: if_splits)

lemma fresh_wait_empty: "wait_job_empty j h = (r, h') \<Longrightarrow> fresh h' \<longleftrightarrow> fresh h"
proof (induction j h rule: wait_job_empty.induct)
  case (1 j h)
  show ?case
    using 1(2) [unfolded wait_job_empty.simps [of j h]] 1(1)
    by (auto split: prod.splits sum.splits if_splits list.splits bool.splits dest!: fresh_active)
qed

lemmas fresh_quiet = fresh_close_owned fresh_close_popen fresh_active fresh_total fresh_terminate fresh_kill fresh_poll fresh_wait
  fresh_join fresh_wait_empty

lemma fresh_stop: "stop_leader job a h = (e, t, h') \<Longrightarrow> fresh h' \<longleftrightarrow> fresh h"
  by (auto simp: stop_leader_def split: prod.splits bool.splits option.splits dest!: fresh_quiet)

lemma fresh_retry: "retry_leader job a p h = (e, t, p', h') \<Longrightarrow> fresh h' \<longleftrightarrow> fresh h"
  by (auto simp: retry_leader_def split: prod.splits bool.splits option.splits wait_answer.splits dest!: fresh_quiet)

lemma fresh_reap: "reap_leader job a p h = (e, t, p', h') \<Longrightarrow> fresh h' \<longleftrightarrow> fresh h"
  by (auto simp: reap_leader_def split: prod.splits wait_answer.splits dest!: fresh_wait fresh_retry)

lemma fresh_clean_leader: "clean_leader job a p h = (e, t, b, p', h') \<Longrightarrow> fresh h' \<longleftrightarrow> fresh h"
  by (auto simp: clean_leader_def Let_def split: prod.splits option.splits if_splits
      dest!: fresh_poll fresh_stop fresh_reap fresh_close_popen)

lemma fresh_empty_attempts: "empty_attempts j as h = (b, e, t, h') \<Longrightarrow> fresh h' \<longleftrightarrow> fresh h"
proof (induction as arbitrary: h b e t h')
  case (Cons a as)
  from Cons.prems show ?case
    by (auto simp: Let_def split: prod.splits sum.splits bool.splits dest!: fresh_terminate fresh_wait_empty Cons.IH)
qed simp

lemma fresh_empty_rounds: "empty_rounds j h = (b, e, t, h') \<Longrightarrow> fresh h' \<longleftrightarrow> fresh h"
  unfolding empty_rounds_def by (auto split: prod.splits sum.splits bool.splits simp del: empty_attempts.simps
      dest!: fresh_wait_empty fresh_empty_attempts)

lemma fresh_empty_job: "empty_job job a pc te h = (b, j', e, h') \<Longrightarrow> fresh h' \<longleftrightarrow> fresh h"
  unfolding empty_job_def by (auto split: prod.splits option.splits if_splits dest!: fresh_empty_rounds fresh_close_owned)

lemma fresh_clean_members: "clean_members ms h = (b, e, h') \<Longrightarrow> fresh h' \<longleftrightarrow> fresh h"
proof (induction ms arbitrary: h b e h')
  case (Cons x xs)
  from Cons.prems show ?case
    by (auto simp: Let_def fresh_note split: prod.splits dest!: fresh_close_owned Cons.IH)
qed simp

lemma fresh_close_job: "close_job job a n h = (s, b, e, h') \<Longrightarrow> fresh h' \<longleftrightarrow> fresh h"
  by (auto simp: close_job_def split: prod.splits option.splits if_splits sum.splits dest!: fresh_total fresh_close_owned)

section \<open>What each call does to the handles held\<close>

lemma holds_close_owned:
  "close_owned_handle l x h = (b, errs, h') \<Longrightarrow> holds L h \<Longrightarrow> x \<in> L \<Longrightarrow>
    holds (if b then L - {x} else L) h' \<and> (\<not> b \<longrightarrow> errs \<noteq> [])"
  by (auto simp: close_owned_handle_def close_handle_def Let_def split: prod.splits option.splits intro!: holds_closed)

abbreviation handle_of :: "win_proc \<Rightarrow> nat set" where
  "handle_of p \<equiv> set_option (win_handle p)"

lemma holds_close_popen:
  "close_popen_process_handle p h = (b, errs, p', h') \<Longrightarrow> holds L h \<Longrightarrow> handle_of p \<subseteq> L \<Longrightarrow>
    holds (if b then L - handle_of p else L) h' \<and> (\<not> b \<longrightarrow> errs \<noteq> []) \<and> win_code p' = win_code p"
  by (auto simp: close_popen_process_handle_def dest!: holds_close_owned split: prod.splits option.splits if_splits)

lemma holds_active: "active_processes j h = (r, h') \<Longrightarrow> holds L h \<Longrightarrow> j \<in> L \<Longrightarrow> holds L h'"
  by (auto simp: active_processes_def intro!: holds_intros)

lemma holds_total: "total_processes j h = (r, h') \<Longrightarrow> holds L h \<Longrightarrow> j \<in> L \<Longrightarrow> holds L h'"
  by (auto simp: total_processes_def intro!: holds_intros)

lemma holds_terminate: "terminate_job j h = (r, h') \<Longrightarrow> holds L h \<Longrightarrow> j \<in> L \<Longrightarrow> holds L h'"
  by (auto simp: terminate_job_def intro!: holds_intros)

lemma holds_kill: "kill_process h = (r, h') \<Longrightarrow> holds L h \<Longrightarrow> holds L h'"
  by (auto simp: kill_process_def intro!: holds_intros)

lemma holds_join: "join_capture b h = (r, h') \<Longrightarrow> holds L h \<Longrightarrow> holds L h'"
  by (auto simp: join_capture_def intro!: holds_intros split: if_splits)

lemma holds_poll: "poll_leader p h = (r, p', h') \<Longrightarrow> holds L h \<Longrightarrow> holds L h' \<and> win_handle p' = win_handle p"
  by (auto simp: poll_leader_def Let_def intro!: holds_intros split: if_splits sum.splits option.splits)

lemma holds_wait:
  "wait_process p h = (r, p', h') \<Longrightarrow> holds L h \<Longrightarrow>
    holds L h' \<and> win_handle p' = win_handle p \<and> ((\<exists>k. r = Reaped k) \<longrightarrow> win_code p' \<noteq> None)"
  by (auto simp: wait_process_def Let_def intro!: holds_intros split: option.splits wait_answer.splits)

lemma holds_wait_empty: "wait_job_empty j h = (r, h') \<Longrightarrow> holds L h \<Longrightarrow> j \<in> L \<Longrightarrow> holds L h'"
proof (induction j h rule: wait_job_empty.induct)
  case (1 j h)
  show ?case
    using 1(2) [unfolded wait_job_empty.simps [of j h]] 1(1,3,4)
    by (auto split: prod.splits sum.splits if_splits list.splits bool.splits dest!: holds_active)
qed

lemma holds_stop:
  "stop_leader job a h = (e, t, h') \<Longrightarrow> holds L h \<Longrightarrow> set_option job \<subseteq> L \<Longrightarrow> holds L h'"
  by (auto simp: stop_leader_def split: prod.splits bool.splits option.splits dest!: holds_kill holds_terminate)

lemma holds_retry:
  assumes "retry_leader job a p h = (e, t, p', h')" "holds L h" "set_option job \<subseteq> L"
  shows "holds L h' \<and> win_handle p' = win_handle p"
proof -
  obtain ts h1 where first: "(case (a, job) of
        (True, Some j) \<Rightarrow> (case terminate_job j h of (None, h1) \<Rightarrow> ([], h1) | (Some m, h1) \<Rightarrow> ([msg [''TerminateJobObject retry failed: '', m]], h1))
      | _ \<Rightarrow> ([], h)) = (ts, h1)"
    by fastforce
  have held: "holds L h1"
    using first assms(2,3) by (auto split: bool.splits option.splits prod.splits dest!: holds_terminate)
  show ?thesis
    using assms(1) held unfolding retry_leader_def first
    by (auto split: prod.splits option.splits wait_answer.splits dest!: holds_kill holds_wait)
qed

lemma holds_reap:
  assumes "reap_leader job a p h = (e, t, p', h')" "holds L h" "set_option job \<subseteq> L"
  shows "holds L h' \<and> win_handle p' = win_handle p \<and> (e = [] \<longrightarrow> win_code p' \<noteq> None)"
proof -
  obtain r p1 h1 where w: "wait_process p h = (r, p1, h1)" by (cases "wait_process p h")
  note one = holds_wait [OF w assms(2)]
  show ?thesis
  proof (cases r)
    case TimeoutExpired
    then show ?thesis
      using assms(1) w one holds_retry [of job a p1 h1 _ _ _ _ L] assms(3)
      unfolding reap_leader_def by (auto split: prod.splits)
  qed (use assms(1) w one in \<open>auto simp: reap_leader_def\<close>)
qed

definition handles_of :: "win_proc option \<Rightarrow> nat set" where
  "handles_of popen = (case popen of None \<Rightarrow> {} | Some p \<Rightarrow> handle_of p)"

lemma holds_clean_leader:
  assumes "clean_leader job a popen h = (e, t, b, popen', h')" "holds L h" "set_option job \<subseteq> L" "handles_of popen \<subseteq> L"
  shows "holds (if b then L - handles_of popen else L) h' \<and> (\<not> b \<longrightarrow> e \<noteq> [])
    \<and> (b \<longrightarrow> (case popen' of None \<Rightarrow> True | Some p \<Rightarrow> win_code p \<noteq> None))"
proof (cases popen)
  case None
  then show ?thesis using assms by (auto simp: clean_leader_def handles_of_def)
next
  case (Some p)
  obtain ans p1 h1 where s1: "poll_leader p h = (ans, p1, h1)" by (cases "poll_leader p h")
  define running where "running = (case ans of Inl _ \<Rightarrow> True | Inr b \<Rightarrow> b)"
  obtain e2 t2 h2 where s2: "(if running then stop_leader job a h1 else ([], [], h1)) = (e2, t2, h2)"
    by (cases "if running then stop_leader job a h1 else ([], [], h1)")
  obtain e3 t3 p3 h3 where s3: "reap_leader job a p1 h2 = (e3, t3, p3, h3)" by (cases "reap_leader job a p1 h2")
  obtain b4 e4 p4 h4 where s4: "close_popen_process_handle p3 h3 = (b4, e4, p4, h4)"
    by (cases "close_popen_process_handle p3 h3")
  note h1 = holds_poll [OF s1 assms(2)]
  have h2: "holds L h2" using s2 h1 holds_stop [of job a h1 e2 t2 h2 L] assms(3) by (auto split: if_splits)
  note h3 = holds_reap [OF s3 h2 assms(3)]
  have same: "handle_of p3 = handles_of popen" using h1 h3 Some by (simp add: handles_of_def)
  note h4 = holds_close_popen [OF s4 conjunct1 [OF h3], unfolded same, OF assms(4)]
  show ?thesis
    using assms(1) h3 h4
    unfolding clean_leader_def Some option.case s1 prod.case Let_def running_def [symmetric] s2 s3 s4
    by (auto split: if_splits sum.splits)
qed

lemma holds_empty_attempts: "empty_attempts j as h = (b, e, t, h') \<Longrightarrow> holds L h \<Longrightarrow> j \<in> L \<Longrightarrow> holds L h'"
proof (induction as arbitrary: h b e t h')
  case (Cons a as)
  from Cons.prems show ?case
    by (auto simp: Let_def split: prod.splits sum.splits bool.splits dest!: holds_terminate holds_wait_empty Cons.IH)
qed simp

lemma holds_empty_rounds: "empty_rounds j h = (b, e, t, h') \<Longrightarrow> holds L h \<Longrightarrow> j \<in> L \<Longrightarrow> holds L h'"
  unfolding empty_rounds_def by (auto split: prod.splits sum.splits bool.splits simp del: empty_attempts.simps
      dest!: holds_wait_empty holds_empty_attempts)

text \<open>\<open>\<not> b\<close> after the handle of the leader was closed always leaves an error.\<close>

lemma holds_empty_job:
  assumes "empty_job job a pc te h = (b, job', e, h')" "holds L h" "set_option job \<subseteq> L"
  shows "holds (L - (set_option job - set_option job')) h' \<and> set_option job' \<subseteq> set_option job \<and> (pc \<and> e = [] \<longrightarrow> b)"
proof (cases job)
  case None
  then show ?thesis using assms by (simp add: empty_job_def)
next
  case (Some j)
  obtain b1 e1 t1 h1 where s: "empty_rounds j h = (b1, e1, t1, h1)" by (cases "empty_rounds j h")
  obtain b2 e2 h2 where s2: "close_owned_handle ''Job fallback'' j h1 = (b2, e2, h2)"
    by (cases "close_owned_handle ''Job fallback'' j h1")
  have one: "holds L h1" using holds_empty_rounds [OF s assms(2)] assms(3) Some by simp
  have two: "holds (if b2 then L - {j} else L) h2" using holds_close_owned [OF s2 one] assms(3) Some by simp
  have eq: "L - ({j} - {j}) = L" by blast
  show ?thesis
    using assms(1,2) one two unfolding empty_job_def Some option.case s prod.case s2
    by (auto split: if_splits simp: eq)
qed

lemma holds_clean_members:
  "clean_members ms h = (b, e, h') \<Longrightarrow> holds (A \<union> set ms) h \<Longrightarrow> distinct ms \<Longrightarrow> A \<inter> set ms = {} \<Longrightarrow>
    \<exists>K \<subseteq> set ms. holds (A \<union> K) h' \<and> (b \<longrightarrow> K = {}) \<and> (\<not> b \<longrightarrow> e \<noteq> [])"
proof (induction ms arbitrary: A h b e h')
  case (Cons x xs)
  define h1 where "h1 = note_event (Asked [x]) (h\<lparr>member_waits := tl (member_waits h)\<rparr>)"
  obtain b2 e2 h2 where s2: "close_owned_handle ''Job member identity'' x h1 = (b2, e2, h2)"
    by (cases "close_owned_handle ''Job member identity'' x h1")
  obtain b3 e3 h3 where s3: "clean_members xs h2 = (b3, e3, h3)" by (cases "clean_members xs h2")
  have one: "holds (A \<union> set (x # xs)) h1" unfolding h1_def using Cons.prems(2) by (auto intro!: holds_asked)
  have two: "holds (if b2 then A \<union> set (x # xs) - {x} else A \<union> set (x # xs)) h2 \<and> (\<not> b2 \<longrightarrow> e2 \<noteq> [])"
    using holds_close_owned [OF s2 one] by simp
  define A' where "A' = (if b2 then A else insert x A)"
  have "A' \<union> set xs = (if b2 then A \<union> set (x # xs) - {x} else A \<union> set (x # xs))" "A' \<inter> set xs = {}"
    using Cons.prems(3,4) unfolding A'_def by auto
  then obtain K where K: "K \<subseteq> set xs" "holds (A' \<union> K) h3" "b3 \<longrightarrow> K = {}" "\<not> b3 \<longrightarrow> e3 \<noteq> []"
    using Cons.IH [OF s3, of A'] two Cons.prems(3) by auto
  have shape: "b \<longrightarrow> b2 \<and> b3" "\<not> b \<longrightarrow> e \<noteq> []" "h' = h3"
    using Cons.prems(1) K(4) two unfolding clean_members.simps h1_def [symmetric] Let_def s2 prod.case s3
    by (auto split: sum.splits bool.splits)
  show ?case
    using K shape unfolding A'_def by (intro exI [of _ "if b2 then K else insert x K"]) auto
qed auto

lemma holds_close_job:
  assumes "close_job job a n h = (s, b, e, h')" "holds L h" "set_option job \<subseteq> L"
  shows "holds (if b then L - set_option job else L) h' \<and> (\<not> s \<or> \<not> b \<longrightarrow> e \<noteq> [])"
proof (cases job)
  case None
  then show ?thesis using assms by (simp add: close_job_def)
next
  case (Some j)
  define last where "last = (if \<not> a then (True, [], h)
                 else case n of
                   None \<Rightarrow> (False, [''private Job membership changed after identity inventory; cleanup unverified''], h)
                 | Some n \<Rightarrow> (case total_processes j h of
                     (Inl m, h1) \<Rightarrow> (False, [msg [''final Job membership accounting failed: '', m]], h1)
                   | (Inr k, h1) \<Rightarrow> if k = n then (True, [], h1)
                       else (False, [''private Job membership changed after identity inventory; cleanup unverified''], h1)))"
  obtain s1 e1 h1 where s1: "last = (s1, e1, h1)" by (cases last)
  have one: "holds L h1" "\<not> s1 \<longrightarrow> e1 \<noteq> []"
    using s1 assms(2,3) Some unfolding last_def by (auto split: if_splits option.splits prod.splits sum.splits dest!: holds_total)
  obtain b2 e2 h2 where s2: "close_owned_handle ''Job'' j h1 = (b2, e2, h2)" by (cases "close_owned_handle ''Job'' j h1")
  show ?thesis
    using assms(1) holds_close_owned [OF s2 one(1)] one(2) assms(3) Some
    unfolding close_job_def Some option.case last_def [symmetric] s1 prod.case s2 by auto
qed

section \<open>Calls that open handles\<close>

definition retains :: "nat set \<Rightarrow> nat list \<Rightarrow> win_host \<Rightarrow> bool" where
  "retains A ms h \<longleftrightarrow> holds (A \<union> set ms) h \<and> distinct ms \<and> A \<inter> set ms = {}"

lemma fresh_retain_member: "retain_member j q ms h = (r, ms', h') \<Longrightarrow> fresh h' \<Longrightarrow> fresh h"
  by (auto simp: retain_member_def Let_def fresh_note split: open_answer.splits sum.splits bool.splits prod.splits
      dest!: fresh_close_owned)

lemma fresh_retain_members: "retain_members j qs ms h = (r, ms', h') \<Longrightarrow> fresh h' \<Longrightarrow> fresh h"
proof (induction qs arbitrary: ms h r ms' h')
  case (Cons q qs)
  from Cons.prems show ?case
    by (auto split: prod.splits sum.splits dest: fresh_retain_member Cons.IH)
qed simp

lemma fresh_retain_job: "retain_job_members j c h = (r, ms, h') \<Longrightarrow> fresh h' \<Longrightarrow> fresh h"
proof (induction j c h rule: retain_job_members.induct)
  case (1 j c h)
  define h1 where "h1 = note_event (Asked [j]) (h\<lparr>id_queries := tl (id_queries h)\<rparr>)"
  have same: "fresh h1 \<longleftrightarrow> fresh h" by (simp add: h1_def fresh_note)
  note rec_eq = 1(3) [unfolded retain_job_members.simps [of j c h], folded h1_def]
  show ?case
  proof (cases "c = 0 \<or> 4096 < c")
    case True
    then show ?thesis using rec_eq 1(4) by simp
  next
    case False
    then show ?thesis
      using rec_eq 1(4) same 1(1) [OF False h1_def] 1(2) [OF False h1_def]
      by (auto simp: h1_def [symmetric] Let_def split: if_splits ids_answer.splits dest: fresh_retain_members)
  qed
qed

lemma fresh_inventory: "inventory job a h = (e, v, n, ms, h') \<Longrightarrow> fresh h' \<Longrightarrow> fresh h"
  by (auto simp: inventory_def split: option.splits if_splits prod.splits sum.splits dest: fresh_retain_job dest!: fresh_total)

lemma retain_member_keeps:
  assumes "retain_member j q ms h = (r, ms', h')" "retains A ms h" "j \<in> A" "fresh h'"
  shows "retains A ms' h'"
proof (cases "next_answer Gone (member_opens h)")
  case (HandleOf x)
  define h1 where "h1 = h\<lparr>member_opens := tl (member_opens h)\<rparr>"
  define h2 where "h2 = note_event (Asked [x, j]) (note_event (Opened x) (h1\<lparr>in_jobs := tl (in_jobs h1)\<rparr>))"
  obtain b errs h3 where s: "close_owned_handle ''non-member identity'' x h2 = (b, errs, h3)"
    by (cases "close_owned_handle ''non-member identity'' x h2")
  have held: "holds (A \<union> set ms) h" "distinct ms" "A \<inter> set ms = {}" using assms(2) by (auto simp: retains_def)
  have two: "holds (insert x (A \<union> set ms)) h2"
    unfolding h2_def h1_def using held(1) assms(3) by (auto intro!: holds_asked holds_opened)
  have last: "fresh h' \<longleftrightarrow> fresh h2"
    using assms(1) HandleOf s fresh_close_owned [OF s]
    by (auto simp: retain_member_def h1_def [symmetric] h2_def [symmetric] Let_def split: sum.splits bool.splits)
  have new: "x \<notin> A \<union> set ms"
    using last assms(4) held(1) by (simp add: h2_def h1_def fresh_note holds_def)
  have three: "holds (if b then A \<union> set ms else insert x (A \<union> set ms)) h3"
    using holds_close_owned [OF s two] new by (auto split: if_splits)
  show ?thesis
    using assms(1) HandleOf s two three new held
    by (auto simp: retain_member_def h1_def [symmetric] h2_def [symmetric] Let_def retains_def split: sum.splits bool.splits if_splits)
qed (use assms in \<open>auto simp: retain_member_def retains_def\<close>)

lemma retain_members_keeps:
  "retain_members j qs ms h = (r, ms', h') \<Longrightarrow> retains A ms h \<Longrightarrow> j \<in> A \<Longrightarrow> fresh h' \<Longrightarrow> retains A ms' h'"
proof (induction qs arbitrary: ms h r ms' h')
  case (Cons q qs)
  obtain r1 ms1 h1 where s: "retain_member j q ms h = (r1, ms1, h1)" by (cases "retain_member j q ms h")
  have fr: "fresh h1"
    using Cons.prems(1,4) s by (auto split: sum.splits dest: fresh_retain_members)
  note one = retain_member_keeps [OF s Cons.prems(2,3) fr]
  show ?case using Cons.prems s one by (auto split: sum.splits dest: Cons.IH)
qed simp

lemma retain_member_length: "retain_member j q ms h = (r, ms', h') \<Longrightarrow> length ms' \<le> Suc (length ms)"
  by (auto simp: retain_member_def Let_def split: open_answer.splits sum.splits bool.splits prod.splits)

lemma retain_members_length: "retain_members j qs ms h = (r, ms', h') \<Longrightarrow> length ms' \<le> length ms + length qs"
proof (induction qs arbitrary: ms h r ms' h')
  case (Cons q qs)
  from Cons.prems show ?case
    by (force split: prod.splits sum.splits dest: retain_member_length Cons.IH)
qed simp

lemma retain_job_keeps:
  "retain_job_members j c h = (r, ms, h') \<Longrightarrow> holds A h \<Longrightarrow> j \<in> A \<Longrightarrow> fresh h' \<Longrightarrow> retains A ms h' \<and> length ms \<le> 4096"
proof (induction j c h rule: retain_job_members.induct)
  case (1 j c h)
  define h1 where "h1 = note_event (Asked [j]) (h\<lparr>id_queries := tl (id_queries h)\<rparr>)"
  have one: "holds A h1" unfolding h1_def using 1(4,5) by (auto intro!: holds_asked)
  then have base: "retains A [] h1" by (simp add: retains_def)
  show ?case
  proof (cases "c = 0 \<or> 4096 < c")
    case True
    then show ?thesis using 1(3,4) retain_job_members.simps [of j c h] by (auto simp: retains_def)
  next
    case False
    show ?thesis
    proof (cases "next_answer (Listed 0 0 []) (id_queries h)")
      case MoreData
      then show ?thesis
        using 1(3) 1(1) [OF False h1_def MoreData _ one 1(5,6)] False by (simp add: retain_job_members.simps [of j c h] h1_def)
    next
      case (IdsFailed m)
      then show ?thesis using 1(3) base False by (simp add: retain_job_members.simps [of j c h] h1_def)
    next
      case (Listed assigned listed ids)
      show ?thesis
      proof (cases "c < listed \<or> c < assigned")
        case True
        then show ?thesis
          using 1(3) 1(2) [OF False h1_def Listed True _ one 1(5,6)] Listed False
          by (simp add: retain_job_members.simps [of j c h] h1_def)
      next
        case small: False
        have s: "retain_members j (take listed ids) [] h1 = (r, ms, h')"
          using 1(3) Listed False small by (simp add: retain_job_members.simps [of j c h] h1_def)
        show ?thesis
          using retain_members_keeps [OF s base 1(5,6)] retain_members_length [OF s] small False by simp
      qed
    qed
  qed
qed

lemma inventory_keeps:
  assumes "inventory job a h = (e, v, n, ms, h')" "holds A h" "set_option job \<subseteq> A" "fresh h'"
  shows "retains A ms h' \<and> length ms \<le> 4096 \<and> (\<not> v \<longrightarrow> e \<noteq> [])"
  using assms
  by (auto simp: inventory_def retains_def [of A "[]"] split: option.splits if_splits prod.splits sum.splits
      dest!: holds_total retain_job_keeps [where A = A])

lemma fresh_primary: "primary_thread_id q h = (r, h') \<Longrightarrow> fresh h' \<Longrightarrow> fresh h"
  by (auto simp: primary_thread_id_def Let_def fresh_note split: sum.splits prod.splits if_splits list.splits
      dest!: fresh_close_owned)

lemma fresh_resume: "resume_primary t h = (r, h') \<Longrightarrow> fresh h' \<Longrightarrow> fresh h"
  by (auto simp: resume_primary_def Let_def fresh_note split: sum.splits prod.splits if_splits dest!: fresh_close_owned)

text \<open>A handle opened, asked and closed: at most that handle stays open.\<close>

lemma open_and_close:
  assumes "close_owned_handle l x (note_event (Asked [x]) (note_event (Opened x) h)) = (b, errs, h')" "holds L h" "fresh h'"
  shows "\<exists>K. holds (L \<union> K) h' \<and> L \<inter> K = {} \<and> (b \<longrightarrow> K = {})"
proof -
  have two: "holds (insert x L) (note_event (Asked [x]) (note_event (Opened x) h))"
    using assms(2) by (auto intro!: holds_asked holds_opened)
  have new: "x \<notin> L"
    using assms(2,3) fresh_close_owned [OF assms(1)] by (simp add: fresh_note holds_def)
  have "holds (if b then L else insert x L) h'"
    using holds_close_owned [OF assms(1) two] new by (auto split: if_splits)
  then show ?thesis using new by (intro exI [of _ "if b then {} else {x}"]) auto
qed

lemma primary_keeps:
  assumes "primary_thread_id q h = (r, h')" "holds L h" "fresh h'"
  shows "\<exists>K. holds (L \<union> K) h' \<and> L \<inter> K = {} \<and> ((\<exists>t. r = Inr t) \<longrightarrow> K = {})"
proof (cases "next_answer (Inr 0) (snapshots h)")
  case (Inl m)
  then show ?thesis using assms by (intro exI [of _ "{}"]) (auto simp: primary_thread_id_def)
next
  case (Inr s)
  define h1 where "h1 = h\<lparr>snapshots := tl (snapshots h), scans := tl (scans h)\<rparr>"
  obtain b errs h2 where c: "close_owned_handle ''thread snapshot'' s (note_event (Asked [s]) (note_event (Opened s) h1)) = (b, errs, h2)"
    by (cases "close_owned_handle ''thread snapshot'' s (note_event (Asked [s]) (note_event (Opened s) h1))")
  have "h' = h2 \<and> ((\<exists>t. r = Inr t) \<longrightarrow> b)"
    using assms(1) Inr c unfolding primary_thread_id_def h1_def [symmetric] Let_def
    by (auto split: sum.splits if_splits list.splits)
  then show ?thesis using open_and_close [OF c, of L] assms(2,3) by (auto simp: h1_def)
qed

lemma resume_keeps:
  assumes "resume_primary t h = (r, h')" "holds L h" "fresh h'"
  shows "\<exists>K. holds (L \<union> K) h' \<and> L \<inter> K = {} \<and> ((\<exists>u. r = Inr u) \<longrightarrow> K = {})"
proof (cases "next_answer (Inr 0) (thread_opens h)")
  case (Inl m)
  then show ?thesis using assms by (intro exI [of _ "{}"]) (auto simp: resume_primary_def)
next
  case (Inr s)
  define h1 where "h1 = h\<lparr>thread_opens := tl (thread_opens h), resumes := tl (resumes h)\<rparr>"
  obtain b errs h2 where c: "close_owned_handle ''primary thread'' s (note_event (Asked [s]) (note_event (Opened s) h1)) = (b, errs, h2)"
    by (cases "close_owned_handle ''primary thread'' s (note_event (Asked [s]) (note_event (Opened s) h1))")
  have "h' = h2 \<and> ((\<exists>u. r = Inr u) \<longrightarrow> b)"
    using assms(1) Inr c unfolding resume_primary_def h1_def [symmetric] Let_def
    by (auto split: sum.splits if_splits)
  then show ?thesis using open_and_close [OF c, of L] assms(2,3) by (auto simp: h1_def)
qed

section \<open>The cleanup and the run\<close>

definition streams_of :: "win_proc option \<Rightarrow> bool \<times> string list \<times> win_proc option" where
  "streams_of popen = (case popen of None \<Rightarrow> (True, [], None)
     | Some p \<Rightarrow> (case close_streams (win_pipes p) of (b, e, ps) \<Rightarrow> (b, e, Some (p\<lparr>win_pipes := ps\<rparr>))))"

lemma streams_of_no_error:
  "streams_of popen = (b, e, popen') \<Longrightarrow> (e = [] \<longrightarrow> b) \<and> map_option win_code popen' = map_option win_code popen"
  by (auto simp: streams_of_def dest: close_streams_no_error split: option.splits prod.splits)

lemma fresh_windows_cleanup:
  "windows_cleanup popen job a st h = (v, errs, popen', h') \<Longrightarrow> fresh h' \<Longrightarrow> fresh h"
  unfolding windows_cleanup_def Let_def
  by (auto split: prod.splits dest!: fresh_close_job fresh_join fresh_clean_members fresh_empty_job fresh_clean_leader
      dest: fresh_inventory)

text \<open>\<open>K\<close> is what setup left open besides the Job and the process handle.\<close>

lemma cleanup_handles:
  assumes run: "windows_cleanup popen job a st h = (v, errs, popen', h')"
    and held: "holds (K \<union> set_option job \<union> handles_of popen) h"
    and apart: "K \<inter> (set_option job \<union> handles_of popen) = {}" "set_option job \<inter> handles_of popen = {}"
    and new: "fresh h'"
  shows "(\<exists>L. holds L h' \<and> (v \<longrightarrow> L = K)) \<and> (errs = [] \<longrightarrow> v)
    \<and> (v \<longrightarrow> (case popen' of None \<Rightarrow> True | Some p \<Rightarrow> win_code p \<noteq> None))"
proof -
  obtain e1 mv tot ms h1 where s1: "inventory job a h = (e1, mv, tot, ms, h1)" by (cases "inventory job a h")
  obtain e2 te pc p2 h2 where s2: "clean_leader job a popen h1 = (e2, te, pc, p2, h2)" by (cases "clean_leader job a popen h1")
  obtain je job3 e3 h3 where s3: "empty_job job a pc te h2 = (je, job3, e3, h3)" by (cases "empty_job job a pc te h2")
  obtain mc e4 h4 where s4: "clean_members ms h3 = (mc, e4, h4)" by (cases "clean_members ms h3")
  obtain rd h5 where s5: "join_capture st h4 = (rd, h5)" by (cases "join_capture st h4")
  obtain sc e6 p6 where s6: "streams_of p2 = (sc, e6, p6)" by (cases "streams_of p2")
  obtain sm jc e7 h7 where s7: "close_job job3 a tot h5 = (sm, jc, e7, h7)" by (cases "close_job job3 a tot h5")
  define e5 where "e5 = (if rd then [] else [''capture reader did not terminate after Job cleanup''])"
  have out: "v = (je \<and> jc \<and> pc \<and> sc \<and> rd \<and> mv \<and> mc \<and> sm \<and> (case p6 of None \<Rightarrow> True | Some p \<Rightarrow> win_code p \<noteq> None))"
      "errs = e1 @ e2 @ e3 @ e4 @ e5 @ e6 @ e7" "popen' = p6" "h' = h7"
    using run unfolding windows_cleanup_def s1 prod.case s2 s3 s4 s5 s6 [unfolded streams_of_def] Let_def s7 e5_def by auto
  have fr: "fresh h1"
    using new out(4) fresh_close_job [OF s7] fresh_join [OF s5] fresh_clean_members [OF s4] fresh_empty_job [OF s3]
      fresh_clean_leader [OF s2] by simp
  define A where "A = K \<union> set_option job \<union> handles_of popen"
  note one = inventory_keeps [OF s1 held _ fr, folded A_def]
  have one': "holds (A \<union> set ms) h1" "distinct ms" "A \<inter> set ms = {}" "\<not> mv \<longrightarrow> e1 \<noteq> []"
    using one by (auto simp: retains_def A_def)
  have sub: "set_option job \<subseteq> A \<union> set ms" "handles_of popen \<subseteq> A \<union> set ms" by (auto simp: A_def)
  have two: "holds (if pc then (A \<union> set ms) - handles_of popen else A \<union> set ms) h2" "\<not> pc \<longrightarrow> e2 \<noteq> []"
      "pc \<longrightarrow> (case p2 of None \<Rightarrow> True | Some p \<Rightarrow> win_code p \<noteq> None)"
    using holds_clean_leader [OF s2 one'(1) sub] by simp_all
  define B where "B = (if pc then A - handles_of popen else A)"
  have B: "(if pc then (A \<union> set ms) - handles_of popen else A \<union> set ms) = B \<union> set ms" "B \<inter> set ms = {}" "set_option job \<subseteq> B"
    using one'(3) apart by (auto simp: B_def A_def)
  have three: "holds (B \<union> set ms - (set_option job - set_option job3)) h3" "set_option job3 \<subseteq> set_option job" "pc \<and> e3 = [] \<longrightarrow> je"
    using holds_empty_job [OF s3 two(1) [unfolded B(1)]] B(3) by auto
  define C where "C = B - (set_option job - set_option job3)"
  have C: "B \<union> set ms - (set_option job - set_option job3) = C \<union> set ms" "C \<inter> set ms = {}" "set_option job3 \<subseteq> C"
    using B(2,3) three(2) by (auto simp: C_def)
  obtain M where M: "holds (C \<union> M) h4" "mc \<longrightarrow> M = {}" "\<not> mc \<longrightarrow> e4 \<noteq> []"
    using holds_clean_members [OF s4 three(1) [unfolded C(1)] one'(2) C(2)] by auto
  note five = holds_join [OF s5 M(1)]
  have six: "holds (if jc then C \<union> M - set_option job3 else C \<union> M) h7" "\<not> sm \<or> \<not> jc \<longrightarrow> e7 \<noteq> []"
    using holds_close_job [OF s7 five le_supI1 [OF C(3)]] by simp_all
  have "v \<longrightarrow> (if jc then C \<union> M - set_option job3 else C \<union> M) = K"
    using apart M(2) three(2) unfolding out(1) C_def B_def A_def by auto
  moreover have "errs = [] \<longrightarrow> v"
    using one'(4) two(2,3) three(3) M(3) six(2) streams_of_no_error [OF s6] unfolding out(1,2) e5_def
    by (auto split: option.splits if_splits)
  ultimately show ?thesis using six(1) unfolding out(3,4) by (auto simp: out(1))
qed

lemma windows_cleanup_keeps_process:
  "windows_cleanup popen job a st h = (v, errs, popen', h') \<Longrightarrow> popen' = None \<longleftrightarrow> popen = None"
  unfolding windows_cleanup_def Let_def clean_leader_def
  by (auto split: prod.splits option.splits if_splits)

lemma acquire_complete: "acquire popen h = (a, h') \<Longrightarrow> acq_error a = None \<Longrightarrow> acq_proc a \<noteq> None"
  by (auto simp: acquire_def Let_def split: prod.splits sum.splits)

lemma fresh_create: "create_job h = (r, h') \<Longrightarrow> fresh h' \<Longrightarrow> fresh h"
  by (auto simp: create_job_def Let_def fresh_note split: sum.splits)

lemma fresh_configure: "configure_job j h = (r, h') \<Longrightarrow> fresh h' \<longleftrightarrow> fresh h"
  by (auto simp: configure_job_def fresh_note)

lemma fresh_assign: "assign_job j x h = (r, h') \<Longrightarrow> fresh h' \<longleftrightarrow> fresh h"
  by (auto simp: assign_job_def fresh_note)

text \<open>The state setup leaves: the Job, the process and at most a snapshot or thread handle.\<close>

definition acquired_holds :: "acquired \<Rightarrow> win_host \<Rightarrow> bool" where
  "acquired_holds a h \<longleftrightarrow> (\<exists>K. holds (K \<union> set_option (acq_job a) \<union> handles_of (acq_proc a)) h \<and>
     K \<inter> (set_option (acq_job a) \<union> handles_of (acq_proc a)) = {} \<and> set_option (acq_job a) \<inter> handles_of (acq_proc a) = {} \<and>
     (acq_error a = None \<longrightarrow> K = {}))"

lemma acquired_holdsI:
  "holds (K \<union> (set_option j \<union> handles_of p)) h \<Longrightarrow> (set_option j \<union> handles_of p) \<inter> K = {} \<Longrightarrow> set_option j \<inter> handles_of p = {} \<Longrightarrow>
    (e = None \<longrightarrow> K = {}) \<Longrightarrow> acquired_holds \<lparr>acq_job = j, acq_proc = p, acq_assigned = as, acq_error = e\<rparr> h"
  unfolding acquired_holds_def by (intro exI [of _ K]) (simp add: Un_assoc Int_commute)

lemma acquire_handles:
  assumes run: "acquire popen h = (a, h')" and none: "holds {} h" and new: "fresh h'"
  shows "acquired_holds a h'"
proof -
  obtain r1 h1 where s1: "create_job h = (r1, h1)" by (cases "create_job h")
  show ?thesis
  proof (cases r1)
    case (Inl e)
    then show ?thesis
      using run s1 none acquired_holdsI [of "{}" None None h' "Some (SetupError e)" False]
      by (auto simp: acquire_def create_job_def Let_def handles_of_def split: sum.splits)
  next
    case (Inr j)
    have one: "holds {j} h1" using s1 Inr none by (auto simp: create_job_def Let_def split: sum.splits intro!: holds_opened)
    obtain r2 h2 where s2: "configure_job j h1 = (r2, h2)" by (cases "configure_job j h1")
    have two: "holds {j} h2" using s2 one by (auto simp: configure_job_def intro!: holds_asked)
    have only_job: "acquired_holds \<lparr>acq_job = Some j, acq_proc = None, acq_assigned = False, acq_error = Some x\<rparr> h2" for x
      using two by (intro acquired_holdsI [of "{}"]) (auto simp: handles_of_def)
    show ?thesis
    proof (cases "\<exists>e. r2 = Inl e \<or> popen = Inl e")
      case True
      then show ?thesis using run s1 Inr s2 only_job by (auto simp: acquire_def split: sum.splits)
    next
      case False
      then obtain q x ps u where r2: "r2 = Inr u" and popen: "popen = Inr (q, x, ps)" by (cases r2; cases popen) auto
      define p where "p = \<lparr>win_pid = q, win_handle = Some x, win_code = None, win_pipes = ps\<rparr>"
      define h3 where "h3 = note_event (Opened x) h2"
      obtain r4 h4 where s4: "assign_job j x h3 = (r4, h4)" by (cases "assign_job j x h3")
      obtain r5 h5 where s5: "primary_thread_id q h4 = (r5, h5)" by (cases "primary_thread_id q h4")
      obtain r6 h6 where s6: "resume_primary (case r5 of Inr t \<Rightarrow> t | Inl _ \<Rightarrow> 0) h5 = (r6, h6)"
        by (cases "resume_primary (case r5 of Inr t \<Rightarrow> t | Inl _ \<Rightarrow> 0) h5")
      have eq: "(a, h') = (case r4 of Inl e \<Rightarrow> (\<lparr>acq_job = Some j, acq_proc = Some p, acq_assigned = False, acq_error = Some (SetupError e)\<rparr>, h4)
        | Inr _ \<Rightarrow> (case r5 of Inl e \<Rightarrow> (\<lparr>acq_job = Some j, acq_proc = Some p, acq_assigned = True, acq_error = Some e\<rparr>, h5)
        | Inr t \<Rightarrow> (case r6 of Inl e \<Rightarrow> (\<lparr>acq_job = Some j, acq_proc = Some p, acq_assigned = True, acq_error = Some e\<rparr>, h6)
        | Inr _ \<Rightarrow> (\<lparr>acq_job = Some j, acq_proc = Some p, acq_assigned = True, acq_error = None\<rparr>, h6))))"
        using run s6 unfolding acquire_def s1 Inr prod.case sum.case s2 r2 popen Let_def p_def [symmetric] h3_def [symmetric] s4 s5
        by (auto split: sum.splits)
      have "fresh h4" using eq new s5 s6 by (auto split: sum.splits dest: fresh_primary fresh_resume)
      then have "fresh h3" using fresh_assign [OF s4] by simp
      then have x: "x \<noteq> j" using two by (simp add: h3_def fresh_note holds_def)
      have three: "holds {x, j} h3" using holds_opened [OF two] by (simp add: h3_def)
      have four: "holds {x, j} h4" using s4 three by (auto simp: assign_job_def intro!: holds_asked)
      have shape: "acquired_holds \<lparr>acq_job = Some j, acq_proc = Some p, acq_assigned = as, acq_error = e\<rparr> g"
        if "holds ({x, j} \<union> K) g" "{x, j} \<inter> K = {}" "e = None \<longrightarrow> K = {}" for as e g K
        using that x by (intro acquired_holdsI [of K]) (auto simp: handles_of_def p_def Un_commute insert_commute)
      show ?thesis
      proof (cases r4)
        case (Inl e)
        then show ?thesis using eq shape [of "{}" h4 "Some (SetupError e)" False] four by simp
      next
        case r4: (Inr u)
        show ?thesis
        proof (cases r5)
          case (Inl e)
          then show ?thesis using eq r4 primary_keeps [OF s5 four] shape new by auto
        next
          case r5: (Inr t)
          have "fresh h6" using eq r4 r5 new by (auto split: sum.splits)
          then have "fresh h5" by (rule fresh_resume [OF s6])
          then have five: "holds {x, j} h5" using primary_keeps [OF s5 four] r5 by auto
          obtain K where K: "holds ({x, j} \<union> K) h6" "{x, j} \<inter> K = {}" "(\<exists>u. r6 = Inr u) \<longrightarrow> K = {}"
            using resume_keeps [OF s6 five \<open>fresh h6\<close>] by blast
          then show ?thesis using eq r4 r5 shape [OF K(1,2)] by (auto split: sum.splits)
        qed
      qed
    qed
  qed
qed

lemma seen_exit_same [simp]:
  "acq_error (seen_exit out k a) = acq_error a" "acq_job (seen_exit out k a) = acq_job a"
  "acq_assigned (seen_exit out k a) = acq_assigned a" "handles_of (acq_proc (seen_exit out k a)) = handles_of (acq_proc a)"
  "acq_proc (seen_exit out k a) = None \<longleftrightarrow> acq_proc a = None"
  by (auto simp: seen_exit_def handles_of_def split: option.splits)

text \<open>C6: the Windows run accounts for its handles. If the system never hands out a handle that is still
  open, then no handle is asked or closed unless it is open, whatever fails; a run that returns has closed
  every handle, has a return code and says so with \<open>cleanup_verified\<close>; and where setup succeeded, an error whose
  retained result says the cleanup is verified has closed every handle too.\<close>

theorem windows_run_accounts_for_its_handles:
  assumes run: "run_windows popen exit_code deadline obs merge h c = Some (out, h')" and start: "wtrace h = []" and new: "fresh h'"
  shows "owned_uses h' \<and>
    (\<forall>r. out = Inr r \<longrightarrow> cleanup_verified r \<and> res_returncode r \<noteq> None \<and> live (wtrace h') = {}) \<and>
    (\<forall>m r. out = Inl (BoundedProcessError m (Some r)) \<and> cleanup_verified r \<and> acq_error (fst (acquire popen h)) = None \<longrightarrow> live (wtrace h') = {})"
proof -
  have none: "holds {} h" using start by (simp add: holds_def owned_uses_def live_def)
  obtain a0 h1 where s1: "acquire popen h = (a0, h1)" by (cases "acquire popen h")
  define a where "a = (case acq_error a0 of Some _ \<Rightarrow> a0 | None \<Rightarrow> (case poll deadline obs 0 of Some out \<Rightarrow> seen_exit out exit_code a0 | None \<Rightarrow> a0))"
  have a: "acq_job a = acq_job a0" "acq_assigned a = acq_assigned a0" "acq_error a = acq_error a0"
      "handles_of (acq_proc a) = handles_of (acq_proc a0)" "acq_proc a = None \<longleftrightarrow> acq_proc a0 = None"
    unfolding a_def by (auto split: option.splits)
  define st where "st = (if acq_error a = None then True else acq_proc a \<noteq> None)"
  obtain v errs p h2 where s2: "windows_cleanup (acq_proc a) (acq_job a) (acq_assigned a) st h1 = (v, errs, p, h2)"
    by (cases "windows_cleanup (acq_proc a) (acq_job a) (acq_assigned a) st h1")
  have h2: "h' = h2"
    using run s2 unfolding run_windows_def s1 prod.case st_def a_def
    by (auto simp: failed_setup_def finish_windows_def Let_def split: option.splits)
  have "acquired_holds a0 h1" using acquire_handles [OF s1 none] fresh_windows_cleanup [OF s2] new h2 by simp
  then obtain K where K: "holds (K \<union> set_option (acq_job a) \<union> handles_of (acq_proc a)) h1"
      "K \<inter> (set_option (acq_job a) \<union> handles_of (acq_proc a)) = {}" "set_option (acq_job a) \<inter> handles_of (acq_proc a) = {}"
      "acq_error a = None \<longrightarrow> K = {}"
    by (auto simp: acquired_holds_def a)
  note swept = cleanup_handles [OF s2 K(1-3) new [unfolded h2]]
  have finished: "\<exists>oc. finish_windows merge a h1 oc c = (out, h')" if "acq_error a0 = None"
    using run that unfolding run_windows_def s1 prod.case a_def by (auto split: option.splits)
  have fine: "cleanup_verified r \<longrightarrow> live (wtrace h') = {}"
    if clean: "acq_error a = None" and result: "out = Inr r \<or> (\<exists>m. out = Inl (BoundedProcessError m (Some r)))" for r
  proof -
    obtain oc where "finish_windows merge a h1 oc c = (out, h')" using finished clean a(3) by auto
    then have "cleanup_verified r \<longrightarrow> v"
      using clean result s2 unfolding finish_windows_def st_def
      by (auto simp: win_result_def Let_def split: if_splits)
    then show ?thesis using swept K(4) clean h2 by (auto simp: holds_def)
  qed
  moreover have "acq_error a = None \<and> errs = [] \<and> cleanup_verified r = v \<and> res_returncode r = (case p of None \<Rightarrow> None | Some q \<Rightarrow> win_code q)"
    if "out = Inr r" for r
  proof -
    have none: "acq_error a0 = None"
      using that run unfolding run_windows_def s1 prod.case by (auto simp: failed_setup_def Let_def split: option.splits prod.splits)
    obtain oc where "finish_windows merge a h1 oc c = (out, h')" using finished none by auto
    then show ?thesis
      using that none a(3) s2 unfolding finish_windows_def st_def
      by (auto simp: win_result_def Let_def split: if_splits)
  qed
  moreover have "p \<noteq> None" if "acq_error a = None"
    using acquire_complete [OF s1 that [unfolded a]] a(5) windows_cleanup_keeps_process [OF s2] by simp
  ultimately show ?thesis using swept h2 s1 a by (auto simp: holds_def)
qed

text \<open>The run of a host that answers in order: Job 7, process handle 8, snapshot 9, thread 10, and one member of the Job whose
  handle 11 is closed at the second attempt.\<close>

definition quiet_win_host :: win_host where
  "quiet_win_host = \<lparr>job_creates = [Inr 7], job_configs = [], job_assigns = [], snapshots = [Inr 9],
     scans = [Threads [(40, 3), (41, 5)] 18 []], thread_opens = [Inr 10], resumes = [1], handle_closes = [],
     totals = [], id_queries = [Listed 1 1 [41]], member_opens = [HandleOf 11], in_jobs = [], member_waits = [], actives = [], time_left = [],
     leader_polls = [], terminates = [], direct_kills = [], leader_waits = [], reader_joins = [], wtrace = []\<rparr>"

definition demo_popen :: "pyexc + nat \<times> nat \<times> pipe option list" where
  "demo_popen = Inr (41, 8, [None, None])"

lemmas win_eval = run_windows_def seen_exit_def acquire_def create_job_def configure_job_def assign_job_def primary_thread_id_def
  resume_primary_def scan_threads_def resume_result_def close_owned_handle_def close_handle_def note_event_def next_answer_def
  quiet_win_host_def demo_popen_def windows_cleanup_def inventory_def total_processes_def retain_member_def
  clean_leader_def poll_leader_def stop_leader_def terminate_job_def reap_leader_def wait_process_def kill_process_def
  close_popen_process_handle_def empty_job_def empty_rounds_def active_processes_def join_capture_def close_job_def
  finish_windows_def failed_setup_def win_result_def close_streams_def close_stream_def Let_def retain_job_members.simps wait_job_empty.simps

definition quiet_trace :: "wevent list" where
  "quiet_trace = [Opened 7, Asked [7], Opened 8, Asked [7, 8], Opened 9, Asked [9], CloseTried 9 True, Opened 10, Asked [10],
     CloseTried 10 True, Asked [7], Asked [7], Opened 11, Asked [11, 7], CloseTried 8 True,
     Asked [7], Asked [11], CloseTried 11 True, LeaderAsked, Asked [7], CloseTried 7 True]"

lemma quiet_windows_run:
  assumes "cap_errors c = []" "poll deadline obs 0 = Some LeaderExited"
  shows "\<exists>r h'. run_windows demo_popen 0 deadline obs True quiet_win_host c = Some (Inr r, h') \<and> wtrace h' = quiet_trace"
  using assms by (simp add: win_eval quiet_trace_def)

lemma quick_exit_poll: "poll 5 quick_exit 0 = Some LeaderExited"
  by (simp add: poll.simps [of 5 quick_exit 0] poll.simps [of 5 quick_exit "Suc 0"] poll_round_def quick_exit_def)

lemma windows_run_accounts_for_its_handles_witness:
  "\<exists>r h'. run_windows demo_popen 0 5 quick_exit True quiet_win_host done_capture = Some (Inr r, h') \<and> wtrace h' = quiet_trace
     \<and> cleanup_verified r \<and> live quiet_trace = {}"
proof -
  obtain r h' where run: "run_windows demo_popen 0 5 quick_exit True quiet_win_host done_capture = Some (Inr r, h')"
    and tr: "wtrace h' = quiet_trace"
    using quiet_windows_run [OF done_capture_facts(4) quick_exit_poll] by blast
  have "fresh h'" by (simp add: fresh_def tr quiet_trace_def)
  from windows_run_accounts_for_its_handles [OF run _ this] show ?thesis
    using run tr by (auto simp: quiet_win_host_def)
qed

text \<open>Where \<open>ResumeThread\<close> fails and the thread handle cannot be closed either, the exception of the call passes
  through the \<open>finally\<close> clause; the error is then not the one of an owned handle, and the result says the
  cleanup is verified although the thread handle is open.\<close>

definition stuck_thread_host :: win_host where
  "stuck_thread_host = quiet_win_host\<lparr>resumes := [4294967295], handle_closes := [None, Some ''busy'', Some ''busy'']\<rparr>"

lemma unreported_thread_handle:
  assumes "\<not> cap_exceeded c"
  shows "\<exists>m r h'. run_windows demo_popen 0 deadline obs True stuck_thread_host c = Some (Inl (BoundedProcessError m (Some r)), h') \<and>
    cleanup_verified r \<and> live (wtrace h') = {10}"
  using assms by (auto simp: stuck_thread_host_def win_eval live_def)

end
