(* ===== verification/Release.thy ===== *)
theory Release
  imports HandoffArtifacts
begin

text \<open>
  The release verifier \<open>port/release/verify.py\<close>: the shape of the release manifest, the agreement with the Cargo
  workspace and with the adoption evidence, the Git provenance, and the dry run of the packages. Git and Cargo
  are one function from a command line to an exit code and the merged output. A validated manifest is a record.
\<close>

record release_host =
  rmachine :: world
  rroot :: path
  cwd :: path
  run_command :: "string list \<Rightarrow> (int \<times> string) res"
  temporary_directory :: "path res"
  packaged :: "string list \<Rightarrow> world"

text \<open>\<open>packaged names\<close> is the machine once Cargo has packaged these crates in this order. \<open>if not b: fail(message)\<close>:\<close>

definition verify_that :: "bool \<Rightarrow> string list \<Rightarrow> unit res" where
  "verify_that b parts = require b (VerificationError (msg parts))"

lemma verify_that_Inr [simp]: "verify_that b parts = Inr u \<longleftrightarrow> b"
  by (simp add: verify_that_def)

lemma verify_that_True [simp]: "verify_that True parts = Inr ()"
  by (simp add: verify_that_def)

section \<open>Reading and running\<close>

definition SEMVER :: regex where
  "SEMVER = CORE"

definition TAG :: regex where
  "TAG = Seq (Chr (CHR ''v'')) CORE"

definition FORBIDDEN_PATH_PARTS :: "string list" where
  "FORBIDDEN_PATH_PARTS = [''.worktrees'', ''target'', ''vendor'']"

definition checked_output :: "release_host \<Rightarrow> string list \<Rightarrow> string res" where
  "checked_output h cmd =
     bind_res (run_command h cmd) (\<lambda>(exit_code, out).
     if exit_code = 0 then Inr out
     else Inl (VerificationError (msg [''command failed ('', join '' '' cmd, '')'', if strip out = [] then [] else msg ['': '', strip out]])))"

text \<open>The message names the path relative to the root; for a path elsewhere \<open>relative_to\<close> raises.\<close>

definition read_json_file :: "release_host \<Rightarrow> path \<Rightarrow> pydict res" where
  "read_json_file h p =
     (let shown = (if is_relative_to p (rroot h) then Inr (as_posix (drop (length (rroot h)) p)) else Inl (ValueError ''not in the subpath'')) in
      case bind_res (read_text (rmachine h) p) (json_loads (rmachine h)) of
        Inr (VDict d) \<Rightarrow> Inr d
      | Inr _ \<Rightarrow> bind_res shown (\<lambda>s. Inl (VerificationError (msg [s, '' must contain an object''])))
      | Inl e \<Rightarrow> if is_os_error e \<or> is_json_error e
                  then bind_res shown (\<lambda>s. Inl (VerificationError (msg [''cannot read '', s, '': '', exc_text e]))) else Inl e)"

text \<open>\<open>symlink_on_way\<close>: the loop over the components from the root down.\<close>

fun symlink_on_way :: "world \<Rightarrow> path \<Rightarrow> string list \<Rightarrow> bool" where
  "symlink_on_way w current [] = False"
| "symlink_on_way w current (part # parts) = (lstat_of w (current @ [part]) = Inr Symlink \<or> symlink_on_way w (current @ [part]) parts)"

definition safe_repository_path :: "release_host \<Rightarrow> pyval \<Rightarrow> path res" where
  "safe_repository_path h relative =
     bind_res (verify_that (str_such (\<lambda>s. strip s \<noteq> [] \<and> \<not> is_absolute s) relative) [''repository path must be a non-empty relative path'']) (\<lambda>_.
     let s = the (as_str relative); parts = path_parts s; forbidden = sort (filter (\<lambda>p. p \<in> set FORBIDDEN_PATH_PARTS) (remdups parts)) in
     bind_res (verify_that (''..'' \<notin> set parts) [''repository path escapes repository: '', s]) (\<lambda>_.
     bind_res (case forbidden of [] \<Rightarrow> Inr () | p # _ \<Rightarrow> Inl (VerificationError (msg [''repository path contains forbidden component: '', p]))) (\<lambda>_.
     bind_res (verify_that (\<not> symlink_on_way (rmachine h) (rroot h) parts) [''repository path contains symlink component: '', s]) (\<lambda>_.
     Inr (rroot h @ parts)))))"

definition validate_tag :: "pyval \<Rightarrow> string res" where
  "validate_tag v = bind_res (verify_that (str_such (fullmatch TAG) v) [''release.tag must be a stable vMAJOR.MINOR.PATCH tag'']) (\<lambda>_. Inr (the (as_str v)))"

section \<open>The manifest\<close>

record crate =
  crate_name :: string
  crate_manifest :: string
  crate_version :: string
  crate_adopted :: bool
  crate_publishable :: bool
  crate_adopters :: "string list"

record release =
  rel_tag :: string
  rel_source :: pyval
  rel_crates :: "crate list"
  rel_order :: "string list"
  rel_oracle :: string
  rel_inputs :: "string list"

definition nonempty_str :: "pyval \<Rightarrow> bool" where
  "nonempty_str = str_such (\<lambda>s. s \<noteq> [])"

definition CRATE_FIELDS :: "string list" where
  "CRATE_FIELDS = [''name'', ''manifest'', ''version'', ''adopted'', ''publishable'', ''adopters'', ''reason'']"

definition check_repository :: "pydict \<Rightarrow> unit res" where
  "check_repository manifest =
     bind_res (verify_that (is_dict (dget manifest ''repository'')) [''manifest: repository must be an object'']) (\<lambda>_.
     let repository = the (as_dict (dget manifest ''repository'')) in
     bind_res (for_each (\<lambda>k. verify_that (nonempty_str (dget repository k)) [''manifest.repository.'', k, '' must be non-empty''])
       [''slug'', ''url'', ''go_module'']) (\<lambda>_.
     verify_that (dget repository ''slug'' = VStr ''danieljustus/symaira-corekit'') [''manifest: repository slug is not CoreKit'']))"

text \<open>One crate; \<open>names\<close> are the names seen before it.\<close>

definition check_crate :: "string list \<Rightarrow> pyval \<Rightarrow> crate res" where
  "check_crate names v =
     bind_res (verify_that (is_dict v) [''release.crates entries must be objects'']) (\<lambda>_.
     let d = the (as_dict v) in
     bind_res (let missing = sort (filter (\<lambda>k. \<not> has_key d k) CRATE_FIELDS) in
       verify_that (missing = []) [''release crate is missing '', repr_strs missing]) (\<lambda>_.
     bind_res (verify_that (str_such (\<lambda>s. s \<noteq> [] \<and> s \<notin> set names) (dget d ''name'')) [''release crate names must be unique non-empty strings'']) (\<lambda>_.
     let name = the (as_str (dget d ''name'')) in
     bind_res (verify_that (nonempty_str (dget d ''manifest'')) [name, '': manifest must be a non-empty path'']) (\<lambda>_.
     bind_res (verify_that (str_such (fullmatch SEMVER) (dget d ''version'')) [name, '': version must be stable SemVer without v prefix'']) (\<lambda>_.
     bind_res (verify_that (is_bool (dget d ''adopted'') \<and> is_bool (dget d ''publishable'')) [name, '': adopted and publishable must be booleans'']) (\<lambda>_.
     bind_res (verify_that (is_list (dget d ''adopters'') \<and> list_all nonempty_str (the (as_list (dget d ''adopters'')))) [name, '': adopters must be a string array'']) (\<lambda>_.
     bind_res (verify_that (str_such (\<lambda>s. strip s \<noteq> []) (dget d ''reason'')) [name, '': reason must be non-empty'']) (\<lambda>_.
     let adopted = truthy (dget d ''adopted''); publishable = truthy (dget d ''publishable'');
         adopters = strs_of (the (as_list (dget d ''adopters''))) in
     bind_res (verify_that (\<not> (publishable \<and> \<not> adopted)) [name, '': a non-adopted crate cannot be publishable'']) (\<lambda>_.
     bind_res (verify_that (\<not> (adopted \<and> length (remdups adopters) < 2)) [name, '': adopted crates need at least two independent adopters'']) (\<lambda>_.
     bind_res (verify_that (adopted \<or> adopters = []) [name, '': non-adopted crates must have no adopters'']) (\<lambda>_.
     Inr \<lparr>crate_name = name, crate_manifest = the (as_str (dget d ''manifest'')), crate_version = the (as_str (dget d ''version'')),
          crate_adopted = adopted, crate_publishable = publishable, crate_adopters = adopters\<rparr>)))))))))))"

fun check_crates :: "string list \<Rightarrow> pyval list \<Rightarrow> crate list res" where
  "check_crates names [] = Inr []"
| "check_crates names (v # vs) =
     bind_res (check_crate names v) (\<lambda>c. bind_res (check_crates (crate_name c # names) vs) (\<lambda>cs. Inr (c # cs)))"

text \<open>The planned order: no duplicates, no unknown crates, exactly the adopted ones.\<close>

definition check_order :: "(rat \<Rightarrow> string) \<Rightarrow> crate list \<Rightarrow> pyval list \<Rightarrow> string list res" where
  "check_order fl crates order =
     bind_res (set_size order) (\<lambda>n.
     bind_res (verify_that (int (length order) = n) [''release.planned_publish_order contains duplicates'']) (\<lambda>_.
     let unknown = filter (\<lambda>v. \<not> str_such (\<lambda>s. s \<in> crate_name ` set crates) v) order; adopted = map crate_name (filter crate_adopted crates) in
     bind_res (if unknown = [] then Inr () else bind_res (py_sorted (VList unknown)) (\<lambda>vs.
       Inl (VerificationError (msg [''release.planned_publish_order references unknown crates: '', py_repr fl vs])))) (\<lambda>_.
     bind_res (verify_that (set (strs_of order) = set adopted) [''release.planned_publish_order must contain every adopted crate and no other crate'']) (\<lambda>_.
     Inr (strs_of order)))))"

definition check_provenance :: "world \<Rightarrow> pydict \<Rightarrow> (string \<times> string list) res" where
  "check_provenance w release =
     bind_res (verify_that (is_dict (dget release ''provenance'')) [''release.provenance must be an object'']) (\<lambda>_.
     let provenance = the (as_dict (dget release ''provenance'')); oracle = py_str (float_text w) (dget_or provenance ''oracle_commit'' (VStr []));
         inputs = dget provenance ''input_files'' in
     bind_res (verify_that (fullmatch HEX40 oracle) [''release.provenance.oracle_commit must be a 40-hex commit'']) (\<lambda>_.
     bind_res (verify_that (is_list inputs \<and> inputs \<noteq> VList [] \<and> list_all is_str (the (as_list inputs)))
       [''release.provenance.input_files must be a non-empty string array'']) (\<lambda>_.
     bind_res (verify_that (str_such (\<lambda>s. strip s \<noteq> []) (dget provenance ''source_revision_policy''))
       [''release.provenance.source_revision_policy must explain dry-run provenance'']) (\<lambda>_.
     Inr (oracle, strs_of (the (as_list inputs)))))))"

definition check_sbom :: "pydict \<Rightarrow> unit res" where
  "check_sbom release =
     bind_res (verify_that (get_if_dict (dget release ''sbom'') ''required'' = VBool True) [''release.sbom.required must be true'']) (\<lambda>_.
     verify_that (get_if_dict (dget release ''sbom'') ''format'' = VStr ''cargo-metadata-json'' \<and> is_str (get_if_dict (dget release ''sbom'') ''command''))
       [''release.sbom must declare the cargo metadata command''])"

definition check_plan :: "world \<Rightarrow> pydict \<Rightarrow> string res" where
  "check_plan w release =
     bind_res (validate_tag (dget release ''tag'')) (\<lambda>tag.
     bind_res (verify_that (dget release ''source_revision'' = VStr ''HEAD'' \<or> fullmatch HEX40 (py_str (float_text w) (dget_or release ''source_revision'' (VStr []))))
       [''release.source_revision must be HEAD for a dry-run or a 40-hex commit'']) (\<lambda>_.
     bind_res (verify_that (dget release ''publish'' = VBool False) [''release.publish must remain false; this tool never publishes'']) (\<lambda>_.
     bind_res (verify_that (dget release ''publication_status'' = VStr ''not-run'')
       [''release.publication_status must be not-run until external publication is verified'']) (\<lambda>_.
     bind_res (verify_that (dget release ''registry'' = VStr ''https://crates.io'') [''release.registry must be crates.io'']) (\<lambda>_.
     bind_res (verify_that (is_list (dget release ''planned_publish_order'')) [''release.planned_publish_order must be an array'']) (\<lambda>_.
     bind_res (verify_that (is_list (dget release ''crates'') \<and> dget release ''crates'' \<noteq> VList []) [''release.crates must be a non-empty array'']) (\<lambda>_.
     Inr tag)))))))"

definition validate_manifest_shape :: "world \<Rightarrow> pydict \<Rightarrow> release res" where
  "validate_manifest_shape w manifest =
     bind_res (verify_that (py_eq (dget manifest ''schema_version'') (VInt 1)) [''manifest: unsupported schema_version'']) (\<lambda>_.
     bind_res (check_repository manifest) (\<lambda>_.
     bind_res (verify_that (is_dict (dget manifest ''release'')) [''manifest: release must be an object'']) (\<lambda>_.
     let release = the (as_dict (dget manifest ''release'')) in
     bind_res (check_plan w release) (\<lambda>tag.
     bind_res (check_crates [] (the (as_list (dget release ''crates'')))) (\<lambda>crates.
     bind_res (check_order (float_text w) crates (the (as_list (dget release ''planned_publish_order'')))) (\<lambda>order.
     bind_res (check_provenance w release) (\<lambda>(oracle, inputs).
     bind_res (check_sbom release) (\<lambda>_.
     Inr \<lparr>rel_tag = tag, rel_source = dget release ''source_revision'', rel_crates = crates, rel_order = order,
          rel_oracle = oracle, rel_inputs = inputs\<rparr>))))))))"

section \<open>The workspace\<close>

definition METADATA_COMMAND :: "string list" where
  "METADATA_COMMAND = [''cargo'', ''metadata'', ''--locked'', ''--all-features'', ''--format-version'', ''1'', ''--no-deps'']"

text \<open>The packages of the answer.\<close>

definition cargo_metadata :: "release_host \<Rightarrow> pyval list res" where
  "cargo_metadata h =
     bind_res (checked_output h METADATA_COMMAND) (\<lambda>output.
     case json_loads (rmachine h) output of
       Inl e \<Rightarrow> if is_json_error e then Inl (VerificationError (msg [''cargo metadata returned invalid JSON: '', exc_text e])) else Inl e
     | Inr v \<Rightarrow>
         bind_res (verify_that (is_list (get_if_dict v ''packages'')) [''cargo metadata did not return packages'']) (\<lambda>_.
         Inr (the (as_list (get_if_dict v ''packages'')))))"

text \<open>The dictionary of packages by name: of two with one name the last counts.\<close>

fun named_package :: "pyval \<Rightarrow> (string \<times> pydict) option" where
  "named_package (VDict d) = (case as_str (dget d ''name'') of None \<Rightarrow> None | Some name \<Rightarrow> Some (name, d))"
| "named_package _ = None"

definition packages_by_name :: "pyval list \<Rightarrow> (string \<times> pydict) list" where
  "packages_by_name packages = rev (List.map_filter named_package packages)"

definition path_of_value :: "release_host \<Rightarrow> pyval \<Rightarrow> path res" where
  "path_of_value h v = (case as_str v of None \<Rightarrow> Inl TypeError | Some s \<Rightarrow> Inr (join_path (cwd h) s))"

definition check_package :: "release_host \<Rightarrow> (string \<times> pydict) list \<Rightarrow> crate \<Rightarrow> unit res" where
  "check_package h packages c =
     (let w = rmachine h; name = crate_name c; package = the (map_of packages name) in
      bind_res (safe_repository_path h (VStr (crate_manifest c))) (\<lambda>p.
      bind_res (resolve_path w p) (\<lambda>expected.
      bind_res (resolve_path w (rroot h)) (\<lambda>base.
      bind_res (verify_that (is_relative_to expected base) [name, '': manifest path escapes repository'']) (\<lambda>_.
      bind_res (path_of_value h (dget_or package ''manifest_path'' (VStr []))) (\<lambda>q.
      bind_res (resolve_path w q) (\<lambda>actual.
      bind_res (verify_that (actual = expected) [name, '': manifest path does not match cargo metadata'']) (\<lambda>_.
      bind_res (verify_that (dget package ''version'' = VStr (crate_version c))
        [name, '': manifest version '', crate_version c, '' differs from Cargo metadata '', py_str (float_text w) (dget package ''version'')]) (\<lambda>_.
      bind_res (if crate_publishable c
          then verify_that (dget package ''publish'' \<noteq> VList []) [name, '': release marks crate publishable but Cargo marks it publish=false'']
          else verify_that (dget package ''publish'' = VList []) [name, '': Cargo metadata must explicitly mark every non-publishable crate with publish=[]'']) (\<lambda>_.
      verify_that (is_file w expected) [name, '': manifest does not exist'']))))))))))"

definition validate_workspace :: "release_host \<Rightarrow> release \<Rightarrow> pyval list \<Rightarrow> unit res" where
  "validate_workspace h rel metadata =
     (let packages = packages_by_name metadata; package_names = map fst packages; manifest_names = map crate_name (rel_crates rel) in
      bind_res (verify_that (set package_names = set manifest_names)
        [''manifest workspace coverage differs: missing='', repr_strs (sorted_set (filter (\<lambda>n. n \<notin> set manifest_names) package_names)),
         '' extra='', repr_strs (sorted_set (filter (\<lambda>n. n \<notin> set package_names) manifest_names))]) (\<lambda>_.
      for_each (check_package h packages) (rel_crates rel)))"

section \<open>Adoption\<close>

definition EVIDENCE_PATH :: "release_host \<Rightarrow> path" where
  "EVIDENCE_PATH h = rroot h @ [''testdata'', ''rust-port'', ''adoption'', ''evidence.json'']"

text \<open>The repositories the evidence names as consumers of a crate.\<close>

fun consumer_pair :: "pyval \<Rightarrow> (string \<times> string) option" where
  "consumer_pair (VDict d) =
     (case (as_str (dget d ''crate''), as_str (dget d ''repository'')) of (Some c, Some r) \<Rightarrow> Some (c, r) | _ \<Rightarrow> None)"
| "consumer_pair _ = None"

definition expected_adopters :: "pyval list \<Rightarrow> string \<Rightarrow> string set" where
  "expected_adopters consumers name = set (map snd (filter (\<lambda>(c, _). c = name) (List.map_filter consumer_pair consumers)))"

definition validate_adoption :: "release_host \<Rightarrow> release \<Rightarrow> unit res" where
  "validate_adoption h rel =
     bind_res (read_json_file h (EVIDENCE_PATH h)) (\<lambda>evidence.
     bind_res (iter_items (dget_or evidence ''consumers'' (VList []))) (\<lambda>consumers.
     for_each (\<lambda>c. verify_that (crate_adopted c \<longrightarrow> set (crate_adopters c) = expected_adopters consumers (crate_name c))
       [crate_name c, '': adopter list differs from tracked RUST-005 evidence'']) (rel_crates rel)))"

section \<open>Git\<close>

definition RUST_TAG_PREFIXES :: "string list" where
  "RUST_TAG_PREFIXES = [''rust-v'', ''rust/'', ''crate-v'']"

definition rust_tag :: "string \<Rightarrow> bool" where
  "rust_tag t = list_ex (startswith t) RUST_TAG_PREFIXES"

definition cat_commit :: "release_host \<Rightarrow> string \<Rightarrow> string res" where
  "cat_commit h revision = checked_output h [''git'', ''cat-file'', ''-e'', revision @ ''^{commit}'']"

text \<open>\<open>validate_git_provenance\<close>; the empty string counts as no tag where the code says \<open>or\<close>.\<close>

definition selected :: "string option \<Rightarrow> release \<Rightarrow> string" where
  "selected tag rel = (case tag of None \<Rightarrow> rel_tag rel | Some t \<Rightarrow> if t = [] then rel_tag rel else t)"

definition validate_git_provenance :: "release_host \<Rightarrow> release \<Rightarrow> string option \<Rightarrow> string res" where
  "validate_git_provenance h rel selected_tag =
     bind_res (validate_tag (VStr (selected selected_tag rel))) (\<lambda>_.
     bind_res (verify_that (selected_tag = None \<or> selected_tag = Some (rel_tag rel))
       [''selected tag '', selected selected_tag rel, '' does not match manifest release tag '', rel_tag rel]) (\<lambda>_.
     bind_res (checked_output h [''git'', ''rev-parse'', ''HEAD'']) (\<lambda>out.
     let current = strip out; source = rel_source rel; revision = py_str (float_text (rmachine h)) source in
     bind_res (if source = VStr ''HEAD'' then Inr current
       else bind_res (cat_commit h revision) (\<lambda>_.
         bind_res (verify_that (source = VStr current) [''release.source_revision must match checkout HEAD; packaging uses the current checkout'']) (\<lambda>_.
         Inr revision))) (\<lambda>resolved.
     bind_res (cat_commit h (rel_oracle rel)) (\<lambda>_.
     bind_res (checked_output h [''git'', ''tag'', ''--list'']) (\<lambda>tags.
     bind_res (verify_that (\<not> list_ex rust_tag (splitlines tags))
       [''repository contains a Rust-specific tag; Go v* tags must remain the only release namespace'']) (\<lambda>_.
     bind_res (verify_that (current \<noteq> []) [''cannot resolve current repository revision'']) (\<lambda>_.
     Inr resolved))))))))"

definition STATUS_COMMAND :: "string list" where
  "STATUS_COMMAND = [''git'', ''status'', ''--porcelain=v1'', ''--untracked-files=all'']"

definition validate_clean_source :: "release_host \<Rightarrow> unit res" where
  "validate_clean_source h =
     bind_res (checked_output h STATUS_COMMAND) (\<lambda>status.
     verify_that (strip status = []) [''release verification requires a clean source checkout''])"

section \<open>Packages\<close>

definition package_candidates :: "release \<Rightarrow> crate list" where
  "package_candidates rel = filter (\<lambda>c. crate_name c \<in> set (rel_order rel)) (rel_crates rel)"

definition EM_DASH :: string where
  "EM_DASH = [CHR 0xE2, CHR 0x80, CHR 0x94]"

definition semver_baseline :: "crate list \<Rightarrow> string" where
  "semver_baseline candidates =
     (let released = filter (\<lambda>c. crate_publishable c \<and> crate_version c \<noteq> ''0.0.0'') candidates in
      if released = []
      then msg [''semver baseline: none '', EM_DASH, '' every publish candidate is unpublished, so cargo semver-checks check-release skips them and API compatibility stays unverified'']
      else msg [''semver baseline: '', join '','' (map (\<lambda>c. msg [crate_name c, '' v'', crate_version c]) released)])"

definition archive_path :: "path \<Rightarrow> crate \<Rightarrow> path" where
  "archive_path target c = join_path (target @ [''package'']) (msg [crate_name c, ''-'', crate_version c, ''.crate''])"

definition package_command :: "path \<Rightarrow> crate \<Rightarrow> string list" where
  "package_command target c =
     [''cargo'', ''package'', ''--locked'', ''--target-dir'', CHR ''/'' # as_posix target, ''--package'', crate_name c]"

text \<open>\<open>dry_run_packages\<close>: \<open>names\<close> are the crates packaged so far.\<close>

fun package_loop :: "release_host \<Rightarrow> path \<Rightarrow> string list \<Rightarrow> crate list \<Rightarrow> (string \<times> string) list res" where
  "package_loop h target names [] = Inr []"
| "package_loop h target names (c # cs) =
     bind_res (checked_output h (package_command target c)) (\<lambda>_.
     let names' = names @ [crate_name c]; w = packaged h names'; archive = archive_path target c in
     bind_res (verify_that (is_file w archive) [crate_name c, '': cargo package produced no expected archive'']) (\<lambda>_.
     bind_res (read_bytes w archive) (\<lambda>b.
     bind_res (package_loop h target names' cs) (\<lambda>rest. Inr ((crate_name c, sha256 w b) # rest)))))"

definition dry_run_packages :: "release_host \<Rightarrow> crate list \<Rightarrow> (string \<times> string) list res" where
  "dry_run_packages h candidates =
     bind_res (temporary_directory h) (\<lambda>directory. package_loop h (directory @ [''target'']) [] candidates)"

section \<open>The command line\<close>

record release_args =
  dry_run :: bool
  tag_option :: "string option"
  manifest_option :: path

definition check_input :: "release_host \<Rightarrow> string \<Rightarrow> unit res" where
  "check_input h relative =
     bind_res (safe_repository_path h (VStr relative)) (\<lambda>p.
     verify_that (is_file (rmachine h) p) [''missing provenance input: '', relative])"

definition input_digest :: "release_host \<Rightarrow> string list \<Rightarrow> string \<Rightarrow> string res" where
  "input_digest h names relative =
     (let w = packaged h names in
      bind_res (resolve_path w (join_path (rroot h) relative)) (\<lambda>p.
      bind_res (read_bytes w p) (\<lambda>b. Inr (msg [relative, ''='', sha256 w b]))))"

definition release_report :: "release_args \<Rightarrow> release \<Rightarrow> pyval list \<Rightarrow> string \<Rightarrow> crate list \<Rightarrow> (string \<times> string) list \<Rightarrow> string list \<Rightarrow> string list" where
  "release_report args rel metadata revision candidates archives digests =
     (let n = str_int (int (length metadata)) in
      [msg [''ok: dry-run tag='', selected (tag_option args) rel, '' source_revision='', revision],
       msg [''ok: workspace_packages='', n, '' publish_candidates='', str_int (int (length candidates)), '' order='', join '','' (map crate_name candidates)],
       msg [''ok: package_archives='', join '','' (map (\<lambda>(name, digest). msg [name, '':'', digest]) archives)],
       msg [''ok: sbom=cargo-metadata-json packages='', n],
       msg [''ok: provenance_inputs='', join '','' digests],
       semver_baseline candidates,
       ''external gate: crates.io publication, ownership, and public-byte readback not run''])"

text \<open>\<open>main\<close>: the exit code and the lines on standard output. \<open>parser.error\<close> exits with 2.\<close>

definition release_main :: "release_host \<Rightarrow> release_args \<Rightarrow> (nat \<times> string list) res" where
  "release_main h args =
     (if \<not> dry_run args then Inr (2, []) else
      bind_res (resolve_path (rmachine h) (manifest_option args)) (\<lambda>manifest_path.
      bind_res (read_json_file h manifest_path) (\<lambda>manifest.
      bind_res (validate_manifest_shape (rmachine h) manifest) (\<lambda>rel.
      bind_res (cargo_metadata h) (\<lambda>metadata.
      bind_res (validate_workspace h rel metadata) (\<lambda>_.
      bind_res (validate_adoption h rel) (\<lambda>_.
      bind_res (validate_git_provenance h rel (tag_option args)) (\<lambda>revision.
      bind_res (validate_clean_source h) (\<lambda>_.
      bind_res (for_each (check_input h) (rel_inputs rel)) (\<lambda>_.
      let candidates = package_candidates rel in
      bind_res (verify_that (candidates \<noteq> []) [''release.planned_publish_order has no candidates'']) (\<lambda>_.
      bind_res (dry_run_packages h candidates) (\<lambda>archives.
      bind_res (map_res (input_digest h (map crate_name candidates)) (rel_inputs rel)) (\<lambda>digests.
      Inr (0, release_report args rel metadata revision candidates archives digests))))))))))))))"

text \<open>The script: the exit code, standard output and standard error. An exception that is not caught ends it
  with a traceback, which is \<open>None\<close> here, and exit code 1.\<close>

definition release_script :: "release_host \<Rightarrow> release_args \<Rightarrow> nat \<times> string list \<times> string list option" where
  "release_script h args =
     (case release_main h args of
        Inr (status, lines) \<Rightarrow> (status, lines, Some [])
      | Inl (VerificationError m) \<Rightarrow> (1, [], Some [msg [''error: '', m]])
      | Inl e \<Rightarrow> if is_os_error e then (1, [], Some [msg [''error: '', exc_text e]]) else (1, [], None))"

section \<open>What an accepted release shows\<close>

lemma for_each_checked: "for_each f xs = Inr u \<Longrightarrow> (\<And>x. x \<in> set xs \<Longrightarrow> f x = Inr () \<Longrightarrow> P x) \<Longrightarrow> list_all P xs"
  by (simp add: list_all_iff)

lemma checked_output_Inr: "checked_output h cmd = Inr out \<longleftrightarrow> run_command h cmd = Inr (0, out)"
  by (auto simp: checked_output_def bind_res_eq_Inr split: if_splits)

text \<open>A path inside the repository, free of the forbidden components and of links on the way.\<close>

definition repository_file :: "release_host \<Rightarrow> string \<Rightarrow> bool" where
  "repository_file h s =
     (\<not> is_absolute s \<and> ''..'' \<notin> set (path_parts s) \<and> list_all (\<lambda>p. p \<notin> set FORBIDDEN_PATH_PARTS) (path_parts s)
      \<and> \<not> symlink_on_way (rmachine h) (rroot h) (path_parts s))"

lemma safe_repository_path_Inr:
  assumes "safe_repository_path h v = Inr p"
  shows "\<exists>s. v = VStr s \<and> repository_file h s \<and> p = rroot h @ path_parts s"
proof -
  obtain s where v: "v = VStr s" and rel: "\<not> is_absolute s"
    and up: "''..'' \<notin> set (path_parts s)" and p: "p = rroot h @ path_parts s"
    and link: "\<not> symlink_on_way (rmachine h) (rroot h) (path_parts s)"
    and none: "sort (filter (\<lambda>p. p \<in> set FORBIDDEN_PATH_PARTS) (remdups (path_parts s))) = []"
    using assms by (auto simp: safe_repository_path_def bind_res_eq_Inr Let_def str_such_iff simp del: sort_key_simps split: list.splits)
  have "filter (\<lambda>p. p \<in> set FORBIDDEN_PATH_PARTS) (path_parts s) = []"
    using arg_cong [OF none, of set] by (auto simp: filter_empty_conv)
  then show ?thesis using v rel up p link by (auto simp: repository_file_def list_all_iff filter_empty_conv)
qed

text \<open>What the shape alone gives.\<close>

definition crate_sound :: "crate \<Rightarrow> bool" where
  "crate_sound c =
     (fullmatch SEMVER (crate_version c) \<and> (\<not> crate_publishable c \<or> crate_adopted c)
      \<and> (if crate_adopted c then 2 \<le> card (set (crate_adopters c)) else crate_adopters c = []))"

lemma check_crate_Inr:
  assumes "check_crate names v = Inr c"
  shows "crate_sound c \<and> crate_name c \<notin> set names"
proof -
  have "\<And>xs :: string list. length (remdups xs) = card (set xs)" by (simp add: length_remdups_card_conv)
  then show ?thesis using assms unfolding check_crate_def Let_def bind_res_eq_Inr verify_that_Inr crate_sound_def
    by (auto simp: str_such_iff)
qed

lemma check_crates_Inr:
  "check_crates names vs = Inr cs \<Longrightarrow> list_all crate_sound cs \<and> distinct (map crate_name cs) \<and> set names \<inter> set (map crate_name cs) = {}"
proof (induction names vs arbitrary: cs rule: check_crates.induct)
  case (2 names v vs)
  then obtain c rest where c: "check_crate names v = Inr c" and rest: "check_crates (crate_name c # names) vs = Inr rest" and cs: "cs = c # rest"
    by (auto simp: bind_res_eq_Inr)
  from check_crate_Inr [OF c] "2.IH" [OF c rest] show ?case by (auto simp: cs)
qed simp

text \<open>The length of the set of the values is that of the list, so the values differ.\<close>

lemma distinct_values_length: "length (distinct_values xs) \<le> length xs"
  by (induction xs) auto

lemma distinct_values_all: "length (distinct_values xs) = length xs \<Longrightarrow> list_all is_str xs \<Longrightarrow> distinct (strs_of xs)"
proof (induction xs)
  case (Cons x xs)
  then obtain s where x: "x = VStr s" by (auto simp: is_str_iff)
  have fresh: "\<not> list_ex (\<lambda>y. py_eq y x) xs" using Cons.prems(1) distinct_values_length [of xs] by (auto split: if_splits)
  then have "VStr s \<notin> set xs" using x by (auto simp: list_ex_iff)
  then show ?case using Cons fresh x by (auto simp: set_strs_of)
qed simp

lemma check_order_Inr:
  assumes "check_order fl crates order = Inr names"
  shows "distinct names \<and> set names = crate_name ` set (filter crate_adopted crates)"
proof -
  have size: "length (distinct_values order) = length order"
    and known: "filter (\<lambda>v. \<not> str_such (\<lambda>s. s \<in> crate_name ` set crates) v) order = []"
    and names: "names = strs_of order" "set (strs_of order) = set (map crate_name (filter crate_adopted crates))"
    using assms by (auto simp: check_order_def bind_res_eq_Inr set_size_def Let_def split: if_splits)
  have "list_all is_str order" using known by (auto simp: filter_empty_conv str_such_iff list_all_iff)
  then show ?thesis using distinct_values_all [OF size] names by simp
qed

definition shape_sound :: "release \<Rightarrow> bool" where
  "shape_sound rel =
     (fullmatch TAG (rel_tag rel) \<and> list_all crate_sound (rel_crates rel) \<and> distinct (map crate_name (rel_crates rel))
      \<and> distinct (rel_order rel) \<and> set (rel_order rel) = crate_name ` set (filter crate_adopted (rel_crates rel)))"

lemma check_plan_Inr: "check_plan w d = Inr tag \<Longrightarrow> fullmatch TAG tag"
  by (auto simp: check_plan_def validate_tag_def bind_res_eq_Inr str_such_iff)

lemma validate_manifest_shape_Inr: "validate_manifest_shape w m = Inr rel \<Longrightarrow> shape_sound rel"
  by (auto simp: validate_manifest_shape_def shape_sound_def bind_res_eq_Inr Let_def split: prod.splits
    dest!: check_plan_Inr check_crates_Inr check_order_Inr)

text \<open>A crate of the manifest and the package Cargo resolved for it.\<close>

definition same_package :: "release_host \<Rightarrow> pyval list \<Rightarrow> crate \<Rightarrow> bool" where
  "same_package h metadata c =
     (case map_of (packages_by_name metadata) (crate_name c) of
        None \<Rightarrow> False
      | Some d \<Rightarrow> VDict d \<in> set metadata \<and> dget d ''name'' = VStr (crate_name c) \<and> dget d ''version'' = VStr (crate_version c)
          \<and> crate_publishable c = (dget d ''publish'' \<noteq> VList [])
          \<and> repository_file h (crate_manifest c)
          \<and> (case resolve_path (rmachine h) (rroot h @ path_parts (crate_manifest c)) of
               Inl _ \<Rightarrow> False
             | Inr p \<Rightarrow> bind_res (path_of_value h (dget_or d ''manifest_path'' (VStr []))) (resolve_path (rmachine h)) = Inr p
                 \<and> is_file (rmachine h) p \<and> (\<exists>base. resolve_path (rmachine h) (rroot h) = Inr base \<and> is_relative_to p base)))"

lemma named_package_Some: "named_package v = Some (name, d) \<longleftrightarrow> v = VDict d \<and> dget d ''name'' = VStr name"
  by (cases v) (auto split: option.splits)

lemma map_of_packages:
  assumes "map_of (packages_by_name metadata) name = Some d"
  shows "VDict d \<in> set metadata \<and> dget d ''name'' = VStr name"
proof -
  have "(name, d) \<in> set (List.map_filter named_package metadata)" using map_of_SomeD [OF assms] by (simp add: packages_by_name_def)
  then obtain v where "v \<in> set metadata" "named_package v = Some (name, d)" by (auto simp: mem_map_filter)
  then show ?thesis by (simp add: named_package_Some)
qed

lemma check_package_Inr:
  assumes "check_package h (packages_by_name metadata) c = Inr ()" and "crate_name c \<in> set (map fst (packages_by_name metadata))"
  shows "same_package h metadata c"
proof -
  obtain d where d: "map_of (packages_by_name metadata) (crate_name c) = Some d"
    using assms(2) by (cases "map_of (packages_by_name metadata) (crate_name c)") (auto simp: map_of_eq_None_iff)
  from assms(1) obtain p e base q where p: "safe_repository_path h (VStr (crate_manifest c)) = Inr p"
    and e: "resolve_path (rmachine h) p = Inr e" and base: "resolve_path (rmachine h) (rroot h) = Inr base" "is_relative_to e base"
    and q: "path_of_value h (dget_or d ''manifest_path'' (VStr [])) = Inr q" "resolve_path (rmachine h) q = Inr e"
    and rest: "dget d ''version'' = VStr (crate_version c)" "crate_publishable c = (dget d ''publish'' \<noteq> VList [])" "is_file (rmachine h) e"
    unfolding check_package_def Let_def d option.sel bind_res_eq_Inr verify_that_Inr by (auto split: if_splits)
  from safe_repository_path_Inr [OF p] have "repository_file h (crate_manifest c)" "p = rroot h @ path_parts (crate_manifest c)" by auto
  then show ?thesis using d e base q rest map_of_packages [OF d] by (auto simp: same_package_def)
qed

definition workspace_sound :: "release_host \<Rightarrow> release \<Rightarrow> pyval list \<Rightarrow> bool" where
  "workspace_sound h rel metadata =
     (fst ` set (packages_by_name metadata) = crate_name ` set (rel_crates rel) \<and> list_all (same_package h metadata) (rel_crates rel))"

lemma validate_workspace_Inr:
  assumes "validate_workspace h rel metadata = Inr ()"
  shows "workspace_sound h rel metadata"
proof -
  have names: "set (map fst (packages_by_name metadata)) = set (map crate_name (rel_crates rel))"
    and each: "for_each (check_package h (packages_by_name metadata)) (rel_crates rel) = Inr ()"
    using assms unfolding validate_workspace_def Let_def bind_res_eq_Inr verify_that_Inr by auto
  have "list_all (same_package h metadata) (rel_crates rel)"
    by (rule for_each_checked [OF each], rule check_package_Inr) (use names in auto)
  then show ?thesis using names by (simp add: workspace_sound_def)
qed

definition adoption_sound :: "release_host \<Rightarrow> release \<Rightarrow> bool" where
  "adoption_sound h rel =
     (case bind_res (read_json_file h (EVIDENCE_PATH h)) (\<lambda>e. iter_items (dget_or e ''consumers'' (VList []))) of
        Inl _ \<Rightarrow> False
      | Inr consumers \<Rightarrow> list_all (\<lambda>c. set (crate_adopters c) = expected_adopters consumers (crate_name c)) (filter crate_adopted (rel_crates rel)))"

lemma validate_adoption_Inr: "validate_adoption h rel = Inr () \<Longrightarrow> adoption_sound h rel"
  by (auto simp: validate_adoption_def adoption_sound_def bind_res_eq_Inr list_all_iff)

text \<open>The state of the Git checkout.\<close>

definition git_sound :: "release_host \<Rightarrow> release \<Rightarrow> string option \<Rightarrow> string \<Rightarrow> bool" where
  "git_sound h rel selected_tag revision =
     (selected_tag \<in> {None, Some (rel_tag rel)} \<and> revision \<noteq> [] \<and> rel_source rel \<in> {VStr ''HEAD'', VStr revision}
      \<and> (\<exists>out. run_command h [''git'', ''rev-parse'', ''HEAD''] = Inr (0, out) \<and> strip out = revision)
      \<and> (\<exists>out. run_command h [''git'', ''cat-file'', ''-e'', rel_oracle rel @ ''^{commit}''] = Inr (0, out))
      \<and> (\<exists>tags. run_command h [''git'', ''tag'', ''--list''] = Inr (0, tags) \<and> list_all (\<lambda>t. \<not> rust_tag t) (splitlines tags))
      \<and> (\<exists>out. run_command h STATUS_COMMAND = Inr (0, out) \<and> strip out = []))"

lemma git_sound_Inr:
  assumes "validate_git_provenance h rel tag = Inr revision" and "validate_clean_source h = Inr ()"
  shows "git_sound h rel tag revision"
proof -
  from assms(1) obtain out res probe tags where tag: "tag = None \<or> tag = Some (rel_tag rel)"
    and out: "checked_output h [''git'', ''rev-parse'', ''HEAD''] = Inr out"
    and revision: "revision = strip out" "rel_source rel \<in> {VStr ''HEAD'', VStr (strip out)}"
    and probed: "cat_commit h (rel_oracle rel) = Inr probe" and tags: "checked_output h [''git'', ''tag'', ''--list''] = Inr tags"
    and free: "\<not> list_ex rust_tag (splitlines tags)" "strip out \<noteq> []"
    unfolding validate_git_provenance_def Let_def bind_res_eq_Inr verify_that_Inr
    by (auto split: if_splits simp: bind_res_eq_Inr py_str_def)
  have clean: "\<exists>out. checked_output h STATUS_COMMAND = Inr out \<and> strip out = []"
    using assms(2) by (auto simp: validate_clean_source_def bind_res_eq_Inr)
  show ?thesis using tag out revision probed tags free clean
    by (auto simp: git_sound_def cat_commit_def checked_output_Inr list_ex_iff list_all_iff)
qed

text \<open>Each packaged crate has its archive, with the digest of its bytes.\<close>

fun archives_of :: "release_host \<Rightarrow> path \<Rightarrow> string list \<Rightarrow> crate list \<Rightarrow> (string \<times> string) list \<Rightarrow> bool" where
  "archives_of h target names [] out = (out = [])"
| "archives_of h target names (c # cs) out =
     (let names' = names @ [crate_name c]; w = packaged h names' in
      (\<exists>b rest. read_bytes w (archive_path target c) = Inr b \<and> is_file w (archive_path target c)
        \<and> out = (crate_name c, sha256 w b) # rest \<and> archives_of h target names' cs rest))"

lemma package_loop_Inr: "package_loop h target names cs = Inr out \<Longrightarrow> archives_of h target names cs out"
  by (induction h target names cs arbitrary: out rule: package_loop.induct) (auto simp: bind_res_eq_Inr Let_def)

section \<open>The run as a whole\<close>

definition input_sound :: "release_host \<Rightarrow> string \<Rightarrow> bool" where
  "input_sound h s = (repository_file h s \<and> is_file (rmachine h) (rroot h @ path_parts s))"

lemma check_input_Inr: "check_input h s = Inr () \<Longrightarrow> input_sound h s"
  by (auto simp: check_input_def input_sound_def bind_res_eq_Inr dest!: safe_repository_path_Inr)

text \<open>The candidates are the adopted crates, in the order of the manifest.\<close>

lemma package_candidates_adopted: "shape_sound rel \<Longrightarrow> package_candidates rel = filter crate_adopted (rel_crates rel)"
  by (auto simp: shape_sound_def package_candidates_def intro!: filter_cong dest: eq_key_imp_eq_value simp: distinct_map inj_on_def)

definition release_sound :: "release_host \<Rightarrow> release_args \<Rightarrow> string list \<Rightarrow> bool" where
  "release_sound h args lines =
     (\<exists>p manifest rel metadata revision directory archives digests.
        resolve_path (rmachine h) (manifest_option args) = Inr p \<and> read_json_file h p = Inr manifest
        \<and> validate_manifest_shape (rmachine h) manifest = Inr rel \<and> shape_sound rel
        \<and> cargo_metadata h = Inr metadata \<and> workspace_sound h rel metadata \<and> adoption_sound h rel
        \<and> git_sound h rel (tag_option args) revision \<and> list_all (input_sound h) (rel_inputs rel)
        \<and> filter crate_adopted (rel_crates rel) \<noteq> [] \<and> temporary_directory h = Inr directory
        \<and> archives_of h (directory @ [''target'']) [] (filter crate_adopted (rel_crates rel)) archives
        \<and> lines = release_report args rel metadata revision (filter crate_adopted (rel_crates rel)) archives digests)"

lemma release_main_Inr:
  assumes "release_main h args = Inr (0, lines)"
  shows "release_sound h args lines"
proof -
  from assms have allowed: "dry_run args = True" by (auto simp: release_main_def split: if_splits)
  from assms obtain p manifest rel metadata revision archives digests where
      p: "resolve_path (rmachine h) (manifest_option args) = Inr p" "read_json_file h p = Inr manifest"
    and rel: "validate_manifest_shape (rmachine h) manifest = Inr rel" and meta: "cargo_metadata h = Inr metadata"
    and ws: "validate_workspace h rel metadata = Inr ()" and ad: "validate_adoption h rel = Inr ()"
    and git: "validate_git_provenance h rel (tag_option args) = Inr revision" and clean: "validate_clean_source h = Inr ()"
    and inputs: "for_each (check_input h) (rel_inputs rel) = Inr ()" and some: "package_candidates rel \<noteq> []"
    and dry: "dry_run_packages h (package_candidates rel) = Inr archives"
    and lines: "lines = release_report args rel metadata revision (package_candidates rel) archives digests"
    unfolding release_main_def Let_def allowed not_True_eq_False if_False bind_res_eq_Inr verify_that_Inr by auto
  have shape: "shape_sound rel" by (rule validate_manifest_shape_Inr [OF rel])
  have "list_all (input_sound h) (rel_inputs rel)" by (rule for_each_checked [OF inputs], rule check_input_Inr)
  moreover obtain directory where "temporary_directory h = Inr directory"
      "archives_of h (directory @ [''target'']) [] (package_candidates rel) archives"
    using dry by (auto simp: dry_run_packages_def bind_res_eq_Inr dest: package_loop_Inr)
  ultimately show ?thesis
    using p rel shape meta validate_workspace_Inr [OF ws] validate_adoption_Inr [OF ad] git_sound_Inr [OF git clean] some lines
    unfolding release_sound_def package_candidates_adopted [OF shape] by blast
qed


definition SAMPLE_REVISION :: string where
  "SAMPLE_REVISION = replicate 40 (CHR ''a'')"

definition sample_plan :: pydict where
  "sample_plan =
     [(''tag'', VStr ''v1.2.3''), (''source_revision'', VStr ''HEAD''), (''publish'', VBool False), (''publication_status'', VStr ''not-run''),
      (''registry'', VStr ''https://crates.io''), (''planned_publish_order'', VList [VStr ''log'']),
      (''crates'', VList [VDict [(''name'', VStr ''log''), (''manifest'', VStr ''log/Cargo.toml''), (''version'', VStr ''0.1.0''),
        (''adopted'', VBool True), (''publishable'', VBool True), (''adopters'', VList [VStr ''a'', VStr ''b'']), (''reason'', VStr ''used'')]]),
      (''provenance'', VDict [(''oracle_commit'', VStr SAMPLE_REVISION), (''input_files'', VList [VStr ''Cargo.lock'']), (''source_revision_policy'', VStr ''plan'')]),
      (''sbom'', VDict [(''required'', VBool True), (''format'', VStr ''cargo-metadata-json''), (''command'', VStr ''cargo metadata'')])]"

definition sample_release_world :: world where
  "sample_release_world = sample_world\<lparr>
     read_bytes := \<lambda>p. Inr (if p = [''repo'', ''manifest.json''] then ''P'' else if last p = ''evidence.json'' then ''E'' else []),
     json_loads := \<lambda>s. Inr (VDict (
       if s = ''P'' then [(''schema_version'', VInt 1), (''repository'', VDict [(''slug'', VStr ''danieljustus/symaira-corekit''), (''url'', VStr ''u''), (''go_module'', VStr ''m'')]),
         (''release'', VDict sample_plan)]
       else if s = ''E'' then [(''consumers'', VList [VDict [(''crate'', VStr ''log''), (''repository'', VStr ''b'')], VDict [(''crate'', VStr ''log''), (''repository'', VStr ''a'')]])]
       else [(''packages'', VList [VDict [(''name'', VStr ''log''), (''version'', VStr ''0.1.0''), (''publish'', VNone), (''manifest_path'', VStr ''/repo/log/Cargo.toml'')]])]))\<rparr>"

definition sample_release_host :: release_host where
  "sample_release_host = \<lparr>rmachine = sample_release_world, rroot = [''repo''], cwd = [''repo''],
     run_command = \<lambda>cmd. Inr (0, if cmd = [''git'', ''rev-parse'', ''HEAD''] then SAMPLE_REVISION else []),
     temporary_directory = Inr [''tmp''], packaged = \<lambda>_. sample_release_world\<rparr>"

definition sample_release_args :: release_args where
  "sample_release_args = \<lparr>dry_run = True, tag_option = None, manifest_option = [''repo'', ''manifest.json'']\<rparr>"

lemma sample_release_accepted: "fst (release_script sample_release_host sample_release_args) = 0"
  by code_simp


end
