(* ===== verification/Statistics.thy ===== *)
theory Statistics
  imports Prelude
begin

text \<open>
  The statistics of the cost gate and of the benchmark: \<open>math.isclose\<close>, \<open>statistics.median\<close> and their 95th
  percentile. Floating-point numbers are rationals; \<open>rnd\<close> is the rounding of the machine, applied to the exact
  result of every operation and to every decimal literal.
\<close>

text \<open>\<open>math.isclose(a, b, rel_tol=1e-12)\<close>\<close>

definition close_to :: "(rat \<Rightarrow> rat) \<Rightarrow> rat \<Rightarrow> rat \<Rightarrow> bool" where
  "close_to rnd a b =
     (let tol = rnd (1 / 10 ^ 12); d = \<bar>rnd (b - a)\<bar> in
      a = b \<or> d \<le> \<bar>rnd (tol * b)\<bar> \<or> d \<le> \<bar>rnd (tol * a)\<bar> \<or> d \<le> 0)"

lemma close_to_refl [simp]: "close_to rnd a a"
  by (simp add: close_to_def Let_def)

text \<open>\<open>statistics.median\<close> of a non-empty list, and \<open>p95\<close>.\<close>

definition median_of :: "(rat \<Rightarrow> rat) \<Rightarrow> rat list \<Rightarrow> rat" where
  "median_of rnd xs =
     (let s = sort xs; n = length s in
      if odd n then s ! (n div 2) else rnd (rnd (s ! (n div 2 - 1) + s ! (n div 2)) / 2))"

definition p95_rank :: "(rat \<Rightarrow> rat) \<Rightarrow> nat \<Rightarrow> nat" where
  "p95_rank rnd n = nat (max 0 (\<lceil>rnd (of_nat n * rnd (95 / 100))\<rceil> - 1))"

definition p95_of :: "(rat \<Rightarrow> rat) \<Rightarrow> rat list \<Rightarrow> rat res" where
  "p95_of rnd xs = (if p95_rank rnd (length xs) < length xs then Inr (sort xs ! p95_rank rnd (length xs)) else Inl IndexError)"

text \<open>What is reported as the 95th percentile is a sample, and more samples than its rank are not above it.\<close>

lemma p95_of_Inr:
  assumes "p95_of rnd xs = Inr v"
  shows "v \<in> set xs \<and> p95_rank rnd (length xs) < length (filter (\<lambda>x. x \<le> v) xs)"
proof -
  let ?r = "p95_rank rnd (length xs)" and ?s = "sort xs"
  from assms have r: "?r < length xs" and v: "v = ?s ! ?r" by (auto simp: p95_of_def split: if_splits)
  have "\<forall>x \<in> set (take (Suc ?r) ?s). x \<le> v"
    using r v by (auto simp: in_set_conv_nth less_Suc_eq_le intro!: sorted_nth_mono)
  then have "filter (\<lambda>x. x \<le> v) (take (Suc ?r) ?s) = take (Suc ?r) ?s" by (simp add: filter_id_conv)
  moreover have "length (filter (\<lambda>x. x \<le> v) (take (Suc ?r) ?s)) \<le> length (filter (\<lambda>x. x \<le> v) ?s)"
    by (metis append_take_drop_id filter_append le_add1 length_append)
  moreover have "length (filter (\<lambda>x. x \<le> v) ?s) = length (filter (\<lambda>x. x \<le> v) xs)"
    by (metis filter_sort length_sort)
  moreover have "v \<in> set xs" using r v by (metis length_sort nth_mem set_sort)
  ultimately show ?thesis using r by simp
qed

end
