(* ===== verification/CostGate.thy ===== *)
theory CostGate
  imports HandoffArtifacts Statistics
begin

text \<open>
  The report checks of the cost gate, \<open>scripts/rust-port/sqlite/cost_gate.py\<close>: eighty timed builds of two
  consumers against a baseline and a candidate, with their archives, pins, artifacts and canaries. The checks
  recompute every ratio, median and limit. Floating-point numbers are rationals; \<open>rounding\<close> is the rounding of
  the machine, applied to the exact result of every operation and to every decimal literal, and stays a
  parameter. Overflow and the special values have no value here. The builds themselves are not modelled.
\<close>

record gate_host =
  gmachine :: world
  gcwd :: path
  runner_path :: path
  contract_path :: path
  on_windows :: bool
  permissions :: "path \<Rightarrow> int res"
  file_size :: "path \<Rightarrow> int res"
  b64decode :: "pyval \<Rightarrow> string res"
  float_of_text :: "string \<Rightarrow> rat res"
  rounding :: "rat \<Rightarrow> rat"

section \<open>The contract\<close>

text \<open>The contract as the module loads it, and the document of the repository.\<close>

record consumer_item =
  item_name :: string
  item_repository :: string
  item_checkout :: string
  baseline_commit :: string
  baseline_corekit :: string
  candidate_commit :: string
  candidate_corekit :: string
  binary_package :: string
  binary :: string
  canary_tool :: string

record contract =
  runtime_mount :: string
  storage_root :: string
  toolchain :: string
  go_toolchain :: string
  consumers :: "consumer_item list"
  modes :: "string list"
  canary_command :: "string list"
  value_commands :: "(string \<times> string list list) list"

definition desktop :: consumer_item where
  "desktop = \<lparr>item_name = ''desktop'', item_repository = ''danieljustus/symaira-desktop'', item_checkout = ''symaira-desktop'',
     baseline_commit = ''1f250c11f516a59d650c3770f649f3519ae6b7bf'', baseline_corekit = ''62edd9903983d9369373565cc1e50da3fef43176'',
     candidate_commit = ''5cd4472feb49c6e43bbe3b05a4b62a737ce00c9c'', candidate_corekit = ''0f441fb27872da7edd65244e4fcbd0890f0b7174'',
     binary_package = ''symdesk-cli'', binary = ''symdesk'', canary_tool = ''symdesk''\<rparr>"

definition eraseme :: consumer_item where
  "eraseme = \<lparr>item_name = ''eraseme'', item_repository = ''danieljustus/symaira-eraseme'', item_checkout = ''symaira-eraseme'',
     baseline_commit = ''47bb03099efc36b9f04bc85e5696c50295f5979c'', baseline_corekit = ''7a1a9d11b38797537cf20761aa7121773447bad2'',
     candidate_commit = ''97f834d6025d36c8b4f359454754759304972ef3'', candidate_corekit = ''0f441fb27872da7edd65244e4fcbd0890f0b7174'',
     binary_package = ''symeraseme-cli'', binary = ''symeraseme-rust'', canary_tool = ''symeraseme''\<rparr>"

definition value_command :: "string \<Rightarrow> string list \<Rightarrow> string list" where
  "value_command package binary_args =
     (case binary_args of
        [] \<Rightarrow> [''cargo'', ''test'', ''--manifest-path'', ''Cargo.toml'', ''-p'', package, ''--locked'', ''--frozen'']
      | _ \<Rightarrow> [''cargo'', ''build'', ''--release'', ''--manifest-path'', ''Cargo.toml'', ''-p'', package] @ binary_args @ [''--locked'', ''--frozen''])"

definition CONTRACT :: contract where
  "CONTRACT = \<lparr>runtime_mount = ''/Volumes/SymairaSecureRuntime'', storage_root = ''/Volumes/1TB_NVMe_SN850X/Dev/Symaira_Dev'',
     toolchain = ''1.98.0-aarch64-apple-darwin'', go_toolchain = ''1.26.6'', consumers = [desktop, eraseme], modes = [''clean'', ''warm''],
     canary_command = [''version'', ''--json''],
     value_commands = [
       (''desktop'', [value_command ''symdesk-index'' [], value_command ''symdesk-cli'' [''--bin'', ''symdesk'']]),
       (''eraseme'', [value_command ''symeraseme-core'' [], value_command ''symeraseme-cli'' [''--bin'', ''symeraseme-rust'']])]\<rparr>"

definition LIMIT :: "gate_host \<Rightarrow> rat" where
  "LIMIT h = rounding h (11 / 10)"

text \<open>\<open>load_contract\<close>: the checks on the document.\<close>

definition load_contract :: "gate_host \<Rightarrow> pyval res" where
  "load_contract h =
     bind_res (bind_res (read_text (gmachine h) (contract_path h)) (json_loads (gmachine h))) (\<lambda>v.
     bind_res (pget v ''schema_version'') (\<lambda>schema.
     bind_res (pget v ''gate_id'') (\<lambda>gate.
     bind_res (insist (py_eq schema (VInt 1) \<and> gate = VStr ''SQL-006-80-BUILD'') [''invalid SQL-006 contract'']) (\<lambda>_.
     bind_res (pget v ''limit'') (\<lambda>l.
     bind_res (pget v ''samples_per_cell'') (\<lambda>samples.
     bind_res (insist (py_eq l (VFloat (LIMIT h)) \<and> py_eq samples (VInt 10)) [''SQL-006 contract limits changed'']) (\<lambda>_.
     bind_res (pget_or v ''consumers'' (VList [])) (\<lambda>items.
     bind_res (py_len items) (\<lambda>n.
     bind_res (pget v ''modes'') (\<lambda>ms.
     bind_res (insist (n = 2 \<and> py_eq ms (VList [VStr ''clean'', VStr ''warm''])) [''SQL-006 contract matrix changed'']) (\<lambda>_.
     Inr v)))))))))))"

section \<open>Files and paths\<close>

definition sha_file :: "gate_host \<Rightarrow> path \<Rightarrow> string res" where
  "sha_file h p = bind_res (read_bytes (gmachine h) p) (\<lambda>b. Inr (sha256 (gmachine h) b))"

text \<open>\<open>canonical\<close>: the compact text with sorted keys in which every character that is not printable ASCII is
  escaped, and a line feed.\<close>

definition ascii_escape :: "char \<Rightarrow> string" where
  "ascii_escape c =
     (let n = (of_char c :: nat) in
      if n < 127 then [c] else [CHR 0x5C, CHR ''u'', CHR ''0'', CHR ''0'', hex_digit (n div 16), hex_digit (n mod 16)])"

definition canonical :: "gate_host \<Rightarrow> pyval \<Rightarrow> string" where
  "canonical h v = concat (map ascii_escape (json_text (float_text (gmachine h)) v)) @ [CHR 0x0A]"

text \<open>\<open>str(Path(s))\<close> and \<open>Path(v)\<close>.\<close>

definition posix_text :: "string \<Rightarrow> string" where
  "posix_text s = (if is_absolute s then CHR ''/'' # as_posix (path_parts s) else if path_parts s = [] then ''.'' else as_posix (path_parts s))"

definition absolute_text :: "path \<Rightarrow> string" where
  "absolute_text p = CHR ''/'' # as_posix p"

definition path_text :: "pyval \<Rightarrow> string res" where
  "path_text v = (case as_str v of None \<Rightarrow> Inl TypeError | Some s \<Rightarrow> Inr s)"

definition resolve_text :: "gate_host \<Rightarrow> string \<Rightarrow> path res" where
  "resolve_text h s = resolve_path (gmachine h) (join_path (gcwd h) s)"

text \<open>\<open>under\<close>: the resolved path, which is the base or below it.\<close>

definition under :: "gate_host \<Rightarrow> string \<Rightarrow> path \<Rightarrow> string \<Rightarrow> path res" where
  "under h s base label =
     bind_res (resolve_text h s) (\<lambda>p.
     bind_res (resolve_path (gmachine h) base) (\<lambda>b.
     bind_res (insist (is_relative_to p b) [label, '' escapes its required root: '', posix_text s]) (\<lambda>_. Inr p)))"

definition value_under :: "gate_host \<Rightarrow> pyval \<Rightarrow> path \<Rightarrow> string \<Rightarrow> path res" where
  "value_under h v base label = bind_res (path_text v) (\<lambda>s. under h s base label)"

definition toolchain_path :: "contract \<Rightarrow> path \<Rightarrow> path" where
  "toolchain_path k runtime = runtime @ [''runtime-bootstrap'', ''rustup'', ''toolchains'', toolchain k, ''bin'']"

definition go_path :: "contract \<Rightarrow> path \<Rightarrow> path" where
  "go_path k runtime = runtime @ [''runtime-bootstrap'', ''go-home'', ''sdk'', ''go'' @ go_toolchain k, ''bin'', ''go'']"

section \<open>Git\<close>

definition gate_git :: "gate_host \<Rightarrow> string list \<Rightarrow> path \<Rightarrow> string res" where
  "gate_git h args p =
     (case git_cmd (gmachine h) args p of (exit_code, out, err) \<Rightarrow>
        bind_res (insist (exit_code = 0) [''git '', join '' '' args, '' failed: '', err]) (\<lambda>_. Inr out))"

definition strip_slashes :: "string \<Rightarrow> string" where
  "strip_slashes s = rev (dropWhile (\<lambda>c. c = CHR ''/'') (rev s))"

definition ORIGIN_PREFIXES :: "string list" where
  "ORIGIN_PREFIXES = [''https://github.com/'', ''http://github.com/'', ''git@github.com:'']"

definition origin_slug :: "string \<Rightarrow> string res" where
  "origin_slug s =
     (let r = strip_slashes (strip s); remote = if endswith r ''.git'' then take (length r - 4) r else r in
      case List.find (startswith remote) ORIGIN_PREFIXES of
        None \<Rightarrow> Inl (ValueError (msg [''unsupported consumer origin: '', s]))
      | Some p \<Rightarrow> Inr (removeprefix remote p))"

definition consumer_checkout :: "gate_host \<Rightarrow> contract \<Rightarrow> consumer_item \<Rightarrow> path res" where
  "consumer_checkout h k item =
     (let w = gmachine h in
      bind_res (resolve_path w (join_path (gcwd h) (storage_root k))) (\<lambda>storage.
      bind_res (under h (absolute_text (join_path (storage @ [''Repos'']) (item_checkout item))) storage (item_name item @ '' checkout'')) (\<lambda>checkout.
      bind_res (insist (is_dir w checkout \<and> lstat_of w checkout \<noteq> Inr Symlink) [item_name item, '': checkout is unavailable or symlinked'']) (\<lambda>_.
      bind_res (bind_res (gate_git h [''remote'', ''get-url'', ''origin''] checkout) origin_slug) (\<lambda>slug.
      bind_res (insist (slug = item_repository item) [item_name item, '': origin mismatch'']) (\<lambda>_. Inr checkout))))))"

text \<open>The bytes of an archive are not stripped.\<close>

definition git_archive :: "gate_host \<Rightarrow> path \<Rightarrow> string \<Rightarrow> string res" where
  "git_archive h checkout revision =
     (case run_git (gmachine h) [''archive'', ''--format=tar'', revision] checkout of (exit_code, out, err) \<Rightarrow>
        bind_res (insist (exit_code = 0) [''cannot archive '', absolute_text checkout, '' at '', revision, '': '', strip err]) (\<lambda>_. Inr out))"

section \<open>Pins\<close>

definition COREKIT_GIT :: string where
  "COREKIT_GIT = ''https://github.com/danieljustus/symaira-corekit''"

definition expected_git_source :: "string \<Rightarrow> string" where
  "expected_git_source revision = msg [''git+'', COREKIT_GIT, ''?rev='', revision, ''#'', revision]"

text \<open>The first table of the name, in the order in which the document is walked.\<close>

fun first_some :: "'a option list \<Rightarrow> 'a option" where
  "first_some [] = None"
| "first_some (None # xs) = first_some xs"
| "first_some (Some x # xs) = Some x"

fun named_dependency :: "string \<Rightarrow> pyval \<Rightarrow> pydict option" where
  "named_dependency name (VDict d) =
     (case as_dict (dget d name) of Some c \<Rightarrow> Some c | None \<Rightarrow> first_some (map (\<lambda>(k, v). named_dependency name v) d))"
| "named_dependency name (VList xs) = first_some (map (named_dependency name) xs)"
| "named_dependency name _ = None"

definition PINNED :: "string list" where
  "PINNED = [''symaira-core-sqlite'', ''symaira-core-fs'']"

definition pinned_entry :: "pyval \<Rightarrow> bool res" where
  "pinned_entry v = (case as_dict v of None \<Rightarrow> Inr False | Some d \<Rightarrow> in_strs (dget d ''name'') PINNED)"

text \<open>The entries by name; of two with one name the last counts.\<close>

definition found_entries :: "pyval list \<Rightarrow> (string \<times> pydict) list res" where
  "found_entries packages =
     bind_res (filter_res pinned_entry packages) (\<lambda>es.
     Inr (rev (map (\<lambda>v. (the (as_str (get_if_dict v ''name'')), the (as_dict v))) es)))"

definition source_pins :: "gate_host \<Rightarrow> path \<Rightarrow> string \<Rightarrow> pyval res" where
  "source_pins h source expected =
     (let w = gmachine h in
      bind_res (bind_res (read_text w (source @ [''Cargo.toml''])) (toml_loads w)) (\<lambda>manifest.
      bind_res (case named_dependency ''symaira-core-sqlite'' (VDict manifest) of
          None \<Rightarrow> Inr False | Some direct \<Rightarrow> Inr (dget direct ''git'' = VStr COREKIT_GIT \<and> dget direct ''rev'' = VStr expected)) (\<lambda>pinned.
      bind_res (insist pinned [''Cargo.toml does not directly pin symaira-core-sqlite to the expected CoreKit revision'']) (\<lambda>_.
      bind_res (bind_res (read_text w (source @ [''Cargo.lock''])) (toml_loads w)) (\<lambda>lock.
      bind_res (insist (is_list (dget lock ''package'')) [''Cargo.lock has no package list'']) (\<lambda>_.
      bind_res (found_entries (the (as_list (dget lock ''package'')))) (\<lambda>found.
      bind_res (insist (set PINNED \<subseteq> fst ` set found) [''Cargo.lock lacks the CoreKit SQLite/FS packages'']) (\<lambda>_.
      let source_text = expected_git_source expected; entry = (\<lambda>name. the (map_of found name)) in
      bind_res (insist (list_all (\<lambda>name. dget (entry name) ''source'' = VStr source_text) PINNED) [''Cargo.lock CoreKit source/revision mismatch'']) (\<lambda>_.
      let dependencies = dget (entry ''symaira-core-sqlite'') ''dependencies'' in
      bind_res (insist (is_list dependencies \<and> list_ex (str_such (\<lambda>s. before '' '' s = ''symaira-core-fs'')) (the (as_list dependencies)))
        [''Cargo.lock does not bind symaira-core-fs beneath symaira-core-sqlite'']) (\<lambda>_.
      Inr (VDict [(''direct'', VStr expected), (''symaira-core-sqlite'', VStr source_text), (''symaira-core-fs'', VStr source_text)])))))))))))"

section \<open>Numbers\<close>

text \<open>\<open>float(v)\<close>, \<open>x / y\<close> and what \<open>math.isclose\<close> takes.\<close>

definition to_float :: "gate_host \<Rightarrow> pyval \<Rightarrow> rat res" where
  "to_float h v =
     (case v of VStr s \<Rightarrow> float_of_text h s
      | _ \<Rightarrow> case num_of v of None \<Rightarrow> Inl TypeError | Some r \<Rightarrow> Inr (if is_int v then rounding h r else r))"

definition real_arg :: "gate_host \<Rightarrow> pyval \<Rightarrow> rat res" where
  "real_arg h v = (if is_str v then Inl TypeError else to_float h v)"

definition true_divide :: "gate_host \<Rightarrow> pyval \<Rightarrow> pyval \<Rightarrow> rat res" where
  "true_divide h x y =
     (case (num_of x, num_of y) of
        (Some a, Some b) \<Rightarrow>
          if b = 0 then Inl ZeroDivisionError
          else if is_int x \<and> is_int y then Inr (rounding h (a / b))
          else bind_res (real_arg h x) (\<lambda>p. bind_res (real_arg h y) (\<lambda>q. Inr (rounding h (p / q))))
      | _ \<Rightarrow> Inl TypeError)"

definition fdivide :: "gate_host \<Rightarrow> rat \<Rightarrow> rat \<Rightarrow> rat res" where
  "fdivide h a b = (if b = 0 then Inl ZeroDivisionError else Inr (rounding h (a / b)))"

text \<open>The statistics under the rounding of the machine.\<close>

abbreviation is_close :: "gate_host \<Rightarrow> rat \<Rightarrow> rat \<Rightarrow> bool" where
  "is_close h \<equiv> close_to (rounding h)"

abbreviation median :: "gate_host \<Rightarrow> rat list \<Rightarrow> rat" where
  "median h \<equiv> median_of (rounding h)"

definition p95 :: "gate_host \<Rightarrow> rat list \<Rightarrow> rat res" where
  "p95 h xs = bind_res (insist (xs \<noteq> []) [''cannot calculate p95 from no samples'']) (\<lambda>_. p95_of (rounding h) xs)"

section \<open>The head of the report\<close>

definition check_head :: "gate_host \<Rightarrow> bool \<Rightarrow> pyval \<Rightarrow> unit res" where
  "check_head h test report =
     bind_res (pget report ''schema_version'') (\<lambda>schema.
     bind_res (pget report ''gate_id'') (\<lambda>gate.
     bind_res (insist (py_eq schema (VInt 1) \<and> gate = VStr ''SQL-006-80-BUILD'') [''SQL-006 report has an invalid status or schema'']) (\<lambda>_.
     bind_res (bind_res (pget report ''status'') (\<lambda>v. in_strs v [''passed'', ''failed'', ''blocked''])) (\<lambda>known.
     bind_res (insist known [''SQL-006 report has an invalid status or schema'']) (\<lambda>_.
     bind_res (pget report ''contract_sha256'') (\<lambda>digest.
     bind_res (sha_file h (contract_path h)) (\<lambda>actual.
     bind_res (insist (digest = VStr actual) [''contract hash mismatch'']) (\<lambda>_.
     if test then Inr () else
       bind_res (pget report ''runner_sha256'') (\<lambda>runner.
       bind_res (pget report ''validator_sha256'') (\<lambda>validator.
       bind_res (sha_file h (runner_path h)) (\<lambda>script.
       insist (runner = VStr script \<and> validator = VStr script) [''runner/validator hash mismatch''])))))))))))"

definition cell_key :: "pyval \<Rightarrow> (pyval \<times> pyval) res" where
  "cell_key v =
     bind_res (pget v ''consumer'') (\<lambda>c. bind_res (pget v ''mode'') (\<lambda>m. if hashable c \<and> hashable m then Inr (c, m) else Inl TypeError))"

definition expected_cells :: "contract \<Rightarrow> ((string \<times> string) \<times> consumer_item) list" where
  "expected_cells k = concat (map (\<lambda>item. map (\<lambda>mode. ((item_name item, mode), item)) (modes k)) (consumers k))"

definition key_values :: "string \<times> string \<Rightarrow> pyval \<times> pyval" where
  "key_values p = (VStr (fst p), VStr (snd p))"

definition check_matrix :: "contract \<Rightarrow> pyval \<Rightarrow> pyval list res" where
  "check_matrix k report =
     bind_res (pget report ''cells'') (\<lambda>v.
     bind_res (insist (is_list v \<and> length (the (as_list v)) = 4) [''cell matrix mismatch'']) (\<lambda>_.
     let cells = the (as_list v) in
     bind_res (map_res cell_key cells) (\<lambda>observed.
     bind_res (insist (set observed = key_values ` fst ` set (expected_cells k)) [''cell matrix mismatch'']) (\<lambda>_.
     bind_res (pget_or report ''counts'' (VDict [])) (\<lambda>counts.
     bind_res (pget counts ''expected'') (\<lambda>expected.
     bind_res (pget counts ''observed'') (\<lambda>seen.
     bind_res (insist (py_eq expected (VInt 80) \<and> py_eq seen (VInt 80)) [''SQL-006 requires exactly 80 counted probes'']) (\<lambda>_.
     Inr cells))))))))"

record gate_paths =
  g_runtime :: path
  g_run_root :: path
  g_temp_parent :: path

definition provenance_path :: "gate_host \<Rightarrow> pyval \<Rightarrow> string \<Rightarrow> path \<Rightarrow> string \<Rightarrow> unit res" where
  "provenance_path h provenance key expected message_text =
     bind_res (bind_res (pget_or provenance key (VStr [])) path_text) (\<lambda>s.
     bind_res (resolve_text h s) (\<lambda>p.
     bind_res (resolve_path (gmachine h) expected) (\<lambda>q. insist (p = q) [message_text])))"

definition check_frozen :: "gate_host \<Rightarrow> contract \<Rightarrow> pyval \<Rightarrow> string \<Rightarrow> unit res" where
  "check_frozen h k provenance runtime =
     (let mount = join_path (gcwd h) (runtime_mount k) in
      bind_res (resolve_path (gmachine h) mount) (\<lambda>p.
      bind_res (insist (path_parts runtime = p) [''report runtime differs from the frozen secure runtime'']) (\<lambda>_.
      bind_res (provenance_path h provenance ''nvme_storage'' (join_path (gcwd h) (storage_root k)) ''report storage differs from the frozen NVMe storage'') (\<lambda>_.
      bind_res (provenance_path h provenance ''toolchain_bin'' (toolchain_path k mount) ''report toolchain differs from the frozen secure-runtime toolchain'') (\<lambda>_.
      provenance_path h provenance ''go_bin'' (go_path k mount) ''report Go oracle differs from the frozen secure-runtime toolchain'')))))"

text \<open>\<open>st_mode & 0o077\<close>: the bits of group and others.\<close>

definition check_private :: "gate_host \<Rightarrow> bool \<Rightarrow> path \<Rightarrow> path \<Rightarrow> unit res" where
  "check_private h test run_root cache_root =
     (if on_windows h then insist test [''SQL-006 private runtime requires POSIX permission checks''] else
      for_each (\<lambda>p. bind_res (permissions h p) (\<lambda>m. insist (m mod 64 = 0) [''run/cache roots are not private''])) [run_root, cache_root])"

definition check_paths :: "gate_host \<Rightarrow> contract \<Rightarrow> bool \<Rightarrow> pyval \<Rightarrow> gate_paths res" where
  "check_paths h k test report =
     bind_res (pget_or report ''provenance'' (VDict [])) (\<lambda>provenance.
     bind_res (bind_res (pget_or provenance ''nvme_runtime'' (VStr [])) path_text) (\<lambda>runtime.
     bind_res (bind_res (pget_or report ''run_root'' (VStr [])) path_text) (\<lambda>run_root.
     bind_res (insist (is_absolute runtime \<and> is_absolute run_root) [''report paths must be absolute'']) (\<lambda>_.
     bind_res (if test then Inr () else check_frozen h k provenance runtime) (\<lambda>_.
     bind_res (under h run_root (path_parts runtime) ''run root'') (\<lambda>_.
     bind_res (bind_res (pget_or report ''cache_root'' (VStr [])) (\<lambda>v. value_under h v (path_parts runtime) ''cache root'')) (\<lambda>cache_root.
     bind_res (resolve_path (gmachine h) (path_parts runtime @ [''t''])) (\<lambda>temp_parent.
     bind_res (check_private h test (path_parts run_root) cache_root) (\<lambda>_.
     Inr \<lparr>g_runtime = path_parts runtime, g_run_root = path_parts run_root, g_temp_parent = temp_parent\<rparr>)))))))))"

section \<open>Archives\<close>

definition expected_archives :: "contract \<Rightarrow> (string \<times> string) list" where
  "expected_archives k = concat (map (\<lambda>item. [(item_name item, baseline_commit item), (item_name item, candidate_commit item)]) (consumers k))"

definition archive_key :: "pyval \<Rightarrow> (pyval \<times> pyval) res" where
  "archive_key v =
     bind_res (pget v ''consumer'') (\<lambda>c. bind_res (pget v ''revision'') (\<lambda>r. if hashable c \<and> hashable r then Inr (c, r) else Inl TypeError))"

text \<open>What only a real run promises: the archive is what Git produces for the commit, twice.\<close>

definition check_hydration :: "gate_host \<Rightarrow> contract \<Rightarrow> consumer_item \<Rightarrow> pyval \<Rightarrow> path \<Rightarrow> pyval \<Rightarrow> unit res" where
  "check_hydration h k item archive source digest =
     (let revision = the (as_str (get_if_dict archive ''revision'')) in
      bind_res (consumer_checkout h k item) (\<lambda>checkout.
      bind_res (git_archive h checkout revision) (\<lambda>raw.
      bind_res (insist (digest = VStr (sha256 (gmachine h) raw)) [''archive is not bound to the recorded consumer commit'']) (\<lambda>_.
      bind_res (insist (get_if_dict archive ''hydrated_head'' = VStr revision) [''archive hydration revision mismatch'']) (\<lambda>_.
      bind_res (gate_git h [''rev-parse'', ''HEAD''] source) (\<lambda>head.
      bind_res (if head = revision then bind_res (gate_git h [''status'', ''--porcelain=v1'', ''--untracked-files=all''] source) (\<lambda>out. Inr (out = []))
        else Inr False) (\<lambda>exact.
      bind_res (insist exact [''archive source is not an exact clean hydrated checkout'']) (\<lambda>_.
      bind_res (git_archive h source revision) (\<lambda>again.
      insist (digest = VStr (sha256 (gmachine h) again)) [''archive source does not reproduce the recorded archive''])))))))))"

definition check_metadata :: "gate_host \<Rightarrow> pyval \<Rightarrow> path \<Rightarrow> string \<Rightarrow> unit res" where
  "check_metadata h archive source pin =
     bind_res (source_pins h source pin) (\<lambda>pins.
     bind_res (pget_or archive ''metadata'' (VDict [])) (\<lambda>metadata.
     bind_res (pget metadata ''document'') (\<lambda>document.
     bind_res (pget metadata ''sha256'') (\<lambda>digest.
     bind_res (insist (is_dict document \<and> digest = VStr (sha256 (gmachine h) (canonical h document))) [''archive metadata hash mismatch'']) (\<lambda>_.
     bind_res (pget_or metadata ''packages'' (VDict [])) (\<lambda>packages.
     bind_res (pget metadata ''pins'') (\<lambda>recorded.
     insist (py_eq recorded pins \<and> py_eq packages (VDict (map (\<lambda>name. (name, VStr (expected_git_source pin))) PINNED)))
       [''archive CoreKit metadata pin mismatch''])))))))"

definition check_archive :: "gate_host \<Rightarrow> contract \<Rightarrow> bool \<Rightarrow> gate_paths \<Rightarrow> pyval \<Rightarrow> unit res" where
  "check_archive h k test g archive =
     bind_res (pget archive ''consumer'') (\<lambda>consumer.
     bind_res (pget archive ''revision'') (\<lambda>revision.
     case List.find (\<lambda>item. VStr (item_name item) = consumer) (consumers k) of
       None \<Rightarrow> Inl (ValueError ''archive consumer/revision mismatch'')
     | Some item \<Rightarrow>
         bind_res (in_strs revision [baseline_commit item, candidate_commit item]) (\<lambda>known.
         bind_res (insist known [''archive consumer/revision mismatch'']) (\<lambda>_.
         bind_res (bind_res (pget_or archive ''archive'' (VStr [])) (\<lambda>v. value_under h v (g_run_root g) ''archive'')) (\<lambda>p.
         bind_res (bind_res (pget_or archive ''source'' (VStr [])) (\<lambda>v. value_under h v (g_run_root g) ''archive source'')) (\<lambda>source.
         bind_res (pget archive ''archive_sha256'') (\<lambda>digest.
         bind_res (insist (is_file (gmachine h) p) [''archive hash mismatch'']) (\<lambda>_.
         bind_res (sha_file h p) (\<lambda>actual.
         bind_res (insist (digest = VStr actual) [''archive hash mismatch'']) (\<lambda>_.
         bind_res (if test then Inr () else check_hydration h k item archive source digest) (\<lambda>_.
         bind_res (for_each (\<lambda>(name, key).
             bind_res (insist (is_file (gmachine h) (source @ [name])) [''archive manifest/lock hash mismatch'']) (\<lambda>_.
             bind_res (sha_file h (source @ [name])) (\<lambda>file_digest.
             insist (get_if_dict archive key = VStr file_digest) [''archive manifest/lock hash mismatch''])))
           [(''Cargo.toml'', ''manifest_sha256''), (''Cargo.lock'', ''lock_sha256'')]) (\<lambda>_.
         check_metadata h archive source (if revision = VStr (baseline_commit item) then baseline_corekit item else candidate_corekit item)))))))))))))"

definition check_archives :: "gate_host \<Rightarrow> contract \<Rightarrow> bool \<Rightarrow> gate_paths \<Rightarrow> pyval \<Rightarrow> unit res" where
  "check_archives h k test g report =
     bind_res (pget report ''archives'') (\<lambda>v.
     bind_res (insist (is_list v \<and> length (the (as_list v)) = 4) [''archive provenance is incomplete'']) (\<lambda>_.
     bind_res (map_res archive_key (the (as_list v))) (\<lambda>seen.
     bind_res (insist (set seen = key_values ` set (expected_archives k)) [''archive matrix mismatch'']) (\<lambda>_.
     for_each (check_archive h k test g) (the (as_list v))))))"

section \<open>Value preflights\<close>

definition expected_preflights :: "contract \<Rightarrow> (string \<times> string list \<times> nat) list res" where
  "expected_preflights k =
     bind_res (map_res (\<lambda>item. case map_of (value_commands k) (item_name item) of
         None \<Rightarrow> Inl (KeyError (item_name item))
       | Some cmds \<Rightarrow> Inr (map (\<lambda>cmd. (item_name item, cmd, the (first_index cmd cmds))) cmds)) (consumers k)) (\<lambda>groups.
     Inr (concat groups))"

definition check_preflight :: "gate_host \<Rightarrow> gate_paths \<Rightarrow> pyval \<times> string \<times> string list \<times> nat \<Rightarrow> unit res" where
  "check_preflight h g p =
     (case p of (run_record, consumer, cmd, i) \<Rightarrow>
        bind_res (pget run_record ''label'') (\<lambda>label.
        bind_res (pget run_record ''argv'') (\<lambda>argv.
        bind_res (insist (label = VStr (msg [consumer, ''-value-'', str_int (int i)]) \<and> py_eq argv (VList (map VStr cmd))) [''value preflight command mismatch'']) (\<lambda>_.
        bind_res (pget_or run_record ''env'' (VDict [])) (\<lambda>env.
        bind_res (pget env ''CARGO_NET_OFFLINE'') (\<lambda>offline.
        bind_res (insist (offline = VStr ''true'') [''value preflight must be offline'']) (\<lambda>_.
        bind_res (bind_res (pget_or env ''TMPDIR'' (VStr [])) (\<lambda>v. value_under h v (g_runtime g) ''value preflight TMPDIR'')) (\<lambda>temp.
        bind_res (insist (butlast temp = g_temp_parent g) [''value preflight TMPDIR is not the short secure-runtime path'']) (\<lambda>_.
        bind_res (pget run_record ''exit_code'') (\<lambda>status.
        insist (is_int status) [''value preflight exit evidence is malformed'']))))))))))"

definition check_preflights :: "gate_host \<Rightarrow> contract \<Rightarrow> gate_paths \<Rightarrow> pyval \<Rightarrow> unit res" where
  "check_preflights h k g report =
     bind_res (pget report ''value_preflights'') (\<lambda>v.
     bind_res (expected_preflights k) (\<lambda>expected.
     bind_res (insist (is_list v \<and> length (the (as_list v)) = 4) [''value preflight evidence is incomplete'']) (\<lambda>_.
     let runs = the (as_list v) in
     bind_res (for_each (check_preflight h g) (zip runs expected)) (\<lambda>_.
     bind_res (pget report ''status'') (\<lambda>status.
     if status \<noteq> VStr ''passed'' then Inr () else
       bind_res (any_res (\<lambda>r. bind_res (pget r ''exit_code'') (\<lambda>c. Inr (\<not> py_eq c (VInt 0)))) runs) (\<lambda>bad.
       insist (\<not> bad) [''passed report contains a failed value preflight'']))))))"

section \<open>Probes\<close>

definition build_command :: "consumer_item \<Rightarrow> string list" where
  "build_command item =
     [''cargo'', ''build'', ''--release'', ''--manifest-path'', ''Cargo.toml'', ''-p'', binary_package item, ''--bin'', binary item, ''--locked'', ''--frozen'']"

definition build_env :: "contract \<Rightarrow> path \<Rightarrow> (string \<times> string) list" where
  "build_env k runtime =
     [(''RUSTUP_HOME'', absolute_text (butlast (butlast (butlast (toolchain_path k runtime))))),
      (''RUSTC'', absolute_text (toolchain_path k runtime @ [''rustc''])), (''RUSTUP_TOOLCHAIN'', toolchain k),
      (''GOROOT'', absolute_text (butlast (butlast (go_path k runtime)))), (''CARGO_NET_OFFLINE'', ''true''), (''RUSTC_WRAPPER'', [])]"

definition check_build :: "contract \<Rightarrow> gate_paths \<Rightarrow> consumer_item \<Rightarrow> string \<Rightarrow> pyval \<Rightarrow> unit res" where
  "check_build k g item revision probe =
     bind_res (pget probe ''exit_code'') (\<lambda>status.
     bind_res (pget probe ''revision'') (\<lambda>recorded.
     bind_res (insist (py_eq status (VInt 0) \<and> recorded = VStr revision) [''probe provenance/exit mismatch'']) (\<lambda>_.
     bind_res (pget probe ''argv'') (\<lambda>argv.
     bind_res (insist (py_eq argv (VList (map VStr (build_command item)))) [''timed build command/environment mismatch'']) (\<lambda>_.
     bind_res (any_res (\<lambda>(key, v). bind_res (bind_res (pget_or probe ''env'' (VDict [])) (\<lambda>env. pget env key)) (\<lambda>x. Inr (x \<noteq> VStr v)))
       (build_env k (g_runtime g))) (\<lambda>bad.
     insist (\<not> bad) [''timed build command/environment mismatch'']))))))"

definition PRIVATE_KEYS :: "string list" where
  "PRIVATE_KEYS = [''HOME'', ''USERPROFILE'', ''XDG_CONFIG_HOME'', ''XDG_CACHE_HOME'', ''XDG_DATA_HOME'', ''XDG_STATE_HOME'', ''GOCACHE'', ''GOMODCACHE'', ''GOPATH'']"

definition check_probe_target :: "string \<Rightarrow> path \<Rightarrow> unit res" where
  "check_probe_target mode target =
     (if mode = ''clean'' then insist (contains ''clean-'' (absolute_text target)) [''clean probe target is not per-sample'']
      else insist (target \<noteq> [] \<and> last target = ''clean-0'') [''warm probe must reuse the first clean target''])"

definition check_places :: "gate_host \<Rightarrow> gate_paths \<Rightarrow> string \<Rightarrow> pyval \<Rightarrow> unit res" where
  "check_places h g mode probe =
     bind_res (bind_res (pindex probe ''target'') (\<lambda>v. value_under h v (g_run_root g) ''target'')) (\<lambda>target.
     bind_res (bind_res (pindex probe ''cargo_home'') (\<lambda>v. value_under h v (g_runtime g) ''Cargo home'')) (\<lambda>cargo_home.
     bind_res (pget_or probe ''env'' (VDict [])) (\<lambda>env.
     bind_res (bind_res (pget_or env ''TMPDIR'' (VStr [])) (\<lambda>v. value_under h v (g_runtime g) ''TMPDIR'')) (\<lambda>temp.
     bind_res (for_each (\<lambda>key. bind_res (bind_res (pget_or env key (VStr [])) (\<lambda>v. value_under h v (g_run_root g) key)) (\<lambda>_. Inr ())) PRIVATE_KEYS) (\<lambda>_.
     bind_res (insist (butlast temp = g_temp_parent g) [''timed build TMPDIR is not the short secure-runtime path'']) (\<lambda>_.
     bind_res (bind_res (pget_or env ''CARGO_TARGET_DIR'' (VStr [])) (\<lambda>v. value_under h v (g_run_root g) ''CARGO_TARGET_DIR'')) (\<lambda>p.
     bind_res (insist (p = target) [''timed build paths differ from recorded environment'']) (\<lambda>_.
     bind_res (bind_res (pget_or env ''CARGO_HOME'' (VStr [])) (\<lambda>v. value_under h v (g_runtime g) ''CARGO_HOME'')) (\<lambda>q.
     bind_res (insist (q = cargo_home) [''timed build paths differ from recorded environment'']) (\<lambda>_.
     check_probe_target mode target))))))))))"

definition check_artifact :: "gate_host \<Rightarrow> gate_paths \<Rightarrow> pyval \<Rightarrow> unit res" where
  "check_artifact h g artifact =
     bind_res (bind_res (pget_or artifact ''path'' (VStr [])) (\<lambda>v. value_under h v (g_run_root g) ''artifact'')) (\<lambda>p.
     bind_res (insist (is_file (gmachine h) p) [''artifact evidence mismatch'']) (\<lambda>_.
     bind_res (file_size h p) (\<lambda>n.
     bind_res (pget artifact ''size'') (\<lambda>size.
     bind_res (insist (py_eq (VInt n) size) [''artifact evidence mismatch'']) (\<lambda>_.
     bind_res (sha_file h p) (\<lambda>actual.
     bind_res (pget artifact ''sha256'') (\<lambda>digest.
     insist (digest = VStr actual) [''artifact evidence mismatch''])))))))"

definition check_canary_run :: "gate_host \<Rightarrow> contract \<Rightarrow> consumer_item \<Rightarrow> pyval \<Rightarrow> unit res" where
  "check_canary_run h k item canary =
     bind_res (pget canary ''argv'') (\<lambda>argv.
     bind_res (pget canary ''stderr'') (\<lambda>err.
     bind_res (insist (py_eq argv (VList (map VStr (canary_command k))) \<and> err = VStr []) [''canary command evidence mismatch'']) (\<lambda>_.
     bind_res (bind_res (pget_or canary ''stdout_base64'' (VStr [])) (b64decode h)) (\<lambda>raw.
     bind_res (pget canary ''stdout_sha256'') (\<lambda>digest.
     bind_res (pget canary ''exit_code'') (\<lambda>status.
     bind_res (insist (digest = VStr (sha256 (gmachine h) raw) \<and> py_eq status (VInt 0)) [''canary evidence mismatch'']) (\<lambda>_.
     bind_res (json_loads (gmachine h) raw) (\<lambda>payload.
     bind_res (pget payload ''tool'') (\<lambda>tool.
     bind_res (pget canary ''semantic'') (\<lambda>semantic.
     insist (tool = VStr (canary_tool item) \<and> py_eq payload semantic) [''canary semantic mismatch'']))))))))))"

text \<open>One probe; the result is the size of the artifact as a float.\<close>

definition check_probe :: "gate_host \<Rightarrow> contract \<Rightarrow> gate_paths \<Rightarrow> consumer_item \<Rightarrow> string \<Rightarrow> string \<Rightarrow> pyval \<Rightarrow> rat res" where
  "check_probe h k g item mode revision probe =
     bind_res (check_build k g item revision probe) (\<lambda>_.
     bind_res (check_places h g mode probe) (\<lambda>_.
     bind_res (pget_or probe ''artifact'' (VDict [])) (\<lambda>artifact.
     bind_res (check_artifact h g artifact) (\<lambda>_.
     bind_res (bind_res (pget_or probe ''canary'' (VDict [])) (check_canary_run h k item)) (\<lambda>_.
     bind_res (pindex artifact ''size'') (to_float h))))))"

section \<open>Pairs and cells\<close>

definition raw_time :: "gate_host \<Rightarrow> pyval \<Rightarrow> string \<Rightarrow> pyval \<Rightarrow> string \<Rightarrow> unit res" where
  "raw_time h pair key probe side =
     bind_res (bind_res (pget pair key) (to_float h)) (\<lambda>a.
     bind_res (bind_res (pget probe ''elapsed_ms'') (to_float h)) (\<lambda>b.
     insist (is_close h a b) [side, '' pair time is not the raw probe time'']))"

text \<open>One pair: its ratio and the two sizes.\<close>

definition check_pair :: "gate_host \<Rightarrow> contract \<Rightarrow> gate_paths \<Rightarrow> consumer_item \<Rightarrow> string \<Rightarrow> nat \<times> pyval \<Rightarrow> (rat \<times> rat \<times> rat) res" where
  "check_pair h k g item mode p =
     (case p of (i, pair) \<Rightarrow>
        bind_res (pget pair ''index'') (\<lambda>index.
        bind_res (insist (py_eq index (VInt (int i))) [''pair index mismatch'']) (\<lambda>_.
        bind_res (pget_or pair ''probes'' (VDict [])) (\<lambda>probes.
        bind_res (iter_items probes) (\<lambda>sides.
        bind_res (if list_all hashable sides then Inr () else Inl TypeError) (\<lambda>_.
        bind_res (insist (set sides = {VStr ''baseline'', VStr ''candidate''}) [''pair sides mismatch'']) (\<lambda>_.
        bind_res (pindex probes ''baseline'') (\<lambda>baseline.
        bind_res (check_probe h k g item mode (baseline_commit item) baseline) (\<lambda>size_b.
        bind_res (pindex probes ''candidate'') (\<lambda>candidate.
        bind_res (check_probe h k g item mode (candidate_commit item) candidate) (\<lambda>size_c.
        bind_res (raw_time h pair ''baseline_ms'' baseline ''baseline'') (\<lambda>_.
        bind_res (raw_time h pair ''candidate_ms'' candidate ''candidate'') (\<lambda>_.
        bind_res (pindex pair ''candidate_ms'') (\<lambda>x.
        bind_res (pindex pair ''baseline_ms'') (\<lambda>y.
        bind_res (true_divide h x y) (\<lambda>ratio.
        bind_res (bind_res (pindex pair ''ratio'') (real_arg h)) (\<lambda>recorded.
        bind_res (insist (is_close h ratio recorded) [''stale paired timing ratio'']) (\<lambda>_.
        Inr (ratio, size_b, size_c)))))))))))))))))))"

definition summary_values :: "gate_host \<Rightarrow> rat list \<Rightarrow> rat list \<Rightarrow> rat list \<Rightarrow> (string \<times> rat) list res" where
  "summary_values h ratios sizes_b sizes_c =
     bind_res (p95 h ratios) (\<lambda>high.
     bind_res (fdivide h (median h sizes_c) (median h sizes_b)) (\<lambda>size_ratio.
     Inr [(''time_ratio_median'', median h ratios), (''time_ratio_p95'', high), (''time_ratio_min'', Min (set ratios)), (''time_ratio_max'', Max (set ratios)),
       (''artifact_size_baseline_median'', median h sizes_b), (''artifact_size_candidate_median'', median h sizes_c), (''artifact_size_ratio'', size_ratio)]))"

definition time_threshold :: "gate_host \<Rightarrow> string \<Rightarrow> string \<Rightarrow> rat \<Rightarrow> pyval" where
  "time_threshold h consumer mode ratio =
     VDict [(''consumer'', VStr consumer), (''metric'', VStr ''time''), (''mode'', VStr mode), (''ratio'', VFloat ratio), (''passed'', VBool (ratio \<le> LIMIT h))]"

definition size_threshold :: "gate_host \<Rightarrow> string \<Rightarrow> rat \<Rightarrow> pyval" where
  "size_threshold h consumer ratio =
     VDict [(''consumer'', VStr consumer), (''metric'', VStr ''artifact_size''), (''ratio'', VFloat ratio), (''passed'', VBool (ratio \<le> LIMIT h))]"

text \<open>\<open>expected[(entry["consumer"], entry["mode"])]\<close>\<close>

definition cell_item :: "contract \<Rightarrow> pyval \<Rightarrow> (string \<times> string \<times> consumer_item) res" where
  "cell_item k entry =
     bind_res (pindex entry ''consumer'') (\<lambda>c. bind_res (pindex entry ''mode'') (\<lambda>m.
     case (as_str c, as_str m) of
       (Some consumer, Some mode) \<Rightarrow> (case map_of (expected_cells k) (consumer, mode) of None \<Rightarrow> Inl (KeyError consumer) | Some item \<Rightarrow> Inr (consumer, mode, item))
     | _ \<Rightarrow> Inl (KeyError [])))"

definition check_orders :: "string \<Rightarrow> string \<Rightarrow> pyval list \<Rightarrow> unit res" where
  "check_orders consumer mode pairs =
     bind_res (map_res (\<lambda>p. pget p ''order'') pairs) (\<lambda>orders.
     insist (length (filter (\<lambda>v. v = VStr ''baseline-first'') orders) = 5 \<and> length (filter (\<lambda>v. v = VStr ''candidate-first'') orders) = 5)
       [consumer, ''/'', mode, '': pair order mismatch''])"

text \<open>One cell: the probes seen and the limits it contributes.\<close>

definition check_cell :: "gate_host \<Rightarrow> contract \<Rightarrow> gate_paths \<Rightarrow> pyval \<Rightarrow> (nat \<times> pyval list) res" where
  "check_cell h k g entry =
     bind_res (cell_item k entry) (\<lambda>(consumer, mode, item).
     bind_res (pget entry ''pairs'') (\<lambda>v.
     bind_res (insist (is_list v \<and> length (the (as_list v)) = 10) [consumer, ''/'', mode, '': expected 10 pairs'']) (\<lambda>_.
     let pairs = the (as_list v) in
     bind_res (check_orders consumer mode pairs) (\<lambda>_.
     bind_res (map_res (check_pair h k g item mode) (zip [0..<length pairs] pairs)) (\<lambda>rows.
     let ratios = map fst rows; sizes_b = map (fst \<circ> snd) rows; sizes_c = map (snd \<circ> snd) rows in
     bind_res (pget_or entry ''summary'' (VDict [])) (\<lambda>summary.
     bind_res (summary_values h ratios sizes_b sizes_c) (\<lambda>expected.
     bind_res (for_each (\<lambda>(key, x). bind_res (bind_res (pget summary key) (to_float h)) (\<lambda>y.
         insist (is_close h y x) [''stale summary: '', consumer, ''/'', mode, ''/'', key])) expected) (\<lambda>_.
     bind_res (fdivide h (median h sizes_c) (median h sizes_b)) (\<lambda>size_ratio.
     Inr (2 * length rows, time_threshold h consumer mode (median h ratios) # (if mode = ''clean'' then [size_threshold h consumer size_ratio] else [])))))))))))"

fun threshold_passed :: "pyval \<Rightarrow> bool" where
  "threshold_passed (VDict d) = (dget d ''passed'' = VBool True)"
| "threshold_passed _ = False"

section \<open>The report\<close>

definition check_cells :: "gate_host \<Rightarrow> contract \<Rightarrow> gate_paths \<Rightarrow> pyval \<Rightarrow> pyval list \<Rightarrow> unit res" where
  "check_cells h k g report cells =
     bind_res (map_res (check_cell h k g) cells) (\<lambda>results.
     let thresholds = concat (map snd results) in
     bind_res (insist (sum_list (map fst results) = 80) [''observed probe count mismatch'']) (\<lambda>_.
     bind_res (insist (length thresholds = 6) [''six independent SQL-006 limits are not green'']) (\<lambda>_.
     bind_res (pget report ''thresholds'') (\<lambda>recorded.
     bind_res (insist (py_eq recorded (VList thresholds)) [''threshold evidence mismatch'']) (\<lambda>_.
     bind_res (pget report ''status'') (\<lambda>status.
     insist (\<not> (status = VStr ''passed'' \<and> \<not> list_all threshold_passed thresholds)) [''passed report contains a failed SQL-006 limit'']))))))"

definition validate_report :: "gate_host \<Rightarrow> contract \<Rightarrow> bool \<Rightarrow> string option \<Rightarrow> pyval \<Rightarrow> unit res" where
  "validate_report h k test report_path report =
     bind_res (check_head h test report) (\<lambda>_.
     bind_res (check_matrix k report) (\<lambda>cells.
     bind_res (check_paths h k test report) (\<lambda>g.
     bind_res (check_archives h k test g report) (\<lambda>_.
     bind_res (check_preflights h k g report) (\<lambda>_.
     bind_res (check_cells h k g report cells) (\<lambda>_.
     case report_path of None \<Rightarrow> Inr () | Some s \<Rightarrow> bind_res (under h s (g_runtime g) ''report'') (\<lambda>_. Inr ())))))))"

text \<open>\<open>--check\<close>: the exit code. The module loads the contract first; the line it prints is not modelled.\<close>

definition check_command :: "gate_host \<Rightarrow> string \<Rightarrow> nat" where
  "check_command h report_text =
     (case bind_res (load_contract h) (\<lambda>_.
        bind_res (bind_res (read_text (gmachine h) (join_path (gcwd h) report_text)) (json_loads (gmachine h))) (\<lambda>report.
        bind_res (validate_report h CONTRACT False (Some report_text) report) (\<lambda>_.
        pindex report ''status'')))
      of Inr status \<Rightarrow> if status = VStr ''passed'' then 0 else 1 | Inl _ \<Rightarrow> 1)"

section \<open>What a passed report shows\<close>

text \<open>A build that was timed: its commit, its command and environment, its artifact on the disk and the answer of the
  binary.\<close>

definition build_sound :: "contract \<Rightarrow> gate_paths \<Rightarrow> consumer_item \<Rightarrow> string \<Rightarrow> pydict \<Rightarrow> bool" where
  "build_sound k g item revision d =
     (\<exists>env. py_eq (dget d ''exit_code'') (VInt 0) \<and> dget d ''revision'' = VStr revision
        \<and> py_eq (dget d ''argv'') (VList (map VStr (build_command item)))
        \<and> dget_or d ''env'' (VDict []) = VDict env \<and> list_all (\<lambda>(key, v). dget env key = VStr v) (build_env k (g_runtime g)))"

definition artifact_sound :: "gate_host \<Rightarrow> gate_paths \<Rightarrow> pyval \<Rightarrow> bool" where
  "artifact_sound h g v =
     (\<exists>d p n digest. v = VDict d \<and> value_under h (dget_or d ''path'' (VStr [])) (g_run_root g) ''artifact'' = Inr p
        \<and> is_file (gmachine h) p \<and> file_size h p = Inr n \<and> py_eq (VInt n) (dget d ''size'')
        \<and> sha_file h p = Inr digest \<and> dget d ''sha256'' = VStr digest)"

definition canary_sound :: "gate_host \<Rightarrow> contract \<Rightarrow> consumer_item \<Rightarrow> pyval \<Rightarrow> bool" where
  "canary_sound h k item v =
     (\<exists>d raw payload. v = VDict d \<and> py_eq (dget d ''argv'') (VList (map VStr (canary_command k))) \<and> dget d ''stderr'' = VStr []
        \<and> b64decode h (dget_or d ''stdout_base64'' (VStr [])) = Inr raw \<and> dget d ''stdout_sha256'' = VStr (sha256 (gmachine h) raw)
        \<and> json_loads (gmachine h) raw = Inr (VDict payload) \<and> dget payload ''tool'' = VStr (canary_tool item)
        \<and> py_eq (VDict payload) (dget d ''semantic''))"

definition probe_sound :: "gate_host \<Rightarrow> contract \<Rightarrow> gate_paths \<Rightarrow> consumer_item \<Rightarrow> string \<Rightarrow> pyval \<Rightarrow> bool" where
  "probe_sound h k g item revision probe =
     (\<exists>d. probe = VDict d \<and> build_sound k g item revision d \<and> artifact_sound h g (dget_or d ''artifact'' (VDict []))
        \<and> canary_sound h k item (dget_or d ''canary'' (VDict [])))"

lemma check_build_Inr: "check_build k g item revision probe = Inr () \<Longrightarrow> \<exists>d. probe = VDict d \<and> build_sound k g item revision d"
  unfolding check_build_def bind_res_eq_Inr insist_Inr build_sound_def
  by (auto simp: build_env_def bind_res_eq_Inr split: if_splits)

lemma check_artifact_Inr: "check_artifact h g v = Inr () \<Longrightarrow> artifact_sound h g v"
  unfolding check_artifact_def artifact_sound_def bind_res_eq_Inr insist_Inr by auto

lemma check_canary_run_Inr: "check_canary_run h k item v = Inr () \<Longrightarrow> canary_sound h k item v"
  unfolding check_canary_run_def canary_sound_def bind_res_eq_Inr insist_Inr by auto

lemma check_probe_Inr:
  assumes "check_probe h k g item mode revision probe = Inr n"
  shows "probe_sound h k g item revision probe"
proof -
  from assms obtain artifact canary where b: "check_build k g item revision probe = Inr ()"
    and a: "pget_or probe ''artifact'' (VDict []) = Inr artifact" "check_artifact h g artifact = Inr ()"
    and c: "pget_or probe ''canary'' (VDict []) = Inr canary" "check_canary_run h k item canary = Inr ()"
    unfolding check_probe_def bind_res_eq_Inr by auto
  from check_build_Inr [OF b] obtain d where "probe = VDict d" "build_sound k g item revision d" by auto
  with a c check_artifact_Inr check_canary_run_Inr show ?thesis by (auto simp: probe_sound_def)
qed

text \<open>A pair: two sound builds, its times those of the builds, its ratio computed from them.\<close>

definition time_sound :: "gate_host \<Rightarrow> pyval \<Rightarrow> pyval \<Rightarrow> bool" where
  "time_sound h v probe = (\<exists>a b d. to_float h v = Inr a \<and> probe = VDict d \<and> to_float h (dget d ''elapsed_ms'') = Inr b \<and> is_close h a b)"

definition pair_sound :: "gate_host \<Rightarrow> contract \<Rightarrow> gate_paths \<Rightarrow> consumer_item \<Rightarrow> nat \<times> pyval \<Rightarrow> rat \<times> rat \<times> rat \<Rightarrow> bool" where
  "pair_sound h k g item p row =
     (\<exists>d probes b c x y. snd p = VDict d \<and> py_eq (dget d ''index'') (VInt (int (fst p))) \<and> dget_or d ''probes'' (VDict []) = VDict probes
        \<and> map_of probes ''baseline'' = Some b \<and> probe_sound h k g item (baseline_commit item) b \<and> time_sound h y b
        \<and> map_of probes ''candidate'' = Some c \<and> probe_sound h k g item (candidate_commit item) c \<and> time_sound h x c
        \<and> map_of d ''candidate_ms'' = Some x \<and> map_of d ''baseline_ms'' = Some y \<and> true_divide h x y = Inr (fst row))"

lemma raw_time_Inr: "raw_time h (VDict d) key probe side = Inr () \<Longrightarrow> map_of d key = Some x \<Longrightarrow> time_sound h x probe"
  by (auto simp: raw_time_def time_sound_def bind_res_eq_Inr dget_def)

lemma check_pair_Inr:
  assumes "check_pair h k g item mode p = Inr row"
  shows "pair_sound h k g item p row"
proof -
  obtain i pair where p: "p = (i, pair)" by (cases p)
  from assms obtain index probes sides b c sb sc x y ratio where
      i: "pget pair ''index'' = Inr index" "py_eq index (VInt (int i))" and probes: "pget_or pair ''probes'' (VDict []) = Inr probes"
    and b: "pindex probes ''baseline'' = Inr b" "check_probe h k g item mode (baseline_commit item) b = Inr sb"
    and c: "pindex probes ''candidate'' = Inr c" "check_probe h k g item mode (candidate_commit item) c = Inr sc"
    and t: "raw_time h pair ''baseline_ms'' b ''baseline'' = Inr ()" "raw_time h pair ''candidate_ms'' c ''candidate'' = Inr ()"
    and r: "pindex pair ''candidate_ms'' = Inr x" "pindex pair ''baseline_ms'' = Inr y" "true_divide h x y = Inr ratio" and row: "row = (ratio, sb, sc)"
    unfolding check_pair_def p prod.case bind_res_eq_Inr insist_Inr by auto
  from i obtain d where d: "pair = VDict d" "py_eq (dget d ''index'') (VInt (int i))" by auto
  have x: "map_of d ''candidate_ms'' = Some x" "map_of d ''baseline_ms'' = Some y" using r d by (auto simp: pindex_Inr)
  have times: "time_sound h y b" "time_sound h x c"
    using raw_time_Inr [OF t(1) [unfolded d(1)] x(2)] raw_time_Inr [OF t(2) [unfolded d(1)] x(1)] by auto
  from b(1) c(1) obtain e where e: "probes = VDict e" "map_of e ''baseline'' = Some b" "map_of e ''candidate'' = Some c" by (auto simp: pindex_Inr)
  show ?thesis unfolding pair_sound_def p row fst_conv snd_conv
    using d x times e probes check_probe_Inr [OF b(2)] check_probe_Inr [OF c(2)] r(3) by auto
qed

text \<open>A cell: ten sound pairs in both orders whose medians are within the limit.\<close>

definition cell_sound :: "gate_host \<Rightarrow> contract \<Rightarrow> gate_paths \<Rightarrow> consumer_item \<Rightarrow> string \<Rightarrow> pyval \<Rightarrow> bool" where
  "cell_sound h k g item mode cell =
     (\<exists>d pairs rows. cell = VDict d \<and> dget d ''pairs'' = VList pairs \<and> length pairs = 10
        \<and> list_all2 (pair_sound h k g item) (zip [0..<10] pairs) rows
        \<and> median h (map fst rows) \<le> LIMIT h
        \<and> (mode = ''clean'' \<longrightarrow> (\<exists>q. fdivide h (median h (map (snd \<circ> snd) rows)) (median h (map (fst \<circ> snd) rows)) = Inr q \<and> q \<le> LIMIT h)))"

lemma check_cell_Inr:
  assumes "check_cell h k g cell = Inr (n, thresholds)" and "list_all threshold_passed thresholds"
  shows "\<exists>consumer mode item. cell_item k cell = Inr (consumer, mode, item) \<and> cell_sound h k g item mode cell"
proof -
  from assms(1) obtain consumer mode item v rows q where
      item: "cell_item k cell = Inr (consumer, mode, item)" and v: "pget cell ''pairs'' = Inr v" "is_list v" "length (the (as_list v)) = 10"
    and rows: "map_res (check_pair h k g item mode) (zip [0..<length (the (as_list v))] (the (as_list v))) = Inr rows"
    and q: "fdivide h (median h (map (snd \<circ> snd) rows)) (median h (map (fst \<circ> snd) rows)) = Inr q"
    and th: "thresholds = time_threshold h consumer mode (median h (map fst rows)) # (if mode = ''clean'' then [size_threshold h consumer q] else [])"
    unfolding check_cell_def Let_def bind_res_eq_Inr insist_Inr by (auto split: prod.splits simp: bind_res_eq_Inr)
  from v(2) obtain pairs where pairs: "v = VList pairs" by (auto simp: is_list_iff)
  with v obtain d where d: "cell = VDict d" "dget d ''pairs'' = VList pairs" "v = VList pairs" "length pairs = 10" by auto
  have "list_all2 (pair_sound h k g item) (zip [0..<10] pairs) rows"
    using rows d by (auto simp: map_res_Inr intro: list_all2_mono dest: check_pair_Inr)
  moreover have "median h (map fst rows) \<le> LIMIT h" "mode = ''clean'' \<Longrightarrow> q \<le> LIMIT h"
    using assms(2) th by (auto simp: time_threshold_def size_threshold_def dget_def)
  ultimately show ?thesis using item d q by (auto simp: cell_sound_def)
qed

text \<open>An archive: its file, the bytes Git gives for the commit in the consumer's checkout and in the private source, and
  the pins of that source.\<close>

definition archive_sound :: "gate_host \<Rightarrow> contract \<Rightarrow> gate_paths \<Rightarrow> consumer_item \<Rightarrow> string \<Rightarrow> pyval \<Rightarrow> bool" where
  "archive_sound h k g item revision archive =
     (\<exists>d p source digest checkout raw again pins. archive = VDict d
        \<and> value_under h (dget_or d ''archive'' (VStr [])) (g_run_root g) ''archive'' = Inr p \<and> is_file (gmachine h) p
        \<and> sha_file h p = Inr digest \<and> dget d ''archive_sha256'' = VStr digest
        \<and> consumer_checkout h k item = Inr checkout \<and> git_archive h checkout revision = Inr raw \<and> sha256 (gmachine h) raw = digest
        \<and> value_under h (dget_or d ''source'' (VStr [])) (g_run_root g) ''archive source'' = Inr source
        \<and> gate_git h [''rev-parse'', ''HEAD''] source = Inr revision
        \<and> git_archive h source revision = Inr again \<and> sha256 (gmachine h) again = digest
        \<and> source_pins h source (if revision = baseline_commit item then baseline_corekit item else candidate_corekit item) = Inr pins)"

lemma check_hydration_Inr:
  assumes "check_hydration h k item archive source (VStr digest) = Inr ()" and "get_if_dict archive ''revision'' = VStr revision"
  shows "\<exists>checkout raw again. consumer_checkout h k item = Inr checkout \<and> git_archive h checkout revision = Inr raw \<and> sha256 (gmachine h) raw = digest
    \<and> gate_git h [''rev-parse'', ''HEAD''] source = Inr revision \<and> git_archive h source revision = Inr again \<and> sha256 (gmachine h) again = digest"
  using assms unfolding check_hydration_def Let_def bind_res_eq_Inr insist_Inr by (auto split: if_splits)

lemma check_archive_Inr:
  assumes "check_archive h k False g archive = Inr ()" and "archive_key archive = Inr (VStr (item_name item), VStr revision)"
    and "List.find (\<lambda>i. item_name i = item_name item) (consumers k) = Some item"
  shows "archive_sound h k g item revision archive"
proof -
  from assms(2) obtain d where d: "archive = VDict d" "dget d ''consumer'' = VStr (item_name item)" "dget d ''revision'' = VStr revision"
    by (auto simp: archive_key_def bind_res_eq_Inr split: if_splits)
  have find: "List.find (\<lambda>i. VStr (item_name i) = VStr (item_name item)) (consumers k) = Some item" using assms(3) by simp
  from assms(1) obtain p source digest where
      p: "value_under h (dget_or d ''archive'' (VStr [])) (g_run_root g) ''archive'' = Inr p" "is_file (gmachine h) p"
        "sha_file h p = Inr digest" "dget d ''archive_sha256'' = VStr digest"
    and source: "value_under h (dget_or d ''source'' (VStr [])) (g_run_root g) ''archive source'' = Inr source"
    and hyd: "check_hydration h k item archive source (VStr digest) = Inr ()"
    and meta: "check_metadata h archive source (if VStr revision = VStr (baseline_commit item) then baseline_corekit item else candidate_corekit item) = Inr ()"
    unfolding check_archive_def d pget_VDict bind_res_simps find option.case bind_res_eq_Inr insist_Inr if_False by auto
  have "\<exists>pins. source_pins h source (if revision = baseline_commit item then baseline_corekit item else candidate_corekit item) = Inr pins"
    using meta unfolding check_metadata_def bind_res_eq_Inr by (auto split: if_splits)
  moreover have "get_if_dict archive ''revision'' = VStr revision" using d by simp
  ultimately show ?thesis using d p source check_hydration_Inr [OF hyd] by (auto simp: archive_sound_def)
qed

definition cell_for :: "gate_host \<Rightarrow> contract \<Rightarrow> gate_paths \<Rightarrow> pyval list \<Rightarrow> (string \<times> string) \<times> consumer_item \<Rightarrow> bool" where
  "cell_for h k g cells e = (case e of ((consumer, mode), item) \<Rightarrow>
     \<exists>cell \<in> set cells. cell_item k cell = Inr (consumer, mode, item) \<and> cell_sound h k g item mode cell)"

definition archive_for :: "gate_host \<Rightarrow> contract \<Rightarrow> gate_paths \<Rightarrow> pyval list \<Rightarrow> consumer_item \<Rightarrow> bool" where
  "archive_for h k g archives item =
     list_all (\<lambda>revision. \<exists>a \<in> set archives. archive_sound h k g item revision a) [baseline_commit item, candidate_commit item]"

text \<open>A passed report: every consumer in every mode, and both commits of every consumer.\<close>

definition report_sound :: "gate_host \<Rightarrow> contract \<Rightarrow> pyval \<Rightarrow> bool" where
  "report_sound h k report =
     (\<exists>d cells archives g. report = VDict d \<and> dget d ''status'' = VStr ''passed''
        \<and> dget d ''cells'' = VList cells \<and> length cells = 4 \<and> list_all (cell_for h k g cells) (expected_cells k)
        \<and> dget d ''archives'' = VList archives \<and> list_all (archive_for h k g archives) (consumers k)
        \<and> resolve_path (gmachine h) (join_path (gcwd h) (runtime_mount k)) = Inr (g_runtime g))"

lemma check_cells_Inr:
  assumes "check_cells h k g (VDict d) cells = Inr ()" and "dget d ''status'' = VStr ''passed''" and "cell \<in> set cells"
  shows "\<exists>consumer mode item. cell_item k cell = Inr (consumer, mode, item) \<and> cell_sound h k g item mode cell"
proof -
  from assms(1,2) obtain results where r: "list_all2 (\<lambda>c p. check_cell h k g c = Inr p) cells results" and all: "list_all threshold_passed (concat (map snd results))"
    unfolding check_cells_def Let_def bind_res_eq_Inr insist_Inr map_res_Inr by auto
  from r assms(3) obtain n th where "(n, th) \<in> set results" "check_cell h k g cell = Inr (n, th)"
    using list_all2_image [OF r assms(3)] by auto
  moreover have "list_all threshold_passed th" using all calculation(1) by (auto simp: list_all_iff)
  ultimately show ?thesis by (blast intro: check_cell_Inr)
qed

lemma contract_names:
  "consumers CONTRACT = [desktop, eraseme]" "modes CONTRACT = [''clean'', ''warm'']" "item_name desktop = ''desktop''" "item_name eraseme = ''eraseme''"
  by (simp_all add: CONTRACT_def desktop_def eraseme_def)

lemma contract_keys: "distinct (map fst (expected_cells CONTRACT))"
  by (simp add: expected_cells_def contract_names)

lemma contract_items:
  assumes "item \<in> set (consumers CONTRACT)"
  shows "List.find (\<lambda>i. item_name i = item_name item) (consumers CONTRACT) = Some item"
proof -
  have "item = desktop \<or> item = eraseme" using assms contract_names(1) by simp
  then show ?thesis by (elim disjE) (simp_all add: contract_names)
qed

lemma cell_for_all:
  assumes m: "check_matrix CONTRACT (VDict d) = Inr cells" and c: "check_cells h CONTRACT g (VDict d) cells = Inr ()" and s: "dget d ''status'' = VStr ''passed''"
  shows "list_all (cell_for h CONTRACT g cells) (expected_cells CONTRACT)"
proof -
  from m obtain observed where o: "list_all2 (\<lambda>c p. cell_key c = Inr p) cells observed" "set observed = key_values ` fst ` set (expected_cells CONTRACT)"
    unfolding check_matrix_def Let_def bind_res_eq_Inr insist_Inr map_res_Inr by auto
  have "cell_for h CONTRACT g cells ((consumer, mode), item)" if e: "((consumer, mode), item) \<in> set (expected_cells CONTRACT)" for consumer mode item
  proof -
    have "key_values (consumer, mode) \<in> set observed" using e o(2) by force
    then obtain cell where cell: "cell \<in> set cells" "cell_key cell = Inr (VStr consumer, VStr mode)"
      using list_all2_source [OF o(1)] by (auto simp: key_values_def)
    obtain consumer' mode' item' where i: "cell_item CONTRACT cell = Inr (consumer', mode', item')" "cell_sound h CONTRACT g item' mode' cell"
      using check_cells_Inr [OF c s cell(1)] by blast
    have "map_of (expected_cells CONTRACT) (consumer, mode) = Some item" using e contract_keys by (simp add: map_of_is_SomeI)
    then have "consumer' = consumer \<and> mode' = mode \<and> item' = item"
      using cell(2) i(1) by (auto simp: cell_key_def cell_item_def bind_res_eq_Inr pindex_Inr dget_def split: if_splits option.splits)
    then show ?thesis using cell(1) i by (auto simp: cell_for_def)
  qed
  then show ?thesis by (auto simp: list_all_iff)
qed

lemma archive_for_all:
  assumes "check_archives h CONTRACT False g (VDict d) = Inr ()"
  shows "\<exists>archives. dget d ''archives'' = VList archives \<and> list_all (archive_for h CONTRACT g archives) (consumers CONTRACT)"
proof -
  from assms obtain archives seen where a: "dget d ''archives'' = VList archives"
    and seen: "list_all2 (\<lambda>c p. archive_key c = Inr p) archives seen" "set seen = key_values ` set (expected_archives CONTRACT)"
    and each: "\<forall>x \<in> set archives. check_archive h CONTRACT False g x = Inr ()"
    unfolding check_archives_def bind_res_eq_Inr insist_Inr map_res_Inr by (auto simp: is_list_iff)
  have "archive_for h CONTRACT g archives item" if i: "item \<in> set (consumers CONTRACT)" for item
  proof -
    have "\<exists>x \<in> set archives. archive_sound h CONTRACT g item revision x" if r: "revision \<in> {baseline_commit item, candidate_commit item}" for revision
    proof -
      have "(item_name item, revision) \<in> set (expected_archives CONTRACT)" using i r by (auto simp: expected_archives_def)
      then have "key_values (item_name item, revision) \<in> set seen" using seen(2) by blast
      then obtain x where "x \<in> set archives" "archive_key x = Inr (VStr (item_name item), VStr revision)"
        using list_all2_source [OF seen(1)] by (auto simp: key_values_def)
      then show ?thesis using each check_archive_Inr [OF _ _ contract_items [OF i]] by blast
    qed
    then show ?thesis by (simp add: archive_for_def)
  qed
  then show ?thesis using a by (auto simp: list_all_iff)
qed


section \<open>A report that is accepted\<close>

text \<open>Paths stand for themselves, files are there, every digest is the same, and a source is named by its commit.\<close>

definition sample_runtime :: path where
  "sample_runtime = [''Volumes'', ''SymairaSecureRuntime'']"

definition sample_pin :: "string \<Rightarrow> string" where
  "sample_pin revision =
     (if revision = baseline_commit desktop then baseline_corekit desktop
      else if revision = baseline_commit eraseme then baseline_corekit eraseme else candidate_corekit desktop)"

definition sample_env :: "string \<Rightarrow> pyval" where
  "sample_env target =
     VDict (map (\<lambda>(key, v). (key, VStr v)) (build_env CONTRACT sample_runtime) @ [(''TMPDIR'', VStr (absolute_text (sample_runtime @ [''t'', ''x'']))),
       (''CARGO_TARGET_DIR'', VStr target), (''CARGO_HOME'', VStr (absolute_text sample_runtime))]
       @ map (\<lambda>key. (key, VStr (absolute_text sample_runtime))) PRIVATE_KEYS)"

definition sample_probe :: "consumer_item \<Rightarrow> string \<Rightarrow> string \<Rightarrow> pyval" where
  "sample_probe item mode revision =
     (let target = absolute_text (sample_runtime @ [''clean-0'']); answer = VDict [(''tool'', VStr (canary_tool item))] in
      VDict [(''exit_code'', VInt 0), (''revision'', VStr revision), (''argv'', VList (map VStr (build_command item))), (''env'', sample_env target),
        (''target'', VStr target), (''cargo_home'', VStr (absolute_text sample_runtime)), (''elapsed_ms'', VFloat 10),
        (''artifact'', VDict [(''path'', VStr target), (''size'', VInt 17), (''sha256'', VStr ''x'')]),
        (''canary'', VDict [(''argv'', VList (map VStr (canary_command CONTRACT))), (''stderr'', VStr []), (''stdout_base64'', VStr (canary_tool item)),
          (''stdout_sha256'', VStr ''x''), (''exit_code'', VInt 0), (''semantic'', answer)])])"

definition sample_pair :: "consumer_item \<Rightarrow> string \<Rightarrow> nat \<Rightarrow> pyval" where
  "sample_pair item mode i =
     VDict [(''index'', VInt (int i)), (''order'', VStr (if i < 5 then ''baseline-first'' else ''candidate-first'')), (''baseline_ms'', VFloat 10),
       (''candidate_ms'', VFloat 10), (''ratio'', VInt 1),
       (''probes'', VDict [(''baseline'', sample_probe item mode (baseline_commit item)), (''candidate'', sample_probe item mode (candidate_commit item))])]"

definition sample_cell :: "consumer_item \<Rightarrow> string \<Rightarrow> pyval" where
  "sample_cell item mode =
     VDict [(''consumer'', VStr (item_name item)), (''mode'', VStr mode), (''pairs'', VList (map (sample_pair item mode) [0..<10])),
       (''summary'', VDict [(''time_ratio_median'', VInt 1), (''time_ratio_p95'', VInt 1), (''time_ratio_min'', VInt 1), (''time_ratio_max'', VInt 1),
         (''artifact_size_baseline_median'', VInt 17), (''artifact_size_candidate_median'', VInt 17), (''artifact_size_ratio'', VInt 1)])]"

definition sample_archive :: "consumer_item \<Rightarrow> string \<Rightarrow> pyval" where
  "sample_archive item revision =
     (let pin = sample_pin revision; packages = map (\<lambda>name. (name, VStr (expected_git_source pin))) PINNED in
      VDict [(''consumer'', VStr (item_name item)), (''revision'', VStr revision), (''archive'', VStr (absolute_text sample_runtime)), (''archive_sha256'', VStr ''x''),
        (''source'', VStr (absolute_text (sample_runtime @ [revision]))), (''hydrated_head'', VStr revision), (''manifest_sha256'', VStr ''x''), (''lock_sha256'', VStr ''x''),
        (''metadata'', VDict [(''sha256'', VStr ''x''), (''document'', VDict []), (''packages'', VDict packages), (''pins'', VDict ((''direct'', VStr pin) # packages))])])"

definition sample_preflight :: "consumer_item \<Rightarrow> string list \<times> nat \<Rightarrow> pyval" where
  "sample_preflight item p =
     VDict [(''label'', VStr (msg [item_name item, ''-value-'', str_int (int (snd p))])), (''argv'', VList (map VStr (fst p))), (''exit_code'', VInt 0),
       (''env'', VDict [(''CARGO_NET_OFFLINE'', VStr ''true''), (''TMPDIR'', VStr (absolute_text (sample_runtime @ [''t'', ''x''])))])]"

definition sample_report :: pyval where
  "sample_report =
     (let root = VStr (absolute_text sample_runtime); items = consumers CONTRACT in
      VDict [(''schema_version'', VInt 1), (''gate_id'', VStr ''SQL-006-80-BUILD''), (''status'', VStr ''passed''), (''contract_sha256'', VStr ''x''),
        (''runner_sha256'', VStr ''x''), (''validator_sha256'', VStr ''x''), (''counts'', VDict [(''expected'', VInt 80), (''observed'', VInt 80)]),
        (''run_root'', root), (''cache_root'', root),
        (''provenance'', VDict [(''nvme_runtime'', root), (''nvme_storage'', VStr (storage_root CONTRACT)),
          (''toolchain_bin'', VStr (absolute_text (toolchain_path CONTRACT sample_runtime))), (''go_bin'', VStr (absolute_text (go_path CONTRACT sample_runtime)))]),
        (''cells'', VList (concat (map (\<lambda>item. map (sample_cell item) (modes CONTRACT)) items))),
        (''archives'', VList (concat (map (\<lambda>item. [sample_archive item (baseline_commit item), sample_archive item (candidate_commit item)]) items))),
        (''value_preflights'', VList (concat (map (\<lambda>item. map (sample_preflight item) (zip (the (map_of (value_commands CONTRACT) (item_name item))) [0, 1])) items))),
        (''thresholds'', VList (concat (map (\<lambda>item. map (\<lambda>d. VDict (d @ [(''consumer'', VStr (item_name item)), (''ratio'', VInt 1), (''passed'', VBool True)]))
          [[(''metric'', VStr ''time''), (''mode'', VStr ''clean'')], [(''metric'', VStr ''artifact_size'')], [(''metric'', VStr ''time''), (''mode'', VStr ''warm'')]]) items)))])"

definition sample_contract :: pyval where
  "sample_contract = VDict [(''schema_version'', VInt 1), (''gate_id'', VStr ''SQL-006-80-BUILD''), (''limit'', VFloat (11 / 10)), (''samples_per_cell'', VInt 10),
     (''consumers'', VList [VNone, VNone]), (''modes'', VList [VStr ''clean'', VStr ''warm''])]"

definition sample_lock :: "string \<Rightarrow> pydict" where
  "sample_lock pin =
     [(''dependencies'', VDict [(''symaira-core-sqlite'', VDict [(''git'', VStr COREKIT_GIT), (''rev'', VStr pin)])]),
      (''package'', VList (map (\<lambda>name. VDict [(''name'', VStr name), (''source'', VStr (expected_git_source pin)), (''dependencies'', VList [VStr ''symaira-core-fs''])]) PINNED))]"

definition sample_git :: "string list \<Rightarrow> path \<Rightarrow> int \<times> string \<times> string" where
  "sample_git args p = (0, if args = [''rev-parse'', ''HEAD''] then last p else if hd args = ''remote'' then ''git@github.com:danieljustus/'' @ last p else [], [])"

definition sample_bytes :: "path \<Rightarrow> string res" where
  "sample_bytes p = Inr (if p = [''contract''] then ''C'' else if last p = ''report'' then ''R'' else if length p = 4 then sample_pin (p ! 2) else [])"

definition sample_json :: "string \<Rightarrow> pyval res" where
  "sample_json s = Inr (if s = ''C'' then sample_contract else if s = ''R'' then sample_report else VDict [(''tool'', VStr s)])"

definition sample_toml :: "string \<Rightarrow> pydict res" where
  "sample_toml s = Inr (sample_lock s)"

definition sample_digest_x :: "string \<Rightarrow> string" where
  "sample_digest_x s = ''x''"

definition sample_gate_host :: gate_host where
  "sample_gate_host = \<lparr>gmachine = sample_world\<lparr>run_git := sample_git, read_bytes := sample_bytes, json_loads := sample_json,
       toml_loads := sample_toml, sha256 := sample_digest_x\<rparr>,
     gcwd = sample_runtime, runner_path = [''runner''], contract_path = [''contract''], on_windows = False, permissions = \<lambda>_. Inr 448,
     file_size = \<lambda>_. Inr 17, b64decode = path_text, float_of_text = \<lambda>_. Inl (ValueError []), rounding = \<lambda>r. r\<rparr>"

definition sample_gate_paths :: gate_paths where
  "sample_gate_paths = \<lparr>g_runtime = sample_runtime, g_run_root = sample_runtime, g_temp_parent = sample_runtime @ [''t'']\<rparr>"

definition sample_cells :: "pyval list" where
  "sample_cells = [sample_cell desktop ''clean'', sample_cell desktop ''warm'', sample_cell eraseme ''clean'', sample_cell eraseme ''warm'']"

lemma sample_probes:
  "list_all (\<lambda>(item, mode). list_all (\<lambda>revision.
       check_probe sample_gate_host CONTRACT sample_gate_paths item mode revision (sample_probe item mode revision) = Inr 17)
     [baseline_commit item, candidate_commit item]) [(desktop, ''clean''), (desktop, ''warm''), (eraseme, ''clean''), (eraseme, ''warm'')]"
  by code_simp

lemma sample_times:
  "pget (sample_probe item mode revision) ''elapsed_ms'' = Inr (VFloat 10)"
  "pget (sample_pair item mode i) ''baseline_ms'' = Inr (VFloat 10)" "pget (sample_pair item mode i) ''candidate_ms'' = Inr (VFloat 10)"
  "pindex (sample_pair item mode i) ''baseline_ms'' = Inr (VFloat 10)" "pindex (sample_pair item mode i) ''candidate_ms'' = Inr (VFloat 10)"
  "pindex (sample_pair item mode i) ''ratio'' = Inr (VInt 1)" "pget (sample_pair item mode i) ''index'' = Inr (VInt (int i))"
  "pget (sample_pair item mode i) ''order'' = Inr (VStr (if i < 5 then ''baseline-first'' else ''candidate-first''))"
  by (simp_all add: sample_probe_def sample_pair_def Let_def dget_def pindex_def dindex_def)

lemma sample_sides:
  "pget_or (sample_pair item mode i) ''probes'' (VDict []) = Inr (VDict [(''baseline'', sample_probe item mode (baseline_commit item)), (''candidate'', sample_probe item mode (candidate_commit item))])"
  "pindex (VDict [(''baseline'', a), (''candidate'', b)]) ''baseline'' = Inr a" "pindex (VDict [(''baseline'', a), (''candidate'', b)]) ''candidate'' = Inr b"
  "iter_items (VDict [(''baseline'', a), (''candidate'', b)]) = Inr [VStr ''baseline'', VStr ''candidate'']"
  by (simp_all add: sample_pair_def dget_or_def pindex_def dindex_def keys_def)

lemma sample_numbers:
  "to_float sample_gate_host (VFloat r) = Inr r" "true_divide sample_gate_host (VFloat 10) (VFloat 10) = Inr 1"
  "real_arg sample_gate_host (VInt 1) = Inr 1" "is_close sample_gate_host r r"
  by (simp_all add: to_float_def true_divide_def real_arg_def close_to_def Let_def sample_gate_host_def)

lemma sample_pair_row:
  assumes "check_probe sample_gate_host CONTRACT sample_gate_paths item mode (baseline_commit item) (sample_probe item mode (baseline_commit item)) = Inr 17"
    and "check_probe sample_gate_host CONTRACT sample_gate_paths item mode (candidate_commit item) (sample_probe item mode (candidate_commit item)) = Inr 17"
  shows "check_pair sample_gate_host CONTRACT sample_gate_paths item mode (i, sample_pair item mode i) = Inr (1, 17, 17)"
  by (simp add: check_pair_def raw_time_def sample_times sample_sides sample_numbers keys_def assms)

lemma sample_rows:
  assumes "\<And>i. check_pair h k g item mode (i, sample_pair item mode i) = Inr row"
  shows "map_res (check_pair h k g item mode) (zip ns (map (sample_pair item mode) ns)) = Inr (replicate (length ns) row)"
  by (induction ns) (simp_all add: assms)

lemma sample_summary:
  "summary_values sample_gate_host (replicate 10 1) (replicate 10 17) (replicate 10 17) =
     Inr [(''time_ratio_median'', 1), (''time_ratio_p95'', 1), (''time_ratio_min'', 1), (''time_ratio_max'', 1),
       (''artifact_size_baseline_median'', 17), (''artifact_size_candidate_median'', 17), (''artifact_size_ratio'', 1)]"
  "median sample_gate_host (replicate 10 1) = 1" "fdivide sample_gate_host (median sample_gate_host (replicate 10 17)) (median sample_gate_host (replicate 10 17)) = Inr 1"
  by code_simp+

lemma sample_orders: "map_res (\<lambda>p. pget p ''order'') (map (sample_pair item mode) ns) =
    Inr (map (\<lambda>i. VStr (if i < 5 then ''baseline-first'' else ''candidate-first'')) ns)"
  by (induction ns) (simp_all only: list.map map_res.simps sample_times bind_res_simps)

lemma sample_cell_fields:
  "pindex (sample_cell item mode) ''consumer'' = Inr (VStr (item_name item))" "pindex (sample_cell item mode) ''mode'' = Inr (VStr mode)"
  "pget (sample_cell item mode) ''pairs'' = Inr (VList (map (sample_pair item mode) [0..<10]))"
  "pget_or (sample_cell item mode) ''summary'' (VDict []) = Inr (VDict [(''time_ratio_median'', VInt 1), (''time_ratio_p95'', VInt 1), (''time_ratio_min'', VInt 1), (''time_ratio_max'', VInt 1),
     (''artifact_size_baseline_median'', VInt 17), (''artifact_size_candidate_median'', VInt 17), (''artifact_size_ratio'', VInt 1)])"
  by (simp_all add: sample_cell_def dget_def dget_or_def pindex_def dindex_def)

lemma sample_cell_checked:
  assumes "map_of (expected_cells CONTRACT) (item_name item, mode) = Some item"
    and probes: "list_all (\<lambda>revision. check_probe sample_gate_host CONTRACT sample_gate_paths item mode revision (sample_probe item mode revision) = Inr 17)
      [baseline_commit item, candidate_commit item]"
  shows "check_cell sample_gate_host CONTRACT sample_gate_paths (sample_cell item mode) =
    Inr (20, time_threshold sample_gate_host (item_name item) mode 1 # (if mode = ''clean'' then [size_threshold sample_gate_host (item_name item) 1] else []))"
proof -
  let ?ps = "map (sample_pair item mode) [0..<10]"
  have item: "cell_item CONTRACT (sample_cell item mode) = Inr (item_name item, mode, item)"
    using assms(1) by (simp add: cell_item_def sample_cell_fields)
  have orders: "check_orders (item_name item) mode ?ps = Inr ()"
    by (simp only: check_orders_def sample_orders) (simp add: upt_rec)
  have rows: "map_res (check_pair sample_gate_host CONTRACT sample_gate_paths item mode) (zip [0..<10] ?ps) = Inr (replicate 10 (1, 17, 17))"
    using sample_rows [OF sample_pair_row, of item mode "[0..<10]"] probes by simp
  have floats: "to_float sample_gate_host (VInt n) = Inr (of_int n)" for n
    by (simp add: to_float_def sample_gate_host_def)
  show ?thesis
    by (simp add: check_cell_def item sample_cell_fields orders rows sample_summary dget_def floats sample_numbers Let_def)
qed

definition sample_archives :: "pyval list" where
  "sample_archives = concat (map (\<lambda>item. [sample_archive item (baseline_commit item), sample_archive item (candidate_commit item)]) (consumers CONTRACT))"

definition sample_preflights :: "pyval list" where
  "sample_preflights = concat (map (\<lambda>item. map (sample_preflight item) (zip (the (map_of (value_commands CONTRACT) (item_name item))) [0, 1])) (consumers CONTRACT))"

definition sample_thresholds :: "pyval list" where
  "sample_thresholds = concat (map (\<lambda>item. map (\<lambda>d. VDict (d @ [(''consumer'', VStr (item_name item)), (''ratio'', VInt 1), (''passed'', VBool True)]))
     [[(''metric'', VStr ''time''), (''mode'', VStr ''clean'')], [(''metric'', VStr ''artifact_size'')], [(''metric'', VStr ''time''), (''mode'', VStr ''warm'')]]) (consumers CONTRACT))"

lemma sample_report_fields:
  "pget sample_report ''schema_version'' = Inr (VInt 1)" "pget sample_report ''gate_id'' = Inr (VStr ''SQL-006-80-BUILD'')"
  "pget sample_report ''status'' = Inr (VStr ''passed'')" "pindex sample_report ''status'' = Inr (VStr ''passed'')"
  "pget sample_report ''contract_sha256'' = Inr (VStr ''x'')" "pget sample_report ''runner_sha256'' = Inr (VStr ''x'')"
  "pget sample_report ''validator_sha256'' = Inr (VStr ''x'')"
  "pget_or sample_report ''counts'' v = Inr (VDict [(''expected'', VInt 80), (''observed'', VInt 80)])"
  "pget_or sample_report ''run_root'' v = Inr (VStr (absolute_text sample_runtime))" "pget_or sample_report ''cache_root'' v = Inr (VStr (absolute_text sample_runtime))"
  "pget_or sample_report ''provenance'' v = Inr (VDict [(''nvme_runtime'', VStr (absolute_text sample_runtime)), (''nvme_storage'', VStr (storage_root CONTRACT)),
     (''toolchain_bin'', VStr (absolute_text (toolchain_path CONTRACT sample_runtime))), (''go_bin'', VStr (absolute_text (go_path CONTRACT sample_runtime)))])"
  "pget sample_report ''cells'' = Inr (VList sample_cells)" "pget sample_report ''archives'' = Inr (VList sample_archives)"
  "pget sample_report ''value_preflights'' = Inr (VList sample_preflights)" "pget sample_report ''thresholds'' = Inr (VList sample_thresholds)"
  by (simp_all add: sample_report_def Let_def dget_def dget_or_def pindex_def dindex_def sample_cells_def contract_names sample_archives_def sample_preflights_def sample_thresholds_def)

lemma sample_head: "check_head sample_gate_host False sample_report = Inr ()"
  by (simp add: check_head_def sample_report_fields sha_file_def) (simp add: sample_gate_host_def sample_bytes_def sample_digest_x_def)

lemma sample_matrix: "check_matrix CONTRACT sample_report = Inr sample_cells"
proof -
  have "map_res cell_key sample_cells = Inr (map (key_values \<circ> fst) (expected_cells CONTRACT))"
    by (simp add: sample_cells_def sample_cell_def cell_key_def dget_def expected_cells_def contract_names key_values_def)
  moreover have "length sample_cells = 4" by (simp add: sample_cells_def)
  ultimately show ?thesis by (simp add: check_matrix_def sample_report_fields dget_def image_comp)
qed

lemma sample_paths_checked: "check_paths sample_gate_host CONTRACT False sample_report = Inr sample_gate_paths"
  unfolding check_paths_def sample_report_fields bind_res_simps by code_simp

lemma sample_archives_checked: "check_archives sample_gate_host CONTRACT False sample_gate_paths sample_report = Inr ()"
  unfolding check_archives_def sample_report_fields bind_res_simps by code_simp

lemma sample_preflights_checked: "check_preflights sample_gate_host CONTRACT sample_gate_paths sample_report = Inr ()"
  unfolding check_preflights_def sample_report_fields bind_res_simps by code_simp

lemma sample_cells_checked: "check_cells sample_gate_host CONTRACT sample_gate_paths sample_report sample_cells = Inr ()"
proof -
  have items: "map_of (expected_cells CONTRACT) (item_name desktop, ''clean'') = Some desktop" "map_of (expected_cells CONTRACT) (item_name desktop, ''warm'') = Some desktop"
    "map_of (expected_cells CONTRACT) (item_name eraseme, ''clean'') = Some eraseme" "map_of (expected_cells CONTRACT) (item_name eraseme, ''warm'') = Some eraseme"
    by (simp_all add: expected_cells_def contract_names)
  have results: "map_res (check_cell sample_gate_host CONTRACT sample_gate_paths) sample_cells = Inr
    [(20, [time_threshold sample_gate_host ''desktop'' ''clean'' 1, size_threshold sample_gate_host ''desktop'' 1]),
     (20, [time_threshold sample_gate_host ''desktop'' ''warm'' 1]),
     (20, [time_threshold sample_gate_host ''eraseme'' ''clean'' 1, size_threshold sample_gate_host ''eraseme'' 1]),
     (20, [time_threshold sample_gate_host ''eraseme'' ''warm'' 1])]"
  proof -
    have each: "list_all (\<lambda>revision. check_probe sample_gate_host CONTRACT sample_gate_paths item mode revision (sample_probe item mode revision) = Inr 17)
        [baseline_commit item, candidate_commit item]" if "item \<in> {desktop, eraseme}" "mode \<in> {''clean'', ''warm''}" for item mode
      using sample_probes that by auto
    show ?thesis
      by (simp add: sample_cells_def sample_cell_checked [OF items(1) each] sample_cell_checked [OF items(2) each]
        sample_cell_checked [OF items(3) each] sample_cell_checked [OF items(4) each] contract_names)
  qed
  have limit: "1 \<le> LIMIT sample_gate_host" by (simp add: LIMIT_def sample_gate_host_def)
  show ?thesis
    by (simp add: check_cells_def results sample_report_fields sample_thresholds_def contract_names time_threshold_def size_threshold_def limit py_eq_VList py_eq_VDict dget_def)
qed

lemma sample_report_accepted: "check_command sample_gate_host ''report'' = 0"
proof -
  have files: "bind_res (read_text (gmachine sample_gate_host) (contract_path sample_gate_host)) (json_loads (gmachine sample_gate_host)) = Inr sample_contract"
    "bind_res (read_text (gmachine sample_gate_host) (join_path (gcwd sample_gate_host) ''report'')) (json_loads (gmachine sample_gate_host)) = Inr sample_report"
    by code_simp+
  have "load_contract sample_gate_host = Inr sample_contract"
    unfolding load_contract_def files(1) by code_simp
  moreover have "under sample_gate_host ''report'' (g_runtime sample_gate_paths) ''report'' = Inr (sample_runtime @ [''report''])" by code_simp
  ultimately show ?thesis
    by (simp add: check_command_def files validate_report_def sample_head sample_matrix sample_paths_checked sample_archives_checked sample_preflights_checked
      sample_cells_checked sample_report_fields)
qed


end
