(* ===== verification/Trust.thy ===== *)
theory Trust
  imports HandoffArtifacts
begin

text \<open>
  The trust boundary of the adoption validators, \<open>scripts/rust-port/trust.py\<close>: paths inside the workspace and inside a
  checkout, origins, revisions, GitHub answers, and the checkout that stands for a record. The record
  \<open>adoption_host\<close> is the machine as each command finds it, with the search for manifests, the web and the
  temporary directory.
\<close>

datatype web_answer =
    Payload pyval
  | HttpError int string
  | NetError string
  | Malformed pyexc

record adoption_host =
  amachine :: world
  aroot :: path
  cargo_files :: "path \<Rightarrow> path list"
  there :: "path \<Rightarrow> bool"
  web :: "bool \<Rightarrow> string \<Rightarrow> web_answer"
  github_token :: bool
  decode64 :: "string \<Rightarrow> string res"
  decode_replace :: "string \<Rightarrow> string"
  fetch_root :: path
  now :: string

text \<open>\<open>fail\<close> raises \<open>ValueError\<close>; a Git command that fails raises \<open>RuntimeError\<close>.\<close>

definition trust_git :: "adoption_host \<Rightarrow> string list \<Rightarrow> path \<Rightarrow> string res" where
  "trust_git h args p =
     (case git_cmd (amachine h) args p of (exit_code, out, err) \<Rightarrow>
        if exit_code = 0 then Inr out else Inl (RuntimeError (msg [''git '', join '' '' args, '' failed: '', err])))"

section \<open>Paths\<close>

definition absolute_path :: "path \<Rightarrow> string" where
  "absolute_path p = CHR ''/'' # as_posix p"

definition workspace_root :: "adoption_host \<Rightarrow> path res" where
  "workspace_root h =
     bind_res (trust_git h [''rev-parse'', ''--path-format=absolute'', ''--git-common-dir''] (aroot h)) (\<lambda>common.
     let p = path_parts common; checkout = if p \<noteq> [] \<and> last p = ''.git'' then butlast p else p in
     bind_res (insist (is_absolute common \<and> is_dir (amachine h) p) [''Git common directory must be an existing absolute directory'']) (\<lambda>_.
     resolve_path (amachine h) (butlast checkout)))"

definition trust_parts :: "string \<Rightarrow> pyval \<Rightarrow> string list res" where
  "trust_parts label v =
     bind_res (insist (str_such (\<lambda>s. s \<noteq> [] \<and> CHR 0x00 \<notin> set s) v) [label, '': path must be a non-empty string'']) (\<lambda>_.
     let s = the (as_str v) in
     bind_res (insist (CHR 0x5C \<notin> set s) [label, '': backslashes are not valid checkout paths'']) (\<lambda>_.
     bind_res (insist (\<not> is_absolute s \<and> ''..'' \<notin> set (path_parts s)) [label, '': path must be relative and contain no traversal'']) (\<lambda>_.
     Inr (path_parts s))))"

fun no_link_on_way :: "world \<Rightarrow> string \<Rightarrow> path \<Rightarrow> string list \<Rightarrow> unit res" where
  "no_link_on_way w label current [] = Inr ()"
| "no_link_on_way w label current (part # parts) =
     bind_res (insist (lstat_of w (current @ [part]) \<noteq> Inr Symlink) [label, '': symlink traversal is not allowed: '', absolute_path (current @ [part])]) (\<lambda>_.
     no_link_on_way w label (current @ [part]) parts)"

text \<open>The place of a value below a base, which both paths share.\<close>

definition place_below :: "world \<Rightarrow> path \<Rightarrow> string list \<Rightarrow> string \<Rightarrow> string \<Rightarrow> path res" where
  "place_below w base parts label what =
     bind_res (resolve_path w base) (\<lambda>resolved_base.
     bind_res (resolve_path w (base @ parts)) (\<lambda>resolved.
     bind_res (insist (is_relative_to resolved resolved_base) [label, '': resolved path escapes '', what]) (\<lambda>_.
     bind_res (no_link_on_way w label base parts) (\<lambda>_. Inr resolved))))"

definition safe_workspace_path :: "adoption_host \<Rightarrow> pyval \<Rightarrow> string \<Rightarrow> path res" where
  "safe_workspace_path h v label =
     bind_res (trust_parts label v) (\<lambda>parts.
     bind_res (workspace_root h) (\<lambda>base. place_below (amachine h) base parts label ''canonical workspace''))"

definition safe_checkout_child :: "adoption_host \<Rightarrow> path \<Rightarrow> pyval \<Rightarrow> string \<Rightarrow> path res" where
  "safe_checkout_child h base v label =
     bind_res (trust_parts label v) (\<lambda>parts. place_below (amachine h) base parts label ''checkout'')"

section \<open>Origins and revisions\<close>

definition REMOTE_PREFIXES :: "string list" where
  "REMOTE_PREFIXES = [''git@github.com:'', ''https://github.com/'', ''http://github.com/'']"

definition drop_slashes :: "string \<Rightarrow> string" where
  "drop_slashes s = rev (dropWhile (\<lambda>c. c = CHR ''/'') (rev s))"

definition repository_slug_from_remote :: "string \<Rightarrow> string res" where
  "repository_slug_from_remote remote =
     (let stripped = strip remote in
      case List.find (startswith stripped) REMOTE_PREFIXES of
        None \<Rightarrow> Inl (ValueError (msg [''origin remote is not an allowed GitHub URL: '', repr_str remote]))
      | Some p \<Rightarrow>
          let plain = drop_slashes (before ''#'' (before ''?'' (removeprefix stripped p)));
              slug = if endswith plain ''.git'' then take (length plain - 4) plain else plain; parts = split_on (CHR ''/'') slug in
          bind_res (insist (length parts = 2 \<and> [] \<notin> set parts) [''origin remote is not an owner/name repository: '', repr_str remote]) (\<lambda>_.
          Inr (join ''/'' parts)))"

definition assert_origin :: "adoption_host \<Rightarrow> path \<Rightarrow> string \<Rightarrow> string res" where
  "assert_origin h p rname =
     bind_res (insist (length (filter (\<lambda>c. c = CHR ''/'') rname) = 1) [''repository must be an owner/name string'']) (\<lambda>_.
     bind_res (trust_git h [''remote'', ''get-url'', ''origin''] p) (\<lambda>remote.
     bind_res (repository_slug_from_remote remote) (\<lambda>actual.
     bind_res (insist (actual = rname) [''origin repository '', repr_str actual, '' does not exactly match record '', repr_str rname]) (\<lambda>_.
     Inr remote))))"

definition assert_revision :: "pyval \<Rightarrow> string \<Rightarrow> string res" where
  "assert_revision v label =
     bind_res (insist (str_such (fullmatch HEX40) v) [label, '': expected a 40-character lowercase git revision'']) (\<lambda>_. Inr (the (as_str v)))"

section \<open>GitHub\<close>

definition web_failed :: "string \<Rightarrow> string \<Rightarrow> pyexc" where
  "web_failed p e = RuntimeError (msg [''GitHub REST request failed for '', p, '': '', e])"

text \<open>The attempt with the token comes first; only some of its refusals lead to the one without.\<close>

definition github_json :: "adoption_host \<Rightarrow> string \<Rightarrow> pydict res" where
  "github_json h p =
     (let last_attempt = (case web h False p of
            Payload v \<Rightarrow> Inr v | HttpError _ e \<Rightarrow> Inl (web_failed p e) | NetError e \<Rightarrow> Inl (web_failed p e) | Malformed e \<Rightarrow> Inl e) in
      bind_res (if \<not> github_token h then last_attempt else
        (case web h True p of
           Payload v \<Rightarrow> Inr v
         | HttpError status e \<Rightarrow> if status \<in> {401, 403, 404} then last_attempt else Inl (web_failed p e)
         | NetError e \<Rightarrow> Inl (web_failed p e)
         | Malformed e \<Rightarrow> Inl e)) (\<lambda>v.
      bind_res (insist (is_dict v) [''GitHub REST response for '', p, '' is not an object'']) (\<lambda>_. Inr (the (as_dict v)))))"

definition assert_public_commit :: "adoption_host \<Rightarrow> string \<Rightarrow> string \<Rightarrow> unit res" where
  "assert_public_commit h rname revision =
     bind_res (assert_revision (VStr revision) (rname @ '' commit'')) (\<lambda>_.
     bind_res (github_json h (msg [''/repos/'', rname, ''/commits/'', revision])) (\<lambda>payload.
     insist (dget payload ''sha'' = VStr revision)
       [''GitHub commit readback mismatch for '', rname, '': '', py_repr (float_text (amachine h)) (dget payload ''sha''), '' != '', revision]))"

section \<open>Checkouts\<close>

definition assert_clean_checkout :: "adoption_host \<Rightarrow> path \<Rightarrow> string \<Rightarrow> unit res" where
  "assert_clean_checkout h p rname =
     bind_res (trust_git h [''status'', ''--porcelain=v1'', ''--untracked-files=all''] p) (\<lambda>dirty.
     insist (dirty = []) [rname, '': local checkout must be clean at the exact revision''])"

definition clone_exact :: "adoption_host \<Rightarrow> string \<Rightarrow> string list \<Rightarrow> path \<Rightarrow> path res" where
  "clone_exact h rname revisions destination =
     bind_res (insist (\<not> there h destination) [''clone destination already exists: '', absolute_path destination]) (\<lambda>_.
     bind_res (for_each (assert_public_commit h rname) revisions) (\<lambda>_.
     bind_res (case run_git (amachine h) [''clone'', ''--filter=blob:none'', ''--no-checkout'', ''--quiet'', msg [''https://github.com/'', rname, ''.git''], absolute_path destination] [] of
         (exit_code, out, err) \<Rightarrow> if exit_code = 0 then Inr () else Inl (RuntimeError (msg [''git clone failed: '', strip err]))) (\<lambda>_.
     bind_res (assert_origin h destination rname) (\<lambda>_.
     bind_res (for_each (\<lambda>revision. bind_res (trust_git h [''fetch'', ''--quiet'', ''origin'', revision] destination) (\<lambda>_. Inr ())) revisions) (\<lambda>_.
     bind_res (trust_git h [''checkout'', ''--quiet'', ''--detach'', last revisions] destination) (\<lambda>_.
     bind_res (trust_git h [''rev-parse'', ''HEAD''] destination) (\<lambda>head.
     bind_res (insist (head = last revisions) [''cloned checkout did not land on exact revision '', last revisions]) (\<lambda>_.
     Inr destination))))))))"

definition dashed :: "string \<Rightarrow> string" where
  "dashed s = map (\<lambda>c. if c = CHR ''/'' then CHR ''-'' else c) s"

definition checkout_for_record :: "adoption_host \<Rightarrow> pydict \<Rightarrow> string list \<Rightarrow> (path \<times> bool) res" where
  "checkout_for_record h d revisions =
     bind_res (insist (is_str (dget d ''repository'')) [''consumer record repository is required'']) (\<lambda>_.
     let rname = the (as_str (dget d ''repository'')) in
     bind_res (insist (is_str (dget d ''checkout'')) [rname, '': checkout is required'']) (\<lambda>_.
     bind_res (safe_workspace_path h (dget d ''checkout'') (rname @ ''.checkout'')) (\<lambda>local.
     if there h local then
       bind_res (insist (is_dir (amachine h) local) [rname, '': checkout is not a directory'']) (\<lambda>_.
       bind_res (assert_origin h local rname) (\<lambda>_.
       bind_res (trust_git h [''rev-parse'', ''HEAD''] local) (\<lambda>head.
       bind_res (insist (head = last revisions) [rname, '': local checkout HEAD '', head, '' != expected '', last revisions]) (\<lambda>_.
       bind_res (assert_clean_checkout h local rname) (\<lambda>_. Inr (local, False))))))
     else bind_res (clone_exact h rname revisions (fetch_root h @ [dashed rname])) (\<lambda>clone. Inr (clone, True)))))"

section \<open>What the boundary establishes\<close>

lemma trust_parts_Inr:
  "trust_parts label v = Inr parts \<longleftrightarrow>
     (\<exists>s. v = VStr s \<and> s \<noteq> [] \<and> CHR 0x00 \<notin> set s \<and> CHR 0x5C \<notin> set s \<and> \<not> is_absolute s \<and> parts = path_parts s \<and> ''..'' \<notin> set parts)"
  by (auto simp: trust_parts_def bind_res_eq_Inr Let_def str_such_iff)

interpretation trusted_paths: path_guard "trust_parts label" for label
  by unfold_locales (auto simp: trust_parts_Inr list_all_iff clean_part_def dest: path_parts_mem)

lemma no_link_on_way_Inr:
  "no_link_on_way w label current parts = Inr () \<longleftrightarrow> (\<forall>n < length parts. lstat_of w (current @ take (Suc n) parts) \<noteq> Inr Symlink)"
proof (induction parts arbitrary: current)
  case (Cons p ps)
  have "(\<forall>n < Suc (length ps). lstat_of w (current @ take (Suc n) (p # ps)) \<noteq> Inr Symlink) \<longleftrightarrow>
      lstat_of w (current @ [p]) \<noteq> Inr Symlink \<and> (\<forall>n < length ps. lstat_of w (current @ take (Suc (Suc n)) (p # ps)) \<noteq> Inr Symlink)"
    by (auto simp: less_Suc_eq_0_disj)
  then show ?case by (simp add: bind_res_eq_Inr Cons.IH)
qed simp

text \<open>A place handed out lies below the base, on a path without links and without steps up.\<close>

lemma place_below_Inr:
  "place_below w base parts label what = Inr p \<longleftrightarrow>
     (\<exists>b. resolve_path w base = Inr b \<and> resolve_path w (base @ parts) = Inr p \<and> is_relative_to p b
        \<and> no_link_on_way w label base parts = Inr ())"
  by (auto simp: place_below_def bind_res_eq_Inr)

lemma safe_checkout_child_Inr:
  assumes "safe_checkout_child h base v label = Inr p"
  shows "\<exists>parts b. trust_parts label v = Inr parts \<and> normalise (base @ parts) = normalise base @ parts
    \<and> resolve_path (amachine h) base = Inr b \<and> is_relative_to p b"
  using assms trusted_paths.stays_below by (auto simp: safe_checkout_child_def bind_res_eq_Inr place_below_Inr)

lemma assert_origin_Inr: "assert_origin h p rname = Inr r \<Longrightarrow> repository_slug_from_remote r = Inr rname \<and> trust_git h [''remote'', ''get-url'', ''origin''] p = Inr r"
  by (auto simp: assert_origin_def bind_res_eq_Inr)

text \<open>A checkout handed out has the origin of its record and the last revision asked for.\<close>

lemma checkout_for_record_Inr:
  assumes "checkout_for_record h d revisions = Inr (p, cloned)"
  shows "\<exists>rname remote. dget d ''repository'' = VStr rname \<and> trust_git h [''remote'', ''get-url'', ''origin''] p = Inr remote
    \<and> repository_slug_from_remote remote = Inr rname \<and> trust_git h [''rev-parse'', ''HEAD''] p = Inr (last revisions)
    \<and> (cloned \<or> trust_git h [''status'', ''--porcelain=v1'', ''--untracked-files=all''] p = Inr [])"
proof -
  obtain rname where r: "dget d ''repository'' = VStr rname"
    using assms by (auto simp: checkout_for_record_def bind_res_eq_Inr is_str_iff)
  show ?thesis
  proof (cases cloned)
    case True
    then have "\<exists>q. clone_exact h rname revisions q = Inr p"
      using assms r by (auto simp: checkout_for_record_def bind_res_eq_Inr Let_def split: if_splits)
    then show ?thesis using r True by (auto simp: clone_exact_def bind_res_eq_Inr dest!: assert_origin_Inr split: prod.splits if_splits)
  next
    case False
    then show ?thesis using assms r
      by (auto simp: checkout_for_record_def bind_res_eq_Inr Let_def assert_clean_checkout_def dest!: assert_origin_Inr split: if_splits)
  qed
qed

end
