(* ===== verification/Adoption.thy ===== *)
theory Adoption
  imports Trust
begin

text \<open>
  The adoption validator \<open>scripts/rust-port/adoption.py\<close>: for each consumer its trusted checkout, the pins of its
  manifests and lock file with the closure of the shared crate, the duplicate code it removed, the state of its
  pull request and the smoke runs. Everything that is not right is a finding, and a finding blocks.
\<close>

record adoption_finding =
  af_consumer :: string
  af_message :: string
  af_blocking :: bool

definition notice :: "string \<Rightarrow> string list \<Rightarrow> adoption_finding" where
  "notice name parts = \<lparr>af_consumer = name, af_message = msg parts, af_blocking = True\<rparr>"

definition notice_if :: "bool \<Rightarrow> string \<Rightarrow> string list \<Rightarrow> adoption_finding list" where
  "notice_if b name parts = (if b then [notice name parts] else [])"

lemma notice_if_Nil [simp]: "notice_if b name parts = [] \<longleftrightarrow> \<not> b"
  by (simp add: notice_if_def)

definition finding_dict :: "adoption_finding \<Rightarrow> pyval" where
  "finding_dict f = VDict [(''consumer'', VStr (af_consumer f)), (''message'', VStr (af_message f)), (''blocking'', VBool (af_blocking f))]"

text \<open>Findings of a loop, in its order.\<close>

definition concat_res :: "('a \<Rightarrow> 'b list res) \<Rightarrow> 'a list \<Rightarrow> 'b list res" where
  "concat_res f xs = bind_res (map_res f xs) (\<lambda>yss. Inr (concat yss))"

lemma concat_res_Nil: "concat_res f xs = Inr [] \<longleftrightarrow> (\<forall>x \<in> set xs. f x = Inr [])"
  by (induction xs) (auto simp: concat_res_def bind_res_eq_Inr)

definition ADOPTED_URL :: string where
  "ADOPTED_URL = ''https://github.com/danieljustus/symaira-corekit''"

definition ADOPTED_PACKAGE :: string where
  "ADOPTED_PACKAGE = ''symaira-core-version''"

definition FORBIDDEN_CLOSURE :: "string list" where
  "FORBIDDEN_CLOSURE = [''tokio'', ''reqwest'', ''hyper'', ''axum'', ''actix-web'', ''rocket'', ''rusqlite'', ''libsqlite3-sys'', ''sqlx'', ''ureq'', ''isahc'', ''serde_yaml'', ''openssl'']"

section \<open>Reading\<close>

definition load_object :: "adoption_host \<Rightarrow> path \<Rightarrow> pydict res" where
  "load_object h p =
     bind_res (bind_res (read_text (amachine h) p) (json_loads (amachine h))) (\<lambda>v.
     bind_res (insist (is_dict v) [absolute_path p, '': top-level JSON value must be an object'']) (\<lambda>_. Inr (the (as_dict v))))"

definition load_toml :: "adoption_host \<Rightarrow> path \<Rightarrow> pydict res" where
  "load_toml h p = bind_res (read_text (amachine h) p) (toml_loads (amachine h))"

definition cargo_manifests :: "adoption_host \<Rightarrow> path \<Rightarrow> path list" where
  "cargo_manifests h base = sort (filter (\<lambda>p. ''.git'' \<notin> set p \<and> ''target'' \<notin> set p) (cargo_files h base))"

definition collect_specs :: "pyval \<Rightarrow> (string \<times> pyval) list" where
  "collect_specs table = (case as_dict table of None \<Rightarrow> [] | Some d \<Rightarrow> filter (\<lambda>(_, spec). is_dict spec \<or> is_str spec) d)"

definition dependency_specs :: "adoption_host \<Rightarrow> path \<Rightarrow> (string \<times> pyval) list res" where
  "dependency_specs h manifest =
     bind_res (load_toml h manifest) (\<lambda>document.
     bind_res (pget (dget_or document ''workspace'' (VDict [])) ''dependencies'') (\<lambda>shared.
     let targets = dget_or document ''target'' (VDict []) in
     Inr (collect_specs (dget document ''dependencies'') @ collect_specs shared @
       (case as_dict targets of None \<Rightarrow> []
        | Some d \<Rightarrow> concat (map (\<lambda>(_, v). case as_dict v of None \<Rightarrow> [] | Some t \<Rightarrow> collect_specs (dget t ''dependencies'')) d)))))"

section \<open>The lock file\<close>

definition named_packages :: "string \<Rightarrow> pyval list \<Rightarrow> pyval list res" where
  "named_packages name packages = filter_res (\<lambda>p. bind_res (pget p ''name'') (\<lambda>v. Inr (v = VStr name))) packages"

definition lock_package :: "pydict \<Rightarrow> string \<Rightarrow> string \<Rightarrow> pyval option res" where
  "lock_package lock name source =
     bind_res (iter_items (dget_or lock ''package'' (VList []))) (\<lambda>packages.
     bind_res (named_packages name packages) (\<lambda>named.
     bind_res (filter_res (\<lambda>p. bind_res (pget p ''source'') (\<lambda>v. Inr (v = VStr source))) named) (\<lambda>found.
     Inr (case found of [p] \<Rightarrow> Some p | _ \<Rightarrow> None))))"

text \<open>\<open>(name, source)\<close>; two identities are one when both parts are equal.\<close>

definition identity_of :: "pyval \<Rightarrow> (pyval \<times> pyval) res" where
  "identity_of package =
     bind_res (pget_or package ''name'' (VStr [])) (\<lambda>n. bind_res (pget package ''source'') (\<lambda>s.
     if hashable n \<and> hashable s then Inr (n, s) else Inl TypeError))"

definition seen_before :: "(pyval \<times> pyval) list \<Rightarrow> pyval \<times> pyval \<Rightarrow> bool" where
  "seen_before seen i = list_ex (\<lambda>j. py_eq (fst j) (fst i) \<and> py_eq (snd j) (snd i)) seen"

text \<open>\<open>by_name.get(dependency_name, [])\<close>\<close>

definition candidates_for :: "pyval list \<Rightarrow> string \<Rightarrow> pyval list" where
  "candidates_for packages name = filter (\<lambda>p. case as_dict p of None \<Rightarrow> False | Some d \<Rightarrow> dget_or d ''name'' (VStr []) = VStr name) packages"

definition pick_candidate :: "(rat \<Rightarrow> string) \<Rightarrow> pyval list \<Rightarrow> pyval \<Rightarrow> pyval list" where
  "pick_candidate fl packages dependency =
     (let text_of = py_str fl dependency; candidates = candidates_for packages (before '' '' text_of) in
      case candidates of
        [] \<Rightarrow> []
      | [p] \<Rightarrow> [p]
      | _ \<Rightarrow> (case List.find (\<lambda>p. contains (py_str fl (get_if_dict p ''version'')) text_of) candidates of None \<Rightarrow> [] | Some p \<Rightarrow> [p]))"

definition successors :: "(rat \<Rightarrow> string) \<Rightarrow> pyval list \<Rightarrow> pyval \<Rightarrow> pyval list res" where
  "successors fl packages package =
     bind_res (pget_or package ''dependencies'' (VList [])) (\<lambda>v.
     bind_res (iter_items v) (\<lambda>dependencies. Inr (concat (map (pick_candidate fl packages) dependencies))))"

text \<open>The loop; the last element of the stack is taken first. The stack is kept with its end in front.\<close>

definition all_identities :: "pyval list \<Rightarrow> (pyval \<times> pyval) set" where
  "all_identities ps = {i. \<exists>p \<in> set ps. identity_of p = Inr i}"

lemma all_identities_finite: "finite (all_identities ps)"
proof -
  have "all_identities ps \<subseteq> (\<lambda>p. case identity_of p of Inl _ \<Rightarrow> (VNone, VNone) | Inr i \<Rightarrow> i) ` set ps"
    by (force simp: all_identities_def)
  then show ?thesis by (rule finite_subset) simp
qed

definition unseen :: "pyval list \<Rightarrow> pyval list \<Rightarrow> (pyval \<times> pyval) list \<Rightarrow> (pyval \<times> pyval) set" where
  "unseen packages stack seen = {i \<in> all_identities (packages @ stack). \<not> seen_before seen i}"

lemma hashable_self: "hashable v \<Longrightarrow> py_eq v v"
  by (cases v) auto

lemma identity_self: "identity_of p = Inr i \<Longrightarrow> seen_before (i # seen) i"
  by (auto simp: identity_of_def bind_res_eq_Inr seen_before_def dest: hashable_self split: if_splits)

lemma unseen_drop: "unseen packages rest seen \<subseteq> unseen packages (package # rest) seen"
  by (auto simp: unseen_def all_identities_def)

lemma candidates_from: "p \<in> set (pick_candidate fl packages d) \<Longrightarrow> p \<in> set packages"
proof -
  have pick: "p \<in> set (case cs of [] \<Rightarrow> [] | [p] \<Rightarrow> [p] | _ \<Rightarrow> (case List.find P cs of None \<Rightarrow> [] | Some p \<Rightarrow> [p])) \<Longrightarrow> p \<in> set cs" for cs P
  proof (induction cs rule: induct_list012)
    case (3 x y zs)
    then show ?case by (cases "List.find P (x # y # zs)") (auto dest: find_SomeD simp del: List.find.simps)
  qed auto
  assume "p \<in> set (pick_candidate fl packages d)"
  then have "p \<in> set (candidates_for packages (before '' '' (py_str fl d)))" unfolding pick_candidate_def Let_def by (rule pick)
  then show ?thesis by (simp add: candidates_for_def)
qed

lemma successors_from: "successors fl packages package = Inr found \<Longrightarrow> set found \<subseteq> set packages"
  by (auto simp: successors_def bind_res_eq_Inr dest: candidates_from)

lemma unseen_push:
  assumes "identity_of package = Inr i" and "\<not> seen_before seen i" and "set found \<subseteq> set packages"
  shows "unseen packages (rev found @ rest) (i # seen) \<subset> unseen packages (package # rest) seen"
proof
  show "unseen packages (rev found @ rest) (i # seen) \<subseteq> unseen packages (package # rest) seen"
    using assms(3) by (auto simp: unseen_def all_identities_def seen_before_def)
  have "i \<in> unseen packages (package # rest) seen" using assms by (auto simp: unseen_def all_identities_def)
  moreover have "i \<notin> unseen packages (rev found @ rest) (i # seen)" using identity_self [OF assms(1)] by (simp add: unseen_def)
  ultimately show "unseen packages (rev found @ rest) (i # seen) \<noteq> unseen packages (package # rest) seen" by blast
qed

lemma unseen_finite: "finite (unseen packages stack seen)"
  using all_identities_finite by (rule finite_subset [rotated]) (auto simp: unseen_def)

lemma unseen_drop_card: "card (unseen packages rest seen) \<noteq> card (unseen packages (package # rest) seen) \<Longrightarrow>
    card (unseen packages rest seen) < card (unseen packages (package # rest) seen)"
  using card_mono [OF unseen_finite unseen_drop] by (meson le_neq_implies_less)

lemma unseen_push_card:
  assumes "identity_of package = Inr i" and "\<not> seen_before seen i" and "successors fl packages package = Inr found"
  shows "card (unseen packages (rev found @ rest) (i # seen)) < card (unseen packages (package # rest) seen)"
  by (rule psubset_card_mono [OF unseen_finite unseen_push [OF assms(1,2) successors_from [OF assms(3)]]])

function closure_walk :: "(rat \<Rightarrow> string) \<Rightarrow> pyval list \<Rightarrow> pyval list \<Rightarrow> (pyval \<times> pyval) list \<Rightarrow> pyval list \<Rightarrow> pyval list res" where
  "closure_walk fl packages stack seen names =
     (case stack of
        [] \<Rightarrow> Inr names
      | package # rest \<Rightarrow>
          (case identity_of package of
             Inl e \<Rightarrow> Inl e
           | Inr i \<Rightarrow>
               if seen_before seen i then closure_walk fl packages rest seen names
               else (case successors fl packages package of
                  Inl e \<Rightarrow> Inl e
                | Inr found \<Rightarrow> closure_walk fl packages (rev found @ rest) (i # seen) (if list_ex (py_eq (fst i)) names then names else names @ [fst i]))))"
  by pat_completeness auto

termination
  by (relation "measures [\<lambda>(fl, packages, stack, seen, names). card (unseen packages stack seen), \<lambda>(fl, packages, stack, seen, names). length stack]")
    (auto intro: unseen_drop_card dest: unseen_push_card)

text \<open>\<open>lock_closure\<close>: the names in the order in which they are met.\<close>

definition lock_closure :: "(rat \<Rightarrow> string) \<Rightarrow> pydict \<Rightarrow> pyval \<Rightarrow> pyval list res" where
  "lock_closure fl lock package =
     bind_res (iter_items (dget_or lock ''package'' (VList []))) (\<lambda>packages.
     bind_res (for_each (\<lambda>p. bind_res (pget_or p ''name'' (VStr [])) (\<lambda>n. if hashable n then Inr () else Inl TypeError)) packages) (\<lambda>_.
     closure_walk fl packages [package] [] []))"

section \<open>The files of a consumer\<close>

definition relative_posix :: "path \<Rightarrow> path \<Rightarrow> string" where
  "relative_posix base p = as_posix (drop (length base) p)"

definition check_declared :: "adoption_host \<Rightarrow> string \<Rightarrow> path \<Rightarrow> pyval \<Rightarrow> adoption_finding list res" where
  "check_declared h name base relative =
     (case safe_checkout_child h base relative (name @ ''.manifest_paths'') of
        Inr p \<Rightarrow> Inr (notice_if (\<not> (is_file (amachine h) p \<and> p \<noteq> [] \<and> last p = ''Cargo.toml'')) name
          [''manifest path is not a Cargo.toml beneath checkout: '', py_str (float_text (amachine h)) relative])
      | Inl e \<Rightarrow> if e = TypeError \<or> is_value_error e then Inr [notice name [exc_text e]] else Inl e)"

definition workspace_specs :: "adoption_host \<Rightarrow> path \<Rightarrow> pyval res" where
  "workspace_specs h base =
     (if \<not> is_file (amachine h) (base @ [''Cargo.toml'']) then Inr (VDict []) else
      case load_toml h (base @ [''Cargo.toml'']) of
        Inl e \<Rightarrow> if is_os_error e \<or> is_toml_error e then Inr (VDict []) else Inl e
      | Inr d \<Rightarrow> Inr (case as_dict (dget_or d ''workspace'' (VDict [])) of None \<Rightarrow> VDict [] | Some t \<Rightarrow> dget_or t ''dependencies'' (VDict [])))"

text \<open>A dependency taken from the workspace stands for the workspace's entry.\<close>

definition effective_spec :: "pyval \<Rightarrow> string \<Rightarrow> pyval \<Rightarrow> pyval" where
  "effective_spec shared dependency spec =
     (let entry = get_if_dict shared dependency in
      if is_dict spec \<and> get_if_dict spec ''workspace'' = VBool True \<and> (is_dict entry \<or> is_str entry) then entry else spec)"

definition sibling_path :: "adoption_host \<Rightarrow> string \<Rightarrow> path \<Rightarrow> path \<Rightarrow> pyval \<Rightarrow> adoption_finding list res" where
  "sibling_path h name base manifest spec =
     (case as_dict spec of
        None \<Rightarrow> Inr []
      | Some d \<Rightarrow>
          if \<not> has_key d ''path'' then Inr [] else
            let text_of = py_str (float_text (amachine h)) (dget d ''path'') in
            bind_res (resolve_path (amachine h) (join_path (butlast manifest) text_of)) (\<lambda>p.
            bind_res (resolve_path (amachine h) (aroot h)) (\<lambda>own.
            Inr (notice_if (contains ''symaira-corekit'' (lower text_of) \<or> p = own \<or> (p \<noteq> [] \<and> last p = ''symaira-corekit'')) name
              [''sibling CoreKit path dependency in '', relative_posix base manifest, '': '', text_of]))))"

text \<open>One manifest: its pins and its findings.\<close>

definition scan_manifest :: "adoption_host \<Rightarrow> string \<Rightarrow> path \<Rightarrow> pyval \<Rightarrow> path \<Rightarrow> ((string \<times> pyval) list \<times> adoption_finding list) res" where
  "scan_manifest h name base shared manifest =
     (case dependency_specs h manifest of
        Inl e \<Rightarrow> if is_os_error e \<or> is_toml_error e then Inr ([], [notice name [''invalid '', relative_posix base manifest, '': '', exc_text e]]) else Inl e
      | Inr specs \<Rightarrow>
          let used = map (\<lambda>(dependency, spec). (dependency, effective_spec shared dependency spec)) specs in
          bind_res (concat_res (\<lambda>(dependency, spec). sibling_path h name base manifest spec) used) (\<lambda>found.
          Inr (map (\<lambda>(dependency, spec). (relative_posix base manifest, spec)) (filter (\<lambda>(dependency, spec). dependency = ADOPTED_PACKAGE) used), found)))"

definition check_pin :: "adoption_host \<Rightarrow> string \<Rightarrow> string \<Rightarrow> string \<times> pyval \<Rightarrow> adoption_finding list" where
  "check_pin h name revision pin =
     (case as_dict (snd pin) of
        None \<Rightarrow> [notice name [fst pin, '': CoreKit dependency is not an explicit table'']]
      | Some d \<Rightarrow>
          notice_if (dget d ''git'' \<noteq> VStr ADOPTED_URL) name [fst pin, '': CoreKit git URL is not '', ADOPTED_URL]
          @ notice_if (dget d ''rev'' \<noteq> VStr revision) name [fst pin, '': CoreKit rev '', py_repr (float_text (amachine h)) (dget d ''rev''), '' != '', revision]
          @ notice_if (has_key d ''path'') name [fst pin, '': CoreKit dependency has a path override'']
          @ notice_if (truthy (dget d ''features'')) name [fst pin, '': CoreKit dependency enables consumer features '', py_repr (float_text (amachine h)) (dget d ''features'')]
          @ notice_if (dget d ''default-features'' = VBool True) name [fst pin, '': CoreKit default features were enabled implicitly; closure must be explicit''])"

definition lock_source :: "string \<Rightarrow> string" where
  "lock_source revision = msg [''git+'', ADOPTED_URL, ''?rev='', revision, ''#'', revision]"

text \<open>The lock file: the facts recorded for the report, and the findings.\<close>

definition check_lock :: "adoption_host \<Rightarrow> string \<Rightarrow> path \<Rightarrow> string \<Rightarrow> (pyval \<times> adoption_finding list) res" where
  "check_lock h name base revision =
     (if \<not> is_file (amachine h) (base @ [''Cargo.lock''])
      then Inr (VNone, [notice name [''Cargo.lock is missing; resolved source/revision cannot be proven'']]) else
      case load_toml h (base @ [''Cargo.lock'']) of
        Inl e \<Rightarrow> if is_os_error e \<or> is_toml_error e then Inr (VNone, [notice name [''Cargo.lock is invalid: '', exc_text e]]) else Inl e
      | Inr lock \<Rightarrow>
          bind_res (bind_res (iter_items (dget_or lock ''package'' (VList []))) (named_packages ADOPTED_PACKAGE)) (\<lambda>all.
          bind_res (lock_package lock ADOPTED_PACKAGE (lock_source revision)) (\<lambda>found.
          bind_res (case found of None \<Rightarrow> Inr [] | Some p \<Rightarrow> lock_closure (float_text (amachine h)) lock p) (\<lambda>names.
          bind_res (py_sorted (VList names)) (\<lambda>sorted_names.
          let forbidden = sort (filter (\<lambda>n. VStr n \<in> set names) FORBIDDEN_CLOSURE) in
          Inr (VDict [(''source'', VStr (lock_source revision)), (''closure'', sorted_names)],
            notice_if (length all \<noteq> 1) name [''Cargo.lock must contain exactly one '', ADOPTED_PACKAGE, '' package, found '', str_int (int (length all))]
            @ notice_if (found = None) name [''Cargo.lock has no unique '', ADOPTED_PACKAGE, '' package resolved from '', lock_source revision]
            @ notice_if (forbidden \<noteq> []) name [''CoreKit dependency feature closure pulls forbidden product packages: '', repr_strs forbidden]))))))"

definition validate_consumer_files :: "adoption_host \<Rightarrow> pydict \<Rightarrow> path \<Rightarrow> string \<Rightarrow> (pyval \<times> adoption_finding list) res" where
  "validate_consumer_files h d base revision =
     (let name = py_str (float_text (amachine h)) (dget_or d ''repository'' (VStr ''unknown'')); manifests = cargo_manifests h base;
        declared = dget_or d ''manifest_paths'' (VList []); shown = VList (map (\<lambda>p. VStr (relative_posix base p)) manifests) in
      bind_res (if \<not> is_list declared \<or> declared = VList [] then Inr [notice name [''manifest_paths must be a non-empty array'']]
        else concat_res (check_declared h name base) (the (as_list declared))) (\<lambda>declared_findings.
      if manifests = [] then Inr (VDict [(''manifests'', VList []), (''lock'', VNone)], declared_findings @ [notice name [''no Cargo.toml found'']]) else
        bind_res (workspace_specs h base) (\<lambda>shared.
        bind_res (map_res (scan_manifest h name base shared) manifests) (\<lambda>scans.
        let pins = concat (map fst scans); shown_pins = VList (map (\<lambda>(m, spec). VDict [(''manifest'', VStr m), (''spec'', spec)]) pins);
          before_lock = declared_findings @ concat (map snd scans)
            @ notice_if (pins = []) name [ADOPTED_PACKAGE, '' dependency is absent''] @ concat (map (check_pin h name revision) pins) in
        bind_res (check_lock h name base revision) (\<lambda>(lock_facts, lock_findings).
        Inr (VDict [(''manifests'', shown), (''pins'', shown_pins), (''lock'', lock_facts)], before_lock @ lock_findings))))))"

section \<open>Removed duplicates\<close>

definition noncomment_loc :: "string list \<Rightarrow> int" where
  "noncomment_loc ls = int (length (filter (\<lambda>l. strip l \<noteq> [] \<and> \<not> startswith (lstrip l) ''//'' \<and> \<not> startswith (lstrip l) ''#'') ls))"

definition diff_loc :: "adoption_host \<Rightarrow> path \<Rightarrow> string \<Rightarrow> string \<Rightarrow> string list \<Rightarrow> (int \<times> int) res" where
  "diff_loc h base old new paths =
     bind_res (trust_git h ([''diff'', ''--unified=0'', old, new, ''--''] @ paths) base) (\<lambda>output.
     let body = filter (\<lambda>l. \<not> startswith l ''---'' \<and> \<not> startswith l ''+++'' \<and> \<not> startswith l ''@@'') (splitlines output) in
     Inr (noncomment_loc (map tl (filter (\<lambda>l. startswith l ''-'') body)), noncomment_loc (map tl (filter (\<lambda>l. startswith l ''+'') body))))"

definition LOC_FIELDS :: "string list" where
  "LOC_FIELDS = [''corekit_loc_added'', ''adapter_loc_added'', ''duplicate_loc_removed'']"

definition loc_of :: "pydict \<Rightarrow> string \<Rightarrow> int" where
  "loc_of d k = the (int_of (dget d k))"

definition check_loc :: "string \<Rightarrow> pydict \<Rightarrow> adoption_finding list" where
  "check_loc name d =
     (if \<not> list_all (\<lambda>k. is_int (dget d k) \<and> 0 \<le> loc_of d k) LOC_FIELDS
      then [notice name [''duplicate evidence needs non-negative integer LOC measurements'']]
      else notice_if (loc_of d ''duplicate_loc_removed'' < loc_of d ''corekit_loc_added'' + loc_of d ''adapter_loc_added'') name
        [''duplicate-removal rule failed: removed LOC is below shared plus adapter LOC''])"

text \<open>The trusted source paths and what is wrong with the others.\<close>

definition trust_source :: "adoption_host \<Rightarrow> string \<Rightarrow> path \<Rightarrow> pyval \<Rightarrow> (string list \<times> adoption_finding list) res" where
  "trust_source h name base v =
     (case as_str v of
        None \<Rightarrow> Inr ([], [notice name [''duplicate source path must be a string'']])
      | Some s \<Rightarrow> (case safe_checkout_child h base v (name @ ''.duplicate.source_paths'') of
            Inr _ \<Rightarrow> Inr ([s], [])
          | Inl e \<Rightarrow> if is_value_error e then Inr ([], [notice name [exc_text e]]) else Inl e))"

definition measured_loc :: "string \<Rightarrow> pydict \<Rightarrow> string \<Rightarrow> string \<Rightarrow> int \<Rightarrow> adoption_finding list" where
  "measured_loc name d key what measured =
     notice_if (is_int (dget d key) \<and> measured \<noteq> loc_of d key) name [''measured '', what, '' LOC '', str_int measured, '' != evidence '', py_str (\<lambda>_. []) (dget d key)]"

definition measure_diff :: "adoption_host \<Rightarrow> string \<Rightarrow> path \<Rightarrow> pydict \<Rightarrow> pyval \<Rightarrow> pyval \<Rightarrow> string list \<Rightarrow> adoption_finding list res" where
  "measure_diff h name base d old new paths =
     (case (as_str old, as_str new) of
        (Some a, Some b) \<Rightarrow>
          if paths = [] then Inr [] else
          (case diff_loc h base a b paths of
             Inr (removed, added) \<Rightarrow> Inr (measured_loc name d ''measured_removed_loc'' ''removed'' removed @ measured_loc name d ''measured_added_loc'' ''added'' added)
           | Inl e \<Rightarrow> if is_runtime_error e then Inr [notice name [''cannot measure duplicate diff: '', exc_text e]] else Inl e)
      | _ \<Rightarrow> Inr [])"

definition marker_bytes :: "adoption_host \<Rightarrow> pyval \<Rightarrow> string res" where
  "marker_bytes h marker = (case as_str marker of None \<Rightarrow> Inl AttributeError | Some s \<Rightarrow> Inr (encode_utf8 (amachine h) s))"

definition git_bytes :: "adoption_host \<Rightarrow> string list \<Rightarrow> path \<Rightarrow> string res" where
  "git_bytes h args p =
     (case run_git (amachine h) args p of (exit_code, out, err) \<Rightarrow>
        if exit_code = 0 then Inr out else Inl (RuntimeError (msg [''git '', join '' '' args, '' failed: '', strip err])))"

definition marker_before :: "adoption_host \<Rightarrow> string \<Rightarrow> path \<Rightarrow> pyval \<Rightarrow> string list \<Rightarrow> pyval \<Rightarrow> adoption_finding list res" where
  "marker_before h name base old paths marker =
     bind_res (any_res (\<lambda>p. bind_res (marker_bytes h marker) (\<lambda>m.
         bind_res (git_bytes h [''show'', msg [py_str (float_text (amachine h)) old, '':'', p]] base) (\<lambda>b. Inr (contains m b)))) paths) (\<lambda>found.
     Inr (notice_if (\<not> found) name [''pre-adoption duplicate marker is absent: '', py_str (float_text (amachine h)) marker]))"

definition marker_after :: "adoption_host \<Rightarrow> string \<Rightarrow> path \<Rightarrow> string list \<Rightarrow> pyval \<Rightarrow> adoption_finding list res" where
  "marker_after h name base paths marker =
     bind_res (any_res (\<lambda>p. bind_res (marker_bytes h marker) (\<lambda>m.
         bind_res (safe_checkout_child h base (VStr p) (name @ ''.duplicate.source_paths'')) (\<lambda>q.
         bind_res (read_bytes (amachine h) q) (\<lambda>b. Inr (contains m b))))) paths) (\<lambda>found.
     Inr (notice_if found name [''duplicate marker remains after adoption: '', py_str (float_text (amachine h)) marker]))"

definition validate_duplicate :: "adoption_host \<Rightarrow> pydict \<Rightarrow> path \<Rightarrow> (pyval \<times> adoption_finding list) res" where
  "validate_duplicate h record_dict base =
     bind_res (dindex record_dict ''repository'') (\<lambda>rname.
     let name = py_str (float_text (amachine h)) rname; duplicate = dget_or record_dict ''duplicate'' (VDict []);
       old = dget record_dict ''pre_adoption_commit''; new = dget record_dict ''adoption_commit'' in
     bind_res (case as_dict duplicate of None \<Rightarrow> Inl AttributeError | Some d \<Rightarrow> Inr d) (\<lambda>d.
     let paths = dget_or d ''source_paths'' (VList []); items = (case as_list paths of None \<Rightarrow> [] | Some ps \<Rightarrow> ps) in
     bind_res (map_res (trust_source h name base) items) (\<lambda>sources.
     let trusted = concat (map fst sources) in
     bind_res (measure_diff h name base d old new trusted) (\<lambda>measured.
     bind_res (iter_items (dget_or d ''before_markers'' (VList []))) (\<lambda>befores.
     bind_res (concat_res (marker_before h name base old trusted) befores) (\<lambda>absent.
     bind_res (iter_items (dget_or d ''after_forbidden_markers'' (VList []))) (\<lambda>afters.
     bind_res (concat_res (marker_after h name base trusted) afters) (\<lambda>remains.
     Inr (duplicate, check_loc name d @ notice_if (\<not> is_list paths) name [''duplicate source_paths must be an array'']
       @ concat (map snd sources) @ measured @ absent @ remains)))))))))"

section \<open>The pull request\<close>

definition unknown_pr :: "string \<Rightarrow> pydict" where
  "unknown_pr e = [(''state'', VStr ''unknown''), (''error'', VStr e)]"

definition live_pr :: "adoption_host \<Rightarrow> pydict \<Rightarrow> bool \<Rightarrow> pydict res" where
  "live_pr h d offline =
     (let rname = dget d ''repository''; number = dget d ''pr_number''; fl = float_text (amachine h) in
      if offline then
        Inr (case as_dict (dget d ''offline_pr_state'') of None \<Rightarrow> unknown_pr ''offline mode has no offline_pr_state'' | Some st \<Rightarrow> st)
      else if \<not> (is_str rname \<and> is_int number \<and> 0 < the (int_of number)) then Inr (unknown_pr ''invalid repository or PR number'')
      else
        (case github_json h (msg [''/repos/'', the (as_str rname), ''/pulls/'', py_str fl number]) of
           Inl e \<Rightarrow> if is_runtime_error e \<or> is_value_error e then Inr (unknown_pr (exc_text e)) else Inl e
         | Inr payload \<Rightarrow>
             let merge = dget payload ''merge_commit_sha'' in
             Inr [(''number'', dget payload ''number''),
               (''state'', VStr (if truthy (dget payload ''merged_at'') then ''MERGED'' else upper (py_str fl (dget_or payload ''state'' (VStr ''UNKNOWN''))))),
               (''isDraft'', dget payload ''draft''), (''mergedAt'', dget payload ''merged_at''),
               (''mergeCommit'', if truthy merge then VDict [(''oid'', merge)] else VNone),
               (''headRefOid'', get_if_dict (dget payload ''head'') ''sha''), (''baseRefOid'', get_if_dict (dget payload ''base'') ''sha'')]))"

definition check_pr :: "adoption_host \<Rightarrow> string \<Rightarrow> pydict \<Rightarrow> pydict \<Rightarrow> (pydict \<times> adoption_finding list) res" where
  "check_pr h name d pr =
     (let fl = float_text (amachine h); state = upper (py_str fl (dget_or pr ''state'' (VStr ''UNKNOWN''))); merge = dget pr ''mergeCommit'';
        live_merge = (if is_dict merge then get_if_dict merge ''oid'' else merge) in
      bind_res (if state = ''MERGED'' then Inr VNone else dindex d ''pr_number'') (\<lambda>shown.
      bind_res (if truthy (dget pr ''headRefOid'') then bind_res (dindex d ''adoption_commit'') (\<lambda>c. Inr (\<not> py_eq (dget pr ''headRefOid'') c)) else Inr False) (\<lambda>head_differs.
      bind_res (if truthy (dget pr ''baseRefOid'') then bind_res (dindex d ''pre_adoption_commit'') (\<lambda>c. Inr (\<not> py_eq (dget pr ''baseRefOid'') c)) else Inr False) (\<lambda>base_differs.
      bind_res (dindex d ''pr_number'') (\<lambda>number.
      Inr (dict_update [(''repository'', VStr name), (''pr_number'', number)]
            (pr @ [(''classification'', VStr (if state \<noteq> ''MERGED'' \<or> dget d ''merged_commit'' = VNone then ''pending'' else ''merged''))]),
        notice_if (dget pr ''number'' \<noteq> VNone \<and> \<not> py_eq (dget pr ''number'') (dget d ''pr_number'')) name [''live PR number does not match evidence'']
        @ (if state = ''OPEN'' then [notice name [''PR #'', py_str fl shown, '' is OPEN; adoption is pending and not merged'']]
           else if state = ''MERGED'' then notice_if (\<not> truthy live_merge \<or> \<not> py_eq (dget d ''merged_commit'') live_merge) name
             [''PR is merged live but evidence.merged_commit is not filled with the live merge commit'']
           else [notice name [''PR #'', py_str fl shown, '' live state is '', if state = [] then ''UNKNOWN'' else state, '': merged evidence is unavailable'']])
        @ notice_if head_differs name [''live PR head does not match the adoption commit'']
        @ notice_if base_differs name [''live PR base does not match the pre-adoption parent'']))))))"

section \<open>Smoke runs\<close>

text \<open>The entries by repository; a second entry of a repository is a finding and replaces the first.\<close>

fun collect_smokes :: "(string \<times> pyval) list \<Rightarrow> pyval list \<Rightarrow> (string \<times> pyval) list \<times> adoption_finding list" where
  "collect_smokes smokes [] = (smokes, [])"
| "collect_smokes smokes (entry # entries) =
     (case as_str (get_if_dict entry ''repository'') of
        None \<Rightarrow> (let (rest, found) = collect_smokes smokes entries in (rest, notice ''unknown'' [''smoke entry must identify a repository''] # found))
      | Some rname \<Rightarrow> (let (rest, found) = collect_smokes (dset smokes rname entry) entries in
          (rest, notice_if (has_key smokes rname) rname [''duplicate consumer smoke evidence''] @ found)))"

text \<open>What a consumer's loop over its two runs has seen: commands, the text output, the JSON payload.\<close>

record smoke_state =
  sm_seen :: "pyval list"
  sm_text :: "string option"
  sm_json :: "pydict option"

definition smoke_output :: "adoption_host \<Rightarrow> string \<Rightarrow> bool \<Rightarrow> string \<Rightarrow> smoke_state \<Rightarrow> (smoke_state \<times> adoption_finding list) res" where
  "smoke_output h name json output st =
     (if json then
        (case json_loads (amachine h) output of
           Inl e \<Rightarrow> if is_json_error e then Inr (st, [notice name [''smoke JSON stdout is invalid'']]) else Inl e
         | Inr payload \<Rightarrow> (case as_dict payload of
             Some d \<Rightarrow> if list_all (has_key d) [''tool'', ''version'', ''schema_version''] then Inr (st\<lparr>sm_json := Some d\<rparr>, [])
               else Inr (st, [notice name [''smoke JSON lacks required semantic version fields'']])
           | None \<Rightarrow> Inr (st, [notice name [''smoke JSON lacks required semantic version fields'']])))
      else Inr (st\<lparr>sm_text := Some (decode_replace h output)\<rparr>, notice_if (strip (decode_replace h output) = []) name [''smoke text stdout is empty'']))"

definition smoke_result :: "adoption_host \<Rightarrow> string \<Rightarrow> pyval list \<Rightarrow> pyval \<Rightarrow> smoke_state \<Rightarrow> (smoke_state \<times> adoption_finding list) res" where
  "smoke_result h name argv result st =
     (let encoded = get_if_dict result ''stdout_base64''; digest = get_if_dict result ''stdout_sha256'' in
      if \<not> (is_dict result \<and> py_eq (get_if_dict result ''exit_code'') (VInt 0) \<and> get_if_dict result ''stderr'' \<in> {VStr [], VNone})
      then Inr (st, [notice name [''smoke result lacks successful clean stderr/exit evidence'']])
      else if \<not> (is_str encoded \<and> is_str digest) then Inr (st, [notice name [''smoke result lacks raw stdout and SHA-256 evidence'']])
      else (case decode64 h (the (as_str encoded)) of
              Inl e \<Rightarrow> if is_value_error e \<or> e = TypeError then Inr (st, [notice name [''smoke stdout_base64 is invalid'']]) else Inl e
            | Inr output \<Rightarrow>
                bind_res (smoke_output h name (last argv = VStr ''--json'') output st) (\<lambda>(st', found).
                Inr (st', notice_if (digest \<noteq> VStr (sha256 (amachine h) output)) name [''smoke stdout digest does not match raw output''] @ found))))"

definition smoke_command :: "adoption_host \<Rightarrow> string \<Rightarrow> pyval \<times> pyval \<Rightarrow> smoke_state \<Rightarrow> (smoke_state \<times> adoption_finding list) res" where
  "smoke_command h name p st =
     (let argv = get_if_dict (fst p) ''argv''; items = the (as_list argv) in
      if \<not> (is_list argv \<and> items \<noteq> [] \<and> str_such is_absolute (hd items))
      then Inr (st, [notice name [''smoke command must use an absolute artifact path'']])
      else if \<not> list_all hashable items then Inl TypeError
      else
        bind_res (smoke_result h name items (snd p) (st\<lparr>sm_seen := argv # sm_seen st\<rparr>)) (\<lambda>(st', found).
        Inr (st', notice_if (list_ex (py_eq argv) (sm_seen st)) name [''duplicate smoke command'']
          @ notice_if (tl items \<noteq> [VStr ''version''] \<and> tl items \<noteq> [VStr ''version'', VStr ''--json'']) name [''smoke command must cover version and version --json'']
          @ found)))"

fun smoke_commands :: "adoption_host \<Rightarrow> string \<Rightarrow> (pyval \<times> pyval) list \<Rightarrow> smoke_state \<Rightarrow> (smoke_state \<times> adoption_finding list) res" where
  "smoke_commands h name [] st = Inr (st, [])"
| "smoke_commands h name (p # ps) st =
     bind_res (smoke_command h name p st) (\<lambda>(st1, found). bind_res (smoke_commands h name ps st1) (\<lambda>(st2, rest). Inr (st2, found @ rest)))"

text \<open>Both outputs are there and say the same.\<close>

definition outputs_agree :: "(rat \<Rightarrow> string) \<Rightarrow> smoke_state \<Rightarrow> bool" where
  "outputs_agree fl st =
     (case (sm_text st, sm_json st) of
        (Some t, Some d) \<Rightarrow> strip t = msg [py_str fl (dget d ''tool''), '' '', py_str fl (dget d ''version'')]
      | _ \<Rightarrow> False)"

definition check_smoke :: "adoption_host \<Rightarrow> (string \<times> pyval) list \<Rightarrow> pydict \<Rightarrow> adoption_finding list res" where
  "check_smoke h smokes d =
     bind_res (bind_res (dindex d ''repository'') (\<lambda>v. if hashable v then Inr v else Inl TypeError)) (\<lambda>rname.
     let name = py_str (float_text (amachine h)) rname; smoke = (case as_str rname of None \<Rightarrow> VNone | Some s \<Rightarrow> dget smokes s);
       commands = get_if_dict smoke ''commands''; results = get_if_dict smoke ''results'' in
     if \<not> truthy smoke \<or> \<not> py_eq (get_if_dict smoke ''candidate_commit'') (dget d ''adoption_commit'') \<or> get_if_dict smoke ''passed'' \<noteq> VBool True
     then Inr [notice name [''no passing smoke recorded for the exact adoption artifact'']]
     else if \<not> (is_list commands \<and> length (the (as_list commands)) = 2 \<and> is_list results \<and> length (the (as_list results)) = 2)
     then Inr [notice name [''smoke needs separate text and JSON command/result evidence'']]
     else
       bind_res (smoke_commands h name (zip (the (as_list commands)) (the (as_list results))) \<lparr>sm_seen = [], sm_text = None, sm_json = None\<rparr>) (\<lambda>(st, found).
       Inr (found @ notice_if (\<not> outputs_agree (float_text (amachine h)) st) name [''smoke text/JSON semantic outputs disagree''])))"

definition validate_smokes :: "adoption_host \<Rightarrow> pydict list \<Rightarrow> pydict option \<Rightarrow> adoption_finding list res" where
  "validate_smokes h records benchmark =
     (let entries = (case benchmark of None \<Rightarrow> VList [] | Some d \<Rightarrow> dget_or d ''standalone_smokes'' (VList [])) in
      if \<not> is_list entries then Inr [notice ''all'' [''standalone_smokes must be an array'']] else
      case collect_smokes [] (the (as_list entries)) of (smokes, found) \<Rightarrow>
        bind_res (map_res (\<lambda>d. bind_res (dindex d ''repository'') (\<lambda>v. if hashable v then Inr v else Inl TypeError)) records) (\<lambda>expected.
        bind_res (concat_res (check_smoke h smokes) records) (\<lambda>each.
        Inr (found @ notice_if (VStr ` fst ` set smokes \<noteq> set expected) ''all'' [''smoke evidence consumer set is not exactly the adoption consumer set''] @ each))))"

section \<open>The check\<close>

definition validate_minimum :: "pydict list \<Rightarrow> int \<Rightarrow> unit res" where
  "validate_minimum records minimum =
     bind_res (set_size (map (\<lambda>d. dget d ''repository'') records)) (\<lambda>n.
     bind_res (insist (minimum \<le> n) [''only '', str_int n, '' independent consumer records; minimum is '', str_int minimum]) (\<lambda>_.
     insist (minimum \<le> int (length records)) [''only '', str_int (int (length records)), '' consumer records; minimum is '', str_int minimum]))"

definition read_evidence :: "adoption_host \<Rightarrow> path \<Rightarrow> int \<Rightarrow> (pydict \<times> string \<times> pydict list) res" where
  "read_evidence h p minimum =
     bind_res (load_object h p) (\<lambda>evidence.
     bind_res (insist (py_eq (dget evidence ''schema_version'') (VInt 1) \<and> dget evidence ''gate_id'' = VStr ''RUST-005'')
       [''adoption evidence has an unsupported schema or gate id'']) (\<lambda>_.
     let corekit = dget_or evidence ''corekit'' (VDict []) in
     bind_res (bind_res (pget corekit ''revision'') (\<lambda>v. assert_revision v ''corekit.revision'')) (\<lambda>revision.
     bind_res (insist (get_if_dict corekit ''url'' = VStr ADOPTED_URL \<and> get_if_dict corekit ''package'' = VStr ADOPTED_PACKAGE)
       [''adoption evidence CoreKit URL/package is not canonical'']) (\<lambda>_.
     bind_res (insist (is_list (dget evidence ''consumers'') \<and> list_all is_dict (the (as_list (dget evidence ''consumers''))))
       [''adoption evidence consumers must be an array of objects'']) (\<lambda>_.
     let records = map (\<lambda>v. the (as_dict v)) (the (as_list (dget evidence ''consumers''))) in
     bind_res (validate_minimum records minimum) (\<lambda>_. Inr (evidence, revision, records)))))))"

definition benchmark_of :: "adoption_host \<Rightarrow> pydict option res" where
  "benchmark_of h =
     (let dir = aroot h @ [''testdata'', ''rust-port'', ''benchmarks'']; main_file = dir @ [''foundation.json'']; smoke_file = dir @ [''foundation-smoke.json''];
        p = (if \<not> is_file (amachine h) main_file \<and> is_file (amachine h) smoke_file then smoke_file else main_file) in
      if is_file (amachine h) p then bind_res (load_object h p) (\<lambda>d. Inr (Some d)) else Inr None)"

text \<open>The guarded part of the loop: root, revision at which it stands, and findings.\<close>

definition trusted_checkout :: "adoption_host \<Rightarrow> string \<Rightarrow> pydict \<Rightarrow> (path \<times> string \<times> adoption_finding list) res" where
  "trusted_checkout h name d =
     bind_res (assert_revision (dget d ''adoption_commit'') (name @ ''.adoption_commit'')) (\<lambda>adoption_commit.
     bind_res (assert_revision (dget d ''pre_adoption_commit'') (name @ ''.pre_adoption_commit'')) (\<lambda>pre_commit.
     bind_res (assert_revision (dget d ''merged_commit'') (name @ ''.merged_commit'')) (\<lambda>_.
     bind_res (checkout_for_record h d [pre_commit, adoption_commit]) (\<lambda>(base, _).
     bind_res (bind_res (trust_git h [''rev-parse'', ''--show-toplevel''] base) (\<lambda>s. resolve_path (amachine h) (path_parts s))) (\<lambda>actual_root.
     bind_res (resolve_path (amachine h) base) (\<lambda>resolved.
     bind_res (assert_origin h base name) (\<lambda>_.
     bind_res (trust_git h [''rev-parse'', ''HEAD''] base) (\<lambda>head.
     let ancestor = git_code (amachine h) [''merge-base'', ''--is-ancestor'', pre_commit, adoption_commit] base in
     Inr (base, head,
       notice_if (actual_root \<noteq> resolved) name [''checkout root mismatch: '', absolute_path actual_root, '' != '', absolute_path resolved]
       @ notice_if (head \<noteq> adoption_commit) name [''checkout HEAD '', head, '' != adoption commit '', adoption_commit]
       @ notice_if (ancestor \<noteq> 0) name [''pre-adoption commit is not an ancestor of adoption commit''])))))))))"

definition commands_explicit :: "pyval \<Rightarrow> bool" where
  "commands_explicit v = (is_list v \<and> v \<noteq> VList [] \<and> list_all (str_such (contains ''<artifact>'')) (the (as_list v)))"

text \<open>One record: its facts, its live state and its findings.\<close>

definition check_adopter :: "adoption_host \<Rightarrow> string \<Rightarrow> bool \<Rightarrow> pydict \<Rightarrow> (pyval list \<times> pydict list \<times> adoption_finding list) res" where
  "check_adopter h revision offline d =
     (case as_str (dget d ''repository'') of
        None \<Rightarrow> Inr ([], [], [notice (py_str (float_text (amachine h)) (dget d ''repository'')) [''repository must be owner/name'']])
      | Some name \<Rightarrow>
          if CHR ''/'' \<notin> set name then Inr ([], [], [notice name [''repository must be owner/name'']]) else
          (case trusted_checkout h name d of
             Inl e \<Rightarrow> if is_os_error e \<or> is_runtime_error e \<or> is_value_error e
               then Inr ([VDict [(''repository'', VStr name), (''status'', VStr ''unverified'')]], [], [notice name [''checkout/revision validation failed: '', exc_text e]]) else Inl e
           | Inr (base, head, checkout_findings) \<Rightarrow>
               bind_res (validate_consumer_files h d base revision) (\<lambda>(file_facts, file_findings).
               bind_res (validate_duplicate h d base) (\<lambda>(duplicate, duplicate_findings).
               bind_res (live_pr h d offline) (\<lambda>pr.
               bind_res (check_pr h name d pr) (\<lambda>(live, pr_findings).
               bind_res (dindex d ''checkout'') (\<lambda>checkout.
               Inr ([VDict [(''repository'', VStr name), (''checkout'', checkout), (''commit'', VStr head), (''crate'', dget d ''crate''), (''exact_pin'', VStr revision),
                   (''files'', file_facts), (''duplicate'', duplicate), (''pr'', VDict live)]], [live],
                 checkout_findings @ file_findings
                 @ notice_if (\<not> commands_explicit (dget_or d ''standalone_commands'' (VList []))) name [''standalone commands must be explicit artifact-path commands'']
                 @ duplicate_findings @ pr_findings))))))))"

definition make_report :: "adoption_host \<Rightarrow> pydict \<Rightarrow> pyval list \<Rightarrow> adoption_finding list \<Rightarrow> pydict list \<Rightarrow> pydict" where
  "make_report h evidence facts found live =
     (let pending = list_ex af_blocking found in
      [(''schema_version'', VInt 1), (''gate_id'', VStr ''RUST-005''), (''status'', VStr (if pending then ''pending'' else ''passed'')),
       (''claims'', VDict [(''merged'', VBool (if pending then False else list_all (\<lambda>d. dget d ''state'' = VStr ''MERGED'') live))]),
       (''checked_at'', VStr (now h)), (''corekit'', dget evidence ''corekit''), (''minimum_consumers'', dget evidence ''minimum_consumers''),
       (''consumers'', VList facts), (''live_pr'', VList (map VDict live)), (''findings'', VList (map finding_dict found)),
       (''honesty'', VStr ''Open or unverified PRs remain pending; no merged adoption is claimed.'')])"

text \<open>\<open>check\<close>: the exit code and the report; the file it may write and the line it prints are not modelled.\<close>

definition check_adoption :: "adoption_host \<Rightarrow> path \<Rightarrow> int \<Rightarrow> bool \<Rightarrow> (nat \<times> pydict) res" where
  "check_adoption h evidence_path minimum offline =
     bind_res (read_evidence h evidence_path minimum) (\<lambda>(evidence, revision, records).
     bind_res (benchmark_of h) (\<lambda>benchmark.
     bind_res (map_res (check_adopter h revision offline) records) (\<lambda>outcomes.
     bind_res (validate_smokes h records benchmark) (\<lambda>smoke_findings.
     let facts = concat (map fst outcomes); live = concat (map (fst \<circ> snd) outcomes); found = concat (map (snd \<circ> snd) outcomes) @ smoke_findings in
     Inr (if found \<noteq> [] then 1 else 0, make_report h evidence facts found live)))))"

record adoption_args =
  check_wanted :: bool
  min_consumers :: int
  evidence_file :: path
  offline_wanted :: bool

text \<open>\<open>main\<close> without the self test: the exit code; \<open>parser.error\<close> exits with 2, an exception that is not caught with 1.\<close>

definition adoption_main :: "adoption_host \<Rightarrow> adoption_args \<Rightarrow> nat" where
  "adoption_main h args =
     (if \<not> check_wanted args \<or> min_consumers args < 2 then 2 else
      case check_adoption h (evidence_file args) (min_consumers args) (offline_wanted args) of Inl _ \<Rightarrow> 1 | Inr (status, _) \<Rightarrow> status)"

section \<open>What exit code 0 shows\<close>

text \<open>The pins: the shared crate is used, and every use is the revision of the evidence, from Git, as it is.\<close>

definition pin_sound :: "string \<Rightarrow> string \<times> pyval \<Rightarrow> bool" where
  "pin_sound revision pin =
     (\<exists>d. snd pin = VDict d \<and> dget d ''git'' = VStr ADOPTED_URL \<and> dget d ''rev'' = VStr revision \<and> \<not> has_key d ''path''
        \<and> \<not> truthy (dget d ''features'') \<and> dget d ''default-features'' \<noteq> VBool True)"

lemma check_pin_Nil: "check_pin h name revision pin = [] \<Longrightarrow> pin_sound revision pin"
  by (auto simp: check_pin_def pin_sound_def split: option.splits)

definition pins_sound :: "adoption_host \<Rightarrow> string \<Rightarrow> path \<Rightarrow> string \<Rightarrow> bool" where
  "pins_sound h name base revision =
     (\<exists>shared scans. workspace_specs h base = Inr shared \<and> map_res (scan_manifest h name base shared) (cargo_manifests h base) = Inr scans
        \<and> list_all (\<lambda>s. snd s = []) scans \<and> concat (map fst scans) \<noteq> [] \<and> list_all (pin_sound revision) (concat (map fst scans)))"

definition lock_sound :: "adoption_host \<Rightarrow> path \<Rightarrow> string \<Rightarrow> bool" where
  "lock_sound h base revision =
     (\<exists>lock package names. load_toml h (base @ [''Cargo.lock'']) = Inr lock
        \<and> lock_package lock ADOPTED_PACKAGE (lock_source revision) = Inr (Some package)
        \<and> lock_closure (float_text (amachine h)) lock package = Inr names \<and> list_all (\<lambda>n. VStr n \<notin> set names) FORBIDDEN_CLOSURE)"

lemma check_lock_Nil:
  assumes "check_lock h name base revision = Inr (facts, [])"
  shows "lock_sound h base revision"
proof -
  have present: "is_file (amachine h) (base @ [''Cargo.lock''])" using assms by (auto simp: check_lock_def split: if_splits)
  then obtain lock where lock: "load_toml h (base @ [''Cargo.lock'']) = Inr lock"
    using assms by (auto simp: check_lock_def split: sum.splits if_splits)
  from assms obtain all found names sorted_names where f: "lock_package lock ADOPTED_PACKAGE (lock_source revision) = Inr found"
    and n: "(case found of None \<Rightarrow> Inr [] | Some p \<Rightarrow> lock_closure (float_text (amachine h)) lock p) = Inr names"
    and some: "found \<noteq> None" and none: "sort (filter (\<lambda>n. VStr n \<in> set names) FORBIDDEN_CLOSURE) = []"
    using present lock by (auto simp: check_lock_def Let_def bind_res_eq_Inr simp del: sort_key_simps)
  have "filter (\<lambda>n. VStr n \<in> set names) FORBIDDEN_CLOSURE = []" using arg_cong [OF none, of length] by simp
  then have "list_all (\<lambda>n. VStr n \<notin> set names) FORBIDDEN_CLOSURE" by (auto simp: filter_empty_conv list_all_iff)
  then show ?thesis using lock f n some by (auto simp: lock_sound_def)
qed

lemma validate_consumer_files_Nil:
  assumes "validate_consumer_files h d base revision = Inr (facts, [])" and "dget_or d ''repository'' (VStr ''unknown'') = VStr name"
  shows "pins_sound h name base revision \<and> lock_sound h base revision"
proof -
  have some: "cargo_manifests h base \<noteq> []"
    using assms by (auto simp: validate_consumer_files_def Let_def bind_res_eq_Inr split: if_splits)
  from assms obtain shared scans lock_facts where sh: "workspace_specs h base = Inr shared"
    and sc: "map_res (scan_manifest h name base shared) (cargo_manifests h base) = Inr scans"
    and quiet: "concat (map snd scans) = []" and pins: "concat (map fst scans) \<noteq> []" "concat (map (check_pin h name revision) (concat (map fst scans))) = []"
    and lock: "check_lock h name base revision = Inr (lock_facts, [])"
    using some unfolding validate_consumer_files_def Let_def if_not_P [OF some] assms(2) py_str_def pyval.case
    by (auto simp: bind_res_eq_Inr split: prod.splits)
  have "list_all (pin_sound revision) (concat (map fst scans))"
    using pins(2) by (auto simp: list_all_iff intro: check_pin_Nil)
  then show ?thesis using sh sc quiet pins(1) check_lock_Nil [OF lock] by (auto simp: pins_sound_def list_all_iff)
qed

text \<open>The checkout stands for the record: its origin, its revision and its history.\<close>

definition checkout_sound :: "adoption_host \<Rightarrow> string \<Rightarrow> pydict \<Rightarrow> path \<Rightarrow> bool" where
  "checkout_sound h name d base =
     (\<exists>adopted pre remote. dget d ''adoption_commit'' = VStr adopted \<and> dget d ''pre_adoption_commit'' = VStr pre
        \<and> trust_git h [''remote'', ''get-url'', ''origin''] base = Inr remote \<and> repository_slug_from_remote remote = Inr name
        \<and> trust_git h [''rev-parse'', ''HEAD''] base = Inr adopted
        \<and> git_code (amachine h) [''merge-base'', ''--is-ancestor'', pre, adopted] base = 0)"

lemma trusted_checkout_Nil:
  assumes "trusted_checkout h name d = Inr (base, head, [])"
  shows "checkout_sound h name d base"
proof -
  from assms obtain adopted pre remote where c: "assert_revision (dget d ''adoption_commit'') (name @ ''.adoption_commit'') = Inr adopted"
      "assert_revision (dget d ''pre_adoption_commit'') (name @ ''.pre_adoption_commit'') = Inr pre"
    and o: "assert_origin h base name = Inr remote" and hd: "trust_git h [''rev-parse'', ''HEAD''] base = Inr adopted"
    and anc: "git_code (amachine h) [''merge-base'', ''--is-ancestor'', pre, adopted] base = 0"
    by (auto simp: trusted_checkout_def bind_res_eq_Inr Let_def split: prod.splits)
  from c have "dget d ''adoption_commit'' = VStr adopted" "dget d ''pre_adoption_commit'' = VStr pre"
    by (auto simp: assert_revision_def bind_res_eq_Inr str_such_iff)
  then show ?thesis using assert_origin_Inr [OF o] hd anc by (auto simp: checkout_sound_def)
qed

text \<open>The duplicate code: what was removed is at least what was added.\<close>

definition loc_sound :: "pydict \<Rightarrow> bool" where
  "loc_sound record_dict =
     (\<exists>d. dget_or record_dict ''duplicate'' (VDict []) = VDict d \<and> list_all (\<lambda>k. is_int (dget d k) \<and> 0 \<le> loc_of d k) LOC_FIELDS
        \<and> loc_of d ''corekit_loc_added'' + loc_of d ''adapter_loc_added'' \<le> loc_of d ''duplicate_loc_removed'')"

lemma validate_duplicate_Nil:
  assumes "validate_duplicate h record_dict base = Inr (duplicate, [])"
  shows "loc_sound record_dict"
proof -
  from assms obtain d name where d: "dget_or record_dict ''duplicate'' (VDict []) = VDict d" and "check_loc name d = []"
    by (auto simp: validate_duplicate_def bind_res_eq_Inr Let_def split: option.splits)
  then have "list_all (\<lambda>k. is_int (dget d k) \<and> 0 \<le> loc_of d k) LOC_FIELDS"
      "loc_of d ''corekit_loc_added'' + loc_of d ''adapter_loc_added'' \<le> loc_of d ''duplicate_loc_removed''"
    by (auto simp: check_loc_def split: if_splits)
  then show ?thesis using d by (auto simp: loc_sound_def)
qed

text \<open>The pull request was merged as the evidence says.\<close>

definition pr_sound :: "adoption_host \<Rightarrow> bool \<Rightarrow> pydict \<Rightarrow> bool" where
  "pr_sound h offline d =
     (\<exists>pr oid. live_pr h d offline = Inr pr \<and> upper (py_str (float_text (amachine h)) (dget_or pr ''state'' (VStr ''UNKNOWN''))) = ''MERGED''
        \<and> (dget pr ''mergeCommit'' = oid \<or> get_if_dict (dget pr ''mergeCommit'') ''oid'' = oid) \<and> truthy oid \<and> py_eq (dget d ''merged_commit'') oid
        \<and> (\<not> truthy (dget pr ''headRefOid'') \<or> py_eq (dget pr ''headRefOid'') (dget d ''adoption_commit''))
        \<and> (\<not> truthy (dget pr ''baseRefOid'') \<or> py_eq (dget pr ''baseRefOid'') (dget d ''pre_adoption_commit''))
        \<and> (dget pr ''number'' = VNone \<or> py_eq (dget pr ''number'') (dget d ''pr_number'')))"

lemma dindex_dget: "dindex d k = Inr v \<Longrightarrow> dget d k = v"
  by (auto simp: dindex_def dget_def split: option.splits)

lemma check_pr_Nil:
  assumes "live_pr h d offline = Inr pr" and "check_pr h name d pr = Inr (live, [])"
  shows "pr_sound h offline d"
proof -
  let ?state = "upper (py_str (float_text (amachine h)) (dget_or pr ''state'' (VStr ''UNKNOWN'')))"
  have merged: "?state = ''MERGED''"
    using assms(2) by (auto simp: check_pr_def bind_res_eq_Inr Let_def notice_if_def split: if_splits)
  have differs: "(if truthy (dget pr k) then bind_res (dindex d c) (\<lambda>x. Inr (\<not> py_eq (dget pr k) x)) else Inr False) = Inr False
      \<Longrightarrow> \<not> truthy (dget pr k) \<or> py_eq (dget pr k) (dget d c)" for k c
    by (auto simp: bind_res_eq_Inr dest: dindex_dget split: if_splits)
  let ?oid = "if is_dict (dget pr ''mergeCommit'') then get_if_dict (dget pr ''mergeCommit'') ''oid'' else dget pr ''mergeCommit''"
  have other: "(''MERGED'' = ''OPEN'') = False" by simp
  from assms(2) obtain hd bd where
      head: "(if truthy (dget pr ''headRefOid'') then bind_res (dindex d ''adoption_commit'') (\<lambda>x. Inr (\<not> py_eq (dget pr ''headRefOid'') x)) else Inr False) = Inr hd"
    and base: "(if truthy (dget pr ''baseRefOid'') then bind_res (dindex d ''pre_adoption_commit'') (\<lambda>x. Inr (\<not> py_eq (dget pr ''baseRefOid'') x)) else Inr False) = Inr bd"
    and quiet: "\<not> hd" "\<not> bd" "\<not> (dget pr ''number'' \<noteq> VNone \<and> \<not> py_eq (dget pr ''number'') (dget d ''pr_number''))"
      "\<not> (\<not> truthy ?oid \<or> \<not> py_eq (dget d ''merged_commit'') ?oid)"
    unfolding check_pr_def Let_def merged other bind_res_eq_Inr sum.inject prod.inject append_is_Nil_conv notice_if_Nil simp_thms if_True if_False
    by blast
  have head': "\<not> truthy (dget pr ''headRefOid'') \<or> py_eq (dget pr ''headRefOid'') (dget d ''adoption_commit'')" using differs head quiet(1) by simp
  have base': "\<not> truthy (dget pr ''baseRefOid'') \<or> py_eq (dget pr ''baseRefOid'') (dget d ''pre_adoption_commit'')" using differs base quiet(2) by simp
  have oid: "dget pr ''mergeCommit'' = ?oid \<or> get_if_dict (dget pr ''mergeCommit'') ''oid'' = ?oid" by simp
  show ?thesis unfolding pr_sound_def
    using assms(1) merged head' base' oid quiet(3,4) by blast
qed

text \<open>The two smoke runs: each an absolute command, ended well, with the bytes its digest names; the text and the JSON agree.\<close>

definition run_sound :: "adoption_host \<Rightarrow> pyval \<times> pyval \<Rightarrow> bool" where
  "run_sound h p =
     (\<exists>argv result output s. get_if_dict (fst p) ''argv'' = VList argv \<and> argv \<noteq> [] \<and> str_such is_absolute (hd argv)
        \<and> tl argv \<in> {[VStr ''version''], [VStr ''version'', VStr ''--json'']}
        \<and> snd p = VDict result \<and> py_eq (dget result ''exit_code'') (VInt 0) \<and> dget result ''stderr'' \<in> {VStr [], VNone}
        \<and> dget result ''stdout_base64'' = VStr s \<and> decode64 h s = Inr output \<and> dget result ''stdout_sha256'' = VStr (sha256 (amachine h) output))"

lemma smoke_result_Nil:
  assumes "smoke_result h name argv result st = Inr (st', [])"
  shows "\<exists>r output s. result = VDict r \<and> py_eq (dget r ''exit_code'') (VInt 0) \<and> dget r ''stderr'' \<in> {VStr [], VNone}
        \<and> dget r ''stdout_base64'' = VStr s \<and> decode64 h s = Inr output \<and> dget r ''stdout_sha256'' = VStr (sha256 (amachine h) output)"
proof -
  have ok: "is_dict result \<and> py_eq (get_if_dict result ''exit_code'') (VInt 0) \<and> get_if_dict result ''stderr'' \<in> {VStr [], VNone}"
    and strs: "is_str (get_if_dict result ''stdout_base64'') \<and> is_str (get_if_dict result ''stdout_sha256'')"
    using assms by (auto simp: smoke_result_def Let_def split: if_splits)
  from ok obtain r where r: "result = VDict r" by (auto simp: is_dict_iff)
  from strs obtain s where s: "dget r ''stdout_base64'' = VStr s" by (auto simp: r is_str_iff)
  have "\<exists>output. decode64 h s = Inr output \<and> dget r ''stdout_sha256'' = VStr (sha256 (amachine h) output)"
    using assms ok strs unfolding r by (auto simp: smoke_result_def Let_def s bind_res_eq_Inr split: sum.splits if_splits prod.splits)
  then show ?thesis using ok r s by auto
qed

lemma smoke_command_Nil:
  assumes "smoke_command h name p st = Inr (st', [])"
  shows "run_sound h p"
proof -
  have l: "is_list (get_if_dict (fst p) ''argv'')" using assms by (auto simp: smoke_command_def Let_def split: if_splits)
  then obtain argv where a: "get_if_dict (fst p) ''argv'' = VList argv" by (auto simp: is_list_iff)
  then have h: "argv \<noteq> []" "str_such is_absolute (hd argv)" using assms by (auto simp: smoke_command_def Let_def split: if_splits)
  from assms have "tl argv \<in> {[VStr ''version''], [VStr ''version'', VStr ''--json'']}"
    and "\<exists>st0. smoke_result h name argv (snd p) st0 = Inr (st', [])"
    unfolding smoke_command_def Let_def a using h by (auto simp: bind_res_eq_Inr split: if_splits prod.splits)
  then show ?thesis using smoke_result_Nil a h unfolding run_sound_def by blast
qed

lemma smoke_commands_Nil: "smoke_commands h name ps st = Inr (st', []) \<Longrightarrow> list_all (run_sound h) ps"
  by (induction ps arbitrary: st) (auto simp: bind_res_eq_Inr intro: smoke_command_Nil)

definition smoke_sound :: "adoption_host \<Rightarrow> (string \<times> pyval) list \<Rightarrow> pydict \<Rightarrow> bool" where
  "smoke_sound h smokes d =
     (\<exists>name smoke commands results st. dget d ''repository'' = VStr name \<and> dget smokes name = VDict smoke
        \<and> py_eq (dget smoke ''candidate_commit'') (dget d ''adoption_commit'') \<and> dget smoke ''passed'' = VBool True
        \<and> dget smoke ''commands'' = VList commands \<and> dget smoke ''results'' = VList results \<and> length commands = 2 \<and> length results = 2
        \<and> list_all (run_sound h) (zip commands results) \<and> outputs_agree (float_text (amachine h)) st)"

lemma check_smoke_Nil:
  assumes "check_smoke h smokes d = Inr []" and n: "dget d ''repository'' = VStr name"
  shows "smoke_sound h smokes d"
proof -
  have r: "dindex d ''repository'' = Inr (VStr name)"
    using assms by (auto simp: check_smoke_def bind_res_eq_Inr dest: dindex_dget)
  let ?smoke = "dget smokes name"
  have g: "truthy ?smoke \<and> py_eq (get_if_dict ?smoke ''candidate_commit'') (dget d ''adoption_commit'') \<and> get_if_dict ?smoke ''passed'' = VBool True"
    and l: "is_list (get_if_dict ?smoke ''commands'') \<and> length (the (as_list (get_if_dict ?smoke ''commands''))) = 2
      \<and> is_list (get_if_dict ?smoke ''results'') \<and> length (the (as_list (get_if_dict ?smoke ''results''))) = 2"
    using assms(1) unfolding check_smoke_def r by (auto simp: Let_def split: if_splits)
  have "get_if_dict ?smoke ''passed'' \<noteq> VNone" using g by simp
  then obtain e where e: "?smoke = VDict e" using get_if_dict_not_None by blast
  from l obtain cs rs where c: "dget e ''commands'' = VList cs" "dget e ''results'' = VList rs" "length cs = 2" "length rs = 2" by (auto simp: e is_list_iff)
  from assms(1) obtain st where "smoke_commands h (py_str (float_text (amachine h)) (VStr name)) (zip cs rs) \<lparr>sm_seen = [], sm_text = None, sm_json = None\<rparr> = Inr (st, [])"
      "outputs_agree (float_text (amachine h)) st"
    using g l unfolding check_smoke_def r by (auto simp: Let_def bind_res_eq_Inr e c split: if_splits)
  then show ?thesis using n e g c smoke_commands_Nil by (auto simp: smoke_sound_def)
qed

definition adopter_sound :: "adoption_host \<Rightarrow> string \<Rightarrow> bool \<Rightarrow> (string \<times> pyval) list \<Rightarrow> pydict \<Rightarrow> bool" where
  "adopter_sound h revision offline smokes d =
     (\<exists>name base. dget d ''repository'' = VStr name \<and> checkout_sound h name d base \<and> pins_sound h name base revision \<and> lock_sound h base revision
        \<and> loc_sound d \<and> pr_sound h offline d \<and> commands_explicit (dget_or d ''standalone_commands'' (VList [])) \<and> smoke_sound h smokes d)"

lemma check_adopter_Nil:
  assumes "check_adopter h revision offline d = Inr (facts, live, [])" and "check_smoke h smokes d = Inr []"
  shows "adopter_sound h revision offline smokes d"
proof -
  obtain name where n: "dget d ''repository'' = VStr name" using assms(1) by (auto simp: check_adopter_def split: option.splits)
  have slash: "CHR ''/'' \<in> set name" using assms(1) by (auto simp: check_adopter_def n split: if_splits)
  obtain base head found where t: "trusted_checkout h name d = Inr (base, head, found)"
    using assms(1) slash by (auto simp: check_adopter_def n split: sum.splits if_splits)
  from assms(1) obtain file_facts duplicate pr one where none: "found = []"
    and files: "validate_consumer_files h d base revision = Inr (file_facts, [])" and dup: "validate_duplicate h d base = Inr (duplicate, [])"
    and pr: "live_pr h d offline = Inr pr" "check_pr h name d pr = Inr (one, [])" and cmds: "commands_explicit (dget_or d ''standalone_commands'' (VList []))"
    using slash by (auto simp: check_adopter_def n t bind_res_eq_Inr split: prod.splits)
  have "dget_or d ''repository'' (VStr ''unknown'') = VStr name" using n by (auto simp: dget_def dget_or_def split: option.splits)
  then show ?thesis
    using n trusted_checkout_Nil [OF t [unfolded none]] validate_consumer_files_Nil [OF files] validate_duplicate_Nil [OF dup]
      check_pr_Nil [OF pr] cmds check_smoke_Nil [OF assms(2) n] by (auto simp: adopter_sound_def)
qed

section \<open>The closure of the lock file\<close>

text \<open>The packages a package can reach.\<close>

inductive depends :: "(rat \<Rightarrow> string) \<Rightarrow> pyval list \<Rightarrow> pyval \<Rightarrow> pyval \<Rightarrow> bool" for fl packages start where
  itself: "depends fl packages start start"
| further: "depends fl packages start p \<Longrightarrow> successors fl packages p = Inr qs \<Longrightarrow> q \<in> set qs \<Longrightarrow> depends fl packages start q"

definition same_identity :: "pyval \<Rightarrow> pyval \<Rightarrow> bool" where
  "same_identity p q =
     (case (identity_of p, identity_of q) of (Inr i, Inr j) \<Rightarrow> py_eq (fst i) (fst j) \<and> py_eq (snd i) (snd j) | _ \<Rightarrow> False)"

definition identities_differ :: "pyval list \<Rightarrow> bool" where
  "identities_differ ps = list_all (\<lambda>p. list_all (\<lambda>q. p = q \<or> \<not> same_identity p q) ps) ps"

definition visited :: "(pyval \<times> pyval) list \<Rightarrow> pyval \<Rightarrow> bool" where
  "visited seen p = (case identity_of p of Inl _ \<Rightarrow> False | Inr i \<Rightarrow> seen_before seen i)"

definition named :: "pyval list \<Rightarrow> pyval \<Rightarrow> bool" where
  "named names p = (case identity_of p of Inl _ \<Rightarrow> False | Inr i \<Rightarrow> list_ex (py_eq (fst i)) names)"

text \<open>Everything visited is named, and its successors are visited or wait on the stack.\<close>

definition settled :: "(rat \<Rightarrow> string) \<Rightarrow> pyval list \<Rightarrow> pyval list \<Rightarrow> pyval list \<Rightarrow> (pyval \<times> pyval) list \<Rightarrow> pyval list \<Rightarrow> bool" where
  "settled fl packages us stack seen names =
     (\<forall>p \<in> set us. visited seen p \<longrightarrow> named names p \<and> (\<exists>qs. successors fl packages p = Inr qs \<and> (\<forall>q \<in> set qs. visited seen q \<or> q \<in> set stack)))"

lemma visited_Cons: "identity_of package = Inr i \<Longrightarrow> visited (i # seen) p \<longleftrightarrow> visited seen p \<or> same_identity package p"
  by (auto simp: visited_def same_identity_def seen_before_def split: sum.splits)

lemma identities_differ_same: "identities_differ us \<Longrightarrow> p \<in> set us \<Longrightarrow> q \<in> set us \<Longrightarrow> same_identity p q \<Longrightarrow> p = q"
  by (auto simp: identities_differ_def list_all_iff)

lemma same_identity_self: "identity_of p = Inr i \<Longrightarrow> same_identity p p"
  using identity_self [of p i "[]"] by (simp add: same_identity_def seen_before_def)

lemma settled_push:
  assumes s: "settled fl packages us (package # rest) seen names" and i: "identity_of package = Inr i"
    and f: "successors fl packages package = Inr found" and us: "identities_differ us" "package \<in> set us"
  shows "settled fl packages us (rev found @ rest) (i # seen) (if list_ex (py_eq (fst i)) names then names else names @ [fst i])"
proof -
  let ?names = "if list_ex (py_eq (fst i)) names then names else names @ [fst i]"
  have self: "py_eq (fst i) (fst i)" using identity_self [OF i, of "[]"] by (simp add: seen_before_def)
  have mono: "named names p \<Longrightarrow> named ?names p" for p by (auto simp: named_def split: sum.splits)
  have here: "named ?names package" using i self by (auto simp: named_def)
  show ?thesis unfolding settled_def
  proof (intro ballI impI)
    fix p assume p: "p \<in> set us" and v: "visited (i # seen) p"
    show "named ?names p \<and> (\<exists>qs. successors fl packages p = Inr qs \<and> (\<forall>q \<in> set qs. visited (i # seen) q \<or> q \<in> set (rev found @ rest)))"
    proof (cases "p = package")
      case True
      then show ?thesis using here f by auto
    next
      case False
      then have "visited seen p" using v p us identities_differ_same by (auto simp: visited_Cons [OF i])
      then obtain qs where "named names p" "successors fl packages p = Inr qs" "\<forall>q \<in> set qs. visited seen q \<or> q = package \<or> q \<in> set rest"
        using s p by (auto simp: settled_def)
      then show ?thesis using mono same_identity_self [OF i] by (auto simp: visited_Cons [OF i])
    qed
  qed
qed

lemma closure_walk_settles:
  "closure_walk fl packages stack seen names = Inr out \<Longrightarrow> settled fl packages us stack seen names \<Longrightarrow> identities_differ us
     \<Longrightarrow> set packages \<union> set stack \<subseteq> set us \<Longrightarrow>
   \<exists>seen'. settled fl packages us [] seen' out \<and> (\<forall>p. visited seen p \<longrightarrow> visited seen' p) \<and> (\<forall>p \<in> set stack. visited seen' p)"
proof (induction fl packages stack seen names rule: closure_walk.induct)
  case (1 fl packages stack seen names)
  show ?case
  proof (cases stack)
    case Nil
    then show ?thesis using "1.prems" by auto
  next
    case (Cons package rest)
    then obtain i where i: "identity_of package = Inr i" using "1.prems"(1) by (auto split: sum.splits)
    show ?thesis
    proof (cases "seen_before seen i")
      case True
      then have v: "visited seen package" using i by (simp add: visited_def)
      have "closure_walk fl packages rest seen names = Inr out" using "1.prems"(1) Cons i True by simp
      moreover have "settled fl packages us rest seen names" using "1.prems"(2) Cons v by (fastforce simp: settled_def)
      ultimately show ?thesis using "1.IH"(1) [OF Cons i True] "1.prems"(3,4) Cons v by auto
    next
      case False
      then obtain found where f: "successors fl packages package = Inr found" using "1.prems"(1) Cons i by (auto split: sum.splits)
      let ?names = "if list_ex (py_eq (fst i)) names then names else names @ [fst i]"
      have walk: "closure_walk fl packages (rev found @ rest) (i # seen) ?names = Inr out" using "1.prems"(1) Cons i False f by simp
      have settle: "settled fl packages us (rev found @ rest) (i # seen) ?names"
        by (rule settled_push [OF _ i f]) (use "1.prems" Cons in auto)
      have sub: "set packages \<union> set (rev found @ rest) \<subseteq> set us" using "1.prems"(4) Cons successors_from [OF f] by auto
      from "1.IH"(2) [OF Cons i False f walk settle "1.prems"(3) sub] obtain seen' where s': "settled fl packages us [] seen' out"
          "\<forall>p. visited (i # seen) p \<longrightarrow> visited seen' p" "\<forall>p \<in> set (rev found @ rest). visited seen' p" by auto
      then show ?thesis using Cons same_identity_self [OF i] by (auto simp: visited_Cons [OF i])
    qed
  qed
qed

text \<open>C19: when no two packages share their name and source, the closure that is checked for forbidden packages names
  every package the shared crate can reach through the lock file.\<close>

theorem lock_closure_names_every_dependency:
  assumes "lock_closure fl lock package = Inr names" and "dget_or lock ''package'' (VList []) = VList packages"
    and "identities_differ (package # packages)" and "depends fl packages package p"
  shows "named names p"
proof -
  let ?us = "package # packages"
  have walk: "closure_walk fl packages [package] [] [] = Inr names" using assms(1,2) by (auto simp: lock_closure_def bind_res_eq_Inr)
  have "settled fl packages ?us [package] [] []" by (auto simp: settled_def visited_def seen_before_def split: sum.splits)
  from closure_walk_settles [OF walk this assms(3)] obtain seen where s: "settled fl packages ?us [] seen names" and start: "visited seen package" by auto
  have "visited seen p \<and> p \<in> set ?us" using assms(4)
  proof induction
    case (further p qs q)
    then have "visited seen q" using s by (auto simp: settled_def)
    then show ?case using further successors_from by fastforce
  qed (use start in auto)
  then show ?thesis using s by (auto simp: settled_def)
qed

definition sample_package :: "string \<Rightarrow> string \<Rightarrow> string list \<Rightarrow> pyval" where
  "sample_package name version deps =
     VDict [(''name'', VStr name), (''version'', VStr version), (''source'', VStr ''registry''), (''dependencies'', VList (map VStr deps))]"

definition sample_locked :: "pyval list" where
  "sample_locked = [sample_package ''core'' ''1.0'' [''b''], sample_package ''b'' ''1.0'' [''c 2.0''], sample_package ''c'' ''2.0'' []]"

lemma sample_closure:
  "lock_closure (\<lambda>_. []) [(''package'', VList sample_locked)] (hd sample_locked) = Inr [VStr ''core'', VStr ''b'', VStr ''c'']"
  "identities_differ (hd sample_locked # sample_locked)"
  "successors (\<lambda>_. []) sample_locked (hd sample_locked) = Inr [sample_locked ! 1]" "successors (\<lambda>_. []) sample_locked (sample_locked ! 1) = Inr [sample_locked ! 2]"
  by code_simp+

lemma lock_closure_names_every_dependency_witness: "named [VStr ''core'', VStr ''b'', VStr ''c''] (sample_locked ! 2)"
proof (rule lock_closure_names_every_dependency [OF sample_closure(1) _ sample_closure(2)])
  have "depends (\<lambda>_. []) sample_locked (hd sample_locked) (sample_locked ! 1)"
    by (rule depends.further [OF depends.itself sample_closure(3)]) simp
  then show "depends (\<lambda>_. []) sample_locked (hd sample_locked) (sample_locked ! 2)"
    by (rule depends.further [OF _ sample_closure(4)]) simp
qed (simp add: dget_or_def)

text \<open>The identity leaves the version out. Of two versions of one crate only the first that is met is followed, and a
  forbidden package that only the other one needs is missed.\<close>

definition two_versions :: "pyval list" where
  "two_versions = [sample_package ''core'' ''1.0'' [''c 1.0'', ''c 2.0''], sample_package ''c'' ''1.0'' [''openssl''],
     sample_package ''c'' ''2.0'' [], sample_package ''openssl'' ''1.0'' []]"

lemma second_version_is_missed:
  "lock_closure (\<lambda>_. []) [(''package'', VList two_versions)] (hd two_versions) = Inr [VStr ''core'', VStr ''c'']"
  "depends (\<lambda>_. []) two_versions (hd two_versions) (two_versions ! 3)" "\<not> named [VStr ''core'', VStr ''c''] (two_versions ! 3)"
proof -
  show "lock_closure (\<lambda>_. []) [(''package'', VList two_versions)] (hd two_versions) = Inr [VStr ''core'', VStr ''c'']" by code_simp
  have "successors (\<lambda>_. []) two_versions (hd two_versions) = Inr [two_versions ! 1, two_versions ! 2]"
    "successors (\<lambda>_. []) two_versions (two_versions ! 1) = Inr [two_versions ! 3]" by code_simp+
  then show "depends (\<lambda>_. []) two_versions (hd two_versions) (two_versions ! 3)" by (meson depends.intros list.set_intros)
  show "\<not> named [VStr ''core'', VStr ''c''] (two_versions ! 3)" by code_simp
qed

section \<open>The gate\<close>

lemma distinct_values_card: "list_all is_str xs \<Longrightarrow> length (distinct_values xs) = card (set xs)"
proof (induction xs)
  case (Cons x xs)
  then obtain s where "x = VStr s" by (auto simp: is_str_iff)
  then have "list_ex (\<lambda>y. py_eq y x) xs \<longleftrightarrow> x \<in> set xs" by (auto simp: list_ex_iff)
  then show ?case using Cons by (simp add: insert_absorb)
qed simp


text \<open>Two consumers that pass.\<close>

definition adopted_commit :: string where
  "adopted_commit = replicate 40 (CHR ''a'')"

definition adopter_record :: "string \<Rightarrow> pyval" where
  "adopter_record name =
     VDict [(''repository'', VStr (''o/'' @ name)), (''checkout'', VStr name), (''adoption_commit'', VStr adopted_commit), (''pre_adoption_commit'', VStr adopted_commit),
       (''merged_commit'', VStr adopted_commit), (''manifest_paths'', VList [VStr ''Cargo.toml'']), (''standalone_commands'', VList [VStr ''<artifact>'']), (''pr_number'', VInt 1),
       (''duplicate'', VDict (map (\<lambda>k. (k, VInt 0)) LOC_FIELDS)),
       (''offline_pr_state'', VDict [(''state'', VStr ''MERGED''), (''mergeCommit'', VStr adopted_commit)])]"

definition adopter_smoke :: "string \<Rightarrow> pyval" where
  "adopter_smoke name =
     (let result = (\<lambda>s. VDict [(''exit_code'', VInt 0), (''stderr'', VStr []), (''stdout_base64'', VStr s), (''stdout_sha256'', VStr ''x'')]) in
      VDict [(''repository'', VStr (''o/'' @ name)), (''candidate_commit'', VStr adopted_commit), (''passed'', VBool True),
        (''commands'', VList [VDict [(''argv'', VList [VStr ''/x'', VStr ''version''])], VDict [(''argv'', VList [VStr ''/x'', VStr ''version'', VStr ''--json''])]]),
        (''results'', VList [result ''T'', result ''J''])])"

definition adopted_json :: "string \<Rightarrow> pyval res" where
  "adopted_json s = Inr (VDict (
     if s = ''evidence.json'' then [(''schema_version'', VInt 1), (''gate_id'', VStr ''RUST-005''), (''consumers'', VList [adopter_record ''a'', adopter_record ''b'']),
       (''corekit'', VDict [(''revision'', VStr adopted_commit), (''url'', VStr ADOPTED_URL), (''package'', VStr ADOPTED_PACKAGE)])]
     else if s = ''foundation.json'' then [(''standalone_smokes'', VList [adopter_smoke ''a'', adopter_smoke ''b''])]
     else [(''tool'', VStr ''t''), (''version'', VStr ''1''), (''schema_version'', VInt 1)]))"

definition adopted_toml :: "string \<Rightarrow> pydict res" where
  "adopted_toml s = Inr (
     if s = ''Cargo.toml'' then [(''dependencies'', VDict [(ADOPTED_PACKAGE, VDict [(''git'', VStr ADOPTED_URL), (''rev'', VStr adopted_commit)])])]
     else [(''package'', VList [VDict [(''name'', VStr ADOPTED_PACKAGE), (''source'', VStr (lock_source adopted_commit))]])])"

definition adopted_git :: "string list \<Rightarrow> path \<Rightarrow> int \<times> string \<times> string" where
  "adopted_git args p =
     (0, if args = [''rev-parse'', ''HEAD''] then adopted_commit else if args = [''rev-parse'', ''--show-toplevel''] then absolute_path p
         else if hd args = ''rev-parse'' then ''/w/core/.git'' else if hd args = ''remote'' then ''https://github.com/o/'' @ last p else [], [])"

definition adopted_bytes :: "path \<Rightarrow> string res" where
  "adopted_bytes p = Inr (last p)"

definition adopted_decode :: "string \<Rightarrow> string res" where
  "adopted_decode s = Inr (if s = ''T'' then ''t 1'' else ''J'')"

definition adopted_digest :: "string \<Rightarrow> string" where
  "adopted_digest s = ''x''"

definition adopted_host :: adoption_host where
  "adopted_host = \<lparr>amachine = sample_world\<lparr>run_git := adopted_git, read_bytes := adopted_bytes, json_loads := adopted_json, toml_loads := adopted_toml, sha256 := adopted_digest\<rparr>,
     aroot = [''w'', ''core''], cargo_files = \<lambda>base. [base @ [''Cargo.toml'']], there = \<lambda>_. True, web = \<lambda>_ _. NetError [], github_token = False,
     decode64 = adopted_decode, decode_replace = \<lambda>s. s, fetch_root = [''tmp''], now = []\<rparr>"

definition adopted_args :: adoption_args where
  "adopted_args = \<lparr>check_wanted = True, min_consumers = 2, evidence_file = [''evidence.json''], offline_wanted = True\<rparr>"

lemma adopted_passes: "adoption_main adopted_host adopted_args = 0"
  by code_simp


end
