(* ===== verification/Base64.thy ===== *)
theory Base64
  imports PyStr
begin

text \<open>
  \<open>base64.b64encode\<close> and \<open>base64.b64decode(s, validate=True)\<close>, the form in which the reports and the cases of
  \<open>scripts/rust-port\<close> hold bytes. The reader takes groups of four characters of the alphabet, the last of which
  may end in one or two padding characters; it ignores the bits a padded group has to spare, and it refuses
  padding after a complete group, which some versions of the library let through.
\<close>

section \<open>The alphabet\<close>

definition b64_char :: "nat \<Rightarrow> char" where
  "b64_char n =
     (if n < 26 then char_of (65 + n) else if n < 52 then char_of (71 + n) else if n < 62 then char_of (n - 4)
      else if n = 62 then CHR ''+'' else CHR ''/'')"

definition b64_value :: "char \<Rightarrow> nat option" where
  "b64_value c =
     (if between 65 90 c then Some (of_char c - 65) else if between 97 122 c then Some (of_char c - 71)
      else if between 48 57 c then Some (of_char c + 4) else if c = CHR ''+'' then Some 62
      else if c = CHR ''/'' then Some 63 else None)"

lemma char_neqI: "(of_char c :: nat) \<noteq> of_char d \<Longrightarrow> c \<noteq> d"
  by auto

lemma of_char_small [simp]: "n < 256 \<Longrightarrow> (of_char (char_of n :: char) :: nat) = n"
  by simp

lemma b64_value_char [simp]:
  assumes "n < 64"
  shows "b64_value (b64_char n) = Some n" "b64_char n \<noteq> CHR ''=''"
proof -
  consider "n < 26" | "26 \<le> n" "n < 52" | "52 \<le> n" "n < 62" | "n = 62" | "n = 63" using assms by linarith
  then show "b64_value (b64_char n) = Some n"
    by cases (auto simp: b64_value_def b64_char_def between_def)
  from assms show "b64_char n \<noteq> CHR ''=''"
    by (intro char_neqI) (auto simp: b64_char_def)
qed

section \<open>The code\<close>

fun b64encode :: "string \<Rightarrow> string" where
  "b64encode [] = []"
| "b64encode [a] = (let x = of_char a in [b64_char (x div 4), b64_char (x mod 4 * 16), CHR ''='', CHR ''=''])"
| "b64encode [a, b] =
     (let x = of_char a; y = of_char b in
      [b64_char (x div 4), b64_char (x mod 4 * 16 + y div 16), b64_char (y mod 16 * 4), CHR ''=''])"
| "b64encode (a # b # c # s) =
     (let x = of_char a; y = of_char b; z = of_char c in
      [b64_char (x div 4), b64_char (x mod 4 * 16 + y div 16), b64_char (y mod 16 * 4 + z div 64), b64_char (z mod 64)] @ b64encode s)"

definition first_byte :: "nat \<Rightarrow> nat \<Rightarrow> char" where
  "first_byte p q = char_of (p * 4 + q div 16)"

definition second_byte :: "nat \<Rightarrow> nat \<Rightarrow> char" where
  "second_byte q r = char_of (q mod 16 * 16 + r div 4)"

definition third_byte :: "nat \<Rightarrow> nat \<Rightarrow> char" where
  "third_byte r t = char_of (r mod 4 * 64 + t)"

fun b64decode_strict :: "string \<Rightarrow> string option" where
  "b64decode_strict [] = Some []"
| "b64decode_strict (a # b # c # d # s) =
     (case (b64_value a, b64_value b) of
        (Some p, Some q) \<Rightarrow>
          if c = CHR ''='' then (if d = CHR ''='' \<and> s = [] then Some [first_byte p q] else None)
          else (case b64_value c of
              None \<Rightarrow> None
            | Some r \<Rightarrow>
                if d = CHR ''='' then (if s = [] then Some [first_byte p q, second_byte q r] else None)
                else (case (b64_value d, b64decode_strict s) of
                    (Some t, Some out) \<Rightarrow> Some ([first_byte p q, second_byte q r, third_byte r t] @ out)
                  | _ \<Rightarrow> None))
      | _ \<Rightarrow> None)"
| "b64decode_strict _ = None"

section \<open>Reading back\<close>

lemma of_char_bound: "(of_char c :: nat) < 256"
  by simp

lemma six_bits:
  "(of_char c :: nat) div 4 < 64" "(of_char c :: nat) mod 4 * 16 < 64" "(of_char c :: nat) mod 16 * 4 < 64" "(of_char c :: nat) mod 64 < 64"
  "(of_char c :: nat) mod 4 * 16 + (of_char d :: nat) div 16 < 64" "(of_char c :: nat) mod 16 * 4 + (of_char d :: nat) div 64 < 64"
  using of_char_bound [of c] of_char_bound [of d] by linarith+

lemma nat_bits:
  fixes n :: nat
  assumes "n < 256"
  shows "n div 16 < 16" "n div 64 < 4" "n div 16 mod 16 = n div 16" "n div 64 mod 4 = n div 64" "n div 64 div 4 = 0" "n div 16 div 16 = 0"
proof -
  from assms show a: "n div 16 < 16" and b: "n div 64 < 4" by (simp_all add: less_mult_imp_div_less)
  from a b show "n div 16 mod 16 = n div 16" "n div 64 mod 4 = n div 64" "n div 64 div 4 = 0" "n div 16 div 16 = 0" by simp_all
qed

lemmas high_bits = nat_bits [OF of_char_bound]

lemma joined: "x = (of_char c :: nat) \<Longrightarrow> (char_of x :: char) = c"
  by simp

lemma join_first: "first_byte ((of_char a :: nat) div 4) ((of_char a :: nat) mod 4 * 16 + (of_char b :: nat) div 16) = a"
  unfolding first_byte_def by (rule joined) (use high_bits [of b] in \<open>simp add: div_mult1_eq\<close>)

lemma join_first_pad: "first_byte ((of_char a :: nat) div 4) ((of_char a :: nat) mod 4 * 16) = a"
  unfolding first_byte_def by (rule joined) simp

lemma join_second: "second_byte (x * 16 + (of_char b :: nat) div 16) ((of_char b :: nat) mod 16 * 4 + (of_char c :: nat) div 64) = b"
  unfolding second_byte_def by (rule joined) (use high_bits [of b] high_bits [of c] in simp)

lemma join_second_pad: "second_byte (x * 16 + (of_char b :: nat) div 16) ((of_char b :: nat) mod 16 * 4) = b"
  unfolding second_byte_def by (rule joined) (use high_bits [of b] in simp)

lemma join_third: "third_byte (y * 4 + (of_char c :: nat) div 64) ((of_char c :: nat) mod 64) = c"
  unfolding third_byte_def by (rule joined) (use high_bits [of c] in simp)

lemmas b64_joins = six_bits join_first join_first_pad join_second join_second_pad join_third

text \<open>What the writer produces the strict reader accepts, and it reads back the same bytes.\<close>

lemma b64decode_encode: "b64decode_strict (b64encode s) = Some s"
  by (induction s rule: b64encode.induct) (simp_all add: Let_def b64_joins)

lemma b64_char_ascii: "n < 64 \<Longrightarrow> between 0 127 (b64_char n)" "between 0 127 (CHR ''='')"
  by (auto simp: b64_char_def between_def)

lemma b64encode_ascii: "list_all (between 0 127) (b64encode s)"
  by (induction s rule: b64encode.induct) (simp_all add: Let_def six_bits b64_char_ascii)

text \<open>A text of another length is refused.\<close>

lemma b64decode_length: "b64decode_strict s = Some out \<Longrightarrow> length s mod 4 = 0"
  by (induction s arbitrary: out rule: b64decode_strict.induct) (auto split: option.splits if_splits)

end
