(* ===== verification/Comparator.thy ===== *)
theory Comparator
  imports HandoffArtifacts Base64
begin

text \<open>
  The process comparator, \<open>scripts/rust-port/diff.py\<close>: a case is run with two executables, each in a sandbox of its
  own, and everything observable is compared. The machine is a record whose operations act on a state \<open>'fs\<close>
  that is passed from step to step; the child process is what \<open>popen\<close> and \<open>communicate\<close> make of that state. Paths
  are POSIX paths. The temporary directory is also removed when a run raises, which nothing after it reads.
  The self-test, which builds and runs the Go probe, is not modelled, and neither are the helper processes.
\<close>

section \<open>The machine\<close>

datatype node = LinkNode string | DirNode | FileNode string | OtherNode

record launch =
  argv :: "string list"
  child_dir :: path
  child_env :: pydict
  own_group :: bool

datatype waited = Ended string string int | Expired

record 'fs case_host =
  tools :: world
  loads_bytes :: "string \<Rightarrow> pyval res"
  signal_text :: "int \<Rightarrow> string res"
  environ :: "(string \<times> string) list"
  windows_host :: bool
  locate :: "'fs \<Rightarrow> path \<Rightarrow> path res"
  file_bytes :: "'fs \<Rightarrow> path \<Rightarrow> string res"
  default_text :: "'fs \<Rightarrow> path \<Rightarrow> string res"
  same_file :: "'fs \<Rightarrow> path \<Rightarrow> path \<Rightarrow> bool res"
  walk :: "'fs \<Rightarrow> path \<Rightarrow> (path \<times> int \<times> node) list res"
  open_database :: "'fs \<Rightarrow> path \<Rightarrow> unit res"
  rows_of :: "'fs \<Rightarrow> path \<Rightarrow> pyval \<Rightarrow> pyval res"
  mkdtemp :: "'fs \<Rightarrow> (path \<times> 'fs) res"
  make_dir :: "path \<Rightarrow> int \<Rightarrow> bool \<Rightarrow> 'fs \<Rightarrow> 'fs res"
  write_file :: "path \<Rightarrow> string \<Rightarrow> 'fs \<Rightarrow> 'fs res"
  chmod :: "path \<Rightarrow> pyval \<Rightarrow> 'fs \<Rightarrow> 'fs res"
  remove_tree :: "path \<Rightarrow> 'fs \<Rightarrow> 'fs res"
  popen :: "launch \<Rightarrow> 'fs \<Rightarrow> (int \<times> 'fs) res"
  communicate :: "int \<Rightarrow> string \<Rightarrow> rat \<Rightarrow> 'fs \<Rightarrow> waited \<times> 'fs"
  kill_group :: "int \<Rightarrow> 'fs \<Rightarrow> 'fs option res"
  taskkill :: "int \<Rightarrow> 'fs \<Rightarrow> 'fs res"

section \<open>Markers and bytes\<close>

definition RESERVED :: "string list" where
  "RESERVED = [''HOME'', ''USERPROFILE'', ''XDG_CONFIG_HOME'', ''XDG_DATA_HOME'', ''XDG_CACHE_HOME'',
     ''XDG_STATE_HOME'', ''XDG_RUNTIME_DIR'', ''TMPDIR'', ''TMP'', ''TEMP'', ''LANG'', ''LC_ALL'', ''TZ'',
     ''TERM'', ''NO_COLOR'', ''SYMCOREKIT_PORT_CLOCK'', ''SYMCOREKIT_PORT_SEED'']"

definition INHERITED :: "string list" where
  "INHERITED = [''PATH'', ''SYSTEMROOT'', ''WINDIR'', ''COMSPEC'', ''PATHEXT'']"

definition MAX_STREAM :: int where
  "MAX_STREAM = 8 * 1024 * 1024"

definition allowed_env :: "string \<Rightarrow> bool" where
  "allowed_env name =
     (let u = upper name in startswith u ''PORT_'' \<or> startswith u ''SYMCOREKIT_'' \<or> u \<in> set [''HTTP_PROXY'', ''HTTPS_PROXY'', ''NO_PROXY''])"

type_synonym roots = "(string \<times> string) list"

definition replace :: "string \<Rightarrow> roots \<Rightarrow> string" where
  "replace s rs = foldl (\<lambda>acc marker. str_replace marker (the (map_of rs marker)) acc) s (sort (map fst rs))"

text \<open>\<open>replace\<close> on a value that need not be a string.\<close>

definition replaced :: "roots \<Rightarrow> pyval \<Rightarrow> string res" where
  "replaced rs v = (case as_str v of None \<Rightarrow> Inl AttributeError | Some s \<Rightarrow> Inr (replace s rs))"

fun replace_json_strings :: "roots \<Rightarrow> pyval \<Rightarrow> pyval" where
  "replace_json_strings rs (VStr s) = VStr (replace s rs)"
| "replace_json_strings rs (VList xs) = VList (map (replace_json_strings rs) xs)"
| "replace_json_strings rs (VDict d) = VDict (map (\<lambda>(k, v). (k, replace_json_strings rs v)) d)"
| "replace_json_strings rs v = v"

text \<open>\<open>json.dumps(value, separators=(",", ":"), ensure_ascii=False)\<close>: the keys stay in their order.\<close>

fun json_compact :: "(rat \<Rightarrow> string) \<Rightarrow> pyval \<Rightarrow> string" where
  "json_compact fl (VList xs) = CHR ''['' # join '','' (map (json_compact fl) xs) @ '']''"
| "json_compact fl (VDict d) = CHR ''{'' # join '','' (map (\<lambda>(k, v). json_string k @ '':'' @ json_compact fl v) d) @ ''}''"
| "json_compact fl v = json_text fl v"

definition b64decode_text :: "string \<Rightarrow> string \<Rightarrow> string res" where
  "b64decode_text field s =
     bind_res (insist (list_all (between 0 127) s) [''string argument should contain only ASCII characters'']) (\<lambda>_.
     case b64decode_strict s of None \<Rightarrow> Inl (ValueError (msg [field, '' is invalid base64''])) | Some b \<Rightarrow> Inr b)"

definition decode_bytes :: "(rat \<Rightarrow> string) \<Rightarrow> pydict \<Rightarrow> string \<Rightarrow> roots \<Rightarrow> string res" where
  "decode_bytes fl container name rs =
     (let found = filter (has_key container) [name @ ''_utf8'', name @ ''_base64'', name @ ''_json''] in
      bind_res (insist (length found \<le> 1) [name, '' must use exactly one byte representation'']) (\<lambda>_.
      bind_res (insist (\<not> has_key container name)
        [''legacy text field '', repr_str name, '' is forbidden; use '', name, ''_utf8, '', name, ''_base64 or '', name, ''_json'']) (\<lambda>_.
      case found of [] \<Rightarrow> Inr []
      | field # _ \<Rightarrow>
          if endswith field ''_base64'' then
            (case as_str (dget container field) of
               None \<Rightarrow> Inl (ValueError (msg [field, '' must be a base64 string''])) | Some s \<Rightarrow> b64decode_text field s)
          else if endswith field ''_utf8'' then
            (case as_str (dget container field) of
               None \<Rightarrow> Inl (ValueError (msg [field, '' must be a UTF-8 string''])) | Some s \<Rightarrow> Inr (utf8_encode (replace s rs)))
          else Inr (utf8_encode (json_compact fl (replace_json_strings rs (dget container field)))))))"

section \<open>The environment of the child\<close>

definition check_env_key :: "pyval \<Rightarrow> unit res" where
  "check_env_key v =
     (case as_str v of None \<Rightarrow> Inl AttributeError
      | Some key \<Rightarrow>
          bind_res (insist (upper key \<notin> set RESERVED) [''case environment cannot override reserved variable '', repr_str key]) (\<lambda>_.
          insist (allowed_env (upper key)) [''case environment variable is not allowlisted: '', repr_str key]))"

definition root_text :: "roots \<Rightarrow> string \<Rightarrow> string res" where
  "root_text rs marker = (case map_of rs marker of None \<Rightarrow> Inl (KeyError marker) | Some s \<Rightarrow> Inr s)"

text \<open>\<open>str(Path(base) / ...)\<close>\<close>

definition below_text :: "string \<Rightarrow> string list \<Rightarrow> string" where
  "below_text base parts = (if is_absolute base then CHR ''/'' # as_posix (path_parts base @ parts) else as_posix (path_parts base @ parts))"

definition base_env :: "roots \<Rightarrow> pyval \<Rightarrow> pyval \<Rightarrow> pydict res" where
  "base_env rs clock seed =
     bind_res (root_text rs ''${HOME}'') (\<lambda>home.
     bind_res (root_text rs ''${RUNTIME}'') (\<lambda>runtime.
     bind_res (root_text rs ''${TMPDIR}'') (\<lambda>tmp.
     Inr [(''HOME'', VStr home), (''USERPROFILE'', VStr home), (''XDG_CONFIG_HOME'', VStr (below_text home [''.config''])),
       (''XDG_DATA_HOME'', VStr (below_text home [''.local'', ''share''])), (''XDG_CACHE_HOME'', VStr (below_text home [''.cache''])),
       (''XDG_STATE_HOME'', VStr (below_text home [''.local'', ''state''])), (''XDG_RUNTIME_DIR'', VStr runtime),
       (''TMPDIR'', VStr tmp), (''TMP'', VStr tmp), (''TEMP'', VStr tmp), (''LANG'', VStr ''C''), (''LC_ALL'', VStr ''C''),
       (''TZ'', VStr ''UTC''), (''TERM'', VStr ''dumb''), (''NO_COLOR'', VStr ''1''),
       (''SYMCOREKIT_PORT_CLOCK'', clock), (''SYMCOREKIT_PORT_SEED'', seed)])))"

definition inherited_env :: "(string \<times> string) list \<Rightarrow> pydict" where
  "inherited_env env = List.map_filter (\<lambda>key. case map_of env key of None \<Rightarrow> None | Some s \<Rightarrow> Some (key, VStr s)) INHERITED"

definition add_extra :: "roots \<Rightarrow> pyval \<Rightarrow> string \<Rightarrow> pydict \<Rightarrow> pydict res" where
  "add_extra rs extra key env = bind_res (pindex extra key) (\<lambda>v. bind_res (replaced rs v) (\<lambda>s. Inr (dset env key (VStr s))))"

definition isolated_env :: "(string \<times> string) list \<Rightarrow> roots \<Rightarrow> pyval \<Rightarrow> pyval \<Rightarrow> pyval \<Rightarrow> pydict res" where
  "isolated_env env rs extra clock seed =
     bind_res (iter_items extra) (\<lambda>items.
     bind_res (for_each check_env_key items) (\<lambda>_.
     bind_res (base_env rs clock seed) (\<lambda>base.
     fold_res (add_extra rs extra) (sort (strs_of items)) (dict_update base (inherited_env env)))))"

section \<open>The sandbox\<close>

definition safe_path :: "'fs case_host \<Rightarrow> 'fs \<Rightarrow> path \<Rightarrow> pyval \<Rightarrow> path res" where
  "safe_path h fs base v =
     (let fl = float_text (tools h); bad = [''sandbox path must be non-empty and relative: '', py_repr fl v] in
      bind_res (insist (truthy v) bad) (\<lambda>_.
      case as_str v of None \<Rightarrow> Inl TypeError
      | Some s \<Rightarrow>
          bind_res (insist (\<not> is_absolute s) bad) (\<lambda>_.
          bind_res (locate h fs (base @ path_parts s)) (\<lambda>candidate.
          bind_res (locate h fs base) (\<lambda>resolved.
          bind_res (insist (is_relative_to candidate resolved) [''sandbox path escapes root: '', py_repr fl v]) (\<lambda>_.
          Inr candidate))))))"

definition manifest_entry :: "(string \<Rightarrow> string) \<Rightarrow> path \<times> int \<times> node \<Rightarrow> pyval" where
  "manifest_entry digest = (\<lambda>(p, mode, n).
     VDict ([(''path'', VStr (as_posix p)), (''mode'', VInt (mode mod 512))]
       @ (case n of
            LinkNode t \<Rightarrow> [(''type'', VStr ''symlink''), (''target'', VStr t)]
          | DirNode \<Rightarrow> [(''type'', VStr ''dir'')]
          | FileNode s \<Rightarrow> [(''type'', VStr ''file''), (''size'', VInt (int (length s))), (''sha256'', VStr (digest s))]
          | OtherNode \<Rightarrow> [(''type'', VStr ''other'')])))"

definition manifest :: "'fs case_host \<Rightarrow> 'fs \<Rightarrow> path \<Rightarrow> pyval res" where
  "manifest h fs base =
     bind_res (walk h fs base) (\<lambda>entries.
     Inr (VList (map (manifest_entry (sha256 (tools h))) (sort_key (\<lambda>e. as_posix (fst e)) entries))))"

definition run_query :: "'fs case_host \<Rightarrow> 'fs \<Rightarrow> path \<Rightarrow> pyval \<Rightarrow> pyval res" where
  "run_query h fs p q = bind_res (rows_of h fs p q) (\<lambda>rows. Inr (VDict [(''sql'', q), (''rows'', rows)]))"

definition snapshot :: "'fs case_host \<Rightarrow> 'fs \<Rightarrow> path \<Rightarrow> pyval \<Rightarrow> pydict \<Rightarrow> pydict res" where
  "snapshot h fs base spec result =
     bind_res (pindex spec ''path'') (\<lambda>name.
     bind_res (safe_path h fs base name) (\<lambda>p.
     bind_res (open_database h fs p) (\<lambda>_.
     bind_res (bind_res (pget_or spec ''queries'' (VList [])) iter_items) (\<lambda>queries.
     bind_res (map_res (run_query h fs p) queries) (\<lambda>answers.
     Inr (dset result (the (as_str name)) (VList answers)))))))"

definition sqlite_snapshots :: "'fs case_host \<Rightarrow> 'fs \<Rightarrow> path \<Rightarrow> pyval list \<Rightarrow> pyval res" where
  "sqlite_snapshots h fs base specs = bind_res (fold_res (snapshot h fs base) specs []) (\<lambda>d. Inr (VDict d))"

definition read_json_observation :: "'fs case_host \<Rightarrow> 'fs \<Rightarrow> path \<Rightarrow> pyval \<Rightarrow> pyval res" where
  "read_json_observation h fs base v =
     (if \<not> truthy v then Inr (VList [])
      else bind_res (safe_path h fs base v) (\<lambda>p. bind_res (default_text h fs p) (json_loads (tools h))))"

section \<open>One run\<close>

record case_result =
  result_code :: int
  result_signal :: string
  result_expired :: bool
  result_stdout :: string
  result_stderr :: string
  result_files :: pyval
  result_sqlite :: pyval
  result_http :: pyval
  result_argv :: pyval

definition sandbox_text :: "path \<Rightarrow> string" where
  "sandbox_text p = CHR ''/'' # as_posix p"

definition sandbox_roots :: "path \<Rightarrow> roots" where
  "sandbox_roots base = [(''${SANDBOX}'', sandbox_text base), (''${HOME}'', sandbox_text (base @ [''home''])),
     (''${WORKSPACE}'', sandbox_text (base @ [''workspace''])), (''${TMPDIR}'', sandbox_text (base @ [''tmp''])),
     (''${RUNTIME}'', sandbox_text (base @ [''runtime'']))]"

definition sandbox_dirs :: "path \<Rightarrow> path list" where
  "sandbox_dirs base = [base @ [''home''], base @ [''workspace''], base @ [''tmp''], base @ [''runtime''], base @ [''home'', ''.local'', ''state'']]"

definition setup_file :: "'fs case_host \<Rightarrow> path \<Rightarrow> roots \<Rightarrow> pyval \<Rightarrow> 'fs \<Rightarrow> 'fs res" where
  "setup_file h workspace rs v fs =
     bind_res (pindex v ''path'') (\<lambda>name.
     bind_res (safe_path h fs workspace name) (\<lambda>p.
     bind_res (make_dir h (butlast p) 511 True fs) (\<lambda>fs.
     let d = the (as_dict v) in
     bind_res (decode_bytes (float_text (tools h)) d ''content'' rs) (\<lambda>content.
     bind_res (write_file h p content fs) (\<lambda>fs. chmod h p (dget_or d ''mode'' (VInt 384)) fs)))))"

definition working_dir :: "'fs case_host \<Rightarrow> 'fs \<Rightarrow> path \<Rightarrow> roots \<Rightarrow> pydict \<Rightarrow> path res" where
  "working_dir h fs workspace rs d =
     (if \<not> truthy (dget d ''working_dir'') then Inr workspace
      else bind_res (replaced rs (dget d ''working_dir'')) (\<lambda>s. safe_path h fs workspace (VStr s)))"

definition terminate_tree :: "'fs case_host \<Rightarrow> int \<Rightarrow> 'fs \<Rightarrow> 'fs res" where
  "terminate_tree h pid fs =
     (if windows_host h then taskkill h pid fs
      else bind_res (kill_group h pid fs) (\<lambda>r. Inr (case r of None \<Rightarrow> fs | Some fs' \<Rightarrow> fs')))"

text \<open>Time limits are exact rationals of a second.\<close>

definition time_limit :: "pydict \<Rightarrow> rat res" where
  "time_limit d = (case num_of (dget_or d ''timeout_ms'' (VInt 10000)) of None \<Rightarrow> Inl TypeError | Some r \<Rightarrow> Inr (r / 1000))"

definition wait_for :: "'fs case_host \<Rightarrow> int \<Rightarrow> string \<Rightarrow> rat \<Rightarrow> 'fs \<Rightarrow> (bool \<times> string \<times> string \<times> int \<times> 'fs) res" where
  "wait_for h pid input limit fs =
     (case communicate h pid input limit fs of
        (Ended out err status, fs) \<Rightarrow> Inr (False, out, err, status, fs)
      | (Expired, fs) \<Rightarrow>
          bind_res (terminate_tree h pid fs) (\<lambda>fs.
          case communicate h pid [] 2 fs of
            (Ended out err status, fs) \<Rightarrow> Inr (True, out, err, status, fs)
          | (Expired, fs) \<Rightarrow> Inl (RuntimeError ''process tree did not terminate within two seconds'')))"

definition observe :: "'fs case_host \<Rightarrow> 'fs \<Rightarrow> path \<Rightarrow> pydict \<Rightarrow> bool \<Rightarrow> string \<Rightarrow> string \<Rightarrow> int \<Rightarrow> case_result res" where
  "observe h fs base d expired out err status =
     bind_res (require (int (length out) \<le> MAX_STREAM \<and> int (length err) \<le> MAX_STREAM) (RuntimeError ''captured stream exceeds 8 MiB'')) (\<lambda>_.
     bind_res (if status < 0 then signal_text h (- status) else Inr []) (\<lambda>signal_name.
     bind_res (manifest h fs base) (\<lambda>tree.
     bind_res (bind_res (iter_items (dget_or d ''sqlite_snapshots'' (VList []))) (sqlite_snapshots h fs base)) (\<lambda>tables.
     bind_res (read_json_observation h fs base (dget d ''http_transcript_path'')) (\<lambda>transcript.
     bind_res (read_json_observation h fs base (dget d ''process_argv_path'')) (\<lambda>arguments.
     Inr \<lparr>result_code = status, result_signal = signal_name, result_expired = expired, result_stdout = out, result_stderr = err,
       result_files = tree, result_sqlite = tables, result_http = transcript, result_argv = arguments\<rparr>))))))"

definition run_child :: "'fs case_host \<Rightarrow> path \<Rightarrow> path \<Rightarrow> pydict \<Rightarrow> 'fs \<Rightarrow> (bool \<times> string \<times> string \<times> int \<times> 'fs) res" where
  "run_child h exe base d fs =
     (let rs = sandbox_roots base; workspace = base @ [''workspace''] in
      bind_res (working_dir h fs workspace rs d) (\<lambda>cwd.
      bind_res (bind_res (iter_items (dget_or d ''args'' (VList []))) (map_res (replaced rs))) (\<lambda>args.
      bind_res (decode_bytes (float_text (tools h)) d ''stdin'' rs) (\<lambda>input.
      bind_res (isolated_env (environ h) rs (dget_or d ''env'' (VDict [])) (dget_or d ''clock'' (VStr ''2026-01-01T00:00:00Z'')) (dget_or d ''seed'' (VStr ''1''))) (\<lambda>env.
      bind_res (popen h \<lparr>argv = sandbox_text exe # args, child_dir = cwd, child_env = env, own_group = True\<rparr> fs) (\<lambda>(pid, fs).
      bind_res (time_limit d) (\<lambda>limit. wait_for h pid input limit fs)))))))"

definition run_case :: "'fs case_host \<Rightarrow> path \<Rightarrow> pyval \<Rightarrow> 'fs \<Rightarrow> (case_result \<times> 'fs) res" where
  "run_case h binary c fs =
     bind_res (locate h fs binary) (\<lambda>exe.
     bind_res (mkdtemp h fs) (\<lambda>(base, fs).
     bind_res (fold_res (\<lambda>p. make_dir h p 448 False) (sandbox_dirs base) fs) (\<lambda>fs.
     bind_res (bind_res (pget_or c ''setup'' (VList [])) iter_items) (\<lambda>setups.
     bind_res (fold_res (setup_file h (base @ [''workspace'']) (sandbox_roots base)) setups fs) (\<lambda>fs.
     let d = the (as_dict c) in
     bind_res (run_child h exe base d fs) (\<lambda>(expired, out, err, status, fs).
     bind_res (observe h fs base d expired out err status) (\<lambda>result.
     bind_res (remove_tree h base fs) (\<lambda>fs. Inr (result, fs)))))))))"

section \<open>The comparison\<close>

datatype observable = Absent | Flag bool | Number int | Text string | Bytes string | Doc pyval

text \<open>\<open>lhs != rhs\<close>, negated, and \<open>repr\<close>.\<close>

fun same_observed :: "observable \<Rightarrow> observable \<Rightarrow> bool" where
  "same_observed (Doc a) (Doc b) = py_eq a b"
| "same_observed a b = (a = b)"

definition repr_byte :: "char \<Rightarrow> char \<Rightarrow> string" where
  "repr_byte q c =
     (if c = q \<or> c = CHR 0x5C then [CHR 0x5C, c]
      else if c = CHR 0x09 then [CHR 0x5C, CHR ''t'']
      else if c = CHR 0x0A then [CHR 0x5C, CHR ''n'']
      else if c = CHR 0x0D then [CHR 0x5C, CHR ''r'']
      else if between 32 126 c then [c]
      else [CHR 0x5C, CHR ''x'', hex_digit (of_char c div 16), hex_digit (of_char c mod 16)])"

definition repr_bytes :: "string \<Rightarrow> string" where
  "repr_bytes s =
     (let q = (if CHR 0x27 \<in> set s \<and> CHR 0x22 \<notin> set s then CHR 0x22 else CHR 0x27)
      in CHR ''b'' # q # concat (map (repr_byte q) s) @ [q])"

fun repr_observed :: "(rat \<Rightarrow> string) \<Rightarrow> observable \<Rightarrow> string" where
  "repr_observed fl Absent = ''None''"
| "repr_observed fl (Flag b) = (if b then ''True'' else ''False'')"
| "repr_observed fl (Number n) = str_int n"
| "repr_observed fl (Text s) = repr_str s"
| "repr_observed fl (Bytes s) = repr_bytes s"
| "repr_observed fl (Doc v) = py_repr fl v"

definition normalized_stream :: "'fs case_host \<Rightarrow> string \<Rightarrow> pyval \<Rightarrow> observable res" where
  "normalized_stream h s mode =
     (if mode = VStr ''ignore'' then Inr Absent
      else if mode = VStr ''json'' then bind_res (loads_bytes h s) (\<lambda>v. Inr (Doc v))
      else if mode = VStr ''console_text'' then Inr (Bytes (str_replace [CHR 0x0D, CHR 0x0A] [CHR 0x0A] s))
      else if mode = VStr ''bytes'' then Inr (Bytes s)
      else Inl (ValueError (msg [''unknown stream comparison mode '', py_repr (float_text (tools h)) mode])))"

definition compare_field :: "'fs case_host \<Rightarrow> string \<times> observable \<times> observable \<Rightarrow> unit res" where
  "compare_field h = (\<lambda>(label, lhs, rhs).
     let digest = (\<lambda>x. sha256 (tools h) (utf8_encode (repr_observed (float_text (tools h)) x))) in
     require (same_observed lhs rhs)
       (AssertionError (msg [label, '' mismatch: left_sha256='', digest lhs, '' right_sha256='', digest rhs])))"

definition compare :: "'fs case_host \<Rightarrow> pyval \<Rightarrow> case_result \<Rightarrow> case_result \<Rightarrow> unit res" where
  "compare h c left right =
     bind_res (pget_or c ''stdout_mode'' (VStr ''bytes'')) (\<lambda>out_mode.
     bind_res (normalized_stream h (result_stdout left) out_mode) (\<lambda>left_out.
     bind_res (normalized_stream h (result_stdout right) out_mode) (\<lambda>right_out.
     bind_res (pget_or c ''stderr_mode'' (VStr ''bytes'')) (\<lambda>err_mode.
     bind_res (normalized_stream h (result_stderr left) err_mode) (\<lambda>left_err.
     bind_res (normalized_stream h (result_stderr right) err_mode) (\<lambda>right_err.
     bind_res (pget_or c ''compare_files'' (VBool False)) (\<lambda>files.
     for_each (compare_field h)
       [(''timeout'', Flag (result_expired left), Flag (result_expired right)),
        (''exit code'', Number (result_code left), Number (result_code right)),
        (''signal'', Text (result_signal left), Text (result_signal right)),
        (''stdout'', left_out, right_out),
        (''stderr'', left_err, right_err),
        (''filesystem'', if truthy files then Doc (result_files left) else Absent, if truthy files then Doc (result_files right) else Absent),
        (''sqlite'', Doc (result_sqlite left), Doc (result_sqlite right)),
        (''HTTP transcript'', Doc (result_http left), Doc (result_http right)),
        (''process argv'', Doc (result_argv left), Doc (result_argv right))])))))))"

text \<open>\<open>os.path.samefile\<close>; a file that is missing is not the same.\<close>

definition refuse_same_file :: "'fs case_host \<Rightarrow> 'fs \<Rightarrow> path \<Rightarrow> path \<Rightarrow> unit res" where
  "refuse_same_file h fs l r =
     (case same_file h fs l r of
        Inr b \<Rightarrow> insist (\<not> b) [''normal parity mode requires distinct Go and Rust executables'']
      | Inl (FileNotFoundError _) \<Rightarrow> Inr ()
      | Inl e \<Rightarrow> Inl e)"

definition reject_identical_implementations :: "'fs case_host \<Rightarrow> 'fs \<Rightarrow> path \<Rightarrow> path \<Rightarrow> unit res" where
  "reject_identical_implementations h fs left right =
     bind_res (locate h fs left) (\<lambda>l.
     bind_res (locate h fs right) (\<lambda>r.
     bind_res (refuse_same_file h fs l r) (\<lambda>_.
     bind_res (file_bytes h fs l) (\<lambda>a.
     bind_res (file_bytes h fs r) (\<lambda>b.
     insist (sha256 (tools h) a \<noteq> sha256 (tools h) b)
       [''normal parity mode rejects byte-identical executables; use --self-test for deliberate same-binary checks''])))))"

text \<open>The one case of a document, which is a suite or a case.\<close>

definition case_of :: "pyval \<Rightarrow> pyval res" where
  "case_of document =
     bind_res (value_contains ''cases'' document) (\<lambda>suite.
     if suite then
       bind_res (pindex document ''cases'') (\<lambda>cases.
       bind_res (insist (is_list cases \<and> length (the (as_list cases)) = 1) [''suite input must contain exactly one case'']) (\<lambda>_.
       Inr (hd (the (as_list cases)))))
     else Inr document)"

definition run_parity :: "'fs case_host \<Rightarrow> path \<Rightarrow> path \<Rightarrow> path \<Rightarrow> 'fs \<Rightarrow> string res" where
  "run_parity h file left right fs =
     bind_res (reject_identical_implementations h fs left right) (\<lambda>_.
     bind_res (bind_res (bind_res (file_bytes h fs file) (utf8 (tools h))) (json_loads (tools h))) (\<lambda>document.
     bind_res (case_of document) (\<lambda>c.
     bind_res (run_case h left c fs) (\<lambda>(l, fs).
     bind_res (run_case h right c fs) (\<lambda>(r, fs).
     bind_res (compare h c l r) (\<lambda>_.
     bind_res (pget_or c ''id'' (VStr (last file))) (\<lambda>name.
     Inr (msg [''PASS '', py_str (float_text (tools h)) name]))))))))"

text \<open>What \<open>main\<close> catches; any other exception ends the program with the interpreter's own exit code 1.\<close>

fun is_comparator_error :: "pyexc \<Rightarrow> bool" where
  "is_comparator_error (AssertionError _) = True"
| "is_comparator_error (ProcessFailed _) = True"
| "is_comparator_error e = (is_os_error e \<or> is_value_error e \<or> is_runtime_error e)"

definition comparator_main :: "'fs case_host \<Rightarrow> path \<Rightarrow> path \<Rightarrow> path \<Rightarrow> 'fs \<Rightarrow> (nat \<times> string) res" where
  "comparator_main h file left right fs =
     (case run_parity h file left right fs of
        Inr line \<Rightarrow> Inr (0, line)
      | Inl e \<Rightarrow> if is_comparator_error e then Inr (1, msg [''FAIL '', exc_text e]) else Inl e)"

section \<open>What a run establishes\<close>

lemma safe_path_Inr:
  "safe_path h fs base v = Inr p \<longleftrightarrow>
     (\<exists>s b. v = VStr s \<and> s \<noteq> [] \<and> \<not> is_absolute s \<and> locate h fs (base @ path_parts s) = Inr p \<and> locate h fs base = Inr b \<and> is_relative_to p b)"
  by (cases v) (auto simp: safe_path_def Let_def bind_res_eq_Inr)

text \<open>A byte representation is explicit and the only one.\<close>

lemma decode_bytes_single:
  assumes "decode_bytes fl d name rs = Inr b"
  shows "\<not> has_key d name" "length (filter (has_key d) [name @ ''_utf8'', name @ ''_base64'', name @ ''_json'']) \<le> 1"
  using assms unfolding decode_bytes_def Let_def by (simp_all add: bind_res_eq_Inr)

text \<open>Bytes that a case holds as base64 reach the child unchanged: where that is the only representation of a stream or of a file, decoding what \<open>base64.b64encode\<close> wrote gives the bytes themselves, whatever they are, without replacing markers in them and without reading them as text.\<close>

theorem case_bytes_survive:
  assumes "\<not> has_key d name" "\<not> has_key d (name @ ''_utf8'')" "\<not> has_key d (name @ ''_json'')"
    and "map_of d (name @ ''_base64'') = Some (VStr (b64encode s))"
  shows "decode_bytes fl d name rs = Inr s"
proof -
  have "has_key d (name @ ''_base64'')" "dget d (name @ ''_base64'') = VStr (b64encode s)" "endswith (name @ ''_base64'') ''_base64''"
    using assms(4) by (auto simp: has_key_def dget_def endswith_iff)
  with assms show ?thesis by (simp add: decode_bytes_def b64decode_text_def b64encode_ascii b64decode_encode)
qed

lemma case_bytes_survive_witness:
  "decode_bytes (\<lambda>_. []) [(''stdin_base64'', VStr (b64encode [CHR 0x00, CHR 0xFF, CHR 0x0D, CHR 0x0A]))] ''stdin'' [] = Inr [CHR 0x00, CHR 0xFF, CHR 0x0D, CHR 0x0A]"
  by (rule case_bytes_survive) (simp_all add: has_key_def)

subsection \<open>The environment\<close>

lemma reserved_facts:
  "list_all (\<lambda>k. upper k = k) RESERVED" "list_all (\<lambda>k. upper k \<notin> set RESERVED \<and> k \<notin> set RESERVED \<and> \<not> allowed_env (upper k)) INHERITED" "distinct INHERITED"
  by code_simp+

lemma base_env_keys: "base_env rs clock seed = Inr base \<Longrightarrow> map fst base = RESERVED"
  by (auto simp: base_env_def bind_res_eq_Inr RESERVED_def)

lemma map_of_chosen:
  "map_of (List.map_filter (\<lambda>key. case map_of env key of None \<Rightarrow> None | Some s \<Rightarrow> Some (key, VStr s)) ks) k =
     (if k \<in> set ks then map_option VStr (map_of env k) else None)"
  by (induction ks) (auto simp: List.map_filter_simps split: option.splits)

lemma distinct_chosen:
  "distinct ks \<Longrightarrow> distinct (map fst (List.map_filter (\<lambda>key. case map_of env key of None \<Rightarrow> None | Some s \<Rightarrow> Some (key, VStr s)) ks))"
  by (induction ks) (auto simp: List.map_filter_simps mem_map_filter split: option.splits)

lemma add_extra_Inr: "add_extra rs extra key env = Inr env' \<Longrightarrow> \<exists>v. env' = dset env key v"
  by (auto simp: add_extra_def bind_res_eq_Inr)

lemma add_extra_keeps:
  assumes "add_extra rs extra key env = Inr env'"
  shows "k \<noteq> key \<Longrightarrow> map_of env' k = map_of env k" "fst ` set env' = insert key (fst ` set env)"
  using add_extra_Inr [OF assms] keys_dset [of env key] by (auto simp: map_of_dset)

lemma fold_add_extra:
  "fold_res (add_extra rs extra) ks env = Inr out \<Longrightarrow>
     (\<forall>k. k \<notin> set ks \<longrightarrow> map_of out k = map_of env k) \<and> fst ` set out = set ks \<union> fst ` set env"
proof (induction ks arbitrary: env)
  case (Cons key ks)
  then obtain env' where step: "add_extra rs extra key env = Inr env'" and rest: "fold_res (add_extra rs extra) ks env' = Inr out"
    by (auto simp: bind_res_eq_Inr)
  from Cons.IH [OF rest] add_extra_keeps [OF step] show ?case by simp
qed simp

lemma has_key_iff: "has_key d k \<longleftrightarrow> k \<in> fst ` set d"
  by (simp add: has_key_def map_of_eq_None_iff)

text \<open>C40: The child's environment is the harness's. Every reserved variable (home, XDG and temporary directories, locale, terminal, clock, seed) has the value the harness gives it, whatever the case asks for, and no other spelling of a reserved name is set; the inherited variables are those of the parent; and everything else is a name of the allow list.\<close>

theorem child_environment_is_isolated:
  assumes "isolated_env env rs extra clock seed = Inr child"
  shows "\<exists>base. base_env rs clock seed = Inr base
    \<and> (\<forall>k \<in> set RESERVED. map_of child k = map_of base k)
    \<and> (\<forall>k \<in> set INHERITED. map_of child k = map_option VStr (map_of env k))
    \<and> (\<forall>k. has_key child k \<longrightarrow> k \<in> set RESERVED \<or> k \<in> set INHERITED \<or> upper k \<notin> set RESERVED \<and> allowed_env (upper k))"
proof -
  from assms obtain items base where base: "base_env rs clock seed = Inr base"
    and keys: "\<forall>v \<in> set items. check_env_key v = Inr ()"
    and fold: "fold_res (add_extra rs extra) (sort (strs_of items)) (dict_update base (inherited_env env)) = Inr child"
    unfolding isolated_env_def bind_res_eq_Inr by auto
  have extra: "upper k \<notin> set RESERVED \<and> allowed_env (upper k)" if "k \<in> set (strs_of items)" for k
    using keys that by (auto simp: set_strs_of check_env_key_def bind_res_eq_Inr dest!: bspec)
  from fold_add_extra [OF fold] have kept: "k \<notin> set (strs_of items) \<Longrightarrow> map_of child k = map_of (dict_update base (inherited_env env)) k"
    and all: "fst ` set child = set (strs_of items) \<union> fst ` set (dict_update base (inherited_env env))" for k by auto
  have chosen: "map_of (dict_update base (inherited_env env)) k = (map_of base ++ map_of (inherited_env env)) k" for k
    using map_of_dict_update [of "inherited_env env" base] reserved_facts(3) by (simp add: inherited_env_def distinct_chosen)
  have inherited: "map_of (inherited_env env) k = (if k \<in> set INHERITED then map_option VStr (map_of env k) else None)" for k
    by (simp add: inherited_env_def map_of_chosen)
  have "map_of child k = map_of base k" if "k \<in> set RESERVED" for k
  proof -
    from that reserved_facts have "k \<notin> set (strs_of items)" "k \<notin> set INHERITED" using extra [of k] by (auto simp: list_all_iff)
    then show ?thesis by (simp add: kept chosen inherited map_add_def)
  qed
  moreover have "map_of child k = map_option VStr (map_of env k)" if "k \<in> set INHERITED" for k
  proof -
    from that reserved_facts have "k \<notin> set (strs_of items)" "k \<notin> set (map fst base)"
      using extra [of k] base_env_keys [OF base] by (auto simp: list_all_iff)
    then have "map_of base k = None" by (simp add: map_of_eq_None_iff)
    with that \<open>k \<notin> set (strs_of items)\<close> show ?thesis by (simp add: kept chosen inherited map_add_def split: option.splits)
  qed
  moreover have "k \<in> set RESERVED \<or> k \<in> set INHERITED \<or> upper k \<notin> set RESERVED \<and> allowed_env (upper k)" if "has_key child k" for k
  proof -
    from that have "k \<in> set (strs_of items) \<or> k \<in> fst ` set base \<or> map_of (inherited_env env) k \<noteq> None"
      by (auto simp: has_key_iff all keys_dict_update map_of_eq_None_iff)
    then show ?thesis using extra [of k] base_env_keys [OF base] by (auto simp: inherited split: if_splits simp flip: set_map)
  qed
  ultimately show ?thesis using base by blast
qed

definition sample_roots :: roots where
  "sample_roots = sandbox_roots [''tmp'', ''corekit-port-1'']"

definition sample_env :: pydict where
  "sample_env =
     (case isolated_env [(''PATH'', ''/bin''), (''HOME'', ''/real'')] sample_roots (VDict [(''PORT_DIR'', VStr ''${HOME}/d'')]) (VStr ''2026-01-01T00:00:00Z'') (VStr ''1'') of
        Inr env \<Rightarrow> env | Inl _ \<Rightarrow> [])"

lemma sample_env_accepted:
  "isolated_env [(''PATH'', ''/bin''), (''HOME'', ''/real'')] sample_roots (VDict [(''PORT_DIR'', VStr ''${HOME}/d'')]) (VStr ''2026-01-01T00:00:00Z'') (VStr ''1'') = Inr sample_env"
proof -
  have "case isolated_env [(''PATH'', ''/bin''), (''HOME'', ''/real'')] sample_roots (VDict [(''PORT_DIR'', VStr ''${HOME}/d'')]) (VStr ''2026-01-01T00:00:00Z'') (VStr ''1'') of
      Inr env \<Rightarrow> True | Inl _ \<Rightarrow> False" by code_simp
  then show ?thesis unfolding sample_env_def by (simp split: sum.splits)
qed

lemma child_environment_is_isolated_witness:
  "\<exists>base. base_env sample_roots (VStr ''2026-01-01T00:00:00Z'') (VStr ''1'') = Inr base
    \<and> (\<forall>k \<in> set RESERVED. map_of sample_env k = map_of base k)
    \<and> (\<forall>k \<in> set INHERITED. map_of sample_env k = map_option VStr (map_of [(''PATH'', ''/bin''), (''HOME'', ''/real'')] k))
    \<and> (\<forall>k. has_key sample_env k \<longrightarrow> k \<in> set RESERVED \<or> k \<in> set INHERITED \<or> upper k \<notin> set RESERVED \<and> allowed_env (upper k))"
  by (rule child_environment_is_isolated [OF sample_env_accepted])

subsection \<open>The comparison\<close>

definition streams_equal :: "'fs case_host \<Rightarrow> pyval \<Rightarrow> string \<Rightarrow> string \<Rightarrow> bool" where
  "streams_equal h mode s t =
     (\<exists>x y. normalized_stream h s mode = Inr x \<and> normalized_stream h t mode = Inr y \<and> same_observed x y)"

lemma streams_equal_bytes: "streams_equal h (VStr ''bytes'') s t \<longleftrightarrow> s = t"
  by (auto simp: streams_equal_def normalized_stream_def)

lemma streams_equal_json: "streams_equal h (VStr ''json'') s t \<longleftrightarrow> (\<exists>v w. loads_bytes h s = Inr v \<and> loads_bytes h t = Inr w \<and> py_eq v w)"
  by (auto simp: streams_equal_def normalized_stream_def bind_res_eq_Inr)

lemma streams_equal_console:
  "streams_equal h (VStr ''console_text'') s t \<longleftrightarrow> str_replace [CHR 0x0D, CHR 0x0A] [CHR 0x0A] s = str_replace [CHR 0x0D, CHR 0x0A] [CHR 0x0A] t"
  by (auto simp: streams_equal_def normalized_stream_def)

lemma compare_field_Inr: "compare_field h (label, lhs, rhs) = Inr () \<longleftrightarrow> same_observed lhs rhs"
  by (simp add: compare_field_def Let_def)

definition results_agree :: "'fs case_host \<Rightarrow> pydict \<Rightarrow> case_result \<Rightarrow> case_result \<Rightarrow> bool" where
  "results_agree h d l r \<longleftrightarrow>
     result_expired l = result_expired r \<and> result_code l = result_code r \<and> result_signal l = result_signal r
     \<and> streams_equal h (dget_or d ''stdout_mode'' (VStr ''bytes'')) (result_stdout l) (result_stdout r)
     \<and> streams_equal h (dget_or d ''stderr_mode'' (VStr ''bytes'')) (result_stderr l) (result_stderr r)
     \<and> (truthy (dget_or d ''compare_files'' (VBool False)) \<longrightarrow> py_eq (result_files l) (result_files r))
     \<and> py_eq (result_sqlite l) (result_sqlite r) \<and> py_eq (result_http l) (result_http r) \<and> py_eq (result_argv l) (result_argv r)"

text \<open>The comparison accepts two results exactly when they agree.\<close>

lemma compare_Inr: "compare h c l r = Inr () \<longleftrightarrow> (\<exists>d. c = VDict d \<and> results_agree h d l r)"
proof (cases c)
  case (VDict d)
  then show ?thesis
    by (auto simp: compare_def results_agree_def streams_equal_def bind_res_eq_Inr compare_field_Inr)
qed (simp_all add: compare_def pget_or_def)

text \<open>In JSON mode a program that prints \<open>true\<close> and one that prints \<open>1\<close> are equal: values are compared with
  Python's equality.\<close>

lemma json_mode_accepts_one_for_true:
  assumes "loads_bytes h s = Inr (VDict [(''ok'', VBool True)])" "loads_bytes h t = Inr (VDict [(''ok'', VInt 1)])"
  shows "streams_equal h (VStr ''json'') s t"
proof -
  have "py_eq (VDict [(''ok'', VBool True)]) (VDict [(''ok'', VInt 1)])" by code_simp
  with assms show ?thesis by (simp add: streams_equal_json)
qed

lemma run_case_bounds:
  assumes "run_case h binary c fs = Inr (r, fs')"
  shows "int (length (result_stdout r)) \<le> MAX_STREAM \<and> int (length (result_stderr r)) \<le> MAX_STREAM"
  using assms unfolding run_case_def observe_def Let_def by (auto simp: bind_res_eq_Inr split: prod.splits)

lemma reject_Inr:
  assumes "reject_identical_implementations h fs left right = Inr ()"
  shows "\<exists>l r a b. locate h fs left = Inr l \<and> locate h fs right = Inr r \<and> same_file h fs l r \<noteq> Inr True
    \<and> file_bytes h fs l = Inr a \<and> file_bytes h fs r = Inr b \<and> a \<noteq> b"
proof -
  have "refuse_same_file h fs l r = Inr u \<Longrightarrow> same_file h fs l r \<noteq> Inr True" for l r u by (auto simp: refuse_same_file_def)
  then show ?thesis using assms unfolding reject_identical_implementations_def bind_res_eq_Inr insist_Inr by blast
qed


section \<open>A case on a small machine\<close>

text \<open>The state counts the temporary directories and the children; the child copies its input.\<close>

definition sample_bytes :: "nat \<Rightarrow> path \<Rightarrow> string res" where
  "sample_bytes n p = Inr (if p = [''bin'', ''go''] then ''G'' else if p = [''bin'', ''rust''] then ''R'' else ''C'')"

definition sample_case :: pydict where
  "sample_case = [(''id'', VStr ''echo''), (''stdin_utf8'', VStr ''text''), (''args'', VList [VStr ''--in'', VStr ''${WORKSPACE}/a'']),
     (''env'', VDict [(''PORT_DIR'', VStr ''${HOME}/d'')]), (''working_dir'', VStr ''.''), (''compare_files'', VBool True),
     (''setup'', VList [VDict [(''path'', VStr ''sub/a''), (''content_utf8'', VStr ''text'')]])]"

definition sample_loads :: "string \<Rightarrow> pyval res" where
  "sample_loads s = Inr (VDict [(''cases'', VList [VDict sample_case])])"

definition sample_case_world :: world where
  "sample_case_world = sample_world\<lparr>utf8 := Inr, sha256 := \<lambda>s. s, json_loads := sample_loads\<rparr>"

definition sample_mkdtemp :: "nat \<Rightarrow> (path \<times> nat) res" where
  "sample_mkdtemp n = Inr ([''tmp'', ''corekit-port-'' @ str_nat n], Suc n)"

definition sample_locate :: "nat \<Rightarrow> path \<Rightarrow> path res" where
  "sample_locate n p = Inr (filter (\<lambda>x. x \<noteq> ''.'') p)"

definition sample_communicate :: "int \<Rightarrow> string \<Rightarrow> rat \<Rightarrow> nat \<Rightarrow> waited \<times> nat" where
  "sample_communicate pid input limit n = (Ended input [] 0, Suc n)"

definition sample_walk :: "nat \<Rightarrow> path \<Rightarrow> (path \<times> int \<times> node) list res" where
  "sample_walk n p = Inr [([''workspace''], 16832, DirNode), ([''home''], 16832, DirNode), ([''workspace'', ''sub'', ''a''], 33152, FileNode ''text'')]"

definition sample_case_host :: "nat case_host" where
  "sample_case_host = \<lparr>tools = sample_case_world, loads_bytes = \<lambda>_. Inr VNone, signal_text = \<lambda>_. Inr ''SIGKILL'', environ = [(''PATH'', ''/bin'')], windows_host = False,
     locate = sample_locate, file_bytes = sample_bytes, default_text = \<lambda>_ _. Inr [], same_file = \<lambda>_ p q. Inr (p = q),
     walk = sample_walk, open_database = \<lambda>_ _. Inr (), rows_of = \<lambda>_ _ _. Inr (VList []),
     mkdtemp = sample_mkdtemp, make_dir = \<lambda>_ _ _. Inr, write_file = \<lambda>_ _. Inr, chmod = \<lambda>_ _. Inr, remove_tree = \<lambda>_. Inr,
     popen = \<lambda>_ n. Inr (7, n), communicate = sample_communicate, kill_group = \<lambda>_ n. Inr None, taskkill = \<lambda>_. Inr\<rparr>"

lemma sample_case_passes: "comparator_main sample_case_host [''case.json''] [''bin'', ''go''] [''bin'', ''rust''] 0 = Inr (0, ''PASS echo'')"
  by code_simp


end
