(* ===== verification/Bench.thy ===== *)
theory Bench
  imports Trust Base64 Statistics
begin

text \<open>
  The benchmark of the consumers, \<open>scripts/rust-port/bench.py\<close>: the paired launches of the Go and the Rust
  program, what \<open>/usr/bin/time\<close> prints about them, the metrics, and the checks of a recorded report, which
  recompute them from the raw samples. Numbers are rationals under a rounding parameter, as in the cost gate;
  special values and overflow have no value here. The builds, the archives and the clock are parameters.
\<close>

record bench_host =
  adopter :: adoption_host
  bench_round :: "rat \<Rightarrow> rat"
  loads_output :: "string \<Rightarrow> pyval res"
  four_digits :: "rat \<Rightarrow> string"

abbreviation bworld :: "bench_host \<Rightarrow> world" where
  "bworld h \<equiv> amachine (adopter h)"

text \<open>\<open>fail\<close> raises \<open>RuntimeError\<close>.\<close>

definition demand :: "bool \<Rightarrow> string list \<Rightarrow> unit res" where
  "demand b parts = require b (RuntimeError (msg parts))"

lemma demand_Inr [simp]: "demand b parts = Inr u \<longleftrightarrow> b"
  by (simp add: demand_def)

lemma demand_simps [simp]: "demand True parts = Inr ()" "demand False parts = Inl (RuntimeError (msg parts))"
  by (simp_all add: demand_def)

definition BENCH_REV :: string where
  "BENCH_REV = ''27177f25f551cecefa7bd6c4524abf175b3a75c7''"

definition GATED_METRICS :: "string list" where
  "GATED_METRICS = [''binary_size_bytes'', ''startup_p95_ms'', ''peak_rss_median_bytes'']"

definition REQUIRED_METRICS :: "string list" where
  "REQUIRED_METRICS = [''binary_size_bytes'', ''startup_p95_ms'', ''peak_rss_median_bytes'', ''clean_build_ms'', ''warm_build_ms'']"

definition SIDES :: "string list" where
  "SIDES = [''baseline'', ''candidate'']"

section \<open>Numbers\<close>

definition bench_p95 :: "bench_host \<Rightarrow> rat list \<Rightarrow> rat res" where
  "bench_p95 h xs = bind_res (demand (xs \<noteq> []) [''cannot calculate p95 from no samples'']) (\<lambda>_. p95_of (bench_round h) xs)"

definition bench_median :: "bench_host \<Rightarrow> rat list \<Rightarrow> rat res" where
  "bench_median h xs = bind_res (demand (xs \<noteq> []) [''cannot calculate median from no samples'']) (\<lambda>_. Inr (median_of (bench_round h) xs))"

text \<open>\<open>float(v)\<close> of a number.\<close>

definition number_value :: "bench_host \<Rightarrow> pyval \<Rightarrow> rat" where
  "number_value h v = (if is_int v then bench_round h (the (num_of v)) else the (num_of v))"

definition finite_nonnegative :: "bench_host \<Rightarrow> pyval \<Rightarrow> string \<Rightarrow> rat res" where
  "finite_nonnegative h v label =
     bind_res (demand (num_of v \<noteq> None \<and> \<not> is_bool v \<and> 0 \<le> number_value h v) [label, '': expected a finite non-negative number'']) (\<lambda>_.
     Inr (number_value h v))"

definition raw_series :: "bench_host \<Rightarrow> pydict \<Rightarrow> string \<Rightarrow> string \<Rightarrow> nat \<Rightarrow> string \<Rightarrow> rat list res" where
  "raw_series h raw name side n label =
     (let v = get_if_dict (dget raw name) side; full = msg [label, '' '', name, ''.'', side] in
      bind_res (demand (is_list v \<and> length (the (as_list v)) = n)
        [label, '': '', name, ''.'', side, '' must contain exactly '', str_nat n, '' raw samples'']) (\<lambda>_.
      map_res (\<lambda>x. finite_nonnegative h x full) (the (as_list v))))"

section \<open>What the programs print\<close>

definition version_fields :: "string list" where
  "version_fields = [''tool'', ''version'', ''schema_version'']"

definition semantic_version_output :: "bench_host \<Rightarrow> string \<Rightarrow> pyval \<Rightarrow> string \<Rightarrow> pydict res" where
  "semantic_version_output h output expected label =
     (let fl = float_text (bworld h) in
      bind_res (case loads_output h output of
          Inl (JSONDecodeError e) \<Rightarrow> Inl (RuntimeError (msg [label, '': version --json output is invalid: '', e]))
        | r \<Rightarrow> r) (\<lambda>v.
      bind_res (demand (is_dict v \<and> list_all (has_key (the (as_dict v))) version_fields)
        [label, '': version payload lacks required tool/version/schema_version fields'']) (\<lambda>_.
      let payload = the (as_dict v) in
      bind_res (demand (truthy expected \<longrightarrow> py_eq (dget payload ''tool'') expected)
        [label, '': tool '', py_repr fl (dget payload ''tool''), '' != expected '', py_repr fl expected]) (\<lambda>_.
      Inr payload))))"

text \<open>\<open>base64.b64decode(v, validate=True)\<close>\<close>

definition b64decode_value :: "pyval \<Rightarrow> string res" where
  "b64decode_value v =
     (case as_str v of None \<Rightarrow> Inl TypeError
      | Some s \<Rightarrow>
          if \<not> list_all (between 0 127) s then Inl (ValueError ''string argument should contain only ASCII characters'')
          else (case b64decode_strict s of None \<Rightarrow> Inl (ValueError ''Incorrect base64'') | Some b \<Rightarrow> Inr b))"

section \<open>The checks of a report\<close>

text \<open>The head, and the consumers that the report has to be about.\<close>

definition check_report_head :: "pydict \<Rightarrow> unit res" where
  "check_report_head report =
     bind_res (demand (py_eq (dget report ''schema_version'') (VInt 1) \<and> dget report ''suite'' = VStr ''foundation'') [''benchmark report schema or suite mismatch'']) (\<lambda>_.
     bind_res (demand (dget report ''status'' = VStr ''passed'' \<and> \<not> truthy (dget report ''failures'')) [''benchmark report does not record a passing value gate'']) (\<lambda>_.
     let provenance = dget report ''provenance'' in
     bind_res (demand (is_dict provenance \<and> get_if_dict provenance ''corekit_revision'' = VStr BENCH_REV) [''benchmark report CoreKit provenance mismatch'']) (\<lambda>_.
     let toolchains = get_if_dict provenance ''toolchains'' in
     demand (is_dict toolchains \<and> list_all (\<lambda>name. str_such (\<lambda>s. strip s \<noteq> []) (get_if_dict toolchains name)) [''go'', ''rustc'', ''cargo''])
       [''benchmark report toolchain provenance is incomplete''])))"

text \<open>A canary by the value of its repository; of two with one repository the last counts.\<close>

type_synonym canaries = "(pyval \<times> pydict) list"

definition check_consumer_set :: "pyval list \<Rightarrow> canaries \<Rightarrow> string list res" where
  "check_consumer_set records configured =
     bind_res (map_res (\<lambda>r. bind_res (pget r ''repository'') (\<lambda>v. bind_res (require (hashable v) TypeError) (\<lambda>_. Inr v))) records) (\<lambda>names.
     bind_res (demand (list_all is_str names \<and> distinct names) [''adoption consumer set must be unique'']) (\<lambda>_.
     bind_res (demand (fst ` set configured = set names) [''consumer canary set does not exactly match adoption consumer set'']) (\<lambda>_.
     Inr (strs_of names))))"

definition repository_values :: "pyval list \<Rightarrow> pyval list res" where
  "repository_values items =
     (let vs = List.map_filter (\<lambda>v. map_option (\<lambda>d. dget d ''repository'') (as_dict v)) items in
      bind_res (require (list_all hashable vs) TypeError) (\<lambda>_. Inr vs))"

text \<open>A list of entries whose repositories are exactly the consumers.\<close>

definition exact_entries :: "string list \<Rightarrow> pyval \<Rightarrow> string \<Rightarrow> pyval list res" where
  "exact_entries names v what =
     bind_res (demand (is_list v) [what]) (\<lambda>_.
     let items = the (as_list v) in
     bind_res (repository_values items) (\<lambda>vs.
     bind_res (demand (set vs = VStr ` set names \<and> length items = length names) [what]) (\<lambda>_. Inr items)))"

definition record_of :: "pyval list \<Rightarrow> string \<Rightarrow> pydict res" where
  "record_of records name =
     (case List.find (\<lambda>r. get_if_dict r ''repository'' = VStr name) records of None \<Rightarrow> Inl StopIteration | Some r \<Rightarrow> Inr (the (as_dict r)))"

definition canary_of :: "canaries \<Rightarrow> string \<Rightarrow> pydict res" where
  "canary_of configured name = (case map_of (rev configured) (VStr name) of None \<Rightarrow> Inl (KeyError name) | Some c \<Rightarrow> Inr c)"

definition check_commits :: "string \<Rightarrow> pydict \<Rightarrow> pydict \<Rightarrow> pydict \<Rightarrow> unit res" where
  "check_commits name m r canary =
     demand (py_eq (dget m ''baseline_commit'') (dget r ''pre_adoption_commit'') \<and> py_eq (dget m ''candidate_commit'') (dget r ''adoption_commit'')
         \<and> py_eq (dget m ''candidate_commit'') (dget canary ''adoption_commit''))
       [name, '': benchmark commit provenance mismatch'']"

record summaries =
  startup_sum :: "rat \<times> rat"
  rss_sum :: "rat \<times> rat"
  clean_sum :: "rat \<times> rat"
  warm_sum :: "rat \<times> rat"

definition both_series :: "bench_host \<Rightarrow> pydict \<Rightarrow> string \<Rightarrow> nat \<Rightarrow> string \<Rightarrow> (rat list \<times> rat list) res" where
  "both_series h raw name n label =
     bind_res (raw_series h raw name ''baseline'' n label) (\<lambda>b. bind_res (raw_series h raw name ''candidate'' n label) (\<lambda>c. Inr (b, c)))"

definition both_sides :: "('a \<Rightarrow> 'b res) \<Rightarrow> 'a \<times> 'a \<Rightarrow> ('b \<times> 'b) res" where
  "both_sides f = (\<lambda>(b, c). bind_res (f b) (\<lambda>x. bind_res (f c) (\<lambda>y. Inr (x, y))))"

definition expected_summaries :: "bench_host \<Rightarrow> pydict \<Rightarrow> nat \<Rightarrow> nat \<Rightarrow> string \<Rightarrow> summaries res" where
  "expected_summaries h raw runs build_runs name =
     bind_res (both_series h raw ''startup_ms'' runs name) (\<lambda>startup.
     bind_res (both_series h raw ''rss_bytes'' runs name) (\<lambda>rss.
     bind_res (both_series h raw ''clean_build_ms'' build_runs name) (\<lambda>clean.
     bind_res (both_series h raw ''warm_build_ms'' build_runs name) (\<lambda>warm.
     bind_res (both_sides (bench_p95 h) startup) (\<lambda>startup_s.
     bind_res (both_sides (bench_median h) rss) (\<lambda>rss_s.
     bind_res (both_sides (bench_median h) clean) (\<lambda>clean_s.
     bind_res (both_sides (bench_median h) warm) (\<lambda>warm_s.
     Inr \<lparr>startup_sum = startup_s, rss_sum = rss_s, clean_sum = clean_s, warm_sum = warm_s\<rparr>))))))))"

definition summary_of :: "summaries \<Rightarrow> string \<Rightarrow> (rat \<times> rat) option" where
  "summary_of s = map_of [(''startup_p95_ms'', startup_sum s), (''peak_rss_median_bytes'', rss_sum s), (''clean_build_ms'', clean_sum s), (''warm_build_ms'', warm_sum s)]"

definition summary_matches :: "bench_host \<Rightarrow> (rat \<times> rat) option \<Rightarrow> rat \<Rightarrow> rat \<Rightarrow> bool" where
  "summary_matches h s b c = (case s of None \<Rightarrow> True | Some (x, y) \<Rightarrow> close_to (bench_round h) b x \<and> close_to (bench_round h) c y)"

definition check_metric :: "bench_host \<Rightarrow> string \<Rightarrow> summaries \<Rightarrow> string \<times> pyval \<Rightarrow> unit res" where
  "check_metric h name s = (\<lambda>(metric, v).
     bind_res (demand (is_dict v \<and> list_all (has_key (the (as_dict v))) SIDES) [name, '': malformed metric '', metric]) (\<lambda>_.
     bind_res (finite_nonnegative h (get_if_dict v ''baseline'') (msg [name, '' '', metric, ''.baseline''])) (\<lambda>b.
     bind_res (finite_nonnegative h (get_if_dict v ''candidate'') (msg [name, '' '', metric, ''.candidate''])) (\<lambda>c.
     bind_res (demand (summary_matches h (summary_of s metric) b c) [name, '': stale summary for '', metric]) (\<lambda>_.
     demand (0 < b) [name, '': '', metric, '' baseline must be positive for ratio validation''])))))"

definition check_metrics :: "bench_host \<Rightarrow> string \<Rightarrow> pydict \<Rightarrow> pydict \<Rightarrow> nat \<Rightarrow> nat \<Rightarrow> unit res" where
  "check_metrics h name metrics raw runs build_runs =
     bind_res (expected_summaries h raw runs build_runs name) (\<lambda>s. for_each (check_metric h name s) metrics)"

definition check_workload :: "bench_host \<Rightarrow> string \<Rightarrow> pydict \<Rightarrow> pydict \<Rightarrow> pydict \<Rightarrow> string res" where
  "check_workload h name m canary raw =
     (let out = dget m ''workload_output''; tool = dget canary ''tool''; digest = sha256 (bworld h) in
      bind_res (demand (is_dict out \<and> get_if_dict out ''encoding'' = VStr ''base64'' \<and> get_if_dict out ''comparison'' = VStr ''exact_stdout_bytes''
          \<and> get_if_dict out ''canonicalization_reason'' = VNone) [name, '': workload output evidence must authorize exact stdout comparison'']) (\<lambda>_.
      case (b64decode_value (get_if_dict out ''baseline''), b64decode_value (get_if_dict out ''candidate'')) of
        (Inr a, Inr b) \<Rightarrow>
          bind_res (demand (a = b \<and> get_if_dict out ''baseline_sha256'' = VStr (digest a) \<and> get_if_dict out ''candidate_sha256'' = VStr (digest b))
            [name, '': workload output bytes/digests do not verify'']) (\<lambda>_.
          bind_res (semantic_version_output h a tool name) (\<lambda>p.
          bind_res (semantic_version_output h b tool (name @ '' candidate'')) (\<lambda>q.
          bind_res (demand (py_eq (VDict p) (VDict q)) [name, '': semantic output evidence differs'']) (\<lambda>_.
          bind_res (demand (is_dict (dget raw ''launch_output_sha256'') \<and> is_dict (dget raw ''launch_exit_codes'') \<and> is_dict (dget raw ''launch_stderr''))
            [name, '': launch semantic raw evidence is missing'']) (\<lambda>_. Inr (digest a))))))
      | _ \<Rightarrow> Inl (RuntimeError (msg [name, '': invalid workload output evidence'']))))"

definition check_launches :: "string \<Rightarrow> pydict \<Rightarrow> string \<Rightarrow> nat \<Rightarrow> unit res" where
  "check_launches name raw digest runs =
     for_each (\<lambda>side. demand (py_eq (get_if_dict (dget raw ''launch_output_sha256'') side) (VList (replicate runs (VStr digest)))
         \<and> py_eq (get_if_dict (dget raw ''launch_exit_codes'') side) (VList (replicate runs (VInt 0)))
         \<and> py_eq (get_if_dict (dget raw ''launch_stderr'') side) (VList (replicate runs (VStr []))))
       [name, '': launch semantic raw evidence does not match output'']) SIDES"

definition metric_ratio :: "bench_host \<Rightarrow> pydict \<Rightarrow> string \<Rightarrow> rat" where
  "metric_ratio h metrics metric =
     (let v = dget metrics metric in bench_round h (number_value h (get_if_dict v ''candidate'') / number_value h (get_if_dict v ''baseline'')))"

definition gated_maximum :: "bench_host \<Rightarrow> pydict \<Rightarrow> rat" where
  "gated_maximum h metrics = Max (set (map (metric_ratio h metrics) GATED_METRICS))"

definition check_ratios :: "bench_host \<Rightarrow> string \<Rightarrow> pydict \<Rightarrow> pydict \<Rightarrow> unit res" where
  "check_ratios h name m metrics =
     (let recorded = dget m ''ratios''; rnd = bench_round h in
      bind_res (demand (is_dict recorded \<and> keys_are (the (as_dict recorded)) REQUIRED_METRICS) [name, '': ratios are incomplete'']) (\<lambda>_.
      bind_res (for_each (\<lambda>metric.
          bind_res (finite_nonnegative h (get_if_dict recorded metric) (msg [name, '' ratio '', metric])) (\<lambda>x.
          demand (close_to rnd x (metric_ratio h metrics metric)) [name, '': stale ratio for '', metric])) (keys metrics)) (\<lambda>_.
      bind_res (demand (py_eq (dget m ''regression_gated_metrics'') (VList (map VStr GATED_METRICS))) [name, '': regression gate scope mismatch'']) (\<lambda>_.
      bind_res (finite_nonnegative h (dget m ''maximum_regression_ratio'') (name @ '' maximum ratio'')) (\<lambda>x.
      demand (close_to rnd x (gated_maximum h metrics)) [name, '': stale maximum regression ratio''])))))"

definition check_values :: "bench_host \<Rightarrow> string \<Rightarrow> pydict \<Rightarrow> pydict \<Rightarrow> pydict \<Rightarrow> pydict \<Rightarrow> nat \<Rightarrow> nat \<Rightarrow> unit res" where
  "check_values h name m canary metrics raw runs build_runs =
     bind_res (check_metrics h name metrics raw runs build_runs) (\<lambda>_.
     bind_res (check_workload h name m canary raw) (\<lambda>digest.
     bind_res (check_launches name raw digest runs) (\<lambda>_.
     check_ratios h name m metrics)))"

definition check_named :: "bench_host \<Rightarrow> string \<Rightarrow> pydict \<Rightarrow> pydict \<Rightarrow> pydict \<Rightarrow> nat \<Rightarrow> nat \<Rightarrow> unit res" where
  "check_named h name m r canary runs build_runs =
     bind_res (check_commits name m r canary) (\<lambda>_.
     bind_res (demand (py_eq (dget m ''runs'') (VInt (int runs)) \<and> py_eq (dget m ''build_runs'') (VInt (int build_runs)) \<and> dget m ''raw_samples_retained'' = VBool True)
       [name, '': benchmark run count/raw evidence mismatch'']) (\<lambda>_.
     bind_res (demand (is_dict (dget m ''metrics'') \<and> keys_are (the (as_dict (dget m ''metrics''))) REQUIRED_METRICS \<and> is_dict (dget m ''raw_samples''))
       [name, '': required benchmark metrics/raw samples are missing'']) (\<lambda>_.
     check_values h name m canary (the (as_dict (dget m ''metrics''))) (the (as_dict (dget m ''raw_samples''))) runs build_runs)))"

definition check_measurement :: "bench_host \<Rightarrow> pyval list \<Rightarrow> canaries \<Rightarrow> nat \<Rightarrow> nat \<Rightarrow> pyval \<Rightarrow> string list \<Rightarrow> string list res" where
  "check_measurement h records configured runs build_runs v seen =
     bind_res (demand (is_str (get_if_dict v ''repository'')) [''benchmark report measurement must identify a consumer'']) (\<lambda>_.
     let m = the (as_dict v); name = the (as_str (dget m ''repository'')) in
     bind_res (demand (name \<notin> set seen) [name, '': duplicate benchmark measurement'']) (\<lambda>_.
     bind_res (record_of records name) (\<lambda>r.
     bind_res (canary_of configured name) (\<lambda>canary.
     bind_res (check_named h name m r canary runs build_runs) (\<lambda>_.
     Inr (seen @ [name]))))))"

text \<open>\<open>check_regressions\<close>\<close>

definition regression_ceiling :: "bench_host \<Rightarrow> rat" where
  "regression_ceiling h = bench_round h (11 / 10)"

definition check_regressions :: "bench_host \<Rightarrow> pydict list \<Rightarrow> string list res" where
  "check_regressions h measurements =
     bind_res (map_res (\<lambda>m. bind_res (dindex m ''maximum_regression_ratio'') (\<lambda>v.
       case num_of v of None \<Rightarrow> Inl TypeError
       | Some r \<Rightarrow>
           if regression_ceiling h < r then bind_res (dindex m ''repository'') (\<lambda>name.
             Inr [msg [py_str (float_text (bworld h)) name, '': maximum ratio '', four_digits h r, '' > '', four_digits h (regression_ceiling h)]])
           else Inr [])) measurements) (\<lambda>found. Inr (concat found))"

section \<open>The recorded smoke runs\<close>

text \<open>What the loop over the commands of a consumer has read: the text and the payload.\<close>

type_synonym smoke_state = "string option \<times> pydict option"

definition smoke_args :: "pyval \<Rightarrow> pyval list option" where
  "smoke_args command =
     (case as_list (get_if_dict command ''argv'') of
        Some (x # args) \<Rightarrow>
          if str_such is_absolute x \<and> (VList args = VList [VStr ''version''] \<or> VList args = VList [VStr ''version'', VStr ''--json'']) then Some args else None
      | _ \<Rightarrow> None)"

definition check_smoke_run :: "bench_host \<Rightarrow> string \<Rightarrow> pydict \<Rightarrow> pyval \<times> pyval \<Rightarrow> smoke_state \<Rightarrow> smoke_state res" where
  "check_smoke_run h name canary = (\<lambda>(command, result) (text_seen, payload_seen).
     (case smoke_args command of
        None \<Rightarrow> Inl (RuntimeError (msg [name, '': smoke command is not an absolute artifact command'']))
      | Some args \<Rightarrow>
          bind_res (demand (is_dict result \<and> py_eq (get_if_dict result ''exit_code'') (VInt 0)
              \<and> (get_if_dict result ''stderr'' = VStr [] \<or> get_if_dict result ''stderr'' = VNone)) [name, '': smoke result exit/stderr evidence failed'']) (\<lambda>_.
          let d = the (as_dict result) in
          bind_res (b64decode_value (dget_or d ''stdout_base64'' (VStr []))) (\<lambda>raw_output.
          bind_res (demand (dget d ''stdout_sha256'' = VStr (sha256 (bworld h) raw_output)) [name, '': smoke output digest mismatch'']) (\<lambda>_.
          if last args = VStr ''--json'' then
            bind_res (semantic_version_output h raw_output (dget canary ''tool'') (name @ '' smoke'')) (\<lambda>p. Inr (text_seen, Some p))
          else
            (let printed = decode_replace (adopter h) raw_output in
             bind_res (demand (strip printed \<noteq> []) [name, '': smoke text output is empty'']) (\<lambda>_. Inr (Some printed, payload_seen))))))))"

definition version_line :: "(rat \<Rightarrow> string) \<Rightarrow> pydict \<Rightarrow> string" where
  "version_line fl p = msg [py_str fl (dget p ''tool''), '' '', py_str fl (dget p ''version'')]"

text \<open>Both runs have been seen, and they agree.\<close>

definition texts_agree :: "(rat \<Rightarrow> string) \<Rightarrow> smoke_state \<Rightarrow> bool" where
  "texts_agree fl st = (case st of (Some t, Some p) \<Rightarrow> strip t = version_line fl p | _ \<Rightarrow> False)"

definition check_smoke :: "bench_host \<Rightarrow> pyval list \<Rightarrow> canaries \<Rightarrow> pyval \<Rightarrow> unit res" where
  "check_smoke h records configured v =
     bind_res (demand (get_if_dict v ''passed'' = VBool True) [''standalone smoke evidence is not a passing semantic record'']) (\<lambda>_.
     let d = the (as_dict v); name = the (as_str (dget d ''repository'')) in
     bind_res (record_of records name) (\<lambda>r.
     bind_res (demand (py_eq (dget d ''candidate_commit'') (dget r ''adoption_commit'')) [name, '': smoke candidate commit mismatch'']) (\<lambda>_.
     let commands = dget d ''commands''; results = dget d ''results'' in
     bind_res (demand (is_list commands \<and> is_list results \<and> length (the (as_list commands)) = 2 \<and> length (the (as_list results)) = 2)
       [name, '': smoke text/JSON evidence is incomplete'']) (\<lambda>_.
     bind_res (canary_of configured name) (\<lambda>canary.
     bind_res (fold_res (check_smoke_run h name canary) (zip (the (as_list commands)) (the (as_list results))) (None, None)) (\<lambda>st.
     demand (texts_agree (float_text (bworld h)) st) [name, '': smoke text/JSON semantic outputs disagree'']))))))"

section \<open>The report\<close>

definition validate_bench_report :: "bench_host \<Rightarrow> pyval \<Rightarrow> pyval list \<Rightarrow> canaries \<Rightarrow> nat \<Rightarrow> nat \<Rightarrow> unit res" where
  "validate_bench_report h v records configured runs build_runs =
     bind_res (demand (runs = 50 \<and> build_runs = 10) [''RUST-005 requires exactly 50 launch and 10 clean/warm build samples'']) (\<lambda>_.
     bind_res (case as_dict v of None \<Rightarrow> Inl AttributeError | Some d \<Rightarrow> Inr d) (\<lambda>report.
     bind_res (check_report_head report) (\<lambda>_.
     bind_res (check_consumer_set records configured) (\<lambda>names.
     bind_res (exact_entries names (dget report ''measurements'') ''benchmark report consumer set is not exactly the adoption consumer set'') (\<lambda>items.
     bind_res (fold_res (check_measurement h records configured runs build_runs) items []) (\<lambda>_.
     bind_res (check_regressions h (map (\<lambda>m. the (as_dict m)) items)) (\<lambda>failures.
     bind_res (demand (failures = []) [join ''; '' failures]) (\<lambda>_.
     bind_res (exact_entries names (dget report ''standalone_smokes'') ''standalone smoke evidence consumer set is not exact'') (\<lambda>smokes.
     for_each (check_smoke h records configured) smokes)))))))))"

section \<open>Checking a recorded report\<close>

record bench_args =
  suite_arg :: "string option"
  runs_arg :: int
  build_runs_arg :: int
  smoke_arg :: bool
  report_arg :: "path option"

definition load_document :: "bench_host \<Rightarrow> path \<Rightarrow> pyval res" where
  "load_document h p = bind_res (read_text (bworld h) p) (json_loads (bworld h))"

text \<open>\<open>{item["repository"]: item for item in canaries.get("consumers", [])}\<close>\<close>

definition configured_canaries :: "pyval \<Rightarrow> canaries res" where
  "configured_canaries v =
     bind_res (bind_res (pget_or v ''consumers'' (VList [])) iter_items) (\<lambda>items.
     map_res (\<lambda>item. bind_res (pindex item ''repository'') (\<lambda>k. bind_res (require (hashable k) TypeError) (\<lambda>_. Inr (k, the (as_dict item))))) items)"

definition bench_report_path :: "bench_host \<Rightarrow> bench_args \<Rightarrow> string \<Rightarrow> path" where
  "bench_report_path h a suite =
     (case report_arg a of Some p \<Rightarrow> p
      | None \<Rightarrow> aroot (adopter h) @ [''testdata'', ''rust-port'', ''benchmarks'', suite @ (if smoke_arg a then ''-smoke.json'' else ''.json'')])"

definition bench_check :: "bench_host \<Rightarrow> bench_args \<Rightarrow> nat res" where
  "bench_check h a =
     (case suite_arg a of None \<Rightarrow> Inr 2
      | Some suite \<Rightarrow>
          if runs_arg a \<noteq> 50 \<or> build_runs_arg a \<noteq> 10 then Inr 2 else
          bind_res (load_document h (aroot (adopter h) @ [''testdata'', ''rust-port'', ''adoption'', ''evidence.json''])) (\<lambda>evidence.
          bind_res (load_document h (aroot (adopter h) @ [''testdata'', ''rust-port'', ''cases'', ''consumer-canaries.json''])) (\<lambda>canaries.
          bind_res (pget_or evidence ''consumers'' (VList [])) (\<lambda>records.
          bind_res (configured_canaries canaries) (\<lambda>configured.
          bind_res (demand (is_list records \<and> 2 \<le> length (the (as_list records))) [''at least two adoption records are required'']) (\<lambda>_.
          bind_res (load_document h (bench_report_path h a suite)) (\<lambda>report.
          bind_res (validate_bench_report h report (the (as_list records)) configured (nat (runs_arg a)) (nat (build_runs_arg a))) (\<lambda>_. Inr 0))))))))"

fun is_bench_error :: "pyexc \<Rightarrow> bool" where
  "is_bench_error (ProcessFailed _) = True"
| "is_bench_error e = (is_os_error e \<or> is_value_error e \<or> is_runtime_error e)"

definition bench_script :: "bench_host \<Rightarrow> bench_args \<Rightarrow> nat res" where
  "bench_script h a = (case bench_check h a of Inr n \<Rightarrow> Inr n | Inl e \<Rightarrow> if is_bench_error e then Inr 1 else Inl e)"

section \<open>What an accepted report shows\<close>

text \<open>The raw samples of a side.\<close>

definition samples :: "bench_host \<Rightarrow> pydict \<Rightarrow> string \<Rightarrow> string \<Rightarrow> nat \<Rightarrow> rat list \<Rightarrow> bool" where
  "samples h raw name side n xs \<longleftrightarrow>
     (\<exists>vs. get_if_dict (dget raw name) side = VList vs \<and> length vs = n \<and> xs = map (number_value h) vs
        \<and> (\<forall>v \<in> set vs. num_of v \<noteq> None \<and> \<not> is_bool v \<and> 0 \<le> number_value h v))"

lemma finite_nonnegative_Inr:
  "finite_nonnegative h v label = Inr x \<longleftrightarrow> num_of v \<noteq> None \<and> \<not> is_bool v \<and> 0 \<le> number_value h v \<and> x = number_value h v"
  by (auto simp: finite_nonnegative_def bind_res_eq_Inr)

lemma raw_series_Inr: "raw_series h raw name side n label = Inr xs \<longleftrightarrow> samples h raw name side n xs"
proof -
  have "list_all2 (\<lambda>v x. num_of v \<noteq> None \<and> \<not> is_bool v \<and> 0 \<le> number_value h v \<and> x = number_value h v) vs xs \<longleftrightarrow>
      xs = map (number_value h) vs \<and> (\<forall>v \<in> set vs. num_of v \<noteq> None \<and> \<not> is_bool v \<and> 0 \<le> number_value h v)" for vs
    by (induction vs arbitrary: xs) (auto simp: list_all2_Cons1)
  then show ?thesis
    by (auto simp: raw_series_def samples_def Let_def bind_res_eq_Inr map_res_Inr finite_nonnegative_Inr is_list_iff)
qed

definition metric_value :: "bench_host \<Rightarrow> pydict \<Rightarrow> string \<Rightarrow> string \<Rightarrow> rat" where
  "metric_value h metrics metric side = number_value h (get_if_dict (dget metrics metric) side)"

text \<open>The four recorded summaries of a side are those of its raw samples.\<close>

definition side_sound :: "bench_host \<Rightarrow> pydict \<Rightarrow> pydict \<Rightarrow> string \<Rightarrow> bool" where
  "side_sound h raw metrics side \<longleftrightarrow>
     (\<exists>startup rss clean warm p. samples h raw ''startup_ms'' side 50 startup \<and> samples h raw ''rss_bytes'' side 50 rss
        \<and> samples h raw ''clean_build_ms'' side 10 clean \<and> samples h raw ''warm_build_ms'' side 10 warm
        \<and> p95_of (bench_round h) startup = Inr p \<and> close_to (bench_round h) (metric_value h metrics ''startup_p95_ms'' side) p
        \<and> close_to (bench_round h) (metric_value h metrics ''peak_rss_median_bytes'' side) (median_of (bench_round h) rss)
        \<and> close_to (bench_round h) (metric_value h metrics ''clean_build_ms'' side) (median_of (bench_round h) clean)
        \<and> close_to (bench_round h) (metric_value h metrics ''warm_build_ms'' side) (median_of (bench_round h) warm))"

definition version_document :: "bench_host \<Rightarrow> string \<Rightarrow> pyval \<Rightarrow> pydict \<Rightarrow> bool" where
  "version_document h output expected p \<longleftrightarrow>
     loads_output h output = Inr (VDict p) \<and> list_all (has_key p) version_fields \<and> (truthy expected \<longrightarrow> py_eq (dget p ''tool'') expected)"

lemma semantic_Inr: "semantic_version_output h output expected label = Inr p \<longleftrightarrow> version_document h output expected p"
proof (cases "loads_output h output")
  case (Inl e)
  then show ?thesis by (cases e) (simp_all add: semantic_version_output_def version_document_def)
next
  case (Inr v)
  then show ?thesis by (cases v) (auto simp: semantic_version_output_def version_document_def bind_res_eq_Inr Let_def)
qed

text \<open>Both programs printed the same version document, in every launch, and nothing else.\<close>

definition outputs_sound :: "bench_host \<Rightarrow> pydict \<Rightarrow> pydict \<Rightarrow> pydict \<Rightarrow> bool" where
  "outputs_sound h m canary raw \<longleftrightarrow>
     (\<exists>out bytes p. dget m ''workload_output'' = VDict out \<and> b64decode_value (dget out ''baseline'') = Inr bytes
        \<and> b64decode_value (dget out ''candidate'') = Inr bytes \<and> version_document h bytes (dget canary ''tool'') p
        \<and> (\<forall>side \<in> set SIDES. py_eq (get_if_dict (dget raw ''launch_output_sha256'') side) (VList (replicate 50 (VStr (sha256 (bworld h) bytes))))
             \<and> py_eq (get_if_dict (dget raw ''launch_exit_codes'') side) (VList (replicate 50 (VInt 0)))
             \<and> py_eq (get_if_dict (dget raw ''launch_stderr'') side) (VList (replicate 50 (VStr [])))))"

definition measurement_sound :: "bench_host \<Rightarrow> pydict \<Rightarrow> pydict \<Rightarrow> pydict \<Rightarrow> bool" where
  "measurement_sound h r canary m \<longleftrightarrow>
     (\<exists>metrics raw x. dget m ''metrics'' = VDict metrics \<and> dget m ''raw_samples'' = VDict raw \<and> keys_are metrics REQUIRED_METRICS
        \<and> py_eq (dget m ''baseline_commit'') (dget r ''pre_adoption_commit'') \<and> py_eq (dget m ''candidate_commit'') (dget r ''adoption_commit'')
        \<and> (\<forall>side \<in> set SIDES. side_sound h raw metrics side)
        \<and> (\<forall>metric \<in> set REQUIRED_METRICS. 0 < metric_value h metrics metric ''baseline'' \<and> 0 \<le> metric_value h metrics metric ''candidate'')
        \<and> outputs_sound h m canary raw
        \<and> num_of (dget m ''maximum_regression_ratio'') = Some x \<and> x \<le> regression_ceiling h
        \<and> close_to (bench_round h) (number_value h (dget m ''maximum_regression_ratio'')) (gated_maximum h metrics))"

lemma expected_summaries_Inr:
  assumes "expected_summaries h raw runs build_runs name = Inr s"
  obtains st_b st_c rss_b rss_c cl_b cl_c wm_b wm_c p q where
    "samples h raw ''startup_ms'' ''baseline'' runs st_b" "samples h raw ''startup_ms'' ''candidate'' runs st_c"
    "samples h raw ''rss_bytes'' ''baseline'' runs rss_b" "samples h raw ''rss_bytes'' ''candidate'' runs rss_c"
    "samples h raw ''clean_build_ms'' ''baseline'' build_runs cl_b" "samples h raw ''clean_build_ms'' ''candidate'' build_runs cl_c"
    "samples h raw ''warm_build_ms'' ''baseline'' build_runs wm_b" "samples h raw ''warm_build_ms'' ''candidate'' build_runs wm_c"
    "p95_of (bench_round h) st_b = Inr p" "p95_of (bench_round h) st_c = Inr q"
    "s = \<lparr>startup_sum = (p, q), rss_sum = (median_of (bench_round h) rss_b, median_of (bench_round h) rss_c),
       clean_sum = (median_of (bench_round h) cl_b, median_of (bench_round h) cl_c), warm_sum = (median_of (bench_round h) wm_b, median_of (bench_round h) wm_c)\<rparr>"
proof -
  from assms obtain st_b st_c rss_b rss_c cl_b cl_c wm_b wm_c p q where
    a: "samples h raw ''startup_ms'' ''baseline'' runs st_b" "samples h raw ''startup_ms'' ''candidate'' runs st_c"
    "samples h raw ''rss_bytes'' ''baseline'' runs rss_b" "samples h raw ''rss_bytes'' ''candidate'' runs rss_c"
    "samples h raw ''clean_build_ms'' ''baseline'' build_runs cl_b" "samples h raw ''clean_build_ms'' ''candidate'' build_runs cl_c"
    "samples h raw ''warm_build_ms'' ''baseline'' build_runs wm_b" "samples h raw ''warm_build_ms'' ''candidate'' build_runs wm_c"
    and b: "both_sides (bench_p95 h) (st_b, st_c) = Inr (p, q)"
    and c: "both_sides (bench_median h) (rss_b, rss_c) = Inr (rss_sum s)" "both_sides (bench_median h) (cl_b, cl_c) = Inr (clean_sum s)"
      "both_sides (bench_median h) (wm_b, wm_c) = Inr (warm_sum s)"
    and d: "startup_sum s = (p, q)"
    unfolding expected_summaries_def both_series_def bind_res_eq_Inr raw_series_Inr by (elim exE conjE) auto
  from b c d show thesis by (intro that [OF a]) (auto simp: both_sides_def bench_p95_def bench_median_def bind_res_eq_Inr)
qed

lemma check_metric_Inr:
  "check_metric h name s (metric, v) = Inr () \<longleftrightarrow>
     (\<exists>d. v = VDict d \<and> list_all (has_key d) SIDES \<and> (\<forall>side \<in> set SIDES. num_of (dget d side) \<noteq> None \<and> \<not> is_bool (dget d side) \<and> 0 \<le> number_value h (dget d side))
        \<and> summary_matches h (summary_of s metric) (number_value h (dget d ''baseline'')) (number_value h (dget d ''candidate''))
        \<and> 0 < number_value h (dget d ''baseline''))"
  by (auto simp: check_metric_def bind_res_eq_Inr finite_nonnegative_Inr is_dict_iff SIDES_def)

lemma metrics_entry:
  assumes "keys_are metrics ks" "k \<in> set ks"
  shows "\<exists>v. map_of metrics k = Some v \<and> (k, v) \<in> set metrics"
proof -
  from assms have "k \<in> fst ` set metrics" by (auto simp: keys_are_def keys_def)
  then obtain v where "map_of metrics k = Some v" by (metis map_of_eq_None_iff not_None_eq)
  then show ?thesis by (auto dest: map_of_SomeD)
qed

lemma check_metrics_Inr:
  assumes "check_metrics h name metrics raw 50 10 = Inr ()" "keys_are metrics REQUIRED_METRICS"
  shows "(\<forall>side \<in> set SIDES. side_sound h raw metrics side)
    \<and> (\<forall>metric \<in> set REQUIRED_METRICS. 0 < metric_value h metrics metric ''baseline'' \<and> 0 \<le> metric_value h metrics metric ''candidate'')"
proof -
  from assms(1) obtain s where s: "expected_summaries h raw 50 10 name = Inr s" and all: "\<forall>e \<in> set metrics. check_metric h name s e = Inr ()"
    by (auto simp: check_metrics_def bind_res_eq_Inr)
  have metric: "summary_matches h (summary_of s k) (metric_value h metrics k ''baseline'') (metric_value h metrics k ''candidate'')
      \<and> 0 < metric_value h metrics k ''baseline'' \<and> 0 \<le> metric_value h metrics k ''candidate''" if k: "k \<in> set REQUIRED_METRICS" for k
  proof -
    from metrics_entry [OF assms(2) k] obtain v where v: "map_of metrics k = Some v" "(k, v) \<in> set metrics" by auto
    with all have "check_metric h name s (k, v) = Inr ()" by blast
    with v(1) show ?thesis by (auto simp: check_metric_Inr metric_value_def dget_def SIDES_def split: option.splits)
  qed
  have "side_sound h raw metrics ''baseline'' \<and> side_sound h raw metrics ''candidate''"
  proof (rule expected_summaries_Inr [OF s])
    fix st_b st_c rss_b rss_c cl_b cl_c wm_b wm_c p q
    assume samples: "samples h raw ''startup_ms'' ''baseline'' 50 st_b" "samples h raw ''startup_ms'' ''candidate'' 50 st_c"
      "samples h raw ''rss_bytes'' ''baseline'' 50 rss_b" "samples h raw ''rss_bytes'' ''candidate'' 50 rss_c"
      "samples h raw ''clean_build_ms'' ''baseline'' 10 cl_b" "samples h raw ''clean_build_ms'' ''candidate'' 10 cl_c"
      "samples h raw ''warm_build_ms'' ''baseline'' 10 wm_b" "samples h raw ''warm_build_ms'' ''candidate'' 10 wm_c"
      "p95_of (bench_round h) st_b = Inr p" "p95_of (bench_round h) st_c = Inr q"
    assume "s = \<lparr>startup_sum = (p, q), rss_sum = (median_of (bench_round h) rss_b, median_of (bench_round h) rss_c),
       clean_sum = (median_of (bench_round h) cl_b, median_of (bench_round h) cl_c), warm_sum = (median_of (bench_round h) wm_b, median_of (bench_round h) wm_c)\<rparr>"
    then have sums: "summary_of s ''startup_p95_ms'' = Some (p, q)" "summary_of s ''peak_rss_median_bytes'' = Some (median_of (bench_round h) rss_b, median_of (bench_round h) rss_c)"
      "summary_of s ''clean_build_ms'' = Some (median_of (bench_round h) cl_b, median_of (bench_round h) cl_c)"
      "summary_of s ''warm_build_ms'' = Some (median_of (bench_round h) wm_b, median_of (bench_round h) wm_c)"
      by (simp_all add: summary_of_def)
    note close = metric [of "''startup_p95_ms''"] metric [of "''peak_rss_median_bytes''"] metric [of "''clean_build_ms''"] metric [of "''warm_build_ms''"]
    from close [unfolded sums] samples show ?thesis unfolding side_sound_def by (simp add: REQUIRED_METRICS_def summary_matches_def) blast
  qed
  with metric show ?thesis by (simp add: SIDES_def)
qed

lemma check_workload_Inr:
  assumes "check_workload h name m canary raw = Inr digest"
  shows "\<exists>out bytes p. dget m ''workload_output'' = VDict out \<and> b64decode_value (dget out ''baseline'') = Inr bytes
    \<and> b64decode_value (dget out ''candidate'') = Inr bytes \<and> version_document h bytes (dget canary ''tool'') p \<and> digest = sha256 (bworld h) bytes"
  using assms unfolding check_workload_def Let_def
  by (auto simp: bind_res_eq_Inr is_dict_iff semantic_Inr split: sum.splits)

lemma check_ratios_Inr:
  assumes "check_ratios h name m metrics = Inr ()"
  shows "num_of (dget m ''maximum_regression_ratio'') \<noteq> None
    \<and> close_to (bench_round h) (number_value h (dget m ''maximum_regression_ratio'')) (gated_maximum h metrics)"
  using assms unfolding check_ratios_def Let_def by (auto simp: bind_res_eq_Inr finite_nonnegative_Inr)

lemma check_values_Inr:
  assumes "check_values h name m canary metrics raw 50 10 = Inr ()" "keys_are metrics REQUIRED_METRICS"
  shows "(\<forall>side \<in> set SIDES. side_sound h raw metrics side)
    \<and> (\<forall>metric \<in> set REQUIRED_METRICS. 0 < metric_value h metrics metric ''baseline'' \<and> 0 \<le> metric_value h metrics metric ''candidate'')
    \<and> outputs_sound h m canary raw
    \<and> close_to (bench_round h) (number_value h (dget m ''maximum_regression_ratio'')) (gated_maximum h metrics)"
proof -
  from assms(1) obtain digest where metrics: "check_metrics h name metrics raw 50 10 = Inr ()" and work: "check_workload h name m canary raw = Inr digest"
    and launches: "check_launches name raw digest 50 = Inr ()" and ratios: "check_ratios h name m metrics = Inr ()"
    by (auto simp: check_values_def bind_res_eq_Inr)
  have "outputs_sound h m canary raw"
    using check_workload_Inr [OF work] launches unfolding outputs_sound_def check_launches_def by auto
  then show ?thesis using check_metrics_Inr [OF metrics assms(2)] check_ratios_Inr [OF ratios] by blast
qed

text \<open>What one step of the loop over the measurements establishes, once the ceiling is applied.\<close>

definition measurement_checked :: "bench_host \<Rightarrow> pyval list \<Rightarrow> canaries \<Rightarrow> pyval \<Rightarrow> bool" where
  "measurement_checked h records configured v \<longleftrightarrow>
     (\<exists>m name r canary. v = VDict m \<and> dget m ''repository'' = VStr name \<and> record_of records name = Inr r \<and> canary_of configured name = Inr canary
        \<and> (\<forall>x. num_of (dget m ''maximum_regression_ratio'') = Some x \<longrightarrow> x \<le> regression_ceiling h \<longrightarrow> measurement_sound h r canary m))"

lemma check_measurement_Inr:
  assumes "check_measurement h records configured 50 10 v seen = Inr out"
  shows "measurement_checked h records configured v"
proof -
  from assms obtain m name r canary where m: "v = VDict m" "dget m ''repository'' = VStr name"
    and r: "record_of records name = Inr r" and c: "canary_of configured name = Inr canary" and named: "check_named h name m r canary 50 10 = Inr ()"
    by (cases v) (auto simp: check_measurement_def bind_res_eq_Inr get_if_dict_def is_str_iff)
  from named obtain ms raw where d: "dget m ''metrics'' = VDict ms" "dget m ''raw_samples'' = VDict raw" and k: "keys_are ms REQUIRED_METRICS"
    and commits: "check_commits name m r canary = Inr ()" and vals: "check_values h name m canary ms raw 50 10 = Inr ()"
    by (auto simp: check_named_def bind_res_eq_Inr is_dict_iff)
  have "measurement_sound h r canary m" if "num_of (dget m ''maximum_regression_ratio'') = Some x" "x \<le> regression_ceiling h" for x
    using that check_values_Inr [OF vals k] commits d k unfolding measurement_sound_def check_commits_def by simp
  with m r c show ?thesis unfolding measurement_checked_def by blast
qed

lemma fold_measurements:
  "fold_res (check_measurement h records configured 50 10) items seen = Inr out \<Longrightarrow> v \<in> set items \<Longrightarrow> measurement_checked h records configured v"
  by (induction items arbitrary: seen) (auto simp: bind_res_eq_Inr dest: check_measurement_Inr)

lemma check_regressions_Nil:
  assumes "check_regressions h ms = Inr []" "m \<in> set ms"
  shows "\<exists>x. num_of (dget m ''maximum_regression_ratio'') = Some x \<and> x \<le> regression_ceiling h"
proof -
  let ?v = "dget m ''maximum_regression_ratio''"
  from assms(1) obtain found where found: "map_res (\<lambda>m. bind_res (dindex m ''maximum_regression_ratio'') (\<lambda>v.
       case num_of v of None \<Rightarrow> Inl TypeError
       | Some r \<Rightarrow>
           if regression_ceiling h < r then bind_res (dindex m ''repository'') (\<lambda>name.
             Inr [msg [py_str (float_text (bworld h)) name, '': maximum ratio '', four_digits h r, '' > '', four_digits h (regression_ceiling h)]])
           else Inr [])) ms = Inr found" and "concat found = []" by (auto simp: check_regressions_def bind_res_eq_Inr)
  then have all: "\<forall>y \<in> set found. y = []" by simp
  from list_all2_all_same [OF found [unfolded map_res_Inr] all assms(2)] show ?thesis
    by (auto simp: bind_res_eq_Inr dindex_def dget_def split: option.splits if_splits)
qed

section \<open>What the smoke runs show\<close>

definition smoke_run_ok :: "bench_host \<Rightarrow> pyval \<Rightarrow> pyval \<Rightarrow> pyval list \<Rightarrow> string \<Rightarrow> bool" where
  "smoke_run_ok h command result args raw_output \<longleftrightarrow>
     smoke_args command = Some args
     \<and> (\<exists>d. result = VDict d \<and> py_eq (dget d ''exit_code'') (VInt 0) \<and> (dget d ''stderr'' = VStr [] \<or> dget d ''stderr'' = VNone)
          \<and> b64decode_value (dget_or d ''stdout_base64'' (VStr [])) = Inr raw_output \<and> dget d ''stdout_sha256'' = VStr (sha256 (bworld h) raw_output))"

lemma check_smoke_run_Inr:
  "check_smoke_run h name canary (command, result) (t0, p0) = Inr (t1, p1) \<longleftrightarrow>
     (\<exists>args raw_output. smoke_run_ok h command result args raw_output
        \<and> (if last args = VStr ''--json'' then t1 = t0 \<and> (\<exists>p. p1 = Some p \<and> version_document h raw_output (dget canary ''tool'') p)
           else p1 = p0 \<and> t1 = Some (decode_replace (adopter h) raw_output) \<and> strip (decode_replace (adopter h) raw_output) \<noteq> []))"
  by (auto simp: check_smoke_run_def smoke_run_ok_def bind_res_eq_Inr is_dict_iff semantic_Inr Let_def split: option.splits if_splits)

text \<open>A run that printed text and a run that printed the document, about the same tool and version.\<close>

definition smoke_pair :: "bench_host \<Rightarrow> pydict \<Rightarrow> pyval \<times> pyval \<Rightarrow> pyval \<times> pyval \<Rightarrow> bool" where
  "smoke_pair h canary plain json \<longleftrightarrow>
     (\<exists>args jargs out bytes p. smoke_run_ok h (fst plain) (snd plain) args out \<and> smoke_run_ok h (fst json) (snd json) jargs bytes
        \<and> last jargs = VStr ''--json'' \<and> last args \<noteq> VStr ''--json'' \<and> version_document h bytes (dget canary ''tool'') p
        \<and> strip (decode_replace (adopter h) out) = version_line (float_text (bworld h)) p)"

definition smoke_sound :: "bench_host \<Rightarrow> pydict \<Rightarrow> pydict \<Rightarrow> pydict \<Rightarrow> bool" where
  "smoke_sound h r canary d \<longleftrightarrow>
     py_eq (dget d ''candidate_commit'') (dget r ''adoption_commit'')
     \<and> (\<exists>c1 c2 r1 r2. dget d ''commands'' = VList [c1, c2] \<and> dget d ''results'' = VList [r1, r2]
          \<and> (smoke_pair h canary (c1, r1) (c2, r2) \<or> smoke_pair h canary (c2, r2) (c1, r1)))"

lemma texts_agree_iff: "texts_agree fl st \<longleftrightarrow> (\<exists>t p. st = (Some t, Some p) \<and> strip t = version_line fl p)"
  by (auto simp: texts_agree_def split: prod.splits option.splits)

lemma check_smoke_Inr:
  assumes "check_smoke h records configured v = Inr ()" "str_such (\<lambda>s. s = name) (get_if_dict v ''repository'')"
  shows "\<exists>d r canary. v = VDict d \<and> record_of records name = Inr r \<and> canary_of configured name = Inr canary \<and> smoke_sound h r canary d"
proof -
  from assms(2) obtain d where d: "v = VDict d" "dget d ''repository'' = VStr name" by (cases v) (auto simp: get_if_dict_def str_such_iff)
  from assms(1) d obtain r canary t p where r: "record_of records name = Inr r" and commit: "py_eq (dget d ''candidate_commit'') (dget r ''adoption_commit'')"
    and c: "canary_of configured name = Inr canary" and shape: "is_list (dget d ''commands'')" "is_list (dget d ''results'')"
      "length (the (as_list (dget d ''commands''))) = 2" "length (the (as_list (dget d ''results''))) = 2"
    and runs: "fold_res (check_smoke_run h name canary) (zip (the (as_list (dget d ''commands''))) (the (as_list (dget d ''results'')))) (None, None) = Inr (Some t, Some p)"
    and same: "strip t = version_line (float_text (bworld h)) p"
    by (auto simp: check_smoke_def Let_def bind_res_eq_Inr texts_agree_iff simp del: fold_res.simps)
  from shape obtain c1 c2 r1 r2 where lists: "dget d ''commands'' = VList [c1, c2]" "dget d ''results'' = VList [r1, r2]"
    by (auto simp: is_list_iff numeral_2_eq_2 length_Suc_conv)
  from runs lists obtain t1 p1 where one: "check_smoke_run h name canary (c1, r1) (None, None) = Inr (t1, p1)"
    and two: "check_smoke_run h name canary (c2, r2) (t1, p1) = Inr (Some t, Some p)"
    by (auto simp: bind_res_eq_Inr)
  have "smoke_pair h canary (c1, r1) (c2, r2) \<or> smoke_pair h canary (c2, r2) (c1, r1)"
  proof (cases "p1 = None")
    case True
    with one two same have "smoke_pair h canary (c1, r1) (c2, r2)" unfolding smoke_pair_def check_smoke_run_Inr fst_conv snd_conv by (metis option.inject option.distinct(1))
    then show ?thesis ..
  next
    case False
    with one two same have "smoke_pair h canary (c2, r2) (c1, r1)" unfolding smoke_pair_def check_smoke_run_Inr fst_conv snd_conv by (metis option.inject option.distinct(1))
    then show ?thesis ..
  qed
  with lists commit have "smoke_sound h r canary d" unfolding smoke_sound_def by blast
  with d r c show ?thesis by blast
qed

lemma exact_entries_Inr:
  "exact_entries names v what = Inr items \<longleftrightarrow>
     v = VList items \<and> list_all hashable (List.map_filter (\<lambda>v. map_option (\<lambda>d. dget d ''repository'') (as_dict v)) items)
     \<and> set (List.map_filter (\<lambda>v. map_option (\<lambda>d. dget d ''repository'') (as_dict v)) items) = VStr ` set names \<and> length items = length names"
  by (auto simp: exact_entries_def repository_values_def Let_def bind_res_eq_Inr is_list_iff)

lemma exact_entries_covers:
  assumes "exact_entries names v what = Inr items" "name \<in> set names"
  shows "\<exists>d. VDict d \<in> set items \<and> dget d ''repository'' = VStr name"
proof -
  from assms have "VStr name \<in> set (List.map_filter (\<lambda>v. map_option (\<lambda>d. dget d ''repository'') (as_dict v)) items)" by (simp add: exact_entries_Inr)
  then show ?thesis by (auto simp: mem_map_filter)
qed

lemma check_consumer_set_Inr:
  assumes "check_consumer_set records configured = Inr names"
  shows "distinct names \<and> map (\<lambda>r. get_if_dict r ''repository'') records = map VStr names \<and> fst ` set configured = VStr ` set names"
proof -
  from assms obtain vs where vs: "list_all2 (\<lambda>r v. pget r ''repository'' = Inr v \<and> hashable v) records vs" and strs: "list_all is_str vs" "distinct vs"
    and c: "fst ` set configured = set vs" and names: "names = strs_of vs"
    by (auto simp: check_consumer_set_def bind_res_eq_Inr map_res_Inr)
  from strs have v: "vs = map VStr names" using names all_str_map [of vs] by (simp add: all_str_def list_all_iff)
  have "map (\<lambda>r. get_if_dict r ''repository'') records = vs"
    using vs by (induction rule: list_all2_induct) auto
  with v strs c show ?thesis by (simp add: distinct_map)
qed

lemma record_of_Inr:
  assumes "record_of records name = Inr r"
  shows "\<exists>v \<in> set records. v = VDict r \<and> dget r ''repository'' = VStr name"
proof -
  from assms obtain v where v: "v \<in> set records" "get_if_dict v ''repository'' = VStr name" "r = the (as_dict v)"
    by (auto simp: record_of_def split: option.splits dest!: find_SomeD)
  then obtain d where "v = VDict d" using get_if_dict_not_None [of v "''repository''"] by auto
  with v show ?thesis by auto
qed

text \<open>A consumer of the records with its measurement and its smoke run.\<close>

definition consumer_sound :: "bench_host \<Rightarrow> pyval list \<Rightarrow> canaries \<Rightarrow> pyval list \<Rightarrow> pyval list \<Rightarrow> string \<Rightarrow> bool" where
  "consumer_sound h records configured items smokes name \<longleftrightarrow>
     (\<exists>r canary m s. VDict r \<in> set records \<and> dget r ''repository'' = VStr name \<and> canary_of configured name = Inr canary
        \<and> VDict m \<in> set items \<and> dget m ''repository'' = VStr name \<and> measurement_sound h r canary m
        \<and> VDict s \<in> set smokes \<and> dget s ''repository'' = VStr name \<and> smoke_sound h r canary s)"

definition bench_sound :: "bench_host \<Rightarrow> pyval \<Rightarrow> pyval list \<Rightarrow> canaries \<Rightarrow> bool" where
  "bench_sound h report records configured \<longleftrightarrow>
     (\<exists>d names items smokes. report = VDict d \<and> distinct names \<and> map (\<lambda>r. get_if_dict r ''repository'') records = map VStr names
        \<and> fst ` set configured = VStr ` set names \<and> dget d ''status'' = VStr ''passed'' \<and> dget d ''measurements'' = VList items \<and> dget d ''standalone_smokes'' = VList smokes
        \<and> length items = length names \<and> length smokes = length names
        \<and> (\<forall>name \<in> set names. consumer_sound h records configured items smokes name))"

lemma validate_bench_report_Inr:
  assumes "validate_bench_report h v records configured 50 10 = Inr ()"
  shows "bench_sound h v records configured"
proof -
  from assms obtain d names items seen smokes where d: "v = VDict d" and head: "check_report_head d = Inr ()"
    and names: "check_consumer_set records configured = Inr names"
    and items: "exact_entries names (dget d ''measurements'') ''benchmark report consumer set is not exactly the adoption consumer set'' = Inr items"
    and fold: "fold_res (check_measurement h records configured 50 10) items [] = Inr seen"
    and ceiling: "check_regressions h (map (\<lambda>m. the (as_dict m)) items) = Inr []"
    and smokes: "exact_entries names (dget d ''standalone_smokes'') ''standalone smoke evidence consumer set is not exact'' = Inr smokes"
    and each: "\<forall>s \<in> set smokes. check_smoke h records configured s = Inr ()"
    by (auto simp: validate_bench_report_def bind_res_eq_Inr split: option.splits)
  have "consumer_sound h records configured items smokes name" if "name \<in> set names" for name
  proof -
    from exact_entries_covers [OF items that] obtain m where m: "VDict m \<in> set items" "dget m ''repository'' = VStr name" by blast
    from exact_entries_covers [OF smokes that] obtain s where s: "VDict s \<in> set smokes" "dget s ''repository'' = VStr name" by blast
    from fold_measurements [OF fold m(1)] m(2) obtain r canary where r: "record_of records name = Inr r" and c: "canary_of configured name = Inr canary"
      and sound: "\<And>x. num_of (dget m ''maximum_regression_ratio'') = Some x \<Longrightarrow> x \<le> regression_ceiling h \<Longrightarrow> measurement_sound h r canary m"
      unfolding measurement_checked_def by auto
    have "m \<in> set (map (\<lambda>m. the (as_dict m)) items)" using m(1) by force
    from check_regressions_Nil [OF ceiling this] sound have "measurement_sound h r canary m" by blast
    moreover have "smoke_sound h r canary s"
      using check_smoke_Inr [of h records configured "VDict s" name] each s r c by auto
    moreover from record_of_Inr [OF r] have "VDict r \<in> set records" "dget r ''repository'' = VStr name" by auto
    ultimately show ?thesis using c m s unfolding consumer_sound_def by blast
  qed
  moreover have "dget d ''status'' = VStr ''passed''" using head by (auto simp: check_report_head_def Let_def bind_res_eq_Inr)
  moreover have "dget d ''measurements'' = VList items" "length items = length names" "dget d ''standalone_smokes'' = VList smokes" "length smokes = length names"
    using items smokes by (simp_all add: exact_entries_Inr)
  ultimately show ?thesis using d check_consumer_set_Inr [OF names] unfolding bench_sound_def
    by (intro exI [of _ d] exI [of _ names] exI [of _ items] exI [of _ smokes]) simp
qed


end
