(* ===== verification/BenchMeasure.thy ===== *)
theory BenchMeasure
  imports Bench
begin

text \<open>
  The measurements of the benchmark, \<open>scripts/rust-port/bench.py\<close>: what \<open>/usr/bin/time\<close> prints, a timed launch,
  the comparison of the paired launches, the metrics and the record that \<open>measure\<close> writes. The builds, the
  archives and the launches are parameters; a launch is told apart by its directory, so each is asked for once.
  The main result is that what \<open>measure\<close> writes is accepted by the checks of a recorded report.
\<close>

record finished =
  elapsed_ms :: rat
  exit_status :: int
  printed :: string
  complaints :: string

record measure_host =
  bench :: bench_host
  launch_timed :: "path \<Rightarrow> string list \<Rightarrow> path \<Rightarrow> finished res"
  unpack :: "string \<Rightarrow> path \<Rightarrow> unit res"
  build_binary :: "string \<Rightarrow> path \<Rightarrow> path \<Rightarrow> pydict \<Rightarrow> (path \<times> string) res"
  build_times :: "string \<Rightarrow> path \<Rightarrow> path \<Rightarrow> pydict \<Rightarrow> nat \<Rightarrow> (rat list \<times> rat list) res"
  byte_count :: "path \<Rightarrow> int res"
  run_artifact :: "path \<Rightarrow> string list \<Rightarrow> path \<Rightarrow> (int \<times> string \<times> string) res"

section \<open>The report of the timer\<close>

text \<open>\<open>int(s)\<close> of a text without surrounding white space.\<close>

definition digits_value :: "string \<Rightarrow> int" where
  "digits_value s = foldl (\<lambda>n c. 10 * n + (of_char c - 48)) 0 s"

definition int_text :: "string \<Rightarrow> int option" where
  "int_text s =
     (let (negative, body) = (case s of c # t \<Rightarrow> if c = CHR ''-'' then (True, t) else if c = CHR ''+'' then (False, t) else (False, s) | [] \<Rightarrow> (False, s));
        groups = split_on (CHR ''_'') body in
      if list_all (\<lambda>g. g \<noteq> [] \<and> list_all is_digit g) groups
      then Some (if negative then - digits_value (concat groups) else digits_value (concat groups)) else None)"

definition RSS_LABEL :: string where
  "RSS_LABEL = ''maximum resident set size''"

text \<open>\<open>re.search(r"(\d+)\s+maximum resident set size", line)\<close>, its first group.\<close>

fun rss_search :: "string \<Rightarrow> string option" where
  "rss_search [] = None"
| "rss_search (c # s) =
     (let ds = takeWhile is_digit (c # s); rest = dropWhile is_digit (c # s) in
      if ds \<noteq> [] \<and> takeWhile is_space rest \<noteq> [] \<and> startswith (lstrip rest) RSS_LABEL then Some ds else rss_search s)"

definition GNU_RSS_LABEL :: string where
  "GNU_RSS_LABEL = ''Maximum resident set size''"

definition gnu_rss :: "string \<Rightarrow> int res" where
  "gnu_rss line =
     (case split_ws (strip (drop (length (before '':'' line) + 1) line)) of
        [] \<Rightarrow> Inl IndexError
      | w # _ \<Rightarrow> (case int_text w of None \<Rightarrow> Inl (ValueError (msg [''invalid literal for int() with base 10: '', repr_str w])) | Some n \<Rightarrow> Inr (n * 1024)))"

fun rss_of_lines :: "string list \<Rightarrow> int option res" where
  "rss_of_lines [] = Inr None"
| "rss_of_lines (line # lines) =
     (case (if contains RSS_LABEL line then rss_search line else None) of
        Some ds \<Rightarrow> Inr (Some (digits_value ds))
      | None \<Rightarrow>
          if contains GNU_RSS_LABEL line \<and> contains '':'' line then bind_res (gnu_rss line) (\<lambda>n. Inr (Some n))
          else rss_of_lines lines)"

definition parse_rss :: "measure_host \<Rightarrow> string \<Rightarrow> int option res" where
  "parse_rss h err = rss_of_lines (splitlines (decode_replace (adopter (bench h)) err))"

definition ALLOWED_STARTS :: "string list" where
  "ALLOWED_STARTS = [[CHR 0x09], ''Command being timed:'', ''User time (seconds):'', ''System time (seconds):'',
     ''Percent of CPU this job got:'', ''Elapsed (wall clock) time:'', ''Average shared text size:'',
     ''Average unshared data size:'', ''Average stack size:'', ''Average total size:'',
     ''Maximum resident set size:'', ''Average resident set size:'', ''Major (requiring I/O) page faults:'',
     ''Minor (reclaiming a frame) page faults:'', ''Voluntary context switches:'',
     ''Involuntary context switches:'', ''Swaps:'', ''File system inputs:'', ''File system outputs:'',
     ''Socket messages sent:'', ''Socket messages received:'', ''Signals delivered:'', ''Page size (bytes):'',
     ''Exit status:'', ''real '', ''user '', ''sys '', ''maximum resident set size'']"

definition MAC_LABELS :: "string list" where
  "MAC_LABELS = [''maximum resident set size'', ''average shared memory size'', ''average unshared memory size'', ''average unshared data size'',
     ''average unshared stack size'', ''page reclaims'', ''page faults'', ''swaps'', ''block input operations'', ''block output operations'',
     ''messages sent'', ''messages received'', ''signals received'', ''voluntary context switches'', ''involuntary context switches'',
     ''instructions retired'', ''cycles elapsed'', ''peak memory footprint'']"

text \<open>What follows \<open>^\s*\d+(?:\.\d+)?\s+\<close>, where a line starts so.\<close>

definition after_fraction :: "string \<Rightarrow> string" where
  "after_fraction r = (case r of c # t \<Rightarrow> if c = CHR ''.'' \<and> takeWhile is_digit t \<noteq> [] then dropWhile is_digit t else r | [] \<Rightarrow> r)"

definition after_number :: "string \<Rightarrow> string option" where
  "after_number line =
     (let s = lstrip line; r = after_fraction (dropWhile is_digit s) in
      if takeWhile is_digit s \<noteq> [] \<and> takeWhile is_space r \<noteq> [] then Some (lstrip r) else None)"

definition word_ends :: "string \<Rightarrow> bool" where
  "word_ends s = (case s of [] \<Rightarrow> True | c # _ \<Rightarrow> \<not> (isalnum c \<or> c = CHR ''_''))"

definition time_line :: "string \<Rightarrow> bool" where
  "time_line line =
     (line = [] \<or> list_ex (startswith line) ALLOWED_STARTS
      \<or> (case after_number line of None \<Rightarrow> False
         | Some rest \<Rightarrow> list_ex (\<lambda>w. startswith rest w \<and> word_ends (drop (length w) rest)) [''real'', ''user'', ''sys''] \<or> rest \<in> set MAC_LABELS))"

definition time_report_lines :: "measure_host \<Rightarrow> string \<Rightarrow> string list" where
  "time_report_lines h err = filter (\<lambda>line. \<not> time_line line) (splitlines (decode_replace (adopter (bench h)) err))"

text \<open>The rows of the timer are told apart by how they start, so that what a program prints itself can pass for one.\<close>

lemma program_line_passes_for_the_timer: "time_line ''user lookup failed''" "time_line (CHR 0x09 # s)"
proof -
  show "time_line ''user lookup failed''" by code_simp
  show "time_line (CHR 0x09 # s)" by (simp add: time_line_def ALLOWED_STARTS_def startswith_def)
qed

section \<open>Launches\<close>

record launch_sample =
  startup_ms :: rat
  rss_bytes :: int
  launch_stdout :: string
  launch_code :: int

definition timed_launch :: "measure_host \<Rightarrow> path \<Rightarrow> string list \<Rightarrow> path \<Rightarrow> launch_sample res" where
  "timed_launch h binary args run_root =
     bind_res (launch_timed h binary args run_root) (\<lambda>f.
     let shown = decode_replace (adopter (bench h)) (complaints f) in
     bind_res (demand (exit_status f = 0) [''standalone command failed ('', str_int (exit_status f), ''): '', absolute_path binary, '' '', join '' '' args, [CHR 0x0A], shown]) (\<lambda>_.
     let unexpected = time_report_lines h (complaints f) in
     bind_res (demand (unexpected = []) [''standalone command wrote unexpected stderr: '', join '' | '' unexpected]) (\<lambda>_.
     bind_res (parse_rss h (complaints f)) (\<lambda>rss.
     case rss of None \<Rightarrow> Inl (RuntimeError ''/usr/bin/time did not report maximum resident set size'')
     | Some n \<Rightarrow> Inr \<lparr>startup_ms = elapsed_ms f, rss_bytes = n, launch_stdout = printed f, launch_code = exit_status f\<rparr>))))"

definition compare_semantics :: "bench_host \<Rightarrow> launch_sample \<Rightarrow> launch_sample \<Rightarrow> pydict \<Rightarrow> string \<Rightarrow> nat \<Rightarrow> unit res" where
  "compare_semantics h go rust record_d name index =
     (let at_launch = msg ['' launch '', str_nat index] in
      bind_res (demand (launch_code go = launch_code rust) [name, at_launch, '': Go/Rust exit semantics differ'']) (\<lambda>_.
      bind_res (semantic_version_output h (launch_stdout go) (dget record_d ''tool'') (msg [name, '' Go'', at_launch])) (\<lambda>p.
      bind_res (semantic_version_output h (launch_stdout rust) (dget record_d ''tool'') (msg [name, '' Rust'', at_launch])) (\<lambda>q.
      bind_res (demand (launch_stdout go = launch_stdout rust) [name, at_launch, '': Go/Rust stdout bytes differ; no canonicalization is authorized'']) (\<lambda>_.
      demand (py_eq (VDict p) (VDict q)) [name, at_launch, '': Go/Rust semantic payloads differ''])))))"

text \<open>The paired launches in order.\<close>

definition paired_launch :: "measure_host \<Rightarrow> path \<Rightarrow> path \<Rightarrow> path \<Rightarrow> pydict \<Rightarrow> string \<Rightarrow> nat \<Rightarrow> (launch_sample \<times> launch_sample) res" where
  "paired_launch h root_dir go rust record_d name index =
     bind_res (timed_launch h go [''version'', ''--json''] (root_dir @ [''go-run-'' @ str_nat index])) (\<lambda>g.
     bind_res (timed_launch h rust [''version'', ''--json''] (root_dir @ [''rust-run-'' @ str_nat index])) (\<lambda>r.
     bind_res (compare_semantics (bench h) g r record_d name index) (\<lambda>_. Inr (g, r))))"

section \<open>Sources\<close>

definition archive_checkout :: "measure_host \<Rightarrow> path \<Rightarrow> string \<Rightarrow> path \<Rightarrow> string \<Rightarrow> unit res" where
  "archive_checkout h source revision destination rname =
     (let a = adopter (bench h) in
      bind_res (demand (is_dir (amachine a) source) [''checkout is not a directory: '', absolute_path source]) (\<lambda>_.
      bind_res (assert_origin a source rname) (\<lambda>_.
      case run_git (amachine a) [''archive'', ''--format=tar'', revision] source of (exit_code, out, err) \<Rightarrow>
        bind_res (demand (exit_code = 0) [''cannot archive '', absolute_path source, '' at '', revision, '': '', err]) (\<lambda>_. unpack h out destination))))"

definition check_file_below :: "measure_host \<Rightarrow> path \<Rightarrow> string \<Rightarrow> string \<Rightarrow> pyval \<Rightarrow> unit res" where
  "check_file_below h source label what v =
     (let a = adopter (bench h) in
      bind_res (safe_checkout_child a source v label) (\<lambda>p.
      demand (is_file (amachine a) p) [what, py_str (float_text (amachine a)) v]))"

definition trusted_source :: "measure_host \<Rightarrow> pydict \<Rightarrow> string list \<Rightarrow> path \<Rightarrow> path res" where
  "trusted_source h record_d revisions root_dir =
     (let a = adopter (bench h) in
      bind_res (checkout_for_record (a\<lparr>fetch_root := root_dir @ [''fetch'']\<rparr>) record_d revisions) (\<lambda>(source, disposable).
      bind_res (dindex record_d ''repository'') (\<lambda>v.
      let name = py_str (float_text (amachine a)) v; paths = dget record_d ''manifest_paths'' in
      bind_res (assert_origin a source name) (\<lambda>_.
      bind_res (demand (is_list paths \<and> paths \<noteq> VList []) [name, '': manifest_paths must be a non-empty array'']) (\<lambda>_.
      bind_res (for_each (check_file_below h source (name @ ''.manifest_paths'') (name @ '': manifest_paths path is not a file: '')) (the (as_list paths))) (\<lambda>_.
      bind_res (case as_dict (dget_or record_d ''duplicate'' (VDict [])) of
          None \<Rightarrow> Inr ()
        | Some d \<Rightarrow>
            let extra = dget_or d ''source_paths'' (VList []) in
            bind_res (demand (is_list extra) [name, '': duplicate source_paths must be an array'']) (\<lambda>_.
            for_each (check_file_below h source (name @ ''.duplicate.source_paths'') (name @ '': duplicate source path is not a file: '')) (the (as_list extra)))) (\<lambda>_.
      Inr source)))))))"

section \<open>The metrics\<close>

text \<open>\<open>statistics.median\<close> of integers: an integer, or the half of the sum of two.\<close>

definition median_value :: "bench_host \<Rightarrow> int list \<Rightarrow> pyval res" where
  "median_value h ns =
     bind_res (demand (ns \<noteq> []) [''cannot calculate median from no samples'']) (\<lambda>_.
     let s = sort ns; n = length s in
     Inr (if odd n then VInt (s ! (n div 2)) else VFloat (bench_round h (of_int (s ! (n div 2 - 1) + s ! (n div 2)) / 2))))"

definition float_metric :: "rat res \<Rightarrow> pyval res" where
  "float_metric r = bind_res r (\<lambda>x. Inr (VFloat x))"

definition side_values :: "pyval res \<Rightarrow> pyval res \<Rightarrow> pyval res" where
  "side_values x y = bind_res x (\<lambda>b. bind_res y (\<lambda>c. Inr (VDict [(''baseline'', b), (''candidate'', c)])))"

definition divide_values :: "bench_host \<Rightarrow> pyval \<Rightarrow> pyval \<Rightarrow> rat res" where
  "divide_values h x y =
     (case (num_of x, num_of y) of
        (Some a, Some b) \<Rightarrow>
          if b = 0 then Inl ZeroDivisionError
          else if is_int x \<and> is_int y then Inr (bench_round h (a / b))
          else Inr (bench_round h (number_value h x / number_value h y))
      | _ \<Rightarrow> Inl TypeError)"

definition metric_entry :: "string \<Rightarrow> pyval res \<Rightarrow> pyval res \<Rightarrow> (string \<times> pyval) res" where
  "metric_entry name x y = bind_res (side_values x y) (\<lambda>v. Inr (name, v))"

record built =
  go_file :: path
  rust_file :: path
  go_command :: string
  rust_command :: string
  go_times :: "rat list \<times> rat list"
  rust_times :: "rat list \<times> rat list"

definition measured_metrics :: "measure_host \<Rightarrow> built \<Rightarrow> launch_sample list \<Rightarrow> launch_sample list \<Rightarrow> pydict res" where
  "measured_metrics h b gos rusts =
     (let bh = bench h in
      bind_res (metric_entry ''binary_size_bytes'' (bind_res (byte_count h (go_file b)) (\<lambda>n. Inr (VInt n))) (bind_res (byte_count h (rust_file b)) (\<lambda>n. Inr (VInt n)))) (\<lambda>binary_size.
      bind_res (metric_entry ''startup_p95_ms'' (float_metric (bench_p95 bh (map startup_ms gos))) (float_metric (bench_p95 bh (map startup_ms rusts)))) (\<lambda>startup.
      bind_res (metric_entry ''peak_rss_median_bytes'' (median_value bh (map rss_bytes gos)) (median_value bh (map rss_bytes rusts))) (\<lambda>rss.
      bind_res (metric_entry ''clean_build_ms'' (float_metric (bench_median bh (fst (go_times b)))) (float_metric (bench_median bh (fst (rust_times b))))) (\<lambda>clean.
      bind_res (metric_entry ''warm_build_ms'' (float_metric (bench_median bh (snd (go_times b)))) (float_metric (bench_median bh (snd (rust_times b))))) (\<lambda>warm.
      Inr [binary_size, startup, rss, clean, warm]))))))"

definition measured_ratios :: "bench_host \<Rightarrow> pydict \<Rightarrow> (string \<times> rat) list res" where
  "measured_ratios h metrics =
     map_res (\<lambda>(name, v). bind_res (divide_values h (get_if_dict v ''candidate'') (get_if_dict v ''baseline'')) (\<lambda>x. Inr (name, x))) metrics"

definition MEASURE_NOTE :: string where
  "MEASURE_NOTE = ''Startup p95, RSS median, and binary size enforce the 10% PERF-001 ceiling. Clean/warm build distributions are required/reporting under PERF-002 and do not use that ceiling.''"

definition two_sides :: "('a \<Rightarrow> pyval) \<Rightarrow> 'a list \<Rightarrow> 'a list \<Rightarrow> pyval" where
  "two_sides f xs ys = VDict [(''baseline'', VList (map f xs)), (''candidate'', VList (map f ys))]"

definition raw_record :: "measure_host \<Rightarrow> built \<Rightarrow> launch_sample list \<Rightarrow> launch_sample list \<Rightarrow> nat \<Rightarrow> pydict" where
  "raw_record h b gos rusts runs =
     [(''startup_ms'', two_sides (\<lambda>s. VFloat (startup_ms s)) gos rusts), (''rss_bytes'', two_sides (\<lambda>s. VInt (rss_bytes s)) gos rusts),
      (''clean_build_ms'', two_sides VFloat (fst (go_times b)) (fst (rust_times b))), (''warm_build_ms'', two_sides VFloat (snd (go_times b)) (snd (rust_times b))),
      (''launch_output_sha256'', two_sides (\<lambda>s. VStr (sha256 (bworld (bench h)) (launch_stdout s))) gos rusts),
      (''launch_exit_codes'', two_sides (\<lambda>s. VInt (launch_code s)) gos rusts),
      (''launch_stderr'', two_sides (\<lambda>_. VStr []) (replicate runs ()) (replicate runs ()))]"

text \<open>The output of the last launch; the digest is that of the bytes the base64 text stands for.\<close>

definition last_output :: "launch_sample list \<Rightarrow> string" where
  "last_output ss = (if ss = [] then [] else launch_stdout (last ss))"

definition workload_record :: "measure_host \<Rightarrow> launch_sample list \<Rightarrow> launch_sample list \<Rightarrow> pyval" where
  "workload_record h gos rusts =
     (let g = b64encode (last_output gos); r = b64encode (last_output rusts); digest = (\<lambda>t. sha256 (bworld (bench h)) (the (b64decode_strict t))) in
      VDict [(''encoding'', VStr ''base64''), (''baseline'', VStr g), (''candidate'', VStr r), (''baseline_sha256'', VStr (digest g)),
        (''candidate_sha256'', VStr (digest r)), (''comparison'', VStr ''exact_stdout_bytes''), (''canonicalization_reason'', VNone)])"

definition measurement_of :: "measure_host \<Rightarrow> pyval \<Rightarrow> string \<Rightarrow> string \<Rightarrow> nat \<Rightarrow> nat \<Rightarrow> built \<Rightarrow> (launch_sample \<times> launch_sample) list \<Rightarrow> pydict res" where
  "measurement_of h name old_c after_c runs build_runs b pairs =
     (let gos = map fst pairs; rusts = map snd pairs in
      bind_res (measured_metrics h b gos rusts) (\<lambda>metrics.
      bind_res (measured_ratios (bench h) metrics) (\<lambda>ratios.
      Inr [(''repository'', name), (''baseline_commit'', VStr old_c), (''candidate_commit'', VStr after_c), (''workload'', VStr ''version --json''),
        (''runs'', VInt (int runs)), (''build_runs'', VInt (int build_runs)),
        (''build_commands'', VDict [(''go'', VStr (go_command b)), (''rust'', VStr (rust_command b))]),
        (''metrics'', VDict metrics), (''ratios'', VDict (map (\<lambda>(k, x). (k, VFloat x)) ratios)),
        (''regression_gated_metrics'', VList (map VStr GATED_METRICS)),
        (''maximum_regression_ratio'', VFloat (Max (set (map (\<lambda>k. the (map_of ratios k)) GATED_METRICS)))),
        (''raw_samples'', VDict (raw_record h b gos rusts runs)), (''workload_output'', workload_record h gos rusts),
        (''raw_samples_retained'', VBool True), (''note'', VStr MEASURE_NOTE)])))"

text \<open>A commit that is not a string cannot be archived.\<close>

definition commit_of :: "pydict \<Rightarrow> string \<Rightarrow> string res" where
  "commit_of d k = bind_res (dindex d k) (\<lambda>v. case as_str v of None \<Rightarrow> Inl TypeError | Some s \<Rightarrow> Inr s)"

definition measure :: "measure_host \<Rightarrow> pydict \<Rightarrow> nat \<Rightarrow> nat \<Rightarrow> path \<Rightarrow> pydict res" where
  "measure h record_d runs build_runs root_dir =
     (let fl = float_text (bworld (bench h)) in
      bind_res (commit_of record_d ''pre_adoption_commit'') (\<lambda>old_c.
      bind_res (commit_of record_d ''adoption_commit'') (\<lambda>after_c.
      bind_res (trusted_source h record_d [old_c, after_c] root_dir) (\<lambda>source.
      bind_res (dindex record_d ''repository'') (\<lambda>rv.
      let name = py_str fl rv; old = root_dir @ [''before'']; new = root_dir @ [''after''] in
      bind_res (archive_checkout h source old_c old name) (\<lambda>_.
      bind_res (archive_checkout h source after_c new name) (\<lambda>_.
      bind_res (build_binary h ''go'' old root_dir record_d) (\<lambda>(go, go_text).
      bind_res (build_binary h ''rust'' new root_dir record_d) (\<lambda>(rust, rust_text).
      bind_res (demand (py_eq (dget_or record_d ''version_argv'' (VList [VStr ''version'', VStr ''--json''])) (VList [VStr ''version'', VStr ''--json'']))
        [name, '': benchmark workload must be version --json'']) (\<lambda>_.
      bind_res (map_res (paired_launch h root_dir go rust record_d name) [0..<runs]) (\<lambda>pairs.
      bind_res (build_times h ''go'' old (root_dir @ [''go-distribution'']) record_d build_runs) (\<lambda>gt.
      bind_res (build_times h ''rust'' new (root_dir @ [''rust-distribution'']) record_d build_runs) (\<lambda>rt.
      measurement_of h rv old_c after_c runs build_runs
        \<lparr>go_file = go, rust_file = rust, go_command = go_text, rust_command = rust_text, go_times = gt, rust_times = rt\<rparr> pairs)))))))))))))"

section \<open>Smoke runs\<close>

definition smoke_payload :: "measure_host \<Rightarrow> string \<Rightarrow> pydict \<Rightarrow> string \<Rightarrow> pydict res" where
  "smoke_payload h name record_d out =
     (let fl = float_text (bworld (bench h)) in
      bind_res (case loads_output (bench h) out of
          Inl (JSONDecodeError e) \<Rightarrow> Inl (RuntimeError (msg [''smoke JSON is invalid for '', name, '': '', e])) | r \<Rightarrow> r) (\<lambda>v.
      bind_res (demand (is_dict v \<and> list_all (has_key (the (as_dict v))) version_fields)
        [''smoke JSON lacks required semantic fields for '', name, '': '', py_str fl v]) (\<lambda>_.
      bind_res (demand (truthy (dget record_d ''tool'') \<longrightarrow> py_eq (dget (the (as_dict v)) ''tool'') (dget record_d ''tool''))
        [''smoke tool mismatch for '', name, '': '', py_str fl v]) (\<lambda>_.
      Inr (the (as_dict v))))))"

text \<open>One of the two runs: what it adds to the commands, the results and what has been read.\<close>

definition smoke_run :: "measure_host \<Rightarrow> string \<Rightarrow> pydict \<Rightarrow> path \<Rightarrow> path \<Rightarrow> string list \<Rightarrow> (pyval \<times> pyval) list \<times> smoke_state \<Rightarrow> ((pyval \<times> pyval) list \<times> smoke_state) res" where
  "smoke_run h name record_d artifact root_dir args = (\<lambda>(entries, text_seen, payload_seen).
     bind_res (run_artifact h artifact args (root_dir @ [''smoke-'' @ join ''-'' args])) (\<lambda>(status, out, err).
     bind_res (demand (status = 0) [''smoke failed for '', name, '': '', absolute_path artifact, '' '', join '' '' args]) (\<lambda>_.
     let shown = decode_replace (adopter (bench h)) err; printed = decode_replace (adopter (bench h)) out in
     bind_res (demand (shown = []) [''smoke wrote unexpected stderr for '', name, '': '', shown]) (\<lambda>_.
     bind_res (if last args = ''--json'' then bind_res (smoke_payload h name record_d out) (\<lambda>p. Inr (text_seen, Some p))
       else bind_res (demand (strip printed \<noteq> []) [''smoke text output is empty for '', name]) (\<lambda>_. Inr (Some printed, payload_seen))) (\<lambda>(t, p).
     Inr (entries @ [(VDict [(''argv'', VList (map VStr (absolute_path artifact # args)))],
         VDict [(''argv'', VList (map VStr args)), (''exit_code'', VInt status), (''stderr'', VStr shown), (''stdout_base64'', VStr (b64encode out)),
           (''stdout_sha256'', VStr (sha256 (bworld (bench h)) out)),
           (''semantic'', if last args = ''--json'' then (case p of None \<Rightarrow> VNone | Some d \<Rightarrow> VDict d) else VDict [(''text'', VStr printed)])])], t, p))))))"

definition smoke :: "measure_host \<Rightarrow> pydict \<Rightarrow> path \<Rightarrow> pydict res" where
  "smoke h record_d root_dir =
     (let fl = float_text (bworld (bench h)) in
      bind_res (commit_of record_d ''adoption_commit'') (\<lambda>commit.
      bind_res (trusted_source h record_d [commit] root_dir) (\<lambda>source.
      bind_res (dindex record_d ''repository'') (\<lambda>rv.
      let name = py_str fl rv; candidate = root_dir @ [''candidate''] in
      bind_res (archive_checkout h source commit candidate name) (\<lambda>_.
      bind_res (build_binary h ''rust'' candidate root_dir record_d) (\<lambda>(artifact, command_text).
      bind_res (fold_res (smoke_run h name record_d artifact root_dir) [[''version''], [''version'', ''--json'']] ([], None, None)) (\<lambda>(entries, st).
      bind_res (demand (texts_agree fl st) [''smoke text/JSON semantic outputs disagree for '', name]) (\<lambda>_.
      Inr [(''repository'', rv), (''candidate_commit'', VStr commit), (''passed'', VBool True), (''artifact_kind'', VStr ''benchmark-owned''),
        (''build_command'', VStr command_text), (''commands'', VList (map fst entries)), (''results'', VList (map snd entries))]))))))))"

section \<open>A run of the benchmark\<close>

text \<open>The status that a run records and prints, with the measurements and smoke runs of its report. An approved
  security exception clears the failures.\<close>

definition exception_approved :: "pyval \<Rightarrow> bool" where
  "exception_approved e = (is_dict e \<and> truthy (get_if_dict e ''issue_url'') \<and> get_if_dict e ''reviewed'' = VBool True)"

definition merged_with :: "canaries \<Rightarrow> pydict \<Rightarrow> (pydict \<times> string) res" where
  "merged_with configured r =
     bind_res (dindex r ''repository'') (\<lambda>v.
     bind_res (require (hashable v) TypeError) (\<lambda>_.
     case (map_of (rev configured) v, as_str v) of
       (Some c, Some s) \<Rightarrow> Inr (dict_update r c, s) | (Some c, None) \<Rightarrow> Inl AttributeError | (None, _) \<Rightarrow> Inl (KeyError [])))"

definition record_root :: "path \<Rightarrow> string \<Rightarrow> path" where
  "record_root base name = base @ [dashed name]"

definition run_benchmark :: "measure_host \<Rightarrow> bool \<Rightarrow> pyval \<Rightarrow> pydict list \<Rightarrow> canaries \<Rightarrow> nat \<Rightarrow> nat \<Rightarrow> path \<Rightarrow> (string \<times> pydict list \<times> pydict list) res" where
  "run_benchmark h smoke_only security_exception records configured runs build_runs base =
     bind_res (map_res (\<lambda>r. bind_res (merged_with configured r) (\<lambda>(d, name). smoke h d (record_root base name))) records) (\<lambda>smokes.
     if smoke_only then Inr (''passed'', [], smokes)
     else
       bind_res (map_res (\<lambda>r. bind_res (merged_with configured r) (\<lambda>(d, name). measure h d runs build_runs (record_root base name))) records) (\<lambda>measurements.
       bind_res (check_regressions (bench h) measurements) (\<lambda>failures.
       Inr (if failures \<noteq> [] \<and> \<not> exception_approved security_exception then ''failed'' else ''passed'', measurements, smokes))))"

definition run_exit_code :: "string \<Rightarrow> nat" where
  "run_exit_code status = (if status = ''failed'' then 1 else 0)"

text \<open>A run over the ceiling that an approved exception lets pass: the check refuses its report all the same.\<close>

lemma check_ignores_the_exception:
  assumes "run_benchmark h False e records configured runs build_runs base = Inr (''passed'', measurements, smokes)"
    and "check_regressions (bench h) measurements = Inr failures" "failures \<noteq> []"
    and "dget report ''measurements'' = VList (map VDict measurements)"
  shows "exception_approved e \<and> validate_bench_report (bench h) (VDict report) rs configured runs build_runs \<noteq> Inr ()"
proof -
  have "exception_approved e" using assms by (auto simp: run_benchmark_def bind_res_eq_Inr split: if_splits)
  moreover have "validate_bench_report (bench h) (VDict report) rs configured runs build_runs \<noteq> Inr ()"
    using assms(2-4) by (auto simp: validate_bench_report_def bind_res_eq_Inr exact_entries_Inr comp_def)
  ultimately show ?thesis ..
qed

section \<open>What is written is accepted\<close>

text \<open>What the measurements of a machine look like: times and sizes are not negative, integers are exact in its
  floating point, and the program prints the same document in every launch.\<close>

definition exact_rounding :: "bench_host \<Rightarrow> bool" where
  "exact_rounding h \<longleftrightarrow> (\<forall>n. \<bar>n\<bar> < 2 ^ 53 \<longrightarrow> bench_round h (of_int n) = of_int n) \<and> (\<forall>x \<ge> 0. 0 \<le> bench_round h x)"

definition plausible_launch :: "string \<Rightarrow> launch_sample \<Rightarrow> bool" where
  "plausible_launch out s \<longleftrightarrow> 0 \<le> startup_ms s \<and> 0 \<le> rss_bytes s \<and> rss_bytes s < 2 ^ 52 \<and> launch_stdout s = out \<and> launch_code s = 0"

definition plausible_times :: "nat \<Rightarrow> rat list \<times> rat list \<Rightarrow> bool" where
  "plausible_times n t \<longleftrightarrow> length (fst t) = n \<and> length (snd t) = n \<and> (\<forall>x \<in> set (fst t) \<union> set (snd t). 0 \<le> x)"

lemma exact_int: "exact_rounding h \<Longrightarrow> \<bar>n\<bar> < 2 ^ 53 \<Longrightarrow> bench_round h (of_int n) = of_int n"
  by (simp add: exact_rounding_def)

lemma sort_map_of_int: "sort (map rat_of_int ns) = map rat_of_int (sort ns)"
  by (rule properties_for_sort) (simp_all add: sorted_map sorted_wrt_mono_rel [OF _ sorted_sort])

lemma sort_nth_mem: "i < length xs \<Longrightarrow> sort xs ! i \<in> set xs"
  by (metis length_sort nth_mem set_sort)

lemma median_nonneg:
  assumes "exact_rounding h" "xs \<noteq> []" "\<forall>x \<in> set xs. 0 \<le> x"
  shows "0 \<le> median_of (bench_round h) xs"
proof -
  have at: "0 \<le> sort xs ! i" if "i < length xs" for i using sort_nth_mem [OF that] assms(3) by blast
  have "length xs div 2 < length xs" "length xs div 2 - 1 < length xs" using assms(2) by (auto simp: div_less_dividend length_greater_0_conv less_imp_diff_less)
  then have "0 \<le> sort xs ! (length xs div 2)" "0 \<le> sort xs ! (length xs div 2 - 1)" using at by blast+
  with assms(1) show ?thesis by (simp add: median_of_def Let_def exact_rounding_def)
qed

text \<open>The summary of a metric as the checks read it.\<close>

definition reads_as :: "bench_host \<Rightarrow> pyval \<Rightarrow> rat \<Rightarrow> bool" where
  "reads_as h v x \<longleftrightarrow> num_of v \<noteq> None \<and> \<not> is_bool v \<and> number_value h v = x \<and> 0 \<le> x \<and> (is_int v \<longrightarrow> num_of v = Some x)"

lemma reads_as_float: "0 \<le> x \<Longrightarrow> reads_as h (VFloat x) x"
  by (simp add: reads_as_def number_value_def)

lemma reads_as_int: "exact_rounding h \<Longrightarrow> 0 \<le> n \<Longrightarrow> n < 2 ^ 53 \<Longrightarrow> reads_as h (VInt n) (of_int n)"
  by (simp add: reads_as_def number_value_def exact_rounding_def)

lemma median_value_reads:
  assumes r: "exact_rounding h" and v: "median_value h ns = Inr v" and ns: "\<forall>n \<in> set ns. 0 \<le> n \<and> n < 2 ^ 52"
  shows "reads_as h v (median_of (bench_round h) (map of_int ns))"
proof -
  let ?s = "sort ns" and ?n = "length ns"
  from v have ne: "ns \<noteq> []" and v': "v = (if odd ?n then VInt (?s ! (?n div 2)) else VFloat (bench_round h (of_int (?s ! (?n div 2 - 1) + ?s ! (?n div 2)) / 2)))"
    by (auto simp: median_value_def Let_def bind_res_eq_Inr)
  have at: "0 \<le> ?s ! i \<and> ?s ! i < 2 ^ 52" if "i < ?n" for i using sort_nth_mem [OF that] ns by blast
  have i: "?n div 2 < ?n" "?n div 2 - 1 < ?n" using ne by (auto simp: div_less_dividend length_greater_0_conv less_imp_diff_less)
  show ?thesis
  proof (cases "odd ?n")
    case True
    with v' i(1) at [OF i(1)] r show ?thesis
      by (auto simp: median_of_def Let_def sort_map_of_int intro!: reads_as_int)
  next
    case False
    have sum: "bench_round h (of_int (?s ! (?n div 2 - 1) + ?s ! (?n div 2))) = of_int (?s ! (?n div 2 - 1) + ?s ! (?n div 2))"
      using r at [OF i(1)] at [OF i(2)] by (intro exact_int) auto
    have "0 \<le> bench_round h (of_int (?s ! (?n div 2 - 1) + ?s ! (?n div 2)) / 2)"
      using r at [OF i(1)] at [OF i(2)] unfolding exact_rounding_def by simp
    with False v' i sum show ?thesis
      by (auto simp: median_of_def Let_def sort_map_of_int intro!: reads_as_float)
  qed
qed

text \<open>The five metrics of a measurement as the checks read them.\<close>

definition metric_table :: "bench_host \<Rightarrow> (string \<times> rat \<times> rat) list \<Rightarrow> pydict \<Rightarrow> bool" where
  "metric_table h = list_all2 (\<lambda>(k, x, y) (k', v). k' = k \<and> (\<exists>b c. v = VDict [(''baseline'', b), (''candidate'', c)] \<and> reads_as h b x \<and> reads_as h c y))"

definition sample_sums :: "bench_host \<Rightarrow> built \<Rightarrow> launch_sample list \<Rightarrow> launch_sample list \<Rightarrow> rat \<Rightarrow> rat \<Rightarrow> summaries" where
  "sample_sums h b gos rusts p q =
     (let med = median_of (bench_round h) in
      \<lparr>startup_sum = (p, q), rss_sum = (med (map (\<lambda>s. of_int (rss_bytes s)) gos), med (map (\<lambda>s. of_int (rss_bytes s)) rusts)),
       clean_sum = (med (fst (go_times b)), med (fst (rust_times b))), warm_sum = (med (snd (go_times b)), med (snd (rust_times b)))\<rparr>)"

definition sum_rows :: "summaries \<Rightarrow> (string \<times> rat \<times> rat) list" where
  "sum_rows s = [(''startup_p95_ms'', startup_sum s), (''peak_rss_median_bytes'', rss_sum s), (''clean_build_ms'', clean_sum s), (''warm_build_ms'', warm_sum s)]"

lemma metric_entry_Inr: "metric_entry k x y = Inr e \<longleftrightarrow> (\<exists>b c. x = Inr b \<and> y = Inr c \<and> e = (k, VDict [(''baseline'', b), (''candidate'', c)]))"
  by (auto simp: metric_entry_def side_values_def bind_res_eq_Inr)

lemma float_metric_Inr: "float_metric r = Inr v \<longleftrightarrow> (\<exists>x. r = Inr x \<and> v = VFloat x)"
  by (auto simp: float_metric_def bind_res_eq_Inr)

lemma p95_nonneg: "p95_of rnd xs = Inr p \<Longrightarrow> \<forall>x \<in> set xs. 0 \<le> x \<Longrightarrow> 0 \<le> p"
  using p95_of_Inr by blast

lemma measured_metrics_table:
  assumes r: "exact_rounding (bench h)" and m: "measured_metrics h b gos rusts = Inr metrics"
    and launches: "\<forall>s \<in> set gos \<union> set rusts. plausible_launch out s"
    and times: "plausible_times 10 (go_times b)" "plausible_times 10 (rust_times b)"
    and sizes: "\<forall>p n. byte_count h p = Inr n \<longrightarrow> 0 \<le> n \<and> n < 2 ^ 53"
  shows "\<exists>p q x y. p95_of (bench_round (bench h)) (map startup_ms gos) = Inr p \<and> p95_of (bench_round (bench h)) (map startup_ms rusts) = Inr q
    \<and> metric_table (bench h) ((''binary_size_bytes'', x, y) # sum_rows (sample_sums (bench h) b gos rusts p q)) metrics"
proof -
  from m obtain gs rs p q gv rv where sz: "byte_count h (go_file b) = Inr gs" "byte_count h (rust_file b) = Inr rs"
    and st: "bench_p95 (bench h) (map startup_ms gos) = Inr p" "bench_p95 (bench h) (map startup_ms rusts) = Inr q"
    and rss: "median_value (bench h) (map rss_bytes gos) = Inr gv" "median_value (bench h) (map rss_bytes rusts) = Inr rv"
    and ne: "fst (go_times b) \<noteq> []" "fst (rust_times b) \<noteq> []" "snd (go_times b) \<noteq> []" "snd (rust_times b) \<noteq> []"
    and metrics: "metrics = [(''binary_size_bytes'', VDict [(''baseline'', VInt gs), (''candidate'', VInt rs)]),
      (''startup_p95_ms'', VDict [(''baseline'', VFloat p), (''candidate'', VFloat q)]),
      (''peak_rss_median_bytes'', VDict [(''baseline'', gv), (''candidate'', rv)]),
      (''clean_build_ms'', VDict [(''baseline'', VFloat (median_of (bench_round (bench h)) (fst (go_times b)))), (''candidate'', VFloat (median_of (bench_round (bench h)) (fst (rust_times b))))]),
      (''warm_build_ms'', VDict [(''baseline'', VFloat (median_of (bench_round (bench h)) (snd (go_times b)))), (''candidate'', VFloat (median_of (bench_round (bench h)) (snd (rust_times b))))])]"
    unfolding measured_metrics_def Let_def by (auto simp: bind_res_eq_Inr metric_entry_Inr float_metric_Inr bench_median_def)
  from st have p: "p95_of (bench_round (bench h)) (map startup_ms gos) = Inr p" "p95_of (bench_round (bench h)) (map startup_ms rusts) = Inr q"
    by (auto simp: bench_p95_def bind_res_eq_Inr)
  have pos: "0 \<le> p" "0 \<le> q" using p95_nonneg [OF p(1)] p95_nonneg [OF p(2)] launches by (auto simp: plausible_launch_def)
  have med: "0 \<le> median_of (bench_round (bench h)) (fst (go_times b))" "0 \<le> median_of (bench_round (bench h)) (fst (rust_times b))"
      "0 \<le> median_of (bench_round (bench h)) (snd (go_times b))" "0 \<le> median_of (bench_round (bench h)) (snd (rust_times b))"
    using median_nonneg [OF r] ne times by (auto simp: plausible_times_def)
  have "reads_as (bench h) gv (median_of (bench_round (bench h)) (map of_int (map rss_bytes gos)))" "reads_as (bench h) rv (median_of (bench_round (bench h)) (map of_int (map rss_bytes rusts)))"
    using median_value_reads [OF r rss(1)] median_value_reads [OF r rss(2)] launches by (auto simp: plausible_launch_def)
  moreover have "reads_as (bench h) (VInt gs) (of_int gs)" "reads_as (bench h) (VInt rs) (of_int rs)" using sizes sz reads_as_int [OF r] by blast+
  ultimately have "metric_table (bench h) ((''binary_size_bytes'', of_int gs, of_int rs) # sum_rows (sample_sums (bench h) b gos rusts p q)) metrics"
    using pos med by (auto simp: metric_table_def metrics sum_rows_def sample_sums_def Let_def comp_def intro!: reads_as_float)
  with p show ?thesis by blast
qed

text \<open>The raw samples of the record are the samples of the launches and builds.\<close>

lemma raw_record_samples:
  assumes r: "exact_rounding (bench h)" and len: "length gos = 50" "length rusts = 50"
    and launches: "\<forall>s \<in> set gos \<union> set rusts. plausible_launch out s"
    and times: "plausible_times 10 (go_times b)" "plausible_times 10 (rust_times b)"
  shows "samples (bench h) (raw_record h b gos rusts 50) ''startup_ms'' ''baseline'' 50 (map startup_ms gos)"
    "samples (bench h) (raw_record h b gos rusts 50) ''startup_ms'' ''candidate'' 50 (map startup_ms rusts)"
    "samples (bench h) (raw_record h b gos rusts 50) ''rss_bytes'' ''baseline'' 50 (map (\<lambda>s. of_int (rss_bytes s)) gos)"
    "samples (bench h) (raw_record h b gos rusts 50) ''rss_bytes'' ''candidate'' 50 (map (\<lambda>s. of_int (rss_bytes s)) rusts)"
    "samples (bench h) (raw_record h b gos rusts 50) ''clean_build_ms'' ''baseline'' 10 (fst (go_times b))"
    "samples (bench h) (raw_record h b gos rusts 50) ''clean_build_ms'' ''candidate'' 10 (fst (rust_times b))"
    "samples (bench h) (raw_record h b gos rusts 50) ''warm_build_ms'' ''baseline'' 10 (snd (go_times b))"
    "samples (bench h) (raw_record h b gos rusts 50) ''warm_build_ms'' ''candidate'' 10 (snd (rust_times b))"
proof -
  have exact: "bench_round (bench h) (of_int (rss_bytes s)) = of_int (rss_bytes s)" if "s \<in> set gos \<union> set rusts" for s
    using bspec [OF launches that] by (intro exact_int [OF r]) (simp add: plausible_launch_def)
  note defs = samples_def raw_record_def two_sides_def dget_def number_value_def plausible_launch_def plausible_times_def
  show "samples (bench h) (raw_record h b gos rusts 50) ''startup_ms'' ''baseline'' 50 (map startup_ms gos)"
    "samples (bench h) (raw_record h b gos rusts 50) ''startup_ms'' ''candidate'' 50 (map startup_ms rusts)"
    "samples (bench h) (raw_record h b gos rusts 50) ''clean_build_ms'' ''baseline'' 10 (fst (go_times b))"
    "samples (bench h) (raw_record h b gos rusts 50) ''clean_build_ms'' ''candidate'' 10 (fst (rust_times b))"
    "samples (bench h) (raw_record h b gos rusts 50) ''warm_build_ms'' ''baseline'' 10 (snd (go_times b))"
    "samples (bench h) (raw_record h b gos rusts 50) ''warm_build_ms'' ''candidate'' 10 (snd (rust_times b))"
    using len launches times by (auto simp: defs comp_def)
  show "samples (bench h) (raw_record h b gos rusts 50) ''rss_bytes'' ''baseline'' 50 (map (\<lambda>s. of_int (rss_bytes s)) gos)"
    "samples (bench h) (raw_record h b gos rusts 50) ''rss_bytes'' ''candidate'' 50 (map (\<lambda>s. of_int (rss_bytes s)) rusts)"
    using len launches exact by (auto simp: defs comp_def)
qed

lemma expected_summaries_of_record:
  assumes "exact_rounding (bench h)" "length gos = 50" "length rusts = 50" "\<forall>s \<in> set gos \<union> set rusts. plausible_launch out s"
    "plausible_times 10 (go_times b)" "plausible_times 10 (rust_times b)"
    and p: "p95_of (bench_round (bench h)) (map startup_ms gos) = Inr p" "p95_of (bench_round (bench h)) (map startup_ms rusts) = Inr q"
  shows "expected_summaries (bench h) (raw_record h b gos rusts 50) 50 10 name = Inr (sample_sums (bench h) b gos rusts p q)"
proof -
  have ne: "gos \<noteq> []" "rusts \<noteq> []" "fst (go_times b) \<noteq> []" "snd (go_times b) \<noteq> []" "fst (rust_times b) \<noteq> []" "snd (rust_times b) \<noteq> []"
    using assms(2,3,5,6) by (auto simp: plausible_times_def)
  note series = raw_record_samples [OF assms(1-6), folded raw_series_Inr [where label = name]]
  show ?thesis
    using ne p unfolding expected_summaries_def both_series_def both_sides_def bench_p95_def bench_median_def series bind_res_simps
    by (simp add: sample_sums_def Let_def)
qed

text \<open>Looking a metric up.\<close>

lemma row_of_key: "k \<in> fst ` set rows \<Longrightarrow> \<exists>u v. (k, u, v) \<in> set rows"
  by force

lemma metric_table_keys: "metric_table h rows metrics \<Longrightarrow> map fst metrics = map fst rows"
  unfolding metric_table_def by (induction rule: list_all2_induct) auto

lemma metric_table_lookup:
  assumes "metric_table h rows metrics" "distinct (map fst rows)" "(k, x, y) \<in> set rows"
  shows "\<exists>b c. dget metrics k = VDict [(''baseline'', b), (''candidate'', c)] \<and> reads_as h b x \<and> reads_as h c y"
proof -
  from assms(1,3) obtain v where v: "(k, v) \<in> set metrics" and r: "\<exists>b c. v = VDict [(''baseline'', b), (''candidate'', c)] \<and> reads_as h b x \<and> reads_as h c y"
    unfolding metric_table_def by (auto dest!: list_all2_image)
  have "distinct (map fst metrics)" using metric_table_keys [OF assms(1)] assms(2) by simp
  with v have "map_of metrics k = Some v" by (simp add: map_of_is_SomeI)
  with r show ?thesis by (simp add: dget_def)
qed

lemma metric_table_ratio:
  assumes "metric_table h rows metrics" "distinct (map fst rows)" "(k, x, y) \<in> set rows"
  shows "metric_ratio h metrics k = bench_round h (y / x)" "metric_value h metrics k ''baseline'' = x" "metric_value h metrics k ''candidate'' = y"
  using metric_table_lookup [OF assms] by (auto simp: metric_ratio_def metric_value_def Let_def dget_def reads_as_def)

lemma divide_reads:
  assumes "reads_as h b x" "reads_as h c y" "0 < x"
  shows "divide_values h c b = Inr (bench_round h (y / x))"
proof -
  obtain a d where ad: "num_of c = Some a" "num_of b = Some d" using assms(1,2) by (auto simp: reads_as_def)
  moreover have "d \<noteq> 0"
  proof
    assume "d = 0"
    with ad assms(1) have "number_value h b = bench_round h 0 \<or> number_value h b = 0" by (auto simp: number_value_def)
    with ad assms show False using \<open>d = 0\<close> by (auto simp: reads_as_def number_value_def split: if_splits)
  qed
  ultimately show ?thesis using assms by (auto simp: divide_values_def reads_as_def)
qed

lemma measured_ratios_rows:
  assumes "metric_table h rows metrics" "\<forall>(k, x, y) \<in> set rows. 0 < x"
  shows "measured_ratios h metrics = Inr (map (\<lambda>(k, x, y). (k, bench_round h (y / x))) rows)"
  using assms unfolding metric_table_def measured_ratios_def
  by (induction rule: list_all2_induct) (auto simp: dget_def divide_reads)

lemma check_metrics_of_table:
  assumes t: "metric_table h rows metrics" and s: "expected_summaries h raw 50 10 name = Inr s"
    and rows: "\<forall>(k, x, y) \<in> set rows. 0 < x \<and> (summary_of s k = None \<or> summary_of s k = Some (x, y))"
  shows "check_metrics h name metrics raw 50 10 = Inr ()"
proof -
  have "check_metric h name s e = Inr ()" if e: "e \<in> set metrics" for e
  proof -
    obtain k v where kv: "e = (k, v)" by force
    from list_all2_source [OF t [unfolded metric_table_def] e] kv obtain x y b c where row: "(k, x, y) \<in> set rows"
      and v: "v = VDict [(''baseline'', b), (''candidate'', c)]" and r: "reads_as h b x" "reads_as h c y" by auto
    from rows row have "0 < x" "summary_of s k = None \<or> summary_of s k = Some (x, y)" by auto
    with kv v r show ?thesis
      by (auto simp: check_metric_Inr SIDES_def has_key_def dget_def reads_as_def summary_matches_def)
  qed
  with s show ?thesis by (simp add: check_metrics_def)
qed

lemma check_ratios_of_table:
  assumes r: "exact_rounding h" and t: "metric_table h rows metrics" and keys: "map fst rows = REQUIRED_METRICS"
    and pos: "\<forall>(k, x, y) \<in> set rows. 0 < x \<and> 0 \<le> y"
    and m: "dget m ''ratios'' = VDict (map (\<lambda>(k, x). (k, VFloat x)) (map (\<lambda>(k, x, y). (k, bench_round h (y / x))) rows))"
      "dget m ''regression_gated_metrics'' = VList (map VStr GATED_METRICS)"
      "dget m ''maximum_regression_ratio'' = VFloat (gated_maximum h metrics)"
  shows "check_ratios h name m metrics = Inr ()"
proof -
  have dist: "distinct (map fst rows)" unfolding keys by (simp add: REQUIRED_METRICS_def)
  have ratio: "\<exists>x y. (k, x, y) \<in> set rows \<and> metric_ratio h metrics k = bench_round h (y / x) \<and> 0 \<le> bench_round h (y / x)" if k: "k \<in> set REQUIRED_METRICS" for k
  proof -
    from k obtain x y where row: "(k, x, y) \<in> set rows" unfolding keys [symmetric] by auto
    with pos r have "0 \<le> bench_round h (y / x)" by (auto simp: exact_rounding_def)
    with row metric_table_ratio [OF t dist row] show ?thesis by blast
  qed
  let ?ratios = "map (\<lambda>(k, x). (k, VFloat x)) (map (\<lambda>(k, x, y). (k, bench_round h (y / x))) rows)"
  have each: "finite_nonnegative h (dget ?ratios k) label = Inr (metric_ratio h metrics k)" if k: "k \<in> set REQUIRED_METRICS" for k label
  proof -
    from ratio [OF k] obtain x y where row: "(k, x, y) \<in> set rows" "metric_ratio h metrics k = bench_round h (y / x)" "0 \<le> bench_round h (y / x)" by blast
    then have "(k, VFloat (bench_round h (y / x))) \<in> set ?ratios" by force
    moreover have "distinct (map fst ?ratios)" using dist by (simp add: comp_def case_prod_unfold)
    ultimately have "dget ?ratios k = VFloat (bench_round h (y / x))" by (simp add: dget_def map_of_is_SomeI del: map_map)
    with row show ?thesis by (simp add: finite_nonnegative_Inr number_value_def)
  qed
  have mk: "keys metrics = REQUIRED_METRICS" using metric_table_keys [OF t] keys by (simp add: keys_def)
  have rk: "keys_are ?ratios REQUIRED_METRICS" using keys by (auto simp: keys_are_def keys_def comp_def case_prod_unfold simp flip: keys)
  have "0 \<le> metric_ratio h metrics ''binary_size_bytes''" using ratio [of "''binary_size_bytes''"] by (auto simp: REQUIRED_METRICS_def)
  then have max: "0 \<le> gated_maximum h metrics" by (auto simp: gated_maximum_def GATED_METRICS_def max_def)
  have "py_eq (VList (map VStr GATED_METRICS)) (VList (map VStr GATED_METRICS))" by (rule py_eq_refl) (simp add: GATED_METRICS_def)
  moreover have "finite_nonnegative h (VFloat (gated_maximum h metrics)) label = Inr (gated_maximum h metrics)" for label
    using max by (simp add: finite_nonnegative_def number_value_def)
  moreover have "for_each (\<lambda>metric. bind_res (finite_nonnegative h (dget ?ratios metric) (msg [name, '' ratio '', metric])) (\<lambda>x.
      demand (close_to (bench_round h) x (metric_ratio h metrics metric)) [name, '': stale ratio for '', metric])) (keys metrics) = Inr ()"
    unfolding mk for_each_Inr by (simp add: each del: map_map)
  ultimately show ?thesis
    unfolding check_ratios_def Let_def m using rk by (simp del: map_map for_each_Inr)
qed

lemma b64decode_value_encode: "b64decode_value (VStr (b64encode s)) = Inr s"
  by (simp add: b64decode_value_def b64encode_ascii b64decode_encode)

lemma last_output_steady: "ss \<noteq> [] \<Longrightarrow> \<forall>s \<in> set ss. plausible_launch out s \<Longrightarrow> last_output ss = out"
  by (simp add: last_output_def plausible_launch_def)

lemma check_workload_of_record:
  assumes doc: "version_document (bench h) out (dget canary ''tool'') p" and wf: "wf_val (VDict p)"
    and last: "last_output gos = out" "last_output rusts = out"
    and m: "dget m ''workload_output'' = workload_record h gos rusts"
  shows "check_workload (bench h) name m canary (raw_record h b gos rusts 50) = Inr (sha256 (bworld (bench h)) out)"
proof -
  have sem: "semantic_version_output (bench h) out (dget canary ''tool'') label = Inr p" for label using doc by (simp add: semantic_Inr)
  have "py_eq (VDict p) (VDict p)" using wf by (rule py_eq_refl)
  then show ?thesis
    unfolding check_workload_def m Let_def workload_record_def last
    by (simp add: dget_def b64decode_value_encode b64decode_encode sem [unfolded dget_def] raw_record_def two_sides_def)
qed

lemma check_launches_of_record:
  assumes len: "length gos = 50" "length rusts = 50" and launches: "\<forall>s \<in> set gos \<union> set rusts. plausible_launch out s"
  shows "check_launches name (raw_record h b gos rusts 50) (sha256 (bworld (bench h)) out) 50 = Inr ()"
proof -
  have same: "map f ss = replicate 50 v" if "length ss = 50" "\<forall>s \<in> set ss. f s = v" for f :: "launch_sample \<Rightarrow> pyval" and ss v
    using that by (metis map_replicate_const map_cong)
  have cols: "map (\<lambda>s. VStr (sha256 (bworld (bench h)) (launch_stdout s))) ss = replicate 50 (VStr (sha256 (bworld (bench h)) out))"
      "map (\<lambda>s. VInt (launch_code s)) ss = replicate 50 (VInt 0)" if "ss = gos \<or> ss = rusts" for ss
    using that len launches by (auto intro!: same simp: plausible_launch_def)
  have refl: "py_eq (VList (replicate 50 (VStr t))) (VList (replicate 50 (VStr t)))" "py_eq (VList (replicate 50 (VInt 0))) (VList (replicate 50 (VInt 0)))" for t
    by (rule py_eq_refl; simp)+
  show ?thesis
    unfolding check_launches_def SIDES_def for_each_Inr demand_Inr
    using cols [of gos] cols [of rusts] refl by (simp add: raw_record_def two_sides_def dget_def map_replicate_const del: replicate_Suc)
qed

lemma paired_launch_Inr:
  assumes "paired_launch h root_dir go rust record_d name index = Inr (g, r)"
  shows "(\<exists>d. timed_launch h go [''version'', ''--json''] d = Inr g) \<and> (\<exists>d. timed_launch h rust [''version'', ''--json''] d = Inr r)
    \<and> (\<exists>p. version_document (bench h) (launch_stdout g) (dget record_d ''tool'') p)"
  using assms by (auto simp: paired_launch_def compare_semantics_def Let_def bind_res_eq_Inr semantic_Inr)

lemma timed_launch_code: "timed_launch h binary args d = Inr s \<Longrightarrow> launch_code s = 0"
  by (auto simp: timed_launch_def Let_def bind_res_eq_Inr split: option.splits)

text \<open>What is assumed of the machine and of the programs: exact integers, sizes and times that can occur, and one
  version document that every launch prints.\<close>

definition steady_machine :: "measure_host \<Rightarrow> string \<Rightarrow> bool" where
  "steady_machine h out \<longleftrightarrow>
     exact_rounding (bench h)
     \<and> (\<forall>binary args d s. timed_launch h binary args d = Inr s \<longrightarrow> 0 \<le> startup_ms s \<and> 0 \<le> rss_bytes s \<and> rss_bytes s < 2 ^ 52 \<and> launch_stdout s = out)
     \<and> (\<forall>p n. byte_count h p = Inr n \<longrightarrow> 0 \<le> n \<and> n < 2 ^ 53)
     \<and> (\<forall>kind src d r n t. build_times h kind src d r n = Inr t \<longrightarrow> plausible_times n t)
     \<and> (\<forall>p. loads_output (bench h) out = Inr (VDict p) \<longrightarrow> wf_val (VDict p))"

lemma measurement_accepted:
  assumes h: "steady_machine h out" and m: "measurement_of h (VStr name) old_c new_c 50 10 b pairs = Inr m" and len: "length pairs = 50"
    and launches: "\<forall>(g, r) \<in> set pairs. plausible_launch out g \<and> plausible_launch out r"
    and times: "plausible_times 10 (go_times b)" "plausible_times 10 (rust_times b)"
    and doc: "version_document (bench h) out (dget canary ''tool'') p"
    and pos: "\<forall>metric \<in> set REQUIRED_METRICS. 0 < metric_value (bench h) (the (as_dict (dget m ''metrics''))) metric ''baseline''"
    and commits: "dget r ''pre_adoption_commit'' = VStr old_c" "dget r ''adoption_commit'' = VStr new_c" "dget canary ''adoption_commit'' = VStr new_c"
  shows "check_named (bench h) name m r canary 50 10 = Inr ()"
proof -
  let ?g = "map fst pairs" and ?r = "map snd pairs"
  from h have r: "exact_rounding (bench h)" and sizes: "\<forall>p n. byte_count h p = Inr n \<longrightarrow> 0 \<le> n \<and> n < 2 ^ 53"
    and wf: "wf_val (VDict p)" using doc by (auto simp: steady_machine_def version_document_def)
  have all: "\<forall>s \<in> set ?g \<union> set ?r. plausible_launch out s" using launches by auto
  from m obtain metrics ratios where mm: "measured_metrics h b ?g ?r = Inr metrics" and mr: "measured_ratios (bench h) metrics = Inr ratios"
    and fields: "dget m ''baseline_commit'' = VStr old_c" "dget m ''candidate_commit'' = VStr new_c" "dget m ''runs'' = VInt 50" "dget m ''build_runs'' = VInt 10"
      "dget m ''metrics'' = VDict metrics" "dget m ''ratios'' = VDict (map (\<lambda>(k, x). (k, VFloat x)) ratios)"
      "dget m ''regression_gated_metrics'' = VList (map VStr GATED_METRICS)"
      "dget m ''maximum_regression_ratio'' = VFloat (Max (set (map (\<lambda>k. the (map_of ratios k)) GATED_METRICS)))"
      "dget m ''raw_samples'' = VDict (raw_record h b ?g ?r 50)" "dget m ''workload_output'' = workload_record h ?g ?r"
      "dget m ''raw_samples_retained'' = VBool True"
    by (auto simp: measurement_of_def Let_def bind_res_eq_Inr dget_def)
  from measured_metrics_table [OF r mm all times sizes] obtain q s x y where p95: "p95_of (bench_round (bench h)) (map startup_ms ?g) = Inr q" "p95_of (bench_round (bench h)) (map startup_ms ?r) = Inr s"
    and t: "metric_table (bench h) ((''binary_size_bytes'', x, y) # sum_rows (sample_sums (bench h) b ?g ?r q s)) metrics" (is "metric_table _ ?rows _") by blast
  have keys: "map fst ?rows = REQUIRED_METRICS" by (simp add: sum_rows_def REQUIRED_METRICS_def)
  then have dist: "distinct (map fst ?rows)" by (simp add: REQUIRED_METRICS_def)
  have rows: "0 < u \<and> 0 \<le> v" if row: "(k, u, v) \<in> set ?rows" for k u v
  proof -
    have "k \<in> set (map fst ?rows)" using image_eqI [OF _ row, of k fst] unfolding set_map by simp
    then have "k \<in> set REQUIRED_METRICS" unfolding keys .
    then have "0 < metric_value (bench h) metrics k ''baseline''" using pos fields by simp
    with metric_table_ratio [OF t dist row] metric_table_lookup [OF t dist row] show ?thesis by (auto simp: reads_as_def)
  qed
  have lens: "length ?g = 50" "length ?r = 50" using len by simp_all
  note sums = expected_summaries_of_record [OF r lens all times p95]
  have "check_metrics (bench h) name metrics (raw_record h b ?g ?r 50) 50 10 = Inr ()"
  proof (rule check_metrics_of_table [OF t sums])
    show "\<forall>(k, u, v) \<in> set ?rows. 0 < u \<and> (summary_of (sample_sums (bench h) b ?g ?r q s) k = None \<or> summary_of (sample_sums (bench h) b ?g ?r q s) k = Some (u, v))"
    proof -
      have "\<forall>(k, u, v) \<in> set ?rows. summary_of (sample_sums (bench h) b ?g ?r q s) k = None \<or> summary_of (sample_sums (bench h) b ?g ?r q s) k = Some (u, v)"
        by (simp add: sum_rows_def summary_of_def)
      with rows show ?thesis by fast
    qed
  qed
  moreover have "last_output ?g = out" "last_output ?r = out"
    using last_output_steady [of ?g out] last_output_steady [of ?r out] lens all by force+
  then have "check_workload (bench h) name m canary (raw_record h b ?g ?r 50) = Inr (sha256 (bworld (bench h)) out)"
    using check_workload_of_record [OF doc wf] fields by blast
  moreover note check_launches_of_record [OF lens all, of name h b]
  moreover have ratios: "ratios = map (\<lambda>(k, u, v). (k, bench_round (bench h) (v / u))) ?rows"
    using measured_ratios_rows [OF t] rows mr by fastforce
  have "gated_maximum (bench h) metrics = Max (set (map (\<lambda>k. the (map_of ratios k)) GATED_METRICS))"
  proof -
    have "the (map_of ratios k) = metric_ratio (bench h) metrics k" if k: "k \<in> set GATED_METRICS" for k
    proof -
      from k have "k \<in> fst ` set ?rows" by (auto simp: GATED_METRICS_def sum_rows_def)
      from row_of_key [OF this] obtain u v where row: "(k, u, v) \<in> set ?rows" by blast
      then have "(k, bench_round (bench h) (v / u)) \<in> set ratios" unfolding ratios by force
      moreover have "distinct (map fst ratios)" using dist unfolding ratios by (simp add: comp_def case_prod_unfold)
      ultimately have "map_of ratios k = Some (bench_round (bench h) (v / u))" by (simp add: map_of_is_SomeI)
      with metric_table_ratio [OF t dist row] show ?thesis by simp
    qed
    then have "map (\<lambda>k. the (map_of ratios k)) GATED_METRICS = map (metric_ratio (bench h) metrics) GATED_METRICS" by (intro map_cong) simp_all
    then show ?thesis by (simp only: gated_maximum_def)
  qed
  then have "check_ratios (bench h) name m metrics = Inr ()"
    using check_ratios_of_table [OF r t keys] rows fields ratios by fastforce
  ultimately have "check_values (bench h) name m canary metrics (raw_record h b ?g ?r 50) 50 10 = Inr ()" by (simp add: check_values_def)
  moreover have "keys_are metrics REQUIRED_METRICS" using metric_table_keys [OF t] keys by (simp add: keys_are_def keys_def)
  ultimately show ?thesis using fields commits by (simp add: check_named_def check_commits_def)
qed

lemma map_res_pairs:
  assumes "map_res (paired_launch h root_dir go rust record_d name) is = Inr pairs" and "steady_machine h out"
  shows "length pairs = length is \<and> (\<forall>(g, r) \<in> set pairs. plausible_launch out g \<and> plausible_launch out r \<and> (\<exists>p. version_document (bench h) out (dget record_d ''tool'') p))"
proof -
  from assms(1) have l: "list_all2 (\<lambda>i gr. paired_launch h root_dir go rust record_d name i = Inr gr) is pairs" by (simp add: map_res_Inr)
  have "plausible_launch out g \<and> plausible_launch out r \<and> (\<exists>p. version_document (bench h) out (dget record_d ''tool'') p)" if "(g, r) \<in> set pairs" for g r
  proof -
    from list_all2_source [OF l that] obtain i where "paired_launch h root_dir go rust record_d name i = Inr (g, r)" by blast
    from paired_launch_Inr [OF this] timed_launch_code assms(2) show ?thesis unfolding steady_machine_def plausible_launch_def by metis
  qed
  with l show ?thesis by (auto dest: list_all2_lengthD)
qed

text \<open>C28: What the benchmark writes about a consumer, its own check accepts. On a steady machine (integers exact in floating point, sizes and times that can occur, one version document printed by every launch) with positive baseline metrics, the record that \<open>measure\<close> returns for the merged adoption and canary data passes the check of that measurement: the summaries, ratios, digests and commits that the check recomputes are those that were written.\<close>

theorem written_measurement_is_accepted:
  assumes "measure h d 50 10 root_dir = Inr m" "steady_machine h out"
    and name: "dget d ''repository'' = VStr name" "record_of records name = Inr r" "canary_of configured name = Inr canary"
    and data: "dget r ''pre_adoption_commit'' = dget d ''pre_adoption_commit''" "dget r ''adoption_commit'' = dget d ''adoption_commit''"
      "dget canary ''adoption_commit'' = dget d ''adoption_commit''" "dget canary ''tool'' = dget d ''tool''"
    and "\<forall>metric \<in> set REQUIRED_METRICS. 0 < metric_value (bench h) (the (as_dict (dget m ''metrics''))) metric ''baseline''"
  shows "check_measurement (bench h) records configured 50 10 (VDict m) [] = Inr [name]"
proof -
  have rv: "dindex d ''repository'' = Inr (VStr name)" using name(1) by (auto simp: dindex_def dget_def split: option.splits)
  from assms(1) obtain old_c new_c go rust go_text rust_text pairs gt rt ks gd rd
    where commits: "commit_of d ''pre_adoption_commit'' = Inr old_c" "commit_of d ''adoption_commit'' = Inr new_c"
    and pairs: "map_res (paired_launch h root_dir go rust d (py_str (float_text (bworld (bench h))) (VStr name))) [0..<50] = Inr pairs"
    and times: "build_times h ''go'' gd ks d 10 = Inr gt" "build_times h ''rust'' rd (root_dir @ [''rust-distribution'']) d 10 = Inr rt"
    and m: "measurement_of h (VStr name) old_c new_c 50 10 \<lparr>go_file = go, rust_file = rust, go_command = go_text, rust_command = rust_text, go_times = gt, rust_times = rt\<rparr> pairs = Inr m"
    by (auto simp: measure_def Let_def rv bind_res_eq_Inr split: prod.splits)
  note ps = map_res_pairs [OF pairs assms(2)]
  from ps have len: "length pairs = 50" by simp
  then obtain g0 r0 where "(g0, r0) \<in> set pairs" by (cases pairs) auto
  with ps data(4) obtain p where doc: "version_document (bench h) out (dget canary ''tool'') p" by fastforce
  have "plausible_times 10 gt" "plausible_times 10 rt" using assms(2) times unfolding steady_machine_def by blast+
  moreover have "dget d ''pre_adoption_commit'' = VStr old_c" "dget d ''adoption_commit'' = VStr new_c"
    using commits by (auto simp: commit_of_def bind_res_eq_Inr dindex_def dget_def split: option.splits)
  ultimately have "check_named (bench h) name m r canary 50 10 = Inr ()"
    using measurement_accepted [OF assms(2) m len _ _ _ doc assms(10)] ps data by fastforce
  moreover have "dget m ''repository'' = VStr name" using m by (auto simp: measurement_of_def Let_def bind_res_eq_Inr dget_def)
  ultimately show ?thesis using name by (simp add: check_measurement_def)
qed

end
