(* ===== verification/BenchExample.thy ===== *)
theory BenchExample
  imports BenchMeasure Adoption
begin

text \<open>
  A benchmark of two consumers on a small machine whose programs print one document: \<open>measure\<close> returns its record,
  and the report made of such records passes the check. The machine is the one of the adoption gate.
\<close>

definition bench_json :: "string \<Rightarrow> pyval res" where
  "bench_json s = Inr (VDict [(''tool'', VStr ''t''), (''version'', VStr ''1''), (''schema_version'', VInt 1)])"

definition bench_canary :: "string \<Rightarrow> pydict" where
  "bench_canary name = [(''repository'', VStr (''o/'' @ name)), (''adoption_commit'', VStr adopted_commit), (''tool'', VStr ''t'')]"

definition sample_launch :: launch_sample where
  "sample_launch = \<lparr>startup_ms = 5, rss_bytes = 8, launch_stdout = ''J'', launch_code = 0\<rparr>"

definition sample_built :: built where
  "sample_built = \<lparr>go_file = [''go''], rust_file = [''rust''], go_command = ''go build'', rust_command = ''rust build'',
     go_times = (replicate 10 3, replicate 10 2), rust_times = (replicate 10 3, replicate 10 2)\<rparr>"

definition equal_sides :: "pyval \<Rightarrow> pyval" where
  "equal_sides v = VDict [(''baseline'', v), (''candidate'', v)]"

definition sample_metrics :: pydict where
  "sample_metrics = [(''binary_size_bytes'', equal_sides (VInt 7)), (''startup_p95_ms'', equal_sides (VFloat 5)), (''peak_rss_median_bytes'', equal_sides (VFloat 8)),
     (''clean_build_ms'', equal_sides (VFloat 3)), (''warm_build_ms'', equal_sides (VFloat 2))]"

definition bench_smoke :: "string \<Rightarrow> pyval" where
  "bench_smoke name =
     (let result = (\<lambda>s. VDict [(''exit_code'', VInt 0), (''stderr'', VStr []), (''stdout_base64'', VStr (b64encode s)), (''stdout_sha256'', VStr ''x'')]) in
      VDict [(''repository'', VStr (''o/'' @ name)), (''candidate_commit'', VStr adopted_commit), (''passed'', VBool True),
        (''commands'', VList [VDict [(''argv'', VList [VStr ''/x'', VStr ''version''])], VDict [(''argv'', VList [VStr ''/x'', VStr ''version'', VStr ''--json''])]]),
        (''results'', VList [result ''t 1'', result ''J''])])"

text \<open>The machine without the report.\<close>

definition bare_bench_host :: bench_host where
  "bare_bench_host = \<lparr>adopter = adopted_host, bench_round = \<lambda>r. r, loads_output = bench_json, four_digits = \<lambda>_. []\<rparr>"

definition bare_measure_host :: measure_host where
  "bare_measure_host = \<lparr>bench = bare_bench_host,
     launch_timed = \<lambda>_ _ _. Inr \<lparr>elapsed_ms = 5, exit_status = 0, printed = ''J'', complaints = ''8 maximum resident set size''\<rparr>,
     unpack = \<lambda>_ _. Inr (), build_binary = \<lambda>kind _ _ _. Inr ([kind], kind @ '' build''), build_times = \<lambda>_ _ _ _ n. Inr (replicate n 3, replicate n 2),
     byte_count = \<lambda>_. Inr 7, run_artifact = \<lambda>_ args _. Inr (0, if args = [''version''] then ''t 1'' else ''J'', [])\<rparr>"

definition merged_record :: "string \<Rightarrow> pydict" where
  "merged_record name = dict_update (the (as_dict (adopter_record name))) (bench_canary name)"

definition sample_measurement :: "string \<Rightarrow> pydict" where
  "sample_measurement name =
     (case measure bare_measure_host (merged_record name) 50 10 [''tmp''] of Inr m \<Rightarrow> m | Inl _ \<Rightarrow> [])"

lemma bench_rss: "parse_rss bare_measure_host ''8 maximum resident set size'' = Inr (Some 8)"
  by code_simp

lemma bench_quiet: "time_report_lines bare_measure_host ''8 maximum resident set size'' = []"
  by code_simp

lemma bench_launch: "timed_launch bare_measure_host p args d = Inr sample_launch"
  unfolding timed_launch_def using bench_rss bench_quiet by (simp add: bare_measure_host_def sample_launch_def)

lemma bench_prints: "semantic_version_output bare_bench_host ''J'' (VStr ''t'') label = Inr [(''tool'', VStr ''t''), (''version'', VStr ''1''), (''schema_version'', VInt 1)]"
  by (simp add: semantic_Inr version_document_def bare_bench_host_def bench_json_def version_fields_def has_key_def dget_def)

lemma merged_fields:
  "dget (merged_record name) ''tool'' = VStr ''t''" "dget (merged_record name) ''repository'' = VStr (''o/'' @ name)"
  "dget (merged_record name) ''adoption_commit'' = VStr adopted_commit" "dget (merged_record name) ''pre_adoption_commit'' = VStr adopted_commit"
  by (simp_all add: merged_record_def adopter_record_def bench_canary_def dict_update_def dget_def)

lemma bench_pair: "paired_launch bare_measure_host d g r (merged_record name) label index = Inr (sample_launch, sample_launch)"
proof -
  have "bench bare_measure_host = bare_bench_host" by (simp add: bare_measure_host_def)
  moreover have "launch_stdout sample_launch = ''J''" by (simp add: sample_launch_def)
  moreover have "py_eq (VDict [(''tool'', VStr ''t''), (''version'', VStr ''1''), (''schema_version'', VInt 1)]) (VDict [(''tool'', VStr ''t''), (''version'', VStr ''1''), (''schema_version'', VInt 1)])"
    by (rule py_eq_refl) simp
  ultimately show ?thesis by (simp add: paired_launch_def bench_launch compare_semantics_def Let_def merged_fields bench_prints)
qed

lemma map_res_constant: "(\<And>x. f x = Inr y) \<Longrightarrow> map_res f xs = Inr (replicate (length xs) y)"
  by (induction xs) simp_all

lemma median_replicate: "0 < n \<Longrightarrow> median_of (\<lambda>r. r) (replicate n x) = x"
  by (auto simp: median_of_def Let_def sorted_sort_id)

lemma p95_fifty: "p95_of (\<lambda>r. r) (replicate 50 x) = Inr x"
proof -
  have "\<lceil>95 / 2 :: rat\<rceil> = 48" by (rule ceiling_unique) simp_all
  then have "p95_rank (\<lambda>r. r) 50 = 47" by (simp add: p95_rank_def)
  then show ?thesis by (simp add: p95_of_def sorted_sort_id)
qed

lemma bare_fields:
  "bench bare_measure_host = bare_bench_host" "bench_round bare_bench_host = (\<lambda>r. r)" "adopter bare_bench_host = adopted_host" "byte_count bare_measure_host p = Inr 7"
  "build_binary bare_measure_host kind a b c = Inr ([kind], kind @ '' build'')" "build_times bare_measure_host kind a b c n = Inr (replicate n 3, replicate n 2)"
  "unpack bare_measure_host x p = Inr ()"
  by (simp_all add: bare_measure_host_def bare_bench_host_def)

lemma sample_metrics_measured: "measured_metrics bare_measure_host sample_built (replicate 50 sample_launch) (replicate 50 sample_launch) = Inr sample_metrics"
proof -
  have "median_value bare_bench_host (replicate 50 8) = Inr (VFloat 8)"
    by (simp add: median_value_def Let_def bare_fields sorted_sort_id)
  then show ?thesis
    unfolding measured_metrics_def Let_def bare_fields
    by (simp add: metric_entry_def side_values_def float_metric_def bench_p95_def bench_median_def bare_fields p95_fifty median_replicate
        sample_built_def sample_launch_def sample_metrics_def equal_sides_def)
qed

definition unit_ratios :: "(string \<times> rat) list" where
  "unit_ratios = map (\<lambda>k. (k, 1)) REQUIRED_METRICS"

lemma sample_ratios_measured: "measured_ratios bare_bench_host sample_metrics = Inr unit_ratios"
  by (simp add: measured_ratios_def sample_metrics_def equal_sides_def divide_values_def number_value_def dget_def bare_fields unit_ratios_def REQUIRED_METRICS_def)

lemma sample_source:
  assumes "name = ''a'' \<or> name = ''b''"
  shows "trusted_source bare_measure_host (merged_record name) [adopted_commit, adopted_commit] [''tmp''] = Inr [''w'', name]"
    "archive_checkout bare_measure_host [''w'', name] adopted_commit p (''o/'' @ name) = Inr ()"
proof -
  have "trusted_source bare_measure_host (merged_record ''a'') [adopted_commit, adopted_commit] [''tmp''] = Inr [''w'', ''a'']"
    "trusted_source bare_measure_host (merged_record ''b'') [adopted_commit, adopted_commit] [''tmp''] = Inr [''w'', ''b'']" by code_simp+
  with assms show "trusted_source bare_measure_host (merged_record name) [adopted_commit, adopted_commit] [''tmp''] = Inr [''w'', name]" by auto
  have "is_dir (amachine adopted_host) q" for q by (simp add: adopted_host_def sample_world_def)
  moreover have "assert_origin adopted_host [''w'', ''a''] ''o/a'' = Inr ''https://github.com/o/a''" "assert_origin adopted_host [''w'', ''b''] ''o/b'' = Inr ''https://github.com/o/b''"
    by code_simp+
  moreover have "run_git (amachine adopted_host) [''archive'', ''--format=tar'', adopted_commit] q = (0, [], [])" for q
    by (simp add: adopted_host_def adopted_git_def)
  ultimately show "archive_checkout bare_measure_host [''w'', name] adopted_commit p (''o/'' @ name) = Inr ()"
    using assms by (auto simp: archive_checkout_def Let_def bare_fields)
qed

lemma sample_measured:
  assumes "name = ''a'' \<or> name = ''b''"
  shows "measure bare_measure_host (merged_record name) 50 10 [''tmp''] = Inr (sample_measurement name)"
    "measurement_of bare_measure_host (VStr (''o/'' @ name)) adopted_commit adopted_commit 50 10 sample_built (replicate 50 (sample_launch, sample_launch)) = Inr (sample_measurement name)"
proof -
  have commits: "commit_of (merged_record name) ''pre_adoption_commit'' = Inr adopted_commit" "commit_of (merged_record name) ''adoption_commit'' = Inr adopted_commit"
    "dindex (merged_record name) ''repository'' = Inr (VStr (''o/'' @ name))" "dget_or (merged_record name) ''version_argv'' v = v" for v
    by (simp_all add: merged_record_def adopter_record_def bench_canary_def dict_update_def commit_of_def dindex_def dget_or_def)
  have argv: "py_eq (VList [VStr ''version'', VStr ''--json'']) (VList [VStr ''version'', VStr ''--json''])" by code_simp
  have maps: "map fst (replicate 50 (sample_launch, sample_launch)) = replicate 50 sample_launch" "map snd (replicate 50 (sample_launch, sample_launch)) = replicate 50 sample_launch"
    by (simp_all add: map_replicate)
  have of: "\<exists>m. measurement_of bare_measure_host (VStr (''o/'' @ name)) adopted_commit adopted_commit 50 10 sample_built (replicate 50 (sample_launch, sample_launch)) = Inr m"
    unfolding measurement_of_def Let_def maps sample_metrics_measured bare_fields bind_res_simps sample_ratios_measured by blast
  have pairs: "map_res (paired_launch bare_measure_host [''tmp''] [''go''] [''rust''] (merged_record name) (py_str fl (VStr (''o/'' @ name)))) [0..<50] = Inr (replicate 50 (sample_launch, sample_launch))" for fl
    by (subst map_res_constant [OF bench_pair]) simp
  have "measure bare_measure_host (merged_record name) 50 10 [''tmp''] =
      measurement_of bare_measure_host (VStr (''o/'' @ name)) adopted_commit adopted_commit 50 10 sample_built (replicate 50 (sample_launch, sample_launch))"
    unfolding measure_def Let_def commits bind_res_simps sample_source [OF assms] bare_fields prod.case argv demand_simps pairs
    using sample_source(2) [OF assms] argv by (simp add: py_str_def sample_built_def)
  with of show "measure bare_measure_host (merged_record name) 50 10 [''tmp''] = Inr (sample_measurement name)"
    "measurement_of bare_measure_host (VStr (''o/'' @ name)) adopted_commit adopted_commit 50 10 sample_built (replicate 50 (sample_launch, sample_launch)) = Inr (sample_measurement name)"
    by (auto simp: sample_measurement_def)
qed

lemma bare_steady: "steady_machine bare_measure_host ''J''"
  unfolding steady_machine_def
  by (auto simp: exact_rounding_def bare_fields bench_launch sample_launch_def plausible_times_def bare_bench_host_def bench_json_def)

lemma sample_positive:
  assumes "name = ''a'' \<or> name = ''b''"
  shows "dget (sample_measurement name) ''metrics'' = VDict sample_metrics" "dget (sample_measurement name) ''repository'' = VStr (''o/'' @ name)"
    "dget (sample_measurement name) ''maximum_regression_ratio'' = VFloat 1"
    "\<forall>metric \<in> set REQUIRED_METRICS. 0 < metric_value bare_bench_host sample_metrics metric ''baseline''"
proof -
  have maps: "map fst (replicate 50 (sample_launch, sample_launch)) = replicate 50 sample_launch" "map snd (replicate 50 (sample_launch, sample_launch)) = replicate 50 sample_launch"
    by (simp_all add: map_replicate)
  note eq = sample_measured(2) [OF assms, unfolded measurement_of_def Let_def maps sample_metrics_measured bare_fields bind_res_simps sample_ratios_measured sum.inject]
  have m: "dget (sample_measurement name) ''metrics'' = VDict sample_metrics \<and> dget (sample_measurement name) ''repository'' = VStr (''o/'' @ name)
      \<and> dget (sample_measurement name) ''maximum_regression_ratio'' = VFloat (Max (set (map (\<lambda>k. the (map_of unit_ratios k)) GATED_METRICS)))"
    by (simp add: eq [symmetric] dget_def)
  then show "dget (sample_measurement name) ''metrics'' = VDict sample_metrics" "dget (sample_measurement name) ''repository'' = VStr (''o/'' @ name)"
    "dget (sample_measurement name) ''maximum_regression_ratio'' = VFloat 1"
    by (simp_all add: unit_ratios_def GATED_METRICS_def REQUIRED_METRICS_def)
  show "\<forall>metric \<in> set REQUIRED_METRICS. 0 < metric_value bare_bench_host sample_metrics metric ''baseline''"
    by (simp add: REQUIRED_METRICS_def metric_value_def sample_metrics_def equal_sides_def dget_def number_value_def bare_fields)
qed

definition sample_records :: "pyval list" where
  "sample_records = [adopter_record ''a'', adopter_record ''b'']"

definition sample_canaries :: canaries where
  "sample_canaries = [(VStr ''o/a'', bench_canary ''a''), (VStr ''o/b'', bench_canary ''b'')]"

lemma sample_lookups:
  assumes "name = ''a'' \<or> name = ''b''"
  shows "record_of sample_records (''o/'' @ name) = Inr (the (as_dict (adopter_record name)))" "canary_of sample_canaries (''o/'' @ name) = Inr (bench_canary name)"
  using assms by (auto simp: record_of_def sample_records_def adopter_record_def get_if_dict_def dget_def canary_of_def sample_canaries_def)

lemma sample_data:
  "dget (the (as_dict (adopter_record name))) ''pre_adoption_commit'' = dget (merged_record name) ''pre_adoption_commit''"
  "dget (the (as_dict (adopter_record name))) ''adoption_commit'' = dget (merged_record name) ''adoption_commit''"
  "dget (bench_canary name) ''adoption_commit'' = dget (merged_record name) ''adoption_commit''" "dget (bench_canary name) ''tool'' = dget (merged_record name) ''tool''"
  unfolding merged_fields by (simp_all add: adopter_record_def bench_canary_def dget_def)

lemma written_measurement_is_accepted_witness:
  "check_measurement (bench bare_measure_host) sample_records sample_canaries 50 10 (VDict (sample_measurement ''a'')) [] = Inr [''o/a'']"
proof (rule written_measurement_is_accepted [OF sample_measured(1) bare_steady])
  show "\<forall>metric \<in> set REQUIRED_METRICS. 0 < metric_value (bench bare_measure_host) (the (as_dict (dget (sample_measurement ''a'') ''metrics''))) metric ''baseline''"
    using sample_positive(1,4) [of "''a''"] by (simp add: bare_fields)
  show "record_of sample_records ''o/a'' = Inr (the (as_dict (adopter_record ''a'')))" "canary_of sample_canaries ''o/a'' = Inr (bench_canary ''a'')"
    using sample_lookups [of "''a''"] by simp_all
qed (simp_all add: merged_fields sample_data)

section \<open>A report that passes\<close>

definition sample_report :: pydict where
  "sample_report = [(''schema_version'', VInt 1), (''suite'', VStr ''foundation''), (''status'', VStr ''passed''), (''failures'', VList []),
     (''provenance'', VDict [(''corekit_revision'', VStr BENCH_REV), (''toolchains'', VDict [(''go'', VStr ''g''), (''rustc'', VStr ''r''), (''cargo'', VStr ''c'')])]),
     (''measurements'', VList [VDict (sample_measurement ''a''), VDict (sample_measurement ''b'')]),
     (''standalone_smokes'', VList [bench_smoke ''a'', bench_smoke ''b''])]"

definition bench_documents :: "string \<Rightarrow> pyval res" where
  "bench_documents s = Inr (VDict (
     if s = ''evidence.json'' then [(''consumers'', VList sample_records)]
     else if s = ''consumer-canaries.json'' then [(''consumers'', VList [VDict (bench_canary ''a''), VDict (bench_canary ''b'')])] else sample_report))"

text \<open>The same machine with the report on its disk.\<close>

definition sample_bench_host :: bench_host where
  "sample_bench_host = bare_bench_host\<lparr>adopter := adopted_host\<lparr>amachine := (amachine adopted_host)\<lparr>json_loads := bench_documents\<rparr>\<rparr>\<rparr>"

definition sample_measure_host :: measure_host where
  "sample_measure_host = bare_measure_host\<lparr>bench := sample_bench_host\<rparr>"

lemma on_disk:
  "bench_round sample_bench_host = (\<lambda>r. r)" "loads_output sample_bench_host = bench_json"
  "load_document sample_bench_host p = bench_documents (last p)" "sha256 (bworld sample_bench_host) s = ''x''"
  by (simp_all add: sample_bench_host_def bare_bench_host_def adopted_host_def sample_world_def load_document_def read_text_def adopted_bytes_def adopted_digest_def)

lemma same_numbers: "bench_round sample_bench_host = bench_round bare_bench_host" "number_value sample_bench_host = number_value bare_bench_host"
  by (simp_all add: fun_eq_iff number_value_def sample_bench_host_def)

lemma same_calculations:
  "measured_metrics sample_measure_host = measured_metrics bare_measure_host" "measured_ratios (bench sample_measure_host) = measured_ratios (bench bare_measure_host)"
  "raw_record sample_measure_host = raw_record bare_measure_host" "workload_record sample_measure_host = workload_record bare_measure_host"
proof -
  have hosts: "bench sample_measure_host = sample_bench_host" "bench bare_measure_host = bare_bench_host" "byte_count sample_measure_host = byte_count bare_measure_host"
    by (simp_all add: sample_measure_host_def bare_measure_host_def)
  have calc: "bench_p95 sample_bench_host = bench_p95 bare_bench_host" "bench_median sample_bench_host = bench_median bare_bench_host"
    "median_value sample_bench_host = median_value bare_bench_host" "divide_values sample_bench_host = divide_values bare_bench_host"
    unfolding fun_eq_iff bench_p95_def bench_median_def median_value_def divide_values_def same_numbers by simp_all
  have digest: "sha256 (bworld sample_bench_host) = sha256 (bworld bare_bench_host)"
    by (simp add: fun_eq_iff sample_bench_host_def bare_bench_host_def)
  show "measured_metrics sample_measure_host = measured_metrics bare_measure_host" "measured_ratios (bench sample_measure_host) = measured_ratios (bench bare_measure_host)"
    "raw_record sample_measure_host = raw_record bare_measure_host" "workload_record sample_measure_host = workload_record bare_measure_host"
    by (simp_all add: fun_eq_iff measured_metrics_def measured_ratios_def raw_record_def workload_record_def hosts calc digest)
qed

lemma sample_check_named:
  assumes "name = ''a'' \<or> name = ''b''"
  shows "check_named sample_bench_host (''o/'' @ name) (sample_measurement name) (the (as_dict (adopter_record name))) (bench_canary name) 50 10 = Inr ()"
proof -
  have steady: "steady_machine sample_measure_host ''J''"
  proof -
    have "decode_replace (adopter sample_bench_host) s = decode_replace (adopter bare_bench_host) s" for s
      by (simp add: sample_bench_host_def bare_bench_host_def)
    then have "timed_launch sample_measure_host p args d = timed_launch bare_measure_host p args d" for p args d
      by (simp add: timed_launch_def sample_measure_host_def bare_measure_host_def time_report_lines_def parse_rss_def sample_bench_host_def bare_bench_host_def)
    then show ?thesis
      using bare_steady by (simp add: steady_machine_def exact_rounding_def sample_measure_host_def on_disk bare_fields)
        (auto simp: bare_bench_host_def bare_measure_host_def)
  qed
  have "measurement_of sample_measure_host (VStr (''o/'' @ name)) adopted_commit adopted_commit 50 10 sample_built (replicate 50 (sample_launch, sample_launch)) =
      measurement_of bare_measure_host (VStr (''o/'' @ name)) adopted_commit adopted_commit 50 10 sample_built (replicate 50 (sample_launch, sample_launch))"
    by (simp add: measurement_of_def same_calculations Let_def)
  with sample_measured(2) [OF assms] have m: "measurement_of sample_measure_host (VStr (''o/'' @ name)) adopted_commit adopted_commit 50 10 sample_built (replicate 50 (sample_launch, sample_launch)) = Inr (sample_measurement name)"
    by simp
  have doc: "version_document (bench sample_measure_host) ''J'' (dget (bench_canary name) ''tool'') [(''tool'', VStr ''t''), (''version'', VStr ''1''), (''schema_version'', VInt 1)]"
    by (simp add: version_document_def sample_measure_host_def on_disk bench_json_def version_fields_def has_key_def bench_canary_def dget_def)
  have "check_named (bench sample_measure_host) (''o/'' @ name) (sample_measurement name) (the (as_dict (adopter_record name))) (bench_canary name) 50 10 = Inr ()"
  proof (rule measurement_accepted [OF steady m _ _ _ _ doc])
    show "\<forall>metric \<in> set REQUIRED_METRICS. 0 < metric_value (bench sample_measure_host) (the (as_dict (dget (sample_measurement name) ''metrics''))) metric ''baseline''"
      using sample_positive(1,4) [OF assms] by (simp add: metric_value_def same_numbers sample_measure_host_def)
  qed (simp_all add: plausible_launch_def sample_launch_def plausible_times_def sample_built_def sample_data merged_fields)
  then show ?thesis by (simp add: sample_measure_host_def)
qed

lemma sample_consumers: "check_consumer_set sample_records sample_canaries = Inr [''o/a'', ''o/b'']"
  by code_simp

lemma sample_smokes: "Bench.check_smoke sample_bench_host sample_records sample_canaries (bench_smoke ''a'') = Inr ()"
  "Bench.check_smoke sample_bench_host sample_records sample_canaries (bench_smoke ''b'') = Inr ()"
  by code_simp+

lemma sample_report_valid: "validate_bench_report sample_bench_host (VDict sample_report) sample_records sample_canaries 50 10 = Inr ()"
proof -
  have entries: "exact_entries [''o/a'', ''o/b''] (VList [VDict (sample_measurement ''a''), VDict (sample_measurement ''b'')]) w = Inr [VDict (sample_measurement ''a''), VDict (sample_measurement ''b'')]"
    "exact_entries [''o/a'', ''o/b''] (VList [bench_smoke ''a'', bench_smoke ''b'']) w = Inr [bench_smoke ''a'', bench_smoke ''b'']" for w
    using sample_positive(2) [of "''a''"] sample_positive(2) [of "''b''"]
    by (simp_all add: exact_entries_Inr List.map_filter_simps bench_smoke_def Let_def dget_def [of _ "''repository''"])
  have measured: "fold_res (check_measurement sample_bench_host sample_records sample_canaries 50 10) [VDict (sample_measurement ''a''), VDict (sample_measurement ''b'')] [] = Inr [''o/a'', ''o/b'']"
    using sample_positive(2) [of "''a''"] sample_positive(2) [of "''b''"] sample_lookups [of "''a''"] sample_lookups [of "''b''"] sample_check_named [of "''a''"] sample_check_named [of "''b''"]
    by (simp add: check_measurement_def Let_def)
  have "dindex (sample_measurement name) ''maximum_regression_ratio'' = Inr (VFloat 1)" if "name = ''a'' \<or> name = ''b''" for name
    using sample_positive(3) [OF that] by (auto simp: dget_def dindex_def split: option.splits)
  then have ceiling: "check_regressions sample_bench_host [sample_measurement ''a'', sample_measurement ''b''] = Inr []"
    by (simp add: check_regressions_def regression_ceiling_def on_disk)
  have head: "check_report_head sample_report = Inr ()"
    by (simp add: check_report_head_def Let_def sample_report_def dget_def) code_simp
  have fields: "dget sample_report ''measurements'' = VList [VDict (sample_measurement ''a''), VDict (sample_measurement ''b'')]"
    "dget sample_report ''standalone_smokes'' = VList [bench_smoke ''a'', bench_smoke ''b'']"
    by (simp_all add: sample_report_def dget_def)
  show ?thesis
    unfolding validate_bench_report_def fields
    using head sample_consumers entries measured ceiling sample_smokes by (simp add: fields)
qed

definition sample_bench_args :: bench_args where
  "sample_bench_args = \<lparr>suite_arg = Some ''foundation'', runs_arg = 50, build_runs_arg = 10, smoke_arg = False, report_arg = None\<rparr>"

lemma sample_bench_passes: "bench_script sample_bench_host sample_bench_args = Inr 0"
proof -
  have documents: "bench_documents ''evidence.json'' = Inr (VDict [(''consumers'', VList sample_records)])"
    "bench_documents ''consumer-canaries.json'' = Inr (VDict [(''consumers'', VList [VDict (bench_canary ''a''), VDict (bench_canary ''b'')])])"
    "bench_documents ''foundation.json'' = Inr (VDict sample_report)"
    by (simp_all add: bench_documents_def)
  have canaries: "configured_canaries (VDict [(''consumers'', VList [VDict (bench_canary ''a''), VDict (bench_canary ''b'')])]) = Inr sample_canaries"
    by code_simp
  have args: "suite_arg sample_bench_args = Some ''foundation''" "runs_arg sample_bench_args = 50" "build_runs_arg sample_bench_args = 10"
      "last (bench_report_path sample_bench_host sample_bench_args ''foundation'') = ''foundation.json''"
    by (simp_all add: sample_bench_args_def bench_report_path_def)
  have "length sample_records = 2" "dget_or [(''consumers'', VList sample_records)] ''consumers'' v = VList sample_records" for v
    by (simp_all add: sample_records_def dget_or_def)
  then have "bench_check sample_bench_host sample_bench_args = Inr 0"
    by (simp add: bench_check_def args on_disk documents canaries sample_report_valid)
  then show ?thesis by (simp add: bench_script_def)
qed


end
