(* ===== verification/StaticUpdate.thy ===== *)
theory StaticUpdate
  imports HandoffFiles FsRecords
begin

text \<open>
  The store of the recorded Go observations of the updater, \<open>scripts/rust-port/static_update_oracle.py\<close>: the lanes,
  the structure of a capture, the check of a frozen capture against the index and the reviewed anchors, and the
  registration of a new one. Files that change are a \<open>store\<close>, a map from resolved paths to an identity and bytes;
  what can go wrong while two files are published, and what other processes do meanwhile, is an argument.
\<close>

section \<open>Lanes\<close>

record lane_spec =
  expected_count :: nat
  legacy_name :: string
  fixture_name :: string
  case_path :: "string list"
  oracle_paths :: "string list"
  source_paths :: "string list"
  lane_command :: "string list"

definition CHECK_GO :: string where
  "CHECK_GO = ''updatecheck/updatecheck.go''"

definition LANES :: "(string \<times> lane_spec) list" where
  "LANES =
     [(''version'', \<lparr>expected_count = 30, legacy_name = ''stable-versions.json'', fixture_name = ''version.json'', case_path = [''cases''],
         oracle_paths = [''scripts/rust-port/update-oracle/main.go''], source_paths = [CHECK_GO], lane_command = [''go'', ''run'', ''./scripts/rust-port/update-oracle'']\<rparr>),
      (''response'', \<lparr>expected_count = 9, legacy_name = ''responses.json'', fixture_name = ''response.json'', case_path = [''cases''],
         oracle_paths = [''scripts/rust-port/update-response-oracle/main.go''], source_paths = [CHECK_GO], lane_command = [''go'', ''run'', ''./scripts/rust-port/update-response-oracle'']\<rparr>),
      (''install-method'', \<lparr>expected_count = 15, legacy_name = ''install-methods.json'', fixture_name = ''install-method.json'', case_path = [''cases''],
         oracle_paths = [''scripts/rust-port/install-method-oracle/main.go''], source_paths = [''updatecheck/installmethod/detect.go''],
         lane_command = [''go'', ''run'', ''./scripts/rust-port/install-method-oracle'']\<rparr>),
      (''extract'', \<lparr>expected_count = 12, legacy_name = ''extract.json'', fixture_name = ''extract.json'', case_path = [''cases''],
         oracle_paths = [''scripts/rust-port/update-extract-oracle/main.go''], source_paths = [''updatecheck/extract/extract.go''],
         lane_command = [''build-and-run'', ''./scripts/rust-port/update-extract-oracle'']\<rparr>),
      (''swap'', \<lparr>expected_count = 8, legacy_name = ''swap.json'', fixture_name = ''swap.json'', case_path = [''cases''],
         oracle_paths = [''updatecheck/updateapply/atomic_swap_oracle_test.go''], source_paths = [''updatecheck/updateapply/updateapply.go''],
         lane_command = [''go'', ''test'', ''-count=1'', ''-run'', ''^TestAtomicSwapOracle$'', ''./updatecheck/updateapply'']\<rparr>),
      (''checker'', \<lparr>expected_count = 21, legacy_name = ''checker.json'', fixture_name = ''checker.json'', case_path = [''observations'', ''cases''],
         oracle_paths = [''scripts/rust-port/update-checker-oracle/main.go''], source_paths = [CHECK_GO], lane_command = [''go'', ''run'', ''./scripts/rust-port/update-checker-oracle'']\<rparr>)]"

text \<open>\<open>LANES[lane]\<close> where the name has been checked.\<close>

definition spec_of :: "string \<Rightarrow> lane_spec" where
  "spec_of lane = the (map_of LANES lane)"

section \<open>The machine\<close>

record platform =
  sys_platform :: string
  system_name :: string
  machine_name :: string

definition native_target_of :: "platform \<Rightarrow> string \<times> string" where
  "native_target_of p =
     (let arch = lower (machine_name p) in
      (if sys_platform p = ''darwin'' then ''darwin''
       else if startswith (sys_platform p) ''linux'' then ''linux''
       else if startswith (sys_platform p) ''win'' then ''windows''
       else lower (system_name p),
       case map_of [(''aarch64'', ''arm64''), (''arm64'', ''arm64''), (''x86_64'', ''amd64''), (''amd64'', ''amd64'')] arch of
         None \<Rightarrow> arch | Some a \<Rightarrow> a))"

record static_host =
  smachine :: world
  sroot :: path
  splatform :: platform
  reviewed :: "(string \<times> string) list"
  historical_reviewed :: "(string \<times> string) list"
  own_file :: path
  go_oracle_set :: bool

abbreviation stext :: "static_host \<Rightarrow> rat \<Rightarrow> string" where
  "stext h \<equiv> float_text (smachine h)"

definition UPDATE_FIXTURES :: "string list" where
  "UPDATE_FIXTURES = [''testdata'', ''rust-port'', ''fixtures'', ''update'']"

definition generation_dir :: "static_host \<Rightarrow> bool \<Rightarrow> path" where
  "generation_dir h historical = sroot h @ UPDATE_FIXTURES @ [if historical then ''static-v1'' else ''static-v2'']"

definition goos_arch :: "string \<times> string \<Rightarrow> string" where
  "goos_arch target = msg [fst target, ''-'', snd target]"

definition static_fixture_path :: "static_host \<Rightarrow> string \<Rightarrow> string \<times> string \<Rightarrow> bool \<Rightarrow> path res" where
  "static_fixture_path h lane target historical =
     (case map_of LANES lane of
        None \<Rightarrow> Inl (ValueError (msg [''unknown static update lane: '', lane]))
      | Some spec \<Rightarrow> Inr (generation_dir h historical @ [goos_arch target, fixture_name spec]))"

text \<open>\<open>"/".join((goos, goarch, lane))\<close>\<close>

definition capture_key :: "string \<times> string \<Rightarrow> string \<Rightarrow> string" where
  "capture_key target lane = join ''/'' [fst target, snd target, lane]"

section \<open>Cases\<close>

definition at_path :: "pyval \<Rightarrow> string list \<Rightarrow> pyval res" where
  "at_path v path = fold_res (\<lambda>k x. pindex x k) path v"

definition three_digits :: "nat \<Rightarrow> string" where
  "three_digits n = (let s = str_nat n in replicate (3 - length s) (CHR ''0'') @ s)"

definition case_ids :: "string \<Rightarrow> pyval \<Rightarrow> pyval list res" where
  "case_ids lane payload =
     bind_res (at_path payload (case_path (spec_of lane))) (\<lambda>cases.
     if lane = ''version'' then bind_res (py_len cases) (\<lambda>n. Inr (map (\<lambda>i. VStr (''stable-version-'' @ three_digits (Suc i))) [0..<nat n]))
     else bind_res (iter_items cases) (\<lambda>items.
       if lane = ''swap'' then map_res (\<lambda>c. bind_res (pindex c ''input'') (\<lambda>x. pindex x ''id'')) items
       else map_res (\<lambda>c. pindex c ''id'') items))"

definition case_fingerprints :: "static_host \<Rightarrow> string \<Rightarrow> pyval \<Rightarrow> pyval list res" where
  "case_fingerprints h lane payload =
     bind_res (at_path payload (case_path (spec_of lane))) (\<lambda>cases.
     bind_res (iter_items cases) (\<lambda>items.
     Inr (map (\<lambda>c. VStr (sha256 (smachine h) (canonical_json (stext h) c))) items)))"

section \<open>The structure of a capture\<close>

definition check_provenance_field :: "string \<Rightarrow> pydict \<Rightarrow> string \<times> (pyval \<Rightarrow> bool) \<Rightarrow> unit res" where
  "check_provenance_field lane capture field_test =
     insist (snd field_test (dget capture (fst field_test))) [lane, '' invalid required provenance field: '', fst field_test]"

text \<open>One entry of a list of input files; the names seen so far are passed along.\<close>

definition check_input :: "string \<Rightarrow> string \<Rightarrow> pyval \<Rightarrow> string list \<Rightarrow> string list res" where
  "check_input lane field item seen =
     bind_res (insist (is_dict item) [lane, '' malformed provenance inventory: '', field]) (\<lambda>_.
     let name = get_if_dict item ''path'' in
     bind_res (insist (safe_label name \<and> name \<notin> VStr ` set seen) [lane, '' invalid provenance input path: '', field]) (\<lambda>_.
     bind_res (insist (is_digest (get_if_dict item ''sha256'')) [lane, '' invalid provenance input digest: '', field]) (\<lambda>_.
     Inr (the (as_str name) # seen))))"

definition check_inputs :: "string \<Rightarrow> pydict \<Rightarrow> string \<Rightarrow> unit res" where
  "check_inputs lane capture field =
     (let files = dget capture field in
      bind_res (insist (is_list files \<and> files \<noteq> VList []) [lane, '' missing required provenance inventory: '', field]) (\<lambda>_.
      bind_res (fold_res (check_input lane field) (the (as_list files)) []) (\<lambda>_. Inr ())))"

text \<open>\<open>except (KeyError, TypeError)\<close> around the look-up of the cases and their names.\<close>

definition case_inventory :: "string \<Rightarrow> pyval \<Rightarrow> (pyval \<times> pyval list) res" where
  "case_inventory lane payload =
     (case bind_res (at_path payload (case_path (spec_of lane))) (\<lambda>cases. bind_res (case_ids lane payload) (\<lambda>ids. Inr (cases, ids))) of
        Inl (KeyError k) \<Rightarrow> Inl (ValueError (lane @ '' capture lacks a valid case inventory''))
      | Inl TypeError \<Rightarrow> Inl (ValueError (lane @ '' capture lacks a valid case inventory''))
      | r \<Rightarrow> r)"

definition nonempty_str :: "pyval \<Rightarrow> bool" where
  "nonempty_str v = str_such (\<lambda>s. s \<noteq> []) v"

definition check_cases :: "static_host \<Rightarrow> string \<Rightarrow> pyval \<Rightarrow> pydict \<Rightarrow> unit res" where
  "check_cases h lane payload capture =
     bind_res (case_inventory lane payload) (\<lambda>(cases, ids).
     bind_res (insist (is_list cases \<and> length (the (as_list cases)) = expected_count (spec_of lane)) [lane, '' capture case count mismatch'']) (\<lambda>_.
     bind_res (insist (list_all nonempty_str ids \<and> distinct ids \<and> py_eq (VList ids) (dget capture ''case_ids'')) [lane, '' capture case IDs mismatch'']) (\<lambda>_.
     bind_res (insist (dget capture ''case_count'' = VInt (int (expected_count (spec_of lane)))) [lane, '' provenance case inventory mismatch'']) (\<lambda>_.
     bind_res (case_fingerprints h lane payload) (\<lambda>prints.
     insist (py_eq (dget capture ''case_fingerprints_sha256'') (VList prints)) [lane, '' case fingerprint inventory mismatch''])))))"

definition check_go_identity :: "string \<Rightarrow> pydict \<Rightarrow> (string \<times> string) option \<Rightarrow> (string \<times> string) res" where
  "check_go_identity lane capture target =
     (let go = dget capture ''go''; goos = get_if_dict go ''goos''; goarch = get_if_dict go ''goarch'' in
      bind_res (insist (is_dict go \<and> goos \<in> {VStr ''darwin'', VStr ''linux'', VStr ''windows''} \<and> goarch \<in> {VStr ''amd64'', VStr ''arm64''})
        [lane, '' invalid Go platform identity'']) (\<lambda>_.
      let actual = (the (as_str goos), the (as_str goarch)) in
      bind_res (insist (get_if_dict go ''version'' = VStr (msg [''go version go1.26.6 '', fst actual, ''/'', snd actual]))
        [lane, '' capture does not record executed Go 1.26.6 identity'']) (\<lambda>_.
      bind_res (insist (target = None \<or> target = Some actual) [lane, '' native platform identity mismatch'']) (\<lambda>_. Inr actual))))"

definition ADDITIVE :: string where
  "ADDITIVE = ''fresh-pinned-go-execution-additive-v2''"

definition SNAPSHOT_FIELDS :: "string list" where
  "SNAPSHOT_FIELDS = [''source_commit'', ''working_tree_clean'', ''dirty_paths'', ''source_files'']"

definition snapshot_digest :: "static_host \<Rightarrow> pydict \<Rightarrow> string" where
  "snapshot_digest h snapshot = sha256 (smachine h) (canonical_json (stext h) (VDict snapshot))"

definition check_snapshot :: "static_host \<Rightarrow> string \<Rightarrow> pydict \<Rightarrow> unit res" where
  "check_snapshot h lane capture =
     (if dget capture ''capture_mode'' = VStr ADDITIVE then
        bind_res (map_res (\<lambda>k. bind_res (dindex capture k) (\<lambda>v. Inr (k, v))) SNAPSHOT_FIELDS) (\<lambda>fields1.
        let snapshot = fields1 @ [(''go_binary_sha256'', get_if_dict (dget capture ''go'') ''binary_sha256'')] in
        insist (dget capture ''input_inventory_verified'' = VBool True \<and> dget capture ''input_snapshot_sha256'' = VStr (snapshot_digest h snapshot))
          [lane, '' invalid verified input snapshot''])
      else Inr ())"

definition validate_payload :: "static_host \<Rightarrow> string \<Rightarrow> pyval \<Rightarrow> (string \<times> string) option \<Rightarrow> pydict res" where
  "validate_payload h lane payload target =
     bind_res (insist (is_dict payload) [lane, '' capture payload must be an object'']) (\<lambda>_.
     bind_res (insist (get_if_dict (get_if_dict payload ''capture'') ''schema_version'' = VInt 1) [lane, '' capture lacks versioned provenance'']) (\<lambda>_.
     let capture = the (as_dict (get_if_dict payload ''capture'')) in
     bind_res (insist (dget capture ''lane'' = VStr lane) [lane, '' capture lane mismatch'']) (\<lambda>_.
     bind_res (for_each (check_provenance_field lane capture) [(''source_commit'', is_commit), (''capturer_sha256'', is_digest)]) (\<lambda>_.
     bind_res (insist (is_bool (dget capture ''working_tree_clean'')) [lane, '' working_tree_clean must be boolean'']) (\<lambda>_.
     let dirty = dget capture ''dirty_paths'' in
     bind_res (insist (is_list dirty \<and> list_all is_str (the (as_list dirty))) [lane, '' missing or malformed dirty-path inventory'']) (\<lambda>_.
     bind_res (insist (dget capture ''working_tree_clean'' = VBool (dirty = VList [])) [lane, '' dirty-path inventory contradicts source status'']) (\<lambda>_.
     bind_res (for_each (check_inputs lane capture) [''source_files'', ''oracle_files'', ''go_module_inputs'']) (\<lambda>_.
     bind_res (check_cases h lane payload capture) (\<lambda>_.
     bind_res (check_go_identity lane capture target) (\<lambda>_.
     bind_res (insist (get_if_dict (dget capture ''raw'') ''exit_code'' = VInt 0) [lane, '' capture records a failed Go execution'']) (\<lambda>_.
     bind_res (check_snapshot h lane capture) (\<lambda>_.
     Inr capture))))))))))))"

section \<open>The check of a frozen capture\<close>

text \<open>\<open>except (OSError, UnicodeDecodeError, json.JSONDecodeError)\<close> around the two documents.\<close>

definition unreadable :: "string \<Rightarrow> 'a res \<Rightarrow> 'a res" where
  "unreadable lane r =
     (case r of
        Inl e \<Rightarrow> if is_os_error e \<or> is_decode_error e \<or> is_json_error e
                  then Inl (ValueError (msg [''cannot read static '', lane, '' Go capture: '', exc_text e])) else Inl e
      | Inr x \<Rightarrow> Inr x)"

definition read_documents :: "static_host \<Rightarrow> path \<Rightarrow> path \<Rightarrow> (pyval \<times> string \<times> pyval) res" where
  "read_documents h index_path path =
     (let w = smachine h in
      bind_res (bind_res (read_text w index_path) (json_loads w)) (\<lambda>index.
      bind_res (read_bytes w path) (\<lambda>raw.
      bind_res (bind_res (utf8 w raw) (json_loads w)) (\<lambda>payload. Inr (index, raw, payload)))))"

definition check_index_version :: "pyval \<Rightarrow> unit res" where
  "check_index_version index =
     bind_res (pget index ''schema_version'') (\<lambda>v. insist (v = VInt 2) [''unsupported static update provenance index version''])"

text \<open>The entry of the index against the capture, once the entry is a dictionary and the bytes are known.\<close>

definition check_index_entry :: "static_host \<Rightarrow> string \<Rightarrow> pydict \<Rightarrow> string \<times> string \<Rightarrow> pydict \<Rightarrow> unit res" where
  "check_index_entry h lane e target capture =
     bind_res (insist (py_eq (dget capture ''capturer_sha256'') (dget e ''capturer_sha256'')) [lane, '' capture helper digest mismatch'']) (\<lambda>_.
     bind_res (insist (is_bool (dget e ''working_tree_clean'')) [lane, '' working_tree_clean must be boolean'']) (\<lambda>_.
     bind_res (insist (py_eq (dget capture ''source_commit'') (dget e ''source_commit'') \<and> dget capture ''working_tree_clean'' = dget e ''working_tree_clean'')
       [lane, '' source identity mismatch'']) (\<lambda>_.
     bind_res (insist (type_is_int (dget e ''case_count'') \<and> dget e ''case_count'' = dget capture ''case_count'' \<and> py_eq (dget e ''case_ids'') (dget capture ''case_ids''))
       [lane, '' provenance case inventory mismatch'']) (\<lambda>_.
     insist (dget e ''goos'' = VStr (fst target) \<and> dget e ''goarch'' = VStr (snd target)) [lane, '' native platform identity mismatch'']))))"

definition check_standing :: "string \<Rightarrow> pydict \<Rightarrow> bool \<Rightarrow> bool \<Rightarrow> unit res" where
  "check_standing lane capture historical diagnostic =
     bind_res (insist (diagnostic \<or> dget capture ''working_tree_clean'' = VBool True)
       [lane, '' dirty capture is diagnostic only; clean source-bound recapture required'']) (\<lambda>_.
     bind_res (insist (diagnostic \<or> \<not> historical) [lane, '' historical capture is diagnostic only'']) (\<lambda>_.
     insist (diagnostic \<or> dget capture ''capture_mode'' = VStr ADDITIVE) [lane, '' acceptance requires verified pre-execution transitive inputs'']))"

text \<open>The entry of the index, and the place of the file it names.\<close>

definition capture_entry :: "string \<Rightarrow> pyval \<Rightarrow> string \<Rightarrow> pydict res" where
  "capture_entry lane index key =
     bind_res (check_index_version index) (\<lambda>_.
     bind_res (pget_or index ''captures'' (VDict [])) (\<lambda>captures.
     bind_res (pget captures key) (\<lambda>e.
     bind_res (insist (is_dict e) [''missing '', lane, '' provenance entry'']) (\<lambda>_. Inr (the (as_dict e))))))"

definition check_place :: "static_host \<Rightarrow> string \<Rightarrow> path \<Rightarrow> bool \<Rightarrow> pydict \<Rightarrow> unit res" where
  "check_place h lane resolved historical e =
     bind_res (resolve_path (smachine h) (sroot h)) (\<lambda>base.
     bind_res (insist (is_relative_to resolved base) [as_posix resolved, '' is not in the subpath of '', as_posix base]) (\<lambda>_.
     bind_res (insist (dget e ''path'' = VStr (as_posix (drop (length base) resolved))) [lane, '' provenance path mismatch'']) (\<lambda>_.
     bind_res (static_fixture_path h lane (native_target_of (splatform h)) historical) (\<lambda>p.
     bind_res (resolve_path (smachine h) p) (\<lambda>expected.
     insist (resolved = expected) [lane, '' provenance path mismatch''])))))"

definition check_evidence :: "static_host \<Rightarrow> string \<Rightarrow> bool \<Rightarrow> pydict \<Rightarrow> string \<Rightarrow> pyval \<Rightarrow> bool \<Rightarrow> unit res" where
  "check_evidence h lane historical e raw payload diagnostic =
     (let w = smachine h; native = native_target_of (splatform h) in
      bind_res (insist (dget e ''sha256'' = VStr (sha256 w raw)) [lane, '' Go capture digest mismatch'']) (\<lambda>_.
      bind_res (validate_payload h lane payload (Some native)) (\<lambda>capture.
      bind_res (check_index_entry h lane e native capture) (\<lambda>_.
      bind_res (insist (map_of (if historical then historical_reviewed h else reviewed h) (capture_key native lane) = Some (sha256 w raw))
        [lane, '' independently reviewed capture anchor mismatch'']) (\<lambda>_.
      check_standing lane capture historical diagnostic)))))"

definition validate_capture :: "static_host \<Rightarrow> string \<Rightarrow> path \<Rightarrow> bool \<Rightarrow> pyval res" where
  "validate_capture h lane path diagnostic =
     (let w = smachine h in
      bind_res (insist (map_of LANES lane \<noteq> None) [''unknown static update lane: '', lane]) (\<lambda>_.
      bind_res (insist (is_file w path) [''missing native '', lane, '' Go capture: '', as_posix path]) (\<lambda>_.
      bind_res (resolve_path w path) (\<lambda>resolved.
      bind_res (resolve_path w (generation_dir h True)) (\<lambda>old.
      let historical = is_relative_to resolved old; index_path = generation_dir h historical @ [''index-v2.json''] in
      bind_res (insist (is_file w index_path) [''missing static update provenance index: '', as_posix index_path]) (\<lambda>_.
      bind_res (unreadable lane (read_documents h index_path path)) (\<lambda>(index, raw, payload).
      bind_res (capture_entry lane index (capture_key (native_target_of (splatform h)) lane)) (\<lambda>e.
      bind_res (check_place h lane resolved historical e) (\<lambda>_.
      bind_res (check_evidence h lane historical e raw payload diagnostic) (\<lambda>_.
      Inr payload))))))))))"

section \<open>Registration\<close>

text \<open>Regular files by resolved path: the identity of the file (\<open>os.path.samestat\<close>) and its bytes.\<close>

record store =
  file_at :: "path \<Rightarrow> (nat \<times> string) option"

definition seen_in :: "static_host \<Rightarrow> store \<Rightarrow> static_host" where
  "seen_in h st =
     h\<lparr>smachine := (smachine h)\<lparr>
         read_bytes := (\<lambda>p. case file_at st p of Some (_, b) \<Rightarrow> Inr b | None \<Rightarrow> Inl (FileNotFoundError (as_posix p))),
         is_file := (\<lambda>p. file_at st p \<noteq> None)\<rparr>\<rparr>"

definition entry_exists :: "static_host \<Rightarrow> path \<Rightarrow> bool" where
  "entry_exists h p = (is_file (smachine h) p \<or> is_dir (smachine h) p)"

text \<open>\<open>destination.name\<close>\<close>

definition final_name :: "path \<Rightarrow> string" where
  "final_name p = (if p = [] then [] else last p)"

definition lane_for :: "string \<Rightarrow> string res" where
  "lane_for name =
     (case filter (\<lambda>p. fixture_name (snd p) = name) LANES of
        p # _ \<Rightarrow> Inr (fst p) | [] \<Rightarrow> Inl (ValueError ''destination filename does not identify an update lane''))"

text \<open>An earlier capture: its file lies in the evidence root and has the recorded and the reviewed bytes.\<close>

definition check_prior :: "static_host \<Rightarrow> string \<times> pyval \<Rightarrow> unit res" where
  "check_prior h item =
     (let w = smachine h in
      bind_res (pindex (snd item) ''path'') (\<lambda>v.
      bind_res (case v of VStr s \<Rightarrow> resolve_path w (join_path (sroot h) s) | _ \<Rightarrow> Inl TypeError) (\<lambda>prior.
      bind_res (resolve_path w (sroot h)) (\<lambda>base.
      bind_res (insist (is_relative_to prior base \<and> is_file w prior) [''existing '', fst item, '' capture path escapes the evidence root'']) (\<lambda>_.
      bind_res (read_bytes w prior) (\<lambda>b.
      insist (get_if_dict (snd item) ''sha256'' = VStr (sha256 w b) \<and> map_of (reviewed h) (fst item) = Some (sha256 w b))
        [''existing '', fst item, '' capture/index integrity check failed'']))))))"

definition current_index :: "static_host \<Rightarrow> path \<Rightarrow> pydict res" where
  "current_index h index_path =
     (if entry_exists h index_path then
        bind_res (bind_res (read_text (smachine h) index_path) (json_loads (smachine h))) (\<lambda>index.
        bind_res (check_index_version index) (\<lambda>_.
        bind_res (pget_or index ''captures'' (VDict [])) (\<lambda>captures.
        bind_res (case captures of VDict d \<Rightarrow> Inr d | _ \<Rightarrow> Inl AttributeError) (\<lambda>d.
        bind_res (for_each (check_prior h) d) (\<lambda>_. Inr (the (as_dict index)))))))
      else Inr [(''schema_version'', VInt 2), (''captures'', VDict [])])"

definition index_entry :: "string \<Rightarrow> string \<Rightarrow> pydict \<Rightarrow> pyval" where
  "index_entry relative digest capture =
     (let go = dget capture ''go'' in
      VDict [(''path'', VStr relative), (''sha256'', VStr digest), (''capturer_sha256'', dget capture ''capturer_sha256''),
        (''goos'', get_if_dict go ''goos''), (''goarch'', get_if_dict go ''goarch''), (''case_count'', dget capture ''case_count''),
        (''case_ids'', dget capture ''case_ids''), (''source_commit'', dget capture ''source_commit''),
        (''working_tree_clean'', dget capture ''working_tree_clean'')])"

definition add_index_entry :: "pydict \<Rightarrow> string \<Rightarrow> pyval \<Rightarrow> pydict res" where
  "add_index_entry index key e =
     bind_res (dindex index ''captures'') (\<lambda>captures.
     bind_res (case captures of VDict d \<Rightarrow> Inr d | _ \<Rightarrow> Inl TypeError) (\<lambda>d.
     bind_res (insist (\<not> has_key d key) [''refusing to replace a registered native capture'']) (\<lambda>_.
     Inr (dset index ''captures'' (VDict (dset d key e))))))"

record plan =
  plan_destination :: path
  plan_data :: string
  plan_index_path :: path
  plan_index :: pydict
  plan_lane :: string
  plan_payload :: pyval

definition capture_target :: "pydict \<Rightarrow> string \<times> string" where
  "capture_target capture =
     (let go = dget capture ''go'' in (the (as_str (get_if_dict go ''goos'')), the (as_str (get_if_dict go ''goarch''))))"

definition read_candidate :: "static_host \<Rightarrow> path \<Rightarrow> string \<Rightarrow> (string \<times> pyval \<times> pydict) res" where
  "read_candidate h source lane =
     (let w = smachine h in
      bind_res (read_bytes w source) (\<lambda>data.
      bind_res (bind_res (utf8 w data) (json_loads w)) (\<lambda>payload.
      bind_res (validate_payload h lane payload None) (\<lambda>capture.
      bind_res (read_bytes w (own_file h)) (\<lambda>own.
      bind_res (insist (dget capture ''capturer_sha256'' = VStr (sha256 w own)) [''candidate provenance does not match this lane/capturer'']) (\<lambda>_.
      Inr (data, payload, capture)))))))"

definition check_destination :: "static_host \<Rightarrow> path \<Rightarrow> string \<Rightarrow> string \<Rightarrow> string \<times> string \<Rightarrow> unit res" where
  "check_destination h dest lane data target =
     bind_res (resolve_path (smachine h) (generation_dir h False @ [goos_arch target])) (\<lambda>expected_parent.
     bind_res (insist (butlast dest = expected_parent) [''capture must be registered only to its exact native GOOS/GOARCH directory'']) (\<lambda>_.
     insist (map_of (reviewed h) (capture_key target lane) = Some (sha256 (smachine h) data)) [''registration requires independently reviewed candidate bytes'']))"

definition extended_index :: "static_host \<Rightarrow> path \<Rightarrow> path \<Rightarrow> string \<Rightarrow> string \<Rightarrow> pydict \<Rightarrow> pydict res" where
  "extended_index h index_path dest lane data capture =
     bind_res (current_index h index_path) (\<lambda>index.
     bind_res (resolve_path (smachine h) (sroot h)) (\<lambda>base.
     bind_res (insist (is_relative_to dest base) [as_posix dest, '' is not in the subpath of '', as_posix base]) (\<lambda>_.
     add_index_entry index (capture_key (capture_target capture) lane)
       (index_entry (as_posix (drop (length base) dest)) (sha256 (smachine h) data) capture))))"

text \<open>Everything before the directory of the destination is made: no file has changed.\<close>

definition plan_registration :: "static_host \<Rightarrow> path \<Rightarrow> path \<Rightarrow> plan res" where
  "plan_registration h candidate destination =
     (let w = smachine h; index_path = generation_dir h False @ [''index-v2.json''] in
      bind_res (require (go_oracle_set h) (RuntimeError ''registering a fresh Go capture requires explicit GO_ORACLE=1'')) (\<lambda>_.
      bind_res (resolve_path w candidate) (\<lambda>source.
      bind_res (resolve_path w destination) (\<lambda>dest.
      bind_res (require (\<not> entry_exists h dest) (OSError (msg [''refusing to overwrite existing capture: '', as_posix dest]))) (\<lambda>_.
      bind_res (lane_for (final_name dest)) (\<lambda>lane.
      bind_res (read_candidate h source lane) (\<lambda>(data, payload, capture).
      bind_res (check_destination h dest lane data (capture_target capture)) (\<lambda>_.
      bind_res (extended_index h index_path dest lane data capture) (\<lambda>new_index.
      Inr \<lparr>plan_destination = dest, plan_data = data, plan_index_path = index_path, plan_index = new_index, plan_lane = lane, plan_payload = payload\<rparr>)))))))))"

text \<open>What the publication meets: the identities of the two staged files, the faults of the calls, and what other
  processes do to the store before the link and after it.\<close>

record publication =
  capture_id :: nat
  index_id :: nat
  staging_fault :: "pyexc option"
  link_fault :: "pyexc option"
  replace_fault :: "pyexc option"
  lstat_fault :: "pyexc option"
  unlink_fault :: "pyexc option"
  before_link :: "store \<Rightarrow> store"
  after_link :: "store \<Rightarrow> store"

definition put_file :: "path \<Rightarrow> nat \<Rightarrow> string \<Rightarrow> store \<Rightarrow> store" where
  "put_file p n b st = st\<lparr>file_at := (file_at st)(p \<mapsto> (n, b))\<rparr>"

definition drop_file :: "path \<Rightarrow> store \<Rightarrow> store" where
  "drop_file p st = st\<lparr>file_at := (file_at st)(p := None)\<rparr>"

text \<open>The \<open>finally\<close> clause after a failed replacement: its own exception takes the place of \<open>e\<close>.\<close>

definition withdraw :: "publication \<Rightarrow> path \<Rightarrow> pyexc \<Rightarrow> store \<Rightarrow> unit res \<times> store" where
  "withdraw pub dest e st =
     (case lstat_fault pub of
        Some e' \<Rightarrow> (Inl e', st)
      | None \<Rightarrow>
          (case file_at st dest of
             None \<Rightarrow> (Inl e, st)
           | Some (n, _) \<Rightarrow>
               if n \<noteq> capture_id pub then (Inl e, st)
               else (case unlink_fault pub of Some e' \<Rightarrow> (Inl e', st) | None \<Rightarrow> (Inl e, drop_file dest st))))"

definition publish :: "static_host \<Rightarrow> publication \<Rightarrow> plan \<Rightarrow> store \<Rightarrow> unit res \<times> store" where
  "publish h pub p st =
     (let dest = plan_destination p in
      case staging_fault pub of
        Some e \<Rightarrow> (Inl e, st)
      | None \<Rightarrow>
          (let st1 = before_link pub st in
           case link_fault pub of
             Some e \<Rightarrow> (Inl e, st1)
           | None \<Rightarrow>
               if file_at st1 dest \<noteq> None then (Inl (OSError ''File exists''), st1)
               else
                 (let st2 = after_link pub (put_file dest (capture_id pub) (plan_data p) st1) in
                  case replace_fault pub of
                    None \<Rightarrow> (Inr (), put_file (plan_index_path p) (index_id pub) (json_bytes (stext h) (VDict (plan_index p))) st2)
                  | Some e \<Rightarrow> withdraw pub dest e st2)))"

definition register_capture :: "static_host \<Rightarrow> publication \<Rightarrow> store \<Rightarrow> path \<Rightarrow> path \<Rightarrow> unit res \<times> store" where
  "register_capture h pub st candidate destination =
     (case plan_registration (seen_in h st) candidate destination of
        Inl e \<Rightarrow> (Inl e, st)
      | Inr p \<Rightarrow> publish h pub p st)"

section \<open>What a well-formed capture is\<close>

lemma py_eq_strs_left: "py_eq (VList (map VStr xs)) v \<longleftrightarrow> v = VList (map VStr xs)"
proof
  assume "py_eq (VList (map VStr xs)) v"
  then obtain ys where y: "v = VList ys" "list_all2 py_eq (map VStr xs) ys" by (auto simp: py_eq_VList)
  from y(2) have "ys = map VStr xs" by (induction xs arbitrary: ys) (auto simp: list_all2_Cons1)
  with y(1) show "v = VList (map VStr xs)" by simp
qed (auto intro: py_eq_refl)

text \<open>The files a list of provenance records names, with their digests.\<close>

definition input_record :: "pyval \<Rightarrow> bool" where
  "input_record item = (safe_label (get_if_dict item ''path'') \<and> is_digest (get_if_dict item ''sha256''))"

definition record_pair :: "pyval \<Rightarrow> file_record" where
  "record_pair item = (the (as_str (get_if_dict item ''path'')), the (as_str (get_if_dict item ''sha256'')))"

definition input_files :: "pyval \<Rightarrow> file_record list \<Rightarrow> bool" where
  "input_files v fs \<longleftrightarrow> (\<exists>items. v = VList items \<and> list_all input_record items \<and> fs = map record_pair items) \<and> fs \<noteq> [] \<and> distinct (map fst fs)"

lemma input_record_pair: "input_record item \<Longrightarrow> safe_text (fst (record_pair item)) \<and> fullmatch HEX64 (snd (record_pair item))"
  by (auto simp: input_record_def record_pair_def safe_label_def is_digest_def str_such_iff)

lemma provenance_input_Inr:
  "check_input lane field item seen = Inr out \<longleftrightarrow> input_record item \<and> fst (record_pair item) \<notin> set seen \<and> out = fst (record_pair item) # seen"
proof -
  have "input_record item \<Longrightarrow> is_dict item" by (cases item) (auto simp: input_record_def safe_label_def get_if_dict_def)
  moreover have "input_record item \<Longrightarrow> get_if_dict item ''path'' = VStr (fst (record_pair item))"
    by (auto simp: input_record_def record_pair_def safe_label_def str_such_iff)
  ultimately show ?thesis
    by (auto simp: check_input_def bind_res_eq_Inr Let_def input_record_def record_pair_def)
qed

lemma fold_check_input:
  "fold_res (check_input lane field) items seen = Inr out \<longleftrightarrow>
     list_all input_record items \<and> distinct (map (fst \<circ> record_pair) items) \<and> set (map (fst \<circ> record_pair) items) \<inter> set seen = {}
     \<and> out = rev (map (fst \<circ> record_pair) items) @ seen"
  by (induction items arbitrary: seen) (auto simp: bind_res_eq_Inr provenance_input_Inr)

lemma check_inputs_Inr: "check_inputs lane capture field = Inr u \<longleftrightarrow> (\<exists>fs. input_files (dget capture field) fs)"
  by (auto simp: check_inputs_def Let_def bind_res_eq_Inr is_list_iff fold_check_input input_files_def)

text \<open>The cases a capture lists: as many as the lane has, with distinct names and the recorded digests.\<close>

definition sound_cases :: "static_host \<Rightarrow> string \<Rightarrow> pyval \<Rightarrow> pydict \<Rightarrow> bool" where
  "sound_cases h lane payload capture \<longleftrightarrow>
     (\<exists>cases ids. at_path payload (case_path (spec_of lane)) = Inr (VList cases) \<and> length cases = expected_count (spec_of lane)
        \<and> case_ids lane payload = Inr (map VStr ids) \<and> distinct ids \<and> [] \<notin> set ids
        \<and> dget capture ''case_ids'' = VList (map VStr ids) \<and> dget capture ''case_count'' = VInt (int (length cases))
        \<and> dget capture ''case_fingerprints_sha256'' = VList (map VStr (map (\<lambda>c. sha256 (smachine h) (canonical_json (stext h) c)) cases)))"

lemma nonempty_strs: "list_all nonempty_str vs \<longleftrightarrow> (\<exists>ids. vs = map VStr ids \<and> [] \<notin> set ids)"
proof
  show "list_all nonempty_str vs \<Longrightarrow> \<exists>ids. vs = map VStr ids \<and> [] \<notin> set ids"
    by (intro exI [of _ "strs_of vs"], induction vs rule: strs_of.induct) (auto simp: nonempty_str_def str_such_def)
qed (auto simp: nonempty_str_def list_all_iff)

lemma distinct_strs: "distinct (map VStr ids) = distinct ids"
  by (simp add: distinct_map inj_on_def)

lemma case_inventory_Inr:
  "case_inventory lane payload = Inr (cases, ids) \<longleftrightarrow> at_path payload (case_path (spec_of lane)) = Inr cases \<and> case_ids lane payload = Inr ids"
  by (auto simp: case_inventory_def bind_res_eq_Inr split: sum.splits pyexc.splits)

lemma check_cases_Inr: "check_cases h lane payload capture = Inr u \<longleftrightarrow> sound_cases h lane payload capture"
proof -
  have prints: "case_fingerprints h lane payload = Inr (map VStr (map (\<lambda>c. sha256 (smachine h) (canonical_json (stext h) c)) cases))"
    if "at_path payload (case_path (spec_of lane)) = Inr (VList cases)" for cases
    using that by (simp add: case_fingerprints_def)
  have "check_cases h lane payload capture = Inr u \<longleftrightarrow>
      (\<exists>cases vs. at_path payload (case_path (spec_of lane)) = Inr (VList cases) \<and> case_ids lane payload = Inr vs
         \<and> length cases = expected_count (spec_of lane) \<and> list_all nonempty_str vs \<and> distinct vs \<and> py_eq (VList vs) (dget capture ''case_ids'')
         \<and> dget capture ''case_count'' = VInt (int (length cases))
         \<and> py_eq (dget capture ''case_fingerprints_sha256'') (VList (map VStr (map (\<lambda>c. sha256 (smachine h) (canonical_json (stext h) c)) cases))))"
    by (auto simp: check_cases_def bind_res_eq_Inr case_inventory_Inr is_list_iff prints)
  then show ?thesis unfolding nonempty_strs sound_cases_def py_eq_strs
    by (auto simp: py_eq_strs_left distinct_strs)
qed

text \<open>The pinned compiler of a platform the recordings know.\<close>

definition sound_go :: "pydict \<Rightarrow> string \<times> string \<Rightarrow> bool" where
  "sound_go capture target \<longleftrightarrow>
     (let go = dget capture ''go'' in
      get_if_dict go ''goos'' = VStr (fst target) \<and> get_if_dict go ''goarch'' = VStr (snd target)
      \<and> fst target \<in> {''darwin'', ''linux'', ''windows''} \<and> snd target \<in> {''amd64'', ''arm64''}
      \<and> get_if_dict go ''version'' = VStr (msg [''go version go1.26.6 '', fst target, ''/'', snd target]))"

lemma check_go_identity_Inr:
  "check_go_identity lane capture target = Inr actual \<longleftrightarrow> sound_go capture actual \<and> (target = None \<or> target = Some actual)"
  by (cases "dget capture ''go''"; cases actual) (auto simp: check_go_identity_def sound_go_def Let_def bind_res_eq_Inr get_if_dict_def)

definition snapshot_verified :: "static_host \<Rightarrow> pydict \<Rightarrow> bool" where
  "snapshot_verified h capture \<longleftrightarrow>
     dget capture ''input_inventory_verified'' = VBool True
     \<and> dget capture ''input_snapshot_sha256'' = VStr (snapshot_digest h (map (\<lambda>k. (k, dget capture k)) SNAPSHOT_FIELDS
         @ [(''go_binary_sha256'', get_if_dict (dget capture ''go'') ''binary_sha256'')]))"

lemma check_snapshot_Inr:
  assumes "\<forall>k \<in> set SNAPSHOT_FIELDS. dget capture k \<noteq> VNone"
  shows "check_snapshot h lane capture = Inr u \<longleftrightarrow> (dget capture ''capture_mode'' = VStr ADDITIVE \<longrightarrow> snapshot_verified h capture)"
proof -
  have "dindex capture k = Inr (dget capture k)" if "k \<in> set SNAPSHOT_FIELDS" for k
    using assms that by (auto simp: dindex_def dget_def split: option.splits)
  then have "map_res (\<lambda>k. bind_res (dindex capture k) (\<lambda>v. Inr (k, v))) SNAPSHOT_FIELDS = Inr (map (\<lambda>k. (k, dget capture k)) SNAPSHOT_FIELDS)"
    by (auto simp: map_res_Inr list_all2_map2 intro!: list.rel_refl_strong)
  then show ?thesis by (simp add: check_snapshot_def snapshot_verified_def Let_def)
qed

definition INPUT_LISTS :: "string list" where
  "INPUT_LISTS = [''source_files'', ''oracle_files'', ''go_module_inputs'']"

definition sound_capture :: "static_host \<Rightarrow> string \<Rightarrow> pyval \<Rightarrow> pydict \<Rightarrow> string \<times> string \<Rightarrow> bool" where
  "sound_capture h lane payload capture target \<longleftrightarrow>
     get_if_dict payload ''capture'' = VDict capture \<and> dget capture ''schema_version'' = VInt 1 \<and> dget capture ''lane'' = VStr lane
     \<and> is_commit (dget capture ''source_commit'') \<and> is_digest (dget capture ''capturer_sha256'')
     \<and> (\<exists>dirty. dget capture ''dirty_paths'' = VList (map VStr dirty) \<and> dget capture ''working_tree_clean'' = VBool (dirty = []))
     \<and> (\<forall>field \<in> set INPUT_LISTS. \<exists>fs. input_files (dget capture field) fs)
     \<and> sound_cases h lane payload capture \<and> sound_go capture target \<and> get_if_dict (dget capture ''raw'') ''exit_code'' = VInt 0
     \<and> (dget capture ''capture_mode'' = VStr ADDITIVE \<longrightarrow> snapshot_verified h capture)"

lemma validate_payload_Inr:
  "validate_payload h lane payload target = Inr capture \<longleftrightarrow>
     (\<exists>actual. sound_capture h lane payload capture actual \<and> (target = None \<or> target = Some actual))"
proof -
  have nested: "get_if_dict (get_if_dict payload ''capture'') ''schema_version'' = VInt 1 \<longleftrightarrow>
      (\<exists>d. get_if_dict payload ''capture'' = VDict d \<and> dget d ''schema_version'' = VInt 1)"
    by (cases "get_if_dict payload ''capture''") (auto simp: get_if_dict_def)
  have payload: "get_if_dict payload ''capture'' = VDict d \<Longrightarrow> is_dict payload" for d
    by (cases payload) (auto simp: get_if_dict_def)
  have snap: "check_snapshot h lane capture = Inr () \<longleftrightarrow> (dget capture ''capture_mode'' = VStr ADDITIVE \<longrightarrow> snapshot_verified h capture)"
    if "is_commit (dget capture ''source_commit'')"
      "\<exists>dirty. dget capture ''dirty_paths'' = VList (map VStr dirty) \<and> dget capture ''working_tree_clean'' = VBool (dirty = [])"
      "\<forall>field \<in> set INPUT_LISTS. \<exists>fs. input_files (dget capture field) fs"
    using that by (intro check_snapshot_Inr) (auto simp: SNAPSHOT_FIELDS_def INPUT_LISTS_def is_commit_def input_files_def)
  have "validate_payload h lane payload target = Inr capture \<longleftrightarrow>
      get_if_dict payload ''capture'' = VDict capture \<and> dget capture ''schema_version'' = VInt 1 \<and> dget capture ''lane'' = VStr lane
      \<and> is_commit (dget capture ''source_commit'') \<and> is_digest (dget capture ''capturer_sha256'')
      \<and> (\<exists>dirty. dget capture ''dirty_paths'' = VList (map VStr dirty) \<and> dget capture ''working_tree_clean'' = VBool (dirty = []))
      \<and> (\<forall>field \<in> set INPUT_LISTS. check_inputs lane capture field = Inr ())
      \<and> check_cases h lane payload capture = Inr () \<and> (\<exists>actual. check_go_identity lane capture target = Inr actual)
      \<and> get_if_dict (dget capture ''raw'') ''exit_code'' = VInt 0 \<and> check_snapshot h lane capture = Inr ()"
    using payload
    by (auto simp: validate_payload_def Let_def bind_res_eq_Inr nested check_provenance_field_def INPUT_LISTS_def all_str_iff is_list_iff)
  also have "\<dots> \<longleftrightarrow> (\<exists>actual. sound_capture h lane payload capture actual \<and> (target = None \<or> target = Some actual))"
    using snap unfolding sound_capture_def check_inputs_Inr check_cases_Inr check_go_identity_Inr by blast
  finally show ?thesis .
qed

section \<open>What an accepted capture shows\<close>

abbreviation native_of :: "static_host \<Rightarrow> string \<times> string" where
  "native_of h \<equiv> native_target_of (splatform h)"

text \<open>The entry of the index for a capture at a place below the root.\<close>

definition indexed :: "static_host \<Rightarrow> pyval \<Rightarrow> string \<Rightarrow> string \<Rightarrow> string \<Rightarrow> pydict \<Rightarrow> bool" where
  "indexed h index key relative digest capture \<longleftrightarrow>
     get_if_dict index ''schema_version'' = VInt 2
     \<and> (\<exists>e. get_if_dict (get_if_dict index ''captures'') key = VDict e \<and> dget e ''path'' = VStr relative \<and> dget e ''sha256'' = VStr digest
          \<and> (\<forall>field \<in> {''capturer_sha256'', ''source_commit'', ''working_tree_clean'', ''case_count'', ''case_ids''}. dget e field = dget capture field)
          \<and> dget e ''goos'' = get_if_dict (dget capture ''go'') ''goos'' \<and> dget e ''goarch'' = get_if_dict (dget capture ''go'') ''goarch'')"

lemma read_documents_Inr:
  "unreadable lane (read_documents h index_path path) = Inr (index, raw, payload) \<longleftrightarrow>
     bind_res (read_text (smachine h) index_path) (json_loads (smachine h)) = Inr index \<and> read_bytes (smachine h) path = Inr raw
     \<and> bind_res (utf8 (smachine h) raw) (json_loads (smachine h)) = Inr payload"
  by (auto simp: unreadable_def read_documents_def Let_def bind_res_eq_Inr split: sum.splits if_splits)

lemma capture_entry_Inr:
  "capture_entry lane index key = Inr e \<longleftrightarrow>
     get_if_dict index ''schema_version'' = VInt 2 \<and> get_if_dict (get_if_dict index ''captures'') key = VDict e"
  by (cases index)
    (auto simp: capture_entry_def check_index_version_def bind_res_eq_Inr is_dict_iff dget_or_def dget_def get_if_dict_def pget_def pget_or_def
      split: option.splits pyval.splits)

lemma check_place_Inr:
  "check_place h lane resolved historical e = Inr u \<longleftrightarrow>
     (\<exists>base spec. resolve_path (smachine h) (sroot h) = Inr base \<and> is_relative_to resolved base \<and> map_of LANES lane = Some spec
        \<and> dget e ''path'' = VStr (as_posix (drop (length base) resolved))
        \<and> resolve_path (smachine h) (generation_dir h historical @ [goos_arch (native_of h), fixture_name spec]) = Inr resolved)"
  by (auto simp: check_place_def bind_res_eq_Inr static_fixture_path_def split: option.splits)

lemma check_index_entry_Inr:
  assumes "sound_capture h lane payload capture target"
  shows "check_index_entry h lane e target capture = Inr u \<longleftrightarrow>
     (\<forall>field \<in> {''capturer_sha256'', ''source_commit'', ''working_tree_clean'', ''case_count'', ''case_ids''}. dget e field = dget capture field)
     \<and> dget e ''goos'' = get_if_dict (dget capture ''go'') ''goos'' \<and> dget e ''goarch'' = get_if_dict (dget capture ''go'') ''goarch''"
proof -
  from assms obtain commit helper clean n ids where
    c: "dget capture ''source_commit'' = VStr commit" "dget capture ''capturer_sha256'' = VStr helper" "dget capture ''working_tree_clean'' = VBool clean"
      "dget capture ''case_count'' = VInt n" "dget capture ''case_ids'' = VList (map VStr ids)"
      "get_if_dict (dget capture ''go'') ''goos'' = VStr (fst target)" "get_if_dict (dget capture ''go'') ''goarch'' = VStr (snd target)"
    by (auto simp: sound_capture_def is_commit_def is_digest_def str_such_iff sound_cases_def sound_go_def Let_def)
  show ?thesis by (auto simp: check_index_entry_def bind_res_eq_Inr c py_eq_strs)
qed

text \<open>A file with the reviewed bytes of a lane: \<open>raw\<close> are its bytes, \<open>resolved\<close> and \<open>base\<close> the places of the file and of the
  checkout, \<open>old\<close> the directory of the historical captures.\<close>

definition reviewed_file :: "static_host \<Rightarrow> string \<Rightarrow> path \<Rightarrow> string \<Rightarrow> path \<Rightarrow> path \<Rightarrow> bool" where
  "reviewed_file h lane path raw resolved base \<longleftrightarrow>
     (\<exists>spec old. map_of LANES lane = Some spec \<and> is_file (smachine h) path \<and> read_bytes (smachine h) path = Inr raw
        \<and> map_of (reviewed h) (capture_key (native_of h) lane) = Some (sha256 (smachine h) raw)
        \<and> resolve_path (smachine h) path = Inr resolved \<and> resolve_path (smachine h) (sroot h) = Inr base \<and> is_relative_to resolved base
        \<and> resolve_path (smachine h) (generation_dir h True) = Inr old \<and> \<not> is_relative_to resolved old
        \<and> resolve_path (smachine h) (generation_dir h False @ [goos_arch (native_of h), fixture_name spec]) = Inr resolved)"

definition index_document :: "static_host \<Rightarrow> pyval \<Rightarrow> bool" where
  "index_document h index \<longleftrightarrow>
     (let p = generation_dir h False @ [''index-v2.json''] in
      is_file (smachine h) p \<and> bind_res (read_text (smachine h) p) (json_loads (smachine h)) = Inr index)"

definition reviewed_capture :: "static_host \<Rightarrow> string \<Rightarrow> path \<Rightarrow> pyval \<Rightarrow> bool" where
  "reviewed_capture h lane path payload \<longleftrightarrow>
     (\<exists>raw resolved base index capture. reviewed_file h lane path raw resolved base \<and> index_document h index
        \<and> bind_res (utf8 (smachine h) raw) (json_loads (smachine h)) = Inr payload
        \<and> indexed h index (capture_key (native_of h) lane) (as_posix (drop (length base) resolved)) (sha256 (smachine h) raw) capture
        \<and> sound_capture h lane payload capture (native_of h) \<and> dget capture ''dirty_paths'' = VList [] \<and> snapshot_verified h capture
        \<and> dget capture ''capture_mode'' = VStr ADDITIVE)"

lemma reviewed_capture_validates:
  assumes place: "reviewed_file h lane path raw resolved base" and index: "index_document h index"
    and payload: "bind_res (utf8 (smachine h) raw) (json_loads (smachine h)) = Inr payload"
    and entry: "indexed h index (capture_key (native_of h) lane) (as_posix (drop (length base) resolved)) (sha256 (smachine h) raw) capture"
    and sound: "sound_capture h lane payload capture (native_of h)"
    and clean: "dget capture ''dirty_paths'' = VList []" "dget capture ''capture_mode'' = VStr ADDITIVE"
  shows "validate_capture h lane path False = Inr payload"
proof -
  from place obtain spec old where f: "map_of LANES lane = Some spec" "is_file (smachine h) path" "read_bytes (smachine h) path = Inr raw"
      "map_of (reviewed h) (capture_key (native_of h) lane) = Some (sha256 (smachine h) raw)" "resolve_path (smachine h) path = Inr resolved"
      "resolve_path (smachine h) (sroot h) = Inr base" "is_relative_to resolved base" "resolve_path (smachine h) (generation_dir h True) = Inr old"
      "\<not> is_relative_to resolved old" "resolve_path (smachine h) (generation_dir h False @ [goos_arch (native_of h), fixture_name spec]) = Inr resolved"
    by (auto simp: reviewed_file_def)
  from entry obtain e where e: "capture_entry lane index (capture_key (native_of h) lane) = Inr e"
      "dget e ''path'' = VStr (as_posix (drop (length base) resolved))" "dget e ''sha256'' = VStr (sha256 (smachine h) raw)"
    and "check_index_entry h lane e (native_of h) capture = Inr ()"
    by (auto simp: indexed_def capture_entry_Inr check_index_entry_Inr [OF sound])
  moreover from sound clean have "dget capture ''working_tree_clean'' = VBool True" by (auto simp: sound_capture_def)
  moreover have "validate_payload h lane payload (Some (native_of h)) = Inr capture"
    using sound by (simp add: validate_payload_Inr del: split_paired_Ex)
  ultimately have "check_evidence h lane False e raw payload False = Inr ()"
    using f(4) clean by (simp add: check_evidence_def Let_def check_standing_def)
  moreover have "check_place h lane resolved False e = Inr ()" using f e by (simp add: check_place_Inr)
  moreover have "unreadable lane (read_documents h (generation_dir h False @ [''index-v2.json'']) path) = Inr (index, raw, payload)"
    using index f(3) payload by (simp add: read_documents_Inr index_document_def Let_def)
  ultimately show ?thesis using f index e(1) by (simp add: validate_capture_def Let_def index_document_def)
qed

text \<open>C23: An accepted capture is the reviewed one. Where the check of a frozen capture passes, its bytes are those of the reviewed anchor for this platform and lane and of the entry in the index; the file is the fixture of the lane and no historical one; and the document is a capture of that lane by the pinned compiler on this platform: taken from a clean commit, with every input listed under a safe and distinct name, as many cases as the lane has, each with its own name and recorded digest, a run that ended with exit code 0, and an input snapshot whose digest was recomputed.\<close>

theorem accepted_static_capture_is_reviewed:
  assumes "validate_capture h lane path False = Inr payload"
  shows "reviewed_capture h lane path payload"
proof -
  let ?w = "smachine h" and ?key = "capture_key (native_of h) lane"
  from assms obtain resolved old index raw e where resolved: "resolve_path ?w path = Inr resolved" "resolve_path ?w (generation_dir h True) = Inr old"
      "is_file ?w path" "is_file ?w (generation_dir h (is_relative_to resolved old) @ [''index-v2.json''])"
    and read: "unreadable lane (read_documents h (generation_dir h (is_relative_to resolved old) @ [''index-v2.json'']) path) = Inr (index, raw, payload)"
    and e: "capture_entry lane index ?key = Inr e" and place: "check_place h lane resolved (is_relative_to resolved old) e = Inr ()"
    and evidence: "check_evidence h lane (is_relative_to resolved old) e raw payload False = Inr ()"
    by (auto simp: validate_capture_def Let_def bind_res_eq_Inr)
  from evidence obtain capture where digest: "dget e ''sha256'' = VStr (sha256 ?w raw)" and sound: "sound_capture h lane payload capture (native_of h)"
    and entry: "check_index_entry h lane e (native_of h) capture = Inr ()"
    and anchor: "map_of (if is_relative_to resolved old then historical_reviewed h else reviewed h) ?key = Some (sha256 ?w raw)"
    and standing: "check_standing lane capture (is_relative_to resolved old) False = Inr ()"
    by (auto simp: check_evidence_def Let_def bind_res_eq_Inr validate_payload_Inr)
  from standing have now: "\<not> is_relative_to resolved old" "dget capture ''working_tree_clean'' = VBool True" "dget capture ''capture_mode'' = VStr ADDITIVE"
    by (auto simp: check_standing_def bind_res_eq_Inr)
  from sound now have clean: "dget capture ''dirty_paths'' = VList []" "snapshot_verified h capture" by (auto simp: sound_capture_def)
  from place now(1) obtain base spec where p: "resolve_path ?w (sroot h) = Inr base" "is_relative_to resolved base" "map_of LANES lane = Some spec"
      "dget e ''path'' = VStr (as_posix (drop (length base) resolved))"
      "resolve_path ?w (generation_dir h False @ [goos_arch (native_of h), fixture_name spec]) = Inr resolved"
    by (auto simp: check_place_Inr)
  from e entry digest p(4) have "indexed h index ?key (as_posix (drop (length base) resolved)) (sha256 ?w raw) capture"
    by (simp add: indexed_def capture_entry_Inr check_index_entry_Inr [OF sound])
  moreover from p resolved read anchor now(1) have "reviewed_file h lane path raw resolved base" "index_document h index"
      "bind_res (utf8 ?w raw) (json_loads ?w) = Inr payload"
    by (auto simp: read_documents_Inr reviewed_file_def index_document_def)
  ultimately show ?thesis using sound clean now(3) unfolding reviewed_capture_def by blast
qed

section \<open>What a registration does\<close>

lemma seen_in_fields [simp]:
  "sroot (seen_in h st) = sroot h" "splatform (seen_in h st) = splatform h" "reviewed (seen_in h st) = reviewed h"
  "own_file (seen_in h st) = own_file h" "go_oracle_set (seen_in h st) = go_oracle_set h"
  "resolve_path (smachine (seen_in h st)) = resolve_path (smachine h)" "is_dir (smachine (seen_in h st)) = is_dir (smachine h)"
  "sha256 (smachine (seen_in h st)) = sha256 (smachine h)" "float_text (smachine (seen_in h st)) = float_text (smachine h)"
  "utf8 (smachine (seen_in h st)) = utf8 (smachine h)" "json_loads (smachine (seen_in h st)) = json_loads (smachine h)"
  "is_file (smachine (seen_in h st)) p \<longleftrightarrow> file_at st p \<noteq> None"
  "read_bytes (smachine (seen_in h st)) p = (case file_at st p of Some (_, b) \<Rightarrow> Inr b | None \<Rightarrow> Inl (FileNotFoundError (as_posix p)))"
  by (simp_all add: seen_in_def)

lemma generation_dir_seen [simp]: "generation_dir (seen_in h st) = generation_dir h"
  by (simp add: generation_dir_def fun_eq_iff)

lemma sound_capture_seen [simp]: "sound_capture (seen_in h st) = sound_capture h"
  by (simp add: sound_capture_def sound_cases_def snapshot_verified_def snapshot_digest_def fun_eq_iff)

lemma file_at_put [simp]: "file_at (put_file p n b st) q = (if q = p then Some (n, b) else file_at st q)"
  by (simp add: put_file_def)

lemma file_at_drop [simp]: "file_at (drop_file p st) q = (if q = p then None else file_at st q)"
  by (simp add: drop_file_def)

lemma no_pair [simp]: "(\<forall>a b. x \<noteq> Some (a, b)) \<longleftrightarrow> x = None"
  by (cases x) auto

lemma lane_for_Inr: "lane_for name = Inr lane \<Longrightarrow> \<exists>spec. map_of LANES lane = Some spec \<and> fixture_name spec = name"
  by (auto simp: lane_for_def LANES_def split: if_splits)

lemma add_index_entry_Inr:
  "add_index_entry index key e = Inr new \<longleftrightarrow>
     (\<exists>d. dindex index ''captures'' = Inr (VDict d) \<and> \<not> has_key d key \<and> new = dset index ''captures'' (VDict (dset d key e)))"
proof (cases "dindex index ''captures''")
  case (Inr v)
  then show ?thesis by (cases v) (auto simp: add_index_entry_def bind_res_eq_Inr)
qed (simp add: add_index_entry_def)

lemma capture_target_of: "sound_capture h lane payload capture t \<Longrightarrow> capture_target capture = t"
  by (auto simp: capture_target_def sound_capture_def sound_go_def Let_def)

text \<open>The facts a plan rests on.\<close>

lemma plan_registration_Inr:
  assumes "plan_registration h candidate destination = Inr p"
  obtains source own capture index base where
    "resolve_path (smachine h) candidate = Inr source" "resolve_path (smachine h) destination = Inr (plan_destination p)"
    "\<not> entry_exists h (plan_destination p)" "plan_destination p \<noteq> []" "lane_for (last (plan_destination p)) = Inr (plan_lane p)"
    "read_bytes (smachine h) source = Inr (plan_data p)" "bind_res (utf8 (smachine h) (plan_data p)) (json_loads (smachine h)) = Inr (plan_payload p)"
    "sound_capture h (plan_lane p) (plan_payload p) capture (capture_target capture)" "read_bytes (smachine h) (own_file h) = Inr own"
    "dget capture ''capturer_sha256'' = VStr (sha256 (smachine h) own)" "plan_index_path p = generation_dir h False @ [''index-v2.json'']"
    "resolve_path (smachine h) (generation_dir h False @ [goos_arch (capture_target capture)]) = Inr (butlast (plan_destination p))"
    "map_of (reviewed h) (capture_key (capture_target capture) (plan_lane p)) = Some (sha256 (smachine h) (plan_data p))"
    "current_index h (plan_index_path p) = Inr index" "resolve_path (smachine h) (sroot h) = Inr base" "is_relative_to (plan_destination p) base"
    "add_index_entry index (capture_key (capture_target capture) (plan_lane p))
       (index_entry (as_posix (drop (length base) (plan_destination p))) (sha256 (smachine h) (plan_data p)) capture) = Inr (plan_index p)"
proof -
  have no_name: "lane_for [] \<noteq> Inr lane" for lane by (simp add: lane_for_def LANES_def)
  from assms obtain source capture where r: "resolve_path (smachine h) candidate = Inr source" "resolve_path (smachine h) destination = Inr (plan_destination p)"
      "\<not> entry_exists h (plan_destination p)" "lane_for (final_name (plan_destination p)) = Inr (plan_lane p)"
      "plan_index_path p = generation_dir h False @ [''index-v2.json'']"
    and c: "read_candidate h source (plan_lane p) = Inr (plan_data p, plan_payload p, capture)"
    and d: "check_destination h (plan_destination p) (plan_lane p) (plan_data p) (capture_target capture) = Inr ()"
    and i: "extended_index h (plan_index_path p) (plan_destination p) (plan_lane p) (plan_data p) capture = Inr (plan_index p)"
    by (auto simp: plan_registration_def Let_def bind_res_eq_Inr)
  have name: "plan_destination p \<noteq> []" "lane_for (last (plan_destination p)) = Inr (plan_lane p)"
    using r(4) by (auto simp: no_name final_name_def split: if_splits)
  from c obtain t where "sound_capture h (plan_lane p) (plan_payload p) capture t"
    by (auto simp: read_candidate_def Let_def bind_res_eq_Inr validate_payload_Inr)
  moreover from this have "capture_target capture = t" by (rule capture_target_of)
  ultimately obtain own where c: "read_bytes (smachine h) source = Inr (plan_data p)"
      "bind_res (utf8 (smachine h) (plan_data p)) (json_loads (smachine h)) = Inr (plan_payload p)"
      "sound_capture h (plan_lane p) (plan_payload p) capture (capture_target capture)" "read_bytes (smachine h) (own_file h) = Inr own"
      "dget capture ''capturer_sha256'' = VStr (sha256 (smachine h) own)"
    using c by (auto simp: read_candidate_def Let_def bind_res_eq_Inr)
  from i obtain index base where i: "current_index h (plan_index_path p) = Inr index" "resolve_path (smachine h) (sroot h) = Inr base"
      "is_relative_to (plan_destination p) base"
      "add_index_entry index (capture_key (capture_target capture) (plan_lane p))
        (index_entry (as_posix (drop (length base) (plan_destination p))) (sha256 (smachine h) (plan_data p)) capture) = Inr (plan_index p)"
    by (auto simp: extended_index_def bind_res_eq_Inr)
  from d that [OF r(1,2,3) name c r(5) _ _ i] show thesis by (auto simp: check_destination_def bind_res_eq_Inr)
qed

lemma withdraw_fails [simp]: "withdraw pub dest e st \<noteq> (Inr u, st')"
  by (auto simp: withdraw_def split: option.splits if_splits)



section \<open>A capture that is registered and accepted\<close>

definition zero_digest :: string where
  "zero_digest = replicate 64 (CHR ''0'')"

definition zero_commit :: string where
  "zero_commit = replicate 40 (CHR ''0'')"

definition sample_input :: "string \<Rightarrow> pyval" where
  "sample_input name = VList [VDict [(''path'', VStr name), (''sha256'', VStr zero_digest)]]"

definition sample_static_capture :: pydict where
  "sample_static_capture =
     [(''schema_version'', VInt 1), (''lane'', VStr ''response''), (''source_commit'', VStr zero_commit), (''capturer_sha256'', VStr zero_digest),
      (''working_tree_clean'', VBool True), (''dirty_paths'', VList []), (''source_files'', sample_input ''a''), (''oracle_files'', sample_input ''b''),
      (''go_module_inputs'', sample_input ''c''), (''case_ids'', VList (map (\<lambda>c. VStr [c]) ''abcdefghi'')), (''case_count'', VInt 9),
      (''case_fingerprints_sha256'', VList (replicate 9 (VStr zero_digest))),
      (''go'', VDict [(''goos'', VStr ''linux''), (''goarch'', VStr ''amd64''), (''version'', VStr ''go version go1.26.6 linux/amd64'')]),
      (''raw'', VDict [(''exit_code'', VInt 0)]), (''capture_mode'', VStr ADDITIVE), (''input_inventory_verified'', VBool True),
      (''input_snapshot_sha256'', VStr zero_digest)]"

definition sample_static_payload :: pyval where
  "sample_static_payload = VDict [(''cases'', VList (map (\<lambda>c. VDict [(''id'', VStr [c])]) ''abcdefghi'')), (''capture'', VDict sample_static_capture)]"

definition sample_update_index :: pydict where
  "sample_update_index =
     [(''schema_version'', VInt 2),
      (''captures'', VDict [(''linux/amd64/response'', index_entry ''testdata/rust-port/fixtures/update/static-v2/linux-amd64/response.json'' zero_digest sample_static_capture)])]"

definition sample_static_host :: static_host where
  "sample_static_host =
     \<lparr>smachine = \<lparr>run_git = (\<lambda>_ _. (0, [], [])), lstat_of = (\<lambda>_. Inr Regular), is_file = (\<lambda>_. False), is_dir = (\<lambda>_. False),
        resolve_path = Inr, tree_at = (\<lambda>_. []), read_bytes = (\<lambda>_. Inl TypeError), utf8 = Inr, encode_utf8 = id, toml_loads = (\<lambda>_. Inl TypeError),
        json_loads = (\<lambda>s. if s = ''c'' then Inr sample_static_payload else Inr (VDict sample_update_index)), sha256 = (\<lambda>_. zero_digest), float_text = (\<lambda>_. [])\<rparr>,
      sroot = [''r''], splatform = \<lparr>sys_platform = ''linux'', system_name = ''Linux'', machine_name = ''x86_64''\<rparr>,
      reviewed = [(''linux/amd64/response'', zero_digest)], historical_reviewed = [], own_file = [''o''], go_oracle_set = True\<rparr>"

definition sample_store :: store where
  "sample_store = \<lparr>file_at = [[''c''] \<mapsto> (1, ''c''), [''o''] \<mapsto> (2, ''o'')]\<rparr>"

definition sample_destination :: path where
  "sample_destination = [''r'', ''testdata'', ''rust-port'', ''fixtures'', ''update'', ''static-v2'', ''linux-amd64'', ''response.json'']"

definition quiet_publication :: "pyexc option \<Rightarrow> publication" where
  "quiet_publication fault =
     \<lparr>capture_id = 7, index_id = 8, staging_fault = None, link_fault = None, replace_fault = fault, lstat_fault = None, unlink_fault = None,
      before_link = id, after_link = id\<rparr>"

definition sample_static_plan :: plan where
  "sample_static_plan =
     \<lparr>plan_destination = sample_destination, plan_data = ''c'', plan_index_path = [''r'', ''testdata'', ''rust-port'', ''fixtures'', ''update'', ''static-v2'', ''index-v2.json''],
      plan_index = sample_update_index, plan_lane = ''response'', plan_payload = sample_static_payload\<rparr>"

lemma zero_digest: "is_digest (VStr zero_digest)" "is_commit (VStr zero_commit)"
  by (simp_all add: is_digest_def is_commit_def fullmatch_HEX64 fullmatch_HEX40 zero_digest_def zero_commit_def is_hex_def is_lower_hex_def between_def list_all_iff)

lemma sample_inputs: "name \<in> {''a'', ''b'', ''c''} \<Longrightarrow> \<exists>fs. input_files (sample_input name) fs"
  using zero_digest by (auto simp: input_files_def sample_input_def input_record_def record_pair_def safe_label_def safe_text_def startswith_def dget_def)

lemma sample_target: "native_of sample_static_host = (''linux'', ''amd64'')" "capture_target sample_static_capture = (''linux'', ''amd64'')"
  by code_simp+

lemma sample_sound: "sound_capture sample_static_host ''response'' sample_static_payload sample_static_capture (''linux'', ''amd64'')"
proof -
  have spec: "case_path (spec_of ''response'') = [''cases'']" "expected_count (spec_of ''response'') = 9" by (simp_all add: spec_of_def LANES_def)
  have cases: "at_path sample_static_payload [''cases''] = Inr (VList (map (\<lambda>c. VDict [(''id'', VStr [c])]) ''abcdefghi''))"
    by (simp add: at_path_def sample_static_payload_def pindex_def dindex_def)
  then have ids: "case_ids ''response'' sample_static_payload = Inr (map VStr (map (\<lambda>c. [c]) ''abcdefghi''))"
    by (simp add: case_ids_def spec pindex_def dindex_def)
  have "sound_cases sample_static_host ''response'' sample_static_payload sample_static_capture"
    unfolding sound_cases_def spec cases ids
    by (intro exI [of _ "map (\<lambda>c. [c]) ''abcdefghi''"] exI)
      (auto simp: sample_static_capture_def dget_def sample_static_host_def numeral_eq_Suc)
  then show ?thesis
    using zero_digest sample_inputs
    by (auto simp: sound_capture_def sample_static_payload_def sample_static_capture_def dget_def INPUT_LISTS_def sound_go_def msg_def
      snapshot_verified_def snapshot_digest_def sample_static_host_def)
qed

lemma sample_plan: "plan_registration (seen_in sample_static_host sample_store) [''c''] sample_destination = Inr sample_static_plan"
proof -
  let ?h = "seen_in sample_static_host sample_store"
  have fields1: "sroot sample_static_host = [''r'']" "own_file sample_static_host = [''o'']" "go_oracle_set sample_static_host"
      "reviewed sample_static_host = [(''linux/amd64/response'', zero_digest)]"
      "resolve_path (smachine sample_static_host) = Inr" "sha256 (smachine sample_static_host) = (\<lambda>_. zero_digest)" "utf8 (smachine sample_static_host) = Inr"
      "json_loads (smachine sample_static_host) = (\<lambda>s. if s = ''c'' then Inr sample_static_payload else Inr (VDict sample_update_index))"
      "is_dir (smachine sample_static_host) = (\<lambda>_. False)"
    by (simp_all add: sample_static_host_def)
  have key: "capture_key (''linux'', ''amd64'') ''response'' = ''linux/amd64/response''" "goos_arch (''linux'', ''amd64'') = ''linux-amd64''"
    by (simp_all add: capture_key_def goos_arch_def msg_def)
  have lane: "lane_for (final_name sample_destination) = Inr ''response''" by (simp add: lane_for_def LANES_def final_name_def sample_destination_def)
  have "read_candidate ?h [''c''] ''response'' = Inr (''c'', sample_static_payload, sample_static_capture)"
    using sample_sound by (auto simp: read_candidate_def Let_def sample_store_def fields1 bind_res_eq_Inr validate_payload_Inr sample_static_capture_def dget_def)
  moreover have "check_destination ?h sample_destination ''response'' ''c'' (''linux'', ''amd64'') = Inr ()"
    by (simp add: check_destination_def fields1 key generation_dir_def UPDATE_FIXTURES_def sample_destination_def)
  moreover have "extended_index ?h [''r'', ''testdata'', ''rust-port'', ''fixtures'', ''update'', ''static-v2'', ''index-v2.json''] sample_destination ''response'' ''c'' sample_static_capture
      = Inr sample_update_index"
    by (simp add: extended_index_def current_index_def entry_exists_def sample_store_def fields1 sample_target key sample_destination_def is_relative_to_def
      add_index_entry_Inr dindex_def has_key_def sample_update_index_def as_posix_def)
  moreover have "\<not> entry_exists ?h sample_destination" by (simp add: entry_exists_def sample_store_def sample_destination_def fields1)
  moreover have "generation_dir sample_static_host False = [''r'', ''testdata'', ''rust-port'', ''fixtures'', ''update'', ''static-v2'']"
    by (simp add: generation_dir_def UPDATE_FIXTURES_def fields1)
  ultimately show ?thesis by (simp add: plan_registration_def Let_def fields1 lane sample_target sample_static_plan_def)
qed

definition registered_store :: store where
  "registered_store =
     put_file (plan_index_path sample_static_plan) 8 (json_bytes (stext sample_static_host) (VDict sample_update_index))
       (put_file sample_destination 7 ''c'' sample_store)"

lemma sample_registered: "register_capture sample_static_host (quiet_publication None) sample_store [''c''] sample_destination = (Inr (), registered_store)"
proof -
  have "file_at sample_store sample_destination = None" by (simp add: sample_store_def sample_destination_def)
  then show ?thesis
    by (simp add: register_capture_def sample_plan publish_def Let_def quiet_publication_def registered_store_def sample_static_plan_def)
qed



lemma sample_accepted: "validate_capture (seen_in sample_static_host registered_store) ''response'' sample_destination False = Inr sample_static_payload"
proof (rule reviewed_capture_validates [where raw = "''c''" and resolved = sample_destination and base = "[''r'']" and index = "VDict sample_update_index" and capture = sample_static_capture])
  let ?h = "seen_in sample_static_host registered_store"
  have not_c: "json_bytes (stext sample_static_host) (VDict sample_update_index) \<noteq> ''c''"
    by (simp add: json_bytes_def sample_update_index_def utf8_encode_def utf8_char_def)
  have gen: "generation_dir sample_static_host old = [''r'', ''testdata'', ''rust-port'', ''fixtures'', ''update'', if old then ''static-v1'' else ''static-v2'']" for old
    by (simp add: generation_dir_def UPDATE_FIXTURES_def sample_static_host_def)
  have names: "map_of LANES ''response'' = Some (spec_of ''response'')" "fixture_name (spec_of ''response'') = ''response.json''"
      "goos_arch (native_of sample_static_host) = ''linux-amd64''" "capture_key (native_of sample_static_host) ''response'' = ''linux/amd64/response''"
    by (simp_all add: spec_of_def LANES_def sample_target goos_arch_def capture_key_def msg_def)
  show "reviewed_file ?h ''response'' sample_destination ''c'' sample_destination [''r'']"
    by (simp add: reviewed_file_def names gen) (simp add: sample_static_host_def registered_store_def sample_destination_def sample_static_plan_def is_relative_to_def)
  show "index_document ?h (VDict sample_update_index)"
    using not_c by (simp add: index_document_def Let_def gen read_text_def)
      (simp add: registered_store_def sample_static_plan_def sample_destination_def sample_static_host_def)
  show "indexed ?h (VDict sample_update_index) (capture_key (native_of ?h) ''response'') (as_posix (drop (length [''r'']) sample_destination)) (sha256 (smachine ?h) ''c'') sample_static_capture"
    by (simp add: indexed_def names sample_update_index_def sample_destination_def as_posix_def index_entry_def Let_def dget_def)
      (simp add: sample_static_host_def)
  show "sound_capture ?h ''response'' sample_static_payload sample_static_capture (native_of ?h)" using sample_sound by (simp add: sample_target)
  show "bind_res (utf8 (smachine ?h) ''c'') (json_loads (smachine ?h)) = Inr sample_static_payload" by (simp add: sample_static_host_def)
qed (simp_all add: sample_static_capture_def dget_def)

lemma accepted_static_capture_is_reviewed_witness:
  "reviewed_capture (seen_in sample_static_host registered_store) ''response'' sample_destination sample_static_payload"
  by (rule accepted_static_capture_is_reviewed [OF sample_accepted])

end
