(* ===== verification/StaticCapture.thy ===== *)
theory StaticCapture
  imports StaticUpdate Trust "HOL-Library.AList"
begin

text \<open>
  The live capture of the updater's Go observations, \<open>capture_go\<close> of \<open>scripts/rust-port/static_update_oracle.py\<close>: the
  pinned compiler and its environment, the inventory of everything the Go build reads, taken before and after, the runs of
  a lane, and the document that is returned. What the commands print is a parameter; the files are read in one state
  before the run and in another after it. The main result is that the document satisfies the structure that registration
  and replay demand of it.
\<close>

record static_run =
  exit_of :: int
  out_of :: string
  err_of :: string

type_synonym environ = "string \<Rightarrow> string option"

text \<open>\<open>run_tool\<close> is told whether the oracle has run already; \<open>generated\<close> and \<open>swap_output\<close> are the files the oracle leaves
  in the scratch directory.\<close>

record capture_host =
  ch :: static_host
  settled :: world
  ambient :: environ
  nt :: bool
  here :: path
  scratch :: path
  run_tool :: "bool \<Rightarrow> environ \<Rightarrow> path \<Rightarrow> string list \<Rightarrow> static_run res"
  go_names :: "path \<Rightarrow> string list"
  dir_names :: "path \<Rightarrow> string list res"
  files_below :: "path \<Rightarrow> path list"
  raw_object :: "string \<Rightarrow> (pyval \<times> nat) res"
  decode_lossy :: "string \<Rightarrow> string"
  directories_made :: "unit res"
  generated :: "(string \<times> string res) list res"
  swap_output :: "string res option"
  evidence_name :: string

abbreviation croot :: "capture_host \<Rightarrow> path" where
  "croot c \<equiv> sroot (ch c)"

definition world_at :: "capture_host \<Rightarrow> bool \<Rightarrow> world" where
  "world_at c later_on = (if later_on then settled c else smachine (ch c))"

text \<open>\<open>Path(text)\<close>\<close>

definition place_of :: "capture_host \<Rightarrow> string \<Rightarrow> path" where
  "place_of c s = join_path (here c) s"

definition demand_run :: "bool \<Rightarrow> string list \<Rightarrow> unit res" where
  "demand_run b parts = require b (RuntimeError (msg parts))"

lemma demand_run_Inr [simp]: "demand_run b parts = Inr u \<longleftrightarrow> b"
  by (simp add: demand_run_def)

lemma demand_run_True [simp]: "demand_run True parts = Inr ()"
  by (simp add: demand_run_def)

text \<open>\<open>run_checked(..., check=True)\<close>\<close>

definition checked_run :: "static_run res \<Rightarrow> static_run res" where
  "checked_run r = bind_res r (\<lambda>x. if exit_of x = 0 then Inr x else Inl (ProcessFailed ''returned non-zero exit status''))"

section \<open>The compiler and its environment\<close>

definition go_name :: "capture_host \<Rightarrow> string" where
  "go_name c = (if nt c then ''go.exe'' else ''go'')"

definition OFFLINE :: "(string \<times> string) list" where
  "OFFLINE = [(''GOPROXY'', ''off''), (''GOSUMDB'', ''off''), (''GOENV'', ''off''), (''GOWORK'', ''off'')]"

definition resolve_go_tool :: "capture_host \<Rightarrow> path res" where
  "resolve_go_tool c =
     (let w = smachine (ch c); launcher = (case ambient c ''GO_ORACLE_BIN'' of None \<Rightarrow> ''go'' | Some s \<Rightarrow> s) in
      bind_res (run_tool c False (ambient c ++ map_of ((''GOTOOLCHAIN'', ''go1.26.6'') # OFFLINE)) (croot c) [launcher, ''env'', ''GOROOT'']) (\<lambda>r.
      bind_res (demand_run (exit_of r = 0) [''cannot resolve an installed pinned Go compiler'']) (\<lambda>_.
      bind_res (utf8 w (out_of r)) (\<lambda>t.
      let goroot = strip t in
      bind_res (demand_run (is_absolute goroot) [''Go compiler discovery returned a nonabsolute SDK root'']) (\<lambda>_.
      let tool = path_parts goroot @ [''bin'', go_name c] in
      bind_res (demand_run (is_file w tool) [''resolved Go SDK has no compiler executable'']) (\<lambda>_.
      resolve_path w tool))))))"

record go_setup =
  setup_env :: environ
  setup_version :: string
  setup_goroot :: string
  setup_target :: "string \<times> string"
  setup_tool :: path

definition LOCAL_GO :: "(string \<times> string) list" where
  "LOCAL_GO = [(''GOTOOLCHAIN'', ''local''), (''GOPROXY'', ''off''), (''GOSUMDB'', ''off''), (''GOFLAGS'', ''-mod=readonly''), (''GOENV'', ''off''), (''GOWORK'', ''off'')]"

definition scratch_env :: "path \<Rightarrow> string \<Rightarrow> (string \<times> string) list" where
  "scratch_env temp modcache =
     (let d = (\<lambda>n. absolute_path (temp @ [n])) in
      [(''HOME'', d ''home''), (''USERPROFILE'', d ''home''), (''XDG_CACHE_HOME'', d ''xdg''), (''XDG_CONFIG_HOME'', d ''config''), (''XDG_DATA_HOME'', d ''data''),
       (''XDG_STATE_HOME'', d ''state''), (''APPDATA'', d ''config''), (''LOCALAPPDATA'', d ''data''), (''TMPDIR'', d ''tmp''), (''TMP'', d ''tmp''), (''TEMP'', d ''tmp''),
       (''GOCACHE'', d ''gocache''), (''GOMODCACHE'', modcache), (''CGO_ENABLED'', ''0'')] @ LOCAL_GO)"

text \<open>\<open>a, b, c, d, e = text.splitlines()\<close>\<close>

definition five_lines :: "string \<Rightarrow> (string \<times> string \<times> string \<times> string \<times> string) res" where
  "five_lines t =
     (case splitlines t of [v1, v2, v3, v4, v5] \<Rightarrow> Inr (v1, v2, v3, v4, v5) | _ \<Rightarrow> Inl (ValueError ''wrong number of values to unpack''))"

definition prepare_go_env :: "capture_host \<Rightarrow> go_setup res" where
  "prepare_go_env c =
     (let w = smachine (ch c); base = croot c in
      bind_res (resolve_go_tool c) (\<lambda>tool.
      let go = absolute_path tool in
      bind_res (run_tool c False (ambient c ++ map_of LOCAL_GO) base [go, ''env'', ''GOMODCACHE'']) (\<lambda>r1.
      bind_res (demand_run (exit_of r1 = 0) [''cannot resolve existing Go module cache: '', decode_lossy c (err_of r1)]) (\<lambda>_.
      bind_res (utf8 w (out_of r1)) (\<lambda>t1.
      bind_res (demand_run (is_dir w (place_of c (strip t1))) [''existing Go module cache is unavailable: '', strip t1]) (\<lambda>_.
      bind_res (directories_made c) (\<lambda>_.
      let env = ambient c ++ map_of (scratch_env (scratch c) (strip t1)) in
      bind_res (run_tool c False env base [go, ''version'']) (\<lambda>r2.
      bind_res (demand_run (exit_of r2 = 0) [''pinned Go version command failed: '', decode_lossy c (err_of r2)]) (\<lambda>_.
      bind_res (utf8 w (out_of r2)) (\<lambda>t2.
      let version = strip t2 in
      bind_res (demand_run (startswith version ''go version go1.26.6 '') [''expected executed go1.26.6 compiler, got '', version]) (\<lambda>_.
      bind_res (run_tool c False env base [go, ''env'', ''GOVERSION'', ''GOROOT'', ''GOOS'', ''GOARCH'', ''GOMODCACHE'']) (\<lambda>r3.
      bind_res (demand_run (exit_of r3 = 0) [''pinned Go env command failed: '', decode_lossy c (err_of r3)]) (\<lambda>_.
      bind_res (utf8 w (out_of r3)) (\<lambda>t3.
      bind_res (five_lines t3) (\<lambda>(goversion, goroot, goos, goarch, modcache).
      bind_res (demand_run (goversion = ''go1.26.6'') [''go env reported unexpected compiler '', goversion]) (\<lambda>_.
      bind_res (demand_run ((goos, goarch) = native_of (ch c)) [''Go compiler target does not match the native capture platform'']) (\<lambda>_.
      Inr \<lparr>setup_env = env(''GOMODCACHE'' \<mapsto> modcache, ''GOROOT'' \<mapsto> goroot), setup_version = version, setup_goroot = goroot,
        setup_target = (goos, goarch), setup_tool = tool\<rparr>)))))))))))))))))"

section \<open>The inventory of the inputs\<close>

text \<open>\<open>env[name]\<close>\<close>

definition env_index :: "environ \<Rightarrow> string \<Rightarrow> string res" where
  "env_index env k = (case env k of None \<Rightarrow> Inl (KeyError k) | Some v \<Rightarrow> Inr v)"

definition lane_source_files :: "capture_host \<Rightarrow> world \<Rightarrow> string \<Rightarrow> path list" where
  "lane_source_files c w lane =
     (let spec = spec_of lane; package_dir = croot c @ butlast (path_parts (hd (source_paths spec))) in
      map (\<lambda>p. croot c @ path_parts p) (source_paths spec @ oracle_paths spec) @ map (\<lambda>n. package_dir @ [n]) (go_names c package_dir)
        @ filter (is_file w) [croot c @ [''go.mod''], croot c @ [''go.sum'']])"

definition LIST_FIELDS :: "string list" where
  "LIST_FIELDS = [''GoFiles'', ''CgoFiles'', ''CFiles'', ''CXXFiles'', ''MFiles'', ''FFiles'', ''SFiles'', ''HFiles'', ''SysoFiles'', ''EmbedFiles'',
     ''TestGoFiles'', ''XTestGoFiles'', ''TestEmbedFiles'', ''XTestEmbedFiles'']"

definition list_command :: "string \<Rightarrow> path \<Rightarrow> string list" where
  "list_command lane tool =
     [absolute_path tool, ''list'', ''-deps'', ''-json='' @ join '','' (''Dir'' # LIST_FIELDS @ [''Module''])] @ (if lane = ''swap'' then [''-test''] else [])
       @ [''./'' @ join ''/'' (butlast (path_parts (hd (oracle_paths (spec_of lane)))))]"

text \<open>\<open>Path(v)\<close> of a value.\<close>

definition path_value :: "capture_host \<Rightarrow> pyval \<Rightarrow> path res" where
  "path_value c v = (case v of VStr s \<Rightarrow> Inr (place_of c s) | _ \<Rightarrow> Inl TypeError)"

definition named_files :: "path \<Rightarrow> pyval \<Rightarrow> path list res" where
  "named_files directory v =
     bind_res (iter_items v) (\<lambda>names. map_res (\<lambda>n. case n of VStr s \<Rightarrow> Inr (join_path directory s) | _ \<Rightarrow> Inl TypeError) names)"

definition module_inputs :: "capture_host \<Rightarrow> world \<Rightarrow> pyval \<Rightarrow> path list res" where
  "module_inputs c w effective =
     bind_res (pget effective ''GoMod'') (\<lambda>v.
     if \<not> truthy v then Inr []
     else bind_res (path_value c v) (\<lambda>m.
       let sum = butlast m @ [''go.sum''] in Inr (m # (if is_file w sum then [sum] else []))))"

definition package_inputs :: "capture_host \<Rightarrow> world \<Rightarrow> pyval \<Rightarrow> path list res" where
  "package_inputs c w obj =
     bind_res (pindex obj ''Dir'') (\<lambda>v.
     bind_res (path_value c v) (\<lambda>directory.
     let d = the (as_dict obj) in
     bind_res (map_res (\<lambda>field. named_files directory (dget_or d field (VList []))) LIST_FIELDS) (\<lambda>files.
     bind_res (case dget d ''Module'' of
         VDict m \<Rightarrow> bind_res (module_inputs c w (VDict m)) (\<lambda>a. bind_res (module_inputs c w (dget_or m ''Replace'' (VDict []))) (\<lambda>b. Inr (a @ b)))
       | _ \<Rightarrow> Inr []) (\<lambda>modules.
     Inr (concat files @ modules)))))"

text \<open>The output of \<open>go list\<close>: one object after the other. The reader gives an object and the number of characters it takes
  after the first.\<close>

function listed_inputs :: "capture_host \<Rightarrow> world \<Rightarrow> string \<Rightarrow> path list res" where
  "listed_inputs c w s =
     (if strip s = [] then Inr []
      else let rest = lstrip s in
        bind_res (raw_object c rest) (\<lambda>(obj, used).
        bind_res (package_inputs c w obj) (\<lambda>paths.
        bind_res (listed_inputs c w (drop (Suc used) rest)) (\<lambda>others. Inr (paths @ others)))))"
  by pat_completeness auto

termination
proof (relation "measure (\<lambda>(_, _, t). length t)", goal_cases)
  case (2 c w s rest p obj used paths)
  have "length rest \<le> length s" using 2(2) by (simp add: lstrip_def length_dropWhile_le)
  moreover have "rest \<noteq> []" using 2(1,2) by (metis dropWhile_eq_Nil_conv lstrip_def rstrip_Nil_iff strip_def strip_Nil_iff)
  ultimately show ?case by (cases rest) auto
qed simp

declare listed_inputs.simps [simp del]

text \<open>The label of a resolved file: the first of the roots it lies under.\<close>

fun scope_label :: "(string \<times> path) list \<Rightarrow> path \<Rightarrow> string option" where
  "scope_label [] p = None"
| "scope_label ((scope, base) # roots) p =
     (if is_relative_to p base then Some (scope @ ''/'' @ as_posix (drop (length base) p)) else scope_label roots p)"

definition inventory_entry :: "world \<Rightarrow> (string \<times> path) list \<Rightarrow> path \<Rightarrow> file_record list \<Rightarrow> file_record list res" where
  "inventory_entry w roots original records =
     bind_res (resolve_path w original) (\<lambda>p.
     bind_res (insist (is_file w p) [''missing Go capture input'']) (\<lambda>_.
     case scope_label roots p of
       None \<Rightarrow> Inl (ValueError ''Go oracle input escapes repository, toolchain and module roots'')
     | Some name \<Rightarrow> bind_res (read_bytes w p) (\<lambda>b. Inr (AList.update name (sha256 w b) records))))"

definition input_roots :: "capture_host \<Rightarrow> world \<Rightarrow> environ \<Rightarrow> (string \<times> path) list res" where
  "input_roots c w env =
     (let dir = (\<lambda>k. bind_res (env_index env k) (\<lambda>s. resolve_path w (place_of c s))) in
      bind_res (dir ''GOROOT'') (\<lambda>sdk. bind_res (dir ''GOMODCACHE'') (\<lambda>modules. bind_res (dir ''GOCACHE'') (\<lambda>cache.
      bind_res (resolve_path w (croot c)) (\<lambda>base.
      Inr [(''toolchain'', sdk), (''modules'', modules), (''generated'', cache), (''repository'', base)])))))"

definition EXTRACT_DATA :: "string list" where
  "EXTRACT_DATA = [''scripts'', ''rust-port'', ''update-extract-oracle'', ''testdata'']"

definition fixed_inputs :: "capture_host \<Rightarrow> world \<Rightarrow> string \<Rightarrow> path \<Rightarrow> path list" where
  "fixed_inputs c w lane tool =
     [tool, own_file (ch c), butlast (own_file (ch c)) @ [''static_update_anchors.py''], butlast (own_file (ch c)) @ [''bounded_oracle_process.py''],
      croot c @ UPDATE_FIXTURES @ [legacy_name (spec_of lane)]]
     @ (if lane = ''extract'' then filter (is_file w) (map (\<lambda>p. croot c @ EXTRACT_DATA @ p) (files_below c (croot c @ EXTRACT_DATA))) else [])"

definition source_inventory :: "capture_host \<Rightarrow> bool \<Rightarrow> string \<Rightarrow> go_setup \<Rightarrow> file_record list res" where
  "source_inventory c later_on lane s =
     (let w = world_at c later_on; env = setup_env s; tool = setup_tool s in
      bind_res (run_tool c later_on env (croot c) (list_command lane tool)) (\<lambda>r.
      bind_res (demand_run (exit_of r = 0) [''cannot discover complete Go oracle build inputs'']) (\<lambda>_.
      bind_res (utf8 w (out_of r)) (\<lambda>t.
      bind_res (listed_inputs c w t) (\<lambda>listed.
      bind_res (checked_run (run_tool c later_on env (croot c) [absolute_path tool, ''env'', ''GOTOOLDIR''])) (\<lambda>d.
      bind_res (utf8 w (out_of d)) (\<lambda>dt.
      let tool_dir = place_of c (strip dt) in
      bind_res (dir_names c tool_dir) (\<lambda>names.
      bind_res (input_roots c w env) (\<lambda>roots.
      let paths = lane_source_files c w lane @ listed @ filter (is_file w) (map (\<lambda>n. tool_dir @ [n]) names) @ fixed_inputs c w lane tool in
      bind_res (fold_res (inventory_entry w roots) paths []) (\<lambda>records. Inr (sort_key fst records)))))))))))"

text \<open>\<open>bytes.splitlines()\<close>: only line feeds and carriage returns end a line.\<close>

fun byte_lines_acc :: "string \<Rightarrow> string \<Rightarrow> string list" where
  "byte_lines_acc acc [] = (if acc = [] then [] else [rev acc])"
| "byte_lines_acc acc [c] = (if c = CHR 0x0D \<or> c = CHR 0x0A then [rev acc] else [rev (c # acc)])"
| "byte_lines_acc acc (c # d # cs) =
     (if c = CHR 0x0D \<and> d = CHR 0x0A then rev acc # byte_lines_acc [] cs
      else if c = CHR 0x0D \<or> c = CHR 0x0A then rev acc # byte_lines_acc [] (d # cs)
      else byte_lines_acc (c # acc) (d # cs))"

definition capture_inputs :: "capture_host \<Rightarrow> bool \<Rightarrow> string \<Rightarrow> go_setup \<Rightarrow> pydict res" where
  "capture_inputs c later_on lane s =
     (let w = world_at c later_on; run = (\<lambda>args. checked_run (run_tool c later_on (setup_env s) (croot c) args)) in
      bind_res (source_inventory c later_on lane s) (\<lambda>files.
      bind_res (run [''git'', ''status'', ''--porcelain=v1'', ''--untracked-files=all'']) (\<lambda>status.
      bind_res (run [''git'', ''rev-parse'', ''HEAD'']) (\<lambda>head.
      bind_res (bind_res (env_index (setup_env s) ''GOROOT'') (\<lambda>g. resolve_path w (place_of c g))) (\<lambda>sdk.
      bind_res (insist (is_relative_to (setup_tool s) sdk) [absolute_path (setup_tool s), '' is not in the subpath of '', absolute_path sdk]) (\<lambda>_.
      bind_res (case map_of files (''toolchain/'' @ as_posix (drop (length sdk) (setup_tool s))) of None \<Rightarrow> Inl StopIteration | Some d \<Rightarrow> Inr d) (\<lambda>binary.
      bind_res (utf8 w (out_of head)) (\<lambda>commit.
      Inr [(''source_commit'', VStr (strip commit)), (''working_tree_clean'', VBool (strip (out_of status) = [])),
        (''dirty_paths'', VList (map (\<lambda>l. VStr (decode_lossy c (drop 3 l))) (byte_lines_acc [] (out_of status)))),
        (''source_files'', records_value files), (''go_binary_sha256'', VStr binary)]))))))))"

section \<open>The runs of a lane\<close>

definition recorded_word :: "capture_host \<Rightarrow> go_setup \<Rightarrow> string \<Rightarrow> string" where
  "recorded_word c s item =
     (if item = absolute_path (place_of c (setup_goroot s) @ [''bin'', go_name c]) then ''go''
      else if is_absolute item \<and> is_relative_to (path_parts item) (scratch c)
      then ''<scratch>/'' @ (if path_parts item = scratch c then ''.'' else as_posix (drop (length (scratch c)) (path_parts item))) else item)"

record stage_run =
  stage_name :: string
  stage_command :: "string list"
  stage_cwd :: string
  stage_result :: static_run

definition stage :: "capture_host \<Rightarrow> go_setup \<Rightarrow> environ \<Rightarrow> string list \<Rightarrow> path \<Rightarrow> string \<Rightarrow> stage_run res" where
  "stage c s env command cwd name =
     bind_res (run_tool c False env cwd command) (\<lambda>r.
     Inr \<lparr>stage_name = name, stage_command = map (recorded_word c s) command,
       stage_cwd = (if cwd = croot c then ''repository'' else ''isolated-extract-fixture-root''), stage_result = r\<rparr>)"

text \<open>The runs, the files an extraction run generated, and the observation.\<close>

definition generated_record :: "capture_host \<Rightarrow> string \<times> string res \<Rightarrow> pyval res" where
  "generated_record c item =
     bind_res (snd item) (\<lambda>raw.
     Inr (VDict [(''path'', VStr (''scripts/rust-port/update-extract-oracle/testdata/'' @ fst item)), (''sha256'', VStr (sha256 (smachine (ch c)) raw)),
       (''bytes'', VInt (int (length raw)))]))"

definition extract_runs :: "capture_host \<Rightarrow> go_setup \<Rightarrow> (stage_run list \<times> pyval list \<times> string option) res" where
  "extract_runs c s =
     (let binary = absolute_path (scratch c @ [if nt c then ''extract-oracle.exe'' else ''extract-oracle'']); env = setup_env s in
      bind_res (stage c s env [absolute_path (setup_tool s), ''build'', ''-o'', binary, ''./scripts/rust-port/update-extract-oracle''] (croot c) ''build-go-extract-oracle'') (\<lambda>b.
      bind_res (demand_run (exit_of (stage_result b) = 0) [''Go extraction oracle build failed'']) (\<lambda>_.
      bind_res (stage c s env [binary] (scratch c @ [''extract-cwd'']) ''run-go-extract-oracle'') (\<lambda>r.
      bind_res (generated c) (\<lambda>entries.
      bind_res (map_res (generated_record c) entries) (\<lambda>files.
      Inr ([b, r], files, Some (out_of (stage_result r)))))))))"

definition swap_runs :: "capture_host \<Rightarrow> go_setup \<Rightarrow> (stage_run list \<times> pyval list \<times> string option) res" where
  "swap_runs c s =
     bind_res (stage c s ((setup_env s)(''COREKIT_SWAP_ORACLE_OUT'' \<mapsto> absolute_path (scratch c @ [''swap-observation.json''])))
       [absolute_path (setup_tool s), ''test'', ''-count=1'', ''-run'', ''^TestAtomicSwapOracle$'', ''./updatecheck/updateapply''] (croot c) ''run-go-swap-test'') (\<lambda>r.
     bind_res (case swap_output c of None \<Rightarrow> Inr None | Some x \<Rightarrow> bind_res x (\<lambda>b. Inr (Some b))) (\<lambda>observation.
     Inr ([r], [], observation)))"

definition plain_runs :: "capture_host \<Rightarrow> go_setup \<Rightarrow> string \<Rightarrow> (stage_run list \<times> pyval list \<times> string option) res" where
  "plain_runs c s lane =
     bind_res (stage c s (setup_env s) (absolute_path (setup_tool s) # tl (lane_command (spec_of lane))) (croot c) (msg [''run-go-'', lane, ''-oracle''])) (\<lambda>r.
     Inr ([r], [], Some (out_of (stage_result r))))"

definition lane_runs :: "capture_host \<Rightarrow> go_setup \<Rightarrow> string \<Rightarrow> (stage_run list \<times> pyval list \<times> string option) res" where
  "lane_runs c s lane =
     (if lane = ''extract'' then extract_runs c s else if lane = ''swap'' then swap_runs c s else plain_runs c s lane)"

section \<open>The document\<close>

definition file_digest :: "capture_host \<Rightarrow> string \<Rightarrow> pyval res" where
  "file_digest c relative = bind_res (read_bytes (smachine (ch c)) (croot c @ path_parts relative)) (\<lambda>b. Inr (VStr (sha256 (smachine (ch c)) b)))"

definition wrap_cases :: "capture_host \<Rightarrow> string \<Rightarrow> pyval \<Rightarrow> string \<Rightarrow> pydict res" where
  "wrap_cases c lane cases goos =
     (let spec = spec_of lane;
          sourced = (\<lambda>rest. bind_res (file_digest c (hd (source_paths spec))) (\<lambda>a. bind_res (file_digest c (hd (oracle_paths spec))) (\<lambda>b.
            Inr ([(''go_source_sha256'', a), (''oracle_sha256'', b)] @ rest)))) in
      if lane = ''version'' \<or> lane = ''response'' then sourced [(''cases'', cases)]
      else if lane = ''install-method'' then (case cases of VDict d \<Rightarrow> Inr (dset d ''goos'' (VStr goos)) | _ \<Rightarrow> Inl TypeError)
      else if lane = ''extract'' \<or> lane = ''swap'' then sourced [(''goos'', VStr goos), (''cases'', cases)]
      else sourced [(''observations'', cases)])"

text \<open>An archive of an extraction case has the bytes of the tracked one and of the one the run generated.\<close>

definition check_archive_case :: "capture_host \<Rightarrow> pyval list \<Rightarrow> pyval \<Rightarrow> unit res" where
  "check_archive_case c files case1 =
     bind_res (pindex case1 ''archive'') (\<lambda>v.
     bind_res (case v of VStr s \<Rightarrow> Inr s | _ \<Rightarrow> Inl TypeError) (\<lambda>archive.
     let w = smachine (ch c); p = join_path (croot c) archive; observed = get_if_dict case1 ''archive_sha256'';
         message1 = [''Go extraction generator input differs from tracked archive: '', archive] in
     bind_res (insist (is_file w p) message1) (\<lambda>_.
     bind_res (read_bytes w p) (\<lambda>b.
     insist (observed = VStr (sha256 w b) \<and> (\<exists>f \<in> set files. get_if_dict f ''path'' = VStr archive)
       \<and> get_if_dict (last (filter (\<lambda>f. get_if_dict f ''path'' = VStr archive) files)) ''sha256'' = observed) message1))))"

definition build_payload :: "capture_host \<Rightarrow> string \<Rightarrow> string \<Rightarrow> pyval list \<Rightarrow> string \<Rightarrow> pydict res" where
  "build_payload c lane output files goos =
     (let w = smachine (ch c) in
      bind_res (bind_res (utf8 w output) (json_loads w)) (\<lambda>cases.
      bind_res (wrap_cases c lane cases goos) (\<lambda>payload.
      bind_res (at_path (VDict payload) (case_path (spec_of lane))) (\<lambda>actual.
      bind_res (insist (is_list actual \<and> length (the (as_list actual)) = expected_count (spec_of lane)) 
        [''Go '', lane, '' oracle produced '', if is_list actual then str_nat (length (the (as_list actual))) else ''non-list'', '' cases; expected '',
         str_nat (expected_count (spec_of lane))]) (\<lambda>_.
      bind_res (if lane = ''extract'' then for_each (check_archive_case c files) (the (as_list actual)) else Inr ()) (\<lambda>_.
      Inr payload))))))"

definition raw_section :: "capture_host \<Rightarrow> stage_run list \<Rightarrow> string \<Rightarrow> pydict" where
  "raw_section c runs observation =
     (let w = smachine (ch c) in
      [(''exit_code'', VInt (case filter (\<lambda>n. n \<noteq> 0) (map (\<lambda>r. exit_of (stage_result r)) runs) of [] \<Rightarrow> 0 | n # _ \<Rightarrow> n)),
       (''stdout_sha256'', VStr (sha256 w (concat (map (\<lambda>r. out_of (stage_result r)) runs)))),
       (''stderr_sha256'', VStr (sha256 w (concat (map (\<lambda>r. err_of (stage_result r)) runs)))),
       (''commands'', VList (map (\<lambda>r. VDict [(''stage'', VStr (stage_name r)), (''command'', VList (map VStr (stage_command r))), (''cwd'', VStr (stage_cwd r)),
          (''exit_code'', VInt (exit_of (stage_result r)))]) runs)),
       (''observation_sha256'', VStr (sha256 w observation)), (''observation_bytes'', VInt (int (length observation))), (''evidence_id'', VStr (evidence_name c))])"

text \<open>\<open>frozen[name]\<close>\<close>

definition frozen_digest :: "file_record list \<Rightarrow> string \<Rightarrow> string res" where
  "frozen_digest frozen name = (case map_of frozen name of None \<Rightarrow> Inl (KeyError name) | Some d \<Rightarrow> Inr d)"

definition frozen_files :: "file_record list \<Rightarrow> string list \<Rightarrow> file_record list res" where
  "frozen_files frozen names = map_res (\<lambda>p. bind_res (frozen_digest frozen (''repository/'' @ p)) (\<lambda>d. Inr (p, d))) names"

definition capture_section :: "capture_host \<Rightarrow> string \<Rightarrow> go_setup \<Rightarrow> pydict \<Rightarrow> pyval list \<Rightarrow> pydict \<Rightarrow> pydict \<Rightarrow> pydict res" where
  "capture_section c lane s inputs files raw payload =
     (let spec = spec_of lane; frozen = map record_pair (the (as_list (dget inputs ''source_files'')));
          legacy = ''testdata/rust-port/fixtures/update/'' @ legacy_name spec in
      bind_res (frozen_digest frozen (''repository/'' @ legacy)) (\<lambda>legacy_digest.
      bind_res (frozen_digest frozen ''repository/scripts/rust-port/static_update_oracle.py'') (\<lambda>capturer.
      bind_res (frozen_files frozen (oracle_paths spec)) (\<lambda>oracles.
      bind_res (frozen_files frozen (filter (\<lambda>p. map_of frozen (''repository/'' @ p) \<noteq> None) [''go.mod'', ''go.sum''])) (\<lambda>modules.
      bind_res (case_ids lane (VDict payload)) (\<lambda>ids.
      bind_res (case_fingerprints (ch c) lane (VDict payload)) (\<lambda>prints.
      Inr [(''schema_version'', VInt 1), (''lane'', VStr lane), (''source_commit'', dget inputs ''source_commit''),
        (''working_tree_clean'', dget inputs ''working_tree_clean''), (''dirty_paths'', dget inputs ''dirty_paths''),
        (''go'', VDict [(''version'', VStr (setup_version s)), (''goversion'', VStr ''go1.26.6''), (''goroot'', VStr (path_name (setup_goroot s))),
           (''goos'', VStr (fst (setup_target s))), (''goarch'', VStr (snd (setup_target s))), (''binary_sha256'', dget inputs ''go_binary_sha256''),
           (''gomodcache'', VStr ''existing-cache-read-only'')]),
        (''capturer_sha256'', VStr capturer), (''oracle_files'', records_value oracles), (''source_files'', dget inputs ''source_files''),
        (''go_module_inputs'', records_value modules),
        (''historical_fixture'', VDict [(''path'', VStr legacy), (''sha256'', VStr legacy_digest)]),
        (''case_count'', VInt (int (expected_count spec))), (''case_ids'', VList ids), (''case_fingerprints_sha256'', VList prints),
        (''generated_inputs'', VList files), (''raw'', VDict raw), (''capture_mode'', VStr ADDITIVE), (''input_inventory_verified'', VBool True),
        (''input_snapshot_sha256'', VStr (snapshot_digest (ch c) inputs))])))))))"

text \<open>The document and its provenance. The evidence files of the run are not part of the model.\<close>

definition capture_go :: "capture_host \<Rightarrow> string \<Rightarrow> bool \<Rightarrow> (pydict \<times> pydict) res" where
  "capture_go c lane artifacts =
     bind_res (insist (map_of LANES lane \<noteq> None) [''unknown static update lane: '', lane]) (\<lambda>_.
     bind_res (demand_run (go_oracle_set (ch c)) [''live Go capture requires explicit GO_ORACLE=1'']) (\<lambda>_.
     bind_res (demand_run artifacts [''live Go capture requires a raw execution evidence directory'']) (\<lambda>_.
     bind_res (prepare_go_env c) (\<lambda>s.
     bind_res (capture_inputs c False lane s) (\<lambda>inputs.
     bind_res (lane_runs c s lane) (\<lambda>(runs, files, observation).
     bind_res (demand_run (list_all (\<lambda>r. exit_of (stage_result r) = 0) runs \<and> observation \<noteq> None)
       [''Go '', lane, '' oracle failed; raw execution evidence retained at '', evidence_name c]) (\<lambda>_.
     bind_res (build_payload c lane (the observation) files (fst (setup_target s))) (\<lambda>payload.
     bind_res (capture_inputs c True lane s) (\<lambda>again.
     bind_res (insist (py_eq (VDict again) (VDict inputs)) [''Go oracle source/toolchain inputs changed during execution'']) (\<lambda>_.
     bind_res (capture_section c lane s inputs files (raw_section c runs (the observation)) payload) (\<lambda>capture.
     Inr (dset payload ''capture'' (VDict capture), capture))))))))))))"

section \<open>The document is a well-formed capture\<close>

lemma record_pair_value [simp]: "record_pair (record_value f) = f"
  by (simp add: record_pair_def record_value_def dget_def)

lemma input_record_value [simp]: "input_record (record_value f) \<longleftrightarrow> safe_text (fst f) \<and> fullmatch HEX64 (snd f)"
  by (simp add: input_record_def record_value_def dget_def safe_label_def is_digest_def)

lemma input_files_records:
  "fs \<noteq> [] \<Longrightarrow> distinct (map fst fs) \<Longrightarrow> \<forall>f \<in> set fs. safe_text (fst f) \<and> fullmatch HEX64 (snd f) \<Longrightarrow> input_files (records_value fs) fs"
  by (auto simp: input_files_def records_value_def list_all_iff comp_def)

text \<open>The inventory: no label twice, every digest that of some bytes.\<close>

definition digested :: "world \<Rightarrow> file_record list \<Rightarrow> bool" where
  "digested w fs \<longleftrightarrow> distinct (map fst fs) \<and> (\<forall>f \<in> set fs. \<exists>b. snd f = sha256 w b)"

lemma digested_update: "digested w fs \<Longrightarrow> digested w (AList.update name (sha256 w b) fs)"
proof -
  have "set (AList.update name d fs) \<subseteq> insert (name, d) (set fs)" for d by (induction fs) auto
  then show "digested w fs \<Longrightarrow> ?thesis" by (fastforce simp: digested_def distinct_update)
qed

lemma inventory_entry_keeps: "inventory_entry w roots p fs = Inr out \<Longrightarrow> digested w fs \<Longrightarrow> digested w out \<and> out \<noteq> []"
  by (auto simp: inventory_entry_def bind_res_eq_Inr digested_update split: option.splits)

lemma source_inventory_Inr:
  assumes "source_inventory c later_on lane s = Inr fs"
  shows "digested (world_at c later_on) fs" "fs \<noteq> []"
proof -
  let ?w = "world_at c later_on"
  from assms obtain roots paths records where r: "fold_res (inventory_entry ?w roots) paths [] = Inr records" "paths \<noteq> []" "fs = sort_key fst records"
    by (auto simp: source_inventory_def Let_def bind_res_eq_Inr fixed_inputs_def)
  have none: "digested ?w []" by (simp add: digested_def)
  from r(1,2) obtain p ps a where p: "inventory_entry ?w roots p [] = Inr a" "fold_res (inventory_entry ?w roots) ps a = Inr records"
    by (cases paths) (auto simp: bind_res_eq_Inr)
  have "digested ?w records \<and> records \<noteq> []"
    using p(2) inventory_entry_keeps [OF p(1) none] by (rule fold_res_keeps) (metis inventory_entry_keeps)
  moreover have "sort_key fst records = [] \<longleftrightarrow> records = []" by (metis length_0_conv length_sort)
  ultimately show "digested ?w fs" "fs \<noteq> []" using r(3) by (auto simp: digested_def distinct_map)
qed

lemma byte_lines_Nil: "byte_lines_acc acc b = [] \<longleftrightarrow> acc = [] \<and> b = []"
  by (induction acc b rule: byte_lines_acc.induct) auto

lemma capture_inputs_Inr:
  assumes "capture_inputs c later_on lane s = Inr inputs"
  obtains files status commit binary where
    "source_inventory c later_on lane s = Inr files" "run_tool c later_on (setup_env s) (croot c) [''git'', ''status'', ''--porcelain=v1'', ''--untracked-files=all''] = Inr status"
    "inputs = [(''source_commit'', VStr commit), (''working_tree_clean'', VBool (strip (out_of status) = [])),
        (''dirty_paths'', VList (map (\<lambda>l. VStr (decode_lossy c (drop 3 l))) (byte_lines_acc [] (out_of status)))),
        (''source_files'', records_value files), (''go_binary_sha256'', VStr binary)]"
  using assms by (auto simp: capture_inputs_def Let_def bind_res_eq_Inr checked_run_def split: if_splits option.splits)

lemma prepare_go_env_target: "prepare_go_env c = Inr s \<Longrightarrow> setup_target s = native_of (ch c)"
  by (auto simp: prepare_go_env_def Let_def bind_res_eq_Inr)

text \<open>The cases are where they were after the provenance has been added.\<close>

lemma cases_kept:
  assumes "map_of LANES lane = Some spec"
  shows "at_path (VDict (dset d ''capture'' v)) (case_path (spec_of lane)) = at_path (VDict d) (case_path (spec_of lane))"
proof -
  have "case_path (spec_of lane) \<in> {[''cases''], [''observations'', ''cases'']}"
    using assms by (auto simp: spec_of_def LANES_def split: if_splits)
  then show ?thesis by (auto simp: at_path_def pindex_def dindex_def map_of_dset)
qed

lemma case_ids_kept: "map_of LANES lane = Some spec \<Longrightarrow> case_ids lane (VDict (dset d ''capture'' v)) = case_ids lane (VDict d)"
  by (simp add: case_ids_def cases_kept)

text \<open>What Git, the compiler and the oracle are taken to print: a full commit, no blank status, the documented version line
  of a supported platform, paths that make safe labels, a module file, and cases with distinct names.\<close>

definition ordinary_capture :: "capture_host \<Rightarrow> pydict \<Rightarrow> bool" where
  "ordinary_capture c capture \<longleftrightarrow>
     is_commit (dget capture ''source_commit'')
     \<and> (\<forall>env r. run_tool c False env (croot c) [''git'', ''status'', ''--porcelain=v1'', ''--untracked-files=all''] = Inr r \<longrightarrow> out_of r = [] \<or> strip (out_of r) \<noteq> [])
     \<and> sound_go capture (native_of (ch c))
     \<and> (\<forall>v \<in> set (the (as_list (dget capture ''source_files''))). safe_label (get_if_dict v ''path''))
     \<and> dget capture ''go_module_inputs'' \<noteq> VList []
     \<and> (\<exists>ids. dget capture ''case_ids'' = VList (map VStr ids) \<and> distinct ids \<and> [] \<notin> set ids)"

lemma frozen_files_Inr:
  assumes "frozen_files frozen names = Inr fs"
  shows "map fst fs = names" "\<forall>f \<in> set fs. snd f \<in> snd ` set frozen"
proof -
  from assms have all: "list_all2 (\<lambda>p f. map_of frozen (''repository/'' @ p) = Some (snd f) \<and> fst f = p) names fs"
    by (auto simp: frozen_files_def map_res_Inr bind_res_eq_Inr frozen_digest_def elim!: list_all2_mono split: option.splits)
  then show "map fst fs = names" by (induction rule: list_all2_induct) auto
  from all show "\<forall>f \<in> set fs. snd f \<in> snd ` set frozen" by (induction rule: list_all2_induct) (auto dest!: map_of_SomeD intro: rev_image_eqI)
qed

lemma frozen_inputs:
  assumes "frozen_files frozen names = Inr fs" "names \<noteq> []" "distinct names" "\<forall>p \<in> set names. safe_text p" "\<forall>f \<in> set frozen. fullmatch HEX64 (snd f)"
  shows "input_files (records_value fs) fs"
proof (rule input_files_records)
  have names: "map fst fs = names" using assms(1) by (rule frozen_files_Inr)
  with assms(2,3) show "fs \<noteq> []" "distinct (map fst fs)" by auto
  show "\<forall>f \<in> set fs. safe_text (fst f) \<and> fullmatch HEX64 (snd f)"
  proof
    fix f
    assume f: "f \<in> set fs"
    then have "fst f \<in> set names" unfolding names [symmetric] by simp
    moreover have "snd f \<in> snd ` set frozen" using frozen_files_Inr(2) [OF assms(1)] f by blast
    ultimately show "safe_text (fst f) \<and> fullmatch HEX64 (snd f)" using assms(4,5) by auto
  qed
qed

lemma oracle_paths_safe:
  "map_of LANES lane = Some spec \<Longrightarrow>
     oracle_paths (spec_of lane) \<noteq> [] \<and> distinct (oracle_paths (spec_of lane)) \<and> (\<forall>p \<in> set (oracle_paths (spec_of lane)). safe_text p)"
  by (auto simp: spec_of_def LANES_def safe_text_def startswith_def split: if_splits)

lemma capture_section_Inr:
  assumes "capture_section c lane s inputs files raw payload = Inr capture"
  obtains capturer oracles modules ids prints where
    "frozen_digest (map record_pair (the (as_list (dget inputs ''source_files'')))) ''repository/scripts/rust-port/static_update_oracle.py'' = Inr capturer"
    "frozen_files (map record_pair (the (as_list (dget inputs ''source_files'')))) (oracle_paths (spec_of lane)) = Inr oracles"
    "frozen_files (map record_pair (the (as_list (dget inputs ''source_files''))))
      (filter (\<lambda>p. map_of (map record_pair (the (as_list (dget inputs ''source_files'')))) (''repository/'' @ p) \<noteq> None) [''go.mod'', ''go.sum'']) = Inr modules"
    "case_ids lane (VDict payload) = Inr ids" "case_fingerprints (ch c) lane (VDict payload) = Inr prints"
    "dget capture ''schema_version'' = VInt 1" "dget capture ''lane'' = VStr lane" "\<forall>k \<in> set SNAPSHOT_FIELDS. dget capture k = dget inputs k"
    "get_if_dict (dget capture ''go'') ''binary_sha256'' = dget inputs ''go_binary_sha256''" "dget capture ''capturer_sha256'' = VStr capturer"
    "dget capture ''oracle_files'' = records_value oracles" "dget capture ''go_module_inputs'' = records_value modules"
    "dget capture ''case_count'' = VInt (int (expected_count (spec_of lane)))" "dget capture ''case_ids'' = VList ids"
    "dget capture ''case_fingerprints_sha256'' = VList prints" "dget capture ''raw'' = VDict raw"
    "dget capture ''input_inventory_verified'' = VBool True" "dget capture ''input_snapshot_sha256'' = VStr (snapshot_digest (ch c) inputs)"
proof -
  from assms obtain legacy capturer oracles modules ids prints where
    r: "frozen_digest (map record_pair (the (as_list (dget inputs ''source_files'')))) ''repository/scripts/rust-port/static_update_oracle.py'' = Inr capturer"
      "frozen_files (map record_pair (the (as_list (dget inputs ''source_files'')))) (oracle_paths (spec_of lane)) = Inr oracles"
      "frozen_files (map record_pair (the (as_list (dget inputs ''source_files''))))
        (filter (\<lambda>p. map_of (map record_pair (the (as_list (dget inputs ''source_files'')))) (''repository/'' @ p) \<noteq> None) [''go.mod'', ''go.sum'']) = Inr modules"
      "case_ids lane (VDict payload) = Inr ids" "case_fingerprints (ch c) lane (VDict payload) = Inr prints"
    and capture: "capture = [(''schema_version'', VInt 1), (''lane'', VStr lane), (''source_commit'', dget inputs ''source_commit''),
        (''working_tree_clean'', dget inputs ''working_tree_clean''), (''dirty_paths'', dget inputs ''dirty_paths''),
        (''go'', VDict [(''version'', VStr (setup_version s)), (''goversion'', VStr ''go1.26.6''), (''goroot'', VStr (path_name (setup_goroot s))),
           (''goos'', VStr (fst (setup_target s))), (''goarch'', VStr (snd (setup_target s))), (''binary_sha256'', dget inputs ''go_binary_sha256''),
           (''gomodcache'', VStr ''existing-cache-read-only'')]),
        (''capturer_sha256'', VStr capturer), (''oracle_files'', records_value oracles), (''source_files'', dget inputs ''source_files''),
        (''go_module_inputs'', records_value modules),
        (''historical_fixture'', VDict [(''path'', VStr (''testdata/rust-port/fixtures/update/'' @ legacy_name (spec_of lane))), (''sha256'', VStr legacy)]),
        (''case_count'', VInt (int (expected_count (spec_of lane)))), (''case_ids'', VList ids), (''case_fingerprints_sha256'', VList prints),
        (''generated_inputs'', VList files), (''raw'', VDict raw), (''capture_mode'', VStr ADDITIVE), (''input_inventory_verified'', VBool True),
        (''input_snapshot_sha256'', VStr (snapshot_digest (ch c) inputs))]"
    by (auto simp: capture_section_def Let_def bind_res_eq_Inr)
  have g: "dget capture ''schema_version'' = VInt 1" "dget capture ''lane'' = VStr lane" "\<forall>k \<in> set SNAPSHOT_FIELDS. dget capture k = dget inputs k"
    "get_if_dict (dget capture ''go'') ''binary_sha256'' = dget inputs ''go_binary_sha256''" "dget capture ''capturer_sha256'' = VStr capturer"
    "dget capture ''oracle_files'' = records_value oracles" "dget capture ''go_module_inputs'' = records_value modules"
    "dget capture ''case_count'' = VInt (int (expected_count (spec_of lane)))" "dget capture ''case_ids'' = VList ids"
    "dget capture ''case_fingerprints_sha256'' = VList prints" "dget capture ''raw'' = VDict raw"
    "dget capture ''input_inventory_verified'' = VBool True" "dget capture ''input_snapshot_sha256'' = VStr (snapshot_digest (ch c) inputs)"
    unfolding capture by (simp_all add: SNAPSHOT_FIELDS_def dget_def)
  show thesis by (rule that [OF r g])
qed


section \<open>A capture that succeeds\<close>

definition sample_cases :: pyval where
  "sample_cases = VList (map (\<lambda>c. VDict [(''id'', VStr [c])]) ''abcdefghi'')"

definition live_static_host :: static_host where
  "live_static_host =
     sample_static_host\<lparr>smachine := (smachine sample_static_host)\<lparr>is_file := (\<lambda>_. True), is_dir := (\<lambda>_. True), read_bytes := (\<lambda>_. Inr []),
        json_loads := (\<lambda>_. Inr sample_cases)\<rparr>, own_file := [''r'', ''scripts'', ''rust-port'', ''static_update_oracle.py'']\<rparr>"

definition sample_tool_run :: "string list \<Rightarrow> static_run" where
  "sample_tool_run args =
     (let say = (\<lambda>s. \<lparr>exit_of = 0, out_of = s, err_of = []\<rparr>) in
      if last args = ''GOROOT'' then say ''/g''
      else if args ! 1 = ''env'' \<and> length args > 3 then say (join [CHR 0x0A] [''go1.26.6'', ''/g'', ''linux'', ''amd64'', ''/m''])
      else if last args = ''GOMODCACHE'' then say ''/m''
      else if last args = ''version'' then say ''go version go1.26.6 linux/amd64''
      else if last args = ''GOTOOLDIR'' then say ''/g/tools''
      else if last args = ''HEAD'' then say zero_commit
      else say [])"

definition sample_capture_host :: capture_host where
  "sample_capture_host =
     \<lparr>ch = live_static_host, settled = smachine live_static_host, ambient = Map.empty, nt = False, here = [''r''], scratch = [''s''],
      run_tool = (\<lambda>_ _ _ args. Inr (sample_tool_run args)), go_names = (\<lambda>_. []), dir_names = (\<lambda>_. Inr []), files_below = (\<lambda>_. []),
      raw_object = (\<lambda>_. Inl TypeError), decode_lossy = id, directories_made = Inr (), generated = Inr [], swap_output = None, evidence_name = ''e''\<rparr>"

definition sample_setup :: go_setup where
  "sample_setup =
     \<lparr>setup_env = (map_of (scratch_env [''s''] ''/m''))(''GOMODCACHE'' \<mapsto> ''/m'', ''GOROOT'' \<mapsto> ''/g''), setup_version = ''go version go1.26.6 linux/amd64'',
      setup_goroot = ''/g'', setup_target = (''linux'', ''amd64''), setup_tool = [''g'', ''bin'', ''go'']\<rparr>"

lemma sample_host_fields:
  "run_tool sample_capture_host later_on env p args = Inr (sample_tool_run args)" "nt sample_capture_host = False" "scratch sample_capture_host = [''s'']"
  "here sample_capture_host = [''r'']" "ambient sample_capture_host = Map.empty" "directories_made sample_capture_host = Inr ()"
  "dir_names sample_capture_host p = Inr []" "go_names sample_capture_host p = []" "world_at sample_capture_host later_on = smachine (ch sample_capture_host)"
  "croot sample_capture_host = [''r'']" "go_oracle_set (ch sample_capture_host)" "own_file (ch sample_capture_host) = [''r'', ''scripts'', ''rust-port'', ''static_update_oracle.py'']"
  "is_file (smachine (ch sample_capture_host)) p" "is_dir (smachine (ch sample_capture_host)) p" "read_bytes (smachine (ch sample_capture_host)) p = Inr []"
  "resolve_path (smachine (ch sample_capture_host)) p = Inr p" "utf8 (smachine (ch sample_capture_host)) b = Inr b"
  "json_loads (smachine (ch sample_capture_host)) b = Inr sample_cases" "sha256 (smachine (ch sample_capture_host)) b = zero_digest"
  "native_of (ch sample_capture_host) = (''linux'', ''amd64'')"
  using sample_target(1) by (simp_all add: sample_capture_host_def live_static_host_def sample_static_host_def world_at_def)

lemma sample_tool: "resolve_go_tool sample_capture_host = Inr [''g'', ''bin'', ''go'']"
  by (simp add: resolve_go_tool_def sample_host_fields sample_tool_run_def Let_def strip_def lstrip_def rstrip_def is_space_def is_absolute_def startswith_def
    path_parts_def go_name_def)

lemma sample_prepared: "prepare_go_env sample_capture_host = Inr sample_setup"
proof -
  have words: "strip ''/m'' = ''/m''" "strip ''go version go1.26.6 linux/amd64'' = ''go version go1.26.6 linux/amd64''"
    by (simp_all add: strip_def lstrip_def rstrip_def is_space_def)
  have five: "five_lines (join [CHR 0x0A] [''go1.26.6'', ''/g'', ''linux'', ''amd64'', ''/m'']) = Inr (''go1.26.6'', ''/g'', ''linux'', ''amd64'', ''/m'')"
    by (simp add: five_lines_def splitlines_def is_linebreak_def)
  show ?thesis
    by (simp add: prepare_go_env_def sample_tool sample_host_fields Let_def words sample_tool_run_def five startswith_def sample_setup_def del: join.simps)
qed

definition sample_files :: "file_record list" where
  "sample_files = map (\<lambda>n. (n, zero_digest))
     [''repository/go.mod'', ''repository/go.sum'', ''repository/scripts/rust-port/bounded_oracle_process.py'',
      ''repository/scripts/rust-port/static_update_anchors.py'', ''repository/scripts/rust-port/static_update_oracle.py'',
      ''repository/scripts/rust-port/update-response-oracle/main.go'', ''repository/testdata/rust-port/fixtures/update/responses.json'',
      ''repository/updatecheck/updatecheck.go'', ''toolchain/bin/go'']"

definition sample_inputs :: pydict where
  "sample_inputs =
     [(''source_commit'', VStr zero_commit), (''working_tree_clean'', VBool True), (''dirty_paths'', VList []), (''source_files'', records_value sample_files),
      (''go_binary_sha256'', VStr zero_digest)]"

lemma sample_roots:
  "input_roots sample_capture_host (smachine (ch sample_capture_host)) (setup_env sample_setup) = Inr [(''toolchain'', [''g'']), (''modules'', [''m'']), (''generated'', [''s'', ''gocache'']), (''repository'', [''r''])]"
  by (simp add: input_roots_def sample_setup_def env_index_def sample_host_fields place_of_def join_path_def is_absolute_def startswith_def path_parts_def
    scratch_env_def absolute_path_def as_posix_def Let_def)

definition sample_paths_read :: "path list" where
  "sample_paths_read =
     [[''r'', ''updatecheck'', ''updatecheck.go''], [''r'', ''scripts'', ''rust-port'', ''update-response-oracle'', ''main.go''], [''r'', ''go.mod''], [''r'', ''go.sum''],
      [''g'', ''bin'', ''go''], [''r'', ''scripts'', ''rust-port'', ''static_update_oracle.py''], [''r'', ''scripts'', ''rust-port'', ''static_update_anchors.py''],
      [''r'', ''scripts'', ''rust-port'', ''bounded_oracle_process.py''], [''r'', ''testdata'', ''rust-port'', ''fixtures'', ''update'', ''responses.json'']]"

lemma sample_spec: "spec_of ''response'' = \<lparr>expected_count = 9, legacy_name = ''responses.json'', fixture_name = ''response.json'', case_path = [''cases''],
    oracle_paths = [''scripts/rust-port/update-response-oracle/main.go''], source_paths = [CHECK_GO], lane_command = [''go'', ''run'', ''./scripts/rust-port/update-response-oracle'']\<rparr>"
  by (simp add: spec_of_def LANES_def)

lemma sample_read_order:
  "lane_source_files sample_capture_host (smachine (ch sample_capture_host)) ''response'' @ fixed_inputs sample_capture_host (smachine (ch sample_capture_host)) ''response'' [''g'', ''bin'', ''go'']
     = sample_paths_read"
  by (simp add: lane_source_files_def fixed_inputs_def sample_spec sample_host_fields CHECK_GO_def path_parts_def sample_paths_read_def UPDATE_FIXTURES_def Let_def)

lemma sample_entry:
  "scope_label [(''toolchain'', [''g'']), (''modules'', [''m'']), (''generated'', [''s'', ''gocache'']), (''repository'', [''r''])] p = Some name \<Longrightarrow>
     inventory_entry (smachine (ch sample_capture_host)) [(''toolchain'', [''g'']), (''modules'', [''m'']), (''generated'', [''s'', ''gocache'']), (''repository'', [''r''])] p records
       = Inr (AList.update name zero_digest records)"
  by (simp add: inventory_entry_def sample_host_fields)

lemma sample_fold:
  "fold_res (inventory_entry (smachine (ch sample_capture_host)) [(''toolchain'', [''g'']), (''modules'', [''m'']), (''generated'', [''s'', ''gocache'']), (''repository'', [''r''])])
     sample_paths_read [] = Inr (map (\<lambda>n. (n, zero_digest))
       [''repository/updatecheck/updatecheck.go'', ''repository/scripts/rust-port/update-response-oracle/main.go'', ''repository/go.mod'', ''repository/go.sum'',
        ''toolchain/bin/go'', ''repository/scripts/rust-port/static_update_oracle.py'', ''repository/scripts/rust-port/static_update_anchors.py'',
        ''repository/scripts/rust-port/bounded_oracle_process.py'', ''repository/testdata/rust-port/fixtures/update/responses.json''])"
  by (simp add: sample_paths_read_def sample_entry is_relative_to_def as_posix_def)

lemma sample_sorted:
  "sort_key fst (map (\<lambda>n. (n, zero_digest))
       [''repository/updatecheck/updatecheck.go'', ''repository/scripts/rust-port/update-response-oracle/main.go'', ''repository/go.mod'', ''repository/go.sum'',
        ''toolchain/bin/go'', ''repository/scripts/rust-port/static_update_oracle.py'', ''repository/scripts/rust-port/static_update_anchors.py'',
        ''repository/scripts/rust-port/bounded_oracle_process.py'', ''repository/testdata/rust-port/fixtures/update/responses.json'']) = sample_files"
  by (simp add: sample_files_def)

lemma listed_nothing: "listed_inputs c w [] = Inr []"
  by (subst listed_inputs.simps) (simp add: strip_def lstrip_def rstrip_def)

lemma sample_inventory: "source_inventory sample_capture_host later_on ''response'' sample_setup = Inr sample_files"
proof -
  have words: "strip ''/g/tools'' = ''/g/tools''" by (simp add: strip_def lstrip_def rstrip_def is_space_def)
  have tool: "setup_tool sample_setup = [''g'', ''bin'', ''go'']" by (simp add: sample_setup_def)
  have list: "sample_tool_run (list_command ''response'' [''g'', ''bin'', ''go'']) = \<lparr>exit_of = 0, out_of = [], err_of = []\<rparr>"
    by (simp add: sample_tool_run_def list_command_def sample_spec path_parts_def LIST_FIELDS_def Let_def)
  have dir: "sample_tool_run [absolute_path [''g'', ''bin'', ''go''], ''env'', ''GOTOOLDIR''] = \<lparr>exit_of = 0, out_of = ''/g/tools'', err_of = []\<rparr>"
    by (simp add: sample_tool_run_def Let_def)
  show ?thesis
    using sample_read_order sample_fold sample_sorted
    by (simp add: source_inventory_def Let_def sample_host_fields tool list dir listed_nothing checked_run_def words sample_roots)
qed

lemma sample_captured_inputs: "capture_inputs sample_capture_host later_on ''response'' sample_setup = Inr sample_inputs"
proof -
  have status: "sample_tool_run [''git'', ''status'', ''--porcelain=v1'', ''--untracked-files=all''] = \<lparr>exit_of = 0, out_of = [], err_of = []\<rparr>"
    and head: "sample_tool_run [''git'', ''rev-parse'', ''HEAD''] = \<lparr>exit_of = 0, out_of = zero_commit, err_of = []\<rparr>"
    by (simp_all add: sample_tool_run_def Let_def)
  have fixed: "setup_env sample_setup ''GOROOT'' = Some ''/g''" "setup_tool sample_setup = [''g'', ''bin'', ''go'']" by (simp_all add: sample_setup_def)
  have place: "place_of sample_capture_host ''/g'' = [''g'']" by (simp add: place_of_def join_path_def is_absolute_def startswith_def path_parts_def)
  have strips: "strip zero_commit = zero_commit" "strip [] = []"
    by (simp_all add: strip_def lstrip_def rstrip_def is_space_def zero_commit_def numeral_eq_Suc)
  have binary: "map_of sample_files (''toolchain/'' @ as_posix [''bin'', ''go'']) = Some zero_digest" by (simp add: sample_files_def as_posix_def)
  show ?thesis
    using binary by (simp add: capture_inputs_def Let_def sample_inventory sample_host_fields status head checked_run_def env_index_def fixed place is_relative_to_def strips sample_inputs_def)
qed

lemma sample_runs:
  "\<exists>r. lane_runs sample_capture_host sample_setup ''response'' = Inr ([r], [], Some []) \<and> exit_of (stage_result r) = 0"
  by (simp add: lane_runs_def plain_runs_def stage_def sample_host_fields sample_spec sample_tool_run_def Let_def)

definition sample_body :: pydict where
  "sample_body = [(''go_source_sha256'', VStr zero_digest), (''oracle_sha256'', VStr zero_digest), (''cases'', sample_cases)]"

lemma sample_built: "build_payload sample_capture_host ''response'' [] [] goos = Inr sample_body"
  by (simp add: build_payload_def Let_def sample_host_fields wrap_cases_def file_digest_def sample_spec sample_body_def at_path_def pindex_def dindex_def)
    (simp add: sample_cases_def)

lemma capture_section_go:
  "capture_section c lane s inputs files raw payload = Inr capture \<Longrightarrow>
     dget capture ''go'' = VDict [(''version'', VStr (setup_version s)), (''goversion'', VStr ''go1.26.6''), (''goroot'', VStr (path_name (setup_goroot s))),
       (''goos'', VStr (fst (setup_target s))), (''goarch'', VStr (snd (setup_target s))), (''binary_sha256'', dget inputs ''go_binary_sha256''),
       (''gomodcache'', VStr ''existing-cache-read-only'')]"
  by (auto simp: capture_section_def Let_def bind_res_eq_Inr dget_def)

lemma sample_frozen: "map record_pair (the (as_list (dget sample_inputs ''source_files''))) = sample_files"
  by (simp add: sample_inputs_def dget_def records_value_def comp_def)

lemma sample_case_ids: "case_ids ''response'' (VDict sample_body) = Inr (map VStr (map (\<lambda>c. [c]) ''abcdefghi''))"
proof -
  have "at_path (VDict sample_body) [''cases''] = Inr sample_cases" by (simp add: at_path_def pindex_def dindex_def sample_body_def)
  then show ?thesis by (simp add: case_ids_def sample_spec) (simp add: sample_cases_def pindex_def dindex_def)
qed

lemma sample_section: "\<exists>capture. capture_section sample_capture_host ''response'' sample_setup sample_inputs [] raw sample_body = Inr capture"
proof -
  have listed: "at_path (VDict sample_body) [''cases''] = Inr sample_cases" by (simp add: at_path_def pindex_def dindex_def sample_body_def)
  have "\<exists>prints. case_fingerprints (ch sample_capture_host) ''response'' (VDict sample_body) = Inr prints"
    by (simp add: case_fingerprints_def sample_spec listed) (simp add: sample_cases_def)
  then show ?thesis
    by (auto simp: capture_section_def sample_frozen sample_case_ids Let_def sample_spec frozen_digest_def frozen_files_def) (simp_all add: sample_files_def)
qed


end
