(* ===== verification/Spec2Isabelle.thy ===== *)
theory Spec2Isabelle
  imports LockClosure MergeGate ConsumerVerify OracleRun FsReplayExample FsLive HandoffMain WinProcess Release CostGate Adoption
    Comparator BenchExample StaticCapture
begin

text \<open>
  \<^bold>\<open>The program.\<close> Symaira CoreKit is being moved from Go to Rust. The Python of the repository is the part
  that decides whether a step of that move may be believed: it reads manifests, reports, captures and lock files
  that people and machines wrote, runs child processes under bounds, and ends with an exit code. The
  development models these deciders. Their inputs are hostile JSON values, files and processes; what they
  promise is that acceptance means something and that every failure is an error or a finding.

  \<^bold>\<open>The parts and their theories.\<close>

  \<^item> \<open>Prelude\<close>, \<open>PyStr\<close>, \<open>PyVal\<close>, \<open>Regex\<close>, \<open>World\<close>: results (an exception or a value), the list of findings a
    checker collects, strings with the methods of Python the code calls, JSON and TOML values with \<open>==\<close> and
    \<open>get\<close>, the regular expressions of the sources with a derivative matcher, paths, and the record \<open>world\<close> that
    stands for what the code asks of the file system, Git, SHA-256 and the parsers of the standard library.
  \<^item> \<open>GoSource\<close>, \<open>Checkout\<close>, \<open>CargoPins\<close>, \<open>Evidence\<close>, \<open>ConsumerGo\<close>, \<open>ConsumerRust\<close>, \<open>ConsumerVerify\<close>: the consumer
    verifier \<open>port/consumer/verify.py\<close>, from the scanners of \<open>go.mod\<close> and of Go imports over path guards, pins, lock
    files, rollback and build evidence to \<open>verify_manifest\<close> and \<open>main\<close>.
  \<^item> \<open>LockClosure\<close>: \<open>scripts/rust-port/lock_closure.py\<close>, the packages a set of roots can resolve to.
  \<^item> \<open>MergeGate\<close>: \<open>scripts/rust-port/ci_merge_gate.py\<close>.
  \<^item> \<open>Capture\<close>, \<open>PosixProcess\<close>, \<open>WinProcess\<close>, \<open>OracleRun\<close>: \<open>scripts/rust-port/bounded_oracle_process.py\<close>. The reader
    threads are an inductive relation of turns (\<open>reader_step\<close>, \<open>capture_step\<close>) that may interleave in any way. The
    operating system answers from scripts, one queue per call, and each call is an event of a trace, so a
    theorem over all scripts is a theorem over all behaviours. \<open>OracleRun\<close> has the argument checks, \<open>run_bounded\<close>
    and \<open>run_checked\<close>.
  \<^item> \<open>CanonicalJson\<close>, \<open>FsRecords\<close>, \<open>FsCapture\<close>, \<open>FsPayload\<close>, \<open>FsCompare\<close>, \<open>FsRecorder\<close>, \<open>FsReplay\<close>, \<open>FsReplayExample\<close>:
    \<open>scripts/rust-port/fs_secret_oracle.py\<close>: the canonical bytes of a document, inventories, the validation of a
    capture and its construction, normalisation and comparison, the recorder, and the replay of a capture
    against the candidate. \<open>FsInventory\<close> and \<open>FsLive\<close> are the other direction: what a live capture reads from
    \<open>go list\<close> and the disk, the probe it builds and runs, and the document it writes.
  \<^item> \<open>HandoffGraph\<close>, \<open>HandoffFiles\<close>, \<open>HandoffDemand\<close>, \<open>HandoffArtifacts\<close>, \<open>HandoffWork\<close>, \<open>HandoffMain\<close>:
    \<open>docs/rust-port/validate.py\<close>: the work items as a graph, the frozen files and Go oracles, the consumer
    demand, the artifacts of the first work item, contracts and work items, the value gate and \<open>main\<close>.
  \<^item> \<open>Release\<close>: the release verifier \<open>port/release/verify.py\<close> from the shape of the manifest to the dry run.
  \<^item> \<open>CostGate\<close>: the validation of a cost report, \<open>scripts/rust-port/sqlite/cost_gate.py --check\<close>, with the contract
    document beside it. Floats are rationals; the rounding of the machine is a parameter applied to every operation.
    \<open>Statistics\<close> has the median, the 95th percentile and \<open>math.isclose\<close>, which the benchmark uses too.
  \<^item> \<open>Trust\<close>, \<open>Adoption\<close>: \<open>scripts/rust-port/trust.py\<close> and \<open>adoption.py\<close>: trusted paths, origins and checkouts, pins, the
    lock file's closure as a terminating walk, removed code, pull requests and smoke runs.
  \<^item> \<open>Base64\<close>, \<open>Comparator\<close>: the parity runner \<open>scripts/rust-port/diff.py\<close>: the environment and the files of a case, one
    run in its sandbox, and the comparison of two runs.
  \<^item> \<open>Bench\<close>, \<open>BenchMeasure\<close>, \<open>BenchExample\<close>: \<open>scripts/rust-port/bench.py\<close>: the check of a recorded report, the
    measurements and smoke runs that write one, and a machine on which a run and its check pass.
  \<^item> \<open>StaticUpdate\<close>, \<open>StaticCapture\<close>: \<open>scripts/rust-port/static_update_oracle.py\<close>: the structure of a recorded
    observation of the updater, its check against index and anchors, its registration as a transition on a store of
    files that other processes may change and calls may fail on, and the live capture that makes a candidate.

  \<^bold>\<open>How the code is rendered.\<close> A function that can raise returns \<open>pyexc + 'a\<close>; the constructors of \<open>pyexc\<close> are the
  exception classes the code distinguishes. A function that appends to a list of findings is a \<open>check\<close>: an
  exception or the findings it adds. A JSON value is a \<open>pyval\<close>, a dictionary an association list in insertion
  order; a lookup that would raise on a value of another type does so in the model. Objects with state are
  records passed along (\<open>capture\<close>, \<open>host\<close>, \<open>win_host\<close>, \<open>recorder\<close>). Integers of Python are unbounded and are
  \<open>int\<close> or \<open>nat\<close>; the only machine word, the suspend count of \<open>ResumeThread\<close>, is compared with the literal
  of the source. Bytes are characters below 256.

  \<^bold>\<open>What the lemmas show.\<close> For each checker \<open>f\<close> a lemma \<open>f_clean\<close> or \<open>f_Inr\<close> says what its acceptance gives; they
  compose along the calls up to the theorems on the commands: \<open>main\<close>, \<open>replay_native\<close>, \<open>run_bounded\<close>, \<open>validate_main\<close>,
  \<open>release_script\<close>, \<open>check_command\<close>, \<open>adoption_main\<close>, \<open>comparator_main\<close>, \<open>bench_script\<close>, \<open>register_capture\<close>.
  The theorems of the first kind are safety of acceptance (exit code 0 vouches for every consumer; an accepted
  capture is complete; a replay that passes vouches for the candidate). The second kind says that the
  acceptance is not empty: \<open>clean_capture_is_accepted\<close>, the witnesses, and the equivalences. The third is about
  state: the capture keeps exactly the first bytes of each stream under every interleaving, the POSIX cleanup
  signals only a leader it still holds, the recorder's log says what ran, and the Windows run uses and closes
  every handle while it is open and, when it returns, has closed them all. The fourth compares an algorithm with
  its specification: \<open>closure_packages\<close>, \<open>closure_walk\<close>, \<open>ancestors\<close> and \<open>visit\<close> with reachability, the regular expressions
  with their languages, canonical bytes with equality of documents.

  \<^bold>\<open>Termination and bounds.\<close> Every function is total: structural recursion, or a measure (unresolved packages and unseen identities of
  the lock file, inactive work items, the rest of a text, the capacity of the Job inventory up to 4096, the
  scripted rounds of a wait). The one loop that may run for ever, the polling loop, is a \<open>partial_function\<close>
  into \<open>option\<close>; \<open>polling_returns\<close> shows that it returns when the clock reaches the deadline. No fuel is used.

  \<^bold>\<open>Assumptions.\<close> They are premises of the theorems that need them: the hash is collision-free on the
  inventories compared, a pipe delivers its bytes in order, the scripts' system never hands out a handle that is
  still open; the store of recorded observations has no links and its index reads back; Git, the compiler and the oracle
  print what they document (\<open>ordinary_capture\<close>); a measured machine computes integers exactly (\<open>steady_machine\<close>).

  \<^bold>\<open>Not modelled.\<close> The text of usage messages and of JSON reports written for people; Git, Cargo, GitHub, SHA-256,
  \<open>tomllib\<close>, \<open>json.loads\<close>, \<open>shlex\<close> and \<open>re.compile\<close> on foreign patterns, which are parameters; signals and
  \<open>KeyboardInterrupt\<close> during a run; the ctypes prototypes. Of the live capture the environments handed to the
  commands and the line on standard error; of the cost gate and the benchmark the builds and their processes, and the
  rendering of base64 in the cost gate and the adoption gate, where the decoder is a parameter; of the adoption gate the
  file of the report; of the parity runner and the benchmark the self tests, which repeat a few inputs of the checks;
  of the static update oracle the evidence files beside a capture, its command line and the runner that starts Rust
  tests on it. The SQLite oracle and the replays of frozen observations are left out: what they add
  to the parts above is the table of their cases and the bytes of their fixtures. Tests, generators, fixture servers
  and drivers that only start binaries and compare bytes stay out, as do the Rust and Go sources.
\<close>

end
